(* ===== verification/Prelude.thy ===== *)
theory Prelude
  imports Main "HOL-Library.Word"
begin

text \<open>
  Names, types and lemmas shared by every theory of the development.

  \<^item> The fixed-width integers of the C code are words of that width; the return codes of
    \<^verbatim>\<open>softdevice/s132/headers/nrf_error.h\<close> are the datatype \<open>ret_code\<close>, with one more
    constructor for the codes that code outside the repository may return.
  \<^item> The byte memory the C code reads and writes through \<^verbatim>\<open>uint8_t *\<close> pointers is one flat
    memory \<open>mem\<close>; a pointer is an address, and address 0 is the null pointer.
    \<open>mem_write\<close> is \<^verbatim>\<open>memcpy\<close> from a list of bytes, \<open>mem_read\<close> the bytes of a buffer.
    A write outside the buffer a function was given is visible as a change of the memory
    there (\<open>same_outside\<close> says there is none), a read outside it as a dependence on the
    memory there (\<open>mem_read\<close> of the buffer does not determine the result).
\<close>

unbundle bit_operations_syntax

subsection \<open>Integers and return codes\<close>

type_synonym u8 = "8 word"
type_synonym u16 = "16 word"
type_synonym u32 = "32 word"

datatype ret_code =
    NRF_SUCCESS
  | NRF_ERROR_SVC_HANDLER_MISSING
  | NRF_ERROR_SOFTDEVICE_NOT_ENABLED
  | NRF_ERROR_INTERNAL
  | NRF_ERROR_NO_MEM
  | NRF_ERROR_NOT_FOUND
  | NRF_ERROR_NOT_SUPPORTED
  | NRF_ERROR_INVALID_PARAM
  | NRF_ERROR_INVALID_STATE
  | NRF_ERROR_INVALID_LENGTH
  | NRF_ERROR_INVALID_FLAGS
  | NRF_ERROR_INVALID_DATA
  | NRF_ERROR_DATA_SIZE
  | NRF_ERROR_TIMEOUT
  | NRF_ERROR_NULL
  | NRF_ERROR_FORBIDDEN
  | NRF_ERROR_INVALID_ADDR
  | NRF_ERROR_BUSY
  | NRF_ERROR_CONN_COUNT
  | NRF_ERROR_RESOURCES
  | NRF_ERROR_OTHER u32

subsection \<open>Memory\<close>

type_synonym ptr = nat
type_synonym mem = "ptr \<Rightarrow> u8"

abbreviation (input) NULL :: ptr where
  "NULL \<equiv> 0"

definition mem_write :: "ptr \<Rightarrow> u8 list \<Rightarrow> mem \<Rightarrow> mem" where
  "mem_write p bs m = (\<lambda>a. if p \<le> a \<and> a < p + length bs then bs ! (a - p) else m a)"

definition mem_read :: "ptr \<Rightarrow> nat \<Rightarrow> mem \<Rightarrow> u8 list" where
  "mem_read p n m = map m [p..<p + n]"

definition memcpy :: "ptr \<Rightarrow> ptr \<Rightarrow> nat \<Rightarrow> mem \<Rightarrow> mem" where
  "memcpy dst src n m = mem_write dst (mem_read src n m) m"

definition same_outside :: "ptr \<Rightarrow> nat \<Rightarrow> mem \<Rightarrow> mem \<Rightarrow> bool" where
  "same_outside p n m m' \<longleftrightarrow> (\<forall>a. \<not> (p \<le> a \<and> a < p + n) \<longrightarrow> m' a = m a)"

definition disjoint_regions :: "ptr \<Rightarrow> nat \<Rightarrow> ptr \<Rightarrow> nat \<Rightarrow> bool" where
  "disjoint_regions p n q k \<longleftrightarrow> n = 0 \<or> k = 0 \<or> p + n \<le> q \<or> q + k \<le> p"

named_theorems mem_simps \<open>rewriting of reads after writes\<close>

lemma length_mem_read [simp]: "length (mem_read p n m) = n"
  by (simp add: mem_read_def)

lemma mem_read_0 [simp]: "mem_read p 0 m = []"
  by (simp add: mem_read_def)

lemma nth_mem_read [simp]: "i < n \<Longrightarrow> mem_read p n m ! i = m (p + i)"
  by (simp add: mem_read_def)

lemma mem_read_append: "mem_read p (n + k) m = mem_read p n m @ mem_read (p + n) k m"
  unfolding mem_read_def by (metis add.assoc le_add1 map_append upt_add_eq_append)

lemma mem_read_Suc: "mem_read p (Suc n) m = m p # mem_read (Suc p) n m"
  by (rule nth_equalityI) (auto simp: nth_Cons split: nat.splits)

lemma mem_read_2: "mem_read p 2 m = [m p, m (p + 1)]"
  by (simp add: numeral_2_eq_2 mem_read_Suc)

lemma mem_read_4: "mem_read p 4 m = [m p, m (p + 1), m (p + 2), m (p + 3)]"
  by (simp add: eval_nat_numeral mem_read_Suc)

lemma mem_write_Nil [simp]: "mem_write p [] m = m"
  by (auto simp: mem_write_def fun_eq_iff)

lemma mem_write_in: "p \<le> a \<Longrightarrow> a < p + length bs \<Longrightarrow> mem_write p bs m a = bs ! (a - p)"
  by (simp add: mem_write_def)

lemma mem_write_out: "a < p \<or> p + length bs \<le> a \<Longrightarrow> mem_write p bs m a = m a"
  by (auto simp: mem_write_def)

lemma mem_write_single [simp]: "mem_write p [b] m = m(p := b)"
  by (auto simp: mem_write_def fun_eq_iff)

lemma mem_write_append: "mem_write (p + length xs) ys (mem_write p xs m) = mem_write p (xs @ ys) m"
  by (auto simp: mem_write_def fun_eq_iff nth_append)

lemma mem_write_Cons: "mem_write p (b # bs) m = mem_write (Suc p) bs (m(p := b))"
  using mem_write_append [of p "[b]" bs m] by simp

lemma mem_read_write_same [mem_simps]: "n = length bs \<Longrightarrow> mem_read p n (mem_write p bs m) = bs"
  by (auto simp: mem_write_def intro: nth_equalityI)

lemma mem_read_eqI: "(\<And>a. p \<le> a \<Longrightarrow> a < p + n \<Longrightarrow> m a = m' a) \<Longrightarrow> mem_read p n m = mem_read p n m'"
  by (auto simp: mem_read_def)

lemma mem_read_eqD: "mem_read p n m = mem_read p n m' \<Longrightarrow> p \<le> a \<Longrightarrow> a < p + n \<Longrightarrow> m a = m' a"
  by (auto simp: mem_read_def)

lemma mem_read_eq_mono:
  assumes "mem_read p n m = mem_read p n m'" "p \<le> q" "q + k \<le> p + n"
  shows "mem_read q k m = mem_read q k m'"
  by (rule mem_read_eqI) (use assms in \<open>auto intro!: mem_read_eqD [OF assms(1)]\<close>)

lemma mem_read_write_disjoint [mem_simps]:
  "disjoint_regions q k p (length bs) \<Longrightarrow> mem_read q k (mem_write p bs m) = mem_read q k m"
  by (rule mem_read_eqI) (auto simp: disjoint_regions_def mem_write_def)

subsection \<open>Frames\<close>

lemma same_outside_refl [simp, intro]: "same_outside p n m m"
  by (simp add: same_outside_def)

lemma same_outsideD: "same_outside p n m m' \<Longrightarrow> a < p \<or> p + n \<le> a \<Longrightarrow> m' a = m a"
  by (auto simp: same_outside_def)

lemma same_outside_trans:
  "same_outside p n m m' \<Longrightarrow> same_outside p n m' m'' \<Longrightarrow> same_outside p n m m''"
  by (auto simp: same_outside_def)

lemma same_outside_mono:
  "same_outside p n m m' \<Longrightarrow> q \<le> p \<Longrightarrow> p + n \<le> q + k \<Longrightarrow> same_outside q k m m'"
  by (auto simp: same_outside_def)

lemma same_outside_write: "q \<le> p \<Longrightarrow> p + length bs \<le> q + k \<Longrightarrow> same_outside q k m (mem_write p bs m)"
  by (auto simp: same_outside_def mem_write_def)

lemma same_outside_write_trans:
  "same_outside q k m m' \<Longrightarrow> q \<le> p \<Longrightarrow> p + length bs \<le> q + k \<Longrightarrow>
    same_outside q k m (mem_write p bs m')"
  by (blast intro: same_outside_trans same_outside_write)

lemma mem_read_same_outside:
  "same_outside p n m m' \<Longrightarrow> disjoint_regions q k p n \<Longrightarrow> mem_read q k m' = mem_read q k m"
  by (rule mem_read_eqI) (auto simp: same_outside_def disjoint_regions_def)

lemma disjoint_regions_sub:
  "disjoint_regions q k p n \<Longrightarrow> p \<le> p' \<Longrightarrow> p' + n' \<le> p + n \<Longrightarrow> disjoint_regions q k p' n'"
  by (auto simp: disjoint_regions_def)

lemma disjoint_regions_0 [simp]: "disjoint_regions q 0 p n" "disjoint_regions q k p 0"
  by (auto simp: disjoint_regions_def)

lemma same_outside_memcpy: "q \<le> dst \<Longrightarrow> dst + n \<le> q + k \<Longrightarrow> same_outside q k m (memcpy dst src n m)"
  unfolding memcpy_def by (rule same_outside_write) auto

lemma same_outside_upd: "same_outside q k m m' \<Longrightarrow> q \<le> a \<Longrightarrow> a < q + k \<Longrightarrow> same_outside q k m (m'(a := b))"
  by (auto simp: same_outside_def)

lemma same_outside_memcpy_trans:
  "same_outside q k m m' \<Longrightarrow> q \<le> dst \<Longrightarrow> dst + n \<le> q + k \<Longrightarrow> same_outside q k m (memcpy dst src n m')"
  by (blast intro: same_outside_trans same_outside_memcpy)

lemmas frame_intros = same_outside_upd same_outside_memcpy_trans same_outside_write_trans

text \<open>A buffer filled from left to right, from sources outside it.\<close>

lemma mem_write_snoc: "(mem_write p xs m)(p + length xs := b) = mem_write p (xs @ [b]) m"
  using mem_write_append [of p xs "[b]" m] by simp

lemma upd_snoc: "q = p + length xs \<Longrightarrow> (mem_write p xs m)(q := b) = mem_write p (xs @ [b]) m"
  by (simp add: mem_write_snoc)

lemma memcpy_snoc:
  assumes "disjoint_regions src n area k" "same_outside area k m0 m" "area \<le> p" "p + length xs \<le> area + k"
  shows "memcpy (p + length xs) src n (mem_write p xs m) = mem_write p (xs @ mem_read src n m0) m"
proof -
  have "same_outside area k m0 (mem_write p xs m)"
    by (rule same_outside_write_trans [OF assms(2-4)])
  then have "mem_read src n (mem_write p xs m) = mem_read src n m0"
    using assms(1) by (rule mem_read_same_outside)
  then show ?thesis by (simp add: memcpy_def mem_write_append)
qed

lemma memcpy_snoc':
  assumes "q = p + length xs" "disjoint_regions src n area k" "same_outside area k m0 m"
    and "area \<le> p" "p + length xs \<le> area + k"
  shows "memcpy q src n (mem_write p xs m) = mem_write p (xs @ mem_read src n m0) m"
  unfolding assms(1) by (rule memcpy_snoc [OF assms(2-5)])

lemma mem_read_prefix: "mem_read p n m = xs @ ys \<Longrightarrow> mem_read p (length xs) m = xs"
proof -
  assume a: "mem_read p n m = xs @ ys"
  then have "n = length xs + length ys" by (metis length_append length_mem_read)
  with a show ?thesis by (simp add: mem_read_append)
qed

lemma mem_read_suffix:
  "mem_read p n m = xs @ ys \<Longrightarrow> mem_read (p + length xs) (length ys) m = ys"
proof -
  assume a: "mem_read p n m = xs @ ys"
  then have "n = length xs + length ys" by (metis length_append length_mem_read)
  with a show ?thesis by (simp add: mem_read_append)
qed

subsection \<open>Words\<close>

lemma unat_plus_small:
  fixes a b :: "'a::len word"
  shows "unat a + unat b < 2 ^ LENGTH('a) \<Longrightarrow> unat (a + b) = unat a + unat b"
  by (simp add: unat_word_ariths)

lemma unat_Suc_less:
  fixes i n :: "'a::len word"
  assumes "i < n"
  shows "unat (i + 1) = Suc (unat i)"
proof -
  have "Suc (unat i) \<le> unat n" using assms by (simp add: word_less_nat_alt)
  then have "unat i + unat (1 :: 'a word) < 2 ^ LENGTH('a)"
    using order.strict_trans1 [OF _ unsigned_less [of n]] by simp
  then show ?thesis by (simp add: unat_plus_small)
qed

lemma unat_of_nat_less: "n < 2 ^ LENGTH('a::len) \<Longrightarrow> unat (of_nat n :: 'a word) = n"
  by (simp add: unat_of_nat take_bit_nat_eq_self)

lemma unat_of_nat_u32: "n < 2 ^ 32 \<Longrightarrow> unat (of_nat n :: u32) = n"
  and unat_of_nat_u16: "n < 2 ^ 16 \<Longrightarrow> unat (of_nat n :: u16) = n"
  and unat_of_nat_u8: "n < 2 ^ 8 \<Longrightarrow> unat (of_nat n :: u8) = n"
  by (simp_all add: unat_of_nat take_bit_nat_eq_self)

lemma unat_minus_le:
  fixes a b :: "'a::len word"
  shows "b \<le> a \<Longrightarrow> unat (a - b) = unat a - unat b"
  by (simp add: unat_sub)

lemma unat_ucast_up:
  fixes w :: "'a::len word"
  shows "LENGTH('a) \<le> LENGTH('b::len) \<Longrightarrow> unat (ucast w :: 'b word) = unat w"
  by (simp add: unsigned_ucast_eq take_bit_nat_eq_self_iff order_less_le_trans [OF unsigned_less])

lemma unat_mask_word: "k \<le> LENGTH('a) \<Longrightarrow> unat (mask k :: 'a::len word) = 2 ^ k - 1"
proof -
  assume k: "k \<le> LENGTH('a)"
  have "unat (mask k :: 'a word) = take_bit k (unat (- 1 :: 'a word))"
    by (simp only: unsigned_take_bit_eq [symmetric] take_bit_minus_one_eq_mask)
  also have "\<dots> = mask k"
    using k by (simp add: unsigned_minus_1_eq_mask min_def)
  finally show ?thesis by (simp add: mask_eq_exp_minus_1)
qed

lemma u8_less_256: "unat (w :: u8) < 256"
  using unsigned_less [of w] by simp

lemma u16_less_65536: "unat (w :: u16) < 65536"
  using unsigned_less [of w] by simp

lemma u32_less: "unat (w :: u32) < 4294967296"
  using unsigned_less [of w] by simp

lemma unat_ucast_u8_u32 [simp]: "unat (ucast (w :: u8) :: u32) = unat w"
  by (simp add: unat_ucast_up)

lemma unat_ucast_u8_u16 [simp]: "unat (ucast (w :: u8) :: u16) = unat w"
  by (simp add: unat_ucast_up)

lemma unat_ucast_u16_u32 [simp]: "unat (ucast (w :: u16) :: u32) = unat w"
  by (simp add: unat_ucast_up)

subsection \<open>Rings\<close>

lemma ring_wrap: "a < n \<Longrightarrow> b < n \<Longrightarrow> ((b + n - a) mod n) = (if a \<le> b then b - a else b + n - a)" for a b n :: nat
proof (cases "a \<le> b")
  case True
  assume "b < n"
  have "b + n - a = (b - a) + n" using True by simp
  then have "(b + n - a) mod n = (b - a) mod n" by (simp only: mod_add_self2)
  with True \<open>b < n\<close> show ?thesis by simp
qed simp

lemma mod_below: "i < 2 * n \<Longrightarrow> i mod n = (if i < n then i else i - n)" for i n :: nat
  by (simp add: le_mod_geq)

end
