(* ===== verification/AppUtil.thy ===== *)
theory AppUtil
  imports Prelude
begin

text \<open>
  The byte-order codecs and the two address and size tests of
  \<^verbatim>\<open>libraries/util/app_util.h\<close> that the modelled components use. An encoder takes the
  address of its output buffer and the memory, and returns the number of bytes written and
  the new memory.
\<close>

unbundle bit_operations_syntax

definition IS_POWER_OF_TWO :: "u16 \<Rightarrow> bool" where
  "IS_POWER_OF_TWO A \<longleftrightarrow> A \<noteq> 0 \<and> (A - 1) AND A = 0"

definition is_word_aligned :: "ptr \<Rightarrow> bool" where
  "is_word_aligned p \<longleftrightarrow> p AND 3 = 0"

definition uint16_bytes :: "u16 \<Rightarrow> u8 list" where
  "uint16_bytes v = [ucast (v AND 0x00FF), ucast (drop_bit 8 (v AND 0xFF00))]"

definition uint16_encode :: "u16 \<Rightarrow> ptr \<Rightarrow> mem \<Rightarrow> u8 \<times> mem" where
  "uint16_encode v p m = (2, mem_write p (uint16_bytes v) m)"

definition uint16_decode :: "ptr \<Rightarrow> mem \<Rightarrow> u16" where
  "uint16_decode p m = ucast (m p) OR push_bit 8 (ucast (m (p + 1)))"

definition uint16_big_decode :: "ptr \<Rightarrow> mem \<Rightarrow> u16" where
  "uint16_big_decode p m = push_bit 8 (ucast (m p)) OR ucast (m (p + 1))"

definition uint32_big_bytes :: "u32 \<Rightarrow> u8 list" where
  "uint32_big_bytes v =
     [ucast (drop_bit 24 (v AND 0xFF000000)), ucast (drop_bit 16 (v AND 0x00FF0000)),
      ucast (drop_bit 8 (v AND 0x0000FF00)), ucast (v AND 0x000000FF)]"

definition uint32_big_encode :: "u32 \<Rightarrow> ptr \<Rightarrow> mem \<Rightarrow> u8 \<times> mem" where
  "uint32_big_encode v p m = (4, mem_write p (uint32_big_bytes v) m)"

definition uint32_big_decode :: "ptr \<Rightarrow> mem \<Rightarrow> u32" where
  "uint32_big_decode p m =
     push_bit 24 (ucast (m p)) OR push_bit 16 (ucast (m (p + 1))) OR
     push_bit 8 (ucast (m (p + 2))) OR ucast (m (p + 3))"

subsection \<open>Round trips\<close>

lemma length_uint16_bytes [simp]: "length (uint16_bytes v) = 2"
  by (simp add: uint16_bytes_def)

lemma length_uint32_big_bytes [simp]: "length (uint32_big_bytes v) = 4"
  by (simp add: uint32_big_bytes_def)

lemma snd_uint16_encode [simp]: "snd (uint16_encode v p m) = mem_write p (uint16_bytes v) m"
  and fst_uint16_encode [simp]: "fst (uint16_encode v p m) = 2"
  by (simp_all add: uint16_encode_def)

lemma snd_uint32_big_encode [simp]:
  "snd (uint32_big_encode v p m) = mem_write p (uint32_big_bytes v) m"
  by (simp add: uint32_big_encode_def)

lemma mask_split_u16: "(ucast (ucast (v AND 0x00FF) :: u8) :: u16) OR
    push_bit 8 (ucast (ucast (drop_bit 8 (v AND 0xFF00)) :: u8)) = v" for v :: u16
proof -
  have ff: "(0x00FF :: u16) = mask 8" and ff00: "(0xFF00 :: u16) = push_bit 8 (mask 8)"
    by (simp_all add: mask_eq_exp_minus_1 push_bit_eq_mult)
  show ?thesis
    unfolding ff ff00 by (rule bit_word_eqI) (auto simp: bit_simps)
qed

lemma uint16_decode_encode [mem_simps]:
  "mem_read p 2 m = uint16_bytes v \<Longrightarrow> uint16_decode p m = v"
  using mask_split_u16 [of v]
  by (simp add: mem_read_2 uint16_bytes_def uint16_decode_def)

lemma mask_split_u32: "push_bit 24 (ucast (ucast (drop_bit 24 (v AND 0xFF000000)) :: u8)) OR
    push_bit 16 (ucast (ucast (drop_bit 16 (v AND 0x00FF0000)) :: u8)) OR
    push_bit 8 (ucast (ucast (drop_bit 8 (v AND 0x0000FF00)) :: u8)) OR
    ucast (ucast (v AND 0x000000FF) :: u8) = v" (is "?l = v") for v :: u32
proof -
  have k: "(0xFF000000 :: u32) = push_bit 24 (mask 8)" "(0x00FF0000 :: u32) = push_bit 16 (mask 8)"
    "(0x0000FF00 :: u32) = push_bit 8 (mask 8)" "(0x000000FF :: u32) = mask 8"
    by (simp_all add: mask_eq_exp_minus_1 push_bit_eq_mult)
  show ?thesis
  proof (rule bit_word_eqI)
    fix n assume n: "n < LENGTH(32)"
    consider "n < 8" | "8 \<le> n" "n < 16" | "16 \<le> n" "n < 24" | "24 \<le> n" by linarith
    then show "bit ?l n = bit v n"
      unfolding k using n by cases (auto simp: bit_simps)
  qed
qed

lemma uint32_big_decode_encode:
  "mem_read p 4 m = uint32_big_bytes v \<Longrightarrow> uint32_big_decode p m = v"
  using mask_split_u32 [of v] by (simp add: mem_read_4 uint32_big_bytes_def uint32_big_decode_def)

lemma uint16_big_decode_cong:
  "mem_read p 2 m = mem_read p 2 m' \<Longrightarrow> uint16_big_decode p m = uint16_big_decode p m'"
  by (simp add: mem_read_2 uint16_big_decode_def)

lemma uint32_big_decode_cong:
  "mem_read p 4 m = mem_read p 4 m' \<Longrightarrow> uint32_big_decode p m = uint32_big_decode p m'"
  by (simp add: mem_read_4 uint32_big_decode_def)

subsection \<open>Powers of two\<close>

lemma nat_power_of_two: "n \<noteq> 0 \<Longrightarrow> (n - 1) AND n = 0 \<Longrightarrow> \<exists>k. n = 2 ^ k" for n :: nat
proof (induction n rule: less_induct)
  case (less n)
  show ?case
  proof (cases "even n")
    case True
    then obtain j where j: "n = 2 * j" by blast
    with less.prems have "j \<noteq> 0" by simp
    have "(2 * j - 1) = 2 * (j - 1) + 1" using \<open>j \<noteq> 0\<close> by simp
    then have "(n - 1) AND n = 2 * ((j - 1) AND j)"
      unfolding j by (subst and_rec) simp
    with less.prems have "(j - 1) AND j = 0" by simp
    with less.IH [of j] \<open>j \<noteq> 0\<close> j obtain k where "j = 2 ^ k" by auto
    with j have "n = 2 ^ Suc k" by simp
    then show ?thesis ..
  next
    case False
    then obtain j where j: "n = 2 * j + 1" by (metis oddE)
    have "(2 * j) AND (2 * j + 1) = 2 * j"
      by (subst and_rec) simp
    with less.prems j have "j = 0" by simp
    with j have "n = 2 ^ 0" by simp
    then show ?thesis ..
  qed
qed

lemma IS_POWER_OF_TWO_D:
  assumes "IS_POWER_OF_TWO A"
  shows "\<exists>k \<le> 15. unat A = 2 ^ k"
proof -
  have nz: "unat A \<noteq> 0" and "unat ((A - 1) AND A) = 0"
    using assms by (auto simp: IS_POWER_OF_TWO_def unat_eq_0)
  moreover have "unat (A - 1) = unat A - 1"
    using assms by (simp add: IS_POWER_OF_TWO_def unat_minus_one)
  ultimately have "(unat A - 1) AND unat A = 0"
    by (simp add: unsigned_and_eq)
  with nz obtain k where k: "unat A = 2 ^ k" using nat_power_of_two by blast
  have "(2 :: nat) ^ k < 2 ^ 16" using u16_less_65536 [of A] k by simp
  then have "k < 16" by (rule power_less_imp_less_exp [rotated]) simp
  with k show ?thesis by (intro exI [of _ k]) simp
qed

end
