(* ===== verification/QueueSpec.thy ===== *)
theory QueueSpec
  imports Prelude
begin

text \<open>
  The contract that the bounded queues of the code share: the byte FIFO of
  \<^verbatim>\<open>libraries/fifo/app_fifo.c\<close> and the event queue of
  \<^verbatim>\<open>libraries/scheduler/app_scheduler.c\<close>. Both reject a put on a full queue with
  \<open>NRF_ERROR_NO_MEM\<close> and a get on an empty one with \<open>NRF_ERROR_NOT_FOUND\<close>.

  \<open>queue_run\<close> performs any interleaving of puts and gets. What was accepted and what was
  delivered are its first two results; inside the locale it is shown that nothing is lost,
  duplicated or reordered.
\<close>

datatype 'a queue_op = Put 'a | Get

fun queue_run ::
  "('q \<Rightarrow> 'a \<Rightarrow> ret_code \<times> 'q) \<Rightarrow> ('q \<Rightarrow> ret_code \<times> 'a \<times> 'q) \<Rightarrow>
    'q \<Rightarrow> 'a queue_op list \<Rightarrow> 'a list \<times> 'a list \<times> 'q" where
  "queue_run put get q [] = ([], [], q)"
| "queue_run put get q (Put x # ops) =
     (case put q x of (code, q') \<Rightarrow>
      case queue_run put get q' ops of (ins, outs, r) \<Rightarrow>
        (if code = NRF_SUCCESS then x # ins else ins, outs, r))"
| "queue_run put get q (Get # ops) =
     (case get q of (code, x, q') \<Rightarrow>
      case queue_run put get q' ops of (ins, outs, r) \<Rightarrow>
        (ins, if code = NRF_SUCCESS then x # outs else outs, r))"

fun queue_fill :: "('q \<Rightarrow> 'a \<Rightarrow> ret_code \<times> 'q) \<Rightarrow> 'q \<Rightarrow> 'a list \<Rightarrow> ret_code list \<times> 'q" where
  "queue_fill put q [] = ([], q)"
| "queue_fill put q (x # xs) =
     (case put q x of (code, q') \<Rightarrow>
      case queue_fill put q' xs of (codes, r) \<Rightarrow> (code # codes, r))"

locale bounded_queue =
  fixes put :: "'q \<Rightarrow> 'a \<Rightarrow> ret_code \<times> 'q"
    and get :: "'q \<Rightarrow> ret_code \<times> 'a \<times> 'q"
    and contents :: "'q \<Rightarrow> 'a list"
    and capacity :: "'q \<Rightarrow> nat"
    and fits :: "'q \<Rightarrow> 'a \<Rightarrow> bool"
    and qinv :: "'q \<Rightarrow> bool"
  assumes bounded: "qinv q \<Longrightarrow> length (contents q) \<le> capacity q"
    and put_room: "qinv q \<Longrightarrow> fits q x \<Longrightarrow> length (contents q) < capacity q \<Longrightarrow>
      fst (put q x) = NRF_SUCCESS \<and> contents (snd (put q x)) = contents q @ [x]"
    and put_full: "qinv q \<Longrightarrow> fits q x \<Longrightarrow> length (contents q) = capacity q \<Longrightarrow>
      put q x = (NRF_ERROR_NO_MEM, q)"
    and put_inv: "qinv q \<Longrightarrow> fits q x \<Longrightarrow> qinv (snd (put q x))"
    and put_cfg: "qinv q \<Longrightarrow> fits q x \<Longrightarrow> capacity (snd (put q x)) = capacity q \<and>
      fits (snd (put q x)) = fits q"
    and get_empty: "qinv q \<Longrightarrow> contents q = [] \<Longrightarrow>
      fst (get q) = NRF_ERROR_NOT_FOUND \<and> contents (snd (snd (get q))) = []"
    and get_some: "qinv q \<Longrightarrow> contents q = x # xs \<Longrightarrow>
      fst (get q) = NRF_SUCCESS \<and> fst (snd (get q)) = x \<and> contents (snd (snd (get q))) = xs"
    and get_inv: "qinv q \<Longrightarrow> qinv (snd (snd (get q)))"
    and get_cfg: "qinv q \<Longrightarrow> capacity (snd (snd (get q))) = capacity q \<and>
      fits (snd (snd (get q))) = fits q"
begin

lemma run_lossless:
  assumes "qinv q" "\<forall>x. Put x \<in> set ops \<longrightarrow> fits q x"
    and "queue_run put get q ops = (ins, outs, r)"
  shows "outs @ contents r = contents q @ ins \<and> qinv r \<and> capacity r = capacity q"
  using assms
proof (induction ops arbitrary: q ins outs)
  case Nil
  then show ?case by simp
next
  case (Cons op ops)
  show ?case
  proof (cases op)
    case (Put x)
    let ?q = "snd (put q x)"
    obtain ins' outs' where run: "queue_run put get ?q ops = (ins', outs', r)"
      and ins: "ins = (if fst (put q x) = NRF_SUCCESS then x # ins' else ins')" and outs: "outs = outs'"
      using Cons.prems(3) Put by (auto split: prod.splits)
    have fx: "fits q x" using Cons.prems(2) Put by simp
    have "\<forall>y. Put y \<in> set ops \<longrightarrow> fits ?q y"
      using Cons.prems(2) put_cfg [OF Cons.prems(1) fx] by auto
    from Cons.IH [OF put_inv [OF Cons.prems(1) fx] this run] put_cfg [OF Cons.prems(1) fx]
    have IH: "outs' @ contents r = contents ?q @ ins'" "qinv r" "capacity r = capacity q" by auto
    show ?thesis
    proof (cases "length (contents q) < capacity q")
      case True
      from put_room [OF Cons.prems(1) fx this] IH ins outs show ?thesis by simp
    next
      case False
      with bounded [OF Cons.prems(1)] have "put q x = (NRF_ERROR_NO_MEM, q)"
        by (intro put_full Cons.prems(1) fx) simp
      with IH ins outs show ?thesis by simp
    qed
  next
    case Get
    let ?q = "snd (snd (get q))"
    obtain ins' outs' where run: "queue_run put get ?q ops = (ins', outs', r)"
      and outs: "outs = (if fst (get q) = NRF_SUCCESS then fst (snd (get q)) # outs' else outs')"
      and ins: "ins = ins'"
      using Cons.prems(3) Get by (auto split: prod.splits)
    have "\<forall>y. Put y \<in> set ops \<longrightarrow> fits ?q y"
      using Cons.prems(2) get_cfg [OF Cons.prems(1)] by auto
    from Cons.IH [OF get_inv [OF Cons.prems(1)] this run] get_cfg [OF Cons.prems(1)]
    have IH: "outs' @ contents r = contents ?q @ ins'" "qinv r" "capacity r = capacity q" by auto
    show ?thesis
    proof (cases "contents q")
      case Nil
      from get_empty [OF Cons.prems(1) this] Nil IH ins outs show ?thesis by simp
    next
      case (Cons x xs)
      from get_some [OF Cons.prems(1) this] Cons IH ins outs show ?thesis by simp
    qed
  qed
qed

text \<open>A burst is accepted up to the free room and rejected after it.\<close>

lemma fill_codes:
  assumes "qinv q" "\<forall>x \<in> set xs. fits q x" "queue_fill put q xs = (codes, r)"
  defines "room \<equiv> capacity q - length (contents q)"
  shows "codes = replicate (min room (length xs)) NRF_SUCCESS @
      replicate (length xs - room) NRF_ERROR_NO_MEM \<and>
    contents r = contents q @ take room xs \<and> qinv r \<and> capacity r = capacity q"
  unfolding room_def using assms(1-3)
proof (induction xs arbitrary: q codes)
  case Nil
  then show ?case by simp
next
  case (Cons x xs)
  let ?q = "snd (put q x)"
  have fx: "fits q x" using Cons.prems(2) by simp
  obtain codes' where run: "queue_fill put ?q xs = (codes', r)" and codes: "codes = fst (put q x) # codes'"
    using Cons.prems(3) by (auto split: prod.splits)
  note cfg = put_cfg [OF Cons.prems(1) fx]
  have "\<forall>y \<in> set xs. fits ?q y" using Cons.prems(2) cfg by auto
  note IH = Cons.IH [OF put_inv [OF Cons.prems(1) fx] this run]
  show ?case
  proof (cases "length (contents q) < capacity q")
    case True
    define k where "k = capacity q - Suc (length (contents q))"
    from put_room [OF Cons.prems(1) fx True] have "fst (put q x) = NRF_SUCCESS"
      "contents ?q = contents q @ [x]" by auto
    moreover have "capacity q - length (contents q) = Suc k" using True by (simp add: k_def)
    ultimately show ?thesis using IH codes cfg by (simp add: k_def [symmetric])
  next
    case False
    with bounded [OF Cons.prems(1)] have full: "length (contents q) = capacity q" by simp
    then have "put q x = (NRF_ERROR_NO_MEM, q)" by (intro put_full Cons.prems(1) fx)
    with IH codes full show ?thesis by simp
  qed
qed

end

end
