(* ===== verification/AppFifo.thy ===== *)
theory AppFifo
  imports AppUtil QueueSpec
begin

text \<open>
  The byte FIFO of \<^verbatim>\<open>libraries/fifo/app_fifo.c\<close>: a buffer of a power-of-two size and two
  free-running 32-bit positions, whose difference (with wrap-around) is the number of stored
  bytes. \<open>fifo_contents\<close> is the abstraction to a list; the positions may wrap past
  \<open>2^32\<close>, which the lemmas cover since the size divides \<open>2^32\<close>.
\<close>

unbundle bit_operations_syntax

subsection \<open>State and operations\<close>

record app_fifo =
  p_buf :: ptr
  buf_size_mask :: u16
  read_pos :: u32
  write_pos :: u32

definition fifo_length :: "app_fifo \<Rightarrow> u32" where
  "fifo_length f = write_pos f - read_pos f"

definition fifo_slot :: "app_fifo \<Rightarrow> u32 \<Rightarrow> ptr" where
  "fifo_slot f pos = p_buf f + unat (pos AND ucast (buf_size_mask f))"

definition fifo_put :: "app_fifo \<Rightarrow> u8 \<Rightarrow> mem \<Rightarrow> app_fifo \<times> mem" where
  "fifo_put f byte m = (f\<lparr>write_pos := write_pos f + 1\<rparr>, m(fifo_slot f (write_pos f) := byte))"

definition fifo_peek :: "app_fifo \<Rightarrow> u16 \<Rightarrow> ptr \<Rightarrow> mem \<Rightarrow> mem" where
  "fifo_peek f index p_byte m = m(p_byte := m (fifo_slot f (read_pos f + ucast index)))"

definition fifo_get :: "app_fifo \<Rightarrow> ptr \<Rightarrow> mem \<Rightarrow> app_fifo \<times> mem" where
  "fifo_get f p_byte m = (f\<lparr>read_pos := read_pos f + 1\<rparr>, fifo_peek f 0 p_byte m)"

definition app_fifo_init :: "app_fifo \<Rightarrow> ptr \<Rightarrow> u16 \<Rightarrow> ret_code \<times> app_fifo" where
  "app_fifo_init f p buf_size =
     (if p = NULL then (NRF_ERROR_NULL, f)
      else if \<not> IS_POWER_OF_TWO buf_size then (NRF_ERROR_INVALID_LENGTH, f)
      else (NRF_SUCCESS, \<lparr>p_buf = p, buf_size_mask = buf_size - 1, read_pos = 0, write_pos = 0\<rparr>))"

definition app_fifo_put :: "app_fifo \<Rightarrow> u8 \<Rightarrow> mem \<Rightarrow> ret_code \<times> app_fifo \<times> mem" where
  "app_fifo_put f byte m =
     (if fifo_length f \<le> ucast (buf_size_mask f) then (NRF_SUCCESS, fifo_put f byte m)
      else (NRF_ERROR_NO_MEM, f, m))"

definition app_fifo_get :: "app_fifo \<Rightarrow> ptr \<Rightarrow> mem \<Rightarrow> ret_code \<times> app_fifo \<times> mem" where
  "app_fifo_get f p_byte m =
     (if fifo_length f \<noteq> 0 then (NRF_SUCCESS, fifo_get f p_byte m)
      else (NRF_ERROR_NOT_FOUND, f, m))"

definition app_fifo_peek :: "app_fifo \<Rightarrow> u16 \<Rightarrow> ptr \<Rightarrow> mem \<Rightarrow> ret_code \<times> mem" where
  "app_fifo_peek f index p_byte m =
     (if fifo_length f > ucast index then (NRF_SUCCESS, fifo_peek f index p_byte m)
      else (NRF_ERROR_NOT_FOUND, m))"

definition app_fifo_flush :: "app_fifo \<Rightarrow> ret_code \<times> app_fifo" where
  "app_fifo_flush f = (NRF_SUCCESS, f\<lparr>read_pos := write_pos f\<rparr>)"

text \<open>The two copy loops; the last argument but one counts the iterations that are left.\<close>

fun fifo_get_loop :: "app_fifo \<Rightarrow> ptr \<Rightarrow> nat \<Rightarrow> mem \<Rightarrow> app_fifo \<times> mem" where
  "fifo_get_loop f p 0 m = (f, m)"
| "fifo_get_loop f p (Suc n) m = (case fifo_get f p m of (f', m') \<Rightarrow> fifo_get_loop f' (p + 1) n m')"

fun fifo_put_loop :: "app_fifo \<Rightarrow> ptr \<Rightarrow> nat \<Rightarrow> mem \<Rightarrow> app_fifo \<times> mem" where
  "fifo_put_loop f p 0 m = (f, m)"
| "fifo_put_loop f p (Suc n) m = (case fifo_put f (m p) m of (f', m') \<Rightarrow> fifo_put_loop f' (p + 1) n m')"

text \<open>
  \<open>None\<close> for the FIFO or for the size is the null pointer that \<^verbatim>\<open>VERIFY_PARAM_NOT_NULL\<close>
  refuses; \<open>p_byte_array = NULL\<close> asks for the size only.
\<close>

fun app_fifo_read :: "app_fifo option \<Rightarrow> ptr \<Rightarrow> u32 option \<Rightarrow> mem \<Rightarrow>
    ret_code \<times> app_fifo option \<times> u32 option \<times> mem" where
  "app_fifo_read None p_byte_array p_size m = (NRF_ERROR_NULL, None, p_size, m)"
| "app_fifo_read (Some f) p_byte_array None m = (NRF_ERROR_NULL, Some f, None, m)"
| "app_fifo_read (Some f) p_byte_array (Some requested_len) m =
     (let byte_count = fifo_length f;
          read_size = min requested_len byte_count
      in if byte_count = 0 then (NRF_ERROR_NOT_FOUND, Some f, Some byte_count, m)
         else if p_byte_array = NULL then (NRF_SUCCESS, Some f, Some byte_count, m)
         else case fifo_get_loop f p_byte_array (unat read_size) m of (f', m') \<Rightarrow>
           (NRF_SUCCESS, Some f', Some read_size, m'))"

fun app_fifo_write :: "app_fifo option \<Rightarrow> ptr \<Rightarrow> u32 option \<Rightarrow> mem \<Rightarrow>
    ret_code \<times> app_fifo option \<times> u32 option \<times> mem" where
  "app_fifo_write None p_byte_array p_size m = (NRF_ERROR_NULL, None, p_size, m)"
| "app_fifo_write (Some f) p_byte_array None m = (NRF_ERROR_NULL, Some f, None, m)"
| "app_fifo_write (Some f) p_byte_array (Some requested_len) m =
     (let available_count = ucast (buf_size_mask f) - fifo_length f + 1;
          write_size = min requested_len available_count
      in if available_count = 0 then (NRF_ERROR_NO_MEM, Some f, Some available_count, m)
         else if p_byte_array = NULL then (NRF_SUCCESS, Some f, Some available_count, m)
         else case fifo_put_loop f p_byte_array (unat write_size) m of (f', m') \<Rightarrow>
           (NRF_SUCCESS, Some f', Some write_size, m'))"

subsection \<open>Abstraction and invariant\<close>

definition fifo_size :: "app_fifo \<Rightarrow> nat" where
  "fifo_size f = unat (buf_size_mask f) + 1"

definition fifo_inv :: "app_fifo \<Rightarrow> bool" where
  "fifo_inv f \<longleftrightarrow> IS_POWER_OF_TWO (buf_size_mask f + 1) \<and>
     fifo_length f \<le> ucast (buf_size_mask f) + 1"

definition fifo_contents :: "app_fifo \<Rightarrow> mem \<Rightarrow> u8 list" where
  "fifo_contents f m =
     map (\<lambda>i. m (fifo_slot f (read_pos f + of_nat i))) [0..<unat (fifo_length f)]"

lemma length_fifo_contents [simp]: "length (fifo_contents f m) = unat (fifo_length f)"
  by (simp add: fifo_contents_def)

lemma fifo_size_power:
  assumes "fifo_inv f"
  obtains k where "k \<le> 15" "fifo_size f = 2 ^ k" "buf_size_mask f = mask k"
proof -
  from assms obtain k where k: "k \<le> 15" "unat (buf_size_mask f + 1) = 2 ^ k"
    by (auto simp: fifo_inv_def dest: IS_POWER_OF_TWO_D)
  have "buf_size_mask f + 1 \<noteq> 0"
    using assms by (simp add: fifo_inv_def IS_POWER_OF_TWO_def)
  then have "unat (buf_size_mask f + 1) = unat (buf_size_mask f) + 1"
    by (metis Suc_eq_plus1 add.commute unatSuc)
  with k have s: "fifo_size f = 2 ^ k" by (simp add: fifo_size_def)
  have "unat (buf_size_mask f) = unat (mask k :: u16)"
  proof -
    have "unat (mask k :: u16) = 2 ^ k - 1"
      using k(1) by (simp add: unat_mask_word)
    with s show ?thesis by (simp add: fifo_size_def)
  qed
  then have "buf_size_mask f = mask k" by (simp add: word_unat_eq_iff)
  with that k(1) s show thesis by blast
qed

lemma fifo_slot_mod:
  assumes "fifo_inv f"
  shows "fifo_slot f pos = p_buf f + unat pos mod fifo_size f"
proof -
  obtain k where k: "k \<le> 15" "fifo_size f = 2 ^ k" "buf_size_mask f = mask k"
    using assms by (rule fifo_size_power)
  have "(ucast (mask k :: u16) :: u32) = mask k"
    using k(1) by (intro bit_word_eqI) (auto simp: bit_simps)
  then have "pos AND ucast (buf_size_mask f) = take_bit k pos"
    by (simp add: k take_bit_eq_mask)
  moreover have "unat (take_bit k pos) = unat pos mod 2 ^ k"
    by (simp only: unsigned_take_bit_eq) (simp add: take_bit_eq_mod)
  ultimately show ?thesis by (simp add: fifo_slot_def k)
qed

lemma fifo_slot_offset:
  assumes "fifo_inv f"
  shows "fifo_slot f (pos + of_nat i) = p_buf f + (unat pos + i) mod fifo_size f"
proof -
  obtain k where k: "k \<le> 15" "fifo_size f = 2 ^ k" using assms by (rule fifo_size_power)
  have dvd: "fifo_size f dvd 2 ^ 32" unfolding k(2) using k(1) by (intro le_imp_power_dvd) simp
  have "unat (pos + of_nat i) = (unat pos + i) mod 2 ^ 32"
    by (simp add: unat_word_ariths unat_of_nat mod_add_right_eq)
  then show ?thesis
    by (simp only: fifo_slot_mod [OF assms] mod_mod_cancel [OF dvd])
qed

lemma fifo_slot_inj:
  assumes "fifo_inv f" "i < j" "j < i + fifo_size f"
  shows "fifo_slot f (pos + of_nat i) \<noteq> fifo_slot f (pos + of_nat j)"
proof
  assume "fifo_slot f (pos + of_nat i) = fifo_slot f (pos + of_nat j)"
  then have "(unat pos + j) mod fifo_size f = (unat pos + i) mod fifo_size f"
    by (simp add: fifo_slot_offset [OF assms(1)])
  then have "fifo_size f dvd (unat pos + j) - (unat pos + i)"
    using assms(2) by (simp add: mod_eq_dvd_iff_nat)
  with assms(2,3) show False by (auto dest: dvd_imp_le)
qed

lemma fifo_slot_range: "fifo_inv f \<Longrightarrow> p_buf f \<le> fifo_slot f pos \<and> fifo_slot f pos < p_buf f + fifo_size f"
  by (auto simp: fifo_slot_mod fifo_size_def)

lemma fifo_size_bound: "fifo_inv f \<Longrightarrow> fifo_size f \<le> 32768"
proof -
  assume "fifo_inv f"
  then obtain k where "k \<le> 15" "fifo_size f = 2 ^ k" by (rule fifo_size_power)
  moreover have "(2 :: nat) ^ k \<le> 2 ^ 15" using \<open>k \<le> 15\<close> by (intro power_increasing) auto
  ultimately show ?thesis by simp
qed

lemma unat_mask_plus1: "unat (ucast (buf_size_mask f) + 1 :: u32) = fifo_size f"
  using u16_less_65536 [of "buf_size_mask f"]
  by (subst unat_plus_small) (auto simp: fifo_size_def)

lemma fifo_length_le: "fifo_inv f \<Longrightarrow> unat (fifo_length f) \<le> fifo_size f"
  by (simp add: fifo_inv_def word_le_nat_alt unat_mask_plus1)

subsection \<open>Single bytes\<close>

lemma fifo_contents_put:
  assumes inv: "fifo_inv f" and room: "unat (fifo_length f) < fifo_size f"
    and put: "fifo_put f b m = (f', m')"
  shows "fifo_contents f' m' = fifo_contents f m @ [b]" "fifo_inv f'"
    "unat (fifo_length f') = Suc (unat (fifo_length f))" "fifo_size f' = fifo_size f"
    "p_buf f' = p_buf f" "same_outside (p_buf f) (fifo_size f) m m'"
proof -
  let ?n = "unat (fifo_length f)"
  have f': "f' = f\<lparr>write_pos := write_pos f + 1\<rparr>" and m': "m' = m(fifo_slot f (write_pos f) := b)"
    using put by (auto simp: fifo_put_def)
  have w: "write_pos f = read_pos f + of_nat ?n" by (simp add: fifo_length_def)
  have "fifo_length f' = fifo_length f + 1" by (simp add: f' fifo_length_def)
  moreover have "unat (fifo_length f + 1) = Suc ?n"
    using room fifo_size_bound [OF inv] by (subst unat_plus_small) auto
  ultimately show len: "unat (fifo_length f') = Suc ?n" by simp
  show sz: "fifo_size f' = fifo_size f" and buf: "p_buf f' = p_buf f"
    by (simp_all add: f' fifo_size_def)
  have slot: "fifo_slot f' = fifo_slot f" by (simp add: f' fifo_slot_def fun_eq_iff)
  show "fifo_inv f'"
    using inv len room by (simp add: fifo_inv_def word_le_nat_alt unat_mask_plus1 f')
  show "same_outside (p_buf f) (fifo_size f) m m'"
    using fifo_slot_range [OF inv, of "write_pos f"] by (auto simp: m' same_outside_def)
  have "m' (fifo_slot f (read_pos f + of_nat i)) = m (fifo_slot f (read_pos f + of_nat i))"
    if "i < ?n" for i
    using fifo_slot_inj [OF inv that, of "read_pos f"] that room
    by (simp add: m' w)
  then show "fifo_contents f' m' = fifo_contents f m @ [b]"
    unfolding fifo_contents_def len by (simp add: slot) (simp add: f' m' fifo_length_def)
qed

lemma app_fifo_put_room:
  "fifo_inv f \<Longrightarrow> unat (fifo_length f) < fifo_size f \<Longrightarrow>
    app_fifo_put f b m = (NRF_SUCCESS, fifo_put f b m)"
  by (auto simp: app_fifo_put_def word_le_nat_alt fifo_size_def)

lemma app_fifo_put_full:
  "fifo_inv f \<Longrightarrow> unat (fifo_length f) = fifo_size f \<Longrightarrow> app_fifo_put f b m = (NRF_ERROR_NO_MEM, f, m)"
  by (auto simp: app_fifo_put_def word_le_nat_alt fifo_size_def)

lemma fifo_contents_Cons:
  "0 < unat (fifo_length f) \<Longrightarrow> fifo_contents f m = m (fifo_slot f (read_pos f)) #
    map (\<lambda>i. m (fifo_slot f (read_pos f + 1 + of_nat i))) [0..<unat (fifo_length f) - 1]"
  unfolding fifo_contents_def
  by (rule nth_equalityI) (auto simp: nth_Cons algebra_simps split: nat.splits)

definition fifo_outside :: "app_fifo \<Rightarrow> ptr \<Rightarrow> bool" where
  "fifo_outside f p \<longleftrightarrow> disjoint_regions p 1 (p_buf f) (fifo_size f)"

lemma fifo_contents_get:
  assumes inv: "fifo_inv f" and some: "0 < unat (fifo_length f)" and out: "fifo_outside f p"
    and get: "fifo_get f p m = (f', m')"
  shows "fifo_contents f m = m' p # fifo_contents f' m'" "fifo_inv f'"
    "fifo_size f' = fifo_size f" "p_buf f' = p_buf f" "same_outside p 1 m m'"
    "unat (fifo_length f') = unat (fifo_length f) - 1"
proof -
  have f': "f' = f\<lparr>read_pos := read_pos f + 1\<rparr>" and m': "m' = m(p := m (fifo_slot f (read_pos f)))"
    using get by (auto simp: fifo_get_def fifo_peek_def)
  have "fifo_length f' = fifo_length f - 1" by (simp add: f' fifo_length_def algebra_simps)
  moreover have "unat (fifo_length f - 1) = unat (fifo_length f) - 1"
    using some by (intro unat_minus_one) auto
  ultimately show len: "unat (fifo_length f') = unat (fifo_length f) - 1" by simp
  show sz: "fifo_size f' = fifo_size f" and buf: "p_buf f' = p_buf f"
    by (simp_all add: f' fifo_size_def)
  show "same_outside p 1 m m'" by (auto simp: m' same_outside_def)
  show "fifo_inv f'"
    using inv len by (auto simp: fifo_inv_def word_le_nat_alt unat_mask_plus1 f')
  have slot: "fifo_slot f' = fifo_slot f" by (simp add: f' fifo_slot_def fun_eq_iff)
  have "m' (fifo_slot f q) = m (fifo_slot f q)" for q
    using fifo_slot_range [OF inv, of q] out fifo_size_def [of f]
    by (auto simp: m' fifo_outside_def disjoint_regions_def)
  then show "fifo_contents f m = m' p # fifo_contents f' m'"
    unfolding fifo_contents_Cons [OF some] by (simp add: fifo_contents_def len slot) (simp add: f' m')
qed

lemma app_fifo_get_some:
  "0 < unat (fifo_length f) \<Longrightarrow> app_fifo_get f p m = (NRF_SUCCESS, fifo_get f p m)"
  by (auto simp: app_fifo_get_def)

lemma app_fifo_get_none:
  "unat (fifo_length f) = 0 \<Longrightarrow> app_fifo_get f p m = (NRF_ERROR_NOT_FOUND, f, m)"
  by (simp add: app_fifo_get_def unat_eq_0)

text \<open>The FIFO as a bounded queue: the state is the structure together with the memory.\<close>

definition fifo_enq :: "app_fifo \<times> mem \<Rightarrow> u8 \<Rightarrow> ret_code \<times> app_fifo \<times> mem" where
  "fifo_enq q b = app_fifo_put (fst q) b (snd q)"

definition fifo_deq :: "ptr \<Rightarrow> app_fifo \<times> mem \<Rightarrow> ret_code \<times> u8 \<times> app_fifo \<times> mem" where
  "fifo_deq p q = (case app_fifo_get (fst q) p (snd q) of (code, f, m) \<Rightarrow> (code, m p, f, m))"

definition fifo_list :: "app_fifo \<times> mem \<Rightarrow> u8 list" where
  "fifo_list q = fifo_contents (fst q) (snd q)"

lemma fifo_bounded_queue:
  "bounded_queue fifo_enq (fifo_deq p) fifo_list (\<lambda>q. fifo_size (fst q)) (\<lambda>_ _. True)
    (\<lambda>q. fifo_inv (fst q) \<and> fifo_outside (fst q) p)"
proof
  fix q :: "app_fifo \<times> mem" and x xs
  assume inv: "fifo_inv (fst q) \<and> fifo_outside (fst q) p"
  obtain f m where q: "q = (f, m)" by fastforce
  obtain f' m' where put: "fifo_put f x m = (f', m')" by fastforce
  obtain fg mg where get: "fifo_get f p m = (fg, mg)" by fastforce
  note P = fifo_contents_put [OF _ _ put] and G = fifo_contents_get [OF _ _ _ get]
  show "length (fifo_list q) \<le> fifo_size (fst q)"
    using inv by (simp add: fifo_list_def fifo_length_le)
  show "fst (fifo_enq q x) = NRF_SUCCESS \<and> fifo_list (snd (fifo_enq q x)) = fifo_list q @ [x]"
    if "length (fifo_list q) < fifo_size (fst q)"
    using that inv P by (simp add: q fifo_enq_def fifo_list_def app_fifo_put_room put)
  show "fifo_enq q x = (NRF_ERROR_NO_MEM, q)" if "length (fifo_list q) = fifo_size (fst q)"
    using that inv by (simp add: q fifo_enq_def fifo_list_def app_fifo_put_full)
  have "fifo_inv (fst (snd (fifo_enq q x))) \<and> p_buf (fst (snd (fifo_enq q x))) = p_buf f \<and>
      fifo_size (fst (snd (fifo_enq q x))) = fifo_size f"
  proof (cases "unat (fifo_length f) < fifo_size f")
    case True
    with inv P show ?thesis by (simp add: q fifo_enq_def app_fifo_put_room put)
  next
    case False
    with inv fifo_length_le [of f] have "unat (fifo_length f) = fifo_size f" by (simp add: q)
    with inv show ?thesis by (simp add: q fifo_enq_def app_fifo_put_full)
  qed
  with inv show "fifo_inv (fst (snd (fifo_enq q x))) \<and> fifo_outside (fst (snd (fifo_enq q x))) p"
    and "fifo_size (fst (snd (fifo_enq q x))) = fifo_size (fst q) \<and> (\<lambda>_. True) = (\<lambda>_. True)"
    by (simp_all add: fifo_outside_def q)
  show "fst (fifo_deq p q) = NRF_ERROR_NOT_FOUND \<and> fifo_list (snd (snd (fifo_deq p q))) = []"
    if "fifo_list q = []"
  proof -
    from that have "unat (fifo_length f) = 0"
      using length_fifo_contents [of f m] by (simp add: q fifo_list_def)
    with that show ?thesis by (simp add: fifo_deq_def q app_fifo_get_none fifo_list_def)
  qed
  show "fst (fifo_deq p q) = NRF_SUCCESS \<and> fst (snd (fifo_deq p q)) = x \<and>
      fifo_list (snd (snd (fifo_deq p q))) = xs" if "fifo_list q = x # xs"
  proof -
    from that have "0 < unat (fifo_length f)"
      using length_fifo_contents [of f m] by (simp add: q fifo_list_def)
    with that inv G show ?thesis
      by (simp add: fifo_deq_def q app_fifo_get_some fifo_list_def get)
  qed
  have "fifo_inv (fst (snd (snd (fifo_deq p q)))) \<and> p_buf (fst (snd (snd (fifo_deq p q)))) = p_buf f \<and>
      fifo_size (fst (snd (snd (fifo_deq p q)))) = fifo_size f"
    using inv G by (cases "unat (fifo_length f) = 0")
      (simp_all add: q fifo_deq_def app_fifo_get_none app_fifo_get_some get)
  with inv show "fifo_inv (fst (snd (snd (fifo_deq p q)))) \<and> fifo_outside (fst (snd (snd (fifo_deq p q)))) p"
    and "fifo_size (fst (snd (snd (fifo_deq p q)))) = fifo_size (fst q) \<and> (\<lambda>_. True) = (\<lambda>_. True)"
    by (simp_all add: fifo_outside_def q)
qed

interpretation fifo: bounded_queue fifo_enq "fifo_deq p" fifo_list "\<lambda>q. fifo_size (fst q)"
  "\<lambda>_ _. True" "\<lambda>q. fifo_inv (fst q) \<and> fifo_outside (fst q) p" for p
  by (rule fifo_bounded_queue)

subsection \<open>Initialisation, flush and the copy loops\<close>

lemma app_fifo_init_success:
  assumes "app_fifo_init f0 p n = (NRF_SUCCESS, f)"
  shows "fifo_inv f" "p_buf f = p" "fifo_size f = unat n" "unat (fifo_length f) = 0"
proof -
  have f: "f = \<lparr>p_buf = p, buf_size_mask = n - 1, read_pos = 0, write_pos = 0\<rparr>" and n: "IS_POWER_OF_TWO n"
    using assms by (auto simp: app_fifo_init_def split: if_splits)
  then show "fifo_inv f" "p_buf f = p" "unat (fifo_length f) = 0"
    by (simp_all add: fifo_inv_def fifo_length_def)
  have "0 < unat n" using n by (auto simp: IS_POWER_OF_TWO_def word_gt_0 unat_gt_0)
  then show "fifo_size f = unat n"
    using n by (simp add: f fifo_size_def IS_POWER_OF_TWO_def unat_minus_one)
qed

lemma app_fifo_flush_spec:
  "fifo_inv f \<Longrightarrow> app_fifo_flush f = (code, f') \<Longrightarrow>
    code = NRF_SUCCESS \<and> fifo_inv f' \<and> fifo_contents f' m = [] \<and> p_buf f' = p_buf f \<and> fifo_size f' = fifo_size f"
  by (auto simp: app_fifo_flush_def fifo_inv_def fifo_length_def fifo_contents_def fifo_size_def)

lemma app_fifo_peek_spec:
  assumes "fifo_inv f" "app_fifo_peek f i p m = (code, m')"
  shows "if unat i < length (fifo_contents f m)
    then code = NRF_SUCCESS \<and> m' = m(p := fifo_contents f m ! unat i)
    else code = NRF_ERROR_NOT_FOUND \<and> m' = m"
  using assms by (auto simp: app_fifo_peek_def fifo_peek_def fifo_contents_def word_less_nat_alt 
      split: if_splits)

lemma fifo_put_loop_contents:
  assumes "fifo_inv f" "unat (fifo_length f) + n \<le> fifo_size f"
    and "disjoint_regions p n (p_buf f) (fifo_size f)" "fifo_put_loop f p n m = (f', m')"
  shows "fifo_contents f' m' = fifo_contents f m @ mem_read p n m \<and> fifo_inv f' \<and>
    fifo_size f' = fifo_size f \<and> p_buf f' = p_buf f \<and> same_outside (p_buf f) (fifo_size f) m m'"
  using assms
proof (induction n arbitrary: f p m)
  case 0
  then show ?case by simp
next
  case (Suc n)
  obtain f1 m1 where put: "fifo_put f (m p) m = (f1, m1)" by fastforce
  have "unat (fifo_length f) < fifo_size f" using Suc.prems(2) by simp
  note P = fifo_contents_put [OF Suc.prems(1) this put]
  have d: "disjoint_regions (p + 1) n (p_buf f1) (fifo_size f1)"
    using Suc.prems(3) P(4,5) by (auto simp: disjoint_regions_def)
  have "fifo_put_loop f1 (p + 1) n m1 = (f', m')" using Suc.prems(4) put by simp
  note IH = Suc.IH [OF P(2) _ d this]
  have "mem_read (p + 1) n m1 = mem_read (p + 1) n m"
    using P(4,5) d by (intro mem_read_same_outside [OF P(6)]) simp
  then show ?case
    using IH P Suc.prems(2) by (auto simp: mem_read_Suc intro: same_outside_trans)
qed

lemma fifo_get_loop_contents:
  assumes "fifo_inv f" "n \<le> unat (fifo_length f)"
    and "disjoint_regions p n (p_buf f) (fifo_size f)" "fifo_get_loop f p n m = (f', m')"
  shows "mem_read p n m' @ fifo_contents f' m' = fifo_contents f m \<and> fifo_inv f' \<and>
    fifo_size f' = fifo_size f \<and> p_buf f' = p_buf f \<and> same_outside p n m m'"
  using assms
proof (induction n arbitrary: f p m)
  case 0
  then show ?case by simp
next
  case (Suc n)
  obtain f1 m1 where get: "fifo_get f p m = (f1, m1)" by fastforce
  have "fifo_outside f p" "0 < unat (fifo_length f)"
    using Suc.prems(2,3) by (auto simp: disjoint_regions_def fifo_outside_def)
  note G = fifo_contents_get [OF Suc.prems(1) this(2,1) get]
  have d: "disjoint_regions (p + 1) n (p_buf f1) (fifo_size f1)"
    using Suc.prems(3) G(3,4) by (auto simp: disjoint_regions_def)
  have "fifo_get_loop f1 (p + 1) n m1 = (f', m')" using Suc.prems(4) get by simp
  note IH = Suc.IH [OF G(2) _ d this]
  have so: "same_outside (p + 1) n m1 m'" using IH G Suc.prems(2) by simp
  then have "m' p = m1 p" by (auto dest: same_outsideD)
  moreover have "same_outside p (Suc n) m m'"
    using so G(5) by (auto simp: same_outside_def)
  ultimately show ?case
    using IH G Suc.prems(2) by (simp add: mem_read_Suc)
qed

lemma app_fifo_write_some:
  obtains code f' k m' where "app_fifo_write (Some f) p (Some n) m = (code, Some f', Some k, m')"
proof -
  have "\<exists>code f' k m'. app_fifo_write (Some f) p (Some n) m = (code, Some f', Some k, m')"
    by (auto simp: Let_def split: prod.split)
  then show thesis using that by blast
qed

lemma app_fifo_read_some:
  obtains code f' k m' where "app_fifo_read (Some f) p (Some n) m = (code, Some f', Some k, m')"
proof -
  have "\<exists>code f' k m'. app_fifo_read (Some f) p (Some n) m = (code, Some f', Some k, m')"
    by (auto simp: Let_def split: prod.split)
  then show thesis using that by blast
qed

declare app_fifo_read.simps [simp del] app_fifo_write.simps [simp del]

subsection \<open>Correctness of the FIFO\<close>

text \<open>
  C13. Nothing is lost, duplicated or reordered: after any interleaving of \<open>app_fifo_put\<close> and
  \<open>app_fifo_get\<close> on a FIFO that \<open>app_fifo_init\<close> accepted, the bytes delivered followed by
  the bytes still stored are the bytes that were accepted, in order, and at most the buffer
  size of them are stored.
\<close>

theorem app_fifo_lossless:
  assumes init: "app_fifo_init f0 buf n = (NRF_SUCCESS, f)"
    and out: "disjoint_regions p 1 buf (unat n)"
    and run: "queue_run fifo_enq (fifo_deq p) (f, m) ops = (ins, outs, r)"
  shows "outs @ fifo_list r = ins \<and> length (fifo_list r) \<le> unat n"
proof -
  note I = app_fifo_init_success [OF init]
  have inv: "fifo_inv (fst (f, m)) \<and> fifo_outside (fst (f, m)) p"
    using I out by (simp add: fifo_outside_def)
  have "fifo_list (f, m) = []" using I(4) by (simp add: fifo_list_def fifo_contents_def)
  with fifo.run_lossless [OF inv _ run] fifo.bounded [of r p] I(3) show ?thesis by simp
qed

theorem app_fifo_lossless_witness:
  "(let f = \<lparr>p_buf = 100, buf_size_mask = 1, read_pos = 0, write_pos = 0\<rparr>;
        r = queue_run fifo_enq (fifo_deq 50) (f, \<lambda>_. 0) [Put 7, Put 8, Put 9, Get, Put 5]
    in fst (snd r) @ fifo_list (snd (snd r)) = fst r \<and> fst r = [7, 8, 5] \<and> fst (snd r) = [7])"
proof -
  let ?f = "\<lparr>p_buf = 100, buf_size_mask = 1, read_pos = 0, write_pos = 0\<rparr> :: app_fifo"
  let ?ops = "[Put 7, Put 8, Put 9, Get, Put 5] :: u8 queue_op list"
  have i: "app_fifo_init ?f 100 2 = (NRF_SUCCESS, ?f)"
    by (simp add: app_fifo_init_def IS_POWER_OF_TWO_def)
  obtain ins outs r where run: "queue_run fifo_enq (fifo_deq 50) (?f, \<lambda>_. 0) ?ops = (ins, outs, r)"
    by (metis prod_cases3)
  have "disjoint_regions 50 1 100 (unat (2 :: u16))" by (simp add: disjoint_regions_def)
  note T = app_fifo_lossless [OF i this run]
  have "ins = [7, 8, 5] \<and> outs = [7]"
    using run by (auto simp: fifo_enq_def fifo_deq_def app_fifo_put_def app_fifo_get_def fifo_length_def
        fifo_put_def fifo_get_def fifo_peek_def fifo_slot_def word_le_nat_alt)
  with T run show ?thesis by (simp add: Let_def)
qed

text \<open>
  \<open>app_fifo_write\<close> appends the longest prefix of the request that fits, reports its
  length, changes nothing but the FIFO's buffer and keeps the invariant; it fails with
  \<open>NRF_ERROR_NO_MEM\<close> exactly on a full FIFO.
\<close>

lemma app_fifo_write_spec:
  assumes inv: "fifo_inv f" and src: "src \<noteq> NULL"
    and disj: "disjoint_regions src (unat n) (p_buf f) (fifo_size f)"
    and wr: "app_fifo_write (Some f) src (Some n) m = (code, Some f', Some k, m')"
  defines "room \<equiv> fifo_size f - unat (fifo_length f)"
  shows "code = (if room = 0 then NRF_ERROR_NO_MEM else NRF_SUCCESS) \<and>
    unat k = min (unat n) room \<and>
    fifo_contents f' m' = fifo_contents f m @ mem_read src (unat k) m \<and>
    fifo_inv f' \<and> same_outside (p_buf f) (fifo_size f) m m'"
proof -
  define av where "av = ucast (buf_size_mask f) - fifo_length f + 1"
  have av: "unat av = room"
  proof -
    have "av = (ucast (buf_size_mask f) + 1) - fifo_length f" by (simp add: av_def)
    moreover have "fifo_length f \<le> ucast (buf_size_mask f) + 1"
      using inv by (simp add: fifo_inv_def)
    ultimately show ?thesis by (simp add: unat_minus_le unat_mask_plus1 room_def)
  qed
  have mn: "unat (min n av) = min (unat n) room"
    using av by (auto simp: min_def word_le_nat_alt)
  show ?thesis
  proof (cases "av = 0")
    case True
    with wr av inv show ?thesis by (simp add: app_fifo_write.simps Let_def av_def)
  next
    case False
    then have r: "room \<noteq> 0" using av by (metis unat_eq_0)
    obtain f1 m1 where loop: "fifo_put_loop f src (unat (min n av)) m = (f1, m1)" by fastforce
    have d: "disjoint_regions src (unat (min n av)) (p_buf f) (fifo_size f)"
      using disj mn by (auto simp: disjoint_regions_def)
    have "unat (fifo_length f) + unat (min n av) \<le> fifo_size f"
      using mn fifo_length_le [OF inv] by (simp add: room_def)
    note L = fifo_put_loop_contents [OF inv this d loop]
    from wr False src loop have "code = NRF_SUCCESS" "f' = f1" "m' = m1" "k = min n av"
      by (simp_all add: app_fifo_write.simps Let_def flip: av_def)
    with L mn r show ?thesis by simp
  qed
qed

lemma app_fifo_write_spec_witness:
  "let f = \<lparr>p_buf = 100, buf_size_mask = 3, read_pos = 0xFFFFFFFE, write_pos = 0xFFFFFFFF\<rparr>;
       m = (\<lambda>a. of_nat a)
   in case app_fifo_write (Some f) 10 (Some 5) m of (code, f', k, m') \<Rightarrow>
     code = NRF_SUCCESS \<and> k = Some 3 \<and> fifo_contents (the f') m' = [102, 10, 11, 12]"
proof -
  let ?f = "\<lparr>p_buf = 100, buf_size_mask = 3, read_pos = 0xFFFFFFFE, write_pos = 0xFFFFFFFF\<rparr> :: app_fifo"
  let ?m = "\<lambda>a. of_nat a :: u8"
  have len: "fifo_length ?f = 1" and sz: "fifo_size ?f = 4"
    by (simp_all add: fifo_length_def fifo_size_def)
  have inv: "fifo_inv ?f" by (simp add: fifo_inv_def len IS_POWER_OF_TWO_def)
  have d: "disjoint_regions 10 (unat (5 :: u32)) (p_buf ?f) (fifo_size ?f)"
    by (simp add: disjoint_regions_def)
  obtain code f' k m' where w: "app_fifo_write (Some ?f) 10 (Some 5) ?m = (code, Some f', Some k, m')"
    by (rule app_fifo_write_some)
  note T = app_fifo_write_spec [OF inv _ d w]
  have "code = NRF_SUCCESS" "unat k = 3"
    "fifo_contents f' m' = fifo_contents ?f ?m @ mem_read 10 (unat k) ?m"
    using T by (simp_all add: len sz)
  moreover from this have "k = 3" by (simp add: word_unat_eq_iff)
  moreover have "fifo_contents ?f ?m = [102]"
    by (simp add: fifo_contents_def len fifo_slot_def)
  moreover have "mem_read 10 3 ?m = [10, 11, 12]" by (simp add: mem_read_def upt_rec)
  ultimately show ?thesis using w by simp
qed

text \<open>
  \<open>app_fifo_read\<close> delivers the oldest bytes, as many as were asked for and are stored,
  removes exactly those, writes nothing but the caller's array, and fails with
  \<open>NRF_ERROR_NOT_FOUND\<close> exactly on an empty FIFO.
\<close>

lemma app_fifo_read_spec:
  assumes inv: "fifo_inv f" and dst: "dst \<noteq> NULL"
    and disj: "disjoint_regions dst (unat n) (p_buf f) (fifo_size f)"
    and read: "app_fifo_read (Some f) dst (Some n) m = (code, Some f', Some k, m')"
  shows "code = (if fifo_contents f m = [] then NRF_ERROR_NOT_FOUND else NRF_SUCCESS) \<and>
    unat k = min (unat n) (length (fifo_contents f m)) \<and>
    mem_read dst (unat k) m' = take (unat k) (fifo_contents f m) \<and>
    fifo_contents f' m' = drop (unat k) (fifo_contents f m) \<and>
    fifo_inv f' \<and> same_outside dst (unat k) m m'"
proof (cases "fifo_length f = 0")
  case True
  then have "fifo_contents f m = []" by (simp add: fifo_contents_def)
  with True read inv show ?thesis by (auto simp: app_fifo_read.simps Let_def)
next
  case False
  then have ne: "fifo_contents f m \<noteq> []"
    by (metis length_0_conv length_fifo_contents unat_eq_0)
  let ?k = "min n (fifo_length f)"
  have mn: "unat ?k = min (unat n) (unat (fifo_length f))"
    by (auto simp: min_def word_le_nat_alt)
  obtain f1 m1 where loop: "fifo_get_loop f dst (unat ?k) m = (f1, m1)" by fastforce
  have d: "disjoint_regions dst (unat ?k) (p_buf f) (fifo_size f)"
    using disj mn by (auto simp: disjoint_regions_def)
  have "unat ?k \<le> unat (fifo_length f)" using mn by simp
  note L = fifo_get_loop_contents [OF inv this d loop]
  then have "fifo_contents f m = mem_read dst (unat ?k) m1 @ fifo_contents f1 m1" by simp
  then have "take (unat ?k) (fifo_contents f m) = mem_read dst (unat ?k) m1"
    "drop (unat ?k) (fifo_contents f m) = fifo_contents f1 m1" by simp_all
  moreover from read False dst loop have "code = NRF_SUCCESS" "f' = f1" "m' = m1" "k = ?k"
    by (simp_all add: app_fifo_read.simps Let_def)
  ultimately show ?thesis using L mn ne by simp
qed

lemma app_fifo_read_spec_witness:
  "let f = \<lparr>p_buf = 100, buf_size_mask = 3, read_pos = 0xFFFFFFFF, write_pos = 2\<rparr>;
       m = (\<lambda>a. of_nat a)
   in case app_fifo_read (Some f) 10 (Some 2) m of (code, f', k, m') \<Rightarrow>
     code = NRF_SUCCESS \<and> k = Some 2 \<and> mem_read 10 2 m' = [103, 100] \<and>
     fifo_contents (the f') m' = [101]"
proof -
  let ?f = "\<lparr>p_buf = 100, buf_size_mask = 3, read_pos = 0xFFFFFFFF, write_pos = 2\<rparr> :: app_fifo"
  let ?m = "\<lambda>a. of_nat a :: u8"
  have len: "fifo_length ?f = 3" and sz: "fifo_size ?f = 4"
    by (simp_all add: fifo_length_def fifo_size_def)
  have inv: "fifo_inv ?f" by (simp add: fifo_inv_def len IS_POWER_OF_TWO_def)
  have d: "disjoint_regions 10 (unat (2 :: u32)) (p_buf ?f) (fifo_size ?f)"
    by (simp add: disjoint_regions_def)
  obtain code f' k m' where w: "app_fifo_read (Some ?f) 10 (Some 2) ?m = (code, Some f', Some k, m')"
    by (rule app_fifo_read_some)
  note T = app_fifo_read_spec [OF inv _ d w]
  have c: "fifo_contents ?f ?m = [103, 100, 101]"
    by (simp add: fifo_contents_def len fifo_slot_def upt_rec)
  have u: "unat k = 2" using T by (simp add: c)
  have "code = NRF_SUCCESS" "mem_read 10 2 m' = [103, 100]" "fifo_contents f' m' = [101]"
    using T unfolding c u by simp_all
  moreover have "k = 2" using u by (simp add: word_unat_eq_iff)
  ultimately show ?thesis using w by simp
qed

end
