(* ===== verification/AppScheduler.thy ===== *)
theory AppScheduler
  imports AppUtil QueueSpec
begin

text \<open>
  The event scheduler of \<^verbatim>\<open>libraries/scheduler/app_scheduler.c\<close>, built with the profiler: a ring of
  event headers with 8-bit indices, one slot of which stays free, and an area of event data with
  \<open>m_queue_event_size\<close> bytes for each slot. The header array, whose elements are structures, is a
  function on indices; the data area lies in the byte memory.

  The ring implements the contract \<open>bounded_queue\<close> on pairs of a handler and the bytes of its event
  data. Event handlers are code of the application: a parameter \<open>run\<close> of \<open>app_sched_execute\<close>, which
  may change the scheduler (post further events), the memory and a state of its own.
\<close>

subsection \<open>State and operations\<close>

type_synonym handler = nat

record event_header =
  eh_handler :: handler
  event_data_size :: u16

record sched =
  m_queue_event_headers :: "nat \<Rightarrow> event_header"
  m_queue_event_data :: ptr
  m_queue_start_index :: u8
  m_queue_end_index :: u8
  m_queue_event_size :: u16
  m_queue_size :: u16
  m_max_queue_utilization :: u16

definition next_index :: "sched \<Rightarrow> u8 \<Rightarrow> u8" where
  "next_index s index = (if ucast index < m_queue_size s then index + 1 else 0)"

definition app_sched_queue_full :: "sched \<Rightarrow> bool" where
  "app_sched_queue_full s \<longleftrightarrow> next_index s (m_queue_end_index s) = m_queue_start_index s"

definition app_sched_queue_empty :: "sched \<Rightarrow> bool" where
  "app_sched_queue_empty s \<longleftrightarrow> m_queue_end_index s = m_queue_start_index s"

text \<open>An event header takes 8 bytes.\<close>

definition app_sched_init :: "u16 \<Rightarrow> u16 \<Rightarrow> ptr \<Rightarrow> sched \<Rightarrow> ret_code \<times> sched" where
  "app_sched_init event_size queue_size p_event_buffer s =
     (let data_start_index = (queue_size + 1) * 8 in
      if \<not> is_word_aligned p_event_buffer then (NRF_ERROR_INVALID_PARAM, s)
      else (NRF_SUCCESS,
        s\<lparr>m_queue_event_data := p_event_buffer + unat data_start_index,
          m_queue_end_index := 0, m_queue_start_index := 0,
          m_queue_event_size := event_size, m_queue_size := queue_size, m_max_queue_utilization := 0\<rparr>))"

definition queue_utilization_check :: "sched \<Rightarrow> sched" where
  "queue_utilization_check s =
     (let start = ucast (m_queue_start_index s) :: u16;
          end_index = ucast (m_queue_end_index s) :: u16;
          queue_utilization = (if end_index \<ge> start then end_index - start
                               else m_queue_size s + 1 - start + end_index)
      in if queue_utilization > m_max_queue_utilization s
         then s\<lparr>m_max_queue_utilization := queue_utilization\<rparr> else s)"

definition app_sched_queue_utilization_get :: "sched \<Rightarrow> u16" where
  "app_sched_queue_utilization_get s = m_max_queue_utilization s"

definition app_sched_event_put ::
  "sched \<Rightarrow> ptr \<Rightarrow> u16 \<Rightarrow> handler \<Rightarrow> mem \<Rightarrow> ret_code \<times> sched \<times> mem" where
  "app_sched_event_put s p_event_data data_size handler m =
     (if data_size \<le> m_queue_event_size s
      then
        let event_index = 0xFFFF :: u16;
            (event_index, s) =
              (if \<not> app_sched_queue_full s
               then (ucast (m_queue_end_index s),
                     queue_utilization_check (s\<lparr>m_queue_end_index := next_index s (m_queue_end_index s)\<rparr>))
               else (event_index, s))
        in if event_index \<noteq> 0xFFFF
           then
             let i = unat event_index;
                 h = m_queue_event_headers s;
                 h = h(i := (h i)\<lparr>eh_handler := handler\<rparr>)
             in if p_event_data \<noteq> NULL \<and> data_size > 0
                then (NRF_SUCCESS,
                  s\<lparr>m_queue_event_headers := h(i := (h i)\<lparr>event_data_size := data_size\<rparr>)\<rparr>,
                  memcpy (m_queue_event_data s + i * unat (m_queue_event_size s)) p_event_data (unat data_size) m)
                else (NRF_SUCCESS, s\<lparr>m_queue_event_headers := h(i := (h i)\<lparr>event_data_size := 0\<rparr>)\<rparr>, m)
           else (NRF_ERROR_NO_MEM, s, m)
      else (NRF_ERROR_INVALID_LENGTH, s, m))"

text \<open>On success the pointer to the event data, its size and the handler.\<close>

definition app_sched_event_get :: "sched \<Rightarrow> ret_code \<times> (ptr \<times> u16 \<times> handler) \<times> sched" where
  "app_sched_event_get s =
     (if \<not> app_sched_queue_empty s
      then
        let event_index = unat (m_queue_start_index s);
            s = s\<lparr>m_queue_start_index := next_index s (m_queue_start_index s)\<rparr>
        in (NRF_SUCCESS,
            (m_queue_event_data s + event_index * unat (m_queue_event_size s),
             event_data_size (m_queue_event_headers s event_index),
             eh_handler (m_queue_event_headers s event_index)), s)
      else (NRF_ERROR_NOT_FOUND, (NULL, 0, 0), s))"

type_synonym 'e world = "sched \<times> mem \<times> 'e"

partial_function (option) app_sched_execute ::
  "(handler \<Rightarrow> ptr \<Rightarrow> u16 \<Rightarrow> 'e world \<Rightarrow> 'e world) \<Rightarrow> 'e world \<Rightarrow> 'e world option" where
  "app_sched_execute run w =
     (case w of (s, m, e) \<Rightarrow>
      case app_sched_event_get s of (err_code, (p_event_data, data_size, handler), s) \<Rightarrow>
        if err_code = NRF_SUCCESS
        then app_sched_execute run (run handler p_event_data data_size (s, m, e))
        else Some (s, m, e))"

subsection \<open>The ring\<close>

definition slots :: "sched \<Rightarrow> nat" where
  "slots s = min (unat (m_queue_size s)) 255 + 1"

definition ring_index :: "sched \<Rightarrow> nat \<Rightarrow> nat" where
  "ring_index s k = (unat (m_queue_start_index s) + k) mod slots s"

definition ring_length :: "sched \<Rightarrow> nat" where
  "ring_length s = (unat (m_queue_end_index s) + slots s - unat (m_queue_start_index s)) mod slots s"

definition event_at :: "sched \<Rightarrow> mem \<Rightarrow> nat \<Rightarrow> handler \<times> u8 list" where
  "event_at s m i =
     (eh_handler (m_queue_event_headers s i),
      mem_read (m_queue_event_data s + i * unat (m_queue_event_size s))
        (unat (event_data_size (m_queue_event_headers s i))) m)"

definition sched_contents :: "sched \<times> mem \<Rightarrow> (handler \<times> u8 list) list" where
  "sched_contents q = map (\<lambda>k. event_at (fst q) (snd q) (ring_index (fst q) k)) [0..<ring_length (fst q)]"

definition sched_inv :: "sched \<Rightarrow> bool" where
  "sched_inv s \<longleftrightarrow> unat (m_queue_start_index s) < slots s \<and> unat (m_queue_end_index s) < slots s \<and>
     (\<forall>k < ring_length s. event_data_size (m_queue_event_headers s (ring_index s k)) \<le> m_queue_event_size s)"

lemma slots_bounds: "0 < slots s" "slots s \<le> 256"
  by (simp_all add: slots_def)

lemma next_index_mod:
  assumes "unat i < slots s"
  shows "unat (next_index s i) = Suc (unat i) mod slots s"
proof (cases "unat i = 255")
  case True
  moreover have "unat (255 :: u8) = 255" by simp
  ultimately have i: "i = 255" by (metis word_unat_eq_iff)
  have "slots s = 256" using assms True slots_bounds(2) [of s] by simp
  with True i show ?thesis by (simp add: next_index_def)
next
  case False
  then have "unat (i + 1) = Suc (unat i)"
    using u8_less_256 [of i] by (subst unat_plus_small) simp_all
  with assms False show ?thesis
    by (auto simp: next_index_def slots_def word_less_nat_alt min_def mod_Suc split: if_splits)
qed

lemma ring_length_less: "ring_length s < slots s"
  by (simp add: ring_length_def slots_bounds)

lemma ring_end:
  assumes "sched_inv s"
  shows "ring_index s (ring_length s) = unat (m_queue_end_index s)"
proof -
  let ?a = "unat (m_queue_start_index s)" and ?b = "unat (m_queue_end_index s)" and ?n = "slots s"
  have "?a < ?n" "?b < ?n" using assms by (auto simp: sched_inv_def)
  then show ?thesis by (simp add: ring_index_def ring_length_def ring_wrap le_mod_geq)
qed

lemma ring_index_less: "ring_index s k < slots s"
  by (simp add: ring_index_def slots_bounds)

lemma ring_index_eq:
  assumes "sched_inv s" "k < slots s"
  shows "ring_index s k = (if unat (m_queue_start_index s) + k < slots s then unat (m_queue_start_index s) + k
    else unat (m_queue_start_index s) + k - slots s)"
  using assms by (simp add: ring_index_def mod_below sched_inv_def)

lemma ring_index_inj:
  assumes "sched_inv s" "ring_index s j = ring_index s k" "j < slots s" "k < slots s"
  shows "j = k"
proof -
  have "unat (m_queue_start_index s) < slots s" using assms(1) by (simp add: sched_inv_def)
  with assms show ?thesis by (simp add: ring_index_eq split: if_splits)
qed

lemma empty_iff:
  assumes "sched_inv s"
  shows "app_sched_queue_empty s \<longleftrightarrow> ring_length s = 0"
proof -
  have "unat (m_queue_start_index s) < slots s" "unat (m_queue_end_index s) < slots s"
    using assms by (auto simp: sched_inv_def)
  then show ?thesis
    by (auto simp: app_sched_queue_empty_def ring_length_def ring_wrap word_unat_eq_iff)
qed

lemma full_iff:
  assumes "sched_inv s"
  shows "app_sched_queue_full s \<longleftrightarrow> ring_length s = slots s - 1"
proof -
  let ?a = "unat (m_queue_start_index s)" and ?b = "unat (m_queue_end_index s)" and ?n = "slots s"
  have b: "?a < ?n" "?b < ?n" using assms by (auto simp: sched_inv_def)
  then have "app_sched_queue_full s \<longleftrightarrow> Suc ?b mod ?n = ?a"
    by (simp add: app_sched_queue_full_def word_unat_eq_iff next_index_mod)
  also have "\<dots> \<longleftrightarrow> ring_length s = ?n - 1"
    using b by (auto simp: ring_length_def ring_wrap mod_Suc)
  finally show ?thesis .
qed

subsection \<open>Put and get on the ring\<close>

lemma utilization_fields [simp]:
  "m_queue_event_headers (queue_utilization_check s) = m_queue_event_headers s"
  "m_queue_event_data (queue_utilization_check s) = m_queue_event_data s"
  "m_queue_start_index (queue_utilization_check s) = m_queue_start_index s"
  "m_queue_end_index (queue_utilization_check s) = m_queue_end_index s"
  "m_queue_event_size (queue_utilization_check s) = m_queue_event_size s"
  "m_queue_size (queue_utilization_check s) = m_queue_size s"
  by (simp_all add: queue_utilization_check_def Let_def)

definition put_state :: "sched \<Rightarrow> handler \<Rightarrow> nat \<Rightarrow> sched" where
  "put_state s h n = (queue_utilization_check (s\<lparr>m_queue_end_index := next_index s (m_queue_end_index s)\<rparr>))
     \<lparr>m_queue_event_headers := (m_queue_event_headers s)
        (unat (m_queue_end_index s) := \<lparr>eh_handler = h, event_data_size = of_nat n\<rparr>)\<rparr>"

lemma put_state_fields [simp]:
  "m_queue_event_data (put_state s h n) = m_queue_event_data s"
  "m_queue_start_index (put_state s h n) = m_queue_start_index s"
  "m_queue_end_index (put_state s h n) = next_index s (m_queue_end_index s)"
  "m_queue_event_size (put_state s h n) = m_queue_event_size s"
  "m_queue_size (put_state s h n) = m_queue_size s"
  "m_queue_event_headers (put_state s h n) = (m_queue_event_headers s)
     (unat (m_queue_end_index s) := \<lparr>eh_handler = h, event_data_size = of_nat n\<rparr>)"
  by (simp_all add: put_state_def)

text \<open>A put with the event data given by value, and a get with the event data read from the ring.\<close>

definition sched_enq :: "sched \<times> mem \<Rightarrow> handler \<times> u8 list \<Rightarrow> ret_code \<times> sched \<times> mem" where
  "sched_enq q x =
     (if app_sched_queue_full (fst q) then (NRF_ERROR_NO_MEM, q)
      else (NRF_SUCCESS, put_state (fst q) (fst x) (length (snd x)),
        mem_write (m_queue_event_data (fst q) + unat (m_queue_end_index (fst q)) * unat (m_queue_event_size (fst q)))
          (snd x) (snd q)))"

definition sched_deq :: "sched \<times> mem \<Rightarrow> ret_code \<times> (handler \<times> u8 list) \<times> sched \<times> mem" where
  "sched_deq q =
     (case app_sched_event_get (fst q) of (code, (p, n, h), s) \<Rightarrow>
        (code, (h, mem_read p (unat n) (snd q)), (s, snd q)))"

lemma event_header_eq: "r\<lparr>eh_handler := h, event_data_size := n\<rparr> = \<lparr>eh_handler = h, event_data_size = n\<rparr>"
  by (cases r) simp

lemma put_eq_enq:
  assumes "n \<le> m_queue_event_size s"
  shows "app_sched_event_put s p n h m = sched_enq (s, m) (h, if p = NULL then [] else mem_read p (unat n) m)"
proof -
  have "(ucast (m_queue_end_index s) :: u16) \<noteq> 0xFFFF"
  proof
    assume "(ucast (m_queue_end_index s) :: u16) = 0xFFFF"
    then have "unat (ucast (m_queue_end_index s) :: u16) = unat (0xFFFF :: u16)" by (rule arg_cong)
    with u8_less_256 [of "m_queue_end_index s"] show False by simp
  qed
  with assms show ?thesis
    by (auto simp: app_sched_event_put_def sched_enq_def put_state_def Let_def memcpy_def word_gt_0
        event_header_eq)
qed

lemma put_ring:
  assumes inv: "sched_inv s" and room: "\<not> app_sched_queue_full s"
  shows "slots (put_state s h n) = slots s" "ring_index (put_state s h n) k = ring_index s k"
    "ring_length (put_state s h n) = ring_length s + 1" "unat (m_queue_end_index (put_state s h n)) < slots s"
proof -
  let ?a = "unat (m_queue_start_index s)" and ?b = "unat (m_queue_end_index s)"
  have b: "?a < slots s" "?b < slots s" using inv by (auto simp: sched_inv_def)
  show sl: "slots (put_state s h n) = slots s" by (simp add: slots_def)
  show "ring_index (put_state s h n) k = ring_index s k" by (simp add: ring_index_def sl)
  have e: "unat (m_queue_end_index (put_state s h n)) = Suc ?b mod slots s" using b by (simp add: next_index_mod)
  show "unat (m_queue_end_index (put_state s h n)) < slots s" unfolding e using slots_bounds(1) [of s] by simp
  have "Suc ?b mod slots s \<noteq> ?a"
    using room b by (simp add: app_sched_queue_full_def word_unat_eq_iff next_index_mod)
  then show "ring_length (put_state s h n) = ring_length s + 1"
    using b e unfolding ring_length_def sl by (auto simp: ring_wrap mod_Suc)
qed

lemma event_at_other:
  assumes "i \<noteq> unat (m_queue_end_index s)" "event_data_size (m_queue_event_headers s i) \<le> m_queue_event_size s"
    and "length bs \<le> unat (m_queue_event_size s)"
  shows "event_at (put_state s h n)
      (mem_write (m_queue_event_data s + unat (m_queue_end_index s) * unat (m_queue_event_size s)) bs m) i =
    event_at s m i"
proof -
  let ?e = "unat (m_queue_end_index s)" and ?z = "unat (m_queue_event_size s)"
    and ?n = "unat (event_data_size (m_queue_event_headers s i))"
  have n: "?n \<le> ?z" using assms(2) by (simp add: word_le_nat_alt)
  have "disjoint_regions (m_queue_event_data s + i * ?z) ?n (m_queue_event_data s + ?e * ?z) (length bs)"
  proof (cases "i < ?e")
    case True
    then have "Suc i * ?z \<le> ?e * ?z" by (intro mult_le_mono1) simp
    with n show ?thesis by (simp add: disjoint_regions_def)
  next
    case False
    with assms(1) have "Suc ?e * ?z \<le> i * ?z" by (intro mult_le_mono1) simp
    with assms(3) show ?thesis by (simp add: disjoint_regions_def)
  qed
  with assms(1) show ?thesis by (simp add: event_at_def mem_read_write_disjoint)
qed

lemma sched_bounded_queue:
  "bounded_queue sched_enq sched_deq sched_contents (\<lambda>q. slots (fst q) - 1)
    (\<lambda>q x. length (snd x) \<le> unat (m_queue_event_size (fst q))) (\<lambda>q. sched_inv (fst q))"
proof
  fix q :: "sched \<times> mem" and x :: "handler \<times> u8 list" and xs
  obtain s m where q: "q = (s, m)" by fastforce
  obtain h bs where x: "x = (h, bs)" by fastforce
  assume inv: "sched_inv (fst q)"
  then have I: "sched_inv s" by (simp add: q)
  show "length (sched_contents q) \<le> slots (fst q) - 1"
    using ring_length_less [of s] by (simp add: sched_contents_def q)
  let ?m = "mem_write (m_queue_event_data s + unat (m_queue_end_index s) * unat (m_queue_event_size s)) bs m"
  let ?s = "put_state s h (length bs)"
  have sz: "event_data_size (m_queue_event_headers s (ring_index s k)) \<le> m_queue_event_size s"
    "ring_index s k \<noteq> unat (m_queue_end_index s)" if "k < ring_length s" for k
    using I that ring_end [OF I] ring_index_inj [OF I, of k "ring_length s"] ring_length_less [of s]
    by (auto simp: sched_inv_def)
  {
    assume fit: "length (snd x) \<le> unat (m_queue_event_size (fst q))"
    then have f: "length bs \<le> unat (m_queue_event_size s)" by (simp add: q x)
    then have len: "unat (of_nat (length bs) :: u16) = length bs"
      using u16_less_65536 [of "m_queue_event_size s"] by (intro unat_of_nat_u16) simp
    {
      assume "length (sched_contents q) < slots (fst q) - 1"
      then have room: "\<not> app_sched_queue_full s" by (simp add: full_iff [OF I] sched_contents_def q)
      note R = put_ring [OF I room, of h "length bs"]
      have "sched_contents (?s, ?m) = sched_contents (s, m) @ [(h, bs)]"
      proof -
        have "map (\<lambda>k. event_at ?s ?m (ring_index s k)) [0..<ring_length s] =
            map (\<lambda>k. event_at s m (ring_index s k)) [0..<ring_length s]"
          by (rule map_cong [OF refl]) (use sz f in \<open>auto intro: event_at_other\<close>)
        moreover have "event_at ?s ?m (ring_index s (ring_length s)) = (h, bs)"
          by (simp add: ring_end [OF I] event_at_def len mem_read_write_same)
        ultimately show ?thesis by (simp add: sched_contents_def R)
      qed
      with room show "fst (sched_enq q x) = NRF_SUCCESS \<and>
          sched_contents (snd (sched_enq q x)) = sched_contents q @ [x]"
        by (simp add: sched_enq_def q x)
    }
    show "sched_enq q x = (NRF_ERROR_NO_MEM, q)" if "length (sched_contents q) = slots (fst q) - 1"
      using that by (simp add: sched_enq_def full_iff [OF inv] sched_contents_def)
    show "sched_inv (fst (snd (sched_enq q x)))"
    proof (cases "app_sched_queue_full s")
      case False
      note R = put_ring [OF I False, of h "length bs"]
      have "event_data_size (m_queue_event_headers ?s (ring_index s k)) \<le> m_queue_event_size s"
        if "k < ring_length s + 1" for k
        using that sz [of k] f len by (cases "k = ring_length s") (auto simp: ring_end [OF I] word_le_nat_alt)
      then have "sched_inv ?s" using I R(4) unfolding sched_inv_def R(1-3) by simp
      with False show ?thesis by (simp add: sched_enq_def q x)
    qed (use I in \<open>simp add: sched_enq_def q\<close>)
    show "slots (fst (snd (sched_enq q x))) - 1 = slots (fst q) - 1 \<and>
        (\<lambda>y. length (snd y) \<le> unat (m_queue_event_size (fst (snd (sched_enq q x))))) =
        (\<lambda>x. length (snd x) \<le> unat (m_queue_event_size (fst q)))"
      by (simp add: sched_enq_def q x slots_def)
  }
  let ?g = "s\<lparr>m_queue_start_index := next_index s (m_queue_start_index s)\<rparr>"
  have get: "sched_deq q = (if ring_length s = 0 then (NRF_ERROR_NOT_FOUND, (0, []), q)
      else (NRF_SUCCESS, event_at s m (ring_index s 0), (?g, m)))"
    using I by (auto simp: sched_deq_def app_sched_event_get_def empty_iff [OF I] q event_at_def ring_index_def
        Let_def sched_inv_def)
  have G: "slots ?g = slots s" by (simp add: slots_def)
  have st: "unat (m_queue_start_index s) < slots s" "unat (m_queue_end_index s) < slots s"
    using I by (auto simp: sched_inv_def)
  have Gi: "ring_index ?g k = ring_index s (Suc k)" for k
    using next_index_mod [OF st(1)] by (simp add: ring_index_def G mod_add_left_eq)
  have Gl: "ring_length ?g = ring_length s - 1" if "ring_length s \<noteq> 0"
    using that st next_index_mod [OF st(1)] slots_bounds(1) [of s]
    by (auto simp: ring_length_def G ring_wrap mod_Suc split: if_splits)
  show "fst (sched_deq q) = NRF_ERROR_NOT_FOUND \<and> sched_contents (snd (snd (sched_deq q))) = []"
    if "sched_contents q = []"
  proof -
    have "ring_length s = 0" using that by (simp add: sched_contents_def q)
    with that show ?thesis by (simp add: get)
  qed
  show "fst (sched_deq q) = NRF_SUCCESS \<and> fst (snd (sched_deq q)) = x \<and> sched_contents (snd (snd (sched_deq q))) = xs"
    if c: "sched_contents q = x # xs"
  proof -
    have n: "ring_length s \<noteq> 0"
    proof
      assume "ring_length s = 0"
      with c show False by (simp add: sched_contents_def q)
    qed
    then obtain l where l: "ring_length s = Suc l" by (cases "ring_length s") auto
    have "sched_contents q = event_at s m (ring_index s 0) # sched_contents (?g, m)"
      using Gl [OF n] by (simp add: sched_contents_def q l Gi event_at_def upt_conv_Cons map_Suc_upt [symmetric] o_def
          del: upt_Suc)
    with c n show ?thesis by (simp add: get)
  qed
  show "sched_inv (fst (snd (snd (sched_deq q))))"
  proof (cases "ring_length s = 0")
    case False
    have "sched_inv ?g"
      using I st next_index_mod [OF st(1)] slots_bounds(1) [of s] Gl [OF False]
      by (simp add: sched_inv_def G Gi)
    with False show ?thesis by (simp add: get)
  qed (use inv in \<open>simp add: get\<close>)
  show "slots (fst (snd (snd (sched_deq q)))) - 1 = slots (fst q) - 1 \<and>
      (\<lambda>x. length (snd x) \<le> unat (m_queue_event_size (fst (snd (snd (sched_deq q)))))) =
      (\<lambda>x. length (snd x) \<le> unat (m_queue_event_size (fst q)))"
    unfolding get by (simp add: q G)
qed

interpretation sched: bounded_queue sched_enq sched_deq sched_contents "\<lambda>q. slots (fst q) - 1"
  "\<lambda>q x. length (snd x) \<le> unat (m_queue_event_size (fst q))" "\<lambda>q. sched_inv (fst q)"
  by (rule sched_bounded_queue)

subsection \<open>Runs of puts and gets\<close>

datatype sched_op = Post ptr u16 handler | Fetch

definition event_bytes :: "ptr \<Rightarrow> u16 \<Rightarrow> mem \<Rightarrow> u8 list" where
  "event_bytes p n m = (if p = NULL then [] else mem_read p (unat n) m)"

text \<open>The accepted events, the delivered events and the state after the calls of \<open>ops\<close>.\<close>

fun sched_run :: "sched \<times> mem \<Rightarrow> sched_op list \<Rightarrow> (handler \<times> u8 list) list \<times> (handler \<times> u8 list) list \<times> sched \<times> mem" where
  "sched_run q [] = ([], [], q)"
| "sched_run q (Post p n h # ops) =
     (case app_sched_event_put (fst q) p n h (snd q) of (code, q') \<Rightarrow>
      case sched_run q' ops of (ins, outs, r) \<Rightarrow>
        (if code = NRF_SUCCESS then (h, event_bytes p n (snd q)) # ins else ins, outs, r))"
| "sched_run q (Fetch # ops) =
     (case app_sched_event_get (fst q) of (code, (p, n, h), s) \<Rightarrow>
      case sched_run (s, snd q) ops of (ins, outs, r) \<Rightarrow>
        (ins, if code = NRF_SUCCESS then (h, mem_read p (unat n) (snd q)) # outs else outs, r))"

fun sched_script :: "sched \<times> mem \<Rightarrow> sched_op list \<Rightarrow> (handler \<times> u8 list) queue_op list" where
  "sched_script q [] = []"
| "sched_script q (Post p n h # ops) =
     (if n \<le> m_queue_event_size (fst q)
      then Put (h, event_bytes p n (snd q)) # sched_script (snd (app_sched_event_put (fst q) p n h (snd q))) ops
      else sched_script q ops)"
| "sched_script q (Fetch # ops) = Get # sched_script (snd (snd (app_sched_event_get (fst q))), snd q) ops"

lemma put_too_long: "\<not> n \<le> m_queue_event_size s \<Longrightarrow> app_sched_event_put s p n h m = (NRF_ERROR_INVALID_LENGTH, s, m)"
  by (simp add: app_sched_event_put_def)

lemma sched_run_script: "sched_run q ops = queue_run sched_enq sched_deq q (sched_script q ops)"
proof (induction ops arbitrary: q)
  case (Cons op ops)
  show ?case
  proof (cases op)
    case (Post p n h)
    obtain s m where q: "q = (s, m)" by fastforce
    show ?thesis
    proof (cases "n \<le> m_queue_event_size s")
      case True
      note put_eq_enq [OF True, of p h m, folded event_bytes_def]
      then show ?thesis using True Cons.IH by (simp add: Post q split_beta)
    next
      case False
      with put_too_long [OF False, of p h m] Cons.IH [of q] show ?thesis by (simp add: Post q split_beta)
    qed
  next
    case Fetch
    then show ?thesis using Cons.IH by (simp add: sched_deq_def split_beta)
  qed
qed simp

lemma sched_size_const:
  "m_queue_event_size (fst (snd (app_sched_event_put s p n h m))) = m_queue_event_size s"
  "m_queue_event_size (snd (snd (app_sched_event_get s))) = m_queue_event_size s"
  by (auto simp: app_sched_event_put_def app_sched_event_get_def Let_def)

lemma sched_script_fits:
  "Put x \<in> set (sched_script q ops) \<Longrightarrow> length (snd x) \<le> unat (m_queue_event_size (fst q))"
proof (induction ops arbitrary: q)
  case (Cons op ops)
  show ?case
  proof (cases op)
    case (Post p n h)
    then show ?thesis
      using Cons.prems Cons.IH [of q] Cons.IH [of "snd (app_sched_event_put (fst q) p n h (snd q))"]
      by (auto simp: event_bytes_def word_le_nat_alt sched_size_const split: if_splits)
  next
    case Fetch
    then show ?thesis
      using Cons.prems Cons.IH [of "(snd (snd (app_sched_event_get (fst q))), snd q)"]
      by (auto simp: sched_size_const)
  qed
qed simp

lemma app_sched_init_success:
  assumes "app_sched_init event_size queue_size buf s0 = (NRF_SUCCESS, s)"
  shows "sched_inv s" "sched_contents (s, m) = []" "slots s = min (unat queue_size) 255 + 1"
    "m_queue_event_size s = event_size"
  using assms
  by (auto simp: app_sched_init_def sched_inv_def ring_length_def sched_contents_def slots_def Let_def split: if_splits)

subsection \<open>The main loop\<close>

lemma deq_get:
  assumes "sched_inv s"
  obtains (empty) "sched_contents (s, m) = []" "app_sched_event_get s = (NRF_ERROR_NOT_FOUND, (NULL, 0, 0), s)"
  | (event) p n h s' where "app_sched_event_get s = (NRF_SUCCESS, (p, n, h), s')" "sched_inv s'"
      "sched_contents (s, m) = (h, mem_read p (unat n) m) # sched_contents (s', m)"
      "n \<le> m_queue_event_size s'" "slots s' = slots s" "m_queue_event_size s' = m_queue_event_size s"
proof (cases "app_sched_queue_empty s")
  case True
  with empty show thesis by (simp add: app_sched_event_get_def sched_contents_def empty_iff [OF assms])
next
  case False
  obtain p n h s' where g: "app_sched_event_get s = (NRF_SUCCESS, (p, n, h), s')"
    using False by (simp add: app_sched_event_get_def Let_def)
  have d: "sched_deq (s, m) = (NRF_SUCCESS, (h, mem_read p (unat n) m), (s', m))" by (simp add: sched_deq_def g)
  have ne: "ring_length s \<noteq> 0" using False empty_iff [OF assms] by simp
  then obtain x xs where c: "sched_contents (s, m) = x # xs"
    by (cases "sched_contents (s, m)") (auto simp: sched_contents_def)
  have "n \<le> m_queue_event_size s'"
    using g False assms ne by (auto simp: app_sched_event_get_def Let_def sched_inv_def ring_index_def
        dest!: spec [of _ 0])
  moreover have "slots s' = slots s" "m_queue_event_size s' = m_queue_event_size s"
    using g False by (auto simp: app_sched_event_get_def Let_def slots_def)
  ultimately show thesis
    using sched.get_some [of "(s, m)", OF _ c] sched.get_inv [of "(s, m)"] assms c event [OF g] d by simp
qed

lemma execute_empty:
  "sched_inv s \<Longrightarrow> sched_contents (s, m) = [] \<Longrightarrow> app_sched_execute run (s, m, e) = Some (s, m, e)"
  by (subst app_sched_execute.simps, rule deq_get [of s m]) simp_all

lemma execute_event:
  assumes "app_sched_event_get s = (NRF_SUCCESS, (p, n, h), s')"
  shows "app_sched_execute run (s, m, e) = app_sched_execute run (run h p n (s', m, e))"
  by (subst app_sched_execute.simps) (simp add: assms)

text \<open>Handlers that leave the queue as it is and act on their own state by the event data only.\<close>

definition quiet ::
  "(handler \<Rightarrow> ptr \<Rightarrow> u16 \<Rightarrow> 'e world \<Rightarrow> 'e world) \<Rightarrow> (handler \<Rightarrow> u8 list \<Rightarrow> 'e \<Rightarrow> 'e) \<Rightarrow> bool" where
  "quiet run act \<longleftrightarrow> (\<forall>h p n s m e s' m' e'. sched_inv s \<longrightarrow> run h p n (s, m, e) = (s', m', e') \<longrightarrow>
     sched_inv s' \<and> sched_contents (s', m') = sched_contents (s, m) \<and> e' = act h (mem_read p (unat n) m) e)"

lemma quietD:
  assumes "quiet run act" "sched_inv s" "run h p n (s, m, e) = (s', m', e')"
  shows "sched_inv s'" "sched_contents (s', m') = sched_contents (s, m)" "e' = act h (mem_read p (unat n) m) e"
  using assms unfolding quiet_def by metis+

lemma execute_quiet:
  assumes "quiet run act" "sched_inv s" "sched_contents (s, m) = evs"
  shows "\<exists>s' m'. app_sched_execute run (s, m, e) = Some (s', m', fold (\<lambda>(h, bs). act h bs) evs e) \<and>
    sched_inv s' \<and> sched_contents (s', m') = []"
  using assms(2,3)
proof (induction evs arbitrary: s m e)
  case Nil
  then show ?case by (simp add: execute_empty)
next
  case (Cons x xs)
  show ?case
  proof (rule deq_get [OF Cons.prems(1), of m])
    fix p n h s1
    assume g: "app_sched_event_get s = (NRF_SUCCESS, (p, n, h), s1)" "sched_inv s1"
      "sched_contents (s, m) = (h, mem_read p (unat n) m) # sched_contents (s1, m)"
    obtain s2 m2 e2 where r: "run h p n (s1, m, e) = (s2, m2, e2)" by (metis prod_cases3)
    note q = quietD [OF assms(1) g(2) r]
    have "sched_contents (s2, m2) = xs" using q(2) g(3) Cons.prems(2) by simp
    from Cons.IH [OF q(1) this, of e2] g(3) Cons.prems(2) q(3) show ?thesis
      by (auto simp: execute_event [OF g(1)] r)
  qed (use Cons.prems in simp)
qed

text \<open>A weight that every handler call lowers, whatever it posts.\<close>

definition weight_drops ::
  "(handler \<Rightarrow> ptr \<Rightarrow> u16 \<Rightarrow> 'e world \<Rightarrow> 'e world) \<Rightarrow> (handler \<times> u8 list \<Rightarrow> nat) \<Rightarrow> bool" where
  "weight_drops run wt \<longleftrightarrow> (\<forall>h p n s m e s' m' e'. sched_inv s \<longrightarrow> run h p n (s, m, e) = (s', m', e') \<longrightarrow>
     sched_inv s' \<and> sum_list (map wt (sched_contents (s', m'))) <
       wt (h, mem_read p (unat n) m) + sum_list (map wt (sched_contents (s, m))))"

lemma weight_dropsD:
  assumes "weight_drops run wt" "sched_inv s" "run h p n (s, m, e) = (s', m', e')"
  shows "sched_inv s'" "sum_list (map wt (sched_contents (s', m'))) <
    wt (h, mem_read p (unat n) m) + sum_list (map wt (sched_contents (s, m)))"
  using assms unfolding weight_drops_def by metis+

lemma execute_terminates:
  assumes "weight_drops run wt" "sched_inv s"
  shows "\<exists>s' m' e'. app_sched_execute run (s, m, e) = Some (s', m', e') \<and> sched_inv s' \<and> sched_contents (s', m') = []"
  using assms(2)
proof (induction "sum_list (map wt (sched_contents (s, m)))" arbitrary: s m e rule: less_induct)
  case less
  show ?case
  proof (rule deq_get [OF less.prems, of m])
    assume "sched_contents (s, m) = []"
    with less.prems show ?thesis by (simp add: execute_empty)
  next
    fix p n h s1
    assume g: "app_sched_event_get s = (NRF_SUCCESS, (p, n, h), s1)" "sched_inv s1"
      "sched_contents (s, m) = (h, mem_read p (unat n) m) # sched_contents (s1, m)"
    obtain s2 m2 e2 where r: "run h p n (s1, m, e) = (s2, m2, e2)" by (metis prod_cases3)
    note w = weight_dropsD [OF assms(1) g(2) r]
    have "sum_list (map wt (sched_contents (s2, m2))) < sum_list (map wt (sched_contents (s, m)))"
      using w(2) g(3) by simp
    from less.hyps [OF this w(1), of e2] show ?thesis by (simp add: execute_event [OF g(1)] r)
  qed
qed

lemma event_put_inv:
  assumes "sched_inv s"
  shows "sched_inv (fst (snd (app_sched_event_put s p n h m)))"
proof (cases "n \<le> m_queue_event_size s")
  case True
  then have "length (event_bytes p n m) \<le> unat (m_queue_event_size s)"
    by (simp add: event_bytes_def word_le_nat_alt)
  with put_eq_enq [OF True, of p h m] sched.put_inv [of "(s, m)" "(h, event_bytes p n m)"] assms
  show ?thesis by (simp add: event_bytes_def)
next
  case False
  with put_too_long [OF False, of p h m] assms show ?thesis by simp
qed

text \<open>A handler that posts its own event again.\<close>

definition repost :: "handler \<Rightarrow> ptr \<Rightarrow> u16 \<Rightarrow> 'e world \<Rightarrow> 'e world" where
  "repost h p n w = (case w of (s, m, e) \<Rightarrow> case app_sched_event_put s p n h m of (_, s', m') \<Rightarrow> (s', m', e))"

lemma repost_keeps:
  assumes "app_sched_event_get s = (NRF_SUCCESS, (p, n, h), s')" "sched_inv s"
    and "repost h p n (s', m, e) = (s2, m2, e2)"
  shows "sched_inv s2 \<and> sched_contents (s2, m2) \<noteq> []"
proof (rule deq_get [OF assms(2), of m])
  assume "app_sched_event_get s = (NRF_ERROR_NOT_FOUND, (NULL, 0, 0), s)"
  with assms(1) show ?thesis by simp
next
  fix p' n' h' s1
  assume g: "app_sched_event_get s = (NRF_SUCCESS, (p', n', h'), s1)" "sched_inv s1"
    "sched_contents (s, m) = (h', mem_read p' (unat n') m) # sched_contents (s1, m)"
    "n' \<le> m_queue_event_size s1" "slots s1 = slots s"
  let ?x = "(h, event_bytes p n m)"
  have n: "n \<le> m_queue_event_size s'" and s1: "s1 = s'" using g(1,4) assms(1) by simp_all
  have put: "app_sched_event_put s' p n h m = sched_enq (s', m) ?x"
    unfolding event_bytes_def by (rule put_eq_enq [OF n])
  have fits: "length (snd ?x) \<le> unat (m_queue_event_size (fst (s', m)))"
    using n by (simp add: event_bytes_def word_le_nat_alt)
  have "length (sched_contents (s', m)) < slots (fst (s', m)) - 1"
    using sched.bounded [of "(s, m)"] assms(2) g(3,5) s1 by simp
  with sched.put_room [OF _ fits this] sched.put_inv [OF _ fits] g(2) s1 put assms(3) show ?thesis
    by (auto simp: repost_def split_beta)
qed

lemma repost_never_returns:
  assumes "app_sched_execute repost w = Some r"
  shows "case w of (s, m, e) \<Rightarrow> \<not> (sched_inv s \<and> sched_contents (s, m) \<noteq> [])"
proof (rule app_sched_execute.raw_induct
    [where P = "\<lambda>run w r. run = repost \<longrightarrow>
      (case w of (s, m, e) \<Rightarrow> \<not> (sched_inv s \<and> sched_contents (s, m) \<noteq> []))", OF _ assms, THEN mp])
  fix exec run and w :: "'a world" and r
  assume IH: "\<And>run w r. exec run w = Some r \<Longrightarrow> run = repost \<longrightarrow>
      (case w of (s, m, e) \<Rightarrow> \<not> (sched_inv s \<and> sched_contents (s, m) \<noteq> []))"
    and eq: "(case w of (s, m, e) \<Rightarrow>
      case app_sched_event_get s of (err_code, (p, n, h), s) \<Rightarrow>
        if err_code = NRF_SUCCESS then exec run (run h p n (s, m, e)) else Some (s, m, e)) = Some r"
  show "run = repost \<longrightarrow> (case w of (s, m, e) \<Rightarrow> \<not> (sched_inv s \<and> sched_contents (s, m) \<noteq> []))"
  proof
    assume run: "run = repost"
    obtain s m e where w: "w = (s, m, e)" by (metis prod_cases3)
    have False if inv: "sched_inv s" and ne: "sched_contents (s, m) \<noteq> []"
    proof (rule deq_get [OF inv, of m])
      fix p n h s1
      assume g: "app_sched_event_get s = (NRF_SUCCESS, (p, n, h), s1)"
      obtain s2 m2 and e2 :: 'a where r2: "repost h p n (s1, m, e) = (s2, m2, e2)" by (metis prod_cases3)
      have "exec repost (s2, m2, e2) = Some r" using eq by (simp add: w g run r2)
      from IH [OF this] repost_keeps [OF g inv r2] show False by simp
    qed (use ne in simp)
    then show "case w of (s, m, e) \<Rightarrow> \<not> (sched_inv s \<and> sched_contents (s, m) \<noteq> [])" by (auto simp: w)
  qed
qed simp

subsection \<open>Properties\<close>


definition sched_example :: sched where
  "sched_example = \<lparr>m_queue_event_headers = (\<lambda>_. \<lparr>eh_handler = 0, event_data_size = 0\<rparr>), m_queue_event_data = 0,
     m_queue_start_index = 0, m_queue_end_index = 0, m_queue_event_size = 0, m_queue_size = 0,
     m_max_queue_utilization = 0\<rparr>"

lemma sched_example_init:
  "app_sched_init 4 2 100 sched_example = (NRF_SUCCESS, snd (app_sched_init 4 2 100 sched_example))"
  by (simp add: app_sched_init_def is_word_aligned_def Let_def)

lemmas sched_example_inv = app_sched_init_success(1) [OF sched_example_init]


text \<open>C17. The main loop with handlers that leave the queue alone: it returns, every queued event was
  handled exactly once, oldest first, and the queue is empty.\<close>

theorem app_sched_execute_order:
  assumes "quiet run act" "sched_inv s"
  shows "\<exists>s' m'. app_sched_execute run (s, m, e) = Some (s', m', fold (\<lambda>(h, bs). act h bs) (sched_contents (s, m)) e) \<and>
    sched_inv s' \<and> sched_contents (s', m') = []"
  by (rule execute_quiet [OF assms refl])

lemma app_sched_execute_order_witness:
  "let s = snd (app_sched_init 4 2 100 sched_example);
       (_, s, m) = app_sched_event_put s 8 2 1 (\<lambda>a. of_nat a); (_, s, m) = app_sched_event_put s 9 1 2 m
   in \<exists>s' m'. app_sched_execute (\<lambda>h p n (s, m, e). (s, m, e @ [(h, mem_read p (unat n) m)])) (s, m, []) =
     Some (s', m', [(1, [8, 9]), (2, [9])])"
proof -
  let ?s0 = "snd (app_sched_init 4 2 100 sched_example)"
  let ?q1 = "snd (app_sched_event_put ?s0 8 2 1 (\<lambda>a. of_nat a))"
  let ?q = "snd (app_sched_event_put (fst ?q1) 9 1 2 (snd ?q1))"
  let ?run = "\<lambda>h p n (s, m, e). (s, m, e @ [(h, mem_read p (unat n) m)])"
  have quiet: "quiet ?run (\<lambda>h bs e. e @ [(h, bs)])" by (simp add: quiet_def)
  have c: "sched_contents ?q = [(1, [8, 9]), (2, [9])]" by code_simp
  have inv: "sched_inv (fst ?q)" by (intro event_put_inv sched_example_inv)
  have "\<exists>s' m'. app_sched_execute ?run (fst ?q, snd ?q, []) =
      Some (s', m', fold (\<lambda>(h, bs) e. e @ [(h, bs)]) (sched_contents (fst ?q, snd ?q)) []) \<and>
      sched_inv s' \<and> sched_contents (s', m') = []"
    by (rule app_sched_execute_order [OF quiet inv])
  then show ?thesis using c by (auto simp: split_beta Let_def)
qed



text \<open>The condition is needed: with a handler that posts its own event again the main loop does
  not return once an event is queued.\<close>

theorem app_sched_repost_diverges:
  assumes "sched_inv s" "sched_contents (s, m) \<noteq> []"
  shows "app_sched_execute repost (s, m, e) = None"
  using repost_never_returns [of "(s, m, e)"] assms by (cases "app_sched_execute repost (s, m, e)") auto

lemma app_sched_repost_diverges_witness:
  "let (_, s, m) = app_sched_event_put (snd (app_sched_init 4 2 100 sched_example)) 8 2 1 (\<lambda>a. of_nat a)
   in app_sched_execute repost (s, m, ()) = None"
proof -
  let ?q = "snd (app_sched_event_put (snd (app_sched_init 4 2 100 sched_example)) 8 2 1 (\<lambda>a. of_nat a))"
  have "sched_inv (fst ?q)" by (intro event_put_inv sched_example_inv)
  moreover have "sched_contents (fst ?q, snd ?q) \<noteq> []"
  proof -
    have "sched_contents ?q = [(1, [8, 9])]" by code_simp
    then show ?thesis by simp
  qed
  ultimately have "app_sched_execute repost (fst ?q, snd ?q, ()) = None" by (rule app_sched_repost_diverges)
  then show ?thesis by (simp add: split_beta)
qed

text \<open>The data area starts behind the headers only for queue sizes below 8191: the 16-bit offset
  wraps, and with 8191 entries the event data lies on top of the headers; and above 255 entries
  the 8-bit indices limit the queue and the utilisation is computed for the wrong ring size.\<close>

theorem app_sched_init_wraps:
  "is_word_aligned buf \<Longrightarrow> m_queue_event_data (snd (app_sched_init n 8191 buf s)) = buf \<and>
   (let s1 = snd (app_sched_init n 300 buf s);
        s2 = queue_utilization_check (s1\<lparr>m_queue_start_index := 200, m_queue_end_index := 10\<rparr>)
    in ring_length s2 = 66 \<and> app_sched_queue_utilization_get s2 = 111)"
  by (simp add: app_sched_init_def Let_def ring_length_def slots_def queue_utilization_check_def
      app_sched_queue_utilization_get_def)

lemma app_sched_init_wraps_witness: "m_queue_event_data (snd (app_sched_init 4 8191 100 sched_example)) = 100"
  using app_sched_init_wraps [of 100 4 sched_example] by (simp add: is_word_aligned_def)

end
