(* ===== verification/NdefRecord.thy ===== *)
theory NdefRecord
  imports AppUtil
begin

text \<open>
  NDEF records (\<^verbatim>\<open>nfc/ndef/generic/record/nfc_ndef_record.c\<close> and its header). A record
  descriptor points at its type and ID bytes in memory; its payload constructor is a function
  of the output address, the room there and the memory. The function pointer and the
  \<^verbatim>\<open>void *\<close> descriptor the code stores next to it are one closure here: the constructor
  already applied to its descriptor.

  \<open>payload_contract\<close> is what the record encoder relies on from a constructor, and
  \<open>ndef_record_bytes\<close> the byte format a record is meant to have.
\<close>

unbundle bit_operations_syntax

subsection \<open>Data\<close>

datatype nfc_ndef_record_tnf =
    TNF_EMPTY | TNF_WELL_KNOWN | TNF_MEDIA_TYPE | TNF_ABSOLUTE_URI | TNF_EXTERNAL_TYPE
  | TNF_UNKNOWN_TYPE | TNF_UNCHANGED | TNF_RESERVED

fun tnf_code :: "nfc_ndef_record_tnf \<Rightarrow> u8" where
  "tnf_code TNF_EMPTY = 0x00"
| "tnf_code TNF_WELL_KNOWN = 0x01"
| "tnf_code TNF_MEDIA_TYPE = 0x02"
| "tnf_code TNF_ABSOLUTE_URI = 0x03"
| "tnf_code TNF_EXTERNAL_TYPE = 0x04"
| "tnf_code TNF_UNKNOWN_TYPE = 0x05"
| "tnf_code TNF_UNCHANGED = 0x06"
| "tnf_code TNF_RESERVED = 0x07"

text \<open>
  The location is kept as a byte, not as an enumeration, since the encoder checks its range.
\<close>

definition NDEF_FIRST_RECORD :: u8 where "NDEF_FIRST_RECORD = 0x80"
definition NDEF_MIDDLE_RECORD :: u8 where "NDEF_MIDDLE_RECORD = 0x00"
definition NDEF_LAST_RECORD :: u8 where "NDEF_LAST_RECORD = 0x40"
definition NDEF_LONE_RECORD :: u8 where "NDEF_LONE_RECORD = 0xC0"

abbreviation (input) NDEF_RECORD_IL_MASK :: u8 where "NDEF_RECORD_IL_MASK \<equiv> 0x08"
abbreviation (input) NDEF_RECORD_TNF_MASK :: u8 where "NDEF_RECORD_TNF_MASK \<equiv> 0x07"
abbreviation (input) NDEF_RECORD_SR_MASK :: u8 where "NDEF_RECORD_SR_MASK \<equiv> 0x10"
abbreviation (input) NDEF_RECORD_LOCATION_MASK :: u8 where "NDEF_RECORD_LOCATION_MASK \<equiv> 0xC0"

type_synonym payload_fn = "ptr \<Rightarrow> u32 \<Rightarrow> mem \<Rightarrow> ret_code \<times> u32 \<times> mem"

record ndef_record_desc =
  tnf :: nfc_ndef_record_tnf
  id_length :: u8
  p_id :: ptr
  type_length :: u8
  p_type :: ptr
  payload_constructor :: payload_fn

record ndef_bin_payload_desc =
  p_payload :: ptr
  payload_length :: u32

subsection \<open>Operations\<close>

definition record_header_size_calc :: "ndef_record_desc \<Rightarrow> u32" where
  "record_header_size_calc desc =
     (let len = 2 + 4 + (ucast (id_length desc) + ucast (type_length desc))
      in if id_length desc > 0 then len + 1 else len)"

definition nfc_ndef_record_encode ::
  "ndef_record_desc \<Rightarrow> u8 \<Rightarrow> ptr \<Rightarrow> u32 \<Rightarrow> mem \<Rightarrow> ret_code \<times> u32 \<times> mem" where
  "nfc_ndef_record_encode desc record_location p_record_buffer record_len m =
     (let record_header_len = record_header_size_calc desc in
      if record_location AND NOT NDEF_RECORD_LOCATION_MASK \<noteq> 0 then (NRF_ERROR_INVALID_PARAM, record_len, m)
      else if record_header_len > record_len then (NRF_ERROR_NO_MEM, record_len, m)
      else
        let p_flags = p_record_buffer;
            m = m(p_flags := record_location);
            m = m(p_flags := m p_flags OR tnf_code (tnf desc));
            p = p_record_buffer + 1;
            m = m(p := type_length desc);
            p_payload_len = p + 1;
            p = p_payload_len + 4;
            (p, m) = (if id_length desc > 0
                      then (p + 1, (m(p := id_length desc))(p_flags := m p_flags OR NDEF_RECORD_IL_MASK))
                      else (p, m));
            m = memcpy p (p_type desc) (unat (type_length desc)) m;
            p = p + unat (type_length desc);
            (p, m) = (if id_length desc > 0
                      then (p + unat (id_length desc), memcpy p (p_id desc) (unat (id_length desc)) m)
                      else (p, m));
            record_payload_len = record_len - record_header_len
        in case payload_constructor desc p record_payload_len m of (err_code, record_payload_len, m) \<Rightarrow>
          (if err_code \<noteq> NRF_SUCCESS then (err_code, record_len, m)
           else (NRF_SUCCESS, record_header_len + record_payload_len,
                 snd (uint32_big_encode record_payload_len p_payload_len m))))"

definition nfc_ndef_bin_payload_memcopy :: "ndef_bin_payload_desc \<Rightarrow> payload_fn" where
  "nfc_ndef_bin_payload_memcopy desc p_buffer len m =
     (if len < payload_length desc then (NRF_ERROR_NO_MEM, len, m)
      else (NRF_SUCCESS, payload_length desc,
            memcpy p_buffer (p_payload desc) (unat (payload_length desc)) m))"

definition NFC_NDEF_RECORD_BIN_DATA_DEF ::
  "nfc_ndef_record_tnf \<Rightarrow> ptr \<Rightarrow> u8 \<Rightarrow> ptr \<Rightarrow> u8 \<Rightarrow> ptr \<Rightarrow> u32 \<Rightarrow> ndef_record_desc" where
  "NFC_NDEF_RECORD_BIN_DATA_DEF TNF P_ID ID_LEN P_TYPE TYPE_LEN P_PAYLOAD PAYLOAD_LEN =
     \<lparr>tnf = TNF, id_length = ID_LEN, p_id = P_ID, type_length = TYPE_LEN, p_type = P_TYPE,
      payload_constructor =
        nfc_ndef_bin_payload_memcopy \<lparr>p_payload = P_PAYLOAD, payload_length = PAYLOAD_LEN\<rparr>\<rparr>"

subsection \<open>The contract of a payload constructor\<close>

locale payload_contract =
  fixes pc :: payload_fn
  assumes pc_frame: "pc buf len m = (code, len', m') \<Longrightarrow> same_outside buf (unat len) m m'"
    and pc_fits: "pc buf len m = (NRF_SUCCESS, len', m') \<Longrightarrow> unat len' \<le> unat len"

subsection \<open>The byte format of a record\<close>

definition ndef_flags :: "u8 \<Rightarrow> nfc_ndef_record_tnf \<Rightarrow> u8 list \<Rightarrow> u8" where
  "ndef_flags loc t ident = (loc OR tnf_code t) OR (if ident = [] then 0 else NDEF_RECORD_IL_MASK)"

definition ndef_record_bytes :: "u8 \<Rightarrow> nfc_ndef_record_tnf \<Rightarrow> u8 list \<Rightarrow> u8 list \<Rightarrow> u8 list \<Rightarrow> u8 list" where
  "ndef_record_bytes loc t tyb ident payload =
     [ndef_flags loc t ident, of_nat (length tyb)] @ uint32_big_bytes (of_nat (length payload)) @
     (if ident = [] then [] else [of_nat (length ident)]) @ tyb @ ident @ payload"

definition record_header_size :: "ndef_record_desc \<Rightarrow> nat" where
  "record_header_size desc = 6 + (if id_length desc = 0 then 0 else 1) +
     unat (type_length desc) + unat (id_length desc)"

lemma unat_header_size: "unat (record_header_size_calc desc) = record_header_size desc"
proof -
  let ?i = "ucast (id_length desc) :: u32" and ?t = "ucast (type_length desc) :: u32"
  have b: "unat ?i < 256" "unat ?t < 256" using u8_less_256 by simp_all
  then have 1: "unat (?i + ?t) = unat ?i + unat ?t" by (intro unat_plus_small) simp
  have 2: "unat (2 + 4 + (?i + ?t)) = 6 + (unat ?i + unat ?t)"
    using b by (subst unat_plus_small) (simp_all add: 1)
  then have "unat (2 + 4 + (?i + ?t) + 1) = 7 + (unat ?i + unat ?t)"
    using b by (subst unat_plus_small) simp_all
  with 2 show ?thesis
    by (auto simp: record_header_size_calc_def record_header_size_def Let_def word_gt_0)
qed

lemma record_header_size_bound: "record_header_size desc < 518"
  using u8_less_256 [of "type_length desc"] u8_less_256 [of "id_length desc"]
  by (simp add: record_header_size_def)

lemma length_ndef_record_bytes:
  "length (ndef_record_bytes loc t tyb ident payload) =
     6 + (if ident = [] then 0 else 1) + length tyb + length ident + length payload"
  by (simp add: ndef_record_bytes_def)

subsection \<open>What the encoder writes\<close>

text \<open>The memory when the payload constructor is called: the header is in place, but for the
  four bytes of the payload length.\<close>

definition ndef_header_mem :: "ndef_record_desc \<Rightarrow> u8 \<Rightarrow> ptr \<Rightarrow> mem \<Rightarrow> mem" where
  "ndef_header_mem desc loc buf m =
     (let tyb = mem_read (p_type desc) (unat (type_length desc)) m;
          ident = mem_read (p_id desc) (unat (id_length desc)) m
      in mem_write (buf + 6) ((if ident = [] then [] else [id_length desc]) @ tyb @ ident)
           (mem_write buf [ndef_flags loc (tnf desc) ident, type_length desc] m))"

lemma mem_read_Nil_iff [simp]: "mem_read p n m = [] \<longleftrightarrow> n = 0"
  by (metis length_0_conv length_mem_read)

lemma mem_write_two: "mem_write p [a, b] m = m(p := a, p + 1 := b)"
  by (simp add: mem_write_Cons)

text \<open>The same memory, step by step as the code builds it.\<close>

definition ndef_header_steps :: "ndef_record_desc \<Rightarrow> u8 \<Rightarrow> ptr \<Rightarrow> mem \<Rightarrow> mem" where
  "ndef_header_steps desc loc buf m =
     (let tl = unat (type_length desc); il = unat (id_length desc) in
      if id_length desc = 0
      then memcpy (buf + 6) (p_type desc) tl
             (m(buf := loc OR tnf_code (tnf desc), buf + 1 := type_length desc))
      else memcpy (buf + 7 + tl) (p_id desc) il (memcpy (buf + 7) (p_type desc) tl
             (m(buf := (loc OR tnf_code (tnf desc)) OR NDEF_RECORD_IL_MASK, buf + 1 := type_length desc,
                buf + 6 := id_length desc))))"

lemma encode_steps:
  assumes loc: "loc AND NOT NDEF_RECORD_LOCATION_MASK = 0"
    and room: "record_header_size desc \<le> unat len"
  shows "nfc_ndef_record_encode desc loc buf len m =
    (case payload_constructor desc (buf + record_header_size desc)
            (len - record_header_size_calc desc) (ndef_header_steps desc loc buf m) of
       (err, plen, m') \<Rightarrow>
         if err \<noteq> NRF_SUCCESS then (err, len, m')
         else (NRF_SUCCESS, record_header_size_calc desc + plen,
               mem_write (buf + 2) (uint32_big_bytes plen) m'))"
proof -
  have r: "\<not> record_header_size_calc desc > len"
    using room by (simp add: word_less_nat_alt unat_header_size)
  have upd: "m(Suc buf := b, buf + 6 := c, buf := a) = m(buf := a, Suc buf := b, buf + 6 := c)" for a b c
    by (auto simp: fun_eq_iff)
  show ?thesis
  proof (cases "id_length desc = 0")
    case True
    with r loc show ?thesis
      by (simp add: nfc_ndef_record_encode_def Let_def ndef_header_steps_def
          record_header_size_def split_beta ac_simps)
  next
    case False
    with r loc show ?thesis
      by (simp add: nfc_ndef_record_encode_def Let_def ndef_header_steps_def upd
          record_header_size_def split_beta word_gt_0 ac_simps)
  qed
qed

lemma ndef_header_steps_frame: "same_outside buf (record_header_size desc) m (ndef_header_steps desc loc buf m)"
  unfolding ndef_header_steps_def Let_def memcpy_def
  by (auto intro!: same_outside_write_trans simp: record_header_size_def unat_eq_0)
    (auto simp: same_outside_def)

lemma ndef_header_steps_eq:
  assumes dt: "disjoint_regions (p_type desc) (unat (type_length desc)) buf n"
    and di: "disjoint_regions (p_id desc) (unat (id_length desc)) buf n"
    and room: "record_header_size desc \<le> n"
  shows "ndef_header_steps desc loc buf m = ndef_header_mem desc loc buf m"
proof (cases "id_length desc = 0")
  let ?tl = "unat (type_length desc)" and ?il = "unat (id_length desc)"
  case True
  let ?m = "m(buf := loc OR tnf_code (tnf desc), buf + 1 := type_length desc)"
  have "same_outside buf n m ?m"
    using room True by (auto simp: same_outside_def record_header_size_def)
  then have "mem_read (p_type desc) ?tl ?m = mem_read (p_type desc) ?tl m"
    using dt by (rule mem_read_same_outside)
  with True show ?thesis
    by (simp add: ndef_header_steps_def ndef_header_mem_def Let_def ndef_flags_def
        mem_write_two memcpy_def)
next
  let ?tl = "unat (type_length desc)" and ?il = "unat (id_length desc)"
  case False
  let ?fl = "(loc OR tnf_code (tnf desc)) OR NDEF_RECORD_IL_MASK"
  let ?m = "m(buf := ?fl, buf + 1 := type_length desc, buf + 6 := id_length desc)"
  have fr: "same_outside buf n m ?m"
    using room False by (auto simp: same_outside_def record_header_size_def)
  then have rt: "mem_read (p_type desc) ?tl ?m = mem_read (p_type desc) ?tl m"
    using dt by (rule mem_read_same_outside)
  let ?m2 = "mem_write (buf + 7) (mem_read (p_type desc) ?tl m) ?m"
  have "same_outside buf n m ?m2"
    using room False fr by (intro same_outside_write_trans) (auto simp: record_header_size_def)
  then have ri: "mem_read (p_id desc) ?il ?m2 = mem_read (p_id desc) ?il m"
    using di by (rule mem_read_same_outside)
  have w: "mem_write (buf + 7 + ?tl) (mem_read (p_id desc) ?il m) ?m2 =
      mem_write (buf + 6) (id_length desc # mem_read (p_type desc) ?tl m @ mem_read (p_id desc) ?il m)
        (m(buf := ?fl, buf + 1 := type_length desc))"
    using mem_write_append [of "buf + 7" "mem_read (p_type desc) ?tl m"]
    by (simp add: mem_write_Cons [of "buf + 6"] add.commute [of 7])
  have "ndef_header_steps desc loc buf m =
      memcpy (buf + 7 + ?tl) (p_id desc) ?il (memcpy (buf + 7) (p_type desc) ?tl ?m)"
    using False by (simp add: ndef_header_steps_def Let_def)
  also have "\<dots> = ndef_header_mem desc loc buf m"
    unfolding memcpy_def rt ri w using False
    by (simp add: ndef_header_mem_def ndef_flags_def mem_write_two unat_eq_0)
  finally show ?thesis .
qed

lemma encode_unfold:
  assumes dt: "disjoint_regions (p_type desc) (unat (type_length desc)) buf (unat len)"
    and di: "disjoint_regions (p_id desc) (unat (id_length desc)) buf (unat len)"
    and loc: "loc AND NOT NDEF_RECORD_LOCATION_MASK = 0"
    and room: "record_header_size desc \<le> unat len"
  shows "nfc_ndef_record_encode desc loc buf len m =
    (case payload_constructor desc (buf + record_header_size desc)
            (len - record_header_size_calc desc) (ndef_header_mem desc loc buf m) of
       (err, plen, m') \<Rightarrow>
         if err \<noteq> NRF_SUCCESS then (err, len, m')
         else (NRF_SUCCESS, record_header_size_calc desc + plen,
               mem_write (buf + 2) (uint32_big_bytes plen) m'))"
  unfolding encode_steps [OF loc room] ndef_header_steps_eq [OF dt di room] ..

lemma ndef_header_mem_frame:
  assumes "record_header_size desc \<le> n"
  shows "same_outside buf n m (ndef_header_mem desc loc buf m)"
  unfolding ndef_header_mem_def Let_def using assms
  by (intro same_outside_write_trans same_outside_write) (auto simp: record_header_size_def unat_eq_0)

text \<open>
  A record with a constructor that keeps its contract: the bytes are those of the format, with
  the payload the constructor wrote, nothing outside the buffer changes and the room is kept.
\<close>

lemma ndef_record_encode_ok:
  assumes pc: "payload_contract (payload_constructor desc)"
    and dt: "disjoint_regions (p_type desc) (unat (type_length desc)) buf (unat len)"
    and di: "disjoint_regions (p_id desc) (unat (id_length desc)) buf (unat len)"
    and enc: "nfc_ndef_record_encode desc loc buf len m = (NRF_SUCCESS, len', m')"
  shows "unat len' \<le> unat len" and "record_header_size desc \<le> unat len'"
    and "same_outside buf (unat len) m m'"
    and "mem_read buf (unat len') m' =
      ndef_record_bytes loc (tnf desc) (mem_read (p_type desc) (unat (type_length desc)) m)
        (mem_read (p_id desc) (unat (id_length desc)) m)
        (mem_read (buf + record_header_size desc) (unat len' - record_header_size desc) m')"
    and "\<exists>plen mp. payload_constructor desc (buf + record_header_size desc)
            (len - record_header_size_calc desc) (ndef_header_mem desc loc buf m) = (NRF_SUCCESS, plen, mp) \<and>
          unat len' = record_header_size desc + unat plen \<and>
          mem_read (buf + record_header_size desc) (unat plen) m' =
            mem_read (buf + record_header_size desc) (unat plen) mp"
proof -
  let ?h = "record_header_size desc" and ?hm = "ndef_header_mem desc loc buf m"
  let ?tyb = "mem_read (p_type desc) (unat (type_length desc)) m"
  let ?ident = "mem_read (p_id desc) (unat (id_length desc)) m"
  have loc: "loc AND NOT NDEF_RECORD_LOCATION_MASK = 0" and "\<not> record_header_size_calc desc > len"
    using enc by (auto simp: nfc_ndef_record_encode_def Let_def split: if_splits)
  then have room: "?h \<le> unat len" by (simp add: word_less_nat_alt unat_header_size)
  obtain plen mp where call: "payload_constructor desc (buf + ?h)
      (len - record_header_size_calc desc) ?hm = (NRF_SUCCESS, plen, mp)"
    and len': "len' = record_header_size_calc desc + plen"
    and m': "m' = mem_write (buf + 2) (uint32_big_bytes plen) mp"
    using enc unfolding encode_unfold [OF dt di loc room]
    by (auto split: prod.splits if_splits)
  have rem: "unat (len - record_header_size_calc desc) = unat len - ?h"
    using room by (simp add: unat_sub word_le_nat_alt unat_header_size)
  have fit: "unat plen \<le> unat len - ?h"
    using payload_contract.pc_fits [OF pc call] rem by simp
  then have l': "unat len' = ?h + unat plen"
    unfolding len' using room u32_less [of len] by (subst unat_plus_small) (simp_all add: unat_header_size)
  with fit room show "unat len' \<le> unat len" and hl: "?h \<le> unat len'" by simp_all
  have fr: "same_outside (buf + ?h) (unat len - ?h) ?hm mp"
    using payload_contract.pc_frame [OF pc call] rem by simp
  have six: "6 \<le> ?h" by (simp add: record_header_size_def)
  have "same_outside buf (unat len) ?hm mp"
    by (rule same_outside_mono [OF fr]) (use room in auto)
  with ndef_header_mem_frame [OF room] have "same_outside buf (unat len) m mp"
    by (rule same_outside_trans)
  then show "same_outside buf (unat len) m m'"
    unfolding m' by (rule same_outside_write_trans) (use six room in auto)
  have pay: "mem_read (buf + ?h) (unat plen) m' = mem_read (buf + ?h) (unat plen) mp"
    unfolding m' by (rule mem_read_write_disjoint) (use six in \<open>auto simp: disjoint_regions_def\<close>)
  show "\<exists>plen mp. payload_constructor desc (buf + ?h) (len - record_header_size_calc desc) ?hm =
        (NRF_SUCCESS, plen, mp) \<and> unat len' = ?h + unat plen \<and>
      mem_read (buf + ?h) (unat plen) m' = mem_read (buf + ?h) (unat plen) mp"
    using call l' pay by blast
  let ?fl = "ndef_flags loc (tnf desc) ?ident"
  let ?rest = "(if ?ident = [] then [] else [id_length desc]) @ ?tyb @ ?ident"
  have lr: "length ?rest = ?h - 6" by (auto simp: record_header_size_def unat_eq_0)
  have hm: "?hm = mem_write (buf + 6) ?rest (mem_write buf [?fl, type_length desc] m)"
    by (simp add: ndef_header_mem_def Let_def)
  have "mem_read buf 2 ?hm = [?fl, type_length desc]" unfolding hm
    by (subst mem_read_write_disjoint) (simp_all add: disjoint_regions_def mem_read_write_same)
  moreover have "mem_read buf 2 m' = mem_read buf 2 mp" unfolding m'
    by (rule mem_read_write_disjoint) (simp add: disjoint_regions_def)
  moreover have "mem_read buf 2 mp = mem_read buf 2 ?hm"
    by (rule mem_read_same_outside [OF fr]) (use six in \<open>auto simp: disjoint_regions_def\<close>)
  ultimately have A: "mem_read buf 2 m' = [?fl, type_length desc]" by simp
  have B: "mem_read (buf + 2) 4 m' = uint32_big_bytes plen"
    unfolding m' by (rule mem_read_write_same) simp
  have "mem_read (buf + 6) (?h - 6) ?hm = ?rest" unfolding hm
    by (rule mem_read_write_same) (use lr in simp)
  moreover have "mem_read (buf + 6) (?h - 6) m' = mem_read (buf + 6) (?h - 6) mp" unfolding m'
    by (rule mem_read_write_disjoint) (simp add: disjoint_regions_def)
  moreover have "mem_read (buf + 6) (?h - 6) mp = mem_read (buf + 6) (?h - 6) ?hm"
    by (rule mem_read_same_outside [OF fr]) (use six in \<open>auto simp: disjoint_regions_def\<close>)
  ultimately have C: "mem_read (buf + 6) (?h - 6) m' = ?rest" by simp
  have "unat len' = 2 + (4 + ((?h - 6) + unat plen))" using l' six by simp
  then have "mem_read buf (unat len') m' = mem_read buf 2 m' @ mem_read (buf + 2) 4 m' @
      mem_read (buf + 6) (?h - 6) m' @ mem_read (buf + ?h) (unat plen) m'"
    using six by (simp only: mem_read_append) (simp add: add.assoc add.commute [of 6])
  also have "\<dots> = ndef_record_bytes loc (tnf desc) ?tyb ?ident (mem_read (buf + ?h) (unat plen) m')"
    unfolding A B C by (auto simp: ndef_record_bytes_def unat_eq_0)
  finally show "mem_read buf (unat len') m' = ndef_record_bytes loc (tnf desc) ?tyb ?ident
      (mem_read (buf + ?h) (unat len' - ?h) m')"
    using l' by simp
qed

lemma encode_reject:
  "loc AND NOT NDEF_RECORD_LOCATION_MASK \<noteq> 0 \<Longrightarrow>
    nfc_ndef_record_encode desc loc buf len m = (NRF_ERROR_INVALID_PARAM, len, m)"
  "loc AND NOT NDEF_RECORD_LOCATION_MASK = 0 \<Longrightarrow> unat len < record_header_size desc \<Longrightarrow>
    nfc_ndef_record_encode desc loc buf len m = (NRF_ERROR_NO_MEM, len, m)"
  by (simp_all add: nfc_ndef_record_encode_def Let_def word_less_nat_alt unat_header_size)

lemma ndef_record_encode_code:
  assumes dt: "disjoint_regions (p_type desc) (unat (type_length desc)) buf (unat len)"
    and di: "disjoint_regions (p_id desc) (unat (id_length desc)) buf (unat len)"
  shows "fst (nfc_ndef_record_encode desc loc buf len m) =
    (if loc AND NOT NDEF_RECORD_LOCATION_MASK \<noteq> 0 then NRF_ERROR_INVALID_PARAM
     else if unat len < record_header_size desc then NRF_ERROR_NO_MEM
     else fst (payload_constructor desc (buf + record_header_size desc)
       (len - record_header_size_calc desc) (ndef_header_mem desc loc buf m)))"
proof (cases "loc AND NOT NDEF_RECORD_LOCATION_MASK \<noteq> 0 \<or> unat len < record_header_size desc")
  case True
  then show ?thesis
    by (auto simp: encode_reject)
next
  case False
  with encode_unfold [OF dt di, of loc m] show ?thesis
    by (auto simp: split_beta)
qed

text \<open>The frame and the length bound hold wherever the type and ID bytes are.\<close>

lemma ndef_record_encode_frame:
  assumes pc: "payload_contract (payload_constructor desc)"
    and enc: "nfc_ndef_record_encode desc loc buf len m = (code, len', m')"
  shows "same_outside buf (unat len) m m'" and "code \<noteq> NRF_SUCCESS \<Longrightarrow> len' = len"
    and "unat len' \<le> unat len"
proof -
  have "same_outside buf (unat len) m m' \<and> (code \<noteq> NRF_SUCCESS \<longrightarrow> len' = len) \<and> unat len' \<le> unat len"
  proof (cases "loc AND NOT NDEF_RECORD_LOCATION_MASK = 0 \<and> record_header_size desc \<le> unat len")
    case False
    then consider "loc AND NOT NDEF_RECORD_LOCATION_MASK \<noteq> 0" |
      "loc AND NOT NDEF_RECORD_LOCATION_MASK = 0" "unat len < record_header_size desc" by linarith
    then show ?thesis using enc by cases (simp_all add: encode_reject)
  next
    case True
    then have loc: "loc AND NOT NDEF_RECORD_LOCATION_MASK = 0"
      and room: "record_header_size desc \<le> unat len" by auto
    obtain code' plen mp where call: "payload_constructor desc (buf + record_header_size desc)
        (len - record_header_size_calc desc) (ndef_header_steps desc loc buf m) = (code', plen, mp)"
      by (metis prod_cases3)
    have rem: "unat (len - record_header_size_calc desc) = unat len - record_header_size desc"
      using room by (simp add: unat_sub word_le_nat_alt unat_header_size)
    with payload_contract.pc_frame [OF pc call]
    have "same_outside buf (unat len) (ndef_header_steps desc loc buf m) mp"
      by (rule_tac same_outside_mono) (use room in auto)
    moreover have "same_outside buf (unat len) m (ndef_header_steps desc loc buf m)"
      by (rule same_outside_mono [OF ndef_header_steps_frame]) (use room in auto)
    ultimately have "same_outside buf (unat len) m mp"
      by (blast intro: same_outside_trans)
    moreover from this have "same_outside buf (unat len) m (mem_write (buf + 2) (uint32_big_bytes plen) mp)"
      by (rule same_outside_write_trans) (use room in \<open>auto simp: record_header_size_def\<close>)
    moreover have "code' = NRF_SUCCESS \<Longrightarrow> unat (record_header_size_calc desc + plen) \<le> unat len"
      using payload_contract.pc_fits [OF pc] call rem room u32_less [of len]
      by (subst unat_plus_small) (fastforce simp: unat_header_size)+
    ultimately show ?thesis
      using enc unfolding encode_steps [OF loc room] call by (auto split: if_splits)
  qed
  then show "same_outside buf (unat len) m m'" "code \<noteq> NRF_SUCCESS \<Longrightarrow> len' = len" "unat len' \<le> unat len"
    by auto
qed

subsection \<open>Encoders that emit known bytes\<close>

text \<open>
  Within the output area of \<open>n\<close> bytes at \<open>area\<close>, and as long as the memory outside it is that
  of \<open>m0\<close>, \<open>f\<close> emits exactly \<open>bs\<close> when there is room for it, and reports
  \<open>NRF_ERROR_NO_MEM\<close> when there is not.
\<close>

definition emits :: "payload_fn \<Rightarrow> ptr \<Rightarrow> nat \<Rightarrow> mem \<Rightarrow> u8 list \<Rightarrow> bool" where
  "emits f area n m0 bs \<longleftrightarrow> (\<forall>b l m. area \<le> b \<and> b + unat l \<le> area + n \<and> same_outside area n m0 m \<longrightarrow>
     (if unat l < length bs then fst (f b l m) = NRF_ERROR_NO_MEM
      else \<exists>m'. f b l m = (NRF_SUCCESS, of_nat (length bs), m') \<and> mem_read b (length bs) m' = bs))"

lemma emits_full:
  "emits f area n m0 bs \<Longrightarrow> area \<le> b \<Longrightarrow> b + unat l \<le> area + n \<Longrightarrow> same_outside area n m0 m \<Longrightarrow>
    unat l < length bs \<Longrightarrow> fst (f b l m) = NRF_ERROR_NO_MEM"
  by (auto simp: emits_def)

lemma emits_ok:
  assumes "emits f area n m0 bs" "area \<le> b" "b + unat l \<le> area + n" "same_outside area n m0 m"
    and "length bs \<le> unat l"
  obtains m' where "f b l m = (NRF_SUCCESS, of_nat (length bs), m')" "mem_read b (length bs) m' = bs"
proof -
  have "\<not> unat l < length bs" using assms(5) by simp
  with assms show thesis using that unfolding emits_def by metis
qed

lemma record_emits:
  assumes pc: "payload_contract (payload_constructor desc)"
    and em: "emits (payload_constructor desc) area n m0 payload"
    and loc: "loc AND NOT NDEF_RECORD_LOCATION_MASK = 0"
    and dt: "disjoint_regions (p_type desc) (unat (type_length desc)) area n"
    and di: "disjoint_regions (p_id desc) (unat (id_length desc)) area n"
  defines "tyb \<equiv> mem_read (p_type desc) (unat (type_length desc)) m0"
    and "ident \<equiv> mem_read (p_id desc) (unat (id_length desc)) m0"
  shows "emits (nfc_ndef_record_encode desc loc) area n m0 (ndef_record_bytes loc (tnf desc) tyb ident payload)"
    (is "emits _ _ _ _ ?bs")
  unfolding emits_def
proof (intro allI impI)
  fix b and l :: u32 and m
  assume a: "area \<le> b \<and> b + unat l \<le> area + n \<and> same_outside area n m0 m"
  let ?h = "record_header_size desc" and ?hm = "ndef_header_mem desc loc b m"
  let ?rem = "l - record_header_size_calc desc"
  have dt': "disjoint_regions (p_type desc) (unat (type_length desc)) b (unat l)"
    and di': "disjoint_regions (p_id desc) (unat (id_length desc)) b (unat l)"
    using dt di a by (auto intro: disjoint_regions_sub)
  have fields: "mem_read (p_type desc) (unat (type_length desc)) m = tyb"
    "mem_read (p_id desc) (unat (id_length desc)) m = ident"
    unfolding tyb_def ident_def using a dt di by (auto intro: mem_read_same_outside)
  have lbs: "length ?bs = ?h + length payload"
    by (simp add: length_ndef_record_bytes tyb_def ident_def record_header_size_def unat_eq_0)
  show "if unat l < length ?bs then fst (nfc_ndef_record_encode desc loc b l m) = NRF_ERROR_NO_MEM
    else \<exists>m'. nfc_ndef_record_encode desc loc b l m = (NRF_SUCCESS, of_nat (length ?bs), m') \<and>
      mem_read b (length ?bs) m' = ?bs"
  proof (cases "unat l < ?h")
    case True
    then show ?thesis using loc lbs by (simp add: encode_reject)
  next
    case False
    then have rem: "unat ?rem = unat l - ?h" by (simp add: unat_sub word_le_nat_alt unat_header_size)
    have "same_outside area n m ?hm"
      by (rule same_outside_mono [OF ndef_header_mem_frame [of desc ?h]]) (use a False in auto)
    with a have pre: "area \<le> b + ?h" "b + ?h + unat ?rem \<le> area + n" "same_outside area n m0 ?hm"
      using False rem by (auto intro: same_outside_trans)
    have unf: "nfc_ndef_record_encode desc loc b l m =
        (case payload_constructor desc (b + ?h) ?rem ?hm of
       (err, plen, m') \<Rightarrow> if err \<noteq> NRF_SUCCESS then (err, l, m')
         else (NRF_SUCCESS, record_header_size_calc desc + plen, mem_write (b + 2) (uint32_big_bytes plen) m'))"
      using encode_unfold [OF dt' di' loc] False by simp
    show ?thesis
    proof (cases "unat ?rem < length payload")
      case True
      then have "fst (nfc_ndef_record_encode desc loc b l m) = NRF_ERROR_NO_MEM"
        using emits_full [OF em pre] unfolding unf by (auto simp: split_beta)
      moreover have "unat l < length ?bs" using True False rem lbs by simp
      ultimately show ?thesis by simp
    next
      case False': False
      then obtain mp where call: "payload_constructor desc (b + ?h) ?rem ?hm =
          (NRF_SUCCESS, of_nat (length payload), mp)"
        and mp: "mem_read (b + ?h) (length payload) mp = payload"
        using emits_ok [OF em pre] by (metis not_less)
      obtain m' where enc: "nfc_ndef_record_encode desc loc b l m =
          (NRF_SUCCESS, record_header_size_calc desc + of_nat (length payload), m')"
        unfolding unf call by auto
      have "length payload < 2 ^ 32" using False' u32_less [of ?rem] by simp
      then have ul: "unat (of_nat (length payload) :: u32) = length payload"
        by (simp add: unat_of_nat)
      note ok = ndef_record_encode_ok [OF pc dt' di' enc]
      obtain plen mq where q: "payload_constructor desc (b + ?h) ?rem ?hm = (NRF_SUCCESS, plen, mq)"
        "mem_read (b + ?h) (unat plen) m' = mem_read (b + ?h) (unat plen) mq"
        "unat (record_header_size_calc desc + of_nat (length payload)) = ?h + unat plen"
        using ok(5) by blast
      from q(1,2) call mp ul have pay: "mem_read (b + ?h) (length payload) m' = payload" by simp
      have len: "unat (record_header_size_calc desc + of_nat (length payload)) = ?h + length payload"
        using q(1,3) call ul by simp
      then have "record_header_size_calc desc + of_nat (length payload) = (of_nat (length ?bs) :: u32)"
        unfolding lbs by (metis of_nat_unat ucast_id)
      moreover have "mem_read b (length ?bs) m' = ?bs"
        using ok(4) pay unfolding len lbs fields by simp
      moreover have "\<not> unat l < length ?bs" using False' False rem lbs by simp
      ultimately show ?thesis using enc by auto
    qed
  qed
qed

lemma bin_emits:
  assumes "disjoint_regions (p_payload d) (unat (payload_length d)) area n"
  shows "emits (nfc_ndef_bin_payload_memcopy d) area n m0 (mem_read (p_payload d) (unat (payload_length d)) m0)"
  unfolding emits_def
proof (intro allI impI)
  fix b and l :: u32 and m
  assume a: "area \<le> b \<and> b + unat l \<le> area + n \<and> same_outside area n m0 m"
  then have "mem_read (p_payload d) (unat (payload_length d)) m = mem_read (p_payload d) (unat (payload_length d)) m0"
    using assms by (auto intro: mem_read_same_outside)
  then show "if unat l < length (mem_read (p_payload d) (unat (payload_length d)) m0)
    then fst (nfc_ndef_bin_payload_memcopy d b l m) = NRF_ERROR_NO_MEM
    else \<exists>m'. nfc_ndef_bin_payload_memcopy d b l m =
        (NRF_SUCCESS, of_nat (length (mem_read (p_payload d) (unat (payload_length d)) m0)), m') \<and>
      mem_read b (length (mem_read (p_payload d) (unat (payload_length d)) m0)) m' =
        mem_read (p_payload d) (unat (payload_length d)) m0"
    by (auto simp: nfc_ndef_bin_payload_memcopy_def word_less_nat_alt memcpy_def mem_read_write_same)
qed

subsection \<open>The binary payload keeps the contract\<close>

interpretation bin: payload_contract "nfc_ndef_bin_payload_memcopy d" for d
  by unfold_locales
    (auto simp: nfc_ndef_bin_payload_memcopy_def word_less_nat_alt
      split: if_splits intro!: same_outside_memcpy)

lemma NFC_NDEF_RECORD_BIN_DATA_DEF_simps [simp]:
  "tnf (NFC_NDEF_RECORD_BIN_DATA_DEF t qi ni qt nt qp np) = t"
  "id_length (NFC_NDEF_RECORD_BIN_DATA_DEF t qi ni qt nt qp np) = ni"
  "p_id (NFC_NDEF_RECORD_BIN_DATA_DEF t qi ni qt nt qp np) = qi"
  "type_length (NFC_NDEF_RECORD_BIN_DATA_DEF t qi ni qt nt qp np) = nt"
  "p_type (NFC_NDEF_RECORD_BIN_DATA_DEF t qi ni qt nt qp np) = qt"
  "payload_constructor (NFC_NDEF_RECORD_BIN_DATA_DEF t qi ni qt nt qp np) =
     nfc_ndef_bin_payload_memcopy \<lparr>p_payload = qp, payload_length = np\<rparr>"
  by (simp_all add: NFC_NDEF_RECORD_BIN_DATA_DEF_def)

subsection \<open>Properties\<close>



end
