(* ===== verification/NdefMsg.thy ===== *)
theory NdefMsg
  imports NdefRecord
begin

text \<open>
  NDEF messages (\<^verbatim>\<open>nfc/ndef/generic/message/nfc_ndef_msg.c\<close>). The array of record
  pointers is a function from the index to the descriptor the pointer there points at;
  \<open>ndef_msg_bytes\<close> is the byte format of a message: its records one after the other, with the
  message-begin and message-end flags of their position.
\<close>

unbundle bit_operations_syntax

subsection \<open>Data and operations\<close>

record ndef_msg_desc =
  pp_record :: "nat \<Rightarrow> ndef_record_desc"
  max_record_count :: u32
  record_count :: u32

definition record_location_get :: "u32 \<Rightarrow> u32 \<Rightarrow> u8" where
  "record_location_get index count =
     (if index = 0 then (if count = 1 then NDEF_LONE_RECORD else NDEF_FIRST_RECORD)
      else if count = index + 1 then NDEF_LAST_RECORD
      else NDEF_MIDDLE_RECORD)"

function ndef_msg_encode_loop ::
  "ndef_msg_desc \<Rightarrow> u32 \<Rightarrow> ptr \<Rightarrow> u32 \<Rightarrow> u32 \<Rightarrow> mem \<Rightarrow> ret_code \<times> u32 \<times> mem" where
  "ndef_msg_encode_loop desc i p_msg_buffer msg_len sum_of_len m =
     (if i < record_count desc then
        let record_location = record_location_get i (record_count desc);
            temp_len = msg_len - sum_of_len
        in case nfc_ndef_record_encode (pp_record desc (unat i)) record_location p_msg_buffer temp_len m of
             (err_code, temp_len, m) \<Rightarrow>
               if err_code \<noteq> NRF_SUCCESS then (err_code, msg_len, m)
               else ndef_msg_encode_loop desc (i + 1) (p_msg_buffer + unat temp_len) msg_len
                      (sum_of_len + temp_len) m
      else (NRF_SUCCESS, sum_of_len, m))"
  by pat_completeness auto

lemma loop_measure: "i < n \<Longrightarrow> unat (n - (i + 1)) < unat (n - i)" for i n :: "'a::len word"
proof -
  assume i: "i < n"
  then have s: "unat (i + 1) = Suc (unat i)" by (rule unat_Suc_less)
  then have "i + 1 \<le> n" using i by (simp add: word_le_nat_alt word_less_nat_alt)
  with i s show ?thesis by (simp add: unat_sub word_less_nat_alt word_le_nat_alt order_less_imp_le)
qed

termination ndef_msg_encode_loop
  by (relation "measure (\<lambda>(desc, i, _). unat (record_count desc - i))") (auto simp: loop_measure)

declare ndef_msg_encode_loop.simps [simp del]

definition nfc_ndef_msg_encode :: "ndef_msg_desc \<Rightarrow> payload_fn" where
  "nfc_ndef_msg_encode desc p_msg_buffer msg_len m =
     ndef_msg_encode_loop desc 0 p_msg_buffer msg_len 0 m"

definition nfc_ndef_msg_clear :: "ndef_msg_desc \<Rightarrow> ndef_msg_desc" where
  "nfc_ndef_msg_clear p_msg = p_msg\<lparr>record_count := 0\<rparr>"

definition nfc_ndef_msg_record_add :: "ndef_msg_desc \<Rightarrow> ndef_record_desc \<Rightarrow> ret_code \<times> ndef_msg_desc" where
  "nfc_ndef_msg_record_add p_msg p_record =
     (if record_count p_msg \<ge> max_record_count p_msg then (NRF_ERROR_NO_MEM, p_msg)
      else (NRF_SUCCESS,
            p_msg\<lparr>pp_record := (pp_record p_msg)(unat (record_count p_msg) := p_record),
                  record_count := record_count p_msg + 1\<rparr>))"

definition NFC_NDEF_NESTED_NDEF_MSG_RECORD_DEF ::
  "nfc_ndef_record_tnf \<Rightarrow> ptr \<Rightarrow> u8 \<Rightarrow> ptr \<Rightarrow> u8 \<Rightarrow> ndef_msg_desc \<Rightarrow> ndef_record_desc" where
  "NFC_NDEF_NESTED_NDEF_MSG_RECORD_DEF TNF P_ID ID_LEN P_TYPE TYPE_LEN nested =
     \<lparr>tnf = TNF, id_length = ID_LEN, p_id = P_ID, type_length = TYPE_LEN, p_type = P_TYPE,
      payload_constructor = nfc_ndef_msg_encode nested\<rparr>"

subsection \<open>The records of a message\<close>

definition msg_records :: "ndef_msg_desc \<Rightarrow> ndef_record_desc list" where
  "msg_records msg = map (pp_record msg) [0..<unat (record_count msg)]"

definition msg_inv :: "ndef_msg_desc \<Rightarrow> bool" where
  "msg_inv msg \<longleftrightarrow> record_count msg \<le> max_record_count msg"

lemma msg_records_clear [simp]: "msg_records (nfc_ndef_msg_clear msg) = []"
  by (simp add: msg_records_def nfc_ndef_msg_clear_def)

lemma msg_records_add:
  assumes "msg_inv msg"
  shows "nfc_ndef_msg_record_add msg r = (code, msg') \<Longrightarrow> msg_inv msg' \<and>
    max_record_count msg' = max_record_count msg \<and>
    (if length (msg_records msg) < unat (max_record_count msg)
     then code = NRF_SUCCESS \<and> msg_records msg' = msg_records msg @ [r]
     else code = NRF_ERROR_NO_MEM \<and> msg' = msg)"
proof -
  assume a: "nfc_ndef_msg_record_add msg r = (code, msg')"
  show ?thesis
  proof (cases "record_count msg \<ge> max_record_count msg")
    case True
    with a assms show ?thesis
      by (auto simp: nfc_ndef_msg_record_add_def msg_records_def word_le_nat_alt)
  next
    case False
    then have "unat (record_count msg) < unat (max_record_count msg)" by (simp add: word_le_nat_alt)
    moreover from this have s: "unat (record_count msg + 1) = Suc (unat (record_count msg))"
      using u32_less [of "max_record_count msg"] by (simp add: unat_plus_small)
    ultimately show ?thesis using a False
      by (auto simp: nfc_ndef_msg_record_add_def msg_records_def msg_inv_def word_le_nat_alt)
  qed
qed

subsection \<open>The byte format of a message\<close>

text \<open>A record value: type name format, type, ID and payload bytes.\<close>

type_synonym ndef_value = "nfc_ndef_record_tnf \<times> u8 list \<times> u8 list \<times> u8 list"

fun value_bytes :: "u8 \<Rightarrow> ndef_value \<Rightarrow> u8 list" where
  "value_bytes loc (t, typ, ident, payload) = ndef_record_bytes loc t typ ident payload"

definition ndef_location :: "nat \<Rightarrow> nat \<Rightarrow> u8" where
  "ndef_location i n = (if i = 0 then 0x80 else 0) OR (if Suc i = n then 0x40 else 0)"

definition ndef_msg_bytes_from :: "nat \<Rightarrow> ndef_value list \<Rightarrow> u8 list" where
  "ndef_msg_bytes_from i vs = concat (map (\<lambda>j. value_bytes (ndef_location j (length vs)) (vs ! j)) [i..<length vs])"

abbreviation ndef_msg_bytes :: "ndef_value list \<Rightarrow> u8 list" where
  "ndef_msg_bytes \<equiv> ndef_msg_bytes_from 0"

lemma record_location_get_eq:
  assumes "i < unat n"
  shows "record_location_get (of_nat i) n = ndef_location i (unat n)"
proof -
  define w where "w = (of_nat i :: u32)"
  have u: "unat w = i" unfolding w_def by (rule unat_of_nat_less) (use assms u32_less [of n] in simp)
  then have "w < n" using assms by (simp add: word_less_nat_alt)
  then have s: "unat (w + 1) = Suc i" using unat_Suc_less u by blast
  have "w = 0 \<longleftrightarrow> i = 0" using u by (auto simp: unat_eq_0)
  moreover have "n = 1 \<longleftrightarrow> unat n = 1" by (auto simp: word_unat_eq_iff)
  moreover have "n = w + 1 \<longleftrightarrow> unat n = Suc i" using s by (auto simp: word_unat_eq_iff)
  ultimately show ?thesis
    unfolding record_location_get_def ndef_location_def w_def [symmetric]
    by (auto simp: NDEF_LONE_RECORD_def NDEF_FIRST_RECORD_def NDEF_LAST_RECORD_def NDEF_MIDDLE_RECORD_def)
qed

lemma ndef_location_valid [simp]: "ndef_location i n AND NOT NDEF_RECORD_LOCATION_MASK = 0"
  by (simp add: ndef_location_def)

lemma ndef_msg_bytes_from_end: "length vs \<le> i \<Longrightarrow> ndef_msg_bytes_from i vs = []"
  by (simp add: ndef_msg_bytes_from_def)

lemma ndef_msg_bytes_from_step:
  "i < length vs \<Longrightarrow> ndef_msg_bytes_from i vs =
    value_bytes (ndef_location i (length vs)) (vs ! i) @ ndef_msg_bytes_from (Suc i) vs"
  by (simp add: ndef_msg_bytes_from_def upt_conv_Cons)

subsection \<open>The encoder\<close>

lemma msg_loop_end: "\<not> i < record_count msg \<Longrightarrow>
    ndef_msg_encode_loop msg i buf l s m = (NRF_SUCCESS, s, m)"
  by (simp add: ndef_msg_encode_loop.simps)

lemma msg_loop_step:
  "i < record_count msg \<Longrightarrow> nfc_ndef_record_encode (pp_record msg (unat i))
      (record_location_get i (record_count msg)) buf (l - s) m = (code, k, m') \<Longrightarrow>
    ndef_msg_encode_loop msg i buf l s m =
      (if code \<noteq> NRF_SUCCESS then (code, l, m')
       else ndef_msg_encode_loop msg (i + 1) (buf + unat k) l (s + k) m')"
  by (subst ndef_msg_encode_loop.simps) simp

lemma word_add_le_bound:
  fixes s k l :: "'a::len word"
  assumes "s \<le> l" "unat k \<le> unat (l - s)"
  shows "unat (s + k) = unat s + unat k" "s + k \<le> l" "unat (l - (s + k)) = unat (l - s) - unat k"
proof -
  have d: "unat (l - s) = unat l - unat s" using assms(1) by (rule unat_minus_le)
  with assms have "unat s + unat k \<le> unat l" by (simp add: word_le_nat_alt)
  moreover from this show a: "unat (s + k) = unat s + unat k"
    by (intro unat_plus_small) (rule order.strict_trans1 [OF _ unsigned_less])
  ultimately show b: "s + k \<le> l" by (simp add: word_le_nat_alt)
  show "unat (l - (s + k)) = unat (l - s) - unat k"
    using unat_minus_le [OF b] a d by simp
qed

lemma msg_loop_frame:
  assumes "\<forall>j < unat (record_count msg). payload_contract (payload_constructor (pp_record msg j))"
    and "unat (record_count msg) = unat i + n" "s \<le> l"
    and "ndef_msg_encode_loop msg i buf l s m = (code, l', m')"
  shows "same_outside buf (unat (l - s)) m m' \<and> (code \<noteq> NRF_SUCCESS \<longrightarrow> l' = l) \<and> l' \<le> l"
  using assms(2-4)
proof (induction n arbitrary: i buf s m)
  case 0
  then have "\<not> i < record_count msg" by (simp add: word_less_nat_alt)
  with 0 show ?case by (simp add: msg_loop_end)
next
  case (Suc n)
  then have i: "i < record_count msg" by (simp add: word_less_nat_alt)
  obtain code1 k m1 where enc: "nfc_ndef_record_encode (pp_record msg (unat i))
      (record_location_get i (record_count msg)) buf (l - s) m = (code1, k, m1)"
    by (metis prod_cases3)
  have "payload_contract (payload_constructor (pp_record msg (unat i)))"
    using assms(1) i by (simp add: word_less_nat_alt)
  note F = ndef_record_encode_frame [OF this enc]
  note B = word_add_le_bound [OF Suc.prems(2) F(3)]
  show ?case
  proof (cases "code1 = NRF_SUCCESS")
    case False
    with F Suc.prems(3) show ?thesis unfolding msg_loop_step [OF i enc] by simp
  next
    case True
    have "unat (record_count msg) = unat (i + 1) + n"
      using Suc.prems(1) unat_Suc_less [OF i] by simp
    moreover have "ndef_msg_encode_loop msg (i + 1) (buf + unat k) l (s + k) m1 = (code, l', m')"
      using Suc.prems(3) True unfolding msg_loop_step [OF i enc] by simp
    ultimately have IH: "same_outside (buf + unat k) (unat (l - (s + k))) m1 m'"
      "code \<noteq> NRF_SUCCESS \<longrightarrow> l' = l" "l' \<le> l"
      using Suc.IH [OF _ B(2)] by auto
    from IH(1) have "same_outside buf (unat (l - s)) m1 m'"
      by (rule same_outside_mono) (use B F(3) in auto)
    with F(1) IH show ?thesis by (auto intro: same_outside_trans)
  qed
qed

lemma msg_frame:
  assumes "\<forall>r \<in> set (msg_records msg). payload_contract (payload_constructor r)"
    and "nfc_ndef_msg_encode msg buf l m = (code, l', m')"
  shows "same_outside buf (unat l) m m'" "code \<noteq> NRF_SUCCESS \<Longrightarrow> l' = l" "l' \<le> l"
  using msg_loop_frame [of msg 0 "unat (record_count msg)" 0 l buf m code l' m'] assms
  by (auto simp: msg_records_def nfc_ndef_msg_encode_def)

text \<open>A message whose records keep the contract can itself be the payload of a record.\<close>

lemma msg_payload_contract:
  assumes "\<forall>r \<in> set (msg_records msg). payload_contract (payload_constructor r)"
  shows "payload_contract (nfc_ndef_msg_encode msg)"
  by unfold_locales (use msg_frame [OF assms] in \<open>auto simp: word_le_nat_alt\<close>)

text \<open>The record described by a descriptor, as the output area \<open>area\<close> is filled and the memory
  around it is that of \<open>m0\<close>.\<close>

definition record_denotes :: "ptr \<Rightarrow> nat \<Rightarrow> mem \<Rightarrow> ndef_record_desc \<Rightarrow> ndef_value \<Rightarrow> bool" where
  "record_denotes area n m0 r v \<longleftrightarrow>
     payload_contract (payload_constructor r) \<and>
     disjoint_regions (p_type r) (unat (type_length r)) area n \<and>
     disjoint_regions (p_id r) (unat (id_length r)) area n \<and>
     fst v = tnf r \<and>
     fst (snd v) = mem_read (p_type r) (unat (type_length r)) m0 \<and>
     fst (snd (snd v)) = mem_read (p_id r) (unat (id_length r)) m0 \<and>
     emits (payload_constructor r) area n m0 (snd (snd (snd v)))"

lemma record_denotes_emits:
  assumes "record_denotes area n m0 r v" "loc AND NOT NDEF_RECORD_LOCATION_MASK = 0"
  shows "emits (nfc_ndef_record_encode r loc) area n m0 (value_bytes loc v)"
  using assms record_emits [of r area n m0 _ loc]
  by (cases v) (auto simp: record_denotes_def)

lemma bin_record_denotes:
  assumes "disjoint_regions qt (unat nt) area n" "disjoint_regions qi (unat ni) area n"
    and "disjoint_regions qp (unat np) area n"
  shows "record_denotes area n m0 (NFC_NDEF_RECORD_BIN_DATA_DEF t qi ni qt nt qp np)
    (t, mem_read qt (unat nt) m0, mem_read qi (unat ni) m0, mem_read qp (unat np) m0)"
  using assms bin_emits [of "\<lparr>p_payload = qp, payload_length = np\<rparr>" area n m0]
  by (simp add: record_denotes_def bin.payload_contract_axioms)

lemma msg_loop_emits:
  assumes den: "list_all2 (record_denotes area n m0) (msg_records msg) vs"
    and "length vs = i + k"
    and "s \<le> l" "area \<le> buf" "buf + unat (l - s) \<le> area + n" "same_outside area n m0 m"
  shows "if unat (l - s) < length (ndef_msg_bytes_from i vs)
    then fst (ndef_msg_encode_loop msg (of_nat i) buf l s m) = NRF_ERROR_NO_MEM
    else \<exists>m'. ndef_msg_encode_loop msg (of_nat i) buf l s m =
        (NRF_SUCCESS, s + of_nat (length (ndef_msg_bytes_from i vs)), m') \<and>
      mem_read buf (length (ndef_msg_bytes_from i vs)) m' = ndef_msg_bytes_from i vs"
  using assms(2-)
proof (induction k arbitrary: i buf s m)
  case 0
  have "length vs = unat (record_count msg)"
    using list_all2_lengthD [OF den] by (simp add: msg_records_def)
  with 0 have "i < 2 ^ 32" "i = unat (record_count msg)" using u32_less [of "record_count msg"] by auto
  then have "\<not> (of_nat i) < record_count msg" by (simp add: word_less_nat_alt unat_of_nat_less)
  with 0 show ?case by (simp add: msg_loop_end ndef_msg_bytes_from_end)
next
  case (Suc k)
  let ?rest = "ndef_msg_bytes_from (Suc i) vs"
  define bs where "bs = value_bytes (ndef_location i (length vs)) (vs ! i)"
  have len: "length vs = unat (record_count msg)"
    using list_all2_lengthD [OF den] by (simp add: msg_records_def)
  have i: "i < length vs" using Suc.prems(1) by simp
  define w where "w = (of_nat i :: u32)"
  have uw: "unat w = i" unfolding w_def using i len u32_less [of "record_count msg"]
    by (intro unat_of_nat_less) simp
  have wi: "w < record_count msg" using uw i len by (simp add: word_less_nat_alt)
  have wS: "of_nat (Suc i) = w + 1" by (simp add: w_def)
  have step: "ndef_msg_bytes_from i vs = bs @ ?rest"
    unfolding bs_def by (rule ndef_msg_bytes_from_step [OF i])
  have rd: "record_denotes area n m0 (pp_record msg i) (vs ! i)"
    using den i len by (auto simp: list_all2_conv_all_nth msg_records_def)
  have em: "emits (nfc_ndef_record_encode (pp_record msg (unat w)) (record_location_get w (record_count msg)))
      area n m0 bs"
    using record_denotes_emits [OF rd ndef_location_valid] record_location_get_eq [of i "record_count msg"] i len
    by (simp add: bs_def uw w_def [symmetric])
  note pre = Suc.prems(3,4,5)
  show ?case
  proof (cases "unat (l - s) < length bs")
    case True
    obtain code1 k1 m1 where enc: "nfc_ndef_record_encode (pp_record msg (unat w))
        (record_location_get w (record_count msg)) buf (l - s) m = (code1, k1, m1)"
      by (metis prod_cases3)
    with emits_full [OF em pre True] have "code1 = NRF_ERROR_NO_MEM" by simp
    then have "fst (ndef_msg_encode_loop msg w buf l s m) = NRF_ERROR_NO_MEM"
      unfolding msg_loop_step [OF wi enc] by simp
    with True show ?thesis unfolding step w_def [symmetric] by simp
  next
    case False
    then have lb: "length bs \<le> unat (l - s)" by simp
    obtain m1 where enc: "nfc_ndef_record_encode (pp_record msg (unat w))
        (record_location_get w (record_count msg)) buf (l - s) m = (NRF_SUCCESS, of_nat (length bs), m1)"
      and b1: "mem_read buf (length bs) m1 = bs"
      by (rule emits_ok [OF em pre lb])
    have ub: "unat (of_nat (length bs) :: u32) = length bs"
      using lb u32_less [of "l - s"] by (intro unat_of_nat_less) simp
    have pc: "payload_contract (payload_constructor (pp_record msg (unat w)))"
      using rd uw by (simp add: record_denotes_def)
    note F = ndef_record_encode_frame [OF pc enc]
    note B = word_add_le_bound [OF Suc.prems(2) F(3), unfolded ub]
    have area1: "same_outside area n m m1"
      by (rule same_outside_mono [OF F(1)]) (use pre in auto)
    have p: "length vs = Suc i + k" "s + of_nat (length bs) \<le> l" "area \<le> buf + length bs"
      "buf + length bs + unat (l - (s + of_nat (length bs))) \<le> area + n" "same_outside area n m0 m1"
      using Suc.prems(1) B pre lb area1 by (auto intro: same_outside_trans)
    note ih = Suc.IH [OF p, unfolded wS B(3)]
    have loop: "ndef_msg_encode_loop msg w buf l s m =
        ndef_msg_encode_loop msg (w + 1) (buf + length bs) l (s + of_nat (length bs)) m1"
      unfolding msg_loop_step [OF wi enc] by (simp add: ub)
    show ?thesis
    proof (cases "unat (l - s) - length bs < length ?rest")
      case True
      with ih loop lb show ?thesis unfolding step w_def [symmetric] by auto
    next
      case False
      then obtain m' where fin: "ndef_msg_encode_loop msg (w + 1) (buf + length bs) l
            (s + of_nat (length bs)) m1 = (NRF_SUCCESS, s + of_nat (length bs) + of_nat (length ?rest), m')"
        and rest: "mem_read (buf + length bs) (length ?rest) m' = ?rest" using ih by auto
      have "\<forall>j < unat (record_count msg). payload_contract (payload_constructor (pp_record msg j))"
        using den by (auto simp: list_all2_conv_all_nth record_denotes_def msg_records_def)
      moreover have "unat (record_count msg) = unat (w + 1) + k"
        using Suc.prems(1) len uw unat_Suc_less [OF wi] by simp
      ultimately have "same_outside (buf + length bs) (unat (l - (s + of_nat (length bs)))) m1 m'"
        using msg_loop_frame [OF _ _ B(2) fin] by blast
      then have "mem_read buf (length bs) m' = bs"
        using b1 by (subst mem_read_same_outside) (auto simp: disjoint_regions_def)
      with rest have "mem_read buf (length (bs @ ?rest)) m' = bs @ ?rest"
        by (simp add: mem_read_append)
      moreover have "\<not> unat (l - s) < length (bs @ ?rest)" using False lb by simp
      ultimately show ?thesis
        using loop fin unfolding step w_def [symmetric] by (auto simp: add.assoc)
    qed
  qed
qed

lemma msg_emits:
  assumes "list_all2 (record_denotes area n m0) (msg_records msg) vs"
  shows "emits (nfc_ndef_msg_encode msg) area n m0 (ndef_msg_bytes vs)"
  unfolding emits_def nfc_ndef_msg_encode_def
proof (intro allI impI, elim conjE)
  fix b and l :: u32 and m
  assume a: "area \<le> b" "b + unat l \<le> area + n" "same_outside area n m0 m"
  with msg_loop_emits [OF assms, of 0 "length vs" 0 l b m]
  show "if unat l < length (ndef_msg_bytes vs)
    then fst (ndef_msg_encode_loop msg 0 b l 0 m) = NRF_ERROR_NO_MEM
    else \<exists>m'. ndef_msg_encode_loop msg 0 b l 0 m = (NRF_SUCCESS, of_nat (length (ndef_msg_bytes vs)), m') \<and>
      mem_read b (length (ndef_msg_bytes vs)) m' = ndef_msg_bytes vs"
    by (simp split: if_splits)
qed

subsection \<open>What a successful encoding holds\<close>

text \<open>
  For constructors that do not emit known bytes (they may truncate, or ask the SoftDevice): \<open>v\<close>
  is a result of the record \<open>r\<close> if its payload is what some successful call of the constructor
  inside the output area left there.
\<close>

definition record_result :: "ptr \<Rightarrow> nat \<Rightarrow> mem \<Rightarrow> ndef_record_desc \<Rightarrow> ndef_value \<Rightarrow> bool" where
  "record_result area n m0 r v \<longleftrightarrow>
     fst v = tnf r \<and>
     fst (snd v) = mem_read (p_type r) (unat (type_length r)) m0 \<and>
     fst (snd (snd v)) = mem_read (p_id r) (unat (id_length r)) m0 \<and>
     (\<exists>b l m m'. area \<le> b \<and> b + unat l \<le> area + n \<and> same_outside area n m0 m \<and>
        payload_constructor r b l m = (NRF_SUCCESS, of_nat (length (snd (snd (snd v)))), m') \<and>
        length (snd (snd (snd v))) \<le> unat l \<and>
        mem_read b (length (snd (snd (snd v)))) m' = snd (snd (snd v)))"

definition record_safe :: "ptr \<Rightarrow> nat \<Rightarrow> ndef_record_desc \<Rightarrow> bool" where
  "record_safe area n r \<longleftrightarrow> payload_contract (payload_constructor r) \<and>
     disjoint_regions (p_type r) (unat (type_length r)) area n \<and>
     disjoint_regions (p_id r) (unat (id_length r)) area n"

lemma record_encode_result:
  assumes rs: "record_safe area n r" and pre: "area \<le> b" "b + unat l \<le> area + n" "same_outside area n m0 m"
    and enc: "nfc_ndef_record_encode r loc b l m = (NRF_SUCCESS, l', m')"
  shows "\<exists>v. record_result area n m0 r v \<and> length (value_bytes loc v) = unat l' \<and>
    mem_read b (unat l') m' = value_bytes loc v"
proof -
  let ?h = "record_header_size r"
  have pc: "payload_contract (payload_constructor r)"
    and dt: "disjoint_regions (p_type r) (unat (type_length r)) area n"
    and di: "disjoint_regions (p_id r) (unat (id_length r)) area n"
    using rs by (auto simp: record_safe_def)
  have dt': "disjoint_regions (p_type r) (unat (type_length r)) b (unat l)"
    and di': "disjoint_regions (p_id r) (unat (id_length r)) b (unat l)"
    using dt di pre by (auto intro: disjoint_regions_sub)
  note ok = ndef_record_encode_ok [OF pc dt' di' enc]
  obtain plen mp where q: "payload_constructor r (b + ?h) (l - record_header_size_calc r) (ndef_header_mem r loc b m) =
      (NRF_SUCCESS, plen, mp)" "unat l' = ?h + unat plen"
      "mem_read (b + ?h) (unat plen) m' = mem_read (b + ?h) (unat plen) mp"
    using ok(5) by blast
  have t: "mem_read (p_type r) (unat (type_length r)) m = mem_read (p_type r) (unat (type_length r)) m0"
    "mem_read (p_id r) (unat (id_length r)) m = mem_read (p_id r) (unat (id_length r)) m0"
    using pre(3) dt di by (auto intro: mem_read_same_outside)
  define v where "v = (tnf r, mem_read (p_type r) (unat (type_length r)) m0,
    mem_read (p_id r) (unat (id_length r)) m0, mem_read (b + ?h) (unat plen) m')"
  have bytes: "mem_read b (unat l') m' = value_bytes loc v"
    using ok(4) q(2) by (simp add: v_def t)
  have room: "?h \<le> unat l" using ok(1,2) by simp
  then have rem: "unat (l - record_header_size_calc r) = unat l - ?h"
    by (simp add: unat_sub word_le_nat_alt unat_header_size)
  have "same_outside area n m (ndef_header_mem r loc b m)"
    by (rule same_outside_mono [OF ndef_header_mem_frame [of r ?h]]) (use pre room in auto)
  then have "same_outside area n m0 (ndef_header_mem r loc b m)"
    using pre(3) by (blast intro: same_outside_trans)
  moreover have "unat plen \<le> unat (l - record_header_size_calc r)"
    by (rule payload_contract.pc_fits [OF pc q(1)])
  moreover have "area \<le> b + ?h" "b + ?h + unat (l - record_header_size_calc r) \<le> area + n"
    using pre rem room by simp_all
  ultimately have "record_result area n m0 r v"
    using q by (auto simp: record_result_def v_def)
  with bytes show ?thesis by (metis length_mem_read)
qed

lemma msg_loop_success:
  assumes safe: "\<forall>r \<in> set (msg_records msg). record_safe area n r"
    and "unat (record_count msg) = length ws + k"
    and "s \<le> l" "area \<le> buf" "buf + unat (l - s) \<le> area + n" "same_outside area n m0 m"
    and "ndef_msg_encode_loop msg (of_nat (length ws)) buf l s m = (NRF_SUCCESS, l', m')"
  shows "\<exists>vs. list_all2 (record_result area n m0) (drop (length ws) (msg_records msg)) vs \<and>
    unat l' = unat s + length (ndef_msg_bytes_from (length ws) (ws @ vs)) \<and>
    mem_read buf (length (ndef_msg_bytes_from (length ws) (ws @ vs))) m' = ndef_msg_bytes_from (length ws) (ws @ vs)"
  using assms(2-)
proof (induction k arbitrary: ws buf s m)
  case 0
  then have "\<not> (of_nat (length ws)) < record_count msg"
    using u32_less [of "record_count msg"] by (simp add: word_less_nat_alt unat_of_nat_less)
  with 0 show ?case
    by (intro exI [of _ "[]"]) (simp add: msg_loop_end ndef_msg_bytes_from_end msg_records_def)
next
  case (Suc k)
  define w where "w = (of_nat (length ws) :: u32)"
  have uw: "unat w = length ws" unfolding w_def using Suc.prems(1) u32_less [of "record_count msg"]
    by (intro unat_of_nat_less) simp
  have wi: "w < record_count msg" using uw Suc.prems(1) by (simp add: word_less_nat_alt)
  let ?r = "pp_record msg (length ws)"
  let ?loc = "record_location_get w (record_count msg)"
  have rm: "?r \<in> set (msg_records msg)"
    using Suc.prems(1) by (simp add: msg_records_def image_iff del: upt_Suc) (rule bexI [of _ "length ws"], auto)
  then have rs: "record_safe area n ?r" using safe by blast
  have loc: "?loc = ndef_location (length ws) (unat (record_count msg))"
    using record_location_get_eq [of "length ws" "record_count msg"] Suc.prems(1) by (simp add: w_def)
  obtain c1 k1 m1 where enc: "nfc_ndef_record_encode (pp_record msg (unat w)) ?loc buf (l - s) m = (c1, k1, m1)"
    by (metis prod_cases3)
  have loop: "ndef_msg_encode_loop msg w buf l s m = (NRF_SUCCESS, l', m')"
    using Suc.prems(6) by (simp add: w_def)
  have c1: "c1 = NRF_SUCCESS"
    using loop unfolding msg_loop_step [OF wi enc] by (auto split: if_splits)
  obtain v where v: "record_result area n m0 ?r v" "length (value_bytes ?loc v) = unat k1"
    "mem_read buf (unat k1) m1 = value_bytes ?loc v"
    using record_encode_result [OF rs Suc.prems(3-5)] enc c1 uw by metis
  have pc: "payload_contract (payload_constructor ?r)" using rs by (simp add: record_safe_def)
  note F = ndef_record_encode_frame [OF pc enc [unfolded uw]]
  note B = word_add_le_bound [OF Suc.prems(2) F(3)]
  have loop': "ndef_msg_encode_loop msg (w + 1) (buf + unat k1) l (s + k1) m1 = (NRF_SUCCESS, l', m')"
    using loop c1 unfolding msg_loop_step [OF wi enc] by simp
  have wS: "of_nat (length (ws @ [v])) = w + 1" by (simp add: w_def)
  have "same_outside area n m m1" by (rule same_outside_mono [OF F(1)]) (use Suc.prems in auto)
  then have p: "unat (record_count msg) = length (ws @ [v]) + k" "s + k1 \<le> l" "area \<le> buf + unat k1"
    "buf + unat k1 + unat (l - (s + k1)) \<le> area + n" "same_outside area n m0 m1"
    "ndef_msg_encode_loop msg (of_nat (length (ws @ [v]))) (buf + unat k1) l (s + k1) m1 = (NRF_SUCCESS, l', m')"
    using Suc.prems B F(3) loop' [folded wS] by (auto intro: same_outside_trans)
  obtain vs where vs: "list_all2 (record_result area n m0) (drop (length (ws @ [v])) (msg_records msg)) vs"
    "unat l' = unat (s + k1) + length (ndef_msg_bytes_from (length (ws @ [v])) ((ws @ [v]) @ vs))"
    "mem_read (buf + unat k1) (length (ndef_msg_bytes_from (length (ws @ [v])) ((ws @ [v]) @ vs))) m' =
      ndef_msg_bytes_from (length (ws @ [v])) ((ws @ [v]) @ vs)"
    using Suc.IH [OF p] by blast
  have lv: "length (ws @ v # vs) = unat (record_count msg)"
    using list_all2_lengthD [OF vs(1)] Suc.prems(1) by (simp add: msg_records_def)
  have step: "ndef_msg_bytes_from (length ws) (ws @ v # vs) =
      value_bytes ?loc v @ ndef_msg_bytes_from (length (ws @ [v])) ((ws @ [v]) @ vs)"
    using ndef_msg_bytes_from_step [of "length ws" "ws @ v # vs"] lv loc by (simp add: nth_append)
  have dr: "drop (length ws) (msg_records msg) = ?r # drop (length (ws @ [v])) (msg_records msg)"
    using Suc.prems(1) by (subst Cons_nth_drop_Suc [symmetric]) (simp_all add: msg_records_def del: upt_Suc)
  have "\<forall>j < unat (record_count msg). payload_contract (payload_constructor (pp_record msg j))"
    using safe by (auto simp: msg_records_def record_safe_def)
  moreover have "unat (record_count msg) = unat (w + 1) + k"
    using Suc.prems(1) uw unat_Suc_less [OF wi] by simp
  ultimately have "same_outside (buf + unat k1) (unat (l - (s + k1))) m1 m'"
    using msg_loop_frame [OF _ _ B(2) loop'] by blast
  then have "mem_read buf (unat k1) m' = mem_read buf (unat k1) m1"
    by (rule mem_read_same_outside) (simp add: disjoint_regions_def)
  then have "mem_read buf (length (ndef_msg_bytes_from (length ws) (ws @ v # vs))) m' =
      ndef_msg_bytes_from (length ws) (ws @ v # vs)"
    using v(2,3) vs(3) unfolding step length_append by (simp add: mem_read_append)
  moreover have "list_all2 (record_result area n m0) (drop (length ws) (msg_records msg)) (v # vs)"
    unfolding dr using v(1) vs(1) by simp
  moreover have "unat l' = unat s + length (ndef_msg_bytes_from (length ws) (ws @ v # vs))"
    using vs(2) B(1) v(2) step by simp
  ultimately show ?case by blast
qed

lemma msg_success:
  assumes "\<forall>r \<in> set (msg_records msg). record_safe buf (unat l) r"
    and "nfc_ndef_msg_encode msg buf l m = (NRF_SUCCESS, l', m')"
  shows "\<exists>vs. list_all2 (record_result buf (unat l) m) (msg_records msg) vs \<and>
    unat l' = length (ndef_msg_bytes vs) \<and> mem_read buf (unat l') m' = ndef_msg_bytes vs"
  using msg_loop_success [OF assms(1), of "[]" "unat (record_count msg)" 0 l buf m m l' m'] assms(2)
  by (auto simp: nfc_ndef_msg_encode_def)

subsection \<open>Properties\<close>

text \<open>C1. The message encoder. If every record of the message denotes a value while the output
  buffer is filled (its constructor keeps the contract and emits the value's payload, its type
  and ID bytes lie outside the buffer), then encoding succeeds exactly when the byte format of
  the whole message fits the buffer, and then the buffer holds that format and the reported
  length is its length; otherwise the code is \<open>NRF_ERROR_NO_MEM\<close> and the length is
  unchanged. Nothing outside the buffer is written in either case.\<close>

theorem ndef_msg_encode_spec:
  assumes den: "list_all2 (record_denotes buf (unat len) m) (msg_records msg) vs"
    and enc: "nfc_ndef_msg_encode msg buf len m = (code, len', m')"
  shows "same_outside buf (unat len) m m' \<and>
    (if length (ndef_msg_bytes vs) \<le> unat len
     then code = NRF_SUCCESS \<and> unat len' = length (ndef_msg_bytes vs) \<and>
       mem_read buf (unat len') m' = ndef_msg_bytes vs
     else code = NRF_ERROR_NO_MEM \<and> len' = len)"
proof -
  have pc: "\<forall>r \<in> set (msg_records msg). payload_contract (payload_constructor r)"
    using den by (auto simp: list_all2_conv_all_nth record_denotes_def in_set_conv_nth)
  note F = msg_frame [OF pc enc]
  show ?thesis
  proof (cases "length (ndef_msg_bytes vs) \<le> unat len")
    case True
    obtain m2 where "nfc_ndef_msg_encode msg buf len m = (NRF_SUCCESS, of_nat (length (ndef_msg_bytes vs)), m2)"
      "mem_read buf (length (ndef_msg_bytes vs)) m2 = ndef_msg_bytes vs"
      by (rule emits_ok [OF msg_emits [OF den]]) (use True in auto)
    moreover have "unat (of_nat (length (ndef_msg_bytes vs)) :: u32) = length (ndef_msg_bytes vs)"
      using True u32_less [of len] by (intro unat_of_nat_less) simp
    ultimately show ?thesis using enc F True by simp
  next
    case False
    then have "code = NRF_ERROR_NO_MEM"
      using emits_full [OF msg_emits [OF den], of buf len m] enc by simp
    with F False show ?thesis by simp
  qed
qed

lemma ndef_msg_encode_spec_witness:
  "let m = (\<lambda>a. of_nat a);
       r1 = NFC_NDEF_RECORD_BIN_DATA_DEF TNF_WELL_KNOWN 0 0 20 1 30 2;
       r2 = NFC_NDEF_RECORD_BIN_DATA_DEF TNF_MEDIA_TYPE 40 1 50 1 60 1;
       msg = \<lparr>pp_record = (\<lambda>i. if i = 0 then r1 else r2), max_record_count = 2, record_count = 2\<rparr>
   in case nfc_ndef_msg_encode msg 100 30 m of (code, len', m') \<Rightarrow>
     code = NRF_SUCCESS \<and>
     mem_read 100 (unat len') m' =
       [0x81, 1, 0, 0, 0, 2, 20, 30, 31, 0x4A, 1, 0, 0, 0, 1, 1, 50, 40, 60]"
proof -
  let ?m = "\<lambda>a. of_nat a :: u8"
  let ?r1 = "NFC_NDEF_RECORD_BIN_DATA_DEF TNF_WELL_KNOWN 0 0 20 1 30 2"
  let ?r2 = "NFC_NDEF_RECORD_BIN_DATA_DEF TNF_MEDIA_TYPE 40 1 50 1 60 1"
  let ?msg = "\<lparr>pp_record = (\<lambda>i. if i = 0 then ?r1 else ?r2), max_record_count = 2, record_count = 2\<rparr>"
  let ?vs = "[(TNF_WELL_KNOWN, [20], [], [30, 31]), (TNF_MEDIA_TYPE, [50], [40], [60 :: u8])]"
  have d: "record_denotes 100 (unat (30 :: u32)) ?m ?r1 (TNF_WELL_KNOWN, [20], [], [30, 31])"
    "record_denotes 100 (unat (30 :: u32)) ?m ?r2 (TNF_MEDIA_TYPE, [50], [40], [60])"
    using bin_record_denotes [of 20 1 100 30 0 0 30 2 ?m TNF_WELL_KNOWN]
      bin_record_denotes [of 50 1 100 30 40 1 60 1 ?m TNF_MEDIA_TYPE]
    by (simp_all add: disjoint_regions_def mem_read_2 mem_read_def)
  have "list_all2 (record_denotes 100 (unat (30 :: u32)) ?m) (msg_records ?msg) ?vs"
    using d by (simp add: msg_records_def upt_rec)
  note T = ndef_msg_encode_spec [OF this]
  have b: "ndef_msg_bytes ?vs = [0x81, 1, 0, 0, 0, 2, 20, 30, 31, 0x4A, 1, 0, 0, 0, 1, 1, 50, 40, 60]"
    by code_simp
  obtain code len' m' where e: "nfc_ndef_msg_encode ?msg 100 30 ?m = (code, len', m')"
    by (metis prod_cases3)
  have "length (ndef_msg_bytes ?vs) \<le> unat (30 :: u32)" unfolding b by simp
  then have "code = NRF_SUCCESS" "mem_read 100 (unat len') m' = ndef_msg_bytes ?vs"
    using T [OF e] by metis+
  then show ?thesis unfolding Let_def e b by blast
qed

end
