(* ===== verification/NdefParser.thy ===== *)
theory NdefParser
  imports NdefMsg
begin

text \<open>
  The NDEF record and message parsers (\<^verbatim>\<open>nfc/ndef/parser/record/nfc_ndef_record_parser.c\<close>,
  \<^verbatim>\<open>nfc/ndef/parser/message/nfc_ndef_msg_parser_local.c\<close> and
  \<^verbatim>\<open>nfc_ndef_msg_parser.c\<close>). A parser returns, besides its code, the new value of
  everything it writes through a pointer; it never writes the memory it reads.

  A record descriptor found by the parser has the binary payload constructor applied to the
  payload descriptor in the slot of the same index, which later records leave alone. The sizes
  used by \<open>ndef_parser_memo_resolve\<close> are those of the ARM procedure call standard: 4-byte
  pointers, 1-byte enumerations.
\<close>

unbundle bit_operations_syntax

subsection \<open>The record parser\<close>

definition tnf_of_code :: "u8 \<Rightarrow> nfc_ndef_record_tnf" where
  "tnf_of_code c =
     (if c = 0x00 then TNF_EMPTY else if c = 0x01 then TNF_WELL_KNOWN
      else if c = 0x02 then TNF_MEDIA_TYPE else if c = 0x03 then TNF_ABSOLUTE_URI
      else if c = 0x04 then TNF_EXTERNAL_TYPE else if c = 0x05 then TNF_UNKNOWN_TYPE
      else if c = 0x06 then TNF_UNCHANGED else TNF_RESERVED)"

definition ndef_record_parser ::
  "ndef_bin_payload_desc \<Rightarrow> ndef_record_desc \<Rightarrow> u8 \<Rightarrow> ptr \<Rightarrow> u32 \<Rightarrow> mem \<Rightarrow>
     ret_code \<times> ndef_bin_payload_desc \<times> ndef_record_desc \<times> u8 \<times> u32" where
  "ndef_record_parser bin rec loc p len m =
     (let expected = 2 + 1 in
      if expected > len then (NRF_ERROR_INVALID_LENGTH, bin, rec, loc, len)
      else
        let rec = rec\<lparr>tnf := tnf_of_code (m p AND NDEF_RECORD_TNF_MASK)\<rparr>;
            rec = (if tnf rec = TNF_RESERVED then rec\<lparr>tnf := TNF_UNKNOWN_TYPE\<rparr> else rec);
            loc = m p AND NDEF_RECORD_LOCATION_MASK;
            flags = m p;
            p = p + 1;
            rec = rec\<lparr>type_length := m p\<rparr>;
            p = p + 1;
            long = (flags AND NDEF_RECORD_SR_MASK = 0);
            expected = (if long then expected + (4 - 1) else expected)
        in
        if long \<and> expected > len then (NRF_ERROR_INVALID_LENGTH, bin, rec, loc, len)
        else
          let (payload_length, p) = (if long then (uint32_big_decode p m, p + 4) else (ucast (m p), p + 1));
              has_id = (flags AND NDEF_RECORD_IL_MASK \<noteq> 0);
              expected = (if has_id then expected + 1 else expected)
          in
          if has_id \<and> expected > len then (NRF_ERROR_INVALID_LENGTH, bin, rec, loc, len)
          else
            let (rec, p) = (if has_id then (rec\<lparr>id_length := m p\<rparr>, p + 1)
                            else (rec\<lparr>id_length := 0, p_id := NULL\<rparr>, p));
                expected = expected + (ucast (type_length rec) + ucast (id_length rec) + payload_length)
            in
            if expected > len then (NRF_ERROR_INVALID_LENGTH, bin, rec, loc, len)
            else
              let (rec, p) = (if type_length rec > 0 then (rec\<lparr>p_type := p\<rparr>, p + unat (type_length rec))
                              else (rec\<lparr>p_type := NULL\<rparr>, p));
                  (rec, p) = (if id_length rec > 0 then (rec\<lparr>p_id := p\<rparr>, p + unat (id_length rec))
                              else (rec, p));
                  bin = bin\<lparr>p_payload := (if payload_length = 0 then NULL else p),
                            payload_length := payload_length\<rparr>;
                  rec = rec\<lparr>payload_constructor := nfc_ndef_bin_payload_memcopy bin\<rparr>
              in (NRF_SUCCESS, bin, rec, loc, expected))"

subsection \<open>The message parser\<close>

record ndef_parser_memo_desc =
  memo_msg_desc :: ndef_msg_desc
  memo_bin_pay_desc :: "nat \<Rightarrow> ndef_bin_payload_desc"
  memo_rec_desc :: "nat \<Rightarrow> ndef_record_desc"

function ndef_msg_parse_loop ::
  "ndef_parser_memo_desc \<Rightarrow> nat \<Rightarrow> ptr \<Rightarrow> u32 \<Rightarrow> u32 \<Rightarrow> mem \<Rightarrow> ret_code \<times> ndef_parser_memo_desc \<times> u32" where
  "ndef_msg_parse_loop memo k p nfc_data_left nfc_data_len m =
     (if nfc_data_left > 0 then
        case ndef_record_parser (memo_bin_pay_desc memo k) (memo_rec_desc memo k) 0 p nfc_data_left m of
          (ret_code, bin, rec, record_location, temp_nfc_data_len) \<Rightarrow>
            let memo = memo\<lparr>memo_bin_pay_desc := (memo_bin_pay_desc memo)(k := bin),
                            memo_rec_desc := (memo_rec_desc memo)(k := rec)\<rparr>
            in
            if ret_code \<noteq> NRF_SUCCESS then (ret_code, memo, nfc_data_len)
            else if record_count (memo_msg_desc memo) = 0 \<and>
                record_location \<noteq> NDEF_FIRST_RECORD \<and> record_location \<noteq> NDEF_LONE_RECORD
              then (NRF_ERROR_INVALID_DATA, memo, nfc_data_len)
            else if record_count (memo_msg_desc memo) \<noteq> 0 \<and>
                record_location \<noteq> NDEF_MIDDLE_RECORD \<and> record_location \<noteq> NDEF_LAST_RECORD
              then (NRF_ERROR_INVALID_DATA, memo, nfc_data_len)
            else
              case nfc_ndef_msg_record_add (memo_msg_desc memo) rec of (ret_code, msg) \<Rightarrow>
                if ret_code \<noteq> NRF_SUCCESS then (ret_code, memo, nfc_data_len)
                else
                  let memo = memo\<lparr>memo_msg_desc := msg\<rparr>;
                      nfc_data_left = nfc_data_left - temp_nfc_data_len
                  in
                  if record_location = NDEF_LAST_RECORD \<or> record_location = NDEF_LONE_RECORD
                  then (NRF_SUCCESS, memo, nfc_data_len - nfc_data_left)
                  else if record_count msg = max_record_count msg
                  then (NRF_ERROR_NO_MEM, memo, nfc_data_len)
                  else ndef_msg_parse_loop memo (k + 1) (p + unat temp_nfc_data_len) nfc_data_left nfc_data_len m
      else (NRF_ERROR_INVALID_DATA, memo, nfc_data_len))"
  by pat_completeness auto

text \<open>The loop ends even when a record claims size 0: each round adds a record.\<close>

termination ndef_msg_parse_loop
proof (relation "measure (\<lambda>(memo, _).
    unat (max_record_count (memo_msg_desc memo) - record_count (memo_msg_desc memo)))", goal_cases)
  case 1
  show ?case by simp
next
  case 2
  then show ?case
    by (auto simp: nfc_ndef_msg_record_add_def linorder_not_le loop_measure split: if_splits)
qed

declare ndef_msg_parse_loop.simps [simp del]

definition internal_ndef_msg_parser ::
  "ndef_parser_memo_desc \<Rightarrow> ptr \<Rightarrow> u32 \<Rightarrow> mem \<Rightarrow> ret_code \<times> ndef_parser_memo_desc \<times> u32" where
  "internal_ndef_msg_parser memo p_nfc_data nfc_data_len m =
     ndef_msg_parse_loop memo 0 p_nfc_data nfc_data_len nfc_data_len m"

text \<open>Where the result buffer is cut into the message descriptor, the array of record
  pointers, the payload descriptors and the record descriptors.\<close>

record ndef_parser_layout =
  at_msg_desc :: ptr
  at_pp_record :: ptr
  at_bin_pay_desc :: ptr
  at_rec_desc :: ptr

abbreviation (input) sizeof_parsed_ndef_msg_1 :: u32 where "sizeof_parsed_ndef_msg_1 \<equiv> 48"
abbreviation (input) NFC_PARSER_M_DELTA :: u32 where "NFC_PARSER_M_DELTA \<equiv> 36"

definition ndef_parser_memo_resolve ::
  "ptr \<Rightarrow> u32 \<Rightarrow> (nat \<Rightarrow> ndef_record_desc) \<Rightarrow> ret_code \<times> u32 \<times> ndef_parser_layout option \<times> ndef_msg_desc option" where
  "ndef_parser_memo_resolve buf len old =
     (if len < sizeof_parsed_ndef_msg_1 then (NRF_ERROR_NO_MEM, len, None, None)
      else
        let memory_last = len - sizeof_parsed_ndef_msg_1;
            max_rec_num = memory_last div NFC_PARSER_M_DELTA + 1;
            n = unat max_rec_num;
            pp = buf + 12;
            bins = pp + 4 * n;
            recs = bins + 8 * n;
            p_end = recs + 24 * n
        in (NRF_SUCCESS, of_nat (p_end - buf),
            Some \<lparr>at_msg_desc = buf, at_pp_record = pp, at_bin_pay_desc = bins, at_rec_desc = recs\<rparr>,
            Some \<lparr>pp_record = old, max_record_count = max_rec_num, record_count = 0\<rparr>))"

text \<open>The descriptor arrays start with whatever the result buffer holds: \<open>bins\<close>, \<open>recs\<close> and
  \<open>old\<close>.\<close>

definition ndef_msg_parser ::
  "(nat \<Rightarrow> ndef_bin_payload_desc) \<Rightarrow> (nat \<Rightarrow> ndef_record_desc) \<Rightarrow> (nat \<Rightarrow> ndef_record_desc) \<Rightarrow>
     ptr \<Rightarrow> u32 \<Rightarrow> ptr \<Rightarrow> u32 \<Rightarrow> mem \<Rightarrow> ret_code \<times> ndef_parser_memo_desc option \<times> u32 \<times> u32" where
  "ndef_msg_parser bins recs old p_result_buf result_buf_len p_nfc_data nfc_data_len m =
     (case ndef_parser_memo_resolve p_result_buf result_buf_len old of
        (ret_code, result_buf_len, layout, msg) \<Rightarrow>
          case msg of
            None \<Rightarrow> (ret_code, None, result_buf_len, nfc_data_len)
          | Some msg \<Rightarrow>
              (case internal_ndef_msg_parser
                 \<lparr>memo_msg_desc = msg, memo_bin_pay_desc = bins, memo_rec_desc = recs\<rparr> p_nfc_data nfc_data_len m of
                 (ret_code, memo, nfc_data_len) \<Rightarrow> (ret_code, Some memo, result_buf_len, nfc_data_len)))"

subsection \<open>The record parser, field by field\<close>

text \<open>The fields a record header announces.\<close>

definition hdr_long :: "ptr \<Rightarrow> mem \<Rightarrow> bool" where
  "hdr_long p m \<longleftrightarrow> m p AND NDEF_RECORD_SR_MASK = 0"

definition hdr_has_id :: "ptr \<Rightarrow> mem \<Rightarrow> bool" where
  "hdr_has_id p m \<longleftrightarrow> m p AND NDEF_RECORD_IL_MASK \<noteq> 0"

definition hdr_base :: "ptr \<Rightarrow> mem \<Rightarrow> nat" where
  "hdr_base p m = (if hdr_long p m then 6 else 3)"

definition hdr_size :: "ptr \<Rightarrow> mem \<Rightarrow> nat" where
  "hdr_size p m = hdr_base p m + (if hdr_has_id p m then 1 else 0)"

definition hdr_payload_length :: "ptr \<Rightarrow> mem \<Rightarrow> u32" where
  "hdr_payload_length p m = (if hdr_long p m then uint32_big_decode (p + 2) m else ucast (m (p + 2)))"

definition hdr_id_length :: "ptr \<Rightarrow> mem \<Rightarrow> u8" where
  "hdr_id_length p m = (if hdr_has_id p m then m (p + hdr_base p m) else 0)"

definition hdr_tnf :: "ptr \<Rightarrow> mem \<Rightarrow> nfc_ndef_record_tnf" where
  "hdr_tnf p m = (let t = tnf_of_code (m p AND NDEF_RECORD_TNF_MASK)
                  in if t = TNF_RESERVED then TNF_UNKNOWN_TYPE else t)"

text \<open>The size the parser computes, in 32 bits.\<close>

definition hdr_expected :: "ptr \<Rightarrow> mem \<Rightarrow> u32" where
  "hdr_expected p m = of_nat (hdr_size p m) +
     (ucast (m (p + 1)) + ucast (hdr_id_length p m) + hdr_payload_length p m)"

definition parsed_bin :: "ptr \<Rightarrow> mem \<Rightarrow> ndef_bin_payload_desc" where
  "parsed_bin p m =
     \<lparr>p_payload = (if hdr_payload_length p m = 0 then NULL
                   else p + hdr_size p m + unat (m (p + 1)) + unat (hdr_id_length p m)),
      payload_length = hdr_payload_length p m\<rparr>"

definition parsed_rec :: "ndef_record_desc \<Rightarrow> ptr \<Rightarrow> mem \<Rightarrow> ndef_record_desc" where
  "parsed_rec old p m =
     \<lparr>tnf = hdr_tnf p m, id_length = hdr_id_length p m,
      p_id = (if hdr_id_length p m \<noteq> 0 then p + hdr_size p m + unat (m (p + 1))
              else if hdr_has_id p m then p_id old else NULL),
      type_length = m (p + 1),
      p_type = (if m (p + 1) = 0 then NULL else p + hdr_size p m),
      payload_constructor = nfc_ndef_bin_payload_memcopy (parsed_bin p m)\<rparr>"

lemmas hdr_defs = hdr_size_def hdr_base_def hdr_expected_def hdr_id_length_def hdr_payload_length_def

lemma ndef_record_parser_success:
  assumes "hdr_size p m \<le> unat len" "hdr_expected p m \<le> len"
  shows "ndef_record_parser bin rec loc p len m =
    (NRF_SUCCESS, parsed_bin p m, parsed_rec rec p m, m p AND NDEF_RECORD_LOCATION_MASK, hdr_expected p m)"
proof -
  have b: "3 \<le> unat len" using assms(1) by (simp add: hdr_size_def hdr_base_def split: if_splits)
  have n: "\<not> len < hdr_expected p m" using assms(2) by simp
  note S = ndef_record_parser_def Let_def hdr_defs hdr_long_def hdr_has_id_def
    word_gt_0 parsed_bin_def parsed_rec_def hdr_tnf_def
    add.commute [of 6 p] add.commute [of 7 p] add.commute [of 3 p] add.commute [of 4 p] add.assoc
  have len: "\<not> len < 3" "hdr_base p m = 6 \<Longrightarrow> \<not> len < 6"
    "hdr_size p m = 4 \<Longrightarrow> \<not> len < 4" "hdr_size p m = 7 \<Longrightarrow> \<not> len < 7"
    using assms(1) b by (auto simp: word_less_nat_alt hdr_size_def)
  obtain a1 a2 a3 a4 a5 a6 where R: "rec = \<lparr>tnf = a1, id_length = a2, p_id = a3,
      type_length = a4, p_type = a5, payload_constructor = a6\<rparr>" by (cases rec) auto
  obtain b1 b2 where B: "bin = \<lparr>p_payload = b1, payload_length = b2\<rparr>" by (cases bin) auto
  have sc: "p + 3 = Suc (Suc (Suc p))" "p + (3 + x) = Suc (Suc (Suc (p + x)))"
    "p + 4 = Suc (Suc (Suc (Suc p)))" "p + (4 + x) = Suc (Suc (Suc (Suc (p + x))))" for x by simp_all
  show ?thesis
    using assms(1) len n
    by (cases "hdr_long p m"; cases "hdr_has_id p m"; simp cong: if_cong add: S sc R B; simp add: ac_simps sc)
qed

lemma ndef_record_parser_short:
  assumes "unat len < hdr_size p m"
  shows "\<exists>rec' loc'. ndef_record_parser bin rec loc p len m = (NRF_ERROR_INVALID_LENGTH, bin, rec', loc', len)"
proof (cases "len < 3")
  case True
  then show ?thesis by (simp add: ndef_record_parser_def)
next
  case False
  have *: "hdr_long p m \<Longrightarrow> \<not> hdr_has_id p m \<Longrightarrow> len < 6"
    "hdr_long p m \<Longrightarrow> hdr_has_id p m \<Longrightarrow> len < 7"
    "\<not> hdr_long p m \<Longrightarrow> hdr_has_id p m \<Longrightarrow> len < 4" "hdr_long p m \<or> hdr_has_id p m"
    using assms False by (auto simp: word_less_nat_alt hdr_size_def hdr_base_def split: if_splits)
  show ?thesis using * False
    by (cases "hdr_long p m"; cases "hdr_has_id p m")
      (simp_all add: ndef_record_parser_def Let_def hdr_long_def hdr_has_id_def)
qed

lemma ndef_record_parser_too_long:
  assumes "hdr_size p m \<le> unat len" "len < hdr_expected p m"
  shows "\<exists>rec' loc'. ndef_record_parser bin rec loc p len m = (NRF_ERROR_INVALID_LENGTH, bin, rec', loc', len)"
proof -
  note S = ndef_record_parser_def Let_def hdr_defs hdr_long_def hdr_has_id_def
    add.commute [of 6 p] add.assoc
  have sc: "p + 3 = Suc (Suc (Suc p))" by simp
  have len: "\<not> len < 3" "hdr_base p m = 6 \<Longrightarrow> \<not> len < 6"
    "hdr_size p m = 4 \<Longrightarrow> \<not> len < 4" "hdr_size p m = 7 \<Longrightarrow> \<not> len < 7"
    using assms(1) by (auto simp: word_less_nat_alt hdr_size_def hdr_base_def split: if_splits)
  show ?thesis
    using assms len
    by (cases "hdr_long p m"; cases "hdr_has_id p m"; simp cong: if_cong add: S sc; simp add: ac_simps sc)
qed

lemma ndef_record_parser_success_iff:
  "fst (ndef_record_parser bin rec loc p len m) = NRF_SUCCESS \<longleftrightarrow>
    hdr_size p m \<le> unat len \<and> hdr_expected p m \<le> len"
  using ndef_record_parser_success [of p m len bin rec loc] ndef_record_parser_short [of len p m bin rec loc]
    ndef_record_parser_too_long [of p m len bin rec loc]
  by (cases "unat len < hdr_size p m"; cases "len < hdr_expected p m") (auto simp: not_less)

lemma ndef_record_parser_cong:
  assumes "mem_read p (unat len) m = mem_read p (unat len) m'"
  shows "ndef_record_parser bin rec loc p len m = ndef_record_parser bin rec loc p len m'"
proof -
  note at = mem_read_eqD [OF assms]
  have b: "\<not> len < 3 \<Longrightarrow> m p = m' p" "\<not> len < 3 \<Longrightarrow> m (Suc p) = m' (Suc p)"
    "\<not> len < 3 \<Longrightarrow> m (Suc (Suc p)) = m' (Suc (Suc p))"
    "\<not> len < 4 \<Longrightarrow> m (Suc (Suc (Suc p))) = m' (Suc (Suc (Suc p)))"
    "\<not> len < 7 \<Longrightarrow> m (6 + p) = m' (6 + p)"
    by (rule at; simp add: word_less_nat_alt)+
  have d: "\<not> len < 6 \<Longrightarrow> uint32_big_decode (Suc (Suc p)) m = uint32_big_decode (Suc (Suc p)) m'"
    by (rule uint32_big_decode_cong, rule mem_read_eq_mono [OF assms]) (simp_all add: word_less_nat_alt)
  show ?thesis
    unfolding ndef_record_parser_def Let_def
    by (simp cong: if_cong add: b d)
qed

subsection \<open>Parsing what the encoder writes\<close>

lemma location_bits:
  fixes loc :: u8
  assumes "loc AND NOT 0xC0 = 0"
  shows "loc AND 0xC0 = loc" "loc AND 7 = 0" "loc AND 8 = 0" "loc AND 16 = 0"
proof -
  have "loc = (loc AND 0xC0) OR (loc AND NOT 0xC0)"
    by (simp only: bit.conj_disj_distrib [symmetric] bit.disj_cancel_right bit.conj_one_right)
  with assms show *: "loc AND 0xC0 = loc" by simp
  have "(loc AND 0xC0) AND 7 = 0" "(loc AND 0xC0) AND 8 = 0" "(loc AND 0xC0) AND 16 = 0"
    by (simp_all add: and.assoc)
  then show "loc AND 7 = 0" "loc AND 8 = 0" "loc AND 16 = 0" unfolding * .
qed

lemma ndef_flags_bits:
  assumes "loc AND NOT 0xC0 = 0"
  shows "ndef_flags loc t ident AND NDEF_RECORD_LOCATION_MASK = loc"
    and "tnf_of_code (ndef_flags loc t ident AND NDEF_RECORD_TNF_MASK) = t"
    and "ndef_flags loc t ident AND NDEF_RECORD_SR_MASK = 0"
    and "ndef_flags loc t ident AND NDEF_RECORD_IL_MASK = 0 \<longleftrightarrow> ident = []"
  using location_bits [OF assms]
  by (cases t; simp add: ndef_flags_def bit.conj_disj_distrib2 tnf_of_code_def)+

text \<open>What holds of the memory when a record in long format lies at \<open>p\<close>.\<close>

lemma parsed_header:
  assumes bytes: "mem_read p (length bs) m = bs" "bs = ndef_record_bytes loc t typ ident payload"
    and loc: "loc AND NOT NDEF_RECORD_LOCATION_MASK = 0"
    and len: "length typ < 256" "length ident < 256" "length payload < 2 ^ 32"
  shows "m p AND NDEF_RECORD_LOCATION_MASK = loc"
    and "hdr_tnf p m = (if t = TNF_RESERVED then TNF_UNKNOWN_TYPE else t)"
    and "hdr_has_id p m \<longleftrightarrow> ident \<noteq> []"
    and "hdr_size p m = 6 + (if ident = [] then 0 else 1)"
    and "unat (m (p + 1)) = length typ"
    and "unat (hdr_id_length p m) = length ident"
    and "hdr_payload_length p m = of_nat (length payload)"
    and "mem_read (p + hdr_size p m) (length typ) m = typ"
    and "mem_read (p + hdr_size p m + length typ) (length ident) m = ident"
    and "mem_read (p + hdr_size p m + length typ + length ident) (length payload) m = payload"
proof -
  note F = ndef_flags_bits [OF loc, of t ident]
  define idl where "idl = (if ident = [] then [] else [of_nat (length ident) :: u8])"
  have bs: "bs = [ndef_flags loc t ident, of_nat (length typ)] @ uint32_big_bytes (of_nat (length payload)) @
      idl @ typ @ ident @ payload"
    unfolding bytes(2) ndef_record_bytes_def idl_def ..
  note R = bytes(1) [unfolded bs]
  have h: "mem_read p 2 m = [ndef_flags loc t ident, of_nat (length typ)]"
    using mem_read_prefix [OF R] by (simp add: numeral_2_eq_2)
  then have f: "m p = ndef_flags loc t ident" and tl: "m (p + 1) = of_nat (length typ)"
    by (simp_all add: mem_read_2)
  note R2 = mem_read_suffix [OF R]
  have "mem_read (p + 2) 4 m = uint32_big_bytes (of_nat (length payload))"
    using mem_read_prefix [OF R2] by (simp add: numeral_2_eq_2)
  then have pl: "uint32_big_decode (p + 2) m = of_nat (length payload)"
    by (rule uint32_big_decode_encode)
  have R3: "mem_read (p + 6) (length (idl @ typ @ ident @ payload)) m = idl @ typ @ ident @ payload"
    using mem_read_suffix [OF R2] by (simp add: eval_nat_numeral)
  have il: "ident \<noteq> [] \<Longrightarrow> m (p + 6) = of_nat (length ident)"
    using mem_read_prefix [OF R3] by (simp add: idl_def mem_read_Suc)
  show "m p AND NDEF_RECORD_LOCATION_MASK = loc" using F f by simp
  show "hdr_tnf p m = (if t = TNF_RESERVED then TNF_UNKNOWN_TYPE else t)"
    using F f by (simp add: hdr_tnf_def)
  show hi: "hdr_has_id p m \<longleftrightarrow> ident \<noteq> []" using F f by (simp add: hdr_has_id_def)
  have lg: "hdr_long p m" using F f by (simp add: hdr_long_def)
  then show hs: "hdr_size p m = 6 + (if ident = [] then 0 else 1)"
    using hi by (simp add: hdr_size_def hdr_base_def)
  show "unat (m (p + 1)) = length typ" unfolding tl by (rule unat_of_nat_less) (use len in simp)
  show "unat (hdr_id_length p m) = length ident"
    using hi lg il len by (auto simp: hdr_id_length_def hdr_base_def unat_of_nat_less)
  show "hdr_payload_length p m = of_nat (length payload)"
    using lg pl by (simp add: hdr_payload_length_def)
  have R4: "mem_read (p + hdr_size p m) (length (typ @ ident @ payload)) m = typ @ ident @ payload"
    using mem_read_suffix [OF R3] hs by (simp add: idl_def add.commute [of 7 p] split: if_splits)
  then show "mem_read (p + hdr_size p m) (length typ) m = typ" by (rule mem_read_prefix)
  note R5 = mem_read_suffix [OF R4]
  then show "mem_read (p + hdr_size p m + length typ) (length ident) m = ident" by (rule mem_read_prefix)
  show "mem_read (p + hdr_size p m + length typ + length ident) (length payload) m = payload"
    using mem_read_suffix [OF R5] .
qed

text \<open>A descriptor found by the parser stands for a value when its pointers lead to the
  value's bytes.\<close>

definition rec_value :: "mem \<Rightarrow> ndef_record_desc \<Rightarrow> ndef_bin_payload_desc \<Rightarrow> ndef_value" where
  "rec_value m rec bin =
     (tnf rec, mem_read (p_type rec) (unat (type_length rec)) m,
      mem_read (p_id rec) (unat (id_length rec)) m,
      mem_read (p_payload bin) (unat (payload_length bin)) m)"

lemma parse_record_bytes:
  assumes bytes: "mem_read p (length bs) m = bs" "bs = ndef_record_bytes loc t typ ident payload"
    and loc: "loc AND NOT NDEF_RECORD_LOCATION_MASK = 0"
    and len: "length typ < 256" "length ident < 256" and room: "length bs \<le> unat len" and t: "t \<noteq> TNF_RESERVED"
  obtains rec' bin' where
    "ndef_record_parser bin rec loc0 p len m = (NRF_SUCCESS, bin', rec', loc, of_nat (length bs))"
    "rec_value m rec' bin' = (t, typ, ident, payload)"
    "payload_constructor rec' = nfc_ndef_bin_payload_memcopy bin'"
proof -
  have lbs: "length bs = 6 + (if ident = [] then 0 else 1) + length typ + length ident + length payload"
    unfolding bytes(2) by (rule length_ndef_record_bytes)
  have bound: "length bs < 2 ^ 32" using room u32_less [of len] by simp
  then have pl: "length payload < 2 ^ 32" using lbs by simp
  note H = parsed_header [OF bytes loc len pl]
  have "ucast (m (p + 1)) = (of_nat (length typ) :: u32)"
    "ucast (hdr_id_length p m) = (of_nat (length ident) :: u32)"
    unfolding H(5,6) [symmetric] of_nat_unat by (rule refl)+
  then have e: "hdr_expected p m = of_nat (length bs)"
    unfolding hdr_expected_def lbs H(4,7) by simp
  have un: "unat (of_nat (length bs) :: u32) = length bs" using bound by (rule unat_of_nat_u32)
  have up: "unat (of_nat (length payload) :: u32) = length payload" using pl by (rule unat_of_nat_u32)
  have "hdr_size p m \<le> unat len" "hdr_expected p m \<le> len"
    using room un lbs H(4) by (auto simp: e word_le_nat_alt)
  note P = ndef_record_parser_success [OF this]
  have z: "m (p + 1) = 0 \<longleftrightarrow> typ = []" "hdr_id_length p m = 0 \<longleftrightarrow> ident = []"
    using H(5,6) by (auto simp: unat_eq_0)
  have "of_nat (length payload) = (0 :: u32) \<longleftrightarrow> payload = []"
    unfolding unat_eq_0 [symmetric] up by simp
  then have "rec_value m (parsed_rec rec p m) (parsed_bin p m) = (t, typ, ident, payload)"
    using H(2,5-10) t z by (auto simp: rec_value_def parsed_rec_def parsed_bin_def up)
  then show thesis
    using P that H(1) unfolding e by (metis parsed_rec_def ndef_record_desc.select_convs(6))
qed

subsection \<open>The message parser\<close>

lemma record_add_measure:
  "nfc_ndef_msg_record_add d r = (NRF_SUCCESS, d') \<Longrightarrow>
    unat (max_record_count d' - record_count d') < unat (max_record_count d - record_count d)"
  by (auto simp: nfc_ndef_msg_record_add_def linorder_not_le loop_measure split: if_splits)

text \<open>One round of the loop, for a record that was parsed.\<close>

definition location_ok :: "ndef_msg_desc \<Rightarrow> u8 \<Rightarrow> bool" where
  "location_ok msg loc \<longleftrightarrow>
     (if record_count msg = 0 then loc = NDEF_FIRST_RECORD \<or> loc = NDEF_LONE_RECORD
      else loc = NDEF_MIDDLE_RECORD \<or> loc = NDEF_LAST_RECORD)"

definition store_record :: "ndef_parser_memo_desc \<Rightarrow> nat \<Rightarrow> ndef_bin_payload_desc \<Rightarrow> ndef_record_desc \<Rightarrow>
    ndef_parser_memo_desc" where
  "store_record memo k bin rec =
     memo\<lparr>memo_bin_pay_desc := (memo_bin_pay_desc memo)(k := bin),
          memo_rec_desc := (memo_rec_desc memo)(k := rec)\<rparr>"

lemma msg_parse_loop_end: "ndef_msg_parse_loop memo k p 0 len m = (NRF_ERROR_INVALID_DATA, memo, len)"
  by (simp add: ndef_msg_parse_loop.simps)

lemma msg_parse_loop_step:
  assumes "left \<noteq> 0"
    and "ndef_record_parser (memo_bin_pay_desc memo k) (memo_rec_desc memo k) 0 p left m =
      (code, bin, rec, loc, temp)"
    and "nfc_ndef_msg_record_add (memo_msg_desc memo) rec = (code2, msg)"
  shows "ndef_msg_parse_loop memo k p left len m =
    (if code \<noteq> NRF_SUCCESS then (code, store_record memo k bin rec, len)
     else if \<not> location_ok (memo_msg_desc memo) loc
       then (NRF_ERROR_INVALID_DATA, store_record memo k bin rec, len)
     else if code2 \<noteq> NRF_SUCCESS then (code2, store_record memo k bin rec, len)
     else if loc = NDEF_LAST_RECORD \<or> loc = NDEF_LONE_RECORD
       then (NRF_SUCCESS, (store_record memo k bin rec)\<lparr>memo_msg_desc := msg\<rparr>, len - (left - temp))
     else if record_count msg = max_record_count msg
       then (NRF_ERROR_NO_MEM, (store_record memo k bin rec)\<lparr>memo_msg_desc := msg\<rparr>, len)
     else ndef_msg_parse_loop ((store_record memo k bin rec)\<lparr>memo_msg_desc := msg\<rparr>) (k + 1)
       (p + unat temp) (left - temp) len m)"
  using assms
  by (subst ndef_msg_parse_loop.simps) (simp add: Let_def word_gt_0 store_record_def location_ok_def)

lemma msg_parse_loop_cong:
  "mem_read p (unat left) m = mem_read p (unat left) m' \<Longrightarrow>
    ndef_msg_parse_loop memo k p left len m = ndef_msg_parse_loop memo k p left len m'"
proof (induction "unat (max_record_count (memo_msg_desc memo) - record_count (memo_msg_desc memo))"
    arbitrary: memo k p left rule: less_induct)
  case less
  show ?case
  proof (cases "left = 0")
    case True
    then show ?thesis by (simp add: msg_parse_loop_end)
  next
    case False
    obtain code bin rec loc temp where P: "ndef_record_parser (memo_bin_pay_desc memo k)
        (memo_rec_desc memo k) 0 p left m = (code, bin, rec, loc, temp)"
      by (metis prod_cases5)
    then have P': "ndef_record_parser (memo_bin_pay_desc memo k)
        (memo_rec_desc memo k) 0 p left m' = (code, bin, rec, loc, temp)"
      using ndef_record_parser_cong [OF less.prems] by metis
    obtain code2 msg where A: "nfc_ndef_msg_record_add (memo_msg_desc memo) rec = (code2, msg)"
      by fastforce
    let ?memo = "(store_record memo k bin rec)\<lparr>memo_msg_desc := msg\<rparr>"
    have "ndef_msg_parse_loop ?memo (k + 1) (p + unat temp) (left - temp) len m =
        ndef_msg_parse_loop ?memo (k + 1) (p + unat temp) (left - temp) len m'"
      if "code = NRF_SUCCESS" "code2 = NRF_SUCCESS"
    proof (rule less.hyps)
      show "unat (max_record_count (memo_msg_desc ?memo) - record_count (memo_msg_desc ?memo))
          < unat (max_record_count (memo_msg_desc memo) - record_count (memo_msg_desc memo))"
        using record_add_measure A that by simp
      have "temp \<le> left"
        using ndef_record_parser_success_iff [of "memo_bin_pay_desc memo k" "memo_rec_desc memo k" 0 p left m]
          ndef_record_parser_success [of p m left "memo_bin_pay_desc memo k" "memo_rec_desc memo k" 0] P that
        by simp
      then show "mem_read (p + unat temp) (unat (left - temp)) m = mem_read (p + unat temp) (unat (left - temp)) m'"
        by (intro mem_read_eq_mono [OF less.prems]) (simp_all add: unat_minus_le word_le_nat_alt)
    qed
    then show ?thesis
      unfolding msg_parse_loop_step [OF False P A] msg_parse_loop_step [OF False P' A] by simp
  qed
qed

lemma internal_ndef_msg_parser_cong:
  "mem_read p (unat len) m = mem_read p (unat len) m' \<Longrightarrow>
    internal_ndef_msg_parser memo p len m = internal_ndef_msg_parser memo p len m'"
  unfolding internal_ndef_msg_parser_def by (rule msg_parse_loop_cong)

lemma memo_resolve_msg:
  "ndef_parser_memo_resolve buf len old = (code, used, layout, msg) \<Longrightarrow>
    (if unat len < 48 then code = NRF_ERROR_NO_MEM \<and> used = len \<and> msg = None
     else code = NRF_SUCCESS \<and> (\<exists>d. msg = Some d \<and> record_count d = 0 \<and>
       unat (max_record_count d) = (unat len - 48) div 36 + 1 \<and>
       unat used = 12 + 36 * unat (max_record_count d) \<and> unat used \<le> unat len))"
proof -
  assume a: "ndef_parser_memo_resolve buf len old = (code, used, layout, msg)"
  define k where "k = (len - 48) div 36 + 1"
  show ?thesis
  proof (cases "unat len < 48")
    case True
    with a show ?thesis by (auto simp: ndef_parser_memo_resolve_def word_less_nat_alt)
  next
    case False
    then have n: "\<not> len < 48" by (simp add: word_less_nat_alt)
    have "unat (len - 48) = unat len - 48" using False by (simp add: unat_sub word_le_nat_alt)
    then have q: "unat ((len - 48) div 36) = (unat len - 48) div 36" by (simp add: unat_div)
    have k: "unat k = (unat len - 48) div 36 + 1"
      unfolding k_def using u32_less [of len] by (subst unat_plus_small) (auto simp: q)
    have le: "12 + 36 * unat k \<le> unat len" using False k by simp
    have "unat (of_nat (12 + 36 * unat k) :: u32) = 12 + 36 * unat k"
      by (rule unat_of_nat_u32) (use le u32_less [of len] in simp)
    moreover have "code = NRF_SUCCESS" "used = of_nat (12 + 36 * unat k)"
      "msg = Some \<lparr>pp_record = old, max_record_count = k, record_count = 0\<rparr>"
      using a n by (auto simp: ndef_parser_memo_resolve_def Let_def k_def algebra_simps)
    ultimately show ?thesis using le k False by (simp del: of_nat_add)
  qed
qed

subsection \<open>Parsing an encoded message\<close>

fun value_ok :: "ndef_value \<Rightarrow> bool" where
  "value_ok (t, typ, ident, payload) \<longleftrightarrow> t \<noteq> TNF_RESERVED \<and> length typ < 256 \<and> length ident < 256"

lemma value_ok_iff:
  "value_ok v \<longleftrightarrow> fst v \<noteq> TNF_RESERVED \<and> length (fst (snd v)) < 256 \<and> length (fst (snd (snd v))) < 256"
  by (cases v) simp

lemma parse_value_bytes:
  assumes "mem_read p (length bs) m = bs" "bs = value_bytes loc v" "value_ok v"
    and "loc AND NOT NDEF_RECORD_LOCATION_MASK = 0" "length bs \<le> unat len"
  obtains rec' bin' where
    "ndef_record_parser bin rec loc0 p len m = (NRF_SUCCESS, bin', rec', loc, of_nat (length bs))"
    "rec_value m rec' bin' = v" "payload_constructor rec' = nfc_ndef_bin_payload_memcopy bin'"
proof -
  obtain t ty ident payload where v: "v = (t, ty, ident, payload)" by (cases v)
  show thesis
    by (rule parse_record_bytes [of p bs m loc t ty ident payload len bin rec loc0])
      (use assms that in \<open>auto simp: v\<close>)
qed

lemma value_bytes_nonempty: "value_bytes loc v \<noteq> []"
  by (cases v) (simp add: ndef_record_bytes_def)

definition parsed_upto :: "mem \<Rightarrow> ndef_value list \<Rightarrow> nat \<Rightarrow> ndef_parser_memo_desc \<Rightarrow> bool" where
  "parsed_upto m vs i memo \<longleftrightarrow> (\<forall>j < i. rec_value m (memo_rec_desc memo j) (memo_bin_pay_desc memo j) = vs ! j \<and>
     payload_constructor (memo_rec_desc memo j) = nfc_ndef_bin_payload_memcopy (memo_bin_pay_desc memo j) \<and>
     pp_record (memo_msg_desc memo) j = memo_rec_desc memo j)"

lemma ndef_location_cases:
  assumes "i < n"
  shows "(ndef_location i n = NDEF_LAST_RECORD \<or> ndef_location i n = NDEF_LONE_RECORD) \<longleftrightarrow> Suc i = n"
    and "(ndef_location i n = NDEF_FIRST_RECORD \<or> ndef_location i n = NDEF_LONE_RECORD) \<longleftrightarrow> i = 0"
    and "(ndef_location i n = NDEF_MIDDLE_RECORD \<or> ndef_location i n = NDEF_LAST_RECORD) \<longleftrightarrow> i \<noteq> 0"
  using assms by (auto simp: ndef_location_def NDEF_LONE_RECORD_def NDEF_FIRST_RECORD_def
      NDEF_LAST_RECORD_def NDEF_MIDDLE_RECORD_def split: if_splits)

lemma msg_parse_loop_bytes:
  assumes ok: "\<forall>v \<in> set vs. value_ok v" and room: "length vs \<le> unat mx"
    and "length vs = i + n" "0 < n"
    and "mem_read p (length (ndef_msg_bytes_from i vs)) m = ndef_msg_bytes_from i vs"
    and "length (ndef_msg_bytes_from i vs) \<le> unat left"
    and "unat (record_count (memo_msg_desc memo)) = i" "max_record_count (memo_msg_desc memo) = mx"
    and "parsed_upto m vs i memo"
  shows "\<exists>memo'. ndef_msg_parse_loop memo i p left len m =
      (NRF_SUCCESS, memo', len - (left - of_nat (length (ndef_msg_bytes_from i vs)))) \<and>
    unat (record_count (memo_msg_desc memo')) = length vs \<and> parsed_upto m vs (length vs) memo'"
  using assms(3-)
proof (induction n arbitrary: i p left memo)
  case 0
  then show ?case by simp
next
  case (Suc n)
  define bs where "bs = value_bytes (ndef_location i (length vs)) (vs ! i)"
  let ?rest = "ndef_msg_bytes_from (Suc i) vs"
  have i: "i < length vs" using Suc.prems(1) by simp
  have step: "ndef_msg_bytes_from i vs = bs @ ?rest"
    unfolding bs_def by (rule ndef_msg_bytes_from_step [OF i])
  note mem = Suc.prems(3) [unfolded step]
  have lb: "length bs + length ?rest \<le> unat left" using Suc.prems(4) step by simp
  have left: "left \<noteq> 0" using lb value_bytes_nonempty [of "ndef_location i (length vs)" "vs ! i"]
    by (auto simp: bs_def)
  have ub: "unat (of_nat (length bs) :: u32) = length bs"
    using lb u32_less [of left] by (intro unat_of_nat_u32) simp
  obtain rec' bin' where P: "ndef_record_parser (memo_bin_pay_desc memo i) (memo_rec_desc memo i) 0 p left m =
      (NRF_SUCCESS, bin', rec', ndef_location i (length vs), of_nat (length bs))"
    and V: "rec_value m rec' bin' = vs ! i" "payload_constructor rec' = nfc_ndef_bin_payload_memcopy bin'"
    by (rule parse_value_bytes [OF mem_read_prefix [OF mem] bs_def _ ndef_location_valid, of left "memo_bin_pay_desc memo i"
          "memo_rec_desc memo i" 0]) (use ok i lb in auto)
  let ?msg0 = "memo_msg_desc memo"
  define msg where "msg = ?msg0\<lparr>pp_record := (pp_record ?msg0)(i := rec'), record_count := record_count ?msg0 + 1\<rparr>"
  have rc: "record_count ?msg0 < mx" using Suc.prems(5,6) i room by (simp add: word_less_nat_alt)
  then have A: "nfc_ndef_msg_record_add ?msg0 rec' = (NRF_SUCCESS, msg)"
    using Suc.prems(5,6) by (simp add: nfc_ndef_msg_record_add_def msg_def linorder_not_le)
  have cnt: "unat (record_count msg) = Suc i" using unat_Suc_less [OF rc] Suc.prems(5) by (simp add: msg_def)
  let ?memo = "(store_record memo i bin' rec')\<lparr>memo_msg_desc := msg\<rparr>"
  have upto: "parsed_upto m vs (Suc i) ?memo"
    using Suc.prems(7) V by (auto simp: parsed_upto_def store_record_def msg_def less_Suc_eq)
  have lok: "location_ok ?msg0 (ndef_location i (length vs))"
    using ndef_location_cases [OF i] Suc.prems(5) by (auto simp: location_ok_def unat_eq_0)
  note L = msg_parse_loop_step [OF left P A, of len] 
  show ?case
  proof (cases "Suc i = length vs")
    case True
    have "ndef_msg_parse_loop memo i p left len m = (NRF_SUCCESS, ?memo, len - (left - of_nat (length bs)))"
      unfolding L using lok ndef_location_cases(1) [OF i] True by simp
    then show ?thesis using True cnt upto by (simp add: step ndef_msg_bytes_from_end)
  next
    case False
    then have "record_count msg \<noteq> max_record_count msg"
      using cnt i room Suc.prems(6) by (auto simp: msg_def dest: arg_cong [where f = unat])
    then have next_round: "ndef_msg_parse_loop memo i p left len m =
        ndef_msg_parse_loop ?memo (Suc i) (p + length bs) (left - of_nat (length bs)) len m"
      unfolding L using lok ndef_location_cases(1) [OF i] False by (simp add: ub)
    have ul: "unat (left - of_nat (length bs)) = unat left - length bs"
      using lb ub by (subst unat_minus_le) (simp_all add: word_le_nat_alt)
    have pre: "length vs = Suc i + n" "0 < n" "length ?rest \<le> unat (left - of_nat (length bs))"
      "unat (record_count (memo_msg_desc ?memo)) = Suc i" "max_record_count (memo_msg_desc ?memo) = mx"
      using Suc.prems(1,6) False ul lb cnt by (auto simp: msg_def)
    obtain memo' where R: "ndef_msg_parse_loop ?memo (Suc i) (p + length bs) (left - of_nat (length bs)) len m =
        (NRF_SUCCESS, memo', len - (left - of_nat (length bs) - of_nat (length ?rest)))"
      "unat (record_count (memo_msg_desc memo')) = length vs" "parsed_upto m vs (length vs) memo'"
      using Suc.IH [OF pre(1,2) mem_read_suffix [OF mem] pre(3-5) upto] by blast
    then show ?thesis unfolding next_round step by (auto simp: diff_diff_add)
  qed
qed

subsection \<open>Properties\<close>

text \<open>The values of the records a parser result describes.\<close>

definition parsed_values :: "mem \<Rightarrow> ndef_parser_memo_desc \<Rightarrow> ndef_value list" where
  "parsed_values m memo =
     map (\<lambda>j. rec_value m (pp_record (memo_msg_desc memo) j) (memo_bin_pay_desc memo j))
       [0..<unat (record_count (memo_msg_desc memo))]"

lemma ndef_msg_parser_resolved:
  assumes "48 \<le> unat rlen"
  obtains msg used where
    "\<And>p len m. ndef_msg_parser bins recs old rbuf rlen p len m =
      (case internal_ndef_msg_parser \<lparr>memo_msg_desc = msg, memo_bin_pay_desc = bins, memo_rec_desc = recs\<rparr> p len m of
         (code, memo, len) \<Rightarrow> (code, Some memo, used, len))"
    "record_count msg = 0" "unat (max_record_count msg) = (unat rlen - 48) div 36 + 1"
    "unat used = 12 + 36 * unat (max_record_count msg)" "unat used \<le> unat rlen"
proof -
  obtain code used layout msg where R: "ndef_parser_memo_resolve rbuf rlen old = (code, used, layout, msg)"
    by (metis prod_cases4)
  from memo_resolve_msg [OF R] assms obtain d where "msg = Some d" "record_count d = 0"
    "unat (max_record_count d) = (unat rlen - 48) div 36 + 1"
    "unat used = 12 + 36 * unat (max_record_count d)" "unat used \<le> unat rlen" by auto
  with R that [of used d] show thesis by (simp add: ndef_msg_parser_def)
qed

text \<open>C2. Round trip. A message of record values (none with the reserved type name format)
  that was encoded into \<open>buf\<close> is parsed back into exactly these values, whatever follows it in
  the input and whatever the result buffer held before, if the result buffer has the size
  \<^verbatim>\<open>NFC_NDEF_PARSER_REQIRED_MEMO_SIZE_CALC\<close> gives for that many records; the parser reports the
  encoded length.\<close>

theorem ndef_msg_roundtrip:
  assumes den: "list_all2 (record_denotes buf (unat len) m) (msg_records msg) vs"
    and vs: "vs \<noteq> []" "\<forall>v \<in> set vs. fst v \<noteq> TNF_RESERVED"
    and enc: "nfc_ndef_msg_encode msg buf len m = (NRF_SUCCESS, len', m')"
    and rlen: "48 + 36 * (length vs - 1) \<le> unat rlen" and dlen: "len' \<le> dlen"
  shows "\<exists>memo used. ndef_msg_parser bins recs old rbuf rlen buf dlen m' = (NRF_SUCCESS, Some memo, used, len') \<and>
    parsed_values m' memo = vs"
proof -
  obtain d used where P: "\<And>p len m. ndef_msg_parser bins recs old rbuf rlen p len m =
      (case internal_ndef_msg_parser \<lparr>memo_msg_desc = d, memo_bin_pay_desc = bins, memo_rec_desc = recs\<rparr> p len m of
         (code, memo, len) \<Rightarrow> (code, Some memo, used, len))"
    and d: "record_count d = 0" "unat (max_record_count d) = (unat rlen - 48) div 36 + 1"
    by (rule ndef_msg_parser_resolved [of rlen bins recs old rbuf]) (use rlen in auto)
  have ok: "\<forall>v \<in> set vs. value_ok v"
  proof
    fix v assume v: "v \<in> set vs"
    then obtain r where "record_denotes buf (unat len) m r v"
      using den by (auto simp: list_all2_conv_all_nth in_set_conv_nth)
    then show "value_ok v"
      using bspec [OF vs(2) v] u8_less_256 [of "type_length r"] u8_less_256 [of "id_length r"]
      by (simp add: value_ok_iff record_denotes_def)
  qed
  note E = ndef_msg_encode_spec [OF den enc]
  have b: "length (ndef_msg_bytes vs) = unat len'" "mem_read buf (unat len') m' = ndef_msg_bytes vs"
    using E by (auto split: if_splits)
  have l': "of_nat (length (ndef_msg_bytes vs)) = len'" unfolding b(1) by simp
  have room: "length vs \<le> unat (max_record_count d)"
    unfolding d(2) using rlen vs(1) by (cases vs) auto
  have "\<exists>memo. ndef_msg_parse_loop \<lparr>memo_msg_desc = d, memo_bin_pay_desc = bins, memo_rec_desc = recs\<rparr>
        0 buf dlen dlen m' = (NRF_SUCCESS, memo, dlen - (dlen - of_nat (length (ndef_msg_bytes vs)))) \<and>
      unat (record_count (memo_msg_desc memo)) = length vs \<and> parsed_upto m' vs (length vs) memo"
    by (rule msg_parse_loop_bytes [OF ok room, of 0 "length vs"])
      (use vs(1) b dlen d in \<open>auto simp: word_le_nat_alt parsed_upto_def\<close>)
  then obtain memo where L: "ndef_msg_parse_loop \<lparr>memo_msg_desc = d, memo_bin_pay_desc = bins, memo_rec_desc = recs\<rparr>
        0 buf dlen dlen m' = (NRF_SUCCESS, memo, len')"
    and memo: "unat (record_count (memo_msg_desc memo)) = length vs" "parsed_upto m' vs (length vs) memo"
    unfolding l' by auto
  have "parsed_values m' memo = vs"
    unfolding parsed_values_def memo(1)
    by (rule nth_equalityI) (use memo(2) in \<open>auto simp: parsed_upto_def\<close>)
  with L show ?thesis unfolding P internal_ndef_msg_parser_def by simp
qed

lemma ndef_msg_roundtrip_witness:
  "let m = (\<lambda>a. of_nat a);
       r = NFC_NDEF_RECORD_BIN_DATA_DEF TNF_MEDIA_TYPE 40 1 50 1 60 1;
       msg = \<lparr>pp_record = (\<lambda>_. r), max_record_count = 1, record_count = 1\<rparr>
   in case nfc_ndef_msg_encode msg 100 30 m of (code, len', m') \<Rightarrow>
     \<exists>memo used. ndef_msg_parser (\<lambda>_. undefined) (\<lambda>_. undefined) (\<lambda>_. undefined) 1000 48 100 30 m' =
         (NRF_SUCCESS, Some memo, used, 10) \<and>
       parsed_values m' memo = [(TNF_MEDIA_TYPE, [50], [40], [60])]"
proof -
  let ?m = "\<lambda>a. of_nat a :: u8"
  let ?r = "NFC_NDEF_RECORD_BIN_DATA_DEF TNF_MEDIA_TYPE 40 1 50 1 60 1"
  let ?msg = "\<lparr>pp_record = (\<lambda>_. ?r), max_record_count = 1, record_count = 1\<rparr>"
  let ?vs = "[(TNF_MEDIA_TYPE, [50], [40], [60 :: u8])]"
  have "record_denotes 100 (unat (30 :: u32)) ?m ?r (TNF_MEDIA_TYPE, [50], [40], [60])"
    using bin_record_denotes [of 50 1 100 30 40 1 60 1 ?m TNF_MEDIA_TYPE]
    by (simp add: disjoint_regions_def mem_read_def)
  then have den: "list_all2 (record_denotes 100 (unat (30 :: u32)) ?m) (msg_records ?msg) ?vs"
    by (simp add: msg_records_def)
  have b: "length (ndef_msg_bytes ?vs) = 10" by code_simp
  obtain code len' m' where e: "nfc_ndef_msg_encode ?msg 100 30 ?m = (code, len', m')"
    by (metis prod_cases3)
  with ndef_msg_encode_spec [OF den e] have c: "code = NRF_SUCCESS" "unat len' = 10"
    by (simp_all add: b)
  then have l: "len' = 10" by (simp add: word_unat_eq_iff)
  show ?thesis
    using ndef_msg_roundtrip [OF den _ _ e [unfolded c(1)], of 48 30] e c l by (simp add: l)
qed





text \<open>Without that bound the record size wraps in 32 bits: this 6-byte input announces a
  payload of \<open>2 ^ 32 - 6\<close> bytes, and the parser accepts it as a record of size 0 whose payload
  starts behind the input; the message parser returns it as a complete message of size 0.\<close>

lemma ndef_record_parser_overflow:
  "let m = (\<lambda>_. 0)(100 := 0xC0, 102 := 0xFF, 103 := 0xFF, 104 := 0xFF, 105 := 0xFA)
   in (case ndef_record_parser bin rec loc 100 6 m of (code, bin', rec', loc', len') \<Rightarrow>
         code = NRF_SUCCESS \<and> payload_length bin' = 0xFFFFFFFA \<and> p_payload bin' = 106 \<and> len' = 0) \<and>
      (case ndef_msg_parser bins recs old 1000 48 100 6 m of (code, memo, used, len') \<Rightarrow>
         code = NRF_SUCCESS \<and> record_count (memo_msg_desc (the memo)) = 1 \<and> len' = 0)"
proof -
  let ?m = "(\<lambda>_. 0)(100 := 0xC0, 102 := 0xFF, 103 := 0xFF, 104 := 0xFF, 105 := 0xFA) :: mem"
  have r: "\<exists>rec'. ndef_record_parser bin rec loc 100 6 ?m =
      (NRF_SUCCESS, \<lparr>p_payload = 106, payload_length = 0xFFFFFFFA\<rparr>, rec', 0xC0, 0)" for bin rec loc
    by (cases bin) (simp add: ndef_record_parser_def uint32_big_decode_def Let_def)
  show ?thesis
    using r [of bin rec loc] r [of "bins 0" "recs 0" 0]
    by (auto simp: ndef_msg_parser_def internal_ndef_msg_parser_def ndef_parser_memo_resolve_def Let_def
        ndef_msg_parse_loop.simps [of _ 0] nfc_ndef_msg_record_add_def
        NDEF_LONE_RECORD_def NDEF_FIRST_RECORD_def)
qed

end
