(* ===== verification/NdefPayloads.thy ===== *)
theory NdefPayloads
  imports NdefMsg
begin

text \<open>
  The payload constructors and record and message builders of the NFC library:
  URI (\<^verbatim>\<open>nfc/ndef/uri/\<close>), text (\<^verbatim>\<open>nfc/ndef/text/\<close>), launch application
  (\<^verbatim>\<open>nfc/ndef/launchapp/\<close>), alternative carrier and handover select
  (\<^verbatim>\<open>nfc/ndef/connection_handover/ac_rec/\<close> and \<^verbatim>\<open>hs_rec/\<close>). A static constant array of the code is
  an address here; that it holds its initial value is a hypothesis of the lemmas that need it.
  Payload descriptors are passed by value.

  Each constructor is shown to keep the contract of \<open>payload_contract\<close> and to emit the payload
  bytes of its record type.
\<close>

unbundle bit_operations_syntax

subsection \<open>Generic records\<close>

definition NFC_NDEF_GENERIC_RECORD_DESC_DEF ::
  "nfc_ndef_record_tnf \<Rightarrow> ptr \<Rightarrow> u8 \<Rightarrow> ptr \<Rightarrow> u8 \<Rightarrow> payload_fn \<Rightarrow> ndef_record_desc" where
  "NFC_NDEF_GENERIC_RECORD_DESC_DEF TNF P_ID ID_LEN P_TYPE TYPE_LEN constructor =
     \<lparr>tnf = TNF, id_length = ID_LEN, p_id = P_ID, type_length = TYPE_LEN, p_type = P_TYPE,
      payload_constructor = constructor\<rparr>"

subsection \<open>URI records and messages\<close>

record uri_payload_desc =
  uri_id_code :: u8
  p_uri_data :: ptr
  uri_data_len :: u8

definition nfc_uri_payload_constructor :: "uri_payload_desc \<Rightarrow> payload_fn" where
  "nfc_uri_payload_constructor input p_buff len m =
     (if ucast (uri_data_len input) \<ge> len then (NRF_ERROR_NO_MEM, len, m)
      else
        let len = ucast (uri_data_len input) + 1;
            m = m(p_buff := uri_id_code input);
            p_buff = p_buff + 1;
            m = memcpy p_buff (p_uri_data input) (unat (uri_data_len input)) m
        in (NRF_SUCCESS, len, m))"

definition nfc_uri_rec_declare :: "ptr \<Rightarrow> u8 \<Rightarrow> ptr \<Rightarrow> u8 \<Rightarrow> ndef_record_desc" where
  "nfc_uri_rec_declare static_uri_type code data data_len =
     NFC_NDEF_GENERIC_RECORD_DESC_DEF TNF_WELL_KNOWN NULL 0 static_uri_type 1
       (nfc_uri_payload_constructor \<lparr>uri_id_code = code, p_uri_data = data, uri_data_len = data_len\<rparr>)"

text \<open>The static message descriptor of the code is the first argument; the descriptor to encode
  is \<open>None\<close> when the code leaves the output pointer alone.\<close>

definition nfc_uri_msg_declare ::
  "ndef_msg_desc \<Rightarrow> ptr \<Rightarrow> u8 \<Rightarrow> ptr \<Rightarrow> u8 \<Rightarrow> ret_code \<times> ndef_msg_desc option" where
  "nfc_uri_msg_declare static_msg static_uri_type code data data_len =
     (let msg = nfc_ndef_msg_clear (static_msg\<lparr>max_record_count := 1\<rparr>) in
      if data \<noteq> NULL then
        let p_uri_rec = nfc_uri_rec_declare static_uri_type code data data_len in
        case nfc_ndef_msg_record_add msg p_uri_rec of (err_code, msg) \<Rightarrow>
          if err_code \<noteq> NRF_SUCCESS then (err_code, None) else (NRF_SUCCESS, Some msg)
      else (NRF_ERROR_INVALID_PARAM, None))"

definition nfc_uri_msg_encode ::
  "ndef_msg_desc \<Rightarrow> ptr \<Rightarrow> u8 \<Rightarrow> ptr \<Rightarrow> u8 \<Rightarrow> ptr \<Rightarrow> u32 \<Rightarrow> mem \<Rightarrow> ret_code \<times> u32 \<times> mem" where
  "nfc_uri_msg_encode static_msg static_uri_type code data data_len p_buf len m =
     (case nfc_uri_msg_declare static_msg static_uri_type code data data_len of
        (err_code, None) \<Rightarrow> (err_code, len, m)
      | (err_code, Some msg) \<Rightarrow> nfc_ndef_msg_encode msg p_buf len m)"

subsection \<open>Text records\<close>

datatype UTF = UTF_8 | UTF_16

fun utf_code :: "UTF \<Rightarrow> u8" where
  "utf_code UTF_8 = 0"
| "utf_code UTF_16 = 1"

record text_rec_payload_desc =
  utf :: UTF
  p_lang_code :: ptr
  lang_code_len :: u8
  p_text_data :: ptr
  text_data_len :: u32

definition nfc_text_rec_payload_size_get :: "text_rec_payload_desc \<Rightarrow> u32" where
  "nfc_text_rec_payload_size_get d = 1 + ucast (lang_code_len d) + text_data_len d"

text \<open>The length pointer is never null where the record encoder calls the constructor, so that
  test of the code has no counterpart.\<close>

definition nfc_text_rec_payload_constructor :: "text_rec_payload_desc \<Rightarrow> payload_fn" where
  "nfc_text_rec_payload_constructor d p_buff len m =
     (if lang_code_len d = 0
        \<or> lang_code_len d AND push_bit 6 1 \<noteq> 0
        \<or> lang_code_len d AND push_bit 7 1 \<noteq> 0
        \<or> p_lang_code d = NULL
        \<or> text_data_len d = 0
        \<or> p_text_data d = NULL
        \<or> p_buff = NULL
      then (NRF_ERROR_INVALID_PARAM, len, m)
      else
        let payload_size = nfc_text_rec_payload_size_get d in
        if payload_size > len then (NRF_ERROR_NO_MEM, len, m)
        else
          let m = m(p_buff := lang_code_len d + push_bit 7 (utf_code (utf d)));
              p_buff = p_buff + 1;
              m = memcpy p_buff (p_lang_code d) (unat (lang_code_len d)) m;
              p_buff = p_buff + unat (lang_code_len d);
              m = memcpy p_buff (p_text_data d) (unat (text_data_len d)) m
          in (NRF_SUCCESS, payload_size, m))"

definition NFC_NDEF_TEXT_RECORD_DESC_DEF :: "ptr \<Rightarrow> text_rec_payload_desc \<Rightarrow> ndef_record_desc" where
  "NFC_NDEF_TEXT_RECORD_DESC_DEF nfc_text_rec_type_field d =
     NFC_NDEF_GENERIC_RECORD_DESC_DEF TNF_WELL_KNOWN NULL 0 nfc_text_rec_type_field 1
       (nfc_text_rec_payload_constructor d)"

subsection \<open>Launch application records and messages\<close>

record win_launchapp_payload_desc =
  platform :: ptr
  platform_length :: u8
  app_id :: ptr
  app_id_length :: u8

text \<open>Addresses of the static strings of \<^verbatim>\<open>nfc_launchapp_rec.c\<close>.\<close>

record launchapp_statics =
  launchapp_type_str :: ptr
  win_launchapp_type_str :: ptr
  win_phone_str :: ptr

definition nfc_android_application_rec_declare :: "launchapp_statics \<Rightarrow> ptr \<Rightarrow> u8 \<Rightarrow> ndef_record_desc" where
  "nfc_android_application_rec_declare st p_package_name package_name_length =
     NFC_NDEF_RECORD_BIN_DATA_DEF TNF_EXTERNAL_TYPE NULL 0 (launchapp_type_str st) 15
       p_package_name (ucast package_name_length)"

definition nfc_win_launchapp_payload_constructor :: "win_launchapp_payload_desc \<Rightarrow> payload_fn" where
  "nfc_win_launchapp_payload_constructor d p_buff len m =
     (let temp_len = ucast (platform_length d) + ucast (app_id_length d) + 7 in
      if temp_len > len then (NRF_ERROR_NO_MEM, len, m)
      else
        let len = temp_len;
            m = m(p_buff := 0x00); p_buff = p_buff + 1;
            m = m(p_buff := 0x01); p_buff = p_buff + 1;
            m = m(p_buff := platform_length d); p_buff = p_buff + 1;
            m = memcpy p_buff (platform d) (unat (platform_length d)) m;
            p_buff = p_buff + unat (platform_length d);
            m = m(p_buff := app_id_length d); p_buff = p_buff + 1;
            m = memcpy p_buff (app_id d) (unat (app_id_length d)) m;
            p_buff = p_buff + unat (app_id_length d);
            m = m(p_buff := 0x00); p_buff = p_buff + 1;
            m = m(p_buff := 0x01); p_buff = p_buff + 1;
            m = m(p_buff := 0x20)
        in (NRF_SUCCESS, len, m))"

definition nfc_windows_launchapp_rec_declare :: "launchapp_statics \<Rightarrow> ptr \<Rightarrow> u8 \<Rightarrow> ndef_record_desc" where
  "nfc_windows_launchapp_rec_declare st p_win_app_id win_app_id_length =
     NFC_NDEF_GENERIC_RECORD_DESC_DEF TNF_ABSOLUTE_URI NULL 0 (win_launchapp_type_str st) 21
       (nfc_win_launchapp_payload_constructor
          \<lparr>platform = win_phone_str st, platform_length = 12,
           app_id = p_win_app_id, app_id_length = win_app_id_length\<rparr>)"

definition nfc_launchapp_msg_declare ::
  "ndef_msg_desc \<Rightarrow> launchapp_statics \<Rightarrow> ptr \<Rightarrow> u8 \<Rightarrow> ptr \<Rightarrow> u8 \<Rightarrow> ret_code \<times> ndef_msg_desc option" where
  "nfc_launchapp_msg_declare static_msg st p_android_package_name android_package_name_length
       p_win_app_id win_app_id_length =
     (let msg = nfc_ndef_msg_clear (static_msg\<lparr>max_record_count := 2\<rparr>);
          (err_code, msg) =
            (if p_win_app_id \<noteq> NULL
             then nfc_ndef_msg_record_add msg (nfc_windows_launchapp_rec_declare st p_win_app_id win_app_id_length)
             else (NRF_SUCCESS, msg))
      in
      if err_code \<noteq> NRF_SUCCESS then (err_code, None)
      else
        let (err_code, msg) =
              (if p_android_package_name \<noteq> NULL
               then nfc_ndef_msg_record_add msg
                 (nfc_android_application_rec_declare st p_android_package_name android_package_name_length)
               else (NRF_SUCCESS, msg))
        in
        if err_code \<noteq> NRF_SUCCESS then (err_code, None)
        else if record_count msg = 0 then (NRF_ERROR_INVALID_PARAM, None)
        else (NRF_SUCCESS, Some msg))"

definition nfc_launchapp_msg_encode ::
  "ndef_msg_desc \<Rightarrow> launchapp_statics \<Rightarrow> ptr \<Rightarrow> u8 \<Rightarrow> ptr \<Rightarrow> u8 \<Rightarrow> ptr \<Rightarrow> u32 \<Rightarrow> mem \<Rightarrow>
     ret_code \<times> u32 \<times> mem" where
  "nfc_launchapp_msg_encode static_msg st p_android android_len p_win win_len p_buf len m =
     (case nfc_launchapp_msg_declare static_msg st p_android android_len p_win win_len of
        (err_code, None) \<Rightarrow> (err_code, len, m)
      | (err_code, Some msg) \<Rightarrow> nfc_ndef_msg_encode msg p_buf len m)"

subsection \<open>Alternative carrier records\<close>

abbreviation (input) NFC_AC_CPS_MASK :: u8 where "NFC_AC_CPS_MASK \<equiv> 0x03"

record ac_rec_data_ref =
  ref_length :: u8
  ref_data :: ptr

record ac_rec_payload_desc =
  cps :: u8
  carrier_data_ref :: ac_rec_data_ref
  max_aux_data_ref :: u8
  aux_data_ref_count :: u8
  p_aux_data_ref :: "nat \<Rightarrow> ac_rec_data_ref"

primrec ac_aux_size_loop :: "(nat \<Rightarrow> ac_rec_data_ref) \<Rightarrow> nat \<Rightarrow> u32 \<Rightarrow> u32" where
  "ac_aux_size_loop aux 0 payload_size = payload_size"
| "ac_aux_size_loop aux (Suc n) payload_size =
     ac_aux_size_loop (\<lambda>i. aux (Suc i)) n (payload_size + (ucast (ref_length (aux 0)) + 1))"

definition nfc_ac_rec_payload_size_get :: "ac_rec_payload_desc \<Rightarrow> u32" where
  "nfc_ac_rec_payload_size_get d =
     (let payload_size = 1;
          payload_size = payload_size + (ucast (ref_length (carrier_data_ref d)) + 1);
          payload_size = payload_size + 1
      in ac_aux_size_loop (p_aux_data_ref d) (unat (aux_data_ref_count d)) payload_size)"

primrec ac_aux_copy_loop :: "(nat \<Rightarrow> ac_rec_data_ref) \<Rightarrow> nat \<Rightarrow> ptr \<Rightarrow> mem \<Rightarrow> mem" where
  "ac_aux_copy_loop aux 0 p_buff m = m"
| "ac_aux_copy_loop aux (Suc n) p_buff m =
     (let m = m(p_buff := ref_length (aux 0));
          p_buff = p_buff + 1;
          m = memcpy p_buff (ref_data (aux 0)) (unat (ref_length (aux 0))) m;
          p_buff = p_buff + unat (ref_length (aux 0))
      in ac_aux_copy_loop (\<lambda>i. aux (Suc i)) n p_buff m)"

definition nfc_ac_rec_payload_constructor :: "ac_rec_payload_desc \<Rightarrow> payload_fn" where
  "nfc_ac_rec_payload_constructor d p_buff len m =
     (let payload_size = nfc_ac_rec_payload_size_get d in
      if payload_size > len then (NRF_ERROR_NO_MEM, len, m)
      else if cps d AND NOT NFC_AC_CPS_MASK \<noteq> 0 then (NRF_ERROR_INVALID_PARAM, len, m)
      else
        let m = m(p_buff := cps d);
            p_buff = p_buff + 1;
            m = m(p_buff := ref_length (carrier_data_ref d));
            p_buff = p_buff + 1;
            m = memcpy p_buff (ref_data (carrier_data_ref d)) (unat (ref_length (carrier_data_ref d))) m;
            p_buff = p_buff + unat (ref_length (carrier_data_ref d));
            m = m(p_buff := aux_data_ref_count d);
            p_buff = p_buff + 1;
            m = ac_aux_copy_loop (p_aux_data_ref d) (unat (aux_data_ref_count d)) p_buff m
        in (NRF_SUCCESS, payload_size, m))"

definition nfc_ac_rec_auxiliary_data_ref_clear :: "ac_rec_payload_desc \<Rightarrow> ac_rec_payload_desc" where
  "nfc_ac_rec_auxiliary_data_ref_clear d = d\<lparr>aux_data_ref_count := 0\<rparr>"

definition nfc_ac_rec_auxiliary_data_ref_add ::
  "ac_rec_payload_desc \<Rightarrow> ptr \<Rightarrow> u8 \<Rightarrow> ret_code \<times> ac_rec_payload_desc" where
  "nfc_ac_rec_auxiliary_data_ref_add d p_aux_data aux_length =
     (if aux_data_ref_count d \<ge> max_aux_data_ref d then (NRF_ERROR_NO_MEM, d)
      else (NRF_SUCCESS,
            d\<lparr>p_aux_data_ref := (p_aux_data_ref d)
                (unat (aux_data_ref_count d) := \<lparr>ref_length = aux_length, ref_data = p_aux_data\<rparr>),
              aux_data_ref_count := aux_data_ref_count d + 1\<rparr>))"

definition NFC_NDEF_AC_RECORD_DESC_DEF :: "ptr \<Rightarrow> ac_rec_payload_desc \<Rightarrow> ndef_record_desc" where
  "NFC_NDEF_AC_RECORD_DESC_DEF nfc_ac_rec_type_field d =
     NFC_NDEF_GENERIC_RECORD_DESC_DEF TNF_WELL_KNOWN NULL 0 nfc_ac_rec_type_field 2
       (nfc_ac_rec_payload_constructor d)"

subsection \<open>Handover select records\<close>

record hs_rec_payload_desc =
  major_version :: u8
  minor_version :: u8
  p_local_records :: ndef_msg_desc

text \<open>On a failure of the nested message the length variable keeps the decremented value.\<close>

definition nfc_hs_rec_payload_constructor :: "hs_rec_payload_desc \<Rightarrow> payload_fn" where
  "nfc_hs_rec_payload_constructor d p_buff len m =
     (if len < 1 then (NRF_ERROR_NO_MEM, len, m)
      else
        let m = m(p_buff := (push_bit 4 (major_version d) AND 0xF0) OR (minor_version d AND 0x0F));
            p_buff = p_buff + 1;
            len = len - 1
        in case nfc_ndef_msg_encode (p_local_records d) p_buff len m of (err_code, len, m) \<Rightarrow>
          if err_code \<noteq> NRF_SUCCESS then (err_code, len, m)
          else (NRF_SUCCESS, len + 1, m))"

definition nfc_hs_rec_local_record_clear :: "hs_rec_payload_desc \<Rightarrow> hs_rec_payload_desc" where
  "nfc_hs_rec_local_record_clear d = d\<lparr>p_local_records := nfc_ndef_msg_clear (p_local_records d)\<rparr>"

definition nfc_hs_rec_local_record_add ::
  "hs_rec_payload_desc \<Rightarrow> ndef_record_desc \<Rightarrow> ret_code \<times> hs_rec_payload_desc" where
  "nfc_hs_rec_local_record_add d p_local_rec =
     (case nfc_ndef_msg_record_add (p_local_records d) p_local_rec of
        (code, msg) \<Rightarrow> (code, d\<lparr>p_local_records := msg\<rparr>))"

definition NFC_NDEF_HS_RECORD_DESC_DEF :: "ptr \<Rightarrow> hs_rec_payload_desc \<Rightarrow> ndef_record_desc" where
  "NFC_NDEF_HS_RECORD_DESC_DEF nfc_hs_rec_type_field d =
     NFC_NDEF_GENERIC_RECORD_DESC_DEF TNF_WELL_KNOWN NULL 0 nfc_hs_rec_type_field 2
       (nfc_hs_rec_payload_constructor d)"

subsection \<open>Emitting by writing a list of bytes\<close>

lemma emitsI:
  assumes "\<And>b l m. area \<le> b \<Longrightarrow> b + unat l \<le> area + n \<Longrightarrow> same_outside area n m0 m \<Longrightarrow>
      unat l < length bs \<Longrightarrow> fst (f b l m) = NRF_ERROR_NO_MEM"
    and "\<And>b l m. area \<le> b \<Longrightarrow> b + unat l \<le> area + n \<Longrightarrow> same_outside area n m0 m \<Longrightarrow>
      length bs \<le> unat l \<Longrightarrow> f b l m = (NRF_SUCCESS, of_nat (length bs), mem_write b bs m)"
  shows "emits f area n m0 bs"
  unfolding emits_def using assms by (auto simp: mem_read_write_same)

subsection \<open>URI payloads\<close>

lemma uri_len: "len > ucast d \<Longrightarrow> unat (ucast d + 1 :: u32) = Suc (unat d)" for d :: u8 and len :: u32
  using unat_Suc_less [of "ucast d" len] by simp

interpretation uri: payload_contract "nfc_uri_payload_constructor d" for d
proof unfold_locales
  fix buf len m code len' m'
  assume a: "nfc_uri_payload_constructor d buf len m = (code, len', m')"
  show "same_outside buf (unat len) m m'"
    using a by (auto simp: nfc_uri_payload_constructor_def Let_def word_le_nat_alt
        split: if_splits intro!: frame_intros)
next
  fix buf len m len' m'
  assume "nfc_uri_payload_constructor d buf len m = (NRF_SUCCESS, len', m')"
  then show "unat len' \<le> unat len"
    by (auto simp: nfc_uri_payload_constructor_def Let_def uri_len linorder_not_le
        split: if_splits) (simp add: uri_len word_less_nat_alt)
qed

lemma uri_emits:
  assumes "disjoint_regions (p_uri_data d) (unat (uri_data_len d)) area n"
  shows "emits (nfc_uri_payload_constructor d) area n m0
    (uri_id_code d # mem_read (p_uri_data d) (unat (uri_data_len d)) m0)"
proof (rule emitsI)
  fix b and l :: u32 and m
  assume "unat l < length (uri_id_code d # mem_read (p_uri_data d) (unat (uri_data_len d)) m0)"
  then show "fst (nfc_uri_payload_constructor d b l m) = NRF_ERROR_NO_MEM"
    by (simp add: nfc_uri_payload_constructor_def word_le_nat_alt)
next
  fix b and l :: u32 and m
  assume a: "area \<le> b" "b + unat l \<le> area + n" "same_outside area n m0 m"
    and l: "length (uri_id_code d # mem_read (p_uri_data d) (unat (uri_data_len d)) m0) \<le> unat l"
  have "memcpy (b + length [uri_id_code d]) (p_uri_data d) (unat (uri_data_len d)) (mem_write b [uri_id_code d] m) =
      mem_write b ([uri_id_code d] @ mem_read (p_uri_data d) (unat (uri_data_len d)) m0) m"
    by (rule memcpy_snoc [OF assms a(3,1)]) (use a l in simp)
  with l show "nfc_uri_payload_constructor d b l m =
      (NRF_SUCCESS, of_nat (length (uri_id_code d # mem_read (p_uri_data d) (unat (uri_data_len d)) m0)),
       mem_write b (uri_id_code d # mem_read (p_uri_data d) (unat (uri_data_len d)) m0) m)"
    by (simp add: nfc_uri_payload_constructor_def Let_def word_le_nat_alt add.commute)
qed

subsection \<open>Text payloads\<close>

definition text_desc_ok :: "text_rec_payload_desc \<Rightarrow> bool" where
  "text_desc_ok d \<longleftrightarrow> lang_code_len d \<noteq> 0 \<and> unat (lang_code_len d) < 64 \<and> p_lang_code d \<noteq> NULL \<and>
     text_data_len d \<noteq> 0 \<and> p_text_data d \<noteq> NULL"

lemma below_64_iff: "w AND push_bit 6 1 = 0 \<and> w AND push_bit 7 1 = 0 \<longleftrightarrow> unat w < 64" for w :: u8
proof -
  have b: "w AND push_bit 6 1 = 0 \<longleftrightarrow> \<not> bit w 6" "w AND push_bit 7 1 = 0 \<longleftrightarrow> \<not> bit w 7"
    by (simp_all only: push_bit_eq_mult mult_1 and_exp_eq_0_iff_not_bit)
  have "unat w < 64 \<longleftrightarrow> take_bit 6 w = w"
    by (simp add: word_unat_eq_iff unsigned_take_bit_eq take_bit_nat_eq_self_iff)
  also have "\<dots> \<longleftrightarrow> \<not> bit w 6 \<and> \<not> bit w 7"
  proof
    assume e: "take_bit 6 w = w"
    have "\<not> bit (take_bit 6 w) 6 \<and> \<not> bit (take_bit 6 w) 7" by (simp add: bit_take_bit_iff)
    then show "\<not> bit w 6 \<and> \<not> bit w 7" unfolding e .
  next
    assume n: "\<not> bit w 6 \<and> \<not> bit w 7"
    show "take_bit 6 w = w"
    proof (rule bit_word_eqI)
      fix k assume "k < LENGTH(8)"
      then have "k < 6 \<or> k = 6 \<or> k = 7" by auto
      with n show "bit (take_bit 6 w) k = bit w k" by (auto simp: bit_take_bit_iff)
    qed
  qed
  finally show ?thesis using b by simp
qed

lemma text_constructor_eq:
  "nfc_text_rec_payload_constructor d b l m =
    (if \<not> text_desc_ok d \<or> b = NULL then (NRF_ERROR_INVALID_PARAM, l, m)
     else if nfc_text_rec_payload_size_get d > l then (NRF_ERROR_NO_MEM, l, m)
     else (NRF_SUCCESS, nfc_text_rec_payload_size_get d,
       memcpy (b + 1 + unat (lang_code_len d)) (p_text_data d) (unat (text_data_len d))
         (memcpy (b + 1) (p_lang_code d) (unat (lang_code_len d))
           (m(b := lang_code_len d + push_bit 7 (utf_code (utf d)))))))"
proof -
  have "text_desc_ok d \<longleftrightarrow> lang_code_len d \<noteq> 0 \<and> lang_code_len d AND push_bit 6 1 = 0 \<and>
      lang_code_len d AND push_bit 7 1 = 0 \<and> p_lang_code d \<noteq> NULL \<and> text_data_len d \<noteq> 0 \<and>
      p_text_data d \<noteq> NULL"
    using below_64_iff [of "lang_code_len d"] unfolding text_desc_ok_def by blast
  then show ?thesis unfolding nfc_text_rec_payload_constructor_def Let_def
    by (auto simp del: push_bit_of_1)
qed

lemma text_size:
  assumes "unat (text_data_len d) < 2 ^ 32 - 256"
  shows "unat (nfc_text_rec_payload_size_get d) = 1 + unat (lang_code_len d) + unat (text_data_len d)"
proof -
  note b = u8_less_256 [of "lang_code_len d"]
  have "unat (1 + ucast (lang_code_len d) :: u32) = 1 + unat (lang_code_len d)"
    using b by (subst unat_plus_small) simp_all
  then show ?thesis
    unfolding nfc_text_rec_payload_size_get_def using b assms by (subst unat_plus_small) simp_all
qed

text \<open>The size is computed in 32 bits, so the contract needs a text that is not within 256 bytes
  of \<open>2 ^ 32\<close>.\<close>

lemma text_contract:
  assumes "unat (text_data_len d) < 2 ^ 32 - 256"
  shows "payload_contract (nfc_text_rec_payload_constructor d)"
proof unfold_locales
  fix buf len m code len' m'
  assume "nfc_text_rec_payload_constructor d buf len m = (code, len', m')"
  then show "same_outside buf (unat len) m m'"
    using text_size [OF assms]
    by (auto simp: text_constructor_eq word_less_nat_alt split: if_splits intro!: frame_intros)
next
  fix buf len m len' m'
  assume "nfc_text_rec_payload_constructor d buf len m = (NRF_SUCCESS, len', m')"
  then show "unat len' \<le> unat len"
    by (auto simp: text_constructor_eq word_less_nat_alt split: if_splits)
qed

lemma text_emits:
  assumes len: "unat (text_data_len d) < 2 ^ 32 - 256" and ok: "text_desc_ok d" and area: "area \<noteq> NULL"
    and dl: "disjoint_regions (p_lang_code d) (unat (lang_code_len d)) area n"
    and dt: "disjoint_regions (p_text_data d) (unat (text_data_len d)) area n"
  shows "emits (nfc_text_rec_payload_constructor d) area n m0
    ((lang_code_len d + push_bit 7 (utf_code (utf d))) #
      mem_read (p_lang_code d) (unat (lang_code_len d)) m0 @
      mem_read (p_text_data d) (unat (text_data_len d)) m0)" (is "emits _ _ _ _ (?st # ?lang @ ?text)")
proof (rule emitsI)
  fix b and l :: u32 and m
  assume "area \<le> b" "unat l < length (?st # ?lang @ ?text)"
  then show "fst (nfc_text_rec_payload_constructor d b l m) = NRF_ERROR_NO_MEM"
    using ok area by (simp add: text_constructor_eq word_less_nat_alt text_size [OF len])
next
  fix b and l :: u32 and m
  assume a: "area \<le> b" "b + unat l \<le> area + n" "same_outside area n m0 m"
    and l: "length (?st # ?lang @ ?text) \<le> unat l"
  have 1: "memcpy (b + 1) (p_lang_code d) (unat (lang_code_len d)) (mem_write b [?st] m) = mem_write b ([?st] @ ?lang) m"
    by (rule memcpy_snoc' [OF _ dl a(3,1)]) (use a l in simp_all)
  have 2: "memcpy (b + 1 + unat (lang_code_len d)) (p_text_data d) (unat (text_data_len d))
      (mem_write b ([?st] @ ?lang) m) = mem_write b (([?st] @ ?lang) @ ?text) m"
    by (rule memcpy_snoc' [OF _ dt a(3,1)]) (use a l in simp_all)
  have c: "\<not> l < nfc_text_rec_payload_size_get d"
    using l by (simp add: word_less_nat_alt text_size [OF len])
  have "nfc_text_rec_payload_size_get d = of_nat (length (?st # ?lang @ ?text))"
    using text_size [OF len] by (metis length_Cons length_append length_mem_read add.assoc of_nat_unat plus_1_eq_Suc ucast_id)
  then show "nfc_text_rec_payload_constructor d b l m =
      (NRF_SUCCESS, of_nat (length (?st # ?lang @ ?text)), mem_write b (?st # ?lang @ ?text) m)"
    using 1 2 ok area a c by (simp add: text_constructor_eq)
qed

subsection \<open>Windows launch application payloads\<close>

lemma win_size: "unat (ucast a + ucast b + 7 :: u32) = unat a + unat b + 7" for a b :: u8
proof -
  note u = u8_less_256 [of a] u8_less_256 [of b]
  then have "unat (ucast a + ucast b :: u32) = unat a + unat b" by (subst unat_plus_small) simp_all
  with u show ?thesis by (subst unat_plus_small) simp_all
qed

interpretation win: payload_contract "nfc_win_launchapp_payload_constructor d" for d
proof unfold_locales
  fix buf len m code len' m'
  assume "nfc_win_launchapp_payload_constructor d buf len m = (code, len', m')"
  then show "same_outside buf (unat len) m m'"
    by (auto simp: nfc_win_launchapp_payload_constructor_def Let_def word_less_nat_alt win_size
        split: if_splits intro!: frame_intros)
next
  fix buf len m len' m'
  assume "nfc_win_launchapp_payload_constructor d buf len m = (NRF_SUCCESS, len', m')"
  then show "unat len' \<le> unat len"
    by (auto simp: nfc_win_launchapp_payload_constructor_def Let_def word_less_nat_alt split: if_splits)
qed

definition win_payload_bytes :: "win_launchapp_payload_desc \<Rightarrow> mem \<Rightarrow> u8 list" where
  "win_payload_bytes d m = [0, 1, platform_length d] @ mem_read (platform d) (unat (platform_length d)) m @
     [app_id_length d] @ mem_read (app_id d) (unat (app_id_length d)) m @ [0, 1, 0x20]"

lemma win_emits:
  assumes dp: "disjoint_regions (platform d) (unat (platform_length d)) area n"
    and da: "disjoint_regions (app_id d) (unat (app_id_length d)) area n"
  shows "emits (nfc_win_launchapp_payload_constructor d) area n m0 (win_payload_bytes d m0)"
proof (rule emitsI)
  fix b and l :: u32 and m
  assume "unat l < length (win_payload_bytes d m0)"
  then show "fst (nfc_win_launchapp_payload_constructor d b l m) = NRF_ERROR_NO_MEM"
    by (simp add: nfc_win_launchapp_payload_constructor_def word_less_nat_alt win_size win_payload_bytes_def Let_def)
next
  fix b and l :: u32 and m
  assume a: "area \<le> b" "b + unat l \<le> area + n" "same_outside area n m0 m"
    and l: "length (win_payload_bytes d m0) \<le> unat l"
  let ?pl = "unat (platform_length d)" and ?al = "unat (app_id_length d)"
  let ?h = "[0, 1, platform_length d]"
  let ?p = "mem_read (platform d) ?pl m0" and ?a = "mem_read (app_id d) ?al m0"
  have ll: "?pl + ?al + 7 \<le> unat l" using l by (simp add: win_payload_bytes_def)
  have c: "\<not> l < ucast (platform_length d) + ucast (app_id_length d) + 7"
    using ll by (simp add: word_less_nat_alt win_size)
  have sz: "ucast (platform_length d) + ucast (app_id_length d) + 7 = (of_nat (length (win_payload_bytes d m0)) :: u32)"
  proof -
    have "length (win_payload_bytes d m0) = unat (ucast (platform_length d) + ucast (app_id_length d) + 7 :: u32)"
      by (simp add: win_payload_bytes_def win_size)
    then show ?thesis by simp
  qed
  have 0: "m(b := 0, b + 1 := 1, b + 2 := platform_length d) = mem_write b ?h m"
    by (simp add: mem_write_Cons)
  have 1: "memcpy (b + 3) (platform d) ?pl (mem_write b ?h m) = mem_write b (?h @ ?p) m"
    by (rule memcpy_snoc' [OF _ dp a(3,1)]) (use a ll in simp_all)
  have 2: "(mem_write b (?h @ ?p) m)(b + 3 + ?pl := app_id_length d) =
      mem_write b ((?h @ ?p) @ [app_id_length d]) m"
    by (rule upd_snoc) simp
  have 3: "memcpy (b + 3 + ?pl + 1) (app_id d) ?al (mem_write b ((?h @ ?p) @ [app_id_length d]) m) =
      mem_write b (((?h @ ?p) @ [app_id_length d]) @ ?a) m"
    by (rule memcpy_snoc' [OF _ da a(3,1)]) (use a ll in simp_all)
  let ?q = "b + 3 + ?pl + 1 + ?al"
  have 4: "(mem_write b (((?h @ ?p) @ [app_id_length d]) @ ?a) m)(?q := 0, ?q + 1 := 1, ?q + 2 := 0x20) =
      mem_write b ((((?h @ ?p) @ [app_id_length d]) @ ?a) @ [0, 1, 0x20]) m"
  proof -
    let ?w = "mem_write b (((?h @ ?p) @ [app_id_length d]) @ ?a) m"
    have "?w(?q := 0, ?q + 1 := 1, ?q + 2 := 0x20) = mem_write ?q [0, 1, 0x20] ?w"
      by (simp add: mem_write_Cons)
    moreover have q: "?q = b + length (((?h @ ?p) @ [app_id_length d]) @ ?a)" by simp
    have "mem_write ?q [0, 1, 0x20] ?w = mem_write b ((((?h @ ?p) @ [app_id_length d]) @ ?a) @ [0, 1, 0x20]) m"
      unfolding q by (rule mem_write_append)
    ultimately show ?thesis by simp
  qed
  have "nfc_win_launchapp_payload_constructor d b l m =
      (NRF_SUCCESS, ucast (platform_length d) + ucast (app_id_length d) + 7,
       (memcpy (b + 3 + ?pl + 1) (app_id d) ?al ((memcpy (b + 3) (platform d) ?pl
         (m(b := 0, b + 1 := 1, b + 2 := platform_length d)))(b + 3 + ?pl := app_id_length d)))
         (?q := 0, ?q + 1 := 1, ?q + 2 := 0x20))"
    using c by (simp add: nfc_win_launchapp_payload_constructor_def Let_def eval_nat_numeral)
  then show "nfc_win_launchapp_payload_constructor d b l m =
      (NRF_SUCCESS, of_nat (length (win_payload_bytes d m0)), mem_write b (win_payload_bytes d m0) m)"
    unfolding 0 1 2 3 4 sz by (simp add: win_payload_bytes_def)
qed

subsection \<open>Alternative carrier payloads\<close>

definition ref_bytes :: "mem \<Rightarrow> ac_rec_data_ref \<Rightarrow> u8 list" where
  "ref_bytes m r = ref_length r # mem_read (ref_data r) (unat (ref_length r)) m"

definition aux_refs :: "ac_rec_payload_desc \<Rightarrow> ac_rec_data_ref list" where
  "aux_refs d = map (p_aux_data_ref d) [0..<unat (aux_data_ref_count d)]"

definition ac_payload_bytes :: "ac_rec_payload_desc \<Rightarrow> mem \<Rightarrow> u8 list" where
  "ac_payload_bytes d m = cps d # ref_bytes m (carrier_data_ref d) @
     aux_data_ref_count d # concat (map (ref_bytes m) (aux_refs d))"

lemma length_ref_bytes [simp]: "length (ref_bytes m r) = Suc (unat (ref_length r))"
  by (simp add: ref_bytes_def)

lemma map_upt_Suc_shift: "map f [0..<Suc n] = f 0 # map (\<lambda>i. f (Suc i)) [0..<n]"
  by (simp only: map_upt_Suc)

lemma ac_aux_size_loop_eq:
  "unat s + 256 * n < 2 ^ 32 \<Longrightarrow>
    unat (ac_aux_size_loop aux n s) = unat s + length (concat (map (ref_bytes m) (map aux [0..<n])))"
proof (induction n arbitrary: aux s)
  case 0
  then show ?case by simp
next
  case (Suc n)
  have u: "unat (ucast (ref_length (aux 0)) + 1 :: u32) = unat (ref_length (aux 0)) + 1"
    using u8_less_256 [of "ref_length (aux 0)"] by (subst unat_plus_small) simp_all
  have v: "unat (s + (ucast (ref_length (aux 0)) + 1)) = unat s + (unat (ref_length (aux 0)) + 1)"
    using Suc.prems u8_less_256 [of "ref_length (aux 0)"] by (subst unat_plus_small) (simp_all only: u, simp)
  show ?case
    using Suc.IH [of "s + (ucast (ref_length (aux 0)) + 1)" "\<lambda>i. aux (Suc i)"] Suc.prems
      u8_less_256 [of "ref_length (aux 0)"]
    by (simp add: v map_upt_Suc_shift o_def del: upt_Suc)
qed

lemma ac_size: "unat (nfc_ac_rec_payload_size_get d) = length (ac_payload_bytes d m)"
proof -
  let ?r = "ref_length (carrier_data_ref d)"
  note b = u8_less_256 [of ?r] u8_less_256 [of "aux_data_ref_count d"]
  have 1: "unat (ucast ?r + 1 :: u32) = unat ?r + 1" using b by (subst unat_plus_small) simp_all
  have 2: "unat (1 + (ucast ?r + 1) :: u32) = unat ?r + 2"
    using b by (subst unat_plus_small) (simp_all only: 1, simp_all)
  have 3: "unat (1 + (ucast ?r + 1) + 1 :: u32) = unat ?r + 3"
    using b by (subst unat_plus_small) (simp_all only: 2, simp_all)
  show ?thesis
    unfolding nfc_ac_rec_payload_size_get_def Let_def
    by (subst ac_aux_size_loop_eq [of _ _ _ m]) (use 3 b in \<open>simp_all add: ac_payload_bytes_def aux_refs_def\<close>)
qed

lemma ac_copy_loop_frame:
  "same_outside p (length (concat (map (ref_bytes m0) (map aux [0..<n])))) m (ac_aux_copy_loop aux n p m)"
proof (induction n arbitrary: aux p m)
  case 0
  then show ?case by simp
next
  case (Suc n)
  let ?k = "unat (ref_length (aux 0))"
  let ?m = "memcpy (p + 1) (ref_data (aux 0)) ?k (m(p := ref_length (aux 0)))"
  let ?tot = "length (concat (map (ref_bytes m0) (map aux [0..<Suc n])))"
  have tot: "?tot = 1 + ?k + length (concat (map (ref_bytes m0) (map (\<lambda>i. aux (Suc i)) [0..<n])))"
    by (simp add: map_upt_Suc_shift o_def del: upt_Suc)
  have "same_outside p ?tot m ?m" unfolding tot by (intro frame_intros same_outside_refl) auto
  moreover have "same_outside p ?tot ?m (ac_aux_copy_loop (\<lambda>i. aux (Suc i)) n (p + 1 + ?k) ?m)"
    by (rule same_outside_mono [OF Suc.IH], simp, unfold tot, simp)
  ultimately show ?case by (auto simp: Let_def intro: same_outside_trans)
qed

lemma ac_copy_loop_eq:
  assumes "same_outside area k m0 m" "area \<le> p"
    and "\<forall>i < n. disjoint_regions (ref_data (aux i)) (unat (ref_length (aux i))) area k"
    and "p + length xs + length (concat (map (ref_bytes m0) (map aux [0..<n]))) \<le> area + k"
  shows "ac_aux_copy_loop aux n (p + length xs) (mem_write p xs m) =
    mem_write p (xs @ concat (map (ref_bytes m0) (map aux [0..<n]))) m"
  using assms(3,4)
proof (induction n arbitrary: aux xs)
  case 0
  then show ?case by simp
next
  case (Suc n)
  let ?l = "ref_length (aux 0)"
  let ?d = "mem_read (ref_data (aux 0)) (unat ?l) m0"
  have tot: "concat (map (ref_bytes m0) (map aux [0..<Suc n])) =
      (?l # ?d) @ concat (map (ref_bytes m0) (map (\<lambda>i. aux (Suc i)) [0..<n]))"
    by (simp add: map_upt_Suc_shift o_def ref_bytes_def del: upt_Suc)
  have d: "disjoint_regions (ref_data (aux 0)) (unat ?l) area k" using Suc.prems(1) by simp
  have "(mem_write p xs m)(p + length xs := ?l) = mem_write p (xs @ [?l]) m" by (rule mem_write_snoc)
  moreover have "memcpy (p + length xs + 1) (ref_data (aux 0)) (unat ?l) (mem_write p (xs @ [?l]) m) =
      mem_write p ((xs @ [?l]) @ ?d) m"
    by (rule memcpy_snoc' [OF _ d assms(1,2)]) (use Suc.prems(2) tot in simp_all)
  ultimately have "ac_aux_copy_loop aux (Suc n) (p + length xs) (mem_write p xs m) =
      ac_aux_copy_loop (\<lambda>i. aux (Suc i)) n (p + length xs + 1 + unat ?l) (mem_write p ((xs @ [?l]) @ ?d) m)"
    by (simp only: ac_aux_copy_loop.simps Let_def)
  also have "\<dots> = ac_aux_copy_loop (\<lambda>i. aux (Suc i)) n (p + length (xs @ ?l # ?d)) (mem_write p (xs @ ?l # ?d) m)"
    by (simp add: add.assoc)
  also have "\<dots> = mem_write p ((xs @ ?l # ?d) @ concat (map (ref_bytes m0) (map (\<lambda>i. aux (Suc i)) [0..<n]))) m"
    by (rule Suc.IH) (use Suc.prems tot in \<open>simp_all del: upt_Suc\<close>)
  finally show ?case unfolding tot by simp
qed

lemma ac_constructor_eq:
  "nfc_ac_rec_payload_constructor d b l m =
    (if unat l < length (ac_payload_bytes d m0) then (NRF_ERROR_NO_MEM, l, m)
     else if cps d AND NOT NFC_AC_CPS_MASK \<noteq> 0 then (NRF_ERROR_INVALID_PARAM, l, m)
     else (NRF_SUCCESS, of_nat (length (ac_payload_bytes d m0)),
       ac_aux_copy_loop (p_aux_data_ref d) (unat (aux_data_ref_count d))
         (b + 2 + unat (ref_length (carrier_data_ref d)) + 1)
         ((memcpy (b + 2) (ref_data (carrier_data_ref d)) (unat (ref_length (carrier_data_ref d)))
            (m(b := cps d, b + 1 := ref_length (carrier_data_ref d))))
            (b + 2 + unat (ref_length (carrier_data_ref d)) := aux_data_ref_count d))))"
proof -
  have "l < nfc_ac_rec_payload_size_get d \<longleftrightarrow> unat l < length (ac_payload_bytes d m0)"
    by (simp add: word_less_nat_alt ac_size [of d m0])
  moreover have "nfc_ac_rec_payload_size_get d = of_nat (length (ac_payload_bytes d m0))"
    using ac_size [of d m0] by (metis of_nat_unat ucast_id)
  ultimately show ?thesis
    by (simp add: nfc_ac_rec_payload_constructor_def Let_def)
qed

lemma length_ac_payload_bytes:
  "length (ac_payload_bytes d m) = 3 + unat (ref_length (carrier_data_ref d)) +
    length (concat (map (ref_bytes m) (map (p_aux_data_ref d) [0..<unat (aux_data_ref_count d)])))"
  by (simp add: ac_payload_bytes_def aux_refs_def)

interpretation ac: payload_contract "nfc_ac_rec_payload_constructor d" for d
proof unfold_locales
  fix buf and len :: u32 and m code len' m'
  assume c: "nfc_ac_rec_payload_constructor d buf len m = (code, len', m')"
  show "same_outside buf (unat len) m m'"
  proof (cases "code = NRF_SUCCESS")
    case False
    with c show ?thesis
      unfolding ac_constructor_eq [of d buf len m m] by (auto split: if_splits)
  next
    case True
    let ?r = "unat (ref_length (carrier_data_ref d))"
    let ?m = "(memcpy (buf + 2) (ref_data (carrier_data_ref d)) ?r
      (m(buf := cps d, buf + 1 := ref_length (carrier_data_ref d))))(buf + 2 + ?r := aux_data_ref_count d)"
    from c True have room: "length (ac_payload_bytes d m) \<le> unat len"
      and m': "m' = ac_aux_copy_loop (p_aux_data_ref d) (unat (aux_data_ref_count d)) (buf + 2 + ?r + 1) ?m"
      unfolding ac_constructor_eq [of d buf len m m] by (auto split: if_splits)
    have "same_outside buf (unat len) m ?m"
      using room unfolding length_ac_payload_bytes by (intro frame_intros same_outside_refl) auto
    moreover have "same_outside buf (unat len) ?m m'"
      unfolding m' by (rule same_outside_mono [OF ac_copy_loop_frame [of _ m]])
        (use room in \<open>unfold length_ac_payload_bytes, simp_all\<close>)
    ultimately show ?thesis by (rule same_outside_trans)
  qed
next
  fix buf len m len' m'
  assume "nfc_ac_rec_payload_constructor d buf len m = (NRF_SUCCESS, len', m')"
  then show "unat len' \<le> unat len"
    by (auto simp: nfc_ac_rec_payload_constructor_def Let_def word_less_nat_alt split: if_splits)
qed

lemma ac_emits:
  assumes cps: "cps d AND NOT NFC_AC_CPS_MASK = 0"
    and dc: "disjoint_regions (ref_data (carrier_data_ref d)) (unat (ref_length (carrier_data_ref d))) area n"
    and da: "\<forall>r \<in> set (aux_refs d). disjoint_regions (ref_data r) (unat (ref_length r)) area n"
  shows "emits (nfc_ac_rec_payload_constructor d) area n m0 (ac_payload_bytes d m0)"
proof (rule emitsI)
  fix b and l :: u32 and m
  assume "unat l < length (ac_payload_bytes d m0)"
  then show "fst (nfc_ac_rec_payload_constructor d b l m) = NRF_ERROR_NO_MEM"
    unfolding ac_constructor_eq [of d b l m m0] by simp
next
  fix b and l :: u32 and m
  assume a: "area \<le> b" "b + unat l \<le> area + n" "same_outside area n m0 m"
    and l: "length (ac_payload_bytes d m0) \<le> unat l"
  note ll = l [unfolded length_ac_payload_bytes]
  let ?r = "ref_length (carrier_data_ref d)"
  let ?d = "mem_read (ref_data (carrier_data_ref d)) (unat ?r) m0"
  let ?h = "([cps d, ?r] @ ?d) @ [aux_data_ref_count d]"
  have 1: "m(b := cps d, b + 1 := ?r) = mem_write b [cps d, ?r] m" by (simp add: mem_write_Cons)
  have 2: "memcpy (b + 2) (ref_data (carrier_data_ref d)) (unat ?r) (mem_write b [cps d, ?r] m) =
      mem_write b ([cps d, ?r] @ ?d) m"
    by (rule memcpy_snoc' [OF _ dc a(3,1)]) (use a ll in simp_all)
  have 3: "(mem_write b ([cps d, ?r] @ ?d) m)(b + 2 + unat ?r := aux_data_ref_count d) = mem_write b ?h m"
    by (rule upd_snoc) simp
  have p: "b + 2 + unat ?r + 1 = b + length ?h" by simp
  have 4: "ac_aux_copy_loop (p_aux_data_ref d) (unat (aux_data_ref_count d)) (b + length ?h) (mem_write b ?h m) =
      mem_write b (?h @ concat (map (ref_bytes m0) (map (p_aux_data_ref d) [0..<unat (aux_data_ref_count d)]))) m"
    by (rule ac_copy_loop_eq [OF a(3,1)]) (use da a ll in \<open>simp_all add: aux_refs_def\<close>)
  have "nfc_ac_rec_payload_constructor d b l m = (NRF_SUCCESS, of_nat (length (ac_payload_bytes d m0)),
      mem_write b (?h @ concat (map (ref_bytes m0) (map (p_aux_data_ref d) [0..<unat (aux_data_ref_count d)]))) m)"
    unfolding ac_constructor_eq [of d b l m m0] 1 2 3 p 4 using l cps by simp
  then show "nfc_ac_rec_payload_constructor d b l m =
      (NRF_SUCCESS, of_nat (length (ac_payload_bytes d m0)), mem_write b (ac_payload_bytes d m0) m)"
    by (simp add: ac_payload_bytes_def ref_bytes_def aux_refs_def)
qed

subsection \<open>Handover select payloads\<close>

definition hs_version :: "hs_rec_payload_desc \<Rightarrow> u8" where
  "hs_version d = (push_bit 4 (major_version d) AND 0xF0) OR (minor_version d AND 0x0F)"

lemma hs_contract:
  assumes "payload_contract (nfc_ndef_msg_encode (p_local_records d))"
  shows "payload_contract (nfc_hs_rec_payload_constructor d)"
proof unfold_locales
  fix buf and len :: u32 and m code len' m'
  assume c: "nfc_hs_rec_payload_constructor d buf len m = (code, len', m')"
  show "same_outside buf (unat len) m m'"
  proof (cases "len < 1")
    case True
    with c show ?thesis by (auto simp: nfc_hs_rec_payload_constructor_def)
  next
    case False
    obtain code1 l1 m1 where e: "nfc_ndef_msg_encode (p_local_records d) (buf + 1) (len - 1)
        (m(buf := hs_version d)) = (code1, l1, m1)" by (metis prod_cases3)
    have u: "unat (len - 1) = unat len - 1" "0 < unat len"
      using False by (auto simp: unat_minus_one linorder_not_less unat_gt_0)
    have "same_outside (buf + 1) (unat (len - 1)) (m(buf := hs_version d)) m1"
      by (rule payload_contract.pc_frame [OF assms e])
    then have "same_outside buf (unat len) (m(buf := hs_version d)) m1"
      by (rule same_outside_mono) (use u in auto)
    moreover have "same_outside buf (unat len) m (m(buf := hs_version d))"
      using u by (intro frame_intros same_outside_refl) auto
    moreover have "m' = m1"
      using c e False by (auto simp: nfc_hs_rec_payload_constructor_def Let_def hs_version_def split: if_splits)
    ultimately show ?thesis by (auto intro: same_outside_trans)
  qed
next
  fix buf and len :: u32 and m len' m'
  assume c: "nfc_hs_rec_payload_constructor d buf len m = (NRF_SUCCESS, len', m')"
  then have n: "\<not> len < 1" by (auto simp: nfc_hs_rec_payload_constructor_def)
  obtain code1 l1 m1 where e: "nfc_ndef_msg_encode (p_local_records d) (buf + 1) (len - 1)
      (m(buf := hs_version d)) = (code1, l1, m1)" by (metis prod_cases3)
  have "unat (len - 1) = unat len - 1" "0 < unat len"
    using n by (auto simp: unat_minus_one linorder_not_less unat_gt_0)
  moreover have "code1 = NRF_SUCCESS" "len' = l1 + 1"
    using c e n by (auto simp: nfc_hs_rec_payload_constructor_def Let_def hs_version_def split: if_splits)
  moreover from this have "unat l1 \<le> unat (len - 1)" using payload_contract.pc_fits [OF assms] e by blast
  ultimately show "unat len' \<le> unat len" using u32_less [of len]
    by (subst \<open>len' = l1 + 1\<close>, subst unat_plus_small) auto
qed

lemma hs_emits:
  assumes pc: "payload_contract (nfc_ndef_msg_encode (p_local_records d))"
    and em: "emits (nfc_ndef_msg_encode (p_local_records d)) area n m0 bs"
  shows "emits (nfc_hs_rec_payload_constructor d) area n m0 (hs_version d # bs)"
  unfolding emits_def
proof (intro allI impI)
  fix b and l :: u32 and m
  assume a: "area \<le> b \<and> b + unat l \<le> area + n \<and> same_outside area n m0 m"
  show "if unat l < length (hs_version d # bs) then fst (nfc_hs_rec_payload_constructor d b l m) = NRF_ERROR_NO_MEM
    else \<exists>m'. nfc_hs_rec_payload_constructor d b l m = (NRF_SUCCESS, of_nat (length (hs_version d # bs)), m') \<and>
      mem_read b (length (hs_version d # bs)) m' = hs_version d # bs"
  proof (cases "l < 1")
    case True
    then show ?thesis by (auto simp: nfc_hs_rec_payload_constructor_def unat_eq_0)
  next
    case False
    let ?m = "m(b := hs_version d)"
    have u: "unat (l - 1) = unat l - 1" "0 < unat l"
      using False by (auto simp: unat_minus_one linorder_not_less unat_gt_0)
    have eq: "nfc_hs_rec_payload_constructor d b l m =
        (case nfc_ndef_msg_encode (p_local_records d) (b + 1) (l - 1) ?m of (err_code, len, m) \<Rightarrow>
          if err_code \<noteq> NRF_SUCCESS then (err_code, len, m) else (NRF_SUCCESS, len + 1, m))"
      using False by (simp add: nfc_hs_rec_payload_constructor_def Let_def hs_version_def)
    have "same_outside area n m ?m" using a u by (intro frame_intros same_outside_refl) auto
    with a u have pre: "area \<le> b + 1" "b + 1 + unat (l - 1) \<le> area + n" "same_outside area n m0 ?m"
      by (auto intro: same_outside_trans)
    show ?thesis
    proof (cases "unat (l - 1) < length bs")
      case True
      with emits_full [OF em pre] u show ?thesis by (auto simp: eq split_beta)
    next
      case False
      then obtain m' where e: "nfc_ndef_msg_encode (p_local_records d) (b + 1) (l - 1) ?m =
          (NRF_SUCCESS, of_nat (length bs), m')" "mem_read (b + 1) (length bs) m' = bs"
        using emits_ok [OF em pre] by (metis not_less)
      have "m' b = hs_version d"
        using payload_contract.pc_frame [OF pc e(1)] by (simp add: same_outside_def)
      with e False u show ?thesis by (simp add: eq mem_read_Suc)
    qed
  qed
qed

subsection \<open>Messages\<close>

lemma NFC_NDEF_GENERIC_RECORD_DESC_DEF_simps [simp]:
  "tnf (NFC_NDEF_GENERIC_RECORD_DESC_DEF t qi ni qt nt pc) = t"
  "id_length (NFC_NDEF_GENERIC_RECORD_DESC_DEF t qi ni qt nt pc) = ni"
  "p_id (NFC_NDEF_GENERIC_RECORD_DESC_DEF t qi ni qt nt pc) = qi"
  "type_length (NFC_NDEF_GENERIC_RECORD_DESC_DEF t qi ni qt nt pc) = nt"
  "p_type (NFC_NDEF_GENERIC_RECORD_DESC_DEF t qi ni qt nt pc) = qt"
  "payload_constructor (NFC_NDEF_GENERIC_RECORD_DESC_DEF t qi ni qt nt pc) = pc"
  by (simp_all add: NFC_NDEF_GENERIC_RECORD_DESC_DEF_def)

lemma generic_record_denotes:
  assumes "payload_contract pc" "emits pc area n m0 payload"
    and "disjoint_regions qt (unat nt) area n" "mem_read qt (unat nt) m0 = ty"
  shows "record_denotes area n m0 (NFC_NDEF_GENERIC_RECORD_DESC_DEF t NULL 0 qt nt pc) (t, ty, [], payload)"
  using assms by (simp add: record_denotes_def)

lemma nfc_uri_msg_declare_eq:
  "nfc_uri_msg_declare sm st code data dl =
    (if data = NULL then (NRF_ERROR_INVALID_PARAM, None)
     else (NRF_SUCCESS, Some \<lparr>pp_record = (pp_record sm)(0 := nfc_uri_rec_declare st code data dl),
       max_record_count = 1, record_count = 1\<rparr>))"
  by (cases sm) (simp add: nfc_uri_msg_declare_def nfc_ndef_msg_clear_def nfc_ndef_msg_record_add_def Let_def)

definition ascii :: "string \<Rightarrow> u8 list" where
  "ascii s = map of_char s"

text \<open>The value of a Windows launch record and of an Android application record.\<close>

definition win_value :: "mem \<Rightarrow> ptr \<Rightarrow> u8 \<Rightarrow> ndef_value" where
  "win_value m p n = (TNF_ABSOLUTE_URI, ascii ''windows.com/LaunchApp'', [],
     [0, 1, 12] @ ascii ''WindowsPhone'' @ [n] @ mem_read p (unat n) m @ [0, 1, 0x20])"

definition android_value :: "mem \<Rightarrow> ptr \<Rightarrow> u8 \<Rightarrow> ndef_value" where
  "android_value m p n = (TNF_EXTERNAL_TYPE, ascii ''android.com:pkg'', [], mem_read p (unat n) m)"

definition launchapp_statics_ok :: "mem \<Rightarrow> launchapp_statics \<Rightarrow> ptr \<Rightarrow> nat \<Rightarrow> bool" where
  "launchapp_statics_ok m st area n \<longleftrightarrow>
     mem_read (launchapp_type_str st) 15 m = ascii ''android.com:pkg'' \<and>
     mem_read (win_launchapp_type_str st) 21 m = ascii ''windows.com/LaunchApp'' \<and>
     mem_read (win_phone_str st) 12 m = ascii ''WindowsPhone'' \<and>
     disjoint_regions (launchapp_type_str st) 15 area n \<and>
     disjoint_regions (win_launchapp_type_str st) 21 area n \<and>
     disjoint_regions (win_phone_str st) 12 area n"

lemma win_record_denotes:
  assumes "launchapp_statics_ok m st area n" "disjoint_regions p (unat k) area n"
  shows "record_denotes area n m (nfc_windows_launchapp_rec_declare st p k) (win_value m p k)"
proof -
  let ?d = "\<lparr>platform = win_phone_str st, platform_length = 12, app_id = p, app_id_length = k\<rparr>"
  have "emits (nfc_win_launchapp_payload_constructor ?d) area n m (win_payload_bytes ?d m)"
    by (rule win_emits) (use assms in \<open>simp_all add: launchapp_statics_ok_def\<close>)
  moreover have "win_payload_bytes ?d m = snd (snd (snd (win_value m p k)))"
    using assms by (simp add: win_payload_bytes_def win_value_def launchapp_statics_ok_def)
  ultimately show ?thesis
    unfolding nfc_windows_launchapp_rec_declare_def win_value_def
    by (intro generic_record_denotes win.payload_contract_axioms)
      (use assms in \<open>simp_all add: launchapp_statics_ok_def\<close>)
qed

lemma android_record_denotes:
  assumes "launchapp_statics_ok m st area n" "disjoint_regions p (unat k) area n"
  shows "record_denotes area n m (nfc_android_application_rec_declare st p k) (android_value m p k)"
  using bin_record_denotes [of "launchapp_type_str st" 15 area n 0 0 p "ucast k" m TNF_EXTERNAL_TYPE] assms
  by (simp add: nfc_android_application_rec_declare_def android_value_def launchapp_statics_ok_def)

definition launchapp_values :: "mem \<Rightarrow> ptr \<Rightarrow> u8 \<Rightarrow> ptr \<Rightarrow> u8 \<Rightarrow> ndef_value list" where
  "launchapp_values m android an win wn =
     (if win = NULL then [] else [win_value m win wn]) @
     (if android = NULL then [] else [android_value m android an])"

lemma nfc_launchapp_msg_declare_cases:
  assumes "launchapp_statics_ok m st area n"
    and "disjoint_regions android (unat an) area n" "disjoint_regions win (unat wn) area n"
  shows "if android = NULL \<and> win = NULL
    then nfc_launchapp_msg_declare sm st android an win wn = (NRF_ERROR_INVALID_PARAM, None)
    else \<exists>msg. nfc_launchapp_msg_declare sm st android an win wn = (NRF_SUCCESS, Some msg) \<and>
      list_all2 (record_denotes area n m) (msg_records msg) (launchapp_values m android an win wn)"
proof -
  note D = win_record_denotes [OF assms(1,3)] android_record_denotes [OF assms(1,2)]
  have "unat (2 :: u32) = Suc (Suc 0)" by simp
  with D show ?thesis
    by (auto simp: nfc_launchapp_msg_declare_def nfc_ndef_msg_clear_def nfc_ndef_msg_record_add_def Let_def
        msg_records_def launchapp_values_def word_le_nat_alt upt_rec)
qed

subsection \<open>Properties\<close>

text \<open>URI messages. With \<open>'U'\<close> in the static type byte and the static byte and the URI
  outside the output buffer, a null URI is refused and nothing is written; otherwise encoding
  succeeds exactly when the \<open>8 + n\<close> bytes of the message fit, and then the buffer holds one long
  lone well-known record of type \<open>U\<close> whose payload is the identifier code and the URI. Nothing
  outside the buffer changes.\<close>

theorem nfc_uri_msg_encode_spec:
  assumes st: "mem_read st 1 m = [0x55]" "disjoint_regions st 1 buf (unat len)"
    and data: "disjoint_regions data (unat dl) buf (unat len)"
    and enc: "nfc_uri_msg_encode sm st code data dl buf len m = (err, len', m')"
  shows "same_outside buf (unat len) m m' \<and>
    (if data = NULL then err = NRF_ERROR_INVALID_PARAM \<and> len' = len \<and> m' = m
     else if unat len < 8 + unat dl then err = NRF_ERROR_NO_MEM \<and> len' = len
     else err = NRF_SUCCESS \<and> unat len' = 8 + unat dl \<and>
       mem_read buf (unat len') m' =
         [0xC1, 1] @ uint32_big_bytes (of_nat (Suc (unat dl))) @ [0x55, code] @ mem_read data (unat dl) m)"
proof (cases "data = NULL")
  case True
  with enc show ?thesis by (auto simp: nfc_uri_msg_encode_def nfc_uri_msg_declare_eq)
next
  case False
  let ?rec = "nfc_uri_rec_declare st code data dl"
  let ?msg = "\<lparr>pp_record = (pp_record sm)(0 := ?rec), max_record_count = 1, record_count = 1\<rparr>"
  let ?v = "(TNF_WELL_KNOWN, [0x55], [], code # mem_read data (unat dl) m)"
  have "emits (nfc_uri_payload_constructor \<lparr>uri_id_code = code, p_uri_data = data, uri_data_len = dl\<rparr>)
      buf (unat len) m (code # mem_read data (unat dl) m)"
    using uri_emits [of "\<lparr>uri_id_code = code, p_uri_data = data, uri_data_len = dl\<rparr>"] data by simp
  then have "record_denotes buf (unat len) m ?rec ?v"
    unfolding nfc_uri_rec_declare_def using st
    by (intro generic_record_denotes uri.payload_contract_axioms) simp_all
  then have den: "list_all2 (record_denotes buf (unat len) m) (msg_records ?msg) [?v]"
    by (simp add: msg_records_def)
  have bytes: "ndef_msg_bytes [?v] = [0xC1, 1] @ uint32_big_bytes (of_nat (Suc (unat dl))) @
      [0x55, code] @ mem_read data (unat dl) m"
    by (simp add: ndef_msg_bytes_from_def ndef_record_bytes_def ndef_flags_def ndef_location_def)
  have "nfc_ndef_msg_encode ?msg buf len m = (err, len', m')"
    using enc False by (simp add: nfc_uri_msg_encode_def nfc_uri_msg_declare_eq)
  from ndef_msg_encode_spec [OF den this] False show ?thesis
    unfolding bytes by (auto split: if_splits)
qed

lemma nfc_uri_msg_encode_spec_witness:
  "let m = (\<lambda>a. of_nat a);
       sm = \<lparr>pp_record = (\<lambda>_. NFC_NDEF_RECORD_BIN_DATA_DEF TNF_EMPTY 0 0 0 0 0 0),
             max_record_count = 1, record_count = 0\<rparr>
   in case nfc_uri_msg_encode sm 0x55 0x01 30 3 100 20 m of (err, len', m') \<Rightarrow>
     err = NRF_SUCCESS \<and> mem_read 100 (unat len') m' = [0xC1, 1, 0, 0, 0, 4, 0x55, 0x01, 30, 31, 32]"
proof -
  let ?m = "\<lambda>a. of_nat a :: u8"
  let ?sm = "\<lparr>pp_record = (\<lambda>_. NFC_NDEF_RECORD_BIN_DATA_DEF TNF_EMPTY 0 0 0 0 0 0),
    max_record_count = 1, record_count = 0\<rparr>"
  obtain err len' m' where e: "nfc_uri_msg_encode ?sm 0x55 0x01 30 3 100 20 ?m = (err, len', m')"
    by (metis prod_cases3)
  have "err = NRF_SUCCESS \<and> mem_read 100 (unat len') m' =
      [0xC1, 1] @ uint32_big_bytes (of_nat (Suc (unat (3 :: u8)))) @ [0x55, 0x01] @ mem_read 30 (unat (3 :: u8)) ?m"
  proof -
    have p: "mem_read 0x55 1 ?m = [0x55]" "disjoint_regions 0x55 1 100 (unat (20 :: u32))"
      "disjoint_regions 30 (unat (3 :: u8)) 100 (unat (20 :: u32))"
      by (simp_all add: mem_read_def disjoint_regions_def)
    have "(30 :: ptr) \<noteq> NULL" "\<not> unat (20 :: u32) < 8 + unat (3 :: u8)" by simp_all
    with nfc_uri_msg_encode_spec [OF p e] show ?thesis by metis
  qed
  moreover have "[0xC1, 1] @ uint32_big_bytes (of_nat (Suc (unat (3 :: u8)))) @ [0x55, 0x01] @
      mem_read 30 (unat (3 :: u8)) ?m = [0xC1, 1, 0, 0, 0, 4, 0x55, 0x01, 30, 31, 32]"
    by (simp add: uint32_big_bytes_def mem_read_def upt_rec)
  ultimately show ?thesis
    unfolding Let_def e by simp
qed

text \<open>Launch application messages. With the static strings in place and everything that
  is copied outside the output buffer: without any identifier the call is refused and nothing is
  written; otherwise it succeeds exactly when the message fits, and the buffer then holds the
  Windows record, if a Windows identifier was given, followed by the Android record, if a
  package name was given, with the flags of their positions. Nothing outside the buffer
  changes.\<close>

lemma nfc_launchapp_msg_encode_spec:
  assumes st: "launchapp_statics_ok m st buf (unat len)"
    and da: "disjoint_regions android (unat an) buf (unat len)"
    and dw: "disjoint_regions win (unat wn) buf (unat len)"
    and enc: "nfc_launchapp_msg_encode sm st android an win wn buf len m = (err, len', m')"
  defines "bytes \<equiv> ndef_msg_bytes (launchapp_values m android an win wn)"
  shows "same_outside buf (unat len) m m' \<and>
    (if android = NULL \<and> win = NULL then err = NRF_ERROR_INVALID_PARAM \<and> len' = len \<and> m' = m
     else if unat len < length bytes then err = NRF_ERROR_NO_MEM \<and> len' = len
     else err = NRF_SUCCESS \<and> unat len' = length bytes \<and> mem_read buf (unat len') m' = bytes)"
proof (cases "android = NULL \<and> win = NULL")
  case True
  with nfc_launchapp_msg_declare_cases [OF st da dw, of sm] enc show ?thesis
    by (auto simp: nfc_launchapp_msg_encode_def)
next
  case False
  with nfc_launchapp_msg_declare_cases [OF st da dw, of sm] obtain msg where
    d: "nfc_launchapp_msg_declare sm st android an win wn = (NRF_SUCCESS, Some msg)"
    and den: "list_all2 (record_denotes buf (unat len) m) (msg_records msg) (launchapp_values m android an win wn)"
    by auto
  have "nfc_ndef_msg_encode msg buf len m = (err, len', m')"
    using enc by (simp add: nfc_launchapp_msg_encode_def d)
  from ndef_msg_encode_spec [OF den this] False show ?thesis
    unfolding bytes_def by (auto simp: not_less split: if_splits)
qed

lemma nfc_launchapp_msg_encode_spec_witness:
  "let m = mem_write 100 (ascii ''android.com:pkgwindows.com/LaunchAppWindowsPhoneab'') (\<lambda>_. 0);
       st = \<lparr>launchapp_type_str = 100, win_launchapp_type_str = 115, win_phone_str = 136\<rparr>;
       sm = \<lparr>pp_record = (\<lambda>_. NFC_NDEF_RECORD_BIN_DATA_DEF TNF_EMPTY 0 0 0 0 0 0),
             max_record_count = 2, record_count = 0\<rparr>
   in case nfc_launchapp_msg_encode sm st 148 2 NULL 0 200 50 m of (err, len', m') \<Rightarrow>
     err = NRF_SUCCESS \<and> mem_read 200 (unat len') m' =
       [0xC4, 15, 0, 0, 0, 2] @ ascii ''android.com:pkg'' @ ascii ''ab''"
proof -
  let ?s = "''android.com:pkgwindows.com/LaunchAppWindowsPhoneab''"
  let ?m = "mem_write 100 (ascii ?s) (\<lambda>_. 0)"
  let ?st = "\<lparr>launchapp_type_str = 100, win_launchapp_type_str = 115, win_phone_str = 136\<rparr>"
  let ?sm = "\<lparr>pp_record = (\<lambda>_. NFC_NDEF_RECORD_BIN_DATA_DEF TNF_EMPTY 0 0 0 0 0 0),
    max_record_count = 2, record_count = 0\<rparr>"
  have r: "mem_read 100 15 ?m = ascii ''android.com:pkg''" "mem_read 115 21 ?m = ascii ''windows.com/LaunchApp''"
    "mem_read 136 12 ?m = ascii ''WindowsPhone''" "mem_read 148 2 ?m = ascii ''ab''"
    by code_simp+
  have ok: "launchapp_statics_ok ?m ?st 200 (unat (50 :: u32))"
    using r by (simp add: launchapp_statics_ok_def disjoint_regions_def)
  have b: "ndef_msg_bytes (launchapp_values ?m 148 2 NULL 0) =
      [0xC4, 15, 0, 0, 0, 2] @ ascii ''android.com:pkg'' @ ascii ''ab''"
    using r(4) by (simp add: launchapp_values_def android_value_def ndef_msg_bytes_from_def ndef_record_bytes_def
        ndef_flags_def ndef_location_def uint32_big_bytes_def ascii_def)
  obtain err len' m' where e: "nfc_launchapp_msg_encode ?sm ?st 148 2 NULL 0 200 50 ?m = (err, len', m')"
    by (metis prod_cases3)
  have "\<not> unat (50 :: u32) < length (ndef_msg_bytes (launchapp_values ?m 148 2 NULL 0))"
    unfolding b by (simp add: ascii_def)
  then have "err = NRF_SUCCESS \<and> mem_read 200 (unat len') m' = ndef_msg_bytes (launchapp_values ?m 148 2 NULL 0)"
  proof -
    assume l: "\<not> unat (50 :: u32) < length (ndef_msg_bytes (launchapp_values ?m 148 2 NULL 0))"
    have p: "disjoint_regions 148 (unat (2 :: u8)) 200 (unat (50 :: u32))"
      "disjoint_regions NULL (unat (0 :: u8)) 200 (unat (50 :: u32))"
      by (simp_all add: disjoint_regions_def)
    have "(148 :: ptr) \<noteq> NULL" by simp
    with l nfc_launchapp_msg_encode_spec [OF ok p e] show ?thesis by metis
  qed
  then show ?thesis unfolding Let_def e b by simp
qed

end
