(* ===== verification/AdvData.thy ===== *)
theory AdvData
  imports AppUtil
begin

text \<open>
  Advertising data (\<^verbatim>\<open>ble/common/ble_advdata.c\<close>). The calls into the SoftDevice, which is a
  binary, are the parameters of record \<open>softdevice\<close>; \<open>sd_laws\<close> states what its header documents
  of them. Pointers to a single object that may be null are options, arrays are functions from
  the index; the bytes that are copied by pointer stay in memory.

  An encoder for one kind of AD structure works on the output buffer \<open>p\<close>, the offset and the
  buffer size, and returns the new offset. \<open>ad_field\<close> is what every encoder but one promises:
  it stays inside the buffer and appends whole, well-formed AD structures.
\<close>

unbundle bit_operations_syntax

subsection \<open>Data\<close>

record ble_uuid =
  ble_uuid_uuid :: u16
  ble_uuid_type :: u8

record uint8_array =
  arr_size :: u16
  arr_data :: ptr

datatype ble_advdata_le_role =
    BLE_ADVDATA_ROLE_NOT_PRESENT | BLE_ADVDATA_ROLE_ONLY_PERIPH | BLE_ADVDATA_ROLE_ONLY_CENTRAL
  | BLE_ADVDATA_ROLE_BOTH_PERIPH_PREFERRED | BLE_ADVDATA_ROLE_BOTH_CENTRAL_PREFERRED

datatype ble_advdata_name_type = BLE_ADVDATA_NO_NAME | BLE_ADVDATA_SHORT_NAME | BLE_ADVDATA_FULL_NAME

record ble_advdata_uuid_list =
  uuid_cnt :: u16
  p_uuids :: "nat \<Rightarrow> ble_uuid"

record ble_advdata_conn_int =
  min_conn_interval :: u16
  max_conn_interval :: u16

record ble_advdata_manuf_data =
  company_identifier :: u16
  manuf_data :: uint8_array

record ble_advdata_service_data =
  service_uuid :: u16
  service_data :: uint8_array

record ble_advdata =
  name_type :: ble_advdata_name_type
  short_name_len :: u8
  include_appearance :: bool
  adv_flags :: u8
  p_tx_power_level :: "u8 option"
  uuids_more_available :: ble_advdata_uuid_list
  uuids_complete :: ble_advdata_uuid_list
  uuids_solicited :: ble_advdata_uuid_list
  p_slave_conn_int :: "ble_advdata_conn_int option"
  p_manuf_specific_data :: "ble_advdata_manuf_data option"
  p_service_data_array :: "(nat \<Rightarrow> ble_advdata_service_data) option"
  service_data_count :: u8
  include_ble_device_addr :: bool
  le_role :: ble_advdata_le_role
  p_tk_value :: "(nat \<Rightarrow> u8) option"
  p_sec_mgr_oob_flags :: "u8 option"

text \<open>The SoftDevice: device address (type and bytes), device name, appearance, UUID encoding,
  and the call that hands the finished data over.\<close>

record softdevice =
  sd_ble_gap_address_get :: "ret_code \<times> u8 \<times> (nat \<Rightarrow> u8)"
  sd_ble_gap_device_name_get :: "ptr \<Rightarrow> u16 \<Rightarrow> mem \<Rightarrow> ret_code \<times> u16 \<times> mem"
  sd_ble_gap_appearance_get :: "ret_code \<times> u16"
  sd_ble_uuid_encode :: "ble_uuid \<Rightarrow> ptr \<Rightarrow> mem \<Rightarrow> ret_code \<times> u8 \<times> mem"
  sd_ble_gap_adv_data_set :: "ptr \<Rightarrow> u8 \<Rightarrow> ptr \<Rightarrow> u8 \<Rightarrow> mem \<Rightarrow> ret_code"

type_synonym ad_enc = "ptr \<Rightarrow> u16 \<Rightarrow> u16 \<Rightarrow> mem \<Rightarrow> ret_code \<times> u16 \<times> mem"

subsection \<open>The encoders\<close>

text \<open>The sums compared with the buffer size are 32-bit sums of 16-bit values and cannot wrap;
  they are written on natural numbers. The offset itself is a 16-bit variable.\<close>

primrec tk_copy_loop :: "(nat \<Rightarrow> u8) \<Rightarrow> ptr \<Rightarrow> nat \<Rightarrow> u16 \<Rightarrow> mem \<Rightarrow> u16 \<times> mem" where
  "tk_copy_loop tk p 0 off m = (off, m)"
| "tk_copy_loop tk p (Suc i) off m = tk_copy_loop tk p i (off + 1) (m(p + unat off := tk i))"

definition tk_value_encode :: "(nat \<Rightarrow> u8) \<Rightarrow> ad_enc" where
  "tk_value_encode tk p off max_size m =
     (if unat off + 18 > unat max_size then (NRF_ERROR_DATA_SIZE, off, m)
      else
        let m = m(p + unat off := 1 + 16); off = off + 1;
            m = m(p + unat off := 0x10); off = off + 1;
            (off, m) = tk_copy_loop tk p 16 off m
        in (NRF_SUCCESS, off, m))"

definition le_role_encode :: "ble_advdata_le_role \<Rightarrow> ad_enc" where
  "le_role_encode role p off max_size m =
     (if unat off + 3 > unat max_size then (NRF_ERROR_DATA_SIZE, off, m)
      else
        let m = m(p + unat off := 1 + 1); off = off + 1;
            m = m(p + unat off := 0x1C); off = off + 1
        in (case role of
              BLE_ADVDATA_ROLE_ONLY_PERIPH \<Rightarrow> (NRF_SUCCESS, off + 1, m(p + unat off := 0))
            | BLE_ADVDATA_ROLE_ONLY_CENTRAL \<Rightarrow> (NRF_SUCCESS, off + 1, m(p + unat off := 1))
            | BLE_ADVDATA_ROLE_BOTH_PERIPH_PREFERRED \<Rightarrow> (NRF_SUCCESS, off + 1, m(p + unat off := 2))
            | BLE_ADVDATA_ROLE_BOTH_CENTRAL_PREFERRED \<Rightarrow> (NRF_SUCCESS, off + 1, m(p + unat off := 3))
            | BLE_ADVDATA_ROLE_NOT_PRESENT \<Rightarrow> (NRF_ERROR_INVALID_PARAM, off, m)))"

definition ble_device_addr_encode :: "softdevice \<Rightarrow> ad_enc" where
  "ble_device_addr_encode sd p off max_size m =
     (if unat off + 9 > unat max_size then (NRF_ERROR_DATA_SIZE, off, m)
      else case sd_ble_gap_address_get sd of (err_code, addr_type, addr) \<Rightarrow>
        if err_code \<noteq> NRF_SUCCESS then (err_code, off, m)
        else
          let m = m(p + unat off := 1 + 7); off = off + 1;
              m = m(p + unat off := 0x1B); off = off + 1;
              m = mem_write (p + unat off) (map addr [0..<6]) m; off = off + 6;
              m = m(p + unat off := (if addr_type = 0 then 0 else 1)); off = off + 1
          in (NRF_SUCCESS, off, m))"

definition name_encode :: "softdevice \<Rightarrow> ble_advdata \<Rightarrow> ad_enc" where
  "name_encode sd d p off max_size m =
     (if name_type d = BLE_ADVDATA_SHORT_NAME \<and> short_name_len d = 0 then (NRF_ERROR_INVALID_PARAM, off, m)
      else if unat off + 2 > unat max_size \<or>
          (name_type d = BLE_ADVDATA_SHORT_NAME \<and> unat off + 2 + unat (short_name_len d) > unat max_size)
        then (NRF_ERROR_DATA_SIZE, off, m)
      else
        let rem_adv_data_len = max_size - off - 2 in
        case sd_ble_gap_device_name_get sd (p + unat off + 2) rem_adv_data_len m of
          (err_code, actual_length, m) \<Rightarrow>
            if err_code \<noteq> NRF_SUCCESS then (err_code, off, m)
            else
              let (adv_data_format, actual_length) =
                    (if name_type d = BLE_ADVDATA_FULL_NAME \<and> actual_length \<le> rem_adv_data_len
                     then (0x09, actual_length)
                     else if name_type d = BLE_ADVDATA_SHORT_NAME \<and> ucast (short_name_len d) \<le> rem_adv_data_len
                     then (0x08, ucast (short_name_len d))
                     else (0x08, rem_adv_data_len))
              in
              if actual_length > 0x00FF - 1 then (NRF_ERROR_DATA_SIZE, off, m)
              else
                let m = m(p + unat off := ucast (1 + actual_length)); off = off + 1;
                    m = m(p + unat off := adv_data_format); off = off + 1;
                    off = off + actual_length
                in (NRF_SUCCESS, off, m))"

definition appearance_encode :: "softdevice \<Rightarrow> ad_enc" where
  "appearance_encode sd p off max_size m =
     (if unat off + 4 > unat max_size then (NRF_ERROR_DATA_SIZE, off, m)
      else case sd_ble_gap_appearance_get sd of (err_code, appearance) \<Rightarrow>
        if err_code \<noteq> NRF_SUCCESS then (err_code, off, m)
        else
          let m = m(p + unat off := 1 + 2); off = off + 1;
              m = m(p + unat off := 0x19); off = off + 1;
              (n, m) = uint16_encode appearance (p + unat off) m; off = off + ucast n
          in (NRF_SUCCESS, off, m))"

definition flags_encode :: "u8 \<Rightarrow> ad_enc" where
  "flags_encode flags p off max_size m =
     (if unat off + 3 > unat max_size then (NRF_ERROR_DATA_SIZE, off, m)
      else
        let m = m(p + unat off := 1 + 1); off = off + 1;
            m = m(p + unat off := 0x01); off = off + 1;
            m = m(p + unat off := flags); off = off + 1
        in (NRF_SUCCESS, off, m))"

definition sec_mgr_oob_flags_encode :: "u8 \<Rightarrow> ad_enc" where
  "sec_mgr_oob_flags_encode oob_flags p off max_size m =
     (if unat off + 3 > unat max_size then (NRF_ERROR_DATA_SIZE, off, m)
      else
        let m = m(p + unat off := 1 + 1); off = off + 1;
            m = m(p + unat off := 0x11); off = off + 1;
            m = m(p + unat off := oob_flags); off = off + 1
        in (NRF_SUCCESS, off, m))"

definition tx_power_level_encode :: "u8 \<Rightarrow> ad_enc" where
  "tx_power_level_encode tx_power_level p off max_size m =
     (if unat off + 3 > unat max_size then (NRF_ERROR_DATA_SIZE, off, m)
      else
        let m = m(p + unat off := 1 + 1); off = off + 1;
            m = m(p + unat off := 0x0A); off = off + 1;
            m = m(p + unat off := tx_power_level); off = off + 1
        in (NRF_SUCCESS, off, m))"

text \<open>The loop over a UUID list: the code, whether the heading is written, the offset and the
  memory.\<close>

primrec uuid_list_loop ::
  "softdevice \<Rightarrow> (nat \<Rightarrow> ble_uuid) \<Rightarrow> u8 \<Rightarrow> u8 \<Rightarrow> ptr \<Rightarrow> u16 \<Rightarrow> nat \<Rightarrow> bool \<Rightarrow> u16 \<Rightarrow> mem \<Rightarrow>
     ret_code \<times> bool \<times> u16 \<times> mem" where
  "uuid_list_loop sd uuids adv_type uuid_size p max_size 0 is_heading_written off m =
     (NRF_SUCCESS, is_heading_written, off, m)"
| "uuid_list_loop sd uuids adv_type uuid_size p max_size (Suc n) is_heading_written off m =
     (let uuid = uuids 0 in
      case sd_ble_uuid_encode sd uuid NULL m of (err_code, encoded_size, m) \<Rightarrow>
        if err_code \<noteq> NRF_SUCCESS then (err_code, is_heading_written, off, m)
        else if encoded_size = uuid_size then
          let heading_bytes = (if is_heading_written then 0 else 2) in
          if unat off + unat encoded_size + heading_bytes > unat max_size
          then (NRF_ERROR_DATA_SIZE, is_heading_written, off, m)
          else
            let (is_heading_written, off, m) =
                  (if \<not> is_heading_written
                   then (True, off + 1 + 1, m(p + unat (off + 1) := adv_type))
                   else (is_heading_written, off, m))
            in case sd_ble_uuid_encode sd uuid (p + unat off) m of (err_code, encoded_size, m) \<Rightarrow>
              if err_code \<noteq> NRF_SUCCESS then (err_code, is_heading_written, off, m)
              else uuid_list_loop sd (\<lambda>i. uuids (Suc i)) adv_type uuid_size p max_size n
                     is_heading_written (off + ucast encoded_size) m
        else uuid_list_loop sd (\<lambda>i. uuids (Suc i)) adv_type uuid_size p max_size n is_heading_written off m)"

definition uuid_list_sized_encode ::
  "softdevice \<Rightarrow> ble_advdata_uuid_list \<Rightarrow> u8 \<Rightarrow> u8 \<Rightarrow> ad_enc" where
  "uuid_list_sized_encode sd uuid_list adv_type uuid_size p off max_size m =
     (let start_pos = off in
      case uuid_list_loop sd (p_uuids uuid_list) adv_type uuid_size p max_size (unat (uuid_cnt uuid_list))
             False off m of
        (err_code, is_heading_written, off, m) \<Rightarrow>
          if err_code \<noteq> NRF_SUCCESS then (err_code, off, m)
          else if is_heading_written then
            let len = off - (start_pos + 1) in
            if len > 0x00FF then (NRF_ERROR_DATA_SIZE, off, m)
            else (NRF_SUCCESS, off, m(p + unat start_pos := ucast len))
          else (NRF_SUCCESS, off, m))"

text \<open>\<^verbatim>\<open>VERIFY_SUCCESS\<close>: go on only after a success; and a step that is taken only under a
  condition.\<close>

definition ad_then :: "ad_enc \<Rightarrow> ad_enc \<Rightarrow> ad_enc" where
  "ad_then e1 e2 p off max_size m =
     (case e1 p off max_size m of (err_code, off, m) \<Rightarrow>
        if err_code \<noteq> NRF_SUCCESS then (err_code, off, m) else e2 p off max_size m)"

definition ad_when :: "bool \<Rightarrow> ad_enc \<Rightarrow> ad_enc" where
  "ad_when b e p off max_size m = (if b then e p off max_size m else (NRF_SUCCESS, off, m))"

definition uuid_list_encode :: "softdevice \<Rightarrow> ble_advdata_uuid_list \<Rightarrow> u8 \<Rightarrow> u8 \<Rightarrow> ad_enc" where
  "uuid_list_encode sd uuid_list adv_type_16 adv_type_128 =
     ad_then (uuid_list_sized_encode sd uuid_list adv_type_16 2)
       (uuid_list_sized_encode sd uuid_list adv_type_128 16)"

definition conn_int_check :: "ble_advdata_conn_int \<Rightarrow> ret_code" where
  "conn_int_check c =
     (if min_conn_interval c < 0x0006 \<or> (min_conn_interval c > 0x0c80 \<and> min_conn_interval c \<noteq> 0xffff)
      then NRF_ERROR_INVALID_PARAM
      else if max_conn_interval c < 0x0006 \<or> (max_conn_interval c > 0x0c80 \<and> max_conn_interval c \<noteq> 0xffff)
      then NRF_ERROR_INVALID_PARAM
      else if min_conn_interval c \<noteq> 0xffff \<and> max_conn_interval c \<noteq> 0xffff \<and>
          min_conn_interval c > max_conn_interval c
      then NRF_ERROR_INVALID_PARAM
      else NRF_SUCCESS)"

definition conn_int_encode :: "ble_advdata_conn_int \<Rightarrow> ad_enc" where
  "conn_int_encode c p off max_size m =
     (if unat off + 6 > unat max_size then (NRF_ERROR_DATA_SIZE, off, m)
      else
        let err_code = conn_int_check c in
        if err_code \<noteq> NRF_SUCCESS then (err_code, off, m)
        else
          let m = m(p + unat off := 1 + 4); off = off + 1;
              m = m(p + unat off := 0x12); off = off + 1;
              (n, m) = uint16_encode (min_conn_interval c) (p + unat off) m; off = off + ucast n;
              (n, m) = uint16_encode (max_conn_interval c) (p + unat off) m; off = off + ucast n
          in (NRF_SUCCESS, off, m))"

definition manuf_specific_data_encode :: "ble_advdata_manuf_data \<Rightarrow> ad_enc" where
  "manuf_specific_data_encode d p off max_size m =
     (let data_size = 2 + unat (arr_size (manuf_data d)) in
      if unat off + 2 + data_size > unat max_size then (NRF_ERROR_DATA_SIZE, off, m)
      else if data_size > 0x00FF - 1 then (NRF_ERROR_DATA_SIZE, off, m)
      else
        let m = m(p + unat off := of_nat (1 + data_size)); off = off + 1;
            m = m(p + unat off := 0xFF); off = off + 1;
            (n, m) = uint16_encode (company_identifier d) (p + unat off) m; off = off + ucast n
        in
        if arr_size (manuf_data d) > 0 then
          if arr_data (manuf_data d) = NULL then (NRF_ERROR_INVALID_PARAM, off, m)
          else (NRF_SUCCESS, off + arr_size (manuf_data d),
                memcpy (p + unat off) (arr_data (manuf_data d)) (unat (arr_size (manuf_data d))) m)
        else (NRF_SUCCESS, off, m))"

text \<open>The encoder of service data does not look at the size of the buffer.\<close>

primrec service_data_loop :: "(nat \<Rightarrow> ble_advdata_service_data) \<Rightarrow> nat \<Rightarrow> ad_enc" where
  "service_data_loop ds 0 p off max_size m = (NRF_SUCCESS, off, m)"
| "service_data_loop ds (Suc n) p off max_size m =
     (let d = ds 0;
          data_size = 2 + unat (arr_size (service_data d))
      in
      if data_size > 0x00FF - 1 then (NRF_ERROR_DATA_SIZE, off, m)
      else
        let m = m(p + unat off := of_nat (1 + data_size)); off = off + 1;
            m = m(p + unat off := 0x16); off = off + 1;
            (k, m) = uint16_encode (service_uuid d) (p + unat off) m; off = off + ucast k
        in
        if arr_size (service_data d) > 0 then
          if arr_data (service_data d) = NULL then (NRF_ERROR_INVALID_PARAM, off, m)
          else service_data_loop (\<lambda>i. ds (Suc i)) n p (off + arr_size (service_data d)) max_size
                 (memcpy (p + unat off) (arr_data (service_data d)) (unat (arr_size (service_data d))) m)
        else service_data_loop (\<lambda>i. ds (Suc i)) n p off max_size m)"

definition service_data_encode :: "ble_advdata \<Rightarrow> ad_enc" where
  "service_data_encode d p off max_size m =
     (case p_service_data_array d of
        None \<Rightarrow> (NRF_ERROR_INVALID_PARAM, off, m)
      | Some ds \<Rightarrow> service_data_loop ds (unat (service_data_count d)) p off max_size m)"

definition ad_option :: "('a \<Rightarrow> ad_enc) \<Rightarrow> 'a option \<Rightarrow> ad_enc" where
  "ad_option e x p off max_size m = (case x of None \<Rightarrow> (NRF_SUCCESS, off, m) | Some y \<Rightarrow> e y p off max_size m)"

definition adv_data_steps :: "softdevice \<Rightarrow> ble_advdata \<Rightarrow> ad_enc" where
  "adv_data_steps sd d =
     ad_then (ad_option sec_mgr_oob_flags_encode (p_sec_mgr_oob_flags d))
     (ad_then (ad_option tk_value_encode (p_tk_value d))
     (ad_then (ad_when (le_role d \<noteq> BLE_ADVDATA_ROLE_NOT_PRESENT) (le_role_encode (le_role d)))
     (ad_then (ad_when (include_ble_device_addr d) (ble_device_addr_encode sd))
     (ad_then (ad_when (include_appearance d) (appearance_encode sd))
     (ad_then (ad_when (adv_flags d \<noteq> 0) (flags_encode (adv_flags d)))
     (ad_then (ad_option tx_power_level_encode (p_tx_power_level d))
     (ad_then (ad_when (uuid_cnt (uuids_more_available d) > 0)
        (uuid_list_encode sd (uuids_more_available d) 0x02 0x06))
     (ad_then (ad_when (uuid_cnt (uuids_complete d) > 0)
        (uuid_list_encode sd (uuids_complete d) 0x03 0x07))
     (ad_then (ad_when (uuid_cnt (uuids_solicited d) > 0)
        (uuid_list_encode sd (uuids_solicited d) 0x14 0x15))
     (ad_then (ad_option conn_int_encode (p_slave_conn_int d))
     (ad_then (ad_option manuf_specific_data_encode (p_manuf_specific_data d))
     (ad_then (ad_when (service_data_count d > 0) (service_data_encode d))
       (ad_when (name_type d \<noteq> BLE_ADVDATA_NO_NAME) (name_encode sd d))))))))))))))"

text \<open>The length is reset to 0 before the first step.\<close>

definition adv_data_encode :: "softdevice \<Rightarrow> ble_advdata \<Rightarrow> ptr \<Rightarrow> u16 \<Rightarrow> mem \<Rightarrow> ret_code \<times> u16 \<times> mem" where
  "adv_data_encode sd d p_encoded_data len m =
     (let max_size = len; len = 0 in adv_data_steps sd d p_encoded_data len max_size m)"

definition advdata_check :: "ble_advdata \<Rightarrow> ret_code" where
  "advdata_check d = (if adv_flags d AND 0x04 = 0 then NRF_ERROR_INVALID_PARAM else NRF_SUCCESS)"

definition srdata_check :: "ble_advdata \<Rightarrow> ret_code" where
  "srdata_check d = (if adv_flags d \<noteq> 0 then NRF_ERROR_INVALID_PARAM else NRF_SUCCESS)"

text \<open>\<open>adv_buf\<close> and \<open>sr_buf\<close> are the addresses of the two 31-byte arrays on the stack.\<close>

definition ble_advdata_set ::
  "softdevice \<Rightarrow> ptr \<Rightarrow> ptr \<Rightarrow> ble_advdata option \<Rightarrow> ble_advdata option \<Rightarrow> mem \<Rightarrow> ret_code \<times> mem" where
  "ble_advdata_set sd adv_buf sr_buf p_advdata p_srdata m =
     (let (err_code, p_encoded_advdata, len_advdata, m) =
            (case p_advdata of
               Some d \<Rightarrow>
                 (if advdata_check d \<noteq> NRF_SUCCESS then (advdata_check d, NULL, 31, m)
                  else case adv_data_encode sd d adv_buf 31 m of (err_code, len, m) \<Rightarrow> (err_code, adv_buf, len, m))
             | None \<Rightarrow> (NRF_SUCCESS, NULL, 0, m))
      in
      if err_code \<noteq> NRF_SUCCESS then (err_code, m)
      else
        let (err_code, p_encoded_srdata, len_srdata, m) =
              (case p_srdata of
                 Some d \<Rightarrow>
                   (if srdata_check d \<noteq> NRF_SUCCESS then (srdata_check d, NULL, 31, m)
                    else case adv_data_encode sd d sr_buf 31 m of (err_code, len, m) \<Rightarrow> (err_code, sr_buf, len, m))
               | None \<Rightarrow> (NRF_SUCCESS, NULL, 0, m))
        in
        if err_code \<noteq> NRF_SUCCESS then (err_code, m)
        else (sd_ble_gap_adv_data_set sd p_encoded_advdata (ucast len_advdata)
                p_encoded_srdata (ucast len_srdata) m, m))"

subsection \<open>AD structures and the contract of an encoder\<close>

text \<open>An AD structure: its type and its data, written after a length byte.\<close>

type_synonym ad_struct = "u8 \<times> u8 list"

fun ad_bytes :: "ad_struct \<Rightarrow> u8 list" where
  "ad_bytes (t, d) = of_nat (1 + length d) # t # d"

definition ad_struct_ok :: "ad_struct \<Rightarrow> bool" where
  "ad_struct_ok f \<longleftrightarrow> length (snd f) \<le> 254"

locale ad_field =
  fixes enc :: ad_enc
    and ok :: "ad_struct list \<Rightarrow> bool"
  assumes af_bounds: "enc p off mx m = (code, off', m') \<Longrightarrow> off \<le> mx \<Longrightarrow> off \<le> off' \<and> off' \<le> mx"
    and af_frame: "enc p off mx m = (code, off', m') \<Longrightarrow> off \<le> mx \<Longrightarrow>
      same_outside (p + unat off) (unat mx - unat off) m m'"
    and af_tlv: "enc p off mx m = (NRF_SUCCESS, off', m') \<Longrightarrow> off \<le> mx \<Longrightarrow>
      \<exists>fs. ok fs \<and> (\<forall>f \<in> set fs. ad_struct_ok f) \<and>
        mem_read (p + unat off) (unat off' - unat off) m' = concat (map ad_bytes fs)"

lemma unat_off_of_nat: "unat off + k < 65536 \<Longrightarrow> unat (off + of_nat k :: u16) = unat off + k"
  by (subst unat_plus_small) (simp_all add: unat_of_nat take_bit_nat_eq_self)

lemma unat_off_numeral: "unat off + numeral k < 65536 \<Longrightarrow> unat (off + numeral k :: u16) = unat off + numeral k"
  using unat_off_of_nat [of off "numeral k"] by simp

lemma unat_off_1: "unat off + 1 < 65536 \<Longrightarrow> unat (off + 1 :: u16) = Suc (unat off)"
  using unat_off_of_nat [of off 1] by simp

lemmas off_simps = unat_off_1 unat_off_numeral
  unat_off_1 [unfolded add.commute [of _ 1]] unat_off_numeral [unfolded add.commute [of _ "numeral k" for k]]

lemma length_ad_bytes [simp]: "length (ad_bytes f) = 2 + length (snd f)"
  by (cases f) simp

text \<open>Most encoders either fail before they write or append one structure.\<close>

lemma ad_field_append:
  assumes "\<And>p off mx m. off \<le> mx \<Longrightarrow>
    (\<exists>code. code \<noteq> NRF_SUCCESS \<and> enc p off mx m = (code, off, m)) \<or>
    (\<exists>f. ok [f] \<and> ad_struct_ok f \<and> unat off + length (ad_bytes f) \<le> unat mx \<and>
      enc p off mx m = (NRF_SUCCESS, off + of_nat (length (ad_bytes f)), mem_write (p + unat off) (ad_bytes f) m))"
  shows "ad_field enc ok"
proof unfold_locales
  fix p off mx m code off' m'
  assume e: "enc p off mx m = (code, off', m')" and le: "off \<le> mx"
  show "off \<le> off' \<and> off' \<le> mx"
    using assms [OF le, of p m]
  proof
    assume "\<exists>f. ok [f] \<and> ad_struct_ok f \<and> unat off + length (ad_bytes f) \<le> unat mx \<and>
      enc p off mx m = (NRF_SUCCESS, off + of_nat (length (ad_bytes f)), mem_write (p + unat off) (ad_bytes f) m)"
    then obtain f where f: "unat off + length (ad_bytes f) \<le> unat mx" "off' = off + of_nat (length (ad_bytes f))"
      using e by auto
    moreover have "unat off' = unat off + length (ad_bytes f)"
      unfolding f(2) by (rule unat_off_of_nat) (use f(1) u16_less_65536 [of mx] in simp)
    ultimately show ?thesis by (simp add: word_le_nat_alt)
  qed (use e le in auto)
  show "same_outside (p + unat off) (unat mx - unat off) m m'"
    using assms [OF le, of p m] e by (auto simp: same_outside_write)
next
  fix p off mx m off' m'
  assume e: "enc p off mx m = (NRF_SUCCESS, off', m')" and le: "off \<le> mx"
  then obtain f where f: "ok [f]" "ad_struct_ok f" "unat off + length (ad_bytes f) \<le> unat mx"
    "off' = off + of_nat (length (ad_bytes f))" "m' = mem_write (p + unat off) (ad_bytes f) m"
    using assms [OF le, of p m] by auto
  have "unat off' = unat off + length (ad_bytes f)"
    unfolding f(4) by (rule unat_off_of_nat) (use f(3) u16_less_65536 [of mx] in simp)
  then have "mem_read (p + unat off) (unat off' - unat off) m' = ad_bytes f"
    unfolding f(5) by (intro mem_read_write_same) simp
  with f show "\<exists>fs. ok fs \<and> (\<forall>f \<in> set fs. ad_struct_ok f) \<and>
      mem_read (p + unat off) (unat off' - unat off) m' = concat (map ad_bytes fs)"
    by (intro exI [of _ "[f]"]) simp
qed

lemma offset_bound: "unat off + k \<le> unat mx \<Longrightarrow> unat off + k < 65536" for mx :: u16
  using u16_less_65536 [of mx] by simp

lemma three_bytes: "mem_write a [x, y, z] m = m(a := x, a + 1 := y, a + 2 := z)"
  by (simp add: mem_write_Cons)

lemma flags_append:
  "unat off + 3 \<le> unat mx \<Longrightarrow> flags_encode fl p off mx m =
    (NRF_SUCCESS, off + of_nat (length (ad_bytes (0x01, [fl]))), mem_write (p + unat off) (ad_bytes (0x01, [fl])) m)"
  using offset_bound [of off 3 mx]
  by (simp add: flags_encode_def Let_def three_bytes off_simps)

lemma oob_flags_append:
  "unat off + 3 \<le> unat mx \<Longrightarrow> sec_mgr_oob_flags_encode fl p off mx m =
    (NRF_SUCCESS, off + of_nat (length (ad_bytes (0x11, [fl]))), mem_write (p + unat off) (ad_bytes (0x11, [fl])) m)"
  using offset_bound [of off 3 mx]
  by (simp add: sec_mgr_oob_flags_encode_def Let_def three_bytes off_simps)

lemma tx_power_append:
  "unat off + 3 \<le> unat mx \<Longrightarrow> tx_power_level_encode x p off mx m =
    (NRF_SUCCESS, off + of_nat (length (ad_bytes (0x0A, [x]))), mem_write (p + unat off) (ad_bytes (0x0A, [x])) m)"
  using offset_bound [of off 3 mx]
  by (simp add: tx_power_level_encode_def Let_def three_bytes off_simps)

lemma tk_copy_loop_eq:
  "unat off + n < 65536 \<Longrightarrow> tk_copy_loop tk p n off m =
    (off + of_nat n, mem_write (p + unat off) (map tk (rev [0..<n])) m)"
proof (induction n arbitrary: off m)
  case 0
  then show ?case by simp
next
  case (Suc n)
  then show ?case by (simp add: off_simps mem_write_Cons add.assoc add.commute [of n] fun_upd_def)
qed

lemma tk_append:
  fixes tk :: "nat \<Rightarrow> u8"
  assumes "unat off + 18 \<le> unat mx"
  defines "f \<equiv> (0x10, map tk (rev [0..<16]))"
  shows "tk_value_encode tk p off mx m =
    (NRF_SUCCESS, off + of_nat (length (ad_bytes f)), mem_write (p + unat off) (ad_bytes f) m)"
proof -
  have b: "unat off + 18 < 65536" using offset_bound assms(1) by blast
  then have "tk_copy_loop tk p 16 (off + 2) (m(p + unat off := 17, p + unat off + 1 := 0x10)) =
      (off + 18, mem_write (p + unat off + 2) (map tk (rev [0..<16]))
        (m(p + unat off := 17, p + unat off + 1 := 0x10)))"
    by (subst tk_copy_loop_eq) (simp_all add: off_simps add.assoc del: upt_Suc)
  with assms b show ?thesis
    by (simp add: tk_value_encode_def Let_def off_simps mem_write_Cons [of _ "_ :: u8" "_ # _"]
        mem_write_Cons [of "Suc _"] f_def add.commute [of 2 off] del: upt_Suc)
qed

lemma le_role_append:
  assumes "unat off + 3 \<le> unat mx" "role \<noteq> BLE_ADVDATA_ROLE_NOT_PRESENT"
  shows "\<exists>r. le_role_encode role p off mx m =
    (NRF_SUCCESS, off + of_nat (length (ad_bytes (0x1C, [r]))), mem_write (p + unat off) (ad_bytes (0x1C, [r])) m)"
  using offset_bound [OF assms(1)] assms
  by (cases role) (auto simp: le_role_encode_def Let_def three_bytes off_simps)

lemma addr_append:
  fixes addr :: "nat \<Rightarrow> u8" and ty :: u8
  assumes "unat off + 9 \<le> unat mx" "sd_ble_gap_address_get sd = (NRF_SUCCESS, ty, addr)"
  defines "f \<equiv> (0x1B, map addr [0..<6] @ [if ty = 0 then 0 else 1])"
  shows "ble_device_addr_encode sd p off mx m =
    (NRF_SUCCESS, off + of_nat (length (ad_bytes f)), mem_write (p + unat off) (ad_bytes f) m)"
proof -
  have b: "unat off + 9 < 65536" using offset_bound assms(1) by blast
  let ?a = "map addr [0..<6]"
  have "(mem_write (p + unat off + 2) ?a (m(p + unat off := 8, p + unat off + 1 := 0x1B)))
      (p + unat off + 8 := (if ty = 0 then 0 else 1)) = mem_write (p + unat off) (ad_bytes f) m"
    by (subst upd_snoc) (simp_all add: f_def mem_write_Cons del: upt_Suc)
  with assms b show ?thesis
    by (auto simp: ble_device_addr_encode_def Let_def off_simps f_def add.assoc add.commute [of 8 "unat off"]
        simp del: upt_Suc)
qed

lemma appearance_append:
  assumes "unat off + 4 \<le> unat mx" "sd_ble_gap_appearance_get sd = (NRF_SUCCESS, x)"
  shows "appearance_encode sd p off mx m =
    (NRF_SUCCESS, off + of_nat (length (ad_bytes (0x19, uint16_bytes x))),
     mem_write (p + unat off) (ad_bytes (0x19, uint16_bytes x)) m)"
  using offset_bound [OF assms(1)] assms
  by (simp add: appearance_encode_def Let_def off_simps uint16_encode_def mem_write_Cons)

lemma conn_int_append:
  assumes "unat off + 6 \<le> unat mx" "conn_int_check c = NRF_SUCCESS"
  defines "f \<equiv> (0x12, uint16_bytes (min_conn_interval c) @ uint16_bytes (max_conn_interval c))"
  shows "conn_int_encode c p off mx m =
    (NRF_SUCCESS, off + of_nat (length (ad_bytes f)), mem_write (p + unat off) (ad_bytes f) m)"
proof -
  have b: "unat off + 6 < 65536" using offset_bound assms(1) by blast
  have "mem_write (p + unat off + 4) (uint16_bytes (max_conn_interval c))
      (mem_write (p + unat off + 2) (uint16_bytes (min_conn_interval c))
        (m(p + unat off := 5, p + unat off + 1 := 0x12))) = mem_write (p + unat off) (ad_bytes f) m"
    using mem_write_append [of "p + unat off + 2" "uint16_bytes (min_conn_interval c)"
        "uint16_bytes (max_conn_interval c)" "m(p + unat off := 5, p + unat off + 1 := 0x12)"]
    by (simp add: f_def mem_write_Cons [of _ "_ :: u8" "_ # _"] mem_write_Cons [of "Suc _"] eval_nat_numeral)
  with assms b show ?thesis
    by (simp add: conn_int_encode_def Let_def off_simps uint16_encode_def add.assoc add.commute [of 4 "unat off"])
qed

subsection \<open>Every encoder but one keeps the contract\<close>

text \<open>What each encoder may append.\<close>

definition ok_one :: "(ad_struct \<Rightarrow> bool) \<Rightarrow> ad_struct list \<Rightarrow> bool" where
  "ok_one P fs \<longleftrightarrow> (\<exists>f. fs = [f] \<and> P f)"

definition ok_none :: "ad_struct list \<Rightarrow> bool" where
  "ok_none fs \<longleftrightarrow> fs = []"

definition ok_seq :: "(ad_struct list \<Rightarrow> bool) \<Rightarrow> (ad_struct list \<Rightarrow> bool) \<Rightarrow> ad_struct list \<Rightarrow> bool" where
  "ok_seq P Q fs \<longleftrightarrow> (\<exists>as bs. fs = as @ bs \<and> P as \<and> Q bs)"

definition ok_option :: "('a \<Rightarrow> ad_struct list \<Rightarrow> bool) \<Rightarrow> 'a option \<Rightarrow> ad_struct list \<Rightarrow> bool" where
  "ok_option P x = (case x of None \<Rightarrow> ok_none | Some y \<Rightarrow> P y)"

definition ok_when :: "bool \<Rightarrow> (ad_struct list \<Rightarrow> bool) \<Rightarrow> ad_struct list \<Rightarrow> bool" where
  "ok_when b P = (if b then P else ok_none)"

lemma le_max_cases: "unat off + k > unat mx \<or> unat off + k \<le> unat mx" for off mx :: u16
  by linarith

interpretation flags: ad_field "flags_encode fl" "ok_one (\<lambda>f. f = (0x01, [fl]))" for fl
proof (rule ad_field_append)
  fix p and off mx :: u16 and m
  show "(\<exists>code. code \<noteq> NRF_SUCCESS \<and> flags_encode fl p off mx m = (code, off, m)) \<or>
    (\<exists>f. ok_one (\<lambda>f. f = (0x01, [fl])) [f] \<and> ad_struct_ok f \<and> unat off + length (ad_bytes f) \<le> unat mx \<and>
      flags_encode fl p off mx m = (NRF_SUCCESS, off + of_nat (length (ad_bytes f)), mem_write (p + unat off) (ad_bytes f) m))"
    using le_max_cases [of mx off 3] flags_append [of off mx fl p m]
    by (auto simp: flags_encode_def ok_one_def ad_struct_ok_def)
qed

interpretation oob_flags: ad_field "sec_mgr_oob_flags_encode fl" "ok_one (\<lambda>f. f = (0x11, [fl]))" for fl
proof (rule ad_field_append)
  fix p and off mx :: u16 and m
  show "(\<exists>code. code \<noteq> NRF_SUCCESS \<and> sec_mgr_oob_flags_encode fl p off mx m = (code, off, m)) \<or>
    (\<exists>f. ok_one (\<lambda>f. f = (0x11, [fl])) [f] \<and> ad_struct_ok f \<and> unat off + length (ad_bytes f) \<le> unat mx \<and>
      sec_mgr_oob_flags_encode fl p off mx m =
        (NRF_SUCCESS, off + of_nat (length (ad_bytes f)), mem_write (p + unat off) (ad_bytes f) m))"
    using le_max_cases [of mx off 3] oob_flags_append [of off mx fl p m]
    by (auto simp: sec_mgr_oob_flags_encode_def ok_one_def ad_struct_ok_def)
qed

interpretation tx_power: ad_field "tx_power_level_encode x" "ok_one (\<lambda>f. f = (0x0A, [x]))" for x
proof (rule ad_field_append)
  fix p and off mx :: u16 and m
  show "(\<exists>code. code \<noteq> NRF_SUCCESS \<and> tx_power_level_encode x p off mx m = (code, off, m)) \<or>
    (\<exists>f. ok_one (\<lambda>f. f = (0x0A, [x])) [f] \<and> ad_struct_ok f \<and> unat off + length (ad_bytes f) \<le> unat mx \<and>
      tx_power_level_encode x p off mx m =
        (NRF_SUCCESS, off + of_nat (length (ad_bytes f)), mem_write (p + unat off) (ad_bytes f) m))"
    using le_max_cases [of mx off 3] tx_power_append [of off mx x p m]
    by (auto simp: tx_power_level_encode_def ok_one_def ad_struct_ok_def)
qed

interpretation tk: ad_field "tk_value_encode k" "ok_one (\<lambda>f. f = (0x10, map k (rev [0..<16])))" for k
proof (rule ad_field_append)
  fix p and off mx :: u16 and m
  show "(\<exists>code. code \<noteq> NRF_SUCCESS \<and> tk_value_encode k p off mx m = (code, off, m)) \<or>
    (\<exists>f. ok_one (\<lambda>f. f = (0x10, map k (rev [0..<16]))) [f] \<and> ad_struct_ok f \<and>
      unat off + length (ad_bytes f) \<le> unat mx \<and> tk_value_encode k p off mx m =
        (NRF_SUCCESS, off + of_nat (length (ad_bytes f)), mem_write (p + unat off) (ad_bytes f) m))"
    using le_max_cases [of mx off 18] tk_append [of off mx k p m]
    by (auto simp: tk_value_encode_def ok_one_def ad_struct_ok_def)
qed

interpretation conn_int: ad_field "conn_int_encode c"
  "ok_one (\<lambda>f. f = (0x12, uint16_bytes (min_conn_interval c) @ uint16_bytes (max_conn_interval c)) \<and>
     conn_int_check c = NRF_SUCCESS)" for c
proof (rule ad_field_append)
  fix p and off mx :: u16 and m
  let ?f = "(0x12, uint16_bytes (min_conn_interval c) @ uint16_bytes (max_conn_interval c))"
  show "(\<exists>code. code \<noteq> NRF_SUCCESS \<and> conn_int_encode c p off mx m = (code, off, m)) \<or>
    (\<exists>f. ok_one (\<lambda>f. f = ?f \<and> conn_int_check c = NRF_SUCCESS) [f] \<and> ad_struct_ok f \<and>
      unat off + length (ad_bytes f) \<le> unat mx \<and> conn_int_encode c p off mx m =
        (NRF_SUCCESS, off + of_nat (length (ad_bytes f)), mem_write (p + unat off) (ad_bytes f) m))"
    using le_max_cases [of mx off 6] conn_int_append [of off mx c p m]
    by (cases "conn_int_check c = NRF_SUCCESS") (auto simp: conn_int_encode_def ok_one_def ad_struct_ok_def)
qed

interpretation appearance: ad_field "appearance_encode sd"
  "ok_one (\<lambda>f. \<exists>x. sd_ble_gap_appearance_get sd = (NRF_SUCCESS, x) \<and> f = (0x19, uint16_bytes x))" for sd
proof (rule ad_field_append)
  fix p and off mx :: u16 and m
  let ?P = "\<lambda>f. \<exists>x. sd_ble_gap_appearance_get sd = (NRF_SUCCESS, x) \<and> f = (0x19, uint16_bytes x)"
  obtain code x where g: "sd_ble_gap_appearance_get sd = (code, x)" by fastforce
  show "(\<exists>code. code \<noteq> NRF_SUCCESS \<and> appearance_encode sd p off mx m = (code, off, m)) \<or>
    (\<exists>f. ok_one ?P [f] \<and> ad_struct_ok f \<and>
      unat off + length (ad_bytes f) \<le> unat mx \<and> appearance_encode sd p off mx m =
        (NRF_SUCCESS, off + of_nat (length (ad_bytes f)), mem_write (p + unat off) (ad_bytes f) m))"
    using le_max_cases [of mx off 4] appearance_append [of off mx sd x p m] g
    by (cases "code = NRF_SUCCESS") (auto simp: appearance_encode_def ok_one_def ad_struct_ok_def)
qed

interpretation device_addr: ad_field "ble_device_addr_encode sd"
  "ok_one (\<lambda>f. \<exists>ty addr. sd_ble_gap_address_get sd = (NRF_SUCCESS, ty, addr) \<and>
     f = (0x1B, map addr [0..<6] @ [if ty = 0 then 0 else 1]))" for sd
proof (rule ad_field_append)
  fix p and off mx :: u16 and m
  let ?P = "\<lambda>f. \<exists>ty addr. sd_ble_gap_address_get sd = (NRF_SUCCESS, ty, addr) \<and>
     f = (0x1B, map addr [0..<6] @ [if ty = 0 then 0 else 1])"
  obtain code ty addr where g: "sd_ble_gap_address_get sd = (code, ty, addr)" by (metis prod_cases3)
  show "(\<exists>code. code \<noteq> NRF_SUCCESS \<and> ble_device_addr_encode sd p off mx m = (code, off, m)) \<or>
    (\<exists>f. ok_one ?P [f] \<and> ad_struct_ok f \<and>
      unat off + length (ad_bytes f) \<le> unat mx \<and> ble_device_addr_encode sd p off mx m =
        (NRF_SUCCESS, off + of_nat (length (ad_bytes f)), mem_write (p + unat off) (ad_bytes f) m))"
    using le_max_cases [of mx off 9] addr_append [of off mx sd ty addr p m] g
    by (cases "code = NRF_SUCCESS")
      (auto simp: ble_device_addr_encode_def ok_one_def ad_struct_ok_def simp del: upt_Suc)
qed

interpretation role: ad_field "ad_when (role \<noteq> BLE_ADVDATA_ROLE_NOT_PRESENT) (le_role_encode role)"
  "ok_when (role \<noteq> BLE_ADVDATA_ROLE_NOT_PRESENT) (ok_one (\<lambda>f. \<exists>r. f = (0x1C, [r])))" for role
proof (cases "role = BLE_ADVDATA_ROLE_NOT_PRESENT")
  case True
  then show "ad_field (ad_when (role \<noteq> BLE_ADVDATA_ROLE_NOT_PRESENT) (le_role_encode role))
      (ok_when (role \<noteq> BLE_ADVDATA_ROLE_NOT_PRESENT) (ok_one (\<lambda>f. \<exists>r. f = (0x1C, [r]))))"
    by unfold_locales (auto simp: ad_when_def ok_when_def ok_none_def)
next
  case False
  show "ad_field (ad_when (role \<noteq> BLE_ADVDATA_ROLE_NOT_PRESENT) (le_role_encode role))
      (ok_when (role \<noteq> BLE_ADVDATA_ROLE_NOT_PRESENT) (ok_one (\<lambda>f. \<exists>r. f = (0x1C, [r]))))"
  proof (rule ad_field_append)
    fix p and off mx :: u16 and m
    show "(\<exists>code. code \<noteq> NRF_SUCCESS \<and>
        ad_when (role \<noteq> BLE_ADVDATA_ROLE_NOT_PRESENT) (le_role_encode role) p off mx m = (code, off, m)) \<or>
      (\<exists>f. ok_when (role \<noteq> BLE_ADVDATA_ROLE_NOT_PRESENT) (ok_one (\<lambda>f. \<exists>r. f = (0x1C, [r]))) [f] \<and>
        ad_struct_ok f \<and> unat off + length (ad_bytes f) \<le> unat mx \<and>
        ad_when (role \<noteq> BLE_ADVDATA_ROLE_NOT_PRESENT) (le_role_encode role) p off mx m =
        (NRF_SUCCESS, off + of_nat (length (ad_bytes f)), mem_write (p + unat off) (ad_bytes f) m))"
    proof (cases "unat off + 3 \<le> unat mx")
      case True
      then obtain r where "le_role_encode role p off mx m = (NRF_SUCCESS, off + of_nat (length (ad_bytes (0x1C, [r]))),
          mem_write (p + unat off) (ad_bytes (0x1C, [r])) m)"
        using le_role_append False by blast
      with False True show ?thesis
        by (intro disjI2 exI [of _ "(0x1C, [r])"])
          (simp add: ad_when_def ok_when_def ok_one_def ad_struct_ok_def)
    next
      case F: False
      with False show ?thesis by (simp add: ad_when_def le_role_encode_def)
    qed
  qed
qed

lemma ad_field_skip:
  "enc = (\<lambda>p off mx m. (NRF_SUCCESS, off, m)) \<Longrightarrow> ad_field enc ok_none"
  by unfold_locales (auto simp: ok_none_def)

lemma ad_field_when: "(b \<Longrightarrow> ad_field e P) \<Longrightarrow> ad_field (ad_when b e) (ok_when b P)"
  by (cases b) (auto simp: ok_when_def ad_when_def [abs_def] intro: ad_field_skip)

lemma ad_field_option: "(\<And>y. x = Some y \<Longrightarrow> ad_field (e y) (P y)) \<Longrightarrow> ad_field (ad_option e x) (ok_option P x)"
  by (cases x) (auto simp: ok_option_def ad_option_def [abs_def] intro: ad_field_skip)

lemma ad_field_then:
  assumes a: "ad_field e1 P1" and b: "ad_field e2 P2"
  shows "ad_field (ad_then e1 e2) (ok_seq P1 P2)"
proof unfold_locales
  fix p off mx m code off' m'
  assume e: "ad_then e1 e2 p off mx m = (code, off', m')" and le: "off \<le> mx"
  obtain c1 o1 m1 where e1: "e1 p off mx m = (c1, o1, m1)" by (metis prod_cases3)
  note B1 = ad_field.af_bounds [OF a e1 le] and F1 = ad_field.af_frame [OF a e1 le]
  show "off \<le> off' \<and> off' \<le> mx"
  proof (cases "c1 = NRF_SUCCESS")
    case True
    then have "e2 p o1 mx m1 = (code, off', m')" using e e1 by (simp add: ad_then_def)
    with ad_field.af_bounds [OF b] B1 show ?thesis by fastforce
  qed (use e e1 B1 in \<open>auto simp: ad_then_def\<close>)
  show "same_outside (p + unat off) (unat mx - unat off) m m'"
  proof (cases "c1 = NRF_SUCCESS")
    case True
    then have e2: "e2 p o1 mx m1 = (code, off', m')" using e e1 by (simp add: ad_then_def)
    have "same_outside (p + unat off) (unat mx - unat off) m1 m'"
      by (rule same_outside_mono [OF ad_field.af_frame [OF b e2]]) (use B1 in \<open>auto simp: word_le_nat_alt\<close>)
    with F1 show ?thesis by (rule same_outside_trans)
  qed (use e e1 F1 in \<open>auto simp: ad_then_def\<close>)
next
  fix p off mx m off' m'
  assume e: "ad_then e1 e2 p off mx m = (NRF_SUCCESS, off', m')" and le: "off \<le> mx"
  obtain c1 o1 m1 where e1: "e1 p off mx m = (c1, o1, m1)" by (metis prod_cases3)
  with e have c1: "c1 = NRF_SUCCESS" and e2: "e2 p o1 mx m1 = (NRF_SUCCESS, off', m')"
    by (auto simp: ad_then_def split: if_splits)
  note B1 = ad_field.af_bounds [OF a e1 le]
  then have le1: "o1 \<le> mx" by simp
  note B2 = ad_field.af_bounds [OF b e2 le1]
  obtain as where A: "P1 as" "\<forall>f \<in> set as. ad_struct_ok f"
    "mem_read (p + unat off) (unat o1 - unat off) m1 = concat (map ad_bytes as)"
    using ad_field.af_tlv [OF a] e1 c1 le by blast
  obtain bs where Bs: "P2 bs" "\<forall>f \<in> set bs. ad_struct_ok f"
    "mem_read (p + unat o1) (unat off' - unat o1) m' = concat (map ad_bytes bs)"
    using ad_field.af_tlv [OF b e2 le1] by blast
  have "mem_read (p + unat off) (unat o1 - unat off) m' = mem_read (p + unat off) (unat o1 - unat off) m1"
    by (rule mem_read_same_outside [OF ad_field.af_frame [OF b e2 le1]])
      (use B1 in \<open>auto simp: disjoint_regions_def word_le_nat_alt\<close>)
  moreover have "unat off' - unat off = (unat o1 - unat off) + (unat off' - unat o1)"
    using B1 B2 by (simp add: word_le_nat_alt)
  moreover have "p + unat off + (unat o1 - unat off) = p + unat o1"
    using B1 by (simp add: word_le_nat_alt)
  ultimately have "mem_read (p + unat off) (unat off' - unat off) m' = concat (map ad_bytes (as @ bs))"
    using A(3) Bs(3) by (simp only: mem_read_append map_append concat_append)
  with A Bs show "\<exists>fs. ok_seq P1 P2 fs \<and> (\<forall>f \<in> set fs. ad_struct_ok f) \<and>
      mem_read (p + unat off) (unat off' - unat off) m' = concat (map ad_bytes fs)"
    by (intro exI [of _ "as @ bs"]) (auto simp: ok_seq_def)
qed

definition manuf_head :: "ble_advdata_manuf_data \<Rightarrow> u8 list" where
  "manuf_head d = [of_nat (3 + unat (arr_size (manuf_data d))), 0xFF] @ uint16_bytes (company_identifier d)"

lemma manuf_eq:
  "manuf_specific_data_encode d p off mx m =
    (let n = unat (arr_size (manuf_data d)); src = arr_data (manuf_data d);
         mh = mem_write (p + unat off) (manuf_head d) m in
     if \<not> (unat off + 4 + n \<le> unat mx \<and> n \<le> 252) then (NRF_ERROR_DATA_SIZE, off, m)
     else if n \<noteq> 0 \<and> src = NULL then (NRF_ERROR_INVALID_PARAM, off + 4, mh)
     else (NRF_SUCCESS, off + of_nat (4 + n), memcpy (p + unat off + 4) src n mh))"
proof (cases "unat off + 4 + unat (arr_size (manuf_data d)) \<le> unat mx \<and> unat (arr_size (manuf_data d)) \<le> 252")
  case False
  then show ?thesis by (auto simp: manuf_specific_data_encode_def Let_def)
next
  case True
  let ?n = "unat (arr_size (manuf_data d))"
  have b: "unat off + 4 < 65536" using True u16_less_65536 [of mx] by simp
  have h: "mem_write (p + unat off + 2) (uint16_bytes (company_identifier d))
      (m(p + unat off := of_nat (1 + (2 + ?n)), p + unat off + 1 := 0xFF)) =
      mem_write (p + unat off) (manuf_head d) m"
    using mem_write_append [of "p + unat off" "[of_nat (1 + (2 + ?n)), 0xFF]" "uint16_bytes (company_identifier d)" m]
    by (simp add: mem_write_Cons manuf_head_def)
  have z: "arr_size (manuf_data d) > 0 \<longleftrightarrow> ?n \<noteq> 0" by (simp add: word_gt_0 unat_eq_0)
  have "manuf_specific_data_encode d p off mx m =
      (if ?n \<noteq> 0 then
         if arr_data (manuf_data d) = NULL then (NRF_ERROR_INVALID_PARAM, off + 4, mem_write (p + unat off) (manuf_head d) m)
         else (NRF_SUCCESS, off + 4 + arr_size (manuf_data d),
               memcpy (p + unat off + 4) (arr_data (manuf_data d)) ?n (mem_write (p + unat off) (manuf_head d) m))
       else (NRF_SUCCESS, off + 4, mem_write (p + unat off) (manuf_head d) m))"
    unfolding manuf_specific_data_encode_def Let_def z using True b h
    by (simp add: off_simps uint16_encode_def add.assoc add.commute [of 4 "unat off"] add.commute [of 4 off])
  with True show ?thesis by (auto simp: Let_def memcpy_def add.assoc unat_eq_0)
qed

lemma manuf_field:
  "ad_field (manuf_specific_data_encode d)
    (ok_one (\<lambda>f. \<exists>bs. f = (0xFF, uint16_bytes (company_identifier d) @ bs) \<and> length bs = unat (arr_size (manuf_data d))))"
    (is "ad_field _ (ok_one ?P)")
proof unfold_locales
  fix p and off mx :: u16 and m code off' m'
  assume e: "manuf_specific_data_encode d p off mx m = (code, off', m')" and le: "off \<le> mx"
  let ?n = "unat (arr_size (manuf_data d))"
  have u: "unat (off + of_nat (4 + ?n)) = unat off + (4 + ?n)" "unat (off + 4) = unat off + 4"
    if "unat off + 4 + ?n \<le> unat mx"
    using that offset_bound [of off "4 + ?n" mx] unat_off_of_nat [of off "4 + ?n"]
    by (simp_all add: off_simps)
  show "off \<le> off' \<and> off' \<le> mx"
    using e le u by (auto simp: manuf_eq Let_def word_le_nat_alt simp del: of_nat_add split: if_splits)
  show "same_outside (p + unat off) (unat mx - unat off) m m'"
    using e by (auto simp: manuf_eq Let_def manuf_head_def split: if_splits
        intro!: same_outside_memcpy_trans same_outside_write)
next
  fix p and off mx :: u16 and m off' m'
  assume e: "manuf_specific_data_encode d p off mx m = (NRF_SUCCESS, off', m')" and le: "off \<le> mx"
  let ?n = "unat (arr_size (manuf_data d))"
  let ?bs = "mem_read (arr_data (manuf_data d)) ?n (mem_write (p + unat off) (manuf_head d) m)"
  let ?f = "(0xFF, uint16_bytes (company_identifier d) @ ?bs)"
  have r: "unat off + 4 + ?n \<le> unat mx" "?n \<le> 252" "off' = off + of_nat (4 + ?n)"
    "m' = memcpy (p + unat off + 4) (arr_data (manuf_data d)) ?n (mem_write (p + unat off) (manuf_head d) m)"
    using e by (auto simp: manuf_eq Let_def split: if_splits)
  have "unat off' = unat off + (4 + ?n)"
    unfolding r(3) by (rule unat_off_of_nat) (use offset_bound [of off "4 + ?n" mx] r(1) in simp)
  moreover have "m' = mem_write (p + unat off) (ad_bytes ?f) m"
    using mem_write_append [of "p + unat off" "manuf_head d" ?bs m]
    by (simp add: r(4) memcpy_def manuf_head_def)
  ultimately have "mem_read (p + unat off) (unat off' - unat off) m' = ad_bytes ?f"
    by (simp add: mem_read_write_same)
  then show "\<exists>fs. ok_one ?P fs \<and> (\<forall>f \<in> set fs. ad_struct_ok f) \<and>
      mem_read (p + unat off) (unat off' - unat off) m' = concat (map ad_bytes fs)"
    using r(2) by (intro exI [of _ "[?f]"]) (simp add: ok_one_def ad_struct_ok_def)
qed

subsection \<open>Encoders that call the SoftDevice\<close>

text \<open>
  What the header of the SoftDevice documents: the device name is written into the given buffer
  only; the UUID encoder writes only the encoded bytes, nothing through a null pointer, and its
  length output depends on the UUID alone.
\<close>

definition uuid_law :: "softdevice \<Rightarrow> (ble_uuid \<Rightarrow> u8) \<Rightarrow> bool" where
  "uuid_law sd sz \<longleftrightarrow> (\<forall>u q m code k m'. sd_ble_uuid_encode sd u q m = (code, k, m') \<longrightarrow>
     same_outside q (if q = NULL then 0 else unat (sz u)) m m' \<and> (code = NRF_SUCCESS \<longrightarrow> k = sz u))"

definition sd_laws :: "softdevice \<Rightarrow> bool" where
  "sd_laws sd \<longleftrightarrow>
     (\<forall>q n m code n' m'. sd_ble_gap_device_name_get sd q n m = (code, n', m') \<longrightarrow>
        same_outside q (unat n) m m') \<and>
     (\<exists>sz. uuid_law sd sz)"

lemma same_outside_0D: "same_outside q 0 m m' \<Longrightarrow> m' = m"
  by (auto simp: same_outside_def)

lemma uuid_loop_spec:
  assumes law: "uuid_law sd sz"
  shows "uuid_list_loop sd uuids t us p mx n h off m = (code, h', off', m') \<Longrightarrow> unat off \<le> unat mx \<Longrightarrow>
    unat off \<le> unat off' \<and> unat off' \<le> unat mx \<and>
    same_outside (p + unat off) (unat mx - unat off) m m' \<and>
    (h \<longrightarrow> h') \<and> (\<not> h' \<longrightarrow> off' = off \<and> m' = m) \<and>
    (\<not> h \<and> h' \<longrightarrow> unat off + 2 \<le> unat off' \<and> m' (p + unat off + 1) = t)"
proof (induction n arbitrary: uuids h off m)
  case 0
  then show ?case by simp
next
  case (Suc n)
  have sd: "sd_ble_uuid_encode sd u q m = (code, k, m') \<Longrightarrow>
      same_outside q (if q = NULL then 0 else unat (sz u)) m m' \<and> (code = NRF_SUCCESS \<longrightarrow> k = sz u)"
    for u q m code k m' using law unfolding uuid_law_def by blast
  obtain c1 k1 m1 where e1: "sd_ble_uuid_encode sd (uuids 0) NULL m = (c1, k1, m1)" by (metis prod_cases3)
  with sd [OF e1] have m1: "m1 = m" by (auto dest: same_outside_0D)
  show ?case
  proof (cases "c1 = NRF_SUCCESS \<and> k1 = us")
    case False
    then show ?thesis using Suc.prems e1 m1 Suc.IH [of "\<lambda>i. uuids (Suc i)" h off m]
      by (auto simp: Let_def split: if_splits)
  next
    case True
    then have k: "k1 = sz (uuids 0)" using sd [OF e1] by simp
    let ?hb = "if h then 0 else (2 :: nat)"
    show ?thesis
    proof (cases "unat off + unat k1 + ?hb > unat mx")
      case True': True
      then show ?thesis using Suc.prems e1 m1 True by (auto simp: Let_def split: if_splits)
    next
      case False
      define o2 where "o2 = (if h then off else off + 2)"
      define m2 where "m2 = (if h then m else m(p + unat (off + 1) := t))"
      have room: "unat off + ?hb + unat k1 \<le> unat mx" using False by simp
      then have o2: "unat o2 = unat off + ?hb" and o1: "\<not> h \<longrightarrow> unat (off + 1) = unat off + 1"
        using u16_less_65536 [of mx] by (auto simp: o2_def off_simps)
      obtain c3 k3 m3 where e3: "sd_ble_uuid_encode sd (uuids 0) (p + unat o2) m2 = (c3, k3, m3)"
        by (metis prod_cases3)
      have f3: "same_outside (p + unat o2) (unat k1) m2 m3" "c3 = NRF_SUCCESS \<Longrightarrow> k3 = k1"
        using sd [OF e3] k by (auto simp: same_outside_def split: if_splits)
      have step: "uuid_list_loop sd uuids t us p mx (Suc n) h off m =
          (if c3 \<noteq> NRF_SUCCESS then (c3, True, o2, m3)
           else uuid_list_loop sd (\<lambda>i. uuids (Suc i)) t us p mx n True (o2 + ucast k3) m3)"
        using e1 e3 m1 True False by (auto simp: Let_def o2_def m2_def add.commute [of 2 off])
      have fr: "same_outside (p + unat off) (unat mx - unat off) m m3"
      proof (rule same_outside_trans)
        show "same_outside (p + unat off) (unat mx - unat off) m m2"
          using o1 room by (auto simp: m2_def same_outside_def)
        show "same_outside (p + unat off) (unat mx - unat off) m2 m3"
          by (rule same_outside_mono [OF f3(1)]) (use o2 room in auto)
      qed
      have h3: "\<not> h \<Longrightarrow> m3 (p + unat off + 1) = t"
        using f3(1) o2 o1 by (auto simp: same_outside_def m2_def)
      show ?thesis
      proof (cases "c3 = NRF_SUCCESS")
        case False
        then show ?thesis using Suc.prems(1) fr h3 o2 room unfolding step by auto
      next
        case True
        have o4: "unat (o2 + ucast k3) = unat off + ?hb + unat k1"
          using f3(2) [OF True] o2 room u16_less_65536 [of mx]
          by (subst unat_plus_small) simp_all
        have "uuid_list_loop sd (\<lambda>i. uuids (Suc i)) t us p mx n True (o2 + ucast k3) m3 = (code, h', off', m')"
          using Suc.prems(1) True unfolding step by simp
        from Suc.IH [OF this] o4 room
        have ih: "unat off + ?hb + unat k1 \<le> unat off'" "unat off' \<le> unat mx" "h'"
          "same_outside (p + (unat off + ?hb + unat k1)) (unat mx - (unat off + ?hb + unat k1)) m3 m'"
          by auto
        have "same_outside (p + unat off) (unat mx - unat off) m3 m'"
          by (rule same_outside_mono [OF ih(4)]) (use room in auto)
        with fr have "same_outside (p + unat off) (unat mx - unat off) m m'" by (rule same_outside_trans)
        moreover have "\<not> h \<Longrightarrow> m' (p + unat off + 1) = t"
          using h3 ih(4) by (auto simp: same_outside_def)
        ultimately show ?thesis using ih by auto
      qed
    qed
  qed
qed

lemma uuid_sized_field:
  assumes "sd_laws sd"
  shows "ad_field (uuid_list_sized_encode sd l t us) (\<lambda>fs. fs = [] \<or> (\<exists>d. fs = [(t, d)]))"
proof -
  obtain sz where law: "uuid_law sd sz"
    using assms by (auto simp: sd_laws_def)
  note spec = uuid_loop_spec [OF law]
  show ?thesis
  proof unfold_locales
    fix p and off mx :: u16 and m code off' m'
    assume e: "uuid_list_sized_encode sd l t us p off mx m = (code, off', m')" and le: "off \<le> mx"
    obtain c h o1 m1 where loop: "uuid_list_loop sd (p_uuids l) t us p mx (unat (uuid_cnt l)) False off m =
        (c, h, o1, m1)" by (metis prod_cases4)
    have S: "unat off \<le> unat o1" "unat o1 \<le> unat mx" "same_outside (p + unat off) (unat mx - unat off) m m1"
      "h \<Longrightarrow> unat off + 2 \<le> unat o1"
      using spec [OF loop] le by (auto simp: word_le_nat_alt)
    have r: "off' = o1" "m' = m1 \<or> (h \<and> (\<exists>x. m' = m1(p + unat off := x)))"
      using e loop by (auto simp: uuid_list_sized_encode_def Let_def split: if_splits)
    show "off \<le> off' \<and> off' \<le> mx" using S r by (simp add: word_le_nat_alt)
    show "same_outside (p + unat off) (unat mx - unat off) m m'"
      using r(2) S by (auto intro!: same_outside_upd)
  next
    fix p and off mx :: u16 and m off' m'
    assume e: "uuid_list_sized_encode sd l t us p off mx m = (NRF_SUCCESS, off', m')" and le: "off \<le> mx"
    obtain c h o1 m1 where loop: "uuid_list_loop sd (p_uuids l) t us p mx (unat (uuid_cnt l)) False off m =
        (c, h, o1, m1)" by (metis prod_cases4)
    have S: "unat off \<le> unat o1" "unat o1 \<le> unat mx" "h \<Longrightarrow> unat off + 2 \<le> unat o1"
      "h \<Longrightarrow> m1 (p + unat off + 1) = t" "\<not> h \<Longrightarrow> o1 = off"
      using spec [OF loop] le by (auto simp: word_le_nat_alt)
    show "\<exists>fs. (fs = [] \<or> (\<exists>d. fs = [(t, d)])) \<and> (\<forall>f \<in> set fs. ad_struct_ok f) \<and>
        mem_read (p + unat off) (unat off' - unat off) m' = concat (map ad_bytes fs)"
    proof (cases h)
      case False
      with e loop S(5) have "off' = off" by (auto simp: uuid_list_sized_encode_def Let_def split: if_splits)
      then show ?thesis by (intro exI [of _ "[]"]) simp
    next
      case True
      define ln where "ln = o1 - (off + 1)"
      have r: "off' = o1" "m' = m1(p + unat off := ucast ln)" "ln \<le> 0xFF"
        using e loop True by (auto simp: uuid_list_sized_encode_def Let_def ln_def split: if_splits)
      have o1: "unat (off + 1) = unat off + 1" using S(3) [OF True] u16_less_65536 [of o1] by (simp add: off_simps)
      then have ln: "unat ln = unat o1 - unat off - 1"
        unfolding ln_def using S(3) [OF True] by (subst unat_minus_le) (simp_all add: word_le_nat_alt)
      define k where "k = unat o1 - unat off - 2"
      have k: "unat o1 - unat off = Suc (Suc k)" "unat ln = 1 + k" using S(3) [OF True] ln by (simp_all add: k_def)
      have "unat ln \<le> 255" using r(3) by (simp add: word_le_nat_alt)
      then have k254: "k \<le> 254" using k(2) by simp
      have "ucast ln = (of_nat (1 + k) :: u8)" unfolding k(2) [symmetric] of_nat_unat ..
      then have "mem_read (p + unat off) (unat off' - unat off) m' =
          ad_bytes (t, mem_read (p + unat off + 2) k m')"
        using S(4) [OF True] unfolding r(1) k(1) by (simp add: mem_read_Suc r(2))
      then show ?thesis using k254
        by (intro exI [of _ "[(t, mem_read (p + unat off + 2) k m')]"]) (simp add: ad_struct_ok_def)
    qed
  qed
qed

definition name_format_ok :: "ble_advdata \<Rightarrow> ad_struct \<Rightarrow> bool" where
  "name_format_ok d f \<longleftrightarrow> (fst f = 0x08 \<or> fst f = 0x09 \<and> name_type d = BLE_ADVDATA_FULL_NAME) \<and>
     (name_type d = BLE_ADVDATA_SHORT_NAME \<longrightarrow> length (snd f) = unat (short_name_len d))"

text \<open>The cases of the name encoder: a failure that left the offset alone and wrote at most where
  the name goes, or one structure around what the SoftDevice wrote.\<close>

lemma name_encode_cases:
  assumes sd: "sd_laws sd" and e: "name_encode sd d p off mx m = (code, off', m')" and le: "off \<le> mx"
  obtains "code \<noteq> NRF_SUCCESS" "off' = off" "same_outside (p + unat off) (unat mx - unat off) m m'"
  | t n m1 where "code = NRF_SUCCESS" "same_outside (p + unat off) (unat mx - unat off) m m1"
      "unat off + 2 + unat n \<le> unat mx" "unat n \<le> 254" "off' = off + 2 + n"
      "m' = mem_write (p + unat off) [of_nat (1 + unat n), t] m1"
      "t = 0x08 \<or> t = 0x09 \<and> name_type d = BLE_ADVDATA_FULL_NAME"
      "name_type d = BLE_ADVDATA_SHORT_NAME \<Longrightarrow> unat n = unat (short_name_len d)"
proof -
  define rem where "rem = mx - off - 2"
  show thesis
  proof (cases "(name_type d = BLE_ADVDATA_SHORT_NAME \<and> short_name_len d = 0) \<or> unat off + 2 > unat mx \<or>
      (name_type d = BLE_ADVDATA_SHORT_NAME \<and> unat off + 2 + unat (short_name_len d) > unat mx)")
    case True
    with e have "code \<noteq> NRF_SUCCESS" "off' = off" "m' = m" by (auto simp: name_encode_def split: if_splits)
    with that(1) show thesis by simp
  next
    case False
    then have room: "unat off + 2 \<le> unat mx"
      and short: "name_type d = BLE_ADVDATA_SHORT_NAME \<Longrightarrow> unat off + 2 + unat (short_name_len d) \<le> unat mx"
      by auto
    have "unat (mx - off) = unat mx - unat off" using le by (rule unat_minus_le)
    moreover from this have "2 \<le> mx - off" using room by (simp add: word_le_nat_alt)
    ultimately have rem: "unat rem = unat mx - unat off - 2" unfolding rem_def by (simp add: unat_minus_le)
    obtain c1 n1 m1 where g: "sd_ble_gap_device_name_get sd (p + unat off + 2) rem m = (c1, n1, m1)"
      by (metis prod_cases3)
    then have "same_outside (p + unat off + 2) (unat rem) m m1" using sd unfolding sd_laws_def by blast
    then have fr: "same_outside (p + unat off) (unat mx - unat off) m m1"
      by (rule same_outside_mono) (use rem room in auto)
    define t :: u8 where "t = (if name_type d = BLE_ADVDATA_FULL_NAME \<and> n1 \<le> rem then 0x09 else 0x08)"
    define n where "n = (if name_type d = BLE_ADVDATA_FULL_NAME \<and> n1 \<le> rem then n1
      else if name_type d = BLE_ADVDATA_SHORT_NAME \<and> ucast (short_name_len d) \<le> rem
      then ucast (short_name_len d) else rem)"
    have nle: "unat n \<le> unat rem" by (auto simp: n_def word_le_nat_alt)
    have sn: "unat n = unat (short_name_len d)" if "name_type d = BLE_ADVDATA_SHORT_NAME"
      using short [OF that] that rem by (simp add: n_def word_le_nat_alt)
    have b: "unat off + 2 < 65536" using room u16_less_65536 [of mx] by simp
    have uo: "unat (off + 1) = unat off + 1" using b by (simp add: off_simps)
    have eq: "name_encode sd d p off mx m =
        (if c1 \<noteq> NRF_SUCCESS then (c1, off, m1)
         else if n > 0x00FF - 1 then (NRF_ERROR_DATA_SIZE, off, m1)
         else (NRF_SUCCESS, off + 1 + 1 + n, m1(p + unat off := ucast (1 + n), p + unat off + 1 := t)))"
      using False g unfolding name_encode_def Let_def rem_def [symmetric]
      by (auto simp: t_def n_def uo)
    show thesis
    proof (cases "c1 = NRF_SUCCESS \<and> \<not> n > 0x00FF - 1")
      case F: False
      with e fr that(1) show thesis unfolding eq by (auto split: if_splits)
    next
      case True
      then have n254: "unat n \<le> 254" by (simp add: word_less_nat_alt)
      then have "unat (1 + n) = 1 + unat n" by (subst unat_plus_small) simp_all
      then have "ucast (1 + n) = (of_nat (1 + unat n) :: u8)" by (metis of_nat_unat)
      then have "m' = mem_write (p + unat off) [of_nat (1 + unat n), t] m1" "code = NRF_SUCCESS" "off' = off + 2 + n"
        using e True unfolding eq by (auto simp: mem_write_Cons)
      with that(2) [OF _ fr _ n254] nle rem room sn show thesis by (auto simp: t_def)
    qed
  qed
qed

lemma name_field:
  assumes "sd_laws sd"
  shows "ad_field (name_encode sd d) (ok_one (name_format_ok d))"
proof unfold_locales
  fix p and off mx :: u16 and m code off' m'
  assume e: "name_encode sd d p off mx m = (code, off', m')" and le: "off \<le> mx"
  show "off \<le> off' \<and> off' \<le> mx"
  proof (cases rule: name_encode_cases [OF assms e le])
    case (2 t n m1)
    have "unat (off + 2) = unat off + 2" using 2(3) u16_less_65536 [of mx] by (simp add: off_simps)
    then have "unat off' = unat off + 2 + unat n"
      unfolding 2(5) using 2(3) u16_less_65536 [of mx] by (subst unat_plus_small) simp_all
    with 2(3) show ?thesis by (simp add: word_le_nat_alt)
  qed (use le in simp)
  show "same_outside (p + unat off) (unat mx - unat off) m m'"
  proof (cases rule: name_encode_cases [OF assms e le])
    case (2 t n m1)
    then show ?thesis by (auto intro!: same_outside_write_trans)
  qed
next
  fix p and off mx :: u16 and m off' m'
  assume e: "name_encode sd d p off mx m = (NRF_SUCCESS, off', m')" and le: "off \<le> mx"
  show "\<exists>fs. ok_one (name_format_ok d) fs \<and> (\<forall>f \<in> set fs. ad_struct_ok f) \<and>
      mem_read (p + unat off) (unat off' - unat off) m' = concat (map ad_bytes fs)"
  proof (cases rule: name_encode_cases [OF assms e le])
    case (2 t n m1)
    have "unat (off + 2) = unat off + 2" using 2(3) u16_less_65536 [of mx] by (simp add: off_simps)
    then have "unat off' = unat off + 2 + unat n"
      unfolding 2(5) using 2(3) u16_less_65536 [of mx] by (subst unat_plus_small) simp_all
    then have "mem_read (p + unat off) (unat off' - unat off) m' =
        ad_bytes (t, mem_read (p + unat off + 2) (unat n) m')"
      by (simp add: 2(6) mem_read_Suc mem_write_Cons)
    with 2(4,7,8) show ?thesis
      by (intro exI [of _ "[(t, mem_read (p + unat off + 2) (unat n) m')]"])
        (auto simp: ok_one_def name_format_ok_def ad_struct_ok_def)
  qed simp
qed

subsection \<open>The whole encoder\<close>

text \<open>The AD structures that a description without service data gives, in their order.\<close>

definition uuid_list_ok :: "ble_advdata_uuid_list \<Rightarrow> u8 \<Rightarrow> u8 \<Rightarrow> ad_struct list \<Rightarrow> bool" where
  "uuid_list_ok l t16 t128 = ok_when (uuid_cnt l > 0)
     (ok_seq (\<lambda>fs. fs = [] \<or> (\<exists>d. fs = [(t16, d)])) (\<lambda>fs. fs = [] \<or> (\<exists>d. fs = [(t128, d)])))"

definition adv_structs_ok :: "softdevice \<Rightarrow> ble_advdata \<Rightarrow> ad_struct list \<Rightarrow> bool" where
  "adv_structs_ok sd d =
     ok_seq (ok_option (\<lambda>x. ok_one (\<lambda>f. f = (0x11, [x]))) (p_sec_mgr_oob_flags d))
     (ok_seq (ok_option (\<lambda>k. ok_one (\<lambda>f. f = (0x10, map k (rev [0..<16])))) (p_tk_value d))
     (ok_seq (ok_when (le_role d \<noteq> BLE_ADVDATA_ROLE_NOT_PRESENT) (ok_one (\<lambda>f. \<exists>r. f = (0x1C, [r]))))
     (ok_seq (ok_when (include_ble_device_addr d) (ok_one (\<lambda>f. \<exists>ty addr.
        sd_ble_gap_address_get sd = (NRF_SUCCESS, ty, addr) \<and>
        f = (0x1B, map addr [0..<6] @ [if ty = 0 then 0 else 1]))))
     (ok_seq (ok_when (include_appearance d) (ok_one (\<lambda>f. \<exists>x.
        sd_ble_gap_appearance_get sd = (NRF_SUCCESS, x) \<and> f = (0x19, uint16_bytes x))))
     (ok_seq (ok_when (adv_flags d \<noteq> 0) (ok_one (\<lambda>f. f = (0x01, [adv_flags d]))))
     (ok_seq (ok_option (\<lambda>x. ok_one (\<lambda>f. f = (0x0A, [x]))) (p_tx_power_level d))
     (ok_seq (uuid_list_ok (uuids_more_available d) 0x02 0x06)
     (ok_seq (uuid_list_ok (uuids_complete d) 0x03 0x07)
     (ok_seq (uuid_list_ok (uuids_solicited d) 0x14 0x15)
     (ok_seq (ok_option (\<lambda>c. ok_one (\<lambda>f.
        f = (0x12, uint16_bytes (min_conn_interval c) @ uint16_bytes (max_conn_interval c)) \<and>
        conn_int_check c = NRF_SUCCESS)) (p_slave_conn_int d))
     (ok_seq (ok_option (\<lambda>x. ok_one (\<lambda>f. \<exists>bs. f = (0xFF, uint16_bytes (company_identifier x) @ bs) \<and>
        length bs = unat (arr_size (manuf_data x)))) (p_manuf_specific_data d))
     (ok_seq ok_none (ok_when (name_type d \<noteq> BLE_ADVDATA_NO_NAME) (ok_one (name_format_ok d)))))))))))))))"

lemma uuid_list_field:
  "sd_laws sd \<Longrightarrow> ad_field (ad_when (uuid_cnt l > 0) (uuid_list_encode sd l t16 t128)) (uuid_list_ok l t16 t128)"
  unfolding uuid_list_ok_def uuid_list_encode_def
  by (intro ad_field_when ad_field_then uuid_sized_field)

lemma adv_data_field:
  assumes "sd_laws sd" "service_data_count d = 0"
  shows "ad_field (adv_data_steps sd d) (adv_structs_ok sd d)"
proof -
  have none: "ad_field (ad_when (service_data_count d > 0) (service_data_encode d)) ok_none"
    using assms(2) by (intro ad_field_skip) (simp add: ad_when_def fun_eq_iff)
  show ?thesis
    unfolding adv_structs_ok_def adv_data_steps_def
    by (intro ad_field_then none ad_field_when ad_field_option uuid_list_field assms(1) name_field manuf_field
        flags.ad_field_axioms oob_flags.ad_field_axioms tx_power.ad_field_axioms tk.ad_field_axioms
        conn_int.ad_field_axioms appearance.ad_field_axioms device_addr.ad_field_axioms role.ad_field_axioms)
qed

lemma adv_data_encode_spec_mem:
  assumes "sd_laws sd" "service_data_count d = 0" "adv_data_encode sd d p len m = (NRF_SUCCESS, len', m')"
  shows "\<exists>fs. adv_structs_ok sd d fs \<and> (\<forall>f \<in> set fs. ad_struct_ok f) \<and>
    mem_read p (unat len') m' = concat (map ad_bytes fs)"
  using ad_field.af_tlv [OF adv_data_field [OF assms(1,2)], of p 0 len m len' m'] assms(3)
  by (auto simp: adv_data_encode_def)

subsection \<open>Properties\<close>


text \<open>A SoftDevice without UUIDs and with the device name \<open>AB\<close>.\<close>

definition sd_example :: softdevice where
  "sd_example =
     \<lparr>sd_ble_gap_address_get = (NRF_SUCCESS, 1, \<lambda>i. of_nat i),
      sd_ble_gap_device_name_get = (\<lambda>p n m. (NRF_SUCCESS, 2, mem_write p (take (unat n) [0x41, 0x42]) m)),
      sd_ble_gap_appearance_get = (NRF_SUCCESS, 0x0180),
      sd_ble_uuid_encode = (\<lambda>u p m. (NRF_SUCCESS, 2, if p = NULL then m else mem_write p (uint16_bytes (ble_uuid_uuid u)) m)),
      sd_ble_gap_adv_data_set = (\<lambda>p n q k m. NRF_SUCCESS)\<rparr>"

lemma sd_example_laws: "sd_laws sd_example"
proof -
  have "uuid_law sd_example (\<lambda>_. 2)"
    by (auto simp: uuid_law_def sd_example_def intro!: same_outside_write)
  then show ?thesis
    unfolding sd_laws_def by (auto simp: sd_example_def intro!: same_outside_write)
qed

definition adv_example :: ble_advdata where
  "adv_example =
     \<lparr>name_type = BLE_ADVDATA_FULL_NAME, short_name_len = 0, include_appearance = True, adv_flags = 6,
      p_tx_power_level = None,
      uuids_more_available = \<lparr>uuid_cnt = 0, p_uuids = \<lambda>_. \<lparr>ble_uuid_uuid = 0, ble_uuid_type = 0\<rparr>\<rparr>,
      uuids_complete = \<lparr>uuid_cnt = 1, p_uuids = \<lambda>_. \<lparr>ble_uuid_uuid = 0x180F, ble_uuid_type = 1\<rparr>\<rparr>,
      uuids_solicited = \<lparr>uuid_cnt = 0, p_uuids = \<lambda>_. \<lparr>ble_uuid_uuid = 0, ble_uuid_type = 0\<rparr>\<rparr>,
      p_slave_conn_int = None, p_manuf_specific_data = None, p_service_data_array = None,
      service_data_count = 0, include_ble_device_addr = False, le_role = BLE_ADVDATA_ROLE_NOT_PRESENT,
      p_tk_value = None, p_sec_mgr_oob_flags = None\<rparr>"


text \<open>The restriction to descriptions without service data is needed: with 40 bytes of service
  data and a buffer of 31 bytes the encoder reports success and a length of 44, and has written
  behind the buffer.\<close>

lemma service_data_overflow:
  "let d = adv_example\<lparr>name_type := BLE_ADVDATA_NO_NAME, include_appearance := False, adv_flags := 0,
         uuids_complete := uuids_more_available adv_example, service_data_count := 1,
         p_service_data_array := Some (\<lambda>_. \<lparr>service_uuid = 0x180F, service_data = \<lparr>arr_size = 40, arr_data = 500\<rparr>\<rparr>)\<rparr>
   in case adv_data_encode sd d 100 31 (\<lambda>a. of_nat a) of (code, len', m') \<Rightarrow>
     code = NRF_SUCCESS \<and> len' = 44 \<and> \<not> same_outside 100 31 (\<lambda>a. of_nat a) m'"
proof -
  let ?d = "adv_example\<lparr>name_type := BLE_ADVDATA_NO_NAME, include_appearance := False, adv_flags := 0,
         uuids_complete := uuids_more_available adv_example, service_data_count := 1,
         p_service_data_array := Some (\<lambda>_. \<lparr>service_uuid = 0x180F, service_data = \<lparr>arr_size = 40, arr_data = 500\<rparr>\<rparr>)\<rparr>"
  let ?m = "\<lambda>a. of_nat a :: u8"
  let ?h = "mem_write 102 (uint16_bytes 0x180F) (?m(100 := 43, 101 := 0x16))"
  have "adv_data_encode sd ?d 100 31 ?m = (NRF_SUCCESS, 44, memcpy 104 500 40 ?h)"
    by (simp add: adv_data_encode_def adv_data_steps_def adv_example_def ad_then_def ad_when_def ad_option_def
        service_data_encode_def uint16_encode_def Let_def word_gt_0)
  moreover have "memcpy 104 500 40 ?h 131 \<noteq> ?m 131"
    by (simp add: memcpy_def mem_write_def)
  then have "\<not> same_outside 100 31 ?m (memcpy 104 500 40 ?h)" by (auto simp: same_outside_def)
  ultimately show ?thesis by (simp add: Let_def)
qed

text \<open>A short name that is requested longer than the device name is filled up with what the
  output buffer held before: with the device name \<open>AB\<close> and a requested length of 5, three of
  the five name bytes are old bytes of the buffer.\<close>

theorem short_name_stale_bytes:
  "let d = adv_example\<lparr>name_type := BLE_ADVDATA_SHORT_NAME, short_name_len := 5\<rparr>
   in case name_encode sd_example d 100 0 31 m of (code, len', m') \<Rightarrow>
     code = NRF_SUCCESS \<and> mem_read 100 (unat len') m' = [6, 0x08, 0x41, 0x42, m 104, m 105, m 106]"
proof -
  have "mem_write 102 [0x41, 0x42] m = m(102 := 0x41, 103 := 0x42)" by (simp add: mem_write_Cons)
  then show ?thesis
    by (simp add: name_encode_def sd_example_def Let_def mem_read_def upt_rec)
qed



end
