(* ===== verification/NfcPair.thy ===== *)
theory NfcPair
  imports NdefPayloads AdvData
begin

text \<open>
  Bluetooth pairing over NFC: the LE and EP out-of-band records
  (\<^verbatim>\<open>connection_handover/le_oob_rec/\<close>, \<^verbatim>\<open>connection_handover/ep_oob_rec/\<close>) and the pairing
  messages of \<^verbatim>\<open>connection_handover/nfc_ble_pair_msg.c\<close>. The payload of an out-of-band
  record is what the advertising data encoder produces.

  The static objects of the code are addresses in \<open>pair_statics\<close>; the two static ID bytes are
  written by the functions that declare the records, so these return a new memory.
\<close>

unbundle bit_operations_syntax

subsection \<open>Out-of-band records\<close>

definition nfc_le_oob_adv_data_check :: "ble_advdata \<Rightarrow> ret_code" where
  "nfc_le_oob_adv_data_check d =
     (if \<not> include_ble_device_addr d \<or> le_role d = BLE_ADVDATA_ROLE_NOT_PRESENT \<or> p_sec_mgr_oob_flags d \<noteq> None
      then NRF_ERROR_INVALID_PARAM
      else if adv_flags d \<noteq> 0 \<and> adv_flags d AND 0x04 = 0 then NRF_ERROR_INVALID_PARAM
      else NRF_SUCCESS)"

definition nfc_le_oob_payload_constructor :: "softdevice \<Rightarrow> ble_advdata \<Rightarrow> payload_fn" where
  "nfc_le_oob_payload_constructor sd d p_buff len m =
     (let err_code = nfc_le_oob_adv_data_check d in
      if err_code \<noteq> NRF_SUCCESS then (err_code, len, m)
      else
        let buff_len = ucast len :: u16;
            buff_len = (if len > 0xFFFF then 0xFFFF else buff_len)
        in case adv_data_encode sd d p_buff buff_len m of (err_code, buff_len, m) \<Rightarrow>
          (err_code, ucast buff_len, m))"

definition nfc_ep_oob_adv_data_check :: "ble_advdata \<Rightarrow> ret_code" where
  "nfc_ep_oob_adv_data_check d =
     (if include_ble_device_addr d \<or> le_role d \<noteq> BLE_ADVDATA_ROLE_NOT_PRESENT \<or> p_sec_mgr_oob_flags d = None
      then NRF_ERROR_INVALID_PARAM
      else if adv_flags d \<noteq> 0 \<and> adv_flags d AND 0x04 = 0 then NRF_ERROR_INVALID_PARAM
      else NRF_SUCCESS)"

definition nfc_ep_oob_bluetooth_device_address_encode ::
  "softdevice \<Rightarrow> ptr \<Rightarrow> u16 \<Rightarrow> mem \<Rightarrow> ret_code \<times> mem" where
  "nfc_ep_oob_bluetooth_device_address_encode sd p_encoded_data max_len m =
     (if 6 > max_len then (NRF_ERROR_NO_MEM, m)
      else case sd_ble_gap_address_get sd of (err_code, addr_type, addr) \<Rightarrow>
        if err_code \<noteq> NRF_SUCCESS then (err_code, m)
        else (NRF_SUCCESS, mem_write p_encoded_data (map addr [0..<6]) m))"

definition nfc_ep_oob_payload_constructor :: "softdevice \<Rightarrow> ble_advdata \<Rightarrow> payload_fn" where
  "nfc_ep_oob_payload_constructor sd d p_buff len m =
     (let err_code = nfc_ep_oob_adv_data_check d in
      if err_code \<noteq> NRF_SUCCESS then (err_code, len, m)
      else if 8 > len then (NRF_ERROR_NO_MEM, len, m)
      else
        let p_ad_data = p_buff + 8;
            ad_data_len = ucast (len - 8) :: u16;
            ad_data_len = (if len - 8 > 0xFFFF then 0xFFFF else ad_data_len)
        in case adv_data_encode sd d p_ad_data ad_data_len m of (err_code, ad_data_len, m) \<Rightarrow>
          if err_code \<noteq> NRF_SUCCESS then (err_code, len, m)
          else
            let payload_len = ad_data_len + 8;
                (k, m) = uint16_encode payload_len p_buff m;
                p_buff = p_buff + unat k
            in case nfc_ep_oob_bluetooth_device_address_encode sd p_buff (of_nat (p_ad_data - p_buff)) m of
              (err_code, m) \<Rightarrow>
                if err_code \<noteq> NRF_SUCCESS then (err_code, len, m)
                else (NRF_SUCCESS, ucast payload_len, m))"

record pair_statics =
  le_payload_id :: ptr
  le_oob_rec_type_field :: ptr
  ep_payload_id :: ptr
  ep_oob_rec_type_field :: ptr
  nfc_ac_rec_type_field :: ptr
  nfc_hs_rec_type_field :: ptr
  carrier_le_reference :: ptr
  carrier_ep_reference :: ptr

definition nfc_le_oob_rec_declare ::
  "softdevice \<Rightarrow> pair_statics \<Rightarrow> u8 \<Rightarrow> ble_advdata \<Rightarrow> mem \<Rightarrow> ndef_record_desc \<times> mem" where
  "nfc_le_oob_rec_declare sd st rec_payload_id d m =
     (let rec = NFC_NDEF_GENERIC_RECORD_DESC_DEF TNF_MEDIA_TYPE (le_payload_id st) 0
                  (le_oob_rec_type_field st) 32 (nfc_le_oob_payload_constructor sd d);
          m = m(le_payload_id st := rec_payload_id);
          rec = rec\<lparr>id_length := (if rec_payload_id \<noteq> 0 then 1 else 0)\<rparr>
      in (rec, m))"

definition nfc_ep_oob_rec_declare ::
  "softdevice \<Rightarrow> pair_statics \<Rightarrow> u8 \<Rightarrow> ble_advdata \<Rightarrow> mem \<Rightarrow> ndef_record_desc \<times> mem" where
  "nfc_ep_oob_rec_declare sd st rec_payload_id d m =
     (let rec = NFC_NDEF_GENERIC_RECORD_DESC_DEF TNF_MEDIA_TYPE (ep_payload_id st) 0
                  (ep_oob_rec_type_field st) 32 (nfc_ep_oob_payload_constructor sd d);
          m = m(ep_payload_id st := rec_payload_id);
          rec = rec\<lparr>id_length := (if rec_payload_id \<noteq> 0 then 1 else 0)\<rparr>
      in (rec, m))"

subsection \<open>Messages\<close>

text \<open>The static message descriptors before the call.\<close>

record pair_msgs =
  nfc_le_oob_msg :: ndef_msg_desc
  nfc_ep_oob_msg :: ndef_msg_desc
  hs_rec_msg :: ndef_msg_desc
  hs_full_msg :: ndef_msg_desc

definition nfc_ble_simplified_le_oob_msg_declare ::
  "softdevice \<Rightarrow> pair_statics \<Rightarrow> pair_msgs \<Rightarrow> ble_advdata option \<Rightarrow> mem \<Rightarrow>
     ret_code \<times> ndef_msg_desc option \<times> mem" where
  "nfc_ble_simplified_le_oob_msg_declare sd st ms p_le_advdata m =
     (let msg = nfc_ndef_msg_clear ((nfc_le_oob_msg ms)\<lparr>max_record_count := 1\<rparr>) in
      case p_le_advdata of
        None \<Rightarrow> (NRF_ERROR_INVALID_PARAM, None, m)
      | Some d \<Rightarrow>
          (case nfc_le_oob_rec_declare sd st 0 d m of (rec, m) \<Rightarrow>
             case nfc_ndef_msg_record_add msg rec of (err_code, msg) \<Rightarrow>
               if err_code \<noteq> NRF_SUCCESS then (err_code, None, m) else (NRF_SUCCESS, Some msg, m)))"

definition nfc_ble_simplified_ep_oob_msg_declare ::
  "softdevice \<Rightarrow> pair_statics \<Rightarrow> pair_msgs \<Rightarrow> ble_advdata option \<Rightarrow> mem \<Rightarrow>
     ret_code \<times> ndef_msg_desc option \<times> mem" where
  "nfc_ble_simplified_ep_oob_msg_declare sd st ms p_ep_advdata m =
     (let msg = nfc_ndef_msg_clear ((nfc_ep_oob_msg ms)\<lparr>max_record_count := 1\<rparr>) in
      case p_ep_advdata of
        None \<Rightarrow> (NRF_ERROR_INVALID_PARAM, None, m)
      | Some d \<Rightarrow>
          (case nfc_ep_oob_rec_declare sd st 0 d m of (rec, m) \<Rightarrow>
             case nfc_ndef_msg_record_add msg rec of (err_code, msg) \<Rightarrow>
               if err_code \<noteq> NRF_SUCCESS then (err_code, None, m) else (NRF_SUCCESS, Some msg, m)))"

definition ac_rec_desc :: "ptr \<Rightarrow> ac_rec_payload_desc" where
  "ac_rec_desc ref =
     \<lparr>cps = 0x01, carrier_data_ref = \<lparr>ref_length = 1, ref_data = ref\<rparr>, max_aux_data_ref = 1,
      aux_data_ref_count = 0, p_aux_data_ref = (\<lambda>_. \<lparr>ref_length = 0, ref_data = NULL\<rparr>)\<rparr>"

definition nfc_ble_full_handover_select_msg_declare ::
  "softdevice \<Rightarrow> pair_statics \<Rightarrow> pair_msgs \<Rightarrow> ble_advdata \<Rightarrow> ble_advdata \<Rightarrow> mem \<Rightarrow>
     ret_code \<times> ndef_msg_desc option \<times> mem" where
  "nfc_ble_full_handover_select_msg_declare sd st ms le_advdata ep_advdata m =
     (let ac_rec_le = NFC_NDEF_AC_RECORD_DESC_DEF (nfc_ac_rec_type_field st) (ac_rec_desc (carrier_le_reference st));
          ac_rec_ep = NFC_NDEF_AC_RECORD_DESC_DEF (nfc_ac_rec_type_field st) (ac_rec_desc (carrier_ep_reference st));
          hs = \<lparr>major_version = 1, minor_version = 3,
                p_local_records = (hs_rec_msg ms)\<lparr>max_record_count := 2\<rparr>\<rparr>;
          hs = nfc_hs_rec_local_record_clear hs
      in case nfc_hs_rec_local_record_add hs ac_rec_le of (err_code, hs) \<Rightarrow>
        if err_code \<noteq> NRF_SUCCESS then (err_code, None, m)
        else case nfc_hs_rec_local_record_add hs ac_rec_ep of (err_code, hs) \<Rightarrow>
          if err_code \<noteq> NRF_SUCCESS then (err_code, None, m)
          else
            let p_nfc_hs_record = NFC_NDEF_HS_RECORD_DESC_DEF (nfc_hs_rec_type_field st) hs;
                (p_nfc_le_oob_record, m) = nfc_le_oob_rec_declare sd st (m (carrier_le_reference st)) le_advdata m;
                (p_nfc_ep_oob_record, m) = nfc_ep_oob_rec_declare sd st (m (carrier_ep_reference st)) ep_advdata m;
                msg = nfc_ndef_msg_clear ((hs_full_msg ms)\<lparr>max_record_count := 3\<rparr>)
            in case nfc_ndef_msg_record_add msg p_nfc_hs_record of (err_code, msg) \<Rightarrow>
              if err_code \<noteq> NRF_SUCCESS then (err_code, None, m)
              else case nfc_ndef_msg_record_add msg p_nfc_le_oob_record of (err_code, msg) \<Rightarrow>
                if err_code \<noteq> NRF_SUCCESS then (err_code, None, m)
                else case nfc_ndef_msg_record_add msg p_nfc_ep_oob_record of (err_code, msg) \<Rightarrow>
                  if err_code \<noteq> NRF_SUCCESS then (err_code, None, m)
                  else (err_code, Some msg, m))"

definition msg_encode_declared ::
  "ret_code \<times> ndef_msg_desc option \<times> mem \<Rightarrow> ptr \<Rightarrow> u32 \<Rightarrow> ret_code \<times> u32 \<times> mem" where
  "msg_encode_declared declared p_buf len =
     (case declared of
        (err_code, None, m) \<Rightarrow> (err_code, len, m)
      | (err_code, Some msg, m) \<Rightarrow> nfc_ndef_msg_encode msg p_buf len m)"

definition nfc_ble_simplified_le_oob_msg_encode ::
  "softdevice \<Rightarrow> pair_statics \<Rightarrow> pair_msgs \<Rightarrow> ble_advdata option \<Rightarrow> payload_fn" where
  "nfc_ble_simplified_le_oob_msg_encode sd st ms p_le_advdata p_buf len m =
     msg_encode_declared (nfc_ble_simplified_le_oob_msg_declare sd st ms p_le_advdata m) p_buf len"

definition nfc_ble_simplified_ep_oob_msg_encode ::
  "softdevice \<Rightarrow> pair_statics \<Rightarrow> pair_msgs \<Rightarrow> ble_advdata option \<Rightarrow> payload_fn" where
  "nfc_ble_simplified_ep_oob_msg_encode sd st ms p_ep_advdata p_buf len m =
     msg_encode_declared (nfc_ble_simplified_ep_oob_msg_declare sd st ms p_ep_advdata m) p_buf len"

definition nfc_ble_full_handover_select_msg_encode ::
  "softdevice \<Rightarrow> pair_statics \<Rightarrow> pair_msgs \<Rightarrow> ble_advdata \<Rightarrow> ble_advdata \<Rightarrow> payload_fn" where
  "nfc_ble_full_handover_select_msg_encode sd st ms le_advdata ep_advdata p_buf len m =
     msg_encode_declared (nfc_ble_full_handover_select_msg_declare sd st ms le_advdata ep_advdata m) p_buf len"

subsection \<open>The default pairing message\<close>

datatype nfc_ble_pair_type =
    NFC_BLE_PAIR_MSG_BLUETOOTH_LE_SHORT | NFC_BLE_PAIR_MSG_BLUETOOTH_EP_SHORT | NFC_BLE_PAIR_MSG_FULL

definition ble_advdata_zero :: ble_advdata where
  "ble_advdata_zero =
     \<lparr>name_type = BLE_ADVDATA_NO_NAME, short_name_len = 0, include_appearance = False, adv_flags = 0,
      p_tx_power_level = None,
      uuids_more_available = \<lparr>uuid_cnt = 0, p_uuids = \<lambda>_. \<lparr>ble_uuid_uuid = 0, ble_uuid_type = 0\<rparr>\<rparr>,
      uuids_complete = \<lparr>uuid_cnt = 0, p_uuids = \<lambda>_. \<lparr>ble_uuid_uuid = 0, ble_uuid_type = 0\<rparr>\<rparr>,
      uuids_solicited = \<lparr>uuid_cnt = 0, p_uuids = \<lambda>_. \<lparr>ble_uuid_uuid = 0, ble_uuid_type = 0\<rparr>\<rparr>,
      p_slave_conn_int = None, p_manuf_specific_data = None, p_service_data_array = None,
      service_data_count = 0, include_ble_device_addr = False, le_role = BLE_ADVDATA_ROLE_NOT_PRESENT,
      p_tk_value = None, p_sec_mgr_oob_flags = None\<rparr>"

definition common_adv_data_create :: "(nat \<Rightarrow> u8) option \<Rightarrow> ble_advdata" where
  "common_adv_data_create tk =
     ble_advdata_zero\<lparr>include_appearance := True, name_type := BLE_ADVDATA_FULL_NAME, p_tk_value := tk\<rparr>"

definition le_oob_specific_adv_data_create :: "(nat \<Rightarrow> u8) option \<Rightarrow> ble_advdata" where
  "le_oob_specific_adv_data_create tk =
     (common_adv_data_create tk)\<lparr>include_ble_device_addr := True, le_role := BLE_ADVDATA_ROLE_ONLY_PERIPH,
        adv_flags := 0x04\<rparr>"

definition sec_mgr_oob_flags :: u8 where
  "sec_mgr_oob_flags = push_bit 0 1 OR push_bit 1 1 OR push_bit 2 0 OR push_bit 3 1"

definition ep_oob_specific_adv_data_create :: "(nat \<Rightarrow> u8) option \<Rightarrow> ble_advdata" where
  "ep_oob_specific_adv_data_create tk =
     (common_adv_data_create tk)\<lparr>p_sec_mgr_oob_flags := Some sec_mgr_oob_flags\<rparr>"

definition nfc_ble_pair_default_msg_encode ::
  "softdevice \<Rightarrow> pair_statics \<Rightarrow> pair_msgs \<Rightarrow> nfc_ble_pair_type \<Rightarrow> (nat \<Rightarrow> u8) option \<Rightarrow> payload_fn" where
  "nfc_ble_pair_default_msg_encode sd st ms pair_type tk p_buf len m =
     (case pair_type of
        NFC_BLE_PAIR_MSG_BLUETOOTH_LE_SHORT \<Rightarrow>
          nfc_ble_simplified_le_oob_msg_encode sd st ms (Some (le_oob_specific_adv_data_create tk)) p_buf len m
      | NFC_BLE_PAIR_MSG_BLUETOOTH_EP_SHORT \<Rightarrow>
          nfc_ble_simplified_ep_oob_msg_encode sd st ms (Some (ep_oob_specific_adv_data_create tk)) p_buf len m
      | NFC_BLE_PAIR_MSG_FULL \<Rightarrow>
          nfc_ble_full_handover_select_msg_encode sd st ms (le_oob_specific_adv_data_create tk)
            (ep_oob_specific_adv_data_create tk) p_buf len m)"

subsection \<open>The payload constructors keep the contract\<close>

lemma adv_encode_frame:
  assumes "sd_laws sd" "service_data_count d = 0" "adv_data_encode sd d p n m = (code, n', m')"
  shows "unat n' \<le> unat n" "same_outside p (unat n) m m'"
  using adv_data_field [OF assms(1,2)] assms(3)
  by (auto simp: adv_data_encode_def word_le_nat_alt dest: ad_field.af_bounds ad_field.af_frame)

lemma unat_cap16: "unat (if len > 0xFFFF then 0xFFFF else ucast len :: u16) = min (unat len) 65535" for len :: u32
  by (auto simp: word_less_nat_alt unsigned_ucast_eq take_bit_nat_eq_self_iff min_def)

lemma le_oob_contract:
  assumes "sd_laws sd" "service_data_count d = 0"
  shows "payload_contract (nfc_le_oob_payload_constructor sd d)"
proof -
  have "same_outside b (unat l) m m' \<and> (code = NRF_SUCCESS \<longrightarrow> unat l' \<le> unat l)"
    if c: "nfc_le_oob_payload_constructor sd d b l m = (code, l', m')" for b l m code l' m'
  proof -
    obtain c1 n1 m1 where e: "adv_data_encode sd d b (if l > 0xFFFF then 0xFFFF else ucast l) m = (c1, n1, m1)"
      by (metis prod_cases3)
    note F = adv_encode_frame [OF assms e, unfolded unat_cap16]
    have "same_outside b (unat l) m m1" by (rule same_outside_mono [OF F(2)]) auto
    then show ?thesis using c e F(1)
      by (auto simp: nfc_le_oob_payload_constructor_def Let_def split: if_splits)
  qed
  then show ?thesis by unfold_locales blast+
qed

lemma ep_oob_step:
  assumes "nfc_ep_oob_payload_constructor sd d b l m = (code, l', m')"
  obtains (fail) "code \<noteq> NRF_SUCCESS" "m' = m"
  | (adv) c1 n1 m1 where "adv_data_encode sd d (b + 8) (if l - 8 > 0xFFFF then 0xFFFF else ucast (l - 8)) m = (c1, n1, m1)"
      "8 \<le> unat l" "code \<noteq> NRF_SUCCESS" "m' = m1 \<or> m' = mem_write b (uint16_bytes (n1 + 8)) m1"
  | (ok) n1 m1 ty addr where "adv_data_encode sd d (b + 8) (if l - 8 > 0xFFFF then 0xFFFF else ucast (l - 8)) m =
        (NRF_SUCCESS, n1, m1)" "8 \<le> unat l" "code = NRF_SUCCESS" "l' = ucast (n1 + 8)"
      "sd_ble_gap_address_get sd = (NRF_SUCCESS, ty, addr)"
      "m' = mem_write b (uint16_bytes (n1 + 8) @ map addr [0..<6]) m1"
proof (cases "nfc_ep_oob_adv_data_check d \<noteq> NRF_SUCCESS \<or> 8 > l")
  case True
  with assms fail show thesis by (auto simp: nfc_ep_oob_payload_constructor_def Let_def split: if_splits)
next
  case False
  then have l8: "8 \<le> unat l" by (simp add: word_less_nat_alt)
  obtain c1 n1 m1 where e: "adv_data_encode sd d (b + 8) (if l - 8 > 0xFFFF then 0xFFFF else ucast (l - 8)) m = (c1, n1, m1)"
    by (metis prod_cases3)
  obtain c2 ty addr where g: "sd_ble_gap_address_get sd = (c2, ty, addr)" by (metis prod_cases3)
  have "mem_write (b + 2) (map addr [0..<6]) (mem_write b (uint16_bytes (n1 + 8)) m1) =
      mem_write b (uint16_bytes (n1 + 8) @ map addr [0..<6]) m1"
    using mem_write_append [of b "uint16_bytes (n1 + 8)"] by (simp add: numeral_2_eq_2)
  then have eq: "nfc_ep_oob_payload_constructor sd d b l m =
      (if c1 \<noteq> NRF_SUCCESS then (c1, l, m1)
       else if c2 \<noteq> NRF_SUCCESS then (c2, l, mem_write b (uint16_bytes (n1 + 8)) m1)
       else (NRF_SUCCESS, ucast (n1 + 8), mem_write b (uint16_bytes (n1 + 8) @ map addr [0..<6]) m1))"
    using False e g
    by (simp add: nfc_ep_oob_payload_constructor_def nfc_ep_oob_bluetooth_device_address_encode_def
        uint16_encode_def Let_def del: upt_Suc)
  show thesis
  proof (cases "c1 = NRF_SUCCESS \<and> c2 = NRF_SUCCESS")
    case True
    with assms e g l8 ok [of n1 m1 ty addr] show thesis unfolding eq by simp
  next
    case False
    with assms e l8 adv [of c1 n1 m1] show thesis unfolding eq by (auto split: if_splits)
  qed
qed

lemma ep_oob_contract:
  assumes "sd_laws sd" "service_data_count d = 0"
  shows "payload_contract (nfc_ep_oob_payload_constructor sd d)"
proof -
  have "same_outside b (unat l) m m' \<and> (code = NRF_SUCCESS \<longrightarrow> unat l' \<le> unat l)"
    if c: "nfc_ep_oob_payload_constructor sd d b l m = (code, l', m')" for b l m code l' m'
    using c
  proof (cases rule: ep_oob_step)
    case fail
    then show ?thesis by simp
  next
    case (adv c1 n1 m1)
    have r: "unat (l - 8) = unat l - 8" using adv(2) by (simp add: unat_sub word_le_nat_alt)
    have "same_outside b (unat l) m m1"
      by (rule same_outside_mono [OF adv_encode_frame(2) [OF assms adv(1)]]) (use adv(2) r in \<open>simp_all add: unat_cap16\<close>)
    with adv show ?thesis by (auto intro: same_outside_write_trans)
  next
    case (ok n1 m1 ty addr)
    have r: "unat (l - 8) = unat l - 8" using ok(2) by (simp add: unat_sub word_le_nat_alt)
    note F = adv_encode_frame [OF assms ok(1), unfolded unat_cap16 r]
    have "same_outside b (unat l) m m1"
      by (rule same_outside_mono [OF F(2)]) (use ok(2) in simp_all)
    moreover have "unat (n1 + 8) \<le> unat n1 + 8" by (simp add: unat_word_ariths)
    ultimately show ?thesis
      using ok F(1) by (auto intro!: same_outside_write_trans simp del: upt_Suc)
  qed
  then show ?thesis by unfold_locales blast+
qed

subsection \<open>What a successful payload holds\<close>

definition at_most :: "nat \<Rightarrow> (ad_struct list \<Rightarrow> bool) \<Rightarrow> bool" where
  "at_most k P \<longleftrightarrow> (\<forall>fs. P fs \<longrightarrow> length fs \<le> k)"

lemma at_most_intros:
  "at_most 1 (ok_one P)" "at_most 0 ok_none" "at_most a P' \<Longrightarrow> at_most b Q \<Longrightarrow> at_most (a + b) (ok_seq P' Q)"
  "at_most 1 (ok_when c (ok_one P))" "at_most 1 (ok_option (\<lambda>x. ok_one (R x)) y)"
  by (auto simp: at_most_def ok_one_def ok_none_def ok_seq_def ok_when_def ok_option_def add_mono split: option.splits)

lemma at_most_uuid: "at_most 2 (uuid_list_ok l t16 t128)"
  by (auto simp: at_most_def uuid_list_ok_def ok_when_def ok_seq_def ok_none_def)

lemma adv_structs_count: "adv_structs_ok sd d fs \<Longrightarrow> length fs \<le> 16"
proof -
  have "at_most (1 + (1 + (1 + (1 + (1 + (1 + (1 + (2 + (2 + (2 + (1 + (1 + (0 + 1))))))))))))) (adv_structs_ok sd d)"
    unfolding adv_structs_ok_def by (intro at_most_intros at_most_uuid)
  then show "adv_structs_ok sd d fs \<Longrightarrow> length fs \<le> 16" by (simp add: at_most_def)
qed

lemma length_structs: "\<forall>f \<in> set fs. ad_struct_ok f \<Longrightarrow> length (concat (map ad_bytes fs)) \<le> 256 * length fs"
  by (induction fs) (auto simp: ad_struct_ok_def)

definition adv_payload :: "softdevice \<Rightarrow> ble_advdata \<Rightarrow> u8 list \<Rightarrow> bool" where
  "adv_payload sd d bs \<longleftrightarrow> (\<exists>fs. adv_structs_ok sd d fs \<and> (\<forall>f \<in> set fs. ad_struct_ok f) \<and>
     bs = concat (map ad_bytes fs))"

definition ep_payload :: "softdevice \<Rightarrow> ble_advdata \<Rightarrow> u8 list \<Rightarrow> bool" where
  "ep_payload sd d bs \<longleftrightarrow> (\<exists>ty addr as. sd_ble_gap_address_get sd = (NRF_SUCCESS, ty, addr) \<and>
     adv_payload sd d as \<and> bs = uint16_bytes (of_nat (length bs)) @ map addr [0..<6] @ as)"

lemma le_oob_payload:
  assumes "sd_laws sd" "service_data_count d = 0"
    and c: "nfc_le_oob_payload_constructor sd d b l m = (NRF_SUCCESS, of_nat k, m')" and k: "k \<le> unat l"
  shows "adv_payload sd d (mem_read b k m')"
proof -
  obtain c1 n1 m1 where e: "adv_data_encode sd d b (if l > 0xFFFF then 0xFFFF else ucast l) m = (c1, n1, m1)"
    by (metis prod_cases3)
  have r: "c1 = NRF_SUCCESS" "of_nat k = (ucast n1 :: u32)" "m' = m1"
    using c e by (auto simp: nfc_le_oob_payload_constructor_def Let_def split: if_splits)
  have "unat (of_nat k :: u32) = k" using k u32_less [of l] by (intro unat_of_nat_u32) simp
  then have "k = unat n1" using r(2) by simp
  then show ?thesis
    using adv_data_encode_spec_mem [OF assms(1,2) e [unfolded r(1)]] r(3) by (simp add: adv_payload_def)
qed

lemma ep_oob_payload:
  assumes sd: "sd_laws sd" "service_data_count d = 0"
    and c: "nfc_ep_oob_payload_constructor sd d b l m = (NRF_SUCCESS, of_nat k, m')" and k: "k \<le> unat l"
  shows "ep_payload sd d (mem_read b k m')"
  using c
proof (cases rule: ep_oob_step)
  case (ok n1 m1 ty addr)
  obtain fs where fs: "adv_structs_ok sd d fs" "\<forall>f \<in> set fs. ad_struct_ok f"
    "mem_read (b + 8) (unat n1) m1 = concat (map ad_bytes fs)"
    using adv_data_encode_spec_mem [OF sd ok(1)] by blast
  have "unat n1 \<le> 4096"
    using length_structs [OF fs(2)] adv_structs_count [OF fs(1)] unfolding fs(3) [symmetric] by simp
  then have n: "unat (n1 + 8) = unat n1 + 8" by (subst unat_plus_small) simp_all
  have "unat (of_nat k :: u32) = k" using k u32_less [of l] by (intro unat_of_nat_u32) simp
  then have kk: "k = 8 + unat n1" using ok(4) n by simp
  let ?h = "uint16_bytes (n1 + 8) @ map addr [0..<6]"
  have h: "length ?h = 8" by simp
  have A: "mem_read b 8 m' = ?h" unfolding ok(6) by (rule mem_read_write_same) (use h in simp)
  have B: "mem_read (b + 8) (unat n1) m' = concat (map ad_bytes fs)"
    unfolding ok(6) fs(3) [symmetric] by (rule mem_read_write_disjoint) (use h in \<open>simp add: disjoint_regions_def\<close>)
  have w: "(of_nat k :: u16) = n1 + 8" using kk by simp
  have "mem_read b k m' = uint16_bytes (of_nat k) @ map addr [0..<6] @ concat (map ad_bytes fs)"
    unfolding kk mem_read_append A B using w kk by (simp add: add.commute [of 8 n1])
  then show ?thesis
    unfolding ep_payload_def adv_payload_def length_mem_read using ok(5) fs(1,2) by blast
qed simp_all

subsection \<open>The pairing messages\<close>

text \<open>The static objects hold their initial values and are apart from the output buffer and,
  for the two ID bytes, from each other and from the constants.\<close>

definition pair_statics_ok :: "mem \<Rightarrow> pair_statics \<Rightarrow> ptr \<Rightarrow> nat \<Rightarrow> bool" where
  "pair_statics_ok m st area n \<longleftrightarrow>
     (let consts = [(le_oob_rec_type_field st, 32, ascii ''application/vnd.bluetooth.le.oob''),
                    (ep_oob_rec_type_field st, 32, ascii ''application/vnd.bluetooth.ep.oob''),
                    (nfc_ac_rec_type_field st, 2, ascii ''ac''), (nfc_hs_rec_type_field st, 2, ascii ''Hs''),
                    (carrier_le_reference st, 1, ascii ''0''), (carrier_ep_reference st, 1, ascii ''1'')]
      in (\<forall>(p, k, bs) \<in> set consts. mem_read p k m = bs \<and> disjoint_regions p k area n \<and>
            disjoint_regions p k (le_payload_id st) 1 \<and> disjoint_regions p k (ep_payload_id st) 1)) \<and>
     le_payload_id st \<noteq> ep_payload_id st \<and>
     disjoint_regions (le_payload_id st) 1 area n \<and> disjoint_regions (ep_payload_id st) 1 area n"

definition ids_set :: "pair_statics \<Rightarrow> u8 \<Rightarrow> u8 \<Rightarrow> mem \<Rightarrow> mem" where
  "ids_set st a b m = m(le_payload_id st := a, ep_payload_id st := b)"

lemma length_ascii [simp]: "length (ascii s) = length s"
  by (simp add: ascii_def)

lemma mem_read_upd_disjoint: "disjoint_regions q k a 1 \<Longrightarrow> mem_read q k (m(a := x)) = mem_read q k m"
  by (rule mem_read_eqI) (auto simp: disjoint_regions_def)

lemma pair_statics_upd:
  assumes "pair_statics_ok m st area n"
  shows "pair_statics_ok (m(le_payload_id st := a)) st area n" "pair_statics_ok (m(ep_payload_id st := b)) st area n"
  using assms unfolding pair_statics_ok_def Let_def by (simp_all add: mem_read_upd_disjoint)

text \<open>The records, once the ID bytes are in place: constructors under contract, and every result
  is the expected value.\<close>

definition le_value_ok :: "softdevice \<Rightarrow> ble_advdata \<Rightarrow> u8 list \<Rightarrow> ndef_value \<Rightarrow> bool" where
  "le_value_ok sd d ident v \<longleftrightarrow> (\<exists>bs. adv_payload sd d bs \<and>
     v = (TNF_MEDIA_TYPE, ascii ''application/vnd.bluetooth.le.oob'', ident, bs))"

definition ep_value_ok :: "softdevice \<Rightarrow> ble_advdata \<Rightarrow> u8 list \<Rightarrow> ndef_value \<Rightarrow> bool" where
  "ep_value_ok sd d ident v \<longleftrightarrow> (\<exists>bs. ep_payload sd d bs \<and>
     v = (TNF_MEDIA_TYPE, ascii ''application/vnd.bluetooth.ep.oob'', ident, bs))"

definition ac_value :: "u8 list \<Rightarrow> ndef_value" where
  "ac_value ref = (TNF_WELL_KNOWN, ascii ''ac'', [], [0x01, 1] @ ref @ [0])"

definition hs_value :: ndef_value where
  "hs_value = (TNF_WELL_KNOWN, ascii ''Hs'', [],
     0x13 # ndef_msg_bytes [ac_value (ascii ''0''), ac_value (ascii ''1'')])"

definition le_record :: "softdevice \<Rightarrow> pair_statics \<Rightarrow> u8 \<Rightarrow> ble_advdata \<Rightarrow> ndef_record_desc" where
  "le_record sd st i d =
     \<lparr>tnf = TNF_MEDIA_TYPE, id_length = (if i \<noteq> 0 then 1 else 0), p_id = le_payload_id st, type_length = 32,
      p_type = le_oob_rec_type_field st, payload_constructor = nfc_le_oob_payload_constructor sd d\<rparr>"

definition ep_record :: "softdevice \<Rightarrow> pair_statics \<Rightarrow> u8 \<Rightarrow> ble_advdata \<Rightarrow> ndef_record_desc" where
  "ep_record sd st i d =
     \<lparr>tnf = TNF_MEDIA_TYPE, id_length = (if i \<noteq> 0 then 1 else 0), p_id = ep_payload_id st, type_length = 32,
      p_type = ep_oob_rec_type_field st, payload_constructor = nfc_ep_oob_payload_constructor sd d\<rparr>"

lemma le_rec_declare_eq: "nfc_le_oob_rec_declare sd st i d m = (le_record sd st i d, m(le_payload_id st := i))"
  by (simp add: nfc_le_oob_rec_declare_def le_record_def NFC_NDEF_GENERIC_RECORD_DESC_DEF_def Let_def)

lemma ep_rec_declare_eq: "nfc_ep_oob_rec_declare sd st i d m = (ep_record sd st i d, m(ep_payload_id st := i))"
  by (simp add: nfc_ep_oob_rec_declare_def ep_record_def NFC_NDEF_GENERIC_RECORD_DESC_DEF_def Let_def)

lemma le_record_safe:
  assumes "sd_laws sd" "service_data_count d = 0" "pair_statics_ok m st area n"
  shows "record_safe area n (le_record sd st i d)"
  using le_oob_contract [OF assms(1,2)] assms(3)
  by (simp add: record_safe_def le_record_def pair_statics_ok_def)

lemma ep_record_safe:
  assumes "sd_laws sd" "service_data_count d = 0" "pair_statics_ok m st area n"
  shows "record_safe area n (ep_record sd st i d)"
  using ep_oob_contract [OF assms(1,2)] assms(3)
  by (simp add: record_safe_def ep_record_def pair_statics_ok_def)

lemma le_record_value:
  assumes sd: "sd_laws sd" "service_data_count d = 0" and st: "pair_statics_ok m st area n"
    and i: "m (le_payload_id st) = i" and r: "record_result area n m (le_record sd st i d) v"
  shows "le_value_ok sd d (if i \<noteq> 0 then [i] else []) v"
proof -
  let ?pay = "snd (snd (snd v))"
  obtain b l mm m' where c: "nfc_le_oob_payload_constructor sd d b l mm = (NRF_SUCCESS, of_nat (length ?pay), m')"
    "length ?pay \<le> unat l" "mem_read b (length ?pay) m' = ?pay"
    using r by (auto simp: record_result_def le_record_def)
  have "adv_payload sd d ?pay" using le_oob_payload [OF sd c(1,2)] unfolding c(3) .
  with r st i show ?thesis
    by (cases v) (auto simp: le_value_ok_def record_result_def le_record_def pair_statics_ok_def mem_read_Suc)
qed

lemma ep_record_value:
  assumes sd: "sd_laws sd" "service_data_count d = 0" and st: "pair_statics_ok m st area n"
    and i: "m (ep_payload_id st) = i" and r: "record_result area n m (ep_record sd st i d) v"
  shows "ep_value_ok sd d (if i \<noteq> 0 then [i] else []) v"
proof -
  let ?pay = "snd (snd (snd v))"
  obtain b l mm m' where c: "nfc_ep_oob_payload_constructor sd d b l mm = (NRF_SUCCESS, of_nat (length ?pay), m')"
    "length ?pay \<le> unat l" "mem_read b (length ?pay) m' = ?pay"
    using r by (auto simp: record_result_def ep_record_def)
  have "ep_payload sd d ?pay" using ep_oob_payload [OF sd c(1,2)] unfolding c(3) .
  with r st i show ?thesis
    by (cases v) (auto simp: ep_value_ok_def record_result_def ep_record_def pair_statics_ok_def mem_read_Suc)
qed

lemma record_denotes_safe: "record_denotes area n m r v \<Longrightarrow> record_safe area n r"
  by (simp add: record_denotes_def record_safe_def)

lemma record_denotes_result:
  assumes den: "record_denotes area n m r v" and res: "record_result area n m r v'"
  shows "v' = v"
proof -
  let ?p = "snd (snd (snd v))" and ?p' = "snd (snd (snd v'))"
  obtain b l mm mm' where c: "area \<le> b" "b + unat l \<le> area + n" "same_outside area n m mm"
    "payload_constructor r b l mm = (NRF_SUCCESS, of_nat (length ?p'), mm')" "length ?p' \<le> unat l"
    "mem_read b (length ?p') mm' = ?p'"
    using res unfolding record_result_def by blast
  have em: "emits (payload_constructor r) area n m ?p" using den by (simp add: record_denotes_def)
  have "\<not> unat l < length ?p" using emits_full [OF em c(1-3)] c(4) by auto
  then obtain m2 where e: "payload_constructor r b l mm = (NRF_SUCCESS, of_nat (length ?p), m2)"
    "mem_read b (length ?p) m2 = ?p" "length ?p \<le> unat l"
    using emits_ok [OF em c(1-3)] by (metis not_less)
  have "unat (of_nat (length ?p) :: u32) = length ?p"
    by (rule unat_of_nat_u32) (use e(3) u32_less [of l] in simp)
  moreover have "unat (of_nat (length ?p') :: u32) = length ?p'"
    by (rule unat_of_nat_u32) (use c(5) u32_less [of l] in simp)
  moreover have q: "of_nat (length ?p') = (of_nat (length ?p) :: u32) \<and> mm' = m2"
    using trans [OF sym [OF c(4)] e(1)] unfolding prod.inject by blast
  ultimately have "length ?p' = length ?p" by metis
  then have "?p' = ?p" using c(6) e(2) q by metis
  with den res show ?thesis by (simp add: record_denotes_def record_result_def prod_eq_iff)
qed

definition hs_local_msg :: "pair_statics \<Rightarrow> pair_msgs \<Rightarrow> ndef_msg_desc" where
  "hs_local_msg st ms =
     \<lparr>pp_record = (pp_record (hs_rec_msg ms))
        (0 := NFC_NDEF_AC_RECORD_DESC_DEF (nfc_ac_rec_type_field st) (ac_rec_desc (carrier_le_reference st)),
         1 := NFC_NDEF_AC_RECORD_DESC_DEF (nfc_ac_rec_type_field st) (ac_rec_desc (carrier_ep_reference st))),
      max_record_count = 2, record_count = 2\<rparr>"

definition hs_record :: "pair_statics \<Rightarrow> pair_msgs \<Rightarrow> ndef_record_desc" where
  "hs_record st ms = NFC_NDEF_HS_RECORD_DESC_DEF (nfc_hs_rec_type_field st)
     \<lparr>major_version = 1, minor_version = 3, p_local_records = hs_local_msg st ms\<rparr>"

lemma pair_statics_D:
  assumes "pair_statics_ok m st area n"
  shows "mem_read (nfc_ac_rec_type_field st) 2 m = ascii ''ac''" "disjoint_regions (nfc_ac_rec_type_field st) 2 area n"
    and "mem_read (nfc_hs_rec_type_field st) 2 m = ascii ''Hs''" "disjoint_regions (nfc_hs_rec_type_field st) 2 area n"
    and "mem_read (carrier_le_reference st) 1 m = ascii ''0''" "disjoint_regions (carrier_le_reference st) 1 area n"
    and "mem_read (carrier_ep_reference st) 1 m = ascii ''1''" "disjoint_regions (carrier_ep_reference st) 1 area n"
    and "disjoint_regions (carrier_ep_reference st) 1 (le_payload_id st) 1" "le_payload_id st \<noteq> ep_payload_id st"
    and "disjoint_regions (le_payload_id st) 1 area n" "disjoint_regions (ep_payload_id st) 1 area n"
  using assms unfolding pair_statics_ok_def Let_def by simp_all

lemma ac_record_denotes:
  assumes "mem_read ty 2 m = ascii ''ac''" "disjoint_regions ty 2 area n"
    and "mem_read ref 1 m = rb" "disjoint_regions ref 1 area n"
  shows "record_denotes area n m (NFC_NDEF_AC_RECORD_DESC_DEF ty (ac_rec_desc ref)) (ac_value rb)"
proof -
  have "emits (nfc_ac_rec_payload_constructor (ac_rec_desc ref)) area n m (ac_payload_bytes (ac_rec_desc ref) m)"
    by (rule ac_emits) (use assms in \<open>simp_all add: ac_rec_desc_def aux_refs_def\<close>)
  moreover have "ac_payload_bytes (ac_rec_desc ref) m = snd (snd (snd (ac_value rb)))"
    using assms by (simp add: ac_payload_bytes_def ac_value_def ac_rec_desc_def ref_bytes_def aux_refs_def)
  ultimately show ?thesis
    unfolding NFC_NDEF_AC_RECORD_DESC_DEF_def ac_value_def
    by (intro generic_record_denotes ac.payload_contract_axioms) (use assms in simp_all)
qed

lemma hs_record_denotes:
  assumes "pair_statics_ok m st area n"
  shows "record_denotes area n m (hs_record st ms) hs_value"
proof -
  note st = pair_statics_D [OF assms]
  have "record_denotes area n m (NFC_NDEF_AC_RECORD_DESC_DEF (nfc_ac_rec_type_field st)
      (ac_rec_desc (carrier_le_reference st))) (ac_value (ascii ''0''))"
    and "record_denotes area n m (NFC_NDEF_AC_RECORD_DESC_DEF (nfc_ac_rec_type_field st)
      (ac_rec_desc (carrier_ep_reference st))) (ac_value (ascii ''1''))"
    using ac_record_denotes [OF st(1,2,5,6)] ac_record_denotes [OF st(1,2,7,8)] .
  then have den: "list_all2 (record_denotes area n m) (msg_records (hs_local_msg st ms))
      [ac_value (ascii ''0''), ac_value (ascii ''1'')]"
    by (simp add: msg_records_def hs_local_msg_def upt_rec)
  then have pc: "payload_contract (nfc_ndef_msg_encode (hs_local_msg st ms))"
    by (intro msg_payload_contract)
      (auto simp: list_all2_conv_all_nth in_set_conv_nth record_denotes_def)
  let ?d = "\<lparr>major_version = 1, minor_version = 3, p_local_records = hs_local_msg st ms\<rparr>"
  have "emits (nfc_hs_rec_payload_constructor ?d) area n m
      (hs_version ?d # ndef_msg_bytes [ac_value (ascii ''0''), ac_value (ascii ''1'')])"
    by (rule hs_emits) (use pc msg_emits [OF den] in simp_all)
  then have "emits (nfc_hs_rec_payload_constructor ?d) area n m (snd (snd (snd hs_value)))"
    by (simp add: hs_value_def hs_version_def)
  then show ?thesis
    unfolding hs_record_def NFC_NDEF_HS_RECORD_DESC_DEF_def hs_value_def
    by (intro generic_record_denotes hs_contract) (use pc st in simp_all)
qed

lemma full_declare_eq:
  assumes "pair_statics_ok m st area n"
  shows "nfc_ble_full_handover_select_msg_declare sd st ms le ep m =
    (NRF_SUCCESS, Some \<lparr>pp_record = (pp_record (hs_full_msg ms))
        (0 := hs_record st ms, 1 := le_record sd st 0x30 le, 2 := ep_record sd st 0x31 ep),
      max_record_count = 3, record_count = 3\<rparr>, ids_set st 0x30 0x31 m)"
proof -
  note st = pair_statics_D [OF assms]
  have "m (carrier_le_reference st) = 0x30" "m (carrier_ep_reference st) = 0x31"
    using st(5,7) by (simp_all add: mem_read_def ascii_def)
  moreover have "carrier_ep_reference st \<noteq> le_payload_id st"
    using st(9) by (auto simp: disjoint_regions_def)
  ultimately show ?thesis
    by (cases "hs_rec_msg ms"; cases "hs_full_msg ms") (simp add: nfc_ble_full_handover_select_msg_declare_def Let_def le_rec_declare_eq ep_rec_declare_eq
        nfc_hs_rec_local_record_clear_def nfc_hs_rec_local_record_add_def nfc_ndef_msg_clear_def
        nfc_ndef_msg_record_add_def hs_record_def hs_local_msg_def ids_set_def word_le_nat_alt)
qed

lemma le_declare_eq:
  "nfc_ble_simplified_le_oob_msg_declare sd st ms (Some d) m =
    (NRF_SUCCESS, Some \<lparr>pp_record = (pp_record (nfc_le_oob_msg ms))(0 := le_record sd st 0 d),
      max_record_count = 1, record_count = 1\<rparr>, m(le_payload_id st := 0))"
  by (cases "nfc_le_oob_msg ms")
    (simp add: nfc_ble_simplified_le_oob_msg_declare_def Let_def le_rec_declare_eq nfc_ndef_msg_clear_def
      nfc_ndef_msg_record_add_def)

lemma ep_declare_eq:
  "nfc_ble_simplified_ep_oob_msg_declare sd st ms (Some d) m =
    (NRF_SUCCESS, Some \<lparr>pp_record = (pp_record (nfc_ep_oob_msg ms))(0 := ep_record sd st 0 d),
      max_record_count = 1, record_count = 1\<rparr>, m(ep_payload_id st := 0))"
  by (cases "nfc_ep_oob_msg ms")
    (simp add: nfc_ble_simplified_ep_oob_msg_declare_def Let_def ep_rec_declare_eq nfc_ndef_msg_clear_def
      nfc_ndef_msg_record_add_def)

text \<open>What a pairing message of each type holds.\<close>

definition pair_values_ok ::
  "softdevice \<Rightarrow> nfc_ble_pair_type \<Rightarrow> ble_advdata \<Rightarrow> ble_advdata \<Rightarrow> ndef_value list \<Rightarrow> bool" where
  "pair_values_ok sd ty le ep vs \<longleftrightarrow>
     (case ty of
        NFC_BLE_PAIR_MSG_BLUETOOTH_LE_SHORT \<Rightarrow> \<exists>v. vs = [v] \<and> le_value_ok sd le [] v
      | NFC_BLE_PAIR_MSG_BLUETOOTH_EP_SHORT \<Rightarrow> \<exists>v. vs = [v] \<and> ep_value_ok sd ep [] v
      | NFC_BLE_PAIR_MSG_FULL \<Rightarrow> \<exists>v w. vs = [hs_value, v, w] \<and>
          le_value_ok sd le (ascii ''0'') v \<and> ep_value_ok sd ep (ascii ''1'') w)"

lemma le_short_success:
  assumes sd: "sd_laws sd" "service_data_count d = 0" and st: "pair_statics_ok m st buf (unat l)"
    and enc: "nfc_ble_simplified_le_oob_msg_encode sd st ms (Some d) buf l m = (NRF_SUCCESS, l', m')"
  shows "\<exists>v. le_value_ok sd d [] v \<and> unat l' = length (ndef_msg_bytes [v]) \<and>
    mem_read buf (unat l') m' = ndef_msg_bytes [v]"
proof -
  let ?msg = "\<lparr>pp_record = (pp_record (nfc_le_oob_msg ms))(0 := le_record sd st 0 d),
      max_record_count = 1, record_count = 1\<rparr>" and ?m = "m(le_payload_id st := 0)"
  have st': "pair_statics_ok ?m st buf (unat l)" by (rule pair_statics_upd [OF st])
  have r: "msg_records ?msg = [le_record sd st 0 d]" by (simp add: msg_records_def)
  have "\<exists>vs. list_all2 (record_result buf (unat l) ?m) (msg_records ?msg) vs \<and>
    unat l' = length (ndef_msg_bytes vs) \<and> mem_read buf (unat l') m' = ndef_msg_bytes vs"
  proof (rule msg_success)
    show "\<forall>r \<in> set (msg_records ?msg). record_safe buf (unat l) r"
      using le_record_safe [OF sd st'] by (simp add: r)
    show "nfc_ndef_msg_encode ?msg buf l ?m = (NRF_SUCCESS, l', m')"
      using enc unfolding nfc_ble_simplified_le_oob_msg_encode_def le_declare_eq
      by (simp add: msg_encode_declared_def)
  qed
  then obtain v where "record_result buf (unat l) ?m (le_record sd st 0 d) v"
    "unat l' = length (ndef_msg_bytes [v])" "mem_read buf (unat l') m' = ndef_msg_bytes [v]"
    unfolding r by (auto simp: list_all2_Cons1)
  with le_record_value [OF sd st', of 0 v] show ?thesis by (intro exI [of _ v]) simp
qed

lemma ep_short_success:
  assumes sd: "sd_laws sd" "service_data_count d = 0" and st: "pair_statics_ok m st buf (unat l)"
    and enc: "nfc_ble_simplified_ep_oob_msg_encode sd st ms (Some d) buf l m = (NRF_SUCCESS, l', m')"
  shows "\<exists>v. ep_value_ok sd d [] v \<and> unat l' = length (ndef_msg_bytes [v]) \<and>
    mem_read buf (unat l') m' = ndef_msg_bytes [v]"
proof -
  let ?msg = "\<lparr>pp_record = (pp_record (nfc_ep_oob_msg ms))(0 := ep_record sd st 0 d),
      max_record_count = 1, record_count = 1\<rparr>" and ?m = "m(ep_payload_id st := 0)"
  have st': "pair_statics_ok ?m st buf (unat l)" by (rule pair_statics_upd [OF st])
  have r: "msg_records ?msg = [ep_record sd st 0 d]" by (simp add: msg_records_def)
  have "\<exists>vs. list_all2 (record_result buf (unat l) ?m) (msg_records ?msg) vs \<and>
    unat l' = length (ndef_msg_bytes vs) \<and> mem_read buf (unat l') m' = ndef_msg_bytes vs"
  proof (rule msg_success)
    show "\<forall>r \<in> set (msg_records ?msg). record_safe buf (unat l) r"
      using ep_record_safe [OF sd st'] by (simp add: r)
    show "nfc_ndef_msg_encode ?msg buf l ?m = (NRF_SUCCESS, l', m')"
      using enc unfolding nfc_ble_simplified_ep_oob_msg_encode_def ep_declare_eq
      by (simp add: msg_encode_declared_def)
  qed
  then obtain v where "record_result buf (unat l) ?m (ep_record sd st 0 d) v"
    "unat l' = length (ndef_msg_bytes [v])" "mem_read buf (unat l') m' = ndef_msg_bytes [v]"
    unfolding r by (auto simp: list_all2_Cons1)
  with ep_record_value [OF sd st', of 0 v] show ?thesis by (intro exI [of _ v]) simp
qed

lemma full_success:
  assumes sd: "sd_laws sd" "service_data_count le = 0" "service_data_count ep = 0"
    and st: "pair_statics_ok m st buf (unat l)"
    and enc: "nfc_ble_full_handover_select_msg_encode sd st ms le ep buf l m = (NRF_SUCCESS, l', m')"
  shows "\<exists>v w. le_value_ok sd le (ascii ''0'') v \<and> ep_value_ok sd ep (ascii ''1'') w \<and>
    unat l' = length (ndef_msg_bytes [hs_value, v, w]) \<and> mem_read buf (unat l') m' = ndef_msg_bytes [hs_value, v, w]"
proof -
  let ?msg = "\<lparr>pp_record = (pp_record (hs_full_msg ms))
        (0 := hs_record st ms, 1 := le_record sd st 0x30 le, 2 := ep_record sd st 0x31 ep),
      max_record_count = 3, record_count = 3\<rparr>" and ?m = "ids_set st 0x30 0x31 m"
  have st': "pair_statics_ok ?m st buf (unat l)"
    unfolding ids_set_def by (intro pair_statics_upd st)
  have r: "msg_records ?msg = [hs_record st ms, le_record sd st 0x30 le, ep_record sd st 0x31 ep]"
    by (simp add: msg_records_def upt_rec)
  note hs = hs_record_denotes [OF st', of ms]
  have "\<exists>vs. list_all2 (record_result buf (unat l) ?m) (msg_records ?msg) vs \<and>
    unat l' = length (ndef_msg_bytes vs) \<and> mem_read buf (unat l') m' = ndef_msg_bytes vs"
  proof (rule msg_success)
    show "\<forall>r \<in> set (msg_records ?msg). record_safe buf (unat l) r"
      unfolding r
      using le_record_safe [OF sd(1,2) st'] ep_record_safe [OF sd(1,3) st'] record_denotes_safe [OF hs]
      by simp
    show "nfc_ndef_msg_encode ?msg buf l ?m = (NRF_SUCCESS, l', m')"
      using enc unfolding nfc_ble_full_handover_select_msg_encode_def full_declare_eq [OF st]
      by (simp add: msg_encode_declared_def)
  qed
  then obtain h v w where v: "record_result buf (unat l) ?m (hs_record st ms) h"
    "record_result buf (unat l) ?m (le_record sd st 0x30 le) v"
    "record_result buf (unat l) ?m (ep_record sd st 0x31 ep) w"
    "unat l' = length (ndef_msg_bytes [h, v, w])" "mem_read buf (unat l') m' = ndef_msg_bytes [h, v, w]"
    unfolding r by (auto simp: list_all2_Cons1)
  have id: "?m (le_payload_id st) = 0x30" "?m (ep_payload_id st) = 0x31"
    using st by (auto simp: ids_set_def pair_statics_ok_def)
  from v(4,5) record_denotes_result [OF hs v(1)]
    le_record_value [OF sd(1,2) st' id(1) v(2)] ep_record_value [OF sd(1,3) st' id(2) v(3)]
  show ?thesis by (intro exI [of _ v] exI [of _ w]) (simp add: ascii_def)
qed

lemma pair_data_no_services:
  "service_data_count (le_oob_specific_adv_data_create tk) = 0"
  "service_data_count (ep_oob_specific_adv_data_create tk) = 0"
  by (simp_all add: le_oob_specific_adv_data_create_def ep_oob_specific_adv_data_create_def
      common_adv_data_create_def ble_advdata_zero_def)

text \<open>The encoders change only the buffer and the two ID bytes.\<close>

definition pair_frame :: "pair_statics \<Rightarrow> ptr \<Rightarrow> nat \<Rightarrow> mem \<Rightarrow> mem \<Rightarrow> bool" where
  "pair_frame st buf n m m' \<longleftrightarrow>
     (\<forall>a. \<not> (buf \<le> a \<and> a < buf + n) \<and> a \<noteq> le_payload_id st \<and> a \<noteq> ep_payload_id st \<longrightarrow> m' a = m a)"

lemma pair_frame_encode:
  assumes "\<forall>r \<in> set (msg_records msg). payload_contract (payload_constructor r)"
    and "nfc_ndef_msg_encode msg buf l m1 = (code, l', m')" "pair_frame st buf 0 m m1"
  shows "pair_frame st buf (unat l) m m' \<and> l' \<le> l"
  using msg_frame [OF assms(1,2)] assms(3) by (auto simp: pair_frame_def same_outside_def)

lemma short_payload_contracts:
  assumes "sd_laws sd" "service_data_count d = 0"
  shows "\<forall>r \<in> set (msg_records \<lparr>pp_record = f(0 := le_record sd st 0 d), max_record_count = 1, record_count = 1\<rparr>).
      payload_contract (payload_constructor r)"
    and "\<forall>r \<in> set (msg_records \<lparr>pp_record = f(0 := ep_record sd st 0 d), max_record_count = 1, record_count = 1\<rparr>).
      payload_contract (payload_constructor r)"
  using le_oob_contract [OF assms] ep_oob_contract [OF assms]
  by (simp_all add: msg_records_def le_record_def ep_record_def)

lemma full_payload_contracts:
  assumes sd: "sd_laws sd" "service_data_count le = 0" "service_data_count ep = 0"
    and st: "pair_statics_ok m st area n"
  shows "\<forall>r \<in> set (msg_records \<lparr>pp_record = f(0 := hs_record st ms, 1 := le_record sd st 0x30 le,
      2 := ep_record sd st 0x31 ep), max_record_count = 3, record_count = 3\<rparr>).
      payload_contract (payload_constructor r)"
  using le_oob_contract [OF sd(1,2)] ep_oob_contract [OF sd(1,3)]
    record_denotes_safe [OF hs_record_denotes [OF st, of ms]]
  by (simp add: msg_records_def le_record_def ep_record_def upt_rec record_safe_def)

subsection \<open>Properties\<close>

text \<open>C12. The default pairing message. For a SoftDevice that keeps its laws and static objects
  with their initial values apart from the buffer, the encoder changes only the buffer and the
  two static ID bytes and never reports more than the buffer's length. If it succeeds, the buffer
  holds exactly the byte format of the message of the requested type: the LE or the EP
  out-of-band record without an ID, or the handover select record followed by the LE record with
  ID \<open>0\<close> and the EP record with ID \<open>1\<close>, the IDs its two alternative carrier records refer to; and
  the out-of-band payloads are well-formed advertising data of the default description.\<close>

theorem nfc_ble_pair_default_msg_spec:
  assumes sd: "sd_laws sd" and st: "pair_statics_ok m st buf (unat l)"
    and enc: "nfc_ble_pair_default_msg_encode sd st ms ty tk buf l m = (code, l', m')"
  shows "pair_frame st buf (unat l) m m' \<and> l' \<le> l \<and>
    (code = NRF_SUCCESS \<longrightarrow> (\<exists>vs.
       pair_values_ok sd ty (le_oob_specific_adv_data_create tk) (ep_oob_specific_adv_data_create tk) vs \<and>
       unat l' = length (ndef_msg_bytes vs) \<and> mem_read buf (unat l') m' = ndef_msg_bytes vs))"
proof (cases ty)
  case NFC_BLE_PAIR_MSG_BLUETOOTH_LE_SHORT
  then have e: "nfc_ble_simplified_le_oob_msg_encode sd st ms (Some (le_oob_specific_adv_data_create tk)) buf l m =
      (code, l', m')" using enc by (simp add: nfc_ble_pair_default_msg_encode_def)
  have "pair_frame st buf (unat l) m m' \<and> l' \<le> l"
    by (rule pair_frame_encode [OF short_payload_contracts(1) [OF sd pair_data_no_services(1)]])
      (use e in \<open>auto simp: nfc_ble_simplified_le_oob_msg_encode_def le_declare_eq msg_encode_declared_def
        pair_frame_def\<close>)
  with le_short_success [OF sd pair_data_no_services(1) st] e NFC_BLE_PAIR_MSG_BLUETOOTH_LE_SHORT
  show ?thesis by (fastforce simp: pair_values_ok_def)
next
  case NFC_BLE_PAIR_MSG_BLUETOOTH_EP_SHORT
  then have e: "nfc_ble_simplified_ep_oob_msg_encode sd st ms (Some (ep_oob_specific_adv_data_create tk)) buf l m =
      (code, l', m')" using enc by (simp add: nfc_ble_pair_default_msg_encode_def)
  have "pair_frame st buf (unat l) m m' \<and> l' \<le> l"
    by (rule pair_frame_encode [OF short_payload_contracts(2) [OF sd pair_data_no_services(2)]])
      (use e in \<open>auto simp: nfc_ble_simplified_ep_oob_msg_encode_def ep_declare_eq msg_encode_declared_def
        pair_frame_def\<close>)
  with ep_short_success [OF sd pair_data_no_services(2) st] e NFC_BLE_PAIR_MSG_BLUETOOTH_EP_SHORT
  show ?thesis by (fastforce simp: pair_values_ok_def)
next
  case NFC_BLE_PAIR_MSG_FULL
  then have e: "nfc_ble_full_handover_select_msg_encode sd st ms (le_oob_specific_adv_data_create tk)
      (ep_oob_specific_adv_data_create tk) buf l m = (code, l', m')"
    using enc by (simp add: nfc_ble_pair_default_msg_encode_def)
  have "pair_frame st buf (unat l) m m' \<and> l' \<le> l"
    by (rule pair_frame_encode [OF full_payload_contracts [OF sd pair_data_no_services st]])
      (use e in \<open>auto simp: nfc_ble_full_handover_select_msg_encode_def full_declare_eq [OF st]
        msg_encode_declared_def pair_frame_def ids_set_def\<close>)
  with full_success [OF sd pair_data_no_services st] e NFC_BLE_PAIR_MSG_FULL
  show ?thesis by (fastforce simp: pair_values_ok_def)
qed

definition pair_statics_example :: pair_statics where
  "pair_statics_example =
     \<lparr>le_payload_id = 10, le_oob_rec_type_field = 20, ep_payload_id = 11, ep_oob_rec_type_field = 60,
      nfc_ac_rec_type_field = 100, nfc_hs_rec_type_field = 102, carrier_le_reference = 104,
      carrier_ep_reference = 105\<rparr>"

definition pair_mem_example :: mem where
  "pair_mem_example =
     mem_write 20 (ascii ''application/vnd.bluetooth.le.oob'')
      (mem_write 60 (ascii ''application/vnd.bluetooth.ep.oob'')
        (mem_write 100 (ascii ''acHs01'') (\<lambda>_. 0)))"

definition pair_msgs_example :: pair_msgs where
  "pair_msgs_example =
     (let d = \<lparr>pp_record = (\<lambda>_. le_record sd_example pair_statics_example 0 adv_example),
               max_record_count = 0, record_count = 0\<rparr>
      in \<lparr>nfc_le_oob_msg = d, nfc_ep_oob_msg = d, hs_rec_msg = d, hs_full_msg = d\<rparr>)"

lemma pair_statics_example_ok: "pair_statics_ok pair_mem_example pair_statics_example 1000 61"
  by code_simp

lemma nfc_ble_pair_default_msg_spec_witness:
  "case nfc_ble_pair_default_msg_encode sd_example pair_statics_example pair_msgs_example
      NFC_BLE_PAIR_MSG_BLUETOOTH_LE_SHORT None 1000 61 pair_mem_example of (code, l', m') \<Rightarrow>
    code = NRF_SUCCESS \<and> l' = 61 \<and>
    (\<exists>vs. pair_values_ok sd_example NFC_BLE_PAIR_MSG_BLUETOOTH_LE_SHORT (le_oob_specific_adv_data_create None)
       (ep_oob_specific_adv_data_create None) vs \<and> mem_read 1000 61 m' = ndef_msg_bytes vs)"
proof -
  let ?e = "nfc_ble_pair_default_msg_encode sd_example pair_statics_example pair_msgs_example
      NFC_BLE_PAIR_MSG_BLUETOOTH_LE_SHORT None 1000 61 pair_mem_example"
  have v: "case ?e of (code, l', m') \<Rightarrow> code = NRF_SUCCESS \<and> l' = 61"
    by code_simp
  obtain code l' m' where e: "?e = (code, l', m')" by (metis prod_cases3)
  with v have c: "code = NRF_SUCCESS" "l' = 61" by simp_all
  have "pair_statics_ok pair_mem_example pair_statics_example 1000 (unat (61 :: u32))"
    using pair_statics_example_ok by simp
  from nfc_ble_pair_default_msg_spec [OF sd_example_laws this e]
  have "\<exists>vs. pair_values_ok sd_example NFC_BLE_PAIR_MSG_BLUETOOTH_LE_SHORT (le_oob_specific_adv_data_create None)
       (ep_oob_specific_adv_data_create None) vs \<and> mem_read 1000 61 m' = ndef_msg_bytes vs"
    unfolding c by auto
  with c show ?thesis unfolding e by simp
qed

end
