(* ===== verification/T2tParser.thy ===== *)
theory T2tParser
  imports AppUtil
begin

text \<open>
  The Type 2 Tag parser, \<^verbatim>\<open>nfc/t2t_parser/nfc_t2t_parser.c\<close>: the serial number, the capability
  container and the sequence of TLV blocks of a tag image in memory. Offsets into the image are
  16-bit; the sums the range check forms are C \<^verbatim>\<open>int\<close>s and do not wrap, hence naturals here.

  \<open>tlv_blocks\<close> is the block format as a function on the bytes of the data area; the properties say
  that the parser computes it, returns, and leaves pointers into the data area only.
\<close>

unbundle bit_operations_syntax

subsection \<open>State\<close>

abbreviation (input) "TLV_NULL \<equiv> 0x00 :: u8"
abbreviation (input) "TLV_LOCK_CONTROL \<equiv> 0x01 :: u8"
abbreviation (input) "TLV_MEMORY_CONTROL \<equiv> 0x02 :: u8"
abbreviation (input) "TLV_NDEF_MESSAGE \<equiv> 0x03 :: u8"
abbreviation (input) "TLV_PROPRIETARY \<equiv> 0xFD :: u8"
abbreviation (input) "TLV_TERMINATOR \<equiv> 0xFE :: u8"
abbreviation (input) "TLV_T_LENGTH \<equiv> 1 :: u16"
abbreviation (input) "TLV_L_SHORT_LENGTH \<equiv> 1 :: u16"
abbreviation (input) "TLV_L_LONG_LENGTH \<equiv> 3 :: u16"
abbreviation (input) "TLV_L_FORMAT_FLAG \<equiv> 0xFF :: u16"
abbreviation (input) "TLV_NULL_TERMINATOR_LEN \<equiv> 0 :: u16"
abbreviation (input) "TLV_LOCK_MEMORY_CTRL_LEN \<equiv> 3 :: u16"
abbreviation (input) "T2T_FIRST_DATA_BLOCK_OFFSET \<equiv> 16 :: u16"

record tlv_block =
  tlv_tag :: u8
  tlv_length :: u16
  p_value :: ptr

record type_2_tag_serial_number =
  manufacturer_id :: u8
  serial_number_part_1 :: u16
  check_byte_0 :: u8
  serial_number_part_2 :: u32
  check_byte_1 :: u8
  internal :: u8

record type_2_tag_capability_container =
  cc_major_version :: u8
  cc_minor_version :: u8
  data_area_size :: u16
  read_access :: u8
  write_access :: u8

record type_2_tag =
  sn :: type_2_tag_serial_number
  lock_bytes :: u16
  cc :: type_2_tag_capability_container
  max_tlv_blocks :: u16
  p_tlv_block_array :: "nat \<Rightarrow> tlv_block"
  tlv_count :: u16

subsection \<open>Fields of a TLV block\<close>

definition LSN_GET :: "u8 \<Rightarrow> u8" where
  "LSN_GET val = val AND 0x0F"

definition MSN_GET :: "u8 \<Rightarrow> u8" where
  "MSN_GET val = drop_bit 4 val AND 0x0F"

definition type_2_tag_tlv_block_insert :: "type_2_tag \<Rightarrow> tlv_block \<Rightarrow> ret_code \<times> type_2_tag" where
  "type_2_tag_tlv_block_insert t b =
     (if tlv_count t = max_tlv_blocks t then (NRF_ERROR_NO_MEM, t)
      else (NRF_SUCCESS, t\<lparr>p_tlv_block_array := (p_tlv_block_array t)(unat (tlv_count t) := b),
                           tlv_count := tlv_count t + 1\<rparr>))"

definition tlv_block_is_data_length_correct :: "tlv_block \<Rightarrow> bool" where
  "tlv_block_is_data_length_correct b =
     (if tlv_tag b = TLV_NULL \<or> tlv_tag b = TLV_TERMINATOR then tlv_length b = TLV_NULL_TERMINATOR_LEN
      else if tlv_tag b = TLV_LOCK_CONTROL \<or> tlv_tag b = TLV_MEMORY_CONTROL
      then tlv_length b = TLV_LOCK_MEMORY_CTRL_LEN
      else True)"

definition type_2_tag_is_end_reached :: "type_2_tag \<Rightarrow> u16 \<Rightarrow> bool" where
  "type_2_tag_is_end_reached t offset \<longleftrightarrow>
     unat offset = unat (data_area_size (cc t)) + unat T2T_FIRST_DATA_BLOCK_OFFSET"

definition type_2_tag_is_version_supported :: "type_2_tag \<Rightarrow> bool" where
  "type_2_tag_is_version_supported t \<longleftrightarrow> cc_major_version (cc t) = 1"

definition type_2_tag_is_field_within_data_range :: "type_2_tag \<Rightarrow> u16 \<Rightarrow> u16 \<Rightarrow> bool" where
  "type_2_tag_is_field_within_data_range t offset field_length =
     (if field_length = 0 then False
      else unat offset + unat field_length - 1 < unat (data_area_size (cc t)) + unat T2T_FIRST_DATA_BLOCK_OFFSET \<and>
           offset \<ge> T2T_FIRST_DATA_BLOCK_OFFSET)"

definition type_2_tag_type_extract ::
  "type_2_tag \<Rightarrow> ptr \<Rightarrow> u16 \<Rightarrow> tlv_block \<Rightarrow> mem \<Rightarrow> ret_code \<times> u16 \<times> tlv_block" where
  "type_2_tag_type_extract t p_raw_data offset b m =
     (if \<not> type_2_tag_is_field_within_data_range t offset TLV_T_LENGTH then (NRF_ERROR_INVALID_DATA, offset, b)
      else (NRF_SUCCESS, offset + TLV_T_LENGTH, b\<lparr>tlv_tag := m (p_raw_data + unat offset)\<rparr>))"

definition type_2_tag_length_extract ::
  "type_2_tag \<Rightarrow> ptr \<Rightarrow> u16 \<Rightarrow> tlv_block \<Rightarrow> mem \<Rightarrow> ret_code \<times> u16 \<times> tlv_block" where
  "type_2_tag_length_extract t p_raw_data offset b m =
     (if \<not> type_2_tag_is_field_within_data_range t offset TLV_L_SHORT_LENGTH
      then (NRF_ERROR_INVALID_DATA, offset, b)
      else
        let len = ucast (m (p_raw_data + unat offset)) :: u16 in
        if len = TLV_L_FORMAT_FLAG
        then
          (if \<not> type_2_tag_is_field_within_data_range t offset TLV_L_LONG_LENGTH
           then (NRF_ERROR_INVALID_DATA, offset, b)
           else
             let len = uint16_big_decode (p_raw_data + (unat offset + 1)) m in
             if len < 0xFF then (NRF_ERROR_INVALID_DATA, offset, b)
             else (NRF_SUCCESS, offset + TLV_L_LONG_LENGTH, b\<lparr>tlv_length := len\<rparr>))
        else (NRF_SUCCESS, offset + TLV_L_SHORT_LENGTH, b\<lparr>tlv_length := len\<rparr>))"

definition type_2_tag_value_ptr_extract ::
  "type_2_tag \<Rightarrow> ptr \<Rightarrow> u16 \<Rightarrow> tlv_block \<Rightarrow> ret_code \<times> u16 \<times> tlv_block" where
  "type_2_tag_value_ptr_extract t p_raw_data offset b =
     (if tlv_length b = 0 then (NRF_SUCCESS, offset, b\<lparr>p_value := NULL\<rparr>)
      else if \<not> type_2_tag_is_field_within_data_range t offset (tlv_length b)
      then (NRF_ERROR_INVALID_DATA, offset, b)
      else (NRF_SUCCESS, offset + tlv_length b, b\<lparr>p_value := p_raw_data + unat offset\<rparr>))"

definition type_2_tag_tlv_block_extract ::
  "type_2_tag \<Rightarrow> ptr \<Rightarrow> u16 \<Rightarrow> mem \<Rightarrow> ret_code \<times> u16 \<times> tlv_block" where
  "type_2_tag_tlv_block_extract t p_raw_data offset m =
     (case type_2_tag_type_extract t p_raw_data offset \<lparr>tlv_tag = 0, tlv_length = 0, p_value = NULL\<rparr> m of
       (err_code, offset, b) \<Rightarrow>
        if err_code \<noteq> NRF_SUCCESS then (err_code, offset, b)
        else if tlv_tag b = TLV_NULL then (NRF_SUCCESS, offset, b)
        else if tlv_tag b = TLV_TERMINATOR then (NRF_SUCCESS, 0, b)
        else case type_2_tag_length_extract t p_raw_data offset b m of
          (err_code, offset, b) \<Rightarrow>
            if err_code \<noteq> NRF_SUCCESS then (err_code, offset, b)
            else if tlv_length b > 0
            then (case type_2_tag_value_ptr_extract t p_raw_data offset b of
                    (err_code, offset, b) \<Rightarrow>
                      if err_code \<noteq> NRF_SUCCESS then (err_code, offset, b) else (NRF_SUCCESS, offset, b))
            else (NRF_SUCCESS, offset, b))"

definition type_2_tag_tlv_parse ::
  "type_2_tag \<Rightarrow> ptr \<Rightarrow> u16 \<Rightarrow> mem \<Rightarrow> ret_code \<times> u16 \<times> type_2_tag" where
  "type_2_tag_tlv_parse t p_raw_data offset m =
     (case type_2_tag_tlv_block_extract t p_raw_data offset m of
       (err_code, offset, new_block) \<Rightarrow>
        if err_code \<noteq> NRF_SUCCESS then (err_code, offset, t)
        else if \<not> tlv_block_is_data_length_correct new_block then (NRF_ERROR_INVALID_DATA, offset, t)
        else if tlv_tag new_block = TLV_NULL \<or> tlv_tag new_block = TLV_TERMINATOR then (NRF_SUCCESS, offset, t)
        else case type_2_tag_tlv_block_insert t new_block of
          (err_code, t) \<Rightarrow> if err_code \<noteq> NRF_SUCCESS then (err_code, offset, t) else (NRF_SUCCESS, offset, t))"

subsection \<open>Header areas\<close>

definition type_2_tag_is_bcc_correct :: "type_2_tag_serial_number \<Rightarrow> bool" where
  "type_2_tag_is_bcc_correct s =
     (let bcc1 = 0x88 XOR manufacturer_id s XOR ucast (drop_bit 8 (serial_number_part_1 s) AND 0xFF) XOR
                 ucast (serial_number_part_1 s AND 0xFF);
          bcc2 = ucast (drop_bit 24 (serial_number_part_2 s) AND 0xFF) XOR
                 ucast (drop_bit 16 (serial_number_part_2 s) AND 0xFF) XOR
                 ucast (drop_bit 8 (serial_number_part_2 s) AND 0xFF) XOR
                 ucast (serial_number_part_2 s AND 0xFF)
      in bcc1 = check_byte_0 s \<and> bcc2 = check_byte_1 s)"

text \<open>A wrong block check character only produces a trace message.\<close>

definition type_2_tag_internal_parse :: "type_2_tag \<Rightarrow> ptr \<Rightarrow> mem \<Rightarrow> ret_code \<times> type_2_tag" where
  "type_2_tag_internal_parse t p_raw_data m =
     (let t = t\<lparr>sn := \<lparr>manufacturer_id = m p_raw_data,
                       serial_number_part_1 = uint16_big_decode (p_raw_data + 1) m,
                       check_byte_0 = m (p_raw_data + 3),
                       serial_number_part_2 = uint32_big_decode (p_raw_data + 4) m,
                       check_byte_1 = m (p_raw_data + 8),
                       internal = m (p_raw_data + 9)\<rparr>,
                lock_bytes := uint16_big_decode (p_raw_data + 10) m\<rparr>
      in if \<not> type_2_tag_is_bcc_correct (sn t) then (NRF_SUCCESS, t) else (NRF_SUCCESS, t))"

definition type_2_tag_cc_parse :: "type_2_tag \<Rightarrow> ptr \<Rightarrow> mem \<Rightarrow> ret_code \<times> type_2_tag" where
  "type_2_tag_cc_parse t p_raw_data m =
     (let p_cc_block = p_raw_data + 12 in
      if m p_cc_block \<noteq> 0xE1 then (NRF_ERROR_INVALID_DATA, t)
      else (NRF_SUCCESS,
        t\<lparr>cc := \<lparr>cc_major_version = MSN_GET (m (p_cc_block + 1)),
                 cc_minor_version = LSN_GET (m (p_cc_block + 1)),
                 data_area_size = ucast (m (p_cc_block + 2)) * 8,
                 read_access = MSN_GET (m (p_cc_block + 3)),
                 write_access = LSN_GET (m (p_cc_block + 3))\<rparr>\<rparr>))"

definition type_2_tag_clear :: "type_2_tag \<Rightarrow> type_2_tag" where
  "type_2_tag_clear t =
     t\<lparr>tlv_count := 0,
       cc := \<lparr>cc_major_version = 0, cc_minor_version = 0, data_area_size = 0, read_access = 0, write_access = 0\<rparr>,
       sn := \<lparr>manufacturer_id = 0, serial_number_part_1 = 0, check_byte_0 = 0, serial_number_part_2 = 0,
              check_byte_1 = 0, internal = 0\<rparr>\<rparr>"

subsection \<open>The parser\<close>

partial_function (option) type_2_tag_tlv_loop ::
  "type_2_tag \<Rightarrow> ptr \<Rightarrow> u16 \<Rightarrow> mem \<Rightarrow> (ret_code \<times> type_2_tag) option" where
  "type_2_tag_tlv_loop t p_raw_data offset m =
     (if offset > 0
      then if type_2_tag_is_end_reached t offset then Some (NRF_SUCCESS, t)
        else (case type_2_tag_tlv_parse t p_raw_data offset m of (err_code, offset, t) \<Rightarrow>
                if err_code \<noteq> NRF_SUCCESS then Some (err_code, t)
                else type_2_tag_tlv_loop t p_raw_data offset m)
      else Some (NRF_SUCCESS, t))"

definition type_2_tag_parse :: "type_2_tag \<Rightarrow> ptr \<Rightarrow> mem \<Rightarrow> (ret_code \<times> type_2_tag) option" where
  "type_2_tag_parse t p_raw_data m =
     (let t = type_2_tag_clear t in
      case type_2_tag_internal_parse t p_raw_data m of (err_code, t) \<Rightarrow>
        if err_code \<noteq> NRF_SUCCESS then Some (err_code, t)
        else case type_2_tag_cc_parse t p_raw_data m of (err_code, t) \<Rightarrow>
          if err_code \<noteq> NRF_SUCCESS then Some (err_code, t)
          else if \<not> type_2_tag_is_version_supported t then Some (NRF_ERROR_NOT_SUPPORTED, t)
          else type_2_tag_tlv_loop t p_raw_data T2T_FIRST_DATA_BLOCK_OFFSET m)"

subsection \<open>The block format\<close>

text \<open>The value of a block and what follows it, from the bytes behind its tag byte.\<close>

fun tlv_body :: "u8 list \<Rightarrow> (u8 list \<times> u8 list) option" where
  "tlv_body [] = None"
| "tlv_body (l # bs) =
     (if l \<noteq> 0xFF
      then if unat l \<le> length bs then Some (take (unat l) bs, drop (unat l) bs) else None
      else case bs of
        h # k # rest \<Rightarrow>
          (let n = 256 * unat h + unat k in
           if 255 \<le> n \<and> n \<le> length rest then Some (take n rest, drop n rest) else None)
      | _ \<Rightarrow> None)"

lemma tlv_body_length: "tlv_body bs = Some (v, rest) \<Longrightarrow> length rest < length bs"
  by (cases bs rule: tlv_body.cases) (auto split: if_splits list.splits simp: Let_def)

text \<open>The blocks of a data area up to the first malformed one, and whether the area is well formed
  as a whole: NULL blocks are skipped, a terminator or the end of the area ends it, and lock and
  memory control blocks have three bytes.\<close>

function tlv_blocks :: "u8 list \<Rightarrow> (u8 \<times> u8 list) list \<times> bool" where
  "tlv_blocks [] = ([], True)"
| "tlv_blocks (t # bs) =
     (if t = TLV_NULL then tlv_blocks bs
      else if t = TLV_TERMINATOR then ([], True)
      else case tlv_body bs of
        None \<Rightarrow> ([], False)
      | Some (v, rest) \<Rightarrow>
          if (t = TLV_LOCK_CONTROL \<or> t = TLV_MEMORY_CONTROL) \<and> length v \<noteq> 3 then ([], False)
          else (case tlv_blocks rest of (bl, ok) \<Rightarrow> ((t, v) # bl, ok)))"
  by pat_completeness auto
termination by (relation "measure length") (auto dest: tlv_body_length)

text \<open>A stored block points to its value, inside the area \<open>lo\<close> to \<open>hi\<close>.\<close>

definition block_ok :: "mem \<Rightarrow> ptr \<Rightarrow> ptr \<Rightarrow> tlv_block \<Rightarrow> u8 \<times> u8 list \<Rightarrow> bool" where
  "block_ok m lo hi b v \<longleftrightarrow> tlv_tag b = fst v \<and> unat (tlv_length b) = length (snd v) \<and>
     (if snd v = [] then p_value b = NULL
      else lo \<le> p_value b \<and> p_value b + length (snd v) \<le> hi \<and> mem_read (p_value b) (length (snd v)) m = snd v)"

definition t2t_blocks :: "type_2_tag \<Rightarrow> tlv_block list" where
  "t2t_blocks t = map (p_tlv_block_array t) [0..<unat (tlv_count t)]"

subsection \<open>One block\<close>

lemma unat_big_decode: "unat (uint16_big_decode p m) = 256 * unat (m p) + unat (m (p + 1))"
proof -
  have "push_bit 8 (ucast (m p)) AND ucast (m (p + 1)) = (0 :: u16)"
    by (rule bit_word_eqI) (auto simp: bit_simps dest: bit_imp_le_length)
  then have "uint16_big_decode p m = push_bit 8 (ucast (m p)) + ucast (m (p + 1))"
    unfolding uint16_big_decode_def by (simp add: disjunctive_add_eq_or)
  then show ?thesis
    using u8_less_256 [of "m p"] u8_less_256 [of "m (p + 1)"]
    by (simp add: push_bit_eq_mult unat_word_ariths)
qed

lemma within_iff:
  "type_2_tag_is_field_within_data_range t off k \<longleftrightarrow>
     0 < unat k \<and> unat off + unat k \<le> unat (data_area_size (cc t)) + 16 \<and> 16 \<le> unat off"
  by (auto simp: type_2_tag_is_field_within_data_range_def word_le_nat_alt unat_gt_0)

lemma mem_read_ne: "0 < n \<Longrightarrow> mem_read p n m = m p # mem_read (p + 1) (n - 1) m"
  using mem_read_Suc [of p "n - 1" m] by simp

lemma take_mem_read: "k \<le> n \<Longrightarrow> take k (mem_read p n m) = mem_read p k m"
  and drop_mem_read: "k \<le> n \<Longrightarrow> drop k (mem_read p n m) = mem_read (p + k) (n - k) m"
  using mem_read_append [of p k "n - k" m] by simp_all

text \<open>The fields of a block behind its tag byte, in a data area that ends at offset \<open>e\<close>.\<close>

lemma body_extract:
  fixes t :: type_2_tag and off :: u16
  defines "e \<equiv> unat (data_area_size (cc t)) + 16"
  assumes e: "e < 65536" and off: "16 \<le> unat off" "unat off \<le> e"
    and b: "p_value b = NULL"
  shows "case tlv_body (mem_read (p + unat off) (e - unat off) m) of
      None \<Rightarrow> (\<exists>off' b'. type_2_tag_length_extract t p off b m = (NRF_ERROR_INVALID_DATA, off', b')) \<or>
        (\<exists>off' b' off'' b''. type_2_tag_length_extract t p off b m = (NRF_SUCCESS, off', b') \<and> 0 < tlv_length b' \<and>
          type_2_tag_value_ptr_extract t p off' b' = (NRF_ERROR_INVALID_DATA, off'', b''))
    | Some (v, rest) \<Rightarrow> \<exists>off' b' off'' b''. type_2_tag_length_extract t p off b m = (NRF_SUCCESS, off', b') \<and>
        (if 0 < tlv_length b' then type_2_tag_value_ptr_extract t p off' b' = (NRF_SUCCESS, off'', b'')
         else off'' = off' \<and> b'' = b') \<and>
        16 \<le> unat off'' \<and> unat off'' \<le> e \<and> rest = mem_read (p + unat off'') (e - unat off'') m \<and>
        tlv_tag b'' = tlv_tag b \<and> block_ok m (p + 16) (p + e) b'' (tlv_tag b, v)"
proof (cases "unat off < e")
  case False
  then have "mem_read (p + unat off) (e - unat off) m = []" using off by simp
  moreover have "type_2_tag_length_extract t p off b m = (NRF_ERROR_INVALID_DATA, off, b)"
    using False by (simp add: type_2_tag_length_extract_def within_iff e_def)
  ultimately show ?thesis by simp
next
  case True
  let ?l = "m (p + unat off)" and ?r = "e - unat off - 1"
  have val: "type_2_tag_value_ptr_extract t p o1 b1 =
      (if tlv_length b1 = 0 then (NRF_SUCCESS, o1, b1\<lparr>p_value := NULL\<rparr>)
       else if unat o1 + unat (tlv_length b1) \<le> e
       then (NRF_SUCCESS, o1 + tlv_length b1, b1\<lparr>p_value := p + unat o1\<rparr>)
       else (NRF_ERROR_INVALID_DATA, o1, b1))" if "16 \<le> unat o1" for o1 b1
    using that by (simp add: type_2_tag_value_ptr_extract_def within_iff e_def unat_gt_0)
  have u1: "unat (off + 1) = unat off + 1" using True e by (subst unat_plus_small) simp_all
  have data: "mem_read (p + unat off) (e - unat off) m = ?l # mem_read (p + unat off + 1) ?r m"
    using True by (simp add: mem_read_ne)
  have value_ok: "\<exists>off'' b''. (if 0 < k then type_2_tag_value_ptr_extract t p o1 (b\<lparr>tlv_length := k\<rparr>) = (NRF_SUCCESS, off'', b'')
         else off'' = o1 \<and> b'' = b\<lparr>tlv_length := k\<rparr>) \<and>
        16 \<le> unat off'' \<and> unat off'' \<le> e \<and>
        drop (unat k) (mem_read (p + unat o1) (e - unat o1) m) = mem_read (p + unat off'') (e - unat off'') m \<and>
        tlv_tag b'' = tlv_tag b \<and> block_ok m (p + 16) (p + e) b'' (tlv_tag b, take (unat k) (mem_read (p + unat o1) (e - unat o1) m))"
    if o1: "16 \<le> unat o1" "unat o1 + unat k \<le> e" for o1 k
  proof (cases "k = 0")
    case True
    then show ?thesis using o1 b by (simp add: block_ok_def)
  next
    case False
    have "unat (o1 + k) = unat o1 + unat k" using o1 e by (subst unat_plus_small) simp_all
    then show ?thesis
      using o1 False by (simp add: val block_ok_def unat_gt_0 word_gt_0 take_mem_read drop_mem_read add.assoc flip: length_0_conv)
  qed
  show ?thesis
  proof (cases "?l = 0xFF")
    case False
    have "(ucast ?l :: u16) \<noteq> 0xFF"
    proof
      assume "(ucast ?l :: u16) = 0xFF"
      then have "unat (ucast ?l :: u16) = unat (0xFF :: u16)" by (rule arg_cong)
      then have "unat ?l = unat (0xFF :: u8)" by simp
      with False show False by (metis word_unat_eq_iff)
    qed
    then have le: "type_2_tag_length_extract t p off b m = (NRF_SUCCESS, off + 1, b\<lparr>tlv_length := ucast ?l\<rparr>)"
      using \<open>unat off < e\<close> off by (simp add: type_2_tag_length_extract_def within_iff e_def Let_def)
    show ?thesis
    proof (cases "unat ?l \<le> ?r")
      case True
      with False \<open>unat off < e\<close> value_ok [of "off + 1" "ucast ?l"] u1 off le data show ?thesis
        by (simp add: add.assoc)
    next
      case long: False
      then have "0 < unat ?l" by simp
      then have "0 < (ucast ?l :: u16)" by (simp add: word_less_nat_alt)
      then have l0: "0 < (ucast ?l :: u16)" "(ucast ?l :: u16) \<noteq> 0" by (metis less_irrefl)+
      have "\<not> Suc (unat off + unat ?l) \<le> e" using long \<open>unat off < e\<close> by simp
      with l0 long False \<open>unat off < e\<close> val [of "off + 1" "b\<lparr>tlv_length := ucast ?l\<rparr>"] u1 off le data show ?thesis
        by simp
    qed
  next
    case True
    show ?thesis
    proof (cases "unat off + 3 \<le> e")
      case False
      have "type_2_tag_length_extract t p off b m = (NRF_ERROR_INVALID_DATA, off, b)"
        using True False \<open>unat off < e\<close> off by (simp add: type_2_tag_length_extract_def within_iff e_def Let_def)
      moreover have "length (mem_read (p + unat off + 1) ?r m) < 2" using False by simp
      then have "tlv_body (?l # mem_read (p + unat off + 1) ?r m) = None"
        using True by (auto split: list.splits dest!: arg_cong [of _ _ length])
      ultimately show ?thesis unfolding data by simp
    next
      case three: True
      let ?n = "uint16_big_decode (p + (unat off + 1)) m"
      have u3: "unat (off + 3) = unat off + 3" using three e by (subst unat_plus_small) simp_all
      have le: "type_2_tag_length_extract t p off b m =
          (if unat ?n < 255 then (NRF_ERROR_INVALID_DATA, off, b)
           else (NRF_SUCCESS, off + 3, b\<lparr>tlv_length := ?n\<rparr>))"
        using True three off by (simp add: type_2_tag_length_extract_def within_iff e_def Let_def word_less_nat_alt)
      have "mem_read (p + unat off + 1) ?r m = m (p + (unat off + 1)) # m (p + (unat off + 2)) #
          mem_read (p + unat (off + 3)) (e - unat (off + 3)) m"
        using three by (simp add: mem_read_ne u3 add.assoc numeral_3_eq_3)
      then have body: "tlv_body (?l # mem_read (p + unat off + 1) ?r m) =
          (if 255 \<le> unat ?n \<and> unat ?n \<le> e - unat (off + 3)
           then Some (take (unat ?n) (mem_read (p + unat (off + 3)) (e - unat (off + 3)) m),
                      drop (unat ?n) (mem_read (p + unat (off + 3)) (e - unat (off + 3)) m)) else None)"
        using True by (simp add: unat_big_decode Let_def add.assoc)
      have le_iff: "unat ?n \<le> e - unat (off + 3) \<longleftrightarrow> unat (off + 3) + unat ?n \<le> e"
        using three u3 by auto
      consider "unat ?n < 255" | "255 \<le> unat ?n" "unat (off + 3) + unat ?n \<le> e"
        | "255 \<le> unat ?n" "\<not> unat (off + 3) + unat ?n \<le> e" by linarith
      then show ?thesis
      proof cases
        case 1
        then show ?thesis unfolding data body by (simp add: le)
      next
        case 2
        then have "0 < ?n" by (simp add: word_less_nat_alt)
        with 2 show ?thesis
          using value_ok [of "off + 3" ?n] u3 off le_iff unfolding data body le by simp
      next
        case 3
        then have "?n \<noteq> 0" "0 < ?n" by (auto simp: word_less_nat_alt)
        with 3 show ?thesis
          using val [of "off + 3" "b\<lparr>tlv_length := ?n\<rparr>"] u3 off le_iff unfolding data body le by simp
      qed
    qed
  qed
qed

lemma tlv_parse_step:
  fixes t :: type_2_tag and off :: u16
  defines "e \<equiv> unat (data_area_size (cc t)) + 16"
  assumes e: "e < 65536" and off: "16 \<le> unat off" "unat off < e"
  obtains (skip) "m (p + unat off) = 0" "type_2_tag_tlv_parse t p off m = (NRF_SUCCESS, off + 1, t)"
  | (last) "m (p + unat off) = 0xFE" "type_2_tag_tlv_parse t p off m = (NRF_SUCCESS, 0, t)"
  | (bad) off' where "m (p + unat off) \<noteq> 0" "m (p + unat off) \<noteq> 0xFE"
      "type_2_tag_tlv_parse t p off m = (NRF_ERROR_INVALID_DATA, off', t)"
      "case tlv_body (mem_read (p + unat off + 1) (e - unat off - 1) m) of None \<Rightarrow> True
       | Some (v, rest) \<Rightarrow> (m (p + unat off) = 1 \<or> m (p + unat off) = 2) \<and> length v \<noteq> 3"
  | (block) off' b v where "m (p + unat off) \<noteq> 0" "m (p + unat off) \<noteq> 0xFE"
      "tlv_body (mem_read (p + unat off + 1) (e - unat off - 1) m) = Some (v, mem_read (p + unat off') (e - unat off') m)"
      "\<not> ((m (p + unat off) = 1 \<or> m (p + unat off) = 2) \<and> length v \<noteq> 3)"
      "16 \<le> unat off'" "unat off' \<le> e" "block_ok m (p + 16) (p + e) b (m (p + unat off), v)"
      "type_2_tag_tlv_parse t p off m =
        (case type_2_tag_tlv_block_insert t b of (c, t') \<Rightarrow> (c, off', t'))"
proof -
  let ?a = "m (p + unat off)" and ?b = "\<lparr>tlv_tag = m (p + unat off), tlv_length = 0, p_value = NULL\<rparr>"
  have u1: "unat (off + 1) = unat off + 1" using off e by (subst unat_plus_small) simp_all
  have ty: "type_2_tag_type_extract t p off \<lparr>tlv_tag = 0, tlv_length = 0, p_value = NULL\<rparr> m = (NRF_SUCCESS, off + 1, ?b)"
    using off by (simp add: type_2_tag_type_extract_def within_iff e_def)
  consider "?a = 0" | "?a = 0xFE" | "?a \<noteq> 0" "?a \<noteq> 0xFE" by blast
  then show thesis
  proof cases
    case 1
    with skip show thesis
      by (simp add: type_2_tag_tlv_parse_def type_2_tag_tlv_block_extract_def ty tlv_block_is_data_length_correct_def)
  next
    case 2
    with last show thesis
      by (simp add: type_2_tag_tlv_parse_def type_2_tag_tlv_block_extract_def ty tlv_block_is_data_length_correct_def)
  next
    case 3
    note body = body_extract [of t "off + 1" ?b p m, folded e_def, OF e]
    have bs: "mem_read (p + unat (off + 1)) (e - unat (off + 1)) m = mem_read (p + unat off + 1) (e - unat off - 1) m"
      by (simp add: u1)
    show thesis
    proof (cases "tlv_body (mem_read (p + unat off + 1) (e - unat off - 1) m)")
      case None
      then obtain off' where "type_2_tag_tlv_parse t p off m = (NRF_ERROR_INVALID_DATA, off', t)"
        using body off u1 3
        by (fastforce simp: bs type_2_tag_tlv_parse_def type_2_tag_tlv_block_extract_def ty)
      with 3 None bad show thesis by simp
    next
      case (Some vr)
      obtain v rest where vr: "vr = (v, rest)" by fastforce
      obtain o1 b1 o2 b2 where le: "type_2_tag_length_extract t p (off + 1) ?b m = (NRF_SUCCESS, o1, b1)"
        and va: "if 0 < tlv_length b1 then type_2_tag_value_ptr_extract t p o1 b1 = (NRF_SUCCESS, o2, b2)
          else o2 = o1 \<and> b2 = b1"
        and r: "16 \<le> unat o2" "unat o2 \<le> e" "rest = mem_read (p + unat o2) (e - unat o2) m"
        and b2: "tlv_tag b2 = ?a" "block_ok m (p + 16) (p + e) b2 (?a, v)"
        using body off u1 Some vr by (auto simp: bs)
      have ex: "type_2_tag_tlv_block_extract t p off m = (NRF_SUCCESS, o2, b2)"
        using 3 va le by (auto simp: type_2_tag_tlv_block_extract_def ty split: if_splits)
      have lv: "unat (tlv_length b2) = length v" using b2(2) by (simp add: block_ok_def)
      show thesis
      proof (cases "(?a = 1 \<or> ?a = 2) \<and> length v \<noteq> 3")
        case True
        then have "type_2_tag_tlv_parse t p off m = (NRF_ERROR_INVALID_DATA, o2, t)"
          using 3 b2 lv by (auto simp: type_2_tag_tlv_parse_def ex tlv_block_is_data_length_correct_def)
        with 3 True Some vr bad show thesis by simp
      next
        case False
        then have "tlv_block_is_data_length_correct b2"
          using 3 b2 lv by (auto simp: tlv_block_is_data_length_correct_def word_unat_eq_iff)
        then have "type_2_tag_tlv_parse t p off m = (case type_2_tag_tlv_block_insert t b2 of (c, t') \<Rightarrow> (c, o2, t'))"
          using 3 b2 by (auto simp: type_2_tag_tlv_parse_def ex split: prod.split)
        with 3 False Some vr r b2 block show thesis by simp
      qed
    qed
  qed
qed

subsection \<open>The loop\<close>

definition tag_inv :: "type_2_tag \<Rightarrow> bool" where
  "tag_inv t \<longleftrightarrow> tlv_count t \<le> max_tlv_blocks t"

lemma insert_full:
  "tlv_count t = max_tlv_blocks t \<Longrightarrow> type_2_tag_tlv_block_insert t b = (NRF_ERROR_NO_MEM, t)"
  by (simp add: type_2_tag_tlv_block_insert_def)

lemma insert_room:
  assumes "tag_inv t" "tlv_count t \<noteq> max_tlv_blocks t"
  obtains t' where "type_2_tag_tlv_block_insert t b = (NRF_SUCCESS, t')" "t2t_blocks t' = t2t_blocks t @ [b]"
    "tag_inv t'" "unat (tlv_count t') = unat (tlv_count t) + 1"
    "max_tlv_blocks t' = max_tlv_blocks t" "cc t' = cc t" "sn t' = sn t" "lock_bytes t' = lock_bytes t"
proof -
  have lt: "tlv_count t < max_tlv_blocks t" using assms by (simp add: tag_inv_def)
  have c: "unat (tlv_count t + 1) = Suc (unat (tlv_count t))" by (rule unat_Suc_less [OF lt])
  show thesis
    by (rule that [of "snd (type_2_tag_tlv_block_insert t b)"])
      (use assms(2) c lt in \<open>auto simp: type_2_tag_tlv_block_insert_def t2t_blocks_def tag_inv_def word_le_nat_alt
         word_less_nat_alt\<close>)
qed

text \<open>What the parser makes of the rest \<open>data\<close> of the data area, from the tag \<open>t\<close>.\<close>

definition blocks_added ::
  "mem \<Rightarrow> ptr \<Rightarrow> ptr \<Rightarrow> u8 list \<Rightarrow> type_2_tag \<Rightarrow> ret_code \<Rightarrow> type_2_tag \<Rightarrow> bool" where
  "blocks_added m lo hi data t code t' \<longleftrightarrow>
     (let (bl, ok) = tlv_blocks data; room = unat (max_tlv_blocks t) - unat (tlv_count t)
      in code = (if room < length bl then NRF_ERROR_NO_MEM else if ok then NRF_SUCCESS else NRF_ERROR_INVALID_DATA) \<and>
         (\<exists>bs. list_all2 (block_ok m lo hi) bs (take room bl) \<and> t2t_blocks t' = t2t_blocks t @ bs)) \<and>
     tag_inv t' \<and> max_tlv_blocks t' = max_tlv_blocks t \<and> cc t' = cc t \<and> sn t' = sn t \<and>
     lock_bytes t' = lock_bytes t"

lemma blocks_added_block:
  assumes "blocks_added m lo hi rest t1 code t'" "tlv_body bs = Some (v, rest)"
    and "a \<noteq> 0" "a \<noteq> 0xFE" "\<not> ((a = 1 \<or> a = 2) \<and> length v \<noteq> 3)" "block_ok m lo hi b (a, v)"
    and "t2t_blocks t1 = t2t_blocks t @ [b]" "unat (tlv_count t1) = unat (tlv_count t) + 1"
    and "max_tlv_blocks t1 = max_tlv_blocks t" "cc t1 = cc t" "sn t1 = sn t" "lock_bytes t1 = lock_bytes t"
    and "tlv_count t < max_tlv_blocks t"
  shows "blocks_added m lo hi (a # bs) t code t'"
proof -
  obtain bl ok where bl: "tlv_blocks rest = (bl, ok)" by fastforce
  have spec: "tlv_blocks (a # bs) = ((a, v) # bl, ok)" using assms(2-5) bl by auto
  obtain r where room: "unat (max_tlv_blocks t) - unat (tlv_count t) = Suc r"
    "unat (max_tlv_blocks t) - unat (tlv_count t1) = r"
    using assms(8,13) by (auto simp: word_less_nat_alt intro: that [of "unat (max_tlv_blocks t) - unat (tlv_count t) - 1"])
  obtain bs' where "list_all2 (block_ok m lo hi) bs' (take r bl)" "t2t_blocks t' = t2t_blocks t @ b # bs'"
    using assms(1,7,9) room by (auto simp: blocks_added_def bl)
  then have "list_all2 (block_ok m lo hi) (b # bs') (take (Suc r) ((a, v) # bl))"
    "t2t_blocks t' = t2t_blocks t @ b # bs'" using assms(6) by simp_all
  then show ?thesis
    using assms(1,9-12) room unfolding blocks_added_def spec by (auto simp: bl Let_def)
qed

lemma loop_end: "type_2_tag_tlv_loop t p 0 m = Some (NRF_SUCCESS, t)"
  by (subst type_2_tag_tlv_loop.simps) simp

lemma tlv_loop_spec:
  assumes "e = unat (data_area_size (cc t)) + 16" "e < 65536" "16 \<le> unat off" "unat off \<le> e" "tag_inv t"
    and "data = mem_read (p + unat off) (e - unat off) m"
  shows "\<exists>code t'. type_2_tag_tlv_loop t p off m = Some (code, t') \<and>
    blocks_added m (p + 16) (p + e) data t code t'"
  using assms
proof (induction data arbitrary: t off rule: tlv_blocks.induct)
  case (1 t off)
  from 1 have "unat off = e" by (metis length_mem_read length_0_conv diff_is_0_eq le_antisym)
  then have "type_2_tag_is_end_reached t off" using 1 by (simp add: type_2_tag_is_end_reached_def)
  then have "type_2_tag_tlv_loop t p off m = Some (NRF_SUCCESS, t)"
    by (subst type_2_tag_tlv_loop.simps) simp
  with 1 show ?case by (simp add: blocks_added_def)
next
  case (2 a bs t off)
  have lt: "unat off < e" using 2(8) 2(6) by (cases "unat off = e") simp_all
  have ab: "m (p + unat off) = a" "mem_read (p + unat off + 1) (e - unat off - 1) m = bs"
    using 2(8) lt by (simp_all add: mem_read_ne)
  have "\<not> type_2_tag_is_end_reached t off" "off > 0"
    using lt 2(3,5) by (auto simp: type_2_tag_is_end_reached_def word_less_nat_alt)
  then have step: "type_2_tag_tlv_loop t p off m =
      (case type_2_tag_tlv_parse t p off m of (err_code, offset, t) \<Rightarrow>
         if err_code \<noteq> NRF_SUCCESS then Some (err_code, t) else type_2_tag_tlv_loop t p offset m)"
    by (subst type_2_tag_tlv_loop.simps) simp
  have u1: "unat (off + 1) = unat off + 1" using lt 2(4) by (subst unat_plus_small) simp_all
  show ?case
  proof (rule tlv_parse_step [of t off m p, folded 2(3), OF 2(4,5) lt], unfold ab)
    assume s: "a = 0" "type_2_tag_tlv_parse t p off m = (NRF_SUCCESS, off + 1, t)"
    have "\<exists>code t'. type_2_tag_tlv_loop t p (off + 1) m = Some (code, t') \<and>
        blocks_added m (p + 16) (p + e) bs t code t'"
      by (rule 2(1)) (use s 2 lt ab u1 in \<open>simp_all add: add.assoc\<close>)
    with s show ?case by (simp add: step blocks_added_def)
  next
    assume "a = 0xFE" "type_2_tag_tlv_parse t p off m = (NRF_SUCCESS, 0, t)"
    with 2(7) show ?case by (simp add: step loop_end blocks_added_def)
  next
    fix off' :: u16 assume s: "a \<noteq> 0" "a \<noteq> 0xFE" "type_2_tag_tlv_parse t p off m = (NRF_ERROR_INVALID_DATA, off', t)"
      "case tlv_body bs of None \<Rightarrow> True | Some (v, rest) \<Rightarrow> (a = 1 \<or> a = 2) \<and> length v \<noteq> 3"
    then have "tlv_blocks (a # bs) = ([], False)" by (auto split: option.splits)
    with s 2(7) show ?case by (simp add: step blocks_added_def del: tlv_blocks.simps)
  next
    fix off' :: u16 and b v
    let ?rest = "mem_read (p + unat off') (e - unat off') m"
    assume s: "a \<noteq> 0" "a \<noteq> 0xFE" "tlv_body bs = Some (v, ?rest)" "\<not> ((a = 1 \<or> a = 2) \<and> length v \<noteq> 3)"
      "16 \<le> unat off'" "unat off' \<le> e" "block_ok m (p + 16) (p + e) b (a, v)"
      and p: "type_2_tag_tlv_parse t p off m = (case type_2_tag_tlv_block_insert t b of (c, t') \<Rightarrow> (c, off', t'))"
    show ?case
    proof (cases "tlv_count t = max_tlv_blocks t")
      case True
      obtain bl ok where "tlv_blocks ?rest = (bl, ok)" by fastforce
      then have "tlv_blocks (a # bs) = ((a, v) # bl, ok)" using s by auto
      with True p 2(7) show ?thesis by (simp add: step insert_full blocks_added_def del: tlv_blocks.simps)
    next
      case False
      obtain t1 where i: "type_2_tag_tlv_block_insert t b = (NRF_SUCCESS, t1)" "t2t_blocks t1 = t2t_blocks t @ [b]"
        "tag_inv t1" "unat (tlv_count t1) = unat (tlv_count t) + 1" "max_tlv_blocks t1 = max_tlv_blocks t"
        "cc t1 = cc t" "sn t1 = sn t" "lock_bytes t1 = lock_bytes t"
        using insert_room [OF 2(7) False] by blast
      have "\<exists>code t'. type_2_tag_tlv_loop t1 p off' m = Some (code, t') \<and>
          blocks_added m (p + 16) (p + e) ?rest t1 code t'"
        by (rule 2(2)) (use s i 2 in simp_all)
      then obtain code t' where l: "type_2_tag_tlv_loop t1 p off' m = Some (code, t')"
        and added: "blocks_added m (p + 16) (p + e) ?rest t1 code t'" by blast
      have "tlv_count t < max_tlv_blocks t" using False 2(7) by (simp add: tag_inv_def)
      then have "blocks_added m (p + 16) (p + e) (a # bs) t code t'"
        by (rule blocks_added_block [OF added s(3,1,2,4,7) i(2,4-8)])
      with l show ?thesis by (simp add: step p i(1))
    qed
  qed
qed

subsection \<open>Writing the block format\<close>

definition tlv_bytes :: "u8 \<times> u8 list \<Rightarrow> u8 list" where
  "tlv_bytes b =
     (let n = length (snd b) in
      fst b # (if n < 255 then [of_nat n] else [0xFF, of_nat (n div 256), of_nat (n mod 256)]) @ snd b)"

definition tlv_wf :: "u8 \<times> u8 list \<Rightarrow> bool" where
  "tlv_wf b \<longleftrightarrow> fst b \<noteq> TLV_NULL \<and> fst b \<noteq> TLV_TERMINATOR \<and> length (snd b) < 65536 \<and>
     (fst b = TLV_LOCK_CONTROL \<or> fst b = TLV_MEMORY_CONTROL \<longrightarrow> length (snd b) = 3)"

lemma tlv_body_short:
  assumes "length v < 255"
  shows "tlv_body (of_nat (length v) # v @ rest) = Some (v, rest)"
proof -
  have u: "unat (of_nat (length v) :: u8) = length v" by (rule unat_of_nat_u8) (use assms in simp)
  moreover have "unat (0xFF :: u8) = 255" by simp
  ultimately have "(of_nat (length v) :: u8) \<noteq> 0xFF" using assms by (metis less_irrefl)
  with u show ?thesis by simp
qed

lemma tlv_body_long:
  assumes "255 \<le> length v" "length v < 65536"
  shows "tlv_body (0xFF # of_nat (length v div 256) # of_nat (length v mod 256) # v @ rest) = Some (v, rest)"
proof -
  have "unat (of_nat (length v div 256) :: u8) = length v div 256"
    "unat (of_nat (length v mod 256) :: u8) = length v mod 256"
    by (rule unat_of_nat_u8, use assms in simp)+
  with assms(1) show ?thesis by (simp add: Let_def)
qed

lemma tlv_blocks_bytes:
  assumes "\<forall>b \<in> set bl. tlv_wf b"
  shows "tlv_blocks (concat (map tlv_bytes bl) @ tail) = (bl @ fst (tlv_blocks tail), snd (tlv_blocks tail))"
  using assms
proof (induction bl)
  case (Cons b bl)
  obtain t v where b: "b = (t, v)" by fastforce
  let ?rest = "concat (map tlv_bytes bl) @ tail"
  have "tlv_body (tl (tlv_bytes b) @ ?rest) = Some (v, ?rest)"
    using Cons.prems tlv_body_short [of v ?rest] tlv_body_long [of v ?rest]
    by (simp add: b tlv_bytes_def tlv_wf_def Let_def del: tlv_body.simps)
  moreover have "tlv_bytes b = t # tl (tlv_bytes b)" by (simp add: b tlv_bytes_def Let_def)
  moreover have "tlv_blocks (t # bs) = ((t, v) # fst (tlv_blocks r), snd (tlv_blocks r))"
    if "tlv_body bs = Some (v, r)" for bs r
    using Cons.prems that by (auto simp: b tlv_wf_def split: prod.split)
  ultimately have "tlv_blocks (tlv_bytes b @ ?rest) =
      ((t, v) # fst (tlv_blocks ?rest), snd (tlv_blocks ?rest))"
    by (metis append_Cons)
  with Cons show ?case by (simp add: b)
qed simp

lemma tlv_blocks_padding: "tlv_blocks (replicate k 0 @ bs) = tlv_blocks bs"
  by (induction k) simp_all

subsection \<open>Properties\<close>

lemma internal_parse_eq:
  "type_2_tag_internal_parse t p m = (NRF_SUCCESS, snd (type_2_tag_internal_parse t p m))"
  by (simp add: type_2_tag_internal_parse_def Let_def)

lemma internal_parse_fields:
  "t2t_blocks (snd (type_2_tag_internal_parse t p m)) = t2t_blocks t"
  "tlv_count (snd (type_2_tag_internal_parse t p m)) = tlv_count t"
  "max_tlv_blocks (snd (type_2_tag_internal_parse t p m)) = max_tlv_blocks t"
  "lock_bytes (snd (type_2_tag_internal_parse t p m)) = uint16_big_decode (p + 10) m"
  "sn (snd (type_2_tag_internal_parse t p m)) =
     \<lparr>manufacturer_id = m p, serial_number_part_1 = uint16_big_decode (p + 1) m, check_byte_0 = m (p + 3),
      serial_number_part_2 = uint32_big_decode (p + 4) m, check_byte_1 = m (p + 8), internal = m (p + 9)\<rparr>"
  by (simp_all add: type_2_tag_internal_parse_def t2t_blocks_def Let_def)

lemma cc_parse_ok:
  assumes "m (p + 12) = 0xE1"
  shows "fst (type_2_tag_cc_parse t p m) = NRF_SUCCESS"
    and "cc_major_version (cc (snd (type_2_tag_cc_parse t p m))) = MSN_GET (m (p + 13))"
    and "unat (data_area_size (cc (snd (type_2_tag_cc_parse t p m)))) = 8 * unat (m (p + 14))"
    and "t2t_blocks (snd (type_2_tag_cc_parse t p m)) = t2t_blocks t"
    and "tlv_count (snd (type_2_tag_cc_parse t p m)) = tlv_count t"
    and "max_tlv_blocks (snd (type_2_tag_cc_parse t p m)) = max_tlv_blocks t"
    and "lock_bytes (snd (type_2_tag_cc_parse t p m)) = lock_bytes t"
    and "sn (snd (type_2_tag_cc_parse t p m)) = sn t"
  using assms u8_less_256 [of "m (p + 14)"]
  by (simp_all add: type_2_tag_cc_parse_def t2t_blocks_def Let_def unat_word_ariths add.commute [of _ p] mult.commute)

lemma clear_fields:
  "t2t_blocks (type_2_tag_clear t) = []" "tlv_count (type_2_tag_clear t) = 0"
  "max_tlv_blocks (type_2_tag_clear t) = max_tlv_blocks t"
  by (simp_all add: type_2_tag_clear_def t2t_blocks_def)

text \<open>The three outcomes of a parse, by the header of the image.\<close>

lemma parse_cases:
  "(m (p + 12) \<noteq> 0xE1 \<longrightarrow> (\<exists>t'. type_2_tag_parse t p m = Some (NRF_ERROR_INVALID_DATA, t') \<and> t2t_blocks t' = [])) \<and>
   (m (p + 12) = 0xE1 \<and> MSN_GET (m (p + 13)) \<noteq> 1 \<longrightarrow>
      (\<exists>t'. type_2_tag_parse t p m = Some (NRF_ERROR_NOT_SUPPORTED, t') \<and> t2t_blocks t' = [])) \<and>
   (m (p + 12) = 0xE1 \<and> MSN_GET (m (p + 13)) = 1 \<longrightarrow>
      (\<exists>t0. type_2_tag_parse t p m = type_2_tag_tlv_loop t0 p 16 m \<and> t2t_blocks t0 = [] \<and> tlv_count t0 = 0 \<and>
         unat (data_area_size (cc t0)) = 8 * unat (m (p + 14)) \<and> max_tlv_blocks t0 = max_tlv_blocks t \<and>
         lock_bytes t0 = uint16_big_decode (p + 10) m \<and> manufacturer_id (sn t0) = m p))"
proof -
  let ?t1 = "snd (type_2_tag_internal_parse (type_2_tag_clear t) p m)"
  let ?t2 = "snd (type_2_tag_cc_parse ?t1 p m)"
  have eq: "type_2_tag_parse t p m =
     (if fst (type_2_tag_cc_parse ?t1 p m) \<noteq> NRF_SUCCESS then Some (fst (type_2_tag_cc_parse ?t1 p m), ?t2)
      else if \<not> type_2_tag_is_version_supported ?t2 then Some (NRF_ERROR_NOT_SUPPORTED, ?t2)
      else type_2_tag_tlv_loop ?t2 p 16 m)"
    unfolding type_2_tag_parse_def Let_def by (subst internal_parse_eq) (simp add: split_beta)
  show ?thesis
  proof (cases "m (p + 12) = 0xE1")
    case True
    show ?thesis
      unfolding eq type_2_tag_is_version_supported_def
      using True cc_parse_ok [where p = p and m = m, OF True, of ?t1]
      by (auto simp: internal_parse_fields clear_fields intro!: exI [of _ ?t2])
  next
    case False
    then have "type_2_tag_cc_parse ?t1 p m = (NRF_ERROR_INVALID_DATA, ?t1)"
      by (simp add: type_2_tag_cc_parse_def)
    with False show ?thesis unfolding eq by (simp add: internal_parse_fields clear_fields)
  qed
qed

text \<open>The result of a parse as a function of the image: the return code and the blocks.\<close>

definition t2t_result :: "u8 list \<Rightarrow> nat \<Rightarrow> ret_code \<times> (u8 \<times> u8 list) list" where
  "t2t_result data room =
     (let (bl, ok) = tlv_blocks data in
      (if room < length bl then NRF_ERROR_NO_MEM else if ok then NRF_SUCCESS else NRF_ERROR_INVALID_DATA,
       take room bl))"

lemma parse_data:
  assumes "m (p + 12) = 0xE1" "MSN_GET (m (p + 13)) = 1"
  shows "\<exists>code t'. type_2_tag_parse t p m = Some (code, t') \<and>
    (let e = 16 + 8 * unat (m (p + 14)); (c, bl) = t2t_result (mem_read (p + 16) (e - 16) m) (unat (max_tlv_blocks t))
     in code = c \<and> list_all2 (block_ok m (p + 16) (p + e)) (t2t_blocks t') bl) \<and>
    tag_inv t' \<and> lock_bytes t' = uint16_big_decode (p + 10) m \<and> manufacturer_id (sn t') = m p"
proof -
  let ?e = "16 + 8 * unat (m (p + 14))"
  obtain t0 where t0: "type_2_tag_parse t p m = type_2_tag_tlv_loop t0 p 16 m" "t2t_blocks t0 = []" "tlv_count t0 = 0"
    "unat (data_area_size (cc t0)) = 8 * unat (m (p + 14))" "max_tlv_blocks t0 = max_tlv_blocks t"
    "lock_bytes t0 = uint16_big_decode (p + 10) m" "manufacturer_id (sn t0) = m p"
    using parse_cases [of m p t] assms by blast
  have "\<exists>code t'. type_2_tag_tlv_loop t0 p 16 m = Some (code, t') \<and>
      blocks_added m (p + 16) (p + ?e) (mem_read (p + 16) (?e - 16) m) t0 code t'"
    by (rule tlv_loop_spec) (use t0 u8_less_256 [of "m (p + 14)"] in \<open>simp_all add: tag_inv_def\<close>)
  with t0 show ?thesis
    by (auto simp: blocks_added_def t2t_result_def Let_def split_beta)
qed

text \<open>C11. The tag parser, on any image and any tag structure. It returns. An image without the NFC
  Forum magic number gives \<open>NRF_ERROR_INVALID_DATA\<close> and one of another major version
  \<open>NRF_ERROR_NOT_SUPPORTED\<close>, both with no block stored. Otherwise the return code and the stored
  blocks are a function of the data area alone (its size is eight times the size byte): the blocks
  up to the first malformed one, cut at the capacity of the block array, each pointing to its value
  inside the data area. The block check characters of the serial number have no influence.\<close>

theorem type_2_tag_parse_spec:
  "\<exists>code t'. type_2_tag_parse t p m = Some (code, t') \<and>
    (let e = 16 + 8 * unat (m (p + 14));
         (c, bl) = (if m (p + 12) \<noteq> 0xE1 then (NRF_ERROR_INVALID_DATA, [])
                    else if MSN_GET (m (p + 13)) \<noteq> 1 then (NRF_ERROR_NOT_SUPPORTED, [])
                    else t2t_result (mem_read (p + 16) (e - 16) m) (unat (max_tlv_blocks t)))
     in code = c \<and> list_all2 (block_ok m (p + 16) (p + e)) (t2t_blocks t') bl)"
proof (cases "m (p + 12) = 0xE1 \<and> MSN_GET (m (p + 13)) = 1")
  case True
  then show ?thesis using parse_data [of m p t] by (auto simp: Let_def)
next
  case False
  then show ?thesis using parse_cases [of m p t] by (auto simp: Let_def)
qed

text \<open>Round trip. If the data area of a version 1 image holds the byte format of well-formed
  blocks, each after any number of NULL bytes, then a terminator and anything behind it, the
  parser succeeds with exactly these blocks, provided the block array has room for them.\<close>

lemma type_2_tag_roundtrip:
  assumes hdr: "m (p + 12) = 0xE1" "MSN_GET (m (p + 13)) = 1"
    and data: "mem_read (p + 16) (8 * unat (m (p + 14))) m =
      replicate k 0 @ concat (map tlv_bytes bl) @ [0xFE] @ pad"
    and wf: "\<forall>b \<in> set bl. tlv_wf b" and room: "length bl \<le> unat (max_tlv_blocks t)"
  shows "\<exists>t'. type_2_tag_parse t p m = Some (NRF_SUCCESS, t') \<and>
    list_all2 (block_ok m (p + 16) (p + 16 + 8 * unat (m (p + 14)))) (t2t_blocks t') bl"
proof -
  have "tlv_blocks (mem_read (p + 16) (8 * unat (m (p + 14))) m) = (bl, True)"
    unfolding data tlv_blocks_padding tlv_blocks_bytes [OF wf] by simp
  with room have "t2t_result (mem_read (p + 16) (8 * unat (m (p + 14))) m) (unat (max_tlv_blocks t)) = (NRF_SUCCESS, bl)"
    by (simp add: t2t_result_def)
  with parse_data [OF hdr, of t] show ?thesis by (auto simp: Let_def add.assoc)
qed

definition t2t_example :: mem where
  "t2t_example = mem_write 100
     [0x5F, 1, 2, 0xD4, 3, 4, 5, 6, 4, 0xFF, 0, 0, 0xE1, 0x12, 2, 0,
      0, 1, 3, 0xA0, 0x10, 0x44, 3, 2, 0xD0, 0, 0xFE, 7, 7, 7, 7, 7] (\<lambda>_. 0)"

definition t2t_tag_example :: type_2_tag where
  "t2t_tag_example = type_2_tag_clear
     \<lparr>sn = \<lparr>manufacturer_id = 0, serial_number_part_1 = 0, check_byte_0 = 0, serial_number_part_2 = 0,
            check_byte_1 = 0, internal = 0\<rparr>, lock_bytes = 0,
      cc = \<lparr>cc_major_version = 0, cc_minor_version = 0, data_area_size = 0, read_access = 0, write_access = 0\<rparr>,
      max_tlv_blocks = 4, p_tlv_block_array = (\<lambda>_. \<lparr>tlv_tag = 0, tlv_length = 0, p_value = 0\<rparr>), tlv_count = 0\<rparr>"

lemma type_2_tag_roundtrip_witness:
  "\<exists>t'. type_2_tag_parse t2t_tag_example 100 t2t_example = Some (NRF_SUCCESS, t') \<and>
    list_all2 (block_ok t2t_example 116 132) (t2t_blocks t') [(1, [0xA0, 0x10, 0x44]), (3, [0xD0, 0])]"
proof -
  have s: "t2t_example (100 + 14) = 2" by code_simp
  have "\<exists>t'. type_2_tag_parse t2t_tag_example 100 t2t_example = Some (NRF_SUCCESS, t') \<and>
    list_all2 (block_ok t2t_example (100 + 16) (100 + 16 + 8 * unat (t2t_example (100 + 14)))) (t2t_blocks t')
      [(1, [0xA0, 0x10, 0x44]), (3, [0xD0, 0])]"
  proof (rule type_2_tag_roundtrip [where k = 1 and pad = "[7, 7, 7, 7, 7]"])
    show "t2t_example (100 + 12) = 0xE1" "MSN_GET (t2t_example (100 + 13)) = 1" by code_simp+
    show "mem_read (100 + 16) (8 * unat (t2t_example (100 + 14))) t2t_example =
      replicate 1 0 @ concat (map tlv_bytes [(1, [0xA0, 0x10, 0x44]), (3, [0xD0, 0])]) @ [0xFE] @ [7, 7, 7, 7, 7]"
      by code_simp
    show "\<forall>b \<in> set [(1, [0xA0, 0x10, 0x44]), (3, [0xD0, 0])]. tlv_wf b" by (simp add: tlv_wf_def)
    show "length [(1 :: u8, [0xA0, 0x10, 0x44 :: u8]), (3, [0xD0, 0])] \<le> unat (max_tlv_blocks t2t_tag_example)"
      by (simp add: t2t_tag_example_def type_2_tag_clear_def)
  qed
  then show ?thesis unfolding s by simp
qed

end
