(* ===== verification/MappedFlags.thy ===== *)
theory MappedFlags
  imports Prelude
begin

text \<open>
  The flag collections of \<^verbatim>\<open>libraries/util/sdk_mapped_flags.c\<close>: a collection is one byte, bit
  \<open>i\<close> of it the flag of the key in slot \<open>i\<close> of a list of eight 16-bit keys. A null pointer
  to keys or flags is \<open>None\<close>.

  The locale \<open>keyed_flags\<close> is what a client relies on: reading after a write by key, and that a
  key no slot holds reads false and writes nothing.
\<close>

unbundle bit_operations_syntax

abbreviation (input) "SDK_MAPPED_FLAGS_N_KEYS \<equiv> 8 :: nat"
abbreviation (input) "SDK_MAPPED_FLAGS_INVALID_INDEX \<equiv> 0xFFFF :: u16"

type_synonym sdk_mapped_flags = u8

definition sdk_mapped_flags_set_by_index :: "sdk_mapped_flags \<Rightarrow> nat \<Rightarrow> sdk_mapped_flags" where
  "sdk_mapped_flags_set_by_index flags index = flags OR push_bit index 1"

definition sdk_mapped_flags_clear_by_index :: "sdk_mapped_flags \<Rightarrow> nat \<Rightarrow> sdk_mapped_flags" where
  "sdk_mapped_flags_clear_by_index flags index = flags AND NOT (push_bit index 1)"

definition sdk_mapped_flags_get_by_index :: "sdk_mapped_flags \<Rightarrow> nat \<Rightarrow> bool" where
  "sdk_mapped_flags_get_by_index flags index \<longleftrightarrow> flags AND push_bit index 1 \<noteq> 0"

definition sdk_mapped_flags_first_key_index_get :: "sdk_mapped_flags \<Rightarrow> u16" where
  "sdk_mapped_flags_first_key_index_get flags =
     (case find (sdk_mapped_flags_get_by_index flags) [0..<SDK_MAPPED_FLAGS_N_KEYS] of
        Some i \<Rightarrow> of_nat i
      | None \<Rightarrow> SDK_MAPPED_FLAGS_INVALID_INDEX)"

text \<open>The loops over the keys stop at the first slot that holds the key.\<close>

definition key_slot :: "u16 list \<Rightarrow> u16 \<Rightarrow> nat option" where
  "key_slot keys key = find (\<lambda>i. keys ! i = key) [0..<SDK_MAPPED_FLAGS_N_KEYS]"

definition sdk_mapped_flags_bulk_update_by_key ::
  "u16 list option \<Rightarrow> sdk_mapped_flags list option \<Rightarrow> u32 \<Rightarrow> u16 \<Rightarrow> bool \<Rightarrow> sdk_mapped_flags list option" where
  "sdk_mapped_flags_bulk_update_by_key p_keys p_flags n_flag_collections key value =
     (case (p_keys, p_flags) of
        (Some keys, Some flags) \<Rightarrow>
          if n_flag_collections > 0
          then (case key_slot keys key of
                  Some i \<Rightarrow>
                    Some (map (\<lambda>f. if value then sdk_mapped_flags_set_by_index f i
                                   else sdk_mapped_flags_clear_by_index f i)
                            (take (unat n_flag_collections) flags) @ drop (unat n_flag_collections) flags)
                | None \<Rightarrow> Some flags)
          else Some flags
      | _ \<Rightarrow> p_flags)"

definition sdk_mapped_flags_update_by_key ::
  "u16 list option \<Rightarrow> sdk_mapped_flags \<Rightarrow> u16 \<Rightarrow> bool \<Rightarrow> sdk_mapped_flags" where
  "sdk_mapped_flags_update_by_key p_keys flags key value =
     (case sdk_mapped_flags_bulk_update_by_key p_keys (Some [flags]) 1 key value of
        Some [flags'] \<Rightarrow> flags' | _ \<Rightarrow> flags)"

definition sdk_mapped_flags_get_by_key :: "u16 list option \<Rightarrow> sdk_mapped_flags \<Rightarrow> u16 \<Rightarrow> bool" where
  "sdk_mapped_flags_get_by_key p_keys flags key =
     (case p_keys of
        Some keys \<Rightarrow> (case key_slot keys key of Some i \<Rightarrow> sdk_mapped_flags_get_by_index flags i | None \<Rightarrow> False)
      | None \<Rightarrow> False)"

definition sdk_mapped_flags_key_list_get :: "u16 list option \<Rightarrow> sdk_mapped_flags \<Rightarrow> u16 list" where
  "sdk_mapped_flags_key_list_get p_keys flags =
     (case p_keys of
        Some keys \<Rightarrow> map ((!) keys) (filter (sdk_mapped_flags_get_by_index flags) [0..<SDK_MAPPED_FLAGS_N_KEYS])
      | None \<Rightarrow> [])"

definition sdk_mapped_flags_n_flags_set :: "sdk_mapped_flags \<Rightarrow> u32" where
  "sdk_mapped_flags_n_flags_set flags =
     foldl (\<lambda>n i. if sdk_mapped_flags_get_by_index flags i then n + 1 else n) 0 [0..<SDK_MAPPED_FLAGS_N_KEYS]"

subsection \<open>Bits\<close>

named_theorems flag_simps \<open>flags by index\<close>

lemma get_by_index_bit [flag_simps]: "sdk_mapped_flags_get_by_index f i = bit f i"
  by (simp add: sdk_mapped_flags_get_by_index_def push_bit_of_1 and_exp_eq_0_iff_not_bit)

lemma get_by_index_set [flag_simps]:
  "i < 8 \<Longrightarrow> bit (sdk_mapped_flags_set_by_index f i) j \<longleftrightarrow> bit f j \<or> j = i"
  by (auto simp: sdk_mapped_flags_set_by_index_def bit_simps)

lemma get_by_index_clear [flag_simps]:
  "bit (sdk_mapped_flags_clear_by_index f i) j \<longleftrightarrow> bit f j \<and> j \<noteq> i"
  by (auto simp: sdk_mapped_flags_clear_by_index_def bit_simps dest: bit_imp_le_length)

lemma key_slot_Some:
  "key_slot keys key = Some i \<longleftrightarrow> i < 8 \<and> keys ! i = key \<and> (\<forall>j<i. keys ! j \<noteq> key)"
  unfolding key_slot_def find_Some_iff by auto

lemma key_slot_None: "key_slot keys key = None \<longleftrightarrow> (\<forall>i<8. keys ! i \<noteq> key)"
  unfolding key_slot_def find_None_iff by auto

lemma first_key_index:
  "(\<exists>i<8. sdk_mapped_flags_first_key_index_get f = of_nat i \<and> bit f i \<and> (\<forall>j<i. \<not> bit f j)) \<or>
   (sdk_mapped_flags_first_key_index_get f = 0xFFFF \<and> (\<forall>i<8. \<not> bit f i))"
proof (cases "find (sdk_mapped_flags_get_by_index f) [0..<8]")
  case None
  then have "\<forall>i<8. \<not> bit f i" by (simp add: find_None_iff get_by_index_bit)
  with None show ?thesis by (simp add: sdk_mapped_flags_first_key_index_get_def)
next
  case (Some i)
  then have "i < 8 \<and> bit f i \<and> (\<forall>j<i. \<not> bit f j)" by (auto simp: find_Some_iff get_by_index_bit)
  with Some show ?thesis by (auto simp: sdk_mapped_flags_first_key_index_get_def)
qed

lemma bulk_update_eq:
  "sdk_mapped_flags_bulk_update_by_key (Some keys) (Some flags) n key value =
    Some (if n = 0 then flags
      else map (\<lambda>f. sdk_mapped_flags_update_by_key (Some keys) f key value) (take (unat n) flags) @ drop (unat n) flags)"
  by (auto simp: sdk_mapped_flags_bulk_update_by_key_def sdk_mapped_flags_update_by_key_def word_gt_0
      split: option.splits)

lemma update_by_key_bit:
  "bit (sdk_mapped_flags_update_by_key (Some keys) f key value) i =
    (if key_slot keys key = Some i then value else bit f i)"
proof (cases "key_slot keys key")
  case None
  then show ?thesis by (simp add: sdk_mapped_flags_update_by_key_def sdk_mapped_flags_bulk_update_by_key_def)
next
  case (Some j)
  moreover from Some have "j < 8" by (simp add: key_slot_Some)
  ultimately show ?thesis
    by (auto simp: sdk_mapped_flags_update_by_key_def sdk_mapped_flags_bulk_update_by_key_def flag_simps)
qed

lemma get_by_key_bit:
  "sdk_mapped_flags_get_by_key (Some keys) f key \<longleftrightarrow> (\<exists>i. key_slot keys key = Some i \<and> bit f i)"
  by (auto simp: sdk_mapped_flags_get_by_key_def get_by_index_bit split: option.splits)

lemma key_list_set:
  "set (sdk_mapped_flags_key_list_get (Some keys) f) = {keys ! i |i. i < 8 \<and> bit f i}"
  by (auto simp: sdk_mapped_flags_key_list_get_def get_by_index_bit)

lemma flag_count: "foldl (\<lambda>n i. if P i then n + 1 else n) a xs = a + of_nat (length (filter P xs))" for a :: "'a::semiring_1"
  by (induction xs arbitrary: a) (simp_all add: algebra_simps)

lemma n_flags_set_length:
  "unat (sdk_mapped_flags_n_flags_set f) = length (sdk_mapped_flags_key_list_get (Some keys) f)"
proof -
  let ?l = "filter (sdk_mapped_flags_get_by_index f) [0..<8]"
  have "length ?l \<le> 8" using length_filter_le [of _ "[0..<8]"] by simp
  then have "unat (of_nat (length ?l) :: u32) = length ?l" by (intro unat_of_nat_u32) simp
  then show ?thesis by (simp add: sdk_mapped_flags_n_flags_set_def flag_count sdk_mapped_flags_key_list_get_def del: upt_Suc)
qed

subsection \<open>The contract\<close>

locale keyed_flags =
  fixes get :: "'s \<Rightarrow> 'f \<Rightarrow> 'k \<Rightarrow> bool"
    and update :: "'s \<Rightarrow> 'f \<Rightarrow> 'k \<Rightarrow> bool \<Rightarrow> 'f"
    and has_key :: "'s \<Rightarrow> 'k \<Rightarrow> bool"
  assumes get_update: "has_key s k \<Longrightarrow> get s (update s f k v) k = v"
    and get_update_other: "k' \<noteq> k \<Longrightarrow> get s (update s f k v) k' = get s f k'"
    and get_unknown: "\<not> has_key s k \<Longrightarrow> \<not> get s f k"
    and update_unknown: "\<not> has_key s k \<Longrightarrow> update s f k v = f"
begin

text \<open>Clearing works for every key; setting only for a key that some slot holds.\<close>

lemma get_clear: "\<not> get s (update s f k False) k"
  by (cases "has_key s k") (simp_all add: get_update get_unknown)

lemma get_update_iff: "get s (update s f k v) k' = (if k' = k then v \<and> has_key s k else get s f k')"
  by (cases "has_key s k") (auto simp: get_update get_update_other get_unknown)

text \<open>After a sequence of writes a key reads the last value written to it.\<close>

lemma get_writes:
  "get s (fold (\<lambda>(k, v) f. update s f k v) ws f) k =
     (case map_of (rev ws) k of Some v \<Rightarrow> v \<and> has_key s k | None \<Rightarrow> get s f k)"
  by (induction ws rule: rev_induct) (auto simp: get_update_iff split: option.splits)

end

interpretation mf: keyed_flags
  "\<lambda>keys. sdk_mapped_flags_get_by_key (Some keys)" "\<lambda>keys. sdk_mapped_flags_update_by_key (Some keys)"
  "\<lambda>keys key. key_slot keys key \<noteq> None"
proof
  fix keys :: "u16 list" and f :: sdk_mapped_flags and k k' :: u16 and v :: bool
  show "sdk_mapped_flags_get_by_key (Some keys) (sdk_mapped_flags_update_by_key (Some keys) f k v) k = v"
    if "key_slot keys k \<noteq> None" using that by (auto simp: get_by_key_bit update_by_key_bit)
  show "sdk_mapped_flags_get_by_key (Some keys) (sdk_mapped_flags_update_by_key (Some keys) f k v) k' =
      sdk_mapped_flags_get_by_key (Some keys) f k'" if "k' \<noteq> k"
    using that by (auto simp: get_by_key_bit update_by_key_bit key_slot_Some)
  show "\<not> sdk_mapped_flags_get_by_key (Some keys) f k" if "\<not> key_slot keys k \<noteq> None"
    using that by (simp add: get_by_key_bit)
  show "sdk_mapped_flags_update_by_key (Some keys) f k v = f" if "\<not> key_slot keys k \<noteq> None"
    using that by (auto intro!: bit_eqI simp: update_by_key_bit)
qed

end
