(* ===== verification/ConnState.thy ===== *)
theory ConnState
  imports MappedFlags
begin

text \<open>
  The connection state module \<^verbatim>\<open>ble/common/ble_conn_state.c\<close>: its static structure, the event
  handler, the queries and the user flags. The union of the flag collections with an array is a
  record and its array view \<open>flag_array\<close>. \<^verbatim>\<open>APP_ERROR_HANDLER\<close> is the first result of the event
  handler.

  The specification is a finite map from connection handles to connections. The abstraction reads
  the flags by key, so most steps follow from the contract \<open>keyed_flags\<close>; activating a record
  changes the keys and needs the invariant that no slot before a valid one holds the same handle.
\<close>

unbundle bit_operations_syntax

abbreviation (input) "BLE_CONN_STATE_N_USER_FLAGS \<equiv> 24 :: nat"
abbreviation (input) "BLE_CONN_STATE_N_FLAGS \<equiv> 29 :: nat"
abbreviation (input) "BLE_CONN_STATE_USER_FLAG_INVALID \<equiv> 24 :: nat"
abbreviation (input) "BLE_GAP_ROLE_INVALID \<equiv> 0 :: u8"
abbreviation (input) "BLE_GAP_ROLE_PERIPH \<equiv> 1 :: u8"
abbreviation (input) "BLE_GAP_ROLE_CENTRAL \<equiv> 2 :: u8"

subsection \<open>State\<close>

record ble_conn_state_flag_collections =
  valid_flags :: sdk_mapped_flags
  connected_flags :: sdk_mapped_flags
  central_flags :: sdk_mapped_flags
  encrypted_flags :: sdk_mapped_flags
  mitm_protected_flags :: sdk_mapped_flags
  user_flags :: "sdk_mapped_flags list"

record ble_conn_state =
  acquired_flags :: u32
  valid_conn_handles :: "u16 list"
  flags :: ble_conn_state_flag_collections

definition flag_array :: "ble_conn_state_flag_collections \<Rightarrow> sdk_mapped_flags list" where
  "flag_array f =
     [valid_flags f, connected_flags f, central_flags f, encrypted_flags f, mitm_protected_flags f] @ user_flags f"

definition flags_of_array :: "sdk_mapped_flags list \<Rightarrow> ble_conn_state_flag_collections" where
  "flags_of_array a =
     \<lparr>valid_flags = a ! 0, connected_flags = a ! 1, central_flags = a ! 2, encrypted_flags = a ! 3,
      mitm_protected_flags = a ! 4, user_flags = drop 5 a\<rparr>"

datatype ble_evt =
    BLE_GAP_EVT_CONNECTED u16 u8
  | BLE_GAP_EVT_DISCONNECTED u16
  | BLE_GAP_EVT_CONN_SEC_UPDATE u16 u8
  | BLE_EVT_OTHER u16

datatype ble_conn_state_status =
    BLE_CONN_STATUS_INVALID | BLE_CONN_STATUS_DISCONNECTED | BLE_CONN_STATUS_CONNECTED

definition bcs_internal_state_reset :: ble_conn_state where
  "bcs_internal_state_reset =
     \<lparr>acquired_flags = 0, valid_conn_handles = replicate SDK_MAPPED_FLAGS_N_KEYS 0,
      flags = \<lparr>valid_flags = 0, connected_flags = 0, central_flags = 0, encrypted_flags = 0,
               mitm_protected_flags = 0, user_flags = replicate BLE_CONN_STATE_N_USER_FLAGS 0\<rparr>\<rparr>"

subsection \<open>Records\<close>

definition record_activate :: "u16 \<Rightarrow> ble_conn_state \<Rightarrow> bool \<times> ble_conn_state" where
  "record_activate conn_handle s =
     (let available_index = sdk_mapped_flags_first_key_index_get (NOT (valid_flags (flags s))) in
      if available_index \<noteq> SDK_MAPPED_FLAGS_INVALID_INDEX
      then
        let keys = (valid_conn_handles s)[unat available_index := conn_handle];
            f = flags s;
            f = f\<lparr>connected_flags := sdk_mapped_flags_update_by_key (Some keys) (connected_flags f) conn_handle True\<rparr>;
            f = f\<lparr>valid_flags := sdk_mapped_flags_update_by_key (Some keys) (valid_flags f) conn_handle True\<rparr>
        in (True, s\<lparr>valid_conn_handles := keys, flags := f\<rparr>)
      else (False, s))"

definition record_invalidate :: "u16 \<Rightarrow> ble_conn_state \<Rightarrow> ble_conn_state" where
  "record_invalidate conn_handle s =
     (case sdk_mapped_flags_bulk_update_by_key (Some (valid_conn_handles s)) (Some (flag_array (flags s)))
             (of_nat BLE_CONN_STATE_N_FLAGS) conn_handle False of
        Some a \<Rightarrow> s\<lparr>flags := flags_of_array a\<rparr>
      | None \<Rightarrow> s)"

definition record_set_disconnected :: "u16 \<Rightarrow> ble_conn_state \<Rightarrow> ble_conn_state" where
  "record_set_disconnected conn_handle s =
     s\<lparr>flags := (flags s)\<lparr>connected_flags := sdk_mapped_flags_update_by_key (Some (valid_conn_handles s))
         (connected_flags (flags s)) conn_handle False\<rparr>\<rparr>"

definition record_purge_disconnected :: "ble_conn_state \<Rightarrow> ble_conn_state" where
  "record_purge_disconnected s =
     (let disconnected_list = sdk_mapped_flags_key_list_get (Some (valid_conn_handles s))
            (NOT (connected_flags (flags s)) AND valid_flags (flags s))
      in fold record_invalidate disconnected_list s)"

definition user_flag_is_acquired :: "nat \<Rightarrow> ble_conn_state \<Rightarrow> bool" where
  "user_flag_is_acquired flag_id s \<longleftrightarrow> acquired_flags s AND push_bit flag_id 1 \<noteq> 0"

definition user_flag_acquire :: "nat \<Rightarrow> ble_conn_state \<Rightarrow> ble_conn_state" where
  "user_flag_acquire flag_id s = s\<lparr>acquired_flags := acquired_flags s OR push_bit flag_id 1\<rparr>"

subsection \<open>The interface\<close>

definition ble_conn_state_init :: ble_conn_state where
  "ble_conn_state_init = bcs_internal_state_reset"

definition ble_conn_state_on_ble_evt :: "ble_evt \<Rightarrow> ble_conn_state \<Rightarrow> ret_code option \<times> ble_conn_state" where
  "ble_conn_state_on_ble_evt e s =
     (case e of
        BLE_GAP_EVT_CONNECTED conn_handle role \<Rightarrow>
          (let s = record_purge_disconnected s in
           case record_activate conn_handle s of (activated, s) \<Rightarrow>
             if \<not> activated then (Some NRF_ERROR_NO_MEM, s)
             else
               let is_central = role = BLE_GAP_ROLE_CENTRAL in
               (None, s\<lparr>flags := (flags s)\<lparr>central_flags := sdk_mapped_flags_update_by_key
                  (Some (valid_conn_handles s)) (central_flags (flags s)) conn_handle is_central\<rparr>\<rparr>))
      | BLE_GAP_EVT_DISCONNECTED conn_handle \<Rightarrow> (None, record_set_disconnected conn_handle s)
      | BLE_GAP_EVT_CONN_SEC_UPDATE conn_handle lv \<Rightarrow>
          (let f = flags s; keys = Some (valid_conn_handles s);
               f = f\<lparr>encrypted_flags := sdk_mapped_flags_update_by_key keys (encrypted_flags f) conn_handle (lv > 1)\<rparr>;
               f = f\<lparr>mitm_protected_flags := sdk_mapped_flags_update_by_key keys (mitm_protected_flags f) conn_handle (lv > 2)\<rparr>
           in (None, s\<lparr>flags := f\<rparr>))
      | BLE_EVT_OTHER _ \<Rightarrow> (None, s))"

definition ble_conn_state_valid :: "u16 \<Rightarrow> ble_conn_state \<Rightarrow> bool" where
  "ble_conn_state_valid conn_handle s =
     sdk_mapped_flags_get_by_key (Some (valid_conn_handles s)) (valid_flags (flags s)) conn_handle"

definition ble_conn_state_role :: "u16 \<Rightarrow> ble_conn_state \<Rightarrow> u8" where
  "ble_conn_state_role conn_handle s =
     (if sdk_mapped_flags_get_by_key (Some (valid_conn_handles s)) (valid_flags (flags s)) conn_handle
      then let central = sdk_mapped_flags_get_by_key (Some (valid_conn_handles s)) (central_flags (flags s)) conn_handle
           in if central then BLE_GAP_ROLE_CENTRAL else BLE_GAP_ROLE_PERIPH
      else BLE_GAP_ROLE_INVALID)"

definition ble_conn_state_status :: "u16 \<Rightarrow> ble_conn_state \<Rightarrow> ble_conn_state_status" where
  "ble_conn_state_status conn_handle s =
     (let valid = sdk_mapped_flags_get_by_key (Some (valid_conn_handles s)) (valid_flags (flags s)) conn_handle in
      if valid
      then let connected = sdk_mapped_flags_get_by_key (Some (valid_conn_handles s)) (connected_flags (flags s)) conn_handle
           in if connected then BLE_CONN_STATUS_CONNECTED else BLE_CONN_STATUS_DISCONNECTED
      else BLE_CONN_STATUS_INVALID)"

definition ble_conn_state_encrypted :: "u16 \<Rightarrow> ble_conn_state \<Rightarrow> bool" where
  "ble_conn_state_encrypted conn_handle s =
     sdk_mapped_flags_get_by_key (Some (valid_conn_handles s)) (encrypted_flags (flags s)) conn_handle"

definition ble_conn_state_mitm_protected :: "u16 \<Rightarrow> ble_conn_state \<Rightarrow> bool" where
  "ble_conn_state_mitm_protected conn_handle s =
     sdk_mapped_flags_get_by_key (Some (valid_conn_handles s)) (mitm_protected_flags (flags s)) conn_handle"

definition ble_conn_state_n_connections :: "ble_conn_state \<Rightarrow> u32" where
  "ble_conn_state_n_connections s = sdk_mapped_flags_n_flags_set (connected_flags (flags s))"

definition ble_conn_state_n_centrals :: "ble_conn_state \<Rightarrow> u32" where
  "ble_conn_state_n_centrals s =
     sdk_mapped_flags_n_flags_set (central_flags (flags s) AND connected_flags (flags s))"

definition ble_conn_state_n_peripherals :: "ble_conn_state \<Rightarrow> u32" where
  "ble_conn_state_n_peripherals s =
     sdk_mapped_flags_n_flags_set (NOT (central_flags (flags s)) AND connected_flags (flags s))"

definition ble_conn_state_conn_handles :: "ble_conn_state \<Rightarrow> u16 list" where
  "ble_conn_state_conn_handles s =
     sdk_mapped_flags_key_list_get (Some (valid_conn_handles s)) (valid_flags (flags s))"

definition ble_conn_state_central_handles :: "ble_conn_state \<Rightarrow> u16 list" where
  "ble_conn_state_central_handles s =
     sdk_mapped_flags_key_list_get (Some (valid_conn_handles s))
       (central_flags (flags s) AND connected_flags (flags s))"

definition ble_conn_state_periph_handles :: "ble_conn_state \<Rightarrow> u16 list" where
  "ble_conn_state_periph_handles s =
     sdk_mapped_flags_key_list_get (Some (valid_conn_handles s))
       (NOT (central_flags (flags s)) AND connected_flags (flags s))"

definition ble_conn_state_user_flag_acquire :: "ble_conn_state \<Rightarrow> nat \<times> ble_conn_state" where
  "ble_conn_state_user_flag_acquire s =
     (case find (\<lambda>i. \<not> user_flag_is_acquired i s) [0..<BLE_CONN_STATE_N_USER_FLAGS] of
        Some i \<Rightarrow> (i, user_flag_acquire i s)
      | None \<Rightarrow> (BLE_CONN_STATE_USER_FLAG_INVALID, s))"

definition ble_conn_state_user_flag_get :: "u16 \<Rightarrow> nat \<Rightarrow> ble_conn_state \<Rightarrow> bool" where
  "ble_conn_state_user_flag_get conn_handle flag_id s =
     (if user_flag_is_acquired flag_id s
      then sdk_mapped_flags_get_by_key (Some (valid_conn_handles s)) (user_flags (flags s) ! flag_id) conn_handle
      else False)"

definition ble_conn_state_user_flag_set :: "u16 \<Rightarrow> nat \<Rightarrow> bool \<Rightarrow> ble_conn_state \<Rightarrow> ble_conn_state" where
  "ble_conn_state_user_flag_set conn_handle flag_id value s =
     (if user_flag_is_acquired flag_id s
      then s\<lparr>flags := (flags s)\<lparr>user_flags := (user_flags (flags s))[flag_id :=
             sdk_mapped_flags_update_by_key (Some (valid_conn_handles s)) (user_flags (flags s) ! flag_id)
               conn_handle value]\<rparr>\<rparr>
      else s)"

definition ble_conn_state_user_flag_collection :: "nat \<Rightarrow> ble_conn_state \<Rightarrow> sdk_mapped_flags" where
  "ble_conn_state_user_flag_collection flag_id s =
     (if user_flag_is_acquired flag_id s then user_flags (flags s) ! flag_id else 0)"

subsection \<open>Specification\<close>

text \<open>Each known connection and its state; the user flags are indexed by flag identifier.\<close>

record conn =
  connected :: bool
  central :: bool
  encrypted :: bool
  mitm :: bool
  user :: "nat \<Rightarrow> bool"

definition spec_purge :: "(u16 \<rightharpoonup> conn) \<Rightarrow> u16 \<rightharpoonup> conn" where
  "spec_purge M h = (case M h of Some c \<Rightarrow> if connected c then Some c else None | None \<Rightarrow> None)"

definition spec_evt :: "ble_evt \<Rightarrow> (u16 \<rightharpoonup> conn) \<Rightarrow> ret_code option \<times> (u16 \<rightharpoonup> conn)" where
  "spec_evt e M =
     (case e of
        BLE_GAP_EVT_CONNECTED h role \<Rightarrow>
          if card (dom (spec_purge M)) = 8 then (Some NRF_ERROR_NO_MEM, spec_purge M)
          else (None, (spec_purge M)(h \<mapsto> \<lparr>connected = True, central = (role = BLE_GAP_ROLE_CENTRAL),
                   encrypted = False, mitm = False, user = \<lambda>_. False\<rparr>))
      | BLE_GAP_EVT_DISCONNECTED h \<Rightarrow> (None, M(h := map_option (\<lambda>c. c\<lparr>connected := False\<rparr>) (M h)))
      | BLE_GAP_EVT_CONN_SEC_UPDATE h lv \<Rightarrow>
          (None, M(h := map_option (\<lambda>c. c\<lparr>encrypted := lv > 1, mitm := lv > 2\<rparr>) (M h)))
      | BLE_EVT_OTHER _ \<Rightarrow> (None, M))"

definition bcs_abs :: "ble_conn_state \<Rightarrow> u16 \<rightharpoonup> conn" where
  "bcs_abs s h =
     (let get = (\<lambda>f. sdk_mapped_flags_get_by_key (Some (valid_conn_handles s)) f h); f = flags s in
      if get (valid_flags f)
      then Some \<lparr>connected = get (connected_flags f), central = get (central_flags f),
                 encrypted = get (encrypted_flags f), mitm = get (mitm_protected_flags f),
                 user = (\<lambda>i. i < BLE_CONN_STATE_N_USER_FLAGS \<and> get (user_flags f ! i))\<rparr>
      else None)"

text \<open>Eight slots; no slot before a valid one holds the same handle; the flags of an invalid slot
  are clear.\<close>

definition bcs_inv :: "ble_conn_state \<Rightarrow> bool" where
  "bcs_inv s \<longleftrightarrow>
     length (valid_conn_handles s) = 8 \<and> length (user_flags (flags s)) = 24 \<and>
     (\<forall>i<8. bit (valid_flags (flags s)) i \<longrightarrow> (\<forall>j<i. valid_conn_handles s ! j \<noteq> valid_conn_handles s ! i)) \<and>
     (\<forall>i<8. \<not> bit (valid_flags (flags s)) i \<longrightarrow> (\<forall>f \<in> set (flag_array (flags s)). \<not> bit f i)) \<and>
     (\<forall>i\<ge>24. \<not> bit (acquired_flags s) i)"

subsection \<open>Reading by key under the invariant\<close>

abbreviation by_key :: "ble_conn_state \<Rightarrow> sdk_mapped_flags \<Rightarrow> u16 \<Rightarrow> bool" where
  "by_key s f h \<equiv> sdk_mapped_flags_get_by_key (Some (valid_conn_handles s)) f h"

abbreviation upd_key :: "ble_conn_state \<Rightarrow> sdk_mapped_flags \<Rightarrow> u16 \<Rightarrow> bool \<Rightarrow> sdk_mapped_flags" where
  "upd_key s f h v \<equiv> sdk_mapped_flags_update_by_key (Some (valid_conn_handles s)) f h v"

lemma valid_slot:
  "bcs_inv s \<Longrightarrow> i < 8 \<Longrightarrow> bit (valid_flags (flags s)) i \<Longrightarrow>
    key_slot (valid_conn_handles s) (valid_conn_handles s ! i) = Some i"
  by (auto simp: key_slot_Some bcs_inv_def)

lemma by_key_sub:
  assumes "bcs_inv s" "\<And>i. i < 8 \<Longrightarrow> bit f i \<Longrightarrow> bit (valid_flags (flags s)) i"
  shows "by_key s f h \<longleftrightarrow> (\<exists>i<8. bit f i \<and> valid_conn_handles s ! i = h)"
proof
  assume "by_key s f h"
  then show "\<exists>i<8. bit f i \<and> valid_conn_handles s ! i = h" by (auto simp: get_by_key_bit key_slot_Some)
next
  assume "\<exists>i<8. bit f i \<and> valid_conn_handles s ! i = h"
  then obtain i where "i < 8" "bit f i" "valid_conn_handles s ! i = h" by blast
  with valid_slot [OF assms(1) this(1)] assms(2) show "by_key s f h" by (auto simp: get_by_key_bit)
qed

lemma flags_clean:
  assumes "bcs_inv s" "f \<in> set (flag_array (flags s))" "i < 8" "bit f i"
  shows "bit (valid_flags (flags s)) i"
  using assms by (auto simp: bcs_inv_def)

lemma flag_array_mem:
  "valid_flags f \<in> set (flag_array f)" "connected_flags f \<in> set (flag_array f)"
  "central_flags f \<in> set (flag_array f)" "encrypted_flags f \<in> set (flag_array f)"
  "mitm_protected_flags f \<in> set (flag_array f)"
  "length (user_flags f) = 24 \<Longrightarrow> i < 24 \<Longrightarrow> user_flags f ! i \<in> set (flag_array f)"
  by (simp_all add: flag_array_def)

lemma by_key_array:
  assumes "bcs_inv s" "f \<in> set (flag_array (flags s))"
  shows "by_key s f h \<longleftrightarrow> (\<exists>i<8. bit f i \<and> valid_conn_handles s ! i = h)"
  by (rule by_key_sub [OF assms(1)]) (rule flags_clean [OF assms])

lemma abs_dom: "bcs_inv s \<Longrightarrow> dom (bcs_abs s) = (!) (valid_conn_handles s) ` {i. i < 8 \<and> bit (valid_flags (flags s)) i}"
  using by_key_array [OF _ flag_array_mem(1)]
  by (auto simp: dom_def bcs_abs_def Let_def split: if_splits)

lemma valid_inj: "bcs_inv s \<Longrightarrow> inj_on ((!) (valid_conn_handles s)) {i. i < 8 \<and> bit (valid_flags (flags s)) i}"
  by (rule inj_onI) (metis (no_types, lifting) mem_Collect_eq valid_slot option.inject)

lemma abs_slot:
  assumes "bcs_inv s" "i < 8" "bit (valid_flags (flags s)) i"
  shows "bcs_abs s (valid_conn_handles s ! i) =
    Some \<lparr>connected = bit (connected_flags (flags s)) i, central = bit (central_flags (flags s)) i,
      encrypted = bit (encrypted_flags (flags s)) i, mitm = bit (mitm_protected_flags (flags s)) i,
      user = (\<lambda>k. k < 24 \<and> bit (user_flags (flags s) ! k) i)\<rparr>"
  using assms by (simp add: bcs_abs_def Let_def get_by_key_bit valid_slot)

lemma abs_SomeE:
  assumes "bcs_inv s" "bcs_abs s h = Some c"
  obtains i where "i < 8" "bit (valid_flags (flags s)) i" "h = valid_conn_handles s ! i"
    "connected c = bit (connected_flags (flags s)) i"
proof -
  have "h \<in> dom (bcs_abs s)" using assms(2) by blast
  then obtain i where "i < 8" "bit (valid_flags (flags s)) i" "h = valid_conn_handles s ! i"
    unfolding abs_dom [OF assms(1)] by blast
  with that abs_slot [OF assms(1) this(1,2)] assms(2) show thesis by auto
qed

lemma card_valid:
  assumes "bcs_inv s"
  shows "card (dom (bcs_abs s)) = 8 \<longleftrightarrow> (\<forall>i<8. bit (valid_flags (flags s)) i)"
proof -
  let ?V = "{i. i < 8 \<and> bit (valid_flags (flags s)) i}"
  have "card (dom (bcs_abs s)) = card ?V"
    unfolding abs_dom [OF assms] by (rule card_image [OF valid_inj [OF assms]])
  moreover have "card ?V = 8 \<longleftrightarrow> ?V = {..<8}"
  proof
    assume "card ?V = 8"
    then show "?V = {..<8}" by (intro card_subset_eq) auto
  qed simp
  moreover have "?V = {..<8} \<longleftrightarrow> (\<forall>i<8. bit (valid_flags (flags s)) i)" by blast
  ultimately show ?thesis by simp
qed

subsection \<open>Invalidating and purging\<close>

definition map_flags ::
  "(sdk_mapped_flags \<Rightarrow> sdk_mapped_flags) \<Rightarrow> ble_conn_state_flag_collections \<Rightarrow> ble_conn_state_flag_collections" where
  "map_flags g f = flags_of_array (map g (flag_array f))"

lemma map_flags_sel [simp]:
  "valid_flags (map_flags g f) = g (valid_flags f)" "connected_flags (map_flags g f) = g (connected_flags f)"
  "central_flags (map_flags g f) = g (central_flags f)" "encrypted_flags (map_flags g f) = g (encrypted_flags f)"
  "mitm_protected_flags (map_flags g f) = g (mitm_protected_flags f)"
  "user_flags (map_flags g f) = map g (user_flags f)" "flag_array (map_flags g f) = map g (flag_array f)"
  by (simp_all add: map_flags_def flags_of_array_def flag_array_def)

lemma record_invalidate_eq:
  assumes "bcs_inv s"
  shows "record_invalidate h s = s\<lparr>flags := map_flags (\<lambda>f. upd_key s f h False) (flags s)\<rparr>"
  using assms by (simp add: record_invalidate_def bulk_update_eq map_flags_def bcs_inv_def flag_array_def)

lemma record_invalidate_correct:
  assumes inv: "bcs_inv s"
  shows "bcs_inv (record_invalidate h s)" "bcs_abs (record_invalidate h s) = (bcs_abs s)(h := None)"
    "valid_conn_handles (record_invalidate h s) = valid_conn_handles s"
    "acquired_flags (record_invalidate h s) = acquired_flags s"
proof -
  show "bcs_inv (record_invalidate h s)"
    using inv unfolding record_invalidate_eq [OF inv] bcs_inv_def
    by (auto simp: update_by_key_bit split: if_splits)
  have "user_flags (flags s) ! i \<in> set (flag_array (flags s))" if "i < 24" for i
    using inv that flag_array_mem(6) by (simp add: bcs_inv_def)
  have len: "length (user_flags (flags s)) = 24" using inv by (simp add: bcs_inv_def)
  show "bcs_abs (record_invalidate h s) = (bcs_abs s)(h := None)"
    unfolding record_invalidate_eq [OF inv]
    by (rule ext) (auto simp: bcs_abs_def Let_def mf.get_update_iff len fun_eq_iff)
  show "valid_conn_handles (record_invalidate h s) = valid_conn_handles s"
    "acquired_flags (record_invalidate h s) = acquired_flags s"
    unfolding record_invalidate_eq [OF inv] by simp_all
qed

lemma fold_invalidate_correct:
  assumes "bcs_inv s"
  shows "bcs_inv (fold record_invalidate hs s) \<and>
    bcs_abs (fold record_invalidate hs s) = (\<lambda>h. if h \<in> set hs then None else bcs_abs s h) \<and>
    acquired_flags (fold record_invalidate hs s) = acquired_flags s"
  using assms
proof (induction hs arbitrary: s)
  case (Cons h hs)
  from Cons.IH [OF record_invalidate_correct(1) [OF Cons.prems, of h]] record_invalidate_correct [OF Cons.prems, of h]
  show ?case by (auto simp: fun_eq_iff)
qed simp

lemma purge_correct:
  assumes inv: "bcs_inv s"
  shows "bcs_inv (record_purge_disconnected s)" "bcs_abs (record_purge_disconnected s) = spec_purge (bcs_abs s)"
    "acquired_flags (record_purge_disconnected s) = acquired_flags s"
proof -
  let ?l = "sdk_mapped_flags_key_list_get (Some (valid_conn_handles s))
    (NOT (connected_flags (flags s)) AND valid_flags (flags s))"
  have in_l: "h \<in> set ?l \<longleftrightarrow> (\<exists>c. bcs_abs s h = Some c \<and> \<not> connected c)" for h
  proof
    assume "h \<in> set ?l"
    then obtain i where "i < 8" "h = valid_conn_handles s ! i" "bit (valid_flags (flags s)) i"
      "\<not> bit (connected_flags (flags s)) i" by (auto simp: key_list_set bit_simps)
    then show "\<exists>c. bcs_abs s h = Some c \<and> \<not> connected c" using abs_slot [OF inv] by auto
  next
    assume "\<exists>c. bcs_abs s h = Some c \<and> \<not> connected c"
    then show "h \<in> set ?l" by (auto simp: key_list_set bit_simps elim!: abs_SomeE [OF inv])
  qed
  have "(\<lambda>h. if h \<in> set ?l then None else bcs_abs s h) = spec_purge (bcs_abs s)"
    by (rule ext) (auto simp: in_l spec_purge_def split: option.splits)
  with fold_invalidate_correct [OF inv, of ?l] show "bcs_inv (record_purge_disconnected s)"
    "bcs_abs (record_purge_disconnected s) = spec_purge (bcs_abs s)"
    "acquired_flags (record_purge_disconnected s) = acquired_flags s"
    by (simp_all add: record_purge_disconnected_def)
qed

subsection \<open>Activating a record\<close>

text \<open>The state after the record in slot \<open>i\<close> was activated for handle \<open>h\<close>.\<close>

definition activated_at :: "nat \<Rightarrow> u16 \<Rightarrow> bool \<Rightarrow> ble_conn_state \<Rightarrow> ble_conn_state \<Rightarrow> bool" where
  "activated_at i h is_central s s' \<longleftrightarrow>
     valid_conn_handles s' = (valid_conn_handles s)[i := h] \<and> acquired_flags s' = acquired_flags s \<and>
     (\<forall>k. bit (valid_flags (flags s')) k \<longleftrightarrow> k = i \<or> bit (valid_flags (flags s)) k) \<and>
     (\<forall>k. bit (connected_flags (flags s')) k \<longleftrightarrow> k = i \<or> bit (connected_flags (flags s)) k) \<and>
     (\<forall>k. bit (central_flags (flags s')) k \<longleftrightarrow> (if k = i then is_central else bit (central_flags (flags s)) k)) \<and>
     encrypted_flags (flags s') = encrypted_flags (flags s) \<and>
     mitm_protected_flags (flags s') = mitm_protected_flags (flags s) \<and>
     user_flags (flags s') = user_flags (flags s)"

lemma record_activate_full:
  "\<forall>i<8. bit (valid_flags (flags s)) i \<Longrightarrow> record_activate h s = (False, s)"
  using first_key_index [of "NOT (valid_flags (flags s))"]
  by (auto simp: record_activate_def bit_simps)

lemma activate_free:
  assumes inv: "bcs_inv s" and free: "\<not> (\<forall>i<8. bit (valid_flags (flags s)) i)" and h: "h \<notin> dom (bcs_abs s)"
  obtains i s' where "i < 8" "\<not> bit (valid_flags (flags s)) i" "\<forall>j<i. bit (valid_flags (flags s)) j"
    "record_activate h s = (True, s')"
    "\<And>c. activated_at i h c s (s'\<lparr>flags := (flags s')\<lparr>central_flags := upd_key s' (central_flags (flags s')) h c\<rparr>\<rparr>)"
proof -
  let ?idx = "sdk_mapped_flags_first_key_index_get (NOT (valid_flags (flags s)))"
  obtain i where i: "i < 8" "?idx = of_nat i" "\<not> bit (valid_flags (flags s)) i" "\<forall>j<i. bit (valid_flags (flags s)) j"
    using first_key_index [of "NOT (valid_flags (flags s))"] free by (auto simp: bit_simps)
  have u: "unat ?idx = i" using i(1) unfolding i(2) by (intro unat_of_nat_u16) simp
  then have nv: "?idx \<noteq> 0xFFFF" using i(1) by auto
  have len: "length (valid_conn_handles s) = 8" using inv by (simp add: bcs_inv_def)
  have "valid_conn_handles s ! j \<noteq> h" if "j < i" for j
    using that i h abs_dom [OF inv] by auto
  then have slot: "key_slot ((valid_conn_handles s)[i := h]) h = Some i"
    using i(1) len by (auto simp: key_slot_Some)
  let ?s = "snd (record_activate h s)"
  have "record_activate h s = (True, ?s)" using nv by (simp add: record_activate_def Let_def)
  moreover have "activated_at i h c s (?s\<lparr>flags := (flags ?s)\<lparr>central_flags := upd_key ?s (central_flags (flags ?s)) h c\<rparr>\<rparr>)" for c
    using nv by (auto simp: activated_at_def record_activate_def Let_def u update_by_key_bit slot)
  ultimately show thesis using that i by blast
qed

lemma activated_correct:
  assumes inv: "bcs_inv s" and i: "i < 8" "\<not> bit (valid_flags (flags s)) i" "\<forall>j<i. bit (valid_flags (flags s)) j"
    and h: "h \<notin> dom (bcs_abs s)" and act: "activated_at i h c s s'"
  shows "bcs_inv s'" "bcs_abs s' = (bcs_abs s)(h \<mapsto> \<lparr>connected = True, central = c, encrypted = False, mitm = False,
    user = \<lambda>_. False\<rparr>)"
proof -
  note a = act [unfolded activated_at_def]
  have len: "length (valid_conn_handles s) = 8" and ulen: "length (user_flags (flags s)) = 24"
    using inv by (simp_all add: bcs_inv_def)
  have keys: "valid_conn_handles s' ! j = (if j = i then h else valid_conn_handles s ! j)" if "j < 8" for j
    using a that len by simp
  have old: "valid_conn_handles s ! j \<noteq> h" if "j < 8" "bit (valid_flags (flags s)) j" for j
    using that h abs_dom [OF inv] by auto
  have clean: "\<not> bit f i" if "f \<in> set (flag_array (flags s))" for f
    using inv i that by (simp add: bcs_inv_def)
  note mem = flag_array_mem [of "flags s"]
  show inv': "bcs_inv s'"
  proof -
    have "valid_conn_handles s' ! j \<noteq> valid_conn_handles s' ! k"
      if k: "k < 8" "bit (valid_flags (flags s')) k" "j < k" for j k
    proof (cases "k = i \<or> j = i")
      case True
      then show ?thesis using k keys [of j] keys [of k] old i(3) a by auto
    next
      case False
      then have "bit (valid_flags (flags s)) k" using k(2) a by simp
      then have "valid_conn_handles s ! j \<noteq> valid_conn_handles s ! k"
        using inv k(1,3) unfolding bcs_inv_def by blast
      then show ?thesis using False k(1,3) keys [of j] keys [of k] by simp
    qed
    moreover have "\<not> bit f k" if "k < 8" "\<not> bit (valid_flags (flags s')) k" "f \<in> set (flag_array (flags s'))" for k f
    proof -
      have k: "k \<noteq> i" "\<not> bit (valid_flags (flags s)) k" using that(2) a by simp_all
      then have g: "\<not> bit g k" if "g \<in> set (flag_array (flags s))" for g
        using flags_clean [OF inv that \<open>k < 8\<close>] by blast
      have "f = valid_flags (flags s') \<or> f = connected_flags (flags s') \<or> f = central_flags (flags s') \<or>
          f \<in> set (flag_array (flags s))"
        using that(3) a by (auto simp: flag_array_def)
      with k g [OF mem(2)] g [OF mem(3)] g a show ?thesis by auto
    qed
    moreover have "length (valid_conn_handles s') = 8" "length (user_flags (flags s')) = 24"
      "\<forall>k\<ge>24. \<not> bit (acquired_flags s') k"
      using inv a by (simp_all add: bcs_inv_def)
    ultimately show ?thesis unfolding bcs_inv_def by blast
  qed
  have new: "by_key s' f' h \<longleftrightarrow> bit f' i" and other: "h' \<noteq> h \<Longrightarrow> by_key s' f' h' \<longleftrightarrow> by_key s f h'"
    if f: "f \<in> set (flag_array (flags s))" "f' \<in> set (flag_array (flags s'))" "\<And>k. k \<noteq> i \<Longrightarrow> bit f' k = bit f k"
    for f f' h'
  proof -
    have sub: "bit f k \<Longrightarrow> k < 8 \<Longrightarrow> bit (valid_flags (flags s)) k" for k by (rule flags_clean [OF inv f(1)])
    have only_i: "k = i" if "k < 8" "bit f' k" "valid_conn_handles s' ! k = h" for k
    proof (rule ccontr)
      assume "k \<noteq> i"
      with that f(3) have "bit f k" "valid_conn_handles s ! k = h" using keys [of k] by simp_all
      with old [of k] sub [of k] that(1) show False by simp
    qed
    show "by_key s' f' h \<longleftrightarrow> bit f' i"
      unfolding by_key_array [OF inv' f(2)] using keys [OF i(1)] only_i i(1) by auto
    show "by_key s' f' h' \<longleftrightarrow> by_key s f h'" if "h' \<noteq> h"
      unfolding by_key_array [OF inv' f(2)] by_key_array [OF inv f(1)]
    proof (rule ex_cong1)
      fix k
      show "k < 8 \<and> bit f' k \<and> valid_conn_handles s' ! k = h' \<longleftrightarrow> k < 8 \<and> bit f k \<and> valid_conn_handles s ! k = h'"
        using keys [of k] f(3) [of k] clean [OF f(1)] that by (cases "k = i") auto
    qed
  qed
  note mem' = flag_array_mem [of "flags s'"]
  have at_h: "by_key s' (valid_flags (flags s')) h" "by_key s' (connected_flags (flags s')) h"
    "by_key s' (central_flags (flags s')) h = c" "\<not> by_key s' (encrypted_flags (flags s')) h"
    "\<not> by_key s' (mitm_protected_flags (flags s')) h"
    using new [OF mem(1) mem'(1)] new [OF mem(2) mem'(2)] new [OF mem(3) mem'(3)] new [OF mem(4) mem'(4)]
      new [OF mem(5) mem'(5)] clean [OF mem(4)] clean [OF mem(5)] a by simp_all
  have at_other: "by_key s' (valid_flags (flags s')) h' = by_key s (valid_flags (flags s)) h'"
    "by_key s' (connected_flags (flags s')) h' = by_key s (connected_flags (flags s)) h'"
    "by_key s' (central_flags (flags s')) h' = by_key s (central_flags (flags s)) h'"
    "by_key s' (encrypted_flags (flags s')) h' = by_key s (encrypted_flags (flags s)) h'"
    "by_key s' (mitm_protected_flags (flags s')) h' = by_key s (mitm_protected_flags (flags s)) h'" if "h' \<noteq> h" for h'
    using other [OF mem(1) mem'(1) _ that] other [OF mem(2) mem'(2) _ that] other [OF mem(3) mem'(3) _ that]
      other [OF mem(4) mem'(4) _ that] other [OF mem(5) mem'(5) _ that] a by simp_all
  have users: "user_flags (flags s') = user_flags (flags s)" using a by simp
  have u: "user_flags (flags s) ! k \<in> set (flag_array (flags s))" "user_flags (flags s) ! k \<in> set (flag_array (flags s'))"
    if "k < 24" for k using mem(6) mem'(6) that ulen users by auto
  have user_h: "\<not> by_key s' (user_flags (flags s) ! k) h" if "k < 24" for k
    using new [OF u [OF that]] clean [OF u(1) [OF that]] by simp
  have user_other: "by_key s' (user_flags (flags s) ! k) h' = by_key s (user_flags (flags s) ! k) h'"
    if "k < 24" "h' \<noteq> h" for k h'
    using other [OF u [OF that(1)] _ that(2)] by simp
  show "bcs_abs s' = (bcs_abs s)(h \<mapsto> \<lparr>connected = True, central = c, encrypted = False, mitm = False,
    user = \<lambda>_. False\<rparr>)"
  proof
    fix h'
    show "bcs_abs s' h' = ((bcs_abs s)(h \<mapsto> \<lparr>connected = True, central = c, encrypted = False, mitm = False,
      user = \<lambda>_. False\<rparr>)) h'"
    proof (cases "h' = h")
      case True
      with user_h show ?thesis by (simp add: bcs_abs_def Let_def at_h users fun_eq_iff)
    next
      case False
      with user_other [OF _ False] show ?thesis
        by (auto simp: bcs_abs_def Let_def at_other users fun_eq_iff)
    qed
  qed
qed

subsection \<open>Events and user flags refine the specification\<close>

text \<open>What the SoftDevice keeps to: it connects no handle that is connected, and reports security
  updates for connections only.\<close>

definition evt_ok :: "ble_evt \<Rightarrow> (u16 \<rightharpoonup> conn) \<Rightarrow> bool" where
  "evt_ok e M \<longleftrightarrow>
     (case e of
        BLE_GAP_EVT_CONNECTED h _ \<Rightarrow> (case M h of Some c \<Rightarrow> \<not> connected c | None \<Rightarrow> True)
      | BLE_GAP_EVT_CONN_SEC_UPDATE h _ \<Rightarrow> h \<in> dom M
      | _ \<Rightarrow> True)"

lemma set_disconnected_correct:
  assumes inv: "bcs_inv s"
  shows "bcs_inv (record_set_disconnected h s)"
    and "bcs_abs (record_set_disconnected h s) = (bcs_abs s)(h := map_option (\<lambda>c. c\<lparr>connected := False\<rparr>) (bcs_abs s h))"
proof -
  show "bcs_inv (record_set_disconnected h s)"
    using inv by (auto simp: bcs_inv_def record_set_disconnected_def flag_array_def update_by_key_bit split: if_splits)
  show "bcs_abs (record_set_disconnected h s) = (bcs_abs s)(h := map_option (\<lambda>c. c\<lparr>connected := False\<rparr>) (bcs_abs s h))"
    by (rule ext) (auto simp: bcs_abs_def Let_def record_set_disconnected_def mf.get_update_iff)
qed

lemma inv_flags:
  assumes "bcs_inv s" "valid_conn_handles s' = valid_conn_handles s" "acquired_flags s' = acquired_flags s"
    and "valid_flags (flags s') = valid_flags (flags s)" "length (user_flags (flags s')) = length (user_flags (flags s))"
    and "\<And>f j. f \<in> set (flag_array (flags s')) \<Longrightarrow> j < 8 \<Longrightarrow> bit f j \<Longrightarrow> bit (valid_flags (flags s)) j"
  shows "bcs_inv s'"
  using assms(1,6) unfolding bcs_inv_def assms(2-5) by blast

lemma known_slot:
  assumes "bcs_inv s" "h \<in> dom (bcs_abs s)"
  obtains i where "i < 8" "bit (valid_flags (flags s)) i" "key_slot (valid_conn_handles s) h = Some i"
  using assms valid_slot [OF assms(1)] by (auto simp: abs_dom)

lemma sec_update_correct:
  assumes inv: "bcs_inv s" and h: "h \<in> dom (bcs_abs s)"
  shows "bcs_inv (snd (ble_conn_state_on_ble_evt (BLE_GAP_EVT_CONN_SEC_UPDATE h lv) s))"
    and "bcs_abs (snd (ble_conn_state_on_ble_evt (BLE_GAP_EVT_CONN_SEC_UPDATE h lv) s)) =
      (bcs_abs s)(h := map_option (\<lambda>c. c\<lparr>encrypted := lv > 1, mitm := lv > 2\<rparr>) (bcs_abs s h))"
proof -
  obtain i where i: "i < 8" "bit (valid_flags (flags s)) i" "key_slot (valid_conn_handles s) h = Some i"
    using known_slot [OF inv h] .
  show "bcs_inv (snd (ble_conn_state_on_ble_evt (BLE_GAP_EVT_CONN_SEC_UPDATE h lv) s))"
  proof (rule inv_flags [OF inv])
    fix f j assume f: "f \<in> set (flag_array (flags (snd (ble_conn_state_on_ble_evt (BLE_GAP_EVT_CONN_SEC_UPDATE h lv) s))))"
      and j: "j < 8" "bit f j"
    have "f = upd_key s (encrypted_flags (flags s)) h (lv > 1) \<or> f = upd_key s (mitm_protected_flags (flags s)) h (lv > 2) \<or>
        f \<in> set (flag_array (flags s))"
      using f by (auto simp: ble_conn_state_on_ble_evt_def flag_array_def Let_def)
    with j i flags_clean [OF inv flag_array_mem(4) j(1)] flags_clean [OF inv flag_array_mem(5) j(1)]
      flags_clean [OF inv _ j(1)] show "bit (valid_flags (flags s)) j"
      by (auto simp: update_by_key_bit split: if_splits)
  qed (simp_all add: ble_conn_state_on_ble_evt_def Let_def)
  show "bcs_abs (snd (ble_conn_state_on_ble_evt (BLE_GAP_EVT_CONN_SEC_UPDATE h lv) s)) =
      (bcs_abs s)(h := map_option (\<lambda>c. c\<lparr>encrypted := lv > 1, mitm := lv > 2\<rparr>) (bcs_abs s h))"
    using i(3) by (intro ext) (auto simp: bcs_abs_def ble_conn_state_on_ble_evt_def Let_def mf.get_update_iff)
qed

lemma connected_correct:
  assumes inv: "bcs_inv s" and ok: "evt_ok (BLE_GAP_EVT_CONNECTED h role) (bcs_abs s)"
  shows "bcs_inv (snd (ble_conn_state_on_ble_evt (BLE_GAP_EVT_CONNECTED h role) s)) \<and>
    (fst (ble_conn_state_on_ble_evt (BLE_GAP_EVT_CONNECTED h role) s),
     bcs_abs (snd (ble_conn_state_on_ble_evt (BLE_GAP_EVT_CONNECTED h role) s))) =
      spec_evt (BLE_GAP_EVT_CONNECTED h role) (bcs_abs s)"
proof -
  let ?s = "record_purge_disconnected s"
  note p = purge_correct [OF inv]
  have h: "h \<notin> dom (bcs_abs ?s)"
    using ok unfolding p(2) by (auto simp: evt_ok_def spec_purge_def split: option.splits if_splits)
  show ?thesis
  proof (cases "\<forall>i<8. bit (valid_flags (flags ?s)) i")
    case True
    then have "record_activate h ?s = (False, ?s)" by (rule record_activate_full)
    with True card_valid [OF p(1)] p show ?thesis
      by (simp add: ble_conn_state_on_ble_evt_def spec_evt_def)
  next
    case False
    obtain i s' where i: "i < 8" "\<not> bit (valid_flags (flags ?s)) i" "\<forall>j<i. bit (valid_flags (flags ?s)) j"
      and r: "record_activate h ?s = (True, s')" and act: "\<And>c. activated_at i h c ?s
        (s'\<lparr>flags := (flags s')\<lparr>central_flags := upd_key s' (central_flags (flags s')) h c\<rparr>\<rparr>)"
      using activate_free [OF p(1) False h] by blast
    have "ble_conn_state_on_ble_evt (BLE_GAP_EVT_CONNECTED h role) s =
       (None, s'\<lparr>flags := (flags s')\<lparr>central_flags := upd_key s' (central_flags (flags s')) h (role = 2)\<rparr>\<rparr>)"
      by (simp add: ble_conn_state_on_ble_evt_def r)
    with activated_correct [OF p(1) i h act] False card_valid [OF p(1)] p(2) show ?thesis
      by (simp add: spec_evt_def)
  qed
qed

lemma on_ble_evt_correct:
  assumes inv: "bcs_inv s" and ok: "evt_ok e (bcs_abs s)"
  shows "bcs_inv (snd (ble_conn_state_on_ble_evt e s)) \<and>
    (fst (ble_conn_state_on_ble_evt e s), bcs_abs (snd (ble_conn_state_on_ble_evt e s))) = spec_evt e (bcs_abs s)"
proof (cases e)
  case (BLE_GAP_EVT_CONNECTED h role)
  with connected_correct [OF inv] ok show ?thesis by simp
next
  case (BLE_GAP_EVT_DISCONNECTED h)
  with set_disconnected_correct [OF inv] show ?thesis by (simp add: ble_conn_state_on_ble_evt_def spec_evt_def)
next
  case (BLE_GAP_EVT_CONN_SEC_UPDATE h lv)
  with ok have "h \<in> dom (bcs_abs s)" by (simp add: evt_ok_def)
  from sec_update_correct [OF inv this, of lv] BLE_GAP_EVT_CONN_SEC_UPDATE show ?thesis
    by (simp add: spec_evt_def ble_conn_state_on_ble_evt_def [of "BLE_GAP_EVT_CONN_SEC_UPDATE h lv"] Let_def)
next
  case (BLE_EVT_OTHER x)
  with inv show ?thesis by (simp add: ble_conn_state_on_ble_evt_def spec_evt_def)
qed

lemma acquired_bit: "user_flag_is_acquired i s \<longleftrightarrow> bit (acquired_flags s) i"
  by (simp add: user_flag_is_acquired_def push_bit_of_1 and_exp_eq_0_iff_not_bit)

lemma user_flag_set_correct:
  assumes inv: "bcs_inv s" and h: "h \<in> dom (bcs_abs s)" and acq: "user_flag_is_acquired k s"
  shows "bcs_inv (ble_conn_state_user_flag_set h k v s)"
    and "bcs_abs (ble_conn_state_user_flag_set h k v s) =
      (bcs_abs s)(h := map_option (\<lambda>c. c\<lparr>user := (user c)(k := v)\<rparr>) (bcs_abs s h))"
proof -
  have k: "k < 24" using inv acq by (auto simp: acquired_bit bcs_inv_def not_le [symmetric])
  have len: "length (user_flags (flags s)) = 24" using inv by (simp add: bcs_inv_def)
  obtain i where i: "i < 8" "bit (valid_flags (flags s)) i" "key_slot (valid_conn_handles s) h = Some i"
    using known_slot [OF inv h] .
  let ?f = "upd_key s (user_flags (flags s) ! k) h v"
  have eq: "ble_conn_state_user_flag_set h k v s = s\<lparr>flags := (flags s)\<lparr>user_flags := (user_flags (flags s))[k := ?f]\<rparr>\<rparr>"
    using acq by (simp add: ble_conn_state_user_flag_set_def)
  show "bcs_inv (ble_conn_state_user_flag_set h k v s)"
    unfolding eq
  proof (rule inv_flags [OF inv])
    fix f j
    assume f: "f \<in> set (flag_array (flags (s\<lparr>flags := (flags s)\<lparr>user_flags := (user_flags (flags s))[k := ?f]\<rparr>\<rparr>)))"
      and j: "j < 8" "bit f j"
    have "f = ?f \<or> f \<in> set (flag_array (flags s))"
      using f set_update_subset_insert [of "user_flags (flags s)" k ?f] by (auto simp: flag_array_def)
    with j i flags_clean [OF inv flag_array_mem(6) [OF len k] j(1)] flags_clean [OF inv _ j(1)]
    show "bit (valid_flags (flags s)) j" by (auto simp: update_by_key_bit split: if_splits)
  qed simp_all
  show "bcs_abs (ble_conn_state_user_flag_set h k v s) =
      (bcs_abs s)(h := map_option (\<lambda>c. c\<lparr>user := (user c)(k := v)\<rparr>) (bcs_abs s h))"
    unfolding eq using i(3) k len
    by (intro ext) (auto simp: bcs_abs_def Let_def mf.get_update_iff nth_list_update fun_eq_iff)
qed

lemma user_flag_acquire_correct:
  assumes inv: "bcs_inv s" and r: "ble_conn_state_user_flag_acquire s = (i, s')"
  shows "bcs_inv s' \<and> bcs_abs s' = bcs_abs s \<and>
    (if i < 24 then \<not> user_flag_is_acquired i s \<and> (\<forall>k. user_flag_is_acquired k s' \<longleftrightarrow> user_flag_is_acquired k s \<or> k = i)
     else i = 24 \<and> s' = s \<and> (\<forall>k<24. user_flag_is_acquired k s))"
proof (cases "find (\<lambda>i. \<not> user_flag_is_acquired i s) [0..<24]")
  case None
  with r inv show ?thesis by (auto simp: ble_conn_state_user_flag_acquire_def find_None_iff)
next
  case (Some k)
  then have k: "k < 24" "\<not> user_flag_is_acquired k s" by (auto simp: find_Some_iff)
  moreover have "bit (acquired_flags s OR 2 ^ k) j \<longleftrightarrow> bit (acquired_flags s) j \<or> j = k" for j
    using k(1) by (auto simp: bit_simps)
  moreover have "i = k" "s' = s\<lparr>acquired_flags := acquired_flags s OR 2 ^ k\<rparr>"
    using r Some by (auto simp: ble_conn_state_user_flag_acquire_def user_flag_acquire_def)
  moreover from this(2) have "bcs_abs s' = bcs_abs s" by (simp add: bcs_abs_def fun_eq_iff)
  moreover have "bcs_inv s'"
  proof -
    have "\<forall>j\<ge>24. \<not> bit (acquired_flags s') j"
      unfolding calculation(5) using inv k(1) calculation(3) by (simp add: bcs_inv_def)
    then show ?thesis using inv unfolding bcs_inv_def calculation(5) by simp
  qed
  ultimately show ?thesis by (simp add: acquired_bit)
qed

subsection \<open>Runs\<close>

text \<open>The states the module can be in, each with the connections the specification has there. User
  flags are set for known connections only; the last property shows what happens otherwise.\<close>

inductive bcs_run :: "ble_conn_state \<Rightarrow> (u16 \<rightharpoonup> conn) \<Rightarrow> bool" where
  init: "bcs_run ble_conn_state_init Map.empty"
| evt: "bcs_run s M \<Longrightarrow> evt_ok e M \<Longrightarrow> bcs_run (snd (ble_conn_state_on_ble_evt e s)) (snd (spec_evt e M))"
| acquire: "bcs_run s M \<Longrightarrow> bcs_run (snd (ble_conn_state_user_flag_acquire s)) M"
| user_set: "bcs_run s M \<Longrightarrow> h \<in> dom M \<Longrightarrow> user_flag_is_acquired k s \<Longrightarrow>
    bcs_run (ble_conn_state_user_flag_set h k v s) (M(h := map_option (\<lambda>c. c\<lparr>user := (user c)(k := v)\<rparr>) (M h)))"
| user_set_unacquired: "bcs_run s M \<Longrightarrow> \<not> user_flag_is_acquired k s \<Longrightarrow> bcs_run (ble_conn_state_user_flag_set h k v s) M"

inductive_cases bcs_runE: "bcs_run s M"

lemma init_inv: "bcs_inv ble_conn_state_init"
  by (auto simp: bcs_inv_def ble_conn_state_init_def bcs_internal_state_reset_def flag_array_def)

lemma init_abs: "bcs_abs ble_conn_state_init = Map.empty"
  by (auto simp: bcs_abs_def ble_conn_state_init_def bcs_internal_state_reset_def get_by_key_bit)

lemma run_refines: "bcs_run s M \<Longrightarrow> bcs_inv s \<and> bcs_abs s = M"
proof (induction rule: bcs_run.induct)
  case init
  then show ?case by (simp add: init_inv init_abs)
next
  case (evt s M e)
  with on_ble_evt_correct [of s e] show ?case by (metis snd_conv)
next
  case (acquire s M)
  with user_flag_acquire_correct [of s] show ?case by (metis prod.collapse)
next
  case (user_set s M h k v)
  with user_flag_set_correct [of s h k v] show ?case by simp
next
  case (user_set_unacquired s M k h v)
  then show ?case by (simp add: ble_conn_state_user_flag_set_def)
qed

lemma key_list_masked:
  assumes inv: "bcs_inv s" and f: "\<And>i. i < 8 \<Longrightarrow> bit f i \<Longrightarrow> bit (valid_flags (flags s)) i"
    and P: "\<And>i. i < 8 \<Longrightarrow> bit (valid_flags (flags s)) i \<Longrightarrow> bit f i = P (the (bcs_abs s (valid_conn_handles s ! i)))"
  defines "l \<equiv> sdk_mapped_flags_key_list_get (Some (valid_conn_handles s)) f"
    and "H \<equiv> {h. \<exists>c. bcs_abs s h = Some c \<and> P c}"
  shows "distinct l" "set l = H" "unat (sdk_mapped_flags_n_flags_set f) = card H"
proof -
  show d: "distinct l"
  proof -
    have "inj_on ((!) (valid_conn_handles s)) (set (filter (sdk_mapped_flags_get_by_index f) [0..<8]))"
      by (rule inj_on_subset [OF valid_inj [OF inv]]) (use f in \<open>auto simp: get_by_index_bit\<close>)
    then show ?thesis by (simp add: l_def sdk_mapped_flags_key_list_get_def distinct_map del: upt_Suc)
  qed
  show s: "set l = H"
  proof (rule set_eqI)
    fix h
    show "h \<in> set l \<longleftrightarrow> h \<in> H"
    proof
      assume "h \<in> set l"
      then obtain i where i: "i < 8" "bit f i" "h = valid_conn_handles s ! i" by (auto simp: l_def key_list_set)
      from abs_slot [OF inv i(1) f [OF i(1,2)]] P [OF i(1) f [OF i(1,2)]] i show "h \<in> H" by (simp add: H_def)
    next
      assume "h \<in> H"
      then obtain c where c: "bcs_abs s h = Some c" "P c" by (auto simp: H_def)
      from c(1) show "h \<in> set l"
        by (rule abs_SomeE [OF inv]) (use P c in \<open>auto simp: l_def key_list_set\<close>)
    qed
  qed
  show "unat (sdk_mapped_flags_n_flags_set f) = card H"
    unfolding n_flags_set_length [of f "valid_conn_handles s"] s [symmetric]
    using distinct_card [OF d] by (simp add: l_def)
qed

subsection \<open>Properties\<close>

text \<open>C5. Refinement. In every run of the module (events that keep to \<open>evt_ok\<close>, user flags acquired
  at any time and set for known connections), the invariant holds, the state read by connection
  handle is the specification's map of connections, a further event has the specification's
  outcome (the error handler is called exactly when eight connections are up), and a new
  connection starts with its user flags and security state clear.\<close>

theorem ble_conn_state_refines:
  assumes "bcs_run s M" "evt_ok e M"
  shows "bcs_inv s \<and> bcs_abs s = M \<and>
    fst (ble_conn_state_on_ble_evt e s) = fst (spec_evt e M) \<and>
    bcs_abs (snd (ble_conn_state_on_ble_evt e s)) = snd (spec_evt e M)"
proof -
  from run_refines [OF assms(1)] have r: "bcs_inv s" "bcs_abs s = M" by simp_all
  with on_ble_evt_correct [OF r(1), of e] assms(2) show ?thesis by (metis fst_conv snd_conv)
qed

lemma example_run: "bcs_run (snd (ble_conn_state_on_ble_evt (BLE_GAP_EVT_CONNECTED 5 2) ble_conn_state_init))
    [5 \<mapsto> \<lparr>connected = True, central = True, encrypted = False, mitm = False, user = \<lambda>_. False\<rparr>]"
proof -
  have "bcs_run (snd (ble_conn_state_on_ble_evt (BLE_GAP_EVT_CONNECTED 5 2) ble_conn_state_init))
      (snd (spec_evt (BLE_GAP_EVT_CONNECTED 5 2) Map.empty))"
    by (rule bcs_run.evt [OF bcs_run.init]) (simp add: evt_ok_def)
  then show ?thesis by (simp add: spec_evt_def spec_purge_def [abs_def])
qed

lemma ble_conn_state_refines_witness:
  "let s = snd (ble_conn_state_on_ble_evt (BLE_GAP_EVT_CONNECTED 5 2) ble_conn_state_init) in bcs_inv s \<and>
    bcs_abs (snd (ble_conn_state_on_ble_evt (BLE_GAP_EVT_CONN_SEC_UPDATE 5 2) s)) 5 =
      Some \<lparr>connected = True, central = True, encrypted = True, mitm = False, user = \<lambda>_. False\<rparr>"
  using ble_conn_state_refines [OF example_run, of "BLE_GAP_EVT_CONN_SEC_UPDATE 5 2"]
  by (simp add: evt_ok_def spec_evt_def Let_def)



text \<open>User flags written for a handle that is not a connection. The header promises that a new
  connection starts with its user flags clear, but \<open>ble_conn_state_user_flag_set\<close> writes to the
  first slot whose key is the handle even if that slot is invalid: after it was called with handle
  0 before any connection, the next connection, of handle 7, has the flag set.\<close>

theorem user_flag_set_leaks:
  "(let s0 = snd (ble_conn_state_user_flag_acquire ble_conn_state_init);
        s1 = ble_conn_state_user_flag_set 0 0 True s0;
        s2 = snd (ble_conn_state_on_ble_evt (BLE_GAP_EVT_CONNECTED 7 1) s1)
    in \<not> ble_conn_state_valid 0 s0 \<and> \<not> ble_conn_state_valid 7 s1 \<and>
       ble_conn_state_valid 7 s2 \<and> ble_conn_state_user_flag_get 7 0 s2)"
  by code_simp

end
