(* ===== verification/TimerList.thy ===== *)
theory TimerList
  imports AppUtil "HOL-Library.Monad_Syntax"
begin

text \<open>
  The data of the application timer, \<^verbatim>\<open>libraries/timer/app_timer.c\<close>, and its list of running
  timers. A timer is a node in memory that the application owns, so nodes live in a store from
  addresses to \<open>timer_node\<close>, and links between them are addresses; aliasing is visible. Each node of
  the list holds the ticks between the expiry of the node before it and its own.

  \<open>timers_rep\<close> relates the linked list to a list of pairs of a node and the time at which it expires;
  on that list the operations are \<open>tinsert\<close> and \<open>tremove\<close>. A walk along the links ends only if the
  links do, so walks are partial functions into \<open>option\<close>, and the lemmas show that they return.
\<close>

unbundle bit_operations_syntax

subsection \<open>Data\<close>

datatype app_timer_mode = APP_TIMER_MODE_SINGLE_SHOT | APP_TIMER_MODE_REPEATED

record timer_node =
  ticks_to_expire :: u32
  ticks_at_start :: u32
  ticks_first_interval :: u32
  ticks_periodic_interval :: u32
  is_running :: bool
  timer_mode :: app_timer_mode
  p_timeout_handler :: ptr
  p_context :: ptr
  p_next :: ptr

datatype timer_user_op_type =
    TIMER_USER_OP_TYPE_NONE
  | TIMER_USER_OP_TYPE_START
  | TIMER_USER_OP_TYPE_STOP
  | TIMER_USER_OP_TYPE_STOP_ALL

record timer_user_op_start =
  op_ticks_at_start :: u32
  op_ticks_first_interval :: u32
  op_ticks_periodic_interval :: u32
  op_p_context :: ptr

record timer_user_op =
  op_type :: timer_user_op_type
  p_node :: ptr
  op_start :: timer_user_op_start

text \<open>\<open>p_user_op_queue\<close> is the position of the user's queue in the array \<open>op_mem\<close> of all operations.\<close>

record timer_user =
  uq_first :: u8
  uq_last :: u8
  user_op_queue_size :: u8
  p_user_op_queue :: nat

text \<open>
  The peripheral RTC1 as far as the code uses it: the 24-bit counter, compare register 0, whether the
  counter runs, whether the compare event is enabled, and the ticks that pass before each of the coming
  accesses to the counter.
\<close>

record rtc1 =
  COUNTER :: u32
  CC0 :: u32
  PRESCALER :: u32
  compare0_enabled :: bool
  counting :: bool
  passing :: "nat \<Rightarrow> u32"

record timer_state =
  nodes :: "ptr \<Rightarrow> timer_node"
  op_mem :: "nat \<Rightarrow> timer_user_op"
  m_user_array_size :: u8
  mp_users :: "timer_user list"
  mp_timer_id_head :: ptr
  m_ticks_latest :: u32
  m_ticks_elapsed :: "u32 list"
  m_ticks_elapsed_q_read_ind :: u8
  m_ticks_elapsed_q_write_ind :: u8
  m_evt_schedule_func :: ptr
  m_rtc1_running :: bool
  m_rtc1_reset :: bool
  m_max_user_op_queue_utilization :: u8
  rtc :: rtc1
  rtc_irq_pending :: bool
  swi_irq_pending :: bool
  rtc_irq_enabled :: bool

definition node_upd :: "ptr \<Rightarrow> (timer_node \<Rightarrow> timer_node) \<Rightarrow> (ptr \<Rightarrow> timer_node) \<Rightarrow> ptr \<Rightarrow> timer_node" where
  "node_upd p f h = h(p := f (h p))"

subsection \<open>Insertion and removal\<close>

partial_function (option) insert_search ::
  "(ptr \<Rightarrow> timer_node) \<Rightarrow> u32 \<Rightarrow> ptr \<Rightarrow> ptr \<Rightarrow> (u32 \<times> ptr \<times> ptr) option" where
  "insert_search h ticks p_previous p_current =
     (if p_current \<noteq> NULL \<and> ticks > ticks_to_expire (h p_current)
      then insert_search h (ticks - ticks_to_expire (h p_current)) p_current (p_next (h p_current))
      else Some (ticks, p_previous, p_current))"

definition insert_between :: "ptr \<Rightarrow> u32 \<Rightarrow> ptr \<Rightarrow> ptr \<Rightarrow> (ptr \<Rightarrow> timer_node) \<Rightarrow> ptr \<Rightarrow> timer_node" where
  "insert_between p_timer ticks p_previous p_current h =
     (let h = (if p_current \<noteq> NULL
               then node_upd p_current (\<lambda>n. n\<lparr>ticks_to_expire := ticks_to_expire n - ticks\<rparr>) h else h);
          h = node_upd p_timer (\<lambda>n. n\<lparr>ticks_to_expire := ticks\<rparr>) h;
          h = node_upd p_timer (\<lambda>n. n\<lparr>p_next := p_current\<rparr>) h
      in node_upd p_previous (\<lambda>n. n\<lparr>p_next := p_timer\<rparr>) h)"

definition timer_list_insert :: "ptr \<Rightarrow> timer_state \<Rightarrow> timer_state option" where
  "timer_list_insert p_timer s =
     (let head = mp_timer_id_head s; h = nodes s in
      if head = NULL then Some (s\<lparr>mp_timer_id_head := p_timer\<rparr>)
      else if ticks_to_expire (h p_timer) \<le> ticks_to_expire (h head)
      then
        let h = node_upd head (\<lambda>n. n\<lparr>ticks_to_expire := ticks_to_expire n - ticks_to_expire (h p_timer)\<rparr>) h;
            h = node_upd p_timer (\<lambda>n. n\<lparr>p_next := head\<rparr>) h
        in Some (s\<lparr>nodes := h, mp_timer_id_head := p_timer\<rparr>)
      else do {
        (ticks, p_previous, p_current) \<leftarrow> insert_search h (ticks_to_expire (h p_timer)) head head;
        Some (s\<lparr>nodes := insert_between p_timer ticks p_previous p_current h\<rparr>)
      })"

partial_function (option) remove_search ::
  "(ptr \<Rightarrow> timer_node) \<Rightarrow> ptr \<Rightarrow> ptr \<Rightarrow> ptr \<Rightarrow> (ptr \<times> ptr) option" where
  "remove_search h p_timer p_previous p_current =
     (if p_current \<noteq> NULL \<and> p_current \<noteq> p_timer
      then remove_search h p_timer p_current (p_next (h p_current))
      else Some (p_previous, p_current))"

definition unlink :: "ptr \<Rightarrow> ptr \<Rightarrow> (ptr \<Rightarrow> timer_node) \<Rightarrow> ptr \<Rightarrow> timer_node" where
  "unlink p_previous p_current h =
     (let timeout = ticks_to_expire (h p_current);
          h = node_upd p_previous (\<lambda>n. n\<lparr>p_next := p_next (h p_current)\<rparr>) h;
          p_current = p_next (h p_previous)
      in if p_current \<noteq> NULL
         then node_upd p_current (\<lambda>n. n\<lparr>ticks_to_expire := ticks_to_expire n + timeout\<rparr>) h else h)"

definition rtc1_clear :: "timer_state \<Rightarrow> timer_state" where
  "rtc1_clear s = s\<lparr>rtc := (rtc s)\<lparr>COUNTER := 0\<rparr>\<rparr>"

definition timer_list_remove :: "ptr \<Rightarrow> timer_state \<Rightarrow> timer_state option" where
  "timer_list_remove p_timer s =
     do {
       (p_previous, p_current) \<leftarrow> remove_search (nodes s) p_timer (mp_timer_id_head s) (mp_timer_id_head s);
       if p_current = NULL then Some s
       else
         let s = (if p_previous = p_current
                  then
                    let s = s\<lparr>mp_timer_id_head := p_next (nodes s (mp_timer_id_head s))\<rparr>
                    in if mp_timer_id_head s = NULL
                       then (rtc1_clear s)\<lparr>m_ticks_latest := 0, m_rtc1_reset := True\<rparr> else s
                  else s)
         in Some (s\<lparr>nodes := unlink p_previous p_current (nodes s)\<rparr>)
     }"

subsection \<open>The list as pairs of node and expiry\<close>

primrec timers_rep :: "(ptr \<Rightarrow> timer_node) \<Rightarrow> ptr \<Rightarrow> nat \<Rightarrow> (ptr \<times> nat) list \<Rightarrow> bool" where
  "timers_rep h p b [] \<longleftrightarrow> p = NULL"
| "timers_rep h p b (x # xs) \<longleftrightarrow>
     p = fst x \<and> p \<noteq> NULL \<and> b + unat (ticks_to_expire (h p)) = snd x \<and> snd x < 2 ^ 32 \<and>
     timers_rep h (p_next (h p)) (snd x) xs"

fun tinsert :: "ptr \<times> nat \<Rightarrow> (ptr \<times> nat) list \<Rightarrow> (ptr \<times> nat) list" where
  "tinsert x [] = [x]"
| "tinsert x (y # ys) = (if snd x \<le> snd y then x # y # ys else y # tinsert x ys)"

definition tremove :: "ptr \<Rightarrow> (ptr \<times> nat) list \<Rightarrow> (ptr \<times> nat) list" where
  "tremove a xs = filter (\<lambda>x. fst x \<noteq> a) xs"

abbreviation ids :: "(ptr \<times> nat) list \<Rightarrow> ptr set" where
  "ids xs \<equiv> fst ` set xs"

text \<open>Two stores that differ in links and list ticks only.\<close>

definition same_data :: "timer_node \<Rightarrow> timer_node \<Rightarrow> bool" where
  "same_data n n' \<longleftrightarrow> n'\<lparr>ticks_to_expire := 0, p_next := NULL\<rparr> = n\<lparr>ticks_to_expire := 0, p_next := NULL\<rparr>"

lemma same_data_refl [simp]: "same_data n n"
  by (simp add: same_data_def)

lemma same_data_trans: "same_data n n' \<Longrightarrow> same_data n' n'' \<Longrightarrow> same_data n n''"
  by (simp add: same_data_def)

lemma same_data_upd [simp]:
  "same_data n (n\<lparr>ticks_to_expire := t\<rparr>)" "same_data n (n\<lparr>p_next := p\<rparr>)"
  "same_data n (n\<lparr>ticks_to_expire := t, p_next := p\<rparr>)"
  by (simp_all add: same_data_def)

lemma same_data_fields:
  assumes "same_data n n'"
  shows "ticks_at_start n' = ticks_at_start n" "ticks_first_interval n' = ticks_first_interval n"
    "ticks_periodic_interval n' = ticks_periodic_interval n" "is_running n' = is_running n"
    "timer_mode n' = timer_mode n" "p_timeout_handler n' = p_timeout_handler n" "p_context n' = p_context n"
  using assms by (cases n; cases n'; simp add: same_data_def)+

lemma timers_rep_null [simp]: "timers_rep h NULL b xs \<longleftrightarrow> xs = []"
  by (cases xs) auto

lemma timers_rep_nonempty: "timers_rep h p b xs \<Longrightarrow> p \<noteq> NULL \<Longrightarrow> \<exists>e ys. xs = (p, e) # ys"
  by (cases xs) auto

lemma timers_rep_cong:
  "(\<And>a. a \<in> ids xs \<Longrightarrow> ticks_to_expire (h' a) = ticks_to_expire (h a) \<and> p_next (h' a) = p_next (h a)) \<Longrightarrow>
    timers_rep h' p b xs = timers_rep h p b xs"
  by (induction xs arbitrary: p b) auto

lemma timers_rep_upd [simp]: "a \<notin> ids xs \<Longrightarrow> timers_rep (h(a := n)) p b xs = timers_rep h p b xs"
  by (rule timers_rep_cong) (metis fun_upd_other)

lemma timers_rep_bounds: "timers_rep h p b xs \<Longrightarrow> x \<in> set xs \<Longrightarrow> b \<le> snd x \<and> snd x < 2 ^ 32"
proof (induction xs arbitrary: p b)
  case (Cons y ys)
  then have "b \<le> snd y" "snd y < 2 ^ 32" by auto
  with Cons.IH [of "p_next (h p)" "snd y"] Cons.prems show ?case
    by (cases "x = y") auto
qed simp

lemma timers_rep_shift:
  "timers_rep h p b xs \<Longrightarrow> c \<le> b \<Longrightarrow> timers_rep h p (b - c) (map (\<lambda>x. (fst x, snd x - c)) xs)"
proof (induction xs arbitrary: p b)
  case (Cons y ys)
  then have "b + unat (ticks_to_expire (h p)) = snd y" "timers_rep h (p_next (h p)) (snd y) ys" by auto
  with Cons.IH [of "p_next (h p)" "snd y"] Cons.prems show ?case by auto
qed simp

lemma timers_rep_sorted: "timers_rep h p b xs \<Longrightarrow> sorted (map snd xs)"
  by (induction xs arbitrary: p b) (use timers_rep_bounds in fastforce)+

lemma timers_rep_not_null: "timers_rep h p b xs \<Longrightarrow> NULL \<notin> ids xs"
  by (induction xs arbitrary: p b) auto

lemma set_tinsert [simp]: "set (tinsert x xs) = insert x (set xs)"
  by (induction xs) auto

lemma distinct_tinsert: "distinct (map fst (tinsert x xs)) \<longleftrightarrow> fst x \<notin> ids xs \<and> distinct (map fst xs)"
  by (induction xs) auto

lemma ids_tremove [simp]: "ids (tremove a xs) = ids xs - {a}"
  by (auto simp: tremove_def)

lemma distinct_tremove: "distinct (map fst xs) \<Longrightarrow> distinct (map fst (tremove a xs))"
  by (simp add: tremove_def distinct_map_filter)

lemma tremove_absent: "a \<notin> ids xs \<Longrightarrow> tremove a xs = xs"
  by (auto simp: tremove_def filter_id_conv)

subsection \<open>The operations implement insertion and removal\<close>

text \<open>The frame of a list operation: nodes outside \<open>A\<close> stay, and in \<open>A\<close> only links and list ticks change.\<close>

definition relinked :: "ptr set \<Rightarrow> (ptr \<Rightarrow> timer_node) \<Rightarrow> (ptr \<Rightarrow> timer_node) \<Rightarrow> bool" where
  "relinked A h h' \<longleftrightarrow> (\<forall>a. same_data (h a) (h' a)) \<and> (\<forall>a. a \<notin> A \<longrightarrow> h' a = h a)"

lemma relinkedD:
  "relinked A h h' \<Longrightarrow> same_data (h a) (h' a)" "relinked A h h' \<Longrightarrow> a \<notin> A \<Longrightarrow> h' a = h a"
  by (simp_all add: relinked_def)

lemma relinked_refl [simp]: "relinked A h h"
  by (simp add: relinked_def)

lemma relinked_mono: "relinked A h h' \<Longrightarrow> A \<subseteq> B \<Longrightarrow> relinked B h h'"
  by (auto simp: relinked_def)

lemma relinked_trans: "relinked A h h' \<Longrightarrow> relinked A h' h'' \<Longrightarrow> relinked A h h''"
  unfolding relinked_def by (metis same_data_trans)

lemma relinked_upd: "relinked A h h' \<Longrightarrow> a \<in> A \<Longrightarrow> same_data (h' a) n \<Longrightarrow> relinked A h (h'(a := n))"
  unfolding relinked_def by (auto intro: same_data_trans)

lemma timers_rep_relinked: "relinked A h h' \<Longrightarrow> A \<inter> ids xs = {} \<Longrightarrow> timers_rep h' p b xs = timers_rep h p b xs"
  by (rule timers_rep_cong) (metis disjoint_iff relinkedD(2))

definition insert_after :: "(ptr \<Rightarrow> timer_node) \<Rightarrow> ptr \<Rightarrow> u32 \<Rightarrow> ptr \<Rightarrow> ptr \<Rightarrow> (ptr \<Rightarrow> timer_node) option" where
  "insert_after h a ticks p_previous p_current =
     do { (ticks, p_previous, p_current) \<leftarrow> insert_search h ticks p_previous p_current;
          Some (insert_between a ticks p_previous p_current h) }"

lemma insert_after_step:
  "p_current \<noteq> NULL \<Longrightarrow> ticks > ticks_to_expire (h p_current) \<Longrightarrow>
    insert_after h a ticks p_previous p_current =
    insert_after h a (ticks - ticks_to_expire (h p_current)) p_current (p_next (h p_current))"
  unfolding insert_after_def by (subst insert_search.simps) simp

lemma insert_after_stop:
  "\<not> (p_current \<noteq> NULL \<and> ticks > ticks_to_expire (h p_current)) \<Longrightarrow>
    insert_after h a ticks p_previous p_current = Some (insert_between a ticks p_previous p_current h)"
  unfolding insert_after_def by (simp add: insert_search.simps [of h ticks p_previous p_current] del: de_Morgan_conj)

lemma insert_between_eq:
  assumes "a \<noteq> p_previous" "a \<noteq> p_current" "p_previous \<noteq> p_current"
  shows "insert_between a ticks p_previous p_current h =
    (if p_current \<noteq> NULL
     then h(p_current := (h p_current)\<lparr>ticks_to_expire := ticks_to_expire (h p_current) - ticks\<rparr>,
            a := (h a)\<lparr>ticks_to_expire := ticks, p_next := p_current\<rparr>,
            p_previous := (h p_previous)\<lparr>p_next := a\<rparr>)
     else h(a := (h a)\<lparr>ticks_to_expire := ticks, p_next := p_current\<rparr>,
            p_previous := (h p_previous)\<lparr>p_next := a\<rparr>))"
  using assms by (auto simp: insert_between_def node_upd_def Let_def fun_eq_iff)

lemma insert_after_rep:
  assumes "timers_rep h p b xs" "distinct (map fst xs)" "pv \<notin> ids xs" "a \<notin> ids xs" "a \<noteq> pv" "a \<noteq> NULL"
    "pv \<noteq> NULL" "e = b + unat t" "e < 2 ^ 32" "p_next (h pv) = p"
  shows "\<exists>h'. insert_after h a t pv p = Some h' \<and>
    timers_rep h' (p_next (h' pv)) b (tinsert (a, e) xs) \<and> relinked (insert pv (insert a (ids xs))) h h' \<and>
    ticks_to_expire (h' pv) = ticks_to_expire (h pv)"
  using assms
proof (induction xs arbitrary: p b pv t)
  case Nil
  then show ?case
    by (simp add: insert_after_stop insert_between_eq relinked_def)
next
  case (Cons y ys)
  obtain c d where y: "y = (c, d)" by force
  from Cons.prems y have p: "p = c" "c \<noteq> NULL" and d: "b + unat (ticks_to_expire (h c)) = d" "d < 2 ^ 32"
    and rep: "timers_rep h (p_next (h c)) d ys" and c: "c \<notin> ids ys" "pv \<noteq> c" "a \<noteq> c" by auto
  show ?case
  proof (cases "t > ticks_to_expire (h c)")
    case True
    then have lt: "unat (ticks_to_expire (h c)) < unat t" by (simp add: word_less_nat_alt)
    then have e: "e = d + unat (t - ticks_to_expire (h c))" and de: "\<not> e \<le> d"
      using Cons.prems d True by (simp_all add: unat_minus_le)
    from Cons.IH [OF rep _ c(1) _ c(3) _ _ e _ refl] Cons.prems y p
    obtain h' where h': "insert_after h a (t - ticks_to_expire (h c)) c (p_next (h c)) = Some h'"
      "timers_rep h' (p_next (h' c)) d (tinsert (a, e) ys)" "relinked (insert c (insert a (ids ys))) h h'"
      "ticks_to_expire (h' c) = ticks_to_expire (h c)" by auto
    have pv: "h' pv = h pv" using Cons.prems y c by (intro relinkedD(2) [OF h'(3)]) auto
    from h' pv de d p Cons.prems y show ?thesis
      unfolding p(1) by (intro exI [of _ h']) (auto simp: insert_after_step [where h = h, OF p(2) True] y elim: relinked_mono)
  next
    case False
    then have le: "t \<le> ticks_to_expire (h c)" by simp
    then have le': "unat t \<le> unat (ticks_to_expire (h c))" by (simp add: word_le_nat_alt)
    then have ed: "e \<le> d" using Cons.prems d by simp
    let ?h = "insert_between a t pv c h"
    have h: "?h = h(c := (h c)\<lparr>ticks_to_expire := ticks_to_expire (h c) - t\<rparr>,
            a := (h a)\<lparr>ticks_to_expire := t, p_next := c\<rparr>, pv := (h pv)\<lparr>p_next := a\<rparr>)"
      using insert_between_eq [of a pv c t h] c Cons.prems p by simp
    have ys: "timers_rep ?h (p_next (h c)) d ys"
      using rep Cons.prems y c by (simp add: h)
    have "timers_rep ?h (p_next (?h pv)) b (tinsert (a, e) (y # ys))"
      using ys c Cons.prems p y ed d le' le by (simp add: h unat_minus_le)
    moreover have "relinked (insert pv (insert a (ids (y # ys)))) h ?h"
      unfolding h by (intro relinked_upd relinked_refl) (use y c Cons.prems in auto)
    moreover have "insert_after h a t pv p = Some ?h" using p False by (simp add: insert_after_stop)
    moreover have "ticks_to_expire (?h pv) = ticks_to_expire (h pv)" by (simp add: h)
    ultimately show ?thesis by blast
  qed
qed

theorem timer_list_insert_rep:
  assumes "timers_rep (nodes s) (mp_timer_id_head s) 0 xs" "distinct (map fst xs)" "a \<notin> ids xs" "a \<noteq> NULL"
    "p_next (nodes s a) = NULL"
  shows "\<exists>h' head'. timer_list_insert a s = Some (s\<lparr>nodes := h', mp_timer_id_head := head'\<rparr>) \<and>
    timers_rep h' head' 0 (tinsert (a, unat (ticks_to_expire (nodes s a))) xs) \<and>
    relinked (insert a (ids xs)) (nodes s) h'"
proof (cases xs)
  case Nil
  with assms u32_less [of "ticks_to_expire (nodes s a)"] show ?thesis
    by (intro exI [of _ "nodes s"] exI [of _ a]) (simp add: timer_list_insert_def)
next
  case (Cons y ys)
  let ?h = "nodes s" and ?t = "ticks_to_expire (nodes s a)" and ?e = "unat (ticks_to_expire (nodes s a))"
  obtain c d where y: "y = (c, d)" by force
  from assms Cons y have p: "mp_timer_id_head s = c" "c \<noteq> NULL" and d: "d = unat (ticks_to_expire (?h c))" "d < 2 ^ 32"
    and rep: "timers_rep ?h (p_next (?h c)) d ys" and c: "c \<notin> ids ys" "a \<noteq> c" "a \<notin> ids ys" by auto
  show ?thesis
  proof (cases "?t \<le> ticks_to_expire (?h c)")
    case True
    then have le: "?e \<le> d" using d by (simp add: word_le_nat_alt)
    let ?g = "?h(c := (?h c)\<lparr>ticks_to_expire := ticks_to_expire (?h c) - ?t\<rparr>, a := (?h a)\<lparr>p_next := c\<rparr>)"
    have run: "timer_list_insert a s = Some (s\<lparr>nodes := ?g, mp_timer_id_head := a\<rparr>)"
      using p True c by (simp add: timer_list_insert_def node_upd_def Let_def fun_upd_twist)
    have "timers_rep ?g (p_next (?h c)) d ys"
      using rep c by simp
    then have "timers_rep ?g a 0 (tinsert (a, ?e) xs)"
      using Cons y le d p c True assms u32_less [of ?t] by (simp add: unat_minus_le)
    moreover have "relinked (insert a (ids xs)) ?h ?g"
      by (intro relinked_upd relinked_refl) (use Cons y c in auto)
    ultimately show ?thesis using run by blast
  next
    case False
    then have lt: "?t > ticks_to_expire (?h c)" by simp
    then have lt': "d < ?e" using d by (simp add: word_less_nat_alt)
    then have e: "?e = d + unat (?t - ticks_to_expire (?h c))" using d lt by (simp add: unat_minus_le)
    from insert_after_rep [OF rep _ c(1,3,2) _ _ e _ refl] assms Cons y p u32_less [of ?t]
    obtain h' where h': "insert_after ?h a (?t - ticks_to_expire (?h c)) c (p_next (?h c)) = Some h'"
      "timers_rep h' (p_next (h' c)) d (tinsert (a, ?e) ys)" "relinked (insert c (insert a (ids ys))) ?h h'"
      "ticks_to_expire (h' c) = ticks_to_expire (?h c)" by auto
    have "insert_after ?h a ?t c c = Some h'" using h'(1) p(2) lt by (simp add: insert_after_step)
    then have run: "timer_list_insert a s = Some (s\<lparr>nodes := h', mp_timer_id_head := c\<rparr>)"
      using p False unfolding insert_after_def
      by (auto simp: timer_list_insert_def Let_def bind_eq_Some_conv split: prod.splits)
    have "timers_rep h' c 0 (tinsert (a, ?e) xs)"
      using Cons y lt' h' p d by simp
    moreover have "relinked (insert a (ids xs)) ?h h'"
      using h'(3) Cons y by (auto intro: relinked_mono)
    ultimately show ?thesis using run by blast
  qed
qed

subsection \<open>Removal\<close>

definition remove_after :: "(ptr \<Rightarrow> timer_node) \<Rightarrow> ptr \<Rightarrow> ptr \<Rightarrow> ptr \<Rightarrow> (ptr \<Rightarrow> timer_node) option" where
  "remove_after h a p_previous p_current =
     do { (p_previous, p_current) \<leftarrow> remove_search h a p_previous p_current;
          Some (if p_current = NULL then h else unlink p_previous p_current h) }"

lemma remove_search_step:
  "c \<noteq> NULL \<Longrightarrow> c \<noteq> a \<Longrightarrow> remove_search h a p_previous c = remove_search h a c (p_next (h c))"
  by (subst remove_search.simps) simp

lemma remove_search_stop: "c = NULL \<or> c = a \<Longrightarrow> remove_search h a p_previous c = Some (p_previous, c)"
  by (subst remove_search.simps) auto

lemma unlink_eq:
  assumes "p_next (h c) \<noteq> pv" "p_next (h c) \<noteq> c"
  shows "unlink pv c h =
    (let n = p_next (h c); g = h(pv := (h pv)\<lparr>p_next := n\<rparr>)
     in if n \<noteq> NULL then g(n := (h n)\<lparr>ticks_to_expire := ticks_to_expire (h n) + ticks_to_expire (h c)\<rparr>) else g)"
  using assms by (simp add: unlink_def node_upd_def Let_def fun_eq_iff)

lemma unlinked_rep:
  assumes "timers_rep h c b ((c, d) # ys)" "distinct (c # map fst ys)" "pv \<notin> ids ys" "pv \<noteq> NULL"
  shows "timers_rep (unlink pv c h) (p_next (h c)) b ys \<and> relinked (insert pv (ids ys)) h (unlink pv c h) \<and>
    p_next (unlink pv c h pv) = p_next (h c) \<and> ticks_to_expire (unlink pv c h pv) = ticks_to_expire (h pv)"
proof -
  have n: "p_next (h c) \<noteq> pv" "p_next (h c) \<noteq> c"
    using assms by (cases ys; force)+
  show ?thesis
  proof (cases ys)
    case Nil
    then show ?thesis using assms n by (simp add: unlink_eq Let_def relinked_def)
  next
    case (Cons z zs)
    obtain f e where z: "z = (f, e)" by force
    have f: "p_next (h c) = f" "f \<noteq> NULL" "d + unat (ticks_to_expire (h f)) = e" "e < 2 ^ 32"
      "b + unat (ticks_to_expire (h c)) = d" and zs: "timers_rep h (p_next (h f)) e zs" and fz: "f \<notin> ids zs"
      using assms Cons z by auto
    have g: "unlink pv c h = h(pv := (h pv)\<lparr>p_next := f\<rparr>,
        f := (h f)\<lparr>ticks_to_expire := ticks_to_expire (h f) + ticks_to_expire (h c)\<rparr>)"
      using n f by (simp add: unlink_eq Let_def)
    have t: "unat (ticks_to_expire (h f) + ticks_to_expire (h c)) =
        unat (ticks_to_expire (h f)) + unat (ticks_to_expire (h c))"
      by (rule unat_plus_small) (use f in simp)
    have "timers_rep (unlink pv c h) (p_next (h f)) e zs"
      using zs Cons z fz assms by (simp add: g)
    then have "timers_rep (unlink pv c h) (p_next (h c)) b ys"
      using Cons z f t n by (simp add: g)
    moreover have "relinked (insert pv (ids ys)) h (unlink pv c h)"
      unfolding g by (intro relinked_upd relinked_refl) (use Cons z assms in auto)
    moreover have "p_next (unlink pv c h pv) = f" "ticks_to_expire (unlink pv c h pv) = ticks_to_expire (h pv)"
      using n f by (auto simp: g)
    ultimately show ?thesis using f by simp
  qed
qed

lemma remove_after_rep:
  assumes "timers_rep h p b xs" "distinct (map fst xs)" "pv \<notin> ids xs" "a \<noteq> pv" "pv \<noteq> NULL" "p_next (h pv) = p"
  shows "\<exists>h'. remove_after h a pv p = Some h' \<and>
    timers_rep h' (p_next (h' pv)) b (tremove a xs) \<and> relinked (insert pv (ids xs)) h h' \<and>
    ticks_to_expire (h' pv) = ticks_to_expire (h pv)"
  using assms
proof (induction xs arbitrary: p b pv)
  case Nil
  then show ?case by (simp add: remove_after_def remove_search_stop tremove_def)
next
  case (Cons y ys)
  obtain c d where y: "y = (c, d)" by force
  from Cons.prems y have p: "p = c" "c \<noteq> NULL" and d: "b + unat (ticks_to_expire (h c)) = d" "d < 2 ^ 32"
    and rep: "timers_rep h (p_next (h c)) d ys" and c: "c \<notin> ids ys" "pv \<noteq> c" by auto
  show ?case
  proof (cases "c = a")
    case True
    have "tremove a (y # ys) = ys" using True y c by (simp add: tremove_def filter_id_conv) force
    moreover have "remove_after h a pv p = Some (unlink pv c h)"
      using p True by (simp add: remove_after_def remove_search_stop)
    moreover have "relinked (insert pv (ids (y # ys))) h (unlink pv c h)" if "relinked (insert pv (ids ys)) h (unlink pv c h)"
      using that by (rule relinked_mono) auto
    ultimately show ?thesis using unlinked_rep [of h c b d ys pv] Cons.prems y p by auto
  next
    case False
    have run: "remove_after h a pv p = remove_after h a c (p_next (h c))"
      using p False by (simp add: remove_after_def remove_search_step)
    from Cons.IH [OF rep _ c(1) _ p(2) refl] Cons.prems y False obtain h' where
      h': "remove_after h a c (p_next (h c)) = Some h'" "timers_rep h' (p_next (h' c)) d (tremove a ys)"
        "relinked (insert c (ids ys)) h h'" "ticks_to_expire (h' c) = ticks_to_expire (h c)" by auto
    have pv: "h' pv = h pv" using Cons.prems y c by (intro relinkedD(2) [OF h'(3)]) auto
    have "timers_rep h' (p_next (h' pv)) b (tremove a (y # ys))"
      using h' pv p d Cons.prems y False by (simp add: tremove_def)
    moreover have "relinked (insert pv (ids (y # ys))) h h'"
      using h'(3) by (rule relinked_mono) (use y in auto)
    ultimately show ?thesis using run h' pv by auto
  qed
qed

lemma remove_search_found:
  "timers_rep h p b xs \<Longrightarrow> remove_search h a pv p = Some (q, c) \<Longrightarrow> p \<noteq> a \<Longrightarrow> pv \<notin> ids xs \<Longrightarrow>
    distinct (map fst xs) \<Longrightarrow> c \<noteq> NULL \<Longrightarrow> q \<noteq> c"
proof (induction xs arbitrary: p b pv)
  case Nil
  then show ?case by (simp add: remove_search_stop)
next
  case (Cons y ys)
  then have p: "p \<noteq> NULL" "p = fst y" "timers_rep h (p_next (h p)) (snd y) ys" "p \<notin> ids ys" by auto
  then have run: "remove_search h a p (p_next (h p)) = Some (q, c)"
    using Cons.prems remove_search_step [of p a h pv] by simp
  show ?case
  proof (cases "p_next (h p) = a")
    case True
    have "p_next (h p) = NULL \<or> p_next (h p) \<in> ids ys" using p(3) by (cases ys) auto
    with True run p(4) Cons.prems show ?thesis by (auto simp: remove_search_stop)
  next
    case False
    from Cons.IH [OF p(3) run False p(4)] Cons.prems show ?thesis by simp
  qed
qed

text \<open>Removing the last running timer also clears the counter.\<close>

definition rtc_reset :: "bool \<Rightarrow> timer_state \<Rightarrow> timer_state" where
  "rtc_reset c s = (if c then (rtc1_clear s)\<lparr>m_ticks_latest := 0, m_rtc1_reset := True\<rparr> else s)"

theorem timer_list_remove_rep:
  assumes "timers_rep (nodes s) (mp_timer_id_head s) 0 xs" "distinct (map fst xs)"
  shows "\<exists>h' head'. timer_list_remove a s =
      Some ((rtc_reset (a \<in> ids xs \<and> tremove a xs = []) s)\<lparr>nodes := h', mp_timer_id_head := head'\<rparr>) \<and>
    timers_rep h' head' 0 (tremove a xs) \<and> relinked (ids xs) (nodes s) h'"
proof (cases xs)
  case Nil
  with assms show ?thesis
    by (intro exI [of _ "nodes s"] exI [of _ NULL])
      (simp add: timer_list_remove_def remove_search_stop rtc_reset_def tremove_def)
next
  case (Cons y ys)
  let ?h = "nodes s"
  obtain c d where y: "y = (c, d)" by force
  from assms Cons y have p: "mp_timer_id_head s = c" "c \<noteq> NULL" and d: "d = unat (ticks_to_expire (?h c))" "d < 2 ^ 32"
    and rep: "timers_rep ?h (p_next (?h c)) d ys" and c: "c \<notin> ids ys" by auto
  show ?thesis
  proof (cases "c = a")
    case True
    have rm: "tremove a xs = ys" using True Cons y c by (simp add: tremove_def filter_id_conv) force
    have "timers_rep ?h c 0 ((c, d) # ys)" "distinct (c # map fst ys)" using assms Cons y p by auto
    from unlinked_rep [OF this c p(2)]
    have u: "timers_rep (unlink c c ?h) (p_next (?h c)) 0 ys" "relinked (ids xs) ?h (unlink c c ?h)"
      using Cons y by auto
    have "p_next (?h c) = NULL \<longleftrightarrow> ys = []" using rep by (cases ys) auto
    then have "timer_list_remove a s = Some ((rtc_reset (a \<in> ids xs \<and> tremove a xs = []) s)
        \<lparr>nodes := unlink c c ?h, mp_timer_id_head := p_next (?h c)\<rparr>)"
      using p True Cons y rm
      by (simp add: timer_list_remove_def remove_search_stop rtc_reset_def Let_def rtc1_clear_def)
    with u rm show ?thesis by blast
  next
    case False
    from remove_after_rep [OF rep _ c _ p(2) refl, of a] assms Cons y False obtain h' where
      h': "remove_after ?h a c (p_next (?h c)) = Some h'" "timers_rep h' (p_next (h' c)) d (tremove a ys)"
        "relinked (insert c (ids ys)) ?h h'" "ticks_to_expire (h' c) = ticks_to_expire (?h c)" by auto
    have rm: "tremove a xs = (c, d) # tremove a ys" using False Cons y by (simp add: tremove_def)
    obtain q e where qe: "remove_search ?h a c (p_next (?h c)) = Some (q, e)"
      and h'eq: "h' = (if e = NULL then ?h else unlink q e ?h)"
      using h'(1) by (auto simp: remove_after_def bind_eq_Some_conv)
    have srch: "remove_search ?h a c c = Some (q, e)" using qe False p by (simp add: remove_search_step)
    have qne: "e \<noteq> NULL \<Longrightarrow> q \<noteq> e"
    proof (cases "p_next (?h c) = a")
      case True
      assume "e \<noteq> NULL"
      with True qe rep c show ?thesis by (cases ys) (auto simp: remove_search_stop)
    next
      case False
      assume "e \<noteq> NULL"
      with remove_search_found [OF rep qe False c] assms Cons show ?thesis by simp
    qed
    have "timer_list_remove a s = Some (s\<lparr>nodes := h', mp_timer_id_head := c\<rparr>)"
      using p srch qne h'eq by (auto simp: timer_list_remove_def Let_def)
    moreover have "timers_rep h' c 0 (tremove a xs)" using h' rm p d by simp
    moreover have "relinked (ids xs) ?h h'" using h'(3) Cons y by simp
    ultimately show ?thesis using rm by (auto simp: rtc_reset_def)
  qed
qed

end
