(* ===== verification/AppTimer.thy ===== *)
theory AppTimer
  imports TimerList QueueSpec
begin

text \<open>
  The application timer of \<^verbatim>\<open>libraries/timer/app_timer.c\<close>, built with the profiler for the nRF52: the
  queues of operations, the two interrupt handlers and the functions of the interface. \<open>app_timer_start\<close>,
  \<open>app_timer_stop\<close> and \<open>app_timer_stop_all\<close> only queue an operation; \<open>timer_timeouts_check\<close> (the RTC1
  interrupt) calls the handlers of the timers that are due, \<open>timer_list_handler\<close> (the software interrupt)
  performs the operations and keeps the list.

  Timeout handlers and the scheduler function are code of the application: a parameter \<open>app\<close>. A function
  that does not return, such as an error check that fails, is \<open>None\<close>.
\<close>

unbundle bit_operations_syntax

subsection \<open>The counter\<close>

abbreviation MAX_RTC_COUNTER_VAL :: u32 where
  "MAX_RTC_COUNTER_VAL \<equiv> 0x00FFFFFF"

abbreviation RTC_COMPARE_OFFSET_MIN :: u32 where
  "RTC_COMPARE_OFFSET_MIN \<equiv> 3"

definition rtc1_init :: "u32 \<Rightarrow> timer_state \<Rightarrow> timer_state" where
  "rtc1_init prescaler s = s\<lparr>rtc := (rtc s)\<lparr>PRESCALER := prescaler\<rparr>\<rparr>"

definition rtc1_start :: "timer_state \<Rightarrow> timer_state" where
  "rtc1_start s = s\<lparr>rtc := (rtc s)\<lparr>compare0_enabled := True, counting := True\<rparr>,
     rtc_irq_pending := False, rtc_irq_enabled := True, m_rtc1_running := True\<rparr>"

definition rtc1_stop :: "timer_state \<Rightarrow> timer_state" where
  "rtc1_stop s = s\<lparr>rtc := (rtc s)\<lparr>compare0_enabled := False, counting := False, COUNTER := 0\<rparr>,
     rtc_irq_enabled := False, m_ticks_latest := 0, m_rtc1_running := False\<rparr>"

definition rtc1_counter_get :: "timer_state \<Rightarrow> u32 \<times> timer_state" where
  "rtc1_counter_get s =
     (let r = rtc s;
          c = (COUNTER r + (if counting r then passing r 0 else 0)) AND MAX_RTC_COUNTER_VAL
      in (c, s\<lparr>rtc := r\<lparr>COUNTER := c, passing := (\<lambda>n. passing r (Suc n))\<rparr>\<rparr>))"

definition ticks_diff_get :: "u32 \<Rightarrow> u32 \<Rightarrow> u32" where
  "ticks_diff_get ticks_now ticks_old = (ticks_now - ticks_old) AND MAX_RTC_COUNTER_VAL"

definition rtc1_compare0_set :: "u32 \<Rightarrow> timer_state \<Rightarrow> timer_state" where
  "rtc1_compare0_set v s = s\<lparr>rtc := (rtc s)\<lparr>CC0 := v\<rparr>\<rparr>"

definition timer_timeouts_check_sched :: "timer_state \<Rightarrow> timer_state" where
  "timer_timeouts_check_sched s = s\<lparr>rtc_irq_pending := True\<rparr>"

definition timer_list_handler_sched :: "timer_state \<Rightarrow> timer_state" where
  "timer_list_handler_sched s = s\<lparr>swi_irq_pending := True\<rparr>"

subsection \<open>Timeouts: the RTC1 interrupt\<close>

type_synonym 'e tworld = "timer_state \<times> 'e"

record 'e app_code =
  call_handler :: "ptr \<Rightarrow> ptr \<Rightarrow> 'e tworld \<Rightarrow> 'e tworld option"
  call_schedule :: "ptr \<Rightarrow> ptr \<Rightarrow> ptr \<Rightarrow> 'e tworld \<Rightarrow> (ret_code \<times> 'e tworld) option"

definition timeout_handler_exec :: "'e app_code \<Rightarrow> ptr \<Rightarrow> 'e tworld \<Rightarrow> 'e tworld option" where
  "timeout_handler_exec app p_timer w =
     (let s = fst w; n = nodes s p_timer in
      if m_evt_schedule_func s \<noteq> NULL
      then do {
        (err_code, w) \<leftarrow> call_schedule app (m_evt_schedule_func s) (p_timeout_handler n) (p_context n) w;
        if err_code = NRF_SUCCESS then Some w else None
      }
      else call_handler app (p_timeout_handler n) (p_context n) w)"

definition node_stopped :: "ptr \<Rightarrow> timer_state \<Rightarrow> timer_state" where
  "node_stopped p s = s\<lparr>nodes := node_upd p (\<lambda>n. n\<lparr>is_running := False\<rparr>) (nodes s)\<rparr>"

definition expire_one :: "'e app_code \<Rightarrow> ptr \<Rightarrow> 'e tworld \<Rightarrow> 'e tworld option" where
  "expire_one app p w =
     (if is_running (nodes (fst w) p)
      then timeout_handler_exec app p (node_stopped p (fst w), snd w) else Some w)"

partial_function (option) timeouts_loop ::
  "'e app_code \<Rightarrow> ptr \<Rightarrow> u32 \<Rightarrow> u32 \<Rightarrow> 'e tworld \<Rightarrow> (u32 \<times> 'e tworld) option" where
  "timeouts_loop app p_timer ticks_elapsed ticks_expired w =
     (if p_timer = NULL then Some (ticks_expired, w)
      else
        let n = nodes (fst w) p_timer in
        if ticks_elapsed < ticks_to_expire n then Some (ticks_expired, w)
        else do {
          w \<leftarrow> expire_one app p_timer w;
          timeouts_loop app (p_next n) (ticks_elapsed - ticks_to_expire n)
            (ticks_expired + ticks_to_expire n) w
        })"

definition elapsed_enqueue :: "u32 \<Rightarrow> timer_state \<Rightarrow> timer_state" where
  "elapsed_enqueue ticks_expired s =
     (let s = (if m_ticks_elapsed_q_read_ind s = m_ticks_elapsed_q_write_ind s
               then
                 let i = m_ticks_elapsed_q_write_ind s + 1
                 in s\<lparr>m_ticks_elapsed_q_write_ind := (if i = 2 then 0 else i)\<rparr>
               else s)
      in s\<lparr>m_ticks_elapsed := (m_ticks_elapsed s)[unat (m_ticks_elapsed_q_write_ind s) := ticks_expired]\<rparr>)"

definition timer_timeouts_check :: "'e app_code \<Rightarrow> 'e tworld \<Rightarrow> 'e tworld option" where
  "timer_timeouts_check app w =
     (case w of (s, e) \<Rightarrow>
      if mp_timer_id_head s = NULL then Some (s, e)
      else
        case rtc1_counter_get s of (now, s) \<Rightarrow>
        do {
          (ticks_expired, s, e) \<leftarrow>
            timeouts_loop app (mp_timer_id_head s) (ticks_diff_get now (m_ticks_latest s)) 0 (s, e);
          Some (timer_list_handler_sched (elapsed_enqueue ticks_expired s), e)
        })"

definition RTC1_IRQHandler :: "'e app_code \<Rightarrow> 'e tworld \<Rightarrow> 'e tworld option" where
  "RTC1_IRQHandler app w = timer_timeouts_check app w"

subsection \<open>The list: the software interrupt\<close>

definition elapsed_ticks_acquire :: "timer_state \<Rightarrow> bool \<times> u32 \<times> timer_state" where
  "elapsed_ticks_acquire s =
     (if m_ticks_elapsed_q_read_ind s \<noteq> m_ticks_elapsed_q_write_ind s
      then
        let i = m_ticks_elapsed_q_read_ind s + 1;
            i = (if i = 2 then 0 else i);
            ticks_elapsed = m_ticks_elapsed s ! unat i
        in (True, ticks_elapsed,
            s\<lparr>m_ticks_elapsed_q_read_ind := i,
              m_ticks_latest := (m_ticks_latest s + ticks_elapsed) AND MAX_RTC_COUNTER_VAL\<rparr>)
      else (False, 0, s))"

definition ring_next :: "timer_user \<Rightarrow> u8 \<Rightarrow> u8" where
  "ring_next u i = (if i + 1 = user_op_queue_size u then 0 else i + 1)"

definition op_at :: "timer_state \<Rightarrow> timer_user \<Rightarrow> u8 \<Rightarrow> timer_user_op" where
  "op_at s u i = op_mem s (p_user_op_queue u + unat i)"

partial_function (option) stop_all_loop :: "timer_state \<Rightarrow> timer_state option" where
  "stop_all_loop s =
     (if mp_timer_id_head s = NULL then Some s
      else
        let p_head = mp_timer_id_head s; s = node_stopped p_head s
        in stop_all_loop (s\<lparr>mp_timer_id_head := p_next (nodes s p_head)\<rparr>))"

definition deletion_perform :: "timer_user_op \<Rightarrow> timer_state \<Rightarrow> timer_state option" where
  "deletion_perform p_user_op s =
     (case op_type p_user_op of
        TIMER_USER_OP_TYPE_STOP \<Rightarrow> timer_list_remove (p_node p_user_op) s
      | TIMER_USER_OP_TYPE_STOP_ALL \<Rightarrow> stop_all_loop s
      | _ \<Rightarrow> Some s)"

partial_function (option) deletions_ops :: "nat \<Rightarrow> u8 \<Rightarrow> timer_state \<Rightarrow> timer_state option" where
  "deletions_ops user_id user_ops_first s =
     (let p_user = mp_users s ! user_id in
      if user_ops_first = uq_last p_user then Some s
      else do {
        s \<leftarrow> deletion_perform (op_at s p_user user_ops_first) s;
        deletions_ops user_id (ring_next p_user user_ops_first) s
      })"

primrec deletions_users :: "nat \<Rightarrow> timer_state \<Rightarrow> timer_state option" where
  "deletions_users 0 s = Some s"
| "deletions_users (Suc user_id) s =
     do { s \<leftarrow> deletions_ops user_id (uq_first (mp_users s ! user_id)) s; deletions_users user_id s }"

definition list_deletions_handler :: "timer_state \<Rightarrow> (bool \<times> timer_state) option" where
  "list_deletions_handler s =
     do { s' \<leftarrow> deletions_users (unat (m_user_array_size s)) s;
          Some (mp_timer_id_head s' \<noteq> mp_timer_id_head s, s') }"

partial_function (option) expired_loop ::
  "u32 \<Rightarrow> u32 \<Rightarrow> u32 \<Rightarrow> ptr \<Rightarrow> timer_state \<Rightarrow> (ptr \<times> timer_state) option" where
  "expired_loop ticks_elapsed ticks_previous ticks_expired p_restart s =
     (if mp_timer_id_head s = NULL then Some (p_restart, s)
      else
        let p_timer = mp_timer_id_head s; n = nodes s p_timer in
        if ticks_elapsed < ticks_to_expire n
        then Some (p_restart, s\<lparr>nodes := node_upd p_timer
               (\<lambda>n. n\<lparr>ticks_to_expire := ticks_to_expire n - ticks_elapsed\<rparr>) (nodes s)\<rparr>)
        else
          let ticks_elapsed = ticks_elapsed - ticks_to_expire n;
              ticks_expired = ticks_expired + ticks_to_expire n;
              s = s\<lparr>nodes := node_upd p_timer (\<lambda>n. n\<lparr>ticks_to_expire := 0\<rparr>) (nodes s),
                    mp_timer_id_head := p_next n\<rparr>
          in if ticks_periodic_interval n \<noteq> 0
             then expired_loop ticks_elapsed ticks_previous ticks_expired p_timer
               (s\<lparr>nodes := node_upd p_timer
                  (\<lambda>n. n\<lparr>ticks_at_start := (ticks_previous + ticks_expired) AND MAX_RTC_COUNTER_VAL,
                        ticks_first_interval := ticks_periodic_interval n, p_next := p_restart\<rparr>) (nodes s)\<rparr>)
             else expired_loop ticks_elapsed ticks_previous ticks_expired p_restart s)"

definition expired_timers_handler :: "u32 \<Rightarrow> u32 \<Rightarrow> ptr \<Rightarrow> timer_state \<Rightarrow> (ptr \<times> timer_state) option" where
  "expired_timers_handler ticks_elapsed ticks_previous p_restart s =
     expired_loop ticks_elapsed ticks_previous 0 p_restart s"

definition ticks_from_latest :: "u32 \<Rightarrow> u32 \<Rightarrow> u32 \<Rightarrow> u32" where
  "ticks_from_latest latest at_start first_interval =
     (if (at_start - latest) AND MAX_RTC_COUNTER_VAL < MAX_RTC_COUNTER_VAL div 2
      then ticks_diff_get at_start latest + first_interval
      else
        let delta_current_start = ticks_diff_get latest at_start
        in if first_interval > delta_current_start then first_interval - delta_current_start else 0)"

definition node_prepared :: "u32 \<Rightarrow> timer_node \<Rightarrow> timer_node" where
  "node_prepared latest n =
     n\<lparr>ticks_to_expire := ticks_from_latest latest (ticks_at_start n) (ticks_first_interval n),
       ticks_at_start := 0, ticks_first_interval := 0, is_running := True, p_next := NULL\<rparr>"

definition prepare_and_insert :: "ptr \<Rightarrow> timer_state \<Rightarrow> timer_state option" where
  "prepare_and_insert p_timer s =
     timer_list_insert p_timer (s\<lparr>nodes := node_upd p_timer (node_prepared (m_ticks_latest s)) (nodes s)\<rparr>)"

definition node_started :: "bool \<Rightarrow> timer_user_op_start \<Rightarrow> timer_node \<Rightarrow> timer_node" where
  "node_started reset st n =
     (let n = n\<lparr>ticks_at_start := op_ticks_at_start st, ticks_first_interval := op_ticks_first_interval st,
                ticks_periodic_interval := op_ticks_periodic_interval st, p_context := op_p_context st\<rparr>
      in if reset then n\<lparr>ticks_at_start := 0\<rparr> else n)"

definition user_upd :: "nat \<Rightarrow> (timer_user \<Rightarrow> timer_user) \<Rightarrow> timer_state \<Rightarrow> timer_state" where
  "user_upd i f s = s\<lparr>mp_users := (mp_users s)[i := f (mp_users s ! i)]\<rparr>"

partial_function (option) insertions_ops :: "nat \<Rightarrow> ptr \<Rightarrow> timer_state \<Rightarrow> (ptr \<times> timer_state) option" where
  "insertions_ops user_id p_restart s =
     (let p_user = mp_users s ! user_id in
      if p_restart = NULL \<and> uq_first p_user = uq_last p_user then Some (p_restart, s)
      else if p_restart \<noteq> NULL
      then do {
        s' \<leftarrow> prepare_and_insert p_restart s;
        insertions_ops user_id (p_next (nodes s p_restart)) s'
      }
      else
        let p_user_op = op_at s p_user (uq_first p_user);
            s = user_upd user_id (\<lambda>u. u\<lparr>uq_first := ring_next u (uq_first u)\<rparr>) s;
            p_timer = p_node p_user_op
        in if op_type p_user_op \<noteq> TIMER_USER_OP_TYPE_START \<or> is_running (nodes s p_timer)
           then insertions_ops user_id p_restart s
           else do {
             s \<leftarrow> prepare_and_insert p_timer
               (s\<lparr>nodes := node_upd p_timer (node_started (m_rtc1_reset s) (op_start p_user_op)) (nodes s)\<rparr>);
             insertions_ops user_id p_restart s
           })"

primrec insertions_users :: "nat \<Rightarrow> ptr \<Rightarrow> timer_state \<Rightarrow> timer_state option" where
  "insertions_users 0 p_restart s = Some s"
| "insertions_users (Suc user_id) p_restart s =
     do { (p_restart, s) \<leftarrow> insertions_ops user_id p_restart s; insertions_users user_id p_restart s }"

definition list_insertions_handler :: "ptr \<Rightarrow> timer_state \<Rightarrow> (bool \<times> timer_state) option" where
  "list_insertions_handler p_restart s =
     do { s' \<leftarrow> insertions_users (unat (m_user_array_size s)) p_restart s;
          Some (mp_timer_id_head s' \<noteq> mp_timer_id_head s, s') }"

definition compare_reg_update :: "timer_state \<Rightarrow> timer_state" where
  "compare_reg_update s =
     (if mp_timer_id_head s \<noteq> NULL
      then
        let ticks_to_expire = ticks_to_expire (nodes s (mp_timer_id_head s));
            (pre_counter_val, s) = rtc1_counter_get s;
            cc = m_ticks_latest s;
            ticks_elapsed = ticks_diff_get pre_counter_val cc + RTC_COMPARE_OFFSET_MIN;
            s = (if \<not> m_rtc1_running s then rtc1_start s else s);
            cc = (cc + (if ticks_elapsed < ticks_to_expire then ticks_to_expire else ticks_elapsed))
              AND MAX_RTC_COUNTER_VAL;
            (post_counter_val, s) = rtc1_counter_get (rtc1_compare0_set cc s)
        in if ticks_diff_get post_counter_val pre_counter_val + RTC_COMPARE_OFFSET_MIN
              > ticks_diff_get cc pre_counter_val
           then
             let (now, s) = rtc1_counter_get s
             in timer_timeouts_check_sched (rtc1_compare0_set now s)
           else s
      else rtc1_stop s)"

definition utilization_of :: "timer_user \<Rightarrow> u8" where
  "utilization_of u =
     (if uq_first u \<le> uq_last u then uq_last u - uq_first u
      else user_op_queue_size u + 1 - uq_first u + uq_last u)"

fun profile_users :: "timer_user list \<Rightarrow> u8 \<Rightarrow> u8" where
  "profile_users [] m = m"
| "profile_users (u # us) m = profile_users us (if utilization_of u > m then utilization_of u else m)"

definition timer_list_handler :: "timer_state \<Rightarrow> timer_state option" where
  "timer_list_handler s =
     (let s = s\<lparr>m_max_user_op_queue_utilization :=
                  profile_users (take 3 (mp_users s)) (m_max_user_op_queue_utilization s)\<rparr>;
          ticks_previous = m_ticks_latest s;
          (ticks_have_elapsed, ticks_elapsed, s) = elapsed_ticks_acquire s
      in do {
        (compare_update, s) \<leftarrow> list_deletions_handler s;
        (compare_update, p_restart, s) \<leftarrow>
          (if ticks_have_elapsed
           then do { (p_restart, s) \<leftarrow> expired_timers_handler ticks_elapsed ticks_previous NULL s;
                     Some (True, p_restart, s) }
           else Some (compare_update, NULL, s));
        (inserted, s) \<leftarrow> list_insertions_handler p_restart s;
        let s = (if compare_update \<or> inserted then compare_reg_update s else s)
        in Some (s\<lparr>m_rtc1_reset := False\<rparr>)
      })"

definition SWI_IRQHandler :: "timer_state \<Rightarrow> timer_state option" where
  "SWI_IRQHandler s = timer_list_handler s"

subsection \<open>The interface\<close>

text \<open>The place of the new entry and the new last index, or \<open>None\<close> if the queue is full.\<close>

definition user_op_alloc :: "timer_user \<Rightarrow> (nat \<times> u8) option" where
  "user_op_alloc u =
     (let last = ring_next u (uq_last u) in
      if last = uq_first u then None else Some (p_user_op_queue u + unat (uq_last u), last))"

definition user_op_enque :: "nat \<Rightarrow> u8 \<Rightarrow> timer_state \<Rightarrow> timer_state" where
  "user_op_enque user_id last_index s = user_upd user_id (\<lambda>u. u\<lparr>uq_last := last_index\<rparr>) s"

definition op_write :: "nat \<Rightarrow> (timer_user_op \<Rightarrow> timer_user_op) \<Rightarrow> timer_state \<Rightarrow> timer_state" where
  "op_write i f s = s\<lparr>op_mem := (op_mem s)(i := f (op_mem s i))\<rparr>"

definition timer_start_op_schedule ::
  "nat \<Rightarrow> ptr \<Rightarrow> u32 \<Rightarrow> u32 \<Rightarrow> ptr \<Rightarrow> timer_state \<Rightarrow> ret_code \<times> timer_state" where
  "timer_start_op_schedule user_id node timeout_initial timeout_periodic ctx s =
     (case user_op_alloc (mp_users s ! user_id) of
        None \<Rightarrow> (NRF_ERROR_NO_MEM, s)
      | Some (i, last_index) \<Rightarrow>
          let (now, s) = rtc1_counter_get s;
              s = op_write i (\<lambda>p. p\<lparr>op_type := TIMER_USER_OP_TYPE_START, p_node := node,
                op_start := \<lparr>op_ticks_at_start = now, op_ticks_first_interval = timeout_initial,
                  op_ticks_periodic_interval = timeout_periodic, op_p_context = ctx\<rparr>\<rparr>) s
          in (NRF_SUCCESS, timer_list_handler_sched (user_op_enque user_id last_index s)))"

definition timer_stop_op_schedule :: "nat \<Rightarrow> ptr \<Rightarrow> timer_state \<Rightarrow> ret_code \<times> timer_state" where
  "timer_stop_op_schedule user_id node s =
     (case user_op_alloc (mp_users s ! user_id) of
        None \<Rightarrow> (NRF_ERROR_NO_MEM, s)
      | Some (i, last_index) \<Rightarrow>
          let s = op_write i (\<lambda>p. p\<lparr>op_type := TIMER_USER_OP_TYPE_STOP, p_node := node\<rparr>) s
          in (NRF_SUCCESS, timer_list_handler_sched (user_op_enque user_id last_index s)))"

definition timer_stop_all_op_schedule :: "nat \<Rightarrow> timer_state \<Rightarrow> ret_code \<times> timer_state" where
  "timer_stop_all_op_schedule user_id s =
     (case user_op_alloc (mp_users s ! user_id) of
        None \<Rightarrow> (NRF_ERROR_NO_MEM, s)
      | Some (i, last_index) \<Rightarrow>
          let s = op_write i (\<lambda>p. p\<lparr>op_type := TIMER_USER_OP_TYPE_STOP_ALL, p_node := NULL\<rparr>) s
          in (NRF_SUCCESS, timer_list_handler_sched (user_op_enque user_id last_index s)))"

text \<open>The user of an interrupt priority of the nRF52.\<close>

definition user_id_get :: "u8 \<Rightarrow> nat" where
  "user_id_get prio = (if prio = 2 then 0 else if prio = 6 then 1 else 2)"

definition app_timer_init :: "u32 \<Rightarrow> u8 \<Rightarrow> ptr \<Rightarrow> ptr \<Rightarrow> timer_state \<Rightarrow> ret_code \<times> timer_state" where
  "app_timer_init prescaler op_queues_size p_buffer evt_schedule_func s =
     (if \<not> is_word_aligned p_buffer then (NRF_ERROR_INVALID_PARAM, s)
      else if p_buffer = NULL then (NRF_ERROR_INVALID_PARAM, s\<lparr>mp_users := []\<rparr>)
      else
        let s = rtc1_stop s;
            s = s\<lparr>m_evt_schedule_func := evt_schedule_func, m_user_array_size := 3,
              mp_users := map (\<lambda>i. \<lparr>uq_first = 0, uq_last = 0, user_op_queue_size = op_queues_size,
                p_user_op_queue = i * unat op_queues_size\<rparr>) [0..<3],
              mp_timer_id_head := NULL, m_ticks_elapsed_q_read_ind := 0, m_ticks_elapsed_q_write_ind := 0,
              m_max_user_op_queue_utilization := 0, swi_irq_pending := False\<rparr>;
            (now, s) = rtc1_counter_get (rtc1_init prescaler s)
        in (NRF_SUCCESS, s\<lparr>m_ticks_latest := now\<rparr>))"

text \<open>\<open>None\<close> is a null pointer to the timer id.\<close>

definition app_timer_create :: "ptr option \<Rightarrow> app_timer_mode \<Rightarrow> ptr \<Rightarrow> timer_state \<Rightarrow> ret_code \<times> timer_state" where
  "app_timer_create p_timer_id mode timeout_handler s =
     (if mp_users s = [] then (NRF_ERROR_INVALID_STATE, s)
      else if timeout_handler = NULL then (NRF_ERROR_INVALID_PARAM, s)
      else case p_timer_id of
        None \<Rightarrow> (NRF_ERROR_INVALID_PARAM, s)
      | Some node \<Rightarrow>
          if is_running (nodes s node) then (NRF_ERROR_INVALID_STATE, s)
          else (NRF_SUCCESS, s\<lparr>nodes := node_upd node (\<lambda>n. n\<lparr>is_running := False, timer_mode := mode,
                  p_timeout_handler := timeout_handler\<rparr>) (nodes s)\<rparr>))"

definition app_timer_start :: "u8 \<Rightarrow> ptr \<Rightarrow> u32 \<Rightarrow> ptr \<Rightarrow> timer_state \<Rightarrow> ret_code \<times> timer_state" where
  "app_timer_start prio timer_id timeout_ticks ctx s =
     (if mp_users s = [] then (NRF_ERROR_INVALID_STATE, s)
      else if timer_id = NULL then (NRF_ERROR_INVALID_STATE, s)
      else if timeout_ticks < 5 then (NRF_ERROR_INVALID_PARAM, s)
      else if p_timeout_handler (nodes s timer_id) = NULL then (NRF_ERROR_INVALID_STATE, s)
      else
        timer_start_op_schedule (user_id_get prio) timer_id timeout_ticks
          (if timer_mode (nodes s timer_id) = APP_TIMER_MODE_REPEATED then timeout_ticks else 0) ctx s)"

definition app_timer_stop :: "u8 \<Rightarrow> ptr \<Rightarrow> timer_state \<Rightarrow> ret_code \<times> timer_state" where
  "app_timer_stop prio timer_id s =
     (if mp_users s = [] then (NRF_ERROR_INVALID_STATE, s)
      else if timer_id = NULL \<or> p_timeout_handler (nodes s timer_id) = NULL then (NRF_ERROR_INVALID_STATE, s)
      else timer_stop_op_schedule (user_id_get prio) timer_id (node_stopped timer_id s))"

definition app_timer_stop_all :: "u8 \<Rightarrow> timer_state \<Rightarrow> ret_code \<times> timer_state" where
  "app_timer_stop_all prio s =
     (if mp_users s = [] then (NRF_ERROR_INVALID_STATE, s)
      else timer_stop_all_op_schedule (user_id_get prio) s)"

definition app_timer_cnt_get :: "timer_state \<Rightarrow> ret_code \<times> u32 \<times> timer_state" where
  "app_timer_cnt_get s = (let (now, s) = rtc1_counter_get s in (NRF_SUCCESS, now, s))"

definition app_timer_cnt_diff_compute :: "u32 \<Rightarrow> u32 \<Rightarrow> ret_code \<times> u32" where
  "app_timer_cnt_diff_compute ticks_to ticks_from = (NRF_SUCCESS, ticks_diff_get ticks_to ticks_from)"

definition app_timer_op_queue_utilization_get :: "timer_state \<Rightarrow> u8" where
  "app_timer_op_queue_utilization_get s = m_max_user_op_queue_utilization s"

end
