(* ===== verification/TimerRefine.thy ===== *)
theory TimerRefine
  imports AppTimer
begin

text \<open>
  What the application timer does, stated on lists of timers and their expiry times.
\<close>

unbundle bit_operations_syntax

subsection \<open>Queues of operations\<close>

fun ring_ops :: "(nat \<Rightarrow> timer_user_op) \<Rightarrow> timer_user \<Rightarrow> nat \<Rightarrow> u8 \<Rightarrow> timer_user_op list" where
  "ring_ops m u 0 i = []"
| "ring_ops m u (Suc k) i = m (p_user_op_queue u + unat i) # ring_ops m u k (ring_next u i)"

definition ring_dist :: "timer_user \<Rightarrow> u8 \<Rightarrow> nat" where
  "ring_dist u i = (unat (uq_last u) + unat (user_op_queue_size u) - unat i) mod unat (user_op_queue_size u)"

definition user_ops :: "(nat \<Rightarrow> timer_user_op) \<Rightarrow> timer_user \<Rightarrow> timer_user_op list" where
  "user_ops m u = ring_ops m u (ring_dist u (uq_first u)) (uq_first u)"

definition ring_in :: "timer_user \<Rightarrow> u8 \<Rightarrow> bool" where
  "ring_in u i \<longleftrightarrow> unat i < unat (user_op_queue_size u)"

definition uq_ok :: "timer_user \<Rightarrow> bool" where
  "uq_ok u \<longleftrightarrow> ring_in u (uq_first u) \<and> ring_in u (uq_last u)"

lemma ring_next_unat:
  assumes "ring_in u i"
  shows "unat (ring_next u i) = (if Suc (unat i) = unat (user_op_queue_size u) then 0 else Suc (unat i))"
proof -
  have "unat (i + 1) = Suc (unat i)"
    using assms u8_less_256 [of "user_op_queue_size u"] unfolding ring_in_def
    by (subst unat_plus_small) auto
  then show ?thesis by (simp add: ring_next_def word_unat_eq_iff)
qed

lemma ring_in_next [simp]: "ring_in u i \<Longrightarrow> ring_in u (ring_next u i)"
  using ring_next_unat [of u i] by (auto simp: ring_in_def)

lemma ring_dist_eq:
  "ring_in u i \<Longrightarrow> ring_in u (uq_last u) \<Longrightarrow> ring_dist u i =
    (if unat i \<le> unat (uq_last u) then unat (uq_last u) - unat i
     else unat (uq_last u) + unat (user_op_queue_size u) - unat i)"
  unfolding ring_dist_def ring_in_def by (rule ring_wrap)

lemma ring_dist_0: "ring_in u i \<Longrightarrow> ring_in u (uq_last u) \<Longrightarrow> ring_dist u i = 0 \<longleftrightarrow> i = uq_last u"
  unfolding word_unat_eq_iff by (auto simp: ring_dist_eq ring_in_def)

lemma ring_dist_next:
  "ring_in u i \<Longrightarrow> ring_in u (uq_last u) \<Longrightarrow> i \<noteq> uq_last u \<Longrightarrow> ring_dist u i = Suc (ring_dist u (ring_next u i))"
  unfolding word_unat_eq_iff by (auto simp: ring_dist_eq ring_next_unat) (auto simp: ring_in_def)

lemma ring_dist_less: "ring_in u i \<Longrightarrow> ring_dist u i < unat (user_op_queue_size u)"
  by (simp add: ring_dist_def ring_in_def)

lemma ring_ops_cong:
  "(\<And>i. ring_in u i \<Longrightarrow> m' (p_user_op_queue u + unat i) = m (p_user_op_queue u + unat i)) \<Longrightarrow> ring_in u i \<Longrightarrow>
    ring_ops m' u k i = ring_ops m u k i"
  by (induction k arbitrary: i) auto

lemma ring_ops_step:
  "ring_in u i \<Longrightarrow> ring_in u (uq_last u) \<Longrightarrow> i \<noteq> uq_last u \<Longrightarrow>
    ring_ops m u (ring_dist u i) i =
    m (p_user_op_queue u + unat i) # ring_ops m u (ring_dist u (ring_next u i)) (ring_next u i)"
  by (simp add: ring_dist_next)

lemma ring_ops_cfg:
  "user_op_queue_size u' = user_op_queue_size u \<Longrightarrow> p_user_op_queue u' = p_user_op_queue u \<Longrightarrow>
    ring_ops m u' k i = ring_ops m u k i"
  by (induction k arbitrary: i) (auto simp: ring_next_def)

lemma ring_ops_snoc:
  assumes "ring_in u i" "ring_in u (uq_last u)" "ring_dist u i = n"
    "\<And>j. ring_in u j \<Longrightarrow> j \<noteq> uq_last u \<Longrightarrow> m' (p_user_op_queue u + unat j) = m (p_user_op_queue u + unat j)"
  shows "ring_ops m' u (Suc n) i = ring_ops m u n i @ [m' (p_user_op_queue u + unat (uq_last u))]"
  using assms(1,3)
proof (induction n arbitrary: i)
  case 0
  then have "i = uq_last u" using ring_dist_0 assms(2) by blast
  then show ?case by simp
next
  case (Suc n)
  then have ne: "i \<noteq> uq_last u" using ring_dist_0 [OF Suc.prems(1) assms(2)] by auto
  then have "ring_dist u (ring_next u i) = n" using ring_dist_next [OF Suc.prems(1) assms(2)] Suc.prems(2) by simp
  from Suc.IH [OF _ this] have "ring_ops m' u (Suc n) (ring_next u i) =
      ring_ops m u n (ring_next u i) @ [m' (p_user_op_queue u + unat (uq_last u))]"
    using Suc.prems(1) by simp
  moreover have "ring_ops m' u (Suc (Suc n)) i =
      m' (p_user_op_queue u + unat i) # ring_ops m' u (Suc n) (ring_next u i)" by simp
  moreover have "m' (p_user_op_queue u + unat i) = m (p_user_op_queue u + unat i)"
    using assms(4) ne Suc.prems(1) by blast
  ultimately show ?case by simp
qed

text \<open>One operation is appended, or the queue has no free slot but the one that is never used.\<close>

lemma user_op_alloc_full:
  assumes "uq_ok u"
  shows "user_op_alloc u = None \<longleftrightarrow> Suc (length (user_ops m u)) = unat (user_op_queue_size u)"
proof -
  have len: "length (ring_ops m u k i) = k" for k i by (induction k arbitrary: i) auto
  have i: "ring_in u (uq_first u)" "ring_in u (uq_last u)" using assms by (auto simp: uq_ok_def)
  have "user_op_alloc u = None \<longleftrightarrow> unat (ring_next u (uq_last u)) = unat (uq_first u)"
    by (auto simp: user_op_alloc_def Let_def word_unat_eq_iff)
  also have "\<dots> \<longleftrightarrow> Suc (ring_dist u (uq_first u)) = unat (user_op_queue_size u)"
    using i by (auto simp: ring_next_unat ring_dist_eq) (auto simp: ring_in_def)
  finally show ?thesis by (simp add: user_ops_def len)
qed

lemma user_op_alloc_append:
  assumes "uq_ok u" "user_op_alloc u = Some (j, l)"
  shows "user_ops (m(j := x)) (u\<lparr>uq_last := l\<rparr>) = user_ops m u @ [x] \<and> uq_ok (u\<lparr>uq_last := l\<rparr>) \<and>
    p_user_op_queue u \<le> j \<and> j < p_user_op_queue u + unat (user_op_queue_size u)"
proof -
  let ?u = "u\<lparr>uq_last := l\<rparr>"
  have i: "ring_in u (uq_first u)" "ring_in u (uq_last u)" using assms by (auto simp: uq_ok_def)
  have l: "l = ring_next u (uq_last u)" "l \<noteq> uq_first u" "j = p_user_op_queue u + unat (uq_last u)"
    using assms(2) by (auto simp: user_op_alloc_def Let_def split: if_splits)
  have cfg: "ring_in ?u k = ring_in u k" for k by (simp add: ring_in_def)
  have in': "ring_in ?u (uq_first u)" "ring_in ?u l" unfolding cfg using i l(1) by simp_all
  have "unat l \<noteq> unat (uq_first u)" using l(2) by (simp add: word_unat_eq_iff)
  then have dist: "ring_dist ?u (uq_first u) = Suc (ring_dist u (uq_first u))"
    using i in' ring_next_unat [OF i(2)] unfolding l(1)
    by (auto simp: ring_dist_eq split: if_splits) (auto simp: ring_in_def)
  have "ring_ops (m(j := x)) u (Suc (ring_dist u (uq_first u))) (uq_first u) =
      ring_ops m u (ring_dist u (uq_first u)) (uq_first u) @ [(m(j := x)) (p_user_op_queue u + unat (uq_last u))]"
    by (rule ring_ops_snoc [OF i(1,2) refl]) (simp add: l(3) word_unat_eq_iff)
  then have "user_ops (m(j := x)) ?u = user_ops m u @ [x]"
    unfolding user_ops_def using dist l(3)
    by (simp add: ring_ops_cfg [of ?u u] del: ring_ops.simps)
  moreover have "uq_ok ?u" unfolding uq_ok_def using in' by simp
  moreover have "unat (uq_last u) < unat (user_op_queue_size u)" using i(2) by (simp add: ring_in_def)
  ultimately show ?thesis using l(3) by simp
qed

abbreviation uops :: "timer_state \<Rightarrow> nat \<Rightarrow> timer_user_op list" where
  "uops s i \<equiv> user_ops (op_mem s) (mp_users s ! i)"

text \<open>The operations in the order in which the list handler performs them.\<close>

definition pending :: "timer_state \<Rightarrow> timer_user_op list" where
  "pending s = uops s 2 @ uops s 1 @ uops s 0"

definition users_ok :: "timer_state \<Rightarrow> bool" where
  "users_ok s \<longleftrightarrow> m_user_array_size s = 3 \<and> length (mp_users s) = 3 \<and>
     (\<exists>n. \<forall>i < 3. uq_ok (mp_users s ! i) \<and> user_op_queue_size (mp_users s ! i) = n \<and>
       p_user_op_queue (mp_users s ! i) = i * unat n)"

definition scheduled :: "nat \<Rightarrow> nat \<Rightarrow> u8 \<Rightarrow> timer_user_op \<Rightarrow> timer_state \<Rightarrow> timer_state" where
  "scheduled i j l p s = timer_list_handler_sched (user_op_enque i l (op_write j (\<lambda>_. p) s))"

lemma scheduled_fields [simp]:
  "nodes (scheduled i j l p s) = nodes s"
  "m_user_array_size (scheduled i j l p s) = m_user_array_size s"
  "mp_timer_id_head (scheduled i j l p s) = mp_timer_id_head s"
  "m_ticks_latest (scheduled i j l p s) = m_ticks_latest s"
  "m_ticks_elapsed (scheduled i j l p s) = m_ticks_elapsed s"
  "m_ticks_elapsed_q_read_ind (scheduled i j l p s) = m_ticks_elapsed_q_read_ind s"
  "m_ticks_elapsed_q_write_ind (scheduled i j l p s) = m_ticks_elapsed_q_write_ind s"
  "m_evt_schedule_func (scheduled i j l p s) = m_evt_schedule_func s"
  "rtc (scheduled i j l p s) = rtc s"
  "m_rtc1_reset (scheduled i j l p s) = m_rtc1_reset s"
  by (simp_all add: scheduled_def user_op_enque_def user_upd_def op_write_def timer_list_handler_sched_def)

lemma range_separate:
  fixes i k n j j' :: nat
  assumes "i \<noteq> k" "i * n \<le> j" "j < i * n + n" "k * n \<le> j'" "j' < k * n + n"
  shows "j \<noteq> j'"
proof
  assume "j = j'"
  then have "j div n = i" "j div n = k" using assms by (auto intro!: div_nat_eqI simp: mult.commute)
  with assms(1) show False by simp
qed

lemma uq_ok_user_ops_cong:
  assumes "uq_ok u" "\<And>j. p_user_op_queue u \<le> j \<Longrightarrow> j < p_user_op_queue u + unat (user_op_queue_size u) \<Longrightarrow> m' j = m j"
  shows "user_ops m' u = user_ops m u"
  unfolding user_ops_def by (rule ring_ops_cong) (use assms in \<open>auto simp: uq_ok_def ring_in_def\<close>)

lemma scheduled_uops:
  assumes "users_ok s" "i < 3" "user_op_alloc (mp_users s ! i) = Some (j, l)"
  shows "users_ok (scheduled i j l p s)"
    "k < 3 \<Longrightarrow> uops (scheduled i j l p s) k = (if k = i then uops s i @ [p] else uops s k)"
    "set (pending (scheduled i j l p s)) = insert p (set (pending s))"
proof -
  let ?s = "scheduled i j l p s"
  obtain n where n: "\<forall>i < 3. uq_ok (mp_users s ! i) \<and> user_op_queue_size (mp_users s ! i) = n \<and>
       p_user_op_queue (mp_users s ! i) = i * unat n" and len: "length (mp_users s) = 3" "m_user_array_size s = 3"
    using assms(1) by (auto simp: users_ok_def)
  have users: "mp_users ?s ! k = (if k = i then (mp_users s ! i)\<lparr>uq_last := l\<rparr> else mp_users s ! k)" if "k < 3" for k
    using that len assms(2)
    by (simp add: scheduled_def user_op_enque_def user_upd_def op_write_def timer_list_handler_sched_def)
  have mem: "op_mem ?s = (op_mem s)(j := p)"
    by (simp add: scheduled_def user_op_enque_def user_upd_def op_write_def timer_list_handler_sched_def)
  note app = user_op_alloc_append [OF _ assms(3), of "op_mem s" p]
  show "users_ok ?s"
    unfolding users_ok_def
  proof (intro conjI exI [of _ n] allI impI)
    fix k :: nat assume k: "k < 3"
    show "uq_ok (mp_users ?s ! k)" using n app k assms(2) by (simp add: users [OF k])
    show "user_op_queue_size (mp_users ?s ! k) = n" "p_user_op_queue (mp_users ?s ! k) = k * unat n"
      using n k assms(2) by (simp_all add: users [OF k])
  qed (use len in \<open>simp_all add: scheduled_def user_op_enque_def user_upd_def op_write_def timer_list_handler_sched_def\<close>)
  have uops: "uops ?s k = (if k = i then uops s i @ [p] else uops s k)" if k: "k < 3" for k
  proof (cases "k = i")
    case True
    with app n assms(2) users [OF k] show ?thesis by (simp add: mem)
  next
    case False
    have "user_ops ((op_mem s)(j := p)) (mp_users s ! k) = user_ops (op_mem s) (mp_users s ! k)"
    proof (rule uq_ok_user_ops_cong)
      fix a assume "p_user_op_queue (mp_users s ! k) \<le> a"
        "a < p_user_op_queue (mp_users s ! k) + unat (user_op_queue_size (mp_users s ! k))"
      with range_separate [of i k "unat n" j a] False app n k assms(2) show "((op_mem s)(j := p)) a = op_mem s a" by auto
    qed (use n k in simp)
    with False users [OF k] show ?thesis by (simp add: mem)
  qed
  show "k < 3 \<Longrightarrow> uops ?s k = (if k = i then uops s i @ [p] else uops s k)" by (rule uops)
  show "set (pending ?s) = insert p (set (pending s))"
    using assms(2) uops [of 0] uops [of 1] uops [of 2] by (auto simp: pending_def less_Suc_eq numeral_3_eq_3)
qed

subsection \<open>The invariant\<close>

definition tlist :: "timer_state \<Rightarrow> (ptr \<times> nat) list \<Rightarrow> bool" where
  "tlist s xs \<longleftrightarrow> timers_rep (nodes s) (mp_timer_id_head s) 0 xs \<and> distinct (map fst xs)"

text \<open>The elapsed ticks that the RTC1 interrupt has passed to the list handler.\<close>

definition queued_elapsed :: "timer_state \<Rightarrow> nat option" where
  "queued_elapsed s =
     (if m_ticks_elapsed_q_read_ind s = m_ticks_elapsed_q_write_ind s then None
      else Some (unat (m_ticks_elapsed s ! unat (m_ticks_elapsed_q_write_ind s))))"

definition elapsed_ok :: "timer_state \<Rightarrow> bool" where
  "elapsed_ok s \<longleftrightarrow> length (m_ticks_elapsed s) = 2 \<and> m_ticks_elapsed_q_read_ind s < 2 \<and>
     m_ticks_elapsed_q_write_ind s < 2"

definition is_stop :: "ptr \<Rightarrow> timer_user_op \<Rightarrow> bool" where
  "is_stop a p \<longleftrightarrow> op_type p = TIMER_USER_OP_TYPE_STOP \<and> p_node p = a"

text \<open>
  A running timer is in the list; a timer in the list that is not running is due (expires within the
  elapsed ticks \<open>K\<close>) or has a queued stop operation; no timer of \<open>J\<close> and no timer with a queued stop
  operation runs. In \<open>timer_ok\<close> \<open>J\<close> are the due timers.
\<close>

definition timer_inv :: "nat option \<Rightarrow> ptr set \<Rightarrow> (ptr \<times> nat) list \<Rightarrow> timer_state \<Rightarrow> bool" where
  "timer_inv K J xs s \<longleftrightarrow> tlist s xs \<and> users_ok s \<and> elapsed_ok s \<and>
     (\<forall>p \<in> set (pending s). op_type p = TIMER_USER_OP_TYPE_START \<longrightarrow> p_node p \<noteq> NULL) \<and>
     (\<forall>a. is_running (nodes s a) \<longrightarrow> a \<in> ids xs) \<and>
     (\<forall>a. is_running (nodes s a) \<longrightarrow> (\<forall>p \<in> set (pending s). \<not> is_stop a p)) \<and>
     (\<forall>x \<in> set xs. is_running (nodes s (fst x)) \<or> (\<exists>k. K = Some k \<and> snd x \<le> k) \<or>
       (\<exists>p \<in> set (pending s). is_stop (fst x) p)) \<and>
     (\<forall>a \<in> J. \<not> is_running (nodes s a))"

definition due_ids :: "nat option \<Rightarrow> (ptr \<times> nat) list \<Rightarrow> ptr set" where
  "due_ids K xs = {a. \<exists>e k. (a, e) \<in> set xs \<and> K = Some k \<and> e \<le> k}"

abbreviation timer_ok :: "(ptr \<times> nat) list \<Rightarrow> timer_state \<Rightarrow> bool" where
  "timer_ok xs s \<equiv> timer_inv (queued_elapsed s) (due_ids (queued_elapsed s) xs) xs s"

lemma timer_invI:
  assumes "tlist s xs" "users_ok s" "elapsed_ok s"
    "\<And>p. p \<in> set (pending s) \<Longrightarrow> op_type p = TIMER_USER_OP_TYPE_START \<Longrightarrow> p_node p \<noteq> NULL"
    "\<And>a. is_running (nodes s a) \<Longrightarrow> a \<in> ids xs"
    "\<And>a p. is_running (nodes s a) \<Longrightarrow> p \<in> set (pending s) \<Longrightarrow> \<not> is_stop a p"
    "\<And>x. x \<in> set xs \<Longrightarrow> \<not> is_running (nodes s (fst x)) \<Longrightarrow> (\<And>k. K = Some k \<Longrightarrow> \<not> snd x \<le> k) \<Longrightarrow>
      \<exists>p \<in> set (pending s). is_stop (fst x) p"
    "\<And>a. a \<in> J \<Longrightarrow> \<not> is_running (nodes s a)"
  shows "timer_inv K J xs s"
  unfolding timer_inv_def
proof (intro conjI ballI allI impI)
  fix x assume "x \<in> set xs"
  with assms(7) [of x] show "is_running (nodes s (fst x)) \<or> (\<exists>k. K = Some k \<and> snd x \<le> k) \<or>
       (\<exists>p \<in> set (pending s). is_stop (fst x) p)" by blast
qed (simp_all add: assms(1-6,8))

lemma timer_invD:
  assumes "timer_inv K J xs s"
  shows "tlist s xs" "users_ok s" "elapsed_ok s"
    "\<And>p. p \<in> set (pending s) \<Longrightarrow> op_type p = TIMER_USER_OP_TYPE_START \<Longrightarrow> p_node p \<noteq> NULL"
    "\<And>a. is_running (nodes s a) \<Longrightarrow> a \<in> ids xs"
    "\<And>a p. is_running (nodes s a) \<Longrightarrow> p \<in> set (pending s) \<Longrightarrow> \<not> is_stop a p"
    "\<And>x. x \<in> set xs \<Longrightarrow> \<not> is_running (nodes s (fst x)) \<Longrightarrow> (\<And>k. K = Some k \<Longrightarrow> \<not> snd x \<le> k) \<Longrightarrow>
      \<exists>p \<in> set (pending s). is_stop (fst x) p"
    "\<And>a. a \<in> J \<Longrightarrow> \<not> is_running (nodes s a)"
proof -
  note inv = assms [unfolded timer_inv_def]
  show "tlist s xs" "users_ok s" "elapsed_ok s" using inv by simp_all
  show "p_node p \<noteq> NULL" if "p \<in> set (pending s)" "op_type p = TIMER_USER_OP_TYPE_START" for p
    using inv that by simp
  show "a \<in> ids xs" if "is_running (nodes s a)" for a using inv that by simp
  show "\<not> is_stop a p" if "is_running (nodes s a)" "p \<in> set (pending s)" for a p using inv that by simp
  from inv have seven: "\<forall>x \<in> set xs. is_running (nodes s (fst x)) \<or> (\<exists>k. K = Some k \<and> snd x \<le> k) \<or>
       (\<exists>p \<in> set (pending s). is_stop (fst x) p)" by (elim conjE) assumption
  show "\<exists>p \<in> set (pending s). is_stop (fst x) p"
    if "x \<in> set xs" "\<not> is_running (nodes s (fst x))" "\<And>k. K = Some k \<Longrightarrow> \<not> snd x \<le> k" for x
    using bspec [OF seven that(1)] that(2,3) by blast
  show "\<not> is_running (nodes s a)" if "a \<in> J" for a using inv that by simp
qed

definition list_kept :: "timer_state \<Rightarrow> timer_state \<Rightarrow> bool" where
  "list_kept s s' \<longleftrightarrow> mp_timer_id_head s' = mp_timer_id_head s \<and> m_ticks_latest s' = m_ticks_latest s \<and>
     m_ticks_elapsed s' = m_ticks_elapsed s \<and> m_ticks_elapsed_q_read_ind s' = m_ticks_elapsed_q_read_ind s \<and>
     m_ticks_elapsed_q_write_ind s' = m_ticks_elapsed_q_write_ind s \<and>
     m_evt_schedule_func s' = m_evt_schedule_func s \<and>
     (\<forall>a. ticks_to_expire (nodes s' a) = ticks_to_expire (nodes s a) \<and> p_next (nodes s' a) = p_next (nodes s a) \<and>
       (is_running (nodes s' a) \<longrightarrow> is_running (nodes s a)))"

lemma list_kept_refl [simp]: "list_kept s s"
  by (simp add: list_kept_def)

lemma list_kept_trans: "list_kept s s' \<Longrightarrow> list_kept s' s'' \<Longrightarrow> list_kept s s''"
  by (simp add: list_kept_def)

lemma list_kept_rep: "list_kept s s' \<Longrightarrow> timers_rep (nodes s') p b xs = timers_rep (nodes s) p b xs"
  by (rule timers_rep_cong) (simp add: list_kept_def)

lemma list_kept_tlist: "list_kept s s' \<Longrightarrow> tlist s' xs = tlist s xs"
  unfolding tlist_def by (simp add: list_kept_rep) (simp add: list_kept_def)

text \<open>The calls of the interface, a refused \<open>app_timer_stop\<close> excluded.\<close>

inductive api_step :: "timer_state \<Rightarrow> timer_state \<Rightarrow> bool" where
  start: "app_timer_start prio a t c s = (code, s') \<Longrightarrow> api_step s s'"
| stop: "app_timer_stop prio a s = (code, s') \<Longrightarrow> code \<noteq> NRF_ERROR_NO_MEM \<Longrightarrow> api_step s s'"
| stop_all: "app_timer_stop_all prio s = (code, s') \<Longrightarrow> api_step s s'"
| create: "app_timer_create p md h s = (code, s') \<Longrightarrow> api_step s s'"
| cnt_get: "app_timer_cnt_get s = (code, v, s') \<Longrightarrow> api_step s s'"

abbreviation api_steps :: "timer_state \<Rightarrow> timer_state \<Rightarrow> bool" where
  "api_steps \<equiv> api_step\<^sup>*\<^sup>*"

lemma user_id_get_less [simp]: "user_id_get prio < 3"
  by (simp add: user_id_get_def)

lemma counter_get_fields [simp]:
  "nodes (snd (rtc1_counter_get s)) = nodes s"
  "op_mem (snd (rtc1_counter_get s)) = op_mem s"
  "mp_users (snd (rtc1_counter_get s)) = mp_users s"
  "m_user_array_size (snd (rtc1_counter_get s)) = m_user_array_size s"
  "mp_timer_id_head (snd (rtc1_counter_get s)) = mp_timer_id_head s"
  "m_ticks_latest (snd (rtc1_counter_get s)) = m_ticks_latest s"
  "m_ticks_elapsed (snd (rtc1_counter_get s)) = m_ticks_elapsed s"
  "m_ticks_elapsed_q_read_ind (snd (rtc1_counter_get s)) = m_ticks_elapsed_q_read_ind s"
  "m_ticks_elapsed_q_write_ind (snd (rtc1_counter_get s)) = m_ticks_elapsed_q_write_ind s"
  "m_evt_schedule_func (snd (rtc1_counter_get s)) = m_evt_schedule_func s"
  "m_rtc1_running (snd (rtc1_counter_get s)) = m_rtc1_running s"
  "m_rtc1_reset (snd (rtc1_counter_get s)) = m_rtc1_reset s"
  by (simp_all add: rtc1_counter_get_def Let_def)

lemma inv_scheduled:
  assumes "timer_inv K J xs s" "i < 3" "user_op_alloc (mp_users s ! i) = Some (j, l)"
    "op_type p = TIMER_USER_OP_TYPE_START \<Longrightarrow> p_node p \<noteq> NULL"
    "op_type p = TIMER_USER_OP_TYPE_STOP \<Longrightarrow> \<not> is_running (nodes s (p_node p))"
  shows "timer_inv K J xs (scheduled i j l p s)"
proof -
  have u: "users_ok s" using assms(1) by (simp add: timer_inv_def)
  note uops = scheduled_uops [OF u assms(2,3), where p = p]
  note inv = timer_invD [OF assms(1)]
  show ?thesis
  proof (rule timer_invI)
    show "tlist (scheduled i j l p s) xs" using inv(1) by (simp add: tlist_def)
    show "elapsed_ok (scheduled i j l p s)" using inv(3) by (simp add: elapsed_ok_def)
    show "\<not> is_stop a q" if "is_running (nodes (scheduled i j l p s) a)" "q \<in> set (pending (scheduled i j l p s))" for a q
      using that inv(6) assms(5) unfolding uops(3) by (auto simp: is_stop_def)
    show "\<exists>q \<in> set (pending (scheduled i j l p s)). is_stop (fst x) q"
      if "x \<in> set xs" "\<not> is_running (nodes (scheduled i j l p s) (fst x))" "\<And>k. K = Some k \<Longrightarrow> \<not> snd x \<le> k" for x
      using that inv(7) unfolding uops(3) by auto
    show "\<not> is_running (nodes (scheduled i j l p s) b)" if "b \<in> J" for b using inv(8) [OF that] by simp
  qed (use inv(4,5) uops assms(4) in auto)
qed

lemma inv_nodes_cong:
  assumes "timer_inv K J xs s" "list_kept s s'" "mp_users s' = mp_users s" "op_mem s' = op_mem s"
    "m_user_array_size s' = m_user_array_size s"
    "\<And>a. is_running (nodes s' a) = is_running (nodes s a)"
  shows "timer_inv K J xs s'"
proof -
  have "pending s' = pending s" "users_ok s' = users_ok s" using assms by (simp_all add: pending_def users_ok_def)
  moreover have "elapsed_ok s' = elapsed_ok s" using assms(2) by (simp add: elapsed_ok_def list_kept_def)
  ultimately show ?thesis using assms(1,6) list_kept_tlist [OF assms(2)] by (simp add: timer_inv_def)
qed

lemma inv_counter_get: "timer_inv K J xs s \<Longrightarrow> timer_inv K J xs (snd (rtc1_counter_get s))"
  by (rule inv_nodes_cong) (simp_all add: list_kept_def)

lemma node_stopped_fields [simp]:
  "op_mem (node_stopped a s) = op_mem s" "mp_users (node_stopped a s) = mp_users s"
  "m_user_array_size (node_stopped a s) = m_user_array_size s"
  "mp_timer_id_head (node_stopped a s) = mp_timer_id_head s"
  "m_ticks_latest (node_stopped a s) = m_ticks_latest s"
  "m_ticks_elapsed (node_stopped a s) = m_ticks_elapsed s"
  "m_ticks_elapsed_q_read_ind (node_stopped a s) = m_ticks_elapsed_q_read_ind s"
  "m_ticks_elapsed_q_write_ind (node_stopped a s) = m_ticks_elapsed_q_write_ind s"
  "m_evt_schedule_func (node_stopped a s) = m_evt_schedule_func s"
  "rtc (node_stopped a s) = rtc s"
  "nodes (node_stopped a s) b = (if b = a then (nodes s a)\<lparr>is_running := False\<rparr> else nodes s b)"
  by (simp_all add: node_stopped_def node_upd_def)

lemma start_schedule_eq:
  "timer_start_op_schedule i a t p c s =
     (case user_op_alloc (mp_users s ! i) of None \<Rightarrow> (NRF_ERROR_NO_MEM, s)
      | Some (j, l) \<Rightarrow> (NRF_SUCCESS, scheduled i j l
          ((op_mem s j)\<lparr>op_type := TIMER_USER_OP_TYPE_START, p_node := a,
            op_start := \<lparr>op_ticks_at_start = fst (rtc1_counter_get s), op_ticks_first_interval = t,
              op_ticks_periodic_interval = p, op_p_context = c\<rparr>\<rparr>) (snd (rtc1_counter_get s))))"
  using counter_get_fields(2) [of s]
  by (cases "rtc1_counter_get s") (simp add: timer_start_op_schedule_def scheduled_def op_write_def Let_def split: option.splits)

lemma stop_schedule_eq:
  "timer_stop_op_schedule i a s =
     (case user_op_alloc (mp_users s ! i) of None \<Rightarrow> (NRF_ERROR_NO_MEM, s)
      | Some (j, l) \<Rightarrow> (NRF_SUCCESS, scheduled i j l
          ((op_mem s j)\<lparr>op_type := TIMER_USER_OP_TYPE_STOP, p_node := a\<rparr>) s))"
  by (simp add: timer_stop_op_schedule_def scheduled_def op_write_def Let_def split: option.splits)

lemma stop_all_schedule_eq:
  "timer_stop_all_op_schedule i s =
     (case user_op_alloc (mp_users s ! i) of None \<Rightarrow> (NRF_ERROR_NO_MEM, s)
      | Some (j, l) \<Rightarrow> (NRF_SUCCESS, scheduled i j l
          ((op_mem s j)\<lparr>op_type := TIMER_USER_OP_TYPE_STOP_ALL, p_node := NULL\<rparr>) s))"
  by (simp add: timer_stop_all_op_schedule_def scheduled_def op_write_def Let_def split: option.splits)

lemma start_inv:
  assumes "timer_inv K J xs s"
  shows "timer_inv K J xs (snd (app_timer_start prio a t c s)) \<and> list_kept s (snd (app_timer_start prio a t c s))"
proof -
  let ?s = "snd (rtc1_counter_get s)"
  have kept: "list_kept s (scheduled i j l p ?s)" for i j l p by (simp add: list_kept_def)
  have "timer_inv K J xs (scheduled (user_id_get prio) j l p ?s)"
    if "user_op_alloc (mp_users s ! user_id_get prio) = Some (j, l)" "op_type p = TIMER_USER_OP_TYPE_START"
      "p_node p \<noteq> NULL" for j l p
    by (rule inv_scheduled [OF inv_counter_get [OF assms]]) (use that in simp_all)
  with assms kept show ?thesis
    by (auto simp: app_timer_start_def start_schedule_eq split: option.splits)
qed

lemma stopped_inv:
  assumes "timer_inv K J xs s" "user_op_alloc (mp_users s ! i) = Some (j, l)" "i < 3"
    "op_type p = TIMER_USER_OP_TYPE_STOP" "p_node p = a"
  shows "timer_inv K J xs (scheduled i j l p (node_stopped a s))"
proof -
  let ?s = "node_stopped a s"
  have u: "users_ok ?s" using assms(1) by (simp add: timer_inv_def users_ok_def)
  note uops = scheduled_uops [OF u assms(3), where j = j and l = l and p = p]
  have pend: "set (pending (scheduled i j l p ?s)) = insert p (set (pending s))" "users_ok (scheduled i j l p ?s)"
    using uops assms(2) by (simp_all add: pending_def)
  have "list_kept s (scheduled i j l p ?s)" by (simp add: list_kept_def)
  from list_kept_tlist [OF this] have "tlist (scheduled i j l p ?s) xs" using assms(1) by (simp add: timer_inv_def)
  note list = this
  note inv = timer_invD [OF assms(1)]
  have st: "is_stop b p \<longleftrightarrow> b = a" for b using assms(4,5) by (auto simp: is_stop_def)
  have run: "is_running (nodes (scheduled i j l p ?s) b) \<longleftrightarrow> b \<noteq> a \<and> is_running (nodes s b)" for b by simp
  show ?thesis
  proof (rule timer_invI [OF list pend(2)])
    show "elapsed_ok (scheduled i j l p ?s)" using inv(3) by (simp add: elapsed_ok_def)
    show "\<not> is_stop b q" if "is_running (nodes (scheduled i j l p ?s) b)" "q \<in> set (pending (scheduled i j l p ?s))" for b q
      using that inv(6) st unfolding pend run by auto
    show "\<exists>q \<in> set (pending (scheduled i j l p ?s)). is_stop (fst x) q"
      if "x \<in> set xs" "\<not> is_running (nodes (scheduled i j l p ?s) (fst x))" "\<And>k. K = Some k \<Longrightarrow> \<not> snd x \<le> k" for x
      using that inv(7) [of x] st unfolding pend run by auto
    show "p_node q \<noteq> NULL" if "q \<in> set (pending (scheduled i j l p ?s))" "op_type q = TIMER_USER_OP_TYPE_START" for q
      using that inv(4) assms(4) unfolding pend by auto
    show "\<not> is_running (nodes (scheduled i j l p ?s) b)" if "b \<in> J" for b using inv(8) [OF that] by simp
  qed (use inv(5) run in auto)
qed

lemma stop_inv:
  assumes "timer_inv K J xs s" "app_timer_stop prio a s = (code, s')" "code \<noteq> NRF_ERROR_NO_MEM"
  shows "timer_inv K J xs s' \<and> list_kept s s'"
proof -
  have kept: "list_kept s (scheduled i j l p (node_stopped a s))" for i j l p by (simp add: list_kept_def)
  have "timer_inv K J xs (scheduled (user_id_get prio) j l p (node_stopped a s))"
    if "user_op_alloc (mp_users s ! user_id_get prio) = Some (j, l)" "op_type p = TIMER_USER_OP_TYPE_STOP"
      "p_node p = a" for j l p
    by (rule stopped_inv [OF assms(1)]) (use that in simp_all)
  with assms kept show ?thesis
    by (auto simp: app_timer_stop_def stop_schedule_eq split: option.splits if_splits)
qed

lemma stop_all_inv:
  assumes "timer_inv K J xs s"
  shows "timer_inv K J xs (snd (app_timer_stop_all prio s)) \<and> list_kept s (snd (app_timer_stop_all prio s))"
proof -
  have kept: "list_kept s (scheduled i j l p s)" for i j l p by (simp add: list_kept_def)
  have "timer_inv K J xs (scheduled (user_id_get prio) j l p s)"
    if "user_op_alloc (mp_users s ! user_id_get prio) = Some (j, l)" "op_type p = TIMER_USER_OP_TYPE_STOP_ALL" for j l p
    by (rule inv_scheduled [OF assms]) (use that in simp_all)
  with assms kept show ?thesis
    by (auto simp: app_timer_stop_all_def stop_all_schedule_eq split: option.splits)
qed

lemma create_inv:
  assumes "timer_inv K J xs s"
  shows "timer_inv K J xs (snd (app_timer_create p md h s)) \<and> list_kept s (snd (app_timer_create p md h s))"
proof (cases "app_timer_create p md h s = (fst (app_timer_create p md h s), s)")
  case True
  then have "snd (app_timer_create p md h s) = s" by (metis snd_conv)
  with assms show ?thesis by simp
next
  case False
  then obtain a where a: "\<not> is_running (nodes s a)" "snd (app_timer_create p md h s) =
      s\<lparr>nodes := node_upd a (\<lambda>n. n\<lparr>is_running := False, timer_mode := md, p_timeout_handler := h\<rparr>) (nodes s)\<rparr>"
    by (auto simp: app_timer_create_def split: if_splits option.splits)
  have "list_kept s (snd (app_timer_create p md h s))" using a by (simp add: list_kept_def node_upd_def)
  moreover from this have "timer_inv K J xs (snd (app_timer_create p md h s))"
    by (rule inv_nodes_cong [OF assms]) (use a in \<open>auto simp: node_upd_def\<close>)
  ultimately show ?thesis by simp
qed

lemma api_step_inv:
  assumes "api_step s s'" "timer_inv K J xs s"
  shows "timer_inv K J xs s' \<and> list_kept s s'"
  using assms
proof cases
  case (start prio a t c code)
  with start_inv [OF assms(2), of prio a t c] show ?thesis by simp
next
  case (stop prio a code)
  with stop_inv [OF assms(2)] show ?thesis by blast
next
  case (stop_all prio code)
  with stop_all_inv [OF assms(2), of prio] show ?thesis by simp
next
  case (create p md h code)
  with create_inv [OF assms(2), of p md h] show ?thesis by simp
next
  case (cnt_get code v)
  then have "s' = snd (rtc1_counter_get s)" by (auto simp: app_timer_cnt_get_def split: prod.splits)
  with inv_counter_get [OF assms(2)] show ?thesis by (simp add: list_kept_def)
qed

lemma api_steps_inv: "api_steps s s' \<Longrightarrow> timer_inv K J xs s \<Longrightarrow> timer_inv K J xs s' \<and> list_kept s s'"
  by (induction rule: rtranclp_induct) (use api_step_inv list_kept_trans list_kept_refl in blast)+

subsection \<open>Deletions\<close>

definition node_cfg :: "timer_node \<Rightarrow> u32 \<times> app_timer_mode \<times> ptr \<times> ptr" where
  "node_cfg n = (ticks_periodic_interval n, timer_mode n, p_timeout_handler n, p_context n)"

lemma same_data_cfg: "same_data n n' \<Longrightarrow> node_cfg n' = node_cfg n"
  by (simp add: node_cfg_def same_data_fields)

definition list_only :: "timer_state \<Rightarrow> timer_state \<Rightarrow> bool" where
  "list_only s s' \<longleftrightarrow> s' = s\<lparr>nodes := nodes s', mp_timer_id_head := mp_timer_id_head s', rtc := rtc s',
     m_ticks_latest := m_ticks_latest s', m_rtc1_reset := m_rtc1_reset s'\<rparr>"

lemma list_only_fields:
  assumes "list_only s s'"
  shows "op_mem s' = op_mem s" "mp_users s' = mp_users s" "m_user_array_size s' = m_user_array_size s"
    "m_ticks_elapsed s' = m_ticks_elapsed s" "m_ticks_elapsed_q_read_ind s' = m_ticks_elapsed_q_read_ind s"
    "m_ticks_elapsed_q_write_ind s' = m_ticks_elapsed_q_write_ind s"
    "m_evt_schedule_func s' = m_evt_schedule_func s" "m_rtc1_running s' = m_rtc1_running s"
    "m_max_user_op_queue_utilization s' = m_max_user_op_queue_utilization s"
  using assms by (cases s; cases s'; simp add: list_only_def)+

lemma list_only_refl [simp]: "list_only s s"
  by (simp add: list_only_def)

lemma list_only_trans: "list_only s s' \<Longrightarrow> list_only s' s'' \<Longrightarrow> list_only s s''"
  by (cases s; cases s'; cases s'') (simp add: list_only_def)

text \<open>What an operation does to the list, the last known counter value and the reset flag.\<close>

fun del_abs :: "timer_user_op \<Rightarrow> (ptr \<times> nat) list \<times> u32 \<times> bool \<Rightarrow> (ptr \<times> nat) list \<times> u32 \<times> bool" where
  "del_abs p (xs, latest, reset) =
     (case op_type p of
        TIMER_USER_OP_TYPE_STOP \<Rightarrow>
          if p_node p \<in> ids xs \<and> tremove (p_node p) xs = [] then ([], 0, True)
          else (tremove (p_node p) xs, latest, reset)
      | TIMER_USER_OP_TYPE_STOP_ALL \<Rightarrow> ([], latest, reset)
      | _ \<Rightarrow> (xs, latest, reset))"

definition list_view :: "(ptr \<times> nat) list \<Rightarrow> timer_state \<Rightarrow> (ptr \<times> nat) list \<times> u32 \<times> bool" where
  "list_view xs s = (xs, m_ticks_latest s, m_rtc1_reset s)"

definition del_sim :: "timer_state \<Rightarrow> (ptr \<times> nat) list \<Rightarrow> timer_state \<Rightarrow> (ptr \<times> nat) list \<Rightarrow> bool" where
  "del_sim s xs s' xs' \<longleftrightarrow> list_only s s' \<and> tlist s' xs' \<and> set xs' \<subseteq> set xs \<and>
     (\<forall>a. is_running (nodes s' a) \<longleftrightarrow> is_running (nodes s a) \<and> a \<in> ids xs') \<and>
     (\<forall>a. node_cfg (nodes s' a) = node_cfg (nodes s a))"

lemma del_sim_trans: "del_sim s xs s' xs' \<Longrightarrow> del_sim s' xs' s'' xs'' \<Longrightarrow> del_sim s xs s'' xs''"
  unfolding del_sim_def by (auto intro: list_only_trans dest: image_mono [of _ _ fst])

lemma stop_all_loop_rep:
  assumes "timers_rep (nodes s) (mp_timer_id_head s) b xs" "distinct (map fst xs)"
  shows "\<exists>h. stop_all_loop s = Some (s\<lparr>nodes := h, mp_timer_id_head := NULL\<rparr>) \<and>
    (\<forall>a. h a = (if a \<in> ids xs then (nodes s a)\<lparr>is_running := False\<rparr> else nodes s a))"
  using assms
proof (induction xs arbitrary: s b)
  case Nil
  then have "mp_timer_id_head s = NULL" by simp
  then have "s\<lparr>nodes := nodes s, mp_timer_id_head := NULL\<rparr> = s" by simp
  with \<open>mp_timer_id_head s = NULL\<close> show ?case
    by (intro exI [of _ "nodes s"]) (simp add: stop_all_loop.simps)
next
  case (Cons y ys)
  obtain c d where y: "y = (c, d)" by force
  have p: "mp_timer_id_head s = c" "c \<noteq> NULL" and ys: "timers_rep (nodes s) (p_next (nodes s c)) d ys"
    and c: "c \<notin> ids ys" "distinct (map fst ys)" using Cons.prems y by auto
  let ?s = "(node_stopped c s)\<lparr>mp_timer_id_head := p_next (nodes s c)\<rparr>"
  have "timers_rep (nodes ?s) (mp_timer_id_head ?s) d ys" using ys c by (simp add: node_stopped_def node_upd_def)
  from Cons.IH [OF this c(2)] obtain h where
    h: "stop_all_loop ?s = Some (?s\<lparr>nodes := h, mp_timer_id_head := NULL\<rparr>)"
      "\<forall>a. h a = (if a \<in> ids ys then (nodes ?s a)\<lparr>is_running := False\<rparr> else nodes ?s a)" by blast
  have "stop_all_loop s = stop_all_loop ?s"
    using p by (subst stop_all_loop.simps) (simp add: Let_def)
  also have "\<dots> = Some (s\<lparr>nodes := h, mp_timer_id_head := NULL\<rparr>)"
    unfolding h(1) by (simp add: node_stopped_def)
  finally have run: "stop_all_loop s = Some (s\<lparr>nodes := h, mp_timer_id_head := NULL\<rparr>)" .
  have "h a = (if a \<in> ids (y # ys) then (nodes s a)\<lparr>is_running := False\<rparr> else nodes s a)" for a
    using spec [OF h(2), of a] y by auto
  with run show ?case by blast
qed

lemma list_only_upd:
  "list_only s (s\<lparr>nodes := h, mp_timer_id_head := p\<rparr>)"
  "list_only s ((rtc_reset c s)\<lparr>nodes := h, mp_timer_id_head := p\<rparr>)"
  by (simp_all add: list_only_def rtc_reset_def rtc1_clear_def)

lemma rtc_reset_fields [simp]:
  "nodes (rtc_reset c s) = nodes s" "mp_timer_id_head (rtc_reset c s) = mp_timer_id_head s"
  "m_ticks_latest (rtc_reset c s) = (if c then 0 else m_ticks_latest s)"
  "m_rtc1_reset (rtc_reset c s) = (c \<or> m_rtc1_reset s)"
  by (simp_all add: rtc_reset_def rtc1_clear_def)

lemma set_tremove: "set (tremove a xs) \<subseteq> set xs"
  by (auto simp: tremove_def)

lemma deletion_perform_rep:
  assumes "tlist s xs" "\<And>a. is_running (nodes s a) \<Longrightarrow> a \<in> ids xs" "\<And>a. is_stop a p \<Longrightarrow> \<not> is_running (nodes s a)"
  shows "\<exists>s' xs'. deletion_perform p s = Some s' \<and> del_sim s xs s' xs' \<and>
    list_view xs' s' = del_abs p (list_view xs s)"
proof (cases "op_type p")
  case TIMER_USER_OP_TYPE_STOP
  let ?a = "p_node p" and ?xs = "tremove (p_node p) xs"
  from timer_list_remove_rep [of s xs ?a] assms(1) obtain h head where
    r: "timer_list_remove ?a s = Some ((rtc_reset (?a \<in> ids xs \<and> ?xs = []) s)\<lparr>nodes := h, mp_timer_id_head := head\<rparr>)"
      "timers_rep h head 0 ?xs" "relinked (ids xs) (nodes s) h" by (auto simp: tlist_def)
  let ?s = "(rtc_reset (?a \<in> ids xs \<and> ?xs = []) s)\<lparr>nodes := h, mp_timer_id_head := head\<rparr>"
  have "\<not> is_running (nodes s ?a)" using assms(3) TIMER_USER_OP_TYPE_STOP by (simp add: is_stop_def)
  moreover have run: "is_running (h a) = is_running (nodes s a)" for a
    using relinkedD(1) [OF r(3)] by (rule same_data_fields)
  ultimately have "is_running (nodes ?s a) \<longleftrightarrow> is_running (nodes s a) \<and> a \<in> ids ?xs" for a
    using assms(2) [of a] by auto
  moreover have "node_cfg (nodes ?s a) = node_cfg (nodes s a)" for a
    using same_data_cfg [OF relinkedD(1) [OF r(3)]] by simp
  moreover have "tlist ?s ?xs" using r(2) assms(1) by (simp add: tlist_def distinct_tremove)
  ultimately have "del_sim s xs ?s ?xs"
    unfolding del_sim_def using list_only_upd(2) set_tremove by blast
  moreover have "list_view ?xs ?s = del_abs p (list_view xs s)"
    using TIMER_USER_OP_TYPE_STOP by (auto simp: list_view_def)
  moreover have "deletion_perform p s = Some ?s" using r(1) TIMER_USER_OP_TYPE_STOP by (simp add: deletion_perform_def)
  ultimately show ?thesis by blast
next
  case TIMER_USER_OP_TYPE_STOP_ALL
  from stop_all_loop_rep [of s 0 xs] assms(1) obtain h where
    h: "stop_all_loop s = Some (s\<lparr>nodes := h, mp_timer_id_head := NULL\<rparr>)"
      "\<And>a. h a = (if a \<in> ids xs then (nodes s a)\<lparr>is_running := False\<rparr> else nodes s a)" by (auto simp: tlist_def)
  let ?s = "s\<lparr>nodes := h, mp_timer_id_head := NULL\<rparr>"
  have "del_sim s xs ?s []"
    unfolding del_sim_def using assms(2) by (auto simp: list_only_upd tlist_def h(2) node_cfg_def)
  moreover have "list_view [] ?s = del_abs p (list_view xs s)"
    using TIMER_USER_OP_TYPE_STOP_ALL by (simp add: list_view_def)
  moreover have "deletion_perform p s = Some ?s" using h(1) TIMER_USER_OP_TYPE_STOP_ALL by (simp add: deletion_perform_def)
  ultimately show ?thesis by blast
qed (use assms in \<open>auto simp: deletion_perform_def del_sim_def list_view_def\<close>)

abbreviation dels_abs where
  "dels_abs ps v \<equiv> fold del_abs ps v"

definition del_ready :: "timer_state \<Rightarrow> (ptr \<times> nat) list \<Rightarrow> timer_user_op list \<Rightarrow> bool" where
  "del_ready s xs ps \<longleftrightarrow> tlist s xs \<and> (\<forall>a. is_running (nodes s a) \<longrightarrow> a \<in> ids xs) \<and>
     (\<forall>a p. p \<in> set ps \<longrightarrow> is_stop a p \<longrightarrow> \<not> is_running (nodes s a))"

lemma del_ready_sim: "del_ready s xs ps \<Longrightarrow> del_sim s xs s' xs' \<Longrightarrow> set ps' \<subseteq> set ps \<Longrightarrow> del_ready s' xs' ps'"
  unfolding del_ready_def del_sim_def by blast

lemma deletions_ops_rep:
  assumes "ring_dist u i = n" "u = mp_users s ! user_id" "ring_in u i" "ring_in u (uq_last u)"
    "del_ready s xs (ring_ops (op_mem s) u n i)"
  shows "\<exists>s' xs'. deletions_ops user_id i s = Some s' \<and> del_sim s xs s' xs' \<and>
    list_view xs' s' = dels_abs (ring_ops (op_mem s) u n i) (list_view xs s)"
  using assms
proof (induction n arbitrary: i s xs)
  case 0
  then have "i = uq_last u" using ring_dist_0 by blast
  then have "deletions_ops user_id i s = Some s" using 0 by (simp add: deletions_ops.simps Let_def)
  moreover have "del_sim s xs s xs" using 0 by (auto simp: del_sim_def del_ready_def)
  ultimately show ?case by fastforce
next
  case (Suc n)
  then have ne: "i \<noteq> uq_last u" using ring_dist_0 [of u i] by auto
  let ?p = "op_mem s (p_user_op_queue u + unat i)" and ?ps = "ring_ops (op_mem s) u n (ring_next u i)"
  have d: "ring_dist u (ring_next u i) = n" using ring_dist_next [OF Suc.prems(3,4) ne] Suc.prems(1) by simp
  from deletion_perform_rep [of s xs ?p] Suc.prems(5) obtain s1 xs1 where
    s1: "deletion_perform ?p s = Some s1" "del_sim s xs s1 xs1" "list_view xs1 s1 = del_abs ?p (list_view xs s)"
    by (auto simp: del_ready_def)
  have "list_only s s1" using s1(2) by (simp add: del_sim_def)
  note same = list_only_fields(1,2) [OF this]
  have "del_ready s1 xs1 ?ps" by (rule del_ready_sim [OF Suc.prems(5) s1(2)]) auto
  with Suc.IH [OF d _ _ Suc.prems(4), of s1 xs1] Suc.prems(2,3) same obtain s' xs' where
    s': "deletions_ops user_id (ring_next u i) s1 = Some s'" "del_sim s1 xs1 s' xs'"
      "list_view xs' s' = dels_abs ?ps (list_view xs1 s1)" by auto
  have "deletions_ops user_id i s = Some s'"
    using ne s1(1) s'(1) Suc.prems(2) by (subst deletions_ops.simps) (simp add: Let_def op_at_def)
  moreover have "del_sim s xs s' xs'" using s1(2) s'(2) by (rule del_sim_trans)
  ultimately show ?case using s'(3) s1(3) by auto
qed

lemma users_ok_uq: "users_ok s \<Longrightarrow> i < 3 \<Longrightarrow> uq_ok (mp_users s ! i)"
  by (auto simp: users_ok_def)

lemma users_ok_uq_cong: "mp_users s' = mp_users s \<Longrightarrow> m_user_array_size s' = m_user_array_size s \<Longrightarrow> users_ok s' = users_ok s"
  by (simp add: users_ok_def)

lemma deletions_user_rep:
  assumes "users_ok s" "i < 3" "del_ready s xs (uops s i @ ps)"
  shows "\<exists>s' xs'. deletions_ops i (uq_first (mp_users s ! i)) s = Some s' \<and> del_sim s xs s' xs' \<and>
    list_view xs' s' = dels_abs (uops s i) (list_view xs s) \<and> del_ready s' xs' ps"
proof -
  have "ring_in (mp_users s ! i) (uq_first (mp_users s ! i))" "ring_in (mp_users s ! i) (uq_last (mp_users s ! i))"
    using users_ok_uq [OF assms(1,2)] by (auto simp: uq_ok_def)
  moreover have "del_ready s xs (uops s i)" using assms(3) by (simp add: del_ready_def)
  ultimately obtain s' xs' where s': "deletions_ops i (uq_first (mp_users s ! i)) s = Some s'" "del_sim s xs s' xs'"
    "list_view xs' s' = dels_abs (uops s i) (list_view xs s)"
    unfolding user_ops_def using deletions_ops_rep [OF refl refl] by blast
  moreover have "del_ready s' xs' ps" by (rule del_ready_sim [OF assms(3) s'(2)]) simp
  ultimately show ?thesis by blast
qed

lemma del_sim_fields:
  "del_sim s xs s' xs' \<Longrightarrow> op_mem s' = op_mem s \<and> mp_users s' = mp_users s \<and> m_user_array_size s' = m_user_array_size s"
  by (simp add: del_sim_def list_only_fields)

lemma list_deletions_handler_rep:
  assumes "users_ok s" "del_ready s xs (pending s)"
  shows "\<exists>s' xs'. list_deletions_handler s = Some (mp_timer_id_head s' \<noteq> mp_timer_id_head s, s') \<and>
    del_sim s xs s' xs' \<and> list_view xs' s' = dels_abs (pending s) (list_view xs s)"
proof -
  from deletions_user_rep [OF assms(1) _ assms(2) [unfolded pending_def]] obtain s2 xs2 where
    s2: "deletions_ops 2 (uq_first (mp_users s ! 2)) s = Some s2" "del_sim s xs s2 xs2"
      "list_view xs2 s2 = dels_abs (uops s 2) (list_view xs s)" "del_ready s2 xs2 (uops s 1 @ uops s 0)" by auto
  note f2 = del_sim_fields [OF s2(2)]
  then have "users_ok s2" using assms(1) by (simp add: users_ok_def)
  from deletions_user_rep [OF this, of 1 xs2 "uops s 0"] s2(4) f2 obtain s1 xs1 where
    s1: "deletions_ops 1 (uq_first (mp_users s ! 1)) s2 = Some s1" "del_sim s2 xs2 s1 xs1"
      "list_view xs1 s1 = dels_abs (uops s 1) (list_view xs2 s2)" "del_ready s1 xs1 (uops s 0)" by auto
  note f1 = del_sim_fields [OF s1(2)]
  then have "users_ok s1" using \<open>users_ok s2\<close> by (simp add: users_ok_def)
  from deletions_user_rep [OF this, of 0 xs1 "[]"] s1(4) f1 f2 obtain s0 xs0 where
    s0: "deletions_ops 0 (uq_first (mp_users s ! 0)) s1 = Some s0" "del_sim s1 xs1 s0 xs0"
      "list_view xs0 s0 = dels_abs (uops s 0) (list_view xs1 s1)" by auto
  have "unat (m_user_array_size s) = Suc (Suc (Suc 0))" using assms(1) by (simp add: users_ok_def)
  then have "list_deletions_handler s = Some (mp_timer_id_head s0 \<noteq> mp_timer_id_head s, s0)"
    using s2(1) s1(1) s0(1) f1 f2 by (simp add: list_deletions_handler_def numeral_2_eq_2)
  moreover have "del_sim s xs s0 xs0" using s2(2) s1(2) s0(2) del_sim_trans by blast
  moreover have "list_view xs0 s0 = dels_abs (pending s) (list_view xs s)"
    using s2(3) s1(3) s0(3) by (simp add: pending_def)
  ultimately show ?thesis by blast
qed

subsection \<open>Expiry\<close>

definition due :: "nat \<Rightarrow> (ptr \<times> nat) list \<Rightarrow> (ptr \<times> nat) list" where
  "due k xs = takeWhile (\<lambda>x. snd x \<le> k) xs"

definition later :: "nat \<Rightarrow> (ptr \<times> nat) list \<Rightarrow> (ptr \<times> nat) list" where
  "later k xs = map (\<lambda>x. (fst x, snd x - k)) (dropWhile (\<lambda>x. snd x \<le> k) xs)"

definition periodic :: "(ptr \<Rightarrow> timer_node) \<Rightarrow> ptr \<times> nat \<Rightarrow> bool" where
  "periodic h x \<longleftrightarrow> ticks_periodic_interval (h (fst x)) \<noteq> 0"

text \<open>The list of expired timers that start again, linked through the same field.\<close>

primrec chain :: "(ptr \<Rightarrow> timer_node) \<Rightarrow> ptr \<Rightarrow> ptr list \<Rightarrow> bool" where
  "chain h p [] \<longleftrightarrow> p = NULL"
| "chain h p (a # as) \<longleftrightarrow> p = a \<and> p \<noteq> NULL \<and> chain h (p_next (h p)) as"

lemma chain_cong: "(\<And>a. a \<in> set as \<Longrightarrow> p_next (h' a) = p_next (h a)) \<Longrightarrow> chain h' p as = chain h p as"
  by (induction as arbitrary: p) auto

lemma chain_null [simp]: "chain h NULL as \<longleftrightarrow> as = []"
  by (cases as) auto

text \<open>A node that expired \<open>e\<close> ticks after \<open>previous\<close> and starts again.\<close>

definition restarts_at :: "u32 \<Rightarrow> ptr \<times> nat \<Rightarrow> (ptr \<Rightarrow> timer_node) \<Rightarrow> (ptr \<Rightarrow> timer_node) \<Rightarrow> bool" where
  "restarts_at previous x h h' \<longleftrightarrow>
     ticks_at_start (h' (fst x)) = (previous + of_nat (snd x)) AND MAX_RTC_COUNTER_VAL \<and>
     ticks_first_interval (h' (fst x)) = ticks_periodic_interval (h (fst x))"

lemma periodic_cong: "node_cfg (h' (fst x)) = node_cfg (h (fst x)) \<Longrightarrow> periodic h' x = periodic h x"
  by (simp add: node_cfg_def periodic_def)

lemma head_nodes_swap: "(s :: timer_state)\<lparr>mp_timer_id_head := p, nodes := h\<rparr> = s\<lparr>nodes := h, mp_timer_id_head := p\<rparr>"
  by (cases s) simp

lemma expired_loop_rep:
  assumes "timers_rep (nodes s) (mp_timer_id_head s) b xs" "distinct (map fst xs @ rs)" "chain (nodes s) r rs"
    "unat elapsed = k - b" "b \<le> k" "expired = of_nat b"
  shows "\<exists>s' r'. expired_loop elapsed previous expired r s = Some (r', s') \<and>
    s' = s\<lparr>nodes := nodes s', mp_timer_id_head := mp_timer_id_head s'\<rparr> \<and>
    timers_rep (nodes s') (mp_timer_id_head s') 0 (later k xs) \<and>
    chain (nodes s') r' (map fst (rev (filter (periodic (nodes s)) (due k xs))) @ rs) \<and>
    (\<forall>a. node_cfg (nodes s' a) = node_cfg (nodes s a) \<and> is_running (nodes s' a) = is_running (nodes s a)) \<and>
    (\<forall>x \<in> set (due k xs). periodic (nodes s) x \<longrightarrow> restarts_at previous x (nodes s) (nodes s')) \<and>
    (\<forall>a. a \<notin> ids xs \<longrightarrow> nodes s' a = nodes s a)"
  using assms
proof (induction xs arbitrary: s b rs r elapsed expired)
  case Nil
  then show ?case
    by (intro exI [of _ s] exI [of _ r]) (simp add: expired_loop.simps later_def due_def)
next
  case (Cons y ys)
  obtain c e where y: "y = (c, e)" by force
  let ?n = "nodes s c" and ?t = "ticks_to_expire (nodes s c)"
  have p: "mp_timer_id_head s = c" "c \<noteq> NULL" and e: "b + unat ?t = e" "e < 2 ^ 32"
    and ys: "timers_rep (nodes s) (p_next ?n) e ys" and c: "c \<notin> ids ys" "distinct (map fst ys)"
      "c \<notin> set rs" "distinct rs" "set rs \<inter> ids ys = {}" using Cons.prems(1,2) y by auto
  show ?case
  proof (cases "e \<le> k")
    case False
    then have lt: "elapsed < ?t" using e Cons.prems(4,5) by (simp add: word_less_nat_alt)
    let ?h = "(nodes s)(c := ?n\<lparr>ticks_to_expire := ?t - elapsed\<rparr>)"
    have run: "expired_loop elapsed previous expired r s = Some (r, s\<lparr>nodes := ?h\<rparr>)"
      using p lt by (subst expired_loop.simps) (simp add: Let_def node_upd_def)
    have "unat (?t - elapsed) = e - k"
      using lt e Cons.prems(4,5) by (simp add: unat_minus_le)
    moreover have "timers_rep ?h (p_next ?n) (e - k) (map (\<lambda>x. (fst x, snd x - k)) ys)"
      by (rule timers_rep_shift) (use ys c False in simp_all)
    ultimately have "timers_rep ?h c 0 (later k (y # ys))"
      using False p y e by (simp add: later_def)
    moreover have "chain ?h r rs = chain (nodes s) r rs" by (rule chain_cong) (use c in auto)
    moreover have none: "due k (y # ys) = []" using False y by (simp add: due_def)
    moreover have "node_cfg (?h a) = node_cfg (nodes s a) \<and> is_running (?h a) = is_running (nodes s a)" for a
      by (simp add: node_cfg_def)
    moreover have "?h a = nodes s a" if "a \<notin> ids (y # ys)" for a using that y by simp
    ultimately show ?thesis
      using run p Cons.prems(3) unfolding none
      by (intro exI [of _ "s\<lparr>nodes := ?h\<rparr>"] exI [of _ r]) (simp del: fun_upd_apply)
  next
    case True
    then have le: "\<not> elapsed < ?t" using e Cons.prems(4,5) by (simp add: word_less_nat_alt)
    have el: "unat (elapsed - ?t) = k - e"
      using le e Cons.prems(4,5) True by (simp add: unat_minus_le)
    have ex: "expired + ?t = of_nat e" using Cons.prems(6) e(1) by auto
    let ?h0 = "(nodes s)(c := ?n\<lparr>ticks_to_expire := 0\<rparr>)"
    let ?h1 = "(nodes s)(c := ?n\<lparr>ticks_to_expire := 0,
      ticks_at_start := (previous + of_nat e) AND MAX_RTC_COUNTER_VAL,
      ticks_first_interval := ticks_periodic_interval ?n, p_next := r\<rparr>)"
    let ?P = "periodic (nodes s) y"
    let ?h = "if ?P then ?h1 else ?h0"
    let ?s = "s\<lparr>nodes := ?h, mp_timer_id_head := p_next ?n\<rparr>" and ?r = "if ?P then c else r"
      and ?rs = "if ?P then c # rs else rs"
    have run: "expired_loop elapsed previous expired r s = expired_loop (elapsed - ?t) previous (of_nat e) ?r ?s"
      using p le y by (subst expired_loop.simps) (simp add: Let_def node_upd_def ex periodic_def head_nodes_swap)
    have hc: "node_cfg (nodes ?s a) = node_cfg (nodes s a)" "is_running (nodes ?s a) = is_running (nodes s a)"
      "a \<noteq> c \<Longrightarrow> nodes ?s a = nodes s a" for a by (simp_all add: node_cfg_def)
    have rep: "timers_rep (nodes ?s) (mp_timer_id_head ?s) e ys" using ys c by simp
    have "chain (nodes ?s) r rs = chain (nodes s) r rs" by (rule chain_cong) (use c in auto)
    then have ch: "chain (nodes ?s) ?r ?rs" using Cons.prems(3) p by (auto split: if_splits)
    have dis: "distinct (map fst ys @ ?rs)" using c by auto
    from Cons.IH [OF rep dis ch el True refl] obtain s' r' where
      s': "expired_loop (elapsed - ?t) previous (of_nat e) ?r ?s = Some (r', s')"
        "s' = ?s\<lparr>nodes := nodes s', mp_timer_id_head := mp_timer_id_head s'\<rparr>"
        "timers_rep (nodes s') (mp_timer_id_head s') 0 (later k ys)"
        "chain (nodes s') r' (map fst (rev (filter (periodic (nodes ?s)) (due k ys))) @ ?rs)"
        "\<forall>a. node_cfg (nodes s' a) = node_cfg (nodes ?s a) \<and> is_running (nodes s' a) = is_running (nodes ?s a)"
        "\<forall>x \<in> set (due k ys). periodic (nodes ?s) x \<longrightarrow> restarts_at previous x (nodes ?s) (nodes s')"
        "\<forall>a. a \<notin> ids ys \<longrightarrow> nodes s' a = nodes ?s a" by blast
    have per: "periodic (nodes ?s) x = periodic (nodes s) x" for x by (rule periodic_cong [OF hc(1)])
    have re: "restarts_at previous x (nodes s) (nodes s')"
      if "x \<in> set (due k (y # ys))" "periodic (nodes s) x" for x
    proof (cases "x = y")
      case True
      have "nodes s' c = nodes ?s c" using s'(7) c(1) by blast
      with True that y show ?thesis by (simp add: restarts_at_def)
    next
      case False
      then have x: "x \<in> set (due k ys)" using that True y by (simp add: due_def)
      then have "fst x \<in> ids ys" by (auto simp: due_def dest: set_takeWhileD)
      then have "fst x \<noteq> c" using c(1) by blast
      with x s'(6) that per show ?thesis by (simp add: restarts_at_def)
    qed
    have "s' = s\<lparr>nodes := nodes s', mp_timer_id_head := mp_timer_id_head s'\<rparr>" using s'(2) by simp
    moreover have "timers_rep (nodes s') (mp_timer_id_head s') 0 (later k (y # ys))"
      using s'(3) True y by (simp add: later_def)
    moreover have "chain (nodes s') r' (map fst (rev (filter (periodic (nodes s)) (due k (y # ys)))) @ rs)"
      using s'(4) True y unfolding per by (auto simp: due_def split: if_splits)
    moreover have "\<forall>a. node_cfg (nodes s' a) = node_cfg (nodes s a) \<and> is_running (nodes s' a) = is_running (nodes s a)"
      using s'(5) hc(1,2) by simp
    moreover have "\<forall>x \<in> set (due k (y # ys)). periodic (nodes s) x \<longrightarrow> restarts_at previous x (nodes s) (nodes s')" using re by blast
    moreover have "\<forall>a. a \<notin> ids (y # ys) \<longrightarrow> nodes s' a = nodes s a" using s'(7) hc(3) y by auto
    moreover have "expired_loop elapsed previous expired r s = Some (r', s')" using run s'(1) by (rule trans)
    ultimately show ?thesis by (intro exI [of _ s'] exI [of _ r'] conjI)
  qed
qed

subsection \<open>Insertions\<close>

definition rem_ticks :: "u32 \<Rightarrow> u32 \<Rightarrow> u32 \<Rightarrow> nat" where
  "rem_ticks latest at_start first = unat (ticks_from_latest latest at_start first)"

lemma prepare_and_insert_rep:
  assumes "tlist s xs" "a \<notin> ids xs" "a \<noteq> NULL"
  shows "\<exists>h head. prepare_and_insert a s = Some (s\<lparr>nodes := h, mp_timer_id_head := head\<rparr>) \<and>
    tlist (s\<lparr>nodes := h, mp_timer_id_head := head\<rparr>)
      (tinsert (a, rem_ticks (m_ticks_latest s) (ticks_at_start (nodes s a)) (ticks_first_interval (nodes s a))) xs) \<and>
    (\<forall>b. is_running (h b) \<longleftrightarrow> b = a \<or> is_running (nodes s b)) \<and>
    (\<forall>b. node_cfg (h b) = node_cfg (nodes s b)) \<and>
    (\<forall>b. b \<notin> insert a (ids xs) \<longrightarrow> h b = nodes s b)"
proof -
  let ?n = "node_prepared (m_ticks_latest s) (nodes s a)"
  let ?s = "s\<lparr>nodes := (nodes s)(a := ?n)\<rparr>"
  have "timers_rep (nodes ?s) (mp_timer_id_head ?s) 0 xs" "distinct (map fst xs)"
    using assms by (simp_all add: tlist_def)
  moreover have "p_next (nodes ?s a) = NULL" by (simp add: node_prepared_def)
  ultimately obtain h head where
    r: "timer_list_insert a ?s = Some (?s\<lparr>nodes := h, mp_timer_id_head := head\<rparr>)"
      "timers_rep h head 0 (tinsert (a, unat (ticks_to_expire (nodes ?s a))) xs)"
      "relinked (insert a (ids xs)) (nodes ?s) h"
    using timer_list_insert_rep [of ?s xs a] assms(2,3) by blast
  have "prepare_and_insert a s = Some (s\<lparr>nodes := h, mp_timer_id_head := head\<rparr>)"
    using r(1) by (simp add: prepare_and_insert_def node_upd_def)
  moreover have "tlist (s\<lparr>nodes := h, mp_timer_id_head := head\<rparr>)
      (tinsert (a, rem_ticks (m_ticks_latest s) (ticks_at_start (nodes s a)) (ticks_first_interval (nodes s a))) xs)"
    using r(2) assms by (simp add: tlist_def distinct_tinsert node_prepared_def rem_ticks_def)
  moreover have "is_running (h b) \<longleftrightarrow> b = a \<or> is_running (nodes s b)" for b
    using same_data_fields(4) [OF relinkedD(1) [OF r(3)], of b] by (simp add: node_prepared_def)
  moreover have "node_cfg (h b) = node_cfg (nodes s b)" for b
    using same_data_cfg [OF relinkedD(1) [OF r(3)], of b] by (simp add: node_prepared_def node_cfg_def)
  moreover have "h b = nodes s b" if "b \<notin> insert a (ids xs)" for b
    using relinkedD(2) [OF r(3) that] that by simp
  ultimately show ?thesis by (intro exI [of _ h] exI [of _ head] conjI allI impI) assumption+
qed

definition in_list_iff_running :: "timer_state \<Rightarrow> (ptr \<times> nat) list \<Rightarrow> bool" where
  "in_list_iff_running s xs \<longleftrightarrow> tlist s xs \<and> (\<forall>a. is_running (nodes s a) \<longleftrightarrow> a \<in> ids xs)"

lemma ids_tinsert [simp]: "ids (tinsert x xs) = insert (fst x) (ids xs)"
  by simp

lemma restarts_rep:
  assumes "in_list_iff_running s xs" "chain (nodes s) r rs" "distinct rs" "set rs \<inter> ids xs = {}"
    "\<forall>a \<in> set rs. rem a = rem_ticks (m_ticks_latest s) (ticks_at_start (nodes s a)) (ticks_first_interval (nodes s a))"
  shows "\<exists>h head. insertions_ops i r s = insertions_ops i NULL (s\<lparr>nodes := h, mp_timer_id_head := head\<rparr>) \<and>
    in_list_iff_running (s\<lparr>nodes := h, mp_timer_id_head := head\<rparr>) (fold (\<lambda>a. tinsert (a, rem a)) rs xs) \<and>
    (\<forall>b. node_cfg (h b) = node_cfg (nodes s b))"
  using assms
proof (induction rs arbitrary: s xs r)
  case Nil
  then show ?case by (intro exI [of _ "nodes s"] exI [of _ "mp_timer_id_head s"]) simp
next
  case (Cons a as)
  have a: "a \<noteq> NULL" "r = a" "a \<notin> ids xs" "a \<notin> set as" and ch: "chain (nodes s) (p_next (nodes s a)) as"
    using Cons.prems by auto
  have "tlist s xs" using Cons.prems by (simp add: in_list_iff_running_def)
  from prepare_and_insert_rep [OF this a(3,1)] Cons.prems(5) obtain h head where
    h: "prepare_and_insert a s = Some (s\<lparr>nodes := h, mp_timer_id_head := head\<rparr>)"
      "tlist (s\<lparr>nodes := h, mp_timer_id_head := head\<rparr>) (tinsert (a, rem a) xs)"
      "\<And>b. is_running (h b) \<longleftrightarrow> b = a \<or> is_running (nodes s b)"
      "\<And>b. node_cfg (h b) = node_cfg (nodes s b)"
      "\<And>b. b \<notin> insert a (ids xs) \<Longrightarrow> h b = nodes s b" by auto
  let ?s = "s\<lparr>nodes := h, mp_timer_id_head := head\<rparr>"
  have run: "insertions_ops i r s = insertions_ops i (p_next (nodes s a)) ?s"
    using a h(1) by (subst insertions_ops.simps) (simp add: Let_def)
  have same: "h b = nodes s b" if "b \<in> set as" for b
  proof (rule h(5))
    have "b \<notin> ids xs" using that Cons.prems(4) by (metis disjoint_iff list.set_intros(2))
    moreover have "b \<noteq> a" using that a(4) by metis
    ultimately show "b \<notin> insert a (ids xs)" by simp
  qed
  have il: "in_list_iff_running ?s (tinsert (a, rem a) xs)"
    using h(2,3) Cons.prems(1) by (auto simp: in_list_iff_running_def)
  have ch': "chain (nodes ?s) (p_next (nodes s a)) as" using chain_cong [of as h "nodes s"] same ch by simp
  have "distinct as" "set as \<inter> ids (tinsert (a, rem a) xs) = {}" using Cons.prems a by auto
  moreover have "\<forall>b \<in> set as. rem b = rem_ticks (m_ticks_latest ?s) (ticks_at_start (nodes ?s b)) (ticks_first_interval (nodes ?s b))"
    using Cons.prems(5) same by simp
  ultimately obtain h' head' where
    h': "insertions_ops i (p_next (nodes s a)) ?s = insertions_ops i NULL (?s\<lparr>nodes := h', mp_timer_id_head := head'\<rparr>)"
      "in_list_iff_running (?s\<lparr>nodes := h', mp_timer_id_head := head'\<rparr>) (fold (\<lambda>a. tinsert (a, rem a)) as (tinsert (a, rem a) xs))"
      "\<forall>b. node_cfg (h' b) = node_cfg (nodes ?s b)"
    using Cons.IH [OF il ch'] by blast
  show ?case using run h' h(4) by (intro exI [of _ h'] exI [of _ head']) simp
qed

type_synonym cfg_map = "ptr \<Rightarrow> u32 \<times> app_timer_mode \<times> ptr \<times> ptr"

definition cfg_started :: "timer_user_op \<Rightarrow> cfg_map \<Rightarrow> cfg_map" where
  "cfg_started p cfg = cfg(p_node p := (op_ticks_periodic_interval (op_start p), fst (snd (cfg (p_node p))),
     fst (snd (snd (cfg (p_node p)))), op_p_context (op_start p)))"

text \<open>A start operation takes effect if the timer is not in the list.\<close>

fun start_abs :: "u32 \<Rightarrow> bool \<Rightarrow> timer_user_op \<Rightarrow> (ptr \<times> nat) list \<times> cfg_map \<Rightarrow> (ptr \<times> nat) list \<times> cfg_map" where
  "start_abs latest reset p (xs, cfg) =
     (if op_type p = TIMER_USER_OP_TYPE_START \<and> p_node p \<notin> ids xs
      then (tinsert (p_node p, rem_ticks latest (if reset then 0 else op_ticks_at_start (op_start p))
              (op_ticks_first_interval (op_start p))) xs, cfg_started p cfg)
      else (xs, cfg))"

definition cfgs :: "timer_state \<Rightarrow> cfg_map" where
  "cfgs s = (\<lambda>a. node_cfg (nodes s a))"

definition starts_only :: "timer_state \<Rightarrow> timer_state \<Rightarrow> bool" where
  "starts_only s s' \<longleftrightarrow> s' = s\<lparr>nodes := nodes s', mp_timer_id_head := mp_timer_id_head s', mp_users := mp_users s'\<rparr>"

lemma starts_only_fields:
  assumes "starts_only s s'"
  shows "op_mem s' = op_mem s" "m_user_array_size s' = m_user_array_size s"
    "m_ticks_elapsed s' = m_ticks_elapsed s" "m_ticks_elapsed_q_read_ind s' = m_ticks_elapsed_q_read_ind s"
    "m_ticks_elapsed_q_write_ind s' = m_ticks_elapsed_q_write_ind s"
    "m_evt_schedule_func s' = m_evt_schedule_func s" "m_ticks_latest s' = m_ticks_latest s"
    "m_rtc1_reset s' = m_rtc1_reset s" "rtc s' = rtc s" "m_rtc1_running s' = m_rtc1_running s"
  using assms by (cases s; cases s'; simp add: starts_only_def)+

lemma starts_only_refl [simp]: "starts_only s s"
  by (simp add: starts_only_def)

lemma starts_only_trans: "starts_only s s' \<Longrightarrow> starts_only s' s'' \<Longrightarrow> starts_only s s''"
  by (cases s; cases s'; cases s'') (simp add: starts_only_def)

lemma insertion_step:
  assumes "u = mp_users s ! i" "uq_first u \<noteq> uq_last u" "i < length (mp_users s)"
    "p = op_mem s (p_user_op_queue u + unat (uq_first u))" "in_list_iff_running s xs"
    "op_type p = TIMER_USER_OP_TYPE_START \<Longrightarrow> p_node p \<noteq> NULL"
  shows "\<exists>s'. insertions_ops i NULL s = insertions_ops i NULL s' \<and> starts_only s s' \<and>
    mp_users s' = (mp_users s)[i := u\<lparr>uq_first := ring_next u (uq_first u)\<rparr>] \<and>
    (\<exists>xs'. start_abs (m_ticks_latest s) (m_rtc1_reset s) p (xs, cfgs s) = (xs', cfgs s') \<and>
      in_list_iff_running s' xs')"
proof -
  let ?s = "user_upd i (\<lambda>u. u\<lparr>uq_first := ring_next u (uq_first u)\<rparr>) s"
  have s1: "starts_only s ?s" "mp_users ?s = (mp_users s)[i := u\<lparr>uq_first := ring_next u (uq_first u)\<rparr>]"
    "cfgs ?s = cfgs s" "in_list_iff_running ?s xs" "nodes ?s = nodes s" "m_ticks_latest ?s = m_ticks_latest s"
    "m_rtc1_reset ?s = m_rtc1_reset s"
    using assms(1,5) by (simp_all add: user_upd_def starts_only_def cfgs_def in_list_iff_running_def tlist_def)
  have running: "is_running (nodes s a) \<longleftrightarrow> a \<in> ids xs" for a using assms(5) by (simp add: in_list_iff_running_def)
  let ?a = "p_node p"
  show ?thesis
  proof (cases "op_type p = TIMER_USER_OP_TYPE_START \<and> ?a \<notin> ids xs")
    case False
    have "insertions_ops i NULL s = insertions_ops i NULL ?s"
      using assms(1,2,4) False running s1(5) by (subst insertions_ops.simps) (auto simp: Let_def op_at_def)
    then show ?thesis using s1 False by (intro exI [of _ ?s]) auto
  next
    case True
    let ?n = "node_started (m_rtc1_reset s) (op_start p) (nodes s ?a)"
    let ?s2 = "?s\<lparr>nodes := (nodes s)(?a := ?n)\<rparr>"
    have "tlist ?s2 xs" using s1(4) True by (simp add: in_list_iff_running_def tlist_def s1(5))
    from prepare_and_insert_rep [OF this, of ?a] True assms(6) obtain h head where
      h: "prepare_and_insert ?a ?s2 = Some (?s2\<lparr>nodes := h, mp_timer_id_head := head\<rparr>)"
        "tlist (?s2\<lparr>nodes := h, mp_timer_id_head := head\<rparr>) (tinsert (?a,
          rem_ticks (m_ticks_latest ?s2) (ticks_at_start (nodes ?s2 ?a)) (ticks_first_interval (nodes ?s2 ?a))) xs)"
        "\<forall>b. is_running (h b) \<longleftrightarrow> b = ?a \<or> is_running (nodes ?s2 b)"
        "\<forall>b. node_cfg (h b) = node_cfg (nodes ?s2 b)" by blast
    let ?s3 = "?s2\<lparr>nodes := h, mp_timer_id_head := head\<rparr>"
    have "insertions_ops i NULL s = insertions_ops i NULL ?s3"
      using assms(1,2,4) True running s1(5,7) h(1)
      by (subst insertions_ops.simps) (simp add: Let_def op_at_def node_upd_def)
    moreover have "starts_only s ?s3" "mp_users ?s3 = mp_users ?s" by (simp_all add: starts_only_def user_upd_def)
    moreover have "cfgs ?s3 = cfg_started p (cfgs s)"
      using h(4) by (auto simp: cfgs_def cfg_started_def node_cfg_def node_started_def Let_def fun_eq_iff)
    moreover have "rem_ticks (m_ticks_latest ?s2) (ticks_at_start (nodes ?s2 ?a)) (ticks_first_interval (nodes ?s2 ?a)) =
        rem_ticks (m_ticks_latest s) (if m_rtc1_reset s then 0 else op_ticks_at_start (op_start p))
              (op_ticks_first_interval (op_start p))"
      using s1(6) by (simp add: node_started_def Let_def)
    moreover have "is_running (h b) \<longleftrightarrow> b = ?a \<or> b \<in> ids xs" for b
      using h(3) running by (simp add: node_started_def Let_def)
    ultimately show ?thesis
      using True h(2) s1(2) by (intro exI [of _ ?s3]) (auto simp: in_list_iff_running_def)
  qed
qed

definition starts_sim :: "timer_user_op list \<Rightarrow> timer_state \<Rightarrow> (ptr \<times> nat) list \<Rightarrow> timer_state \<Rightarrow> (ptr \<times> nat) list \<Rightarrow> bool" where
  "starts_sim ps s xs s' xs' \<longleftrightarrow> starts_only s s' \<and> in_list_iff_running s' xs' \<and>
     fold (start_abs (m_ticks_latest s) (m_rtc1_reset s)) ps (xs, cfgs s) = (xs', cfgs s')"

lemma starts_sim_trans:
  "starts_sim ps s xs s' xs' \<Longrightarrow> starts_sim qs s' xs' s'' xs'' \<Longrightarrow> starts_sim (ps @ qs) s xs s'' xs''"
  unfolding starts_sim_def by (auto intro: starts_only_trans simp: starts_only_fields)

definition start_ids_ok :: "timer_user_op list \<Rightarrow> bool" where
  "start_ids_ok ps \<longleftrightarrow> (\<forall>p \<in> set ps. op_type p = TIMER_USER_OP_TYPE_START \<longrightarrow> p_node p \<noteq> NULL)"

lemma insertions_ring_rep:
  assumes "u = mp_users s ! i" "i < length (mp_users s)" "uq_ok u" "ring_dist u (uq_first u) = n"
    "in_list_iff_running s xs" "start_ids_ok (ring_ops (op_mem s) u n (uq_first u))"
  shows "\<exists>s' xs'. insertions_ops i NULL s = Some (NULL, s') \<and>
    starts_sim (ring_ops (op_mem s) u n (uq_first u)) s xs s' xs' \<and>
    mp_users s' = (mp_users s)[i := u\<lparr>uq_first := uq_last u\<rparr>]"
  using assms
proof (induction n arbitrary: s xs u)
  case 0
  then have l: "uq_first u = uq_last u" using ring_dist_0 by (auto simp: uq_ok_def)
  then have "insertions_ops i NULL s = Some (NULL, s)" using 0 by (subst insertions_ops.simps) (simp add: Let_def)
  moreover have "u\<lparr>uq_first := uq_last u\<rparr> = u" using l by (cases u) simp
  then have "mp_users s = (mp_users s)[i := u\<lparr>uq_first := uq_last u\<rparr>]" using 0(1) by simp
  moreover have "starts_sim [] s xs s xs" using 0 by (simp add: starts_sim_def)
  ultimately show ?case by fastforce
next
  case (Suc n)
  have ri: "ring_in u (uq_first u)" "ring_in u (uq_last u)" using Suc.prems by (auto simp: uq_ok_def)
  then have ne: "uq_first u \<noteq> uq_last u" using ring_dist_0 [of u "uq_first u"] Suc.prems(4) by auto
  let ?p = "op_mem s (p_user_op_queue u + unat (uq_first u))" and ?f = "ring_next u (uq_first u)"
  let ?u = "u\<lparr>uq_first := ?f\<rparr>"
  have cfg: "ring_ops m ?u k j = ring_ops m u k j" "ring_dist ?u j = ring_dist u j" "ring_in ?u j = ring_in u j" for m k j
    by (simp_all add: ring_ops_cfg [of ?u u] ring_dist_def ring_in_def)
  have d: "ring_dist ?u (uq_first ?u) = n"
    using ring_dist_next [OF ri ne] Suc.prems(4) by (simp add: cfg)
  have ids: "op_type ?p = TIMER_USER_OP_TYPE_START \<Longrightarrow> p_node ?p \<noteq> NULL"
    and ids': "start_ids_ok (ring_ops (op_mem s) u n ?f)" using Suc.prems(6) by (auto simp: start_ids_ok_def)
  from insertion_step [OF Suc.prems(1) ne Suc.prems(2) refl Suc.prems(5) ids] obtain s1 xs1 where
    s1: "insertions_ops i NULL s = insertions_ops i NULL s1" "starts_only s s1" "mp_users s1 = (mp_users s)[i := ?u]"
      "start_abs (m_ticks_latest s) (m_rtc1_reset s) ?p (xs, cfgs s) = (xs1, cfgs s1)" "in_list_iff_running s1 xs1"
    by blast
  note same = starts_only_fields [OF s1(2)]
  have "?u = mp_users s1 ! i" "i < length (mp_users s1)" using s1(3) Suc.prems(2) by simp_all
  moreover have "uq_ok ?u" using ri by (simp add: uq_ok_def cfg)
  moreover have "start_ids_ok (ring_ops (op_mem s1) ?u n (uq_first ?u))" using ids' by (simp add: cfg same)
  ultimately obtain s' xs' where s': "insertions_ops i NULL s1 = Some (NULL, s')"
    "starts_sim (ring_ops (op_mem s1) ?u n (uq_first ?u)) s1 xs1 s' xs'"
    "mp_users s' = (mp_users s1)[i := ?u\<lparr>uq_first := uq_last ?u\<rparr>]"
    using Suc.IH [of ?u s1 xs1] d s1(5) by blast
  have "starts_sim [?p] s xs s1 xs1" using s1 by (simp add: starts_sim_def)
  from starts_sim_trans [OF this s'(2)]
  have "starts_sim (ring_ops (op_mem s) u (Suc n) (uq_first u)) s xs s' xs'" by (simp add: cfg same)
  moreover have "mp_users s' = (mp_users s)[i := u\<lparr>uq_first := uq_last u\<rparr>]" using s'(3) s1(3) by simp
  ultimately show ?case using s1(1) s'(1) by auto
qed

lemma insertions_user_rep:
  assumes "users_ok s" "i < 3" "in_list_iff_running s xs" "start_ids_ok (uops s i)"
  shows "\<exists>s' xs'. insertions_ops i NULL s = Some (NULL, s') \<and> starts_sim (uops s i) s xs s' xs' \<and>
    mp_users s' = (mp_users s)[i := (mp_users s ! i)\<lparr>uq_first := uq_last (mp_users s ! i)\<rparr>]"
  using insertions_ring_rep [OF refl _ users_ok_uq [OF assms(1,2)] refl assms(3)] assms
  unfolding user_ops_def by (auto simp: users_ok_def)

definition emptied :: "timer_user list \<Rightarrow> timer_user list" where
  "emptied us = map (\<lambda>u. u\<lparr>uq_first := uq_last u\<rparr>) us"

lemma users_ok_emptied:
  assumes "users_ok s" "starts_only s s'" "i < 3"
    "mp_users s' = (mp_users s)[i := (mp_users s ! i)\<lparr>uq_first := uq_last (mp_users s ! i)\<rparr>]"
  shows "users_ok s'"
proof -
  from assms(1) have l: "length (mp_users s) = 3" "m_user_array_size s' = 3"
    using starts_only_fields(2) [OF assms(2)] by (simp_all add: users_ok_def)
  from assms(1) obtain n where n: "\<forall>i < 3. uq_ok (mp_users s ! i) \<and> user_op_queue_size (mp_users s ! i) = n \<and>
       p_user_op_queue (mp_users s ! i) = i * unat n" by (auto simp: users_ok_def)
  have "uq_ok (mp_users s' ! k) \<and> user_op_queue_size (mp_users s' ! k) = n \<and>
       p_user_op_queue (mp_users s' ! k) = k * unat n" if "k < 3" for k
    using n l that assms(3) unfolding assms(4)
    by (cases "k = i") (auto simp: uq_ok_def ring_in_def)
  with l assms(4) show ?thesis unfolding users_ok_def by auto
qed

lemma emptied_3:
  assumes "length us = 3"
  shows "((us[2 := f (us ! 2)])[1 := f (us ! 1)])[0 := f (us ! 0)] = map f us"
proof -
  obtain a b c where "us = [a, b, c]" using assms by (auto simp: numeral_3_eq_3 length_Suc_conv)
  then show ?thesis by (simp add: numeral_2_eq_2)
qed

text \<open>Restarted timers go into the list first, then the start operations take effect.\<close>

lemma list_insertions_handler_rep:
  assumes "users_ok s" "in_list_iff_running s xs" "start_ids_ok (pending s)"
    "chain (nodes s) r rs" "distinct rs" "set rs \<inter> ids xs = {}"
    "\<forall>a \<in> set rs. rem a = rem_ticks (m_ticks_latest s) (ticks_at_start (nodes s a)) (ticks_first_interval (nodes s a))"
  shows "\<exists>s' xs'. list_insertions_handler r s = Some (mp_timer_id_head s' \<noteq> mp_timer_id_head s, s') \<and>
    starts_only s s' \<and> mp_users s' = emptied (mp_users s) \<and> in_list_iff_running s' xs' \<and>
    fold (start_abs (m_ticks_latest s) (m_rtc1_reset s)) (pending s) (fold (\<lambda>a. tinsert (a, rem a)) rs xs, cfgs s) =
      (xs', cfgs s')"
proof -
  from restarts_rep [OF assms(2,4-7), of 2] obtain h head where
    h: "insertions_ops 2 r s = insertions_ops 2 NULL (s\<lparr>nodes := h, mp_timer_id_head := head\<rparr>)"
      "in_list_iff_running (s\<lparr>nodes := h, mp_timer_id_head := head\<rparr>) (fold (\<lambda>a. tinsert (a, rem a)) rs xs)"
      "\<forall>b. node_cfg (h b) = node_cfg (nodes s b)" by blast
  let ?s = "s\<lparr>nodes := h, mp_timer_id_head := head\<rparr>" and ?xs = "fold (\<lambda>a. tinsert (a, rem a)) rs xs"
  let ?us = "mp_users s"
  have u: "users_ok ?s" using assms(1) by (simp add: users_ok_def)
  have len: "length ?us = 3" using assms(1) by (simp add: users_ok_def)
  have ids: "start_ids_ok (uops s i)" if "i < 3" for i
  proof -
    have "i = 0 \<or> i = 1 \<or> i = 2" using that by linarith
    then have "set (uops s i) \<subseteq> set (pending s)" by (auto simp: pending_def)
    with assms(3) show ?thesis unfolding start_ids_ok_def by blast
  qed
  from insertions_user_rep [OF u, of 2 ?xs] h(2) ids obtain s2 xs2 where
    s2: "insertions_ops 2 NULL ?s = Some (NULL, s2)" "starts_sim (uops s 2) ?s ?xs s2 xs2"
      "mp_users s2 = ?us[2 := (?us ! 2)\<lparr>uq_first := uq_last (?us ! 2)\<rparr>]" by auto
  have o2: "starts_only ?s s2" "in_list_iff_running s2 xs2" using s2(2) by (auto simp: starts_sim_def)
  have u2: "users_ok s2" by (rule users_ok_emptied [OF u o2(1), of 2]) (use s2(3) in simp_all)
  have q2: "uops s2 1 = uops s 1" "uops s2 0 = uops s 0" "mp_users s2 ! 1 = ?us ! 1" "mp_users s2 ! 0 = ?us ! 0"
    using s2(3) len starts_only_fields [OF o2(1)] by simp_all
  from insertions_user_rep [OF u2, of 1 xs2] o2 ids q2 obtain s1 xs1 where
    s1: "insertions_ops 1 NULL s2 = Some (NULL, s1)" "starts_sim (uops s 1) s2 xs2 s1 xs1"
      "mp_users s1 = (mp_users s2)[1 := (?us ! 1)\<lparr>uq_first := uq_last (?us ! 1)\<rparr>]" by auto
  have o1: "starts_only s2 s1" "in_list_iff_running s1 xs1" using s1(2) by (auto simp: starts_sim_def)
  have u1: "users_ok s1" by (rule users_ok_emptied [OF u2 o1(1), of 1]) (use s1(3) q2 in simp_all)
  have q1: "uops s1 0 = uops s 0" "mp_users s1 ! 0 = ?us ! 0"
    using s1(3) q2 len starts_only_fields [OF o1(1)] by simp_all
  from insertions_user_rep [OF u1, of 0 xs1] o1 ids q1 obtain s0 xs0 where
    s0: "insertions_ops 0 NULL s1 = Some (NULL, s0)" "starts_sim (uops s 0) s1 xs1 s0 xs0"
      "mp_users s0 = (mp_users s1)[0 := (?us ! 0)\<lparr>uq_first := uq_last (?us ! 0)\<rparr>]" by auto
  have "starts_sim (pending s) ?s ?xs s0 xs0"
    unfolding pending_def using starts_sim_trans [OF s2(2) starts_sim_trans [OF s1(2) s0(2)]] by simp
  then have sim: "starts_only ?s s0" "in_list_iff_running s0 xs0"
    "fold (start_abs (m_ticks_latest s) (m_rtc1_reset s)) (pending s) (?xs, cfgs ?s) = (xs0, cfgs s0)"
    by (auto simp: starts_sim_def)
  have "cfgs ?s = cfgs s" using h(3) by (simp add: cfgs_def)
  moreover have "starts_only s s0" using starts_only_trans [of s ?s s0] sim(1) by (simp add: starts_only_def)
  moreover have "mp_users s0 = emptied ?us"
    unfolding s0(3) s1(3) s2(3) emptied_def by (rule emptied_3 [OF len])
  moreover have "unat (m_user_array_size s) = Suc (Suc (Suc 0))" using assms(1) by (simp add: users_ok_def)
  then have "list_insertions_handler r s = Some (mp_timer_id_head s0 \<noteq> mp_timer_id_head s, s0)"
    using h(1) s2(1) s1(1) s0(1) by (simp add: list_insertions_handler_def numeral_2_eq_2)
  ultimately show ?thesis using sim by auto
qed

subsection \<open>The list handler\<close>

definition restart_abs :: "u32 \<Rightarrow> u32 \<Rightarrow> cfg_map \<Rightarrow> ptr \<times> nat \<Rightarrow> (ptr \<times> nat) list \<Rightarrow> (ptr \<times> nat) list" where
  "restart_abs previous latest cfg x =
     tinsert (fst x, rem_ticks latest ((previous + of_nat (snd x)) AND MAX_RTC_COUNTER_VAL) (fst (cfg (fst x))))"

text \<open>
  The list and the timers' settings after the list handler: perform the stop operations, remove the
  timers that expired within the elapsed ticks, insert the periodic ones among them again, perform the
  start operations. Expiry times are relative to the last known counter value.
\<close>

definition handler_abs :: "timer_state \<Rightarrow> (ptr \<times> nat) list \<Rightarrow> (ptr \<times> nat) list \<times> cfg_map" where
  "handler_abs s xs =
     (let latest = (case queued_elapsed s of None \<Rightarrow> m_ticks_latest s
          | Some k \<Rightarrow> (m_ticks_latest s + of_nat k) AND MAX_RTC_COUNTER_VAL);
          (xs, latest, reset) = dels_abs (pending s) (xs, latest, m_rtc1_reset s);
          xs = (case queued_elapsed s of None \<Rightarrow> xs
            | Some k \<Rightarrow> fold (restart_abs (m_ticks_latest s) latest (cfgs s))
                (rev (filter (periodic (nodes s)) (due k xs))) (later k xs))
      in fold (start_abs latest reset) (pending s) (xs, cfgs s))"

lemma del_abs_sub: "set (fst (del_abs p v)) \<subseteq> set (fst v)"
  by (cases v) (auto simp: tremove_def split: timer_user_op_type.splits)

lemma dels_abs_sub: "set (fst (dels_abs ps v)) \<subseteq> set (fst v)"
proof (induction ps arbitrary: v)
  case (Cons p ps)
  from order_trans [OF this del_abs_sub] show ?case by simp
qed simp

lemma dels_abs_stopped:
  assumes "p \<in> set ps" "is_stop a p"
  shows "a \<notin> ids (fst (dels_abs ps v))"
  using assms(1)
proof (induction ps arbitrary: v)
  case (Cons q ps)
  show ?case
  proof (cases "q = p")
    case True
    have "a \<notin> ids (fst (del_abs p v))" using assms(2) by (cases v) (auto simp: is_stop_def tremove_def)
    moreover have "ids (fst (dels_abs ps (del_abs p v))) \<subseteq> ids (fst (del_abs p v))"
      by (rule image_mono) (rule dels_abs_sub)
    ultimately show ?thesis using True by (simp add: subset_iff) metis
  next
    case False
    with Cons show ?thesis by simp
  qed
qed simp

lemma u8_less_2: "i < 2 \<Longrightarrow> i = 0 \<or> i = 1" for i :: u8
proof -
  assume "i < 2"
  then have "unat i < 2" using word_less_nat_alt [of i 2] by simp
  then have "unat i = unat (0 :: u8) \<or> unat i = unat (1 :: u8)" by auto
  then show ?thesis by (metis word_unat_eq_iff)
qed

lemma elapsed_ticks_acquire_eq:
  assumes "elapsed_ok s"
  shows "elapsed_ticks_acquire s =
    (case queued_elapsed s of None \<Rightarrow> (False, 0, s)
     | Some k \<Rightarrow> (True, of_nat k, s\<lparr>m_ticks_elapsed_q_read_ind := m_ticks_elapsed_q_write_ind s,
         m_ticks_latest := (m_ticks_latest s + of_nat k) AND MAX_RTC_COUNTER_VAL\<rparr>))"
proof -
  have "m_ticks_elapsed_q_read_ind s = 0 \<or> m_ticks_elapsed_q_read_ind s = 1"
    "m_ticks_elapsed_q_write_ind s = 0 \<or> m_ticks_elapsed_q_write_ind s = 1"
    using assms u8_less_2 by (auto simp: elapsed_ok_def)
  then show ?thesis
    by (auto simp: elapsed_ticks_acquire_def queued_elapsed_def Let_def)
qed

end
