(* ===== verification/TimerProps.thy ===== *)
theory TimerProps
  imports TimerRefine
begin

text \<open>
  The theorems on the application timer: the list handler as a whole, the timeouts, runs of the system
  and the cases in which the code goes wrong.
\<close>

unbundle bit_operations_syntax

subsection \<open>The list handler as a whole\<close>

lemma compare_reg_update_fields [simp]:
  "nodes (compare_reg_update s) = nodes s" "mp_timer_id_head (compare_reg_update s) = mp_timer_id_head s"
  "op_mem (compare_reg_update s) = op_mem s" "mp_users (compare_reg_update s) = mp_users s"
  "m_user_array_size (compare_reg_update s) = m_user_array_size s"
  "m_ticks_elapsed (compare_reg_update s) = m_ticks_elapsed s"
  "m_ticks_elapsed_q_read_ind (compare_reg_update s) = m_ticks_elapsed_q_read_ind s"
  "m_ticks_elapsed_q_write_ind (compare_reg_update s) = m_ticks_elapsed_q_write_ind s"
  "m_ticks_latest (compare_reg_update s) = (if mp_timer_id_head s = NULL then 0 else m_ticks_latest s)"
  by (simp_all add: compare_reg_update_def Let_def rtc1_stop_def rtc1_start_def rtc1_compare0_set_def
      timer_timeouts_check_sched_def rtc1_counter_get_def split: prod.splits)

lemma later_split:
  assumes "sorted (map snd xs)"
  shows "x \<in> set (dropWhile (\<lambda>x. snd x \<le> k) xs) \<longleftrightarrow> x \<in> set xs \<and> k < snd x"
  using assms
proof (induction xs)
  case (Cons y ys)
  then have "\<forall>z \<in> set ys. snd y \<le> snd z" by auto
  with Cons show ?case by force
qed simp

lemma due_set: "sorted (map snd xs) \<Longrightarrow> x \<in> set (due k xs) \<longleftrightarrow> x \<in> set xs \<and> snd x \<le> k"
proof (induction xs)
  case (Cons y ys)
  then have "\<forall>z \<in> set ys. snd y \<le> snd z" by auto
  with Cons show ?case by (fastforce simp: due_def)
qed (simp add: due_def)

lemma ids_later: "ids (later k xs) = ids (dropWhile (\<lambda>x. snd x \<le> k) xs)"
  by (auto simp: later_def image_image)

lemma ids_due_later: "distinct (map fst xs) \<Longrightarrow> ids (due k xs) \<inter> ids (later k xs) = {}"
proof -
  assume "distinct (map fst xs)"
  then have "distinct (map fst (due k xs @ dropWhile (\<lambda>x. snd x \<le> k) xs))" by (simp add: due_def)
  then show ?thesis by (simp add: ids_later del: takeWhile_dropWhile_id)
qed

lemma emptied_pending:
  assumes "mp_users s' = emptied us" "length us = 3"
  shows "pending s' = []"
proof -
  have "user_ops m (u\<lparr>uq_first := uq_last u\<rparr>) = []" for m u by (simp add: user_ops_def ring_dist_def)
  with assms show ?thesis by (simp add: pending_def emptied_def)
qed

lemma emptied_users_ok:
  assumes "users_ok s" "mp_users s' = emptied (mp_users s)" "m_user_array_size s' = m_user_array_size s"
  shows "users_ok s'"
proof -
  from assms(1) have l: "length (mp_users s) = 3" "m_user_array_size s' = 3"
    using assms(3) by (simp_all add: users_ok_def)
  from assms(1) obtain n where n: "\<forall>i < 3. uq_ok (mp_users s ! i) \<and> user_op_queue_size (mp_users s ! i) = n \<and>
       p_user_op_queue (mp_users s ! i) = i * unat n" by (auto simp: users_ok_def)
  have "uq_ok (mp_users s' ! k) \<and> user_op_queue_size (mp_users s' ! k) = n \<and>
       p_user_op_queue (mp_users s' ! k) = k * unat n" if "k < 3" for k
    using n [rule_format, OF that] l(1) that by (auto simp: assms(2) emptied_def uq_ok_def ring_in_def)
  with l assms(2) show ?thesis unfolding users_ok_def emptied_def by auto
qed

text \<open>The last two steps: new timers, and the compare register.\<close>

definition settled :: "(ptr \<times> nat) list \<Rightarrow> timer_state \<Rightarrow> bool" where
  "settled xs s \<longleftrightarrow> timer_inv None {} xs s \<and> pending s = [] \<and> queued_elapsed s = None \<and>
     (\<forall>a. is_running (nodes s a) \<longleftrightarrow> a \<in> ids xs)"

lemma settledI:
  assumes "in_list_iff_running s xs" "users_ok s0" "mp_users s = emptied (mp_users s0)"
    "m_user_array_size s = m_user_array_size s0" "elapsed_ok s"
    "m_ticks_elapsed_q_read_ind s = m_ticks_elapsed_q_write_ind s"
  shows "settled xs s"
proof -
  have u: "users_ok s" by (rule emptied_users_ok [OF assms(2,3,4)])
  have p: "pending s = []" using emptied_pending [OF assms(3)] assms(2) by (simp add: users_ok_def)
  have r: "is_running (nodes s a) \<longleftrightarrow> a \<in> ids xs" for a using assms(1) by (simp add: in_list_iff_running_def)
  have "timer_inv None {} xs s"
    by (rule timer_invI [OF _ u assms(5)]) (use assms(1) p r in \<open>auto simp: in_list_iff_running_def\<close>)
  then show ?thesis using p r assms(6) by (simp add: settled_def queued_elapsed_def)
qed

lemma fold_restart_abs:
  assumes "distinct (map fst xs)" "set ys \<subseteq> set xs"
  shows "fold (\<lambda>a. tinsert (a, rem_ticks latest ((previous + of_nat (the (map_of xs a))) AND MAX_RTC_COUNTER_VAL)
      (fst (cfg a)))) (map fst ys) zs = fold (restart_abs previous latest cfg) ys zs"
  unfolding fold_map o_def
  by (rule fold_cong) (use assms in \<open>auto simp: restart_abs_def map_of_eq_Some_iff fun_eq_iff\<close>)

lemma expired_timers_handler_rep:
  assumes "timer_inv (Some k) (due_ids (Some k) xs) xs s" "k < 2 ^ 32" "del_sim s0 xs s2 xs2"
    "\<forall>a. is_running (nodes s0 a) = is_running (nodes s a)"
    "\<forall>p a. p \<in> set (pending s) \<longrightarrow> is_stop a p \<longrightarrow> a \<notin> ids xs2"
  defines "L \<equiv> rev (filter (periodic (nodes s2)) (due k xs2))"
  shows "\<exists>s3 r. expired_timers_handler (of_nat k) previous NULL s2 = Some (r, s3) \<and> list_only s2 s3 \<and>
    m_ticks_latest s3 = m_ticks_latest s2 \<and> m_rtc1_reset s3 = m_rtc1_reset s2 \<and> cfgs s3 = cfgs s2 \<and>
    in_list_iff_running s3 (later k xs2) \<and> chain (nodes s3) r (map fst L) \<and> distinct (map fst L) \<and>
    set (map fst L) \<inter> ids (later k xs2) = {} \<and>
    (\<forall>a \<in> set (map fst L). rem_ticks latest ((previous + of_nat (the (map_of xs2 a))) AND MAX_RTC_COUNTER_VAL) (fst (cfgs s2 a)) =
      rem_ticks latest (ticks_at_start (nodes s3 a)) (ticks_first_interval (nodes s3 a)))"
proof -
  have t: "timers_rep (nodes s2) (mp_timer_id_head s2) 0 xs2" "distinct (map fst xs2)" "set xs2 \<subseteq> set xs"
    and run2: "is_running (nodes s2 a) \<longleftrightarrow> is_running (nodes s a) \<and> a \<in> ids xs2" for a
    using assms(3,4) by (auto simp: del_sim_def tlist_def)
  note sorted = timers_rep_sorted [OF t(1)]
  have "unat (of_nat k :: u32) = k - 0" using unat_of_nat_u32 [of k] assms(2) by simp
  then obtain s3 r where
    s3: "expired_loop (of_nat k) previous 0 NULL s2 = Some (r, s3)"
      "s3 = s2\<lparr>nodes := nodes s3, mp_timer_id_head := mp_timer_id_head s3\<rparr>"
      "timers_rep (nodes s3) (mp_timer_id_head s3) 0 (later k xs2)"
      "chain (nodes s3) r (map fst L)"
      "\<forall>a. node_cfg (nodes s3 a) = node_cfg (nodes s2 a) \<and> is_running (nodes s3 a) = is_running (nodes s2 a)"
      "\<forall>x \<in> set (due k xs2). periodic (nodes s2) x \<longrightarrow> restarts_at previous x (nodes s2) (nodes s3)"
    using expired_loop_rep [OF t(1), of "[]" NULL "of_nat k" k 0 previous] t(2) unfolding L_def by auto
  have run3: "is_running (nodes s3 a) \<longleftrightarrow> a \<in> ids (later k xs2)" for a
  proof
    assume "is_running (nodes s3 a)"
    then have a: "is_running (nodes s a)" "a \<in> ids xs2" using s3(5) run2 by auto
    then obtain e where e: "(a, e) \<in> set xs2" by auto
    have "k < e" using timer_invD(8) [OF assms(1), of a] t(3) e a(1) unfolding due_ids_def by force
    with e have "(a, e) \<in> set (dropWhile (\<lambda>x. snd x \<le> k) xs2)" by (simp add: later_split [OF sorted])
    then show "a \<in> ids (later k xs2)" unfolding ids_later by force
  next
    assume "a \<in> ids (later k xs2)"
    then obtain e where e: "(a, e) \<in> set (dropWhile (\<lambda>x. snd x \<le> k) xs2)" by (auto simp: ids_later)
    then have e2: "(a, e) \<in> set xs2" "k < e" by (auto simp: later_split [OF sorted])
    then have a2: "a \<in> ids xs2" by force
    have "is_running (nodes s a)"
      using timer_invD(7) [OF assms(1), of "(a, e)"] t(3) e2 assms(5) a2 by auto
    then show "is_running (nodes s3 a)" using s3(5) run2 a2 by blast
  qed
  have "distinct (map fst (dropWhile (\<lambda>x. snd x \<le> k) xs2))" "distinct (map fst (due k xs2))"
    using t(2) unfolding due_def by (metis distinct_append map_append takeWhile_dropWhile_id)+
  then have dl: "distinct (map fst (later k xs2))" and dd: "distinct (map fst (due k xs2))"
    by (simp_all add: later_def o_def)
  have LD: "set L \<subseteq> set (due k xs2)" by (auto simp: L_def)
  have dL: "distinct (map fst L)" using dd unfolding L_def by (simp add: distinct_map_filter flip: rev_map)
  have disj: "set (map fst L) \<inter> ids (later k xs2) = {}"
    using ids_due_later [OF t(2), of k] image_mono [OF LD, of fst] unfolding set_map by blast
  have rem: "rem_ticks latest ((previous + of_nat (the (map_of xs2 a))) AND MAX_RTC_COUNTER_VAL) (fst (cfgs s2 a)) =
      rem_ticks latest (ticks_at_start (nodes s3 a)) (ticks_first_interval (nodes s3 a))" if "a \<in> set (map fst L)" for a
  proof -
    from that obtain e where e: "(a, e) \<in> set L" by auto
    then have e': "(a, e) \<in> set (due k xs2)" "periodic (nodes s2) (a, e)" by (auto simp: L_def)
    then have "(a, e) \<in> set xs2" by (auto simp: due_def dest: set_takeWhileD)
    then have "map_of xs2 a = Some e" using t(2) by (simp add: map_of_eq_Some_iff)
    moreover have "restarts_at previous (a, e) (nodes s2) (nodes s3)" using s3(6) e' by blast
    ultimately show ?thesis by (simp add: restarts_at_def cfgs_def node_cfg_def)
  qed
  have lo: "list_only s2 s3" "m_ticks_latest s3 = m_ticks_latest s2" "m_rtc1_reset s3 = m_rtc1_reset s2"
    by (subst s3(2), simp add: list_only_def)+
  have "in_list_iff_running s3 (later k xs2)" using s3(3) dl run3 by (simp add: in_list_iff_running_def tlist_def)
  moreover have "cfgs s3 = cfgs s2" using s3(5) by (simp add: cfgs_def)
  moreover have "expired_timers_handler (of_nat k) previous NULL s2 = Some (r, s3)"
    using s3(1) by (simp add: expired_timers_handler_def)
  ultimately show ?thesis using lo s3(4) dL disj rem by blast
qed

text \<open>The last known counter value after the list handler, unless the list is empty.\<close>

definition handler_latest :: "timer_state \<Rightarrow> (ptr \<times> nat) list \<Rightarrow> u32" where
  "handler_latest s xs =
     fst (snd (dels_abs (pending s) (xs, case queued_elapsed s of None \<Rightarrow> m_ticks_latest s
       | Some k \<Rightarrow> (m_ticks_latest s + of_nat k) AND MAX_RTC_COUNTER_VAL, m_rtc1_reset s)))"

lemma handler_core:
  assumes "timer_ok xs s"
  shows "\<exists>s'. timer_list_handler s = Some s' \<and> settled (fst (handler_abs s xs)) s' \<and>
    cfgs s' = snd (handler_abs s xs) \<and> \<not> m_rtc1_reset s' \<and>
    (fst (handler_abs s xs) \<noteq> [] \<longrightarrow> m_ticks_latest s' = handler_latest s xs)"
proof -
  note inv = timer_invD [OF assms]
  define lat where "lat = (case queued_elapsed s of None \<Rightarrow> m_ticks_latest s
    | Some k \<Rightarrow> (m_ticks_latest s + of_nat k) AND MAX_RTC_COUNTER_VAL)"
  let ?s0 = "s\<lparr>m_max_user_op_queue_utilization :=
    profile_users (take 3 (mp_users s)) (m_max_user_op_queue_utilization s)\<rparr>"
  define s1 where "s1 = ?s0\<lparr>m_ticks_elapsed_q_read_ind := m_ticks_elapsed_q_write_ind s, m_ticks_latest := lat\<rparr>"
  define el where "el = (case queued_elapsed s of None \<Rightarrow> (False, 0) | Some k \<Rightarrow> (True, of_nat k :: u32))"
  have el0: "elapsed_ok ?s0" "queued_elapsed ?s0 = queued_elapsed s"
    using inv(3) by (simp_all add: elapsed_ok_def queued_elapsed_def)
  have acq: "elapsed_ticks_acquire ?s0 = (fst el, snd el, s1)"
    unfolding elapsed_ticks_acquire_eq [OF el0(1)] el0(2)
    by (auto simp: el_def s1_def lat_def queued_elapsed_def split: option.splits if_splits)
  have f1: "nodes s1 = nodes s" "op_mem s1 = op_mem s" "mp_users s1 = mp_users s" "m_user_array_size s1 = m_user_array_size s"
    "mp_timer_id_head s1 = mp_timer_id_head s" "m_ticks_latest s1 = lat" "m_rtc1_reset s1 = m_rtc1_reset s"
    "m_ticks_elapsed s1 = m_ticks_elapsed s" "m_ticks_elapsed_q_read_ind s1 = m_ticks_elapsed_q_write_ind s"
    "m_ticks_elapsed_q_write_ind s1 = m_ticks_elapsed_q_write_ind s" by (simp_all add: s1_def)
  have u1: "users_ok s1" and p1: "pending s1 = pending s" using inv(2) by (simp_all add: users_ok_def pending_def f1)
  have "tlist s1 xs" using inv(1) by (simp add: tlist_def f1)
  then have "del_ready s1 xs (pending s1)"
    using inv(5,6) unfolding del_ready_def f1 p1 by blast
  from list_deletions_handler_rep [OF u1 this] obtain s2 xs2 where
    s2: "list_deletions_handler s1 = Some (mp_timer_id_head s2 \<noteq> mp_timer_id_head s1, s2)" "del_sim s1 xs s2 xs2"
      "list_view xs2 s2 = dels_abs (pending s) (list_view xs s1)" unfolding p1 by blast
  have lo2: "list_only s1 s2" and cfg2: "cfgs s2 = cfgs s" and rep2: "tlist s2 xs2" "set xs2 \<subseteq> set xs"
    and run2: "\<And>a. is_running (nodes s2 a) \<longleftrightarrow> is_running (nodes s a) \<and> a \<in> ids xs2"
    using s2(2) by (auto simp: del_sim_def cfgs_def f1)
  note f2 = list_only_fields [OF lo2]
  have gone: "a \<notin> ids xs2" if "p \<in> set (pending s)" "is_stop a p" for p a
    using dels_abs_stopped [OF that, of "list_view xs s1"] s2(3) by (metis fst_conv list_view_def)
  have view: "dels_abs (pending s) (xs, lat, m_rtc1_reset s) = (xs2, m_ticks_latest s2, m_rtc1_reset s2)"
    using s2(3) by (simp add: list_view_def f1)
  have per: "periodic (nodes s2) = periodic (nodes s)"
    using cfg2 by (auto simp: cfgs_def fun_eq_iff intro!: periodic_cong)
  define L where "L = (case queued_elapsed s of None \<Rightarrow> [] | Some k \<Rightarrow> rev (filter (periodic (nodes s2)) (due k xs2)))"
  define xs3 where "xs3 = (case queued_elapsed s of None \<Rightarrow> xs2 | Some k \<Rightarrow> later k xs2)"
  define rem where "rem a = rem_ticks (m_ticks_latest s2)
    ((m_ticks_latest s + of_nat (the (map_of xs2 a))) AND MAX_RTC_COUNTER_VAL) (fst (cfgs s2 a))" for a
  have "\<exists>s3 r. (if fst el then do { (p_restart, s) \<leftarrow> expired_timers_handler (snd el) (m_ticks_latest s) NULL s2;
                     Some (True, p_restart, s) }
           else Some (mp_timer_id_head s2 \<noteq> mp_timer_id_head s1, NULL, s2)) =
        Some (fst el \<or> mp_timer_id_head s2 \<noteq> mp_timer_id_head s1, r, s3) \<and>
      list_only s2 s3 \<and> m_ticks_latest s3 = m_ticks_latest s2 \<and> m_rtc1_reset s3 = m_rtc1_reset s2 \<and>
      cfgs s3 = cfgs s2 \<and> in_list_iff_running s3 xs3 \<and> chain (nodes s3) r (map fst L) \<and> distinct (map fst L) \<and>
      set (map fst L) \<inter> ids xs3 = {} \<and>
      (\<forall>a \<in> set (map fst L). rem a =
        rem_ticks (m_ticks_latest s2) (ticks_at_start (nodes s3 a)) (ticks_first_interval (nodes s3 a)))"
  proof (cases "queued_elapsed s")
    case None
    have "is_running (nodes s2 a)" if a: "a \<in> ids xs2" for a
    proof -
      obtain e where e: "(a, e) \<in> set xs2" using a by auto
      have "is_running (nodes s a)"
        using inv(7) [of "(a, e)"] rep2(2) e gone a None by auto
      with a run2 show ?thesis by blast
    qed
    then have "in_list_iff_running s2 xs2" using rep2(1) run2 by (auto simp: in_list_iff_running_def)
    then show ?thesis using None by (simp add: el_def L_def xs3_def)
  next
    case (Some k)
    have k: "k < 2 ^ 32" using Some u32_less by (auto simp: queued_elapsed_def split: if_splits)
    have "\<forall>a. is_running (nodes s1 a) = is_running (nodes s a)" by (simp add: f1)
    moreover have "\<forall>p a. p \<in> set (pending s) \<longrightarrow> is_stop a p \<longrightarrow> a \<notin> ids xs2" using gone by blast
    note expired_timers_handler_rep [OF assms [unfolded Some] k s2(2) calculation this,
        where previous = "m_ticks_latest s" and latest = "m_ticks_latest s2"]
    then obtain s3 r where "expired_timers_handler (of_nat k) (m_ticks_latest s) NULL s2 = Some (r, s3)" "list_only s2 s3"
      "m_ticks_latest s3 = m_ticks_latest s2" "m_rtc1_reset s3 = m_rtc1_reset s2" "cfgs s3 = cfgs s2"
      "in_list_iff_running s3 xs3" "chain (nodes s3) r (map fst L)" "distinct (map fst L)"
      "set (map fst L) \<inter> ids xs3 = {}" "\<forall>a \<in> set (map fst L). rem a =
        rem_ticks (m_ticks_latest s2) (ticks_at_start (nodes s3 a)) (ticks_first_interval (nodes s3 a))"
      using Some by (auto simp: f1 L_def xs3_def rem_def)
    then show ?thesis using Some by (intro exI [of _ s3] exI [of _ r] conjI) (simp_all add: el_def)
  qed
  then obtain s3 r where ex: "(if fst el then do { (p_restart, s) \<leftarrow> expired_timers_handler (snd el) (m_ticks_latest s) NULL s2;
                     Some (True, p_restart, s) }
           else Some (mp_timer_id_head s2 \<noteq> mp_timer_id_head s1, NULL, s2)) =
        Some (fst el \<or> mp_timer_id_head s2 \<noteq> mp_timer_id_head s1, r, s3)"
    and lo3: "list_only s2 s3" "m_ticks_latest s3 = m_ticks_latest s2" "m_rtc1_reset s3 = m_rtc1_reset s2"
      "cfgs s3 = cfgs s2" and st3: "in_list_iff_running s3 xs3" "chain (nodes s3) r (map fst L)" "distinct (map fst L)"
      "set (map fst L) \<inter> ids xs3 = {}" "\<forall>a \<in> set (map fst L). rem a =
        rem_ticks (m_ticks_latest s3) (ticks_at_start (nodes s3 a)) (ticks_first_interval (nodes s3 a))" by auto
  note f3 = list_only_fields [OF lo3(1)]
  have u3: "users_ok s3" and p3: "pending s3 = pending s" and ids3: "start_ids_ok (pending s3)"
    using inv(2,4) by (simp_all add: users_ok_def pending_def f1 f2 f3 start_ids_ok_def)
  from list_insertions_handler_rep [OF u3 st3(1) ids3 st3(2-5)] obtain s4 xs4 where
    s4: "list_insertions_handler r s3 = Some (mp_timer_id_head s4 \<noteq> mp_timer_id_head s3, s4)" "starts_only s3 s4"
      "mp_users s4 = emptied (mp_users s3)" "in_list_iff_running s4 xs4"
      "fold (start_abs (m_ticks_latest s3) (m_rtc1_reset s3)) (pending s3)
        (fold (\<lambda>a. tinsert (a, rem a)) (map fst L) xs3, cfgs s3) = (xs4, cfgs s4)" by blast
  note f4 = starts_only_fields [OF s4(2)]
  let ?c = "(fst el \<or> mp_timer_id_head s2 \<noteq> mp_timer_id_head s1) \<or> mp_timer_id_head s4 \<noteq> mp_timer_id_head s3"
  define s5 where "s5 = (if ?c then compare_reg_update s4 else s4)\<lparr>m_rtc1_reset := False\<rparr>"
  have run: "timer_list_handler s = Some s5"
    using acq s2(1) ex s4(1)
    by (cases "fst el") (auto simp: timer_list_handler_def s5_def f1 bind_eq_Some_conv)
  have "fold (\<lambda>a. tinsert (a, rem a)) (map fst L) xs3 =
      (case queued_elapsed s of None \<Rightarrow> xs2
            | Some k \<Rightarrow> fold (restart_abs (m_ticks_latest s) (m_ticks_latest s2) (cfgs s))
                (rev (filter (periodic (nodes s)) (due k xs2))) (later k xs2))"
  proof (cases "queued_elapsed s")
    case (Some k)
    have "distinct (map fst xs2)" using rep2(1) by (simp add: tlist_def)
    moreover have "set L \<subseteq> set xs2" using Some by (auto simp: L_def due_def dest: set_takeWhileD)
    ultimately show ?thesis
      using fold_restart_abs [of xs2 L "m_ticks_latest s2" "m_ticks_latest s" "cfgs s2" xs3] Some
      by (simp add: rem_def L_def xs3_def per cfg2)
  qed (simp add: L_def xs3_def)
  then have abs: "handler_abs s xs = (xs4, cfgs s4)"
    using s4(5) unfolding handler_abs_def Let_def lat_def [symmetric] view
    by (simp add: p3 lo3 cfg2)
  have f5: "mp_timer_id_head s5 = mp_timer_id_head s4" "nodes s5 = nodes s4"
    unfolding s5_def by (cases ?c; simp)+
  then have "in_list_iff_running s5 xs4" using s4(4) by (simp add: in_list_iff_running_def tlist_def)
  moreover have "mp_users s5 = emptied (mp_users s3)" "m_user_array_size s5 = m_user_array_size s3"
    using s4(3) by (simp_all add: s5_def f4)
  moreover have "elapsed_ok s5" "m_ticks_elapsed_q_read_ind s5 = m_ticks_elapsed_q_write_ind s5"
    using inv(3) by (simp_all add: s5_def elapsed_ok_def f1 f2 f3 f4)
  ultimately have "settled xs4 s5" using settledI [OF _ u3] by blast
  moreover have "m_ticks_latest s5 = handler_latest s xs" if "xs4 \<noteq> []"
  proof -
    have "mp_timer_id_head s4 \<noteq> NULL" using s4(4) that by (cases xs4) (auto simp: in_list_iff_running_def tlist_def)
    then have "m_ticks_latest s5 = m_ticks_latest s2" unfolding s5_def by (cases ?c) (simp_all add: f4 lo3)
    then show ?thesis by (simp add: handler_latest_def lat_def [symmetric] view)
  qed
  moreover have "cfgs s5 = cfgs s4" "\<not> m_rtc1_reset s5" by (simp_all add: s5_def cfgs_def)
  ultimately show ?thesis using run abs by auto
qed

subsection \<open>Timeouts\<close>

text \<open>
  The handlers of the timers \<open>as\<close>, one after the other; a timer that is not running (any more) is
  skipped. \<open>calls_ok\<close> says that every one of these calls returns, having done nothing to the timers but
  calls of the interface.
\<close>

fun run_handlers :: "'e app_code \<Rightarrow> ptr list \<Rightarrow> 'e tworld \<Rightarrow> 'e tworld option" where
  "run_handlers app [] w = Some w"
| "run_handlers app (a # as) w = do { w \<leftarrow> expire_one app a w; run_handlers app as w }"

fun calls_ok :: "'e app_code \<Rightarrow> ptr list \<Rightarrow> 'e tworld \<Rightarrow> bool" where
  "calls_ok app [] w \<longleftrightarrow> True"
| "calls_ok app (a # as) w \<longleftrightarrow>
     (case expire_one app a w of None \<Rightarrow> False
      | Some w' \<Rightarrow> api_steps (if is_running (nodes (fst w) a) then node_stopped a (fst w) else fst w) (fst w') \<and>
          calls_ok app as w')"

lemma inv_stopped_due:
  assumes "timer_inv (Some k) J xs s" "(a, e) \<in> set xs" "e \<le> k"
  shows "timer_inv (Some k) (insert a J) xs (node_stopped a s)"
proof -
  note inv = timer_invD [OF assms(1)]
  have kept: "list_kept s (node_stopped a s)" by (simp add: list_kept_def)
  have a: "distinct (map fst xs)" using inv(1) by (simp add: tlist_def)
  have p: "pending (node_stopped a s) = pending s" by (simp add: pending_def)
  show ?thesis
  proof (rule timer_invI)
    show "tlist (node_stopped a s) xs" using list_kept_tlist [OF kept] inv(1) by simp
    show "users_ok (node_stopped a s)" "elapsed_ok (node_stopped a s)"
      using inv(2,3) by (simp_all add: users_ok_def elapsed_ok_def)
    show "\<exists>p \<in> set (pending (node_stopped a s)). is_stop (fst x) p"
      if "x \<in> set xs" "\<not> is_running (nodes (node_stopped a s) (fst x))" "\<And>l. Some k = Some l \<Longrightarrow> \<not> snd x \<le> l" for x
    proof -
      have "x \<noteq> (a, e)" using that(3) assms(3) by auto
      then have "fst x \<noteq> a" using a that(1) assms(2) by (metis eq_key_imp_eq_value prod.collapse)
      then show ?thesis using inv(7) [OF that(1)] that(2,3) by (simp add: p)
    qed
    show "\<not> is_running (nodes (node_stopped a s) b)" if "b \<in> insert a J" for b using that inv(8) by auto
  qed (use inv(4,5,6) p in \<open>auto split: if_splits\<close>)
qed

lemma expire_one_inv:
  assumes "timer_inv (Some k) J xs (fst w)" "(a, e) \<in> set xs" "e \<le> k" "expire_one app a w = Some w'"
    "api_steps (if is_running (nodes (fst w) a) then node_stopped a (fst w) else fst w) (fst w')"
  shows "timer_inv (Some k) (insert a J) xs (fst w') \<and> list_kept (fst w) (fst w')"
proof (cases "is_running (nodes (fst w) a)")
  case True
  have "list_kept (fst w) (node_stopped a (fst w))" by (simp add: list_kept_def)
  moreover from True assms(5) have "api_steps (node_stopped a (fst w)) (fst w')" by simp
  ultimately show ?thesis
    using api_steps_inv [OF _ inv_stopped_due [OF assms(1-3)]] list_kept_trans by blast
next
  case False
  then have "w' = w" using assms(4) by (simp add: expire_one_def)
  moreover have "timer_inv (Some k) (insert a J) xs (fst w)"
    using timer_invD [OF assms(1)] False by (intro timer_invI) auto
  ultimately show ?thesis by simp
qed

lemma timeouts_loop_rep:
  assumes "timers_rep (nodes (fst w)) p b zs" "timer_inv (Some k) J xs (fst w)" "set zs \<subseteq> set xs"
    "\<forall>x \<in> set (due t zs). snd x \<le> k" "unat elapsed = t - b" "b \<le> t"
    "calls_ok app (map fst (due t zs)) w"
  shows "\<exists>w'. timeouts_loop app p elapsed (of_nat b) w = Some (of_nat (last (b # map snd (due t zs))), w') \<and>
    run_handlers app (map fst (due t zs)) w = Some w' \<and>
    timer_inv (Some k) (J \<union> ids (due t zs)) xs (fst w') \<and> list_kept (fst w) (fst w')"
  using assms
proof (induction zs arbitrary: p b J w elapsed)
  case Nil
  then show ?case by (simp add: due_def timeouts_loop.simps)
next
  case (Cons y ys)
  obtain a e where y: "y = (a, e)" by force
  let ?n = "nodes (fst w) a"
  have p: "p = a" "a \<noteq> NULL" and e: "b + unat (ticks_to_expire ?n) = e" "e < 2 ^ 32"
    and ys: "timers_rep (nodes (fst w)) (p_next ?n) e ys" using Cons.prems(1) y by auto
  show ?case
  proof (cases "e \<le> t")
    case False
    then have "elapsed < ticks_to_expire ?n" using e Cons.prems(5,6) by (simp add: word_less_nat_alt)
    then have "timeouts_loop app p elapsed (of_nat b) w = Some (of_nat b, w)"
      using p by (subst timeouts_loop.simps) (simp add: Let_def)
    moreover have "due t (y # ys) = []" using False y by (simp add: due_def)
    ultimately show ?thesis using Cons.prems(2) by simp
  next
    case True
    then have le: "\<not> elapsed < ticks_to_expire ?n" using e Cons.prems(5,6) by (simp add: word_less_nat_alt)
    have el: "unat (elapsed - ticks_to_expire ?n) = t - e"
      using le e Cons.prems(5,6) True by (simp add: unat_minus_le)
    have ex: "of_nat b + ticks_to_expire ?n = (of_nat e :: u32)" using e(1) by auto
    have due: "due t (y # ys) = y # due t ys" using True y by (simp add: due_def)
    from Cons.prems(7) obtain w1 where w1: "expire_one app a w = Some w1" "calls_ok app (map fst (due t ys)) w1"
      "api_steps (if is_running (nodes (fst w) a) then node_stopped a (fst w) else fst w) (fst w1)"
      unfolding due by (auto simp: y split: option.splits)
    have "e \<le> k" "(a, e) \<in> set xs" using Cons.prems(3,4) due y by auto
    from expire_one_inv [OF Cons.prems(2) this(2,1) w1(1,3)]
    have inv1: "timer_inv (Some k) (insert a J) xs (fst w1)" and kept: "list_kept (fst w) (fst w1)" by auto
    have "timers_rep (nodes (fst w1)) (p_next ?n) e ys" using ys list_kept_rep [OF kept] by simp
    from Cons.IH [OF this inv1 _ _ el True w1(2)] Cons.prems(3,4) due obtain w' where
      w': "timeouts_loop app (p_next ?n) (elapsed - ticks_to_expire ?n) (of_nat e) w1 =
          Some (of_nat (last (e # map snd (due t ys))), w')"
        "run_handlers app (map fst (due t ys)) w1 = Some w'"
        "timer_inv (Some k) (insert a J \<union> ids (due t ys)) xs (fst w')" "list_kept (fst w1) (fst w')" by auto
    have "timeouts_loop app p elapsed (of_nat b) w = Some (of_nat (last (b # map snd (due t (y # ys)))), w')"
      using p le w1(1) w'(1) y unfolding due by (subst timeouts_loop.simps) (simp add: Let_def ex)
    moreover have "run_handlers app (map fst (due t (y # ys))) w = Some w'"
      unfolding due using w1(1) w'(2) y by simp
    moreover have "timer_inv (Some k) (J \<union> ids (due t (y # ys))) xs (fst w')" using w'(3) y unfolding due by simp
    moreover have "list_kept (fst w) (fst w')" using kept w'(4) by (rule list_kept_trans)
    ultimately show ?thesis by blast
  qed
qed

lemma elapsed_enqueue_fields [simp]:
  "nodes (elapsed_enqueue t s) = nodes s" "op_mem (elapsed_enqueue t s) = op_mem s"
  "mp_users (elapsed_enqueue t s) = mp_users s" "m_user_array_size (elapsed_enqueue t s) = m_user_array_size s"
  "mp_timer_id_head (elapsed_enqueue t s) = mp_timer_id_head s"
  "m_ticks_latest (elapsed_enqueue t s) = m_ticks_latest s"
  by (simp_all add: elapsed_enqueue_def Let_def)

lemma list_handler_sched_fields [simp]:
  "nodes (timer_list_handler_sched s) = nodes s" "op_mem (timer_list_handler_sched s) = op_mem s"
  "mp_users (timer_list_handler_sched s) = mp_users s"
  "m_user_array_size (timer_list_handler_sched s) = m_user_array_size s"
  "mp_timer_id_head (timer_list_handler_sched s) = mp_timer_id_head s"
  "m_ticks_latest (timer_list_handler_sched s) = m_ticks_latest s"
  "m_ticks_elapsed (timer_list_handler_sched s) = m_ticks_elapsed s"
  "m_ticks_elapsed_q_read_ind (timer_list_handler_sched s) = m_ticks_elapsed_q_read_ind s"
  "m_ticks_elapsed_q_write_ind (timer_list_handler_sched s) = m_ticks_elapsed_q_write_ind s"
  by (simp_all add: timer_list_handler_sched_def)

lemma elapsed_enqueue_queued:
  assumes "elapsed_ok s"
  shows "elapsed_ok (elapsed_enqueue t s)" "queued_elapsed (elapsed_enqueue t s) = Some (unat t)"
proof -
  have "m_ticks_elapsed_q_read_ind s = 0 \<or> m_ticks_elapsed_q_read_ind s = 1"
    "m_ticks_elapsed_q_write_ind s = 0 \<or> m_ticks_elapsed_q_write_ind s = 1" "length (m_ticks_elapsed s) = 2"
    using assms u8_less_2 by (auto simp: elapsed_ok_def)
  then show "elapsed_ok (elapsed_enqueue t s)" "queued_elapsed (elapsed_enqueue t s) = Some (unat t)"
    by (auto simp: elapsed_ok_def queued_elapsed_def elapsed_enqueue_def Let_def)
qed

lemma due_last:
  assumes "sorted (map snd ys)" "x \<in> set ys"
  shows "snd x \<le> last (0 # map snd ys)"
  using assms
proof (induction ys arbitrary: x)
  case (Cons y ys)
  show ?case
  proof (cases ys)
    case (Cons z zs)
    with Cons.prems Cons.IH [of z] Cons.IH [of x] show ?thesis by auto
  qed (use Cons in simp)
qed simp

lemma due_ids_eq: "due_ids (Some k) xs = {a. \<exists>e. (a, e) \<in> set xs \<and> e \<le> k}"
  by (auto simp: due_ids_def)

lemma timeouts_check_core:
  assumes "timer_ok xs s" "xs \<noteq> []" "rtc1_counter_get s = (now, s1)"
    "\<And>k. queued_elapsed s = Some k \<Longrightarrow> k \<le> unat (ticks_diff_get now (m_ticks_latest s))"
    "calls_ok app (map fst (due (unat (ticks_diff_get now (m_ticks_latest s))) xs)) (s1, e)"
  defines "D \<equiv> due (unat (ticks_diff_get now (m_ticks_latest s))) xs"
  shows "\<exists>s2 e2 s'. run_handlers app (map fst D) (s1, e) = Some (s2, e2) \<and>
    timer_timeouts_check app (s, e) = Some (s', e2) \<and> timer_ok xs s' \<and> nodes s' = nodes s2 \<and> pending s' = pending s2 \<and>
    queued_elapsed s' = Some (last (0 # map snd D)) \<and> swi_irq_pending s' \<and> m_ticks_latest s' = m_ticks_latest s"
proof -
  let ?t = "unat (ticks_diff_get now (m_ticks_latest s))" and ?k = "last (0 # map snd D)"
  note inv = timer_invD [OF assms(1)]
  have rep: "timers_rep (nodes s) (mp_timer_id_head s) 0 xs" using inv(1) by (simp add: tlist_def)
  note sorted = timers_rep_sorted [OF rep]
  have s1: "s1 = snd (rtc1_counter_get s)" using assms(3) by simp
  have D: "set D \<subseteq> set xs" "\<forall>x \<in> set D. snd x \<le> ?t" using due_set [OF sorted] by (auto simp: D_def)
  have sD: "sorted (map snd D)" using sorted unfolding D_def due_def
    by (metis map_append sorted_append takeWhile_dropWhile_id)
  have kD: "\<forall>x \<in> set D. snd x \<le> ?k" using due_last [OF sD] by blast
  have k: "?k \<le> ?t" "?k < 2 ^ 32"
  proof -
    show "?k \<le> ?t" using D(2) by (cases D rule: rev_cases) auto
    then show "?k < 2 ^ 32" using u32_less [of "ticks_diff_get now (m_ticks_latest s)"] by simp
  qed
  have "timer_inv (Some ?k) (due_ids (queued_elapsed s) xs) xs s1"
  proof (rule timer_invI)
    have i1: "timer_ok xs s" by (rule assms(1))
    note inv1 = timer_invD [OF inv_counter_get [OF i1], folded s1]
    show "tlist s1 xs" "users_ok s1" "elapsed_ok s1" by (fact inv1)+
    show "\<exists>p \<in> set (pending s1). is_stop (fst x) p"
      if "x \<in> set xs" "\<not> is_running (nodes s1 (fst x))" "\<And>l. Some ?k = Some l \<Longrightarrow> \<not> snd x \<le> l" for x
    proof (rule inv1(7) [OF that(1,2)])
      fix l assume l: "queued_elapsed s = Some l"
      show "\<not> snd x \<le> l"
      proof
        assume "snd x \<le> l"
        then have "x \<in> set D" using assms(4) [OF l] that(1) due_set [OF sorted] by (simp add: D_def)
        with kD that(3) show False by blast
      qed
    qed
  qed (use timer_invD [OF inv_counter_get [OF assms(1)], folded s1] in blast)+
  then have p2: "timer_inv (Some ?k) (due_ids (queued_elapsed s) xs) xs (fst (s1, e))" by simp
  have p1: "timers_rep (nodes (fst (s1, e))) (mp_timer_id_head s) 0 xs" using rep by (simp add: s1)
  have p3: "?t = ?t - 0" "0 \<le> ?t" by simp_all
  from timeouts_loop_rep [OF p1 p2 [unfolded D_def] order_refl kD [unfolded D_def] p3 assms(5), folded D_def] obtain w' where
    w': "timeouts_loop app (mp_timer_id_head s) (ticks_diff_get now (m_ticks_latest s)) (of_nat 0) (s1, e) =
        Some (of_nat ?k, w')" "run_handlers app (map fst D) (s1, e) = Some w'"
      "timer_inv (Some ?k) (due_ids (queued_elapsed s) xs \<union> ids D) xs (fst w')" "list_kept s1 (fst w')" by auto
  obtain s2 e2 where w2: "w' = (s2, e2)" by force
  let ?s = "timer_list_handler_sched (elapsed_enqueue (of_nat ?k) s2)"
  note inv2 = timer_invD [OF w'(3) [unfolded w2 fst_conv]]
  have head: "mp_timer_id_head s \<noteq> NULL" using assms(2) rep by (cases xs) auto
  have run: "timer_timeouts_check app (s, e) = Some (?s, e2)"
  proof -
    have "m_ticks_latest s1 = m_ticks_latest s" "mp_timer_id_head s1 = mp_timer_id_head s" by (simp_all add: s1)
    with head assms(3) w'(1) w2 show ?thesis by (simp add: timer_timeouts_check_def)
  qed
  have q: "queued_elapsed ?s = Some ?k"
  proof -
    have "queued_elapsed ?s = queued_elapsed (elapsed_enqueue (of_nat ?k) s2)"
      by (simp only: queued_elapsed_def list_handler_sched_fields)
    then show ?thesis by (simp only: elapsed_enqueue_queued(2) [OF inv2(3)] unat_of_nat_u32 [OF k(2)])
  qed
  have "due_ids (Some ?k) xs \<subseteq> ids D"
  proof
    fix a assume "a \<in> due_ids (Some ?k) xs"
    then obtain e where e: "(a, e) \<in> set xs" "e \<le> ?k" unfolding due_ids_eq by blast
    then have "(a, e) \<in> set D" unfolding D_def due_set [OF sorted] using k(1) unfolding D_def by (metis order_trans snd_conv)
    then show "a \<in> ids D" by (metis fst_conv image_eqI)
  qed
  then have run0: "\<not> is_running (nodes ?s a)" if "a \<in> due_ids (Some ?k) xs" for a using inv2(8) that by auto
  have pd: "pending ?s = pending s2" by (simp add: pending_def)
  have "timer_inv (Some ?k) (due_ids (Some ?k) xs) xs ?s"
  proof (rule timer_invI)
    show "tlist ?s xs" using inv2(1) by (simp add: tlist_def)
    show "users_ok ?s" using inv2(2) by (simp add: users_ok_def)
    show "elapsed_ok ?s" using elapsed_enqueue_queued(1) [OF inv2(3)] by (simp add: elapsed_ok_def)
    show "\<exists>p \<in> set (pending ?s). is_stop (fst x) p"
      if "x \<in> set xs" "\<not> is_running (nodes ?s (fst x))" "\<And>l. Some ?k = Some l \<Longrightarrow> \<not> snd x \<le> l" for x
      using inv2(7) [OF that(1)] that(2,3) unfolding pd by simp
  qed (use inv2(4,5,6) run0 pd in auto)
  moreover have "m_ticks_latest ?s = m_ticks_latest s" using w'(4) w2 s1 by (simp add: list_kept_def)
  ultimately show ?thesis using run w'(2) w2 q pd by (auto simp: timer_list_handler_sched_def)
qed

subsection \<open>Counter values\<close>

lemma and_max: "x AND 0xFFFFFF = take_bit 24 x" for x :: u32
  by (simp add: take_bit_eq_mask mask_eq_exp_minus_1)

lemma unat_take_bit_24: "unat (take_bit 24 x) = unat x mod 2 ^ 24" for x :: u32
  unfolding unsigned_take_bit_eq by (rule take_bit_eq_mod)

lemma ticks_diff_mod: "unat (ticks_diff_get a b) = unat (a - b) mod 2 ^ 24"
  by (simp only: ticks_diff_get_def and_max unat_take_bit_24)

lemma unat_neg_mod: "unat (- x) mod 2 ^ 24 = (2 ^ 24 - unat x mod 2 ^ 24) mod 2 ^ 24" for x :: u32
proof (cases "x = 0")
  case False
  have m: "(2 ^ 32 - n) mod 2 ^ 24 = (2 ^ 24 - n mod 2 ^ 24) mod (2 ^ 24 :: nat)" if "n < 2 ^ 32" for n
  proof -
    define q r where "q = n div 2 ^ 24" and "r = n mod 2 ^ 24"
    have "n = q * 2 ^ 24 + r" "q < 256" "r < 2 ^ 24" using that by (auto simp: q_def r_def)
    then have "2 ^ 32 - n = (2 ^ 24 - r) + (255 - q) * 2 ^ 24" by simp
    then have "2 ^ 32 - n = (2 ^ 24 - n mod 2 ^ 24) + (255 - q) * 2 ^ 24" by (simp only: r_def)
    then show ?thesis by (metis mod_mult_self1)
  qed
  have "(unat x + unat (- x)) mod 2 ^ 32 = 0" using unat_word_ariths(1) [of x "- x"] by simp
  moreover have "unat x \<noteq> 0" using False by (metis unsigned_0 word_unat_eq_iff)
  ultimately have "unat (- x) = 2 ^ 32 - unat x" 
    using u32_less [of x] u32_less [of "- x"] mod_below [of "unat x + unat (- x)" "2 ^ 32"]
    by (auto split: if_splits)
  with m [of "unat x"] u32_less [of x] show ?thesis by simp
qed simp

lemma ticks_diff_swap: "unat (ticks_diff_get b a) = (2 ^ 24 - unat (ticks_diff_get a b)) mod 2 ^ 24"
proof -
  have "b - a = - (a - b)" by simp
  then show ?thesis by (simp only: ticks_diff_mod unat_neg_mod)
qed

lemma ticks_from_latest_eq:
  "ticks_from_latest latest at_start first =
     (if ticks_diff_get at_start latest < 0x7FFFFF then ticks_diff_get at_start latest + first
      else if first > ticks_diff_get latest at_start then first - ticks_diff_get latest at_start else 0)"
proof -
  have "MAX_RTC_COUNTER_VAL div 2 = 0x7FFFFF" by simp
  then show ?thesis by (simp add: ticks_from_latest_def ticks_diff_get_def Let_def)
qed

lemma rem_ticks_behind:
  assumes "unat (ticks_diff_get latest at_start) \<le> 0x800001"
  shows "rem_ticks latest at_start first = unat first - unat (ticks_diff_get latest at_start)"
proof (cases "ticks_diff_get latest at_start = 0")
  case True
  then have "unat (ticks_diff_get at_start latest) = 0" using ticks_diff_swap [of at_start latest] by simp
  then have "ticks_diff_get at_start latest = 0" by (metis unsigned_0 word_unat_eq_iff)
  with True show ?thesis by (simp add: rem_ticks_def ticks_from_latest_eq)
next
  case False
  then have "unat (ticks_diff_get latest at_start) \<noteq> 0" by (metis unsigned_0 word_unat_eq_iff)
  then have "unat (ticks_diff_get at_start latest) = 2 ^ 24 - unat (ticks_diff_get latest at_start)"
    using ticks_diff_swap [of at_start latest] by simp
  then have "\<not> ticks_diff_get at_start latest < 0x7FFFFF" using assms by (simp add: word_less_nat_alt)
  then show ?thesis
    by (auto simp: rem_ticks_def ticks_from_latest_eq unat_minus_le word_less_nat_alt word_le_nat_alt)
qed

lemma rem_ticks_ahead:
  assumes "unat (ticks_diff_get at_start latest) < 0x7FFFFF"
    "unat (ticks_diff_get at_start latest) + unat first < 2 ^ 32"
  shows "rem_ticks latest at_start first = unat (ticks_diff_get at_start latest) + unat first"
proof -
  have "ticks_diff_get at_start latest < 0x7FFFFF" using assms(1) by (simp add: word_less_nat_alt)
  then show ?thesis using assms(2) by (simp add: rem_ticks_def ticks_from_latest_eq unat_plus_small)
qed

lemma ticks_diff_masked: "ticks_diff_get (x AND MAX_RTC_COUNTER_VAL) (y AND MAX_RTC_COUNTER_VAL) = ticks_diff_get x y"
  unfolding ticks_diff_get_def and_max by transfer (simp add: take_bit_diff)

lemma ticks_diff_of_nat:
  assumes "e \<le> k" "k - e < 2 ^ 24"
  shows "unat (ticks_diff_get (l + of_nat k) (l + of_nat e)) = k - e"
proof -
  have "(l + of_nat k) - (l + of_nat e) = (of_nat (k - e) :: u32)" using assms(1) by simp
  moreover have "unat (of_nat (k - e) :: u32) = k - e" by (rule unat_of_nat_u32) (use assms(2) in simp)
  ultimately show ?thesis unfolding ticks_diff_mod using assms(2) by (simp only: mod_less)
qed

subsection \<open>What becomes of one timer\<close>

definition not_stopped :: "ptr \<Rightarrow> timer_user_op list \<Rightarrow> bool" where
  "not_stopped a ps \<longleftrightarrow> (\<forall>p \<in> set ps. \<not> is_stop a p \<and> op_type p \<noteq> TIMER_USER_OP_TYPE_STOP_ALL)"

lemma not_stopped_Cons [simp]:
  "not_stopped a (p # ps) \<longleftrightarrow> \<not> is_stop a p \<and> op_type p \<noteq> TIMER_USER_OP_TYPE_STOP_ALL \<and> not_stopped a ps"
  by (simp add: not_stopped_def)

lemma del_abs_keeps:
  assumes "\<not> is_stop a p" "op_type p \<noteq> TIMER_USER_OP_TYPE_STOP_ALL" "(a, e) \<in> set xs"
  shows "\<exists>xs'. del_abs p (xs, latest, reset) = (xs', latest, reset) \<and> (a, e) \<in> set xs'"
proof (cases "op_type p = TIMER_USER_OP_TYPE_STOP")
  case True
  then have "(a, e) \<in> set (tremove (p_node p) xs)" using assms(1,3) by (auto simp: tremove_def is_stop_def)
  then show ?thesis using True by auto
qed (use assms in \<open>cases "op_type p"; simp\<close>)

lemma dels_abs_keeps:
  "not_stopped a ps \<Longrightarrow> (a, e) \<in> set xs \<Longrightarrow>
    \<exists>xs'. dels_abs ps (xs, latest, reset) = (xs', latest, reset) \<and> (a, e) \<in> set xs'"
proof (induction ps arbitrary: xs)
  case (Cons p ps)
  from del_abs_keeps [of a p e xs latest reset] Cons.prems obtain xs1 where
    "del_abs p (xs, latest, reset) = (xs1, latest, reset)" "(a, e) \<in> set xs1" by auto
  with Cons.IH [of xs1] Cons.prems show ?case by simp
qed simp

lemma dels_abs_sorted:
  assumes "sorted (map snd (fst v))" "distinct (map fst (fst v))"
  shows "sorted (map snd (fst (dels_abs ps v))) \<and> distinct (map fst (fst (dels_abs ps v)))"
  using assms
proof (induction ps arbitrary: v)
  case (Cons p ps)
  have "sorted (map snd (fst (del_abs p v))) \<and> distinct (map fst (fst (del_abs p v)))"
    using Cons.prems
    by (cases v; cases "op_type p") (auto simp: tremove_def sorted_filter distinct_map_filter)
  with Cons.IH show ?case by simp
qed simp

lemma starts_abs_keeps: "set xs \<subseteq> set (fst (fold (start_abs latest reset) ps (xs, cfg)))"
proof (induction ps arbitrary: xs cfg)
  case (Cons p ps)
  obtain xs1 cfg1 where p: "start_abs latest reset p (xs, cfg) = (xs1, cfg1)" by force
  then have "set xs \<subseteq> set xs1" by (auto split: if_splits)
  with Cons [of xs1 cfg1] p show ?case by auto
qed simp

lemma starts_abs_absent:
  "(\<forall>p \<in> set ps. op_type p = TIMER_USER_OP_TYPE_START \<longrightarrow> p_node p \<noteq> a) \<Longrightarrow> a \<notin> ids xs \<Longrightarrow>
    a \<notin> ids (fst (fold (start_abs latest reset) ps (xs, cfg)))"
proof (induction ps arbitrary: xs cfg)
  case (Cons p ps)
  obtain xs1 cfg1 where p: "start_abs latest reset p (xs, cfg) = (xs1, cfg1)" by force
  then have "a \<notin> ids xs1" using Cons.prems by (auto split: if_splits)
  with Cons.IH [of xs1 cfg1] Cons.prems(1) p show ?case by simp
qed simp

lemma restarts_set:
  "set (fold (restart_abs previous latest cfg) ys zs) =
    set zs \<union> (\<lambda>x. (fst x, rem_ticks latest ((previous + of_nat (snd x)) AND MAX_RTC_COUNTER_VAL) (fst (cfg (fst x))))) ` set ys"
  by (induction ys arbitrary: zs) (auto simp: restart_abs_def)

definition timer_fate :: "nat option \<Rightarrow> nat \<Rightarrow> nat \<Rightarrow> ptr \<Rightarrow> (ptr \<times> nat) list \<Rightarrow> bool \<Rightarrow> bool" where
  "timer_fate K e period a xs restarted \<longleftrightarrow>
     (case K of None \<Rightarrow> (a, e) \<in> set xs
      | Some k \<Rightarrow> if k < e then (a, e - k) \<in> set xs
          else if period \<noteq> 0 then (a, e + period - k) \<in> set xs
          else a \<notin> ids xs \<or> restarted)"

lemma handler_abs_fate:
  assumes "sorted (map snd xs)" "distinct (map fst xs)" "(a, e) \<in> set xs" "not_stopped a (pending s)"
    "\<And>k. queued_elapsed s = Some k \<Longrightarrow> k \<le> e + 0x800001"
  shows "timer_fate (queued_elapsed s) e (unat (ticks_periodic_interval (nodes s a))) a (fst (handler_abs s xs))
    (\<exists>p \<in> set (pending s). op_type p = TIMER_USER_OP_TYPE_START \<and> p_node p = a)"
proof (cases "queued_elapsed s")
  case None
  from dels_abs_keeps [OF assms(4,3), of "m_ticks_latest s" "m_rtc1_reset s"] obtain ys where
    ys: "dels_abs (pending s) (xs, m_ticks_latest s, m_rtc1_reset s) = (ys, m_ticks_latest s, m_rtc1_reset s)"
      "(a, e) \<in> set ys" by blast
  have "(a, e) \<in> set (fst (handler_abs s xs))"
    using starts_abs_keeps [of ys "m_ticks_latest s" "m_rtc1_reset s" "pending s" "cfgs s"] ys None
    by (auto simp: handler_abs_def)
  with None show ?thesis by (simp add: timer_fate_def)
next
  case (Some k)
  let ?l = "m_ticks_latest s" and ?per = "ticks_periodic_interval (nodes s a)"
  let ?m = "(?l + of_nat k) AND MAX_RTC_COUNTER_VAL"
  from dels_abs_keeps [OF assms(4,3), of ?m "m_rtc1_reset s"] obtain ys where
    ys: "dels_abs (pending s) (xs, ?m, m_rtc1_reset s) = (ys, ?m, m_rtc1_reset s)" "(a, e) \<in> set ys" by blast
  have so: "sorted (map snd ys)" "distinct (map fst ys)"
    using dels_abs_sorted [of "(xs, ?m, m_rtc1_reset s)" "pending s"] assms(1,2) ys(1) by simp_all
  define zs where "zs = fold (restart_abs ?l ?m (cfgs s)) (rev (filter (periodic (nodes s)) (due k ys))) (later k ys)"
  have abs: "handler_abs s xs = fold (start_abs ?m (m_rtc1_reset s)) (pending s) (zs, cfgs s)"
    using ys(1) Some by (simp add: handler_abs_def zs_def)
  note keep = starts_abs_keeps [of zs ?m "m_rtc1_reset s" "pending s" "cfgs s", folded abs]
  have zset: "set zs = set (later k ys) \<union> (\<lambda>x. (fst x, rem_ticks ?m ((?l + of_nat (snd x)) AND MAX_RTC_COUNTER_VAL)
      (fst (cfgs s (fst x))))) ` {x \<in> set (due k ys). periodic (nodes s) x}"
    by (simp add: zs_def restarts_set)
  consider "k < e" | "e \<le> k" "?per \<noteq> 0" | "e \<le> k" "?per = 0" by linarith
  then show ?thesis
  proof cases
    case 1
    then have "(a, e) \<in> set (dropWhile (\<lambda>x. snd x \<le> k) ys)" using ys(2) by (simp add: later_split [OF so(1)])
    then have "(a, e - k) \<in> set zs" unfolding zset later_def by force
    with keep 1 Some show ?thesis by (auto simp: timer_fate_def)
  next
    case 2
    have "unat (ticks_diff_get ?m ((?l + of_nat e) AND MAX_RTC_COUNTER_VAL)) = k - e"
      unfolding ticks_diff_masked using 2 assms(5) [OF Some] by (intro ticks_diff_of_nat) simp_all
    then have "rem_ticks ?m ((?l + of_nat e) AND MAX_RTC_COUNTER_VAL) ?per = e + unat ?per - k"
      using assms(5) [OF Some] 2 by (subst rem_ticks_behind) simp_all
    moreover have "(a, e) \<in> {x \<in> set (due k ys). periodic (nodes s) x}"
      using 2 ys(2) due_set [OF so(1)] by (simp add: periodic_def)
    ultimately have "(a, e + unat ?per - k) \<in> set zs"
      unfolding zset by (intro UnI2 image_eqI [of _ _ "(a, e)"]) (simp_all add: cfgs_def node_cfg_def)
    with keep 2 Some show ?thesis by (auto simp: timer_fate_def unat_eq_zero)
  next
    case 3
    have only: "d = e" if "(a, d) \<in> set ys" for d using so(2) ys(2) that by (metis eq_key_imp_eq_value)
    have "a \<notin> ids (later k ys)"
    proof
      assume "a \<in> ids (later k ys)"
      then obtain d where "(a, d) \<in> set (dropWhile (\<lambda>x. snd x \<le> k) ys)" by (auto simp: ids_later)
      then have "(a, d) \<in> set ys" "k < d" by (simp_all add: later_split [OF so(1)])
      with only 3 show False by auto
    qed
    moreover have "\<not> periodic (nodes s) (a, d)" for d using 3 by (simp add: periodic_def)
    ultimately have "a \<notin> ids zs" unfolding zset by (auto simp: image_iff)
    with starts_abs_absent [of "pending s" a zs ?m "m_rtc1_reset s" "cfgs s", folded abs] 3 Some
    show ?thesis by (auto simp: timer_fate_def)
  qed
qed

subsection \<open>Runs of the system\<close>

text \<open>Handlers that return and only call the interface (without a refused \<open>app_timer_stop\<close>).\<close>

definition app_ok :: "'e app_code \<Rightarrow> bool" where
  "app_ok app \<longleftrightarrow>
     (\<forall>h c w. case call_handler app h c w of None \<Rightarrow> False | Some w' \<Rightarrow> api_steps (fst w) (fst w')) \<and>
     (\<forall>f h c w. case call_schedule app f h c w of None \<Rightarrow> False
       | Some (code, w') \<Rightarrow> code = NRF_SUCCESS \<and> api_steps (fst w) (fst w'))"

text \<open>
  Steps: a call of the interface, the two interrupts, time that passes, and the rest of the application.
  The RTC1 interrupt may run again before the software interrupt, but not after the counter has run past
  the value it had at the first time.
\<close>

inductive tstep :: "'e app_code \<Rightarrow> 'e tworld \<Rightarrow> 'e tworld \<Rightarrow> bool" for app where
  api: "api_step s s' \<Longrightarrow> tstep app (s, e) (s', e)"
| rtc_irq: "RTC1_IRQHandler app (s, e) = Some w \<Longrightarrow>
    (\<And>k. queued_elapsed s = Some k \<Longrightarrow> k \<le> unat (ticks_diff_get (fst (rtc1_counter_get s)) (m_ticks_latest s))) \<Longrightarrow>
    tstep app (s, e) w"
| swi_irq: "SWI_IRQHandler s = Some s' \<Longrightarrow> tstep app (s, e) (s', e)"
| time: "tstep app (s, e) (s\<lparr>rtc := r\<rparr>, e)"
| other: "tstep app (s, e) (s, e')"

lemma app_ok_expire:
  assumes "app_ok app"
  shows "\<exists>w'. expire_one app a w = Some w' \<and>
    api_steps (if is_running (nodes (fst w) a) then node_stopped a (fst w) else fst w) (fst w')"
proof (cases "is_running (nodes (fst w) a)")
  case True
  let ?w = "(node_stopped a (fst w), snd w)"
  let ?n = "nodes (fst ?w) a"
  have h: "\<exists>w'. call_handler app h c ?w = Some w' \<and> api_steps (fst ?w) (fst w')" for h c
  proof -
    have "case call_handler app h c ?w of None \<Rightarrow> False | Some w' \<Rightarrow> api_steps (fst ?w) (fst w')"
      using assms unfolding app_ok_def by blast
    then obtain w' where "call_handler app h c ?w = Some w'" "api_steps (fst ?w) (fst w')"
      by (cases "call_handler app h c ?w") simp_all
    then show ?thesis by blast
  qed
  have f: "\<exists>w'. call_schedule app f h c ?w = Some (NRF_SUCCESS, w') \<and> api_steps (fst ?w) (fst w')" for f h c
  proof -
    have "case call_schedule app f h c ?w of None \<Rightarrow> False
      | Some (code, w') \<Rightarrow> code = NRF_SUCCESS \<and> api_steps (fst ?w) (fst w')"
      using assms unfolding app_ok_def by blast
    then show ?thesis by (auto split: option.splits)
  qed
  show ?thesis
    using True h [of "p_timeout_handler ?n" "p_context ?n"]
      f [of "m_evt_schedule_func (fst ?w)" "p_timeout_handler ?n" "p_context ?n"]
    by (auto simp: expire_one_def timeout_handler_exec_def Let_def)
qed (simp add: expire_one_def)

lemma app_ok_calls: "app_ok app \<Longrightarrow> calls_ok app as w"
proof (induction as arbitrary: w)
  case (Cons a as w)
  from app_ok_expire [OF Cons.prems, of a w] obtain w' where "expire_one app a w = Some w'"
    "api_steps (if is_running (nodes (fst w) a) then node_stopped a (fst w) else fst w) (fst w')" by blast
  moreover have "calls_ok app as w'" by (rule Cons.IH [OF Cons.prems])
  ultimately show ?case by simp
qed simp

lemma settled_ok: "settled xs s \<Longrightarrow> timer_ok xs s"
  by (simp add: settled_def due_ids_def)

lemma timer_ok_cong:
  "timer_ok xs s \<Longrightarrow> list_kept s s' \<Longrightarrow> mp_users s' = mp_users s \<Longrightarrow> op_mem s' = op_mem s \<Longrightarrow>
    m_user_array_size s' = m_user_array_size s \<Longrightarrow> (\<And>a. is_running (nodes s' a) = is_running (nodes s a)) \<Longrightarrow>
    timer_ok xs s'"
proof -
  assume a: "timer_ok xs s" "list_kept s s'" "mp_users s' = mp_users s" "op_mem s' = op_mem s"
    "m_user_array_size s' = m_user_array_size s" "\<And>a. is_running (nodes s' a) = is_running (nodes s a)"
  have "queued_elapsed s' = queued_elapsed s" using a(2) by (simp add: queued_elapsed_def list_kept_def)
  with inv_nodes_cong [OF a] show ?thesis by simp
qed

lemma api_step_ok: "api_step s s' \<Longrightarrow> timer_ok xs s \<Longrightarrow> timer_ok xs s'"
proof -
  assume a: "api_step s s'" "timer_ok xs s"
  from api_step_inv [OF this] have i: "timer_inv (queued_elapsed s) (due_ids (queued_elapsed s) xs) xs s'"
    and k: "list_kept s s'" by auto
  have "queued_elapsed s' = queued_elapsed s" using k by (simp add: queued_elapsed_def list_kept_def)
  with i show ?thesis by simp
qed

lemma timeouts_check_empty:
  "timer_ok [] s \<Longrightarrow> timer_timeouts_check app (s, e) = Some (s, e)"
  using timer_invD(1) by (fastforce simp: timer_timeouts_check_def tlist_def)

lemma rtc_irq_ok:
  assumes "timer_ok xs s" "app_ok app"
    "\<And>k. queued_elapsed s = Some k \<Longrightarrow> k \<le> unat (ticks_diff_get (fst (rtc1_counter_get s)) (m_ticks_latest s))"
  shows "\<exists>s' e'. RTC1_IRQHandler app (s, e) = Some (s', e') \<and> timer_ok xs s'"
proof (cases "xs = []")
  case True
  with assms(1) show ?thesis by (simp add: RTC1_IRQHandler_def timeouts_check_empty)
next
  case False
  obtain now s1 where n: "rtc1_counter_get s = (now, s1)" by force
  from timeouts_check_core [OF assms(1) False n, of app e] assms(3) app_ok_calls [OF assms(2)]
  show ?thesis unfolding RTC1_IRQHandler_def n fst_conv by blast
qed

lemma swi_irq_ok:
  assumes "timer_ok xs s"
  shows "\<exists>s'. SWI_IRQHandler s = Some s' \<and> settled (fst (handler_abs s xs)) s'"
  using handler_core [OF assms] unfolding SWI_IRQHandler_def by blast

lemma tstep_ok:
  assumes "tstep app w w'" "app_ok app" "timer_ok xs (fst w)"
  shows "\<exists>xs'. timer_ok xs' (fst w')"
  using assms(1)
proof cases
  case (api s s' e)
  with api_step_ok assms(3) show ?thesis by auto
next
  case (rtc_irq s e)
  with rtc_irq_ok [where xs = xs and s = s and app = app and e = e] assms(2,3) show ?thesis by fastforce
next
  case (swi_irq s s' e)
  with swi_irq_ok [where xs = xs and s = s] assms(3) settled_ok show ?thesis by fastforce
next
  case (time s e r)
  have "timer_ok xs (s\<lparr>rtc := r\<rparr>)"
    by (rule timer_ok_cong [where xs = xs and s = s]) (use assms(3) time in \<open>simp_all add: list_kept_def\<close>)
  with time show ?thesis by auto
qed (use assms(3) in auto)

lemma init_ok:
  assumes "app_timer_init prescaler n p_buffer f s = (NRF_SUCCESS, s')" "n \<noteq> 0"
    "\<And>a. \<not> is_running (nodes s a)" "length (m_ticks_elapsed s) = 2"
  shows "timer_ok [] s'"
proof -
  have s': "nodes s' = nodes s" "mp_timer_id_head s' = NULL" "m_user_array_size s' = 3"
    "mp_users s' = map (\<lambda>i. \<lparr>uq_first = 0, uq_last = 0, user_op_queue_size = n, p_user_op_queue = i * unat n\<rparr>) [0..<3]"
    "m_ticks_elapsed s' = m_ticks_elapsed s" "m_ticks_elapsed_q_read_ind s' = 0" "m_ticks_elapsed_q_write_ind s' = 0"
    using assms(1)
    by (auto simp: app_timer_init_def Let_def rtc1_stop_def rtc1_init_def rtc1_counter_get_def split: if_splits)
  have n: "0 < unat n" using assms(2) by (metis gr0I unsigned_0 word_unat_eq_iff)
  have p: "pending s' = []"
    by (simp add: pending_def s'(4) user_ops_def ring_dist_def)
  have q: "queued_elapsed s' = None" by (simp add: queued_elapsed_def s')
  have u: "users_ok s'"
    unfolding users_ok_def by (intro conjI exI [of _ n]) (auto simp: s' n uq_ok_def ring_in_def simp del: upt_Suc)
  have "timer_inv None {} [] s'"
    by (rule timer_invI) (use s' assms(3,4) u p in \<open>auto simp: tlist_def elapsed_ok_def\<close>)
  with q show ?thesis by (simp add: due_ids_def)
qed

end
