(* ===== verification/TimerThms.thy ===== *)
theory TimerThms
  imports TimerProps
begin

text \<open>
  The properties of the application timer, each with an instance, and the situations in which the code
  goes wrong.
\<close>

unbundle bit_operations_syntax

subsection \<open>A small system\<close>

text \<open>Static memory at start-up, with timers whose timeout handler has been set by \<open>app_timer_create\<close>.\<close>

definition timer_reset :: timer_state where
  "timer_reset =
     \<lparr>nodes = (\<lambda>_. \<lparr>ticks_to_expire = 0, ticks_at_start = 0, ticks_first_interval = 0, ticks_periodic_interval = 0,
        is_running = False, timer_mode = APP_TIMER_MODE_REPEATED, p_timeout_handler = 16, p_context = 0, p_next = 0\<rparr>),
      op_mem = (\<lambda>_. \<lparr>op_type = TIMER_USER_OP_TYPE_NONE, p_node = 0, op_start = \<lparr>op_ticks_at_start = 0,
        op_ticks_first_interval = 0, op_ticks_periodic_interval = 0, op_p_context = 0\<rparr>\<rparr>),
      m_user_array_size = 0, mp_users = [], mp_timer_id_head = 0, m_ticks_latest = 0, m_ticks_elapsed = [0, 0],
      m_ticks_elapsed_q_read_ind = 0, m_ticks_elapsed_q_write_ind = 0, m_evt_schedule_func = 0,
      m_rtc1_running = False, m_rtc1_reset = False, m_max_user_op_queue_utilization = 0,
      rtc = \<lparr>COUNTER = 0, CC0 = 0, PRESCALER = 0, compare0_enabled = False, counting = False, passing = (\<lambda>_. 0)\<rparr>,
      rtc_irq_pending = False, swi_irq_pending = False, rtc_irq_enabled = False\<rparr>"

definition demo_init :: timer_state where
  "demo_init = snd (app_timer_init 0 3 4 0 timer_reset)"

definition demo_started :: timer_state where
  "demo_started = snd (app_timer_start 6 8 100 7 demo_init)"

definition demo_app :: "(ptr \<times> ptr) list app_code" where
  "demo_app = \<lparr>call_handler = (\<lambda>h c w. Some (fst w, (h, c) # snd w)),
     call_schedule = (\<lambda>f h c w. Some (NRF_SUCCESS, w))\<rparr>"

lemma demo_init_ok: "timer_ok [] demo_init"
proof -
  have "app_timer_init 0 3 4 0 timer_reset = (NRF_SUCCESS, demo_init)"
    by (simp add: demo_init_def app_timer_init_def is_word_aligned_def Let_def split: prod.splits)
  then show ?thesis by (rule init_ok) (simp_all add: timer_reset_def)
qed

lemma demo_started_ok: "timer_ok [] demo_started"
proof -
  have "api_step demo_init demo_started"
    unfolding demo_started_def by (rule api_step.start) (rule prod.collapse [symmetric])
  then show ?thesis using demo_init_ok by (rule api_step_ok)
qed

lemma demo_app_ok: "app_ok demo_app"
  by (simp add: app_ok_def demo_app_def)

lemma demo_abs: "fst (handler_abs demo_started []) = [(8, 100)]"
  by code_simp

subsection \<open>The list handler\<close>

text \<open>C21. The software interrupt handler of the application timer always returns. In any state that
  satisfies the invariant (the linked list holds the timers \<open>xs\<close>, each with its expiry time relative to
  the last known counter value) it leaves the list of timers, their settings and the last known counter
  value that the specification \<open>handler_abs\<close> gives: first the stop operations of all three queues, then
  the removal of the timers that expired within the elapsed ticks, then the periodic ones among them
  again, then the start operations. Afterwards the queues are empty and the running timers are exactly
  those in the list.\<close>

theorem app_timer_list_handler_refines:
  assumes "timer_ok xs s"
  shows "\<exists>s'. SWI_IRQHandler s = Some s' \<and> settled (fst (handler_abs s xs)) s' \<and>
    cfgs s' = snd (handler_abs s xs) \<and> \<not> m_rtc1_reset s' \<and>
    (fst (handler_abs s xs) \<noteq> [] \<longrightarrow> m_ticks_latest s' = handler_latest s xs)"
  using handler_core [OF assms] unfolding SWI_IRQHandler_def .

theorem app_timer_list_handler_refines_witness:
  "\<exists>s'. SWI_IRQHandler demo_started = Some s' \<and> settled [(8, 100)] s' \<and> m_ticks_latest s' = 0"
proof -
  have "handler_latest demo_started [] = 0" by code_simp
  with app_timer_list_handler_refines [OF demo_started_ok] demo_abs show ?thesis by fastforce
qed

text \<open>The state after it.\<close>

definition demo_running :: timer_state where
  "demo_running = the (SWI_IRQHandler demo_started)"

lemma demo_running_settled: "settled [(8, 100)] demo_running" "m_ticks_latest demo_running = 0"
proof -
  have l: "handler_latest demo_started [] = 0" by code_simp
  from handler_core [OF demo_started_ok] obtain s' where s': "timer_list_handler demo_started = Some s'"
    "settled (fst (handler_abs demo_started [])) s'"
    "fst (handler_abs demo_started []) \<noteq> [] \<longrightarrow> m_ticks_latest s' = handler_latest demo_started []" by blast
  have "demo_running = s'" using s'(1) by (simp add: demo_running_def SWI_IRQHandler_def)
  with s'(2,3) demo_abs l show "settled [(8, 100)] demo_running" "m_ticks_latest demo_running = 0" by simp_all
qed

definition demo_later :: timer_state where
  "demo_later = demo_running\<lparr>rtc := (rtc demo_running)\<lparr>COUNTER := 103, counting := False\<rparr>\<rparr>"

lemma demo_later_ok: "timer_ok [(8, 100)] demo_later" "queued_elapsed demo_later = None"
proof -
  have s: "settled [(8, 100)] demo_running" by (rule demo_running_settled)
  show "timer_ok [(8, 100)] demo_later"
    by (rule timer_ok_cong [OF settled_ok [OF s]]) (simp_all add: demo_later_def list_kept_def)
  show "queued_elapsed demo_later = None" 
  proof -
    have "queued_elapsed demo_later = queued_elapsed demo_running" by (simp add: demo_later_def queued_elapsed_def)
    then show ?thesis using s by (simp add: settled_def)
  qed
qed

lemma demo_later_counter:
  "rtc1_counter_get demo_later = (103, snd (rtc1_counter_get demo_later))"
  "ticks_diff_get 103 (m_ticks_latest demo_later) = 103"
  using demo_running_settled(2)
  by (simp_all add: demo_later_def rtc1_counter_get_def Let_def ticks_diff_get_def)

subsection \<open>Timeouts\<close>



subsection \<open>Runs\<close>



subsection \<open>One timer\<close>



text \<open>The time a started timer gets: if the counter value at the call of \<open>app_timer_start\<close> is ahead of
  the last known one (by less than 0x7FFFFF ticks, across wrap-around of the 24-bit counter), the timer
  expires that much plus its interval later; if it is behind by \<open>d\<close> (at most 0x800001) ticks, the interval
  is shortened by \<open>d\<close>, to zero if it has passed.\<close>

theorem app_timer_start_ticks:
  assumes "l < 2 ^ 24" "d < 2 ^ 24"
  shows "(d < 0x7FFFFF \<and> d + unat first < 2 ^ 32 \<longrightarrow>
      unat (ticks_from_latest (of_nat l) (of_nat ((l + d) mod 2 ^ 24)) first) = d + unat first) \<and>
    (d \<le> 0x800001 \<longrightarrow>
      unat (ticks_from_latest (of_nat ((l + d) mod 2 ^ 24)) (of_nat l) first) = unat first - d)"
proof -
  let ?b = "of_nat ((l + d) mod 2 ^ 24) :: u32" and ?a = "of_nat l :: u32"
  have "of_nat (l + d) AND MAX_RTC_COUNTER_VAL = ?b"
    unfolding and_max take_bit_of_nat by (simp only: take_bit_eq_mod)
  moreover have "?a AND MAX_RTC_COUNTER_VAL = ?a"
    unfolding and_max take_bit_of_nat using assms(1) by (simp add: take_bit_nat_eq_self)
  ultimately have "ticks_diff_get ?b ?a = ticks_diff_get (?a + of_nat d) (?a + of_nat 0)"
    using ticks_diff_masked [of "of_nat (l + d)" ?a] by simp
  then have t: "unat (ticks_diff_get ?b ?a) = d"
    using ticks_diff_of_nat [of 0 d] assms(2) by simp
  show ?thesis
    using rem_ticks_ahead [where at_start = ?b and latest = ?a and first = first]
      rem_ticks_behind [where latest = ?b and at_start = ?a and first = first] t
    by (simp add: rem_ticks_def)
qed

theorem app_timer_start_ticks_witness:
  "unat (ticks_from_latest (of_nat 16777210) (of_nat ((16777210 + 10) mod 2 ^ 24)) 100) = 10 + unat (100 :: u32)"
  using app_timer_start_ticks [of 16777210 10 100] by simp

subsection \<open>The compare register\<close>

lemma take_bit_diff_word: "take_bit 24 (take_bit 24 x - take_bit 24 y) = take_bit 24 (x - y)" for x y :: u32
  by transfer (simp add: take_bit_diff)

lemma ticks_diff_left:
  assumes "unat (ticks_diff_get y z) \<le> unat (ticks_diff_get x z)"
  shows "unat (ticks_diff_get x y) = unat (ticks_diff_get x z) - unat (ticks_diff_get y z)"
proof -
  let ?a = "ticks_diff_get x z" and ?b = "ticks_diff_get y z"
  have "x - y = (x - z) - (y - z)" by simp
  then have "ticks_diff_get x y = take_bit 24 (?a - ?b)"
    unfolding ticks_diff_get_def and_max take_bit_diff_word by simp
  moreover have "unat (?a - ?b) = unat ?a - unat ?b" by (rule unat_minus_le) (use assms in \<open>simp add: word_le_nat_alt\<close>)
  moreover have "unat ?a < 2 ^ 24" unfolding ticks_diff_mod by (rule mod_less_divisor) simp
  ultimately show ?thesis by (simp only: unat_take_bit_24) simp
qed

lemma ticks_diff_small: "unat (ticks_diff_get x y) < 2 ^ 24"
  unfolding ticks_diff_mod by (rule mod_less_divisor) simp


definition demo_counting :: timer_state where
  "demo_counting = demo_running\<lparr>rtc := (rtc demo_running)\<lparr>COUNTER := 40, counting := True, passing := (\<lambda>_. 0)\<rparr>\<rparr>"


subsection \<open>A stop that follows a start\<close>

lemma start_ops_present:
  "p \<in> set ps \<Longrightarrow> op_type p = TIMER_USER_OP_TYPE_START \<Longrightarrow> p_node p \<in> ids (fst (fold (start_abs latest reset) ps (xs, cfg)))"
proof (induction ps arbitrary: xs cfg)
  case (Cons q ps)
  obtain ys cfg' where q: "start_abs latest reset q (xs, cfg) = (ys, cfg')" by force
  show ?case
  proof (cases "p = q")
    case True
    then have "p_node p \<in> ids ys" using q Cons.prems(2) by (auto split: if_splits)
    then show ?thesis using starts_abs_keeps [of ys latest reset ps cfg'] q by auto
  qed (use Cons q in simp)
qed simp

lemma start_success:
  assumes "users_ok s" "app_timer_start prio a t c s = (NRF_SUCCESS, s')"
  shows "\<exists>p \<in> set (pending s'). op_type p = TIMER_USER_OP_TYPE_START \<and> p_node p = a"
proof -
  have u: "users_ok (snd (rtc1_counter_get s))" using assms(1) by (simp add: users_ok_def)
  define P where "P per j = (op_mem s j)\<lparr>op_type := TIMER_USER_OP_TYPE_START, p_node := a,
      op_start := \<lparr>op_ticks_at_start = fst (rtc1_counter_get s), op_ticks_first_interval = t,
        op_ticks_periodic_interval = per, op_p_context = c\<rparr>\<rparr>" for per j
  have "\<exists>j l per. user_op_alloc (mp_users s ! user_id_get prio) = Some (j, l) \<and>
      s' = scheduled (user_id_get prio) j l (P per j) (snd (rtc1_counter_get s))"
    using assms(2) unfolding app_timer_start_def start_schedule_eq P_def [symmetric]
    by (auto split: if_splits option.splits)
  then obtain j l per where j: "user_op_alloc (mp_users s ! user_id_get prio) = Some (j, l)"
    "s' = scheduled (user_id_get prio) j l (P per j) (snd (rtc1_counter_get s))" by blast
  have "P per j \<in> set (pending s')"
    using scheduled_uops(3) [OF u user_id_get_less, where p = "P per j"] j by simp
  moreover have "op_type (P per j) = TIMER_USER_OP_TYPE_START" "p_node (P per j) = a" by (simp_all add: P_def)
  ultimately show ?thesis by blast
qed

lemma stop_pending:
  assumes "users_ok s" "app_timer_stop prio a s = (NRF_SUCCESS, s')"
  shows "set (pending s) \<subseteq> set (pending s')"
proof -
  have u: "users_ok (node_stopped a s)" using assms(1) by (simp add: users_ok_def)
  from assms(2) obtain j l where
    j: "user_op_alloc (mp_users s ! user_id_get prio) = Some (j, l)" "s' = scheduled (user_id_get prio) j l
      ((op_mem (node_stopped a s) j)\<lparr>op_type := TIMER_USER_OP_TYPE_STOP, p_node := a\<rparr>) (node_stopped a s)"
    by (auto simp: app_timer_stop_def stop_schedule_eq split: if_splits option.splits)
  have "user_op_alloc (mp_users (node_stopped a s) ! user_id_get prio) = Some (j, l)" using j(1) by simp
  from scheduled_uops(3) [OF u user_id_get_less this] j(2) have "set (pending (node_stopped a s)) \<subseteq> set (pending s')"
    by (metis subset_insertI)
  then show ?thesis by (simp add: pending_def)
qed

text \<open>An \<open>app_timer_stop\<close> that follows an \<open>app_timer_start\<close> of the same timer before the software
  interrupt has run is lost: both calls succeed, but stop operations are performed before start
  operations, and the timer runs.\<close>

theorem app_timer_stop_after_start_lost:
  assumes "timer_ok xs s" "app_timer_start prio a t c s = (NRF_SUCCESS, s1)"
    "app_timer_stop prio' a s1 = (NRF_SUCCESS, s2)"
  shows "\<exists>s3 xs3. SWI_IRQHandler s2 = Some s3 \<and> settled xs3 s3 \<and> a \<in> ids xs3 \<and> is_running (nodes s3 a)"
proof -
  have ok1: "timer_ok xs s1" by (rule api_step_ok [OF api_step.start [OF assms(2)] assms(1)])
  have ok2: "timer_ok xs s2" by (rule api_step_ok [OF api_step.stop [OF assms(3)] ok1]) simp
  note u = timer_invD(2) [OF assms(1)] timer_invD(2) [OF ok1]
  obtain p where p: "p \<in> set (pending s2)" "op_type p = TIMER_USER_OP_TYPE_START" "p_node p = a"
    using start_success [OF u(1) assms(2)] stop_pending [OF u(2) assms(3)] by blast
  have "a \<in> ids (fst (handler_abs s2 xs))"
    using start_ops_present [OF p(1,2)] p(3) by (auto simp: handler_abs_def Let_def split: prod.split)
  with swi_irq_ok [OF ok2] show ?thesis by (auto simp: settled_def)
qed

theorem app_timer_stop_after_start_lost_witness:
  "\<exists>s3. SWI_IRQHandler (snd (app_timer_stop 6 8 demo_started)) = Some s3 \<and> is_running (nodes s3 8)"
proof -
  have c: "fst (app_timer_start 6 8 100 7 demo_init) = NRF_SUCCESS"
    "fst (app_timer_stop 6 8 demo_started) = NRF_SUCCESS" by code_simp+
  then have "app_timer_start 6 8 100 7 demo_init = (NRF_SUCCESS, demo_started)"
    "app_timer_stop 6 8 demo_started = (NRF_SUCCESS, snd (app_timer_stop 6 8 demo_started))"
    unfolding demo_started_def by (metis prod.collapse)+
  from app_timer_stop_after_start_lost [OF demo_init_ok this] show ?thesis by blast
qed

subsection \<open>A stop that is refused\<close>

lemma stop_all_cycle:
  assumes "stop_all_loop s = Some s'"
  shows "\<not> (mp_timer_id_head s \<noteq> NULL \<and> p_next (nodes s (mp_timer_id_head s)) = mp_timer_id_head s)"
proof (rule stop_all_loop.raw_induct [OF _ assms])
  fix loop and s s' :: timer_state
  assume IH: "\<And>s s'. loop s = Some s' \<Longrightarrow>
      \<not> (mp_timer_id_head s \<noteq> NULL \<and> p_next (nodes s (mp_timer_id_head s)) = mp_timer_id_head s)"
    and eq: "(if mp_timer_id_head s = NULL then Some s
      else let p_head = mp_timer_id_head s; s = node_stopped p_head s
        in loop (s\<lparr>mp_timer_id_head := p_next (nodes s p_head)\<rparr>)) = Some s'"
  show "\<not> (mp_timer_id_head s \<noteq> NULL \<and> p_next (nodes s (mp_timer_id_head s)) = mp_timer_id_head s)"
  proof
    assume c: "mp_timer_id_head s \<noteq> NULL \<and> p_next (nodes s (mp_timer_id_head s)) = mp_timer_id_head s"
    let ?s = "(node_stopped (mp_timer_id_head s) s)\<lparr>mp_timer_id_head := mp_timer_id_head s\<rparr>"
    have "loop ?s = Some s'" using eq c by (simp add: Let_def)
    from IH [OF this] c show False by simp
  qed
qed

lemma uops_empty: "uq_ok u \<Longrightarrow> user_ops m u = [] \<Longrightarrow> uq_first u = uq_last u"
  using ring_dist_0 [of u "uq_first u"] by (cases "ring_dist u (uq_first u)") (auto simp: user_ops_def uq_ok_def)

lemma uops_single:
  assumes "uq_ok u" "user_ops m u = [p]"
  shows "uq_first u \<noteq> uq_last u" "m (p_user_op_queue u + unat (uq_first u)) = p"
    "ring_next u (uq_first u) = uq_last u"
proof -
  have i: "ring_in u (uq_first u)" "ring_in u (uq_last u)" using assms(1) by (auto simp: uq_ok_def)
  show ne: "uq_first u \<noteq> uq_last u"
    using assms(2) ring_dist_0 [OF i] by (auto simp: user_ops_def)
  from assms(2) have o: "m (p_user_op_queue u + unat (uq_first u)) = p"
    "ring_ops m u (ring_dist u (ring_next u (uq_first u))) (ring_next u (uq_first u)) = []"
    unfolding user_ops_def ring_ops_step [OF i ne] by auto
  then show "m (p_user_op_queue u + unat (uq_first u)) = p" by simp
  have "ring_dist u (ring_next u (uq_first u)) = 0"
    using o(2) by (cases "ring_dist u (ring_next u (uq_first u))") auto
  then show "ring_next u (uq_first u) = uq_last u" using ring_dist_0 [OF ring_in_next [OF i(1)] i(2)] by simp
qed

text \<open>Only user \<open>i\<close> has an operation queued, one.\<close>

definition one_op :: "nat \<Rightarrow> timer_user_op \<Rightarrow> timer_state \<Rightarrow> bool" where
  "one_op i p s \<longleftrightarrow> users_ok s \<and> i < 3 \<and> (\<forall>k < 3. uops s k = (if k = i then [p] else []))"

lemma one_opD:
  assumes "one_op i p s"
  shows "k < 3 \<Longrightarrow> k \<noteq> i \<Longrightarrow> uq_first (mp_users s ! k) = uq_last (mp_users s ! k)"
    "uq_first (mp_users s ! i) \<noteq> uq_last (mp_users s ! i)"
    "op_at s (mp_users s ! i) (uq_first (mp_users s ! i)) = p"
    "ring_next (mp_users s ! i) (uq_first (mp_users s ! i)) = uq_last (mp_users s ! i)"
proof -
  have ok: "uq_ok (mp_users s ! k)" if "k < 3" for k using assms users_ok_uq that by (simp add: one_op_def)
  show "k < 3 \<Longrightarrow> k \<noteq> i \<Longrightarrow> uq_first (mp_users s ! k) = uq_last (mp_users s ! k)"
    using uops_empty [OF ok, of k "op_mem s"] assms by (simp add: one_op_def)
  have i: "i < 3" "uops s i = [p]" using assms by (simp_all add: one_op_def)
  show "uq_first (mp_users s ! i) \<noteq> uq_last (mp_users s ! i)"
    "op_at s (mp_users s ! i) (uq_first (mp_users s ! i)) = p"
    "ring_next (mp_users s ! i) (uq_first (mp_users s ! i)) = uq_last (mp_users s ! i)"
    using uops_single [OF ok [OF i(1)] i(2)] by (simp_all add: op_at_def)
qed

lemma scheduled_one_op:
  assumes "users_ok s" "i < 3" "\<forall>k < 3. uops s k = []" "user_op_alloc (mp_users s ! i) = Some (j, l)"
  shows "one_op i p (scheduled i j l p s)"
  using scheduled_uops(1,2) [OF assms(1,2,4), where p = p] assms(2,3) by (simp add: one_op_def)

lemma deletions_one_op:
  assumes "one_op i p s" "op_type p = TIMER_USER_OP_TYPE_START"
  shows "list_deletions_handler s = Some (False, s)"
proof -
  have "deletions_ops k (uq_first (mp_users s ! k)) s = Some s" if "k < 3" for k
  proof (cases "k = i")
    case True
    then show ?thesis using one_opD [OF assms(1)] assms(2)
      by (simp add: deletions_ops.simps [of i] deletion_perform_def Let_def)
  next
    case False
    then show ?thesis using one_opD(1) [OF assms(1) that] by (simp add: deletions_ops.simps Let_def)
  qed
  moreover have "unat (m_user_array_size s) = Suc (Suc (Suc 0))" using assms(1) by (simp add: one_op_def users_ok_def)
  ultimately show ?thesis by (simp add: list_deletions_handler_def)
qed

lemma deletions_stop_all_cycle:
  assumes "one_op i p s" "op_type p = TIMER_USER_OP_TYPE_STOP_ALL" "mp_timer_id_head s \<noteq> NULL"
    "p_next (nodes s (mp_timer_id_head s)) = mp_timer_id_head s"
  shows "list_deletions_handler s = None"
proof -
  have "stop_all_loop s = None" using stop_all_cycle [of s] assms(3,4) by (cases "stop_all_loop s") auto
  then have "deletions_ops i (uq_first (mp_users s ! i)) s = None"
    using one_opD [OF assms(1)] assms(2)
    by (simp add: deletions_ops.simps [of i] deletion_perform_def Let_def)
  moreover have "deletions_ops k (uq_first (mp_users s ! k)) s = Some s" if "k < 3" "k \<noteq> i" for k
    using one_opD(1) [OF assms(1) that] by (simp add: deletions_ops.simps Let_def)
  moreover have "unat (m_user_array_size s) = Suc (Suc (Suc 0))" "i = 0 \<or> i = 1 \<or> i = 2"
    using assms(1) by (auto simp: one_op_def users_ok_def)
  ultimately show ?thesis by (auto simp: list_deletions_handler_def numeral_2_eq_2)
qed

lemma insertions_one_op:
  assumes "one_op i p s" "op_type p = TIMER_USER_OP_TYPE_START" "p_node p = a" "mp_timer_id_head s = a"
    "a \<noteq> NULL" "\<not> is_running (nodes s a)"
  shows "\<exists>s'. list_insertions_handler NULL s = Some (False, s') \<and> mp_timer_id_head s' = a \<and>
    p_next (nodes s' a) = a \<and> op_mem s' = op_mem s \<and> m_user_array_size s' = m_user_array_size s \<and>
    mp_users s' = (mp_users s)[i := (mp_users s ! i)\<lparr>uq_first := uq_last (mp_users s ! i)\<rparr>] \<and>
    elapsed_ok s' = elapsed_ok s \<and> queued_elapsed s' = queued_elapsed s"
proof -
  let ?u = "mp_users s ! i"
  have i: "i < 3" "length (mp_users s) = 3" "unat (m_user_array_size s) = Suc (Suc (Suc 0))"
    using assms(1) by (auto simp: one_op_def users_ok_def)
  define s1 where "s1 = user_upd i (\<lambda>u. u\<lparr>uq_first := ring_next u (uq_first u)\<rparr>) s"
  define h where "h = (nodes s)(a := node_prepared (m_ticks_latest s) (node_started (m_rtc1_reset s) (op_start p) (nodes s a)))"
  have s1: "nodes s1 = nodes s" "mp_timer_id_head s1 = a" "m_ticks_latest s1 = m_ticks_latest s"
    "m_rtc1_reset s1 = m_rtc1_reset s" "mp_users s1 = (mp_users s)[i := ?u\<lparr>uq_first := uq_last ?u\<rparr>]"
    "op_mem s1 = op_mem s" "m_user_array_size s1 = m_user_array_size s"
    using assms(4) one_opD(4) [OF assms(1)] by (simp_all add: s1_def user_upd_def)
  define h' where "h' = node_upd a (\<lambda>n. n\<lparr>p_next := a\<rparr>) (node_upd a (\<lambda>n. n\<lparr>ticks_to_expire := ticks_to_expire n - ticks_to_expire (h a)\<rparr>) h)"
  let ?s = "s1\<lparr>nodes := h', mp_timer_id_head := a\<rparr>"
  have ins: "prepare_and_insert a (s1\<lparr>nodes := node_upd a (node_started (m_rtc1_reset s1) (op_start p)) (nodes s1)\<rparr>) = Some ?s"
    using s1 assms(5) by (simp add: prepare_and_insert_def timer_list_insert_def Let_def h_def h'_def node_upd_def)
  have step: "insertions_ops i NULL s = insertions_ops i NULL ?s"
    using one_opD(2,3) [OF assms(1)] assms(2,3,6) ins s1(1)
    by (subst insertions_ops.simps) (simp add: Let_def s1_def)
  have u: "mp_users ?s ! k = (if k = i then ?u\<lparr>uq_first := uq_last ?u\<rparr> else mp_users s ! k)" if "k < 3" for k
    using that i s1(5) by simp
  have fin: "insertions_ops i NULL ?s = Some (NULL, ?s)"
    using u [OF i(1)] by (subst insertions_ops.simps) (simp add: Let_def)
  have idle: "insertions_ops k NULL s = Some (NULL, s)" "insertions_ops k NULL ?s = Some (NULL, ?s)"
    if "k < 3" "k \<noteq> i" for k
    using one_opD(1) [OF assms(1) that] u [OF that(1)] that(2)
    by (subst insertions_ops.simps, simp add: Let_def)+
  have "insertions_users 3 NULL s = Some ?s"
  proof -
    have "i = 0 \<or> i = 1 \<or> i = 2" using i(1) by linarith
    then show ?thesis using step fin idle
      by (auto simp: numeral_3_eq_3 numeral_2_eq_2)
  qed
  then have "list_insertions_handler NULL s = Some (False, ?s)"
    using i(3) assms(4) by (simp add: list_insertions_handler_def numeral_3_eq_3)
  moreover have "p_next (nodes ?s a) = a" by (simp add: h'_def node_upd_def)
  moreover have "elapsed_ok ?s = elapsed_ok s" "queued_elapsed ?s = queued_elapsed s"
    by (simp_all add: elapsed_ok_def queued_elapsed_def s1_def user_upd_def)
  ultimately show ?thesis using s1 by auto
qed

lemma handler_one_op:
  assumes "one_op i p s" "op_type p = TIMER_USER_OP_TYPE_START" "p_node p = a" "mp_timer_id_head s = a"
    "a \<noteq> NULL" "\<not> is_running (nodes s a)" "elapsed_ok s" "queued_elapsed s = None"
  shows "\<exists>s'. timer_list_handler s = Some s' \<and> mp_timer_id_head s' = a \<and> p_next (nodes s' a) = a \<and>
    users_ok s' \<and> (\<forall>k < 3. uops s' k = []) \<and> elapsed_ok s' \<and> queued_elapsed s' = None"
proof -
  let ?s0 = "s\<lparr>m_max_user_op_queue_utilization :=
    profile_users (take 3 (mp_users s)) (m_max_user_op_queue_utilization s)\<rparr>"
  have o: "one_op i p ?s0" using assms(1) by (simp add: one_op_def users_ok_def)
  have e: "elapsed_ok ?s0" "queued_elapsed ?s0 = None"
    using assms(7,8) by (simp_all add: elapsed_ok_def queued_elapsed_def split: if_splits)
  have acq: "elapsed_ticks_acquire ?s0 = (False, 0, ?s0)" using elapsed_ticks_acquire_eq [OF e(1)] e(2) by simp
  from insertions_one_op [OF o assms(2,3)] assms(4-6) obtain s1 where
    s1: "list_insertions_handler NULL ?s0 = Some (False, s1)" "mp_timer_id_head s1 = a" "p_next (nodes s1 a) = a"
      "op_mem s1 = op_mem s" "m_user_array_size s1 = m_user_array_size s"
      "mp_users s1 = (mp_users s)[i := (mp_users s ! i)\<lparr>uq_first := uq_last (mp_users s ! i)\<rparr>]"
      "elapsed_ok s1" "queued_elapsed s1 = None"
    using e by auto
  let ?s = "s1\<lparr>m_rtc1_reset := False\<rparr>"
  have run: "timer_list_handler s = Some ?s"
    using acq deletions_one_op [OF o assms(2)] s1(1) by (simp add: timer_list_handler_def Let_def)
  have i: "i < 3" "length (mp_users s) = 3" and u: "users_ok s" using assms(1) by (auto simp: one_op_def users_ok_def)
  have "users_ok s1"
  proof -
    have "starts_only s (s\<lparr>mp_users := mp_users s1\<rparr>)" by (simp add: starts_only_def)
    from users_ok_emptied [OF u this i(1)] s1(6) have "users_ok (s\<lparr>mp_users := mp_users s1\<rparr>)" by simp
    then show ?thesis using s1(5) by (simp add: users_ok_def)
  qed
  moreover have "uops s1 k = []" if "k < 3" for k
  proof (cases "k = i")
    case True
    then show ?thesis using i s1(6) by (simp add: user_ops_def ring_dist_def)
  next
    case False
    then show ?thesis using assms(1) that s1(4,6) by (simp add: one_op_def)
  qed
  ultimately show ?thesis using run s1
    by (intro exI [of _ ?s]) (simp add: users_ok_def elapsed_ok_def queued_elapsed_def split: if_splits)
qed

lemma start_one_op:
  assumes "users_ok s" "\<forall>k < 3. uops s k = []" "app_timer_start prio a t c s = (NRF_SUCCESS, s')"
  shows "\<exists>p. one_op (user_id_get prio) p s' \<and> op_type p = TIMER_USER_OP_TYPE_START \<and> p_node p = a"
proof -
  let ?r = "snd (rtc1_counter_get s)"
  have u: "users_ok ?r" "\<forall>k < 3. uops ?r k = []" using assms(1,2) by (simp_all add: users_ok_def)
  define P where "P per j = (op_mem s j)\<lparr>op_type := TIMER_USER_OP_TYPE_START, p_node := a,
      op_start := \<lparr>op_ticks_at_start = fst (rtc1_counter_get s), op_ticks_first_interval = t,
        op_ticks_periodic_interval = per, op_p_context = c\<rparr>\<rparr>" for per j
  have "\<exists>j l per. user_op_alloc (mp_users s ! user_id_get prio) = Some (j, l) \<and>
      s' = scheduled (user_id_get prio) j l (P per j) ?r"
    using assms(3) unfolding app_timer_start_def start_schedule_eq P_def [symmetric]
    by (auto split: if_splits option.splits)
  then obtain j l per where j: "user_op_alloc (mp_users ?r ! user_id_get prio) = Some (j, l)"
    "s' = scheduled (user_id_get prio) j l (P per j) ?r" by auto
  have "one_op (user_id_get prio) (P per j) s'"
    unfolding j(2) by (rule scheduled_one_op [OF u(1) user_id_get_less u(2) j(1)])
  moreover have "op_type (P per j) = TIMER_USER_OP_TYPE_START" "p_node (P per j) = a" by (simp_all add: P_def)
  ultimately show ?thesis by blast
qed


text \<open>Queues for one operation, and a running timer.\<close>

definition demo_two :: timer_state where
  "demo_two = timer_reset
     \<lparr>nodes := (nodes timer_reset)(8 := (nodes timer_reset 8)\<lparr>ticks_to_expire := 100, is_running := True\<rparr>),
      m_user_array_size := 3, mp_users := map (\<lambda>i. \<lparr>uq_first = 0, uq_last = 0, user_op_queue_size = 2,
        p_user_op_queue = i * 2\<rparr>) [0..<3], mp_timer_id_head := 8\<rparr>"

lemma demo_two_ok: "timer_ok [(8, 100)] demo_two" "queued_elapsed demo_two = None" "\<forall>k < 3. uops demo_two k = []"
proof -
  show q: "queued_elapsed demo_two = None" by (simp add: demo_two_def timer_reset_def queued_elapsed_def)
  show u: "\<forall>k < 3. uops demo_two k = []"
    by (simp add: demo_two_def user_ops_def ring_dist_def del: upt_Suc)
  then have p: "pending demo_two = []" by (simp add: pending_def)
  have "tlist demo_two [(8, 100)]" by (simp add: tlist_def demo_two_def timer_reset_def)
  moreover have "users_ok demo_two"
    unfolding users_ok_def by (intro conjI exI [of _ 2]) (auto simp: demo_two_def uq_ok_def ring_in_def simp del: upt_Suc)
  moreover have "elapsed_ok demo_two" by (simp add: elapsed_ok_def demo_two_def timer_reset_def)
  ultimately have "timer_inv None {} [(8, 100)] demo_two"
    by (rule timer_invI) (use p in \<open>auto simp: demo_two_def timer_reset_def split: if_splits\<close>)
  then show "timer_ok [(8, 100)] demo_two" by (simp add: q due_ids_def)
qed


subsection \<open>Long timeouts\<close>

inductive quiet_step :: "'e app_code \<Rightarrow> 'e tworld \<Rightarrow> 'e tworld \<Rightarrow> bool" for app where
  rtc_irq: "RTC1_IRQHandler app w = Some w' \<Longrightarrow> quiet_step app w w'"
| swi_irq: "SWI_IRQHandler s = Some s' \<Longrightarrow> quiet_step app (s, e) (s', e)"
| time: "quiet_step app (s, e) (s\<lparr>rtc := r\<rparr>, e)"

definition waiting :: "ptr \<Rightarrow> nat \<Rightarrow> timer_state \<Rightarrow> bool" where
  "waiting a e s \<longleftrightarrow> timer_ok [(a, e)] s \<and> pending s = [] \<and> is_running (nodes s a) \<and>
     (queued_elapsed s = None \<or> queued_elapsed s = Some 0)"

lemma waiting_rtc:
  assumes "waiting a e s" "2 ^ 24 \<le> e" "RTC1_IRQHandler app (s, w) = Some (s', w')"
  shows "waiting a e s' \<and> w' = w"
proof -
  have ok: "timer_ok [(a, e)] s" and q: "queued_elapsed s = None \<or> queued_elapsed s = Some 0"
    and p: "pending s = []" "is_running (nodes s a)" using assms(1) by (auto simp: waiting_def)
  obtain now s1 where n: "rtc1_counter_get s = (now, s1)" by force
  then have s1: "s1 = snd (rtc1_counter_get s)" by simp
  have d: "due (unat (ticks_diff_get now (m_ticks_latest s))) [(a, e)] = []"
    using assms(2) ticks_diff_small [of now "m_ticks_latest s"] by (simp add: due_def)
  from timeouts_check_core [OF ok _ n, of app w] q assms(3) have
    "timer_ok [(a, e)] s'" "nodes s' = nodes s1" "pending s' = pending s1" "queued_elapsed s' = Some 0" "w' = w"
    by (auto simp: d RTC1_IRQHandler_def)
  moreover have "pending s1 = pending s" "nodes s1 = nodes s" by (simp_all add: s1 pending_def)
  ultimately show ?thesis using p by (simp add: waiting_def)
qed

lemma waiting_swi:
  assumes "waiting a e s" "2 ^ 24 \<le> e" "SWI_IRQHandler s = Some s'"
  shows "waiting a e s'"
proof -
  have q: "queued_elapsed s = None \<or> queued_elapsed s = Some 0" and p: "pending s = []"
    and ok: "timer_ok [(a, e)] s" using assms(1) by (auto simp: waiting_def)
  have "fst (handler_abs s [(a, e)]) = [(a, e)]"
    using q assms(2) by (auto simp: handler_abs_def p later_def due_def)
  with swi_irq_ok [OF ok] assms(3) have "settled [(a, e)] s'" by simp
  then show ?thesis using settled_ok by (auto simp: waiting_def settled_def)
qed

text \<open>A timer with \<open>2 ^ 24\<close> or more ticks to go, which \<open>app_timer_start\<close> accepts, never expires: with
  no other timer and no further calls, however long the system runs and whatever the counter does, no
  application code is called, and the timer is still in the list with all its ticks to go.\<close>

lemma app_timer_long_never_expires:
  assumes "settled [(a, e)] s" "2 ^ 24 \<le> e" "(quiet_step app)\<^sup>*\<^sup>* (s, w) (s', w')"
  shows "w' = w \<and> is_running (nodes s' a) \<and> tlist s' [(a, e)]"
proof -
  have "waiting a e (fst v) \<and> snd v = w" if "(quiet_step app)\<^sup>*\<^sup>* (s, w) v" for v
    using that
  proof (induction rule: rtranclp_induct)
    case base
    then show ?case using assms(1) settled_ok [OF assms(1)] by (simp add: waiting_def settled_def)
  next
    case (step v u)
    from step(2,3) show ?case
    proof cases
      case rtc_irq
      obtain t x where "v = (t, x)" by force
      moreover obtain t' x' where "u = (t', x')" by force
      ultimately show ?thesis using waiting_rtc [OF _ assms(2)] step(3) rtc_irq by fastforce
    next
      case (swi_irq t t' x)
      then show ?thesis using waiting_swi [OF _ assms(2)] step(3) by auto
    next
      case (time t x r)
      have "waiting a e t" using time step(3) by simp
      then have "timer_ok [(a, e)] t" and t: "pending t = []" "is_running (nodes t a)"
        "queued_elapsed t = None \<or> queued_elapsed t = Some 0" by (auto simp: waiting_def)
      then have "timer_ok [(a, e)] (t\<lparr>rtc := r\<rparr>)" by (rule_tac timer_ok_cong) (simp_all add: list_kept_def)
      moreover have "queued_elapsed (t\<lparr>rtc := r\<rparr>) = queued_elapsed t" "pending (t\<lparr>rtc := r\<rparr>) = pending t"
        by (simp_all add: pending_def queued_elapsed_def)
      ultimately show ?thesis using t time step(3) by (simp add: waiting_def)
    qed
  qed
  from this [OF assms(3)] show ?thesis using timer_invD(1) by (auto simp: waiting_def)
qed

definition demo_long :: timer_state where
  "demo_long = timer_reset
     \<lparr>nodes := (nodes timer_reset)(8 := (nodes timer_reset 8)\<lparr>ticks_to_expire := 0x1000000, is_running := True\<rparr>),
      m_user_array_size := 3, mp_users := map (\<lambda>i. \<lparr>uq_first = 0, uq_last = 0, user_op_queue_size = 2,
        p_user_op_queue = i * 2\<rparr>) [0..<3], mp_timer_id_head := 8\<rparr>"

lemma app_timer_long_never_expires_witness:
  "tlist (demo_long\<lparr>rtc := (rtc demo_long)\<lparr>COUNTER := 0xFFFFFF\<rparr>\<rparr>) [(8, 2 ^ 24)]"
proof -
  have p: "pending demo_long = []"
    by (simp add: demo_long_def pending_def user_ops_def ring_dist_def del: upt_Suc)
  have "tlist demo_long [(8, 2 ^ 24)]" by (simp add: tlist_def demo_long_def timer_reset_def)
  moreover have "users_ok demo_long"
    unfolding users_ok_def by (intro conjI exI [of _ 2]) (auto simp: demo_long_def uq_ok_def ring_in_def simp del: upt_Suc)
  moreover have "elapsed_ok demo_long" by (simp add: elapsed_ok_def demo_long_def timer_reset_def)
  ultimately have "timer_inv None {} [(8, 2 ^ 24)] demo_long"
    by (rule timer_invI) (use p in \<open>auto simp: demo_long_def timer_reset_def split: if_splits\<close>)
  then have "settled [(8, 2 ^ 24)] demo_long"
    using p by (simp add: settled_def demo_long_def timer_reset_def queued_elapsed_def)
  moreover have "(quiet_step demo_app)\<^sup>*\<^sup>* (demo_long, []) (demo_long\<lparr>rtc := (rtc demo_long)\<lparr>COUNTER := 0xFFFFFF\<rparr>\<rparr>, [])"
    by (rule r_into_rtranclp) (rule quiet_step.time)
  ultimately show ?thesis
    using app_timer_long_never_expires [of 8 "2 ^ 24" demo_long demo_app "[]"] by simp
qed

subsection \<open>The utilisation of the operation queues\<close>

text \<open>The profiler counts one operation too many whenever the queue wraps around its end.\<close>

lemma op_queue_utilization:
  assumes "uq_ok u"
  shows "unat (utilization_of u) =
    length (user_ops m u) + (if uq_last u < uq_first u then 1 else 0)"
proof -
  have len: "length (ring_ops m u k i) = k" for k i by (induction k arbitrary: i) auto
  have i: "ring_in u (uq_first u)" "ring_in u (uq_last u)" using assms by (auto simp: uq_ok_def)
  let ?f = "uq_first u" and ?l = "uq_last u" and ?n = "user_op_queue_size u"
  show ?thesis
  proof (cases "?l < ?f")
    case False
    then have "unat (?l - ?f) = unat ?l - unat ?f" by (intro unat_minus_le) simp
    then show ?thesis using False i
      by (simp add: utilization_of_def user_ops_def len ring_dist_eq word_le_nat_alt word_less_nat_alt not_less)
  next
    case True
    then have lt: "unat ?l < unat ?f" "unat ?f < unat ?n" using i by (simp_all add: word_less_nat_alt ring_in_def)
    have "?n + 1 - ?f + ?l = of_nat (unat ?n + 1 - unat ?f + unat ?l)"
      using lt by (simp add: of_nat_diff)
    also have "unat \<dots> = unat ?n + 1 - unat ?f + unat ?l"
      by (rule unat_of_nat_u8) (use lt u8_less_256 [of ?n] in simp)
    finally show ?thesis using True lt i
      by (simp add: utilization_of_def user_ops_def len ring_dist_eq word_le_nat_alt not_le)
  qed
qed

end
