(* ===== verification/Fstorage.thy ===== *)
theory Fstorage
  imports Prelude
begin

text \<open>
  The flash storage module \<^verbatim>\<open>libraries/fstorage/fstorage.c\<close> with its headers: a ring of four
  requests to write or erase flash, executed one SoftDevice command at a time. Flash
  addresses are 32-bit words, since the code compares, aligns and wraps them; the pages are those
  of the nRF52 (4096 bytes), for which \<^verbatim>\<open>platform.txt\<close> builds.

  The SoftDevice and the callbacks of the clients are code outside the repository:
  the fields of \<open>fs_env\<close>. A command reads and changes the environment \<open>'e\<close> only; a callback may
  change the module's state too, for it may call the module. The linker symbols of the section of
  configurations and the registers with the end of the flash are fields of \<open>fs_env\<close> as well.

  The union of the two kinds of request is a record with the fields of both; the code only
  reads the fields of the kind that \<open>op_code\<close> tells, and clears the element before it fills it.
  \<open>m_configs\<close> is the section \<^verbatim>\<open>fs_data\<close>, by address.
\<close>

unbundle bit_operations_syntax

subsection \<open>Data\<close>

datatype fs_ret =
    FS_SUCCESS
  | FS_ERR_NOT_INITIALIZED
  | FS_ERR_INVALID_CFG
  | FS_ERR_NULL_ARG
  | FS_ERR_INVALID_ARG
  | FS_ERR_INVALID_ADDR
  | FS_ERR_UNALIGNED_ADDR
  | FS_ERR_QUEUE_FULL
  | FS_ERR_OPERATION_TIMEOUT
  | FS_ERR_INTERNAL

text \<open>The event's fields: the data and its length, or the first and the last page.\<close>

datatype fs_evt = FS_EVT_STORE u32 u16 | FS_EVT_ERASE u16 u16

datatype fs_op_code = FS_OP_NONE | FS_OP_STORE | FS_OP_ERASE

datatype nrf_soc_evt =
    NRF_EVT_FLASH_OPERATION_SUCCESS
  | NRF_EVT_FLASH_OPERATION_ERROR
  | NRF_EVT_OTHER u32

abbreviation (input) "FS_FLAG_INITIALIZED \<equiv> 1 :: u8"
abbreviation (input) "FS_FLAG_PROCESSING \<equiv> 2 :: u8"
abbreviation (input) "FS_FLAG_FLASH_REQ_PENDING \<equiv> 4 :: u8"
abbreviation (input) "FS_QUEUE_SIZE \<equiv> 4 :: u32"
abbreviation (input) "FS_OP_MAX_RETRIES \<equiv> 3 :: u8"
abbreviation (input) "FS_MAX_WRITE_SIZE_WORDS \<equiv> 1024 :: u16"
abbreviation (input) "FS_PAGE_SIZE \<equiv> 4096 :: u32"
abbreviation (input) "FS_PAGE_SIZE_WORDS \<equiv> 1024 :: u32"
abbreviation (input) "FS_ERASED_WORD \<equiv> 0xFFFFFFFF :: u32"
abbreviation (input) "sizeof_uint32 \<equiv> 4 :: u32"
abbreviation (input) "sizeof_fs_config_t \<equiv> 16 :: u32"

record fs_config =
  p_start_addr :: u32
  p_end_addr :: u32
  callback :: u32
  num_pages :: u8
  priority :: u8

record fs_op =
  op_p_config :: u32
  op_code :: fs_op_code
  store_p_src :: u32
  store_p_dest :: u32
  store_length_words :: u16
  store_offset :: u16
  erase_page :: u16
  erase_pages_erased :: u16
  erase_pages_to_erase :: u16

definition fs_op_zero :: fs_op where
  "fs_op_zero =
     \<lparr>op_p_config = 0, op_code = FS_OP_NONE, store_p_src = 0, store_p_dest = 0, store_length_words = 0,
      store_offset = 0, erase_page = 0, erase_pages_erased = 0, erase_pages_to_erase = 0\<rparr>"

record fs_state =
  m_flags :: u8
  m_op :: "fs_op list"
  m_rp :: u32
  m_count :: u32
  m_retry_count :: u8
  m_configs :: "u32 \<Rightarrow> fs_config"

type_synonym 'e fs_world = "fs_state \<times> 'e"

record 'e fs_env =
  fs_data_start :: u32
  fs_data_stop :: u32
  uicr_nrffw0 :: u32
  ficr_codesize :: u32
  sd_flash_write :: "u32 \<Rightarrow> u32 \<Rightarrow> u32 \<Rightarrow> 'e \<Rightarrow> ret_code \<times> 'e"
  sd_flash_page_erase :: "u32 \<Rightarrow> 'e \<Rightarrow> ret_code \<times> 'e"
  call_fs_callback :: "u32 \<Rightarrow> fs_evt \<Rightarrow> fs_ret \<Rightarrow> 'e fs_world \<Rightarrow> 'e fs_world"

definition flag_set :: "u8 \<Rightarrow> u8 \<Rightarrow> bool" where
  "flag_set f flag \<longleftrightarrow> f AND flag \<noteq> 0"

definition FS_SECTION_VARS_COUNT :: "'e fs_env \<Rightarrow> u32" where
  "FS_SECTION_VARS_COUNT env = (fs_data_stop env - fs_data_start env) div sizeof_fs_config_t"

definition FS_SECTION_VARS_GET :: "'e fs_env \<Rightarrow> u32 \<Rightarrow> u32" where
  "FS_SECTION_VARS_GET env i = fs_data_start env + i * sizeof_fs_config_t"

definition fs_flash_page_end_addr :: "'e fs_env \<Rightarrow> u32" where
  "fs_flash_page_end_addr env =
     (let bootloader_addr = uicr_nrffw0 env
      in if bootloader_addr \<noteq> FS_ERASED_WORD then bootloader_addr else ficr_codesize env * FS_PAGE_SIZE)"

subsection \<open>The queue\<close>

definition evt_of_op :: "fs_op \<Rightarrow> fs_evt" where
  "evt_of_op p_op =
     (case op_code p_op of
        FS_OP_STORE \<Rightarrow> FS_EVT_STORE (store_p_dest p_op) (store_length_words p_op)
      | FS_OP_ERASE \<Rightarrow> FS_EVT_ERASE (erase_page p_op - erase_pages_erased p_op) (erase_page p_op)
      | FS_OP_NONE \<Rightarrow> FS_EVT_STORE 0 0)"

definition send_event :: "'e fs_env \<Rightarrow> fs_op \<Rightarrow> fs_ret \<Rightarrow> 'e fs_world \<Rightarrow> 'e fs_world" where
  "send_event env p_op result w =
     call_fs_callback env (callback (m_configs (fst w) (op_p_config p_op))) (evt_of_op p_op) result w"

definition check_config :: "'e fs_env \<Rightarrow> u32 \<Rightarrow> bool" where
  "check_config env config \<longleftrightarrow> config \<noteq> 0 \<and> fs_data_start env \<le> config \<and> fs_data_stop env > config"

text \<open>The operands of type \<^verbatim>\<open>uint16_t\<close> are promoted to \<^verbatim>\<open>int\<close> before they are subtracted.\<close>

definition chunk_len :: "fs_op \<Rightarrow> u16" where
  "chunk_len p_op =
     (if uint (store_length_words p_op) - uint (store_offset p_op) < uint FS_MAX_WRITE_SIZE_WORDS
      then store_length_words p_op - store_offset p_op
      else FS_MAX_WRITE_SIZE_WORDS)"

definition store_execute :: "'e fs_env \<Rightarrow> fs_op \<Rightarrow> 'e \<Rightarrow> ret_code \<times> 'e" where
  "store_execute env p_op e =
     sd_flash_write env (store_p_dest p_op + ucast (store_offset p_op) * sizeof_uint32)
       (store_p_src p_op + ucast (store_offset p_op) * sizeof_uint32) (ucast (chunk_len p_op)) e"

definition erase_execute :: "'e fs_env \<Rightarrow> fs_op \<Rightarrow> 'e \<Rightarrow> ret_code \<times> 'e" where
  "erase_execute env p_op e = sd_flash_page_erase env (ucast (erase_page p_op)) e"

definition queue_advance :: "fs_state \<Rightarrow> fs_state" where
  "queue_advance s =
     (let s = s\<lparr>m_count := m_count s - 1\<rparr>;
          s = (if m_count s = 0 then s\<lparr>m_flags := m_flags s AND NOT FS_FLAG_PROCESSING\<rparr> else s);
          s = s\<lparr>m_rp := m_rp s + 1\<rparr>
      in if m_rp s = FS_QUEUE_SIZE then s\<lparr>m_rp := 0\<rparr> else s)"

text \<open>The code of \<^verbatim>\<open>FS_ERR_INTERNAL\<close> (9), seen as a SoftDevice code, is \<open>NRF_ERROR_INVALID_LENGTH\<close>.\<close>

definition op_execute :: "'e fs_env \<Rightarrow> fs_op \<Rightarrow> 'e \<Rightarrow> ret_code \<times> 'e" where
  "op_execute env p_op e =
     (case op_code p_op of
        FS_OP_STORE \<Rightarrow> store_execute env p_op e
      | FS_OP_ERASE \<Rightarrow> erase_execute env p_op e
      | FS_OP_NONE \<Rightarrow> (NRF_ERROR_INVALID_LENGTH, e))"

definition queue_process :: "'e fs_env \<Rightarrow> 'e fs_world \<Rightarrow> 'e fs_world" where
  "queue_process env w =
     (case w of (s, e) \<Rightarrow>
      let p_op = m_op s ! unat (m_rp s)
      in if m_count s > 0
         then case op_execute env p_op e of (ret, e) \<Rightarrow>
           if ret = NRF_ERROR_BUSY
           then (s\<lparr>m_flags := m_flags s AND NOT FS_FLAG_PROCESSING OR FS_FLAG_FLASH_REQ_PENDING\<rparr>, e)
           else if ret \<noteq> NRF_SUCCESS then send_event env p_op FS_ERR_INTERNAL (s, e)
           else (s, e)
         else (s, e))"

definition queue_start :: "'e fs_env \<Rightarrow> 'e fs_world \<Rightarrow> 'e fs_world" where
  "queue_start env w =
     (case w of (s, e) \<Rightarrow>
      if \<not> flag_set (m_flags s) FS_FLAG_PROCESSING \<and> \<not> flag_set (m_flags s) FS_FLAG_FLASH_REQ_PENDING
      then queue_process env (s\<lparr>m_flags := m_flags s OR FS_FLAG_PROCESSING\<rparr>, e)
      else (s, e))"

definition op_update :: "nat \<Rightarrow> (fs_op \<Rightarrow> fs_op) \<Rightarrow> fs_state \<Rightarrow> fs_state" where
  "op_update i f s = s\<lparr>m_op := (m_op s)[i := f (m_op s ! i)]\<rparr>"

text \<open>The first argument is the index of the element that the pointer of the C function denotes.\<close>

definition on_operation_success :: "'e fs_env \<Rightarrow> nat \<Rightarrow> 'e fs_world \<Rightarrow> 'e fs_world" where
  "on_operation_success env i w =
     (case w of (s, e) \<Rightarrow>
      let s = s\<lparr>m_retry_count := 0\<rparr>
      in case op_code (m_op s ! i) of
           FS_OP_STORE \<Rightarrow>
             let s = op_update i (\<lambda>p_op. p_op\<lparr>store_offset := store_offset p_op + chunk_len p_op\<rparr>) s;
                 p_op = m_op s ! i
             in if store_offset p_op = store_length_words p_op
                then map_prod queue_advance id (send_event env p_op FS_SUCCESS (s, e))
                else (s, e)
         | FS_OP_ERASE \<Rightarrow>
             let s = op_update i (\<lambda>p_op. p_op\<lparr>erase_page := erase_page p_op + 1,
                                              erase_pages_erased := erase_pages_erased p_op + 1\<rparr>) s;
                 p_op = m_op s ! i
             in if erase_pages_erased p_op = erase_pages_to_erase p_op
                then map_prod queue_advance id (send_event env p_op FS_SUCCESS (s, e))
                else (s, e)
         | FS_OP_NONE \<Rightarrow> (s, e))"

definition on_operation_failure :: "'e fs_env \<Rightarrow> nat \<Rightarrow> 'e fs_world \<Rightarrow> 'e fs_world" where
  "on_operation_failure env i w =
     (case w of (s, e) \<Rightarrow>
      let s = s\<lparr>m_retry_count := m_retry_count s + 1\<rparr>
      in if m_retry_count s > FS_OP_MAX_RETRIES
         then map_prod queue_advance id
           (send_event env (m_op s ! i) FS_ERR_OPERATION_TIMEOUT (s\<lparr>m_retry_count := 0\<rparr>, e))
         else (s, e))"

definition queue_get_next_free :: "fs_state \<Rightarrow> (nat \<times> fs_state) option" where
  "queue_get_next_free s =
     (if m_count s = FS_QUEUE_SIZE then None
      else
        let idx = unat (if m_rp s + m_count s < FS_QUEUE_SIZE then m_rp s + m_count s else 0)
        in Some (idx, op_update idx (\<lambda>_. fs_op_zero) (s\<lparr>m_count := m_count s + 1\<rparr>)))"

subsection \<open>The interface\<close>

text \<open>The two nested loops; the last argument of \<open>fs_pick\<close> is what \<open>index_max\<close> and \<open>max_priority\<close> hold.\<close>

definition fs_pick :: "'e fs_env \<Rightarrow> fs_state \<Rightarrow> u32 \<Rightarrow> nat \<Rightarrow> u32 \<times> u8 \<Rightarrow> u32 \<times> u8" where
  "fs_pick env s index_last j im =
     (case im of (index_max, max_priority) \<Rightarrow>
      if of_nat j = index_last then (index_max, max_priority)
      else
        let prio = priority (m_configs s (FS_SECTION_VARS_GET env (of_nat j)))
        in if prio \<ge> max_priority then (of_nat j, prio) else (index_max, max_priority))"

definition fs_assign :: "'e fs_env \<Rightarrow> nat \<Rightarrow> u32 \<times> u32 \<times> u32 \<times> fs_state \<Rightarrow> u32 \<times> u32 \<times> u32 \<times> fs_state" where
  "fs_assign env users st =
     (case st of (p_current_end, index_max, index_last, s) \<Rightarrow>
      case fold (fs_pick env s index_last) [0..<users] (index_max, 0) of (index_max, max_priority) \<Rightarrow>
      let c = FS_SECTION_VARS_GET env index_max;
          start = p_current_end - ucast (num_pages (m_configs s c)) * FS_PAGE_SIZE_WORDS * sizeof_uint32
      in (start, index_max, index_max,
          s\<lparr>m_configs := (m_configs s)(c := (m_configs s c)\<lparr>p_end_addr := p_current_end, p_start_addr := start\<rparr>)\<rparr>))"

definition fs_init :: "'e fs_env \<Rightarrow> fs_state \<Rightarrow> fs_ret \<times> fs_state" where
  "fs_init env s =
     (if flag_set (m_flags s) FS_FLAG_INITIALIZED then (FS_SUCCESS, s)
      else
        let users = unat (FS_SECTION_VARS_COUNT env);
            (p_current_end, index_max, index_last, s) =
              (fs_assign env users ^^ users) (fs_flash_page_end_addr env, 0, 0xFFFFFFFF, s)
        in (FS_SUCCESS, s\<lparr>m_flags := m_flags s OR FS_FLAG_INITIALIZED\<rparr>))"

definition fs_store :: "'e fs_env \<Rightarrow> u32 \<Rightarrow> u32 \<Rightarrow> u32 \<Rightarrow> u16 \<Rightarrow> 'e fs_world \<Rightarrow> fs_ret \<times> 'e fs_world" where
  "fs_store env p_config p_dest p_src length_words w =
     (case w of (s, e) \<Rightarrow>
      if \<not> flag_set (m_flags s) FS_FLAG_INITIALIZED then (FS_ERR_NOT_INITIALIZED, s, e)
      else if \<not> check_config env p_config then (FS_ERR_INVALID_CFG, s, e)
      else if p_src = 0 \<or> p_dest = 0 then (FS_ERR_NULL_ARG, s, e)
      else if p_src AND 3 \<noteq> 0 \<or> p_dest AND 3 \<noteq> 0 then (FS_ERR_UNALIGNED_ADDR, s, e)
      else if p_start_addr (m_configs s p_config) > p_dest \<or>
              p_end_addr (m_configs s p_config) < p_dest + ucast length_words * sizeof_uint32
           then (FS_ERR_INVALID_ADDR, s, e)
      else if length_words = 0 then (FS_ERR_INVALID_ARG, s, e)
      else case queue_get_next_free s of
             None \<Rightarrow> (FS_ERR_QUEUE_FULL, s, e)
           | Some (i, s) \<Rightarrow>
               (FS_SUCCESS, queue_start env (op_update i (\<lambda>p_op. p_op\<lparr>op_p_config := p_config,
                  op_code := FS_OP_STORE, store_p_src := p_src, store_p_dest := p_dest,
                  store_length_words := length_words\<rparr>) s, e)))"

definition fs_erase :: "'e fs_env \<Rightarrow> u32 \<Rightarrow> u32 \<Rightarrow> u16 \<Rightarrow> 'e fs_world \<Rightarrow> fs_ret \<times> 'e fs_world" where
  "fs_erase env p_config p_page_addr n_pages w =
     (case w of (s, e) \<Rightarrow>
      if \<not> flag_set (m_flags s) FS_FLAG_INITIALIZED then (FS_ERR_NOT_INITIALIZED, s, e)
      else if \<not> check_config env p_config then (FS_ERR_INVALID_CFG, s, e)
      else if p_page_addr = 0 then (FS_ERR_NULL_ARG, s, e)
      else if p_page_addr mod FS_PAGE_SIZE \<noteq> 0 then (FS_ERR_UNALIGNED_ADDR, s, e)
      else if p_page_addr < p_start_addr (m_configs s p_config) \<or>
              p_page_addr + FS_PAGE_SIZE_WORDS * ucast n_pages * sizeof_uint32
                > p_end_addr (m_configs s p_config)
           then (FS_ERR_INVALID_ADDR, s, e)
      else if n_pages = 0 then (FS_ERR_INVALID_ARG, s, e)
      else case queue_get_next_free s of
             None \<Rightarrow> (FS_ERR_QUEUE_FULL, s, e)
           | Some (i, s) \<Rightarrow>
               (FS_SUCCESS, queue_start env (op_update i (\<lambda>p_op. p_op\<lparr>op_p_config := p_config,
                  op_code := FS_OP_ERASE, erase_page := ucast (p_page_addr div FS_PAGE_SIZE),
                  erase_pages_to_erase := n_pages\<rparr>) s, e)))"

text \<open>\<open>None\<close> is the null pointer.\<close>

definition fs_queued_op_count_get :: "fs_state \<Rightarrow> u32 option \<Rightarrow> fs_ret \<times> u32 option" where
  "fs_queued_op_count_get s p_op_count =
     (case p_op_count of None \<Rightarrow> (FS_ERR_NULL_ARG, None) | Some _ \<Rightarrow> (FS_SUCCESS, Some (m_count s)))"

definition fs_sys_event_handler :: "'e fs_env \<Rightarrow> nrf_soc_evt \<Rightarrow> 'e fs_world \<Rightarrow> 'e fs_world" where
  "fs_sys_event_handler env sys_evt w =
     (case w of (s, e) \<Rightarrow>
      let i = unat (m_rp s);
          w = (if flag_set (m_flags s) FS_FLAG_PROCESSING
               then case sys_evt of
                      NRF_EVT_FLASH_OPERATION_SUCCESS \<Rightarrow> on_operation_success env i (s, e)
                    | NRF_EVT_FLASH_OPERATION_ERROR \<Rightarrow> on_operation_failure env i (s, e)
                    | NRF_EVT_OTHER _ \<Rightarrow> (s, e)
               else if flag_set (m_flags s) FS_FLAG_FLASH_REQ_PENDING
               then let s = s\<lparr>m_flags := m_flags s AND NOT FS_FLAG_FLASH_REQ_PENDING\<rparr>
                    in (if m_count s > 0 then s\<lparr>m_flags := m_flags s OR FS_FLAG_PROCESSING\<rparr> else s, e)
               else (s, e))
      in queue_process env w)"

end
