(* ===== verification/FstorageInv.thy ===== *)
theory FstorageInv
  imports Fstorage
begin

text \<open>
  The queue of the flash storage module as a list, its invariant, and the safety of runs. A run
  interleaves calls of clients and system events in any order, with any answers of the
  SoftDevice; the callbacks may call the module. What the runs are restricted by is \<open>put_fits\<close>: a
  request is made when the free element is where \<^verbatim>\<open>queue_get_next_free\<close> looks for it.
\<close>

unbundle bit_operations_syntax

subsection \<open>Flags\<close>

abbreviation initialized :: "fs_state \<Rightarrow> bool" where
  "initialized s \<equiv> flag_set (m_flags s) FS_FLAG_INITIALIZED"

abbreviation processing :: "fs_state \<Rightarrow> bool" where
  "processing s \<equiv> flag_set (m_flags s) FS_FLAG_PROCESSING"

abbreviation req_pending :: "fs_state \<Rightarrow> bool" where
  "req_pending s \<equiv> flag_set (m_flags s) FS_FLAG_FLASH_REQ_PENDING"

lemma flag_set_exp: "flag_set f (2 ^ n) \<longleftrightarrow> bit f n"
  by (simp add: flag_set_def and_exp_eq_0_iff_not_bit)

lemma flag_set_bits: "flag_set f 1 \<longleftrightarrow> bit f 0" "flag_set f 2 \<longleftrightarrow> bit f 1" "flag_set f 4 \<longleftrightarrow> bit f 2"
  using flag_set_exp [of f 0] flag_set_exp [of f 1] flag_set_exp [of f 2] by simp_all

lemma flag_bits: "bit (1 :: u8) n \<longleftrightarrow> n = 0" "bit (2 :: u8) n \<longleftrightarrow> n = 1" "bit (4 :: u8) n \<longleftrightarrow> n = 2"
proof -
  have "bit (2 ^ k :: u8) n \<longleftrightarrow> k < 8 \<and> n = k" for k by (auto simp: bit_simps)
  from this [of 0] this [of 1] this [of 2]
  show "bit (1 :: u8) n \<longleftrightarrow> n = 0" "bit (2 :: u8) n \<longleftrightarrow> n = 1" "bit (4 :: u8) n \<longleftrightarrow> n = 2" by simp_all
qed

lemma flag_set_or [simp]:
  "flag_set (f OR g) 1 \<longleftrightarrow> flag_set f 1 \<or> flag_set g 1"
  "flag_set (f OR g) 2 \<longleftrightarrow> flag_set f 2 \<or> flag_set g 2"
  "flag_set (f OR g) 4 \<longleftrightarrow> flag_set f 4 \<or> flag_set g 4"
  by (simp_all add: flag_set_bits bit_or_iff)

lemma flag_set_const [simp]:
  "flag_set 1 1" "\<not> flag_set 1 2" "\<not> flag_set 1 4"
  "\<not> flag_set 2 1" "flag_set 2 2" "\<not> flag_set 2 4"
  "\<not> flag_set 4 1" "\<not> flag_set 4 2" "flag_set 4 4"
  by (simp_all add: flag_set_bits flag_bits)

lemma flag_set_and_not:
  "flag_set (f AND NOT g) 1 \<longleftrightarrow> flag_set f 1 \<and> \<not> flag_set g 1"
  "flag_set (f AND NOT g) 2 \<longleftrightarrow> flag_set f 2 \<and> \<not> flag_set g 2"
  "flag_set (f AND NOT g) 4 \<longleftrightarrow> flag_set f 4 \<and> \<not> flag_set g 4"
  by (simp_all add: flag_set_bits bit_and_iff bit_not_iff)

text \<open>The complements of the flags, as the simplifier evaluates them.\<close>

lemma flag_set_cleared [simp]:
  "flag_set (f AND - 3) 1 \<longleftrightarrow> flag_set f 1" "\<not> flag_set (f AND - 3) 2"
  "flag_set (f AND - 3) 4 \<longleftrightarrow> flag_set f 4"
  "flag_set (f AND - 5) 1 \<longleftrightarrow> flag_set f 1" "flag_set (f AND - 5) 2 \<longleftrightarrow> flag_set f 2"
  "\<not> flag_set (f AND - 5) 4"
  using flag_set_and_not [of f 2] flag_set_and_not [of f 4] by simp_all

lemma unat_eq_4: "unat w = 4 \<longleftrightarrow> w = 4" for w :: u32
  by (simp add: word_unat_eq_iff)

subsection \<open>The queue as a list\<close>

definition fs_queue :: "fs_state \<Rightarrow> fs_op list" where
  "fs_queue s = map (\<lambda>i. m_op s ! ((unat (m_rp s) + i) mod 4)) [0..<unat (m_count s)]"

definition fs_wf :: "fs_state \<Rightarrow> bool" where
  "fs_wf s \<longleftrightarrow> length (m_op s) = 4 \<and> m_rp s < 4 \<and> m_count s \<le> 4 \<and> initialized s"

definition put_fits :: "fs_state \<Rightarrow> bool" where
  "put_fits s \<longleftrightarrow> m_count s = FS_QUEUE_SIZE \<or> unat (m_rp s) + unat (m_count s) \<le> 4"

lemma length_fs_queue [simp]: "length (fs_queue s) = unat (m_count s)"
  by (simp add: fs_queue_def)

lemma fs_wfD:
  assumes "fs_wf s"
  shows "length (m_op s) = 4" "unat (m_rp s) < 4" "unat (m_count s) \<le> 4" "initialized s"
  using assms by (auto simp: fs_wf_def word_less_nat_alt word_le_nat_alt)

lemma fs_wfI:
  "length (m_op s) = 4 \<Longrightarrow> unat (m_rp s) < 4 \<Longrightarrow> unat (m_count s) \<le> 4 \<Longrightarrow> initialized s \<Longrightarrow> fs_wf s"
  by (auto simp: fs_wf_def word_less_nat_alt word_le_nat_alt)

lemma fs_queue_cong:
  "m_op s' = m_op s \<Longrightarrow> m_rp s' = m_rp s \<Longrightarrow> m_count s' = m_count s \<Longrightarrow> fs_queue s' = fs_queue s"
  by (simp add: fs_queue_def)

lemma fs_queue_head:
  assumes "fs_wf s" "m_count s > 0"
  obtains ops where "fs_queue s = m_op s ! unat (m_rp s) # ops"
proof -
  have "0 < unat (m_count s)" using assms(2) by (simp add: word_less_nat_alt)
  then have "fs_queue s \<noteq> []" "fs_queue s ! 0 = m_op s ! unat (m_rp s)"
    using fs_wfD(2) [OF assms(1)] by (simp_all add: fs_queue_def)
  then show thesis using that [of "tl (fs_queue s)"] by (cases "fs_queue s") simp_all
qed

lemma count_pos_queue: "m_count s > 0 \<longleftrightarrow> fs_queue s \<noteq> []"
  by (metis length_fs_queue length_greater_0_conv unat_0 word_less_nat_alt)

lemma op_update_head:
  assumes "fs_wf s" "fs_queue s = op # ops"
  shows "fs_queue (op_update (unat (m_rp s)) f s) = f op # ops"
proof (rule nth_equalityI)
  have n: "unat (m_count s) = Suc (length ops)" using assms(2) length_fs_queue [of s] by simp
  then show "length (fs_queue (op_update (unat (m_rp s)) f s)) = length (f op # ops)"
    by (simp add: op_update_def)
  fix i assume "i < length (fs_queue (op_update (unat (m_rp s)) f s))"
  then have i: "i < unat (m_count s)" by (simp add: op_update_def)
  note wf = fs_wfD [OF assms(1)]
  have e: "m_op s ! ((unat (m_rp s) + i) mod 4) = (op # ops) ! i"
    using i by (simp add: assms(2) [symmetric] fs_queue_def)
  show "fs_queue (op_update (unat (m_rp s)) f s) ! i = (f op # ops) ! i"
  proof (cases i)
    case 0
    then show ?thesis using i e wf by (simp add: fs_queue_def op_update_def)
  next
    case (Suc j)
    have "i < 4" using i wf(3) by simp
    then have "(unat (m_rp s) + i) mod 4 \<noteq> unat (m_rp s)"
      using wf(2) Suc by (auto simp: mod_below)
    then show ?thesis using i e Suc by (simp add: fs_queue_def op_update_def)
  qed
qed

lemma queue_advance_fields [simp]:
  "m_op (queue_advance s) = m_op s" "m_configs (queue_advance s) = m_configs s"
  "m_retry_count (queue_advance s) = m_retry_count s" "m_count (queue_advance s) = m_count s - 1"
  "initialized (queue_advance s) = initialized s" "req_pending (queue_advance s) = req_pending s"
  "processing (queue_advance s) \<longleftrightarrow> processing s \<and> m_count s \<noteq> 1"
  by (auto simp: queue_advance_def Let_def)

lemma queue_advance_queue:
  assumes "fs_wf s" "fs_queue s = op # ops"
  shows "fs_queue (queue_advance s) = ops" "fs_wf (queue_advance s)"
proof -
  note wf = fs_wfD [OF assms(1)]
  have n: "unat (m_count s) = Suc (length ops)" using assms(2) length_fs_queue [of s] by simp
  then have "1 \<le> m_count s" by (simp add: word_le_nat_alt)
  then have c: "unat (m_count s - 1) = length ops" using n by (simp add: unat_minus_le)
  have s: "unat (m_rp s + 1) = Suc (unat (m_rp s))"
    using wf(2) by (intro unat_Suc_less [of _ 4]) (simp add: word_less_nat_alt)
  have "m_rp s + 1 = 4 \<longleftrightarrow> Suc (unat (m_rp s)) = 4"
    unfolding s [symmetric] by (simp only: unat_eq_4)
  then have r: "unat (m_rp (queue_advance s)) = Suc (unat (m_rp s)) mod 4"
    using s wf(2) by (auto simp: queue_advance_def Let_def)
  show "fs_queue (queue_advance s) = ops"
  proof (rule nth_equalityI)
    show "length (fs_queue (queue_advance s)) = length ops" using c by simp
    fix i assume "i < length (fs_queue (queue_advance s))"
    then have i: "i < length ops" using c by simp
    have "ops ! i = fs_queue s ! Suc i" using assms(2) by simp
    also have "\<dots> = m_op s ! ((unat (m_rp s) + Suc i) mod 4)"
      unfolding fs_queue_def using i n by (subst nth_map) (simp_all del: upt_Suc)
    finally have "ops ! i = m_op s ! ((unat (m_rp s) + Suc i) mod 4)" .
    then show "fs_queue (queue_advance s) ! i = ops ! i"
      using i n c r by (simp add: fs_queue_def mod_simps)
  qed
  show "fs_wf (queue_advance s)" by (rule fs_wfI) (use wf c n r in simp_all)
qed

lemma get_next_free_queue:
  assumes "fs_wf s" "put_fits s" "m_count s \<noteq> 4"
  obtains i s' where "queue_get_next_free s = Some (i, s')"
    "fs_queue (op_update i f s') = fs_queue s @ [f fs_op_zero]" "fs_wf (op_update i f s')"
    "m_flags s' = m_flags s" "m_rp s' = m_rp s" "m_configs s' = m_configs s" "m_retry_count s' = m_retry_count s"
    "m_count s' > 0"
proof -
  note wf = fs_wfD [OF assms(1)]
  let ?i = "(unat (m_rp s) + unat (m_count s)) mod 4"
  have le: "unat (m_rp s) + unat (m_count s) \<le> 4" using assms(2,3) by (simp add: put_fits_def)
  have add: "unat (m_rp s + m_count s) = unat (m_rp s) + unat (m_count s)"
    using le by (intro unat_plus_small) simp
  have c4: "unat (m_count s) < 4"
    using wf(3) assms(3) by (metis le_neq_implies_less unat_eq_4)
  have idx: "unat (if m_rp s + m_count s < 4 then m_rp s + m_count s else 0) = ?i"
    using le add by (auto simp: word_less_nat_alt)
  have c: "unat (m_count s + 1) = Suc (unat (m_count s))"
    using c4 by (intro unat_Suc_less [of _ 4]) (simp add: word_less_nat_alt)
  let ?s = "op_update ?i (\<lambda>_. fs_op_zero) (s\<lparr>m_count := m_count s + 1\<rparr>)"
  have g: "queue_get_next_free s = Some (?i, ?s)"
    using assms(3) by (simp add: queue_get_next_free_def Let_def idx del: word_less_nat_alt)
  have q: "fs_queue (op_update ?i f ?s) = fs_queue s @ [f fs_op_zero]"
  proof (rule nth_equalityI)
    show "length (fs_queue (op_update ?i f ?s)) = length (fs_queue s @ [f fs_op_zero])"
      by (simp add: op_update_def c)
    fix j assume "j < length (fs_queue (op_update ?i f ?s))"
    then have j: "j < Suc (unat (m_count s))" by (simp add: op_update_def c)
    show "fs_queue (op_update ?i f ?s) ! j = (fs_queue s @ [f fs_op_zero]) ! j"
    proof (cases "j < unat (m_count s)")
      case True
      then have "(unat (m_rp s) + j) mod 4 \<noteq> ?i" using le wf(2) c4 by (simp add: mod_below)
      then show ?thesis using True j c by (simp add: fs_queue_def op_update_def nth_append)
    next
      case False
      then have "j = unat (m_count s)" using j by simp
      then show ?thesis using c wf(1) by (simp add: fs_queue_def op_update_def nth_append)
    qed
  qed
  have "0 < unat (m_count ?s)" using c by (simp add: op_update_def)
  then have "m_count ?s > 0" by (simp add: word_less_nat_alt)
  moreover have "fs_wf (op_update ?i f ?s)"
    by (rule fs_wfI) (use wf c c4 in \<open>simp_all add: op_update_def\<close>)
  ultimately show thesis using that [OF g q] by (simp add: op_update_def)
qed

subsection \<open>The invariant\<close>

text \<open>
  \<open>in_area\<close>: the bytes from an address lie in the area of a registered configuration. A request
  in the queue is unfinished and all of it lies in the area of its client.
\<close>

definition in_area :: "'e fs_env \<Rightarrow> (u32 \<Rightarrow> fs_config) \<Rightarrow> u32 \<Rightarrow> nat \<Rightarrow> nat \<Rightarrow> bool" where
  "in_area env cfgs c a n \<longleftrightarrow>
     check_config env c \<and> unat (p_start_addr (cfgs c)) \<le> a \<and> a + n \<le> unat (p_end_addr (cfgs c))"

definition op_ok :: "'e fs_env \<Rightarrow> (u32 \<Rightarrow> fs_config) \<Rightarrow> fs_op \<Rightarrow> bool" where
  "op_ok env cfgs op \<longleftrightarrow>
     (case op_code op of
        FS_OP_STORE \<Rightarrow> store_offset op < store_length_words op \<and>
          in_area env cfgs (op_p_config op) (unat (store_p_dest op)) (4 * unat (store_length_words op))
      | FS_OP_ERASE \<Rightarrow> erase_pages_erased op < erase_pages_to_erase op \<and> erase_pages_erased op \<le> erase_page op \<and>
          in_area env cfgs (op_p_config op) (4096 * (unat (erase_page op) - unat (erase_pages_erased op)))
            (4096 * unat (erase_pages_to_erase op))
      | FS_OP_NONE \<Rightarrow> False)"

definition fs_inv :: "'e fs_env \<Rightarrow> fs_state \<Rightarrow> bool" where
  "fs_inv env s \<longleftrightarrow> fs_wf s \<and> (processing s \<longrightarrow> m_count s > 0) \<and>
     (m_count s > 0 \<longrightarrow> processing s \<or> req_pending s) \<and> \<not> (processing s \<and> req_pending s) \<and>
     list_all (op_ok env (m_configs s)) (fs_queue s)"

lemma fs_invD:
  assumes "fs_inv env s"
  shows "fs_wf s" "processing s \<Longrightarrow> m_count s > 0" "m_count s > 0 \<Longrightarrow> \<not> req_pending s \<Longrightarrow> processing s"
    "processing s \<Longrightarrow> \<not> req_pending s" "list_all (op_ok env (m_configs s)) (fs_queue s)"
  using assms unfolding fs_inv_def by metis+

lemma fs_invI:
  assumes "fs_wf s" "processing s \<Longrightarrow> m_count s > 0" "m_count s > 0 \<Longrightarrow> \<not> req_pending s \<Longrightarrow> processing s"
    "processing s \<Longrightarrow> \<not> req_pending s" "list_all (op_ok env (m_configs s)) (fs_queue s)"
  shows "fs_inv env s"
  using assms unfolding fs_inv_def by metis

text \<open>Flash ends at 256 MB at most, so that page numbers fit 16 bits.\<close>

definition areas_ok :: "'e fs_env \<Rightarrow> (u32 \<Rightarrow> fs_config) \<Rightarrow> bool" where
  "areas_ok env cfgs \<longleftrightarrow> (\<forall>c. check_config env c \<longrightarrow> unat (p_end_addr (cfgs c)) \<le> 2 ^ 28)"

subsection \<open>Calls and runs\<close>

inductive fs_call :: "'e fs_env \<Rightarrow> 'e fs_world \<Rightarrow> 'e fs_world \<Rightarrow> bool" for env where
  call_store: "put_fits (fst w) \<Longrightarrow> unat p_dest + 4 * unat n < 2 ^ 32 \<Longrightarrow>
    fs_call env w (snd (fs_store env c p_dest p_src n w))"
| call_erase: "put_fits (fst w) \<Longrightarrow> unat p_page_addr + 4096 * unat n < 2 ^ 32 \<Longrightarrow>
    fs_call env w (snd (fs_erase env c p_page_addr n w))"
| call_init: "fs_call env (s, e) (snd (fs_init env s), e)"

inductive fs_step :: "'e fs_env \<Rightarrow> 'e fs_world \<Rightarrow> 'e fs_world \<Rightarrow> bool" for env where
  step_call: "fs_call env w w' \<Longrightarrow> fs_step env w w'"
| step_event: "fs_step env w (fs_sys_event_handler env sys_evt w)"

inductive_cases fs_callE: "fs_call env w w'"
inductive_cases fs_stepE: "fs_step env w w'"

text \<open>
  What is asked of the environment for a property \<open>P\<close> of it: a command within the area of a client
  keeps \<open>P\<close>, and a callback keeps \<open>P\<close> and changes the module's state by calls only.
\<close>

definition fs_env_ok :: "'e fs_env \<Rightarrow> (u32 \<Rightarrow> fs_config) \<Rightarrow> ('e \<Rightarrow> bool) \<Rightarrow> bool" where
  "fs_env_ok env cfgs P \<longleftrightarrow>
     (\<forall>c p_dest p_src n e. in_area env cfgs c (unat p_dest) (4 * unat n) \<longrightarrow> 0 < n \<longrightarrow> n \<le> 1024 \<longrightarrow> P e \<longrightarrow>
        P (snd (sd_flash_write env p_dest p_src n e))) \<and>
     (\<forall>c page e. in_area env cfgs c (4096 * unat page) 4096 \<longrightarrow> P e \<longrightarrow> P (snd (sd_flash_page_erase env page e))) \<and>
     (\<forall>cb evt result s e. processing s \<longrightarrow> P e \<longrightarrow>
        (\<exists>e'. P e' \<and> (fs_call env)\<^sup>*\<^sup>* (s, e') (call_fs_callback env cb evt result (s, e))))"

lemma fs_env_okD:
  assumes "fs_env_ok env cfgs P"
  shows "in_area env cfgs c (unat p_dest) (4 * unat n) \<Longrightarrow> 0 < n \<Longrightarrow> n \<le> 1024 \<Longrightarrow> P e \<Longrightarrow>
        P (snd (sd_flash_write env p_dest p_src n e))"
    and "in_area env cfgs c (4096 * unat page) 4096 \<Longrightarrow> P e \<Longrightarrow> P (snd (sd_flash_page_erase env page e))"
    and "processing s \<Longrightarrow> P e \<Longrightarrow>
        \<exists>e'. P e' \<and> (fs_call env)\<^sup>*\<^sup>* (s, e') (call_fs_callback env cb evt result (s, e))"
  using assms unfolding fs_env_ok_def by metis+

subsection \<open>Requests\<close>

text \<open>\<open>grown s s'\<close>: requests were appended and nothing else has changed.\<close>

definition grown :: "'e fs_env \<Rightarrow> fs_state \<Rightarrow> fs_state \<Rightarrow> bool" where
  "grown env s s' \<longleftrightarrow> fs_wf s' \<and> m_flags s' = m_flags s \<and> m_rp s' = m_rp s \<and> m_configs s' = m_configs s \<and>
     m_retry_count s' = m_retry_count s \<and>
     (\<exists>ops. fs_queue s' = fs_queue s @ ops \<and> list_all (op_ok env (m_configs s)) ops)"

lemma grownD:
  assumes "grown env s s'"
  shows "fs_wf s'" "m_flags s' = m_flags s" "m_rp s' = m_rp s" "m_configs s' = m_configs s"
    "m_retry_count s' = m_retry_count s"
    and "\<exists>ops. fs_queue s' = fs_queue s @ ops \<and> list_all (op_ok env (m_configs s)) ops"
  using assms unfolding grown_def by metis+

lemma grown_refl [intro]: "fs_wf s \<Longrightarrow> grown env s s"
  by (simp add: grown_def)

lemma grown_trans: "grown env s s' \<Longrightarrow> grown env s' s'' \<Longrightarrow> grown env s s''"
  unfolding grown_def by (metis append_assoc list_all_append)

lemma grown_put:
  assumes "fs_wf s" "put_fits s" "m_count s \<noteq> 4" "op_ok env (m_configs s) (f fs_op_zero)"
    and "queue_get_next_free s = Some (i, s')"
  shows "grown env s (op_update i f s')" "m_count (op_update i f s') > 0"
proof -
  obtain j t where g: "queue_get_next_free s = Some (j, t)"
    "fs_queue (op_update j f t) = fs_queue s @ [f fs_op_zero]" "fs_wf (op_update j f t)"
    "m_flags t = m_flags s" "m_rp t = m_rp s" "m_configs t = m_configs s" "m_retry_count t = m_retry_count s"
    "m_count t > 0"
    using get_next_free_queue [OF assms(1-3)] by metis
  have e: "j = i" "t = s'" using g(1) assms(5) by simp_all
  show "grown env s (op_update i f s')" "m_count (op_update i f s') > 0"
    using g(2-) assms(4) unfolding e grown_def by (simp_all add: op_update_def)
qed

lemma unat_ucast_times_4: "unat (ucast (n :: u16) * 4 :: u32) = 4 * unat n"
  using u16_less_65536 [of n] by (simp add: unat_word_ariths)

lemma unat_plus_times_4:
  "unat (a :: u32) + 4 * unat (n :: u16) < 2 ^ 32 \<Longrightarrow> unat (a + ucast n * 4) = unat a + 4 * unat n"
  by (subst unat_plus_small) (simp_all add: unat_ucast_times_4)

lemma unat_plus_pages:
  "unat (a :: u32) + 4096 * unat (n :: u16) < 2 ^ 32 \<Longrightarrow> unat (a + 1024 * ucast n * 4) = unat a + 4096 * unat n"
proof -
  have m: "1024 * ucast n * 4 = (4096 * ucast n :: u32)" by simp
  have "unat (4096 * ucast n :: u32) = 4096 * unat n"
    using u16_less_65536 [of n] by (simp add: unat_word_ariths)
  moreover assume "unat a + 4096 * unat n < 2 ^ 32"
  ultimately show ?thesis unfolding m by (subst unat_plus_small) simp_all
qed

lemma full_no_free: "queue_get_next_free s = None \<longleftrightarrow> m_count s = 4"
  by (simp add: queue_get_next_free_def Let_def)

lemma fs_store_cases:
  assumes "fs_wf s" "put_fits s" "unat p_dest + 4 * unat n < 2 ^ 32"
  obtains ret where "fs_store env c p_dest p_src n (s, e) = (ret, s, e)" "ret \<noteq> FS_SUCCESS"
  | s' where "fs_store env c p_dest p_src n (s, e) = (FS_SUCCESS, queue_start env (s', e))"
    "grown env s s'" "m_count s' > 0"
proof -
  let ?f = "\<lambda>p_op. p_op\<lparr>op_p_config := c, op_code := FS_OP_STORE, store_p_src := p_src, store_p_dest := p_dest,
    store_length_words := n\<rparr>"
  let ?refused = "\<not> check_config env c \<or> p_src = 0 \<or> p_dest = 0 \<or> p_src AND 3 \<noteq> 0 \<or> p_dest AND 3 \<noteq> 0 \<or>
    p_start_addr (m_configs s c) > p_dest \<or> p_end_addr (m_configs s c) < p_dest + ucast n * 4 \<or> n = 0 \<or>
    m_count s = 4"
  have i: "initialized s" using fs_wfD [OF assms(1)] by simp
  show thesis
  proof (cases ?refused)
    case True
    then have "\<exists>ret. fs_store env c p_dest p_src n (s, e) = (ret, s, e) \<and> ret \<noteq> FS_SUCCESS"
      using i full_no_free [of s] unfolding fs_store_def by (auto split: option.splits)
    then show thesis using that(1) by blast
  next
    case False
    then obtain i s' where g: "queue_get_next_free s = Some (i, s')"
      using full_no_free [of s] by (metis option.exhaust surj_pair)
    have "op_ok env (m_configs s) (?f fs_op_zero)"
      using False unat_plus_times_4 [OF assms(3)]
      by (simp add: op_ok_def in_area_def fs_op_zero_def word_le_nat_alt word_gt_0 not_less)
    from grown_put [where f = ?f, OF assms(1,2) _ this g] False
    have "grown env s (op_update i ?f s')" "m_count (op_update i ?f s') > 0" by simp_all
    moreover have "fs_store env c p_dest p_src n (s, e) = (FS_SUCCESS, queue_start env (op_update i ?f s', e))"
      using False i by (simp add: fs_store_def g)
    ultimately show thesis using that(2) by blast
  qed
qed

lemma fs_erase_cases:
  assumes "fs_wf s" "put_fits s" "unat p_page_addr + 4096 * unat n < 2 ^ 32" "areas_ok env (m_configs s)"
  obtains ret where "fs_erase env c p_page_addr n (s, e) = (ret, s, e)" "ret \<noteq> FS_SUCCESS"
  | s' where "fs_erase env c p_page_addr n (s, e) = (FS_SUCCESS, queue_start env (s', e))"
    "grown env s s'" "m_count s' > 0"
proof -
  let ?f = "\<lambda>p_op. p_op\<lparr>op_p_config := c, op_code := FS_OP_ERASE,
    erase_page := ucast (p_page_addr div FS_PAGE_SIZE), erase_pages_to_erase := n\<rparr>"
  let ?refused = "\<not> check_config env c \<or> p_page_addr = 0 \<or> p_page_addr mod 4096 \<noteq> 0 \<or>
    p_page_addr < p_start_addr (m_configs s c) \<or> p_page_addr + 1024 * ucast n * 4 > p_end_addr (m_configs s c) \<or>
    n = 0 \<or> m_count s = 4"
  have i: "initialized s" using fs_wfD [OF assms(1)] by simp
  show thesis
  proof (cases ?refused)
    case True
    then have "\<exists>ret. fs_erase env c p_page_addr n (s, e) = (ret, s, e) \<and> ret \<noteq> FS_SUCCESS"
      using i full_no_free [of s] unfolding fs_erase_def by (auto split: option.splits)
    then show thesis using that(1) by blast
  next
    case False
    then obtain i s' where g: "queue_get_next_free s = Some (i, s')"
      using full_no_free [of s] by (metis option.exhaust surj_pair)
    have "unat (p_end_addr (m_configs s c)) \<le> 2 ^ 28" using assms(4) False by (simp add: areas_ok_def)
    moreover have "unat p_page_addr + 4096 * unat n \<le> unat (p_end_addr (m_configs s c))"
      using False unat_plus_pages [OF assms(3)] by (simp add: word_le_nat_alt not_less)
    moreover have "0 < unat n" using False by (simp add: unat_gt_0)
    ultimately have "unat p_page_addr < 2 ^ 28" by simp
    have "unat p_page_addr mod 4096 = 0" using False unat_mod [of p_page_addr 4096] by simp
    then obtain q where q: "unat p_page_addr = 4096 * q" by (metis mod_0_imp_dvd dvdE)
    with \<open>unat p_page_addr < 2 ^ 28\<close> have "q < 2 ^ 16" by simp
    then have "unat (ucast (p_page_addr div 4096) :: u16) = q"
      by (simp add: unsigned_ucast_eq unat_div take_bit_nat_eq_self q)
    with q \<open>unat p_page_addr + 4096 * unat n \<le> _\<close> \<open>0 < unat n\<close> have "op_ok env (m_configs s) (?f fs_op_zero)"
      using False by (simp add: op_ok_def in_area_def fs_op_zero_def word_le_nat_alt word_less_nat_alt not_less)
    from grown_put [where f = ?f, OF assms(1,2) _ this g] False
    have "grown env s (op_update i ?f s')" "m_count (op_update i ?f s') > 0" by simp_all
    moreover have "fs_erase env c p_page_addr n (s, e) = (FS_SUCCESS, queue_start env (op_update i ?f s', e))"
      using False i by (simp add: fs_erase_def g)
    ultimately show thesis using that(2) by blast
  qed
qed

lemma queue_start_processing: "processing s \<or> req_pending s \<Longrightarrow> queue_start env (s, e) = (s, e)"
  by (auto simp: queue_start_def)

lemma fs_init_initialized: "initialized s \<Longrightarrow> fs_init env s = (FS_SUCCESS, s)"
  by (simp add: fs_init_def)

text \<open>While the module is processing, a call only appends to the queue.\<close>

lemma fs_call_processing:
  assumes "fs_call env (s, e) w" "fs_wf s" "processing s" "areas_ok env (m_configs s)"
  shows "grown env s (fst w) \<and> snd w = e"
  using assms(1)
proof (cases rule: fs_call.cases)
  case (call_store p_dest n c p_src)
  have fits: "put_fits s" using call_store by simp
  show ?thesis
  proof (cases rule: fs_store_cases [OF assms(2) fits call_store(3), where c = c and p_src = p_src and e = e and env = env])
    case 1
    then show ?thesis using call_store(1) grown_refl [OF assms(2)] by simp
  next
    case (2 s')
    then show ?thesis using call_store assms(3) grownD(2) [OF 2(2)] by (simp add: queue_start_processing)
  qed
next
  case (call_erase p_page_addr n c)
  have fits: "put_fits s" using call_erase by simp
  show ?thesis
  proof (cases rule: fs_erase_cases [OF assms(2) fits call_erase(3) assms(4), where c = c and e = e])
    case 1
    then show ?thesis using call_erase(1) grown_refl [OF assms(2)] by simp
  next
    case (2 s')
    then show ?thesis using call_erase assms(3) grownD(2) [OF 2(2)] by (simp add: queue_start_processing)
  qed
next
  case call_init
  then show ?thesis using fs_wfD(4) [OF assms(2)] assms(2) by (auto simp: fs_init_initialized)
qed

lemma fs_calls_processing:
  assumes "(fs_call env)\<^sup>*\<^sup>* (s, e) w" "fs_wf s" "processing s" "areas_ok env (m_configs s)"
  shows "grown env s (fst w) \<and> snd w = e"
  using assms(1)
proof (induction rule: rtranclp_induct)
  case base
  then show ?case using assms(2) by auto
next
  case (step w w')
  have g: "grown env s (fst w)" and e: "snd w = e" using step.IH by simp_all
  have "fs_call env (fst w, e) w'" using step.hyps(2) e by (metis prod.collapse)
  from fs_call_processing [OF this] grownD [OF g] assms(3,4)
  have "grown env (fst w) (fst w') \<and> snd w' = e" by simp
  with g show ?case by (blast intro: grown_trans)
qed

subsection \<open>Events\<close>

definition keeps :: "'e fs_env \<Rightarrow> ('e \<Rightarrow> bool) \<Rightarrow> fs_state \<Rightarrow> 'e fs_world \<Rightarrow> bool" where
  "keeps env P s w \<longleftrightarrow> fs_inv env (fst w) \<and> P (snd w) \<and> m_configs (fst w) = m_configs s"

lemma keepsI: "fs_inv env s' \<Longrightarrow> P e \<Longrightarrow> m_configs s' = m_configs s \<Longrightarrow> keeps env P s (s', e)"
  by (simp add: keeps_def)

lemma keeps_cong: "keeps env P s w \<Longrightarrow> m_configs s = m_configs s' \<Longrightarrow> keeps env P s' w"
  by (simp add: keeps_def)

lemma send_event_grown:
  assumes "fs_wf s" "processing s" "areas_ok env (m_configs s)" "fs_env_ok env (m_configs s) P" "P e"
  obtains s' e' where "send_event env op r (s, e) = (s', e')" "grown env s s'" "P e'"
proof -
  obtain e' where e': "P e'" "(fs_call env)\<^sup>*\<^sup>* (s, e') (send_event env op r (s, e))"
    using fs_env_okD(3) [OF assms(4,2,5)] unfolding send_event_def by blast
  from fs_calls_processing [OF this(2) assms(1-3)] e'(1) show thesis
    using that by (metis prod.collapse)
qed

lemma chunk_len_le:
  assumes "store_offset op < store_length_words op"
  shows "unat (store_offset op) + unat (chunk_len op) \<le> unat (store_length_words op)"
    "0 < unat (chunk_len op)" "unat (chunk_len op) \<le> 1024"
proof -
  let ?l = "unat (store_length_words op)" and ?o = "unat (store_offset op)"
  have lt: "?o < ?l" using assms by (simp add: word_less_nat_alt)
  have d: "uint (store_length_words op) - uint (store_offset op) = int (?l - ?o)" using lt by simp
  have u: "unat (store_length_words op - store_offset op) = ?l - ?o"
    using assms by (simp add: unat_minus_le)
  have "unat (chunk_len op) = (if ?l - ?o < 1024 then ?l - ?o else 1024)"
    unfolding chunk_len_def d using u by simp
  with lt show "?o + unat (chunk_len op) \<le> ?l" "0 < unat (chunk_len op)" "unat (chunk_len op) \<le> 1024"
    by (auto split: if_splits)
qed

lemma in_area_sub: "in_area env cfgs c a n \<Longrightarrow> a \<le> b \<Longrightarrow> b + k \<le> a + n \<Longrightarrow> in_area env cfgs c b k"
  by (auto simp: in_area_def)

lemma in_area_bound: "in_area env cfgs c a n \<Longrightarrow> areas_ok env cfgs \<Longrightarrow> a + n \<le> 2 ^ 28"
  by (fastforce simp: in_area_def areas_ok_def)

lemma op_execute_keeps:
  assumes "op_ok env cfgs op" "areas_ok env cfgs" "fs_env_ok env cfgs P" "P e"
  shows "P (snd (op_execute env op e))"
proof (cases "op_code op")
  case FS_OP_STORE
  let ?d = "store_p_dest op" and ?o = "store_offset op" and ?n = "chunk_len op"
  have lt: "?o < store_length_words op"
    and area: "in_area env cfgs (op_p_config op) (unat ?d) (4 * unat (store_length_words op))"
    using assms(1) FS_OP_STORE by (simp_all add: op_ok_def)
  note chunk = chunk_len_le [OF lt]
  have "unat ?d + 4 * unat ?o < 2 ^ 32" using in_area_bound [OF area assms(2)] chunk(1) by simp
  note dest = unat_plus_times_4 [OF this]
  have "in_area env cfgs (op_p_config op) (unat (?d + ucast ?o * 4)) (4 * unat (ucast ?n :: u32))"
    by (rule in_area_sub [OF area]) (use chunk(1) in \<open>simp_all add: dest\<close>)
  from fs_env_okD(1) [OF assms(3) this _ _ assms(4)] chunk(2,3)
  show ?thesis by (simp add: op_execute_def store_execute_def FS_OP_STORE word_le_nat_alt word_less_nat_alt)
next
  case FS_OP_ERASE
  then have "in_area env cfgs (op_p_config op) (4096 * unat (ucast (erase_page op) :: u32)) 4096"
    using assms(1) by (auto simp: op_ok_def word_le_nat_alt word_less_nat_alt elim!: in_area_sub)
  from fs_env_okD(2) [OF assms(3) this assms(4)]
  show ?thesis by (simp add: op_execute_def erase_execute_def FS_OP_ERASE)
next
  case FS_OP_NONE
  then show ?thesis using assms(4) by (simp add: op_execute_def)
qed

lemma fs_inv_grown:
  assumes "fs_inv env s" "processing s" "grown env s s'"
  shows "fs_inv env s'"
proof (rule fs_invI)
  note g = grownD [OF assms(3)]
  show "fs_wf s'" by (rule g(1))
  obtain ops where q: "fs_queue s' = fs_queue s @ ops" "list_all (op_ok env (m_configs s)) ops" using g(6) by blast
  have "fs_queue s \<noteq> []" using fs_invD(2) [OF assms(1,2)] count_pos_queue by blast
  then show "m_count s' > 0" using q(1) count_pos_queue [of s'] by simp
  show "processing s'" "\<not> req_pending s'" using assms(2) g(2) fs_invD(4) [OF assms(1,2)] by simp_all
  show "list_all (op_ok env (m_configs s')) (fs_queue s')"
    using q fs_invD(5) [OF assms(1)] g(4) by simp
qed

lemma queue_process_keeps:
  assumes "fs_inv env s" "m_count s > 0 \<Longrightarrow> processing s"
    and "areas_ok env (m_configs s)" "fs_env_ok env (m_configs s) P" "P e"
  shows "keeps env P s (queue_process env (s, e))"
proof (cases "m_count s > 0")
  case True
  let ?op = "m_op s ! unat (m_rp s)"
  obtain ret e' where x: "op_execute env ?op e = (ret, e')" by fastforce
  note inv = fs_invD [OF assms(1)] and p = assms(2) [OF True]
  have "op_ok env (m_configs s) ?op"
    by (rule fs_queue_head [OF inv(1) True]) (use inv(5) in simp)
  from op_execute_keeps [OF this assms(3-5)] x have e': "P e'" by simp
  have busy: "fs_inv env (s\<lparr>m_flags := m_flags s AND - 3 OR 4\<rparr>)"
    by (rule fs_invI) (use inv in \<open>simp_all add: fs_wf_def fs_queue_def\<close>)
  have "keeps env P s (send_event env ?op FS_ERR_INTERNAL (s, e'))"
  proof (rule send_event_grown [OF inv(1) p assms(3,4) e'])
    fix s' e'' assume *: "send_event env ?op FS_ERR_INTERNAL (s, e') = (s', e'')" "grown env s s'" "P e''"
    then show ?thesis
      using fs_inv_grown [OF assms(1) p *(2)] grownD(4) [OF *(2)] by (simp add: keepsI)
  qed
  then show ?thesis
    using True x e' busy assms(1) by (auto simp: queue_process_def Let_def intro: keepsI)
next
  case False
  then show ?thesis using assms(1,5) by (simp add: queue_process_def keepsI)
qed

lemma queue_start_keeps:
  assumes "fs_wf s" "m_count s > 0" "\<not> (processing s \<and> req_pending s)"
    "list_all (op_ok env (m_configs s)) (fs_queue s)"
    and "areas_ok env (m_configs s)" "fs_env_ok env (m_configs s) P" "P e"
  shows "keeps env P s (queue_start env (s, e))"
proof (cases "processing s \<or> req_pending s")
  case True
  have "fs_inv env s" by (rule fs_invI) (use assms(1-4) True in auto)
  then show ?thesis using assms(7) True by (simp add: queue_start_processing keepsI)
next
  case False
  let ?s = "s\<lparr>m_flags := m_flags s OR 2\<rparr>"
  have inv: "fs_inv env ?s"
    by (rule fs_invI) (use assms(1-4) False in \<open>simp_all add: fs_wf_def fs_queue_def\<close>)
  have "keeps env P ?s (queue_process env (?s, e))"
    by (rule queue_process_keeps [OF inv]) (use assms(5-7) in simp_all)
  then show ?thesis using False by (simp add: queue_start_def keeps_def)
qed

text \<open>What the handlers of the result leave, with which the queue is processed further.\<close>

abbreviation keeps_ready :: "'e fs_env \<Rightarrow> ('e \<Rightarrow> bool) \<Rightarrow> fs_state \<Rightarrow> 'e fs_world \<Rightarrow> bool" where
  "keeps_ready env P s w \<equiv> keeps env P s w \<and> \<not> req_pending (fst w)"

text \<open>The end of a request: the event, then the next one.\<close>

lemma finish_keeps:
  assumes "fs_wf s" "processing s" "\<not> req_pending s" "fs_queue s = op # ops"
    and "list_all (op_ok env (m_configs s)) ops"
    and "areas_ok env (m_configs s)" "fs_env_ok env (m_configs s) P" "P e"
  shows "keeps_ready env P s (map_prod queue_advance id (send_event env op' r (s, e)))"
proof (rule send_event_grown [OF assms(1,2,6-8)])
  fix s' e' assume ev: "send_event env op' r (s, e) = (s', e')" "grown env s s'" "P e'"
  note g = grownD [OF ev(2)]
  obtain more where q: "fs_queue s' = op # ops @ more" "list_all (op_ok env (m_configs s)) more"
    using g(6) assms(4) by auto
  note adv = queue_advance_queue [OF g(1) q(1)]
  have c: "m_count s' \<noteq> 1 \<longleftrightarrow> m_count (queue_advance s') > 0"
    unfolding queue_advance_fields by (metis diff_add_cancel add_0 word_gt_0 diff_self)
  have "fs_inv env (queue_advance s')"
    by (rule fs_invI) (use adv assms(2,3,5) q(2) g(2,4) c in simp_all)
  then show ?thesis using ev(3) g(2,4) assms(3) by (simp add: ev(1) keepsI)
qed

lemma op_update_fields [simp]:
  "m_flags (op_update i f s) = m_flags s" "m_rp (op_update i f s) = m_rp s" "m_count (op_update i f s) = m_count s"
  "m_configs (op_update i f s) = m_configs s" "m_retry_count (op_update i f s) = m_retry_count s"
  by (simp_all add: op_update_def)

lemma fs_wf_op_update [simp]: "fs_wf (op_update i f s) = fs_wf s"
  by (simp add: fs_wf_def) (simp add: op_update_def)

lemma fs_queue_retry [simp]: "fs_queue (s\<lparr>m_retry_count := r\<rparr>) = fs_queue s" "fs_wf (s\<lparr>m_retry_count := r\<rparr>) = fs_wf s"
  by (simp_all add: fs_queue_def fs_wf_def)

lemma store_advanced_ok:
  assumes "op_ok env cfgs op" "op_code op = FS_OP_STORE"
    and "op' = op\<lparr>store_offset := store_offset op + chunk_len op\<rparr>" "store_offset op' \<noteq> store_length_words op'"
  shows "op_ok env cfgs op'"
proof -
  have lt: "store_offset op < store_length_words op" using assms(1,2) by (simp add: op_ok_def)
  note chunk = chunk_len_le [OF lt]
  have "unat (store_offset op + chunk_len op) = unat (store_offset op) + unat (chunk_len op)"
    using chunk(1) u16_less_65536 [of "store_length_words op"] by (intro unat_plus_small) simp
  then have "store_offset op + chunk_len op \<le> store_length_words op" using chunk(1) by (simp add: word_le_nat_alt)
  with assms show ?thesis by (simp add: op_ok_def)
qed

lemma erase_advanced_ok:
  assumes "op_ok env cfgs op" "areas_ok env cfgs" "op_code op = FS_OP_ERASE"
    and "op' = op\<lparr>erase_page := erase_page op + 1, erase_pages_erased := erase_pages_erased op + 1\<rparr>"
    and "erase_pages_erased op' \<noteq> erase_pages_to_erase op'"
  shows "op_ok env cfgs op'"
proof -
  let ?p = "erase_page op" and ?k = "erase_pages_erased op" and ?n = "erase_pages_to_erase op"
  have lt: "?k < ?n" "?k \<le> ?p"
    and area: "in_area env cfgs (op_p_config op) (4096 * (unat ?p - unat ?k)) (4096 * unat ?n)"
    using assms(1,3) by (simp_all add: op_ok_def)
  have k: "unat (?k + 1) = Suc (unat ?k)" using lt(1) by (rule unat_Suc_less)
  then have "unat (?k + 1) \<noteq> unat ?n" using assms(4,5) by (auto simp: word_unat_eq_iff)
  moreover have "4096 * (unat ?p - unat ?k) + 4096 * unat ?n \<le> 2 ^ 28" by (rule in_area_bound [OF area assms(2)])
  ultimately have "unat ?p + 1 < 2 ^ 16" using lt k by (simp add: word_less_nat_alt word_le_nat_alt)
  then have p: "unat (?p + 1) = Suc (unat ?p)" by (subst unat_plus_small) simp_all
  have "?k + 1 < ?n" "?k + 1 \<le> ?p + 1"
    using lt k p \<open>unat (?k + 1) \<noteq> unat ?n\<close> by (simp_all add: word_less_nat_alt word_le_nat_alt)
  with assms(3,4) area k p show ?thesis by (simp add: op_ok_def)
qed

text \<open>A step of a request: \<open>f\<close> changes the element, \<open>b\<close> tells whether it has finished.\<close>

lemma advance_keeps:
  assumes "fs_inv env s" "processing s" "fs_queue s = op # ops" "\<not> b \<Longrightarrow> op_ok env (m_configs s) (f op)"
    and "areas_ok env (m_configs s)" "fs_env_ok env (m_configs s) P" "P e" "i = unat (m_rp s)"
  shows "keeps_ready env P s
    (if b then map_prod queue_advance id (send_event env op' r (op_update i f (s\<lparr>m_retry_count := 0\<rparr>), e))
     else (op_update i f (s\<lparr>m_retry_count := 0\<rparr>), e))"
proof -
  let ?s = "op_update i f (s\<lparr>m_retry_count := 0\<rparr>)"
  note inv = fs_invD [OF assms(1)]
  have ok: "list_all (op_ok env (m_configs s)) ops" using inv(5) assms(3) by simp
  have np: "\<not> req_pending s" by (rule inv(4) [OF assms(2)])
  have q: "fs_queue ?s = f op # ops"
    using op_update_head [of "s\<lparr>m_retry_count := 0\<rparr>" op ops f] inv(1) assms(3,8) by simp
  have fin: "keeps_ready env P ?s (map_prod queue_advance id (send_event env op' r (?s, e)))"
    by (rule finish_keeps [OF _ _ _ q]) (use inv(1) assms np ok in simp_all)
  have "fs_inv env ?s" if "\<not> b"
    by (rule fs_invI) (use inv assms(2) np ok q assms(4) that in simp_all)
  with fin np assms(7) show ?thesis by (auto simp: keeps_def)
qed

lemma op_update_nth: "i < length (m_op s) \<Longrightarrow> m_op (op_update i f s) ! i = f (m_op s ! i)"
  by (simp add: op_update_def)

lemma on_operation_success_keeps:
  assumes "fs_inv env s" "processing s"
    and "areas_ok env (m_configs s)" "fs_env_ok env (m_configs s) P" "P e" "i = unat (m_rp s)"
  shows "keeps_ready env P s (on_operation_success env i (s, e))"
proof -
  note inv = fs_invD [OF assms(1)]
  obtain ops where q: "fs_queue s = m_op s ! i # ops"
    using fs_queue_head [OF inv(1) inv(2) [OF assms(2)]] assms(6) by blast
  let ?op = "m_op s ! i"
  have ok: "op_ok env (m_configs s) ?op" using inv(5) q by simp
  note advance = advance_keeps [OF assms(1,2) q _ assms(3-6)]
  have i: "i < length (m_op s)" using fs_wfD(1,2) [OF inv(1)] assms(6) by simp
  show ?thesis
  proof (cases "op_code ?op")
    case FS_OP_STORE
    let ?f = "\<lambda>p_op. p_op\<lparr>store_offset := store_offset p_op + chunk_len p_op\<rparr>"
    have "op_ok env (m_configs s) (?f ?op)" if "\<not> store_offset (?f ?op) = store_length_words (?f ?op)"
      by (rule store_advanced_ok [OF ok FS_OP_STORE refl that])
    from advance [where f = ?f, OF this] FS_OP_STORE i show ?thesis
      by (simp add: on_operation_success_def Let_def op_update_nth)
  next
    case FS_OP_ERASE
    let ?f = "\<lambda>p_op. p_op\<lparr>erase_page := erase_page p_op + 1, erase_pages_erased := erase_pages_erased p_op + 1\<rparr>"
    have "op_ok env (m_configs s) (?f ?op)" if "\<not> erase_pages_erased (?f ?op) = erase_pages_to_erase (?f ?op)"
      by (rule erase_advanced_ok [OF ok assms(3) FS_OP_ERASE refl that])
    from advance [where f = ?f, OF this] FS_OP_ERASE i show ?thesis
      by (simp add: on_operation_success_def Let_def op_update_nth)
  next
    case FS_OP_NONE
    with ok show ?thesis by (simp add: op_ok_def)
  qed
qed

lemma on_operation_failure_keeps:
  assumes "fs_inv env s" "processing s"
    and "areas_ok env (m_configs s)" "fs_env_ok env (m_configs s) P" "P e" "i = unat (m_rp s)"
  shows "keeps_ready env P s (on_operation_failure env i (s, e))"
proof -
  note inv = fs_invD [OF assms(1)]
  obtain ops where q: "fs_queue s = m_op s ! i # ops"
    using fs_queue_head [OF inv(1) inv(2) [OF assms(2)]] assms(6) by blast
  have ok: "list_all (op_ok env (m_configs s)) ops" using inv(5) q by simp
  have np: "\<not> req_pending s" by (rule inv(4) [OF assms(2)])
  let ?s = "\<lambda>r. s\<lparr>m_retry_count := r\<rparr>"
  have fin: "keeps_ready env P (?s 0) (map_prod queue_advance id (send_event env (m_op s ! i) FS_ERR_OPERATION_TIMEOUT (?s 0, e)))"
    by (rule finish_keeps) (use inv(1) assms np ok q in simp_all)
  have "fs_inv env (?s r)" for r by (rule fs_invI) (use inv assms(2) np in simp_all)
  with fin np assms(5) show ?thesis
    by (simp add: on_operation_failure_def Let_def keeps_def)
qed

lemma fs_sys_event_handler_keeps:
  assumes "fs_inv env s" "areas_ok env (m_configs s)" "fs_env_ok env (m_configs s) P" "P e"
  shows "keeps env P s (fs_sys_event_handler env sys_evt (s, e))"
proof -
  note inv = fs_invD [OF assms(1)]
  have process: "keeps env P s (queue_process env w)" if "keeps_ready env P s w" for w
  proof -
    obtain t e' where w: "w = (t, e')" by fastforce
    have t: "fs_inv env t" "P e'" "m_configs t = m_configs s" "\<not> req_pending t"
      using that by (simp_all add: w keeps_def)
    have "keeps env P t (queue_process env (t, e'))"
      by (rule queue_process_keeps [OF t(1)]) (use t assms(2,3) fs_invD(3) [OF t(1)] in simp_all)
    then show ?thesis using t(3) by (simp add: w keeps_def)
  qed
  show ?thesis
  proof (cases "processing s")
    case True
    note step = on_operation_success_keeps [OF assms(1) True assms(2-4) refl]
      on_operation_failure_keeps [OF assms(1) True assms(2-4) refl]
    have "keeps_ready env P s (s, e)" using assms(1,4) inv(4) [OF True] by (simp add: keeps_def)
    then show ?thesis
      using step True by (cases sys_evt) (simp_all add: fs_sys_event_handler_def Let_def process)
  next
    case False
    note not_processing = this
    show ?thesis
    proof (cases "req_pending s")
      case True
      let ?s = "s\<lparr>m_flags := m_flags s AND - 5\<rparr>"
      have "fs_inv env (?s\<lparr>m_flags := m_flags s AND - 5 OR 2\<rparr>)" if "m_count s > 0"
        by (rule fs_invI) (use inv not_processing that in \<open>simp_all add: fs_wf_def fs_queue_def\<close>)
      moreover have "fs_inv env ?s" if "\<not> m_count s > 0"
        by (rule fs_invI) (use inv not_processing that in \<open>simp_all add: fs_wf_def fs_queue_def\<close>)
      ultimately have "keeps_ready env P s (if m_count s > 0 then ?s\<lparr>m_flags := m_flags s AND - 5 OR 2\<rparr> else ?s, e)"
        using assms(4) by (auto simp: keeps_def)
      from process [OF this] show ?thesis
        using True not_processing by (simp add: fs_sys_event_handler_def Let_def split: if_splits)
    next
      case False
      have "keeps_ready env P s (s, e)" using assms(1,4) False by (simp add: keeps_def)
      from process [OF this] show ?thesis
        using False not_processing by (simp add: fs_sys_event_handler_def Let_def)
    qed
  qed
qed

subsection \<open>Runs\<close>

lemma grown_start_keeps:
  assumes "fs_inv env s" "grown env s s'" "m_count s' > 0"
    and "areas_ok env (m_configs s)" "fs_env_ok env (m_configs s) P" "P e"
  shows "keeps env P s (queue_start env (s', e))"
proof -
  note inv = fs_invD [OF assms(1)] and g = grownD [OF assms(2)]
  have "list_all (op_ok env (m_configs s)) (fs_queue s')" using g(6) inv(5) by auto
  then have "keeps env P s' (queue_start env (s', e))"
    by (intro queue_start_keeps) (use g assms(3-6) inv(4) in auto)
  then show ?thesis using g(4) by (simp add: keeps_def)
qed

lemma fs_call_keeps:
  assumes "fs_call env (s, e) w" "fs_inv env s" "areas_ok env (m_configs s)" "fs_env_ok env (m_configs s) P" "P e"
  shows "keeps env P s w"
  using assms(1)
proof (cases rule: fs_call.cases)
  case (call_store p_dest n c p_src)
  have fits: "put_fits s" using call_store by simp
  show ?thesis
  proof (cases rule: fs_store_cases [OF fs_invD(1) [OF assms(2)] fits call_store(3),
        where c = c and p_src = p_src and e = e and env = env])
    case 1
    then show ?thesis using call_store(1) assms(2,5) by (simp add: keepsI)
  next
    case (2 s')
    then show ?thesis using call_store(1) grown_start_keeps [OF assms(2) 2(2,3) assms(3-5)] by simp
  qed
next
  case (call_erase p_page_addr n c)
  have fits: "put_fits s" using call_erase by simp
  show ?thesis
  proof (cases rule: fs_erase_cases [OF fs_invD(1) [OF assms(2)] fits call_erase(3) assms(3),
        where c = c and e = e])
    case 1
    then show ?thesis using call_erase(1) assms(2,5) by (simp add: keepsI)
  next
    case (2 s')
    then show ?thesis using call_erase(1) grown_start_keeps [OF assms(2) 2(2,3) assms(3-5)] by simp
  qed
next
  case call_init
  then show ?thesis
    using fs_wfD(4) [OF fs_invD(1) [OF assms(2)]] assms(2,5) by (simp add: fs_init_initialized keepsI)
qed

lemma fs_steps_keep:
  assumes "(fs_step env)\<^sup>*\<^sup>* (s, e) w" "fs_inv env s" "areas_ok env (m_configs s)"
    "fs_env_ok env (m_configs s) P" "P e"
  shows "keeps env P s w"
  using assms(1)
proof (induction rule: rtranclp_induct)
  case base
  then show ?case using assms(2,5) by (simp add: keepsI)
next
  case (step w w')
  obtain t e' where w: "w = (t, e')" by fastforce
  have t: "fs_inv env t" "P e'" "m_configs t = m_configs s" using step.IH by (simp_all add: w keeps_def)
  from step.hyps(2) have "keeps env P t w'"
    unfolding w
  proof (cases rule: fs_step.cases)
    case step_call
    then show ?thesis using fs_call_keeps [OF _ t(1)] t assms(3,4) by simp
  next
    case (step_event sys_evt)
    then show ?thesis using fs_sys_event_handler_keeps [OF t(1)] t assms(3,4) by simp
  qed
  with t(3) show ?case by (simp add: keeps_def)
qed

end
