(* ===== verification/FstorageThms.thy ===== *)
theory FstorageThms
  imports FstorageInv
begin

text \<open>
  The theorems on the flash storage module: the safety of runs, the execution of a request from
  the call to the event, and the cases in which the code goes wrong.
\<close>

unbundle bit_operations_syntax

subsection \<open>The execution of one request\<close>

definition fs_idle :: "fs_state \<Rightarrow> bool" where
  "fs_idle s \<longleftrightarrow> fs_wf s \<and> m_count s = 0 \<and> \<not> processing s \<and> \<not> req_pending s"

definition op_next :: "fs_op \<Rightarrow> fs_op" where
  "op_next op =
     (if op_code op = FS_OP_STORE then op\<lparr>store_offset := store_offset op + chunk_len op\<rparr>
      else op\<lparr>erase_page := erase_page op + 1, erase_pages_erased := erase_pages_erased op + 1\<rparr>)"

definition op_finished :: "fs_op \<Rightarrow> bool" where
  "op_finished op \<longleftrightarrow>
     (if op_code op = FS_OP_STORE then store_offset op = store_length_words op
      else erase_pages_erased op = erase_pages_to_erase op)"

lemma op_next_fields [simp]: "op_code (op_next op) = op_code op" "op_p_config (op_next op) = op_p_config op"
  by (simp_all add: op_next_def)

lemma op_next_store: "op_code op = FS_OP_STORE \<Longrightarrow> op_next op = op\<lparr>store_offset := store_offset op + chunk_len op\<rparr>"
  and op_next_erase: "op_code op = FS_OP_ERASE \<Longrightarrow>
    op_next op = op\<lparr>erase_page := erase_page op + 1, erase_pages_erased := erase_pages_erased op + 1\<rparr>"
  by (simp_all add: op_next_def)

lemma on_operation_success_next:
  assumes "i < length (m_op s)" "op_code (m_op s ! i) \<noteq> FS_OP_NONE"
  shows "on_operation_success env i (s, e) =
    (let t = op_update i op_next (s\<lparr>m_retry_count := 0\<rparr>)
     in if op_finished (op_next (m_op s ! i))
        then map_prod queue_advance id (send_event env (op_next (m_op s ! i)) FS_SUCCESS (t, e)) else (t, e))"
proof -
  have u: "op_update i f t = op_update i op_next t" if "f (m_op t ! i) = op_next (m_op t ! i)" for f t
    using that by (simp add: op_update_def)
  show ?thesis
  proof (cases "op_code (m_op s ! i)")
    case FS_OP_STORE
    then show ?thesis using assms(1)
      by (simp add: on_operation_success_def Let_def op_update_nth u [where f = "\<lambda>p_op. p_op\<lparr>store_offset := store_offset p_op + chunk_len p_op\<rparr>"]
          op_next_def op_finished_def)
  next
    case FS_OP_ERASE
    then show ?thesis using assms(1)
      by (simp add: on_operation_success_def Let_def op_update_nth u [where f = "\<lambda>p_op. p_op\<lparr>erase_page := erase_page p_op + 1, erase_pages_erased := erase_pages_erased p_op + 1\<rparr>"]
          op_next_def op_finished_def)
  qed (use assms(2) in simp)
qed

text \<open>
  A SoftDevice that accepts every command, and a client whose callback makes no calls: \<open>on_evt\<close>
  is what the callback does to the environment.
\<close>

definition accepts :: "'e fs_env \<Rightarrow> bool" where
  "accepts env \<longleftrightarrow> (\<forall>p_dest p_src n e. fst (sd_flash_write env p_dest p_src n e) = NRF_SUCCESS) \<and>
     (\<forall>page e. fst (sd_flash_page_erase env page e) = NRF_SUCCESS)"

definition quiet :: "'e fs_env \<Rightarrow> (u32 \<Rightarrow> fs_evt \<Rightarrow> fs_ret \<Rightarrow> 'e \<Rightarrow> 'e) \<Rightarrow> bool" where
  "quiet env on_evt \<longleftrightarrow>
     (\<forall>cb evt r s e. call_fs_callback env cb evt r (s, e) = (s, on_evt cb evt r e))"

lemma send_event_quiet:
  "quiet env on_evt \<Longrightarrow>
    send_event env op r (s, e) = (s, on_evt (callback (m_configs s (op_p_config op))) (evt_of_op op) r e)"
  by (simp add: send_event_def quiet_def)

lemma op_execute_accepts: "accepts env \<Longrightarrow> op_code op \<noteq> FS_OP_NONE \<Longrightarrow> fst (op_execute env op e) = NRF_SUCCESS"
  by (cases "op_code op") (simp_all add: accepts_def op_execute_def store_execute_def erase_execute_def)

lemma queue_process_accepts:
  assumes "fs_wf s" "fs_queue s = op # ops" "accepts env" "op_code op \<noteq> FS_OP_NONE"
  shows "queue_process env (s, e) = (s, snd (op_execute env op e))"
proof -
  have c: "m_count s > 0" using assms(2) count_pos_queue by simp
  then have "m_op s ! unat (m_rp s) = op" by (rule fs_queue_head [OF assms(1)]) (use assms(2) in simp)
  moreover obtain ret e' where "op_execute env op e = (ret, e')" by fastforce
  moreover from this have "ret = NRF_SUCCESS" using op_execute_accepts [OF assms(3,4), of e] by simp
  ultimately show ?thesis using c by (simp add: queue_process_def Let_def)
qed

definition op_run :: "'e fs_env \<Rightarrow> fs_op \<Rightarrow> nat \<Rightarrow> 'e \<Rightarrow> 'e" where
  "op_run env op k e = fold (\<lambda>j. snd \<circ> op_execute env ((op_next ^^ j) op)) [0..<k] e"

lemma op_run_Suc: "op_run env op (Suc k) e = op_run env (op_next op) k (snd (op_execute env op e))"
proof -
  have "[0..<Suc k] = 0 # map Suc [0..<k]" by (simp add: upt_conv_Cons map_Suc_upt)
  then show ?thesis
    unfolding op_run_def by (simp add: fold_map comp_def funpow_swap1 del: upt_Suc)
qed

lemma run_request:
  assumes "fs_wf s" "processing s" "\<not> req_pending s" "fs_queue s = [op]" "op_code op \<noteq> FS_OP_NONE"
    and "accepts env" "quiet env on_evt" "op_finished ((op_next ^^ Suc k) op)"
    and "\<forall>j \<le> k. 0 < j \<longrightarrow> \<not> op_finished ((op_next ^^ j) op)"
  shows "\<exists>s'. (fs_sys_event_handler env NRF_EVT_FLASH_OPERATION_SUCCESS ^^ Suc k) (s, e) =
      (s', on_evt (callback (m_configs s (op_p_config op))) (evt_of_op ((op_next ^^ Suc k) op)) FS_SUCCESS
             (op_run env (op_next op) k e)) \<and> fs_idle s' \<and> m_configs s' = m_configs s"
  using assms(1-5,8,9)
proof (induction k arbitrary: s op e)
  case 0
  note wf = fs_wfD [OF "0.prems"(1)]
  let ?i = "unat (m_rp s)" and ?t = "op_update (unat (m_rp s)) op_next (s\<lparr>m_retry_count := 0\<rparr>)"
  have c: "m_count s = 1" using "0.prems"(4) length_fs_queue [of s] by (simp add: word_unat_eq_iff)
  have op: "m_op s ! ?i = op" by (rule fs_queue_head [OF "0.prems"(1)]) (use "0.prems"(4) c in simp_all)
  let ?s' = "queue_advance ?t"
  have q: "fs_queue ?t = op_next op # []"
    using op_update_head [of "s\<lparr>m_retry_count := 0\<rparr>" op "[]" op_next] "0.prems"(1,4) by simp
  have "fs_idle ?s'"
    using queue_advance_queue [OF _ q] "0.prems"(1,3) c by (simp add: fs_idle_def)
  moreover have "fs_sys_event_handler env NRF_EVT_FLASH_OPERATION_SUCCESS (s, e) =
      queue_process env (?s', on_evt (callback (m_configs s (op_p_config op))) (evt_of_op (op_next op)) FS_SUCCESS e)"
    using "0.prems" wf op
    by (simp add: fs_sys_event_handler_def on_operation_success_next Let_def send_event_quiet [OF assms(7)])
  ultimately show ?case using c by (auto simp: queue_process_def op_run_def fs_idle_def)
next
  case (Suc k)
  note wf = fs_wfD [OF Suc.prems(1)]
  let ?i = "unat (m_rp s)" and ?t = "op_update (unat (m_rp s)) op_next (s\<lparr>m_retry_count := 0\<rparr>)"
  have c: "m_count s = 1" using Suc.prems(4) length_fs_queue [of s] by (simp add: word_unat_eq_iff)
  have op: "m_op s ! ?i = op" by (rule fs_queue_head [OF Suc.prems(1)]) (use Suc.prems(4) c in simp_all)
  have q: "fs_queue ?t = [op_next op]"
    using op_update_head [of "s\<lparr>m_retry_count := 0\<rparr>" op "[]" op_next] Suc.prems(1,4) by simp
  have nf: "\<not> op_finished (op_next op)" using Suc.prems(7) [rule_format, of 1] by simp
  have "fs_sys_event_handler env NRF_EVT_FLASH_OPERATION_SUCCESS (s, e) = queue_process env (?t, e)"
    using Suc.prems wf op nf by (simp add: fs_sys_event_handler_def on_operation_success_next Let_def)
  also have "\<dots> = (?t, snd (op_execute env (op_next op) e))"
    by (rule queue_process_accepts [OF _ q assms(6)]) (use Suc.prems in simp_all)
  finally have step: "fs_sys_event_handler env NRF_EVT_FLASH_OPERATION_SUCCESS (s, e) =
    (?t, snd (op_execute env (op_next op) e))" .
  have "\<exists>s'. (fs_sys_event_handler env NRF_EVT_FLASH_OPERATION_SUCCESS ^^ Suc k) (?t, snd (op_execute env (op_next op) e)) =
      (s', on_evt (callback (m_configs ?t (op_p_config (op_next op)))) (evt_of_op ((op_next ^^ Suc k) (op_next op))) FS_SUCCESS
             (op_run env (op_next (op_next op)) k (snd (op_execute env (op_next op) e)))) \<and> fs_idle s' \<and>
      m_configs s' = m_configs ?t"
  proof (rule Suc.IH [OF _ _ _ q])
    show "\<forall>j \<le> k. 0 < j \<longrightarrow> \<not> op_finished ((op_next ^^ j) (op_next op))"
      using Suc.prems(7) by (metis Suc_le_mono funpow_Suc_right o_apply zero_less_Suc)
    show "op_finished ((op_next ^^ Suc k) (op_next op))"
      using Suc.prems(6) by (simp add: funpow_swap1)
  qed (use Suc.prems in simp_all)
  then show ?case
    unfolding funpow.simps(2) [of "Suc k"] funpow_Suc_right [of "Suc k" "fs_sys_event_handler env NRF_EVT_FLASH_OPERATION_SUCCESS"]
    by (simp add: step op_run_Suc funpow_swap1)
qed

text \<open>The commands a request stands for: chunks of at most 1024 words, or pages, in ascending order.\<close>

definition n_chunks :: "u16 \<Rightarrow> nat" where
  "n_chunks n = (unat n + 1023) div 1024"

definition write_chunks :: "'e fs_env \<Rightarrow> u32 \<Rightarrow> u32 \<Rightarrow> u16 \<Rightarrow> 'e \<Rightarrow> 'e" where
  "write_chunks env p_dest p_src n e =
     fold (\<lambda>j e. snd (sd_flash_write env (p_dest + of_nat (4096 * j)) (p_src + of_nat (4096 * j))
             (of_nat (min 1024 (unat n - 1024 * j))) e)) [0..<n_chunks n] e"

definition erase_pages :: "'e fs_env \<Rightarrow> u16 \<Rightarrow> u16 \<Rightarrow> 'e \<Rightarrow> 'e" where
  "erase_pages env first n e =
     fold (\<lambda>j e. snd (sd_flash_page_erase env (ucast (first + of_nat j)) e)) [0..<unat n] e"

lemma chunk_len_at:
  assumes "1024 * j < unat n" "store_length_words op = n" "store_offset op = of_nat (1024 * j)"
  shows "unat (chunk_len op) = min 1024 (unat n - 1024 * j)"
proof -
  have "1024 * j < 2 ^ 16" using assms(1) u16_less_65536 [of n] by simp
  then have o': "unat (store_offset op) = 1024 * j" unfolding assms(3) by (rule unat_of_nat_u16)
  have d: "uint (store_length_words op) - uint (store_offset op) = int (unat n - 1024 * j)"
    unfolding uint_nat o' assms(2) using assms(1) by (metis less_imp_le_nat of_nat_diff)
  have "unat (n - store_offset op) = unat n - 1024 * j"
    using assms(1) o' by (subst unat_minus_le) (simp_all add: word_le_nat_alt)
  then show ?thesis unfolding chunk_len_def d by (auto simp: assms(2) min_def)
qed

lemma store_offset_at:
  assumes "op_code op = FS_OP_STORE" "store_offset op = 0" "store_length_words op = n"
  shows "1024 * j < unat n + 1024 \<Longrightarrow> (op_next ^^ j) op = op\<lparr>store_offset := of_nat (min (1024 * j) (unat n))\<rparr>"
proof (induction j)
  case 0
  then show ?case using assms(2) by simp
next
  case (Suc j)
  let ?op = "op\<lparr>store_offset := of_nat (min (1024 * j) (unat n)) :: u16\<rparr>"
  have j: "1024 * j < unat n" using Suc.prems by simp
  then have IH: "(op_next ^^ j) op = ?op" using Suc.IH by simp
  have len: "unat (chunk_len ?op) = min 1024 (unat n - 1024 * j)"
    by (rule chunk_len_at [OF j]) (use j assms(3) in simp_all)
  have "unat (chunk_len ?op) = unat (of_nat (min 1024 (unat n - 1024 * j)) :: u16)"
    unfolding len by (rule sym, rule unat_of_nat_u16) simp
  then have "chunk_len ?op = of_nat (min 1024 (unat n - 1024 * j))" by (simp only: word_unat_eq_iff)
  then have "store_offset ?op + chunk_len ?op = of_nat (min (1024 * j) (unat n) + min 1024 (unat n - 1024 * j))"
    by (simp only: of_nat_add) simp
  also have "min (1024 * j) (unat n) + min 1024 (unat n - 1024 * j) = min (1024 * Suc j) (unat n)" using j by auto
  finally show ?case using IH assms(1) by (simp add: op_next_store del: of_nat_mult)
qed

lemma erase_at:
  assumes "op_code op = FS_OP_ERASE" "erase_pages_erased op = 0"
  shows "(op_next ^^ j) op = op\<lparr>erase_page := erase_page op + of_nat j, erase_pages_erased := of_nat j\<rparr>"
  by (induction j) (use assms in \<open>simp_all add: op_next_erase add.assoc add.commute [of 1]\<close>)

lemma n_chunks_pos: "0 < n \<Longrightarrow> 0 < n_chunks n"
proof -
  assume "0 < n"
  then have "0 < unat n" by (simp add: word_less_nat_alt)
  then show ?thesis by (simp add: n_chunks_def div_greater_zero_iff)
qed

lemma n_chunks_less: "j < n_chunks n \<longleftrightarrow> 1024 * j < unat n"
  unfolding n_chunks_def by linarith

lemma n_chunks_bound: "0 < n \<Longrightarrow> 1024 * n_chunks n < unat n + 1024" "unat n \<le> 1024 * n_chunks n"
  unfolding n_chunks_def by linarith+

lemma op_run_store:
  assumes "op_code op = FS_OP_STORE" "store_offset op = 0" "store_length_words op = n"
  shows "op_run env op (n_chunks n) e = write_chunks env (store_p_dest op) (store_p_src op) n e"
  unfolding op_run_def write_chunks_def
proof (rule fold_cong [OF refl refl])
  fix j assume "j \<in> set [0..<n_chunks n]"
  then have j: "1024 * j < unat n" using n_chunks_less [of j n] by simp
  let ?op = "op\<lparr>store_offset := of_nat (1024 * j) :: u16\<rparr>"
  have at: "(op_next ^^ j) op = ?op" using store_offset_at [OF assms, of j] j by simp
  have len: "unat (chunk_len ?op) = min 1024 (unat n - 1024 * j)"
    by (rule chunk_len_at [OF j]) (use assms(3) in simp_all)
  have "1024 * j < 2 ^ 16" using j u16_less_65536 [of n] by simp
  note off = unat_of_nat_u16 [OF this]
  have "ucast (of_nat (1024 * j) :: u16) = (of_nat (1024 * j) :: u32)"
    using off \<open>1024 * j < 2 ^ 16\<close> by (simp add: word_unat_eq_iff unat_of_nat_u32 del: of_nat_mult)
  moreover have "ucast (chunk_len ?op) = (of_nat (min 1024 (unat n - 1024 * j)) :: u32)"
    unfolding len [symmetric] by simp
  moreover have "of_nat (1024 * j) * 4 = (of_nat (4096 * j) :: u32)" by simp
  ultimately show "snd \<circ> op_execute env ((op_next ^^ j) op) = (\<lambda>e. snd (sd_flash_write env
      (store_p_dest op + of_nat (4096 * j)) (store_p_src op + of_nat (4096 * j))
      (of_nat (min 1024 (unat n - 1024 * j))) e))"
    unfolding at by (simp add: fun_eq_iff op_execute_def store_execute_def assms(1) del: of_nat_mult)
qed

lemma op_run_erase:
  assumes "op_code op = FS_OP_ERASE" "erase_pages_erased op = 0"
  shows "op_run env op (unat n) e = erase_pages env (erase_page op) n e"
  unfolding op_run_def erase_pages_def
  by (rule fold_cong [OF refl refl])
    (simp add: fun_eq_iff erase_at [OF assms] op_execute_def erase_execute_def assms(1))

text \<open>A request that an idle module accepts is executed as soon as the call starts the queue.\<close>

lemma idle_put:
  assumes "fs_idle s" "queue_get_next_free s = Some (i, t)" "accepts env" "quiet env on_evt"
    and "op_code (f fs_op_zero) \<noteq> FS_OP_NONE" "0 < k"
    and "op_finished ((op_next ^^ k) (f fs_op_zero))" "\<forall>j < k. 0 < j \<longrightarrow> \<not> op_finished ((op_next ^^ j) (f fs_op_zero))"
  shows "\<exists>s'. (fs_sys_event_handler env NRF_EVT_FLASH_OPERATION_SUCCESS ^^ k) (queue_start env (op_update i f t, e)) =
      (s', on_evt (callback (m_configs s (op_p_config (f fs_op_zero)))) (evt_of_op ((op_next ^^ k) (f fs_op_zero)))
             FS_SUCCESS (op_run env (f fs_op_zero) k e)) \<and> fs_idle s' \<and> m_configs s' = m_configs s"
proof -
  have idle: "fs_wf s" "m_count s = 0" "\<not> processing s" "\<not> req_pending s"
    using assms(1) by (simp_all add: fs_idle_def)
  have "unat (m_count s) = 0" using idle(2) by simp
  then have "put_fits s" "fs_queue s = []" "m_count s \<noteq> 4"
    using fs_wfD(2) [OF idle(1)] idle(2) by (simp_all add: put_fits_def fs_queue_def)
  then have g: "fs_queue (op_update i f t) = [f fs_op_zero]" "fs_wf (op_update i f t)"
    "m_flags t = m_flags s" "m_configs t = m_configs s"
    using get_next_free_queue [OF idle(1), where f = f] assms(2) by (metis append_Nil option.inject prod.inject)+
  let ?t = "op_update i f t\<lparr>m_flags := m_flags s OR 2\<rparr>" and ?op = "f fs_op_zero"
  have q: "fs_queue ?t = [?op]" "fs_wf ?t" using g(1,2) by (simp_all add: fs_queue_def fs_wf_def) (simp add: g(3))
  have "queue_process env (?t, e) = (?t, snd (op_execute env ?op e))"
    by (rule queue_process_accepts [OF q(2,1) assms(3,5)])
  then have start: "queue_start env (op_update i f t, e) = (?t, snd (op_execute env ?op e))"
    using idle(3,4) g(3) by (simp add: queue_start_def)
  obtain k' where k: "k = Suc k'" using assms(6) by (cases k) simp_all
  have "\<exists>s'. (fs_sys_event_handler env NRF_EVT_FLASH_OPERATION_SUCCESS ^^ Suc k') (?t, snd (op_execute env ?op e)) =
      (s', on_evt (callback (m_configs ?t (op_p_config ?op))) (evt_of_op ((op_next ^^ Suc k') ?op)) FS_SUCCESS
             (op_run env (op_next ?op) k' (snd (op_execute env ?op e)))) \<and> fs_idle s' \<and> m_configs s' = m_configs ?t"
    by (rule run_request [OF q(2) _ _ q(1) assms(5,3,4)]) (use idle(4) assms(7,8) k in simp_all)
  then show ?thesis unfolding start k using g(4) by (simp add: op_run_Suc)
qed

text \<open>
  C27. If the module is idle, the SoftDevice accepts every command and reports its success, and
  the client's callback makes no calls, then a request that \<^verbatim>\<open>fs_store\<close> accepts writes
  exactly the chunks of at most 1024 words that the data consists of, in ascending order, one
  for every success event; one that \<^verbatim>\<open>fs_erase\<close> accepts erases exactly the requested pages. The
  client then gets exactly one event, with the code \<open>FS_SUCCESS\<close>, and the module is idle again.
  The last page in the event of an erasure is the page after the last one erased.
\<close>

theorem fs_request_completes:
  assumes "fs_idle s" "accepts env" "quiet env on_evt"
  shows "(\<forall>w. fs_store env c p_dest p_src n (s, e) = (FS_SUCCESS, w) \<longrightarrow>
      (\<exists>s'. (fs_sys_event_handler env NRF_EVT_FLASH_OPERATION_SUCCESS ^^ n_chunks n) w =
         (s', on_evt (callback (m_configs s c)) (FS_EVT_STORE p_dest n) FS_SUCCESS
                (write_chunks env p_dest p_src n e)) \<and> fs_idle s' \<and> m_configs s' = m_configs s)) \<and>
    (\<forall>w. fs_erase env c p_page_addr n (s, e) = (FS_SUCCESS, w) \<longrightarrow>
      (\<exists>s'. (fs_sys_event_handler env NRF_EVT_FLASH_OPERATION_SUCCESS ^^ unat n) w =
         (s', on_evt (callback (m_configs s c))
                (FS_EVT_ERASE (ucast (p_page_addr div 4096)) (ucast (p_page_addr div 4096) + n)) FS_SUCCESS
                (erase_pages env (ucast (p_page_addr div 4096)) n e)) \<and> fs_idle s' \<and> m_configs s' = m_configs s))"
proof (intro conjI allI impI)
  fix w assume *: "fs_store env c p_dest p_src n (s, e) = (FS_SUCCESS, w)"
  let ?f = "\<lambda>p_op. p_op\<lparr>op_p_config := c, op_code := FS_OP_STORE, store_p_src := p_src, store_p_dest := p_dest,
    store_length_words := n\<rparr>"
  let ?op = "?f fs_op_zero"
  obtain i t where g: "queue_get_next_free s = Some (i, t)" "n \<noteq> 0" "w = queue_start env (op_update i ?f t, e)"
    using * unfolding fs_store_def by (auto split: if_splits option.splits)
  have n: "0 < n" using g(2) by (simp add: word_gt_0)
  have op: "op_code ?op = FS_OP_STORE" "store_offset ?op = 0" "store_length_words ?op = n"
    by (simp_all add: fs_op_zero_def)
  note at = store_offset_at [OF op]
  have fin: "(op_next ^^ n_chunks n) ?op = ?op\<lparr>store_offset := n\<rparr>"
    using at [OF n_chunks_bound(1) [OF n]] n_chunks_bound(2) [of n] by (simp add: min_def)
  have nf: "\<not> op_finished ((op_next ^^ j) ?op)" if "j < n_chunks n" for j
  proof -
    have j: "1024 * j < unat n" using that by (simp add: n_chunks_less)
    then have "unat (of_nat (1024 * j) :: u16) = 1024 * j"
      using u16_less_65536 [of n] by (intro unat_of_nat_u16) simp
    then have "of_nat (1024 * j) \<noteq> n" using j by (metis less_irrefl)
    then show ?thesis using at [of j] j op by (simp add: op_finished_def del: of_nat_mult)
  qed
  have "\<exists>s'. (fs_sys_event_handler env NRF_EVT_FLASH_OPERATION_SUCCESS ^^ n_chunks n) w =
      (s', on_evt (callback (m_configs s (op_p_config ?op))) (evt_of_op ((op_next ^^ n_chunks n) ?op))
             FS_SUCCESS (op_run env ?op (n_chunks n) e)) \<and> fs_idle s' \<and> m_configs s' = m_configs s"
    unfolding g(3) by (rule idle_put [OF assms(1) g(1) assms(2,3)])
      (use op nf n_chunks_pos [OF n] in \<open>simp_all add: fin op_finished_def\<close>)
  then show "\<exists>s'. (fs_sys_event_handler env NRF_EVT_FLASH_OPERATION_SUCCESS ^^ n_chunks n) w =
         (s', on_evt (callback (m_configs s c)) (FS_EVT_STORE p_dest n) FS_SUCCESS
                (write_chunks env p_dest p_src n e)) \<and> fs_idle s' \<and> m_configs s' = m_configs s"
    unfolding fin op_run_store [OF op] by (simp add: evt_of_op_def)
next
  fix w assume *: "fs_erase env c p_page_addr n (s, e) = (FS_SUCCESS, w)"
  let ?f = "\<lambda>p_op. p_op\<lparr>op_p_config := c, op_code := FS_OP_ERASE, erase_page := ucast (p_page_addr div 4096),
    erase_pages_to_erase := n\<rparr>"
  let ?op = "?f fs_op_zero"
  obtain i t where g: "queue_get_next_free s = Some (i, t)" "n \<noteq> 0" "w = queue_start env (op_update i ?f t, e)"
    using * unfolding fs_erase_def by (auto split: if_splits option.splits)
  have n: "0 < unat n" using g(2) by (simp add: unat_gt_0)
  have op: "op_code ?op = FS_OP_ERASE" "erase_pages_erased ?op = 0" by (simp_all add: fs_op_zero_def)
  note at = erase_at [OF op]
  have nf: "\<not> op_finished ((op_next ^^ j) ?op)" if "j < unat n" for j
  proof -
    have "unat (of_nat j :: u16) = j" using that u16_less_65536 [of n] by (intro unat_of_nat_u16) simp
    then have "of_nat j \<noteq> n" using that by auto
    then show ?thesis by (simp add: at op_finished_def)
  qed
  have "\<exists>s'. (fs_sys_event_handler env NRF_EVT_FLASH_OPERATION_SUCCESS ^^ unat n) w =
      (s', on_evt (callback (m_configs s (op_p_config ?op))) (evt_of_op ((op_next ^^ unat n) ?op))
             FS_SUCCESS (op_run env ?op (unat n) e)) \<and> fs_idle s' \<and> m_configs s' = m_configs s"
    unfolding g(3) by (rule idle_put [OF assms(1) g(1) assms(2,3)])
      (use op nf n in \<open>simp_all add: at op_finished_def\<close>)
  then show "\<exists>s'. (fs_sys_event_handler env NRF_EVT_FLASH_OPERATION_SUCCESS ^^ unat n) w =
         (s', on_evt (callback (m_configs s c))
                (FS_EVT_ERASE (ucast (p_page_addr div 4096)) (ucast (p_page_addr div 4096) + n)) FS_SUCCESS
                (erase_pages env (ucast (p_page_addr div 4096)) n e)) \<and> fs_idle s' \<and> m_configs s' = m_configs s"
    unfolding op_run_erase [OF op] by (simp add: at evt_of_op_def)
qed

subsection \<open>A concrete environment\<close>

text \<open>The commands and events in their order; the SoftDevice accepts every command.\<close>

datatype flash_log = Written u32 u32 u32 | Erased u32 | Notified u32 fs_evt fs_ret

definition log_env :: "flash_log list fs_env" where
  "log_env =
     \<lparr>fs_data_start = 0x20000000, fs_data_stop = 0x20000010, uicr_nrffw0 = 0x78000, ficr_codesize = 128,
      sd_flash_write = (\<lambda>p_dest p_src n log. (NRF_SUCCESS, log @ [Written p_dest p_src n])),
      sd_flash_page_erase = (\<lambda>page log. (NRF_SUCCESS, log @ [Erased page])),
      call_fs_callback = (\<lambda>cb evt r (s, log). (s, log @ [Notified cb evt r]))\<rparr>"

definition fs_power_up :: "(u32 \<Rightarrow> fs_config) \<Rightarrow> fs_state" where
  "fs_power_up cfgs =
     \<lparr>m_flags = 0, m_op = replicate 4 fs_op_zero, m_rp = 0, m_count = 0, m_retry_count = 0, m_configs = cfgs\<rparr>"

text \<open>One client with one page, just below the boot loader.\<close>

definition one_client :: fs_state where
  "one_client = snd (fs_init log_env (fs_power_up (\<lambda>_.
     \<lparr>p_start_addr = 0, p_end_addr = 0, callback = 7, num_pages = 1, priority = 5\<rparr>)))"

lemma one_client_simps:
  "m_flags one_client = 1" "m_op one_client = replicate 4 fs_op_zero" "m_rp one_client = 0" "m_count one_client = 0"
  "m_configs one_client 0x20000000 =
     \<lparr>p_start_addr = 0x77000, p_end_addr = 0x78000, callback = 7, num_pages = 1, priority = 5\<rparr>"
  by code_simp+

lemma one_client_idle: "fs_idle one_client"
  by (simp add: fs_idle_def fs_wf_def one_client_simps)

lemma log_env_accepts: "accepts log_env"
  and log_env_quiet: "quiet log_env (\<lambda>cb evt r log. log @ [Notified cb evt r])"
  by (simp_all add: accepts_def quiet_def log_env_def)

theorem fs_request_completes_witness:
  "\<exists>s'. (fs_sys_event_handler log_env NRF_EVT_FLASH_OPERATION_SUCCESS ^^ 1)
       (snd (fs_store log_env 0x20000000 0x77000 0x20001000 512 (one_client, []))) =
     (s', [Written 0x77000 0x20001000 512, Notified 7 (FS_EVT_STORE 0x77000 512) FS_SUCCESS])"
proof -
  have st: "fst (fs_store log_env 0x20000000 0x77000 0x20001000 512 (one_client, [])) = FS_SUCCESS" by code_simp
  have k: "n_chunks 512 = 1" by code_simp
  have "write_chunks log_env 0x77000 0x20001000 512 [] = [Written 0x77000 0x20001000 512]" by code_simp
  moreover have "callback (m_configs one_client 0x20000000) = 7" by (simp add: one_client_simps)
  ultimately show ?thesis
    using fs_request_completes [OF one_client_idle log_env_accepts log_env_quiet,
        where c = "0x20000000" and p_dest = "0x77000" and p_src = "0x20001000" and n = 512 and e = "[]"] st
    unfolding k by (metis append_Cons append_Nil prod.collapse)
qed

subsection \<open>Safety of runs\<close>

lemma fs_idle_inv: "fs_idle s \<Longrightarrow> fs_inv env s"
  by (rule fs_invI) (simp_all add: fs_idle_def fs_queue_def)

text \<open>
  C28. Flash outside the areas of the clients is safe. Let the clients call \<^verbatim>\<open>fs_store\<close>,
  \<^verbatim>\<open>fs_erase\<close> and \<^verbatim>\<open>fs_init\<close>, also from their callbacks, and let the system events arrive, in any
  order and number and with any answers of the SoftDevice. A property of the environment that
  every command within the area of a registered client keeps then holds throughout, as does the
  invariant of the queue, and the areas do not change. It is required that requests are made
  when the free element of the ring is at or before its end or the ring is full, and that the end address of a request
  does not overflow.
\<close>

theorem fs_runs_in_bounds:
  assumes "fs_idle s" "areas_ok env (m_configs s)" "fs_env_ok env (m_configs s) P" "P e"
    and "(fs_step env)\<^sup>*\<^sup>* (s, e) (s', e')"
  shows "P e' \<and> fs_inv env s' \<and> m_configs s' = m_configs s"
  using fs_steps_keep [OF assms(5) fs_idle_inv [OF assms(1)] assms(2-4)] by (simp add: keeps_def)

definition log_in_page :: "flash_log list \<Rightarrow> bool" where
  "log_in_page = list_all (\<lambda>x. case x of
     Written p_dest _ n \<Rightarrow> 0x77000 \<le> unat p_dest \<and> unat p_dest + 4 * unat n \<le> 0x78000
   | Erased page \<Rightarrow> 4096 * unat page = 0x77000
   | Notified _ _ _ \<Rightarrow> True)"

lemma one_client_configs:
  "m_configs one_client = (\<lambda>_. \<lparr>p_start_addr = 0, p_end_addr = 0, callback = 7, num_pages = 1, priority = 5\<rparr>)
     (0x20000000 := \<lparr>p_start_addr = 0x77000, p_end_addr = 0x78000, callback = 7, num_pages = 1, priority = 5\<rparr>)"
  by (simp add: one_client_def fs_init_def fs_power_up_def flag_set_def FS_SECTION_VARS_COUNT_def
      FS_SECTION_VARS_GET_def log_env_def fs_assign_def fs_pick_def fs_flash_page_end_addr_def fun_eq_iff)

lemma one_client_area:
  "in_area env (m_configs one_client) c a n \<Longrightarrow> 0 < n \<Longrightarrow> 0x77000 \<le> a \<and> a + n \<le> 0x78000"
  by (auto simp: in_area_def one_client_configs split: if_splits)

lemma log_env_ok: "fs_env_ok log_env (m_configs one_client) log_in_page"
proof -
  have w: "log_in_page (snd (sd_flash_write log_env p_dest p_src n e))"
    if "in_area log_env (m_configs one_client) c (unat p_dest) (4 * unat n)" "0 < n" "log_in_page e" for c p_dest p_src n e
    using one_client_area [OF that(1)] that(2,3) by (simp add: log_in_page_def log_env_def word_less_nat_alt)
  have "log_in_page (snd (sd_flash_page_erase log_env page e))"
    if "in_area log_env (m_configs one_client) c (4096 * unat page) 4096" "log_in_page e" for c page e
    using one_client_area [OF that(1)] that(2) by (simp add: log_in_page_def log_env_def)
  moreover have "\<exists>e'. log_in_page e' \<and> (fs_call log_env)\<^sup>*\<^sup>* (s, e') (call_fs_callback log_env cb evt r (s, e))"
    if "log_in_page e" for s e cb evt r
    by (rule exI [of _ "e @ [Notified cb evt r]"]) (use that in \<open>simp add: log_env_def log_in_page_def\<close>)
  ultimately show ?thesis using w unfolding fs_env_ok_def by blast
qed

theorem fs_runs_in_bounds_witness:
  "log_in_page (snd (fs_sys_event_handler log_env NRF_EVT_FLASH_OPERATION_SUCCESS
     (snd (fs_erase log_env 0x20000000 0x77000 1 (one_client, [])))))"
proof -
  let ?w = "snd (fs_erase log_env 0x20000000 0x77000 1 (one_client, []))"
  let ?w' = "fs_sys_event_handler log_env NRF_EVT_FLASH_OPERATION_SUCCESS ?w"
  have "fs_call log_env (one_client, []) ?w"
    by (rule call_erase) (simp_all add: put_fits_def one_client_simps)
  then have "(fs_step log_env)\<^sup>*\<^sup>* (one_client, []) ?w'"
    using step_event by (metis (no_types, lifting) rtranclp.rtrancl_into_rtrancl rtranclp.rtrancl_refl step_call)
  then have "(fs_step log_env)\<^sup>*\<^sup>* (one_client, []) (fst ?w', snd ?w')" by simp
  moreover have "areas_ok log_env (m_configs one_client)" by (simp add: areas_ok_def one_client_configs)
  moreover have "log_in_page []" by (simp add: log_in_page_def)
  ultimately show ?thesis using fs_runs_in_bounds [OF one_client_idle _ log_env_ok] by blast
qed

subsection \<open>The wrapped ring\<close>

text \<open>
  When the free element lies beyond the end of the array by more than one place,
  \<^verbatim>\<open>queue_get_next_free\<close> takes element 0 although a pending request is there. That request is
  replaced by the new one, and a request that was executed before takes the last place.
\<close>

theorem fs_put_overwrites:
  assumes "fs_wf s" "m_count s \<noteq> 4" "\<not> put_fits s"
  shows "\<exists>s'. queue_get_next_free s = Some (0, s') \<and> 4 - unat (m_rp s) < length (fs_queue s) \<and>
    fs_queue (op_update 0 f s') = (fs_queue s)[4 - unat (m_rp s) := f fs_op_zero] @
      [m_op s ! (unat (m_rp s) + unat (m_count s) - 4)]"
proof -
  note wf = fs_wfD [OF assms(1)]
  have gt: "unat (m_rp s) + unat (m_count s) > 4" using assms(2,3) by (simp add: put_fits_def)
  have c4: "unat (m_count s) < 4" using wf(3) assms(2) by (metis le_neq_implies_less unat_eq_4)
  have add: "unat (m_rp s + m_count s) = unat (m_rp s) + unat (m_count s)"
    using wf(2) c4 by (intro unat_plus_small) simp
  have c: "unat (m_count s + 1) = Suc (unat (m_count s))"
    using c4 by (intro unat_Suc_less [of _ 4]) (simp add: word_less_nat_alt)
  let ?t = "op_update 0 (\<lambda>_. fs_op_zero) (s\<lparr>m_count := m_count s + 1\<rparr>)"
  have "\<not> m_rp s + m_count s < 4" using gt by (simp add: word_less_nat_alt add)
  then have "queue_get_next_free s = Some (0, ?t)"
    using assms(2) by (simp add: queue_get_next_free_def)
  moreover have "fs_queue (op_update 0 f ?t) = (fs_queue s)[4 - unat (m_rp s) := f fs_op_zero] @
      [m_op s ! (unat (m_rp s) + unat (m_count s) - 4)]"
  proof (rule nth_equalityI)
    fix j assume "j < length (fs_queue (op_update 0 f ?t))"
    then have j: "j < Suc (unat (m_count s))" by (simp add: op_update_def c)
    have l: "length (m_op s) > 0" using wf(1) by simp
    consider "j = unat (m_count s)" | "j < unat (m_count s)" "j = 4 - unat (m_rp s)"
      | "j < unat (m_count s)" "j \<noteq> 4 - unat (m_rp s)" using j by fastforce
    then show "fs_queue (op_update 0 f ?t) ! j = ((fs_queue s)[4 - unat (m_rp s) := f fs_op_zero] @
      [m_op s ! (unat (m_rp s) + unat (m_count s) - 4)]) ! j"
    proof cases
      case 1
      have "(unat (m_rp s) + j) mod 4 = unat (m_rp s) + unat (m_count s) - 4"
        using 1 gt wf(2) c4 by (simp add: mod_below)
      then show ?thesis using 1 j gt c by (simp add: fs_queue_def op_update_def nth_append del: upt_Suc)
    next
      case 2
      then have "(unat (m_rp s) + j) mod 4 = 0" using wf(2) by simp
      then show ?thesis using 2 j c l by (simp add: fs_queue_def op_update_def nth_append del: upt_Suc)
    next
      case 3
      then have "(unat (m_rp s) + j) mod 4 \<noteq> 0" using wf(2) c4 gt by (auto simp: mod_below)
      then show ?thesis using 3 j c by (simp add: fs_queue_def op_update_def nth_append del: upt_Suc)
    qed
  qed (simp add: op_update_def c)
  ultimately show ?thesis using gt wf(2) by auto
qed

text \<open>
  Four requests; two of them complete; two more. The second is the erasure of the client's only page.
\<close>

definition flash_done :: "flash_log list fs_world \<Rightarrow> flash_log list fs_world" where
  "flash_done = fs_sys_event_handler log_env NRF_EVT_FLASH_OPERATION_SUCCESS"

definition store_at :: "u32 \<Rightarrow> flash_log list fs_world \<Rightarrow> flash_log list fs_world" where
  "store_at p_dest w = snd (fs_store log_env 0x20000000 p_dest 0x20001000 1 w)"

definition wrapped_ring :: "flash_log list fs_world" where
  "wrapped_ring =
     (store_at 0x77008 \<circ> flash_done \<circ> flash_done \<circ> store_at 0x77004 \<circ> store_at 0x77000 \<circ>
      (\<lambda>w. snd (fs_erase log_env 0x20000000 0x77000 1 w)) \<circ> store_at 0x77010) (one_client, [])"

lemma wrapped_ring_state:
  "m_rp (fst wrapped_ring) = 2" "m_count (fst wrapped_ring) = 3" "length (m_op (fst wrapped_ring)) = 4"
  "m_flags (fst wrapped_ring) = 3" "map store_p_dest (fs_queue (fst wrapped_ring)) = [0x77000, 0x77004, 0x77008]"
  "map erase_page (m_op (fst wrapped_ring)) = [0, 0x78, 0, 0]"
  by code_simp+

lemma fs_put_overwrites_witness:
  "map store_p_dest (fs_queue (op_update 0 (\<lambda>p_op. p_op\<lparr>store_p_dest := 0x7700C\<rparr>)
     (snd (the (queue_get_next_free (fst wrapped_ring)))))) = [0x77000, 0x77004, 0x7700C, 0]"
proof -
  have wf: "fs_wf (fst wrapped_ring)"
    by (rule fs_wfI) (simp_all add: wrapped_ring_state flag_set_def)
  have "\<not> put_fits (fst wrapped_ring)" "m_count (fst wrapped_ring) \<noteq> 4"
    by (simp_all add: put_fits_def wrapped_ring_state)
  from fs_put_overwrites [OF wf this(2,1), of "\<lambda>p_op. p_op\<lparr>store_p_dest := 0x7700C\<rparr>"] wrapped_ring_state
  have "map store_p_dest (fs_queue (op_update 0 (\<lambda>p_op. p_op\<lparr>store_p_dest := 0x7700C\<rparr>)
     (snd (the (queue_get_next_free (fst wrapped_ring)))))) =
       (map store_p_dest (fs_queue (fst wrapped_ring)))[2 := 0x7700C] @ [store_p_dest (m_op (fst wrapped_ring) ! 1)]"
    by (auto simp: map_update fs_op_zero_def)
  moreover have "store_p_dest (m_op (fst wrapped_ring) ! 1) = 0" by code_simp
  ultimately show ?thesis by (simp add: wrapped_ring_state(5))
qed

text \<open>
  A wrapped ring loses data and erases flash of others. The request for address 0x77008,
  accepted and pending, is never executed and its client gets no event; after the later
  requests, the erasure of page 0x77, which had completed, is executed again where it stopped: it
  erases page 0x78, outside every client's area, and does not stop there.
\<close>

lemma fs_wrapped_ring_erases_others:
  "fst (fs_store log_env 0x20000000 0x7700C 0x20001000 1 wrapped_ring) = FS_SUCCESS \<and>
   snd ((flash_done \<circ> flash_done \<circ> flash_done \<circ> flash_done \<circ> store_at 0x7700C) wrapped_ring) =
     [Written 0x77010 0x20001000 1, Notified 7 (FS_EVT_STORE 0x77010 1) FS_SUCCESS,
      Erased 0x77, Notified 7 (FS_EVT_ERASE 0x77 0x78) FS_SUCCESS,
      Written 0x77000 0x20001000 1, Notified 7 (FS_EVT_STORE 0x77000 1) FS_SUCCESS,
      Written 0x77004 0x20001000 1, Notified 7 (FS_EVT_STORE 0x77004 1) FS_SUCCESS,
      Written 0x7700C 0x20001000 1, Notified 7 (FS_EVT_STORE 0x7700C 1) FS_SUCCESS,
      Erased 0x78, Erased 0x79]"
  by code_simp

subsection \<open>The assignment of pages\<close>

definition prio :: "'e fs_env \<Rightarrow> fs_state \<Rightarrow> nat \<Rightarrow> u8" where
  "prio env s j = priority (m_configs s (FS_SECTION_VARS_GET env (of_nat j)))"

lemma fs_pick_fold:
  assumes "m \<le> n" "n \<le> 2 ^ 28" "k < n" "of_nat k \<noteq> lst"
    and "\<forall>j < n. of_nat j \<noteq> lst \<longrightarrow> j \<noteq> k \<longrightarrow> prio env s j < prio env s k"
  shows "if k < m then fold (fs_pick env s lst) [0..<m] (im, 0) = (of_nat k, prio env s k)
    else snd (fold (fs_pick env s lst) [0..<m] (im, 0)) \<le> prio env s k"
  using assms(1)
proof (induction m)
  case (Suc m)
  obtain i p where f: "fold (fs_pick env s lst) [0..<m] (im, 0) = (i, p)" by fastforce
  have step: "fold (fs_pick env s lst) [0..<Suc m] (im, 0) =
      (if of_nat m = lst \<or> prio env s m < p then (i, p) else (of_nat m, prio env s m))"
    by (auto simp: f fs_pick_def prio_def Let_def)
  have IH: "if k < m then i = of_nat k \<and> p = prio env s k else p \<le> prio env s k"
    using Suc.IH Suc.prems unfolding f by (simp split: if_splits)
  show ?case
  proof (cases "m = k")
    case True
    then show ?thesis using step IH assms(4) by auto
  next
    case False
    have "m < n" using Suc.prems by simp
    then have "of_nat m \<noteq> lst \<Longrightarrow> prio env s m < prio env s k" using assms(5) False by blast
    with step IH False show ?thesis by (auto split: if_splits)
  qed
qed simp

lemma fs_pick_max:
  assumes "n \<le> 2 ^ 28" "k < n" "of_nat k \<noteq> lst"
    and "\<forall>j < n. of_nat j \<noteq> lst \<longrightarrow> j \<noteq> k \<longrightarrow> prio env s j < prio env s k"
  shows "fold (fs_pick env s lst) [0..<n] (im, 0) = (of_nat k, prio env s k)"
  using fs_pick_fold [OF le_refl assms] assms(2) by simp

definition area_size :: "'e fs_env \<Rightarrow> fs_state \<Rightarrow> nat \<Rightarrow> u32" where
  "area_size env s j = ucast (num_pages (m_configs s (FS_SECTION_VARS_GET env (of_nat j)))) * FS_PAGE_SIZE_WORDS * sizeof_uint32"

definition area_set :: "'e fs_env \<Rightarrow> nat \<Rightarrow> u32 \<Rightarrow> fs_state \<Rightarrow> fs_state" where
  "area_set env k hi s = s\<lparr>m_configs := (m_configs s)(FS_SECTION_VARS_GET env (of_nat k) :=
     (m_configs s (FS_SECTION_VARS_GET env (of_nat k)))\<lparr>p_end_addr := hi, p_start_addr := hi - area_size env s k\<rparr>)\<rparr>"

lemma area_set_same [simp]: "prio env (area_set env k hi s) = prio env s" "area_size env (area_set env k hi s) = area_size env s"
  by (auto simp: prio_def area_size_def area_set_def fun_eq_iff)

lemma area_set_other: "c \<noteq> FS_SECTION_VARS_GET env (of_nat k) \<Longrightarrow> m_configs (area_set env k hi s) c = m_configs s c"
  by (simp add: area_set_def)

lemma area_set_at:
  "p_end_addr (m_configs (area_set env k hi s) (FS_SECTION_VARS_GET env (of_nat k))) = hi"
  "p_start_addr (m_configs (area_set env k hi s) (FS_SECTION_VARS_GET env (of_nat k))) = hi - area_size env s k"
  by (simp_all add: area_set_def)

lemma fs_assign_max:
  assumes "n \<le> 2 ^ 28" "k < n" "of_nat k \<noteq> lst"
    and "\<forall>j < n. of_nat j \<noteq> lst \<longrightarrow> j \<noteq> k \<longrightarrow> prio env s j < prio env s k"
  shows "fs_assign env n (hi, im, lst, s) = (hi - area_size env s k, of_nat k, of_nat k, area_set env k hi s)"
  by (simp add: fs_assign_def fs_pick_max [OF assms] area_size_def area_set_def Let_def)

lemma of_nat_u32_inj: "i < 2 ^ 28 \<Longrightarrow> j < 2 ^ 28 \<Longrightarrow> (of_nat i :: u32) = of_nat j \<longleftrightarrow> i = j"
  using unat_of_nat_u32 [of i] unat_of_nat_u32 [of j] by (auto simp: word_unat_eq_iff)

lemma of_nat_u32_not_last: "i < 2 ^ 28 \<Longrightarrow> (of_nat i :: u32) \<noteq> 0xFFFFFFFF"
  using unat_of_nat_u32 [of i] by (auto simp: word_unat_eq_iff)

lemma users_bound: "unat (FS_SECTION_VARS_COUNT env) < 2 ^ 28"
  using u32_less [of "fs_data_stop env - fs_data_start env"]
  by (simp add: FS_SECTION_VARS_COUNT_def unat_div less_mult_imp_div_less)

lemma section_vars_inj:
  "i < 2 ^ 28 \<Longrightarrow> j < 2 ^ 28 \<Longrightarrow> FS_SECTION_VARS_GET env (of_nat i) = FS_SECTION_VARS_GET env (of_nat j) \<longleftrightarrow> i = j"
proof -
  assume a: "i < 2 ^ 28" "j < 2 ^ 28"
  have u: "unat (of_nat k * 16 :: u32) = 16 * k" if "k < 2 ^ 28" for k
    using that by (simp add: unat_word_ariths unat_of_nat_u32)
  have "(of_nat i * 16 :: u32) = of_nat j * 16 \<longleftrightarrow> i = j" using u [OF a(1)] u [OF a(2)] by (auto simp: word_unat_eq_iff)
  then show ?thesis by (simp add: FS_SECTION_VARS_GET_def)
qed

text \<open>The client of the highest and the one of the second highest priority, among the first \<open>n\<close>.\<close>

definition two_highest :: "'e fs_env \<Rightarrow> fs_state \<Rightarrow> nat \<Rightarrow> nat \<Rightarrow> nat \<Rightarrow> bool" where
  "two_highest env s n a b \<longleftrightarrow> a < n \<and> b < n \<and> a \<noteq> b \<and>
     (\<forall>j < n. j \<noteq> a \<longrightarrow> prio env s j < prio env s a) \<and>
     (\<forall>j < n. j \<noteq> a \<longrightarrow> j \<noteq> b \<longrightarrow> prio env s j < prio env s b)"

lemma assign_first:
  assumes "two_highest env s n a b" "n \<le> 2 ^ 28"
  shows "fs_assign env n (hi, im, 0xFFFFFFFF, s) = (hi - area_size env s a, of_nat a, of_nat a, area_set env a hi s)"
  by (rule fs_assign_max) (use assms of_nat_u32_not_last in \<open>auto simp: two_highest_def\<close>)

lemma assign_after_a:
  assumes "two_highest env s n a b" "n \<le> 2 ^ 28"
  shows "fs_assign env n (hi, im, of_nat a, s) = (hi - area_size env s b, of_nat b, of_nat b, area_set env b hi s)"
  by (rule fs_assign_max) (use assms in \<open>auto simp: two_highest_def of_nat_u32_inj\<close>)

lemma assign_after_b:
  assumes "two_highest env s n a b" "n \<le> 2 ^ 28"
  shows "fs_assign env n (hi, im, of_nat b, s) = (hi - area_size env s a, of_nat a, of_nat a, area_set env a hi s)"
  by (rule fs_assign_max) (use assms in \<open>auto simp: two_highest_def of_nat_u32_inj\<close>)

lemma two_highest_area_set [simp]: "two_highest env (area_set env k hi s) n a b = two_highest env s n a b"
  by (simp add: two_highest_def)

lemma funpow_2_3: "(f ^^ 2) x = f (f x)" "(f ^^ 3) x = f (f (f x))"
  by (simp_all add: numeral_2_eq_2 numeral_3_eq_3)

lemma assign_rounds:
  assumes "two_highest env s n a b" "n \<le> 2 ^ 28"
  shows "snd (snd (snd ((fs_assign env n ^^ 2) (hi, im, 0xFFFFFFFF, s)))) =
      area_set env b (hi - area_size env s a) (area_set env a hi s)"
    and "snd (snd (snd ((fs_assign env n ^^ 3) (hi, im, 0xFFFFFFFF, s)))) =
      area_set env a (hi - area_size env s a - area_size env s b)
        (area_set env b (hi - area_size env s a) (area_set env a hi s))"
  using assms by (simp_all only: funpow_2_3 assign_first assign_after_a assign_after_b two_highest_area_set
      area_set_same fst_conv snd_conv)

text \<open>Only the two of them are ever assigned pages, in turn.\<close>

lemma assign_alternates:
  assumes "two_highest env s n a b" "n \<le> 2 ^ 28"
  shows "\<exists>top' s'. (fs_assign env n ^^ Suc t) (hi, im, 0xFFFFFFFF, s) =
      (top', of_nat (if even t then a else b), of_nat (if even t then a else b), s') \<and>
      two_highest env s' n a b \<and> m_flags s' = m_flags s \<and>
      (\<forall>c. c \<noteq> FS_SECTION_VARS_GET env (of_nat a) \<longrightarrow> c \<noteq> FS_SECTION_VARS_GET env (of_nat b) \<longrightarrow>
         m_configs s' c = m_configs s c)"
proof (induction t)
  case 0
  show ?case using assms by (simp add: assign_first [OF assms] area_set_other) (simp add: area_set_def)
next
  case (Suc t)
  then obtain top' s' where IH: "(fs_assign env n ^^ Suc t) (hi, im, 0xFFFFFFFF, s) =
      (top', of_nat (if even t then a else b), of_nat (if even t then a else b), s')"
    and th: "two_highest env s' n a b" and fl: "m_flags s' = m_flags s"
    and same: "\<forall>c. c \<noteq> FS_SECTION_VARS_GET env (of_nat a) \<longrightarrow> c \<noteq> FS_SECTION_VARS_GET env (of_nat b) \<longrightarrow>
      m_configs s' c = m_configs s c" by blast
  let ?k = "if even t then b else a"
  have step: "(fs_assign env n ^^ Suc (Suc t)) (hi, im, 0xFFFFFFFF, s) =
      (top' - area_size env s' ?k, of_nat ?k, of_nat ?k, area_set env ?k top' s')"
    unfolding funpow.simps(2) [of "Suc t"] o_apply IH
    by (cases "even t") (simp_all add: assign_after_a [OF th assms(2)] assign_after_b [OF th assms(2)])
  have "m_flags (area_set env ?k top' s') = m_flags s" using fl by (simp add: area_set_def)
  moreover have "m_configs (area_set env ?k top' s') c = m_configs s c"
    if "c \<noteq> FS_SECTION_VARS_GET env (of_nat a)" "c \<noteq> FS_SECTION_VARS_GET env (of_nat b)" for c
    using same that by (cases "even t") (simp_all add: area_set_other)
  ultimately show ?case unfolding step using th by (cases "even t") simp_all
qed

text \<open>
  With two clients of different priorities, \<^verbatim>\<open>fs_init\<close> gives the one of the higher
  priority the pages just below the end of the flash and the other one the pages below those. With
  more clients only the two of the highest priorities ever get pages, since a round excludes the
  client of the round before and no other: the configuration of every further client stays as it was. With three clients the area of the first one is assigned anew, below the
  second one's.
\<close>

lemma fs_init_assigns_two:
  assumes "\<not> initialized s" "two_highest env s (unat (FS_SECTION_VARS_COUNT env)) a b"
    and "s' = snd (fs_init env s)" "hi = fs_flash_page_end_addr env"
    and "ca = FS_SECTION_VARS_GET env (of_nat a)" "cb = FS_SECTION_VARS_GET env (of_nat b)"
  shows "initialized s' \<and>
    (\<forall>c. c \<noteq> ca \<longrightarrow> c \<noteq> cb \<longrightarrow> m_configs s' c = m_configs s c) \<and>
    (FS_SECTION_VARS_COUNT env = 2 \<longrightarrow>
       p_end_addr (m_configs s' ca) = hi \<and> p_start_addr (m_configs s' ca) = hi - area_size env s a \<and>
       p_end_addr (m_configs s' cb) = hi - area_size env s a \<and>
       p_start_addr (m_configs s' cb) = hi - area_size env s a - area_size env s b) \<and>
    (FS_SECTION_VARS_COUNT env = 3 \<longrightarrow>
       p_end_addr (m_configs s' ca) = hi - area_size env s a - area_size env s b)"
proof -
  let ?n = "unat (FS_SECTION_VARS_COUNT env)"
  let ?it = "\<lambda>t. (fs_assign env ?n ^^ t) (hi, 0, 0xFFFFFFFF, s)"
  have n: "?n \<le> 2 ^ 28" using users_bound [of env] by simp
  have ab: "a < 2 ^ 28" "b < 2 ^ 28" "a \<noteq> b" using assms(2) users_bound [of env] by (auto simp: two_highest_def)
  have ne: "ca \<noteq> cb" using section_vars_inj [OF ab(1,2)] ab(3) by (simp add: assms(5,6))
  have s': "m_configs s' = m_configs (snd (snd (snd (?it ?n))))"
    "m_flags s' = m_flags (snd (snd (snd (?it ?n)))) OR 1"
    using assms(1) by (simp_all add: assms(3,4) fs_init_def Let_def split: prod.splits)
  obtain t where t: "?n = Suc t" using assms(2) by (cases ?n) (auto simp: two_highest_def)
  obtain top' x s'' where alt: "?it ?n = (top', x, x, s'')"
      "\<forall>c. c \<noteq> ca \<longrightarrow> c \<noteq> cb \<longrightarrow> m_configs s'' c = m_configs s c"
    using assign_alternates [OF assms(2) n, of t hi 0] unfolding t assms(5,6) by metis
  have "initialized s'" unfolding s'(2) by simp
  moreover have "\<forall>c. c \<noteq> ca \<longrightarrow> c \<noteq> cb \<longrightarrow> m_configs s' c = m_configs s c" using alt s'(1) by simp
  moreover have "p_end_addr (m_configs s' ca) = hi" "p_start_addr (m_configs s' ca) = hi - area_size env s a"
    "p_end_addr (m_configs s' cb) = hi - area_size env s a"
    "p_start_addr (m_configs s' cb) = hi - area_size env s a - area_size env s b"
    if "FS_SECTION_VARS_COUNT env = 2"
  proof -
    have "?n = 2" using that by simp
    then have "m_configs s' = m_configs (area_set env b (hi - area_size env s a) (area_set env a hi s))"
      using assign_rounds(1) [OF assms(2) n] s'(1) by simp
    then show "p_end_addr (m_configs s' ca) = hi" "p_start_addr (m_configs s' ca) = hi - area_size env s a"
      "p_end_addr (m_configs s' cb) = hi - area_size env s a"
      "p_start_addr (m_configs s' cb) = hi - area_size env s a - area_size env s b"
      using ne by (simp_all add: area_set_at area_set_other assms(5,6))
  qed
  moreover have "p_end_addr (m_configs s' ca) = hi - area_size env s a - area_size env s b"
    if "FS_SECTION_VARS_COUNT env = 3"
  proof -
    have "?n = 3" using that by simp
    then have "m_configs s' = m_configs (area_set env a (hi - area_size env s a - area_size env s b)
        (area_set env b (hi - area_size env s a) (area_set env a hi s)))"
      using assign_rounds(2) [OF assms(2) n] s'(1) by simp
    then show ?thesis by (simp add: area_set_at assms(5))
  qed
  ultimately show ?thesis by blast
qed

definition three_env :: "flash_log list fs_env" where
  "three_env = log_env\<lparr>fs_data_stop := 0x20000030\<rparr>"

definition three_clients :: fs_state where
  "three_clients = fs_power_up (\<lambda>c. \<lparr>p_start_addr = 0, p_end_addr = 0, callback = 7, num_pages = 1,
     priority = (if c = 0x20000000 then 3 else if c = 0x20000010 then 9 else 5)\<rparr>)"

lemma three_clients_highest: "two_highest three_env three_clients 3 1 2"
proof -
  have p: "prio three_env three_clients 0 = 3" "prio three_env three_clients 1 = 9" "prio three_env three_clients 2 = 5"
    by (simp_all add: prio_def three_env_def three_clients_def fs_power_up_def FS_SECTION_VARS_GET_def log_env_def)
  have cases: "j = 0 \<or> j = 1 \<or> j = 2" if "j < 3" for j :: nat using that by linarith
  have "prio three_env three_clients j < prio three_env three_clients 1" if "j < 3" "j \<noteq> 1" for j
    using cases [OF that(1)] that(2) p by (elim disjE) simp_all
  moreover have "prio three_env three_clients j < prio three_env three_clients 2" if "j < 3" "j \<noteq> 1" "j \<noteq> 2" for j
    using cases [OF that(1)] that(2,3) p by (elim disjE) simp_all
  ultimately show ?thesis unfolding two_highest_def by simp
qed

lemma fs_init_assigns_two_witness:
  "p_end_addr (m_configs (snd (fs_init three_env three_clients)) 0x20000000) = 0 \<and>
   p_end_addr (m_configs (snd (fs_init three_env three_clients)) 0x20000010) = 0x76000"
proof -
  have n: "FS_SECTION_VARS_COUNT three_env = 3" by code_simp
  then have th: "two_highest three_env three_clients (unat (FS_SECTION_VARS_COUNT three_env)) 1 2"
    using three_clients_highest by simp
  have i: "\<not> initialized three_clients" by code_simp
  have a: "FS_SECTION_VARS_GET three_env (of_nat 1) = 0x20000010" "FS_SECTION_VARS_GET three_env (of_nat 2) = 0x20000020"
    by (simp_all add: three_env_def FS_SECTION_VARS_GET_def log_env_def)
  have z: "p_end_addr (m_configs three_clients 0x20000000) = 0"
    "fs_flash_page_end_addr three_env - area_size three_env three_clients 1 - area_size three_env three_clients 2 = 0x76000"
    by (simp_all add: area_size_def three_env_def three_clients_def fs_power_up_def FS_SECTION_VARS_GET_def log_env_def
        fs_flash_page_end_addr_def)
  show ?thesis using fs_init_assigns_two [OF i th refl refl refl refl] n z unfolding a by simp
qed

subsection \<open>Refused commands\<close>

text \<open>
  A command that the SoftDevice refuses is reported to the client as \<open>FS_ERR_INTERNAL\<close>, but the
  request stays in the queue with the module processing. The success of somebody else's command
  is then reported to the client as the success of its own, although nothing was written.
\<close>

definition refusing_env :: "flash_log list fs_env" where
  "refusing_env = log_env\<lparr>sd_flash_write := \<lambda>p_dest p_src n log. (NRF_ERROR_FORBIDDEN, log)\<rparr>"

lemma refused_store_reported_twice:
  "m_count (fst (snd (fs_store refusing_env 0x20000000 0x77000 0x20001000 1 (one_client, [])))) = 1"
  "snd (fs_sys_event_handler refusing_env NRF_EVT_FLASH_OPERATION_SUCCESS
     (snd (fs_store refusing_env 0x20000000 0x77000 0x20001000 1 (one_client, [])))) =
   [Notified 7 (FS_EVT_STORE 0x77000 1) FS_ERR_INTERNAL, Notified 7 (FS_EVT_STORE 0x77000 1) FS_SUCCESS]"
  by code_simp+

end
