(* ===== verification/Pstorage.thy ===== *)
theory Pstorage
  imports Fstorage AppUtil
begin

text \<open>
  The older flash storage \<^verbatim>\<open>drivers_nrf/pstorage/pstorage.c\<close>: blocks of registered modules, commands to store, clear and
  update them in a ring of 30, and the state machine that executes one command with the SoftDevice's flash operations, saving
  what has to survive the erasure of a page in a swap page. As \<^verbatim>\<open>pstorage_platform.h\<close> has it there are two data pages, and the
  pages are those of the nRF52; the raw mode is compiled only with \<^verbatim>\<open>PSTORAGE_RAW_MODE_ENABLE\<close>, which nothing defines.

  A flash operation reads and changes the environment \<open>'e\<close>; a callback of a module may call pstorage, and changes
  the whole world. The C functions for entering a state call each other in a cycle, which is cut where the
  idle state begins the next command: that command is never idle.
\<close>

unbundle bit_operations_syntax

subsection \<open>Data\<close>

abbreviation (input) "INVALID_OPCODE \<equiv> 0x00 :: u8"
abbreviation (input) "PSTORAGE_STORE_OP_CODE \<equiv> 0x01 :: u8"
abbreviation (input) "PSTORAGE_LOAD_OP_CODE \<equiv> 0x02 :: u8"
abbreviation (input) "PSTORAGE_CLEAR_OP_CODE \<equiv> 0x03 :: u8"
abbreviation (input) "PSTORAGE_UPDATE_OP_CODE \<equiv> 0x04 :: u8"
abbreviation (input) "PSTORAGE_FLASH_PAGE_SIZE \<equiv> 4096 :: u32"
abbreviation (input) "PSTORAGE_FLASH_EMPTY_MASK \<equiv> 0xFFFFFFFF :: u32"
abbreviation (input) "PSTORAGE_NUM_OF_PAGES \<equiv> 2 :: u32"
abbreviation (input) "PSTORAGE_MIN_BLOCK_SIZE \<equiv> 0x0010 :: u16"
abbreviation (input) "PSTORAGE_MAX_BLOCK_SIZE \<equiv> 4096 :: u16"
abbreviation (input) "PSTORAGE_CMD_QUEUE_SIZE \<equiv> 30 :: u32"
abbreviation (input) "SOC_MAX_WRITE_SIZE \<equiv> 4096 :: u16"
abbreviation (input) "RAW_MODE_APP_ID \<equiv> 3 :: u32"
abbreviation (input) "SD_CMD_MAX_TRIES \<equiv> 1000 :: u32"
abbreviation (input) "MASK_TAIL_SWAP_DONE \<equiv> 1 :: u32"
abbreviation (input) "MASK_SINGLE_PAGE_OPERATION \<equiv> 2 :: u32"
abbreviation (input) "MASK_MODULE_INITIALIZED \<equiv> 4 :: u32"
abbreviation (input) "MASK_FLASH_API_ERR_BUSY \<equiv> 8 :: u32"

datatype pstorage_state = STATE_IDLE | STATE_STORE | STATE_DATA_ERASE_WITH_SWAP | STATE_DATA_ERASE | STATE_ERROR

datatype flash_swap_sub_state =
  STATE_ERASE_SWAP | STATE_WRITE_DATA_TO_SWAP | STATE_ERASE_DATA_PAGE | STATE_RESTORE_TAIL | STATE_RESTORE_HEAD

record pstorage_module_table =
  cb :: ptr
  base_id :: u32
  block_size :: u16
  block_count :: u16

record pstorage_module_param =
  param_cb :: ptr
  param_block_size :: u16
  param_block_count :: u16

record pstorage_handle =
  module_id :: u32
  block_id :: u32

record cmd_queue_element =
  cmd_op_code :: u8
  cmd_size :: u16
  cmd_offset :: u16
  storage_addr :: pstorage_handle
  p_data_addr :: ptr

record ps_state =
  queue_rp :: u8
  queue_count :: u8
  queue_cmd :: "cmd_queue_element list"
  m_next_app_instance :: u16
  m_next_page_addr :: u32
  m_state :: pstorage_state
  m_swap_sub_state :: flash_swap_sub_state
  m_head_word_size :: u32
  m_tail_word_size :: u32
  m_current_page_id :: u32
  m_num_of_command_retries :: u32
  m_app_table :: "pstorage_module_table list"
  m_num_of_bytes_written :: u32
  m_app_data_size :: u32
  ps_flags :: u32

type_synonym 'e ps_world = "ps_state \<times> mem \<times> 'e"

record 'e ps_env =
  ps_uicr_nrffw0 :: u32
  ps_ficr_codesize :: u32
  ps_flash_write :: "u32 \<Rightarrow> u32 \<Rightarrow> u32 \<Rightarrow> 'e \<Rightarrow> ret_code \<times> 'e"
  ps_flash_page_erase :: "u32 \<Rightarrow> 'e \<Rightarrow> ret_code \<times> 'e"
  call_ntf_cb :: "ptr \<Rightarrow> pstorage_handle \<Rightarrow> u8 \<Rightarrow> ret_code \<Rightarrow> ptr \<Rightarrow> u32 \<Rightarrow> 'e ps_world \<Rightarrow> 'e ps_world"

definition pstorage_flash_page_end :: "'e ps_env \<Rightarrow> u32" where
  "pstorage_flash_page_end env =
     (let bootloader_addr = ps_uicr_nrffw0 env
      in if bootloader_addr \<noteq> PSTORAGE_FLASH_EMPTY_MASK then bootloader_addr div PSTORAGE_FLASH_PAGE_SIZE else ps_ficr_codesize env)"

definition PSTORAGE_DATA_START_ADDR :: "'e ps_env \<Rightarrow> u32" where
  "PSTORAGE_DATA_START_ADDR env = (pstorage_flash_page_end env - PSTORAGE_NUM_OF_PAGES - 1) * PSTORAGE_FLASH_PAGE_SIZE"

definition PSTORAGE_SWAP_ADDR :: "'e ps_env \<Rightarrow> u32" where
  "PSTORAGE_SWAP_ADDR env = (pstorage_flash_page_end env - 1) * PSTORAGE_FLASH_PAGE_SIZE"

definition ps_flag :: "ps_state \<Rightarrow> u32 \<Rightarrow> bool" where
  "ps_flag s flag \<longleftrightarrow> ps_flags s AND flag \<noteq> 0"

definition ps_set :: "u32 \<Rightarrow> ps_state \<Rightarrow> ps_state" where
  "ps_set flag s = s\<lparr>ps_flags := ps_flags s OR flag\<rparr>"

definition ps_clear :: "u32 \<Rightarrow> ps_state \<Rightarrow> ps_state" where
  "ps_clear flag s = s\<lparr>ps_flags := ps_flags s AND NOT flag\<rparr>"

definition p_cmd :: "ps_state \<Rightarrow> cmd_queue_element" where
  "p_cmd s = queue_cmd s ! unat (queue_rp s)"

subsection \<open>Queue and notification\<close>

definition cmd_queue_element_init :: "nat \<Rightarrow> ps_state \<Rightarrow> ps_state" where
  "cmd_queue_element_init index s =
     s\<lparr>queue_cmd := (queue_cmd s)[index := \<lparr>cmd_op_code = INVALID_OPCODE, cmd_size = 0, cmd_offset = 0,
       storage_addr = \<lparr>module_id = PSTORAGE_NUM_OF_PAGES, block_id = 0\<rparr>, p_data_addr = NULL\<rparr>]\<rparr>"

definition cmd_queue_init :: "ps_state \<Rightarrow> ps_state" where
  "cmd_queue_init s =
     fold cmd_queue_element_init [0..<unat PSTORAGE_CMD_QUEUE_SIZE] (s\<lparr>queue_rp := 0, queue_count := 0\<rparr>)"

definition command_queue_element_consume :: "ps_state \<Rightarrow> ps_state" where
  "command_queue_element_consume s =
     (let s = cmd_queue_element_init (unat (queue_rp s)) s;
          s = s\<lparr>queue_count := queue_count s - 1, queue_rp := queue_rp s + 1\<rparr>
      in if ucast (queue_rp s) = PSTORAGE_CMD_QUEUE_SIZE then s\<lparr>queue_rp := 0\<rparr> else s)"

definition app_notify :: "'e ps_env \<Rightarrow> ret_code \<Rightarrow> 'e ps_world \<Rightarrow> 'e ps_world" where
  "app_notify env result w =
     (let s = fst w; p_elem = p_cmd s; ntf_cb = cb (m_app_table s ! unat (module_id (storage_addr p_elem)))
      in call_ntf_cb env ntf_cb (storage_addr p_elem) (cmd_op_code p_elem) result (p_data_addr p_elem) (m_app_data_size s) w)"

definition app_notify_error_state_transit :: "'e ps_env \<Rightarrow> ret_code \<Rightarrow> 'e ps_world \<Rightarrow> 'e ps_world" where
  "app_notify_error_state_transit env result w =
     (let w = app_notify env result w in (fst w\<lparr>m_state := STATE_ERROR\<rparr>, snd w))"

subsection \<open>Flash operations\<close>

definition flash_api_err_code_process :: "'e ps_env \<Rightarrow> ret_code \<Rightarrow> 'e ps_world \<Rightarrow> 'e ps_world" where
  "flash_api_err_code_process env err_code w =
     (if err_code = NRF_SUCCESS then w
      else if err_code = NRF_ERROR_BUSY then (ps_set MASK_FLASH_API_ERR_BUSY (fst w), snd w)
      else app_notify_error_state_transit env err_code w)"

definition flash_write :: "'e ps_env \<Rightarrow> u32 \<Rightarrow> u32 \<Rightarrow> u32 \<Rightarrow> 'e ps_world \<Rightarrow> 'e ps_world" where
  "flash_write env p_dst p_src size_in_words w =
     (case w of (s, m, e) \<Rightarrow> case ps_flash_write env p_dst p_src size_in_words e of (err_code, e) \<Rightarrow>
        flash_api_err_code_process env err_code (s, m, e))"

definition flash_page_erase :: "'e ps_env \<Rightarrow> u32 \<Rightarrow> 'e ps_world \<Rightarrow> 'e ps_world" where
  "flash_page_erase env page_number w =
     (case w of (s, m, e) \<Rightarrow> case ps_flash_page_erase env page_number e of (err_code, e) \<Rightarrow>
        flash_api_err_code_process env err_code (s, m, e))"

definition store_cmd_flash_write_execute :: "'e ps_env \<Rightarrow> 'e ps_world \<Rightarrow> 'e ps_world" where
  "store_cmd_flash_write_execute env w =
     (let rp = unat (queue_rp (fst w)); c = p_cmd (fst w)
      in if cmd_size c > SOC_MAX_WRITE_SIZE then
           let offset = ucast (cmd_size c) - PSTORAGE_FLASH_PAGE_SIZE;
               w = flash_write env (block_id (storage_addr c) + ucast (cmd_offset c) + offset)
                     (of_nat (p_data_addr c) + offset) (PSTORAGE_FLASH_PAGE_SIZE div sizeof_uint32) w
           in (fst w\<lparr>m_num_of_bytes_written := PSTORAGE_FLASH_PAGE_SIZE\<rparr>, snd w)
         else
           let w = flash_write env (block_id (storage_addr c) + ucast (cmd_offset c)) (of_nat (p_data_addr c))
                     (ucast (cmd_size c) div sizeof_uint32) w
           in (fst w\<lparr>m_num_of_bytes_written := ucast (cmd_size (queue_cmd (fst w) ! rp))\<rparr>, snd w))"

subsection \<open>Entering a state\<close>

definition state_restore_tail_entry_run :: "'e ps_env \<Rightarrow> 'e ps_world \<Rightarrow> 'e ps_world" where
  "state_restore_tail_entry_run env w =
     (let s = fst w; c = p_cmd s; cmd_block_id = block_id (storage_addr c);
          tail_offset = (cmd_block_id + ucast (cmd_size c) + ucast (cmd_offset c)) mod PSTORAGE_FLASH_PAGE_SIZE
      in flash_write env (cmd_block_id + ucast (cmd_size c) + ucast (cmd_offset c))
           (PSTORAGE_SWAP_ADDR env + tail_offset) (m_tail_word_size s) w)"

fun swap_sub_state_entry_action_run :: "'e ps_env \<Rightarrow> flash_swap_sub_state \<Rightarrow> 'e ps_world \<Rightarrow> 'e ps_world" where
  "swap_sub_state_entry_action_run env STATE_ERASE_SWAP w =
     flash_page_erase env (PSTORAGE_SWAP_ADDR env div PSTORAGE_FLASH_PAGE_SIZE) w"
| "swap_sub_state_entry_action_run env STATE_WRITE_DATA_TO_SWAP w =
     flash_write env (PSTORAGE_SWAP_ADDR env) (m_current_page_id (fst w) * PSTORAGE_FLASH_PAGE_SIZE)
       (PSTORAGE_FLASH_PAGE_SIZE div sizeof_uint32) w"
| "swap_sub_state_entry_action_run env STATE_ERASE_DATA_PAGE w = flash_page_erase env (m_current_page_id (fst w)) w"
| "swap_sub_state_entry_action_run env STATE_RESTORE_TAIL w = state_restore_tail_entry_run env w"
| "swap_sub_state_entry_action_run env STATE_RESTORE_HEAD w =
     flash_write env ((m_current_page_id (fst w) - 1) * PSTORAGE_FLASH_PAGE_SIZE) (PSTORAGE_SWAP_ADDR env)
       (m_head_word_size (fst w)) w"

definition swap_sub_state_state_change :: "'e ps_env \<Rightarrow> flash_swap_sub_state \<Rightarrow> 'e ps_world \<Rightarrow> 'e ps_world" where
  "swap_sub_state_state_change env new_state w =
     swap_sub_state_entry_action_run env new_state (fst w\<lparr>m_swap_sub_state := new_state\<rparr>, snd w)"

definition state_data_erase_swap_entry_run :: "'e ps_env \<Rightarrow> 'e ps_world \<Rightarrow> 'e ps_world" where
  "state_data_erase_swap_entry_run env w =
     (let s = ps_clear MASK_TAIL_SWAP_DONE (fst w);
          c = p_cmd s;
          cmd_block_id = block_id (storage_addr c);
          clear_start_page_id = cmd_block_id div PSTORAGE_FLASH_PAGE_SIZE;
          s = s\<lparr>m_current_page_id := clear_start_page_id\<rparr>;
          clear_end_page_id = (cmd_block_id + ucast (cmd_size c) - 1) div PSTORAGE_FLASH_PAGE_SIZE;
          s = (if clear_start_page_id = clear_end_page_id then ps_set MASK_SINGLE_PAGE_OPERATION s
               else ps_clear MASK_SINGLE_PAGE_OPERATION s)
      in if m_head_word_size s = 0 \<and> \<not> ps_flag s MASK_SINGLE_PAGE_OPERATION
         then swap_sub_state_state_change env STATE_ERASE_DATA_PAGE (s, snd w)
         else swap_sub_state_state_change env STATE_ERASE_SWAP (s, snd w))"

text \<open>The actions of every state but the idle one.\<close>

fun state_busy_entry_run :: "'e ps_env \<Rightarrow> pstorage_state \<Rightarrow> 'e ps_world \<Rightarrow> 'e ps_world" where
  "state_busy_entry_run env STATE_STORE w = store_cmd_flash_write_execute env w"
| "state_busy_entry_run env STATE_DATA_ERASE_WITH_SWAP w = state_data_erase_swap_entry_run env w"
| "state_busy_entry_run env STATE_DATA_ERASE w = flash_page_erase env (m_current_page_id (fst w)) w"
| "state_busy_entry_run env STATE_IDLE w = w"
| "state_busy_entry_run env STATE_ERROR w = w"

definition sm_enter :: "'e ps_env \<Rightarrow> pstorage_state \<Rightarrow> 'e ps_world \<Rightarrow> 'e ps_world" where
  "sm_enter env new_state w = state_busy_entry_run env new_state (fst w\<lparr>m_state := new_state\<rparr>, snd w)"

subsection \<open>Executing a command\<close>

text \<open>The addresses are passed as \<^verbatim>\<open>pstorage_size_t\<close>, that is cut to 16 bits.\<close>

definition tail_word_size_calculate :: "u16 \<Rightarrow> u16 \<Rightarrow> ps_state \<Rightarrow> ps_state" where
  "tail_word_size_calculate cmd_end_of_storage_address end_of_storage_address s =
     (let end_of_storage_area_page = end_of_storage_address div 4096;
          command_end_of_storage_area_page = cmd_end_of_storage_address div 4096
      in if end_of_storage_area_page = command_end_of_storage_area_page
         then s\<lparr>m_tail_word_size := (ucast end_of_storage_address - ucast cmd_end_of_storage_address) div sizeof_uint32\<rparr>
         else s\<lparr>m_tail_word_size :=
           (PSTORAGE_FLASH_PAGE_SIZE - ucast cmd_end_of_storage_address mod PSTORAGE_FLASH_PAGE_SIZE) div sizeof_uint32\<rparr>)"

definition clear_operation_execute :: "'e ps_env \<Rightarrow> 'e ps_world \<Rightarrow> 'e ps_world" where
  "clear_operation_execute env w =
     (let s = fst w;
          c = p_cmd s;
          cmd_block_id = block_id (storage_addr c);
          t = m_app_table s ! unat (module_id (storage_addr c));
          is_start_address_page_aligned = (cmd_block_id mod PSTORAGE_FLASH_PAGE_SIZE = 0);
          end_of_storage_address = base_id t + ucast (block_size t) * ucast (block_count t);
          cmd_end_of_storage_address = cmd_block_id + ucast (cmd_size c) + ucast (cmd_offset c);
          s = s\<lparr>m_tail_word_size := 0\<rparr>
      in if is_start_address_page_aligned \<and> ucast (cmd_size c) = PSTORAGE_FLASH_PAGE_SIZE \<or>
            is_start_address_page_aligned \<and> cmd_end_of_storage_address = end_of_storage_address \<and> cmd_offset c = 0 \<or>
            module_id (storage_addr c) = RAW_MODE_APP_ID
         then sm_enter env STATE_DATA_ERASE (s\<lparr>m_current_page_id := cmd_block_id div PSTORAGE_FLASH_PAGE_SIZE\<rparr>, snd w)
         else
           let s = s\<lparr>m_head_word_size := ((cmd_block_id + ucast (cmd_offset c)) mod PSTORAGE_FLASH_PAGE_SIZE) div sizeof_uint32\<rparr>;
               is_cmd_end_address_page_aligned = (cmd_end_of_storage_address mod PSTORAGE_FLASH_PAGE_SIZE = 0);
               s = (if cmd_end_of_storage_address \<noteq> end_of_storage_address \<and> \<not> is_cmd_end_address_page_aligned
                    then tail_word_size_calculate (ucast cmd_end_of_storage_address) (ucast end_of_storage_address) s else s)
           in sm_enter env STATE_DATA_ERASE_WITH_SWAP (s, snd w))"

definition store_operation_execute :: "'e ps_env \<Rightarrow> 'e ps_world \<Rightarrow> 'e ps_world" where
  "store_operation_execute env w = sm_enter env STATE_STORE w"

definition update_operation_execute :: "'e ps_env \<Rightarrow> 'e ps_world \<Rightarrow> 'e ps_world" where
  "update_operation_execute env w = clear_operation_execute env w"

definition cmd_process :: "'e ps_env \<Rightarrow> 'e ps_world \<Rightarrow> 'e ps_world" where
  "cmd_process env w =
     (let c = p_cmd (fst w); w = (fst w\<lparr>m_app_data_size := ucast (cmd_size c)\<rparr>, snd w)
      in if cmd_op_code c = PSTORAGE_STORE_OP_CODE then store_operation_execute env w
         else if cmd_op_code c = PSTORAGE_CLEAR_OP_CODE then clear_operation_execute env w
         else if cmd_op_code c = PSTORAGE_UPDATE_OP_CODE then update_operation_execute env w
         else w)"

definition cmd_queue_dequeue :: "'e ps_env \<Rightarrow> 'e ps_world \<Rightarrow> 'e ps_world" where
  "cmd_queue_dequeue env w = (if queue_count (fst w) \<noteq> 0 then cmd_process env w else w)"

definition state_idle_entry_run :: "'e ps_env \<Rightarrow> 'e ps_world \<Rightarrow> 'e ps_world" where
  "state_idle_entry_run env w =
     cmd_queue_dequeue env (fst w\<lparr>m_num_of_command_retries := 0, m_num_of_bytes_written := 0\<rparr>, snd w)"

definition state_entry_action_run :: "'e ps_env \<Rightarrow> 'e ps_world \<Rightarrow> 'e ps_world" where
  "state_entry_action_run env w =
     (if m_state (fst w) = STATE_IDLE then state_idle_entry_run env w else state_busy_entry_run env (m_state (fst w)) w)"

definition sm_state_change :: "'e ps_env \<Rightarrow> pstorage_state \<Rightarrow> 'e ps_world \<Rightarrow> 'e ps_world" where
  "sm_state_change env new_state w = state_entry_action_run env (fst w\<lparr>m_state := new_state\<rparr>, snd w)"

definition command_end_procedure_run :: "'e ps_env \<Rightarrow> 'e ps_world \<Rightarrow> 'e ps_world" where
  "command_end_procedure_run env w =
     (let w = app_notify env NRF_SUCCESS w
      in sm_state_change env STATE_IDLE (command_queue_element_consume (fst w), snd w))"


subsection \<open>After a flash operation\<close>

definition last_page_of_cmd :: "ps_state \<Rightarrow> u32" where
  "last_page_of_cmd s =
     (let c = p_cmd s in (block_id (storage_addr c) + ucast (cmd_size c) + ucast (cmd_offset c) - 1) div PSTORAGE_FLASH_PAGE_SIZE)"

definition is_tail_data_page_swap_required :: "ps_state \<Rightarrow> bool" where
  "is_tail_data_page_swap_required s \<longleftrightarrow> m_tail_word_size s \<noteq> 0 \<and> m_current_page_id s = last_page_of_cmd s"

definition is_page_erase_required :: "ps_state \<Rightarrow> bool" where
  "is_page_erase_required s \<longleftrightarrow> m_current_page_id s < last_page_of_cmd s \<or>
     m_current_page_id s = last_page_of_cmd s \<and> m_tail_word_size s = 0"

definition clear_post_processing_run :: "'e ps_env \<Rightarrow> 'e ps_world \<Rightarrow> 'e ps_world" where
  "clear_post_processing_run env w =
     (if cmd_op_code (p_cmd (fst w)) \<noteq> PSTORAGE_UPDATE_OP_CODE then command_end_procedure_run env w
      else store_operation_execute env w)"

definition swap_sub_sm_exit_action_run :: "'e ps_env \<Rightarrow> 'e ps_world \<Rightarrow> 'e ps_world" where
  "swap_sub_sm_exit_action_run env w = clear_post_processing_run env w"

definition swap_sub_state_err_busy_process :: "'e ps_env \<Rightarrow> 'e ps_world \<Rightarrow> 'e ps_world" where
  "swap_sub_state_err_busy_process env w =
     swap_sub_state_state_change env (m_swap_sub_state (fst w)) (ps_clear MASK_FLASH_API_ERR_BUSY (fst w), snd w)"

definition head_restore_state_run :: "'e ps_env \<Rightarrow> 'e ps_world \<Rightarrow> 'e ps_world" where
  "head_restore_state_run env w =
     (let s = fst w
      in if \<not> ps_flag s MASK_FLASH_API_ERR_BUSY then
           if is_tail_data_page_swap_required s
           then swap_sub_state_state_change env STATE_ERASE_SWAP (ps_set MASK_TAIL_SWAP_DONE (s\<lparr>m_head_word_size := 0\<rparr>), snd w)
           else if is_page_erase_required s
           then swap_sub_state_state_change env STATE_ERASE_DATA_PAGE (s\<lparr>m_head_word_size := 0\<rparr>, snd w)
           else if m_tail_word_size s \<noteq> 0 then swap_sub_state_state_change env STATE_RESTORE_TAIL w
           else swap_sub_sm_exit_action_run env w
         else swap_sub_state_err_busy_process env w)"

definition tail_restore_state_run :: "'e ps_env \<Rightarrow> 'e ps_world \<Rightarrow> 'e ps_world" where
  "tail_restore_state_run env w =
     (if \<not> ps_flag (fst w) MASK_FLASH_API_ERR_BUSY then swap_sub_sm_exit_action_run env w
      else swap_sub_state_err_busy_process env w)"

definition data_page_erase_state_run :: "'e ps_env \<Rightarrow> 'e ps_world \<Rightarrow> 'e ps_world" where
  "data_page_erase_state_run env w =
     (if \<not> ps_flag (fst w) MASK_FLASH_API_ERR_BUSY then
        let s = fst w\<lparr>m_current_page_id := m_current_page_id (fst w) + 1\<rparr>; w = (s, snd w)
        in if m_head_word_size s \<noteq> 0 then swap_sub_state_state_change env STATE_RESTORE_HEAD w
           else if is_page_erase_required s then swap_sub_state_state_change env STATE_ERASE_DATA_PAGE w
           else if m_tail_word_size s \<noteq> 0 then
             if \<not> ps_flag s MASK_TAIL_SWAP_DONE
             then swap_sub_state_state_change env STATE_ERASE_SWAP (ps_set MASK_TAIL_SWAP_DONE s, snd w)
             else swap_sub_state_state_change env STATE_RESTORE_TAIL w
           else swap_sub_sm_exit_action_run env w
      else swap_sub_state_err_busy_process env w)"

definition data_to_swap_write_state_run :: "'e ps_env \<Rightarrow> 'e ps_world \<Rightarrow> 'e ps_world" where
  "data_to_swap_write_state_run env w =
     (if \<not> ps_flag (fst w) MASK_FLASH_API_ERR_BUSY then
        swap_sub_state_state_change env STATE_ERASE_DATA_PAGE
          (if ps_flag (fst w) MASK_SINGLE_PAGE_OPERATION then ps_set MASK_TAIL_SWAP_DONE (fst w) else fst w, snd w)
      else swap_sub_state_err_busy_process env w)"

definition swap_erase_state_run :: "'e ps_env \<Rightarrow> 'e ps_world \<Rightarrow> 'e ps_world" where
  "swap_erase_state_run env w =
     (if \<not> ps_flag (fst w) MASK_FLASH_API_ERR_BUSY then swap_sub_state_state_change env STATE_WRITE_DATA_TO_SWAP w
      else swap_sub_state_err_busy_process env w)"

definition swap_sub_state_sm_run :: "'e ps_env \<Rightarrow> 'e ps_world \<Rightarrow> 'e ps_world" where
  "swap_sub_state_sm_run env w =
     (case m_swap_sub_state (fst w) of
        STATE_ERASE_SWAP \<Rightarrow> swap_erase_state_run env w
      | STATE_WRITE_DATA_TO_SWAP \<Rightarrow> data_to_swap_write_state_run env w
      | STATE_ERASE_DATA_PAGE \<Rightarrow> data_page_erase_state_run env w
      | STATE_RESTORE_TAIL \<Rightarrow> tail_restore_state_run env w
      | STATE_RESTORE_HEAD \<Rightarrow> head_restore_state_run env w)"

definition main_state_err_busy_process :: "'e ps_env \<Rightarrow> 'e ps_world \<Rightarrow> 'e ps_world" where
  "main_state_err_busy_process env w =
     sm_state_change env (m_state (fst w)) (ps_clear MASK_FLASH_API_ERR_BUSY (fst w), snd w)"

definition erase_sub_state_sm_run :: "'e ps_env \<Rightarrow> 'e ps_world \<Rightarrow> 'e ps_world" where
  "erase_sub_state_sm_run env w =
     (if \<not> ps_flag (fst w) MASK_FLASH_API_ERR_BUSY then
        let s = fst w\<lparr>m_current_page_id := m_current_page_id (fst w) + 1\<rparr>; w = (s, snd w)
        in if \<not> is_page_erase_required s then clear_post_processing_run env w
           else sm_state_change env (m_state s) w
      else main_state_err_busy_process env w)"

definition store_sub_state_sm_run :: "'e ps_env \<Rightarrow> 'e ps_world \<Rightarrow> 'e ps_world" where
  "store_sub_state_sm_run env w =
     (if \<not> ps_flag (fst w) MASK_FLASH_API_ERR_BUSY then
        let s = fst w; c = p_cmd s; c = c\<lparr>cmd_size := ucast (ucast (cmd_size c) - m_num_of_bytes_written s)\<rparr>;
            w = (s\<lparr>queue_cmd := (queue_cmd s)[unat (queue_rp s) := c]\<rparr>, snd w)
        in if cmd_size c = 0 then command_end_procedure_run env w else store_cmd_flash_write_execute env w
      else main_state_err_busy_process env w)"

definition flash_operation_success_run :: "'e ps_env \<Rightarrow> 'e ps_world \<Rightarrow> 'e ps_world" where
  "flash_operation_success_run env w =
     (case m_state (fst w) of
        STATE_STORE \<Rightarrow> store_sub_state_sm_run env w
      | STATE_DATA_ERASE \<Rightarrow> erase_sub_state_sm_run env w
      | STATE_DATA_ERASE_WITH_SWAP \<Rightarrow> swap_sub_state_sm_run env w
      | _ \<Rightarrow> w)"

definition flash_operation_failure_run :: "'e ps_env \<Rightarrow> 'e ps_world \<Rightarrow> 'e ps_world" where
  "flash_operation_failure_run env w =
     (let s = fst w\<lparr>m_num_of_command_retries := m_num_of_command_retries (fst w) + 1\<rparr>; w = (s, snd w)
      in if m_num_of_command_retries s \<noteq> SD_CMD_MAX_TRIES then
           if m_state s \<noteq> STATE_DATA_ERASE_WITH_SWAP then sm_state_change env (m_state s) w
           else swap_sub_state_state_change env (m_swap_sub_state s) w
         else app_notify_error_state_transit env NRF_ERROR_TIMEOUT w)"

definition pstorage_sys_event_handler :: "'e ps_env \<Rightarrow> nrf_soc_evt \<Rightarrow> 'e ps_world \<Rightarrow> 'e ps_world" where
  "pstorage_sys_event_handler env sys_evt w =
     (if m_state (fst w) \<noteq> STATE_IDLE \<and> m_state (fst w) \<noteq> STATE_ERROR then
        case sys_evt of
          NRF_EVT_FLASH_OPERATION_SUCCESS \<Rightarrow> flash_operation_success_run env w
        | NRF_EVT_FLASH_OPERATION_ERROR \<Rightarrow>
            if \<not> ps_flag (fst w) MASK_FLASH_API_ERR_BUSY then flash_operation_failure_run env w
            else flash_operation_success_run env w
        | NRF_EVT_OTHER evt \<Rightarrow> w
      else w)"

subsection \<open>The interface\<close>

definition cmd_queue_enqueue ::
  "'e ps_env \<Rightarrow> u8 \<Rightarrow> pstorage_handle \<Rightarrow> ptr \<Rightarrow> u16 \<Rightarrow> u16 \<Rightarrow> 'e ps_world \<Rightarrow> ret_code \<times> 'e ps_world" where
  "cmd_queue_enqueue env opcode p_storage_addr p_data sz offset w =
     (let s = fst w
      in if ucast (queue_count s) \<noteq> PSTORAGE_CMD_QUEUE_SIZE then
           let write_index = (ucast (queue_rp s) + ucast (queue_count s) :: u32);
               write_index = (if write_index \<ge> PSTORAGE_CMD_QUEUE_SIZE then write_index - PSTORAGE_CMD_QUEUE_SIZE else write_index);
               s = s\<lparr>queue_cmd := (queue_cmd s)[unat write_index := \<lparr>cmd_op_code = opcode, cmd_size = sz, cmd_offset = offset,
                     storage_addr = p_storage_addr, p_data_addr = p_data\<rparr>],
                   queue_count := queue_count s + 1\<rparr>
           in (NRF_SUCCESS, if m_state s = STATE_IDLE then cmd_process env (s, snd w) else (s, snd w))
         else (NRF_ERROR_NO_MEM, w))"

definition app_table_reset :: "nat \<Rightarrow> ps_state \<Rightarrow> ps_state" where
  "app_table_reset index s =
     s\<lparr>m_app_table := (m_app_table s)[index := (m_app_table s ! index)\<lparr>cb := NULL, block_size := 0, block_count := 0\<rparr>]\<rparr>"

definition pstorage_init :: "'e ps_env \<Rightarrow> ps_state \<Rightarrow> ret_code \<times> ps_state" where
  "pstorage_init env s =
     (let s = (cmd_queue_init s)\<lparr>m_next_app_instance := 0, m_next_page_addr := PSTORAGE_DATA_START_ADDR env, m_current_page_id := 0\<rparr>;
          s = fold app_table_reset [0..<unat PSTORAGE_NUM_OF_PAGES] s;
          s = s\<lparr>m_state := STATE_IDLE, m_num_of_command_retries := 0, ps_flags := 0, m_num_of_bytes_written := 0\<rparr>
      in (NRF_SUCCESS, ps_set MASK_MODULE_INITIALIZED s))"

text \<open>Sizes of type \<^verbatim>\<open>uint16_t\<close> are multiplied as \<^verbatim>\<open>int\<close>, where a block is no larger than a page.\<close>

definition CEIL_DIV :: "u32 \<Rightarrow> u32 \<Rightarrow> u32" where
  "CEIL_DIV A B = (A + B - 1) div B"

definition BLOCK_COUNT_CHECK :: "'e ps_env \<Rightarrow> u16 \<Rightarrow> u16 \<Rightarrow> ps_state \<Rightarrow> bool" where
  "BLOCK_COUNT_CHECK env count sz s \<longleftrightarrow>
     count \<noteq> 0 \<and> \<not> m_next_page_addr s + ucast count * ucast sz > PSTORAGE_SWAP_ADDR env"

definition pstorage_register ::
  "'e ps_env \<Rightarrow> pstorage_module_param option \<Rightarrow> ps_state \<Rightarrow> ret_code \<times> pstorage_handle option \<times> ps_state" where
  "pstorage_register env p_module_param s =
     (if \<not> ps_flag s MASK_MODULE_INITIALIZED then (NRF_ERROR_INVALID_STATE, None, s)
      else case p_module_param of
        None \<Rightarrow> (NRF_ERROR_NULL, None, s)
      | Some p \<Rightarrow>
          if param_cb p = NULL then (NRF_ERROR_NULL, None, s)
          else if param_block_size p > PSTORAGE_MAX_BLOCK_SIZE \<or> param_block_size p < PSTORAGE_MIN_BLOCK_SIZE
          then (NRF_ERROR_INVALID_PARAM, None, s)
          else if \<not> BLOCK_COUNT_CHECK env (param_block_count p) (param_block_size p) s then (NRF_ERROR_INVALID_PARAM, None, s)
          else if param_block_size p mod 4 \<noteq> 0 then (NRF_ERROR_INVALID_PARAM, None, s)
          else if ucast (m_next_app_instance s) = PSTORAGE_NUM_OF_PAGES then (NRF_ERROR_NO_MEM, None, s)
          else
            let h = \<lparr>module_id = ucast (m_next_app_instance s), block_id = m_next_page_addr s\<rparr>;
                page_count = CEIL_DIV (ucast (param_block_size p) * ucast (param_block_count p)) PSTORAGE_FLASH_PAGE_SIZE
            in (NRF_SUCCESS, Some h,
                s\<lparr>m_app_table := (m_app_table s)[unat (m_next_app_instance s) := \<lparr>cb = param_cb p, base_id = block_id h,
                    block_size = param_block_size p, block_count = param_block_count p\<rparr>],
                  m_next_page_addr := m_next_page_addr s + page_count * PSTORAGE_FLASH_PAGE_SIZE,
                  m_next_app_instance := m_next_app_instance s + 1\<rparr>))"

text \<open>The checks that are macros of the code hold where it goes on.\<close>

definition module_of :: "ps_state \<Rightarrow> pstorage_handle \<Rightarrow> pstorage_module_table" where
  "module_of s h = m_app_table s ! unat (module_id h)"

definition MODULE_ID_RANGE_CHECK :: "ps_state \<Rightarrow> pstorage_handle \<Rightarrow> bool" where
  "MODULE_ID_RANGE_CHECK s h \<longleftrightarrow> \<not> (module_id h \<ge> PSTORAGE_NUM_OF_PAGES \<or> cb (module_of s h) = NULL)"

definition BLOCK_ID_RANGE_CHECK :: "ps_state \<Rightarrow> pstorage_handle \<Rightarrow> bool" where
  "BLOCK_ID_RANGE_CHECK s h \<longleftrightarrow>
     \<not> block_id h \<ge> base_id (module_of s h) + ucast (block_count (module_of s h)) * ucast (block_size (module_of s h))"

definition SIZE_CHECK :: "ps_state \<Rightarrow> pstorage_handle \<Rightarrow> u16 \<Rightarrow> bool" where
  "SIZE_CHECK s h sz \<longleftrightarrow> \<not> (sz = 0 \<or> sz > block_size (module_of s h))"

definition OFFSET_CHECK :: "ps_state \<Rightarrow> pstorage_handle \<Rightarrow> u16 \<Rightarrow> u16 \<Rightarrow> bool" where
  "OFFSET_CHECK s h offset sz \<longleftrightarrow> \<not> unat sz + unat offset > unat (block_size (module_of s h))"

definition pstorage_block_identifier_get ::
  "pstorage_handle option \<Rightarrow> u16 \<Rightarrow> ps_state \<Rightarrow> ret_code \<times> pstorage_handle option" where
  "pstorage_block_identifier_get p_base_id block_num s =
     (if \<not> ps_flag s MASK_MODULE_INITIALIZED then (NRF_ERROR_INVALID_STATE, None)
      else case p_base_id of
        None \<Rightarrow> (NRF_ERROR_NULL, None)
      | Some h \<Rightarrow>
          if \<not> MODULE_ID_RANGE_CHECK s h then (NRF_ERROR_INVALID_PARAM, None)
          else
            let temp_id = h\<lparr>block_id := block_id h + ucast block_num * ucast (block_size (module_of s h))\<rparr>
            in if \<not> BLOCK_ID_RANGE_CHECK s temp_id then (NRF_ERROR_INVALID_PARAM, None)
               else (NRF_SUCCESS, Some temp_id))"

text \<open>What \<^verbatim>\<open>pstorage_store\<close>, \<^verbatim>\<open>pstorage_update\<close> and \<^verbatim>\<open>pstorage_load\<close> check, in their order.\<close>

definition access_check :: "ps_state \<Rightarrow> pstorage_handle option \<Rightarrow> ptr \<Rightarrow> u16 \<Rightarrow> u16 \<Rightarrow> ret_code" where
  "access_check s p_dest p_src sz offset =
     (if \<not> ps_flag s MASK_MODULE_INITIALIZED then NRF_ERROR_INVALID_STATE
      else if p_src = NULL then NRF_ERROR_NULL
      else case p_dest of
        None \<Rightarrow> NRF_ERROR_NULL
      | Some h \<Rightarrow>
          if \<not> MODULE_ID_RANGE_CHECK s h \<or> \<not> BLOCK_ID_RANGE_CHECK s h \<or> \<not> SIZE_CHECK s h sz \<or> \<not> OFFSET_CHECK s h offset sz
          then NRF_ERROR_INVALID_PARAM
          else if \<not> is_word_aligned p_src \<or> \<not> is_word_aligned (unat offset) \<or> \<not> is_word_aligned (unat (block_id h))
          then NRF_ERROR_INVALID_ADDR
          else NRF_SUCCESS)"

definition pstorage_store ::
  "'e ps_env \<Rightarrow> pstorage_handle option \<Rightarrow> ptr \<Rightarrow> u16 \<Rightarrow> u16 \<Rightarrow> 'e ps_world \<Rightarrow> ret_code \<times> 'e ps_world" where
  "pstorage_store env p_dest p_src sz offset w =
     (let err_code = access_check (fst w) p_dest p_src sz offset
      in if err_code \<noteq> NRF_SUCCESS then (err_code, w)
         else cmd_queue_enqueue env PSTORAGE_STORE_OP_CODE (the p_dest) p_src sz offset w)"

definition pstorage_update ::
  "'e ps_env \<Rightarrow> pstorage_handle option \<Rightarrow> ptr \<Rightarrow> u16 \<Rightarrow> u16 \<Rightarrow> 'e ps_world \<Rightarrow> ret_code \<times> 'e ps_world" where
  "pstorage_update env p_dest p_src sz offset w =
     (let err_code = access_check (fst w) p_dest p_src sz offset
      in if err_code \<noteq> NRF_SUCCESS then (err_code, w)
         else cmd_queue_enqueue env PSTORAGE_UPDATE_OP_CODE (the p_dest) p_src sz offset w)"

definition pstorage_load ::
  "'e ps_env \<Rightarrow> ptr \<Rightarrow> pstorage_handle option \<Rightarrow> u16 \<Rightarrow> u16 \<Rightarrow> 'e ps_world \<Rightarrow> ret_code \<times> 'e ps_world" where
  "pstorage_load env p_dest p_src sz offset w =
     (let err_code = access_check (fst w) p_src p_dest sz offset
      in if err_code \<noteq> NRF_SUCCESS then (err_code, w)
         else (case w of (s, m, e) \<Rightarrow>
           let h = the p_src; m = memcpy p_dest (unat (block_id h + ucast offset)) (unat sz) m
           in (NRF_SUCCESS, call_ntf_cb env (cb (module_of s h)) h PSTORAGE_LOAD_OP_CODE NRF_SUCCESS p_dest (ucast sz) (s, m, e))))"

definition pstorage_clear ::
  "'e ps_env \<Rightarrow> pstorage_handle option \<Rightarrow> u16 \<Rightarrow> 'e ps_world \<Rightarrow> ret_code \<times> 'e ps_world" where
  "pstorage_clear env p_dest sz w =
     (let s = fst w
      in if \<not> ps_flag s MASK_MODULE_INITIALIZED then (NRF_ERROR_INVALID_STATE, w)
         else case p_dest of
           None \<Rightarrow> (NRF_ERROR_NULL, w)
         | Some h \<Rightarrow>
             if \<not> MODULE_ID_RANGE_CHECK s h \<or> \<not> BLOCK_ID_RANGE_CHECK s h then (NRF_ERROR_INVALID_PARAM, w)
             else if \<not> is_word_aligned (unat (block_id h)) then (NRF_ERROR_INVALID_ADDR, w)
             else if \<not> (block_id h - base_id (module_of s h)) mod ucast (block_size (module_of s h)) = 0
             then (NRF_ERROR_INVALID_PARAM, w)
             else if sz mod block_size (module_of s h) \<noteq> 0 \<or> sz = 0 then (NRF_ERROR_INVALID_PARAM, w)
             else
               let registered_allocation_size = ucast (block_size (module_of s h)) * ucast (block_count (module_of s h));
                   clear_request_end_address = block_id h + ucast sz;
                   allocation_end_address = base_id (module_of s h) + registered_allocation_size
               in if clear_request_end_address > allocation_end_address then (NRF_ERROR_INVALID_PARAM, w)
                  else cmd_queue_enqueue env PSTORAGE_CLEAR_OP_CODE h NULL sz 0 w)"

definition pstorage_access_status_get :: "ps_state \<Rightarrow> ret_code \<times> u32 option" where
  "pstorage_access_status_get s =
     (if \<not> ps_flag s MASK_MODULE_INITIALIZED then (NRF_ERROR_INVALID_STATE, None)
      else (NRF_SUCCESS, Some (ucast (queue_count s))))"

end
