(* ===== verification/PstorageExec.thy ===== *)
theory PstorageExec
  imports Pstorage
begin

text \<open>
  Correctness of the older flash storage: what a command makes of the memory, with the flash as a device that performs the operation it
  was given last and then reports success. Control is followed in words, memory in addresses.
\<close>

unbundle bit_operations_syntax

subsection \<open>Flags\<close>

lemma word_or_eq_0: "(x :: 'a :: len word) OR y = 0 \<longleftrightarrow> x = 0 \<and> y = 0"
  by (auto simp: bit_eq_iff bit_simps)

lemma ps_flag_set: "ps_flag (ps_set a s) b \<longleftrightarrow> ps_flag s b \<or> a AND b \<noteq> 0"
proof -
  have "(ps_flags s OR a) AND b = (ps_flags s AND b) OR (a AND b)" by (simp add: bit_eq_iff bit_simps) blast
  then show ?thesis by (simp add: ps_flag_def ps_set_def word_or_eq_0)
qed

lemma ps_flag_clear_same: "\<not> ps_flag (ps_clear a s) a"
proof -
  have "(ps_flags s AND NOT a) AND a = 0" by (rule bit_eqI) (auto simp: bit_simps)
  then show ?thesis by (simp add: ps_flag_def ps_clear_def)
qed

lemma ps_flag_clear_other: "a AND b = 0 \<Longrightarrow> ps_flag (ps_clear a s) b = ps_flag s b"
proof -
  assume ab: "a AND b = 0"
  have n: "\<not> (bit a i \<and> bit b i)" for i
  proof -
    have "bit (a AND b) i = bit (0 :: u32) i" by (simp only: ab)
    then show ?thesis by (simp add: bit_and_iff)
  qed
  have "(ps_flags s AND NOT a) AND b = ps_flags s AND b" by (rule bit_eqI) (use n in \<open>auto simp: bit_simps\<close>)
  then show ?thesis by (simp add: ps_flag_def ps_clear_def)
qed

lemma ps_flag_simps [simp]:
  "ps_flag (ps_set 1 s) 1" "ps_flag (ps_set 1 s) 2 = ps_flag s 2" "ps_flag (ps_set 1 s) 4 = ps_flag s 4" "ps_flag (ps_set 1 s) 8 = ps_flag s 8"
  "ps_flag (ps_set 2 s) 1 = ps_flag s 1" "ps_flag (ps_set 2 s) 2" "ps_flag (ps_set 2 s) 4 = ps_flag s 4" "ps_flag (ps_set 2 s) 8 = ps_flag s 8"
  "\<not> ps_flag (ps_clear 1 s) 1" "ps_flag (ps_clear 1 s) 2 = ps_flag s 2" "ps_flag (ps_clear 1 s) 4 = ps_flag s 4" "ps_flag (ps_clear 1 s) 8 = ps_flag s 8"
  "ps_flag (ps_clear 2 s) 1 = ps_flag s 1" "\<not> ps_flag (ps_clear 2 s) 2" "ps_flag (ps_clear 2 s) 4 = ps_flag s 4" "ps_flag (ps_clear 2 s) 8 = ps_flag s 8"
  by (simp_all add: ps_flag_set ps_flag_clear_same ps_flag_clear_other)

lemma ps_set_fields [simp]:
  "queue_rp (ps_set f s) = queue_rp s" "queue_count (ps_set f s) = queue_count s" "queue_cmd (ps_set f s) = queue_cmd s"
  "m_state (ps_set f s) = m_state s" "m_swap_sub_state (ps_set f s) = m_swap_sub_state s" "m_head_word_size (ps_set f s) = m_head_word_size s"
  "m_tail_word_size (ps_set f s) = m_tail_word_size s" "m_current_page_id (ps_set f s) = m_current_page_id s"
  "m_app_table (ps_set f s) = m_app_table s" "m_app_data_size (ps_set f s) = m_app_data_size s"
  "queue_rp (ps_clear f s) = queue_rp s" "queue_count (ps_clear f s) = queue_count s" "queue_cmd (ps_clear f s) = queue_cmd s"
  "m_state (ps_clear f s) = m_state s" "m_swap_sub_state (ps_clear f s) = m_swap_sub_state s" "m_head_word_size (ps_clear f s) = m_head_word_size s"
  "m_tail_word_size (ps_clear f s) = m_tail_word_size s" "m_current_page_id (ps_clear f s) = m_current_page_id s"
  "m_app_table (ps_clear f s) = m_app_table s" "m_app_data_size (ps_clear f s) = m_app_data_size s"
  by (simp_all add: ps_set_def ps_clear_def)

lemma ps_flag_update [simp]:
  "ps_flag (s\<lparr>m_state := x\<rparr>) f = ps_flag s f" "ps_flag (s\<lparr>m_swap_sub_state := y\<rparr>) f = ps_flag s f"
  "ps_flag (s\<lparr>m_head_word_size := v\<rparr>) f = ps_flag s f" "ps_flag (s\<lparr>m_tail_word_size := v\<rparr>) f = ps_flag s f"
  "ps_flag (s\<lparr>m_current_page_id := v\<rparr>) f = ps_flag s f" "ps_flag (s\<lparr>m_num_of_bytes_written := v\<rparr>) f = ps_flag s f"
  "ps_flag (s\<lparr>m_app_data_size := v\<rparr>) f = ps_flag s f" "ps_flag (s\<lparr>queue_cmd := q\<rparr>) f = ps_flag s f"
  "ps_flag (s\<lparr>queue_count := n\<rparr>) f = ps_flag s f" "ps_flag (s\<lparr>queue_rp := n\<rparr>) f = ps_flag s f"
  "ps_flag (s\<lparr>m_num_of_command_retries := v\<rparr>) f = ps_flag s f"
  by (simp_all add: ps_flag_def)

lemma p_cmd_update [simp]:
  "p_cmd (s\<lparr>m_state := x\<rparr>) = p_cmd s" "p_cmd (s\<lparr>m_swap_sub_state := y\<rparr>) = p_cmd s" "p_cmd (s\<lparr>m_head_word_size := v\<rparr>) = p_cmd s"
  "p_cmd (s\<lparr>m_tail_word_size := v\<rparr>) = p_cmd s" "p_cmd (s\<lparr>m_current_page_id := v\<rparr>) = p_cmd s" "p_cmd (s\<lparr>m_num_of_bytes_written := v\<rparr>) = p_cmd s"
  "p_cmd (s\<lparr>m_app_data_size := v\<rparr>) = p_cmd s" "p_cmd (s\<lparr>m_num_of_command_retries := v\<rparr>) = p_cmd s"
  "p_cmd (ps_set f s) = p_cmd s" "p_cmd (ps_clear f s) = p_cmd s"
  by (simp_all add: p_cmd_def)

subsection \<open>The flash\<close>

datatype flash_op = Erase u32 | Write u32 u32 u32

fun flash_exec :: "flash_op \<Rightarrow> mem \<Rightarrow> mem" where
  "flash_exec (Erase p) m = (\<lambda>a. if a div 4096 = unat p then 0xFF else m a)"
| "flash_exec (Write d p k) m =
     (\<lambda>a. if unat d \<le> a \<and> a < unat d + 4 * unat k then m a AND m (unat p + (a - unat d)) else m a)"

declare flash_exec.simps [simp del]

datatype ps_out = Flash flash_op | Ntf ptr pstorage_handle u8 ret_code ptr u32

definition ntfs :: "ps_out list \<Rightarrow> ps_out list" where
  "ntfs os = filter (\<lambda>x. case x of Flash c \<Rightarrow> False | _ \<Rightarrow> True) os"

lemma ntfs_simps [simp]: "ntfs [] = []" "ntfs (os @ os') = ntfs os @ ntfs os'" "ntfs [Flash c] = []" "ntfs [Ntf f h op r p n] = [Ntf f h op r p n]"
  by (simp_all add: ntfs_def)

text \<open>The SoftDevice accepts every operation, and callbacks leave the module and the memory alone.\<close>

definition ps_quiet :: "'e ps_env \<Rightarrow> ('e \<Rightarrow> ps_out list) \<Rightarrow> bool" where
  "ps_quiet env obs \<longleftrightarrow>
     (\<forall>d p k e. fst (ps_flash_write env d p k e) = NRF_SUCCESS \<and> obs (snd (ps_flash_write env d p k e)) = obs e @ [Flash (Write d p k)]) \<and>
     (\<forall>p e. fst (ps_flash_page_erase env p e) = NRF_SUCCESS \<and> obs (snd (ps_flash_page_erase env p e)) = obs e @ [Flash (Erase p)]) \<and>
     (\<forall>f h op r p n s m e. \<exists>e'. call_ntf_cb env f h op r p n (s, m, e) = (s, m, e') \<and> obs e' = obs e @ [Ntf f h op r p n])"

lemma ps_quietD:
  assumes "ps_quiet env obs"
  shows "fst (ps_flash_write env d p k e) = NRF_SUCCESS" "obs (snd (ps_flash_write env d p k e)) = obs e @ [Flash (Write d p k)]"
    "fst (ps_flash_page_erase env q e) = NRF_SUCCESS" "obs (snd (ps_flash_page_erase env q e)) = obs e @ [Flash (Erase q)]"
    "\<exists>e'. call_ntf_cb env f h op r dp n (s, m, e) = (s, m, e') \<and> obs e' = obs e @ [Ntf f h op r dp n]"
  using assms unfolding ps_quiet_def by blast+

lemma flash_quiet:
  assumes "ps_quiet env obs"
  shows "\<exists>e'. flash_write env d p k w = (fst w, fst (snd w), e') \<and> obs e' = obs (snd (snd w)) @ [Flash (Write d p k)]"
    "\<exists>e'. flash_page_erase env q w = (fst w, fst (snd w), e') \<and> obs e' = obs (snd (snd w)) @ [Flash (Erase q)]"
proof -
  obtain s m e where w: "w = (s, m, e)" by (cases w)
  note q = ps_quietD [OF assms]
  show "\<exists>e'. flash_write env d p k w = (fst w, fst (snd w), e') \<and> obs e' = obs (snd (snd w)) @ [Flash (Write d p k)]"
    using q(1,2) [of d p k e] by (simp add: w flash_write_def flash_api_err_code_process_def split_beta)
  show "\<exists>e'. flash_page_erase env q w = (fst w, fst (snd w), e') \<and> obs e' = obs (snd (snd w)) @ [Flash (Erase q)]"
    using q(3,4) [of q e] by (simp add: w flash_page_erase_def flash_api_err_code_process_def split_beta)
qed

text \<open>The flash performs the last operation, and its event comes.\<close>

definition ps_success :: "'e ps_env \<Rightarrow> ('e \<Rightarrow> ps_out list) \<Rightarrow> 'e ps_world \<Rightarrow> 'e ps_world" where
  "ps_success env obs w =
     (case w of (s, m, e) \<Rightarrow> pstorage_sys_event_handler env NRF_EVT_FLASH_OPERATION_SUCCESS
        (s, (case last (obs e) of Flash c \<Rightarrow> flash_exec c m | _ \<Rightarrow> m), e))"

definition ps_reaches :: "'e ps_env \<Rightarrow> ('e \<Rightarrow> ps_out list) \<Rightarrow> 'e ps_world \<Rightarrow> 'e ps_world \<Rightarrow> bool" where
  "ps_reaches env obs w w' \<longleftrightarrow> (\<exists>n. w' = (ps_success env obs ^^ n) w)"

lemma ps_reaches_refl: "ps_reaches env obs w w"
  unfolding ps_reaches_def by (rule exI [of _ 0]) simp

lemma ps_reaches_step: "ps_reaches env obs (ps_success env obs w) w' \<Longrightarrow> ps_reaches env obs w w'"
  unfolding ps_reaches_def by (metis funpow_simps_right(2) comp_apply)

subsection \<open>Erasing with the swap page\<close>

text \<open>What the execution of a command leaves alone until its end.\<close>

definition same_job :: "ps_state \<Rightarrow> ps_state \<Rightarrow> bool" where
  "same_job s0 s \<longleftrightarrow> queue_rp s = queue_rp s0 \<and> queue_count s = queue_count s0 \<and> queue_cmd s = queue_cmd s0 \<and>
     m_app_table s = m_app_table s0 \<and> m_app_data_size s = m_app_data_size s0 \<and> ps_flag s 4 = ps_flag s0 4 \<and> \<not> ps_flag s 8"

lemma same_job_cmd: "same_job s0 s \<Longrightarrow> p_cmd s = p_cmd s0"
  by (simp add: same_job_def p_cmd_def)

lemma same_job_last: "same_job s0 s \<Longrightarrow> last_page_of_cmd s = last_page_of_cmd s0"
  by (simp add: last_page_of_cmd_def same_job_cmd)

lemma same_job_update [simp]:
  "same_job s0 (s\<lparr>m_state := x\<rparr>) = same_job s0 s" "same_job s0 (s\<lparr>m_swap_sub_state := y\<rparr>) = same_job s0 s"
  "same_job s0 (s\<lparr>m_head_word_size := v\<rparr>) = same_job s0 s" "same_job s0 (s\<lparr>m_tail_word_size := v\<rparr>) = same_job s0 s"
  "same_job s0 (s\<lparr>m_current_page_id := v\<rparr>) = same_job s0 s" "same_job s0 (s\<lparr>m_num_of_bytes_written := v\<rparr>) = same_job s0 s"
  "same_job s0 (ps_set 1 s) = same_job s0 s" "same_job s0 (ps_set 2 s) = same_job s0 s"
  "same_job s0 (ps_clear 1 s) = same_job s0 s" "same_job s0 (ps_clear 2 s) = same_job s0 s"
  by (simp_all add: same_job_def)

text \<open>
  A sub state with its operation given to the flash: \<open>k\<close> is the current page, \<open>hd\<close> and \<open>tl\<close> the words of head and tail, \<open>one\<close> tells
  that the command is within a page, \<open>dn\<close> that the swap page holds the page of the tail.
\<close>

fun swap_op :: "'e ps_env \<Rightarrow> ps_state \<Rightarrow> flash_swap_sub_state \<Rightarrow> u32 \<Rightarrow> u32 \<Rightarrow> u32 \<Rightarrow> flash_op" where
  "swap_op env s0 STATE_ERASE_SWAP k h t = Erase (PSTORAGE_SWAP_ADDR env div 4096)"
| "swap_op env s0 STATE_WRITE_DATA_TO_SWAP k h t = Write (PSTORAGE_SWAP_ADDR env) (k * 4096) 1024"
| "swap_op env s0 STATE_ERASE_DATA_PAGE k h t = Erase k"
| "swap_op env s0 STATE_RESTORE_TAIL k h t =
     (let d = block_id (storage_addr (p_cmd s0)) + ucast (cmd_size (p_cmd s0)) + ucast (cmd_offset (p_cmd s0))
      in Write d (PSTORAGE_SWAP_ADDR env + d mod 4096) t)"
| "swap_op env s0 STATE_RESTORE_HEAD k h t = Write ((k - 1) * 4096) (PSTORAGE_SWAP_ADDR env) h"

declare swap_op.simps [simp del]

definition swap_vars :: "ps_state \<Rightarrow> bool \<Rightarrow> u32 \<Rightarrow> u32 \<Rightarrow> u32 \<Rightarrow> bool \<Rightarrow> ps_state \<Rightarrow> bool" where
  "swap_vars s0 one k h t dn s \<longleftrightarrow> same_job s0 s \<and> m_state s = STATE_DATA_ERASE_WITH_SWAP \<and> m_current_page_id s = k \<and>
     m_head_word_size s = h \<and> m_tail_word_size s = t \<and> (ps_flag s 1 \<longleftrightarrow> dn) \<and> (ps_flag s 2 \<longleftrightarrow> one)"

definition issued :: "('e \<Rightarrow> ps_out list) \<Rightarrow> ps_out list \<Rightarrow> flash_op \<Rightarrow> mem \<Rightarrow> 'e ps_world \<Rightarrow> bool" where
  "issued obs N c m w \<longleftrightarrow> fst (snd w) = m \<and> obs (snd (snd w)) \<noteq> [] \<and> last (obs (snd (snd w))) = Flash c \<and> ntfs (obs (snd (snd w))) = N"

definition in_swap :: "'e ps_env \<Rightarrow> ('e \<Rightarrow> ps_out list) \<Rightarrow> ps_state \<Rightarrow> ps_out list \<Rightarrow> bool \<Rightarrow>
    flash_swap_sub_state \<Rightarrow> u32 \<Rightarrow> u32 \<Rightarrow> u32 \<Rightarrow> bool \<Rightarrow> mem \<Rightarrow> 'e ps_world \<Rightarrow> bool" where
  "in_swap env obs s0 N one x k h t dn m w \<longleftrightarrow>
     swap_vars s0 one k h t dn (fst w) \<and> m_swap_sub_state (fst w) = x \<and> issued obs N (swap_op env s0 x k h t) m w"

lemma issued_write:
  assumes "ps_quiet env obs" "fst (snd w) = m" "ntfs (obs (snd (snd w))) = N"
  shows "issued obs N (Write d p k) m (flash_write env d p k w) \<and> fst (flash_write env d p k w) = fst w"
  using flash_quiet(1) [OF assms(1), of d p k w] assms(2,3) by (auto simp: issued_def)

lemma issued_erase:
  assumes "ps_quiet env obs" "fst (snd w) = m" "ntfs (obs (snd (snd w))) = N"
  shows "issued obs N (Erase q) m (flash_page_erase env q w) \<and> fst (flash_page_erase env q w) = fst w"
  using flash_quiet(2) [OF assms(1), of q w] assms(2,3) by (auto simp: issued_def)

lemma enter_swap:
  assumes "ps_quiet env obs" "swap_vars s0 one k h t dn (fst w)" "fst (snd w) = m" "ntfs (obs (snd (snd w))) = N"
  shows "in_swap env obs s0 N one x k h t dn m (swap_sub_state_state_change env x w)"
proof -
  let ?w = "(fst w\<lparr>m_swap_sub_state := x\<rparr>, snd w)"
  note wr = issued_write [OF assms(1), of ?w m N] and er = issued_erase [OF assms(1), of ?w m N]
  have c: "p_cmd (fst w) = p_cmd s0" using assms(2) by (simp add: swap_vars_def same_job_cmd)
  have v: "m_current_page_id (fst w) = k" "m_head_word_size (fst w) = h" "m_tail_word_size (fst w) = t"
    using assms(2) by (simp_all add: swap_vars_def)
  have "issued obs N (swap_op env s0 x k h t) m (swap_sub_state_entry_action_run env x ?w) \<and>
      fst (swap_sub_state_entry_action_run env x ?w) = fst ?w"
    using wr er assms(3,4) v c by (cases x) (simp_all add: state_restore_tail_entry_run_def swap_op.simps Let_def)
  then show ?thesis using assms(2) by (simp add: in_swap_def swap_sub_state_state_change_def swap_vars_def)
qed

lemma success_swap:
  assumes "in_swap env obs s0 N one x k h t dn m w"
  shows "\<exists>s e. ps_success env obs w = swap_sub_state_sm_run env (s, flash_exec (swap_op env s0 x k h t) m, e) \<and>
    swap_vars s0 one k h t dn s \<and> m_swap_sub_state s = x \<and> ntfs (obs e) = N"
proof -
  obtain s m' e where w: "w = (s, m', e)" by (cases w)
  show ?thesis using assms
    by (auto simp: w in_swap_def issued_def ps_success_def pstorage_sys_event_handler_def flash_operation_success_run_def swap_vars_def)
qed

lemma swap_vars_busy: "swap_vars s0 one k h t dn s \<Longrightarrow> \<not> ps_flag s 8"
  by (simp add: swap_vars_def same_job_def)

lemma step_erase_swap:
  assumes "ps_quiet env obs" "in_swap env obs s0 N one STATE_ERASE_SWAP k h t dn m w"
  shows "in_swap env obs s0 N one STATE_WRITE_DATA_TO_SWAP k h t dn (flash_exec (swap_op env s0 STATE_ERASE_SWAP k h t) m) (ps_success env obs w)"
proof -
  from success_swap [OF assms(2)] obtain s e where
    "ps_success env obs w = swap_sub_state_sm_run env (s, flash_exec (swap_op env s0 STATE_ERASE_SWAP k h t) m, e)"
    "swap_vars s0 one k h t dn s" "m_swap_sub_state s = STATE_ERASE_SWAP" "ntfs (obs e) = N" by blast
  then show ?thesis
    using enter_swap [OF assms(1), where w = "(s, flash_exec (swap_op env s0 STATE_ERASE_SWAP k h t) m, e)"]
    by (simp add: swap_sub_state_sm_run_def swap_erase_state_run_def swap_vars_busy)
qed

lemma step_write_swap:
  assumes "ps_quiet env obs" "in_swap env obs s0 N one STATE_WRITE_DATA_TO_SWAP k h t dn m w"
  shows "in_swap env obs s0 N one STATE_ERASE_DATA_PAGE k h t (dn \<or> one)
    (flash_exec (swap_op env s0 STATE_WRITE_DATA_TO_SWAP k h t) m) (ps_success env obs w)"
proof -
  let ?m = "flash_exec (swap_op env s0 STATE_WRITE_DATA_TO_SWAP k h t) m"
  from success_swap [OF assms(2)] obtain s e where s:
    "ps_success env obs w = swap_sub_state_sm_run env (s, ?m, e)"
    "swap_vars s0 one k h t dn s" "m_swap_sub_state s = STATE_WRITE_DATA_TO_SWAP" "ntfs (obs e) = N" by blast
  let ?t = "if ps_flag s 2 then ps_set 1 s else s"
  have v: "swap_vars s0 one k h t (dn \<or> one) (fst (?t, ?m, e))" using s(2) by (auto simp: swap_vars_def)
  have w': "ps_success env obs w = swap_sub_state_state_change env STATE_ERASE_DATA_PAGE (?t, ?m, e)"
    using s by (simp add: swap_sub_state_sm_run_def data_to_swap_write_state_run_def swap_vars_busy)
  show ?thesis unfolding w' by (rule enter_swap [OF assms(1) v]) (simp_all add: s(4))
qed

text \<open>The end of the erasure: the command ends or goes on to store.\<close>

definition erased_exit :: "'e ps_env \<Rightarrow> ('e \<Rightarrow> ps_out list) \<Rightarrow> ps_state \<Rightarrow> ps_out list \<Rightarrow> mem \<Rightarrow> 'e ps_world \<Rightarrow> bool" where
  "erased_exit env obs s0 N m w \<longleftrightarrow> (\<exists>s e. w = clear_post_processing_run env (s, m, e) \<and> same_job s0 s \<and> ntfs (obs e) = N)"

lemma step_erase_page:
  assumes "ps_quiet env obs" "in_swap env obs s0 N one STATE_ERASE_DATA_PAGE k h t dn m w" "m' = flash_exec (Erase k) m"
    "lp = last_page_of_cmd s0" "w' = ps_success env obs w"
  shows "if h \<noteq> 0 then in_swap env obs s0 N one STATE_RESTORE_HEAD (k + 1) h t dn m' w'
    else if k + 1 < lp \<or> k + 1 = lp \<and> t = 0 then in_swap env obs s0 N one STATE_ERASE_DATA_PAGE (k + 1) h t dn m' w'
    else if t \<noteq> 0 then in_swap env obs s0 N one (if dn then STATE_RESTORE_TAIL else STATE_ERASE_SWAP) (k + 1) h t True m' w'
    else erased_exit env obs s0 N m' w'"
proof -
  from success_swap [OF assms(2)] obtain s e where s: "w' = swap_sub_state_sm_run env (s, m', e)"
    "swap_vars s0 one k h t dn s" "m_swap_sub_state s = STATE_ERASE_DATA_PAGE" "ntfs (obs e) = N" unfolding assms(3,5) by (auto simp: swap_op.simps)
  let ?s = "s\<lparr>m_current_page_id := k + 1\<rparr>"
  have v: "swap_vars s0 one (k + 1) h t dn ?s" "swap_vars s0 one (k + 1) h t True (ps_set 1 ?s)"
    "m_head_word_size s = h" "m_tail_word_size s = t" "m_current_page_id s = k" "ps_flag s 1 = dn" "same_job s0 s"
    using s(2) by (auto simp: swap_vars_def)
  have l: "last_page_of_cmd ?s = lp" using same_job_last [of s0 ?s] v(7) assms(4) by simp
  have r: "is_page_erase_required ?s \<longleftrightarrow> k + 1 < lp \<or> k + 1 = lp \<and> t = 0"
    unfolding is_page_erase_required_def l using v(4) by simp
  note e = enter_swap [OF assms(1), where w = "(?s, m', e)", simplified, OF v(1) refl s(4)]
    enter_swap [OF assms(1), where w = "(ps_set 1 ?s, m', e)", simplified, OF v(2) refl s(4)]
  have w': "w' = data_page_erase_state_run env (s, m', e)" using s(1,3) by (simp add: swap_sub_state_sm_run_def)
  have b: "\<not> ps_flag s 8" using swap_vars_busy [OF s(2)] .
  show ?thesis
  proof (cases "h \<noteq> 0 \<or> k + 1 < lp \<or> k + 1 = lp \<and> t = 0")
    case True
    then show ?thesis using e(1) r v(3,5) b unfolding w' by (auto simp: data_page_erase_state_run_def Let_def)
  next
    case False
    have x: "erased_exit env obs s0 N m' (swap_sub_sm_exit_action_run env (?s, m', e))"
      unfolding erased_exit_def swap_sub_sm_exit_action_run_def using v(7) s(4) by (intro exI [of _ ?s] exI [of _ e]) simp
    show ?thesis using False e r v(3,4,5,6) b x unfolding w'
      by (cases dn) (auto simp: data_page_erase_state_run_def Let_def)
  qed
qed

lemma step_restore_tail:
  assumes "in_swap env obs s0 N one STATE_RESTORE_TAIL k h t dn m w"
  shows "erased_exit env obs s0 N (flash_exec (swap_op env s0 STATE_RESTORE_TAIL k h t) m) (ps_success env obs w)"
proof -
  from success_swap [OF assms(1)] obtain s e where s:
    "ps_success env obs w = swap_sub_state_sm_run env (s, flash_exec (swap_op env s0 STATE_RESTORE_TAIL k h t) m, e)"
    "swap_vars s0 one k h t dn s" "m_swap_sub_state s = STATE_RESTORE_TAIL" "ntfs (obs e) = N" by blast
  moreover have "same_job s0 s" "\<not> ps_flag s 8" using s(2) swap_vars_busy by (auto simp: swap_vars_def)
  ultimately show ?thesis unfolding erased_exit_def
    by (intro exI [of _ s] exI [of _ e]) (simp add: swap_sub_state_sm_run_def tail_restore_state_run_def swap_sub_sm_exit_action_run_def)
qed

lemma step_restore_head:
  assumes "ps_quiet env obs" "in_swap env obs s0 N one STATE_RESTORE_HEAD k h t dn m w"
    "m' = flash_exec (swap_op env s0 STATE_RESTORE_HEAD k h t) m" "lp = last_page_of_cmd s0" "w' = ps_success env obs w"
  shows "if t \<noteq> 0 \<and> k = lp then in_swap env obs s0 N one STATE_ERASE_SWAP k 0 t True m' w'
    else if k < lp \<or> k = lp \<and> t = 0 then in_swap env obs s0 N one STATE_ERASE_DATA_PAGE k 0 t dn m' w'
    else if t \<noteq> 0 then in_swap env obs s0 N one STATE_RESTORE_TAIL k h t dn m' w'
    else erased_exit env obs s0 N m' w'"
proof -
  from success_swap [OF assms(2)] obtain s e where s: "w' = swap_sub_state_sm_run env (s, m', e)"
    "swap_vars s0 one k h t dn s" "m_swap_sub_state s = STATE_RESTORE_HEAD" "ntfs (obs e) = N" unfolding assms(3,5) by auto
  let ?s = "s\<lparr>m_head_word_size := 0\<rparr>"
  have v: "swap_vars s0 one k 0 t dn ?s" "swap_vars s0 one k 0 t True (ps_set 1 ?s)"
    "m_tail_word_size s = t" "m_current_page_id s = k" "same_job s0 s"
    using s(2) by (auto simp: swap_vars_def)
  have l: "last_page_of_cmd s = lp" using same_job_last [OF v(5)] assms(4) by simp
  have r: "is_page_erase_required s \<longleftrightarrow> k < lp \<or> k = lp \<and> t = 0" "is_tail_data_page_swap_required s \<longleftrightarrow> t \<noteq> 0 \<and> k = lp"
    unfolding is_page_erase_required_def is_tail_data_page_swap_required_def l using v(3,4) by simp_all
  note e = enter_swap [OF assms(1), where w = "(?s, m', e)", simplified, OF v(1) refl s(4)]
    enter_swap [OF assms(1), where w = "(ps_set 1 ?s, m', e)", simplified, OF v(2) refl s(4)]
    enter_swap [OF assms(1), where w = "(s, m', e)", simplified, OF s(2) refl s(4)]
  have w': "w' = head_restore_state_run env (s, m', e)" using s(1,3) by (simp add: swap_sub_state_sm_run_def)
  have b: "\<not> ps_flag s 8" using swap_vars_busy [OF s(2)] .
  have x: "erased_exit env obs s0 N m' (swap_sub_sm_exit_action_run env (s, m', e))"
    unfolding erased_exit_def swap_sub_sm_exit_action_run_def using v(5) s(4) by blast
  show ?thesis using e r v(3) b x unfolding w' by (auto simp: head_restore_state_run_def)
qed

subsection \<open>The memory while a command is executed\<close>

text \<open>The pages from \<open>P\<close> to before \<open>c\<close> are erased but for the addresses \<open>K\<close>; the swap page \<open>sw\<close> may hold anything.\<close>

definition cleared :: "nat \<Rightarrow> nat \<Rightarrow> nat \<Rightarrow> nat set \<Rightarrow> mem \<Rightarrow> mem \<Rightarrow> bool" where
  "cleared sw P c K m0 m \<longleftrightarrow> (\<forall>a. a div 4096 \<noteq> sw \<longrightarrow>
     m a = (if P \<le> a div 4096 \<and> a div 4096 < c \<and> a \<notin> K then 0xFF else m0 a))"

definition swapped :: "nat \<Rightarrow> nat \<Rightarrow> mem \<Rightarrow> mem \<Rightarrow> bool" where
  "swapped sw k m0 m \<longleftrightarrow> (\<forall>i < 4096. m (sw * 4096 + i) = m0 (k * 4096 + i))"

lemma clearedD: "cleared sw P c K m0 m \<Longrightarrow> a div 4096 \<noteq> sw \<Longrightarrow>
    m a = (if P \<le> a div 4096 \<and> a div 4096 < c \<and> a \<notin> K then 0xFF else m0 a)"
  by (simp add: cleared_def)

lemma swapped_at: "swapped sw k m0 m \<Longrightarrow> a div 4096 = sw \<Longrightarrow> m a = m0 (k * 4096 + a mod 4096)"
  unfolding swapped_def by (metis div_mult_mod_eq mod_less_divisor zero_less_numeral)

lemma and_ff [simp]: "(0xFF :: u8) AND x = x"
proof -
  have "(0xFF :: u8) = - 1" by simp
  then show ?thesis by (simp only: and.left_neutral)
qed

lemma write_out: "\<not> (unat d \<le> a \<and> a < unat d + 4 * unat n) \<Longrightarrow> flash_exec (Write d p n) m a = m a"
  by (simp only: flash_exec.simps if_False)

lemma write_in: "unat d \<le> a \<Longrightarrow> a < unat d + 4 * unat n \<Longrightarrow> flash_exec (Write d p n) m a = m a AND m (unat p + (a - unat d))"
  by (simp only: flash_exec.simps simp_thms if_True)

lemma erase_cleared:
  assumes "cleared sw P c K m0 m" "unat k = c" "P \<le> c" "\<forall>a \<in> K. a div 4096 \<noteq> c"
  shows "cleared sw P (c + 1) K m0 (flash_exec (Erase k) m)"
  using assms by (auto simp: cleared_def flash_exec.simps)

lemma erase_swapped: "swapped sw k m0 m \<Longrightarrow> unat q \<noteq> sw \<Longrightarrow> swapped sw k m0 (flash_exec (Erase q) m)"
  by (simp add: swapped_def flash_exec.simps)

lemma write_swapped:
  assumes "swapped sw k m0 m" "unat d div 4096 \<noteq> sw" "unat d mod 4096 + 4 * unat n \<le> 4096"
  shows "swapped sw k m0 (flash_exec (Write d p n) m)"
proof -
  have "\<not> (unat d \<le> sw * 4096 + i \<and> sw * 4096 + i < unat d + 4 * unat n)" if "i < 4096" for i
  proof
    assume "unat d \<le> sw * 4096 + i \<and> sw * 4096 + i < unat d + 4 * unat n"
    moreover have "unat d = unat d div 4096 * 4096 + unat d mod 4096" by simp
    ultimately have "unat d div 4096 * 4096 \<le> sw * 4096 + i" "sw * 4096 + i < unat d div 4096 * 4096 + 4096"
      using assms(3) by linarith+
    then have "(sw * 4096 + i) div 4096 = unat d div 4096" by (intro div_nat_eqI) simp_all
    then show False using assms(2) that by simp
  qed
  then show ?thesis using assms(1) by (simp add: swapped_def write_out)
qed

text \<open>Saving a page: the swap page is erased and written.\<close>

lemma save_page:
  assumes "cleared sw P c K m0 m" "unat (PSTORAGE_SWAP_ADDR env) = sw * 4096" "unat (k * 4096) = c * 4096" "c \<noteq> sw"
    and "m1 = flash_exec (Erase (PSTORAGE_SWAP_ADDR env div 4096)) m" "m2 = flash_exec (Write (PSTORAGE_SWAP_ADDR env) (k * 4096) 1024) m1"
  shows "cleared sw P c K m0 m2 \<and> swapped sw c m0 m2"
proof
  have d: "unat (PSTORAGE_SWAP_ADDR env div 4096) = sw" using assms(2) by (simp add: unat_div)
  have out: "m2 a = m a" if "a div 4096 \<noteq> sw" for a
  proof -
    have "\<not> (sw * 4096 \<le> a \<and> a < sw * 4096 + 4096)" using that by (metis div_nat_eqI mult.commute mult_Suc_right add.commute)
    then have "m2 a = m1 a" unfolding assms(6) using assms(2) by (intro write_out) simp
    then show ?thesis using that d unfolding assms(5) by (simp add: flash_exec.simps)
  qed
  then show "cleared sw P c K m0 m2" using assms(1) by (simp add: cleared_def)
  show "swapped sw c m0 m2"
    unfolding swapped_def
  proof (intro allI impI)
    fix i :: nat assume i: "i < 4096"
    have p: "(sw * 4096 + i) div 4096 = sw" "(c * 4096 + i) div 4096 = c" using i by simp_all
    have "m2 (sw * 4096 + i) = m1 (sw * 4096 + i) AND m1 (c * 4096 + i)"
      using i assms(2,3) unfolding assms(6) by (simp add: flash_exec.simps)
    also have "\<dots> = m (c * 4096 + i)" using p d assms(4) unfolding assms(5) by (simp add: flash_exec.simps)
    also have "\<dots> = m0 (c * 4096 + i)" using clearedD [OF assms(1), of "c * 4096 + i"] p assms(4) by simp
    finally show "m2 (sw * 4096 + i) = m0 (c * 4096 + i)" .
  qed
qed

text \<open>Restoring words of a page from the swap page.\<close>

lemma restore_words:
  assumes "cleared sw P c K m0 m" "swapped sw q m0 m" "P \<le> q" "q < c" "q \<noteq> sw"
    and "unat d div 4096 = q" "unat p = sw * 4096 + unat d mod 4096" "unat d mod 4096 + 4 * unat n \<le> 4096"
    and "\<forall>a \<in> K. \<not> (unat d \<le> a \<and> a < unat d + 4 * unat n)"
  shows "cleared sw P c (K \<union> {unat d ..< unat d + 4 * unat n}) m0 (flash_exec (Write d p n) m)"
  unfolding cleared_def
proof (intro allI impI)
  fix a assume a: "a div 4096 \<noteq> sw"
  have dd: "unat d = q * 4096 + unat d mod 4096" using assms(6) by (metis div_mult_mod_eq)
  show "flash_exec (Write d p n) m a =
      (if P \<le> a div 4096 \<and> a div 4096 < c \<and> a \<notin> K \<union> {unat d ..< unat d + 4 * unat n} then 0xFF else m0 a)"
  proof (cases "unat d \<le> a \<and> a < unat d + 4 * unat n")
    case True
    then have r: "q * 4096 \<le> a" "a < q * 4096 + 4096" using dd assms(8) by linarith+
    then have pg: "a div 4096 = q" by (intro div_nat_eqI) simp_all
    have "m a = 0xFF" using clearedD [OF assms(1) a] pg assms(3,4,9) True by auto
    moreover have "m (unat p + (a - unat d)) = m0 a"
    proof -
      have "unat p + (a - unat d) = sw * 4096 + (a - q * 4096)" using assms(7) dd True r by linarith
      moreover have "a - q * 4096 < 4096" using r by linarith
      ultimately have "m (unat p + (a - unat d)) = m0 (q * 4096 + (a - q * 4096))" using assms(2) by (simp add: swapped_def)
      then show ?thesis using r by simp
    qed
    ultimately show ?thesis using True by (simp add: flash_exec.simps)
  next
    case False
    then have "flash_exec (Write d p n) m a = m a" by (rule write_out)
    then show ?thesis using clearedD [OF assms(1) a] False by auto
  qed
qed

subsection \<open>Erasing the area of a command\<close>

text \<open>The command of \<open>s0\<close> is about the addresses from \<open>st\<close> to before \<open>en\<close>, in the pages \<open>P\<close> to \<open>L\<close>, below the swap page \<open>sw\<close>.\<close>

definition ps_job :: "'e ps_env \<Rightarrow> ps_state \<Rightarrow> nat \<Rightarrow> nat \<Rightarrow> nat \<Rightarrow> nat \<Rightarrow> nat \<Rightarrow> bool" where
  "ps_job env s0 sw P L st en \<longleftrightarrow>
     unat (PSTORAGE_SWAP_ADDR env) = sw * 4096 \<and> sw * 4096 + 4096 \<le> 2 ^ 32 \<and>
     unat (block_id (storage_addr (p_cmd s0)) + ucast (cmd_size (p_cmd s0)) + ucast (cmd_offset (p_cmd s0))) = en \<and>
     last_page_of_cmd s0 = of_nat L \<and> P = st div 4096 \<and> L = (en - 1) div 4096 \<and> st < en \<and> en \<le> sw * 4096"

definition tail_ok :: "nat \<Rightarrow> nat \<Rightarrow> u32 \<Rightarrow> bool" where
  "tail_ok L en t \<longleftrightarrow> t = 0 \<or> en div 4096 = L \<and> en mod 4096 + 4 * unat t \<le> 4096"

definition kept :: "nat \<Rightarrow> nat \<Rightarrow> u32 \<Rightarrow> nat set" where
  "kept st en t = {..<st} \<union> {en..<en + 4 * unat t}"

lemma ps_jobD:
  assumes "ps_job env s0 sw P L st en"
  shows "unat (PSTORAGE_SWAP_ADDR env) = sw * 4096" "sw < 2 ^ 20" "L < sw" "P \<le> L" "P = st div 4096" "L = (en - 1) div 4096" "st < en"
    "last_page_of_cmd s0 = of_nat L"
    "unat (block_id (storage_addr (p_cmd s0)) + ucast (cmd_size (p_cmd s0)) + ucast (cmd_offset (p_cmd s0))) = en"
proof -
  from assms have *: "st < en" "en \<le> sw * 4096" "sw * 4096 + 4096 \<le> 2 ^ 32" "L = (en - 1) div 4096" "P = st div 4096"
    by (simp_all add: ps_job_def)
  then show "sw < 2 ^ 20" "L < sw" "P \<le> L" by (auto simp: less_mult_imp_div_less intro: div_le_mono)
qed (use assms in \<open>simp_all add: ps_job_def\<close>)

lemma page_words:
  assumes "c < 2 ^ 20"
  shows "unat (of_nat c :: u32) = c" "unat (of_nat c * 4096 :: u32) = c * 4096"
proof -
  show u: "unat (of_nat c :: u32) = c" using assms by (simp add: unat_of_nat take_bit_nat_eq_self)
  have "unat (of_nat (c * 4096) :: u32) = c * 4096" using assms by (simp add: unat_of_nat take_bit_nat_eq_self del: of_nat_mult)
  then show "unat (of_nat c * 4096 :: u32) = c * 4096" by simp
qed

lemma page_word_less: "c < 2 ^ 20 \<Longrightarrow> d < 2 ^ 20 \<Longrightarrow> (of_nat c :: u32) < of_nat d \<longleftrightarrow> c < d"
  by (simp add: word_less_nat_alt page_words)

lemma page_word_eq: "c < 2 ^ 20 \<Longrightarrow> d < 2 ^ 20 \<Longrightarrow> (of_nat c :: u32) = of_nat d \<longleftrightarrow> c = d"
  by (metis page_words(1))

lemma swap_saves:
  assumes "ps_quiet env obs" "ps_job env s0 sw P L st en" "c \<le> L" "cleared sw P c K m0 m"
    and "in_swap env obs s0 N one STATE_ERASE_SWAP (of_nat c) h t dn m w"
  shows "\<exists>w' m'. ps_reaches env obs w w' \<and> in_swap env obs s0 N one STATE_ERASE_DATA_PAGE (of_nat c) h t (dn \<or> one) m' w' \<and>
    cleared sw P c K m0 m' \<and> swapped sw c m0 m'"
proof -
  note j = ps_jobD [OF assms(2)]
  have c: "c < 2 ^ 20" "c \<noteq> sw" using j assms(3) by linarith+
  note e = step_erase_swap [OF assms(1,5)]
  note f = step_write_swap [OF assms(1) e]
  from save_page [OF assms(4) j(1) page_words(2) [OF c(1)] c(2) refl refl] f
  show ?thesis
    by (intro exI [of _ "ps_success env obs (ps_success env obs w)"] exI conjI)
      (auto simp: swap_op.simps intro: ps_reaches_step ps_reaches_refl)
qed

lemma tail_restored:
  assumes "ps_job env s0 sw P L st en" "tail_ok L en t" "t \<noteq> 0" "cleared sw P (L + 1) {..<st} m0 m" "swapped sw L m0 m"
    and "in_swap env obs s0 N one STATE_RESTORE_TAIL k h t dn m w"
  shows "\<exists>m'. erased_exit env obs s0 N m' (ps_success env obs w) \<and> cleared sw P (L + 1) (kept st en t) m0 m'"
proof -
  note j = ps_jobD [OF assms(1)]
  let ?d = "block_id (storage_addr (p_cmd s0)) + ucast (cmd_size (p_cmd s0)) + ucast (cmd_offset (p_cmd s0))"
  have t: "unat ?d div 4096 = L" "unat ?d mod 4096 + 4 * unat t \<le> 4096" using assms(2,3) j(9) by (simp_all add: tail_ok_def)
  have m: "unat (?d mod 4096) = unat ?d mod 4096" by (simp add: unat_mod)
  have p: "unat (PSTORAGE_SWAP_ADDR env + ?d mod 4096) = sw * 4096 + unat ?d mod 4096"
  proof -
    have "unat (?d mod 4096) < 4096" unfolding m by simp
    then have "unat (PSTORAGE_SWAP_ADDR env) + unat (?d mod 4096) < 2 ^ 32" using assms(1) unfolding ps_job_def by linarith
    then have "unat (PSTORAGE_SWAP_ADDR env + ?d mod 4096) = unat (PSTORAGE_SWAP_ADDR env) + unat (?d mod 4096)"
      by (simp add: unat_word_ariths(1))
    then show ?thesis using j(1) m by linarith
  qed
  have K: "\<forall>a \<in> {..<st}. \<not> (unat ?d \<le> a \<and> a < unat ?d + 4 * unat t)" using j(7,9) by auto
  have L: "L < L + 1" "L \<noteq> sw" using j(3) by simp_all
  from restore_words [OF assms(4,5) j(4) L t(1) p t(2) K] step_restore_tail [OF assms(6)]
  show ?thesis unfolding swap_op.simps Let_def j(9) kept_def by blast
qed

lemma ps_reaches_trans: "ps_reaches env obs w w' \<Longrightarrow> ps_reaches env obs w' w'' \<Longrightarrow> ps_reaches env obs w w''"
  unfolding ps_reaches_def by (metis funpow_add comp_apply)

lemma kept_0 [simp]: "kept st en 0 = {..<st}"
  by (simp add: kept_def)

lemma below_page: "st \<le> c * 4096 \<Longrightarrow> \<forall>a \<in> {..<st}. a div 4096 \<noteq> (c :: nat)"
  by (auto simp: div_le_dividend)

text \<open>The command is erased, and what it shares its pages with is as before.\<close>

definition area_erased :: "'e ps_env \<Rightarrow> ('e \<Rightarrow> ps_out list) \<Rightarrow> ps_state \<Rightarrow> ps_out list \<Rightarrow> nat \<Rightarrow> nat \<Rightarrow> nat \<Rightarrow> nat set \<Rightarrow> mem \<Rightarrow>
    'e ps_world \<Rightarrow> bool" where
  "area_erased env obs s0 N sw P L K m0 w \<longleftrightarrow>
     (\<exists>w' m'. ps_reaches env obs w w' \<and> erased_exit env obs s0 N m' w' \<and> cleared sw P (L + 1) K m0 m')"

lemma area_erased_step: "area_erased env obs s0 N sw P L K m0 (ps_success env obs w) \<Longrightarrow> area_erased env obs s0 N sw P L K m0 w"
  unfolding area_erased_def using ps_reaches_step by blast

lemma area_erased_reaches:
  "ps_reaches env obs w w' \<Longrightarrow> area_erased env obs s0 N sw P L K m0 w' \<Longrightarrow> area_erased env obs s0 N sw P L K m0 w"
  unfolding area_erased_def using ps_reaches_trans by blast

lemma area_erased_now:
  "erased_exit env obs s0 N m w \<Longrightarrow> cleared sw P (L + 1) K m0 m \<Longrightarrow> area_erased env obs s0 N sw P L K m0 w"
  unfolding area_erased_def using ps_reaches_refl by blast

lemma erase_loop:
  assumes "ps_quiet env obs" "ps_job env s0 sw P L st en" "tail_ok L en t"
    and "c \<le> L" "P \<le> c" "st \<le> c * 4096" "cleared sw P c {..<st} m0 m"
    and "c < L \<Longrightarrow> t \<noteq> 0 \<Longrightarrow> \<not> dn" "c = L \<Longrightarrow> t \<noteq> 0 \<Longrightarrow> dn \<and> swapped sw L m0 m"
    and "in_swap env obs s0 N one STATE_ERASE_DATA_PAGE (of_nat c) 0 t dn m w"
  shows "area_erased env obs s0 N sw P L (kept st en t) m0 w"
  using assms(4-)
proof (induction "L - c" arbitrary: c dn m w rule: less_induct)
  case less
  note j = ps_jobD [OF assms(2)]
  let ?w = "ps_success env obs w" and ?m = "flash_exec (Erase (of_nat c)) m"
  have b: "c < 2 ^ 20" "c + 1 < 2 ^ 20" "L < 2 ^ 20" "c \<noteq> sw" using j less.prems(1) by linarith+
  have k: "(of_nat c + 1 :: u32) = of_nat (c + 1)" by simp
  note w = page_words [OF b(1)] and ws = page_word_less [OF b(2,3)] page_word_eq [OF b(2,3)]
  have K: "\<forall>a \<in> {..<st}. a div 4096 \<noteq> c" using below_page less.prems(3) by blast
  have m: "cleared sw P (c + 1) {..<st} m0 ?m" by (rule erase_cleared [OF less.prems(4) w(1) less.prems(2) K])
  have sws: "swapped sw L m0 m \<Longrightarrow> swapped sw L m0 ?m" using erase_swapped w(1) b(4) by simp
  note step = step_erase_page [OF assms(1) less.prems(7) refl refl refl, unfolded j(8) k ws]
  have st: "st \<le> (c + 1) * 4096" using less.prems(3) by auto
  show ?case
  proof (cases "c + 1 < L \<or> c + 1 = L \<and> t = 0")
    case True
    then have i: "in_swap env obs s0 N one STATE_ERASE_DATA_PAGE (of_nat (c + 1)) 0 t dn ?m ?w" using step by simp
    have l: "L - (c + 1) < L - c" "c + 1 \<le> L" "P \<le> c + 1" using True less.prems(1,2) by auto
    have dn: "t \<noteq> 0 \<Longrightarrow> \<not> dn" using True less.prems(5) by auto
    have "area_erased env obs s0 N sw P L (kept st en t) m0 ?w"
      by (rule less.hyps [OF l st m _ _ i]) (use True dn in auto)
    then show ?thesis by (rule area_erased_step)
  next
    case n: False
    show ?thesis
    proof (cases "t = 0")
      case True
      then have "c = L" using n less.prems(1) by auto
      then have "erased_exit env obs s0 N ?m ?w" "cleared sw P (L + 1) (kept st en t) m0 ?m" using step n True m by auto
      then show ?thesis by (rule area_erased_step [OF area_erased_now])
    next
      case t: False
      show ?thesis
      proof (cases "c = L")
        case True
        then have dn: "dn" "swapped sw L m0 ?m" using less.prems(6) t sws by auto
        then have "in_swap env obs s0 N one STATE_RESTORE_TAIL (of_nat (c + 1)) 0 t True ?m ?w" using step n t by simp
        from tail_restored [OF assms(2,3) t _ dn(2) this] m True
        have "area_erased env obs s0 N sw P L (kept st en t) m0 (ps_success env obs ?w)" using area_erased_now by blast
        then show ?thesis using area_erased_step by blast
      next
        case False
        then have c: "c + 1 = L" "\<not> dn" using n less.prems(1,5) t by auto
        then have "in_swap env obs s0 N one STATE_ERASE_SWAP (of_nat (c + 1)) 0 t True ?m ?w" using step n t by simp
        from swap_saves [OF assms(1,2) _ m this] c obtain w' m' where s: "ps_reaches env obs ?w w'"
          "in_swap env obs s0 N one STATE_ERASE_DATA_PAGE (of_nat (c + 1)) 0 t True m' w'" "cleared sw P (c + 1) {..<st} m0 m'"
          "swapped sw (c + 1) m0 m'" by auto
        have l: "L - (c + 1) < L - c" "c + 1 \<le> L" "P \<le> c + 1" using c less.prems(2) by auto
        have "area_erased env obs s0 N sw P L (kept st en t) m0 w'"
          by (rule less.hyps [OF l st s(3) _ _ s(2)]) (use c s(4) in auto)
        then show ?thesis by (rule area_erased_step [OF area_erased_reaches [OF s(1)]])
      qed
    qed
  qed
qed

lemma cleared_cong:
  assumes "cleared sw P c K m0 m" "\<And>a. P \<le> a div 4096 \<Longrightarrow> a \<in> K \<longleftrightarrow> a \<in> K'"
  shows "cleared sw P c K' m0 m"
  unfolding cleared_def
proof (intro allI impI)
  fix a assume "a div 4096 \<noteq> sw"
  from clearedD [OF assms(1) this] assms(2) [of a]
  show "m a = (if P \<le> a div 4096 \<and> a div 4096 < c \<and> a \<notin> K' then 0xFF else m0 a)"
    by (cases "P \<le> a div 4096") simp_all
qed

lemma cleared_start: "cleared sw P P K m m"
  by (simp add: cleared_def)

text \<open>The first page with a head: it is saved, erased, and the head restored.\<close>

lemma head_restored:
  assumes "ps_job env s0 sw P L st en" "4 * unat h = st mod 4096" "h \<noteq> 0" "cleared sw P (P + 1) {} m0 m" "swapped sw P m0 m"
    and "m' = flash_exec (swap_op env s0 STATE_RESTORE_HEAD (of_nat (P + 1)) h t) m"
  shows "cleared sw P (P + 1) {..<st} m0 m' \<and> swapped sw P m0 m'"
proof -
  note j = ps_jobD [OF assms(1)]
  have P: "P < 2 ^ 20" "P \<noteq> sw" "P < P + 1" "P \<le> P" using j by linarith+
  let ?d = "of_nat P * 4096 :: u32"
  have u: "unat ?d = P * 4096" by (rule page_words(2) [OF P(1)])
  have d: "unat ?d div 4096 = P" "unat (PSTORAGE_SWAP_ADDR env) = sw * 4096 + unat ?d mod 4096" "unat ?d mod 4096 + 4 * unat h \<le> 4096"
    using assms(2) by (simp_all add: u j(1) order_less_imp_le)
  have m': "m' = flash_exec (Write ?d (PSTORAGE_SWAP_ADDR env) h) m" unfolding assms(6) by (simp add: swap_op.simps)
  have "cleared sw P (P + 1) ({} \<union> {unat ?d ..< unat ?d + 4 * unat h}) m0 m'"
    unfolding m' by (rule restore_words [OF assms(4,5) P(4,3,2) d]) simp
  moreover have "P * 4096 + 4 * unat h = st" using assms(2) j(5) by simp
  moreover have "P \<le> a div 4096 \<Longrightarrow> P * 4096 \<le> a" for a by (meson div_times_less_eq_dividend le_trans mult_le_mono1)
  ultimately have "cleared sw P (P + 1) {..<st} m0 m'" unfolding u by (auto elim!: cleared_cong)
  moreover have "swapped sw P m0 m'" unfolding m' by (rule write_swapped [OF assms(5)]) (use d P in simp_all)
  ultimately show ?thesis by simp
qed

lemma swap_erases:
  assumes "ps_quiet env obs" "ps_job env s0 sw P L st en" "tail_ok L en t" "4 * unat h = st mod 4096"
    and "one \<Longrightarrow> L \<le> P + 1" "one \<Longrightarrow> h = 0 \<Longrightarrow> L = P" "\<not> one \<Longrightarrow> P < L"
    and "if h = 0 \<and> \<not> one then in_swap env obs s0 N one STATE_ERASE_DATA_PAGE (of_nat P) h t False m0 w
      else in_swap env obs s0 N one STATE_ERASE_SWAP (of_nat P) h t False m0 w"
  shows "area_erased env obs s0 N sw P L (kept st en t) m0 w"
proof -
  note j = ps_jobD [OF assms(2)]
  note loop = erase_loop [OF assms(1-3)]
  note save = swap_saves [OF assms(1,2)]
  have stP: "st \<le> P * 4096" if "h = 0" using that assms(4) j(5) by auto
  show ?thesis
  proof (cases "h = 0")
    case h: True
    show ?thesis
    proof (cases one)
      case True
      then have i: "in_swap env obs s0 N one STATE_ERASE_SWAP (of_nat P) h t False m0 w" using assms(8) by simp
      from save [OF j(4) cleared_start i, of "{..<st}"] obtain w' m' where s: "ps_reaches env obs w w'"
        "in_swap env obs s0 N one STATE_ERASE_DATA_PAGE (of_nat P) 0 t True m' w'" "cleared sw P P {..<st} m0 m'" "swapped sw P m0 m'"
        using True h by auto
      have "area_erased env obs s0 N sw P L (kept st en t) m0 w'"
        by (rule loop [OF j(4) le_refl stP [OF h] s(3) _ _ s(2)]) (use assms(6) True h s(4) in auto)
      then show ?thesis by (rule area_erased_reaches [OF s(1)])
    next
      case False
      then have "in_swap env obs s0 N one STATE_ERASE_DATA_PAGE (of_nat P) 0 t False m0 w" using assms(8) h by simp
      then show ?thesis by (rule loop [OF j(4) le_refl stP [OF h] cleared_start, rotated 2]) (use assms(7) False in auto)
    qed
  next
    case h: False
    then have i: "in_swap env obs s0 N one STATE_ERASE_SWAP (of_nat P) h t False m0 w" using assms(8) by simp
    from save [OF j(4) cleared_start i, of "{}"] obtain w1 m1 where s: "ps_reaches env obs w w1"
      "in_swap env obs s0 N one STATE_ERASE_DATA_PAGE (of_nat P) h t one m1 w1" "cleared sw P P {} m0 m1" "swapped sw P m0 m1" by auto
    have b: "P < 2 ^ 20" "P + 1 < 2 ^ 20" "L < 2 ^ 20" "P \<noteq> sw" using j by linarith+
    let ?w2 = "ps_success env obs w1" and ?m2 = "flash_exec (Erase (of_nat P)) m1"
    have k: "(of_nat P + 1 :: u32) = of_nat (P + 1)" by simp
    have "cleared sw P (P + 1) {} m0 ?m2" by (rule erase_cleared [OF s(3) page_words(1) [OF b(1)] le_refl]) simp
    moreover have "swapped sw P m0 ?m2" using erase_swapped [OF s(4)] page_words(1) [OF b(1)] b(4) by simp
    moreover define m3 where "m3 = flash_exec (swap_op env s0 STATE_RESTORE_HEAD (of_nat (P + 1)) h t) ?m2"
    ultimately have m3: "cleared sw P (P + 1) {..<st} m0 m3" "swapped sw P m0 m3"
      using head_restored [OF assms(2,4) h _ _ m3_def] by blast+
    have i2: "in_swap env obs s0 N one STATE_RESTORE_HEAD (of_nat (P + 1)) h t one ?m2 ?w2"
      using step_erase_page [OF assms(1) s(2) refl refl refl] h unfolding k by simp
    note step = step_restore_head [OF assms(1) i2 m3_def refl refl, unfolded j(8) page_word_less [OF b(2,3)] page_word_eq [OF b(2,3)]]
    let ?w3 = "ps_success env obs ?w2"
    have "area_erased env obs s0 N sw P L (kept st en t) m0 ?w3"
    proof (cases "P = L")
      case True
      show ?thesis
      proof (cases "t = 0")
        case t: True
        then have "erased_exit env obs s0 N m3 ?w3" using step True by simp
        then show ?thesis by (rule area_erased_now) (use m3(1) True t in simp)
      next
        case False
        then have "in_swap env obs s0 N one STATE_RESTORE_TAIL (of_nat (P + 1)) h t one m3 ?w3" using step True by simp
        from tail_restored [OF assms(2,3) False _ _ this] m3 True
        have "area_erased env obs s0 N sw P L (kept st en t) m0 (ps_success env obs ?w3)" using area_erased_now by blast
        then show ?thesis by (rule area_erased_step)
      qed
    next
      case n: False
      then have l: "P + 1 \<le> L" "P \<le> P + 1" "st \<le> (P + 1) * 4096" using j(4,5) by auto
      show ?thesis
      proof (cases "t \<noteq> 0 \<and> P + 1 = L")
        case True
        then have "in_swap env obs s0 N one STATE_ERASE_SWAP (of_nat (P + 1)) 0 t True m3 ?w3" using step by simp
        from save [OF l(1) m3(1) this] obtain w4 m4 where s4: "ps_reaches env obs ?w3 w4"
          "in_swap env obs s0 N one STATE_ERASE_DATA_PAGE (of_nat (P + 1)) 0 t True m4 w4" "cleared sw P (P + 1) {..<st} m0 m4"
          "swapped sw (P + 1) m0 m4" by auto
        have "area_erased env obs s0 N sw P L (kept st en t) m0 w4" by (rule loop [OF l s4(3) _ _ s4(2)]) (use True s4(4) in auto)
        then show ?thesis by (rule area_erased_reaches [OF s4(1)])
      next
        case False
        then have "P + 1 < L \<or> P + 1 = L \<and> t = 0" using l(1) by auto
        then have "in_swap env obs s0 N one STATE_ERASE_DATA_PAGE (of_nat (P + 1)) 0 t one m3 ?w3"
          using step unfolding if_not_P [OF False] by (simp only: if_P)
        then show ?thesis by (rule loop [OF l m3(1), rotated 2]) (use False assms(5) in auto)
      qed
    qed
    then show ?thesis by (rule area_erased_reaches [OF s(1) area_erased_step [OF area_erased_step]])
  qed
qed

subsection \<open>The command at the head of the queue\<close>

text \<open>
  What the interface checks, the registration of modules sees to, and what the code takes for granted: that the area starts in
  the first page of its block, and that the data are whole words. \<open>A\<close> is the end of the module's blocks.
\<close>

definition cmd_ok :: "'e ps_env \<Rightarrow> ps_state \<Rightarrow> nat \<Rightarrow> nat \<Rightarrow> nat \<Rightarrow> nat \<Rightarrow> nat \<Rightarrow> bool" where
  "cmd_ok env s0 sw b z off A \<longleftrightarrow>
     (let c = p_cmd s0; t = m_app_table s0 ! unat (module_id (storage_addr c)) in
      unat (PSTORAGE_SWAP_ADDR env) = sw * 4096 \<and> sw * 4096 + 4096 \<le> 2 ^ 32 \<and> module_id (storage_addr c) \<noteq> 3 \<and>
      b = unat (block_id (storage_addr c)) \<and> z = unat (cmd_size c) \<and> off = unat (cmd_offset c) \<and>
      A = unat (base_id t) + unat (block_size t) * unat (block_count t) \<and> A \<le> sw * 4096 \<and> unat (base_id t) mod 4096 = 0 \<and>
      unat (base_id t) \<le> b \<and> sw * 4096 \<le> unat (base_id t) + 8192 \<and>
      A mod 4 = 0 \<and> b mod 4 = 0 \<and> off mod 4 = 0 \<and> z mod 4 = 0 \<and> 0 < z \<and> (off = 0 \<or> z + off \<le> 4096) \<and>
      (b + off) div 4096 = b div 4096 \<and> b + off + z \<le> A)"

lemma unat_sum:
  "unat x + unat y < 2 ^ 32 \<Longrightarrow> unat (x + y) = unat x + unat y" for x y :: u32
  by (simp add: unat_word_ariths(1))

lemma unat_module_end:
  assumes "unat (base :: u32) + unat (n :: u16) * unat (k :: u16) < 2 ^ 32"
  shows "unat (base + ucast n * ucast k) = unat base + unat n * unat k"
proof -
  have "unat (ucast n * ucast k :: u32) = unat n * unat k" using assms by (simp add: unat_word_ariths(2))
  then show ?thesis using assms by (subst unat_sum) simp_all
qed

lemma cmd_okD:
  assumes "cmd_ok env s0 sw b z off A" "c = p_cmd s0" "t = m_app_table s0 ! unat (module_id (storage_addr c))"
  shows "module_id (storage_addr c) \<noteq> 3" "b = unat (block_id (storage_addr c))" "z = unat (cmd_size c)" "off = unat (cmd_offset c)"
    "unat (base_id t + ucast (block_size t) * ucast (block_count t)) = A"
    "unat (block_id (storage_addr c) + ucast (cmd_size c) + ucast (cmd_offset c)) = b + off + z"
    "A \<le> sw * 4096" "sw * 4096 + 4096 \<le> 2 ^ 32" "b + off + z \<le> A" "A mod 4 = 0" "b mod 4 = 0" "off mod 4 = 0" "z mod 4 = 0" "0 < z"
    "off = 0 \<or> z + off \<le> 4096" "(b + off) div 4096 = b div 4096" "A \<le> b div 4096 * 4096 + 8192"
proof -
  from assms have *: "A = unat (base_id t) + unat (block_size t) * unat (block_count t)" "A \<le> sw * 4096" "sw * 4096 + 4096 \<le> 2 ^ 32"
    "b = unat (block_id (storage_addr c))" "z = unat (cmd_size c)" "off = unat (cmd_offset c)" "b + off + z \<le> A"
    "unat (base_id t) mod 4096 = 0" "unat (base_id t) \<le> b" "sw * 4096 \<le> unat (base_id t) + 8192"
    by (simp_all add: cmd_ok_def Let_def)
  show "unat (base_id t + ucast (block_size t) * ucast (block_count t)) = A"
    using *(1-3) by (subst unat_module_end) simp_all
  have "unat (block_id (storage_addr c) + ucast (cmd_size c)) = b + z" using *(2-7) by (subst unat_sum) simp_all
  then show "unat (block_id (storage_addr c) + ucast (cmd_size c) + ucast (cmd_offset c)) = b + off + z"
    using *(2-7) by (subst unat_sum) simp_all
  have "unat (base_id t) div 4096 * 4096 = unat (base_id t)" using *(8) by (metis div_mult_mod_eq add.right_neutral)
  moreover have "unat (base_id t) div 4096 \<le> b div 4096" using *(9) by (rule div_le_mono)
  ultimately have "unat (base_id t) \<le> b div 4096 * 4096" by (metis mult_le_mono1)
  then show "A \<le> b div 4096 * 4096 + 8192" using *(2,10) by linarith
qed (use assms in \<open>auto simp: cmd_ok_def Let_def\<close>)

lemma cmd_ok_job:
  assumes "cmd_ok env s0 sw b z off A"
  shows "ps_job env s0 sw (b div 4096) ((b + off + z - 1) div 4096) (b + off) (b + off + z)"
proof -
  note c = cmd_okD [OF assms refl refl]
  let ?e = "block_id (storage_addr (p_cmd s0)) + ucast (cmd_size (p_cmd s0)) + ucast (cmd_offset (p_cmd s0))"
  have "?e \<noteq> 0" using c(6,14) by auto
  then have "unat (?e - 1) = b + off + z - 1" using c(6) by (simp add: unat_minus_one)
  then have "unat (last_page_of_cmd s0) = (b + off + z - 1) div 4096" by (simp add: last_page_of_cmd_def Let_def unat_div)
  moreover have "(b + off + z - 1) div 4096 < 2 ^ 20" using c(7-9) by (simp add: less_mult_imp_div_less)
  ultimately have "last_page_of_cmd s0 = of_nat ((b + off + z - 1) div 4096)" by (simp only: word_unat_eq_iff page_words(1))
  moreover have "unat (PSTORAGE_SWAP_ADDR env) = sw * 4096" using assms by (simp add: cmd_ok_def Let_def)
  ultimately show ?thesis using c(6-9,14,16) by (simp add: ps_job_def)
qed

text \<open>The words of the tail: they reach to the end of the module's blocks, or to that of the page.\<close>

definition tail_words :: "u32 \<Rightarrow> u32 \<Rightarrow> u32" where
  "tail_words cmd_end end_of_storage =
     (if cmd_end \<noteq> end_of_storage \<and> cmd_end mod 4096 \<noteq> 0
      then m_tail_word_size (tail_word_size_calculate (ucast cmd_end) (ucast end_of_storage) undefined) else 0)"

lemma unat_ucast_16: "unat (ucast (x :: u32) :: u16) = unat x mod 65536"
  by (simp add: unsigned_ucast_eq take_bit_eq_mod)

lemma near_mod_16: "q \<le> n \<Longrightarrow> n \<le> q + 2 \<Longrightarrow> q mod 16 = n mod 16 \<longleftrightarrow> q = n" for q n :: nat
proof -
  assume "q \<le> n" "n \<le> q + 2"
  then consider "n = q" | "n = Suc q" | "n = Suc (Suc q)" by linarith
  then show ?thesis by cases (auto simp: mod_Suc split: if_splits)
qed

lemma four_div: "n mod 4 = 0 \<Longrightarrow> 4 * (n div 4) = n" for n :: nat
  by auto

lemma mod_diff_4: "n mod 4 = 0 \<Longrightarrow> k mod 4 = 0 \<Longrightarrow> (n - k) mod 4 = 0" for n k :: nat
  by (simp add: mod_eq_0_iff_dvd dvd_diff_nat)

lemma tail_words_nat:
  assumes "en = unat x" "A = unat y" "en \<le> A" "A \<le> en + 8192" "en mod 4 = 0" "A mod 4 = 0" "0 < en" "L = (en - 1) div 4096" "t = tail_words x y"
  shows "tail_ok L en t \<and> (\<forall>a. en \<le> a \<longrightarrow> a < A \<longrightarrow> a div 4096 \<le> L \<longrightarrow> a < en + 4 * unat t)"
proof (cases "en = A \<or> en mod 4096 = 0")
  case True
  then have "x = y \<or> x mod 4096 = 0" using assms(1,2) by (auto simp: word_unat_eq_iff unat_mod)
  then have "t = 0" using assms(9) by (auto simp: tail_words_def)
  moreover have "\<not> a div 4096 \<le> L" if "en \<le> a" "en mod 4096 = 0" for a
  proof -
    have "en = en div 4096 * 4096" using that(2) by auto
    then have "L < en div 4096" using assms(7,8) by (metis diff_less less_mult_imp_div_less zero_less_one)
    then show ?thesis using div_le_mono [OF that(1), of 4096] by linarith
  qed
  ultimately show ?thesis using True by (auto simp: tail_ok_def)
next
  case False
  then have n: "x \<noteq> y" "x mod 4096 \<noteq> 0" using assms(1,2) by (auto simp: word_unat_eq_iff unat_mod)
  let ?x = "ucast x :: u16" and ?y = "ucast y :: u16"
  have u: "unat ?x = en mod 65536" "unat ?y = A mod 65536" by (simp_all add: unat_ucast_16 assms(1,2))
  obtain q r where q: "en = q * 4096 + r" "0 < r" "r < 4096"
    using False by (metis div_mult_mod_eq gr0I mod_less_divisor zero_less_numeral)
  have dq: "en div 4096 = q" "en mod 4096 = r" using q by simp_all
  have "en - 1 = q * 4096 + (r - 1)" using q by simp
  then have L: "L = q" using q assms(8) by simp
  have pg: "unat (v div 4096 :: u16) = k div 4096 mod 16" if "unat v = k mod 65536" for v k
  proof -
    have "k mod 65536 div 4096 = k div 4096 mod 16" using mod_mult2_eq [of k 4096 16] by simp
    then show ?thesis using that by (simp add: unat_div)
  qed
  have px: "unat (?x div 4096) = q mod 16" and py: "unat (?y div 4096) = A div 4096 mod 16" using pg [OF u(1)] pg [OF u(2)] dq by simp_all
  have A: "q \<le> A div 4096" "A div 4096 \<le> q + 2" using div_le_mono [OF assms(3), of 4096] div_le_mono [OF assms(4), of 4096] dq by simp_all
  have near: "q mod 16 = A div 4096 mod 16 \<longleftrightarrow> q = A div 4096" using A by (rule near_mod_16)
  have "en = r + q * 1024 * 4" using q(1) by simp
  then have r4: "r mod 4 = 0" using assms(5) by (metis mod_mult_self1)
  show ?thesis
  proof (cases "q = A div 4096")
    case True
    then have "?y div 4096 = ?x div 4096" using px py near by (simp add: word_unat_eq_iff)
    then have t: "t = (ucast ?y - ucast ?x) div 4" using n assms(9) by (simp add: tail_words_def tail_word_size_calculate_def Let_def)
    have m: "en mod 65536 = q mod 16 * 4096 + r" "A mod 65536 = q mod 16 * 4096 + A mod 4096"
      using mod_mult2_eq [of en 4096 16] mod_mult2_eq [of A 4096 16] dq True by simp_all
    have Aq: "A = q * 4096 + A mod 4096" using True by simp
    then have d: "A mod 65536 - en mod 65536 = A - en" "en mod 65536 \<le> A mod 65536" using m q(1) assms(3) by linarith+
    have "unat (ucast ?y - ucast ?x :: u32) = A - en" using u d by (simp add: unat_sub word_le_nat_alt)
    then have "unat t = (A - en) div 4" unfolding t by (simp add: unat_div)
    then have ft: "4 * unat t = A - en" using assms(5,6) by (simp add: four_div mod_diff_4)
    then show ?thesis using dq L Aq q(1) assms(3) mod_less_divisor [of 4096 A] by (auto simp: tail_ok_def)
  next
    case False
    then have "?y div 4096 \<noteq> ?x div 4096" using px py near by (metis)
    then have t: "t = (4096 - ucast ?x mod 4096) div 4" using n assms(9) by (simp add: tail_words_def tail_word_size_calculate_def Let_def)
    have "unat (ucast ?x mod 4096 :: u32) = r" using u(1) dq(2) mod_mod_cancel [of 4096 65536 en] by (simp add: unat_mod)
    then have "unat (4096 - ucast ?x mod 4096 :: u32) = 4096 - r" using q(3) by (simp add: unat_sub word_le_nat_alt)
    then have "unat t = (4096 - r) div 4" unfolding t by (simp add: unat_div)
    then have ft: "4 * unat t = 4096 - r" using r4 by (simp add: four_div mod_diff_4)
    have "a < en + 4 * unat t" if "a div 4096 \<le> L" for a
    proof -
      have "a < (q + 1) * 4096" using that L by (metis Suc_eq_plus1 le_imp_less_Suc div_less_iff_less_mult zero_less_numeral)
      then show ?thesis using ft q(1,3) by simp
    qed
    then show ?thesis using dq L ft q(3) by (simp add: tail_ok_def)
  qed
qed

end
