(* ===== verification/PstorageThms.thy ===== *)
theory PstorageThms
  imports PstorageExec
begin

text \<open>
  The properties of the older flash storage: what clearing, updating and storing make of the memory, from the call to the callback.
\<close>

unbundle bit_operations_syntax

subsection \<open>Erasing whole pages\<close>

definition in_erase :: "('e \<Rightarrow> ps_out list) \<Rightarrow> ps_state \<Rightarrow> ps_out list \<Rightarrow> u32 \<Rightarrow> mem \<Rightarrow> 'e ps_world \<Rightarrow> bool" where
  "in_erase obs s0 N k m w \<longleftrightarrow> same_job s0 (fst w) \<and> m_state (fst w) = STATE_DATA_ERASE \<and> m_current_page_id (fst w) = k \<and>
     m_tail_word_size (fst w) = 0 \<and> issued obs N (Erase k) m w"

lemma enter_erase:
  assumes "ps_quiet env obs" "same_job s0 s" "m_current_page_id s = k" "m_tail_word_size s = 0" "ntfs (obs e) = N" "x = STATE_DATA_ERASE"
  shows "in_erase obs s0 N k m (sm_enter env x (s, m, e))" "in_erase obs s0 N k m (sm_state_change env x (s, m, e))"
  using issued_erase [OF assms(1), of "(s\<lparr>m_state := STATE_DATA_ERASE\<rparr>, m, e)" m N k] assms(2-6)
  by (simp_all add: in_erase_def sm_enter_def sm_state_change_def state_entry_action_run_def)

lemma step_erase:
  assumes "ps_quiet env obs" "in_erase obs s0 N k m w" "lp = last_page_of_cmd s0" "m' = flash_exec (Erase k) m" "w' = ps_success env obs w"
  shows "if k + 1 \<le> lp then in_erase obs s0 N (k + 1) m' w' else erased_exit env obs s0 N m' w'"
proof -
  obtain s m1 e where w: "w = (s, m1, e)" by (cases w)
  let ?s = "s\<lparr>m_current_page_id := k + 1\<rparr>"
  from assms(2) have s: "same_job s0 s" "m_state s = STATE_DATA_ERASE" "m_current_page_id s = k" "m_tail_word_size s = 0" "m1 = m"
    "last (obs e) = Flash (Erase k)" "ntfs (obs e) = N"
    by (simp_all add: w in_erase_def issued_def)
  have b: "\<not> ps_flag s 8" using s(1) by (simp add: same_job_def)
  have w': "w' = (if \<not> is_page_erase_required ?s then clear_post_processing_run env (?s, m', e)
      else sm_state_change env STATE_DATA_ERASE (?s, m', e))"
    using s b assms(4,5) by (simp add: w ps_success_def pstorage_sys_event_handler_def flash_operation_success_run_def
        erase_sub_state_sm_run_def Let_def)
  have r: "is_page_erase_required ?s \<longleftrightarrow> k + 1 \<le> lp"
    using same_job_last [of s0 ?s] s(1,4) assms(3) by (auto simp: is_page_erase_required_def)
  have "in_erase obs s0 N (k + 1) m' (sm_state_change env STATE_DATA_ERASE (?s, m', e))"
    by (rule enter_erase(2) [OF assms(1)]) (use s in simp_all)
  moreover have "erased_exit env obs s0 N m' (clear_post_processing_run env (?s, m', e))"
    unfolding erased_exit_def using s(1,7) by (intro exI [of _ ?s] exI [of _ e]) simp
  ultimately show ?thesis unfolding w' r by simp
qed

lemma pages_erased:
  assumes "ps_quiet env obs" "ps_job env s0 sw P L st en" "c \<le> L" "P \<le> c" "st \<le> c * 4096" "cleared sw P c {..<st} m0 m"
    and "in_erase obs s0 N (of_nat c) m w"
  shows "area_erased env obs s0 N sw P L {..<st} m0 w"
  using assms(3-)
proof (induction "L - c" arbitrary: c m w rule: less_induct)
  case less
  note j = ps_jobD [OF assms(2)]
  let ?w = "ps_success env obs w" and ?m = "flash_exec (Erase (of_nat c)) m"
  have b: "c < 2 ^ 20" "c + 1 < 2 ^ 20" "L < 2 ^ 20" using j less.prems(1) by linarith+
  have k: "(of_nat c + 1 :: u32) = of_nat (c + 1)" by simp
  have le: "(of_nat (c + 1) :: u32) \<le> of_nat L \<longleftrightarrow> c + 1 \<le> L"
    by (simp only: word_le_nat_alt page_words(1) [OF b(2)] page_words(1) [OF b(3)])
  have m: "cleared sw P (c + 1) {..<st} m0 ?m"
    by (rule erase_cleared [OF less.prems(4) page_words(1) [OF b(1)] less.prems(2) below_page [OF less.prems(3)]])
  note step = step_erase [OF assms(1) less.prems(5) refl refl refl, unfolded j(8) k le]
  have "area_erased env obs s0 N sw P L {..<st} m0 ?w"
  proof (cases "c + 1 \<le> L")
    case True
    show ?thesis by (rule less.hyps [OF _ True _ _ m]) (use step True less.prems(1-3) in auto)
  next
    case False
    then have "c = L" using less.prems(1) by simp
    then show ?thesis using step m False by (intro area_erased_now [where m = ?m]) auto
  qed
  then show ?case by (rule area_erased_step)
qed

subsection \<open>The erasure of a command\<close>

lemma tail_words_update:
  "(if x \<noteq> y \<and> x mod 4096 \<noteq> 0 then tail_word_size_calculate (ucast x) (ucast y) s else s) =
     s\<lparr>m_tail_word_size := if x \<noteq> y \<and> x mod 4096 \<noteq> 0 then tail_words x y else m_tail_word_size s\<rparr>"
  by (simp add: tail_words_def tail_word_size_calculate_def Let_def)

lemma swap_entry:
  assumes "ps_quiet env obs" "same_job s0 s" "ntfs (obs e) = N" "m_head_word_size s = h" "m_tail_word_size s = t"
    and "b = block_id (storage_addr (p_cmd s0))" "one \<longleftrightarrow> b div 4096 = (b + ucast (cmd_size (p_cmd s0)) - 1) div 4096"
  shows "in_swap env obs s0 N one (if h = 0 \<and> \<not> one then STATE_ERASE_DATA_PAGE else STATE_ERASE_SWAP) (b div 4096) h t False m
    (sm_enter env STATE_DATA_ERASE_WITH_SWAP (s, m, e))"
proof -
  have cmd: "p_cmd s = p_cmd s0" by (rule same_job_cmd [OF assms(2)])
  define s1 where "s1 = (ps_clear 1 (s\<lparr>m_state := STATE_DATA_ERASE_WITH_SWAP\<rparr>))\<lparr>m_current_page_id := b div 4096\<rparr>"
  define s2 where "s2 = (if one then ps_set 2 s1 else ps_clear 2 s1)"
  have v: "swap_vars s0 one (b div 4096) h t False (fst (s2, m, e))"
    using assms(2,4,5) by (simp add: swap_vars_def s2_def s1_def)
  have h2: "m_head_word_size s2 = h" "ps_flag s2 2 = one" using v by (simp_all add: swap_vars_def)
  have "sm_enter env STATE_DATA_ERASE_WITH_SWAP (s, m, e) =
      (if m_head_word_size s2 = 0 \<and> \<not> ps_flag s2 2 then swap_sub_state_state_change env STATE_ERASE_DATA_PAGE (s2, m, e)
       else swap_sub_state_state_change env STATE_ERASE_SWAP (s2, m, e))"
    unfolding sm_enter_def state_busy_entry_run.simps state_data_erase_swap_entry_run_def s2_def s1_def assms(7) assms(6)
    by (simp only: Let_def cmd fst_conv snd_conv p_cmd_update)
  then have "sm_enter env STATE_DATA_ERASE_WITH_SWAP (s, m, e) =
      swap_sub_state_state_change env (if h = 0 \<and> \<not> one then STATE_ERASE_DATA_PAGE else STATE_ERASE_SWAP) (s2, m, e)"
    unfolding h2 by simp
  then show ?thesis using enter_swap [OF assms(1) v] assms(3) by simp
qed

lemma swap_entered:
  assumes "ps_quiet env obs" "cmd_ok env s0 sw b z off A" "same_job s0 s" "ntfs (obs e) = N" "m_head_word_size s = h" "m_tail_word_size s = t"
    and "one \<longleftrightarrow> b div 4096 = (b + z - 1) div 4096"
  shows "in_swap env obs s0 N one (if h = 0 \<and> \<not> one then STATE_ERASE_DATA_PAGE else STATE_ERASE_SWAP) (of_nat (b div 4096)) h t False m
    (sm_enter env STATE_DATA_ERASE_WITH_SWAP (s, m, e))"
proof -
  note c = cmd_okD [OF assms(2) refl refl]
  let ?b = "block_id (storage_addr (p_cmd s0))" and ?z = "ucast (cmd_size (p_cmd s0)) :: u32"
  have P: "b div 4096 < 2 ^ 20" using c(7-9) by (simp add: less_mult_imp_div_less)
  then have k: "?b div 4096 = of_nat (b div 4096)" by (simp only: word_unat_eq_iff page_words(1) unat_div c(2)) simp
  have bz: "unat (?b + ?z) = b + z" using c(2,3,7-9) by (subst unat_sum) simp_all
  then have "?b + ?z \<noteq> 0" using c(14) by auto
  then have "unat (?b + ?z - 1) = b + z - 1" using bz by (simp add: unat_minus_one)
  then have "one \<longleftrightarrow> ?b div 4096 = (?b + ?z - 1) div 4096" using assms(7) c(2) by (simp add: word_unat_eq_iff unat_div)
  from swap_entry [OF assms(1,3-6) refl this] show ?thesis unfolding k .
qed

text \<open>The command's area is not whole pages to erase.\<close>

definition needs_swap :: "ps_state \<Rightarrow> bool" where
  "needs_swap s \<longleftrightarrow>
     (let c = p_cmd s; b = block_id (storage_addr c); t = m_app_table s ! unat (module_id (storage_addr c))
      in \<not> (b mod 4096 = 0 \<and> ucast (cmd_size c) = (4096 :: u32) \<or>
            b mod 4096 = 0 \<and> b + ucast (cmd_size c) + ucast (cmd_offset c) = base_id t + ucast (block_size t) * ucast (block_count t) \<and> cmd_offset c = 0 \<or>
            module_id (storage_addr c) = 3))"

lemma clear_with_swap:
  assumes "needs_swap s" "c = p_cmd s" "t = m_app_table s ! unat (module_id (storage_addr c))" "b = block_id (storage_addr c)"
  shows "clear_operation_execute env (s, m, e) = sm_enter env STATE_DATA_ERASE_WITH_SWAP
    (s\<lparr>m_tail_word_size := tail_words (b + ucast (cmd_size c) + ucast (cmd_offset c)) (base_id t + ucast (block_size t) * ucast (block_count t)),
       m_head_word_size := (b + ucast (cmd_offset c)) mod 4096 div 4\<rparr>, m, e)"
proof -
  let ?x = "b + ucast (cmd_size c) + ucast (cmd_offset c)" and ?y = "base_id t + ucast (block_size t) * ucast (block_count t)"
  let ?h = "(b + ucast (cmd_offset c)) mod 4096 div 4"
  note w = assms(1) [unfolded needs_swap_def Let_def, folded assms(2), folded assms(3,4)]
  have "clear_operation_execute env (s, m, e) = sm_enter env STATE_DATA_ERASE_WITH_SWAP
      (if ?x \<noteq> ?y \<and> \<not> ?x mod 4096 = 0 then tail_word_size_calculate (ucast ?x) (ucast ?y) (s\<lparr>m_tail_word_size := 0, m_head_word_size := ?h\<rparr>)
       else s\<lparr>m_tail_word_size := 0, m_head_word_size := ?h\<rparr>, m, e)"
    unfolding clear_operation_execute_def Let_def fst_conv snd_conv assms(2) [symmetric] assms(3) [symmetric] assms(4) [symmetric] if_not_P [OF w]
    by (rule refl)
  moreover have "s\<lparr>m_tail_word_size := 0, m_head_word_size := ?h, m_tail_word_size := v\<rparr> = s\<lparr>m_tail_word_size := v, m_head_word_size := ?h\<rparr>" for v
    by (cases s) simp
  moreover have "tail_words ?x ?y = (if ?x \<noteq> ?y \<and> \<not> ?x mod 4096 = 0 then tail_words ?x ?y else
      m_tail_word_size (s\<lparr>m_tail_word_size := 0, m_head_word_size := ?h\<rparr>))" by (simp add: tail_words_def)
  ultimately show ?thesis unfolding tail_words_update by simp
qed

definition erased_but :: "nat \<Rightarrow> nat \<Rightarrow> nat \<Rightarrow> nat \<Rightarrow> nat \<Rightarrow> nat set \<Rightarrow> bool" where
  "erased_but P L st en A K \<longleftrightarrow>
     (\<forall>a < A. P \<le> a div 4096 \<longrightarrow> a div 4096 \<le> L \<longrightarrow> (a \<in> K \<longleftrightarrow> a < st \<or> en \<le> a))"

lemma command_erases:
  assumes "ps_quiet env obs" "cmd_ok env s0 sw b z off A" "same_job s0 s" "ntfs (obs e) = N"
    and "P = b div 4096" "L = (b + off + z - 1) div 4096" "st = b + off" "en = b + off + z"
  shows "\<exists>K. area_erased env obs s0 N sw P L K m (clear_operation_execute env (s, m, e)) \<and> erased_but P L st en A K"
proof -
  note c = cmd_okD [OF assms(2) refl refl]
  note job = cmd_ok_job [OF assms(2), folded assms(5-8)] and j = ps_jobD [OF cmd_ok_job [OF assms(2)], folded assms(5-8)]
  have Lf: "L = (en - 1) div 4096" using assms(6,8) by simp
  have cmd: "p_cmd s = p_cmd s0" "m_app_table s = m_app_table s0" using same_job_cmd [OF assms(3)] assms(3) by (simp_all add: same_job_def)
  let ?c = "p_cmd s0" and ?t = "m_app_table s0 ! unat (module_id (storage_addr (p_cmd s0)))"
  let ?b = "block_id (storage_addr ?c)"
  let ?x = "?b + ucast (cmd_size ?c) + ucast (cmd_offset ?c)" and ?y = "base_id ?t + ucast (block_size ?t) * ucast (block_count ?t)"
  let ?whole = "?b mod 4096 = 0 \<and> ucast (cmd_size ?c) = (4096 :: u32) \<or> ?b mod 4096 = 0 \<and> ?x = ?y \<and> cmd_offset ?c = 0"
  have P: "b div 4096 < 2 ^ 20" using c(7-9) by (simp add: less_mult_imp_div_less)
  then have k: "?b div 4096 = of_nat P" unfolding assms(5) by (simp only: word_unat_eq_iff page_words(1) unat_div c(2)) simp
  show ?thesis
  proof (cases ?whole)
    case True
    then have al: "b mod 4096 = 0" using c(2) by (auto simp: word_unat_eq_iff unat_mod)
    have zo: "off = 0 \<and> (z = 4096 \<or> en = A)"
    proof (cases "z = 4096")
      case True
      then show ?thesis using c(15) by auto
    next
      case False
      then have "ucast (cmd_size ?c) \<noteq> (4096 :: u32)" using c(3) by (auto simp: word_unat_eq_iff)
      then have "?x = ?y" "cmd_offset ?c = 0" using True by auto
      then show ?thesis using c(4,5,6) assms(8) by auto
    qed
    have st: "st = P * 4096" using al zo assms(5,7) by auto
    have keep: "erased_but P L st en A {..<st}"
      unfolding erased_but_def
    proof (intro allI impI)
      fix a assume a: "a < A" "P \<le> a div 4096" "a div 4096 \<le> L"
      have "\<not> en \<le> a"
      proof
        assume e: "en \<le> a"
        then have "z = 4096" using zo a(1) by auto
        then have "en = (P + 1) * 4096" using st assms(7,8) by simp
        then have "P + 1 \<le> a div 4096" using div_le_mono [OF e, of 4096] by simp
        moreover have "en - 1 = P * 4096 + 4095" using \<open>en = (P + 1) * 4096\<close> by simp
        then have "L = P" using Lf by simp
        ultimately show False using a(3) by simp
      qed
      then show "a \<in> {..<st} \<longleftrightarrow> a < st \<or> en \<le> a" by simp
    qed
    let ?s = "s\<lparr>m_tail_word_size := 0, m_current_page_id := of_nat P\<rparr>"
    have ex: "clear_operation_execute env (s, m, e) = sm_enter env STATE_DATA_ERASE (?s, m, e)"
      using True c(1) k by (simp add: clear_operation_execute_def Let_def cmd)
    have "in_erase obs s0 N (of_nat P) m (sm_enter env STATE_DATA_ERASE (?s, m, e))"
      by (rule enter_erase(1) [OF assms(1)]) (use assms(3,4) in simp_all)
    from pages_erased [OF assms(1) job j(4) le_refl _ cleared_start this] st keep show ?thesis unfolding ex by auto
  next
    case False
    define t where "t = tail_words ?x ?y"
    define h :: u32 where "h = (?b + ucast (cmd_offset ?c)) mod 4096 div 4"
    define one where "one \<longleftrightarrow> b div 4096 = (b + z - 1) div 4096"
    let ?s = "s\<lparr>m_tail_word_size := t, m_head_word_size := h\<rparr>"
    have "unat (?b + ucast (cmd_offset ?c)) = st" using c(2-9) assms(7) by (subst unat_sum) simp_all
    then have "unat h = st mod 4096 div 4" by (simp add: h_def unat_div unat_mod)
    moreover have "st mod 4 = 0" using c(11,12) assms(7) by (metis mod_add_eq mod_0 add.right_neutral)
    then have "st mod 4096 mod 4 = 0" using mod_mod_cancel [of 4 4096 st] by simp
    ultimately have h4: "4 * unat h = st mod 4096" by (simp add: four_div)
    have en4: "en mod 4 = 0" using c(11-13) assms(8) by (metis mod_add_eq mod_0 add.right_neutral)
    have "b div 4096 * 4096 \<le> b" by simp
    then have near: "A \<le> en + 8192" using c(17) assms(8) by linarith
    have tl: "tail_ok L en t \<and> (\<forall>a. en \<le> a \<longrightarrow> a < A \<longrightarrow> a div 4096 \<le> L \<longrightarrow> a < en + 4 * unat t)"
      by (rule tail_words_nat [OF _ _ _ near en4 c(10) _ Lf t_def]) (use c(5,6,9,14) assms(8) in simp_all)
    have "needs_swap s" using False c(1) by (simp add: needs_swap_def Let_def cmd)
    from clear_with_swap [OF this refl refl refl]
    have ex: "clear_operation_execute env (s, m, e) = sm_enter env STATE_DATA_ERASE_WITH_SWAP (?s, m, e)"
      by (simp add: cmd t_def h_def)
    have i: "in_swap env obs s0 N one (if h = 0 \<and> \<not> one then STATE_ERASE_DATA_PAGE else STATE_ERASE_SWAP) (of_nat P) h t False m
        (sm_enter env STATE_DATA_ERASE_WITH_SWAP (?s, m, e))"
      unfolding assms(5) by (rule swap_entered [OF assms(1,2)]) (use assms(3,4) one_def in simp_all)
    have "area_erased env obs s0 N sw P L (kept st en t) m (sm_enter env STATE_DATA_ERASE_WITH_SWAP (?s, m, e))"
    proof (rule swap_erases [OF assms(1) job _ h4])
      show "tail_ok L en t" using tl by blast
      have e1: "en - 1 = b + z - 1 + off" using c(14) assms(8) by simp
      show "L \<le> P + 1" if one
      proof -
        have "(b + z - 1) div 4096 = P" using that one_def assms(5) by simp
        then have "b + z - 1 < (P + 1) * 4096" by (metis Suc_eq_plus1 lessI div_less_iff_less_mult zero_less_numeral)
        moreover have "off \<le> 4096" using c(15) by auto
        ultimately have "en - 1 < (P + 2) * 4096" using e1 by simp
        then show ?thesis using Lf by (simp add: less_mult_imp_div_less order_less_imp_le Suc_le_eq)
      qed
      show "L = P" if one "h = 0"
      proof -
        have "st mod 4096 = 0" using h4 that(2) by simp
        then have "st = P * 4096" using j(5) by auto
        then have "off = 0" using \<open>b div 4096 * 4096 \<le> b\<close> assms(5,7) by simp
        then show ?thesis using that(1) one_def e1 Lf assms(5) by simp
      qed
      show "P < L" if "\<not> one"
      proof -
        have "b div 4096 \<le> (b + z - 1) div 4096" "(b + z - 1) div 4096 \<le> L"
          unfolding Lf e1 using c(14) by (intro div_le_mono; simp)+
        then show ?thesis using that one_def assms(5) by simp
      qed
      show "if h = 0 \<and> \<not> one
          then in_swap env obs s0 N one STATE_ERASE_DATA_PAGE (of_nat P) h t False m (sm_enter env STATE_DATA_ERASE_WITH_SWAP (?s, m, e))
          else in_swap env obs s0 N one STATE_ERASE_SWAP (of_nat P) h t False m (sm_enter env STATE_DATA_ERASE_WITH_SWAP (?s, m, e))"
      proof (cases "h = 0 \<and> \<not> one")
        case True
        show ?thesis using i unfolding if_P [OF True] .
      next
        case False
        show ?thesis using i unfolding if_not_P [OF False] .
      qed
    qed
    moreover have "erased_but P L st en A (kept st en t)" using tl j(7) by (auto simp: erased_but_def kept_def)
    ultimately show ?thesis unfolding ex by blast
  qed
qed

subsection \<open>The end of a command\<close>

definition ps_ready :: "ps_state \<Rightarrow> bool" where
  "ps_ready s \<longleftrightarrow> m_state s = STATE_IDLE \<and> queue_count s = 0 \<and> unat (queue_rp s) < 30 \<and> length (queue_cmd s) = 30 \<and> \<not> ps_flag s 8"

text \<open>The only command of the queue is executed: everything of \<open>ps_ready\<close> but the idle state and the empty queue.\<close>

definition ps_single :: "ps_state \<Rightarrow> bool" where
  "ps_single s \<longleftrightarrow> queue_count s = 1 \<and> unat (queue_rp s) < 30 \<and> length (queue_cmd s) = 30 \<and> \<not> ps_flag s 8"

definition notified :: "ps_state \<Rightarrow> ps_out" where
  "notified s = (let c = p_cmd s in Ntf (cb (m_app_table s ! unat (module_id (storage_addr c)))) (storage_addr c) (cmd_op_code c)
     NRF_SUCCESS (p_data_addr c) (m_app_data_size s))"

definition ps_ended :: "('e \<Rightarrow> ps_out list) \<Rightarrow> ps_state \<Rightarrow> ps_out list \<Rightarrow> mem \<Rightarrow> 'e ps_world \<Rightarrow> bool" where
  "ps_ended obs s N m w \<longleftrightarrow> ps_ready (fst w) \<and> m_app_table (fst w) = m_app_table s \<and> ps_flag (fst w) 4 = ps_flag s 4 \<and>
     fst (snd w) = m \<and> ntfs (obs (snd (snd w))) = N"

lemma unat_eq_u8: "unat (x :: u8) < 30 \<Longrightarrow> ucast (x + 1) = (30 :: u32) \<longleftrightarrow> unat x = 29" "unat x < 30 \<Longrightarrow> unat (x + 1) = Suc (unat x)"
proof -
  assume a: "unat x < 30"
  then have "x < 0xFF" by (simp add: word_less_nat_alt)
  then show s: "unat (x + 1) = Suc (unat x)" by (rule unat_Suc_less)
  show "ucast (x + 1) = (30 :: u32) \<longleftrightarrow> unat x = 29" by (simp add: word_unat_eq_iff s)
qed

lemma command_ends:
  assumes "ps_quiet env obs" "ps_single s" "ntfs (obs e) = N"
  shows "ps_ended obs s (N @ [notified s]) m (command_end_procedure_run env (s, m, e))"
proof -
  from ps_quietD(5) [OF assms(1)] obtain e' where e: "app_notify env NRF_SUCCESS (s, m, e) = (s, m, e')" "obs e' = obs e @ [notified s]"
    unfolding app_notify_def notified_def Let_def fst_conv by blast
  have n: "ntfs [notified s] = [notified s]" by (simp add: notified_def Let_def)
  have u: "unat (queue_rp s) < 30" "queue_count s = 1" "length (queue_cmd s) = 30" "\<not> ps_flag s 8" using assms(2) by (simp_all add: ps_single_def)
  define t where "t = (command_queue_element_consume s)\<lparr>m_state := STATE_IDLE, m_num_of_command_retries := 0, m_num_of_bytes_written := 0\<rparr>"
  have t: "queue_count t = 0" "unat (queue_rp t) < 30" "length (queue_cmd t) = 30" "ps_flags t = ps_flags s" "m_app_table t = m_app_table s"
    "m_state t = STATE_IDLE"
    using u unat_eq_u8 [OF u(1)] by (auto simp: t_def command_queue_element_consume_def cmd_queue_element_init_def Let_def)
  have c: "queue_count (command_queue_element_consume s) = 0" using t(1) by (simp add: t_def)
  have "command_end_procedure_run env (s, m, e) = (t, m, e')"
    using e(1) c by (simp add: command_end_procedure_run_def sm_state_change_def state_entry_action_run_def state_idle_entry_run_def
        cmd_queue_dequeue_def t_def)
  then show ?thesis using t e(2) n u(4) assms(3) by (simp add: ps_ended_def ps_ready_def ps_flag_def)
qed

lemma same_job_single: "same_job s0 s \<Longrightarrow> ps_single s0 \<Longrightarrow> ps_single s"
  by (simp add: same_job_def ps_single_def)

lemma same_job_notified: "same_job s0 s \<Longrightarrow> notified s = notified s0"
  by (simp add: notified_def same_job_cmd same_job_def)

lemma ps_ended_cong: "ps_ended obs s N m w \<Longrightarrow> same_job s0 s \<Longrightarrow> ps_ended obs s0 N m w"
  by (simp add: ps_ended_def same_job_def)

text \<open>Clearing: the end follows the erasure at once.\<close>

lemma clear_ends:
  assumes "ps_quiet env obs" "ps_single s0" "cmd_op_code (p_cmd s0) \<noteq> PSTORAGE_UPDATE_OP_CODE" "erased_exit env obs s0 N m w"
  shows "ps_ended obs s0 (N @ [notified s0]) m w"
proof -
  from assms(4) obtain s e where w: "w = clear_post_processing_run env (s, m, e)" and s: "same_job s0 s" "ntfs (obs e) = N"
    unfolding erased_exit_def by blast
  have "w = command_end_procedure_run env (s, m, e)" using assms(3) same_job_cmd [OF s(1)] by (simp add: w clear_post_processing_run_def)
  moreover have "ps_ended obs s (N @ [notified s]) m (command_end_procedure_run env (s, m, e))"
    by (rule command_ends [OF assms(1) same_job_single [OF s(1) assms(2)] s(2)])
  ultimately show ?thesis using ps_ended_cong [OF _ s(1)] same_job_notified [OF s(1)] by simp
qed

text \<open>Storing: one write, and the end.\<close>

lemma store_executes:
  assumes "ps_quiet env obs" "ps_single s0" "same_job s0 s" "ntfs (obs e) = N" "c = p_cmd s0" "cmd_size c \<le> 4096"
    and "m' = flash_exec (Write (block_id (storage_addr c) + ucast (cmd_offset c)) (of_nat (p_data_addr c)) (ucast (cmd_size c) div 4)) m"
  shows "ps_ended obs s0 (N @ [notified s0]) m' (ps_success env obs (sm_enter env STATE_STORE (s, m, e)))"
proof -
  have c: "p_cmd s = c" using same_job_cmd [OF assms(3)] assms(5) by simp
  let ?op = "Write (block_id (storage_addr c) + ucast (cmd_offset c)) (of_nat (p_data_addr c)) (ucast (cmd_size c) div 4)"
  let ?s = "s\<lparr>m_state := STATE_STORE\<rparr>"
  define s1 where "s1 = ?s\<lparr>m_num_of_bytes_written := ucast (cmd_size c)\<rparr>"
  from flash_quiet(1) [OF assms(1)] obtain e1 where e1: "flash_write env (block_id (storage_addr c) + ucast (cmd_offset c))
      (of_nat (p_data_addr c)) (ucast (cmd_size c) div 4) (?s, m, e) = (?s, m, e1)" "obs e1 = obs e @ [Flash ?op]" by fastforce
  have en: "sm_enter env STATE_STORE (s, m, e) = (s1, m, e1)"
    using e1(1) c leD [OF assms(6)] by (simp add: sm_enter_def store_cmd_flash_write_execute_def Let_def s1_def p_cmd_def)
  have j1: "same_job s0 s1" using assms(3) by (simp add: s1_def)
  let ?c = "c\<lparr>cmd_size := 0\<rparr>"
  define s2 where "s2 = s1\<lparr>queue_cmd := (queue_cmd s1)[unat (queue_rp s1) := ?c]\<rparr>"
  have f: "queue_rp s1 = queue_rp s0" "unat (queue_rp s0) < length (queue_cmd s1)" "\<not> ps_flag s1 8" "p_cmd s1 = c" "m_state s1 = STATE_STORE"
    "m_num_of_bytes_written s1 = ucast (cmd_size c)"
    using assms(2) j1 same_job_cmd [OF j1] assms(5) by (simp_all add: same_job_def ps_single_def s1_def)
  have "ps_success env obs (s1, m, e1) = command_end_procedure_run env (s2, m', e1)"
    using f e1(2) assms(7) by (simp add: ps_success_def pstorage_sys_event_handler_def flash_operation_success_run_def
        store_sub_state_sm_run_def Let_def s2_def)
  moreover have s2: "ps_single s2" "m_app_table s2 = m_app_table s0" "ps_flag s2 4 = ps_flag s0 4" "p_cmd s2 = ?c" "m_app_data_size s2 = m_app_data_size s0"
    using same_job_single [OF j1 assms(2)] j1 f(1,2) by (simp_all add: s2_def ps_single_def same_job_def p_cmd_def)
  then have n: "notified s2 = notified s0" using assms(5) by (simp add: notified_def Let_def)
  moreover have "ps_ended obs s2 (N @ [notified s2]) m' (command_end_procedure_run env (s2, m', e1))"
    by (rule command_ends [OF assms(1) s2(1)]) (use e1(2) assms(4) in simp)
  ultimately show ?thesis using s2(2,3) en by (simp add: ps_ended_def)
qed

subsection \<open>Blocks\<close>

text \<open>
  A handle of a block of a registered module: \<open>A\<close> is the end of the module's blocks, the pages are those below the swap page \<open>sw\<close>.
\<close>

definition ps_block :: "'e ps_env \<Rightarrow> ps_state \<Rightarrow> pstorage_handle \<Rightarrow> nat \<Rightarrow> nat \<Rightarrow> bool" where
  "ps_block env s h sw A \<longleftrightarrow>
     (let t = module_of s h in
      unat (PSTORAGE_SWAP_ADDR env) = sw * 4096 \<and> sw * 4096 + 65536 \<le> 2 ^ 32 \<and> module_id h < 2 \<and>
      unat (base_id t) mod 4096 = 0 \<and> sw * 4096 \<le> unat (base_id t) + 8192 \<and>
      A = unat (base_id t) + unat (block_size t) * unat (block_count t) \<and> A \<le> sw * 4096 \<and>
      unat (block_size t) mod 4 = 0 \<and> unat (block_size t) \<le> 4096 \<and>
      (\<exists>i < unat (block_count t). unat (block_id h) = unat (base_id t) + i * unat (block_size t)))"

lemma block_below:
  assumes "ps_block env s h sw A"
  shows "unat (block_id h) + unat (block_size (module_of s h)) \<le> A"
proof -
  let ?t = "module_of s h"
  from assms obtain i where i: "i < unat (block_count ?t)" "unat (block_id h) = unat (base_id ?t) + i * unat (block_size ?t)"
    "A = unat (base_id ?t) + unat (block_size ?t) * unat (block_count ?t)"
    by (auto simp: ps_block_def Let_def)
  have "Suc i * unat (block_size ?t) \<le> unat (block_count ?t) * unat (block_size ?t)" using i(1) by (intro mult_le_mono1) simp
  then show ?thesis using i(2,3) by (simp add: mult.commute)
qed

lemma block_size_le: "ps_block env s h sw A \<Longrightarrow> unat (block_size (module_of s h)) \<le> 4096"
  by (simp add: ps_block_def Let_def)

text \<open>Addresses that no command may touch: all but the swap page and the rest of the module's last page.\<close>

definition ps_untouched :: "nat \<Rightarrow> nat \<Rightarrow> nat \<Rightarrow> bool" where
  "ps_untouched sw A a \<longleftrightarrow> a div 4096 \<noteq> sw \<and> (a < A \<or> (A - 1) div 4096 < a div 4096)"

text \<open>The command is queued and begun.\<close>

definition ps_queued :: "u8 \<Rightarrow> pstorage_handle \<Rightarrow> ptr \<Rightarrow> u16 \<Rightarrow> u16 \<Rightarrow> ps_state \<Rightarrow> ps_state" where
  "ps_queued op h p sz off s = s\<lparr>queue_cmd := (queue_cmd s)[unat (queue_rp s) := \<lparr>cmd_op_code = op, cmd_size = sz, cmd_offset = off,
     storage_addr = h, p_data_addr = p\<rparr>], queue_count := 1, m_app_data_size := ucast sz\<rparr>"

lemma ps_queued_facts:
  assumes "ps_ready s"
  shows "ps_single (ps_queued op h p sz off s)" "same_job (ps_queued op h p sz off s) (ps_queued op h p sz off s)"
    "p_cmd (ps_queued op h p sz off s) = \<lparr>cmd_op_code = op, cmd_size = sz, cmd_offset = off, storage_addr = h, p_data_addr = p\<rparr>"
    "m_app_table (ps_queued op h p sz off s) = m_app_table s" "m_app_data_size (ps_queued op h p sz off s) = ucast sz"
    "ps_flag (ps_queued op h p sz off s) 4 = ps_flag s 4"
  using assms by (simp_all add: ps_ready_def ps_single_def ps_queued_def p_cmd_def same_job_def ps_flag_def)

lemma enqueue_begins:
  assumes "ps_ready s" "s0 = ps_queued op h p sz off s"
  shows "cmd_queue_enqueue env op h p sz off (s, m, e) = (NRF_SUCCESS,
    if op = 1 then sm_enter env STATE_STORE (s0, m, e) else if op = 3 \<or> op = 4 then clear_operation_execute env (s0, m, e)
    else (s0, m, e))"
proof -
  have r: "unat (queue_rp s) < 30" "queue_count s = 0" "m_state s = STATE_IDLE" "length (queue_cmd s) = 30"
    using assms(1) by (simp_all add: ps_ready_def)
  have "\<not> (30 :: u32) \<le> ucast (queue_rp s)" using r(1) by (simp add: word_le_nat_alt)
  moreover have "p_cmd s0 = \<lparr>cmd_op_code = op, cmd_size = sz, cmd_offset = off, storage_addr = h, p_data_addr = p\<rparr>"
    using ps_queued_facts(3) [OF assms(1)] assms(2) by simp
  ultimately show ?thesis using r
    by (simp add: cmd_queue_enqueue_def Let_def cmd_process_def store_operation_execute_def update_operation_execute_def p_cmd_def
        assms(2) ps_queued_def)
qed

lemma block_cmd_ok:
  assumes "ps_block env s h sw A" "ps_ready s" "unat sz mod 4 = 0" "sz \<noteq> 0" "unat off mod 4 = 0"
    and "unat sz + unat off \<le> unat (block_size (module_of s h)) \<or> off = 0 \<and> unat (block_id h) + unat sz \<le> A"
    and "(unat (block_id h) + unat off) div 4096 = unat (block_id h) div 4096"
  shows "cmd_ok env (ps_queued op h p sz off s) sw (unat (block_id h)) (unat sz) (unat off) A"
proof -
  let ?t = "module_of s h"
  note q = ps_queued_facts [OF assms(2), of op h p sz off]
  from assms(1) have b: "unat (PSTORAGE_SWAP_ADDR env) = sw * 4096" "sw * 4096 + 65536 \<le> 2 ^ 32" "module_id h < 2"
    "unat (base_id ?t) mod 4096 = 0" "sw * 4096 \<le> unat (base_id ?t) + 8192"
    "A = unat (base_id ?t) + unat (block_size ?t) * unat (block_count ?t)" "A \<le> sw * 4096" "unat (block_size ?t) mod 4 = 0"
    "unat (block_size ?t) \<le> 4096"
    by (simp_all add: ps_block_def Let_def)
  from assms(1) obtain i where i: "i < unat (block_count ?t)" "unat (block_id h) = unat (base_id ?t) + i * unat (block_size ?t)"
    by (auto simp: ps_block_def Let_def)
  have e: "unat (block_id h) + unat (block_size ?t) \<le> A" by (rule block_below [OF assms(1)])
  have m4: "unat (base_id ?t) mod 4 = 0" using b(4) mod_mod_cancel [of 4 4096 "unat (base_id ?t)"] by simp
  have h4: "unat (block_id h) mod 4 = 0" "A mod 4 = 0" using m4 b(8) unfolding i(2) b(6) by (auto simp: mod_eq_0_iff_dvd)
  have "module_id h \<noteq> 3" using b(3) by auto
  moreover have "0 < unat sz" using assms(4) by (simp add: unat_gt_0)
  moreover have "unat (block_id h) + unat off + unat sz \<le> A" using assms(6) e by auto
  moreover have "unat off = 0 \<or> unat sz + unat off \<le> 4096" using assms(6) b(9) by auto
  moreover have "unat (base_id ?t) \<le> unat (block_id h)" using i(2) by simp
  ultimately show ?thesis using b h4 assms(3,5,7) q(3,4) by (simp add: cmd_ok_def Let_def module_of_def)
qed

lemma is_word_aligned_mod: "is_word_aligned n \<longleftrightarrow> n mod 4 = 0"
proof -
  have "n AND 3 = take_bit 2 n" unfolding take_bit_eq_mask by (simp add: mask_eq_exp_minus_1)
  then show ?thesis by (simp add: is_word_aligned_def take_bit_eq_mod)
qed

text \<open>What an erased area means for the addresses.\<close>

lemma area_memory:
  assumes "cleared sw P (L + 1) K m0 m" "erased_but P L st en A K" "ps_job env s0 sw P L st en" "en \<le> A"
  shows "\<And>a. st \<le> a \<Longrightarrow> a < en \<Longrightarrow> m a = 0xFF"
    "\<And>a. ps_untouched sw A a \<Longrightarrow> \<not> (st \<le> a \<and> a < en) \<Longrightarrow> m a = m0 a"
    "\<And>a. a div 4096 < P \<or> sw < a div 4096 \<Longrightarrow> m a = m0 a"
proof -
  note j = ps_jobD [OF assms(3)]
  show "m a = 0xFF" if "st \<le> a" "a < en" for a
  proof -
    have "P \<le> a div 4096" unfolding j(5) using that(1) by (rule div_le_mono)
    moreover have "a div 4096 \<le> L" unfolding j(6) using that(2) by (intro div_le_mono) simp
    moreover from calculation have "a \<notin> K" using assms(2,4) that by (auto simp: erased_but_def)
    ultimately show ?thesis using clearedD [OF assms(1), of a] j(3) by simp
  qed
  have L: "L \<le> (A - 1) div 4096" unfolding j(6) using assms(4) by (intro div_le_mono) simp
  show "m a = m0 a" if "ps_untouched sw A a" "\<not> (st \<le> a \<and> a < en)" for a
  proof (cases "P \<le> a div 4096 \<and> a div 4096 \<le> L")
    case True
    then have "a < A" using that(1) L by (auto simp: ps_untouched_def)
    then have "a \<in> K" using assms(2) True that(2) by (auto simp: erased_but_def)
    then show ?thesis using clearedD [OF assms(1), of a] that(1) by (simp add: ps_untouched_def)
  next
    case False
    then show ?thesis using clearedD [OF assms(1), of a] that(1) by (auto simp: ps_untouched_def)
  qed
  show "m a = m0 a" if "a div 4096 < P \<or> sw < a div 4096" for a
    using clearedD [OF assms(1), of a] that j(3,4) by auto
qed

end
