(* ===== verification/PstorageLayout.thy ===== *)
theory PstorageLayout
  imports PstorageThms
begin

text \<open>
  The layout of the older flash storage: registration gives modules whole pages between the start address and the swap page, and the
  blocks of a module are what the properties of the commands expect.
\<close>

unbundle bit_operations_syntax

definition module_fits :: "nat \<Rightarrow> pstorage_module_table \<Rightarrow> bool" where
  "module_fits sw t \<longleftrightarrow> unat (base_id t) mod 4096 = 0 \<and> sw * 4096 \<le> unat (base_id t) + 8192 \<and>
     unat (base_id t) + unat (block_size t) * unat (block_count t) \<le> sw * 4096 \<and> unat (block_size t) mod 4 = 0 \<and>
     unat (block_size t) \<le> 4096"

definition module_end :: "pstorage_module_table \<Rightarrow> nat" where
  "module_end t = unat (base_id t) + unat (block_size t) * unat (block_count t)"

text \<open>Modules lie one after the other, and the next one comes after them.\<close>

definition modules_apart :: "ps_state \<Rightarrow> bool" where
  "modules_apart s \<longleftrightarrow> (\<forall>i < unat (m_next_app_instance s). module_end (m_app_table s ! i) \<le> unat (m_next_page_addr s) \<and>
     (\<forall>j < i. module_end (m_app_table s ! j) \<le> unat (base_id (m_app_table s ! i))))"

definition ps_layout :: "'e ps_env \<Rightarrow> nat \<Rightarrow> ps_state \<Rightarrow> bool" where
  "ps_layout env sw s \<longleftrightarrow> unat (PSTORAGE_SWAP_ADDR env) = sw * 4096 \<and> sw < 2 ^ 19 \<and> length (m_app_table s) = 2 \<and>
     m_next_app_instance s \<le> 2 \<and> (\<exists>k. unat (m_next_page_addr s) = k * 4096 \<and> k \<le> sw \<and> sw \<le> k + 2) \<and>
     (\<forall>t \<in> set (m_app_table s). cb t \<noteq> NULL \<longrightarrow> module_fits sw t) \<and> modules_apart s"

lemma swap_address:
  assumes "3 \<le> n" "n < 2 ^ 19" "pstorage_flash_page_end env = of_nat n"
  shows "unat (PSTORAGE_SWAP_ADDR env) = (n - 1) * 4096" "unat (PSTORAGE_DATA_START_ADDR env) = (n - 3) * 4096"
proof -
  have w: "(of_nat n - 1) * 4096 = (of_nat ((n - 1) * 4096) :: u32)" "(of_nat n - 2 - 1) * 4096 = (of_nat ((n - 3) * 4096) :: u32)"
    using assms(1) by (simp_all add: of_nat_diff algebra_simps)
  show "unat (PSTORAGE_SWAP_ADDR env) = (n - 1) * 4096" "unat (PSTORAGE_DATA_START_ADDR env) = (n - 3) * 4096"
    unfolding PSTORAGE_SWAP_ADDR_def PSTORAGE_DATA_START_ADDR_def assms(3) w
    by (rule unat_of_nat_u32, use assms(2) in simp)+
qed

lemma cmd_queue_init_facts:
  "queue_count (cmd_queue_init s) = 0" "queue_rp (cmd_queue_init s) = 0" "length (queue_cmd (cmd_queue_init s)) = length (queue_cmd s)"
  "m_app_table (cmd_queue_init s) = m_app_table s"
proof -
  have *: "queue_count (fold cmd_queue_element_init xs s) = queue_count s \<and> queue_rp (fold cmd_queue_element_init xs s) = queue_rp s \<and>
      length (queue_cmd (fold cmd_queue_element_init xs s)) = length (queue_cmd s) \<and>
      m_app_table (fold cmd_queue_element_init xs s) = m_app_table s" for xs s
    by (induction xs arbitrary: s) (simp_all add: cmd_queue_element_init_def)
  then show "queue_count (cmd_queue_init s) = 0" "queue_rp (cmd_queue_init s) = 0"
    "length (queue_cmd (cmd_queue_init s)) = length (queue_cmd s)" "m_app_table (cmd_queue_init s) = m_app_table s"
    by (simp_all add: cmd_queue_init_def)
qed

lemma app_tables_reset: "fold app_table_reset [0..<2] s = app_table_reset 1 (app_table_reset 0 s)"
  by (simp add: upt_rec)

lemma pstorage_init_facts:
  assumes "m_app_table s = [x, y]"
  shows "m_app_table (snd (pstorage_init env s)) = [x\<lparr>cb := NULL, block_size := 0, block_count := 0\<rparr>, y\<lparr>cb := NULL, block_size := 0, block_count := 0\<rparr>]"
    "m_next_app_instance (snd (pstorage_init env s)) = 0" "m_next_page_addr (snd (pstorage_init env s)) = PSTORAGE_DATA_START_ADDR env"
    "ps_flag (snd (pstorage_init env s)) 4" "fst (pstorage_init env s) = NRF_SUCCESS"
    "length (queue_cmd s) = 30 \<Longrightarrow> ps_ready (snd (pstorage_init env s))"
  by (simp_all add: pstorage_init_def Let_def ps_ready_def ps_flag_def ps_set_def app_tables_reset app_table_reset_def cmd_queue_init_facts assms)

lemma layout_init:
  assumes "3 \<le> n" "n < 2 ^ 19" "pstorage_flash_page_end env = of_nat n" "length (m_app_table s) = 2" "length (queue_cmd s) = 30"
  shows "fst (pstorage_init env s) = NRF_SUCCESS" "ps_layout env (n - 1) (snd (pstorage_init env s))" "ps_ready (snd (pstorage_init env s))"
proof -
  obtain x y where t: "m_app_table s = [x, y]" using assms(4) by (auto simp: length_Suc_conv numeral_2_eq_2)
  note i = pstorage_init_facts [OF t]
  show "fst (pstorage_init env s) = NRF_SUCCESS" "ps_ready (snd (pstorage_init env s))" using i(5,6) assms(5) by simp_all
  show "ps_layout env (n - 1) (snd (pstorage_init env s))"
    using assms(1,2) swap_address [OF assms(1-3)] by (simp add: ps_layout_def modules_apart_def i) arith
qed

lemma pages_up:
  assumes "k * 4096 + x \<le> sw * 4096"
  shows "k + (x + 4095) div 4096 \<le> (sw :: nat)"
  using assms by linarith

lemma pages_of_area:
  assumes "unat (n :: u16) \<le> 4096"
  shows "unat (CEIL_DIV (ucast n * ucast (k :: u16)) 4096) = (unat n * unat k + 4095) div 4096"
proof -
  have le: "unat n * unat k \<le> 4096 * 65535" using assms u16_less_65536 [of k] by (intro mult_le_mono) simp_all
  have m: "unat (ucast n * ucast k :: u32) = unat n * unat k" using unat_module_end [of 0 n k] le by simp
  have "unat (ucast n * ucast k + 4095 :: u32) = unat n * unat k + 4095" using le m by (subst unat_sum) simp_all
  moreover have "CEIL_DIV (ucast n * ucast k) 4096 = (ucast n * ucast k + 4095) div 4096"
    unfolding CEIL_DIV_def by (simp add: algebra_simps)
  ultimately show ?thesis by (simp only: unat_div) simp
qed

lemma layout_register:
  assumes "ps_layout env sw s" "pstorage_register env p s = (r, oh, s')"
  shows "ps_layout env sw s'" "ps_ready s \<Longrightarrow> ps_ready s'"
    "r = NRF_SUCCESS \<Longrightarrow> \<exists>h. oh = Some h \<and> unat (module_id h) < unat (m_next_app_instance s') \<and> base_id (module_of s' h) = block_id h"
    "unat (m_next_app_instance s) \<le> unat (m_next_app_instance s')"
    "i < unat (m_next_app_instance s) \<Longrightarrow> m_app_table s' ! i = m_app_table s ! i"
proof -
  from assms(1) have lay: "unat (PSTORAGE_SWAP_ADDR env) = sw * 4096" "sw < 2 ^ 19" "length (m_app_table s) = 2" "m_next_app_instance s \<le> 2"
    "\<forall>t \<in> set (m_app_table s). cb t \<noteq> NULL \<longrightarrow> module_fits sw t" "modules_apart s" by (simp_all add: ps_layout_def)
  from assms(1) obtain k where k: "unat (m_next_page_addr s) = k * 4096" "k \<le> sw" "sw \<le> k + 2" by (auto simp: ps_layout_def)
  have "ps_layout env sw s' \<and> (ps_ready s \<longrightarrow> ps_ready s') \<and> (r = NRF_SUCCESS \<longrightarrow> (\<exists>h. oh = Some h \<and> unat (module_id h) < unat (m_next_app_instance s') \<and>
      base_id (module_of s' h) = block_id h)) \<and> unat (m_next_app_instance s) \<le> unat (m_next_app_instance s') \<and>
      (\<forall>i < unat (m_next_app_instance s). m_app_table s' ! i = m_app_table s ! i)"
  proof (cases "r = NRF_SUCCESS")
    case False
    then have "s' = s" using assms(2) by (auto simp: pstorage_register_def Let_def split: if_splits option.splits)
    then show ?thesis using assms(1) False by simp
  next
    case True
    then obtain q where p: "p = Some q" using assms(2) by (cases p) (auto simp: pstorage_register_def Let_def split: if_splits)
    have q: "param_cb q \<noteq> NULL" "param_block_size q \<le> 4096" "0x10 \<le> param_block_size q"
      "BLOCK_COUNT_CHECK env (param_block_count q) (param_block_size q) s" "param_block_size q mod 4 = 0" "ucast (m_next_app_instance s) \<noteq> (2 :: u32)"
      and h: "oh = Some \<lparr>module_id = ucast (m_next_app_instance s), block_id = m_next_page_addr s\<rparr>"
      and s': "s' = s\<lparr>m_app_table := (m_app_table s)[unat (m_next_app_instance s) := \<lparr>cb = param_cb q, base_id = m_next_page_addr s,
                    block_size = param_block_size q, block_count = param_block_count q\<rparr>],
                  m_next_page_addr := m_next_page_addr s + CEIL_DIV (ucast (param_block_size q) * ucast (param_block_count q)) 4096 * 4096,
                  m_next_app_instance := m_next_app_instance s + 1\<rparr>"
      using assms(2) True by (auto simp: p pstorage_register_def Let_def not_le not_less split: if_splits)
    let ?n = "unat (m_next_app_instance s)" and ?z = "unat (param_block_size q) * unat (param_block_count q)"
    let ?t = "\<lparr>cb = param_cb q, base_id = m_next_page_addr s, block_size = param_block_size q, block_count = param_block_count q\<rparr>"
    have "?n \<noteq> 2" using q(6) by (auto simp: word_unat_eq_iff)
    then have n: "?n < 2" using lay(4) by (simp add: word_le_nat_alt)
    then have n1: "m_next_app_instance s + 1 \<le> 2" by (simp add: word_le_nat_alt unat_word_ariths(1))
    have sz: "unat (param_block_size q) \<le> 4096" using q(2) by (simp add: word_le_nat_alt)
    have sz0: "16 \<le> unat (param_block_size q)" using q(3) by (simp add: word_le_nat_alt)
    have le: "?z \<le> 4096 * 65535" using sz u16_less_65536 [of "param_block_count q"] by (intro mult_le_mono) simp_all
    have e: "unat (m_next_page_addr s + ucast (param_block_count q) * ucast (param_block_size q)) = k * 4096 + ?z"
      using k lay(2) le by (subst unat_module_end) (simp_all add: mult.commute)
    then have fit: "k * 4096 + ?z \<le> sw * 4096" using q(4) lay(1) by (simp add: BLOCK_COUNT_CHECK_def word_le_nat_alt not_less)
    note up = pages_up [OF fit] and pg = pages_of_area [OF sz, of "param_block_count q"]
    let ?c = "CEIL_DIV (ucast (param_block_size q) * ucast (param_block_count q)) 4096"
    have c: "unat (?c * 4096) = (?z + 4095) div 4096 * 4096" using up lay(2) by (simp add: unat_word_ariths(2) pg)
    have "unat (m_next_page_addr s + ?c * 4096) = (k + (?z + 4095) div 4096) * 4096"
      using up lay(2) by (subst unat_sum) (simp_all add: c k(1))
    then have npv: "unat (m_next_page_addr s') = (k + (?z + 4095) div 4096) * 4096" by (simp add: s')
    then have np: "\<exists>k. unat (m_next_page_addr s') = k * 4096 \<and> k \<le> sw \<and> sw \<le> k + 2"
      using up k(3) by (intro exI [of _ "k + (?z + 4095) div 4096"]) simp
    have "module_fits sw ?t" using k fit sz0 q(5) sz by (auto simp: module_fits_def word_unat_eq_iff unat_mod)
    then have fits: "\<forall>t \<in> set (m_app_table s'). cb t \<noteq> NULL \<longrightarrow> module_fits sw t"
      using lay(5) set_update_subset_insert [of "m_app_table s" ?n ?t] by (auto simp: s')
    have nx: "unat (m_next_app_instance s + 1) = Suc ?n" using n by (simp add: unat_word_ariths(1))
    have old: "m_app_table s' ! i = m_app_table s ! i" if "i < ?n" for i using that by (simp add: s')
    have new: "m_app_table s' ! ?n = ?t" using n lay(3) by (simp add: s')
    have "modules_apart s'" unfolding modules_apart_def
    proof (intro allI impI conjI)
      fix i assume "i < unat (m_next_app_instance s')"
      then have i: "i < ?n \<or> i = ?n" using nx by (simp add: s' less_Suc_eq)
      have a: "module_end (m_app_table s' ! j) \<le> unat (m_next_page_addr s)" if "j < ?n" for j
        using lay(6) that old [OF that] by (simp add: modules_apart_def)
      show "module_end (m_app_table s' ! i) \<le> unat (m_next_page_addr s')"
        using i a [of i] new k(1) npv by (auto simp: module_end_def)
      show "module_end (m_app_table s' ! j) \<le> unat (base_id (m_app_table s' ! i))" if "j < i" for j
        using i a [of j] new old [of i] old [of j] lay(6) that by (auto simp: modules_apart_def)
    qed
    then have "ps_layout env sw s'" using lay(1-3) n1 np fits by (simp add: ps_layout_def s')
    moreover have "ps_ready s \<longrightarrow> ps_ready s'" by (simp add: ps_ready_def ps_flag_def s')
    moreover have "base_id (module_of s' (the oh)) = block_id (the oh)" using n lay(3) by (simp add: h s' module_of_def)
    moreover have "m_next_app_instance s' = m_next_app_instance s + 1" by (simp add: s')
    ultimately show ?thesis using h nx old by simp
  qed
  then show "ps_layout env sw s'" "ps_ready s \<Longrightarrow> ps_ready s'"
    "r = NRF_SUCCESS \<Longrightarrow> \<exists>h. oh = Some h \<and> unat (module_id h) < unat (m_next_app_instance s') \<and> base_id (module_of s' h) = block_id h"
    "unat (m_next_app_instance s) \<le> unat (m_next_app_instance s')"
    "i < unat (m_next_app_instance s) \<Longrightarrow> m_app_table s' ! i = m_app_table s ! i" by blast+
qed

lemma layout_block:
  assumes "ps_layout env sw s" "base_id (module_of s h) = block_id h"
    "pstorage_block_identifier_get (Some h) n s = (NRF_SUCCESS, Some h')"
  shows "ps_block env s h' sw (unat (block_id h) + unat (block_size (module_of s h)) * unat (block_count (module_of s h)))"
    "unat (block_id h') = unat (block_id h) + unat n * unat (block_size (module_of s h))" "module_of s h' = module_of s h"
proof -
  let ?t = "module_of s h"
  from assms(1) have lay: "unat (PSTORAGE_SWAP_ADDR env) = sw * 4096" "sw < 2 ^ 19" "length (m_app_table s) = 2"
    "\<forall>t \<in> set (m_app_table s). cb t \<noteq> NULL \<longrightarrow> module_fits sw t" by (simp_all add: ps_layout_def)
  from assms(3) have c: "MODULE_ID_RANGE_CHECK s h" "h' = h\<lparr>block_id := block_id h + ucast n * ucast (block_size ?t)\<rparr>" "BLOCK_ID_RANGE_CHECK s h'"
    by (auto simp: pstorage_block_identifier_get_def Let_def split: if_splits)
  show m: "module_of s h' = ?t" by (simp add: c(2) module_of_def)
  have m_id: "module_id h' = module_id h" by (simp add: c(2))
  have id: "module_id h < 2" "cb ?t \<noteq> NULL" using c(1) by (auto simp: MODULE_ID_RANGE_CHECK_def)
  have "?t \<in> set (m_app_table s)" using id(1) lay(3) by (simp add: module_of_def word_less_nat_alt)
  then have f: "module_fits sw ?t" using lay(4) id(2) by blast
  then have fit: "unat (base_id ?t) + unat (block_size ?t) * unat (block_count ?t) \<le> sw * 4096" "unat (block_size ?t) \<le> 4096"
    by (simp_all add: module_fits_def)
  have "unat n * unat (block_size ?t) \<le> 65535 * 4096" using fit(2) u16_less_65536 [of n] by (intro mult_le_mono) simp_all
  moreover have "unat (block_id h) \<le> sw * 4096" using fit(1) assms(2) by simp
  ultimately show b: "unat (block_id h') = unat (block_id h) + unat n * unat (block_size ?t)" unfolding c(2)
    using lay(2) by (simp, subst unat_module_end) simp_all
  have "unat (base_id ?t + ucast (block_count ?t) * ucast (block_size ?t)) = unat (base_id ?t) + unat (block_count ?t) * unat (block_size ?t)"
    using fit(1) lay(2) by (subst unat_module_end) (simp_all add: mult.commute)
  then have "unat n * unat (block_size ?t) < unat (block_count ?t) * unat (block_size ?t)"
    using c(3) b assms(2) unfolding BLOCK_ID_RANGE_CHECK_def m by (simp add: word_le_nat_alt)
  then have "unat n < unat (block_count ?t)" by simp
  then show "ps_block env s h' sw (unat (block_id h) + unat (block_size ?t) * unat (block_count ?t))"
    using lay(1,2) f id b assms(2) m_id by (auto simp: ps_block_def Let_def m module_fits_def)
qed

subsection \<open>Registering all modules\<close>

definition ps_register_all :: "'e ps_env \<Rightarrow> pstorage_module_param option list \<Rightarrow> ps_state \<Rightarrow> ps_state" where
  "ps_register_all env ps s = fold (\<lambda>p s. snd (snd (pstorage_register env p s))) ps s"

lemma ps_register_all_simps [simp]:
  "ps_register_all env [] s = s"
  "ps_register_all env (p # ps) s = ps_register_all env ps (snd (snd (pstorage_register env p s)))"
  by (simp_all add: ps_register_all_def)

lemma layout_register_all:
  assumes "ps_layout env sw s"
  shows "ps_layout env sw (ps_register_all env ps s)" "ps_ready s \<Longrightarrow> ps_ready (ps_register_all env ps s)"
    "unat (m_next_app_instance s) \<le> unat (m_next_app_instance (ps_register_all env ps s))"
    "i < unat (m_next_app_instance s) \<Longrightarrow> m_app_table (ps_register_all env ps s) ! i = m_app_table s ! i"
proof -
  have "ps_layout env sw (ps_register_all env ps s) \<and> (ps_ready s \<longrightarrow> ps_ready (ps_register_all env ps s)) \<and>
    unat (m_next_app_instance s) \<le> unat (m_next_app_instance (ps_register_all env ps s)) \<and>
    (\<forall>i < unat (m_next_app_instance s). m_app_table (ps_register_all env ps s) ! i = m_app_table s ! i)"
    using assms
  proof (induction ps arbitrary: s)
    case (Cons p ps)
    obtain r oh s' where r: "pstorage_register env p s = (r, oh, s')" by (cases "pstorage_register env p s")
    note l = layout_register [OF Cons.prems r]
    show ?case using Cons.IH [OF l(1)] l(2,4,5) by (simp add: r)
  qed simp
  then show "ps_layout env sw (ps_register_all env ps s)" "ps_ready s \<Longrightarrow> ps_ready (ps_register_all env ps s)"
    "unat (m_next_app_instance s) \<le> unat (m_next_app_instance (ps_register_all env ps s))"
    "i < unat (m_next_app_instance s) \<Longrightarrow> m_app_table (ps_register_all env ps s) ! i = m_app_table s ! i" by blast+
qed

end
