(* ===== verification/PstorageSpec.thy ===== *)
theory PstorageSpec
  imports PstorageLayout
begin

text \<open>
  The contract of the older flash storage: what an accepted clear, update or store makes of the memory, from the call to the callback.
\<close>

subsection \<open>Properties\<close>

text \<open>
  C29. Clearing blocks. A clear that is accepted by an idle module, with flash operations that succeed, ends after finitely many of them:
  the callback was called once, with success, the module is idle again, every byte of the blocks is erased, and everything else in the memory is
  what it was, the other blocks that share pages with them included, but for the swap page and the unused rest of the module's last page.
\<close>

theorem pstorage_clear_spec:
  assumes "ps_quiet env obs" "ps_ready s" "ps_block env s h sw A" "pstorage_clear env (Some h) sz (s, m, e) = (NRF_SUCCESS, w)"
    and "area = {unat (block_id h) ..< unat (block_id h) + unat sz}"
  shows "\<exists>n. case (ps_success env obs ^^ n) w of (s', m', e') \<Rightarrow>
    ps_ready s' \<and> m_app_table s' = m_app_table s \<and>
    ntfs (obs e') = ntfs (obs e) @ [Ntf (cb (module_of s h)) h 3 NRF_SUCCESS NULL (ucast sz)] \<and>
    (\<forall>a \<in> area. m' a = 0xFF) \<and> (\<forall>a. ps_untouched sw A a \<and> a \<notin> area \<longrightarrow> m' a = m a)"
proof -
  let ?t = "module_of s h" and ?s0 = "ps_queued 3 h NULL sz 0 s"
  from assms(4) have c: "sz mod block_size ?t = 0" "sz \<noteq> 0"
    "\<not> block_id h + ucast sz > base_id ?t + ucast (block_size ?t) * ucast (block_count ?t)"
    "w = clear_operation_execute env (?s0, m, e)"
    by (auto simp: pstorage_clear_def Let_def enqueue_begins [OF assms(2) refl] split: if_splits)
  have f: "A = unat (base_id ?t) + unat (block_size ?t) * unat (block_count ?t)" "A \<le> sw * 4096" "sw * 4096 + 65536 \<le> 2 ^ 32"
    "unat (block_size ?t) mod 4 = 0"
    using assms(3) by (simp_all add: ps_block_def Let_def)
  have "unat sz mod unat (block_size ?t) = 0" using c(1) by (metis unat_mod unat_0)
  then have z4: "unat sz mod 4 = 0" using f(4) by (auto simp: mod_eq_0_iff_dvd)
  have "unat (block_id h) \<le> A" using block_below [OF assms(3)] by simp
  then have "unat (block_id h + ucast sz) = unat (block_id h) + unat sz" using f(2,3) u16_less_65536 [of sz] by (subst unat_sum) simp_all
  moreover have "unat (base_id ?t + ucast (block_size ?t) * ucast (block_count ?t)) = A" using f(1-3) by (subst unat_module_end) simp_all
  ultimately have "unat (block_id h) + unat sz \<le> A" using c(3) by (simp add: word_le_nat_alt not_less)
  then have ok: "cmd_ok env ?s0 sw (unat (block_id h)) (unat sz) (unat (0 :: u16)) A"
    by (intro block_cmd_ok [OF assms(3,2) z4 c(2)]) simp_all
  note q = ps_queued_facts [OF assms(2), of 3 h NULL sz 0]
  from command_erases [OF assms(1) ok q(2) refl refl refl refl refl] obtain K where
    K: "area_erased env obs ?s0 (ntfs (obs e)) sw (unat (block_id h) div 4096) ((unat (block_id h) + unat (0 :: u16) + unat sz - 1) div 4096) K m w"
      "erased_but (unat (block_id h) div 4096) ((unat (block_id h) + unat (0 :: u16) + unat sz - 1) div 4096) (unat (block_id h) + unat (0 :: u16))
        (unat (block_id h) + unat (0 :: u16) + unat sz) A K" unfolding c(4) by blast
  then obtain n m' where x: "erased_exit env obs ?s0 (ntfs (obs e)) m' ((ps_success env obs ^^ n) w)"
    and m: "cleared sw (unat (block_id h) div 4096) ((unat (block_id h) + unat (0 :: u16) + unat sz - 1) div 4096 + 1) K m m'"
    unfolding area_erased_def ps_reaches_def by blast
  have "ps_ended obs ?s0 (ntfs (obs e) @ [notified ?s0]) m' ((ps_success env obs ^^ n) w)"
    by (rule clear_ends [OF assms(1) q(1) _ x]) (simp add: q(3))
  moreover have "notified ?s0 = Ntf (cb ?t) h 3 NRF_SUCCESS NULL (ucast sz)" using q by (simp add: notified_def module_of_def)
  moreover have "ps_untouched sw A a \<Longrightarrow> a \<notin> area \<Longrightarrow> m' a = m a" "a \<in> area \<Longrightarrow> m' a = 0xFF" for a
    using area_memory(1,2) [OF m K(2) cmd_ok_job [OF ok], of a] cmd_okD(9) [OF ok refl refl] assms(5) by simp_all
  ultimately show ?thesis using q(4)
    by (intro exI [of _ n]) (simp add: ps_ended_def case_prod_beta)
qed

subsection \<open>Writing\<close>

lemma access_check_success:
  assumes "access_check s (Some h) p sz off = NRF_SUCCESS"
  shows "sz \<noteq> 0" "unat sz + unat off \<le> unat (block_size (module_of s h))" "unat off mod 4 = 0"
  using assms by (auto simp: access_check_def SIZE_CHECK_def OFFSET_CHECK_def is_word_aligned_mod split: if_splits)

lemma area_written:
  assumes "unat d = st" "unat z mod 4 = 0" "p + unat z \<le> 2 ^ 32" "m' = flash_exec (Write d (of_nat p) (ucast (z :: u16) div 4)) m"
  shows "\<And>a. st \<le> a \<Longrightarrow> a < st + unat z \<Longrightarrow> m' a = m a AND m (p + (a - st))" "\<And>a. \<not> (st \<le> a \<and> a < st + unat z) \<Longrightarrow> m' a = m a"
proof -
  have k: "4 * unat (ucast z div 4 :: u32) = unat z" using assms(2) by (simp add: unat_div four_div)
  show "m' a = m a" if "\<not> (st \<le> a \<and> a < st + unat z)" for a
    using that k unfolding assms(4) flash_exec.simps assms(1) by auto
  show "m' a = m a AND m (p + (a - st))" if "st \<le> a" "a < st + unat z" for a
  proof -
    have "p < 2 ^ 32" using that assms(3) by linarith
    then have "unat (of_nat p :: u32) = p" by (simp add: unat_of_nat_u32)
    then show ?thesis using that k unfolding assms(4) flash_exec.simps assms(1) by simp
  qed
qed

text \<open>
  C30. Storing into a block. A store of whole words, with its data in memory above the swap page, that is accepted by an idle module is one flash
  write; when it succeeds the callback was called once, with success, the module is idle again, every byte of the
  area holds the conjunction of what it held and the data, so the data itself where the area was erased, and no other byte changed.
\<close>

theorem pstorage_store_spec:
  assumes "ps_quiet env obs" "ps_ready s" "ps_block env s h sw A" "pstorage_store env (Some h) p sz off (s, m, e) = (NRF_SUCCESS, w)"
    and "unat sz mod 4 = 0" "p + unat sz \<le> 2 ^ 32"
    and "st = unat (block_id h) + unat off" "ps_success env obs w = (s', m', e')"
  shows "ps_ready s' \<and> m_app_table s' = m_app_table s \<and>
    ntfs (obs e') = ntfs (obs e) @ [Ntf (cb (module_of s h)) h 1 NRF_SUCCESS p (ucast sz)] \<and>
    (\<forall>i < unat sz. m' (st + i) = m (st + i) AND m (p + i)) \<and> (\<forall>a. \<not> (st \<le> a \<and> a < st + unat sz) \<longrightarrow> m' a = m a)"
proof -
  let ?t = "module_of s h" and ?s0 = "ps_queued 1 h p sz off s"
  from assms(4) have c: "access_check s (Some h) p sz off = NRF_SUCCESS" "w = sm_enter env STATE_STORE (?s0, m, e)"
    by (auto simp: pstorage_store_def Let_def enqueue_begins [OF assms(2) refl] split: if_splits)
  note a = access_check_success [OF c(1)]
  note q = ps_queued_facts [OF assms(2), of 1 h p sz off]
  define m1 where "m1 = flash_exec (Write (block_id h + ucast off) (of_nat p) (ucast sz div 4)) m"
  have sz: "sz \<le> 4096" using a(2) block_size_le [OF assms(3)] by (simp add: word_le_nat_alt)
  have "ps_ended obs ?s0 (ntfs (obs e) @ [notified ?s0]) m1 (s', m', e')"
    unfolding assms(8) [symmetric] c(2) by (rule store_executes [OF assms(1) q(1,2) refl refl]) (use sz in \<open>simp_all add: q(3) m1_def\<close>)
  moreover have "notified ?s0 = Ntf (cb ?t) h 1 NRF_SUCCESS p (ucast sz)" using q by (simp add: notified_def module_of_def)
  moreover have "st < 2 ^ 32" using block_below [OF assms(3)] a(1,2) assms(3,7) by (auto simp: ps_block_def Let_def)
  then have st: "unat (block_id h + ucast off) = st" using assms(7) by (subst unat_sum) simp_all
  note aw = area_written [OF st assms(5,6) m1_def]
  ultimately show ?thesis using q(4) by (simp add: ps_ended_def)
qed

text \<open>
  C6. Updating part of a block. An update of whole words in the first page of its block, with its data in memory above the swap page, that is
  accepted by an idle module, with flash operations that succeed, ends after finitely many of them: the callback was called once, with
  success, the module is idle again, the block holds the new data, and everything else in the memory is what it was, the rest of the block
  included, but for the swap page and the unused rest of the module's last page.
\<close>

theorem pstorage_update_spec:
  assumes "ps_quiet env obs" "ps_ready s" "ps_block env s h sw A" "pstorage_update env (Some h) p sz off (s, m, e) = (NRF_SUCCESS, w)"
    and "unat sz mod 4 = 0" "(unat (block_id h) + unat off) div 4096 = unat (block_id h) div 4096"
    and "(sw + 1) * 4096 \<le> p" "p + unat sz \<le> 2 ^ 32"
    and "st = unat (block_id h) + unat off"
  shows "\<exists>n. case (ps_success env obs ^^ n) w of (s', m', e') \<Rightarrow>
    ps_ready s' \<and> m_app_table s' = m_app_table s \<and>
    ntfs (obs e') = ntfs (obs e) @ [Ntf (cb (module_of s h)) h 4 NRF_SUCCESS p (ucast sz)] \<and>
    (\<forall>i < unat sz. m' (st + i) = m (p + i)) \<and>
    (\<forall>a. ps_untouched sw A a \<and> \<not> (st \<le> a \<and> a < st + unat sz) \<longrightarrow> m' a = m a)"
proof -
  let ?t = "module_of s h" and ?s0 = "ps_queued 4 h p sz off s" and ?b = "unat (block_id h)"
  let ?P = "?b div 4096" and ?L = "(?b + unat off + unat sz - 1) div 4096"
  from assms(4) have c: "access_check s (Some h) p sz off = NRF_SUCCESS" "w = clear_operation_execute env (?s0, m, e)"
    by (auto simp: pstorage_update_def Let_def enqueue_begins [OF assms(2) refl] split: if_splits)
  note a = access_check_success [OF c(1)]
  have ok: "cmd_ok env ?s0 sw ?b (unat sz) (unat off) A"
    using a by (intro block_cmd_ok [OF assms(3,2,5) _ _ _ assms(6)]) simp_all
  note q = ps_queued_facts [OF assms(2), of 4 h p sz off] and d = cmd_okD [OF ok refl refl]
  from command_erases [OF assms(1) ok q(2) refl refl refl refl refl] obtain K n m1 where
    x: "erased_exit env obs ?s0 (ntfs (obs e)) m1 ((ps_success env obs ^^ n) w)" and
    m: "cleared sw ?P (?L + 1) K m m1" "erased_but ?P ?L (?b + unat off) (?b + unat off + unat sz) A K"
    unfolding c(2) area_erased_def ps_reaches_def by blast
  note m1 = area_memory [OF m cmd_ok_job [OF ok] d(9), folded assms(9)]
  from x obtain s1 e1 where x1: "(ps_success env obs ^^ n) w = clear_post_processing_run env (s1, m1, e1)"
    and s1: "same_job ?s0 s1" "ntfs (obs e1) = ntfs (obs e)" unfolding erased_exit_def by blast
  have w1: "(ps_success env obs ^^ n) w = sm_enter env STATE_STORE (s1, m1, e1)"
    using x1 same_job_cmd [OF s1(1)] by (simp add: clear_post_processing_run_def store_operation_execute_def q(3))
  define m' where "m' = flash_exec (Write (block_id h + ucast off) (of_nat p) (ucast sz div 4)) m1"
  have "sz \<le> 4096" using a(2) block_size_le [OF assms(3)] by (simp add: word_le_nat_alt)
  then have "ps_ended obs ?s0 (ntfs (obs e) @ [notified ?s0]) m' (ps_success env obs ((ps_success env obs ^^ n) w))"
    unfolding w1 by (intro store_executes [OF assms(1) q(1) s1 refl]) (simp_all add: q(3) m'_def)
  moreover have "notified ?s0 = Ntf (cb ?t) h 4 NRF_SUCCESS p (ucast sz)" using q by (simp add: notified_def module_of_def)
  moreover have st: "unat (block_id h + ucast off) = st" using d(7-9) assms(9) by (subst unat_sum) simp_all
  note aw = area_written [OF st assms(5,8) m'_def]
  have "m' (st + i) = m (p + i)" if "i < unat sz" for i
  proof -
    have "(p + i) div 4096 > sw" using assms(7) that div_le_mono [of "(sw + 1) * 4096" "p + i" 4096] by simp
    then show ?thesis using aw(1) [of "st + i"] m1(1) [of "st + i"] m1(3) [of "p + i"] that by simp
  qed
  moreover have "m' a = m a" if "ps_untouched sw A a" "\<not> (st \<le> a \<and> a < st + unat sz)" for a
    using aw(2) [OF that(2)] m1(2) [OF that] by simp
  ultimately show ?thesis using q(4) by (intro exI [of _ "Suc n"]) (simp add: ps_ended_def case_prod_beta)
qed

text \<open>
  C31. The layout. However modules are registered after the initialisation, and whatever registration fails, the module is ready for
  commands, a block that is got from the handle of a registration is what the commands' properties expect, at the offset of its number, and the
  areas of the modules do not overlap.
\<close>

theorem pstorage_layout_spec:
  assumes "3 \<le> n" "n < 2 ^ 19" "pstorage_flash_page_end env = of_nat n" "length (m_app_table s) = 2" "length (queue_cmd s) = 30"
    and "pstorage_register env p (ps_register_all env ps (snd (pstorage_init env s))) = (NRF_SUCCESS, Some h, s1)"
    and "s2 = ps_register_all env qs s1" "pstorage_block_identifier_get (Some h) k s2 = (NRF_SUCCESS, Some h')"
  shows "ps_ready s2 \<and> ps_block env s2 h' (n - 1) (module_end (module_of s2 h')) \<and>
    unat (block_id h') = unat (base_id (module_of s2 h')) + unat k * unat (block_size (module_of s2 h')) \<and>
    (\<forall>i < unat (m_next_app_instance s2). \<forall>j < i. module_end (m_app_table s2 ! j) \<le> unat (base_id (m_app_table s2 ! i)))"
proof -
  note init = layout_init [OF assms(1-5)] and all = layout_register_all
  note l0 = all(1,2) [OF init(2), where ps = ps]
  note l1 = layout_register [OF l0(1) assms(6)]
  note l2 = all [OF l1(1), where ps = qs, folded assms(7)]
  have "module_of s2 h = module_of s1 h" "base_id (module_of s1 h) = block_id h"
    using l1(3) [OF refl] l2(4) by (auto simp: module_of_def)
  then have b: "base_id (module_of s2 h) = block_id h" by simp
  note blk = layout_block [OF l2(1) b assms(8)]
  show ?thesis using l2(1,2) l1(2) l0(2) init(3) blk b by (simp add: ps_layout_def modules_apart_def module_end_def)
qed

subsection \<open>Blocks over two pages\<close>

text \<open>
  The page of the block's first byte is erased even when the offset leads into the next page: all of it is 0xFF after three flash operations,
  and only as many words as there are before the area in its own page are restored.
\<close>

lemma exit_memory:
  assumes "ps_quiet env obs" "erased_exit env obs s0 N m w" "cmd_op_code (p_cmd s0) = 4"
  shows "fst (snd w) = m"
proof -
  from assms(2) obtain s e where w: "w = clear_post_processing_run env (s, m, e)" and s: "same_job s0 s" unfolding erased_exit_def by blast
  have "w = sm_enter env STATE_STORE (s, m, e)"
    using assms(3) same_job_cmd [OF s] by (simp add: w clear_post_processing_run_def store_operation_execute_def)
  moreover have "fst (snd (flash_write env d p k w)) = fst (snd w)" for d p k w using flash_quiet(1) [OF assms(1), of d p k w] by auto
  ultimately show ?thesis by (simp add: sm_enter_def store_cmd_flash_write_execute_def Let_def)
qed

lemma update_erases_first_page:
  assumes "ps_quiet env obs" "ps_ready s" "ps_block env s h sw A" "pstorage_update env (Some h) p sz off (s, m, e) = (NRF_SUCCESS, w)"
    and "off \<noteq> 0" "block_id h div 4096 = (block_id h + ucast sz - 1) div 4096"
    and "a div 4096 = unat (block_id h) div 4096"
  shows "fst (snd ((ps_success env obs ^^ 3) w)) a = 0xFF"
proof -
  let ?s0 = "ps_queued 4 h p sz off s"
  from assms(4) have c: "access_check s (Some h) p sz off = NRF_SUCCESS" "w = clear_operation_execute env (?s0, m, e)"
    by (auto simp: pstorage_update_def Let_def enqueue_begins [OF assms(2) refl] split: if_splits)
  note a = access_check_success [OF c(1)] and q = ps_queued_facts [OF assms(2), of 4 h p sz off]
  have "unat off \<noteq> 0" using assms(5) by (simp add: unat_eq_0)
  then have "unat sz < 4096" using a(2) block_size_le [OF assms(3)] by linarith
  then have "ucast sz \<noteq> (4096 :: u32)" by (auto simp: word_unat_eq_iff)
  moreover have "module_id h \<noteq> 3" using assms(3) by (auto simp: ps_block_def Let_def)
  ultimately have "needs_swap ?s0" using assms(5) by (simp add: needs_swap_def Let_def q(3))
  from clear_with_swap [OF this refl refl refl, of env m e, folded c(2)] obtain x y where
    w: "w = sm_enter env STATE_DATA_ERASE_WITH_SWAP (?s0\<lparr>m_tail_word_size := x, m_head_word_size := y\<rparr>, m, e)" by (rule that)
  let ?s1 = "?s0\<lparr>m_tail_word_size := x, m_head_word_size := y\<rparr>"
  have s1: "same_job ?s0 ?s1" "m_head_word_size ?s1 = y" "m_tail_word_size ?s1 = x" using q(2) by simp_all
  have o: "True \<longleftrightarrow> block_id h div 4096 = (block_id h + ucast (cmd_size (p_cmd ?s0)) - 1) div 4096"
    using assms(6) unfolding q(3) cmd_queue_element.simps by blast
  have b: "block_id h = block_id (storage_addr (p_cmd ?s0))" unfolding q(3) by simp
  note swap_entry [OF assms(1) s1(1) refl s1(2,3) b o, where m = m]
  then have "in_swap env obs ?s0 (ntfs (obs e)) True STATE_ERASE_SWAP (block_id h div 4096) y x False m w" unfolding w by simp
  from step_write_swap [OF assms(1) step_erase_swap [OF assms(1) this]] obtain m' dn where
    "in_swap env obs ?s0 (ntfs (obs e)) True STATE_ERASE_DATA_PAGE (block_id h div 4096) y x dn m' (ps_success env obs (ps_success env obs w))"
    by blast
  from step_erase_page [OF assms(1) this refl refl refl]
  have "fst (snd (ps_success env obs (ps_success env obs (ps_success env obs w)))) = flash_exec (Erase (block_id h div 4096)) m'"
    by (auto simp: in_swap_def issued_def q(3) dest: exit_memory [OF assms(1)] split: if_splits)
  then show ?thesis using assms(7) by (simp add: numeral_3_eq_3 flash_exec.simps unat_div)
qed

subsection \<open>Concrete inputs\<close>

definition ps_env_example :: "ps_out list ps_env" where
  "ps_env_example = \<lparr>ps_uicr_nrffw0 = 0x78000, ps_ficr_codesize = 0x80,
     ps_flash_write = \<lambda>d p k e. (NRF_SUCCESS, e @ [Flash (Write d p k)]),
     ps_flash_page_erase = \<lambda>p e. (NRF_SUCCESS, e @ [Flash (Erase p)]),
     call_ntf_cb = \<lambda>f h op r p n w. (fst w, fst (snd w), snd (snd w) @ [Ntf f h op r p n])\<rparr>"

definition ps_state_example :: ps_state where
  "ps_state_example = \<lparr>queue_rp = 3, queue_count = 0, queue_cmd = replicate 30 \<lparr>cmd_op_code = 0, cmd_size = 0, cmd_offset = 0,
     storage_addr = \<lparr>module_id = 2, block_id = 0\<rparr>, p_data_addr = NULL\<rparr>, m_next_app_instance = 1, m_next_page_addr = 0x76000,
     m_state = STATE_IDLE, m_swap_sub_state = STATE_ERASE_SWAP, m_head_word_size = 0, m_tail_word_size = 0, m_current_page_id = 0,
     m_num_of_command_retries = 0, m_app_table = [\<lparr>cb = 0x1001, base_id = 0x75000, block_size = 0x100, block_count = 8\<rparr>,
       \<lparr>cb = NULL, base_id = 0, block_size = 0, block_count = 0\<rparr>],
     m_num_of_bytes_written = 0, m_app_data_size = 0, ps_flags = 4\<rparr>"

abbreviation (input) "ps_handle_example \<equiv> \<lparr>module_id = 0, block_id = 0x75100\<rparr>"

lemma ps_example:
  "ps_quiet ps_env_example id" "ps_ready ps_state_example" "ps_block ps_env_example ps_state_example ps_handle_example 119 0x75800"
proof -
  show "ps_quiet ps_env_example id" by (auto simp: ps_quiet_def ps_env_example_def)
  show "ps_ready ps_state_example" by (simp add: ps_ready_def ps_state_example_def ps_flag_def)
  show "ps_block ps_env_example ps_state_example ps_handle_example 119 0x75800"
    by (simp add: ps_block_def Let_def module_of_def ps_state_example_def ps_env_example_def PSTORAGE_SWAP_ADDR_def pstorage_flash_page_end_def)
qed

lemma ps_example_module: "module_of ps_state_example ps_handle_example = \<lparr>cb = 0x1001, base_id = 0x75000, block_size = 0x100, block_count = 8\<rparr>"
  by (simp add: ps_state_example_def module_of_def)

lemma ps_example_accepted:
  "pstorage_clear ps_env_example (Some ps_handle_example) 0x200 (ps_state_example, m, []) =
     (NRF_SUCCESS, snd (pstorage_clear ps_env_example (Some ps_handle_example) 0x200 (ps_state_example, m, [])))"
  "pstorage_store ps_env_example (Some ps_handle_example) 0x20000000 0x10 0x20 (ps_state_example, m, []) =
     (NRF_SUCCESS, snd (pstorage_store ps_env_example (Some ps_handle_example) 0x20000000 0x10 0x20 (ps_state_example, m, [])))"
  "pstorage_update ps_env_example (Some ps_handle_example) 0x20000000 0x10 0x20 (ps_state_example, m, []) =
     (NRF_SUCCESS, snd (pstorage_update ps_env_example (Some ps_handle_example) 0x20000000 0x10 0x20 (ps_state_example, m, [])))"
proof -
  have f: "ps_flag ps_state_example 4" "MODULE_ID_RANGE_CHECK ps_state_example ps_handle_example"
    "BLOCK_ID_RANGE_CHECK ps_state_example ps_handle_example" "SIZE_CHECK ps_state_example ps_handle_example 0x10"
    "OFFSET_CHECK ps_state_example ps_handle_example 0x20 0x10"
    "module_of ps_state_example ps_handle_example = \<lparr>cb = 0x1001, base_id = 0x75000, block_size = 0x100, block_count = 8\<rparr>"
    by (simp_all add: ps_flag_def ps_state_example_def MODULE_ID_RANGE_CHECK_def BLOCK_ID_RANGE_CHECK_def SIZE_CHECK_def OFFSET_CHECK_def module_of_def)
  show "pstorage_clear ps_env_example (Some ps_handle_example) 0x200 (ps_state_example, m, []) =
     (NRF_SUCCESS, snd (pstorage_clear ps_env_example (Some ps_handle_example) 0x200 (ps_state_example, m, [])))"
    by (simp add: pstorage_clear_def f Let_def is_word_aligned_mod enqueue_begins [OF ps_example(2) refl])
  have a: "access_check ps_state_example (Some ps_handle_example) 0x20000000 0x10 0x20 = NRF_SUCCESS"
    by (simp add: access_check_def f is_word_aligned_mod)
  show "pstorage_store ps_env_example (Some ps_handle_example) 0x20000000 0x10 0x20 (ps_state_example, m, []) =
     (NRF_SUCCESS, snd (pstorage_store ps_env_example (Some ps_handle_example) 0x20000000 0x10 0x20 (ps_state_example, m, [])))"
    "pstorage_update ps_env_example (Some ps_handle_example) 0x20000000 0x10 0x20 (ps_state_example, m, []) =
     (NRF_SUCCESS, snd (pstorage_update ps_env_example (Some ps_handle_example) 0x20000000 0x10 0x20 (ps_state_example, m, [])))"
    by (simp_all add: pstorage_store_def pstorage_update_def a Let_def enqueue_begins [OF ps_example(2) refl])
qed

lemma ex_case3: "(\<exists>n. case f n of (a, b, c) \<Rightarrow> P a b c) \<longleftrightarrow> (\<exists>n a b c. f n = (a, b, c) \<and> P a b c)"
proof -
  have "(case x of (a, b, c) \<Rightarrow> P a b c) \<longleftrightarrow> (\<exists>a b c. x = (a, b, c) \<and> P a b c)" for x by (cases x) simp
  then show ?thesis by simp
qed

theorem pstorage_clear_spec_witness:
  "\<exists>n. case (ps_success ps_env_example id ^^ n)
      (snd (pstorage_clear ps_env_example (Some ps_handle_example) 0x200 (ps_state_example, \<lambda>a. 0x55, []))) of (s', m', e') \<Rightarrow>
    ps_ready s' \<and> ntfs e' = [Ntf 0x1001 ps_handle_example 3 NRF_SUCCESS NULL 0x200] \<and> (\<forall>a \<in> {0x75100 ..< 0x75300}. m' a = 0xFF) \<and>
    m' 0x750FF = 0x55 \<and> m' 0x75300 = 0x55"
proof -
  have u: "ps_untouched 119 0x75800 0x750FF" "ps_untouched 119 0x75800 0x75300" by (simp_all add: ps_untouched_def)
  from pstorage_clear_spec [OF ps_example ps_example_accepted(1) refl, of "\<lambda>a. 0x55", unfolded ex_case3] show ?thesis
    unfolding ex_case3 by (elim ex_forward) (use u in \<open>auto simp: ps_example_module\<close>)
qed

theorem pstorage_store_spec_witness:
  "case ps_success ps_env_example id
      (snd (pstorage_store ps_env_example (Some ps_handle_example) 0x20000000 0x10 0x20 (ps_state_example, \<lambda>a. if a < 0x20000000 then 0xFF else 0x55, [])))
    of (s', m', e') \<Rightarrow>
    ps_ready s' \<and> ntfs e' = [Ntf 0x1001 ps_handle_example 1 NRF_SUCCESS 0x20000000 0x10] \<and> m' 0x75120 = 0x55 \<and> m' 0x75130 = 0xFF"
proof -
  let ?w = "ps_success ps_env_example id
      (snd (pstorage_store ps_env_example (Some ps_handle_example) 0x20000000 0x10 0x20 (ps_state_example, \<lambda>a. if a < 0x20000000 then 0xFF else 0x55, [])))"
  obtain s' m' e' where w: "?w = (s', m', e')" by (cases ?w)
  have st: "0x75120 = unat (block_id ps_handle_example) + unat (0x20 :: u16)" by simp
  from pstorage_store_spec [OF ps_example ps_example_accepted(2) _ _ st w]
  have x: "ps_ready s'" "ntfs e' = [Ntf 0x1001 ps_handle_example 1 NRF_SUCCESS 0x20000000 0x10]"
    "\<forall>i < 0x10. m' (0x75120 + i) = (if 0x75120 + i < 0x20000000 then 0xFF else 0x55) AND (if 0x20000000 + i < 0x20000000 then 0xFF else 0x55)"
    "\<forall>a. \<not> (0x75120 \<le> a \<and> a < 0x75120 + 0x10) \<longrightarrow> m' a = (if a < 0x20000000 then 0xFF else 0x55)"
    by (simp_all add: ps_example_module)
  from x(3) [rule_format, of 0] x(4) [rule_format, of "0x75130"] x(1,2) show ?thesis unfolding w by simp
qed

theorem pstorage_update_spec_witness:
  "\<exists>n. case (ps_success ps_env_example id ^^ n)
      (snd (pstorage_update ps_env_example (Some ps_handle_example) 0x20000000 0x10 0x20 (ps_state_example, \<lambda>a. if a < 0x20000000 then 0x33 else 0x55, [])))
    of (s', m', e') \<Rightarrow>
    ps_ready s' \<and> ntfs e' = [Ntf 0x1001 ps_handle_example 4 NRF_SUCCESS 0x20000000 0x10] \<and> m' 0x75120 = 0x55 \<and> m' 0x75130 = 0x33"
proof -
  have u: "ps_untouched 119 0x75800 0x75130" by (simp add: ps_untouched_def)
  have st: "0x75120 = unat (block_id ps_handle_example) + unat (0x20 :: u16)" by simp
  have a: "unat (0x10 :: u16) mod 4 = 0" "(unat (block_id ps_handle_example) + unat (0x20 :: u16)) div 4096 = unat (block_id ps_handle_example) div 4096"
    "(119 + 1) * 4096 \<le> (0x20000000 :: nat)" "0x20000000 + unat (0x10 :: u16) \<le> 2 ^ 32" by simp_all
  from pstorage_update_spec [OF ps_example ps_example_accepted(3) a st, of "\<lambda>a. if a < 0x20000000 then 0x33 else 0x55", unfolded ex_case3]
  show ?thesis unfolding ex_case3
    by (elim ex_forward) (use u in \<open>auto simp: ps_example_module dest: spec [of _ 0] spec [of _ "0x75130"]\<close>)
qed

text \<open>The layout.\<close>

theorem pstorage_layout_spec_witness:
  "let s0 = snd (pstorage_init ps_env_example ps_state_example);
       (r, oh, s1) = pstorage_register ps_env_example (Some \<lparr>param_cb = 0x1001, param_block_size = 0x100, param_block_count = 8\<rparr>) s0;
       (r', oh') = pstorage_block_identifier_get oh 3 s1
   in r = NRF_SUCCESS \<and> r' = NRF_SUCCESS \<and> ps_block ps_env_example s1 (the oh') 119 0x75800 \<and> unat (block_id (the oh')) = 0x75300"
proof -
  let ?s0 = "snd (pstorage_init ps_env_example ps_state_example)" and ?h = "\<lparr>module_id = 0, block_id = 0x75000\<rparr>"
  let ?p = "Some \<lparr>param_cb = 0x1001, param_block_size = 0x100, param_block_count = 8\<rparr>"
  obtain x y where "m_app_table ps_state_example = [x, y]" by (simp add: ps_state_example_def)
  note i = pstorage_init_facts [OF this, of ps_env_example]
  have e: "pstorage_flash_page_end ps_env_example = of_nat 120" by (simp add: pstorage_flash_page_end_def ps_env_example_def)
  have a: "PSTORAGE_SWAP_ADDR ps_env_example = 0x77000" "PSTORAGE_DATA_START_ADDR ps_env_example = 0x75000"
    by (simp_all add: PSTORAGE_SWAP_ADDR_def PSTORAGE_DATA_START_ADDR_def e)
  obtain s1 where s1: "pstorage_register ps_env_example ?p ?s0 = (NRF_SUCCESS, Some ?h, s1)" and
    t: "m_app_table s1 = [\<lparr>cb = 0x1001, base_id = 0x75000, block_size = 0x100, block_count = 8\<rparr>,
      y\<lparr>cb := NULL, block_size := 0, block_count := 0\<rparr>]" "ps_flag s1 4"
    using i by (simp add: pstorage_register_def Let_def BLOCK_COUNT_CHECK_def a ps_flag_def)
  have g: "pstorage_block_identifier_get (Some ?h) 3 s1 = (NRF_SUCCESS, Some \<lparr>module_id = 0, block_id = 0x75300\<rparr>)"
    by (simp add: pstorage_block_identifier_get_def Let_def t MODULE_ID_RANGE_CHECK_def BLOCK_ID_RANGE_CHECK_def module_of_def)
  have l: "length (m_app_table ps_state_example) = 2" "length (queue_cmd ps_state_example) = 30" by (simp_all add: ps_state_example_def)
  have r: "pstorage_register ps_env_example ?p (ps_register_all ps_env_example [] ?s0) = (NRF_SUCCESS, Some ?h, s1)"
    "s1 = ps_register_all ps_env_example [] s1" using s1 by simp_all
  have m: "module_of s1 \<lparr>module_id = 0, block_id = 0x75300\<rparr> = \<lparr>cb = 0x1001, base_id = 0x75000, block_size = 0x100, block_count = 8\<rparr>"
    by (simp add: module_of_def t)
  have "ps_block ps_env_example s1 \<lparr>module_id = 0, block_id = 0x75300\<rparr> (120 - 1) (module_end (module_of s1 \<lparr>module_id = 0, block_id = 0x75300\<rparr>))"
    using pstorage_layout_spec [OF _ _ e l r g] by simp
  then show ?thesis using s1 g by (simp add: m module_end_def)
qed

end
