(* ===== verification/ConnParams.thy ===== *)
theory ConnParams
  imports AppTimer AppUtil
begin

text \<open>
  The negotiation of connection parameters, \<^verbatim>\<open>ble/common/ble_conn_params.c\<close>, on top of the application timer.
  The SoftDevice and the handlers of the application are the parameter \<open>cp_env\<close>; handlers are called
  through their addresses and may change everything, the module's state included. The attribute
  value of a write event is a memory that holds it from address 0 on.
\<close>

unbundle bit_operations_syntax

subsection \<open>Data\<close>

abbreviation (input) "BLE_CONN_HANDLE_INVALID \<equiv> 0xFFFF :: u16"
abbreviation (input) "BLE_GATT_HANDLE_INVALID \<equiv> 0x0000 :: u16"
abbreviation (input) "BLE_GATT_HVX_NOTIFICATION \<equiv> 0x01 :: u16"
abbreviation (input) "BLE_HCI_CONN_INTERVAL_UNACCEPTABLE \<equiv> 0x3B :: u8"

record ble_gap_conn_params =
  min_conn_interval :: u16
  max_conn_interval :: u16
  slave_latency :: u16
  conn_sup_timeout :: u16

datatype ble_conn_params_evt = BLE_CONN_PARAMS_EVT_FAILED | BLE_CONN_PARAMS_EVT_SUCCEEDED

record ble_conn_params_init_t =
  p_conn_params :: "ble_gap_conn_params option"
  first_conn_params_update_delay :: u32
  next_conn_params_update_delay :: u32
  max_conn_params_update_count :: u8
  start_on_notify_cccd_handle :: u16
  disconnect_on_fail :: bool
  evt_handler :: ptr
  error_handler :: ptr

datatype cp_ble_evt =
    BLE_GAP_EVT_CONNECTED u16 ble_gap_conn_params
  | BLE_GAP_EVT_DISCONNECTED
  | BLE_GATTS_EVT_WRITE u16 u16 mem
  | BLE_GAP_EVT_CONN_PARAM_UPDATE ble_gap_conn_params
  | BLE_EVT_OTHER u16

record cp_state =
  m_conn_params_config :: ble_conn_params_init_t
  m_preferred_conn_params :: ble_gap_conn_params
  m_update_count :: u8
  m_conn_handle :: u16
  m_current_conn_params :: ble_gap_conn_params
  m_change_param :: bool

type_synonym 'e cp_world = "cp_state \<times> timer_state \<times> 'e"

record 'e cp_env =
  cp_prio :: u8
  m_conn_params_timer_id :: ptr
  update_timeout_handler_addr :: ptr
  sd_ble_gap_ppcp_set :: "ble_gap_conn_params \<Rightarrow> 'e \<Rightarrow> ret_code \<times> 'e"
  sd_ble_gap_ppcp_get :: "ble_gap_conn_params \<Rightarrow> 'e \<Rightarrow> ret_code \<times> ble_gap_conn_params \<times> 'e"
  sd_ble_gap_conn_param_update :: "u16 \<Rightarrow> ble_gap_conn_params \<Rightarrow> 'e \<Rightarrow> ret_code \<times> 'e"
  sd_ble_gap_disconnect :: "u16 \<Rightarrow> u8 \<Rightarrow> 'e \<Rightarrow> ret_code \<times> 'e"
  call_cp_evt_handler :: "ptr \<Rightarrow> ble_conn_params_evt \<Rightarrow> 'e cp_world \<Rightarrow> 'e cp_world"
  call_cp_error_handler :: "ptr \<Rightarrow> ret_code \<Rightarrow> 'e cp_world \<Rightarrow> 'e cp_world"

definition ble_srv_is_notification_enabled :: "mem \<Rightarrow> bool" where
  "ble_srv_is_notification_enabled p_encoded_data \<longleftrightarrow>
     uint16_decode 0 p_encoded_data AND BLE_GATT_HVX_NOTIFICATION \<noteq> 0"

subsection \<open>The handlers\<close>

definition is_conn_params_ok :: "cp_state \<Rightarrow> ble_gap_conn_params \<Rightarrow> bool" where
  "is_conn_params_ok s p \<longleftrightarrow>
     min_conn_interval (m_preferred_conn_params s) \<le> max_conn_interval p \<and>
     max_conn_interval p \<le> max_conn_interval (m_preferred_conn_params s)"

definition cp_notify :: "'e cp_env \<Rightarrow> ble_conn_params_evt \<Rightarrow> 'e cp_world \<Rightarrow> 'e cp_world" where
  "cp_notify env evt w =
     (let h = evt_handler (m_conn_params_config (fst w))
      in if h \<noteq> NULL then call_cp_evt_handler env h evt w else w)"

definition cp_report :: "'e cp_env \<Rightarrow> ret_code \<Rightarrow> 'e cp_world \<Rightarrow> 'e cp_world" where
  "cp_report env err_code w =
     (let h = error_handler (m_conn_params_config (fst w))
      in if err_code \<noteq> NRF_SUCCESS \<and> h \<noteq> NULL then call_cp_error_handler env h err_code w else w)"

definition update_timeout_handler :: "'e cp_env \<Rightarrow> 'e cp_world \<Rightarrow> 'e cp_world" where
  "update_timeout_handler env w =
     (case w of (s, t, e) \<Rightarrow>
      if m_conn_handle s \<noteq> BLE_CONN_HANDLE_INVALID then
        let s = s\<lparr>m_update_count := m_update_count s + 1\<rparr>
        in if m_update_count s \<le> max_conn_params_update_count (m_conn_params_config s) then
             (case sd_ble_gap_conn_param_update env (m_conn_handle s) (m_preferred_conn_params s) e of
                (err_code, e) \<Rightarrow> cp_report env err_code (s, t, e))
           else
             let s = s\<lparr>m_update_count := 0\<rparr>;
                 w = (if disconnect_on_fail (m_conn_params_config s) then
                        (case sd_ble_gap_disconnect env (m_conn_handle s) BLE_HCI_CONN_INTERVAL_UNACCEPTABLE e of
                           (err_code, e) \<Rightarrow> cp_report env err_code (s, t, e))
                      else (s, t, e))
             in cp_notify env BLE_CONN_PARAMS_EVT_FAILED w
      else w)"

definition cp_timer_start :: "'e cp_env \<Rightarrow> u32 \<Rightarrow> 'e cp_world \<Rightarrow> 'e cp_world" where
  "cp_timer_start env timeout_ticks w =
     (case w of (s, t, e) \<Rightarrow>
      case app_timer_start (cp_prio env) (m_conn_params_timer_id env) timeout_ticks NULL t of
        (err_code, t) \<Rightarrow> cp_report env err_code (s, t, e))"

definition cp_timer_stop :: "'e cp_env \<Rightarrow> 'e cp_world \<Rightarrow> 'e cp_world" where
  "cp_timer_stop env w =
     (case w of (s, t, e) \<Rightarrow>
      case app_timer_stop (cp_prio env) (m_conn_params_timer_id env) t of
        (err_code, t) \<Rightarrow> cp_report env err_code (s, t, e))"

definition conn_params_negotiation :: "'e cp_env \<Rightarrow> 'e cp_world \<Rightarrow> 'e cp_world" where
  "conn_params_negotiation env w =
     (let s = fst w;
          w = (if \<not> is_conn_params_ok s (m_current_conn_params s) then
                 if m_change_param s then cp_notify env BLE_CONN_PARAMS_EVT_FAILED w
                 else
                   let timeout_ticks =
                         (if m_update_count s = 0 then first_conn_params_update_delay (m_conn_params_config s)
                          else next_conn_params_update_delay (m_conn_params_config s))
                   in cp_timer_start env timeout_ticks w
               else cp_notify env BLE_CONN_PARAMS_EVT_SUCCEEDED w)
      in (fst w\<lparr>m_change_param := False\<rparr>, snd w))"

definition on_connect :: "'e cp_env \<Rightarrow> u16 \<Rightarrow> ble_gap_conn_params \<Rightarrow> 'e cp_world \<Rightarrow> 'e cp_world" where
  "on_connect env conn_handle conn_params w =
     (let s = (fst w)\<lparr>m_conn_handle := conn_handle, m_current_conn_params := conn_params, m_update_count := 0\<rparr>;
          w = (s, snd w)
      in if start_on_notify_cccd_handle (m_conn_params_config s) = BLE_GATT_HANDLE_INVALID
         then conn_params_negotiation env w else w)"

definition on_disconnect :: "'e cp_env \<Rightarrow> 'e cp_world \<Rightarrow> 'e cp_world" where
  "on_disconnect env w =
     cp_timer_stop env ((fst w)\<lparr>m_conn_handle := BLE_CONN_HANDLE_INVALID, m_update_count := 0\<rparr>, snd w)"

definition on_write :: "'e cp_env \<Rightarrow> u16 \<Rightarrow> u16 \<Rightarrow> mem \<Rightarrow> 'e cp_world \<Rightarrow> 'e cp_world" where
  "on_write env handle len data w =
     (if handle = start_on_notify_cccd_handle (m_conn_params_config (fst w)) \<and> len = 2 then
        if ble_srv_is_notification_enabled data then conn_params_negotiation env w else cp_timer_stop env w
      else w)"

definition on_conn_params_update :: "'e cp_env \<Rightarrow> ble_gap_conn_params \<Rightarrow> 'e cp_world \<Rightarrow> 'e cp_world" where
  "on_conn_params_update env conn_params w =
     conn_params_negotiation env ((fst w)\<lparr>m_current_conn_params := conn_params\<rparr>, snd w)"

definition ble_conn_params_on_ble_evt :: "'e cp_env \<Rightarrow> cp_ble_evt \<Rightarrow> 'e cp_world \<Rightarrow> 'e cp_world" where
  "ble_conn_params_on_ble_evt env p_ble_evt w =
     (case p_ble_evt of
        BLE_GAP_EVT_CONNECTED conn_handle conn_params \<Rightarrow> on_connect env conn_handle conn_params w
      | BLE_GAP_EVT_DISCONNECTED \<Rightarrow> on_disconnect env w
      | BLE_GATTS_EVT_WRITE handle len data \<Rightarrow> on_write env handle len data w
      | BLE_GAP_EVT_CONN_PARAM_UPDATE conn_params \<Rightarrow> on_conn_params_update env conn_params w
      | BLE_EVT_OTHER evt_id \<Rightarrow> w)"

subsection \<open>The interface\<close>

definition ble_conn_params_init :: "'e cp_env \<Rightarrow> ble_conn_params_init_t \<Rightarrow> 'e cp_world \<Rightarrow> ret_code \<times> 'e cp_world" where
  "ble_conn_params_init env p_init w =
     (case w of (s, t, e) \<Rightarrow>
      let s = s\<lparr>m_conn_params_config := p_init, m_change_param := False\<rparr>;
          (err_code, s, e) =
            (case p_conn_params p_init of
               Some p \<Rightarrow>
                 let s = s\<lparr>m_preferred_conn_params := p\<rparr>
                 in (case sd_ble_gap_ppcp_set env p e of (err_code, e) \<Rightarrow> (err_code, s, e))
             | None \<Rightarrow>
                 (case sd_ble_gap_ppcp_get env (m_preferred_conn_params s) e of
                    (err_code, p, e) \<Rightarrow> (err_code, s\<lparr>m_preferred_conn_params := p\<rparr>, e)))
      in if err_code \<noteq> NRF_SUCCESS then (err_code, s, t, e)
         else
           let s = s\<lparr>m_conn_handle := BLE_CONN_HANDLE_INVALID, m_update_count := 0\<rparr>
           in (case app_timer_create (Some (m_conn_params_timer_id env)) APP_TIMER_MODE_SINGLE_SHOT
                 (update_timeout_handler_addr env) t of (err_code, t) \<Rightarrow> (err_code, s, t, e)))"

definition ble_conn_params_stop :: "'e cp_env \<Rightarrow> 'e cp_world \<Rightarrow> ret_code \<times> 'e cp_world" where
  "ble_conn_params_stop env w =
     (case w of (s, t, e) \<Rightarrow>
      case app_timer_stop (cp_prio env) (m_conn_params_timer_id env) t of (err_code, t) \<Rightarrow> (err_code, s, t, e))"

definition ble_conn_params_change_conn_params ::
  "'e cp_env \<Rightarrow> ble_gap_conn_params \<Rightarrow> 'e cp_world \<Rightarrow> ret_code \<times> 'e cp_world" where
  "ble_conn_params_change_conn_params env new_params w =
     (case w of (s, t, e) \<Rightarrow>
      let s = s\<lparr>m_preferred_conn_params := new_params\<rparr>
      in case sd_ble_gap_ppcp_set env new_params e of (err_code, e) \<Rightarrow>
         if err_code = NRF_SUCCESS then
           if \<not> is_conn_params_ok s (m_current_conn_params s) then
             let s = s\<lparr>m_change_param := True\<rparr>
             in case sd_ble_gap_conn_param_update env (m_conn_handle s) (m_preferred_conn_params s) e of
                  (err_code, e) \<Rightarrow> (err_code, s\<lparr>m_update_count := 1\<rparr>, t, e)
           else (NRF_SUCCESS, cp_notify env BLE_CONN_PARAMS_EVT_SUCCEEDED (s, t, e))
         else (err_code, s, t, e))"

end
