(* ===== verification/ConnParamsThms.thy ===== *)
theory ConnParamsThms
  imports ConnParams
begin

text \<open>
  Correctness of the negotiation of connection parameters. What the module does to the outside is a list
  of outputs, which an observation \<open>obs\<close> of the environment records; the handlers of the application record their
  calls and leave the module's state alone.
\<close>

unbundle bit_operations_syntax

subsection \<open>Outputs\<close>

datatype cp_out = Req u16 ble_gap_conn_params | Disc u16 | Evt ble_conn_params_evt

definition cp_observed :: "'e cp_env \<Rightarrow> ('e \<Rightarrow> cp_out list) \<Rightarrow> bool" where
  "cp_observed env obs \<longleftrightarrow>
     (\<forall>h p e. obs (snd (sd_ble_gap_conn_param_update env h p e)) = obs e @ [Req h p]) \<and>
     (\<forall>h r e. obs (snd (sd_ble_gap_disconnect env h r e)) = obs e @ [Disc h]) \<and>
     (\<forall>h evt s t e. \<exists>t' e'. call_cp_evt_handler env h evt (s, t, e) = (s, t', e') \<and> obs e' = obs e @ [Evt evt]) \<and>
     (\<forall>h c s t e. \<exists>t' e'. call_cp_error_handler env h c (s, t, e) = (s, t', e') \<and> obs e' = obs e)"

text \<open>\<open>gives obs w s os w'\<close>: the module's state ins \<open>s\<close> afterwards, and the outputs \<open>os\<close> were made.\<close>

definition gives :: "('e \<Rightarrow> cp_out list) \<Rightarrow> 'e cp_world \<Rightarrow> cp_state \<Rightarrow> cp_out list \<Rightarrow> 'e cp_world \<Rightarrow> bool" where
  "gives obs w s os w' \<longleftrightarrow> fst w' = s \<and> obs (snd (snd w')) = obs (snd (snd w)) @ os"

definition evt_out :: "cp_state \<Rightarrow> ble_conn_params_evt \<Rightarrow> cp_out list" where
  "evt_out s evt = (if evt_handler (m_conn_params_config s) \<noteq> NULL then [Evt evt] else [])"

lemma givesI: "fst w' = s \<Longrightarrow> obs (snd (snd w')) = obs (snd (snd w)) @ os \<Longrightarrow> gives obs w s os w'"
  by (simp add: gives_def)

lemma gives_trans: "gives obs w s os w' \<Longrightarrow> gives obs w' s' os' w'' \<Longrightarrow> gives obs w s' (os @ os') w''"
  by (simp add: gives_def)

lemma cp_observedD:
  assumes "cp_observed env obs"
  shows "obs (snd (sd_ble_gap_conn_param_update env h p e)) = obs e @ [Req h p]"
    "obs (snd (sd_ble_gap_disconnect env h r e)) = obs e @ [Disc h]"
    "\<exists>t' e'. call_cp_evt_handler env q evt (s, t, e) = (s, t', e') \<and> obs e' = obs e @ [Evt evt]"
    "\<exists>t' e'. call_cp_error_handler env q c (s, t, e) = (s, t', e') \<and> obs e' = obs e"
  using assms unfolding cp_observed_def by blast+

lemma cp_report_gives: "cp_observed env obs \<Longrightarrow> gives obs w (fst w) [] (cp_report env c w)"
proof -
  assume o: "cp_observed env obs"
  obtain s t e where w: "w = (s, t, e)" by (cases w)
  from cp_observedD(4) [OF o, of "error_handler (m_conn_params_config s)" c s t e]
  show ?thesis by (auto simp: w cp_report_def gives_def Let_def)
qed

lemma cp_notify_gives: "cp_observed env obs \<Longrightarrow> gives obs w (fst w) (evt_out (fst w) evt) (cp_notify env evt w)"
proof -
  assume o: "cp_observed env obs"
  obtain s t e where w: "w = (s, t, e)" by (cases w)
  from cp_observedD(3) [OF o, of "evt_handler (m_conn_params_config s)" evt s t e]
  show ?thesis by (auto simp: w cp_notify_def gives_def evt_out_def Let_def)
qed

lemma cp_timer_gives:
  assumes "cp_observed env obs"
  shows "gives obs w (fst w) [] (cp_timer_start env n w)" "gives obs w (fst w) [] (cp_timer_stop env w)"
proof -
  obtain s t e where w: "w = (s, t, e)" by (cases w)
  note r = cp_report_gives [OF assms, where w = "(s, t', e)" for t']
  show "gives obs w (fst w) [] (cp_timer_start env n w)"
    using r by (simp add: w cp_timer_start_def gives_def split: prod.splits)
  show "gives obs w (fst w) [] (cp_timer_stop env w)"
    using r by (simp add: w cp_timer_stop_def gives_def split: prod.splits)
qed

subsection \<open>The specification\<close>

text \<open>The inputs: events of the SoftDevice, and the expiry of the module's timer.\<close>

datatype cp_in = In_evt cp_ble_evt | In_timeout

definition timeout_spec :: "cp_state \<Rightarrow> cp_state \<times> cp_out list" where
  "timeout_spec s =
     (if m_conn_handle s = BLE_CONN_HANDLE_INVALID then (s, [])
      else if m_update_count s + 1 \<le> max_conn_params_update_count (m_conn_params_config s)
      then (s\<lparr>m_update_count := m_update_count s + 1\<rparr>, [Req (m_conn_handle s) (m_preferred_conn_params s)])
      else (s\<lparr>m_update_count := 0\<rparr>,
        (if disconnect_on_fail (m_conn_params_config s) then [Disc (m_conn_handle s)] else []) @
        evt_out s BLE_CONN_PARAMS_EVT_FAILED))"

definition negotiation_spec :: "cp_state \<Rightarrow> cp_state \<times> cp_out list" where
  "negotiation_spec s =
     (s\<lparr>m_change_param := False\<rparr>,
      if is_conn_params_ok s (m_current_conn_params s) then evt_out s BLE_CONN_PARAMS_EVT_SUCCEEDED
      else if m_change_param s then evt_out s BLE_CONN_PARAMS_EVT_FAILED else [])"

fun evt_spec :: "cp_ble_evt \<Rightarrow> cp_state \<Rightarrow> cp_state \<times> cp_out list" where
  "evt_spec (BLE_GAP_EVT_CONNECTED h p) s =
     (let s = s\<lparr>m_conn_handle := h, m_current_conn_params := p, m_update_count := 0\<rparr>
      in if start_on_notify_cccd_handle (m_conn_params_config s) = BLE_GATT_HANDLE_INVALID
         then negotiation_spec s else (s, []))"
| "evt_spec BLE_GAP_EVT_DISCONNECTED s = (s\<lparr>m_conn_handle := BLE_CONN_HANDLE_INVALID, m_update_count := 0\<rparr>, [])"
| "evt_spec (BLE_GATTS_EVT_WRITE h n data) s =
     (if h = start_on_notify_cccd_handle (m_conn_params_config s) \<and> n = 2 \<and> ble_srv_is_notification_enabled data
      then negotiation_spec s else (s, []))"
| "evt_spec (BLE_GAP_EVT_CONN_PARAM_UPDATE p) s = negotiation_spec (s\<lparr>m_current_conn_params := p\<rparr>)"
| "evt_spec (BLE_EVT_OTHER n) s = (s, [])"

fun cp_spec :: "cp_in \<Rightarrow> cp_state \<Rightarrow> cp_state \<times> cp_out list" where
  "cp_spec (In_evt evt) s = evt_spec evt s"
| "cp_spec In_timeout s = timeout_spec s"

fun cp_step :: "'e cp_env \<Rightarrow> cp_in \<Rightarrow> 'e cp_world \<Rightarrow> 'e cp_world" where
  "cp_step env (In_evt evt) w = ble_conn_params_on_ble_evt env evt w"
| "cp_step env In_timeout w = update_timeout_handler env w"

lemma timeout_gives:
  assumes "cp_observed env obs"
  shows "gives obs w (fst (timeout_spec (fst w))) (snd (timeout_spec (fst w))) (update_timeout_handler env w)"
proof -
  obtain s t e where w: "w = (s, t, e)" by (cases w)
  note report = cp_report_gives [OF assms] and notify = cp_notify_gives [OF assms]
  note obs = cp_observedD(1,2) [OF assms]
  let ?d = "sd_ble_gap_disconnect env (m_conn_handle s) BLE_HCI_CONN_INTERVAL_UNACCEPTABLE e"
  let ?r = "sd_ble_gap_conn_param_update env (m_conn_handle s) (m_preferred_conn_params s) e"
  let ?s0 = "s\<lparr>m_update_count := 0\<rparr>" and ?s1 = "s\<lparr>m_update_count := m_update_count s + 1\<rparr>"
  consider (none) "m_conn_handle s = BLE_CONN_HANDLE_INVALID"
    | (retry) "m_conn_handle s \<noteq> BLE_CONN_HANDLE_INVALID" "m_update_count s + 1 \<le> max_conn_params_update_count (m_conn_params_config s)"
    | (fail) "m_conn_handle s \<noteq> BLE_CONN_HANDLE_INVALID" "\<not> m_update_count s + 1 \<le> max_conn_params_update_count (m_conn_params_config s)"
    by blast
  then show ?thesis
  proof cases
    case none
    then show ?thesis by (simp add: w update_timeout_handler_def timeout_spec_def gives_def)
  next
    case retry
    then show ?thesis
      using report [of "(?s1, t, snd ?r)" "fst ?r"] obs(1) [of "m_conn_handle s" "m_preferred_conn_params s" e]
      by (simp add: w update_timeout_handler_def timeout_spec_def gives_def split_beta)
  next
    case fail
    define w1 where "w1 = (if disconnect_on_fail (m_conn_params_config s) then cp_report env (fst ?d) (?s0, t, snd ?d) else (?s0, t, e))"
    have "gives obs w ?s0 (if disconnect_on_fail (m_conn_params_config s) then [Disc (m_conn_handle s)] else []) w1"
      using report [of "(?s0, t, snd ?d)" "fst ?d"] obs(2) [of "m_conn_handle s" _ e] by (simp add: w1_def w gives_def)
    moreover from this have "gives obs w1 ?s0 (evt_out s BLE_CONN_PARAMS_EVT_FAILED) (cp_notify env BLE_CONN_PARAMS_EVT_FAILED w1)"
      using notify [of w1 BLE_CONN_PARAMS_EVT_FAILED] by (simp add: gives_def evt_out_def)
    moreover have "update_timeout_handler env w = cp_notify env BLE_CONN_PARAMS_EVT_FAILED w1"
      using fail by (simp add: w update_timeout_handler_def w1_def split_beta)
    ultimately show ?thesis using fail gives_trans by (fastforce simp: w timeout_spec_def)
  qed
qed

lemma negotiation_gives:
  assumes "cp_observed env obs"
  shows "gives obs w (fst (negotiation_spec (fst w))) (snd (negotiation_spec (fst w))) (conn_params_negotiation env w)"
  using cp_notify_gives [OF assms, of w] cp_timer_gives(1) [OF assms, of w]
  by (simp add: conn_params_negotiation_def negotiation_spec_def gives_def Let_def)

lemma cp_step_gives:
  assumes "cp_observed env obs"
  shows "gives obs w (fst (cp_spec i (fst w))) (snd (cp_spec i (fst w))) (cp_step env i w)"
proof -
  note n = negotiation_gives [OF assms] and t = cp_timer_gives(2) [OF assms]
  obtain s t' e where w: "w = (s, t', e)" by (cases w)
  show ?thesis
  proof (cases i)
    case In_timeout
    then show ?thesis using timeout_gives [OF assms] by simp
  next
    case (In_evt evt)
    then show ?thesis
    proof (cases evt)
      case (BLE_GAP_EVT_CONNECTED h p)
      then show ?thesis
        using n [of "(s\<lparr>m_conn_handle := h, m_current_conn_params := p, m_update_count := 0\<rparr>, t', e)"] In_evt
        by (simp add: w ble_conn_params_on_ble_evt_def on_connect_def gives_def Let_def)
    next
      case BLE_GAP_EVT_DISCONNECTED
      then show ?thesis
        using t [of "(s\<lparr>m_conn_handle := BLE_CONN_HANDLE_INVALID, m_update_count := 0\<rparr>, t', e)"] In_evt
        by (simp add: w ble_conn_params_on_ble_evt_def on_disconnect_def gives_def)
    next
      case (BLE_GATTS_EVT_WRITE h k data)
      then show ?thesis
        using n [of w] t [of w] In_evt by (simp add: w ble_conn_params_on_ble_evt_def on_write_def gives_def)
    next
      case (BLE_GAP_EVT_CONN_PARAM_UPDATE p)
      then show ?thesis
        using n [of "(s\<lparr>m_current_conn_params := p\<rparr>, t', e)"] In_evt
        by (simp add: w ble_conn_params_on_ble_evt_def on_conn_params_update_def gives_def)
    next
      case (BLE_EVT_OTHER k)
      then show ?thesis using In_evt by (simp add: w ble_conn_params_on_ble_evt_def gives_def)
    qed
  qed
qed

subsection \<open>Runs\<close>

definition cp_run :: "'e cp_env \<Rightarrow> cp_in list \<Rightarrow> 'e cp_world \<Rightarrow> 'e cp_world" where
  "cp_run env ins w = fold (cp_step env) ins w"

fun cp_run_spec :: "cp_in list \<Rightarrow> cp_state \<Rightarrow> cp_state \<times> cp_out list" where
  "cp_run_spec [] s = (s, [])"
| "cp_run_spec (i # ins) s =
     (case cp_spec i s of (s, os) \<Rightarrow> case cp_run_spec ins s of (s, os') \<Rightarrow> (s, os @ os'))"

lemma cp_run_spec_append:
  "cp_run_spec (ins @ js) s =
     (case cp_run_spec ins s of (s, os) \<Rightarrow> case cp_run_spec js s of (s, os') \<Rightarrow> (s, os @ os'))"
  by (induction ins arbitrary: s) (simp_all add: split_beta)

lemma cp_run_gives:
  assumes "cp_observed env obs"
  shows "gives obs w (fst (cp_run_spec ins (fst w))) (snd (cp_run_spec ins (fst w))) (cp_run env ins w)"
proof (induction ins arbitrary: w)
  case Nil
  then show ?case by (simp add: cp_run_def gives_def)
next
  case (Cons i ins)
  have s: "fst (cp_step env i w) = fst (cp_spec i (fst w))" using cp_step_gives [OF assms, of w i] by (simp add: gives_def)
  show ?case
    using gives_trans [OF cp_step_gives [OF assms, of w i] Cons [of "cp_step env i w"]]
    by (simp add: s cp_run_def split_beta)
qed

text \<open>The configuration and the preferred parameters are constant.\<close>

lemma cp_spec_config:
  "m_conn_params_config (fst (cp_spec i s)) = m_conn_params_config s"
  "m_preferred_conn_params (fst (cp_spec i s)) = m_preferred_conn_params s"
proof -
  have "m_conn_params_config (fst (evt_spec evt s)) = m_conn_params_config s \<and>
      m_preferred_conn_params (fst (evt_spec evt s)) = m_preferred_conn_params s" for evt
    by (cases evt) (simp_all add: negotiation_spec_def Let_def)
  moreover have "m_conn_params_config (fst (timeout_spec s)) = m_conn_params_config s \<and>
      m_preferred_conn_params (fst (timeout_spec s)) = m_preferred_conn_params s"
    by (simp add: timeout_spec_def)
  ultimately show "m_conn_params_config (fst (cp_spec i s)) = m_conn_params_config s"
    "m_preferred_conn_params (fst (cp_spec i s)) = m_preferred_conn_params s" by (cases i; simp)+
qed

lemma cp_run_spec_config:
  "m_conn_params_config (fst (cp_run_spec ins s)) = m_conn_params_config s"
  "m_preferred_conn_params (fst (cp_run_spec ins s)) = m_preferred_conn_params s"
  by (induction ins arbitrary: s) (simp_all add: split_beta cp_spec_config)

text \<open>The link that the events speak of.\<close>

fun link_after :: "cp_in \<Rightarrow> u16 \<Rightarrow> u16" where
  "link_after (In_evt (BLE_GAP_EVT_CONNECTED h p)) l = h"
| "link_after (In_evt BLE_GAP_EVT_DISCONNECTED) l = BLE_CONN_HANDLE_INVALID"
| "link_after _ l = l"

lemma cp_spec_link: "m_conn_handle (fst (cp_spec i s)) = link_after i (m_conn_handle s)"
proof (cases i)
  case (In_evt evt)
  then show ?thesis by (cases evt) (simp_all add: negotiation_spec_def Let_def)
qed (simp add: timeout_spec_def)

lemma cp_run_spec_link: "m_conn_handle (fst (cp_run_spec ins s)) = fold link_after ins (m_conn_handle s)"
  by (induction ins arbitrary: s) (simp_all add: split_beta cp_spec_link)

lemma evt_out_set: "x \<in> set (evt_out s evt) \<Longrightarrow> x = Evt evt"
  by (simp add: evt_out_def split: if_splits)

lemma cp_spec_outputs:
  assumes "x \<in> set (snd (cp_spec i s))"
  shows "(\<exists>evt. x = Evt evt) \<or> (i = In_timeout \<and> m_conn_handle s \<noteq> BLE_CONN_HANDLE_INVALID \<and>
    (x = Req (m_conn_handle s) (m_preferred_conn_params s) \<or>
     x = Disc (m_conn_handle s) \<and> disconnect_on_fail (m_conn_params_config s)))"
proof (cases i)
  case (In_evt evt)
  then have "x \<in> set (snd (evt_spec evt s))" using assms by simp
  then show ?thesis
    using evt_out_set by (cases evt) (fastforce simp: negotiation_spec_def Let_def split: if_splits)+
next
  case In_timeout
  then show ?thesis using assms evt_out_set by (fastforce simp: timeout_spec_def split: if_splits)
qed

text \<open>The attempts that are left.\<close>

lemma cp_spec_count:
  "m_update_count s \<le> max_conn_params_update_count (m_conn_params_config s) \<Longrightarrow>
   m_update_count (fst (cp_spec i s)) \<le> max_conn_params_update_count (m_conn_params_config s)"
proof (cases i)
  case (In_evt evt)
  then show "m_update_count s \<le> max_conn_params_update_count (m_conn_params_config s) \<Longrightarrow> ?thesis"
    by (cases evt) (simp_all add: negotiation_spec_def Let_def)
qed (simp add: timeout_spec_def)

lemma cp_run_spec_count:
  "m_update_count s \<le> max_conn_params_update_count (m_conn_params_config s) \<Longrightarrow>
   m_update_count (fst (cp_run_spec ins s)) \<le> max_conn_params_update_count (m_conn_params_config s)"
proof (induction ins arbitrary: s)
  case (Cons i ins)
  then show ?case using Cons.IH [of "fst (cp_spec i s)"] cp_spec_count [of s i] by (simp add: split_beta cp_spec_config)
qed simp

subsection \<open>Rounds of a negotiation\<close>

text \<open>The timer expires, and the peer answers the request with the parameters of the list.\<close>

definition rounds :: "ble_gap_conn_params list \<Rightarrow> cp_in list" where
  "rounds ps = concat (map (\<lambda>p. [In_timeout, In_evt (BLE_GAP_EVT_CONN_PARAM_UPDATE p)]) ps)"

lemma u8_le_max: "x \<le> 0xFF" for x :: u8
proof -
  have m: "(0xFF :: u8) = - 1" by simp
  show ?thesis unfolding m by (rule word_order.extremum)
qed

lemma cp_round:
  assumes "m_conn_handle s \<noteq> BLE_CONN_HANDLE_INVALID" "\<not> m_change_param s" "\<not> is_conn_params_ok s p"
    "m_update_count s + 1 \<le> max_conn_params_update_count (m_conn_params_config s)"
  shows "cp_run_spec [In_timeout, In_evt (BLE_GAP_EVT_CONN_PARAM_UPDATE p)] s =
    (s\<lparr>m_update_count := m_update_count s + 1, m_current_conn_params := p, m_change_param := False\<rparr>,
     [Req (m_conn_handle s) (m_preferred_conn_params s)])"
  using assms by (auto simp: timeout_spec_def negotiation_spec_def is_conn_params_ok_def)

lemma cp_rounds:
  assumes "m_conn_handle s \<noteq> BLE_CONN_HANDLE_INVALID" "\<not> m_change_param s" "\<forall>p \<in> set ps. \<not> is_conn_params_ok s p"
    "unat (m_update_count s) + length ps \<le> unat (max_conn_params_update_count (m_conn_params_config s)) \<or>
     max_conn_params_update_count (m_conn_params_config s) = 0xFF"
  shows "\<exists>q. cp_run_spec (rounds ps) s =
    (s\<lparr>m_update_count := m_update_count s + of_nat (length ps), m_current_conn_params := q, m_change_param := False\<rparr>,
     replicate (length ps) (Req (m_conn_handle s) (m_preferred_conn_params s)))"
  using assms
proof (induction ps arbitrary: s)
  case Nil
  then show ?case by (intro exI [of _ "m_current_conn_params s"]) (simp add: rounds_def)
next
  case (Cons p ps)
  let ?m = "max_conn_params_update_count (m_conn_params_config s)"
  let ?s = "s\<lparr>m_update_count := m_update_count s + 1, m_current_conn_params := p, m_change_param := False\<rparr>"
  have le: "m_update_count s + 1 \<le> ?m \<and>
      (unat (m_update_count s + 1) + length ps \<le> unat ?m \<or> ?m = 0xFF)"
  proof (cases "?m = 0xFF")
    case True
    then show ?thesis by (simp add: u8_le_max)
  next
    case False
    then have l: "unat (m_update_count s) + Suc (length ps) \<le> unat ?m" using Cons.prems(4) by simp
    then have "m_update_count s < ?m" by (simp add: word_less_nat_alt)
    then have "unat (m_update_count s + 1) = Suc (unat (m_update_count s))" by (metis unat_Suc_less)
    then show ?thesis using l by (simp add: word_le_nat_alt)
  qed
  have r: "cp_run_spec [In_timeout, In_evt (BLE_GAP_EVT_CONN_PARAM_UPDATE p)] s =
      (?s, [Req (m_conn_handle s) (m_preferred_conn_params s)])"
    by (rule cp_round) (use Cons.prems le in simp_all)
  obtain q where q: "cp_run_spec (rounds ps) ?s =
      (?s\<lparr>m_update_count := m_update_count ?s + of_nat (length ps), m_current_conn_params := q, m_change_param := False\<rparr>,
       replicate (length ps) (Req (m_conn_handle s) (m_preferred_conn_params s)))"
    using Cons.IH [of ?s] Cons.prems le by (auto simp: is_conn_params_ok_def)
  have "rounds (p # ps) = [In_timeout, In_evt (BLE_GAP_EVT_CONN_PARAM_UPDATE p)] @ rounds ps" by (simp add: rounds_def)
  then show ?case
    by (intro exI [of _ q]) (simp only: cp_run_spec_append r q prod.case, simp add: algebra_simps)
qed

text \<open>
  A change of parameters is asked for on a link that may not exist, and if it is refused, the flag that it is
  under way stays: the next connection is told that the negotiation has failed before it has begun.
\<close>

lemma change_without_link:
  assumes "cp_observed env obs" "fst (sd_ble_gap_ppcp_set env p e) = NRF_SUCCESS"
    "\<not> is_conn_params_ok (s\<lparr>m_preferred_conn_params := p\<rparr>) (m_current_conn_params s)"
    "ble_conn_params_change_conn_params env p (s, t, e) = (err_code, s', t', e')"
  shows "m_change_param s' \<and> obs e' = obs (snd (sd_ble_gap_ppcp_set env p e)) @ [Req (m_conn_handle s) p]"
  using assms cp_observedD(1) [OF assms(1), of "m_conn_handle s" p "snd (sd_ble_gap_ppcp_set env p e)"]
  by (auto simp: ble_conn_params_change_conn_params_def split_beta)

lemma change_pending_fails:
  assumes "m_change_param s" "\<not> is_conn_params_ok s p"
    "start_on_notify_cccd_handle (m_conn_params_config s) = BLE_GATT_HANDLE_INVALID"
  shows "snd (cp_spec (In_evt (BLE_GAP_EVT_CONNECTED h p)) s) = evt_out s BLE_CONN_PARAMS_EVT_FAILED"
  using assms by (auto simp: Let_def negotiation_spec_def is_conn_params_ok_def evt_out_def)

subsection \<open>Properties\<close>


text \<open>An environment that lists the outputs, in which everything succeeds.\<close>

definition cp_example :: "cp_out list cp_env" where
  "cp_example = \<lparr>cp_prio = 3, m_conn_params_timer_id = 8, update_timeout_handler_addr = 16,
     sd_ble_gap_ppcp_set = (\<lambda>p e. (NRF_SUCCESS, e)), sd_ble_gap_ppcp_get = (\<lambda>p e. (NRF_SUCCESS, p, e)),
     sd_ble_gap_conn_param_update = (\<lambda>h p e. (NRF_SUCCESS, e @ [Req h p])),
     sd_ble_gap_disconnect = (\<lambda>h r e. (NRF_SUCCESS, e @ [Disc h])),
     call_cp_evt_handler = (\<lambda>h evt (s, t, e). (s, t, e @ [Evt evt])),
     call_cp_error_handler = (\<lambda>h c w. w)\<rparr>"

lemma cp_example_observed: "cp_observed cp_example (\<lambda>e. e)"
  by (simp add: cp_observed_def cp_example_def)

definition cp_example_params :: "u16 \<Rightarrow> ble_gap_conn_params" where
  "cp_example_params n = \<lparr>min_conn_interval = 8, max_conn_interval = n, slave_latency = 0, conn_sup_timeout = 400\<rparr>"

definition cp_example_config :: ble_conn_params_init_t where
  "cp_example_config = \<lparr>p_conn_params = Some (cp_example_params 16), first_conn_params_update_delay = 100,
     next_conn_params_update_delay = 200, max_conn_params_update_count = 2, start_on_notify_cccd_handle = 0,
     disconnect_on_fail = True, evt_handler = 24, error_handler = 0\<rparr>"

definition cp_example_state :: cp_state where
  "cp_example_state = \<lparr>m_conn_params_config = cp_example_config, m_preferred_conn_params = cp_example_params 16,
     m_update_count = 0, m_conn_handle = BLE_CONN_HANDLE_INVALID, m_current_conn_params = cp_example_params 0,
     m_change_param = False\<rparr>"




end
