(* ===== verification/Advertising.thy ===== *)
theory Advertising
  imports AdvData Fstorage Pstorage
begin

text \<open>
  The advertising state machine, \<^verbatim>\<open>ble/ble_advertising/ble_advertising.c\<close>, on top of the advertising data encoder
  and the two flash storages, of which the environment holds the states. The SoftDevice, the handlers of the application and the contents of the environment are the
  parameter \<open>adv_env\<close>; handlers may call back and change everything.
\<close>

unbundle bit_operations_syntax

subsection \<open>Data\<close>

abbreviation (input) "BLE_GAP_ADV_TYPE_ADV_IND \<equiv> 0x00 :: u8"
abbreviation (input) "BLE_GAP_ADV_TYPE_ADV_DIRECT_IND \<equiv> 0x01 :: u8"
abbreviation (input) "BLE_GAP_ADV_FP_ANY \<equiv> 0x00 :: u8"
abbreviation (input) "BLE_GAP_ADV_FP_FILTER_CONNREQ \<equiv> 0x02 :: u8"
abbreviation (input) "BLE_GAP_ADV_FLAG_BR_EDR_NOT_SUPPORTED \<equiv> 0x04 :: u8"
abbreviation (input) "BLE_GAP_ADV_FLAGS_LE_ONLY_GENERAL_DISC_MODE \<equiv> 0x06 :: u8"
abbreviation (input) "BLE_GAP_ROLE_PERIPH \<equiv> 0x1 :: u8"
abbreviation (input) "BLE_GAP_TIMEOUT_SRC_ADVERTISING \<equiv> 0x00 :: u8"
abbreviation (input) "BLE_CONN_HANDLE_INVALID \<equiv> 0xFFFF :: u16"

datatype ble_adv_mode =
  BLE_ADV_MODE_IDLE | BLE_ADV_MODE_DIRECTED | BLE_ADV_MODE_DIRECTED_SLOW | BLE_ADV_MODE_FAST | BLE_ADV_MODE_SLOW

datatype ble_adv_evt =
    BLE_ADV_EVT_IDLE | BLE_ADV_EVT_DIRECTED | BLE_ADV_EVT_DIRECTED_SLOW | BLE_ADV_EVT_FAST | BLE_ADV_EVT_SLOW
  | BLE_ADV_EVT_FAST_WHITELIST | BLE_ADV_EVT_SLOW_WHITELIST | BLE_ADV_EVT_WHITELIST_REQUEST | BLE_ADV_EVT_PEER_ADDR_REQUEST

record ble_adv_modes_config =
  ble_adv_whitelist_enabled :: bool
  ble_adv_directed_enabled :: bool
  ble_adv_directed_slow_enabled :: bool
  ble_adv_directed_slow_interval :: u32
  ble_adv_directed_slow_timeout :: u32
  ble_adv_fast_enabled :: bool
  ble_adv_fast_interval :: u32
  ble_adv_fast_timeout :: u32
  ble_adv_slow_enabled :: bool
  ble_adv_slow_interval :: u32
  ble_adv_slow_timeout :: u32

record ble_gap_addr =
  addr_type :: u8
  addr :: "u8 list"

record ble_gap_whitelist =
  pp_addrs :: "ptr list"
  addr_count :: u8
  pp_irks :: "ptr list"
  irk_count :: u8

text \<open>Pointers to the peer address and the whitelist of the module are their values at the call.\<close>

record ble_gap_adv_params =
  adv_type :: u8
  p_peer_addr :: "ble_gap_addr option"
  fp :: u8
  p_whitelist :: "ble_gap_whitelist option"
  adv_interval :: u16
  adv_timeout :: u16

datatype adv_ble_evt =
    BLE_GAP_EVT_CONNECTED u8 u16
  | BLE_GAP_EVT_DISCONNECTED u16
  | BLE_GAP_EVT_TIMEOUT u8
  | BLE_EVT_OTHER u16

record adv_state =
  m_advertising_start_pending :: bool
  m_peer_address :: ble_gap_addr
  m_advdata :: ble_advdata
  m_adv_evt :: ble_adv_evt
  m_evt_handler :: ptr
  m_error_handler :: ptr
  m_adv_mode_current :: ble_adv_mode
  m_adv_modes_config :: ble_adv_modes_config
  m_whitelist :: ble_gap_whitelist
  m_whitelist_temporarily_disabled :: bool
  m_whitelist_reply_expected :: bool
  m_peer_addr_reply_expected :: bool
  current_slave_link_conn_handle :: u16

type_synonym 'e adv_world = "adv_state \<times> mem \<times> 'e"

text \<open>
  \<open>manuf_array\<close> and \<open>service_array\<close> are the addresses of the two static arrays of 31 bytes, \<open>adv_buf\<close> and \<open>sr_buf\<close>
  those on the stack of \<^verbatim>\<open>ble_advdata_set\<close>; \<open>behind_service_data\<close> is what lies in memory after \<^verbatim>\<open>m_service_data\<close>.
\<close>

record 'e adv_env =
  adv_sd :: softdevice
  adv_buf :: ptr
  sr_buf :: ptr
  manuf_array :: ptr
  service_array :: ptr
  behind_service_data :: "nat \<Rightarrow> ble_advdata_service_data"
  adv_ps_state :: "'e \<Rightarrow> ps_state"
  adv_fs_state :: "'e \<Rightarrow> fs_state"
  sd_ble_gap_adv_start :: "ble_gap_adv_params \<Rightarrow> 'e \<Rightarrow> ret_code \<times> 'e"
  sd_ble_gap_adv_stop :: "'e \<Rightarrow> ret_code \<times> 'e"
  call_adv_evt_handler :: "ptr \<Rightarrow> ble_adv_evt \<Rightarrow> 'e adv_world \<Rightarrow> 'e adv_world"
  call_adv_error_handler :: "ptr \<Rightarrow> ret_code \<Rightarrow> 'e adv_world \<Rightarrow> 'e adv_world"

definition whitelist_has_entries :: "ble_gap_whitelist \<Rightarrow> bool" where
  "whitelist_has_entries wl \<longleftrightarrow> addr_count wl \<noteq> 0 \<or> irk_count wl \<noteq> 0"

definition ble_advertising_peer_address_clear :: "adv_state \<Rightarrow> adv_state" where
  "ble_advertising_peer_address_clear s = s\<lparr>m_peer_address := \<lparr>addr_type = 0, addr = replicate 6 0\<rparr>\<rparr>"

definition peer_address_exists :: "u8 list \<Rightarrow> bool" where
  "peer_address_exists address \<longleftrightarrow> list_ex (\<lambda>b. b \<noteq> 0) address"

definition flash_access_in_progress :: "'e adv_env \<Rightarrow> 'e \<Rightarrow> bool" where
  "flash_access_in_progress env e =
     (case pstorage_access_status_get (adv_ps_state env e) of (err_code, count) \<Rightarrow>
        if err_code \<noteq> NRF_ERROR_INVALID_STATE \<and> err_code \<noteq> NRF_SUCCESS then True
        else if err_code = NRF_ERROR_INVALID_STATE then
          (case fs_queued_op_count_get (adv_fs_state env e) (Some 0) of (err_code, count) \<Rightarrow>
             if err_code \<noteq> FS_SUCCESS then False else count \<noteq> Some 0)
        else count \<noteq> Some 0)"

subsection \<open>Initialisation\<close>

text \<open>
  The copy loops have no bound but the size they are given. Of an array of service data the first element is
  copied, and the number of all of them.
\<close>

definition copy_manuf_data :: "'e adv_env \<Rightarrow> ble_advdata_manuf_data \<Rightarrow> mem \<Rightarrow> mem" where
  "copy_manuf_data env d m = memcpy (manuf_array env) (arr_data (manuf_data d)) (unat (arr_size (manuf_data d))) m"

definition copy_service_data :: "'e adv_env \<Rightarrow> ble_advdata_service_data \<Rightarrow> mem \<Rightarrow> mem" where
  "copy_service_data env d m = memcpy (service_array env) (arr_data (service_data d)) (unat (arr_size (service_data d))) m"

definition advdata_copy :: "'e adv_env \<Rightarrow> ble_advdata \<Rightarrow> ble_advdata" where
  "advdata_copy env p_advdata =
     \<lparr>name_type = name_type p_advdata, short_name_len = short_name_len p_advdata,
      include_appearance = include_appearance p_advdata, adv_flags = adv_flags p_advdata,
      p_tx_power_level = p_tx_power_level p_advdata,
      uuids_more_available = uuids_more_available p_advdata, uuids_complete = uuids_complete p_advdata,
      uuids_solicited = uuids_solicited p_advdata,
      p_slave_conn_int = p_slave_conn_int p_advdata,
      p_manuf_specific_data = map_option (\<lambda>d. \<lparr>company_identifier = company_identifier d,
        manuf_data = \<lparr>arr_size = arr_size (manuf_data d), arr_data = manuf_array env\<rparr>\<rparr>) (p_manuf_specific_data p_advdata),
      p_service_data_array = map_option (\<lambda>ds i. if i = 0 then \<lparr>service_uuid = service_uuid (ds 0),
        service_data = \<lparr>arr_size = arr_size (service_data (ds 0)), arr_data = service_array env\<rparr>\<rparr>
        else behind_service_data env i) (p_service_data_array p_advdata),
      service_data_count = (case p_service_data_array p_advdata of None \<Rightarrow> 0 | Some ds \<Rightarrow> service_data_count p_advdata),
      include_ble_device_addr = False, le_role = BLE_ADVDATA_ROLE_NOT_PRESENT,
      p_tk_value = None, p_sec_mgr_oob_flags = None\<rparr>"

definition ble_advertising_init ::
  "'e adv_env \<Rightarrow> ble_advdata option \<Rightarrow> ble_advdata option \<Rightarrow> ble_adv_modes_config option \<Rightarrow> ptr \<Rightarrow> ptr \<Rightarrow>
   'e adv_world \<Rightarrow> ret_code \<times> 'e adv_world" where
  "ble_advertising_init env p_advdata p_srdata p_config evt_hnd error_hnd w =
     (case (p_advdata, p_config) of
        (Some d, Some c) \<Rightarrow>
          (case w of (s, m, e) \<Rightarrow>
           let s = s\<lparr>m_adv_mode_current := BLE_ADV_MODE_IDLE, m_evt_handler := evt_hnd, m_error_handler := error_hnd,
                 m_adv_modes_config := c\<rparr>;
               s = ble_advertising_peer_address_clear s;
               m = (case p_manuf_specific_data d of None \<Rightarrow> m | Some x \<Rightarrow> copy_manuf_data env x m);
               m = (case p_service_data_array d of None \<Rightarrow> m | Some ds \<Rightarrow> copy_service_data env (ds 0) m);
               s = s\<lparr>m_advdata := advdata_copy env d\<rparr>
           in (case ble_advdata_set (adv_sd env) (adv_buf env) (sr_buf env) (Some (m_advdata s)) p_srdata m of
                 (err_code, m) \<Rightarrow> (err_code, s, m, e)))
      | _ \<Rightarrow> (NRF_ERROR_NULL, w))"

subsection \<open>Starting\<close>

definition adv_notify :: "'e adv_env \<Rightarrow> ble_adv_evt \<Rightarrow> 'e adv_world \<Rightarrow> 'e adv_world" where
  "adv_notify env evt w =
     (if m_evt_handler (fst w) \<noteq> NULL then call_adv_evt_handler env (m_evt_handler (fst w)) evt w else w)"

definition fetch_peer_address :: "'e adv_env \<Rightarrow> 'e adv_world \<Rightarrow> 'e adv_world" where
  "fetch_peer_address env w =
     (let s = fst w; c = m_adv_modes_config s; mode = m_adv_mode_current s
      in if ble_adv_directed_enabled c \<and> mode = BLE_ADV_MODE_DIRECTED \<or>
            ble_adv_directed_slow_enabled c \<and> mode = BLE_ADV_MODE_DIRECTED \<or>
            ble_adv_directed_slow_enabled c \<and> mode = BLE_ADV_MODE_DIRECTED_SLOW
         then if m_evt_handler s \<noteq> NULL
              then adv_notify env BLE_ADV_EVT_PEER_ADDR_REQUEST (s\<lparr>m_peer_addr_reply_expected := True\<rparr>, snd w)
              else (s\<lparr>m_peer_addr_reply_expected := False\<rparr>, snd w)
         else w)"

definition skip_disabled_modes :: "adv_state \<Rightarrow> adv_state" where
  "skip_disabled_modes s =
     (let c = m_adv_modes_config s;
          s = (if m_adv_mode_current s = BLE_ADV_MODE_DIRECTED \<and>
                  (\<not> ble_adv_directed_enabled c \<or> \<not> peer_address_exists (addr (m_peer_address s)))
               then s\<lparr>m_adv_mode_current := BLE_ADV_MODE_DIRECTED_SLOW\<rparr> else s);
          s = (if m_adv_mode_current s = BLE_ADV_MODE_DIRECTED_SLOW \<and>
                  (\<not> ble_adv_directed_slow_enabled c \<or> \<not> peer_address_exists (addr (m_peer_address s)))
               then s\<lparr>m_adv_mode_current := BLE_ADV_MODE_FAST\<rparr> else s);
          s = (if \<not> ble_adv_fast_enabled c \<and> m_adv_mode_current s = BLE_ADV_MODE_FAST
               then s\<lparr>m_adv_mode_current := BLE_ADV_MODE_SLOW\<rparr> else s)
      in if \<not> ble_adv_slow_enabled c \<and> m_adv_mode_current s = BLE_ADV_MODE_SLOW
         then s\<lparr>m_adv_mode_current := BLE_ADV_MODE_IDLE, m_adv_evt := BLE_ADV_EVT_IDLE\<rparr> else s)"

definition fetch_whitelist :: "'e adv_env \<Rightarrow> 'e adv_world \<Rightarrow> 'e adv_world" where
  "fetch_whitelist env w =
     (let s = fst w
      in if m_evt_handler s \<noteq> NULL \<and> (m_adv_mode_current s = BLE_ADV_MODE_FAST \<or> m_adv_mode_current s = BLE_ADV_MODE_SLOW) \<and>
            ble_adv_whitelist_enabled (m_adv_modes_config s) \<and> \<not> m_whitelist_temporarily_disabled s
         then adv_notify env BLE_ADV_EVT_WHITELIST_REQUEST (s\<lparr>m_whitelist_reply_expected := True\<rparr>, snd w)
         else (s\<lparr>m_whitelist_reply_expected := False\<rparr>, snd w))"

definition use_whitelist :: "adv_state \<Rightarrow> bool" where
  "use_whitelist s \<longleftrightarrow> whitelist_has_entries (m_whitelist s) \<and> ble_adv_whitelist_enabled (m_adv_modes_config s) \<and>
     \<not> m_whitelist_temporarily_disabled s"

definition adv_params_default :: ble_gap_adv_params where
  "adv_params_default = \<lparr>adv_type = BLE_GAP_ADV_TYPE_ADV_IND, p_peer_addr = None, fp = BLE_GAP_ADV_FP_ANY, p_whitelist = None,
     adv_interval = 0, adv_timeout = 0\<rparr>"

text \<open>The case of the fast and of the slow mode: with the whitelist, other advertising data are set.\<close>

definition whitelist_params ::
  "'e adv_env \<Rightarrow> ble_adv_evt \<Rightarrow> ble_adv_evt \<Rightarrow> ble_gap_adv_params \<Rightarrow> adv_state \<Rightarrow> mem \<Rightarrow>
   ret_code \<times> ble_gap_adv_params \<times> adv_state \<times> mem" where
  "whitelist_params env evt_whitelist evt adv_params s m =
     (if use_whitelist s then
        let adv_params = adv_params\<lparr>fp := BLE_GAP_ADV_FP_FILTER_CONNREQ, p_whitelist := Some (m_whitelist s)\<rparr>;
            s = s\<lparr>m_advdata := (m_advdata s)\<lparr>adv_flags := BLE_GAP_ADV_FLAG_BR_EDR_NOT_SUPPORTED\<rparr>\<rparr>
        in (case ble_advdata_set (adv_sd env) (adv_buf env) (sr_buf env) (Some (m_advdata s)) None m of (err_code, m) \<Rightarrow>
              if err_code \<noteq> NRF_SUCCESS then (err_code, adv_params, s, m)
              else (NRF_SUCCESS, adv_params, s\<lparr>m_adv_evt := evt_whitelist\<rparr>, m))
      else (NRF_SUCCESS, adv_params, s\<lparr>m_adv_evt := evt\<rparr>, m))"

definition mode_params :: "'e adv_env \<Rightarrow> adv_state \<Rightarrow> mem \<Rightarrow> ret_code \<times> ble_gap_adv_params \<times> adv_state \<times> mem" where
  "mode_params env s m =
     (let c = m_adv_modes_config s; adv_params = adv_params_default
      in case m_adv_mode_current s of
           BLE_ADV_MODE_DIRECTED \<Rightarrow>
             (NRF_SUCCESS, adv_params\<lparr>p_peer_addr := Some (m_peer_address s), adv_type := BLE_GAP_ADV_TYPE_ADV_DIRECT_IND,
                adv_timeout := 0, adv_interval := 0\<rparr>, s\<lparr>m_adv_evt := BLE_ADV_EVT_DIRECTED\<rparr>, m)
         | BLE_ADV_MODE_DIRECTED_SLOW \<Rightarrow>
             (NRF_SUCCESS, adv_params\<lparr>p_peer_addr := Some (m_peer_address s), adv_type := BLE_GAP_ADV_TYPE_ADV_DIRECT_IND,
                adv_timeout := ucast (ble_adv_directed_slow_timeout c), adv_interval := ucast (ble_adv_directed_slow_interval c)\<rparr>,
              s\<lparr>m_adv_evt := BLE_ADV_EVT_DIRECTED_SLOW\<rparr>, m)
         | BLE_ADV_MODE_FAST \<Rightarrow>
             whitelist_params env BLE_ADV_EVT_FAST_WHITELIST BLE_ADV_EVT_FAST
               (adv_params\<lparr>adv_timeout := ucast (ble_adv_fast_timeout c), adv_interval := ucast (ble_adv_fast_interval c)\<rparr>) s m
         | BLE_ADV_MODE_SLOW \<Rightarrow>
             whitelist_params env BLE_ADV_EVT_SLOW_WHITELIST BLE_ADV_EVT_SLOW
               (adv_params\<lparr>adv_timeout := ucast (ble_adv_slow_timeout c), adv_interval := ucast (ble_adv_slow_interval c)\<rparr>) s m
         | BLE_ADV_MODE_IDLE \<Rightarrow> (NRF_SUCCESS, adv_params, s, m))"

definition ble_advertising_start :: "'e adv_env \<Rightarrow> ble_adv_mode \<Rightarrow> 'e adv_world \<Rightarrow> ret_code \<times> 'e adv_world" where
  "ble_advertising_start env advertising_mode w =
     (case w of (s, m, e) \<Rightarrow>
      let s = s\<lparr>m_adv_mode_current := advertising_mode\<rparr>
      in if flash_access_in_progress env e then (NRF_SUCCESS, s\<lparr>m_advertising_start_pending := True\<rparr>, m, e)
         else
           let w = fetch_peer_address env (ble_advertising_peer_address_clear s, m, e);
               w = fetch_whitelist env (skip_disabled_modes (fst w), snd w)
           in (case w of (s, m, e) \<Rightarrow>
               case mode_params env s m of (err_code, adv_params, s, m) \<Rightarrow>
                 if err_code \<noteq> NRF_SUCCESS then (err_code, s, m, e)
                 else
                   case (if m_adv_mode_current s \<noteq> BLE_ADV_MODE_IDLE then sd_ble_gap_adv_start env adv_params e
                         else (NRF_SUCCESS, e)) of (err_code, e) \<Rightarrow>
                     if err_code \<noteq> NRF_SUCCESS then (err_code, s, m, e)
                     else (NRF_SUCCESS, adv_notify env (m_adv_evt s) (s, m, e))))"

subsection \<open>Events\<close>

definition start_or_report :: "'e adv_env \<Rightarrow> ble_adv_mode \<Rightarrow> 'e adv_world \<Rightarrow> 'e adv_world" where
  "start_or_report env mode w =
     (case ble_advertising_start env mode w of (err_code, w) \<Rightarrow>
        if err_code \<noteq> NRF_SUCCESS \<and> m_error_handler (fst w) \<noteq> NULL
        then call_adv_error_handler env (m_error_handler (fst w)) err_code w else w)"

definition on_adv_timeout :: "'e adv_env \<Rightarrow> 'e adv_world \<Rightarrow> 'e adv_world" where
  "on_adv_timeout env w =
     (case m_adv_mode_current (fst w) of
        BLE_ADV_MODE_DIRECTED \<Rightarrow> start_or_report env BLE_ADV_MODE_DIRECTED_SLOW w
      | BLE_ADV_MODE_DIRECTED_SLOW \<Rightarrow> start_or_report env BLE_ADV_MODE_FAST w
      | BLE_ADV_MODE_FAST \<Rightarrow> start_or_report env BLE_ADV_MODE_SLOW (fst w\<lparr>m_adv_evt := BLE_ADV_EVT_FAST\<rparr>, snd w)
      | BLE_ADV_MODE_SLOW \<Rightarrow> adv_notify env BLE_ADV_EVT_IDLE (fst w\<lparr>m_adv_evt := BLE_ADV_EVT_IDLE\<rparr>, snd w)
      | BLE_ADV_MODE_IDLE \<Rightarrow> w)"

definition ble_advertising_on_ble_evt :: "'e adv_env \<Rightarrow> adv_ble_evt \<Rightarrow> 'e adv_world \<Rightarrow> 'e adv_world" where
  "ble_advertising_on_ble_evt env p_ble_evt w =
     (case p_ble_evt of
        BLE_GAP_EVT_CONNECTED role conn_handle \<Rightarrow>
          (if role = BLE_GAP_ROLE_PERIPH then (fst w\<lparr>current_slave_link_conn_handle := conn_handle\<rparr>, snd w) else w)
      | BLE_GAP_EVT_DISCONNECTED conn_handle \<Rightarrow>
          let w = (fst w\<lparr>m_whitelist_temporarily_disabled := False\<rparr>, snd w)
          in if conn_handle = current_slave_link_conn_handle (fst w) then start_or_report env BLE_ADV_MODE_DIRECTED w else w
      | BLE_GAP_EVT_TIMEOUT src \<Rightarrow> (if src = BLE_GAP_TIMEOUT_SRC_ADVERTISING then on_adv_timeout env w else w)
      | BLE_EVT_OTHER evt_id \<Rightarrow> w)"

definition ble_advertising_on_sys_evt :: "'e adv_env \<Rightarrow> nrf_soc_evt \<Rightarrow> 'e adv_world \<Rightarrow> 'e adv_world" where
  "ble_advertising_on_sys_evt env sys_evt w =
     (if sys_evt = NRF_EVT_FLASH_OPERATION_SUCCESS \<or> sys_evt = NRF_EVT_FLASH_OPERATION_ERROR then
        if m_advertising_start_pending (fst w)
        then start_or_report env (m_adv_mode_current (fst w)) (fst w\<lparr>m_advertising_start_pending := False\<rparr>, snd w)
        else w
      else w)"

subsection \<open>Replies and restart\<close>

definition ble_advertising_peer_addr_reply :: "ble_gap_addr \<Rightarrow> adv_state \<Rightarrow> ret_code \<times> adv_state" where
  "ble_advertising_peer_addr_reply p_peer_address s =
     (if \<not> m_peer_addr_reply_expected s then (NRF_ERROR_INVALID_STATE, s)
      else (NRF_SUCCESS, s\<lparr>m_peer_address := \<lparr>addr_type = addr_type p_peer_address, addr = take 6 (addr p_peer_address)\<rparr>,
        m_peer_addr_reply_expected := False\<rparr>))"

text \<open>
  The pointers are copied into static arrays of 8; \<open>None\<close> is a count that does not fit them, where the code writes
  behind the arrays.
\<close>

definition ble_advertising_whitelist_reply :: "ble_gap_whitelist \<Rightarrow> adv_state \<Rightarrow> (ret_code \<times> adv_state) option" where
  "ble_advertising_whitelist_reply wl s =
     (if \<not> m_whitelist_reply_expected s then Some (NRF_ERROR_INVALID_STATE, s)
      else if 8 < irk_count wl \<or> 8 < addr_count wl then None
      else Some (NRF_SUCCESS, s\<lparr>m_whitelist :=
          \<lparr>pp_addrs = take (unat (addr_count wl)) (pp_addrs wl) @ drop (unat (addr_count wl)) (pp_addrs (m_whitelist s)),
           addr_count = addr_count wl,
           pp_irks = take (unat (irk_count wl)) (pp_irks wl) @ drop (unat (irk_count wl)) (pp_irks (m_whitelist s)),
           irk_count = irk_count wl\<rparr>,
        m_whitelist_reply_expected := False\<rparr>))"

definition ble_advertising_restart_without_whitelist :: "'e adv_env \<Rightarrow> 'e adv_world \<Rightarrow> ret_code \<times> 'e adv_world" where
  "ble_advertising_restart_without_whitelist env w =
     (case w of (s, m, e) \<Rightarrow>
      if ble_adv_whitelist_enabled (m_adv_modes_config s) \<and> \<not> m_whitelist_temporarily_disabled s then
        case (if m_adv_mode_current s \<noteq> BLE_ADV_MODE_IDLE then sd_ble_gap_adv_stop env e else (NRF_SUCCESS, e)) of (err_code, e) \<Rightarrow>
          if err_code \<noteq> NRF_SUCCESS then (err_code, s, m, e)
          else
            let s = s\<lparr>m_whitelist_temporarily_disabled := True,
                  m_advdata := (m_advdata s)\<lparr>adv_flags := BLE_GAP_ADV_FLAGS_LE_ONLY_GENERAL_DISC_MODE\<rparr>\<rparr>
            in case ble_advdata_set (adv_sd env) (adv_buf env) (sr_buf env) (Some (m_advdata s)) None m of (err_code, m) \<Rightarrow>
                 if err_code \<noteq> NRF_SUCCESS then (err_code, s, m, e)
                 else (NRF_SUCCESS, start_or_report env (m_adv_mode_current s) (s, m, e))
      else (NRF_SUCCESS, w))"

end
