(* ===== verification/AdvertisingThms.thy ===== *)
theory AdvertisingThms
  imports Advertising
begin

text \<open>
  Correctness of the advertising state machine. The outputs of the module are recorded by an observation \<open>obs\<close> of the
  environment. The event handler of the application may do what the interface offers it: reply with a peer address or with a
  whitelist, any number of times; the error handler leaves the module alone.
\<close>

unbundle bit_operations_syntax

subsection \<open>Outputs and handlers\<close>

datatype adv_out = Start ble_gap_adv_params | Stop | Evt ble_adv_evt | Err ret_code

text \<open>What a handler can do to the module's state: a sequence of replies.\<close>

inductive replied :: "adv_state \<Rightarrow> adv_state \<Rightarrow> bool" where
  no_reply: "replied s s"
| peer_reply: "replied s t \<Longrightarrow> ble_advertising_peer_addr_reply a t = (c, u) \<Longrightarrow> replied s u"
| wl_reply: "replied s t \<Longrightarrow> ble_advertising_whitelist_reply wl t = Some (c, u) \<Longrightarrow> replied s u"

text \<open>The part of the state that no reply touches.\<close>

definition adv_frame :: "adv_state \<Rightarrow> adv_state \<Rightarrow> bool" where
  "adv_frame s u \<longleftrightarrow> m_adv_mode_current u = m_adv_mode_current s \<and> m_adv_evt u = m_adv_evt s \<and>
     m_adv_modes_config u = m_adv_modes_config s \<and> m_evt_handler u = m_evt_handler s \<and> m_error_handler u = m_error_handler s \<and>
     m_advertising_start_pending u = m_advertising_start_pending s \<and>
     m_whitelist_temporarily_disabled u = m_whitelist_temporarily_disabled s \<and> m_advdata u = m_advdata s"

lemma adv_frame_refl [simp]: "adv_frame s s"
  by (simp add: adv_frame_def)

lemma adv_frame_trans: "adv_frame s t \<Longrightarrow> adv_frame t u \<Longrightarrow> adv_frame s u"
  by (simp add: adv_frame_def)

lemma replied_frame: "replied s u \<Longrightarrow> adv_frame s u"
proof (induction rule: replied.induct)
  case (peer_reply s t a c u)
  then show ?case by (auto simp: adv_frame_def ble_advertising_peer_addr_reply_def split: if_splits)
next
  case (wl_reply s t wl c u)
  then show ?case by (auto simp: adv_frame_def ble_advertising_whitelist_reply_def split: if_splits)
qed simp

definition adv_observed :: "'e adv_env \<Rightarrow> ('e \<Rightarrow> adv_out list) \<Rightarrow> bool" where
  "adv_observed env obs \<longleftrightarrow>
     (\<forall>p e. obs (snd (sd_ble_gap_adv_start env p e)) = obs e @ [Start p]) \<and>
     (\<forall>e. obs (snd (sd_ble_gap_adv_stop env e)) = obs e @ [Stop]) \<and>
     (\<forall>h evt s m e. \<exists>s' m' e'. call_adv_evt_handler env h evt (s, m, e) = (s', m', e') \<and> replied s s' \<and>
        obs e' = obs e @ [Evt evt]) \<and>
     (\<forall>h c s m e. \<exists>m' e'. call_adv_error_handler env h c (s, m, e) = (s, m', e') \<and> obs e' = obs e @ [Err c])"

lemma adv_observedD:
  assumes "adv_observed env obs"
  shows "obs (snd (sd_ble_gap_adv_start env p e)) = obs e @ [Start p]"
    "obs (snd (sd_ble_gap_adv_stop env e)) = obs e @ [Stop]"
    "\<exists>s' m' e'. call_adv_evt_handler env h evt (s, m, e) = (s', m', e') \<and> replied s s' \<and> obs e' = obs e @ [Evt evt]"
    "\<exists>m' e'. call_adv_error_handler env h c (s, m, e) = (s, m', e') \<and> obs e' = obs e @ [Err c]"
  using assms unfolding adv_observed_def by blast+

definition adv_evt_out :: "adv_state \<Rightarrow> ble_adv_evt \<Rightarrow> adv_out list" where
  "adv_evt_out s evt = (if m_evt_handler s \<noteq> NULL then [Evt evt] else [])"

text \<open>\<open>adv_gives obs w os w'\<close>: the outputs \<open>os\<close> were made, and the module's state changed by replies only.\<close>

definition adv_gives :: "('e \<Rightarrow> adv_out list) \<Rightarrow> 'e adv_world \<Rightarrow> adv_out list \<Rightarrow> 'e adv_world \<Rightarrow> bool" where
  "adv_gives obs w os w' \<longleftrightarrow> replied (fst w) (fst w') \<and> obs (snd (snd w')) = obs (snd (snd w)) @ os"

lemma adv_givesD:
  assumes "adv_gives obs w os w'"
  shows "replied (fst w) (fst w')" "adv_frame (fst w) (fst w')" "obs (snd (snd w')) = obs (snd (snd w)) @ os"
  using assms replied_frame by (auto simp: adv_gives_def)

lemma adv_notify_gives:
  assumes "adv_observed env obs"
  shows "adv_gives obs w (adv_evt_out (fst w) evt) (adv_notify env evt w)"
proof -
  obtain s m e where w: "w = (s, m, e)" by (cases w)
  from adv_observedD(3) [OF assms, of "m_evt_handler s" evt s m e]
  show ?thesis by (auto simp: w adv_notify_def adv_gives_def adv_evt_out_def no_reply)
qed

lemma adv_notify_null: "m_evt_handler (fst w) = NULL \<Longrightarrow> adv_notify env evt w = w"
  by (simp add: adv_notify_def)

subsection \<open>The choice of the mode\<close>

definition adv_order :: "ble_adv_mode list" where
  "adv_order = [BLE_ADV_MODE_DIRECTED, BLE_ADV_MODE_DIRECTED_SLOW, BLE_ADV_MODE_FAST, BLE_ADV_MODE_SLOW, BLE_ADV_MODE_IDLE]"

fun adv_mode_ok :: "ble_adv_modes_config \<Rightarrow> bool \<Rightarrow> ble_adv_mode \<Rightarrow> bool" where
  "adv_mode_ok c has_peer BLE_ADV_MODE_DIRECTED = (ble_adv_directed_enabled c \<and> has_peer)"
| "adv_mode_ok c has_peer BLE_ADV_MODE_DIRECTED_SLOW = (ble_adv_directed_slow_enabled c \<and> has_peer)"
| "adv_mode_ok c has_peer BLE_ADV_MODE_FAST = ble_adv_fast_enabled c"
| "adv_mode_ok c has_peer BLE_ADV_MODE_SLOW = ble_adv_slow_enabled c"
| "adv_mode_ok c has_peer BLE_ADV_MODE_IDLE = True"

text \<open>The first mode from the requested one on that is enabled, and for which there is a peer when it needs one.\<close>

definition adv_chosen :: "ble_adv_modes_config \<Rightarrow> bool \<Rightarrow> ble_adv_mode \<Rightarrow> ble_adv_mode" where
  "adv_chosen c has_peer mode = hd (filter (adv_mode_ok c has_peer) (dropWhile (\<lambda>k. k \<noteq> mode) adv_order))"

fun adv_rank :: "ble_adv_mode \<Rightarrow> nat" where
  "adv_rank BLE_ADV_MODE_DIRECTED = 0"
| "adv_rank BLE_ADV_MODE_DIRECTED_SLOW = 1"
| "adv_rank BLE_ADV_MODE_FAST = 2"
| "adv_rank BLE_ADV_MODE_SLOW = 3"
| "adv_rank BLE_ADV_MODE_IDLE = 4"

lemma adv_chosen_rank: "adv_rank mode \<le> adv_rank (adv_chosen c has_peer mode)"
  by (cases mode) (simp_all add: adv_chosen_def adv_order_def)

lemma adv_chosen_ok: "adv_mode_ok c has_peer (adv_chosen c has_peer mode)"
  by (cases mode) (simp_all add: adv_chosen_def adv_order_def)

lemma skip_disabled_modes_chosen:
  assumes "mode = m_adv_mode_current s" "c = m_adv_modes_config s" "chosen = adv_chosen c (peer_address_exists (addr (m_peer_address s))) mode"
  shows "skip_disabled_modes s = s\<lparr>m_adv_mode_current := chosen,
    m_adv_evt := if chosen = BLE_ADV_MODE_IDLE \<and> mode \<noteq> BLE_ADV_MODE_IDLE then BLE_ADV_EVT_IDLE else m_adv_evt s\<rparr>"
  using assms by (cases s; cases "m_adv_mode_current s") (simp_all add: skip_disabled_modes_def adv_chosen_def adv_order_def)

subsection \<open>Starting\<close>

definition asks_peer :: "adv_state \<Rightarrow> ble_adv_mode \<Rightarrow> bool" where
  "asks_peer s mode \<longleftrightarrow> m_evt_handler s \<noteq> NULL \<and>
     (mode = BLE_ADV_MODE_DIRECTED \<and> (ble_adv_directed_enabled (m_adv_modes_config s) \<or> ble_adv_directed_slow_enabled (m_adv_modes_config s)) \<or>
      mode = BLE_ADV_MODE_DIRECTED_SLOW \<and> ble_adv_directed_slow_enabled (m_adv_modes_config s))"

definition wants_whitelist :: "adv_state \<Rightarrow> ble_adv_mode \<Rightarrow> bool" where
  "wants_whitelist s chosen \<longleftrightarrow> chosen \<in> {BLE_ADV_MODE_FAST, BLE_ADV_MODE_SLOW} \<and>
     ble_adv_whitelist_enabled (m_adv_modes_config s) \<and> \<not> m_whitelist_temporarily_disabled s"

definition adv_asks :: "adv_state \<Rightarrow> ble_adv_mode \<Rightarrow> ble_adv_mode \<Rightarrow> adv_out list" where
  "adv_asks s mode chosen =
     (if asks_peer s mode then [Evt BLE_ADV_EVT_PEER_ADDR_REQUEST] else []) @
     (if wants_whitelist s chosen then adv_evt_out s BLE_ADV_EVT_WHITELIST_REQUEST else [])"

definition uses_whitelist :: "adv_state \<Rightarrow> ble_adv_mode \<Rightarrow> ble_gap_whitelist \<Rightarrow> bool" where
  "uses_whitelist s chosen wl \<longleftrightarrow> wants_whitelist s chosen \<and> whitelist_has_entries wl"

text \<open>Intervals and timeouts are configured with 32 bits and advertised with 16.\<close>

fun adv_start_params :: "ble_adv_modes_config \<Rightarrow> ble_adv_mode \<Rightarrow> ble_gap_addr \<Rightarrow> ble_gap_whitelist option \<Rightarrow> ble_gap_adv_params" where
  "adv_start_params c BLE_ADV_MODE_DIRECTED peer wl =
     \<lparr>adv_type = BLE_GAP_ADV_TYPE_ADV_DIRECT_IND, p_peer_addr = Some peer, fp = BLE_GAP_ADV_FP_ANY, p_whitelist = None,
      adv_interval = 0, adv_timeout = 0\<rparr>"
| "adv_start_params c BLE_ADV_MODE_DIRECTED_SLOW peer wl =
     \<lparr>adv_type = BLE_GAP_ADV_TYPE_ADV_DIRECT_IND, p_peer_addr = Some peer, fp = BLE_GAP_ADV_FP_ANY, p_whitelist = None,
      adv_interval = ucast (ble_adv_directed_slow_interval c), adv_timeout = ucast (ble_adv_directed_slow_timeout c)\<rparr>"
| "adv_start_params c mode peer wl =
     \<lparr>adv_type = BLE_GAP_ADV_TYPE_ADV_IND, p_peer_addr = None,
      fp = (if wl = None then BLE_GAP_ADV_FP_ANY else BLE_GAP_ADV_FP_FILTER_CONNREQ), p_whitelist = wl,
      adv_interval = ucast (if mode = BLE_ADV_MODE_FAST then ble_adv_fast_interval c else ble_adv_slow_interval c),
      adv_timeout = ucast (if mode = BLE_ADV_MODE_FAST then ble_adv_fast_timeout c else ble_adv_slow_timeout c)\<rparr>"

definition adv_starts :: "adv_state \<Rightarrow> ble_adv_mode \<Rightarrow> ble_gap_addr \<Rightarrow> ble_gap_whitelist \<Rightarrow> adv_out list" where
  "adv_starts s chosen peer wl =
     (if chosen = BLE_ADV_MODE_IDLE then []
      else [Start (adv_start_params (m_adv_modes_config s) chosen peer (if uses_whitelist s chosen wl then Some wl else None))])"

text \<open>The event: a request of the idle mode reports the one before it once more.\<close>

definition adv_start_evt :: "adv_state \<Rightarrow> ble_adv_mode \<Rightarrow> ble_adv_mode \<Rightarrow> ble_gap_whitelist \<Rightarrow> ble_adv_evt" where
  "adv_start_evt s mode chosen wl =
     (case chosen of
        BLE_ADV_MODE_DIRECTED \<Rightarrow> BLE_ADV_EVT_DIRECTED
      | BLE_ADV_MODE_DIRECTED_SLOW \<Rightarrow> BLE_ADV_EVT_DIRECTED_SLOW
      | BLE_ADV_MODE_FAST \<Rightarrow> if uses_whitelist s chosen wl then BLE_ADV_EVT_FAST_WHITELIST else BLE_ADV_EVT_FAST
      | BLE_ADV_MODE_SLOW \<Rightarrow> if uses_whitelist s chosen wl then BLE_ADV_EVT_SLOW_WHITELIST else BLE_ADV_EVT_SLOW
      | BLE_ADV_MODE_IDLE \<Rightarrow> if mode = BLE_ADV_MODE_IDLE then m_adv_evt s else BLE_ADV_EVT_IDLE)"

lemma replied_same:
  assumes "replied s u" "\<not> m_peer_addr_reply_expected s" "\<not> m_whitelist_reply_expected s"
  shows "u = s"
  using assms
proof (induction rule: replied.induct)
  case (peer_reply s t a c u)
  then show ?case by (simp add: ble_advertising_peer_addr_reply_def)
next
  case (wl_reply s t wl c u)
  then show ?case by (simp add: ble_advertising_whitelist_reply_def)
qed simp

lemma fetch_peer_address_gives:
  assumes "adv_observed env obs" "w' = fetch_peer_address env w"
  shows "adv_frame (fst w) (fst w')"
    "obs (snd (snd w')) = obs (snd (snd w)) @
       (if asks_peer (fst w) (m_adv_mode_current (fst w)) then [Evt BLE_ADV_EVT_PEER_ADDR_REQUEST] else [])"
    "\<not> asks_peer (fst w) (m_adv_mode_current (fst w)) \<Longrightarrow>
       m_peer_address (fst w') = m_peer_address (fst w) \<and> m_whitelist (fst w') = m_whitelist (fst w)"
proof -
  let ?s = "fst w"
  let ?n = "adv_notify env BLE_ADV_EVT_PEER_ADDR_REQUEST (?s\<lparr>m_peer_addr_reply_expected := True\<rparr>, snd w)"
  have w': "w' = (if asks_peer ?s (m_adv_mode_current ?s) then ?n
      else w') \<and> (\<not> asks_peer ?s (m_adv_mode_current ?s) \<longrightarrow> w' = w \<or> w' = (?s\<lparr>m_peer_addr_reply_expected := False\<rparr>, snd w))"
    unfolding assms(2) fetch_peer_address_def asks_peer_def Let_def by auto
  note g = adv_notify_gives [OF assms(1), of "(?s\<lparr>m_peer_addr_reply_expected := True\<rparr>, snd w)" BLE_ADV_EVT_PEER_ADDR_REQUEST]
  have "m_evt_handler ?s \<noteq> NULL" if "asks_peer ?s (m_adv_mode_current ?s)" using that by (simp add: asks_peer_def)
  then show "adv_frame (fst w) (fst w')"
    "obs (snd (snd w')) = obs (snd (snd w)) @
       (if asks_peer (fst w) (m_adv_mode_current (fst w)) then [Evt BLE_ADV_EVT_PEER_ADDR_REQUEST] else [])"
    using w' adv_givesD(2,3) [OF g] by (auto simp: adv_frame_def adv_evt_out_def split: if_splits)
  show "\<not> asks_peer (fst w) (m_adv_mode_current (fst w)) \<Longrightarrow>
       m_peer_address (fst w') = m_peer_address (fst w) \<and> m_whitelist (fst w') = m_whitelist (fst w)"
    using w' by auto
qed

lemma fetch_whitelist_gives:
  assumes "adv_observed env obs" "w' = fetch_whitelist env w" "a = wants_whitelist (fst w) (m_adv_mode_current (fst w))"
  shows "adv_frame (fst w) (fst w')"
    "obs (snd (snd w')) = obs (snd (snd w)) @ (if a then adv_evt_out (fst w) BLE_ADV_EVT_WHITELIST_REQUEST else [])"
    "\<not> a \<or> m_evt_handler (fst w) = NULL \<Longrightarrow> m_peer_address (fst w') = m_peer_address (fst w) \<and> m_whitelist (fst w') = m_whitelist (fst w)"
proof -
  let ?s = "fst w"
  let ?n = "adv_notify env BLE_ADV_EVT_WHITELIST_REQUEST (?s\<lparr>m_whitelist_reply_expected := True\<rparr>, snd w)"
  have w': "w' = (if a \<and> m_evt_handler ?s \<noteq> NULL then ?n else (?s\<lparr>m_whitelist_reply_expected := False\<rparr>, snd w))"
    unfolding assms(2,3) fetch_whitelist_def wants_whitelist_def Let_def by auto
  note g = adv_notify_gives [OF assms(1), of "(?s\<lparr>m_whitelist_reply_expected := True\<rparr>, snd w)" BLE_ADV_EVT_WHITELIST_REQUEST]
  show "adv_frame (fst w) (fst w')"
    "obs (snd (snd w')) = obs (snd (snd w)) @ (if a then adv_evt_out (fst w) BLE_ADV_EVT_WHITELIST_REQUEST else [])"
    using w' adv_givesD(2,3) [OF g] by (auto simp: adv_frame_def adv_evt_out_def split: if_splits)
  show "\<not> a \<or> m_evt_handler (fst w) = NULL \<Longrightarrow>
      m_peer_address (fst w') = m_peer_address (fst w) \<and> m_whitelist (fst w') = m_whitelist (fst w)"
    using w' by auto
qed

text \<open>What the preparation of the parameters leaves alone.\<close>

definition adv_fixed :: "adv_state \<Rightarrow> adv_state \<Rightarrow> bool" where
  "adv_fixed s u \<longleftrightarrow> m_adv_mode_current u = m_adv_mode_current s \<and> m_adv_modes_config u = m_adv_modes_config s \<and>
     m_evt_handler u = m_evt_handler s \<and> m_error_handler u = m_error_handler s \<and>
     m_advertising_start_pending u = m_advertising_start_pending s \<and>
     m_whitelist_temporarily_disabled u = m_whitelist_temporarily_disabled s"

lemma adv_frame_fixed: "adv_frame s u \<Longrightarrow> adv_fixed s u"
  by (simp add: adv_frame_def adv_fixed_def)

lemma whitelist_params_spec:
  assumes "whitelist_params env evt_wl evt p s m = (err, p', s', m')"
    and "chosen = m_adv_mode_current s" "chosen \<in> {BLE_ADV_MODE_FAST, BLE_ADV_MODE_SLOW}" "used = uses_whitelist s chosen (m_whitelist s)"
  shows "adv_fixed s s' \<and> p' = (if used then p\<lparr>fp := BLE_GAP_ADV_FP_FILTER_CONNREQ, p_whitelist := Some (m_whitelist s)\<rparr> else p) \<and>
    (if err = NRF_SUCCESS then m_adv_evt s' = (if used then evt_wl else evt) else used)"
proof -
  have u: "use_whitelist s = used" using assms(3,4) by (auto simp: use_whitelist_def uses_whitelist_def wants_whitelist_def)
  show ?thesis
    using assms(1) unfolding whitelist_params_def u by (auto simp: adv_fixed_def Let_def split_beta split: if_splits)
qed

lemma mode_params_spec:
  assumes "mode_params env s m = (err, p, s', m')" "chosen = m_adv_mode_current s" "used = uses_whitelist s chosen (m_whitelist s)"
  shows "adv_fixed s s' \<and>
    (chosen \<noteq> BLE_ADV_MODE_IDLE \<longrightarrow> p = adv_start_params (m_adv_modes_config s) chosen (m_peer_address s)
       (if used then Some (m_whitelist s) else None)) \<and>
    (if err = NRF_SUCCESS then m_adv_evt s' = adv_start_evt s BLE_ADV_MODE_IDLE chosen (m_whitelist s) else used)"
proof (cases chosen)
  case BLE_ADV_MODE_FAST
  then have c: "m_adv_mode_current s = BLE_ADV_MODE_FAST" using assms(2) by simp
  from assms(1) have "whitelist_params env BLE_ADV_EVT_FAST_WHITELIST BLE_ADV_EVT_FAST (adv_params_default
      \<lparr>adv_timeout := ucast (ble_adv_fast_timeout (m_adv_modes_config s)),
       adv_interval := ucast (ble_adv_fast_interval (m_adv_modes_config s))\<rparr>) s m = (err, p, s', m')"
    by (simp add: mode_params_def c Let_def)
  from whitelist_params_spec [OF this c [symmetric] _ refl] show ?thesis
    by (simp add: BLE_ADV_MODE_FAST adv_start_evt_def assms(3) adv_params_default_def split del: if_split cong: if_cong)
      (auto split: if_splits)
next
  case BLE_ADV_MODE_SLOW
  then have c: "m_adv_mode_current s = BLE_ADV_MODE_SLOW" using assms(2) by simp
  from assms(1) have "whitelist_params env BLE_ADV_EVT_SLOW_WHITELIST BLE_ADV_EVT_SLOW (adv_params_default
      \<lparr>adv_timeout := ucast (ble_adv_slow_timeout (m_adv_modes_config s)),
       adv_interval := ucast (ble_adv_slow_interval (m_adv_modes_config s))\<rparr>) s m = (err, p, s', m')"
    by (simp add: mode_params_def c Let_def)
  from whitelist_params_spec [OF this c [symmetric] _ refl] show ?thesis
    by (simp add: BLE_ADV_MODE_SLOW adv_start_evt_def assms(3) adv_params_default_def split del: if_split cong: if_cong)
      (auto split: if_splits)
qed (use assms in \<open>auto simp: mode_params_def Let_def adv_start_evt_def adv_params_default_def adv_fixed_def\<close>)

text \<open>The outcome of a start: the mode, the answers of the application and the outputs.\<close>

definition adv_outcome ::
  "('e \<Rightarrow> adv_out list) \<Rightarrow> adv_state \<Rightarrow> 'e \<Rightarrow> ble_adv_mode \<Rightarrow> ret_code \<Rightarrow> adv_state \<Rightarrow> 'e \<Rightarrow> ble_gap_addr \<Rightarrow> ble_gap_whitelist \<Rightarrow>
   ble_adv_mode \<Rightarrow> bool" where
  "adv_outcome obs s e mode err s' e' peer wl chosen \<longleftrightarrow>
     chosen = adv_chosen (m_adv_modes_config s) (peer_address_exists (addr peer)) mode \<and> m_adv_mode_current s' = chosen \<and>
     (\<not> asks_peer s mode \<longrightarrow> \<not> peer_address_exists (addr peer)) \<and> (adv_asks s mode chosen = [] \<longrightarrow> wl = m_whitelist s) \<and>
     (if err = NRF_SUCCESS
      then m_adv_evt s' = adv_start_evt s mode chosen wl \<and>
        obs e' = obs e @ adv_asks s mode chosen @ adv_starts s chosen peer wl @ adv_evt_out s (adv_start_evt s mode chosen wl)
      else chosen \<noteq> BLE_ADV_MODE_IDLE \<and> (obs e' = obs e @ adv_asks s mode chosen @ adv_starts s chosen peer wl \<or>
        uses_whitelist s chosen wl \<and> obs e' = obs e @ adv_asks s mode chosen))"

lemma adv_start_outcome:
  assumes "adv_observed env obs" "\<not> flash_access_in_progress env e"
    and "ble_advertising_start env mode (s, m, e) = (err, s', m', e')"
  shows "\<exists>peer wl chosen. adv_outcome obs s e mode err s' e' peer wl chosen \<and> m_adv_modes_config s' = m_adv_modes_config s \<and>
    m_evt_handler s' = m_evt_handler s \<and> m_error_handler s' = m_error_handler s \<and>
    m_advertising_start_pending s' = m_advertising_start_pending s \<and>
    m_whitelist_temporarily_disabled s' = m_whitelist_temporarily_disabled s"
proof -
  define s0 where "s0 = ble_advertising_peer_address_clear (s\<lparr>m_adv_mode_current := mode\<rparr>)"
  define w1 where "w1 = fetch_peer_address env (s0, m, e)"
  define w2 where "w2 = (skip_disabled_modes (fst w1), snd w1)"
  define w3 where "w3 = fetch_whitelist env w2"
  obtain s3 m3 e3 where w3: "w3 = (s3, m3, e3)" by (cases w3)
  obtain err4 p s4 m4 where p4: "mode_params env s3 m3 = (err4, p, s4, m4)" by (cases "mode_params env s3 m3")
  define chosen where "chosen = adv_chosen (m_adv_modes_config s) (peer_address_exists (addr (m_peer_address (fst w1)))) mode"
  have s0: "adv_fixed (s\<lparr>m_adv_mode_current := mode\<rparr>) s0" "m_adv_evt s0 = m_adv_evt s" "\<not> peer_address_exists (addr (m_peer_address s0))"
    "m_whitelist s0 = m_whitelist s" "m_adv_mode_current s0 = mode" "asks_peer s0 mode = asks_peer s mode"
    by (simp_all add: s0_def ble_advertising_peer_address_clear_def adv_fixed_def peer_address_exists_def asks_peer_def list_ex_iff)
  note f1 = fetch_peer_address_gives [OF assms(1) w1_def, unfolded fst_conv snd_conv s0(5,6)]
  have s1: "adv_fixed (s\<lparr>m_adv_mode_current := mode\<rparr>) (fst w1)" "m_adv_evt (fst w1) = m_adv_evt s"
    using f1(1) s0(1,2) by (auto simp: adv_frame_def adv_fixed_def)
  have s2: "fst w2 = (fst w1)\<lparr>m_adv_mode_current := chosen,
      m_adv_evt := if chosen = BLE_ADV_MODE_IDLE \<and> mode \<noteq> BLE_ADV_MODE_IDLE then BLE_ADV_EVT_IDLE else m_adv_evt s\<rparr>"
    using skip_disabled_modes_chosen [of mode "fst w1", OF _ refl refl] s1 by (simp add: w2_def chosen_def adv_fixed_def)
  have q: "wants_whitelist (fst w2) (m_adv_mode_current (fst w2)) = wants_whitelist s chosen"
    "adv_evt_out (fst w2) evt = adv_evt_out s evt" for evt
    using s1(1) by (simp_all add: s2 wants_whitelist_def adv_evt_out_def adv_fixed_def)
  note f2 = fetch_whitelist_gives [OF assms(1) w3_def refl, unfolded q w3 fst_conv snd_conv]
  have s3: "adv_fixed (s\<lparr>m_adv_mode_current := chosen\<rparr>) s3" "m_adv_evt s3 = m_adv_evt (fst w2)"
    using f2(1) s1(1) by (auto simp: s2 adv_frame_def adv_fixed_def)
  then have s3': "m_adv_mode_current s3 = chosen" "m_adv_modes_config s3 = m_adv_modes_config s"
    "uses_whitelist s3 k wl = uses_whitelist s k wl" for k wl
    by (simp_all add: adv_fixed_def uses_whitelist_def wants_whitelist_def)
  note p = mode_params_spec [OF p4 refl refl, unfolded s3']
  have evt: "adv_start_evt s3 BLE_ADV_MODE_IDLE chosen wl = adv_start_evt s mode chosen wl" for wl
    by (cases chosen) (auto simp: adv_start_evt_def s3'(3) s3(2) s2)
  have s4: "adv_fixed (s\<lparr>m_adv_mode_current := chosen\<rparr>) s4" using p s3(1) by (simp add: adv_fixed_def)
  define r where "r = (if chosen \<noteq> BLE_ADV_MODE_IDLE then sd_ble_gap_adv_start env p e3 else (NRF_SUCCESS, e3))"
  have start: "ble_advertising_start env mode (s, m, e) =
      (if err4 \<noteq> NRF_SUCCESS then (err4, s4, m4, e3) else if fst r \<noteq> NRF_SUCCESS then (fst r, s4, m4, snd r)
       else (NRF_SUCCESS, adv_notify env (m_adv_evt s4) (s4, m4, snd r)))"
    using assms(2) p4 w3 s4 unfolding w3_def w2_def w1_def s0_def r_def
    by (simp add: ble_advertising_start_def Let_def split_beta adv_fixed_def)
  have e3: "obs e3 = obs e @ adv_asks s mode chosen"
    using f1(2) f2(2) by (simp add: adv_asks_def w2_def)
  have r: "obs (snd r) = obs e3 @ adv_starts s chosen (m_peer_address s3) (m_whitelist s3)"
    using adv_observedD(1) [OF assms(1)] p by (simp add: r_def adv_starts_def)
  have fixed: "adv_fixed (s\<lparr>m_adv_mode_current := chosen\<rparr>) s'"
    and ok: "err = NRF_SUCCESS \<Longrightarrow> err4 = NRF_SUCCESS \<and> m_adv_evt s' = m_adv_evt s4 \<and> obs e' = obs (snd r) @ adv_evt_out s (m_adv_evt s4)"
    and bad: "err \<noteq> NRF_SUCCESS \<Longrightarrow> e' = (if err4 = NRF_SUCCESS then snd r else e3) \<and> (err4 = NRF_SUCCESS \<longrightarrow> err = fst r)"
    using assms(3) start s4 adv_givesD(2,3) [OF adv_notify_gives [OF assms(1), of "(s4, m4, snd r)" "m_adv_evt s4"]]
    by (auto simp: adv_frame_def adv_fixed_def adv_evt_out_def split: if_splits)
  let ?p = "m_peer_address (fst w1)" and ?w = "m_whitelist s3"
  have peer: "adv_starts s chosen ?p ?w = adv_starts s chosen (m_peer_address s3) ?w"
    using f2(3) by (cases chosen) (simp_all add: adv_starts_def s2 wants_whitelist_def)
  have "\<not> asks_peer s mode \<longrightarrow> \<not> peer_address_exists (addr ?p)" using f1(3) s0(3) by simp
  moreover have "adv_asks s mode chosen = [] \<longrightarrow> ?w = m_whitelist s"
    using f1(3) f2(3) s0(4) s1(1) by (auto simp: adv_asks_def adv_evt_out_def s2 adv_fixed_def split: if_splits)
  moreover have "err = NRF_SUCCESS \<Longrightarrow> m_adv_evt s' = adv_start_evt s mode chosen ?w"
    using ok p evt by simp
  moreover have "err \<noteq> NRF_SUCCESS \<Longrightarrow> chosen \<noteq> BLE_ADV_MODE_IDLE"
    using bad p by (cases "err4 = NRF_SUCCESS") (auto simp: r_def uses_whitelist_def wants_whitelist_def)
  ultimately have "adv_outcome obs s e mode err s' e' ?p ?w chosen"
    using ok bad r e3 p evt fixed peer unfolding adv_outcome_def by (simp add: chosen_def [symmetric] adv_fixed_def)
  then show ?thesis using fixed by (auto simp: adv_fixed_def)
qed

lemma start_or_report_outcome:
  assumes "adv_observed env obs" "\<not> flash_access_in_progress env (snd (snd w))" "w' = start_or_report env mode w"
  shows "\<exists>err s' e' peer wl chosen. adv_outcome obs (fst w) (snd (snd w)) mode err s' e' peer wl chosen \<and>
    fst w' = s' \<and> m_adv_modes_config s' = m_adv_modes_config (fst w) \<and> m_evt_handler s' = m_evt_handler (fst w) \<and>
    m_advertising_start_pending s' = m_advertising_start_pending (fst w) \<and>
    obs (snd (snd w')) = obs e' @ (if err \<noteq> NRF_SUCCESS \<and> m_error_handler (fst w) \<noteq> NULL then [Err err] else [])"
proof -
  obtain s m e where w: "w = (s, m, e)" by (cases w)
  obtain err s' m' e' where r: "ble_advertising_start env mode w = (err, s', m', e')" by (cases "ble_advertising_start env mode w")
  from assms(2) have "\<not> flash_access_in_progress env e" by (simp add: w)
  from adv_start_outcome [OF assms(1) this r [unfolded w]]
  obtain peer wl chosen where o: "adv_outcome obs s e mode err s' e' peer wl chosen" "m_adv_modes_config s' = m_adv_modes_config s"
    "m_evt_handler s' = m_evt_handler s" "m_error_handler s' = m_error_handler s"
    "m_advertising_start_pending s' = m_advertising_start_pending s" by blast
  moreover have "fst w' = s' \<and> obs (snd (snd w')) = obs e' @ (if err \<noteq> NRF_SUCCESS \<and> m_error_handler s \<noteq> NULL then [Err err] else [])"
    using adv_observedD(4) [OF assms(1), of "m_error_handler s" err s' m' e'] assms(3) r o(4)
    by (auto simp: start_or_report_def)
  ultimately show ?thesis unfolding w fst_conv snd_conv by blast
qed

subsection \<open>Timeouts\<close>

definition is_start :: "adv_out \<Rightarrow> bool" where
  "is_start x = (case x of Start p \<Rightarrow> True | _ \<Rightarrow> False)"

lemma is_start_simps [simp]: "is_start (Start p)" "\<not> is_start Stop" "\<not> is_start (Evt evt)" "\<not> is_start (Err c)"
  by (simp_all add: is_start_def)

lemma adv_asks_starts [simp]: "filter is_start (adv_asks s mode chosen) = []" "filter is_start (adv_evt_out s evt) = []"
  by (simp_all add: adv_asks_def adv_evt_out_def)

lemma adv_starts_length: "length (filter is_start (adv_starts s chosen peer wl)) \<le> 1"
  by (simp add: adv_starts_def)

text \<open>A timeout ends the advertising with the idle event, or it comes to a later mode.\<close>

definition adv_ended :: "('e \<Rightarrow> adv_out list) \<Rightarrow> 'e adv_world \<Rightarrow> 'e adv_world \<Rightarrow> bool" where
  "adv_ended obs w w' \<longleftrightarrow> m_adv_evt (fst w') = BLE_ADV_EVT_IDLE \<and>
     (m_evt_handler (fst w) \<noteq> NULL \<longrightarrow> obs (snd (snd w')) \<noteq> [] \<and> last (obs (snd (snd w'))) = Evt BLE_ADV_EVT_IDLE)"

abbreviation adv_timeout_step :: "'e adv_env \<Rightarrow> 'e adv_world \<Rightarrow> 'e adv_world" where
  "adv_timeout_step env \<equiv> ble_advertising_on_ble_evt env (BLE_GAP_EVT_TIMEOUT BLE_GAP_TIMEOUT_SRC_ADVERTISING)"

lemma start_or_report_advances:
  assumes "adv_observed env obs" "\<not> flash_access_in_progress env (snd (snd w))" "w' = start_or_report env mode w"
    "mode \<noteq> BLE_ADV_MODE_IDLE"
  shows "m_evt_handler (fst w') = m_evt_handler (fst w) \<and> (\<exists>os. obs (snd (snd w')) = obs (snd (snd w)) @ os \<and>
    (adv_ended obs w w' \<and> filter is_start os = [] \<or>
     m_adv_mode_current (fst w') \<noteq> BLE_ADV_MODE_IDLE \<and> adv_rank mode \<le> adv_rank (m_adv_mode_current (fst w')) \<and>
       length (filter is_start os) \<le> 1))"
proof -
  from start_or_report_outcome [OF assms(1-3)] obtain err e' peer wl chosen where
    o: "adv_outcome obs (fst w) (snd (snd w)) mode err (fst w') e' peer wl chosen" "m_evt_handler (fst w') = m_evt_handler (fst w)"
    "obs (snd (snd w')) = obs e' @ (if err \<noteq> NRF_SUCCESS \<and> m_error_handler (fst w) \<noteq> NULL then [Err err] else [])" by blast
  from o(1) have c: "m_adv_mode_current (fst w') = chosen" "adv_rank mode \<le> adv_rank chosen"
    using adv_chosen_rank by (simp_all add: adv_outcome_def)
  show ?thesis
  proof (cases "chosen = BLE_ADV_MODE_IDLE")
    case True
    then have "adv_ended obs w w'" "filter is_start (adv_asks (fst w) mode chosen @ adv_evt_out (fst w) BLE_ADV_EVT_IDLE) = []"
      "obs (snd (snd w')) = obs (snd (snd w)) @ adv_asks (fst w) mode chosen @ adv_evt_out (fst w) BLE_ADV_EVT_IDLE"
      using o assms(4) by (auto simp: adv_outcome_def adv_ended_def adv_start_evt_def adv_starts_def adv_evt_out_def split: if_splits)
    then show ?thesis using o(2) by blast
  next
    case False
    have "\<exists>os. obs (snd (snd w')) = obs (snd (snd w)) @ os \<and> length (filter is_start os) \<le> 1"
      using o(1,3) adv_starts_length [of "fst w" chosen peer wl]
      by (cases "err = NRF_SUCCESS") (auto simp: adv_outcome_def)
    then show ?thesis using o(2) c False by blast
  qed
qed

lemma adv_timeout_advances:
  assumes "adv_observed env obs" "\<not> flash_access_in_progress env (snd (snd w))" "m_adv_mode_current (fst w) \<noteq> BLE_ADV_MODE_IDLE"
    "w' = adv_timeout_step env w"
  shows "m_evt_handler (fst w') = m_evt_handler (fst w) \<and> (\<exists>os. obs (snd (snd w')) = obs (snd (snd w)) @ os \<and>
    (adv_ended obs w w' \<and> filter is_start os = [] \<or>
     m_adv_mode_current (fst w') \<noteq> BLE_ADV_MODE_IDLE \<and> adv_rank (m_adv_mode_current (fst w)) < adv_rank (m_adv_mode_current (fst w')) \<and>
       length (filter is_start os) \<le> 1))"
proof -
  note a = start_or_report_advances [OF assms(1)]
  show ?thesis
  proof (cases "m_adv_mode_current (fst w)")
    case BLE_ADV_MODE_DIRECTED
    then show ?thesis using a [OF assms(2), of w' BLE_ADV_MODE_DIRECTED_SLOW] assms(4)
      by (auto simp: ble_advertising_on_ble_evt_def on_adv_timeout_def)
  next
    case BLE_ADV_MODE_DIRECTED_SLOW
    then show ?thesis using a [OF assms(2), of w' BLE_ADV_MODE_FAST] assms(4)
      by (auto simp: ble_advertising_on_ble_evt_def on_adv_timeout_def)
  next
    case BLE_ADV_MODE_FAST
    then show ?thesis using a [of "(fst w\<lparr>m_adv_evt := BLE_ADV_EVT_FAST\<rparr>, snd w)" w' BLE_ADV_MODE_SLOW] assms(2,4)
      by (auto simp: ble_advertising_on_ble_evt_def on_adv_timeout_def adv_ended_def)
  next
    case BLE_ADV_MODE_SLOW
    then show ?thesis
      using adv_givesD [OF adv_notify_gives [OF assms(1), of "(fst w\<lparr>m_adv_evt := BLE_ADV_EVT_IDLE\<rparr>, snd w)" BLE_ADV_EVT_IDLE]] assms(4)
      by (auto simp: ble_advertising_on_ble_evt_def on_adv_timeout_def adv_ended_def adv_frame_def adv_evt_out_def)
  qed (use assms(3) in simp)
qed

lemma adv_timeouts_reach_end:
  assumes "adv_observed env obs" "\<forall>e. \<not> flash_access_in_progress env e" "m_adv_mode_current (fst w) \<noteq> BLE_ADV_MODE_IDLE"
  shows "\<exists>k os. 0 < k \<and> k \<le> 4 - adv_rank (m_adv_mode_current (fst w)) \<and> adv_ended obs w ((adv_timeout_step env ^^ k) w) \<and>
    obs (snd (snd ((adv_timeout_step env ^^ k) w))) = obs (snd (snd w)) @ os \<and> length (filter is_start os) < k"
  using assms(3)
proof (induction "4 - adv_rank (m_adv_mode_current (fst w))" arbitrary: w rule: less_induct)
  case less
  let ?w = "adv_timeout_step env w" and ?r = "\<lambda>w. adv_rank (m_adv_mode_current (fst w))"
  have r: "?r w < 4" using less.prems by (cases "m_adv_mode_current (fst w)") auto
  from adv_timeout_advances [OF assms(1) _ less.prems refl] assms(2)
  obtain os where h: "m_evt_handler (fst ?w) = m_evt_handler (fst w)" and os: "obs (snd (snd ?w)) = obs (snd (snd w)) @ os"
    and c: "adv_ended obs w ?w \<and> filter is_start os = [] \<or>
     m_adv_mode_current (fst ?w) \<noteq> BLE_ADV_MODE_IDLE \<and> ?r w < ?r ?w \<and> length (filter is_start os) \<le> 1" by blast
  from c show ?case
  proof
    assume "adv_ended obs w ?w \<and> filter is_start os = []"
    then show ?thesis using r os by (intro exI [of _ 1] exI [of _ os]) simp
  next
    assume n: "m_adv_mode_current (fst ?w) \<noteq> BLE_ADV_MODE_IDLE \<and> ?r w < ?r ?w \<and> length (filter is_start os) \<le> 1"
    then have "4 - ?r ?w < 4 - ?r w" using r by linarith
    from less.hyps [OF this] n obtain k os' where k: "0 < k" "k \<le> 4 - ?r ?w" "adv_ended obs ?w ((adv_timeout_step env ^^ k) ?w)"
      "obs (snd (snd ((adv_timeout_step env ^^ k) ?w))) = obs (snd (snd ?w)) @ os'" "length (filter is_start os') < k" by blast
    then show ?thesis using n r os h
      by (intro exI [of _ "Suc k"] exI [of _ "os @ os'"]) (auto simp: funpow_swap1 adv_ended_def)
  qed
qed

subsection \<open>A start that waits for the flash\<close>

abbreviation flash_evt :: "nrf_soc_evt \<Rightarrow> bool" where
  "flash_evt evt \<equiv> evt = NRF_EVT_FLASH_OPERATION_SUCCESS \<or> evt = NRF_EVT_FLASH_OPERATION_ERROR"

text \<open>The events of the flash come with the environment of their time.\<close>

definition adv_sys_evts :: "'e adv_env \<Rightarrow> (nrf_soc_evt \<times> 'e) list \<Rightarrow> 'e adv_world \<Rightarrow> 'e adv_world" where
  "adv_sys_evts env evts w = fold (\<lambda>(evt, e) w. ble_advertising_on_sys_evt env evt (fst w, fst (snd w), e)) evts w"

lemma start_or_report_busy:
  "flash_access_in_progress env e \<Longrightarrow> start_or_report env mode (s, m, e) =
     (s\<lparr>m_adv_mode_current := mode, m_advertising_start_pending := True\<rparr>, m, e)"
  by (simp add: start_or_report_def ble_advertising_start_def)

lemma adv_sys_evts_busy:
  assumes "m_advertising_start_pending s" "\<forall>(evt, e) \<in> set evts. flash_access_in_progress env e"
  shows "\<exists>e'. adv_sys_evts env evts (s, m, e) = (s, m, e')"
  using assms(2)
proof (induction evts arbitrary: e)
  case Nil
  then show ?case by (simp add: adv_sys_evts_def)
next
  case (Cons x evts)
  obtain evt e1 where x: "x = (evt, e1)" by (cases x)
  have "flash_access_in_progress env e1" using Cons.prems x by simp
  then have "ble_advertising_on_sys_evt env evt (s, m, e1) = (s, m, e1)"
    using assms(1) by (cases s) (simp add: ble_advertising_on_sys_evt_def start_or_report_busy)
  moreover from Cons obtain e' where "adv_sys_evts env evts (s, m, e1) = (s, m, e')" by fastforce
  ultimately show ?case by (simp add: adv_sys_evts_def x)
qed

lemma adv_outcome_cong:
  assumes "m_adv_modes_config t = m_adv_modes_config s" "m_evt_handler t = m_evt_handler s" "m_whitelist t = m_whitelist s"
    "m_whitelist_temporarily_disabled t = m_whitelist_temporarily_disabled s" "m_adv_evt t = m_adv_evt s"
  shows "adv_outcome obs t e mode err s' e' peer wl chosen = adv_outcome obs s e mode err s' e' peer wl chosen"
proof -
  have "asks_peer t = asks_peer s" "wants_whitelist t = wants_whitelist s" "adv_evt_out t = adv_evt_out s"
    using assms by (auto simp: fun_eq_iff asks_peer_def wants_whitelist_def adv_evt_out_def)
  moreover from this have "adv_asks t = adv_asks s" "uses_whitelist t = uses_whitelist s"
    by (auto simp: fun_eq_iff adv_asks_def uses_whitelist_def)
  moreover from this have "adv_starts t = adv_starts s" "adv_start_evt t = adv_start_evt s"
    using assms(1,5) by (intro ext; simp add: adv_starts_def adv_start_evt_def split: ble_adv_mode.split)+
  ultimately show ?thesis by (simp only: adv_outcome_def assms)
qed

subsection \<open>An environment\<close>

text \<open>
  It lists the outputs. Its application has a peer, and replies with it to a request; nothing is stored in flash but at
  the time that two outputs have been made.
\<close>

definition adv_env_peer :: ble_gap_addr where
  "adv_env_peer = \<lparr>addr_type = 0, addr = [1, 2, 3, 4, 5, 6]\<rparr>"

definition adv_ps_example :: "u8 \<Rightarrow> ps_state" where
  "adv_ps_example n = \<lparr>queue_rp = 0, queue_count = n, queue_cmd = [], m_next_app_instance = 0, m_next_page_addr = 0, m_state = STATE_IDLE,
     m_swap_sub_state = STATE_ERASE_SWAP, m_head_word_size = 0, m_tail_word_size = 0, m_current_page_id = 0, m_num_of_command_retries = 0,
     m_app_table = [], m_num_of_bytes_written = 0, m_app_data_size = 0, ps_flags = 4\<rparr>"

definition adv_env_example :: "(adv_out list \<Rightarrow> bool) \<Rightarrow> adv_out list adv_env" where
  "adv_env_example busy = \<lparr>adv_sd = sd_example, adv_buf = 1000, sr_buf = 2000, manuf_array = 3000, service_array = 4000,
     behind_service_data = undefined, adv_ps_state = (\<lambda>e. adv_ps_example (if busy e then 1 else 0)),
     adv_fs_state = undefined,
     sd_ble_gap_adv_start = (\<lambda>p e. (NRF_SUCCESS, e @ [Start p])), sd_ble_gap_adv_stop = (\<lambda>e. (NRF_SUCCESS, e @ [Stop])),
     call_adv_evt_handler = (\<lambda>h evt (s, m, e).
       (if evt = BLE_ADV_EVT_PEER_ADDR_REQUEST then snd (ble_advertising_peer_addr_reply adv_env_peer s) else s, m, e @ [Evt evt])),
     call_adv_error_handler = (\<lambda>h c (s, m, e). (s, m, e @ [Err c]))\<rparr>"

lemma adv_env_example_observed: "adv_observed (adv_env_example busy) (\<lambda>e. e)"
  by (auto simp: adv_observed_def adv_env_example_def no_reply intro: peer_reply [OF no_reply surjective_pairing])

lemma adv_env_example_simps:
  "sd_ble_gap_adv_start (adv_env_example busy) p e = (NRF_SUCCESS, e @ [Start p])"
  "call_adv_evt_handler (adv_env_example busy) h BLE_ADV_EVT_PEER_ADDR_REQUEST (s, m, e) =
     (snd (ble_advertising_peer_addr_reply adv_env_peer s), m, e @ [Evt BLE_ADV_EVT_PEER_ADDR_REQUEST])"
  "evt \<noteq> BLE_ADV_EVT_PEER_ADDR_REQUEST \<Longrightarrow> call_adv_evt_handler (adv_env_example busy) h evt (s, m, e) = (s, m, e @ [Evt evt])"
  by (simp_all add: adv_env_example_def)

lemma adv_env_example_flash: "flash_access_in_progress (adv_env_example busy) e = busy e"
  by (simp add: flash_access_in_progress_def pstorage_access_status_get_def adv_env_example_def adv_ps_example_def ps_flag_def)

definition adv_state_example :: "ble_adv_modes_config \<Rightarrow> adv_state" where
  "adv_state_example c = \<lparr>m_advertising_start_pending = False, m_peer_address = adv_env_peer, m_advdata = adv_example,
     m_adv_evt = BLE_ADV_EVT_IDLE, m_evt_handler = 8, m_error_handler = 0, m_adv_mode_current = BLE_ADV_MODE_IDLE,
     m_adv_modes_config = c, m_whitelist = \<lparr>pp_addrs = [], addr_count = 0, pp_irks = [], irk_count = 0\<rparr>,
     m_whitelist_temporarily_disabled = False, m_whitelist_reply_expected = False, m_peer_addr_reply_expected = False,
     current_slave_link_conn_handle = 0xFFFF\<rparr>"

definition adv_config_example :: ble_adv_modes_config where
  "adv_config_example = \<lparr>ble_adv_whitelist_enabled = False, ble_adv_directed_enabled = False, ble_adv_directed_slow_enabled = True,
     ble_adv_directed_slow_interval = 64, ble_adv_directed_slow_timeout = 10, ble_adv_fast_enabled = True, ble_adv_fast_interval = 40,
     ble_adv_fast_timeout = 30, ble_adv_slow_enabled = True, ble_adv_slow_interval = 3200, ble_adv_slow_timeout = 180\<rparr>"

subsection \<open>Properties\<close>

text \<open>
  C35. Starting to advertise, with no flash access in progress. The application is asked for a peer address when a directed
  mode could be used and for a whitelist when an undirected one is; the mode is the first one from the requested on, in the order
  directed, slow directed, fast, slow, idle, that is enabled and (directed) has a peer. Every mode but idle makes one start of the
  SoftDevice with the parameters of that mode and the whitelist if it has entries, and then the event of the mode; idle makes none. An error
  ends with no event: that of the SoftDevice, or one of setting the advertising data for the whitelist.
\<close>

theorem adv_start_spec:
  assumes "adv_observed env obs" "\<not> flash_access_in_progress env e"
    and "ble_advertising_start env mode (s, m, e) = (err, s', m', e')"
  shows "\<exists>peer wl chosen. chosen = adv_chosen (m_adv_modes_config s) (peer_address_exists (addr peer)) mode \<and>
    m_adv_mode_current s' = chosen \<and> (\<not> asks_peer s mode \<longrightarrow> \<not> peer_address_exists (addr peer)) \<and>
    (adv_asks s mode chosen = [] \<longrightarrow> wl = m_whitelist s) \<and>
    (if err = NRF_SUCCESS
     then m_adv_evt s' = adv_start_evt s mode chosen wl \<and>
       obs e' = obs e @ adv_asks s mode chosen @ adv_starts s chosen peer wl @ adv_evt_out s (adv_start_evt s mode chosen wl)
     else chosen \<noteq> BLE_ADV_MODE_IDLE \<and> (obs e' = obs e @ adv_asks s mode chosen @ adv_starts s chosen peer wl \<or>
       uses_whitelist s chosen wl \<and> obs e' = obs e @ adv_asks s mode chosen))"
  using adv_start_outcome [OF assms] unfolding adv_outcome_def by blast

theorem adv_start_spec_witness:
  "\<exists>s' m' e' peer. ble_advertising_start (adv_env_example (\<lambda>e. False)) BLE_ADV_MODE_DIRECTED
       (adv_state_example adv_config_example, (\<lambda>a. 0), []) = (NRF_SUCCESS, s', m', e') \<and>
     e' = [Evt BLE_ADV_EVT_PEER_ADDR_REQUEST, Start (adv_start_params adv_config_example BLE_ADV_MODE_DIRECTED_SLOW peer None),
       Evt BLE_ADV_EVT_DIRECTED_SLOW]"
proof -
  let ?env = "adv_env_example (\<lambda>e. False)" and ?s = "adv_state_example adv_config_example"
  obtain s' m' e' where r: "ble_advertising_start ?env BLE_ADV_MODE_DIRECTED (?s, (\<lambda>a. 0), []) = (NRF_SUCCESS, s', m', e')"
    and mode: "m_adv_mode_current s' = BLE_ADV_MODE_DIRECTED_SLOW"
    by (simp add: ble_advertising_start_def adv_env_example_flash fetch_peer_address_def fetch_whitelist_def skip_disabled_modes_def
        adv_notify_def mode_params_def ble_advertising_peer_address_clear_def ble_advertising_peer_addr_reply_def
        adv_env_example_simps adv_state_example_def adv_config_example_def adv_env_peer_def peer_address_exists_def Let_def)
  have "adv_starts ?s BLE_ADV_MODE_DIRECTED_SLOW peer wl = [Start (adv_start_params adv_config_example BLE_ADV_MODE_DIRECTED_SLOW peer None)]"
    for peer wl by (simp add: adv_starts_def adv_state_example_def)
  moreover have "adv_asks ?s BLE_ADV_MODE_DIRECTED BLE_ADV_MODE_DIRECTED_SLOW = [Evt BLE_ADV_EVT_PEER_ADDR_REQUEST]"
    "adv_evt_out ?s BLE_ADV_EVT_DIRECTED_SLOW = [Evt BLE_ADV_EVT_DIRECTED_SLOW]"
    "adv_start_evt ?s BLE_ADV_MODE_DIRECTED BLE_ADV_MODE_DIRECTED_SLOW wl = BLE_ADV_EVT_DIRECTED_SLOW" for wl
    by (simp_all add: adv_asks_def asks_peer_def wants_whitelist_def adv_evt_out_def adv_start_evt_def adv_state_example_def
        adv_config_example_def)
  moreover have "\<not> flash_access_in_progress ?env []" by (simp add: adv_env_example_flash)
  ultimately show ?thesis
    using adv_start_spec [OF adv_env_example_observed _ r] r mode by auto
qed

text \<open>
  C37. A start during a flash access: nothing happens but that the start is remembered; the events of the flash that come while it
  is still busy leave it so, and the first one that finds the flash idle makes that
  start, with the mode that was asked for. It is made once.
\<close>

theorem adv_flash_deferral:
  assumes "adv_observed env obs" "flash_access_in_progress env e" "ble_advertising_start env mode (s, m, e) = (err, w1)"
    and "\<forall>(evt, e) \<in> set evts. flash_access_in_progress env e" "flash_evt evt" "\<not> flash_access_in_progress env e2"
    and "w2 = adv_sys_evts env (evts @ [(evt, e2)]) w1"
  shows "err = NRF_SUCCESS \<and> obs (snd (snd w1)) = obs e \<and> m_advertising_start_pending (fst w1) \<and>
    \<not> m_advertising_start_pending (fst w2) \<and>
    (\<exists>err s' e' peer wl chosen. adv_outcome obs s e2 mode err s' e' peer wl chosen \<and> fst w2 = s' \<and>
       obs (snd (snd w2)) = obs e' @ (if err \<noteq> NRF_SUCCESS \<and> m_error_handler s \<noteq> NULL then [Err err] else [])) \<and>
    (\<forall>evt' e3. adv_sys_evts env [(evt', e3)] w2 = (fst w2, fst (snd w2), e3))"
proof -
  let ?s = "s\<lparr>m_adv_mode_current := mode, m_advertising_start_pending := True\<rparr>"
  have w1: "err = NRF_SUCCESS" "w1 = (?s, m, e)" using assms(2,3) by (auto simp: ble_advertising_start_def)
  obtain e' where "adv_sys_evts env evts w1 = (?s, m, e')"
    unfolding w1 using adv_sys_evts_busy [OF _ assms(4), of ?s] by auto
  then have w2: "w2 = start_or_report env mode (s\<lparr>m_adv_mode_current := mode, m_advertising_start_pending := False\<rparr>, m, e2)"
    using assms(5,7) by (auto simp: adv_sys_evts_def ble_advertising_on_sys_evt_def)
  note o = start_or_report_outcome [OF assms(1) _ w2, unfolded fst_conv snd_conv, OF assms(6)]
  have c: "adv_outcome obs (s\<lparr>m_adv_mode_current := mode, m_advertising_start_pending := False\<rparr>) e2 mode err s' e' peer wl chosen =
      adv_outcome obs s e2 mode err s' e' peer wl chosen" for err s' e' peer wl chosen
    by (rule adv_outcome_cong) simp_all
  from o have p: "\<not> m_advertising_start_pending (fst w2)" by auto
  moreover have "adv_sys_evts env [(evt', e3)] w2 = (fst w2, fst (snd w2), e3)" for evt' e3
    using p by (simp add: adv_sys_evts_def ble_advertising_on_sys_evt_def)
  moreover have "\<exists>err s' e' peer wl chosen. adv_outcome obs s e2 mode err s' e' peer wl chosen \<and> fst w2 = s' \<and>
       obs (snd (snd w2)) = obs e' @ (if err \<noteq> NRF_SUCCESS \<and> m_error_handler s \<noteq> NULL then [Err err] else [])"
  proof -
    from o obtain err s' e' peer wl chosen where "adv_outcome obs s e2 mode err s' e' peer wl chosen" "fst w2 = s'"
      "obs (snd (snd w2)) = obs e' @ (if err \<noteq> NRF_SUCCESS \<and> m_error_handler s \<noteq> NULL then [Err err] else [])"
      unfolding c by auto
    then show ?thesis by blast
  qed
  ultimately show ?thesis using w1 by simp
qed

theorem adv_flash_deferral_witness:
  "\<exists>e1 w1 w2. ble_advertising_start (adv_env_example (\<lambda>e. length e < 2)) BLE_ADV_MODE_FAST
       (adv_state_example adv_config_example, (\<lambda>a. 0), [Stop]) = (NRF_SUCCESS, w1) \<and> snd (snd w1) = [Stop] \<and>
     w2 = adv_sys_evts (adv_env_example (\<lambda>e. length e < 2))
       [(NRF_EVT_FLASH_OPERATION_ERROR, [Stop]), (NRF_EVT_FLASH_OPERATION_SUCCESS, [Stop, Stop])] w1 \<and>
     \<not> m_advertising_start_pending (fst w2) \<and> adv_sys_evts (adv_env_example (\<lambda>e. length e < 2))
       [(NRF_EVT_FLASH_OPERATION_SUCCESS, e1)] w2 = (fst w2, fst (snd w2), e1)"
proof -
  let ?env = "adv_env_example (\<lambda>e. length e < 2)"
  obtain w1 where s: "ble_advertising_start ?env BLE_ADV_MODE_FAST (adv_state_example adv_config_example, (\<lambda>a. 0), [Stop]) = (NRF_SUCCESS, w1)"
    by (simp add: ble_advertising_start_def adv_env_example_flash)
  have p: "flash_access_in_progress ?env [Stop]" "\<not> flash_access_in_progress ?env [Stop, Stop]"
    "\<forall>(evt, e) \<in> set [(NRF_EVT_FLASH_OPERATION_ERROR, [Stop])]. flash_access_in_progress ?env e"
    by (simp_all add: adv_env_example_flash)
  note d = adv_flash_deferral [OF adv_env_example_observed p(1) s p(3) _ p(2) refl, of NRF_EVT_FLASH_OPERATION_SUCCESS]
  from s d show ?thesis by auto
qed



subsection \<open>Behaviour that surprises\<close>

text \<open>
  The last timeout leaves the slow mode as the current one, so a restart without whitelist stops an advertising
  that is over, and the error of the SoftDevice (which has nothing to stop) ends it before the restart.
\<close>

lemma restart_after_timeout_fails:
  assumes "m_adv_mode_current (fst w) = BLE_ADV_MODE_SLOW" "m_evt_handler (fst w) = NULL"
    and "w' = ble_advertising_on_ble_evt env (BLE_GAP_EVT_TIMEOUT BLE_GAP_TIMEOUT_SRC_ADVERTISING) w"
    and "ble_adv_whitelist_enabled (m_adv_modes_config (fst w))" "\<not> m_whitelist_temporarily_disabled (fst w)"
    and "sd_ble_gap_adv_stop env (snd (snd w)) = (NRF_ERROR_INVALID_STATE, e')"
  shows "ble_advertising_restart_without_whitelist env w' = (NRF_ERROR_INVALID_STATE, fst w', fst (snd w'), e')"
proof -
  obtain s m e where w: "w = (s, m, e)" by (cases w)
  show ?thesis using assms
    by (simp add: w ble_advertising_on_ble_evt_def on_adv_timeout_def adv_notify_def ble_advertising_restart_without_whitelist_def)
qed

text \<open>A start of the idle mode starts nothing and reports the event of the advertising before it.\<close>

lemma start_idle_reports_stale_event:
  assumes "\<not> flash_access_in_progress env e" "m_evt_handler s = 8" "m_adv_evt s = BLE_ADV_EVT_FAST"
  shows "\<exists>t. ble_advertising_start env BLE_ADV_MODE_IDLE (s, m, e) =
    (NRF_SUCCESS, call_adv_evt_handler env 8 BLE_ADV_EVT_FAST (t, m, e))"
  using assms
  by (auto simp: ble_advertising_start_def fetch_peer_address_def ble_advertising_peer_address_clear_def skip_disabled_modes_def
      fetch_whitelist_def mode_params_def adv_notify_def Let_def)

text \<open>A timeout of 65536 seconds becomes none at all.\<close>

lemma fast_timeout_truncated:
  "adv_timeout (adv_start_params (c\<lparr>ble_adv_fast_timeout := 0x10000\<rparr>) BLE_ADV_MODE_FAST peer wl) = 0"
  by simp

end
