(* ===== verification/DeviceManager.thy ===== *)
theory DeviceManager
  imports Pstorage Advertising
begin

text \<open>
  The device manager \<^verbatim>\<open>ble/device_manager/device_manager_peripheral.c\<close> with its configuration: one application, one
  connection, seven bonds, four client characteristic descriptors, 16 bytes of application context. It is a client of
  pstorage, which reads and writes through pointers: the tables of peers, bonds and GATT server attributes are in the byte memory,
  with the layout of their structures; everything else of its static data is \<open>dm_state\<close>.

  Its state is part of the environment of pstorage, so that pstorage can call its callback: \<open>dm_ps_env\<close> is the environment
  it gives to pstorage. The SoftDevice, the callbacks of the application and of other modules, and the addresses that
  the linker assigns are the parameter \<open>dm_env\<close>. A write of a structure leaves its padding alone, and trace output is not modelled.
\<close>

unbundle bit_operations_syntax

subsection \<open>Data\<close>

abbreviation (input) "DEVICE_MANAGER_MAX_BONDS \<equiv> 7 :: nat"
abbreviation (input) "DEVICE_MANAGER_MAX_CONNECTIONS \<equiv> 1 :: nat"
abbreviation (input) "DEVICE_MANAGER_MAX_APPLICATIONS \<equiv> 1 :: nat"
abbreviation (input) "DEVICE_MANAGER_APP_CONTEXT_SIZE \<equiv> 16 :: u16"
abbreviation (input) "DM_GATT_SERVER_ATTR_MAX_SIZE \<equiv> 26 :: nat"
abbreviation (input) "INVALID_ADDR_TYPE \<equiv> 0xFF :: u8"
abbreviation (input) "EDIV_INIT_VAL \<equiv> 0xFFFF :: u16"
abbreviation (input) "DM_INVALID_ID \<equiv> 0xFF :: u8"
abbreviation (input) "BLE_GAP_ADDR_TYPE_RANDOM_PRIVATE_RESOLVABLE \<equiv> 0x02 :: u8"
abbreviation (input) "BLE_GAP_SEC_STATUS_SUCCESS \<equiv> 0x00 :: u8"
abbreviation (input) "BLE_GAP_SEC_STATUS_PAIRING_NOT_SUPP \<equiv> 0x85 :: u8"
abbreviation (input) "SYS_ATTR_FLAG_SYS_SRVCS \<equiv> 1 :: u32"
abbreviation (input) "SYS_ATTR_FLAG_USR_SRVCS \<equiv> 2 :: u32"

abbreviation (input) "DM_STATE_IDLE \<equiv> 0x01 :: u8"
abbreviation (input) "STATE_CONNECTED \<equiv> 0x02 :: u8"
abbreviation (input) "STATE_PAIRING \<equiv> 0x04 :: u8"
abbreviation (input) "STATE_BONDED \<equiv> 0x08 :: u8"
abbreviation (input) "STATE_DISCONNECTING \<equiv> 0x10 :: u8"
abbreviation (input) "STATE_PAIRING_PENDING \<equiv> 0x20 :: u8"
abbreviation (input) "STATE_BOND_INFO_UPDATE \<equiv> 0x40 :: u8"
abbreviation (input) "STATE_LINK_ENCRYPTED \<equiv> 0x80 :: u8"
abbreviation (input) "STATE_CONTROL_PROCEDURE_IN_PROGRESS \<equiv> 0x01 :: u8"
abbreviation (input) "STATE_QUEUED_CONTROL_REQUEST \<equiv> 0x02 :: u8"

abbreviation (input) "UNASSIGNED \<equiv> 0xFF :: u8"
abbreviation (input) "IRK_ENTRY \<equiv> 0x01 :: u8"
abbreviation (input) "ADDR_ENTRY \<equiv> 0x02 :: u8"

abbreviation (input) "PEER_ID_SIZE \<equiv> 28 :: u16"
abbreviation (input) "BOND_SIZE \<equiv> 28 :: u16"
abbreviation (input) "GATTS_SERVICE_CONTEXT_SIZE \<equiv> 36 :: u16"
abbreviation (input) "ALL_CONTEXT_SIZE \<equiv> 116 :: u16"
abbreviation (input) "PEER_ID_STORAGE_OFFSET \<equiv> 0 :: u16"
abbreviation (input) "BOND_STORAGE_OFFSET \<equiv> 28 :: u16"
abbreviation (input) "SERVICE_STORAGE_OFFSET \<equiv> 56 :: u16"
abbreviation (input) "APP_CONTEXT_STORAGE_OFFSET \<equiv> 96 :: u16"

abbreviation (input) "DM_EVT_CONNECTION \<equiv> 0x11 :: u8"
abbreviation (input) "DM_EVT_DISCONNECTION \<equiv> 0x12 :: u8"
abbreviation (input) "DM_EVT_SECURITY_SETUP \<equiv> 0x13 :: u8"
abbreviation (input) "DM_EVT_SECURITY_SETUP_COMPLETE \<equiv> 0x14 :: u8"
abbreviation (input) "DM_EVT_LINK_SECURED \<equiv> 0x15 :: u8"
abbreviation (input) "DM_EVT_SECURITY_SETUP_REFRESH \<equiv> 0x16 :: u8"
abbreviation (input) "DM_EVT_DEVICE_CONTEXT_BASE \<equiv> 0x20 :: u8"
abbreviation (input) "DM_EVT_SERVICE_CONTEXT_BASE \<equiv> 0x30 :: u8"
abbreviation (input) "DM_EVT_APP_CONTEXT_BASE \<equiv> 0x40 :: u8"
abbreviation (input) "DM_LOAD_OPERATION_ID \<equiv> 0x01 :: u8"
abbreviation (input) "DM_STORE_OPERATION_ID \<equiv> 0x02 :: u8"
abbreviation (input) "DM_CLEAR_OPERATION_ID \<equiv> 0x03 :: u8"
abbreviation (input) "DM_PROTOCOL_CNTXT_GATT_SRVR_ID \<equiv> 0x01 :: u8"

text \<open>Codes that are or'ed with \<^verbatim>\<open>DEVICE_MANAGER_ERR_BASE\<close>, and the codes above it.\<close>

abbreviation (input) "DM_ERR_NO_MEM \<equiv> NRF_ERROR_OTHER 0x8004"
abbreviation (input) "DM_ERR_NOT_FOUND \<equiv> NRF_ERROR_OTHER 0x8005"
abbreviation (input) "DM_ERR_INVALID_PARAM \<equiv> NRF_ERROR_OTHER 0x8007"
abbreviation (input) "DM_ERR_INVALID_STATE \<equiv> NRF_ERROR_OTHER 0x8008"
abbreviation (input) "DM_ERR_NULL \<equiv> NRF_ERROR_OTHER 0x800E"
abbreviation (input) "DM_ERR_INVALID_ADDR \<equiv> NRF_ERROR_OTHER 0x8010"
abbreviation (input) "DM_ERR_API_NOT_IMPLEMENTED \<equiv> NRF_ERROR_OTHER 0x8090"
abbreviation (input) "DM_ERR_FEATURE_NOT_ENABLED \<equiv> NRF_ERROR_OTHER 0x8091"
abbreviation (input) "DM_NO_APP_CONTEXT \<equiv> NRF_ERROR_OTHER 0x8040"
abbreviation (input) "DM_SERVICE_CONTEXT_NOT_APPLIED \<equiv> NRF_ERROR_OTHER 0x8041"
abbreviation (input) "DM_DEVICE_CONTEXT_FULL \<equiv> NRF_ERROR_OTHER 0x8043"
abbreviation (input) "BLE_ERROR_INVALID_CONN_HANDLE \<equiv> NRF_ERROR_OTHER 0x3002"
abbreviation (input) "BLE_ERROR_NO_TX_PACKETS \<equiv> NRF_ERROR_OTHER 0x3004"

datatype device_store_state = STORE_ALL_CONTEXT | FIRST_BOND_STORE | UPDATE_PEER_ADDR

datatype dm_security_status = NOT_ENCRYPTED | ENCRYPTION_IN_PROGRESS | ENCRYPTED

record ble_gap_sec_kdist =
  kd_enc :: bool
  kd_id :: bool
  kd_sign :: bool
  kd_link :: bool

record ble_gap_sec_params =
  sp_bond :: bool
  sp_mitm :: bool
  sp_lesc :: bool
  sp_keypress :: bool
  sp_io_caps :: u8
  sp_oob :: bool
  sp_min_key_size :: u8
  sp_max_key_size :: u8
  sp_kdist_own :: ble_gap_sec_kdist
  sp_kdist_peer :: ble_gap_sec_kdist

record connection_instance =
  c_peer_addr :: ble_gap_addr
  c_conn_handle :: u16
  c_state :: u8
  c_bonded_dev_id :: u8

record application_instance =
  ap_ntf_cb :: ptr
  ap_sec_param :: ble_gap_sec_params
  ap_state :: u8
  ap_service :: u8

record dm_handle =
  dh_appl_id :: u8
  dh_connection_id :: u8
  dh_device_id :: u8
  dh_service_id :: u8

record dm_state =
  m_app_context_table :: "ptr list"
  m_connection_table :: "connection_instance list"
  m_application_table :: "application_instance list"
  m_storage_handle :: pstorage_handle
  m_peer_addr_update :: u32
  m_module_initialized :: bool
  m_irk_index_table :: "u8 list"

text \<open>
  The events of the SoftDevice that are handled, with what the module reads of them, and those of the module. The
  application gets, as parameter of an event, the event of the SoftDevice or data and length of a context, or keys.
\<close>

datatype dm_ble_evt =
    GAP_CONNECTED u16 ble_gap_addr u8 u8
  | GAP_DISCONNECTED u16
  | GAP_SEC_INFO_REQUEST u16 u16
  | GAP_SEC_PARAMS_REQUEST u16
  | GAP_AUTH_STATUS u16 u8 bool bool
  | GAP_CONN_SEC_UPDATE u16 u8 u8
  | GATTS_SYS_ATTR_MISSING u16
  | GAP_SEC_REQUEST u16
  | BLE_EVT_OTHER u16

record dm_sec_keyset =
  keys_peer_enc :: ptr
  keys_peer_id :: ptr
  keys_own_enc :: ptr
  keys_own_id :: ptr

datatype dm_event_param = P_GAP dm_ble_evt | P_CONTEXT ptr u32 | P_KEYS dm_sec_keyset

datatype dm_result = Result ret_code | Auth_status u8

record dm_event =
  ev_id :: u8
  ev_param :: dm_event_param

type_synonym 'e dm_world = "ps_state \<times> mem \<times> dm_state \<times> 'e"

record 'e dm_env =
  a_peer_table :: ptr
  a_bond_table :: ptr
  a_gatts_table :: ptr
  a_local_id_info :: ptr
  a_context_init_len :: ptr
  a_stack :: ptr
  a_pstorage_cb :: ptr
  dm_uicr_nrffw0 :: u32
  dm_ficr_codesize :: u32
  dm_flash_write :: "u32 \<Rightarrow> u32 \<Rightarrow> u32 \<Rightarrow> 'e \<Rightarrow> ret_code \<times> 'e"
  dm_flash_page_erase :: "u32 \<Rightarrow> 'e \<Rightarrow> ret_code \<times> 'e"
  other_ntf_cb :: "ptr \<Rightarrow> pstorage_handle \<Rightarrow> u8 \<Rightarrow> ret_code \<Rightarrow> ptr \<Rightarrow> u32 \<Rightarrow> 'e dm_world \<Rightarrow> 'e dm_world"
  dm_app_cb :: "ptr \<Rightarrow> dm_handle \<Rightarrow> dm_event \<Rightarrow> dm_result \<Rightarrow> 'e dm_world \<Rightarrow> 'e dm_world"
  sd_ble_gap_authenticate :: "u16 \<Rightarrow> ble_gap_sec_params \<Rightarrow> 'e \<Rightarrow> ret_code \<times> 'e"
  sd_ble_gap_sec_info_reply :: "u16 \<Rightarrow> ptr \<Rightarrow> ptr \<Rightarrow> mem \<Rightarrow> 'e \<Rightarrow> ret_code \<times> 'e"
  sd_ble_gap_sec_params_reply :: "u16 \<Rightarrow> u8 \<Rightarrow> ble_gap_sec_params option \<Rightarrow> dm_sec_keyset option \<Rightarrow> 'e \<Rightarrow> ret_code \<times> 'e"
  sd_ble_gatts_sys_attr_get :: "u16 \<Rightarrow> u32 \<Rightarrow> 'e \<Rightarrow> ret_code \<times> u8 list \<times> 'e"
  sd_ble_gatts_sys_attr_set :: "u16 \<Rightarrow> ptr \<Rightarrow> u16 \<Rightarrow> u32 \<Rightarrow> mem \<Rightarrow> 'e \<Rightarrow> ret_code \<times> 'e"
  sd_ble_gatts_service_changed :: "u16 \<Rightarrow> u16 \<Rightarrow> u16 \<Rightarrow> 'e \<Rightarrow> ret_code \<times> 'e"
  gpio_connected :: "'e \<Rightarrow> 'e"
  forwardEvent :: "u32 \<Rightarrow> u32 \<Rightarrow> 'e \<Rightarrow> 'e"

subsection \<open>The tables in memory\<close>

text \<open>
  \<^verbatim>\<open>peer_id_t\<close>: IRK at 0, address type at 16, address at 17, diversifier at 24, bit map at 26; \<^verbatim>\<open>bond_context_t\<close>: key at 0,
  its diversifier at 18; \<^verbatim>\<open>dm_gatts_context_t\<close>: flags, size at 4, attributes at 8.
\<close>

definition peer_at :: "'e dm_env \<Rightarrow> nat \<Rightarrow> ptr" where
  "peer_at env i = a_peer_table env + 28 * i"

definition bond_at :: "'e dm_env \<Rightarrow> nat \<Rightarrow> ptr" where
  "bond_at env i = a_bond_table env + 28 * i"

definition gatts_at :: "'e dm_env \<Rightarrow> nat \<Rightarrow> ptr" where
  "gatts_at env i = a_gatts_table env + 36 * i"

definition id_bitmap :: "'e dm_env \<Rightarrow> nat \<Rightarrow> mem \<Rightarrow> u8" where
  "id_bitmap env i m = m (peer_at env i + 26)"

definition id_bitmap_and :: "'e dm_env \<Rightarrow> nat \<Rightarrow> u8 \<Rightarrow> mem \<Rightarrow> mem" where
  "id_bitmap_and env i v m = m(peer_at env i + 26 := m (peer_at env i + 26) AND v)"

definition id_addr_info_set :: "'e dm_env \<Rightarrow> nat \<Rightarrow> ble_gap_addr \<Rightarrow> mem \<Rightarrow> mem" where
  "id_addr_info_set env i a m = mem_write (peer_at env i + 16) (addr_type a # addr a) m"

definition id_addr_info :: "'e dm_env \<Rightarrow> nat \<Rightarrow> mem \<Rightarrow> ble_gap_addr" where
  "id_addr_info env i m = \<lparr>addr_type = m (peer_at env i + 16), addr = mem_read (peer_at env i + 17) 6 m\<rparr>"

definition u32_at :: "ptr \<Rightarrow> mem \<Rightarrow> u32" where
  "u32_at p m = ucast (m p) OR push_bit 8 (ucast (m (p + 1))) OR push_bit 16 (ucast (m (p + 2))) OR push_bit 24 (ucast (m (p + 3)))"

definition u32_bytes :: "u32 \<Rightarrow> u8 list" where
  "u32_bytes v = [ucast v, ucast (drop_bit 8 v), ucast (drop_bit 16 v), ucast (drop_bit 24 v)]"

definition conn_update :: "nat \<Rightarrow> (connection_instance \<Rightarrow> connection_instance) \<Rightarrow> dm_state \<Rightarrow> dm_state" where
  "conn_update i f t = t\<lparr>m_connection_table := (m_connection_table t)[i := f (m_connection_table t ! i)]\<rparr>"

definition conn_state :: "nat \<Rightarrow> dm_state \<Rightarrow> u8" where
  "conn_state i t = c_state (m_connection_table t ! i)"

definition state_or :: "nat \<Rightarrow> u8 \<Rightarrow> dm_state \<Rightarrow> dm_state" where
  "state_or i v t = conn_update i (\<lambda>c. c\<lparr>c_state := c_state c OR v\<rparr>) t"

definition state_and :: "nat \<Rightarrow> u8 \<Rightarrow> dm_state \<Rightarrow> dm_state" where
  "state_and i v t = conn_update i (\<lambda>c. c\<lparr>c_state := c_state c AND v\<rparr>) t"

definition update_status_bit_set :: "nat \<Rightarrow> dm_state \<Rightarrow> dm_state" where
  "update_status_bit_set index t = t\<lparr>m_peer_addr_update := m_peer_addr_update t OR push_bit index 1\<rparr>"

definition update_status_bit_reset :: "nat \<Rightarrow> dm_state \<Rightarrow> dm_state" where
  "update_status_bit_reset index t = t\<lparr>m_peer_addr_update := m_peer_addr_update t AND NOT (push_bit index 1)\<rparr>"

definition update_status_bit_is_set :: "nat \<Rightarrow> dm_state \<Rightarrow> bool" where
  "update_status_bit_is_set index t \<longleftrightarrow> m_peer_addr_update t AND push_bit index 1 \<noteq> 0"

definition application_instance_init :: "nat \<Rightarrow> dm_state \<Rightarrow> dm_state" where
  "application_instance_init index t = t\<lparr>m_application_table := (m_application_table t)
     [index := (m_application_table t ! index)\<lparr>ap_ntf_cb := NULL, ap_state := 0, ap_service := 0\<rparr>]\<rparr>"

definition connection_instance_init :: "nat \<Rightarrow> dm_state \<Rightarrow> dm_state" where
  "connection_instance_init index t = conn_update index (\<lambda>c. \<lparr>c_peer_addr = \<lparr>addr_type = 0, addr = replicate 6 0\<rparr>,
     c_conn_handle = BLE_CONN_HANDLE_INVALID, c_state = DM_STATE_IDLE, c_bonded_dev_id = DM_INVALID_ID\<rparr>) t"

definition peer_instance_init :: "'e dm_env \<Rightarrow> nat \<Rightarrow> mem \<times> dm_state \<Rightarrow> mem \<times> dm_state" where
  "peer_instance_init env index mt =
     (case mt of (m, t) \<Rightarrow>
       let p = peer_at env index;
           m = mem_write (p + 17) (replicate 6 0) m;
           m = mem_write p (replicate 16 0) m;
           m = m(p + 16 := INVALID_ADDR_TYPE);
           m = m(p + 26 := UNASSIGNED);
           m = mem_write (p + 24) (uint16_bytes EDIV_INIT_VAL) m;
           t = update_status_bit_reset index t;
           t = t\<lparr>m_app_context_table := (m_app_context_table t)[index := NULL]\<rparr>
       in (m, t))"

subsection \<open>Instances\<close>

fun connection_search :: "u16 \<Rightarrow> u8 \<Rightarrow> nat \<Rightarrow> connection_instance list \<Rightarrow> ret_code \<Rightarrow> ret_code \<times> nat option" where
  "connection_search conn_handle state index [] err_code = (err_code, None)"
| "connection_search conn_handle state index (c # cs) err_code =
     (if state AND c_state c \<noteq> 0 then
        if conn_handle = BLE_CONN_HANDLE_INVALID \<or> conn_handle = c_conn_handle c then (NRF_SUCCESS, Some index)
        else connection_search conn_handle state (index + 1) cs NRF_ERROR_NOT_FOUND
      else connection_search conn_handle state (index + 1) cs err_code)"

definition connection_instance_find :: "u16 \<Rightarrow> u8 \<Rightarrow> dm_state \<Rightarrow> ret_code \<times> nat option" where
  "connection_instance_find conn_handle state t =
     connection_search conn_handle state 0 (m_connection_table t) NRF_ERROR_INVALID_STATE"

definition connection_instance_allocate :: "dm_state \<Rightarrow> ret_code \<times> nat option \<times> dm_state" where
  "connection_instance_allocate t =
     (case connection_instance_find BLE_CONN_HANDLE_INVALID DM_STATE_IDLE t of (err_code, p_instance) \<Rightarrow>
        if err_code = NRF_SUCCESS then
          (err_code, p_instance, conn_update (the p_instance) (\<lambda>c. c\<lparr>c_state := STATE_CONNECTED\<rparr>) t)
        else (NRF_ERROR_NO_MEM, p_instance, t))"

definition connection_instance_free :: "nat \<Rightarrow> dm_state \<Rightarrow> dm_state" where
  "connection_instance_free index t = (if conn_state index t \<noteq> DM_STATE_IDLE then connection_instance_init index t else t)"

definition device_instance_allocate :: "'e dm_env \<Rightarrow> ble_gap_addr \<Rightarrow> mem \<Rightarrow> ret_code \<times> nat option \<times> mem" where
  "device_instance_allocate env p_addr m =
     (case List.find (\<lambda>index. id_bitmap env index m = UNASSIGNED) [0..<DEVICE_MANAGER_MAX_BONDS] of
        None \<Rightarrow> (DM_DEVICE_CONTEXT_FULL, None, m)
      | Some index \<Rightarrow>
          (NRF_SUCCESS, Some index,
           if addr_type p_addr \<noteq> BLE_GAP_ADDR_TYPE_RANDOM_PRIVATE_RESOLVABLE
           then id_addr_info_set env index p_addr (id_bitmap_and env index (NOT ADDR_ENTRY) m)
           else id_bitmap_and env index (NOT IRK_ENTRY) m))"

definition device_instance_find :: "'e dm_env \<Rightarrow> ble_gap_addr option \<Rightarrow> u16 \<Rightarrow> mem \<Rightarrow> ret_code \<times> nat option" where
  "device_instance_find env p_addr ediv m =
     (case List.find (\<lambda>index. case p_addr of
          None \<Rightarrow> ediv = uint16_decode (peer_at env index + 24) m
        | Some a \<Rightarrow> id_addr_info env index m = a) [0..<DEVICE_MANAGER_MAX_BONDS] of
        None \<Rightarrow> (NRF_ERROR_NOT_FOUND, None)
      | Some index \<Rightarrow> (NRF_SUCCESS, Some index))"

subsection \<open>Notification, and the callback of pstorage\<close>

definition app_evt_notify :: "'e dm_env \<Rightarrow> dm_handle \<Rightarrow> dm_event \<Rightarrow> dm_result \<Rightarrow> 'e dm_world \<Rightarrow> 'e dm_world" where
  "app_evt_notify env p_handle p_event event_result w =
     (case w of (s, m, t, e) \<Rightarrow> dm_app_cb env (ap_ntf_cb (m_application_table t ! 0)) p_handle p_event event_result w)"

definition app_registered :: "u8 \<Rightarrow> dm_state \<Rightarrow> bool" where
  "app_registered x t \<longleftrightarrow>
     \<not> (unat x \<ge> DEVICE_MANAGER_MAX_APPLICATIONS \<or> ap_ntf_cb (m_application_table t ! unat x) = NULL)"

definition dm_handle_initialize :: dm_handle where
  "dm_handle_initialize = \<lparr>dh_appl_id = DM_INVALID_ID, dh_connection_id = DM_INVALID_ID, dh_device_id = DM_INVALID_ID,
     dh_service_id = DM_INVALID_ID\<rparr>"

definition storage_block :: "ps_state \<Rightarrow> dm_state \<Rightarrow> nat \<Rightarrow> ret_code \<times> pstorage_handle option" where
  "storage_block s t index = pstorage_block_identifier_get (Some (m_storage_handle t)) (of_nat index) s"

text \<open>The index of the structure of the table at \<open>base\<close> that \<open>p_data\<close> points into: any number for other pointers.\<close>

definition table_index :: "ptr \<Rightarrow> ptr \<Rightarrow> u32 \<Rightarrow> u32" where
  "table_index p_data base sz = (of_nat p_data - of_nat base) div sz"

text \<open>
  Which event a finished store, update or load is: the result are whether it is notified, event, handle and parameter,
  the changes of memory and state, and the operation as which it is reported.
\<close>

definition stored_event :: "'e dm_env \<Rightarrow> u8 \<Rightarrow> ret_code \<Rightarrow> ptr \<Rightarrow> u32 \<Rightarrow> dm_handle \<Rightarrow> mem \<Rightarrow> dm_state \<Rightarrow>
    bool \<times> u8 \<times> dm_handle \<times> dm_event_param \<times> u8 \<times> mem \<times> dm_state" where
  "stored_event env op result p_data data_len h m t =
     (let device = unat (dh_device_id h); ctx = P_CONTEXT p_data data_len
      in if table_index p_data (a_peer_table env) 28 < 7 then
           if result = NRF_SUCCESS \<and> \<not> update_status_bit_is_set device t then (False, 0, h, ctx, op, m, t)
           else (True, DM_EVT_DEVICE_CONTEXT_BASE, h, ctx, op, m, update_status_bit_reset device t)
         else if table_index p_data (a_bond_table env) 28 < 1 then
           let i = table_index p_data (a_bond_table env) 28
           in (True, DM_EVT_DEVICE_CONTEXT_BASE, h\<lparr>dh_connection_id := ucast i\<rparr>,
               P_KEYS \<lparr>keys_peer_enc = NULL, keys_peer_id = a_local_id_info env, keys_own_enc = bond_at env (unat i),
                 keys_own_id = peer_at env device\<rparr>, op, m, t)
         else if table_index p_data (a_gatts_table env) 36 < 1 then
           let i = table_index p_data (a_gatts_table env) 36
           in (True, DM_EVT_SERVICE_CONTEXT_BASE,
               h\<lparr>dh_connection_id := ucast i, dh_service_id := DM_PROTOCOL_CNTXT_GATT_SRVR_ID\<rparr>, ctx, op,
               if conn_state (unat i) t AND STATE_CONNECTED \<noteq> STATE_CONNECTED
               then mem_write (gatts_at env (unat i)) (replicate 36 0) m else m, t)
         else if p_data = a_context_init_len env then (True, DM_EVT_APP_CONTEXT_BASE, h, ctx, PSTORAGE_CLEAR_OP_CODE, m, t)
         else if m_app_context_table t ! device = p_data then
           (True, DM_EVT_APP_CONTEXT_BASE,
            case List.find (\<lambda>index. dh_device_id h = c_bonded_dev_id (m_connection_table t ! index)) [0..<DEVICE_MANAGER_MAX_CONNECTIONS] of
              None \<Rightarrow> h | Some index \<Rightarrow> h\<lparr>dh_connection_id := of_nat index\<rparr>, ctx, op, m, t)
         else (False, DM_EVT_APP_CONTEXT_BASE, h, ctx, op, m, t))"

definition dm_pstorage_cb_handler ::
  "'e dm_env \<Rightarrow> pstorage_handle \<Rightarrow> u8 \<Rightarrow> ret_code \<Rightarrow> ptr \<Rightarrow> u32 \<Rightarrow> 'e dm_world \<Rightarrow> 'e dm_world" where
  "dm_pstorage_cb_handler env p_handle op result p_data data_len w =
     (case w of (s, m, t, e) \<Rightarrow>
        if \<not> app_registered 0 t then w
        else if data_len > ucast ALL_CONTEXT_SIZE then w
        else
          let h = dm_handle_initialize\<lparr>dh_appl_id := 0\<rparr>
          in case List.find (\<lambda>index. storage_block s t index = (NRF_SUCCESS, Some p_handle)) [0..<DEVICE_MANAGER_MAX_BONDS] of
               None \<Rightarrow> w
             | Some index \<Rightarrow>
                 let h = h\<lparr>dh_device_id := of_nat index\<rparr>;
                     (app_notify, event_id, h, param, op, m, t) =
                       (if op = PSTORAGE_CLEAR_OP_CODE
                        then (True, if data_len = ucast ALL_CONTEXT_SIZE then DM_EVT_DEVICE_CONTEXT_BASE else DM_EVT_APP_CONTEXT_BASE,
                              h, P_CONTEXT p_data data_len, op, m, t)
                        else stored_event env op result p_data data_len h m t);
                     event_id = event_id OR (if op = PSTORAGE_CLEAR_OP_CODE then DM_CLEAR_OPERATION_ID
                       else if op = PSTORAGE_LOAD_OP_CODE then DM_LOAD_OPERATION_ID else DM_STORE_OPERATION_ID)
                 in if app_notify
                    then app_evt_notify env h \<lparr>ev_id = event_id, ev_param = param\<rparr> (Result result) (s, m, t, e)
                    else (s, m, t, e))"

text \<open>The environment that the device manager gives to pstorage.\<close>

definition dm_ps_env :: "'e dm_env \<Rightarrow> (dm_state \<times> 'e) ps_env" where
  "dm_ps_env env =
     \<lparr>ps_uicr_nrffw0 = dm_uicr_nrffw0 env, ps_ficr_codesize = dm_ficr_codesize env,
      ps_flash_write = \<lambda>d p k (t, e). (case dm_flash_write env d p k e of (r, e) \<Rightarrow> (r, t, e)),
      ps_flash_page_erase = \<lambda>p (t, e). (case dm_flash_page_erase env p e of (r, e) \<Rightarrow> (r, t, e)),
      call_ntf_cb = \<lambda>f h op r p n w.
        if f = a_pstorage_cb env then dm_pstorage_cb_handler env h op r p n w else other_ntf_cb env f h op r p n w\<rparr>"

type_synonym 'e storage_operation = "pstorage_handle option \<Rightarrow> ptr \<Rightarrow> u16 \<Rightarrow> u16 \<Rightarrow> 'e dm_world \<Rightarrow> ret_code \<times> 'e dm_world"

definition device_instance_free :: "'e dm_env \<Rightarrow> nat \<Rightarrow> 'e dm_world \<Rightarrow> ret_code \<times> 'e dm_world" where
  "device_instance_free env device_index w =
     (case w of (s, m, t, e) \<Rightarrow>
        case storage_block s t device_index of (err_code, block_handle) \<Rightarrow>
          if err_code = NRF_SUCCESS then
            case pstorage_clear (dm_ps_env env) block_handle ALL_CONTEXT_SIZE w of (err_code, s, m, t, e) \<Rightarrow>
              if err_code = NRF_SUCCESS
              then (case peer_instance_init env device_index (m, t) of (m, t) \<Rightarrow> (err_code, s, m, t, e))
              else (err_code, s, m, t, e)
          else (err_code, w))"

subsection \<open>Contexts\<close>

definition storage_operation_dummy_handler :: "'e storage_operation" where
  "storage_operation_dummy_handler p_dest p_src sz offset w = (NRF_SUCCESS, w)"

type_synonym 'e service_context_access = "pstorage_handle option \<Rightarrow> dm_handle \<Rightarrow> 'e dm_world \<Rightarrow> ret_code \<times> 'e dm_world"

definition no_service_context_store :: "'e service_context_access" where
  "no_service_context_store p_block_handle p_handle w = (NRF_SUCCESS, w)"

definition gatts_context_store :: "'e dm_env \<Rightarrow> 'e service_context_access" where
  "gatts_context_store env p_block_handle p_handle w =
     (case w of (s, m, t, e) \<Rightarrow>
        let c = unat (dh_connection_id p_handle); p = gatts_at env c;
            attr_flags = SYS_ATTR_FLAG_SYS_SRVCS OR SYS_ATTR_FLAG_USR_SRVCS
        in case sd_ble_gatts_sys_attr_get env (c_conn_handle (m_connection_table t ! c)) attr_flags e of (err_code, sys_data, e) \<Rightarrow>
             if err_code = NRF_SUCCESS then
               if mem_read (p + 8) (length sys_data) m = sys_data then
                 (NRF_SUCCESS, s, if conn_state c t AND STATE_CONNECTED \<noteq> STATE_CONNECTED then mem_write p (replicate 36 0) m else m, t, e)
               else
                 let store_fn = (if u32_at (p + 4) m \<noteq> 0 then pstorage_update (dm_ps_env env) else pstorage_store (dm_ps_env env));
                     m = mem_write p (u32_bytes attr_flags) m;
                     m = mem_write (p + 4) (u32_bytes (of_nat (length sys_data))) m;
                     m = mem_write (p + 8) sys_data m
                 in (NRF_SUCCESS, snd (store_fn p_block_handle p GATTS_SERVICE_CONTEXT_SIZE SERVICE_STORAGE_OFFSET (s, m, t, e)))
             else (NRF_SUCCESS, s, m, t, e))"

definition gattc_context_store :: "'e service_context_access" where
  "gattc_context_store p_block_handle p_handle w = (NRF_SUCCESS, w)"

definition gattsc_context_store :: "'e dm_env \<Rightarrow> 'e service_context_access" where
  "gattsc_context_store env p_block_handle p_handle w =
     (case gatts_context_store env p_block_handle p_handle w of (err_code, w) \<Rightarrow>
        if NRF_SUCCESS = err_code then gattc_context_store p_block_handle p_handle w else (err_code, w))"

definition m_service_context_store :: "'e dm_env \<Rightarrow> 'e service_context_access list" where
  "m_service_context_store env = [no_service_context_store, gatts_context_store env, gattc_context_store, gattsc_context_store env]"

definition device_context_store :: "'e dm_env \<Rightarrow> dm_handle \<Rightarrow> device_store_state \<Rightarrow> 'e dm_world \<Rightarrow> 'e dm_world" where
  "device_context_store env p_handle state w =
     (case w of (s, m, t, e) \<Rightarrow>
        let c = unat (dh_connection_id p_handle); device = unat (dh_device_id p_handle)
        in case storage_block s t device of (err_code, block_handle) \<Rightarrow>
             if err_code = NRF_SUCCESS then
               let store_fn =
                     (if state = UPDATE_PEER_ADDR \<or> conn_state c t AND STATE_BOND_INFO_UPDATE = STATE_BOND_INFO_UPDATE
                      then pstorage_update (dm_ps_env env)
                      else if state = FIRST_BOND_STORE then pstorage_store (dm_ps_env env)
                      else storage_operation_dummy_handler)
               in case store_fn block_handle (peer_at env device) PEER_ID_SIZE PEER_ID_STORAGE_OFFSET w of (err_code, w) \<Rightarrow>
                    let w = (if err_code = NRF_SUCCESS \<and> state \<noteq> UPDATE_PEER_ADDR then
                        (case w of (s, m, t, e) \<Rightarrow>
                           snd (store_fn block_handle (bond_at env c) BOND_SIZE BOND_STORAGE_OFFSET
                             (s, m, state_and c (NOT STATE_BOND_INFO_UPDATE) t, e))) else w)
                    in if state \<noteq> UPDATE_PEER_ADDR then
                         (case w of (s, m, t, e) \<Rightarrow>
                            snd ((m_service_context_store env ! unat (ap_service (m_application_table t ! unat (dh_appl_id p_handle))))
                              block_handle p_handle w))
                       else w
             else w)"

definition no_service_context_load :: "'e service_context_access" where
  "no_service_context_load p_block_handle p_handle w = (NRF_SUCCESS, w)"

definition gatts_context_load :: "'e dm_env \<Rightarrow> 'e service_context_access" where
  "gatts_context_load env p_block_handle p_handle w =
     (let p = gatts_at env (unat (dh_connection_id p_handle))
      in case pstorage_load (dm_ps_env env) p p_block_handle GATTS_SERVICE_CONTEXT_SIZE SERVICE_STORAGE_OFFSET w of
           (err_code, s, m, t, e) \<Rightarrow>
             (err_code, s, if err_code = NRF_SUCCESS \<and> u32_at (p + 4) m = 0xFFFFFFFF then mem_write (p + 4) (u32_bytes 0) m else m, t, e))"

definition gattc_context_load :: "'e service_context_access" where
  "gattc_context_load p_block_handle p_handle w = (NRF_SUCCESS, w)"

definition gattsc_context_load :: "'e dm_env \<Rightarrow> 'e service_context_access" where
  "gattsc_context_load env p_block_handle p_handle w =
     (case gatts_context_load env p_block_handle p_handle w of (err_code, w) \<Rightarrow>
        if NRF_SUCCESS = err_code then gattc_context_load p_block_handle p_handle w else (err_code, w))"

definition m_service_context_load :: "'e dm_env \<Rightarrow> 'e service_context_access list" where
  "m_service_context_load env = [no_service_context_load, gatts_context_load env, gattc_context_load, gattsc_context_load env]"

definition no_service_context_apply :: "dm_handle \<Rightarrow> 'e dm_world \<Rightarrow> ret_code \<times> 'e dm_world" where
  "no_service_context_apply p_handle w = (NRF_SUCCESS, w)"

definition gatts_context_apply :: "'e dm_env \<Rightarrow> dm_handle \<Rightarrow> 'e dm_world \<Rightarrow> ret_code \<times> 'e dm_world" where
  "gatts_context_apply env p_handle w =
     (case w of (s, m, t, e) \<Rightarrow>
        let c = unat (dh_connection_id p_handle); p = gatts_at env c; conn_handle = c_conn_handle (m_connection_table t ! c);
            stored = (u32_at (p + 4) m \<noteq> 0 \<and> conn_state c t AND STATE_LINK_ENCRYPTED = STATE_LINK_ENCRYPTED \<and>
              conn_state c t AND STATE_BOND_INFO_UPDATE \<noteq> STATE_BOND_INFO_UPDATE);
            p_gatts_context = (if stored then p + 8 else NULL);
            context_len = (if stored then ucast (u32_at (p + 4) m) else 0);
            context_flags = (if stored then u32_at p m else 0)
        in case sd_ble_gatts_sys_attr_set env conn_handle p_gatts_context context_len context_flags m e of (err_code, e) \<Rightarrow>
           case (if err_code = NRF_ERROR_INVALID_DATA
                 then (case sd_ble_gatts_sys_attr_set env conn_handle p_gatts_context context_len SYS_ATTR_FLAG_SYS_SRVCS m e of
                         (err_code, e) \<Rightarrow> (err_code, SYS_ATTR_FLAG_SYS_SRVCS, e))
                 else (err_code, context_flags, e)) of (err_code, context_flags, e) \<Rightarrow>
             let err_code = (if err_code \<noteq> NRF_SUCCESS then DM_SERVICE_CONTEXT_NOT_APPLIED else err_code)
             in if context_flags = SYS_ATTR_FLAG_SYS_SRVCS then
                  (case sd_ble_gatts_service_changed env conn_handle 0x000C 0xFFFF e of (err_code, e) \<Rightarrow>
                     (if err_code = BLE_ERROR_INVALID_CONN_HANDLE \<or> err_code = NRF_ERROR_INVALID_STATE \<or>
                         err_code = BLE_ERROR_NO_TX_PACKETS \<or> err_code = NRF_ERROR_BUSY
                      then DM_SERVICE_CONTEXT_NOT_APPLIED else NRF_SUCCESS, s, m, t, e))
                else (err_code, s, m, t, e))"

definition gattc_context_apply :: "dm_handle \<Rightarrow> 'e dm_world \<Rightarrow> ret_code \<times> 'e dm_world" where
  "gattc_context_apply p_handle w = (NRF_SUCCESS, w)"

definition gattsc_context_apply :: "'e dm_env \<Rightarrow> dm_handle \<Rightarrow> 'e dm_world \<Rightarrow> ret_code \<times> 'e dm_world" where
  "gattsc_context_apply env p_handle w =
     (case gatts_context_apply env p_handle w of (err_code, w) \<Rightarrow>
        if err_code = NRF_SUCCESS then gattc_context_apply p_handle w else (err_code, w))"

definition m_service_context_apply :: "'e dm_env \<Rightarrow> (dm_handle \<Rightarrow> 'e dm_world \<Rightarrow> ret_code \<times> 'e dm_world) list" where
  "m_service_context_apply env = [no_service_context_apply, gatts_context_apply env, gattc_context_apply, gattsc_context_apply env]"

definition bond_data_load :: "'e dm_env \<Rightarrow> dm_handle \<Rightarrow> 'e dm_world \<Rightarrow> 'e dm_world" where
  "bond_data_load env p_handle w =
     (case w of (s, m, t, e) \<Rightarrow>
        case storage_block s t (unat (dh_device_id p_handle)) of (err_code, block_handle) \<Rightarrow>
          if err_code = NRF_SUCCESS then
            case snd (pstorage_load (dm_ps_env env) (bond_at env (unat (dh_connection_id p_handle))) block_handle BOND_SIZE
                BOND_STORAGE_OFFSET w) of (s, m, t, e) \<Rightarrow>
              snd ((m_service_context_load env ! unat (ap_service (m_application_table t ! 0))) block_handle p_handle (s, m, t, e))
          else w)"

subsection \<open>Initialisation and registration\<close>

definition dm_storage_param :: "'e dm_env \<Rightarrow> pstorage_module_param" where
  "dm_storage_param env = \<lparr>param_cb = a_pstorage_cb env, param_block_size = ALL_CONTEXT_SIZE, param_block_count = 7\<rparr>"

fun dm_load_peers :: "'e dm_env \<Rightarrow> nat list \<Rightarrow> ret_code \<Rightarrow> 'e dm_world \<Rightarrow> ret_code \<times> 'e dm_world" where
  "dm_load_peers env [] err_code w = (err_code, w)"
| "dm_load_peers env (index # is) err_code w =
     (case w of (s, m, t, e) \<Rightarrow>
        case storage_block s t index of (err_code, block_handle) \<Rightarrow>
          if err_code = NRF_SUCCESS then
            case pstorage_load (dm_ps_env env) (peer_at env index) block_handle PEER_ID_SIZE 0 w of (err_code, s, m, t, e) \<Rightarrow>
              if err_code \<noteq> NRF_SUCCESS then (err_code, s, m, t\<lparr>m_module_initialized := False\<rparr>, e)
              else dm_load_peers env is err_code (s, m, t, e)
          else (err_code, s, m, t\<lparr>m_module_initialized := False\<rparr>, e))"

definition dm_tables_init :: "'e dm_env \<Rightarrow> mem \<times> dm_state \<Rightarrow> mem \<times> dm_state" where
  "dm_tables_init env mt =
     (case mt of (m, t) \<Rightarrow>
        let t = fold application_instance_init [0..<DEVICE_MANAGER_MAX_APPLICATIONS] t;
            t = fold connection_instance_init [0..<DEVICE_MANAGER_MAX_CONNECTIONS] t;
            m = mem_write (a_gatts_table env) (replicate 36 0) m
        in fold (\<lambda>index mt. case peer_instance_init env index mt of (m, t) \<Rightarrow>
             (m, t\<lparr>m_irk_index_table := (m_irk_index_table t)[index := DM_INVALID_ID]\<rparr>)) [0..<DEVICE_MANAGER_MAX_BONDS] (m, t))"

text \<open>The parameter is whether to clear the persistent data.\<close>

definition dm_init :: "'e dm_env \<Rightarrow> bool option \<Rightarrow> 'e dm_world \<Rightarrow> ret_code \<times> 'e dm_world" where
  "dm_init env p_init_param w =
     (case p_init_param of
        None \<Rightarrow> (DM_ERR_NULL, w)
      | Some clear_persistent_data \<Rightarrow>
          (case w of (s, m, t, e) \<Rightarrow>
             case dm_tables_init env (m, t) of (m, t) \<Rightarrow>
               case pstorage_register (dm_ps_env env) (Some (dm_storage_param env)) s of (err_code, base, s) \<Rightarrow>
                 let t = (case base of None \<Rightarrow> t | Some h \<Rightarrow> t\<lparr>m_storage_handle := h\<rparr>)
                 in if err_code = NRF_SUCCESS then
                      let t = t\<lparr>m_module_initialized := True\<rparr>
                      in if \<not> clear_persistent_data then dm_load_peers env [0..<DEVICE_MANAGER_MAX_BONDS] err_code (s, m, t, e)
                         else pstorage_clear (dm_ps_env env) (Some (m_storage_handle t)) (ALL_CONTEXT_SIZE * 7) (s, m, t, e)
                    else (err_code, s, m, t, e)))"

record dm_application_param =
  dp_evt_handler :: ptr
  dp_service_type :: u8
  dp_sec_param :: ble_gap_sec_params

definition dm_register :: "ptr \<Rightarrow> dm_application_param option \<Rightarrow> dm_state \<Rightarrow> ret_code \<times> u8 option \<times> dm_state" where
  "dm_register p_appl_instance p_appl_param t =
     (if \<not> m_module_initialized t then (DM_ERR_INVALID_STATE, None, t)
      else if p_appl_instance = NULL then (DM_ERR_NULL, None, t)
      else case p_appl_param of
        None \<Rightarrow> (DM_ERR_NULL, None, t)
      | Some p \<Rightarrow>
          if dp_evt_handler p = NULL then (DM_ERR_NULL, None, t)
          else if ap_ntf_cb (m_application_table t ! 0) = NULL then
            let sp = dp_sec_param p;
                sp = sp\<lparr>sp_kdist_peer := (sp_kdist_peer sp)\<lparr>kd_enc := False, kd_id := True, kd_sign := False\<rparr>,
                        sp_kdist_own := (sp_kdist_own sp)\<lparr>kd_enc := True, kd_id := True, kd_sign := False\<rparr>\<rparr>
            in (NRF_SUCCESS, Some 0, t\<lparr>m_application_table := (m_application_table t)[0 := (m_application_table t ! 0)
                  \<lparr>ap_ntf_cb := dp_evt_handler p, ap_sec_param := sp, ap_service := dp_service_type p\<rparr>]\<rparr>)
          else (DM_ERR_NO_MEM, None, t))"

subsection \<open>Security and the whitelist\<close>

definition connection_verified :: "u8 \<Rightarrow> dm_state \<Rightarrow> bool" where
  "connection_verified x t \<longleftrightarrow> \<not> (unat x \<ge> DEVICE_MANAGER_MAX_CONNECTIONS \<or> conn_state (unat x) t = DM_STATE_IDLE)"

definition device_verified :: "'e dm_env \<Rightarrow> u8 \<Rightarrow> mem \<Rightarrow> bool" where
  "device_verified env x m \<longleftrightarrow> \<not> (unat x \<ge> DEVICE_MANAGER_MAX_BONDS \<or> id_bitmap env (unat x) m = UNASSIGNED)"

definition device_bonded :: "u8 \<Rightarrow> dm_state \<Rightarrow> bool" where
  "device_bonded x t \<longleftrightarrow> conn_state (unat x) t AND STATE_BONDED = STATE_BONDED"

definition dm_security_setup_req :: "'e dm_env \<Rightarrow> dm_handle option \<Rightarrow> 'e dm_world \<Rightarrow> ret_code \<times> 'e dm_world" where
  "dm_security_setup_req env p_handle w =
     (case w of (s, m, t, e) \<Rightarrow>
        if \<not> m_module_initialized t then (DM_ERR_INVALID_STATE, w)
        else case p_handle of
          None \<Rightarrow> (DM_ERR_NULL, w)
        | Some h \<Rightarrow>
            if \<not> app_registered (dh_appl_id h) t then (DM_ERR_INVALID_STATE, w)
            else if \<not> connection_verified (dh_connection_id h) t then (DM_ERR_INVALID_ADDR, w)
            else if conn_state (unat (dh_connection_id h)) t AND STATE_CONNECTED = STATE_CONNECTED then
              (case sd_ble_gap_authenticate env (c_conn_handle (m_connection_table t ! unat (dh_connection_id h)))
                  (ap_sec_param (m_application_table t ! 0)) e of (err_code, e) \<Rightarrow> (err_code, s, m, t, e))
            else (DM_ERR_INVALID_STATE, w))"

definition dm_security_status_req :: "dm_handle option \<Rightarrow> ptr \<Rightarrow> dm_state \<Rightarrow> ret_code \<times> dm_security_status option" where
  "dm_security_status_req p_handle p_status t =
     (if \<not> m_module_initialized t then (DM_ERR_INVALID_STATE, None)
      else case p_handle of
        None \<Rightarrow> (DM_ERR_NULL, None)
      | Some h \<Rightarrow>
          if p_status = NULL then (DM_ERR_NULL, None)
          else if \<not> app_registered (dh_appl_id h) t then (DM_ERR_INVALID_STATE, None)
          else if \<not> connection_verified (dh_connection_id h) t then (DM_ERR_INVALID_ADDR, None)
          else
            let st = conn_state (unat (dh_connection_id h)) t
            in (NRF_SUCCESS, Some (if st AND STATE_PAIRING \<noteq> 0 \<or> st AND STATE_PAIRING_PENDING \<noteq> 0 then ENCRYPTION_IN_PROGRESS
                  else if st AND STATE_LINK_ENCRYPTED \<noteq> 0 then ENCRYPTED else NOT_ENCRYPTED)))"

text \<open>Arrays of a whitelist with no elements stand for null pointers.\<close>

definition peer_connected :: "nat \<Rightarrow> dm_state \<Rightarrow> bool" where
  "peer_connected index t \<longleftrightarrow> list_ex (\<lambda>c. of_nat index = c_bonded_dev_id c \<and> c_state c AND STATE_CONNECTED = STATE_CONNECTED)
     (take DEVICE_MANAGER_MAX_CONNECTIONS (m_connection_table t))"

definition whitelist_add :: "'e dm_env \<Rightarrow> mem \<Rightarrow> nat \<Rightarrow> ble_gap_whitelist \<times> nat \<times> nat \<times> dm_state \<Rightarrow> ble_gap_whitelist \<times> nat \<times> nat \<times> dm_state" where
  "whitelist_add env m index x =
     (case x of (wl, addrs, irks, t) \<Rightarrow>
        if \<not> peer_connected index t then
          let (wl, irks, t) =
                (if irks < unat (irk_count wl) \<and> id_bitmap env index m AND IRK_ENTRY = 0
                 then (wl\<lparr>pp_irks := (pp_irks wl)[irks := peer_at env index]\<rparr>, irks + 1,
                       t\<lparr>m_irk_index_table := (m_irk_index_table t)[irks := of_nat index]\<rparr>)
                 else (wl, irks, t));
              (wl, addrs) =
                (if addrs < unat (addr_count wl) \<and> id_bitmap env index m AND ADDR_ENTRY = 0
                 then (wl\<lparr>pp_addrs := (pp_addrs wl)[addrs := peer_at env index + 16]\<rparr>, addrs + 1)
                 else (wl, addrs))
          in (wl, addrs, irks, t)
        else (wl, addrs, irks, t))"

definition dm_whitelist_create ::
  "'e dm_env \<Rightarrow> u8 option \<Rightarrow> ble_gap_whitelist option \<Rightarrow> mem \<times> dm_state \<Rightarrow> ret_code \<times> ble_gap_whitelist option \<times> dm_state" where
  "dm_whitelist_create env p_handle whitelist mt =
     (case mt of (m, t) \<Rightarrow>
        if \<not> m_module_initialized t then (DM_ERR_INVALID_STATE, None, t)
        else case (p_handle, whitelist) of
          (Some h, Some wl) \<Rightarrow>
            if pp_addrs wl = [] \<or> pp_irks wl = [] then (DM_ERR_NULL, None, t)
            else if \<not> app_registered h t then (DM_ERR_INVALID_STATE, None, t)
            else (case fold (whitelist_add env m) [0..<DEVICE_MANAGER_MAX_BONDS] (wl, 0, 0, t) of (wl, addrs, irks, t) \<Rightarrow>
              (NRF_SUCCESS, Some (wl\<lparr>addr_count := of_nat addrs, irk_count := of_nat irks\<rparr>), t))
        | _ \<Rightarrow> (DM_ERR_NULL, None, t))"

subsection \<open>Devices\<close>

definition dm_device_add :: "ret_code" where
  "dm_device_add = DM_ERR_API_NOT_IMPLEMENTED"

definition dm_device_delete :: "'e dm_env \<Rightarrow> dm_handle option \<Rightarrow> 'e dm_world \<Rightarrow> ret_code \<times> 'e dm_world" where
  "dm_device_delete env p_handle w =
     (case w of (s, m, t, e) \<Rightarrow>
        if \<not> m_module_initialized t then (DM_ERR_INVALID_STATE, w)
        else case p_handle of
          None \<Rightarrow> (DM_ERR_NULL, w)
        | Some h \<Rightarrow>
            if \<not> app_registered (dh_appl_id h) t then (DM_ERR_INVALID_STATE, w)
            else if \<not> device_verified env (dh_device_id h) m then (DM_ERR_INVALID_ADDR, w)
            else device_instance_free env (unat (dh_device_id h)) w)"

definition dm_device_delete_all :: "'e dm_env \<Rightarrow> u8 option \<Rightarrow> 'e dm_world \<Rightarrow> ret_code \<times> 'e dm_world" where
  "dm_device_delete_all env p_handle w =
     (case w of (s, m, t, e) \<Rightarrow>
        if \<not> m_module_initialized t then (DM_ERR_INVALID_STATE, w)
        else case p_handle of
          None \<Rightarrow> (DM_ERR_NULL, w)
        | Some h \<Rightarrow>
            if \<not> app_registered h t then (DM_ERR_INVALID_STATE, w)
            else fold (\<lambda>index (err_code, w). case w of (s, m, t, e) \<Rightarrow>
                if id_bitmap env index m \<noteq> UNASSIGNED then device_instance_free env index w else (err_code, w))
              [0..<DEVICE_MANAGER_MAX_BONDS] (NRF_SUCCESS, w))"

definition dm_application_instance_set :: "u8 option \<Rightarrow> dm_handle option \<Rightarrow> dm_state \<Rightarrow> ret_code \<times> dm_handle option" where
  "dm_application_instance_set p_appl_instance p_handle t =
     (if \<not> m_module_initialized t then (DM_ERR_INVALID_STATE, p_handle)
      else case (p_handle, p_appl_instance) of
        (Some h, Some a) \<Rightarrow> if \<not> app_registered a t then (DM_ERR_INVALID_STATE, Some h) else (NRF_SUCCESS, Some (h\<lparr>dh_appl_id := a\<rparr>))
      | _ \<Rightarrow> (DM_ERR_NULL, p_handle))"

definition dm_peer_addr_set :: "'e dm_env \<Rightarrow> dm_handle option \<Rightarrow> ble_gap_addr option \<Rightarrow> 'e dm_world \<Rightarrow> ret_code \<times> 'e dm_world" where
  "dm_peer_addr_set env p_handle p_addr w =
     (case w of (s, m, t, e) \<Rightarrow>
        if \<not> m_module_initialized t then (DM_ERR_INVALID_STATE, w)
        else case (p_handle, p_addr) of
          (Some h, Some a) \<Rightarrow>
            if \<not> app_registered (dh_appl_id h) t then (DM_ERR_INVALID_STATE, w)
            else if \<not> device_verified env (dh_device_id h) m then (DM_ERR_INVALID_ADDR, w)
            else if dh_connection_id h = DM_INVALID_ID \<and> addr_type a \<noteq> BLE_GAP_ADDR_TYPE_RANDOM_PRIVATE_RESOLVABLE then
              (NRF_SUCCESS, device_context_store env h UPDATE_PEER_ADDR
                (s, id_addr_info_set env (unat (dh_device_id h)) a m, update_status_bit_set (unat (dh_device_id h)) t, e))
            else (DM_ERR_INVALID_PARAM, w)
        | _ \<Rightarrow> (DM_ERR_NULL, w))"

definition dm_peer_addr_get :: "'e dm_env \<Rightarrow> dm_handle option \<Rightarrow> ptr \<Rightarrow> mem \<times> dm_state \<Rightarrow> ret_code \<times> ble_gap_addr option" where
  "dm_peer_addr_get env p_handle p_addr mt =
     (case mt of (m, t) \<Rightarrow>
        if \<not> m_module_initialized t then (DM_ERR_INVALID_STATE, None)
        else case p_handle of
          None \<Rightarrow> (DM_ERR_NULL, None)
        | Some h \<Rightarrow>
            if p_addr = NULL then (DM_ERR_NULL, None)
            else if \<not> app_registered (dh_appl_id h) t then (DM_ERR_INVALID_STATE, None)
            else if dh_device_id h = DM_INVALID_ID then
              if dh_connection_id h \<noteq> DM_INVALID_ID \<and> conn_state (unat (dh_connection_id h)) t AND STATE_CONNECTED = STATE_CONNECTED
              then (NRF_SUCCESS, Some (c_peer_addr (m_connection_table t ! unat (dh_connection_id h))))
              else (DM_ERR_NOT_FOUND, None)
            else if id_bitmap env (unat (dh_device_id h)) m AND ADDR_ENTRY = 0
            then (NRF_SUCCESS, Some (id_addr_info env (unat (dh_device_id h)) m))
            else (DM_ERR_NOT_FOUND, None))"

text \<open>
  Of the keys of the result only the pointers that are not null: identity keys of the central and the peripheral, and the
  encryption key of the peripheral, which is a variable of the function.
\<close>

definition dm_distributed_keys_get ::
  "'e dm_env \<Rightarrow> dm_handle option \<Rightarrow> ptr \<Rightarrow> 'e dm_world \<Rightarrow> ret_code \<times> (ptr \<times> ptr \<times> ptr) option \<times> 'e dm_world" where
  "dm_distributed_keys_get env p_handle p_key_dist w =
     (case w of (s, m, t, e) \<Rightarrow>
        if \<not> m_module_initialized t then (DM_ERR_INVALID_STATE, None, w)
        else case p_handle of
          None \<Rightarrow> (DM_ERR_NULL, None, w)
        | Some h \<Rightarrow>
            if p_key_dist = NULL then (DM_ERR_NULL, None, w)
            else if \<not> app_registered (dh_appl_id h) t then (DM_ERR_INVALID_STATE, None, w)
            else if \<not> device_verified env (dh_device_id h) m then (DM_ERR_INVALID_ADDR, None, w)
            else
              let keys = (peer_at env (unat (dh_device_id h)), a_local_id_info env, a_stack env)
              in case storage_block s t (unat (dh_device_id h)) of (err_code, block_handle) \<Rightarrow>
                   if err_code = NRF_SUCCESS then
                     (case pstorage_load (dm_ps_env env) (a_stack env) block_handle BOND_SIZE BOND_STORAGE_OFFSET w of
                        (err_code, w) \<Rightarrow> (err_code, Some keys, w))
                   else (err_code, Some keys, w))"

definition dm_handle_get :: "u16 \<Rightarrow> dm_handle option \<Rightarrow> dm_state \<Rightarrow> ret_code \<times> dm_handle option" where
  "dm_handle_get conn_handle p_handle t =
     (case p_handle of
        None \<Rightarrow> (DM_ERR_NULL, None)
      | Some h \<Rightarrow>
          if \<not> app_registered (dh_appl_id h) t then (DM_ERR_INVALID_STATE, Some h)
          else case List.find (\<lambda>index. conn_handle = c_conn_handle (m_connection_table t ! index)) [0..<DEVICE_MANAGER_MAX_CONNECTIONS] of
            None \<Rightarrow> (NRF_ERROR_NOT_FOUND, Some (h\<lparr>dh_device_id := DM_INVALID_ID\<rparr>))
          | Some index \<Rightarrow> (NRF_SUCCESS, Some (h\<lparr>dh_connection_id := of_nat index,
              dh_device_id := c_bonded_dev_id (m_connection_table t ! index)\<rparr>)))"

subsection \<open>Service and application contexts\<close>

record dm_service_context =
  sc_service_type :: u8
  sc_p_data :: ptr
  sc_len :: u32

text \<open>The context of an application, with the address at which its length is.\<close>

record dm_application_context =
  ac_p_len :: ptr
  ac_len :: u32
  ac_p_data :: ptr

definition dm_service_context_set :: "'e dm_env \<Rightarrow> dm_handle option \<Rightarrow> dm_service_context option \<Rightarrow> 'e dm_world \<Rightarrow> ret_code \<times> 'e dm_world" where
  "dm_service_context_set env p_handle p_context w =
     (case w of (s, m, t, e) \<Rightarrow>
        if \<not> m_module_initialized t then (DM_ERR_INVALID_STATE, w)
        else case (p_handle, p_context) of
          (Some h, Some x) \<Rightarrow>
            if \<not> app_registered (dh_appl_id h) t then (DM_ERR_INVALID_STATE, w)
            else if \<not> connection_verified (dh_connection_id h) t then (DM_ERR_INVALID_ADDR, w)
            else if \<not> device_verified env (dh_device_id h) m then (DM_ERR_INVALID_ADDR, w)
            else
              let m = (if sc_p_data x \<noteq> NULL \<and> sc_len x \<noteq> 0 \<and> sc_len x < 26 \<and> sc_service_type x = DM_PROTOCOL_CNTXT_GATT_SRVR_ID
                       then memcpy (gatts_at env (unat (dh_connection_id h)) + 8) (sc_p_data x) (unat (sc_len x)) m else m)
              in (m_service_context_store env ! unat (sc_service_type x)) (snd (storage_block s t (unat (dh_device_id h)))) h (s, m, t, e)
        | _ \<Rightarrow> (DM_ERR_NULL, w))"

definition dm_service_context_get ::
  "'e dm_env \<Rightarrow> dm_handle option \<Rightarrow> dm_service_context option \<Rightarrow> 'e dm_world \<Rightarrow> ret_code \<times> dm_service_context option \<times> 'e dm_world" where
  "dm_service_context_get env p_handle p_context w =
     (case w of (s, m, t, e) \<Rightarrow>
        if \<not> m_module_initialized t then (DM_ERR_INVALID_STATE, p_context, w)
        else case (p_handle, p_context) of
          (Some h, Some x) \<Rightarrow>
            if \<not> app_registered (dh_appl_id h) t then (DM_ERR_INVALID_STATE, p_context, w)
            else if \<not> device_verified env (dh_device_id h) m then (DM_ERR_INVALID_ADDR, p_context, w)
            else if conn_state (unat (dh_connection_id h)) t AND STATE_CONNECTED \<noteq> STATE_CONNECTED
            then (DM_ERR_FEATURE_NOT_ENABLED, p_context, w)
            else
              let p = gatts_at env (unat (dh_connection_id h));
                  filled = (\<lambda>m. if sc_service_type x = DM_PROTOCOL_CNTXT_GATT_SRVR_ID
                    then x\<lparr>sc_p_data := p + 8, sc_len := u32_at (p + 4) m\<rparr> else x)
              in case (m_service_context_load env ! unat (sc_service_type x)) (snd (storage_block s t (unat (dh_device_id h)))) h w of
                   (err_code, s, m, t, e) \<Rightarrow> (err_code, Some (filled m), s, m, t, e)
        | _ \<Rightarrow> (DM_ERR_NULL, p_context, w))"

definition dm_service_context_delete :: "'e dm_env \<Rightarrow> dm_handle option \<Rightarrow> mem \<times> dm_state \<Rightarrow> ret_code" where
  "dm_service_context_delete env p_handle mt =
     (case mt of (m, t) \<Rightarrow>
        if \<not> m_module_initialized t then DM_ERR_INVALID_STATE
        else case p_handle of
          None \<Rightarrow> DM_ERR_NULL
        | Some h \<Rightarrow>
            if \<not> app_registered (dh_appl_id h) t then DM_ERR_INVALID_STATE
            else if \<not> device_verified env (dh_device_id h) m then DM_ERR_INVALID_ADDR
            else DM_ERR_API_NOT_IMPLEMENTED)"

definition app_context_update :: "nat \<Rightarrow> ptr \<Rightarrow> dm_state \<Rightarrow> dm_state" where
  "app_context_update device p t = t\<lparr>m_app_context_table := (m_app_context_table t)[device := p]\<rparr>"

text \<open>\<^verbatim>\<open>context_len\<close> is the local variable at \<open>a_stack\<close>.\<close>

definition dm_application_context_set ::
  "'e dm_env \<Rightarrow> dm_handle option \<Rightarrow> dm_application_context option \<Rightarrow> 'e dm_world \<Rightarrow> ret_code \<times> 'e dm_world" where
  "dm_application_context_set env p_handle p_context w =
     (case w of (s, m, t, e) \<Rightarrow>
        if \<not> m_module_initialized t then (DM_ERR_INVALID_STATE, w)
        else case (p_handle, p_context) of
          (Some h, Some x) \<Rightarrow>
            if ac_p_data x = NULL then (DM_ERR_NULL, w)
            else if \<not> app_registered (dh_appl_id h) t then (DM_ERR_INVALID_STATE, w)
            else if \<not> device_verified env (dh_device_id h) m then (DM_ERR_INVALID_ADDR, w)
            else if \<not> device_bonded (dh_connection_id h) t then (DM_ERR_INVALID_STATE, w)
            else if ac_len x < 4 then (NRF_ERROR_INVALID_PARAM, w)
            else (case storage_block s t (unat (dh_device_id h)) of (err_code, block_handle) \<Rightarrow>
              if err_code = NRF_SUCCESS then
                case pstorage_load (dm_ps_env env) (a_stack env) block_handle 4 APP_CONTEXT_STORAGE_OFFSET w of (err_code, w) \<Rightarrow>
                  let store_fn = (if err_code = NRF_SUCCESS \<and> u32_at (a_stack env) (fst (snd w)) \<noteq> 0xFFFFFFFF
                                  then pstorage_update (dm_ps_env env) else pstorage_store (dm_ps_env env))
                  in case store_fn block_handle (ac_p_len x) 4 APP_CONTEXT_STORAGE_OFFSET w of (err_code, w) \<Rightarrow>
                       if err_code = NRF_SUCCESS then
                         case pstorage_update (dm_ps_env env) block_handle (ac_p_data x) DEVICE_MANAGER_APP_CONTEXT_SIZE
                             (APP_CONTEXT_STORAGE_OFFSET + 4) w of (err_code, s, m, t, e) \<Rightarrow>
                           (err_code, s, m, if err_code = NRF_SUCCESS then app_context_update (unat (dh_device_id h)) (ac_p_data x) t else t, e)
                       else (err_code, w)
              else (err_code, w))
        | _ \<Rightarrow> (DM_ERR_NULL, w))"

definition dm_application_context_get ::
  "'e dm_env \<Rightarrow> dm_handle option \<Rightarrow> dm_application_context option \<Rightarrow> 'e dm_world \<Rightarrow> ret_code \<times> dm_application_context option \<times> 'e dm_world" where
  "dm_application_context_get env p_handle p_context w =
     (case w of (s, m, t, e) \<Rightarrow>
        if \<not> m_module_initialized t then (DM_ERR_INVALID_STATE, p_context, w)
        else case (p_handle, p_context) of
          (Some h, Some x) \<Rightarrow>
            if \<not> app_registered (dh_appl_id h) t then (DM_ERR_INVALID_STATE, p_context, w)
            else if \<not> device_verified env (dh_device_id h) m then (DM_ERR_INVALID_ADDR, p_context, w)
            else
              let device = unat (dh_device_id h);
                  (x, t) = (if ac_p_data x = NULL then (x\<lparr>ac_p_data := m_app_context_table t ! device\<rparr>, t)
                            else (x, app_context_update device (ac_p_data x) t))
              in case storage_block s t device of (err_code, block_handle) \<Rightarrow>
                   if err_code = NRF_SUCCESS then
                     case pstorage_load (dm_ps_env env) (a_stack env) block_handle 4 APP_CONTEXT_STORAGE_OFFSET (s, m, t, e) of (err_code, w) \<Rightarrow>
                       let context_len = u32_at (a_stack env) (fst (snd w))
                       in if err_code = NRF_SUCCESS \<and> context_len \<noteq> 0xFFFFFFFF then
                            case pstorage_load (dm_ps_env env) (ac_p_data x) block_handle DEVICE_MANAGER_APP_CONTEXT_SIZE
                                (APP_CONTEXT_STORAGE_OFFSET + 4) w of (err_code, w) \<Rightarrow>
                              (err_code, Some (if err_code = NRF_SUCCESS then x\<lparr>ac_len := context_len\<rparr> else x), w)
                          else (DM_NO_APP_CONTEXT, Some x, w)
                   else (err_code, Some x, s, m, t, e)
        | _ \<Rightarrow> (DM_ERR_NULL, p_context, w))"

definition dm_application_context_delete :: "'e dm_env \<Rightarrow> dm_handle option \<Rightarrow> 'e dm_world \<Rightarrow> ret_code \<times> 'e dm_world" where
  "dm_application_context_delete env p_handle w =
     (case w of (s, m, t, e) \<Rightarrow>
        if \<not> m_module_initialized t then (DM_ERR_INVALID_STATE, w)
        else case p_handle of
          None \<Rightarrow> (DM_ERR_NULL, w)
        | Some h \<Rightarrow>
            if \<not> app_registered (dh_appl_id h) t then (DM_ERR_INVALID_STATE, w)
            else if \<not> device_verified env (dh_device_id h) m then (DM_ERR_INVALID_ADDR, w)
            else (case storage_block s t (unat (dh_device_id h)) of (err_code, block_handle) \<Rightarrow>
              if err_code = NRF_SUCCESS then
                case pstorage_load (dm_ps_env env) (a_stack env) block_handle 4 APP_CONTEXT_STORAGE_OFFSET w of (err_code, w) \<Rightarrow>
                  if u32_at (a_stack env) (fst (snd w)) \<noteq> 0xFFFFFFFF then
                    case pstorage_update (dm_ps_env env) block_handle (a_context_init_len env) 4 APP_CONTEXT_STORAGE_OFFSET w of
                      (err_code, s, m, t, e) \<Rightarrow>
                        (err_code, s, m, if err_code = NRF_SUCCESS then app_context_update (unat (dh_device_id h)) NULL t else t, e)
                  else (err_code, w)
              else (err_code, w)))"

subsection \<open>Events of the SoftDevice\<close>

text \<open>The variables of the event handler, and its cases.\<close>

record dm_local =
  lo_handle :: dm_handle
  lo_event :: u8
  lo_notify :: bool
  lo_result :: dm_result

fun evt_conn_handle :: "dm_ble_evt \<Rightarrow> u16" where
  "evt_conn_handle (GAP_CONNECTED c a im ix) = c"
| "evt_conn_handle (GAP_DISCONNECTED c) = c"
| "evt_conn_handle (GAP_SEC_INFO_REQUEST c d) = c"
| "evt_conn_handle (GAP_SEC_PARAMS_REQUEST c) = c"
| "evt_conn_handle (GAP_AUTH_STATUS c st b k) = c"
| "evt_conn_handle (GAP_CONN_SEC_UPDATE c sm lv) = c"
| "evt_conn_handle (GATTS_SYS_ATTR_MISSING c) = c"
| "evt_conn_handle (GAP_SEC_REQUEST c) = c"
| "evt_conn_handle (BLE_EVT_OTHER c) = c"

definition dm_bonded_set :: "nat \<Rightarrow> u8 \<Rightarrow> dm_state \<Rightarrow> dm_state" where
  "dm_bonded_set index device t = conn_update index (\<lambda>c. c\<lparr>c_bonded_dev_id := device, c_state := c_state c OR STATE_BONDED\<rparr>) t"

definition on_gap_connected ::
  "'e dm_env \<Rightarrow> u16 \<Rightarrow> ble_gap_addr \<Rightarrow> u8 \<Rightarrow> u8 \<Rightarrow> dm_local \<Rightarrow> 'e dm_world \<Rightarrow> nat \<times> dm_local \<times> 'e dm_world" where
  "on_gap_connected env conn_handle peer irk_match irk_match_idx l w =
     (case w of (s, m, t, e) \<Rightarrow>
        let e = gpio_connected env e
        in case connection_instance_allocate t of (err_code, p_index, t) \<Rightarrow>
             if err_code = NRF_SUCCESS then
               let index = the p_index;
                   l = l\<lparr>lo_notify := True, lo_event := DM_EVT_CONNECTION, lo_handle := (lo_handle l)\<lparr>dh_connection_id := of_nat index\<rparr>\<rparr>;
                   t = conn_update index (\<lambda>c. c\<lparr>c_conn_handle := conn_handle, c_state := STATE_CONNECTED, c_peer_addr := peer\<rparr>) t;
                   (err_code, device_index) =
                     (if irk_match = 1 then (NRF_SUCCESS, m_irk_index_table t ! unat irk_match_idx)
                      else (case device_instance_find env (Some peer) EDIV_INIT_VAL m of
                              (err_code, d) \<Rightarrow> (err_code, case d of None \<Rightarrow> DM_INVALID_ID | Some i \<Rightarrow> of_nat i)))
               in if err_code = NRF_SUCCESS then
                    let l = l\<lparr>lo_handle := (lo_handle l)\<lparr>dh_device_id := device_index\<rparr>\<rparr>
                    in (index, l, bond_data_load env (lo_handle l) (s, m, dm_bonded_set index device_index t, e))
                  else (index, l, s, m, t, e)
             else (0, l, s, m, t, e))"

definition on_gap_disconnected :: "'e dm_env \<Rightarrow> nat \<Rightarrow> dm_local \<Rightarrow> 'e dm_world \<Rightarrow> dm_local \<times> 'e dm_world" where
  "on_gap_disconnected env index l w =
     (case w of (s, m, t, e) \<Rightarrow>
        let t = state_and index (NOT STATE_CONNECTED) t;
            device = dh_device_id (lo_handle l);
            (l, w) =
              (if conn_state index t AND STATE_BONDED = STATE_BONDED then
                 (l, if conn_state index t AND STATE_LINK_ENCRYPTED = STATE_LINK_ENCRYPTED
                     then device_context_store env (lo_handle l) STORE_ALL_CONTEXT (s, m, t, e) else (s, m, t, e))
               else if device \<noteq> DM_INVALID_ID then
                 (case peer_instance_init env (unat device) (m, t) of (m, t) \<Rightarrow>
                    (l\<lparr>lo_handle := (lo_handle l)\<lparr>dh_device_id := DM_INVALID_ID\<rparr>\<rparr>, s, m, t, e))
               else (l, s, m, t, e))
        in (l\<lparr>lo_notify := True, lo_event := DM_EVT_DISCONNECTION\<rparr>,
            case w of (s, m, t, e) \<Rightarrow> (s, m, conn_update index (\<lambda>c. c\<lparr>c_state := STATE_DISCONNECTING\<rparr>) t, e)))"

definition on_sec_info_request :: "'e dm_env \<Rightarrow> nat \<Rightarrow> u16 \<Rightarrow> u16 \<Rightarrow> dm_local \<Rightarrow> 'e dm_world \<Rightarrow> dm_local \<times> 'e dm_world" where
  "on_sec_info_request env index conn_handle ediv l w =
     (let (l, w) =
            (case w of (s, m, t, e) \<Rightarrow>
               if c_bonded_dev_id (m_connection_table t ! index) = DM_INVALID_ID then
                 (case device_instance_find env None ediv m of (err_code, d) \<Rightarrow>
                    if err_code = NRF_SUCCESS then
                      let device_index = of_nat (the d); l = l\<lparr>lo_handle := (lo_handle l)\<lparr>dh_device_id := device_index\<rparr>\<rparr>
                      in (l, bond_data_load env (lo_handle l) (s, m, dm_bonded_set index device_index t, e))
                    else (l, w))
               else (l, w))
      in case w of (s, m, t, e) \<Rightarrow>
           let p_enc_info = (if c_bonded_dev_id (m_connection_table t ! index) \<noteq> DM_INVALID_ID then bond_at env index else NULL)
           in (l, s, m, t, snd (sd_ble_gap_sec_info_reply env conn_handle p_enc_info (peer_at env index) m e)))"

definition on_sec_params_request :: "'e dm_env \<Rightarrow> nat \<Rightarrow> u16 \<Rightarrow> dm_local \<Rightarrow> 'e dm_world \<Rightarrow> dm_local \<times> 'e dm_world" where
  "on_sec_params_request env index conn_handle l w =
     (case w of (s, m, t, e) \<Rightarrow>
        let l = l\<lparr>lo_event := DM_EVT_SECURITY_SETUP, lo_notify := True\<rparr>; t = state_or index STATE_PAIRING t
        in if c_bonded_dev_id (m_connection_table t ! index) = DM_INVALID_ID then
             (case device_instance_allocate env (c_peer_addr (m_connection_table t ! index)) m of (err_code, d, m) \<Rightarrow>
                let (l, t) =
                      (if err_code = NRF_SUCCESS then
                         (l\<lparr>lo_handle := (lo_handle l)\<lparr>dh_device_id := of_nat (the d)\<rparr>\<rparr>,
                          conn_update index (\<lambda>c. c\<lparr>c_bonded_dev_id := of_nat (the d)\<rparr>) t)
                       else (l\<lparr>lo_result := Result err_code, lo_notify := True\<rparr>, t));
                    keys_exchanged = \<lparr>keys_peer_enc = NULL, keys_peer_id = peer_at env (unat (c_bonded_dev_id (m_connection_table t ! index))),
                      keys_own_enc = bond_at env index, keys_own_id = NULL\<rparr>
                in case sd_ble_gap_sec_params_reply env conn_handle BLE_GAP_SEC_STATUS_SUCCESS
                       (Some (ap_sec_param (m_application_table t ! 0))) (Some keys_exchanged) e of (err_code, e) \<Rightarrow>
                     (if err_code \<noteq> NRF_SUCCESS then l\<lparr>lo_result := Result err_code, lo_notify := False\<rparr> else l, s, m, t, e))
           else
             let t = state_or index STATE_BOND_INFO_UPDATE t; l = l\<lparr>lo_event := DM_EVT_SECURITY_SETUP_REFRESH\<rparr>
             in case sd_ble_gap_sec_params_reply env conn_handle BLE_GAP_SEC_STATUS_PAIRING_NOT_SUPP None None e of (err_code, e) \<Rightarrow>
                  (if err_code \<noteq> NRF_SUCCESS then l\<lparr>lo_result := Result err_code, lo_notify := False\<rparr> else l, s, m, t, e))"

definition on_auth_status :: "'e dm_env \<Rightarrow> nat \<Rightarrow> u8 \<Rightarrow> bool \<Rightarrow> bool \<Rightarrow> dm_local \<Rightarrow> 'e dm_world \<Rightarrow> dm_local \<times> 'e dm_world" where
  "on_auth_status env index auth_status bonded kdist_peer_id l w =
     (case w of (s, m, t, e) \<Rightarrow>
        let t = t\<lparr>m_application_table := (m_application_table t)[0 := (m_application_table t ! 0)
                  \<lparr>ap_state := ap_state (m_application_table t ! 0) AND NOT STATE_CONTROL_PROCEDURE_IN_PROGRESS\<rparr>]\<rparr>;
            t = state_and index (NOT STATE_PAIRING) t;
            l = l\<lparr>lo_event := DM_EVT_SECURITY_SETUP_COMPLETE, lo_notify := True\<rparr>
        in if auth_status \<noteq> BLE_GAP_SEC_STATUS_SUCCESS then
             let (l, w) =
                   (if conn_state index t AND STATE_BOND_INFO_UPDATE \<noteq> STATE_BOND_INFO_UPDATE then
                      (l\<lparr>lo_result := Auth_status auth_status\<rparr>,
                       snd (device_instance_free env (unat (c_bonded_dev_id (m_connection_table t ! index))) (s, m, t, e)))
                    else (l, s, m, t, e))
             in (l, case w of (s, m, t, e) \<Rightarrow> (s, m, t, forwardEvent env 2 (ucast auth_status) e))
           else
             let device = unat (dh_device_id (lo_handle l)); c = m_connection_table t ! index
             in if bonded \<and> dh_device_id (lo_handle l) \<noteq> DM_INVALID_ID then
                  let t = state_or index STATE_BONDED t;
                      m = (if kdist_peer_id then id_bitmap_and env device (NOT IRK_ENTRY) m else m)
                  in if c_bonded_dev_id c \<noteq> DM_INVALID_ID then
                       let m = (if addr_type (c_peer_addr c) \<noteq> BLE_GAP_ADDR_TYPE_RANDOM_PRIVATE_RESOLVABLE
                                then id_bitmap_and env device (NOT ADDR_ENTRY) (id_addr_info_set env device (c_peer_addr c) m)
                                else id_bitmap_and env device (NOT IRK_ENTRY) (memcpy (peer_at env device + 24) (bond_at env index + 18) 2 m))
                       in (l, device_context_store env (lo_handle l) FIRST_BOND_STORE (s, m, t, e))
                     else (l, s, m, t, e)
                else (l, s, m, t, e))"

definition on_conn_sec_update :: "'e dm_env \<Rightarrow> nat \<Rightarrow> u8 \<Rightarrow> u8 \<Rightarrow> dm_local \<Rightarrow> 'e dm_world \<Rightarrow> dm_local \<times> 'e dm_world" where
  "on_conn_sec_update env index sm lv l w =
     (case w of (s, m, t, e) \<Rightarrow>
        if lv = 1 \<and> sm = 1 \<and> conn_state index t AND STATE_BONDED = STATE_BONDED then
          (l\<lparr>lo_event := DM_EVT_SECURITY_SETUP_REFRESH, lo_result := Result NRF_SUCCESS, lo_notify := True\<rparr>,
           s, mem_write (gatts_at env index + 8) (replicate 26 0) m,
           (state_or index STATE_BOND_INFO_UPDATE (state_or index STATE_PAIRING_PENDING t))
             \<lparr>m_application_table := (m_application_table t)[0 := (m_application_table t ! 0)
                \<lparr>ap_state := ap_state (m_application_table t ! 0) OR STATE_QUEUED_CONTROL_REQUEST\<rparr>]\<rparr>, e)
        else
          let e = forwardEvent env 1 0 e; t = state_or index STATE_LINK_ENCRYPTED t
          in (l\<lparr>lo_event := DM_EVT_LINK_SECURED, lo_result := Result NRF_SUCCESS, lo_notify := True\<rparr>,
              snd ((m_service_context_apply env ! unat (ap_service (m_application_table t ! 0))) (lo_handle l) (s, m, t, e))))"

definition on_sys_attr_missing :: "'e dm_env \<Rightarrow> dm_local \<Rightarrow> 'e dm_world \<Rightarrow> dm_local \<times> 'e dm_world" where
  "on_sys_attr_missing env l w =
     (case w of (s, m, t, e) \<Rightarrow>
        case (m_service_context_apply env ! unat (ap_service (m_application_table t ! 0))) (lo_handle l) w of (err_code, w) \<Rightarrow>
          (l\<lparr>lo_result := Result err_code\<rparr>, w))"

definition dm_evt_dispatch :: "'e dm_env \<Rightarrow> dm_ble_evt \<Rightarrow> nat \<Rightarrow> dm_local \<Rightarrow> 'e dm_world \<Rightarrow> nat \<times> dm_local \<times> 'e dm_world" where
  "dm_evt_dispatch env evt index l w =
     (case evt of
        GAP_CONNECTED c a im ix \<Rightarrow> on_gap_connected env c a im ix l w
      | GAP_DISCONNECTED c \<Rightarrow> (index, on_gap_disconnected env index l w)
      | GAP_SEC_INFO_REQUEST c d \<Rightarrow> (index, on_sec_info_request env index c d l w)
      | GAP_SEC_PARAMS_REQUEST c \<Rightarrow> (index, on_sec_params_request env index c l w)
      | GAP_AUTH_STATUS c st b k \<Rightarrow> (index, on_auth_status env index st b k l w)
      | GAP_CONN_SEC_UPDATE c sm lv \<Rightarrow> (index, on_conn_sec_update env index sm lv l w)
      | GATTS_SYS_ATTR_MISSING c \<Rightarrow> (index, on_sys_attr_missing env l w)
      | GAP_SEC_REQUEST c \<Rightarrow> (index, l\<lparr>lo_event := DM_EVT_SECURITY_SETUP, lo_notify := True\<rparr>, w)
      | BLE_EVT_OTHER c \<Rightarrow> (index, l, w))"

definition dm_ble_evt_handler :: "'e dm_env \<Rightarrow> dm_ble_evt \<Rightarrow> 'e dm_world \<Rightarrow> 'e dm_world" where
  "dm_ble_evt_handler env evt w =
     (case w of (s, m, t, e) \<Rightarrow>
        if \<not> m_module_initialized t then w
        else if \<not> app_registered 0 t then w
        else
          let l = \<lparr>lo_handle = dm_handle_initialize\<lparr>dh_appl_id := 0\<rparr>, lo_event = 0, lo_notify = False, lo_result = Result NRF_SUCCESS\<rparr>;
              found = (case evt of GAP_CONNECTED c a im ix \<Rightarrow> None
                 | _ \<Rightarrow> (case connection_instance_find (evt_conn_handle evt) STATE_CONNECTED t of
                     (err_code, p) \<Rightarrow> if err_code = NRF_SUCCESS then p else None));
              (index, l) = (case found of None \<Rightarrow> (0, l)
                | Some i \<Rightarrow> (i, l\<lparr>lo_handle := (lo_handle l)\<lparr>dh_device_id := c_bonded_dev_id (m_connection_table t ! i),
                    dh_connection_id := of_nat i\<rparr>\<rparr>))
          in case dm_evt_dispatch env evt index l w of (index, l, w) \<Rightarrow>
               if lo_notify l then
                 (case app_evt_notify env (lo_handle l) \<lparr>ev_id = lo_event l, ev_param = P_GAP evt\<rparr> (lo_result l) w of (s, m, t, e) \<Rightarrow>
                    (s, m, if lo_event l = DM_EVT_DISCONNECTION then connection_instance_free index t else t, e))
               else w)"

end
