(* ===== verification/DmStorage.thy ===== *)
theory DmStorage
  imports DeviceManager PstorageSpec
begin

text \<open>
  The storage of the device manager: where its tables and its blocks lie, and the initialisation, which
  restores the table of peers from flash.
\<close>

unbundle bit_operations_syntax

subsection \<open>Where tables and blocks are\<close>

text \<open>The tables are aligned, disjoint and above the flash, that ends at \<open>F\<close>.\<close>

definition dm_memory :: "'e dm_env \<Rightarrow> nat \<Rightarrow> bool" where
  "dm_memory env F \<longleftrightarrow> 0 < F \<and>
     (\<forall>p \<in> {a_peer_table env, a_bond_table env, a_gatts_table env}. F \<le> p \<and> p mod 4 = 0 \<and> p + 196 \<le> 2 ^ 32) \<and>
     (a_peer_table env + 196 \<le> a_bond_table env \<or> a_bond_table env + 28 \<le> a_peer_table env) \<and>
     (a_peer_table env + 196 \<le> a_gatts_table env \<or> a_gatts_table env + 36 \<le> a_peer_table env) \<and>
     (a_bond_table env + 28 \<le> a_gatts_table env \<or> a_gatts_table env + 36 \<le> a_bond_table env)"

text \<open>The module has got its seven blocks from pstorage, whose swap page is \<open>sw\<close>.\<close>

definition dm_storage :: "'e dm_env \<Rightarrow> nat \<Rightarrow> ps_state \<Rightarrow> dm_state \<Rightarrow> bool" where
  "dm_storage env sw s t \<longleftrightarrow> ps_layout (dm_ps_env env) sw s \<and> ps_flag s 4 \<and> module_id (m_storage_handle t) < 2 \<and> a_pstorage_cb env \<noteq> NULL \<and>
     module_of s (m_storage_handle t) =
       \<lparr>cb = a_pstorage_cb env, base_id = block_id (m_storage_handle t), block_size = ALL_CONTEXT_SIZE, block_count = 7\<rparr>"

definition dm_handle_of :: "dm_state \<Rightarrow> nat \<Rightarrow> pstorage_handle" where
  "dm_handle_of t i = (m_storage_handle t)\<lparr>block_id := block_id (m_storage_handle t) + of_nat i * 116\<rparr>"

definition dm_block :: "dm_state \<Rightarrow> nat \<Rightarrow> nat" where
  "dm_block t i = unat (block_id (m_storage_handle t)) + 116 * i"

lemma module_of_handle [simp]: "module_of s (dm_handle_of t i) = module_of s (m_storage_handle t)"
  by (simp add: module_of_def dm_handle_of_def)

lemma module_id_handle [simp]: "module_id (dm_handle_of t i) = module_id (m_storage_handle t)"
  by (simp add: dm_handle_of_def)

lemma dm_storage_area:
  assumes "dm_storage env sw s t"
  shows "dm_block t 7 \<le> sw * 4096" "dm_block t 0 mod 4096 = 0" "sw < 2 ^ 19"
proof -
  from assms have l: "length (m_app_table s) = 2" "\<forall>x \<in> set (m_app_table s). cb x \<noteq> NULL \<longrightarrow> module_fits sw x"
    "unat (module_id (m_storage_handle t)) < 2"
    by (auto simp: dm_storage_def ps_layout_def word_less_nat_alt)
  then have "module_of s (m_storage_handle t) \<in> set (m_app_table s)" by (simp add: module_of_def)
  then have "module_fits sw (module_of s (m_storage_handle t))" using assms l(2) by (auto simp: dm_storage_def)
  then show "dm_block t 7 \<le> sw * 4096" "dm_block t 0 mod 4096 = 0" using assms by (simp_all add: module_fits_def dm_storage_def dm_block_def)
  show "sw < 2 ^ 19" using assms by (simp add: dm_storage_def ps_layout_def)
qed

lemma dm_block_id:
  assumes "dm_storage env sw s t" "i < 7"
  shows "unat (block_id (dm_handle_of t i)) = dm_block t i"
proof -
  have "unat (block_id (m_storage_handle t)) + i * 116 < 2 ^ 32" using dm_storage_area [OF assms(1)] assms(2) by (simp add: dm_block_def)
  moreover from this have "unat (of_nat i * 116 :: u32) = i * 116" using unat_of_nat_u32 [of "i * 116"] by simp
  ultimately show ?thesis by (simp add: dm_handle_of_def dm_block_def unat_sum)
qed

lemma dm_storage_block:
  assumes "dm_storage env sw s t" "i < 7"
  shows "storage_block s t i = (NRF_SUCCESS, Some (dm_handle_of t i))"
    "ps_block (dm_ps_env env) s (dm_handle_of t i) sw (dm_block t 7)"
proof -
  from assms(1) have d: "ps_layout (dm_ps_env env) sw s" "ps_flag s 4" "module_id (m_storage_handle t) < 2" "a_pstorage_cb env \<noteq> NULL"
    "module_of s (m_storage_handle t) = \<lparr>cb = a_pstorage_cb env, base_id = block_id (m_storage_handle t), block_size = ALL_CONTEXT_SIZE, block_count = 7\<rparr>"
    by (simp_all add: dm_storage_def)
  have i: "ucast (of_nat i :: u16) * 116 = (of_nat i * 116 :: u32)" using assms(2) by (simp add: unsigned_of_nat take_bit_nat_eq_self)
  have "unat (block_id (m_storage_handle t) + 812) = dm_block t 7" using dm_storage_area [OF assms(1)]
    by (simp add: dm_block_def unat_sum)
  then have "block_id (dm_handle_of t i) < block_id (m_storage_handle t) + 812"
    using dm_block_id [OF assms] assms(2) by (simp add: word_less_nat_alt dm_block_def)
  then have r: "BLOCK_ID_RANGE_CHECK s (dm_handle_of t i)" by (simp add: BLOCK_ID_RANGE_CHECK_def d(5) not_le)
  have h: "(m_storage_handle t)\<lparr>block_id := block_id (m_storage_handle t) + of_nat i * 116\<rparr> = dm_handle_of t i" by (simp add: dm_handle_of_def)
  show b: "storage_block s t i = (NRF_SUCCESS, Some (dm_handle_of t i))"
    using d r by (simp add: storage_block_def pstorage_block_identifier_get_def MODULE_ID_RANGE_CHECK_def i h not_le)
  from layout_block(1) [OF d(1) _ b [unfolded storage_block_def]]
  show "ps_block (dm_ps_env env) s (dm_handle_of t i) sw (dm_block t 7)" by (simp add: d(5) dm_block_def)
qed

lemma dm_handle_eq:
  assumes "dm_storage env sw s t" "i < 7" "j < 7"
  shows "dm_handle_of t i = dm_handle_of t j \<longleftrightarrow> i = j"
proof
  assume "dm_handle_of t i = dm_handle_of t j"
  then have "dm_block t i = dm_block t j" using dm_block_id [OF assms(1,2)] dm_block_id [OF assms(1,3)] by simp
  then show "i = j" by (simp add: dm_block_def)
qed simp

lemma dm_access:
  assumes "dm_storage env sw s t" "i < 7" "p \<noteq> 0" "p mod 4 = 0" "sz \<noteq> 0" "unat off mod 4 = 0" "unat sz + unat off \<le> 116"
  shows "access_check s (Some (dm_handle_of t i)) p sz off = NRF_SUCCESS"
proof -
  from assms(1) have d: "ps_flag s 4" "module_id (m_storage_handle t) < 2" "a_pstorage_cb env \<noteq> NULL"
    "module_of s (m_storage_handle t) = \<lparr>cb = a_pstorage_cb env, base_id = block_id (m_storage_handle t), block_size = ALL_CONTEXT_SIZE, block_count = 7\<rparr>"
    by (simp_all add: dm_storage_def)
  have "dm_block t i mod 4 = 0" using dm_storage_area(2) [OF assms(1)] mod_mod_cancel [of 4 4096 "dm_block t 0"]
    by (simp add: dm_block_def mod_eq_0_iff_dvd)
  moreover have "BLOCK_ID_RANGE_CHECK s (dm_handle_of t i)"
  proof -
    have "unat (block_id (m_storage_handle t) + 812) = dm_block t 7" using dm_storage_area [OF assms(1)]
      by (simp add: dm_block_def unat_sum)
    then show ?thesis using dm_block_id [OF assms(1,2)] assms(2)
      by (simp add: BLOCK_ID_RANGE_CHECK_def d(4) word_le_nat_alt dm_block_def)
  qed
  moreover have "sz \<le> 116" using assms(7) by (simp add: word_le_nat_alt)
  ultimately show ?thesis using d assms(3-7) dm_block_id [OF assms(1,2)]
    by (simp add: access_check_def MODULE_ID_RANGE_CHECK_def SIZE_CHECK_def OFFSET_CHECK_def is_word_aligned_mod not_le)
qed

subsection \<open>Loading\<close>

lemma dm_callback [simp]: "call_ntf_cb (dm_ps_env env) (a_pstorage_cb env) = dm_pstorage_cb_handler env"
  by (simp add: dm_ps_env_def fun_eq_iff)

lemma dm_load:
  assumes "dm_storage env sw s t" "i < 7" "p \<noteq> 0" "p mod 4 = 0" "sz \<noteq> 0" "unat off mod 4 = 0" "unat sz + unat off \<le> 116"
  shows "pstorage_load (dm_ps_env env) p (Some (dm_handle_of t i)) sz off (s, m, t, e) =
    (NRF_SUCCESS, dm_pstorage_cb_handler env (dm_handle_of t i) PSTORAGE_LOAD_OP_CODE NRF_SUCCESS p (ucast sz)
      (s, memcpy p (dm_block t i + unat off) (unat sz) m, t, e))"
proof -
  have c: "cb (module_of s (m_storage_handle t)) = a_pstorage_cb env" using assms(1) by (simp add: dm_storage_def)
  have "dm_block t i + unat off < 2 ^ 32" using dm_storage_area [OF assms(1)] assms(2,7) by (simp add: dm_block_def)
  then have "unat (block_id (dm_handle_of t i) + ucast off) = dm_block t i + unat off"
    using dm_block_id [OF assms(1,2)] by (subst unat_sum) simp_all
  then show ?thesis by (simp add: pstorage_load_def dm_access [OF assms] c)
qed

lemma dm_callback_unregistered:
  "ap_ntf_cb (m_application_table t ! 0) = NULL \<Longrightarrow> dm_pstorage_cb_handler env h op r p n (s, m, t, e) = (s, m, t, e)"
  by (simp add: dm_pstorage_cb_handler_def app_registered_def)

definition peers_loaded :: "'e dm_env \<Rightarrow> dm_state \<Rightarrow> nat list \<Rightarrow> mem \<Rightarrow> mem" where
  "peers_loaded env t is m = fold (\<lambda>i. memcpy (peer_at env i) (dm_block t i) 28) is m"

lemma dm_memoryD:
  assumes "dm_memory env F"
  shows "0 < F" "F \<le> a_peer_table env" "F \<le> a_bond_table env" "F \<le> a_gatts_table env"
    "a_peer_table env mod 4 = 0" "a_bond_table env mod 4 = 0" "a_gatts_table env mod 4 = 0"
    "a_peer_table env + 196 \<le> 2 ^ 32" "a_bond_table env + 196 \<le> 2 ^ 32" "a_gatts_table env + 196 \<le> 2 ^ 32"
    "a_peer_table env + 196 \<le> a_bond_table env \<or> a_bond_table env + 28 \<le> a_peer_table env"
    "a_peer_table env + 196 \<le> a_gatts_table env \<or> a_gatts_table env + 36 \<le> a_peer_table env"
    "a_bond_table env + 28 \<le> a_gatts_table env \<or> a_gatts_table env + 36 \<le> a_bond_table env"
  using assms by (simp_all add: dm_memory_def)

lemma load_peers:
  assumes "dm_storage env sw s t" "dm_memory env F" "ap_ntf_cb (m_application_table t ! 0) = NULL" "set is \<subseteq> {..<7}"
  shows "dm_load_peers env is NRF_SUCCESS (s, m, t, e) = (NRF_SUCCESS, s, peers_loaded env t is m, t, e)"
  using assms(4)
proof (induction "is" arbitrary: m)
  case (Cons i "is")
  have p: "peer_at env i \<noteq> 0" "peer_at env i mod 4 = 0" using dm_memoryD [OF assms(2)] by (auto simp: peer_at_def mod_eq_0_iff_dvd)
  have i: "i < 7" using Cons.prems by simp
  show ?case using Cons dm_storage_block(1) [OF assms(1) i] dm_load [OF assms(1) i p, of 28 0]
    by (simp add: dm_callback_unregistered [OF assms(3)] peers_loaded_def)
qed (simp add: peers_loaded_def)

lemma memcpy_at: "memcpy d p n m a = (if d \<le> a \<and> a < d + n then m (p + (a - d)) else m a)"
  by (auto simp: memcpy_def mem_write_def)

lemma peers_loaded_facts:
  assumes "dm_memory env F" "dm_block t 7 \<le> F" "n \<le> 7"
  shows "\<And>a. \<not> (a_peer_table env \<le> a \<and> a < a_peer_table env + 28 * n) \<Longrightarrow> peers_loaded env t [0..<n] m a = m a"
    "\<And>i k. i < n \<Longrightarrow> k < 28 \<Longrightarrow> peers_loaded env t [0..<n] m (peer_at env i + k) = m (dm_block t i + k)"
proof -
  have "(\<forall>a. \<not> (a_peer_table env \<le> a \<and> a < a_peer_table env + 28 * n) \<longrightarrow> peers_loaded env t [0..<n] m a = m a) \<and>
      (\<forall>i < n. \<forall>k < 28. peers_loaded env t [0..<n] m (peer_at env i + k) = m (dm_block t i + k))"
    using assms(3)
  proof (induction n)
    case (Suc n)
    let ?m = "peers_loaded env t [0..<n] m"
    have IH: "\<not> (a_peer_table env \<le> a \<and> a < a_peer_table env + 28 * n) \<Longrightarrow> ?m a = m a"
      "i < n \<Longrightarrow> k < 28 \<Longrightarrow> ?m (peer_at env i + k) = m (dm_block t i + k)" for a i k using Suc by simp_all
    have step: "peers_loaded env t [0..<Suc n] m a = (if peer_at env n \<le> a \<and> a < peer_at env n + 28 then ?m (dm_block t n + (a - peer_at env n)) else ?m a)" for a
      by (simp add: peers_loaded_def memcpy_at)
    have b: "?m (dm_block t n + k) = m (dm_block t n + k)" if "k < 28" for k
      using IH(1) [of "dm_block t n + k"] that dm_memoryD(2) [OF assms(1)] assms(2) Suc.prems by (simp add: dm_block_def)
    have "peers_loaded env t [0..<Suc n] m (peer_at env i + k) = m (dm_block t i + k)" if "i < Suc n" "k < 28" for i k
    proof (cases "i = n")
      case True
      then show ?thesis using b [OF that(2)] that(2) unfolding step by simp
    next
      case False
      then have "\<not> peer_at env n \<le> peer_at env i + k" using that by (simp add: peer_at_def)
      then show ?thesis using IH(2) [of i k] that False unfolding step by simp
    qed
    moreover have "peers_loaded env t [0..<Suc n] m a = m a" if "\<not> (a_peer_table env \<le> a \<and> a < a_peer_table env + 28 * Suc n)" for a
      using that IH(1) [of a] unfolding step by (auto simp: peer_at_def)
    ultimately show ?case by blast
  qed (simp add: peers_loaded_def)
  then show "\<And>a. \<not> (a_peer_table env \<le> a \<and> a < a_peer_table env + 28 * n) \<Longrightarrow> peers_loaded env t [0..<n] m a = m a"
    "\<And>i k. i < n \<Longrightarrow> k < 28 \<Longrightarrow> peers_loaded env t [0..<n] m (peer_at env i + k) = m (dm_block t i + k)" by simp_all
qed

subsection \<open>Initialisation\<close>

definition idle_connection :: connection_instance where
  "idle_connection = \<lparr>c_peer_addr = \<lparr>addr_type = 0, addr = replicate 6 0\<rparr>, c_conn_handle = BLE_CONN_HANDLE_INVALID,
     c_state = DM_STATE_IDLE, c_bonded_dev_id = DM_INVALID_ID\<rparr>"

text \<open>The state after the initialisation of the tables.\<close>

definition dm_fresh :: "dm_state \<Rightarrow> bool" where
  "dm_fresh t' \<longleftrightarrow> m_connection_table t' = [idle_connection] \<and> m_irk_index_table t' = replicate 7 DM_INVALID_ID \<and>
     m_app_context_table t' = replicate 7 NULL \<and> (\<forall>i < 7. \<not> update_status_bit_is_set i t') \<and>
     length (m_application_table t') = 1 \<and> ap_ntf_cb (m_application_table t' ! 0) = NULL"

lemma status_bit: "update_status_bit_is_set i t \<longleftrightarrow> bit (m_peer_addr_update t) i"
  unfolding update_status_bit_is_set_def by (simp only: bit_iff_and_push_bit_not_eq_0 [symmetric])

lemma status_bit_reset: "i < 32 \<Longrightarrow> update_status_bit_is_set i (update_status_bit_reset j t) \<longleftrightarrow> i \<noteq> j \<and> update_status_bit_is_set i t"
  unfolding status_bit update_status_bit_reset_def by (auto simp: bit_and_iff bit_not_iff bit_push_bit_iff bit_1_iff bit_2_iff simp del: push_bit_of_1)

text \<open>What one step of the loop over the bonds leaves alone, and what it sets.\<close>

definition peer_step :: "'e dm_env \<Rightarrow> nat \<Rightarrow> mem \<times> dm_state \<Rightarrow> mem \<times> dm_state" where
  "peer_step env index mt = (case peer_instance_init env index mt of (m, t) \<Rightarrow>
     (m, t\<lparr>m_irk_index_table := (m_irk_index_table t)[index := DM_INVALID_ID]\<rparr>))"

lemma peer_step_facts:
  assumes "peer_step env n (m, t) = (m', t')" "n < 7"
  shows "\<And>a. a < a_peer_table env \<Longrightarrow> m' a = m a" "m_irk_index_table t' = (m_irk_index_table t)[n := DM_INVALID_ID]"
    "m_app_context_table t' = (m_app_context_table t)[n := NULL]" "m_connection_table t' = m_connection_table t"
    "m_application_table t' = m_application_table t" "m_storage_handle t' = m_storage_handle t"
    "\<And>i. i < 7 \<Longrightarrow> update_status_bit_is_set i t' \<longleftrightarrow> i \<noteq> n \<and> update_status_bit_is_set i t"
    "m_module_initialized t' = m_module_initialized t"
proof -
  from assms(1) have t': "t' = (update_status_bit_reset n t)\<lparr>m_app_context_table := (m_app_context_table t)[n := NULL],
      m_irk_index_table := (m_irk_index_table t)[n := DM_INVALID_ID]\<rparr>"
    by (auto simp: peer_step_def peer_instance_init_def Let_def update_status_bit_reset_def)
  show "m_irk_index_table t' = (m_irk_index_table t)[n := DM_INVALID_ID]" "m_app_context_table t' = (m_app_context_table t)[n := NULL]"
    "m_connection_table t' = m_connection_table t" "m_application_table t' = m_application_table t" "m_storage_handle t' = m_storage_handle t"
    "m_module_initialized t' = m_module_initialized t"
    by (simp_all add: t' update_status_bit_reset_def)
  have "update_status_bit_is_set i t' = update_status_bit_is_set i (update_status_bit_reset n t)" for i
    by (simp add: t' update_status_bit_is_set_def)
  then show "\<And>i. i < 7 \<Longrightarrow> update_status_bit_is_set i t' \<longleftrightarrow> i \<noteq> n \<and> update_status_bit_is_set i t" by (simp add: status_bit_reset)
  show "\<And>a. a < a_peer_table env \<Longrightarrow> m' a = m a"
    using assms(1) by (auto simp: peer_step_def peer_instance_init_def Let_def peer_at_def mem_write_out)
qed

lemma peer_steps:
  assumes "fold (peer_step env) [0..<n] (m, t) = (m', t')" "n \<le> 7" "length (m_irk_index_table t) = 7" "length (m_app_context_table t) = 7"
  shows "(\<forall>a < a_peer_table env. m' a = m a) \<and> m_irk_index_table t' = replicate n DM_INVALID_ID @ drop n (m_irk_index_table t) \<and>
    m_app_context_table t' = replicate n NULL @ drop n (m_app_context_table t) \<and> m_connection_table t' = m_connection_table t \<and>
    m_application_table t' = m_application_table t \<and> m_storage_handle t' = m_storage_handle t \<and> (\<forall>i < n. \<not> update_status_bit_is_set i t')"
  using assms(1,2)
proof (induction n arbitrary: m' t')
  case (Suc n)
  obtain m1 t1 where 1: "fold (peer_step env) [0..<n] (m, t) = (m1, t1)" by (cases "fold (peer_step env) [0..<n] (m, t)")
  have n: "n < 7" using Suc.prems(2) by simp
  have IH: "(\<forall>a < a_peer_table env. m1 a = m a)" "m_irk_index_table t1 = replicate n DM_INVALID_ID @ drop n (m_irk_index_table t)"
    "m_app_context_table t1 = replicate n NULL @ drop n (m_app_context_table t)" "m_connection_table t1 = m_connection_table t"
    "m_application_table t1 = m_application_table t" "m_storage_handle t1 = m_storage_handle t" "(\<forall>i < n. \<not> update_status_bit_is_set i t1)"
    using Suc.IH [OF 1] n by simp_all
  have "peer_step env n (m1, t1) = (m', t')" using Suc.prems(1) 1 by simp
  note f = peer_step_facts [OF this n]
  have d: "(replicate n x @ drop n xs)[n := x] = replicate (Suc n) x @ drop (Suc n) xs" if "length xs = 7" for xs and x :: 'b
    using n that by (simp add: list_update_append Cons_nth_drop_Suc [symmetric] replicate_append_same del: replicate_Suc)
      (simp add: replicate_append_same [symmetric])
  show ?case using f IH n d [OF assms(3)] d [OF assms(4)] by (simp add: less_Suc_eq)
qed simp

lemma tables_init:
  assumes "dm_memory env F" "length (m_connection_table t) = 1" "length (m_application_table t) = 1" "length (m_irk_index_table t) = 7"
    "length (m_app_context_table t) = 7" "dm_tables_init env (m, t) = (m', t')"
  shows "dm_fresh t'" "a < F \<Longrightarrow> m' a = m a"
proof -
  obtain c x where l: "m_connection_table t = [c]" "m_application_table t = [x]" using assms(2,3) by (auto simp: length_Suc_conv)
  let ?t = "t\<lparr>m_application_table := [x\<lparr>ap_ntf_cb := NULL, ap_state := 0, ap_service := 0\<rparr>], m_connection_table := [idle_connection]\<rparr>"
  have "fold (peer_step env) [0..<7] (mem_write (a_gatts_table env) (replicate 36 0) m, ?t) = (m', t')"
    using assms(6) l by (simp add: dm_tables_init_def Let_def peer_step_def [abs_def] application_instance_init_def
        connection_instance_init_def conn_update_def idle_connection_def del: upt_rec_numeral)
  from peer_steps [OF this] have f: "\<forall>a < a_peer_table env. m' a = mem_write (a_gatts_table env) (replicate 36 0) m a" "dm_fresh t'"
    using assms(4,5) by (simp_all add: dm_fresh_def)
  show "dm_fresh t'" by (rule f(2))
  show "a < F \<Longrightarrow> m' a = m a" using f(1) dm_memoryD [OF assms(1)] by (simp add: mem_write_out)
qed

lemma register_storage:
  assumes "ps_layout (dm_ps_env env) sw s" "pstorage_register (dm_ps_env env) (Some (dm_storage_param env)) s = (NRF_SUCCESS, oh, s')"
    and "t' = (case oh of None \<Rightarrow> t | Some h \<Rightarrow> t\<lparr>m_storage_handle := h\<rparr>)"
  shows "dm_storage env sw s' t'" "ps_ready s \<Longrightarrow> ps_ready s'"
proof -
  note l = layout_register [OF assms(1,2)]
  show "ps_ready s \<Longrightarrow> ps_ready s'" by (rule l(2))
  from l(3) obtain h where h: "oh = Some h" "unat (module_id h) < unat (m_next_app_instance s')" "base_id (module_of s' h) = block_id h" by blast
  have "m_next_app_instance s' \<le> 2" using l(1) by (simp add: ps_layout_def)
  then have i: "module_id h < 2" using h(2) by (simp add: word_less_nat_alt word_le_nat_alt)
  from assms(2) h(1) have r: "ps_flag s 4" "a_pstorage_cb env \<noteq> NULL" "h = \<lparr>module_id = ucast (m_next_app_instance s), block_id = m_next_page_addr s\<rparr>"
    "ps_flags s' = ps_flags s" "m_app_table s' = (m_app_table s)[unat (m_next_app_instance s) := \<lparr>cb = a_pstorage_cb env, base_id = block_id h,
       block_size = 116, block_count = 7\<rparr>]"
    by (auto simp: pstorage_register_def Let_def dm_storage_param_def split: if_splits)
  have "unat (ucast (m_next_app_instance s) :: u32) = unat (m_next_app_instance s)" by simp
  then have "module_of s' h = \<lparr>cb = a_pstorage_cb env, base_id = block_id h, block_size = 116, block_count = 7\<rparr>"
    using i assms(1) by (simp add: module_of_def r(3,5) ps_layout_def word_less_nat_alt)
  then show "dm_storage env sw s' t'" using l(1) i r(1,2,4) assms(3) h(1) by (simp add: dm_storage_def ps_flag_def)
qed

lemma dm_storage_cong: "m_storage_handle t = m_storage_handle t' \<Longrightarrow> dm_storage env sw s t = dm_storage env sw s t'"
  by (simp add: dm_storage_def)

lemma dm_block_cong: "m_storage_handle t = m_storage_handle t' \<Longrightarrow> dm_block t = dm_block t'"
  by (simp add: dm_block_def fun_eq_iff)

definition dm_tables :: "dm_state \<Rightarrow> bool" where
  "dm_tables t \<longleftrightarrow> length (m_connection_table t) = 1 \<and> length (m_application_table t) = 1 \<and> length (m_irk_index_table t) = 7 \<and>
     length (m_app_context_table t) = 7"

text \<open>Where pstorage registers the module, the initialisation succeeds.\<close>

lemma dm_init_loads:
  assumes "ps_layout (dm_ps_env env) sw s" "dm_memory env ((sw + 1) * 4096)" "dm_tables t"
    and "pstorage_register (dm_ps_env env) (Some (dm_storage_param env)) s = (NRF_SUCCESS, oh, s1)"
  shows "\<exists>m1 t1. dm_init env (Some False) (s, m, t, e) = (NRF_SUCCESS, s1, peers_loaded env t1 [0..<7] m1, t1, e) \<and>
    dm_storage env sw s1 t1 \<and> (ps_ready s \<longrightarrow> ps_ready s1) \<and> m_module_initialized t1 \<and> dm_fresh t1 \<and>
    (\<forall>a < (sw + 1) * 4096. m1 a = m a) \<and> oh = Some (m_storage_handle t1)"
proof -
  obtain m1 t1 where 1: "dm_tables_init env (m, t) = (m1, t1)" by (cases "dm_tables_init env (m, t)")
  from layout_register(3) [OF assms(1,4)] obtain h where h: "oh = Some h" by auto
  let ?t = "t1\<lparr>m_storage_handle := h\<rparr>" and ?F = "(sw + 1) * 4096"
  note l = assms(3) [unfolded dm_tables_def]
  from tables_init [OF assms(2) _ _ _ _ 1] l have f: "dm_fresh t1" "\<forall>a < ?F. m1 a = m a" by blast+
  have o: "?t = (case oh of None \<Rightarrow> t1 | Some h \<Rightarrow> t1\<lparr>m_storage_handle := h\<rparr>)" by (simp add: h)
  note st = register_storage [OF assms(1,4) o]
  let ?t1 = "?t\<lparr>m_module_initialized := True\<rparr>"
  have st1: "dm_storage env sw s1 ?t1" using st(1) by (simp add: dm_storage_def)
  have f1: "dm_fresh ?t1" using f(1) by (simp add: dm_fresh_def update_status_bit_is_set_def)
  then have n: "ap_ntf_cb (m_application_table ?t1 ! 0) = NULL" by (simp add: dm_fresh_def)
  have sub: "set [0..<7] \<subseteq> {..<7 :: nat}" by auto
  have "dm_init env (Some False) (s, m, t, e) = (NRF_SUCCESS, s1, peers_loaded env ?t1 [0..<7] m1, ?t1, e)"
    using load_peers [OF st1 assms(2) n sub] by (simp add: dm_init_def 1 assms(4) h del: upt_rec_numeral)
  then show ?thesis using st(2) st1 f1 f(2) h by (intro exI [of _ m1] exI [of _ ?t1]) simp
qed

text \<open>
  Peers are restored. An initialisation that succeeds without clearing the persistent data leaves the module ready, no connection,
  with seven blocks that pstorage gave it; the flash is not changed, and each entry of the table of peers holds
  the first bytes of its block.
\<close>

lemma dm_init_restores:
  assumes "ps_layout (dm_ps_env env) sw s" "dm_memory env ((sw + 1) * 4096)" "dm_tables t"
    and "dm_init env (Some False) (s, m, t, e) = (NRF_SUCCESS, s', m', t', e')"
  shows "dm_storage env sw s' t' \<and> m_module_initialized t' \<and> dm_fresh t' \<and> (ps_ready s \<longrightarrow> ps_ready s') \<and>
    (\<forall>a < (sw + 1) * 4096. m' a = m a) \<and> (\<forall>i < 7. mem_read (peer_at env i) 28 m' = mem_read (dm_block t' i) 28 m)"
proof -
  let ?F = "(sw + 1) * 4096"
  obtain r oh s1 where 2: "pstorage_register (dm_ps_env env) (Some (dm_storage_param env)) s = (r, oh, s1)"
    by (cases "pstorage_register (dm_ps_env env) (Some (dm_storage_param env)) s")
  have "r = NRF_SUCCESS" using assms(4) by (auto simp: dm_init_def 2 Let_def split: if_splits prod.splits)
  from dm_init_loads [OF assms(1-3) 2 [unfolded this], of m e] assms(4) obtain m1 where
    w: "s' = s1" "m' = peers_loaded env t' [0..<7] m1" and st1: "dm_storage env sw s' t'" "ps_ready s \<longrightarrow> ps_ready s'"
    "m_module_initialized t'" "dm_fresh t'" and f: "\<forall>a < ?F. m1 a = m a" by auto
  have b: "dm_block t' 7 \<le> ?F" using dm_storage_area(1) [OF st1(1)] by simp
  note p = peers_loaded_facts [OF assms(2) b, of 7]
  have "mem_read (peer_at env i) 28 m' = mem_read (dm_block t' i) 28 m" if "i < 7" for i
  proof (rule nth_equalityI)
    fix k assume k: "k < length (mem_read (peer_at env i) 28 m')"
    have "dm_block t' i + k < ?F" using b that k by (simp add: dm_block_def)
    then show "mem_read (peer_at env i) 28 m' ! k = mem_read (dm_block t' i) 28 m ! k"
      using p(2) [of i k m1] f that k by (simp add: w(2))
  qed simp
  moreover have "m' a = m a" if "a < ?F" for a
    using p(1) [of a m1] f that dm_memoryD(2) [OF assms(2)] by (simp add: w(2))
  ultimately show ?thesis using st1 by simp
qed

end
