(* ===== verification/DmBond.thy ===== *)
theory DmBond
  imports DmStorage
begin

text \<open>
  Bonds of the device manager: what pairing stores in flash, and what a connection finds there again.
\<close>

unbundle bit_operations_syntax

subsection \<open>The environment\<close>

text \<open>
  The SoftDevice accepts flash operations and does not give more attributes than there is room for; the
  application's callback only looks. \<open>fl\<close> are the flash operations of the environment so far, \<open>nt\<close> the notifications.
\<close>

type_synonym dm_ntf = "dm_handle \<times> dm_event \<times> dm_result"

definition dm_quiet :: "'e dm_env \<Rightarrow> ('e \<Rightarrow> flash_op list) \<Rightarrow> ('e \<Rightarrow> dm_ntf list) \<Rightarrow> bool" where
  "dm_quiet env fl nt \<longleftrightarrow>
     (\<forall>d p k e. \<exists>e'. dm_flash_write env d p k e = (NRF_SUCCESS, e') \<and> fl e' = fl e @ [Write d p k] \<and> nt e' = nt e) \<and>
     (\<forall>p e. \<exists>e'. dm_flash_page_erase env p e = (NRF_SUCCESS, e') \<and> fl e' = fl e @ [Erase p] \<and> nt e' = nt e) \<and>
     (\<forall>f h ev r s m t e. \<exists>e'. dm_app_cb env f h ev r (s, m, t, e) = (s, m, t, e') \<and> fl e' = fl e \<and> nt e' = nt e @ [(h, ev, r)]) \<and>
     (\<forall>c f e. \<exists>r d e'. sd_ble_gatts_sys_attr_get env c f e = (r, d, e') \<and> length d \<le> 26 \<and> fl e' = fl e \<and> nt e' = nt e) \<and>
     (\<forall>e. fl (gpio_connected env e) = fl e \<and> nt (gpio_connected env e) = nt e)"

lemma dm_quietD:
  assumes "dm_quiet env fl nt"
  shows "\<exists>e'. dm_flash_write env d p k e = (NRF_SUCCESS, e') \<and> fl e' = fl e @ [Write d p k] \<and> nt e' = nt e"
    "\<exists>e'. dm_flash_page_erase env q e = (NRF_SUCCESS, e') \<and> fl e' = fl e @ [Erase q] \<and> nt e' = nt e"
    "\<exists>e'. dm_app_cb env f h ev r (s, m, t, e) = (s, m, t, e') \<and> fl e' = fl e \<and> nt e' = nt e @ [(h, ev, r)]"
    "\<exists>r d e'. sd_ble_gatts_sys_attr_get env c fs e = (r, d, e') \<and> length d \<le> 26 \<and> fl e' = fl e \<and> nt e' = nt e"
    "fl (gpio_connected env e) = fl e" "nt (gpio_connected env e) = nt e"
  using assms unfolding dm_quiet_def by blast+

subsection \<open>Which table a pointer points into\<close>

lemma table_index_nat:
  assumes "p < 2 ^ 32" "b < 2 ^ 32"
  shows "unat (table_index p b k) = (if b \<le> p then p - b else 2 ^ 32 - (b - p)) div unat k"
proof -
  have "unat (of_nat p - of_nat b :: u32) = (if b \<le> p then p - b else 2 ^ 32 - (b - p))"
  proof (cases "b \<le> p")
    case True
    then have "of_nat p - of_nat b = (of_nat (p - b) :: u32)" by (simp add: of_nat_diff)
    moreover have "p - b < 2 ^ 32" using assms(1) by simp
    ultimately show ?thesis using unat_of_nat_u32 [of "p - b"] True by metis
  next
    case False
    have z: "(of_nat (2 ^ 32) :: u32) = 0" by simp
    have "(of_nat (2 ^ 32 - (b - p)) :: u32) = of_nat (2 ^ 32) - of_nat (b - p)" by (rule of_nat_diff) (use assms(2) in linarith)
    also have "of_nat (b - p) = (of_nat b - of_nat p :: u32)" by (rule of_nat_diff) (use False in simp)
    finally have "of_nat p - of_nat b = (of_nat (2 ^ 32 - (b - p)) :: u32)" by (simp only: z diff_0 minus_diff_eq)
    moreover have "2 ^ 32 - (b - p) < (2 ^ 32 :: nat)" using False by simp
    ultimately show ?thesis using unat_of_nat_u32 [of "2 ^ 32 - (b - p)"] False by metis
  qed
  then show ?thesis by (simp add: table_index_def unat_div)
qed

lemma table_index_in:
  assumes "dm_memory env F" "i < 7"
  shows "table_index (peer_at env i) (a_peer_table env) 28 < 7" "\<not> table_index (a_bond_table env) (a_peer_table env) 28 < 7"
    "table_index (a_bond_table env) (a_bond_table env) 28 = 0" "\<not> table_index (a_gatts_table env) (a_peer_table env) 28 < 7"
    "\<not> table_index (a_gatts_table env) (a_bond_table env) 28 < 1" "table_index (a_gatts_table env) (a_gatts_table env) 36 = 0"
proof -
  note m = dm_memoryD [OF assms(1)]
  have l: "a_peer_table env < 2 ^ 32" "a_bond_table env < 2 ^ 32" "a_gatts_table env < 2 ^ 32" "peer_at env i < 2 ^ 32"
    using m(8-10) assms(2) by (simp_all add: peer_at_def)
  show "table_index (a_bond_table env) (a_bond_table env) 28 = 0" "table_index (a_gatts_table env) (a_gatts_table env) 36 = 0"
    by (simp_all add: table_index_def)
  show "table_index (peer_at env i) (a_peer_table env) 28 < 7"
    using table_index_nat [OF l(4,1), of 28] assms(2) by (simp add: word_less_nat_alt peer_at_def)
  have d: "(7 :: nat) \<le> x div 28" if "196 \<le> x" for x using div_le_mono [OF that, of 28] by simp
  show "\<not> table_index (a_bond_table env) (a_peer_table env) 28 < 7" "\<not> table_index (a_gatts_table env) (a_peer_table env) 28 < 7"
    using table_index_nat [OF l(2,1), of 28] table_index_nat [OF l(3,1), of 28] m(2,8,11,12) by (auto simp: word_less_nat_alt not_less intro!: d)
  have d1: "(1 :: nat) \<le> x div 28" if "28 \<le> x" for x using div_le_mono [OF that, of 28] by simp
  have "1 \<le> unat (table_index (a_gatts_table env) (a_bond_table env) 28)"
    using table_index_nat [OF l(3,2), of 28] m(9,13) by (auto intro!: d1)
  then show "\<not> table_index (a_gatts_table env) (a_bond_table env) 28 < 1" by (simp add: word_less_nat_alt)
qed

lemma find_unique: "(\<And>j. j < n \<Longrightarrow> P j \<longleftrightarrow> j = i) \<Longrightarrow> i < n \<Longrightarrow> List.find P [0..<n] = Some i"
  unfolding find_Some_iff by (rule exI [of _ i]) simp

subsection \<open>The callback\<close>

definition bond_ntf :: "'e dm_env \<Rightarrow> nat \<Rightarrow> u8 \<Rightarrow> dm_ntf" where
  "bond_ntf env i op = (\<lparr>dh_appl_id = 0, dh_connection_id = 0, dh_device_id = of_nat i, dh_service_id = DM_INVALID_ID\<rparr>,
     \<lparr>ev_id = DM_EVT_DEVICE_CONTEXT_BASE OR (if op = PSTORAGE_LOAD_OP_CODE then DM_LOAD_OPERATION_ID else DM_STORE_OPERATION_ID),
      ev_param = P_KEYS \<lparr>keys_peer_enc = NULL, keys_peer_id = a_local_id_info env, keys_own_enc = bond_at env 0, keys_own_id = peer_at env i\<rparr>\<rparr>,
     Result NRF_SUCCESS)"

text \<open>The module is initialised, its application registered with one of the kinds of services.\<close>

definition dm_running :: "'e dm_env \<Rightarrow> nat \<Rightarrow> ps_state \<Rightarrow> dm_state \<Rightarrow> bool" where
  "dm_running env sw s t \<longleftrightarrow> dm_storage env sw s t \<and> dm_memory env ((sw + 1) * 4096) \<and> m_module_initialized t \<and>
     ap_ntf_cb (m_application_table t ! 0) \<noteq> NULL \<and> ap_service (m_application_table t ! 0) < 4"

lemma dm_runningD:
  assumes "dm_running env sw s t"
  shows "dm_storage env sw s t" "dm_memory env ((sw + 1) * 4096)" "m_module_initialized t" "app_registered 0 t"
    "ap_service (m_application_table t ! 0) < 4"
  using assms by (simp_all add: dm_running_def app_registered_def)

lemma callback_finds:
  assumes "dm_storage env sw s t" "i < 7"
  shows "List.find (\<lambda>index. storage_block s t index = (NRF_SUCCESS, Some (dm_handle_of t i))) [0..<7] = Some i"
  by (rule find_unique) (use dm_storage_block(1) [OF assms(1)] dm_handle_eq [OF assms(1)] assms(2) in auto)

lemma callback_bond:
  assumes "dm_quiet env fl nt" "dm_running env sw s t" "i < 7" "op = PSTORAGE_LOAD_OP_CODE \<or> op = PSTORAGE_STORE_OP_CODE"
  shows "\<exists>e'. dm_pstorage_cb_handler env (dm_handle_of t i) op NRF_SUCCESS (bond_at env 0) 28 (s, m, t, e) = (s, m, t, e') \<and>
    fl e' = fl e \<and> nt e' = nt e @ [bond_ntf env i op]"
proof -
  note d = dm_runningD [OF assms(2)]
  have n: "unat (of_nat i :: u8) = i" using assms(3) by (simp add: unat_of_nat)
  have b: "bond_at env 0 = a_bond_table env" by (simp add: bond_at_def)
  from dm_quietD(3) [OF assms(1), of "ap_ntf_cb (m_application_table t ! 0)" "fst (bond_ntf env i op)" "fst (snd (bond_ntf env i op))"
      "snd (snd (bond_ntf env i op))" s m t e]
  show ?thesis using callback_finds [OF d(1) assms(3)] d(4) table_index_in [OF d(2) assms(3)] assms(4) n
    by (auto simp: dm_pstorage_cb_handler_def stored_event_def Let_def b app_evt_notify_def bond_ntf_def dm_handle_initialize_def simp del: upt_rec_numeral)
qed

lemma callback_peer:
  assumes "dm_running env sw s t" "i < 7" "op = PSTORAGE_LOAD_OP_CODE \<or> op = PSTORAGE_STORE_OP_CODE" "\<not> update_status_bit_is_set i t"
  shows "dm_pstorage_cb_handler env (dm_handle_of t i) op NRF_SUCCESS (peer_at env i) 28 (s, m, t, e) = (s, m, t, e)"
proof -
  note d = dm_runningD [OF assms(1)]
  have n: "unat (of_nat i :: u8) = i" using assms(2) by (simp add: unat_of_nat)
  show ?thesis using callback_finds [OF d(1) assms(2)] d(4) table_index_in(1) [OF d(2) assms(2)] assms(3,4) n
    by (auto simp: dm_pstorage_cb_handler_def stored_event_def Let_def dm_handle_initialize_def simp del: upt_rec_numeral)
qed

lemma callback_gatts:
  assumes "dm_quiet env fl nt" "dm_running env sw s t" "i < 7" "op = PSTORAGE_LOAD_OP_CODE \<or> op = PSTORAGE_STORE_OP_CODE"
    and "conn_state 0 t AND STATE_CONNECTED = STATE_CONNECTED"
  shows "\<exists>e'. dm_pstorage_cb_handler env (dm_handle_of t i) op NRF_SUCCESS (gatts_at env 0) 36 (s, m, t, e) = (s, m, t, e')"
proof -
  note d = dm_runningD [OF assms(2)]
  have n: "unat (of_nat i :: u8) = i" using assms(3) by (simp add: unat_of_nat)
  have b: "gatts_at env 0 = a_gatts_table env" by (simp add: gatts_at_def)
  have q: "\<exists>e'. dm_app_cb env f h ev r (s, m, t, e) = (s, m, t, e')" for f h ev r using dm_quietD(3) [OF assms(1)] by blast
  show ?thesis using callback_finds [OF d(1) assms(3)] d(4) table_index_in [OF d(2) assms(3)] assms(4,5) n q
    by (auto simp: dm_pstorage_cb_handler_def stored_event_def Let_def b app_evt_notify_def dm_handle_initialize_def simp del: upt_rec_numeral)
qed

subsection \<open>A connection finds its bond\<close>

lemma table_pointers:
  assumes "dm_memory env F"
  shows "bond_at env 0 \<noteq> 0" "bond_at env 0 mod 4 = 0" "gatts_at env 0 \<noteq> 0" "gatts_at env 0 mod 4 = 0"
    "F \<le> bond_at env 0" "F \<le> gatts_at env 0" "bond_at env 0 + 28 \<le> gatts_at env 0 \<or> gatts_at env 0 + 36 \<le> bond_at env 0"
  using dm_memoryD [OF assms] by (auto simp: bond_at_def gatts_at_def)

lemma gatts_loaded:
  assumes "dm_quiet env fl nt" "dm_running env sw s t" "i < 7" "conn_state 0 t AND STATE_CONNECTED = STATE_CONNECTED"
    and "dh_connection_id h = 0" "v < 4"
  shows "\<exists>r m' e'. (m_service_context_load env ! unat (v :: u8)) (Some (dm_handle_of t i)) h (s, m, t, e) = (r, s, m', t, e') \<and>
    (\<forall>a. \<not> (gatts_at env 0 \<le> a \<and> a < gatts_at env 0 + 36) \<longrightarrow> m' a = m a)"
proof -
  note d = dm_runningD [OF assms(2)] and p = table_pointers [OF dm_runningD(2) [OF assms(2)]]
  let ?m = "memcpy (gatts_at env 0) (dm_block t i + 56) 36 m"
  from callback_gatts [OF assms(1-3) _ assms(4), of 2 ?m e] obtain e' where
    c: "dm_pstorage_cb_handler env (dm_handle_of t i) 2 NRF_SUCCESS (gatts_at env 0) 36 (s, ?m, t, e) = (s, ?m, t, e')" by auto
  have "\<exists>m' e'. gatts_context_load env (Some (dm_handle_of t i)) h (s, m, t, e) = (NRF_SUCCESS, s, m', t, e') \<and>
    (\<forall>a. \<not> (gatts_at env 0 \<le> a \<and> a < gatts_at env 0 + 36) \<longrightarrow> m' a = m a)"
    using dm_load [OF d(1) assms(3) p(3,4), of 36 56 m e] c assms(5)
    by (auto simp: gatts_context_load_def Let_def u32_bytes_def memcpy_at mem_write_def)
  then obtain m' e' where g: "gatts_context_load env (Some (dm_handle_of t i)) h (s, m, t, e) = (NRF_SUCCESS, s, m', t, e')"
    "\<forall>a. \<not> (gatts_at env 0 \<le> a \<and> a < gatts_at env 0 + 36) \<longrightarrow> m' a = m a" by blast
  have "unat v = 0 \<or> unat v = 1 \<or> unat v = 2 \<or> unat v = 3" using assms(6) by (auto simp: word_less_nat_alt)
  then show ?thesis using g
    by (auto simp: m_service_context_load_def no_service_context_load_def gattc_context_load_def gattsc_context_load_def)
qed

lemma bond_loaded:
  assumes "dm_quiet env fl nt" "dm_running env sw s t" "i < 7" "conn_state 0 t AND STATE_CONNECTED = STATE_CONNECTED"
    and "dh_connection_id h = 0" "dh_device_id h = of_nat i"
  shows "\<exists>m' e'. bond_data_load env h (s, m, t, e) = (s, m', t, e') \<and> mem_read (bond_at env 0) 28 m' = mem_read (dm_block t i + 28) 28 m \<and>
    (\<forall>a. \<not> (bond_at env 0 \<le> a \<and> a < bond_at env 0 + 28) \<and> \<not> (gatts_at env 0 \<le> a \<and> a < gatts_at env 0 + 36) \<longrightarrow> m' a = m a)"
proof -
  note d = dm_runningD [OF assms(2)] and p = table_pointers [OF dm_runningD(2) [OF assms(2)]]
  have n: "unat (dh_device_id h) = i" using assms(3,6) by (simp add: unat_of_nat)
  let ?m = "memcpy (bond_at env 0) (dm_block t i + 28) 28 m"
  from callback_bond [OF assms(1-3), of 2 ?m e] obtain e1 where
    c: "dm_pstorage_cb_handler env (dm_handle_of t i) 2 NRF_SUCCESS (bond_at env 0) 28 (s, ?m, t, e) = (s, ?m, t, e1)" by auto
  from gatts_loaded [OF assms(1-5) d(5), of ?m e1] obtain r m' e' where
    g: "(m_service_context_load env ! unat (ap_service (m_application_table t ! 0))) (Some (dm_handle_of t i)) h (s, ?m, t, e1) = (r, s, m', t, e')"
    "\<forall>a. \<not> (gatts_at env 0 \<le> a \<and> a < gatts_at env 0 + 36) \<longrightarrow> m' a = ?m a" by blast
  have "bond_data_load env h (s, m, t, e) = (s, m', t, e')"
    using dm_storage_block(1) [OF d(1) assms(3)] dm_load [OF d(1) assms(3) p(1,2), of 28 28 m e] c g(1) n assms(5)
    by (simp add: bond_data_load_def)
  moreover have "mem_read (bond_at env 0) 28 m' = mem_read (dm_block t i + 28) 28 m"
    by (rule nth_equalityI) (use g(2) p(7) in \<open>auto simp: memcpy_at\<close>)
  ultimately show ?thesis using g(2) by (auto simp: memcpy_at)
qed

text \<open>
  Reconnection. When a device connects from an address that the table of peers holds, the running module marks the connection as bonded with the
  first such device, the table of bonds then holds the bond data of that device's block in flash, neither
  the flash nor the table of peers changes, and the application is at last told of the connection with the device's number.
\<close>

lemma dm_reconnect_spec:
  assumes "dm_quiet env fl nt" "dm_running env sw s t" "m_connection_table t = [c]" "c_state c = DM_STATE_IDLE"
    and "i < 7" "id_addr_info env i m = a" "\<And>j. j < i \<Longrightarrow> id_addr_info env j m \<noteq> a" "im \<noteq> 1"
    and "evt = GAP_CONNECTED conn a im ix" "dm_ble_evt_handler env evt (s, m, t, e) = (s', m', t', e')"
  shows "s' = s \<and> t' = t\<lparr>m_connection_table := [\<lparr>c_peer_addr = a, c_conn_handle = conn, c_state = STATE_CONNECTED OR STATE_BONDED,
      c_bonded_dev_id = of_nat i\<rparr>]\<rparr> \<and> mem_read (bond_at env 0) 28 m' = mem_read (dm_block t i + 28) 28 m \<and>
    (\<forall>x < (sw + 1) * 4096. m' x = m x) \<and> (\<forall>j < 7. mem_read (peer_at env j) 28 m' = mem_read (peer_at env j) 28 m) \<and>
    last (nt e') = (\<lparr>dh_appl_id = 0, dh_connection_id = 0, dh_device_id = of_nat i, dh_service_id = DM_INVALID_ID\<rparr>,
      \<lparr>ev_id = DM_EVT_CONNECTION, ev_param = P_GAP evt\<rparr>, Result NRF_SUCCESS)"
proof -
  note d = dm_runningD [OF assms(2)] and p = table_pointers [OF dm_runningD(2) [OF assms(2)]] and mm = dm_memoryD [OF dm_runningD(2) [OF assms(2)]]
  let ?c = "\<lparr>c_peer_addr = a, c_conn_handle = conn, c_state = STATE_CONNECTED OR STATE_BONDED, c_bonded_dev_id = of_nat i\<rparr>"
  let ?t = "t\<lparr>m_connection_table := [?c]\<rparr>"
  let ?h = "\<lparr>dh_appl_id = 0, dh_connection_id = 0, dh_device_id = of_nat i, dh_service_id = DM_INVALID_ID\<rparr>"
  have f: "device_instance_find env (Some a) EDIV_INIT_VAL m = (NRF_SUCCESS, Some i)"
  proof -
    have "List.find (\<lambda>index. id_addr_info env index m = a) [0..<7] = Some i"
      unfolding find_Some_iff using assms(5-7) by (intro exI [of _ i]) auto
    then show ?thesis by (simp add: device_instance_find_def del: upt_rec_numeral)
  qed
  have r: "dm_running env sw s ?t" using assms(2) by (simp add: dm_running_def dm_storage_def)
  have s: "conn_state 0 ?t AND STATE_CONNECTED = STATE_CONNECTED" by (simp add: conn_state_def)
  from bond_loaded [OF assms(1) r assms(5) s, of ?h m "gpio_connected env e"] obtain m1 e1 where
    b: "bond_data_load env ?h (s, m, ?t, gpio_connected env e) = (s, m1, ?t, e1)"
    "mem_read (bond_at env 0) 28 m1 = mem_read (dm_block ?t i + 28) 28 m"
    "\<forall>x. \<not> (bond_at env 0 \<le> x \<and> x < bond_at env 0 + 28) \<and> \<not> (gatts_at env 0 \<le> x \<and> x < gatts_at env 0 + 36) \<longrightarrow> m1 x = m x"
    by auto
  from dm_quietD(3) [OF assms(1), of "ap_ntf_cb (m_application_table t ! 0)" ?h "\<lparr>ev_id = DM_EVT_CONNECTION, ev_param = P_GAP evt\<rparr>" "Result NRF_SUCCESS" s m1 ?t e1]
  obtain e2 where e2: "dm_app_cb env (ap_ntf_cb (m_application_table t ! 0)) ?h \<lparr>ev_id = DM_EVT_CONNECTION, ev_param = P_GAP evt\<rparr> (Result NRF_SUCCESS) (s, m1, ?t, e1) =
    (s, m1, ?t, e2)" "nt e2 = nt e1 @ [(?h, \<lparr>ev_id = DM_EVT_CONNECTION, ev_param = P_GAP evt\<rparr>, Result NRF_SUCCESS)]" by blast
  have a: "connection_instance_allocate t = (NRF_SUCCESS, Some 0, conn_update 0 (\<lambda>c. c\<lparr>c_state := STATE_CONNECTED\<rparr>) t)"
    using assms(3,4) by (simp add: connection_instance_allocate_def connection_instance_find_def)
  let ?l = "\<lparr>lo_handle = ?h, lo_event = DM_EVT_CONNECTION, lo_notify = True, lo_result = Result NRF_SUCCESS\<rparr>"
  have "on_gap_connected env conn a im ix \<lparr>lo_handle = dm_handle_initialize\<lparr>dh_appl_id := 0\<rparr>, lo_event = 0, lo_notify = False,
      lo_result = Result NRF_SUCCESS\<rparr> (s, m, t, e) = (0, ?l, s, m1, ?t, e1)"
    using b(1) assms(3,8) by (cases c) (simp add: on_gap_connected_def a f Let_def conn_update_def dm_bonded_set_def dm_handle_initialize_def)
  then have "dm_ble_evt_handler env evt (s, m, t, e) = (s, m1, ?t, e2)"
    using d(3,4) e2(1) by (simp add: dm_ble_evt_handler_def assms(9) dm_evt_dispatch_def app_evt_notify_def)
  then have w: "s' = s" "m' = m1" "t' = ?t" "e' = e2" using assms(10) by simp_all
  have "m1 x = m x" if "x < (sw + 1) * 4096" for x using b(3) p(5,6) that by simp
  moreover have "mem_read (peer_at env j) 28 m1 = mem_read (peer_at env j) 28 m" if "j < 7" for j
    by (rule mem_read_eqI) (use b(3) mm(11,12) that in \<open>auto simp: peer_at_def bond_at_def gatts_at_def\<close>)
  moreover have "dm_block ?t = dm_block t" by (rule dm_block_cong) simp
  ultimately show ?thesis using b(2) e2(2) by (simp add: w)
qed

end
