(* ===== verification/PstorageQueue.thy ===== *)
theory PstorageQueue
  imports PstorageSpec
begin

text \<open>
  The ring of commands of the older flash storage as a list: commands are added at its end while another is executed, and
  the end of a store begins the next command.
\<close>

unbundle bit_operations_syntax

definition ps_queue :: "ps_state \<Rightarrow> cmd_queue_element list" where
  "ps_queue s = map (\<lambda>k. queue_cmd s ! ((unat (queue_rp s) + k) mod 30)) [0..<unat (queue_count s)]"

definition ps_ring :: "ps_state \<Rightarrow> bool" where
  "ps_ring s \<longleftrightarrow> unat (queue_rp s) < 30 \<and> length (queue_cmd s) = 30 \<and> unat (queue_count s) \<le> 30 \<and> \<not> ps_flag s 8"

text \<open>What commands leave alone: the registered modules.\<close>

definition ps_modules :: "ps_state \<Rightarrow> pstorage_module_table list \<times> u16 \<times> u32 \<times> bool" where
  "ps_modules s = (m_app_table s, m_next_app_instance s, m_next_page_addr s, ps_flag s 4)"

lemma ps_queue_Cons: "unat (queue_count s) = Suc n \<Longrightarrow> unat (queue_rp s) < 30 \<Longrightarrow> ps_queue s = p_cmd s # tl (ps_queue s)"
  by (simp add: ps_queue_def p_cmd_def upt_rec del: upt_Suc)

lemma unat_u8_Suc: "unat (x :: u8) < 255 \<Longrightarrow> unat (x + 1) = Suc (unat x)"
  by (rule unat_Suc_less [where n = "0xFF"]) (simp add: word_less_nat_alt)

lemma ring_distinct: "k < n \<Longrightarrow> n < 30 \<Longrightarrow> (r + k) mod 30 \<noteq> (r + n) mod (30 :: nat)" for k n r :: nat
  using nat_dvd_not_less [of "n - k" 30] mod_eq_dvd_iff_nat [of "r + k" "r + n" 30] by auto

lemma enqueue_adds:
  assumes "ps_ring s" "length (ps_queue s) < 30" "m_state s \<noteq> STATE_IDLE"
  shows "\<exists>s'. cmd_queue_enqueue env op h p sz off (s, w) = (NRF_SUCCESS, s', w) \<and> ps_ring s' \<and>
    ps_queue s' = ps_queue s @ [\<lparr>cmd_op_code = op, cmd_size = sz, cmd_offset = off, storage_addr = h, p_data_addr = p\<rparr>] \<and>
    ps_modules s' = ps_modules s \<and> m_state s' = m_state s \<and> m_num_of_bytes_written s' = m_num_of_bytes_written s \<and>
    m_app_data_size s' = m_app_data_size s"
proof -
  let ?c = "\<lparr>cmd_op_code = op, cmd_size = sz, cmd_offset = off, storage_addr = h, p_data_addr = p\<rparr>"
  let ?n = "unat (queue_count s)" and ?r = "unat (queue_rp s)"
  have r: "?r < 30" "length (queue_cmd s) = 30" "\<not> ps_flag s 8" using assms(1) by (simp_all add: ps_ring_def)
  have n: "?n < 30" using assms(2) by (simp add: ps_queue_def)
  have sum: "unat (ucast (queue_rp s) + ucast (queue_count s) :: u32) = ?r + ?n" using r(1) n by (subst unat_sum) simp_all
  let ?x = "ucast (queue_rp s) + ucast (queue_count s) :: u32"
  have i: "unat (if ?x \<ge> 30 then ?x - 30 else ?x) = (?r + ?n) mod 30"
  proof (cases "30 \<le> ?r + ?n")
    case True
    then have "unat (?x - 30) = ?r + ?n - 30" using sum by (simp add: unat_sub word_le_nat_alt)
    then show ?thesis using True sum r(1) n by (simp add: word_le_nat_alt le_mod_geq)
  qed (simp add: sum word_le_nat_alt)
  define s' where "s' = s\<lparr>queue_cmd := (queue_cmd s)[(?r + ?n) mod 30 := ?c], queue_count := queue_count s + 1\<rparr>"
  have "ucast (queue_count s) \<noteq> (30 :: u32)" using n by (auto simp: word_unat_eq_iff)
  then have e: "cmd_queue_enqueue env op h p sz off (s, w) = (NRF_SUCCESS, s', w)"
    using assms(3) i by (simp add: cmd_queue_enqueue_def Let_def s'_def)
  have c: "unat (queue_count s') = Suc ?n" using n unat_u8_Suc [of "queue_count s"] by (simp add: s'_def)
  have q: "ps_queue s' = ps_queue s @ [?c]"
  proof -
    have "(?r + ?n) mod 30 \<noteq> (?r + k) mod 30" if "k < ?n" for k using ring_distinct [OF that n] by (rule not_sym)
    then show ?thesis using r(2) c by (simp add: ps_queue_def) (auto simp add: s'_def)
  qed
  have "ps_ring s'" using r c n by (simp add: ps_ring_def) (simp add: s'_def)
  then show ?thesis using e q by (intro exI [of _ s']) (simp add: s'_def ps_modules_def)
qed

text \<open>An idle module begins what is added.\<close>

lemma ready_queued:
  assumes "ps_ready s"
  shows "ps_ring (ps_queued op h p sz off s)" "ps_modules (ps_queued op h p sz off s) = ps_modules s"
    "ps_queue (ps_queued op h p sz off s) = [\<lparr>cmd_op_code = op, cmd_size = sz, cmd_offset = off, storage_addr = h, p_data_addr = p\<rparr>]"
  using assms by (simp_all add: ps_ring_def ps_ready_def ps_queued_def ps_modules_def ps_queue_def ps_flag_def)

text \<open>The end of a store: the callback is called, and the next command of the queue is processed.\<close>

definition ps_storing :: "ps_state \<Rightarrow> bool" where
  "ps_storing s \<longleftrightarrow> ps_ring s \<and> m_state s = STATE_STORE \<and> ps_queue s \<noteq> [] \<and> cmd_op_code (hd (ps_queue s)) = PSTORAGE_STORE_OP_CODE \<and>
     m_num_of_bytes_written s = ucast (cmd_size (hd (ps_queue s))) \<and> m_app_data_size s = ucast (cmd_size (hd (ps_queue s)))"

lemma store_done:
  assumes "ps_storing s" "ps_queue s = c # cs"
    and "\<And>s1. ps_modules s1 = ps_modules s \<Longrightarrow> \<exists>e'. call_ntf_cb env (cb (m_app_table s ! unat (module_id (storage_addr c)))) (storage_addr c)
      PSTORAGE_STORE_OP_CODE NRF_SUCCESS (p_data_addr c) (ucast (cmd_size c)) (s1, m, e) = (s1, m, e') \<and> P e'"
  shows "\<exists>s' e'. pstorage_sys_event_handler env NRF_EVT_FLASH_OPERATION_SUCCESS (s, m, e) =
      (if cs = [] then (s', m, e') else cmd_process env (s', m, e')) \<and> ps_ring s' \<and> ps_queue s' = cs \<and> ps_modules s' = ps_modules s \<and> m_state s' = STATE_IDLE \<and> P e'"
proof -
  let ?r = "unat (queue_rp s)" and ?n = "unat (queue_count s)"
  have s: "?r < 30" "length (queue_cmd s) = 30" "?n \<le> 30" "\<not> ps_flag s 8" "m_state s = STATE_STORE" "cmd_op_code c = 1"
    "m_num_of_bytes_written s = ucast (cmd_size c)" "m_app_data_size s = ucast (cmd_size c)"
    using assms(1,2) by (simp_all add: ps_storing_def ps_ring_def)
  have n: "?n = Suc (length cs)" using arg_cong [OF assms(2), of length] by (simp add: ps_queue_def)
  have c: "p_cmd s = c" "cs = tl (ps_queue s)" using ps_queue_Cons [OF n s(1)] assms(2) by simp_all
  let ?s1 = "s\<lparr>queue_cmd := (queue_cmd s)[?r := c\<lparr>cmd_size := 0\<rparr>]\<rparr>"
  define s' where "s' = (command_queue_element_consume ?s1)\<lparr>m_state := STATE_IDLE, m_num_of_command_retries := 0, m_num_of_bytes_written := 0\<rparr>"
  have m1: "ps_modules ?s1 = ps_modules s" by (simp add: ps_modules_def)
  from assms(3) [OF m1] obtain e' where e': "call_ntf_cb env (cb (m_app_table s ! unat (module_id (storage_addr c)))) (storage_addr c)
      PSTORAGE_STORE_OP_CODE NRF_SUCCESS (p_data_addr c) (ucast (cmd_size c)) (?s1, m, e) = (?s1, m, e')" "P e'" by blast
  have nt: "app_notify env NRF_SUCCESS (?s1, m, e) = (?s1, m, e')"
    using e'(1) s by (simp add: app_notify_def Let_def p_cmd_def)
  have q: "unat (queue_count s') = length cs" using n
    by (simp add: s'_def command_queue_element_consume_def cmd_queue_element_init_def Let_def unat_minus_one unat_eq_zero [symmetric])
  have "\<exists>x. queue_cmd s' = (queue_cmd s)[?r := x]"
    by (auto simp: s'_def command_queue_element_consume_def cmd_queue_element_init_def Let_def)
  then obtain x where x: "queue_cmd s' = (queue_cmd s)[?r := x]" ..
  have rp: "unat (queue_rp s') = (?r + 1) mod 30"
    using s(1,2) unat_eq_u8 [OF s(1)]
    by (auto simp: s'_def command_queue_element_consume_def cmd_queue_element_init_def Let_def)
  have ev: "pstorage_sys_event_handler env NRF_EVT_FLASH_OPERATION_SUCCESS (s, m, e) = (if cs = [] then (s', m, e') else cmd_process env (s', m, e'))"
  proof -
    have "queue_count s' \<noteq> 0 \<longleftrightarrow> cs \<noteq> []" using q by (auto simp: word_unat_eq_iff)
    then have "state_idle_entry_run env ((command_queue_element_consume ?s1)\<lparr>m_state := STATE_IDLE\<rparr>, m, e') = (if cs = [] then (s', m, e') else cmd_process env (s', m, e'))"
      by (simp add: state_idle_entry_run_def cmd_queue_dequeue_def s'_def)
    then show ?thesis using s c(1) nt by (simp add: pstorage_sys_event_handler_def flash_operation_success_run_def store_sub_state_sm_run_def
        Let_def command_end_procedure_run_def sm_state_change_def state_entry_action_run_def)
  qed
  have "ps_queue s' = cs"
  proof (rule nth_equalityI)
    show "length (ps_queue s') = length cs" using q by (simp add: ps_queue_def)
    fix k assume "k < length (ps_queue s')"
    then have k: "k < length cs" using q by (simp add: ps_queue_def)
    have d: "?r \<noteq> (?r + Suc k) mod 30" using ring_distinct [of 0 "Suc k" ?r] k n s(1,3) by simp
    have "ps_queue s' ! k = queue_cmd s' ! ((?r + Suc k) mod 30)" using k q rp by (simp add: ps_queue_def mod_simps)
    also have "\<dots> = queue_cmd s ! ((?r + Suc k) mod 30)" unfolding x using d by (rule nth_list_update_neq)
    also have "\<dots> = ps_queue s ! Suc k" using k n by (simp add: ps_queue_def nth_append del: upt_Suc)
    finally show "ps_queue s' ! k = cs ! k" by (simp add: assms(2))
  qed
  moreover have "ps_ring s'"
  proof -
    have "length (queue_cmd s') = 30" using s(2) unfolding x by simp
    then show ?thesis using q n s(3,4) rp 
      by (simp add: ps_ring_def) (simp add: s'_def command_queue_element_consume_def cmd_queue_element_init_def Let_def ps_flag_def)
  qed
  moreover have "ps_modules s' = ps_modules s" "m_state s' = STATE_IDLE"
    by (simp_all add: ps_modules_def s'_def command_queue_element_consume_def cmd_queue_element_init_def Let_def ps_flag_def)
  ultimately have "ps_ring s' \<and> ps_queue s' = cs \<and> ps_modules s' = ps_modules s \<and> m_state s' = STATE_IDLE" by simp
  then show ?thesis using ev e'(2) by (intro exI [of _ s'] exI [of _ e']) simp
qed

end
