(* ===== verification/DmPairing.thy ===== *)
theory DmPairing
  imports DmBond PstorageQueue
begin

text \<open>
  Pairing: the stores that the device manager queues, and the flash after them.
\<close>

unbundle bit_operations_syntax

subsection \<open>Commands of the device manager\<close>

lemma dm_running_cong: "ps_modules s' = ps_modules s \<Longrightarrow> dm_running env sw s' t = dm_running env sw s t"
  by (simp add: dm_running_def dm_storage_def ps_layout_def ps_modules_def modules_apart_def module_of_def)

lemma dm_flash:
  assumes "dm_quiet env fl nt"
  shows "\<exists>e'. flash_write (dm_ps_env env) d p k (s, m, t, e) = (s, m, t, e') \<and> fl e' = fl e @ [Write d p k] \<and> nt e' = nt e"
    "\<exists>e'. flash_page_erase (dm_ps_env env) q (s, m, t, e) = (s, m, t, e') \<and> nt e' = nt e"
  using dm_quietD(1) [OF assms, of d p k e] dm_quietD(2) [OF assms, of q e]
  by (auto simp: flash_write_def flash_page_erase_def flash_api_err_code_process_def dm_ps_env_def)

text \<open>Beginning a command changes neither memory nor the device manager, and notifies nobody.\<close>

definition silent :: "('e \<Rightarrow> dm_ntf list) \<Rightarrow> 'e dm_world \<Rightarrow> 'e dm_world \<Rightarrow> bool" where
  "silent nt w w' \<longleftrightarrow> fst (snd w') = fst (snd w) \<and> fst (snd (snd w')) = fst (snd (snd w)) \<and> nt (snd (snd (snd w'))) = nt (snd (snd (snd w)))"

lemma silent_flash:
  assumes "dm_quiet env fl nt"
  shows "silent nt w (flash_write (dm_ps_env env) d p k w)" "silent nt w (flash_page_erase (dm_ps_env env) q w)"
  using dm_flash(1) [OF assms, of d p k "fst w" "fst (snd w)" "fst (snd (snd w))" "snd (snd (snd w))" ]
    dm_flash(2) [OF assms, of q "fst w" "fst (snd w)" "fst (snd (snd w))" "snd (snd (snd w))"]
  by (auto simp: silent_def)

lemma silent_enter:
  assumes "dm_quiet env fl nt"
  shows "silent nt w (state_busy_entry_run (dm_ps_env env) x w)"
proof -
  note q = silent_flash [OF assms]
  have sub: "silent nt w (swap_sub_state_entry_action_run (dm_ps_env env) y w)" for y w
    by (cases y) (simp_all add: q state_restore_tail_entry_run_def Let_def)
  have change: "silent nt (s, w) (swap_sub_state_state_change (dm_ps_env env) y (s', w))" for y s s' w
    using sub [of "(s'\<lparr>m_swap_sub_state := y\<rparr>, w)" y] by (simp add: swap_sub_state_state_change_def silent_def)
  have s: "silent nt (fst w, snd w) (s', snd w') \<longleftrightarrow> silent nt w w'" for s' w' by (simp add: silent_def)
  show ?thesis
    by (cases x) (use q change [of "fst w" "snd w"] in \<open>simp_all add: store_cmd_flash_write_execute_def state_data_erase_swap_entry_run_def Let_def silent_def\<close>)
qed

lemma silent_process:
  assumes "dm_quiet env fl nt"
  shows "silent nt (s, w) (cmd_process (dm_ps_env env) (s', w))"
proof -
  have enter: "silent nt (s, w) (sm_enter (dm_ps_env env) x (s', w))" for x s s' w
    using silent_enter [OF assms, of "(s'\<lparr>m_state := x\<rparr>, w)" x] by (simp add: sm_enter_def silent_def)
  show ?thesis
    by (simp add: cmd_process_def Let_def store_operation_execute_def update_operation_execute_def clear_operation_execute_def enter)
      (simp add: silent_def)
qed

definition store_cmd :: "pstorage_handle \<Rightarrow> ptr \<Rightarrow> u16 \<Rightarrow> u16 \<Rightarrow> cmd_queue_element" where
  "store_cmd h p sz off = \<lparr>cmd_op_code = PSTORAGE_STORE_OP_CODE, cmd_size = sz, cmd_offset = off, storage_addr = h, p_data_addr = p\<rparr>"

lemma store_cmd_simps [simp]:
  "cmd_op_code (store_cmd h p sz off) = 1" "cmd_size (store_cmd h p sz off) = sz" "cmd_offset (store_cmd h p sz off) = off"
  "storage_addr (store_cmd h p sz off) = h" "p_data_addr (store_cmd h p sz off) = p"
  by (simp_all add: store_cmd_def)

lemma ps_queue_update [simp]:
  "ps_queue (s\<lparr>m_state := x\<rparr>) = ps_queue s" "ps_queue (s\<lparr>m_num_of_bytes_written := y\<rparr>) = ps_queue s" "ps_queue (s\<lparr>m_app_data_size := y\<rparr>) = ps_queue s"
  "ps_ring (s\<lparr>m_state := x\<rparr>) = ps_ring s" "ps_ring (s\<lparr>m_num_of_bytes_written := y\<rparr>) = ps_ring s" "ps_ring (s\<lparr>m_app_data_size := y\<rparr>) = ps_ring s"
  "ps_modules (s\<lparr>m_state := x\<rparr>) = ps_modules s" "ps_modules (s\<lparr>m_num_of_bytes_written := y\<rparr>) = ps_modules s"
  "ps_modules (s\<lparr>m_app_data_size := y\<rparr>) = ps_modules s"
  by (simp_all add: ps_queue_def ps_ring_def ps_modules_def ps_flag_def)

lemma queue_head:
  assumes "ps_ring s" "ps_queue s = c # cs"
  shows "p_cmd s = c"
proof -
  have "unat (queue_count s) = Suc (length cs)" using arg_cong [OF assms(2), of length] by (simp add: ps_queue_def)
  from ps_queue_Cons [OF this] assms show ?thesis by (simp add: ps_ring_def)
qed

lemma store_starts:
  assumes "dm_quiet env fl nt" "ps_ring s" "ps_queue s = store_cmd h p sz off # cs" "sz \<le> 4096" "m_app_data_size s = ucast sz"
  shows "\<exists>s' e'. sm_enter (dm_ps_env env) STATE_STORE (s, m, t, e) = (s', m, t, e') \<and> ps_storing s' \<and> ps_queue s' = ps_queue s \<and>
    ps_modules s' = ps_modules s \<and> fl e' = fl e @ [Write (block_id h + ucast off) (of_nat p) (ucast sz div 4)] \<and> nt e' = nt e"
proof -
  note c = queue_head [OF assms(2,3)]
  let ?s = "s\<lparr>m_state := STATE_STORE\<rparr>"
  from dm_flash(1) [OF assms(1), of "block_id h + ucast off" "of_nat p" "ucast sz div 4" ?s m t e] obtain e' where
    e: "flash_write (dm_ps_env env) (block_id h + ucast off) (of_nat p) (ucast sz div 4) (?s, m, t, e) = (?s, m, t, e')"
    "fl e' = fl e @ [Write (block_id h + ucast off) (of_nat p) (ucast sz div 4)]" "nt e' = nt e" by blast
  have "sm_enter (dm_ps_env env) STATE_STORE (s, m, t, e) = (?s\<lparr>m_num_of_bytes_written := ucast sz\<rparr>, m, t, e')"
    using e(1) c leD [OF assms(4)] by (simp add: sm_enter_def store_cmd_flash_write_execute_def Let_def p_cmd_def)
  then show ?thesis using e(2,3) assms(2,3,5) by (auto simp: ps_storing_def)
qed

lemma process_store:
  assumes "dm_quiet env fl nt" "ps_ring s" "ps_queue s = store_cmd h p sz off # cs" "sz \<le> 4096"
  shows "\<exists>s' e'. cmd_process (dm_ps_env env) (s, m, t, e) = (s', m, t, e') \<and> ps_storing s' \<and> ps_queue s' = ps_queue s \<and>
    ps_modules s' = ps_modules s \<and> fl e' = fl e @ [Write (block_id h + ucast off) (of_nat p) (ucast sz div 4)] \<and> nt e' = nt e"
  using store_starts [OF assms(1) _ _ assms(4), of "s\<lparr>m_app_data_size := ucast sz\<rparr>" h p off cs m t e] assms(2,3) queue_head [OF assms(2,3)]
  by (simp add: cmd_process_def Let_def store_operation_execute_def)

text \<open>An idle module begins the store, a storing one queues it.\<close>

lemma first_store:
  assumes "dm_quiet env fl nt" "dm_storage env sw s t" "ps_ready s" "i < 7" "p \<noteq> 0" "p mod 4 = 0" "sz \<noteq> 0" "unat off mod 4 = 0" "unat sz + unat off \<le> 116"
  shows "\<exists>s' e'. pstorage_store (dm_ps_env env) (Some (dm_handle_of t i)) p sz off (s, m, t, e) = (NRF_SUCCESS, s', m, t, e') \<and> ps_storing s' \<and>
    ps_queue s' = [store_cmd (dm_handle_of t i) p sz off] \<and> ps_modules s' = ps_modules s \<and>
    fl e' = fl e @ [Write (block_id (dm_handle_of t i) + ucast off) (of_nat p) (ucast sz div 4)] \<and> nt e' = nt e"
proof -
  let ?s = "ps_queued 1 (dm_handle_of t i) p sz off s"
  note r = ready_queued [OF assms(3), of 1 "dm_handle_of t i" p sz off]
  have "sz \<le> 4096" using assms(9) by (simp add: word_le_nat_alt)
  from store_starts [OF assms(1) r(1) _ this, of "dm_handle_of t i" p off "[]" m t e] r
  show ?thesis by (simp add: pstorage_store_def dm_access [OF assms(2,4-9)] enqueue_begins [OF assms(3) refl] store_cmd_def ps_queued_def)
qed

lemma storing_adds:
  assumes "ps_storing s" "length (ps_queue s) < 30"
  shows "\<exists>s'. cmd_queue_enqueue env op h p sz off (s, w) = (NRF_SUCCESS, s', w) \<and> ps_storing s' \<and>
    ps_queue s' = ps_queue s @ [\<lparr>cmd_op_code = op, cmd_size = sz, cmd_offset = off, storage_addr = h, p_data_addr = p\<rparr>] \<and> ps_modules s' = ps_modules s"
proof -
  have "ps_ring s" "m_state s \<noteq> STATE_IDLE" using assms(1) by (simp_all add: ps_storing_def)
  from enqueue_adds [OF this(1) assms(2) this(2), of env op h p sz off w] assms(1) show ?thesis
    by (elim ex_forward) (auto simp: ps_storing_def hd_append)
qed

subsection \<open>What pairing queues\<close>

lemma and_not_disjoint:
  assumes "(x :: 'a :: len word) AND y = 0"
  shows "x AND NOT y = x"
proof (rule bit_word_eqI)
  fix n
  assume n: "n < LENGTH('a)"
  have "\<not> bit (x AND y) n" by (simp add: assms)
  then show "bit (x AND NOT y) n = bit x n" using n by (auto simp: bit_and_iff bit_not_iff)
qed

lemma gatts_stored:
  assumes "dm_quiet env fl nt" "dm_running env sw s t" "i < 7" "conn_state 0 t AND STATE_CONNECTED = STATE_CONNECTED" "dh_connection_id h = 0" "v < 4"
    and "ps_storing s" "length (ps_queue s) < 30"
  shows "\<exists>r s' m' e' ds. (m_service_context_store env ! unat (v :: u8)) (Some (dm_handle_of t i)) h (s, m, t, e) = (r, s', m', t, e') \<and>
    ps_storing s' \<and> ps_queue s' = ps_queue s @ ds \<and> ps_modules s' = ps_modules s \<and> fl e' = fl e \<and> nt e' = nt e \<and>
    (\<forall>a. \<not> (gatts_at env 0 \<le> a \<and> a < gatts_at env 0 + 36) \<longrightarrow> m' a = m a)"
proof -
  note d = dm_runningD [OF assms(2)] and p = table_pointers [OF dm_runningD(2) [OF assms(2)]]
  from dm_quietD(4) [OF assms(1), of "c_conn_handle (m_connection_table t ! 0)" 3 e] obtain r x e1 where
    x: "sd_ble_gatts_sys_attr_get env (c_conn_handle (m_connection_table t ! 0)) 3 e = (r, x, e1)" "length x \<le> 26" "fl e1 = fl e" "nt e1 = nt e" by blast
  let ?g = "gatts_at env 0"
  let ?m = "mem_write (?g + 8) x (mem_write (?g + 4) (u32_bytes (of_nat (length x))) (mem_write ?g (u32_bytes 3) m))"
  have m: "\<not> (?g \<le> a \<and> a < ?g + 36) \<Longrightarrow> ?m a = m a" for a using x(2) by (auto simp: mem_write_def u32_bytes_def)
  have acc: "access_check s (Some (dm_handle_of t i)) ?g 36 56 = NRF_SUCCESS"
    by (rule dm_access [OF d(1) assms(3) p(3,4)]) simp_all
  obtain s1 c where s1: "(if u32_at (?g + 4) m \<noteq> 0 then pstorage_update (dm_ps_env env) else pstorage_store (dm_ps_env env))
      (Some (dm_handle_of t i)) ?g 36 56 (s, ?m, t, e1) = (NRF_SUCCESS, s1, ?m, t, e1)" "ps_storing s1" "ps_queue s1 = ps_queue s @ [c]"
      "ps_modules s1 = ps_modules s"
    using storing_adds [OF assms(7,8), of "dm_ps_env env" 1 "dm_handle_of t i" ?g 36 56 "(?m, t, e1)"]
      storing_adds [OF assms(7,8), of "dm_ps_env env" 4 "dm_handle_of t i" ?g 36 56 "(?m, t, e1)"]
    by (cases "u32_at (?g + 4) m = 0") (auto simp: pstorage_store_def pstorage_update_def acc)
  have "\<exists>s' m' ds. gatts_context_store env (Some (dm_handle_of t i)) h (s, m, t, e) = (NRF_SUCCESS, s', m', t, e1) \<and>
    ps_storing s' \<and> ps_queue s' = ps_queue s @ ds \<and> ps_modules s' = ps_modules s \<and> (\<forall>a. \<not> (?g \<le> a \<and> a < ?g + 36) \<longrightarrow> m' a = m a)"
  proof (cases "r = NRF_SUCCESS \<and> mem_read (?g + 8) (length x) m \<noteq> x")
    case True
    then have "gatts_context_store env (Some (dm_handle_of t i)) h (s, m, t, e) = (NRF_SUCCESS, s1, ?m, t, e1)"
      using x(1) s1(1) assms(5) by (simp add: gatts_context_store_def Let_def)
    then show ?thesis using s1(2-4) m by blast
  next
    case False
    then have "gatts_context_store env (Some (dm_handle_of t i)) h (s, m, t, e) = (NRF_SUCCESS, s, m, t, e1)"
      using x(1) assms(4,5) by (auto simp: gatts_context_store_def Let_def)
    then show ?thesis using assms(7) by (intro exI [of _ s] exI [of _ m] exI [of _ "[]"]) simp
  qed
  then obtain s' m' ds where g: "gatts_context_store env (Some (dm_handle_of t i)) h (s, m, t, e) = (NRF_SUCCESS, s', m', t, e1)"
    "ps_storing s'" "ps_queue s' = ps_queue s @ ds" "ps_modules s' = ps_modules s" "\<forall>a. \<not> (?g \<le> a \<and> a < ?g + 36) \<longrightarrow> m' a = m a" by blast
  have "unat v = 0 \<or> unat v = 1 \<or> unat v = 2 \<or> unat v = 3" using assms(6) by (auto simp: word_less_nat_alt)
  then consider "unat v = 0 \<or> unat v = 2" | "unat v = 1 \<or> unat v = 3" by blast
  then show ?thesis
  proof cases
    case 1
    then have "(m_service_context_store env ! unat v) (Some (dm_handle_of t i)) h (s, m, t, e) = (NRF_SUCCESS, s, m, t, e)"
      by (auto simp: m_service_context_store_def no_service_context_store_def gattc_context_store_def)
    then show ?thesis using assms(7) by (intro exI [of _ NRF_SUCCESS] exI [of _ s] exI [of _ m] exI [of _ e] exI [of _ "[]"]) simp
  next
    case 2
    then have "(m_service_context_store env ! unat v) (Some (dm_handle_of t i)) h (s, m, t, e) = (NRF_SUCCESS, s', m', t, e1)"
      using g(1) by (auto simp: m_service_context_store_def gattsc_context_store_def gattc_context_store_def)
    then show ?thesis using g(2-5) x(3,4) by blast
  qed
qed

text \<open>The first bond of a device: its record and its bond are queued, the first is begun.\<close>

lemma first_bond_queued:
  assumes "dm_quiet env fl nt" "dm_running env sw s t" "ps_ready s" "i < 7"
    and "m_connection_table t = [c]" "c_state c AND STATE_CONNECTED = STATE_CONNECTED" "c_state c AND STATE_BOND_INFO_UPDATE = 0"
    and "dh_connection_id h = 0" "dh_device_id h = of_nat i" "dh_appl_id h = 0"
  shows "\<exists>s' m' e' ds. device_context_store env h FIRST_BOND_STORE (s, m, t, e) = (s', m', t, e') \<and> ps_storing s' \<and>
    ps_queue s' = store_cmd (dm_handle_of t i) (peer_at env i) 28 0 # store_cmd (dm_handle_of t i) (bond_at env 0) 28 28 # ds \<and>
    ps_modules s' = ps_modules s \<and> fl e' = fl e @ [Write (block_id (dm_handle_of t i)) (of_nat (peer_at env i)) 7] \<and> nt e' = nt e \<and>
    (\<forall>a. \<not> (gatts_at env 0 \<le> a \<and> a < gatts_at env 0 + 36) \<longrightarrow> m' a = m a)"
proof -
  note d = dm_runningD [OF assms(2)] and p = table_pointers [OF dm_runningD(2) [OF assms(2)]] and mm = dm_memoryD [OF dm_runningD(2) [OF assms(2)]]
  let ?h = "dm_handle_of t i"
  have pp: "peer_at env i \<noteq> 0" "peer_at env i mod 4 = 0" using mm(1,2,5) by (auto simp: peer_at_def mod_eq_0_iff_dvd)
  from first_store [OF assms(1) d(1) assms(3,4) pp, of 28 0 m e] obtain s1 e1 where 1:
    "pstorage_store (dm_ps_env env) (Some ?h) (peer_at env i) 28 0 (s, m, t, e) = (NRF_SUCCESS, s1, m, t, e1)" "ps_storing s1"
    "ps_queue s1 = [store_cmd ?h (peer_at env i) 28 0]" "ps_modules s1 = ps_modules s"
    "fl e1 = fl e @ [Write (block_id ?h) (of_nat (peer_at env i)) 7]" "nt e1 = nt e" by auto
  have r1: "dm_running env sw s1 t" using assms(2) by (simp add: dm_running_cong [OF 1(4)])
  have acc: "access_check s1 (Some ?h) (bond_at env 0) 28 28 = NRF_SUCCESS"
    by (rule dm_access [OF dm_runningD(1) [OF r1] assms(4) p(1,2)]) simp_all
  from storing_adds [OF 1(2), of "dm_ps_env env" 1 ?h "bond_at env 0" 28 28 "(m, t, e1)"] 1(3) obtain s2 where 2:
    "pstorage_store (dm_ps_env env) (Some ?h) (bond_at env 0) 28 28 (s1, m, t, e1) = (NRF_SUCCESS, s2, m, t, e1)" "ps_storing s2"
    "ps_queue s2 = [store_cmd ?h (peer_at env i) 28 0, store_cmd ?h (bond_at env 0) 28 28]" "ps_modules s2 = ps_modules s"
    using 1(4) by (auto simp: pstorage_store_def acc store_cmd_def)
  have r2: "dm_running env sw s2 t" using assms(2) by (simp add: dm_running_cong [OF 2(4)])
  have st: "conn_state 0 t AND STATE_CONNECTED = STATE_CONNECTED" "conn_state 0 t AND STATE_BOND_INFO_UPDATE \<noteq> STATE_BOND_INFO_UPDATE"
    using assms(5-7) by (simp_all add: conn_state_def)
  have "c_state c AND NOT 0x40 = c_state c" by (rule and_not_disjoint) (rule assms(7))
  then have t: "state_and 0 (NOT STATE_BOND_INFO_UPDATE) t = t" using assms(5) by (simp add: state_and_def conn_update_def)
  from gatts_stored [OF assms(1) r2 assms(4) st(1) assms(8) d(5) 2(2), of m e1] 2(3) obtain r s3 m3 e3 ds where 3:
    "(m_service_context_store env ! unat (ap_service (m_application_table t ! 0))) (Some ?h) h (s2, m, t, e1) = (r, s3, m3, t, e3)"
    "ps_storing s3" "ps_queue s3 = ps_queue s2 @ ds" "ps_modules s3 = ps_modules s2" "fl e3 = fl e1" "nt e3 = nt e1"
    "\<forall>a. \<not> (gatts_at env 0 \<le> a \<and> a < gatts_at env 0 + 36) \<longrightarrow> m3 a = m a" by auto
  have n: "unat (dh_device_id h) = i" using assms(4,9) by (simp add: unat_of_nat)
  have "device_context_store env h FIRST_BOND_STORE (s, m, t, e) = (s3, m3, t, e3)"
    using dm_storage_block(1) [OF d(1) assms(4)] 1(1) 2(1) 3(1) st(2) n assms(8,10) by (simp add: device_context_store_def Let_def t [simplified])
  then show ?thesis using 1 2 3 by (intro exI [of _ s3] exI [of _ m3] exI [of _ e3] exI [of _ ds]) simp
qed

subsection \<open>The flash after pairing\<close>

text \<open>The flash performs the last operation, and its event comes.\<close>

definition dm_success :: "'e dm_env \<Rightarrow> ('e \<Rightarrow> flash_op list) \<Rightarrow> 'e dm_world \<Rightarrow> 'e dm_world" where
  "dm_success env fl w = (case w of (s, m, t, e) \<Rightarrow>
     pstorage_sys_event_handler (dm_ps_env env) NRF_EVT_FLASH_OPERATION_SUCCESS (s, flash_exec (last (fl e)) m, t, e))"

lemma bond_committed:
  assumes "dm_quiet env fl nt" "dm_running env sw s t" "i < 7" "\<not> update_status_bit_is_set i t"
    and "ps_storing s" "ps_queue s = store_cmd (dm_handle_of t i) (peer_at env i) 28 0 # store_cmd (dm_handle_of t i) (bond_at env 0) 28 28 # ds"
    and "last (fl e) = Write (block_id (dm_handle_of t i)) (of_nat (peer_at env i)) 7"
    and "m' = flash_exec (Write (block_id (dm_handle_of t i) + 28) (of_nat (bond_at env 0)) 7)
      (flash_exec (Write (block_id (dm_handle_of t i)) (of_nat (peer_at env i)) 7) m)"
  shows "\<exists>s' e'. (dm_success env fl ^^ 2) (s, m, t, e) = (s', m', t, e') \<and> nt e' = nt e @ [bond_ntf env i PSTORAGE_STORE_OP_CODE]"
proof -
  let ?h = "dm_handle_of t i"
  let ?m1 = "flash_exec (Write (block_id ?h) (of_nat (peer_at env i)) 7) m"
  note d = dm_runningD [OF assms(2)]
  have cb: "cb (module_of s1 ?h) = a_pstorage_cb env" if "ps_modules s1 = ps_modules s" for s1
    using dm_runningD(1) [of env sw s1 t] assms(2) dm_running_cong [OF that, of env sw t] by (simp add: dm_storage_def)
  have peer: "call_ntf_cb (dm_ps_env env) (cb (m_app_table s ! unat (module_id (storage_addr (store_cmd ?h (peer_at env i) 28 0)))))
      (storage_addr (store_cmd ?h (peer_at env i) 28 0)) 1 NRF_SUCCESS (p_data_addr (store_cmd ?h (peer_at env i) 28 0))
      (ucast (cmd_size (store_cmd ?h (peer_at env i) 28 0))) (s1, ?m1, t, e) = (s1, ?m1, t, e)" if "ps_modules s1 = ps_modules s" for s1
    using callback_peer [of env sw s1 t i 1 ?m1 e] assms(2-4) dm_running_cong [OF that, of env sw t] cb [OF refl] by (simp add: module_of_def)
  from store_done [OF assms(5,6), of "dm_ps_env env" ?m1 "(t, e)" "\<lambda>x. x = (t, e)"] peer obtain s1 where 1:
    "dm_success env fl (s, m, t, e) = cmd_process (dm_ps_env env) (s1, ?m1, t, e)" "ps_ring s1"
    "ps_queue s1 = store_cmd ?h (bond_at env 0) 28 28 # ds" "ps_modules s1 = ps_modules s"
    by (auto simp: dm_success_def assms(7))
  from process_store [OF assms(1) 1(2,3), of ?m1 t e] obtain s2 e2 where 2:
    "cmd_process (dm_ps_env env) (s1, ?m1, t, e) = (s2, ?m1, t, e2)" "ps_storing s2" "ps_queue s2 = store_cmd ?h (bond_at env 0) 28 28 # ds"
    "ps_modules s2 = ps_modules s" "fl e2 = fl e @ [Write (block_id ?h + 28) (of_nat (bond_at env 0)) 7]" "nt e2 = nt e"
    using 1(3,4) by auto
  have r2: "dm_running env sw s2 t" using assms(2) by (simp add: dm_running_cong [OF 2(4)])
  have bond: "\<exists>x. call_ntf_cb (dm_ps_env env) (cb (m_app_table s2 ! unat (module_id (storage_addr (store_cmd ?h (bond_at env 0) 28 28)))))
      (storage_addr (store_cmd ?h (bond_at env 0) 28 28)) 1 NRF_SUCCESS (p_data_addr (store_cmd ?h (bond_at env 0) 28 28))
      (ucast (cmd_size (store_cmd ?h (bond_at env 0) 28 28))) (s3, m', t, e2) = (s3, m', x) \<and> fst x = t \<and> nt (snd x) = nt e @ [bond_ntf env i 1]"
    if "ps_modules s3 = ps_modules s2" for s3
  proof -
    have r3: "dm_running env sw s3 t" using r2 by (simp add: dm_running_cong [OF that])
    from callback_bond [OF assms(1) r3 assms(3), of 1 m' e2] cb [OF 2(4)] 2(6) show ?thesis by (auto simp: module_of_def)
  qed
  from store_done [OF 2(2,3), of "dm_ps_env env" m' "(t, e2)" "\<lambda>x. fst x = t \<and> nt (snd x) = nt e @ [bond_ntf env i 1]"] bond obtain s3 e3 where 3:
    "dm_success env fl (s2, ?m1, t, e2) = (if ds = [] then (s3, m', t, e3) else cmd_process (dm_ps_env env) (s3, m', t, e3))"
    "nt e3 = nt e @ [bond_ntf env i 1]"
    by (auto simp: dm_success_def 2(5) assms(8))
  have "silent nt (s3, m', t, e3) (dm_success env fl (s2, ?m1, t, e2))" using silent_process [OF assms(1), of s3 "(m', t, e3)" s3]
    unfolding 3(1) by (simp add: silent_def)
  then obtain s' e' where "dm_success env fl (s2, ?m1, t, e2) = (s', m', t, e')" "nt e' = nt e3"
    by (cases "dm_success env fl (s2, ?m1, t, e2)") (auto simp: silent_def)
  then show ?thesis using 1(1) 2(1) 3(2) by (simp add: numeral_2_eq_2)
qed

text \<open>The record of a device after successful pairing over the connection \<open>c\<close>, in RAM.\<close>

definition paired_record :: "'e dm_env \<Rightarrow> nat \<Rightarrow> bool \<Rightarrow> connection_instance \<Rightarrow> mem \<Rightarrow> mem" where
  "paired_record env i kdist_peer_id c m =
     (let m = (if kdist_peer_id then id_bitmap_and env i (NOT IRK_ENTRY) m else m)
      in if addr_type (c_peer_addr c) \<noteq> BLE_GAP_ADDR_TYPE_RANDOM_PRIVATE_RESOLVABLE
         then id_bitmap_and env i (NOT ADDR_ENTRY) (id_addr_info_set env i (c_peer_addr c) m)
         else id_bitmap_and env i (NOT IRK_ENTRY) (memcpy (peer_at env i + 24) (bond_at env 0 + 18) 2 m))"

lemma paired_record_facts:
  assumes "length (addr (c_peer_addr c)) = 6" "dm_memory env F" "i < 7"
  shows "\<And>a. \<not> (peer_at env i + 16 \<le> a \<and> a < peer_at env i + 28) \<Longrightarrow> paired_record env i k c m a = m a"
    "addr_type (c_peer_addr c) \<noteq> 2 \<Longrightarrow> id_addr_info env i (paired_record env i k c m) = c_peer_addr c \<and> id_bitmap env i (paired_record env i k c m) AND 2 = 0"
    "addr_type (c_peer_addr c) = 2 \<Longrightarrow> mem_read (peer_at env i + 24) 2 (paired_record env i k c m) = mem_read (bond_at env 0 + 18) 2 m \<and>
      id_bitmap env i (paired_record env i k c m) AND 1 = 0"
proof -
  let ?p = "peer_at env i"
  show "\<And>a. \<not> (?p + 16 \<le> a \<and> a < ?p + 28) \<Longrightarrow> paired_record env i k c m a = m a"
    using assms(1) by (auto simp: paired_record_def Let_def id_bitmap_and_def id_addr_info_set_def mem_write_def memcpy_at)
  have z: "(x AND - 3) AND 2 = 0" "(x AND - 2) AND 1 = 0" for x :: u8 by (simp_all add: and.assoc)
  show "id_addr_info env i (paired_record env i k c m) = c_peer_addr c \<and> id_bitmap env i (paired_record env i k c m) AND 2 = 0" if "addr_type (c_peer_addr c) \<noteq> 2"
  proof -
    let ?m = "if k then id_bitmap_and env i (NOT 1) m else m"
    have p: "paired_record env i k c m = id_bitmap_and env i (NOT 2) (id_addr_info_set env i (c_peer_addr c) ?m)"
      using that by (simp add: paired_record_def Let_def)
    have "mem_read (?p + 17) 6 (paired_record env i k c m) = addr (c_peer_addr c)"
      by (rule nth_equalityI) (use assms(1) in \<open>auto simp: p id_bitmap_and_def id_addr_info_set_def mem_write_def nth_Cons'\<close>)
    moreover have "paired_record env i k c m (?p + 16) = addr_type (c_peer_addr c)"
      by (simp add: p id_bitmap_and_def id_addr_info_set_def mem_write_def)
    moreover have "id_bitmap env i (paired_record env i k c m) AND 2 = 0" unfolding p id_bitmap_def id_bitmap_and_def by (simp add: z)
    ultimately show ?thesis by (simp add: id_addr_info_def)
  qed
  show "mem_read (?p + 24) 2 (paired_record env i k c m) = mem_read (bond_at env 0 + 18) 2 m \<and> id_bitmap env i (paired_record env i k c m) AND 1 = 0"
    if "addr_type (c_peer_addr c) = 2"
  proof -
    let ?m = "if k then id_bitmap_and env i (NOT 1) m else m"
    have p: "paired_record env i k c m = id_bitmap_and env i (NOT 1) (memcpy (?p + 24) (bond_at env 0 + 18) 2 ?m)"
      using that by (simp add: paired_record_def Let_def)
    have "bond_at env 0 + 18 + j \<noteq> ?p + 26" if "j < 2" for j
      using dm_memoryD(11) [OF assms(2)] assms(3) that by (auto simp: peer_at_def bond_at_def)
    then have "?m (bond_at env 0 + 18 + j) = m (bond_at env 0 + 18 + j)" if "j < 2" for j
      using that by (simp add: id_bitmap_and_def)
    then have "mem_read (?p + 24) 2 (paired_record env i k c m) = mem_read (bond_at env 0 + 18) 2 m"
      by (intro nth_equalityI) (auto simp: p id_bitmap_and_def memcpy_at)
    moreover have "id_bitmap env i (paired_record env i k c m) AND 1 = 0" unfolding p id_bitmap_def id_bitmap_and_def by (simp add: z)
    ultimately show ?thesis by simp
  qed
qed

lemma flash_write_bytes:
  assumes "unat d = b" "p + 28 \<le> 2 ^ 32" "m' = flash_exec (Write d (of_nat p) 7) m"
  shows "m' a = (if b \<le> a \<and> a < b + 28 then m a AND m (p + (a - b)) else m a)"
proof -
  have "p < 2 ^ 32" using assms(2) by linarith
  then show ?thesis using assms(1,3) by (simp add: flash_exec.simps unat_of_nat_u32)
qed

text \<open>The two writes, where the block was erased.\<close>

lemma block_written:
  assumes "dm_storage env sw s t" "dm_memory env ((sw + 1) * 4096)" "i < 7" "\<And>k. k < 56 \<Longrightarrow> m (dm_block t i + k) = 0xFF"
    and "m' = flash_exec (Write (block_id (dm_handle_of t i) + 28) (of_nat (bond_at env 0)) 7)
      (flash_exec (Write (block_id (dm_handle_of t i)) (of_nat (peer_at env i)) 7) m)"
  shows "mem_read (dm_block t i) 28 m' = mem_read (peer_at env i) 28 m" "mem_read (dm_block t i + 28) 28 m' = mem_read (bond_at env 0) 28 m"
    "\<And>a. \<not> (dm_block t i \<le> a \<and> a < dm_block t i + 56) \<Longrightarrow> m' a = m a"
proof -
  let ?b = "dm_block t i" and ?m1 = "flash_exec (Write (block_id (dm_handle_of t i)) (of_nat (peer_at env i)) 7) m"
  note mm = dm_memoryD [OF assms(2)]
  have B: "?b + 116 \<le> sw * 4096" "sw < 2 ^ 19" using dm_storage_area [OF assms(1)] assms(3) by (simp_all add: dm_block_def)
  have u: "unat (block_id (dm_handle_of t i)) = ?b" by (rule dm_block_id [OF assms(1,3)])
  have u28: "unat (block_id (dm_handle_of t i) + 28) = ?b + 28" using u B by (subst unat_sum) simp_all
  have p: "peer_at env i + 28 \<le> 2 ^ 32" "bond_at env 0 + 28 \<le> 2 ^ 32" using mm(8,9) assms(3) by (simp_all add: peer_at_def bond_at_def)
  note m1 = flash_write_bytes [OF u p(1) refl, of m] and m2 = flash_write_bytes [OF u28 p(2) assms(5)]
  have F: "?b + 56 \<le> peer_at env i" "?b + 56 \<le> bond_at env 0" using mm(2,3) B by (simp_all add: peer_at_def bond_at_def)
  show "mem_read ?b 28 m' = mem_read (peer_at env i) 28 m"
    by (rule nth_equalityI) (use assms(4) in \<open>auto simp: m2 m1\<close>)
  show "mem_read (?b + 28) 28 m' = mem_read (bond_at env 0) 28 m"
  proof (rule nth_equalityI)
    fix k assume "k < length (mem_read (?b + 28) 28 m')"
    then have k: "k < 28" by simp
    then have "m (?b + (28 + k)) = 0xFF" by (intro assms(4)) simp
    then show "mem_read (?b + 28) 28 m' ! k = mem_read (bond_at env 0) 28 m ! k" using k F(2) by (simp add: m2 m1 add.assoc)
  qed simp
  show "\<And>a. \<not> (?b \<le> a \<and> a < ?b + 56) \<Longrightarrow> m' a = m a" by (auto simp: m2 m1)
qed

text \<open>What the event of a successful pairing does at once.\<close>

definition paired_state :: "connection_instance \<Rightarrow> dm_state \<Rightarrow> dm_state" where
  "paired_state c t = t\<lparr>m_application_table := (m_application_table t)[0 := (m_application_table t ! 0)
     \<lparr>ap_state := ap_state (m_application_table t ! 0) AND NOT STATE_CONTROL_PROCEDURE_IN_PROGRESS\<rparr>],
     m_connection_table := [c\<lparr>c_state := (c_state c AND NOT STATE_PAIRING) OR STATE_BONDED\<rparr>]\<rparr>"

lemma paired_state_running:
  assumes "dm_running env sw s t" "dm_tables t"
  shows "dm_running env sw s (paired_state c t)" "update_status_bit_is_set i (paired_state c t) = update_status_bit_is_set i t"
    "dm_handle_of (paired_state c t) = dm_handle_of t" "dm_block (paired_state c t) = dm_block t"
  using assms by (auto simp: dm_running_def dm_storage_def paired_state_def dm_tables_def update_status_bit_is_set_def dm_handle_of_def
      dm_block_def fun_eq_iff)

lemma state_bits:
  assumes "(x :: u8) AND 2 = 2" "x AND 0x40 = 0"
  shows "((x AND NOT 4) OR 8) AND 2 = 2" "((x AND NOT 4) OR 8) AND 0x40 = 0"
proof -
  have "((x AND NOT 4) OR 8) AND 2 = x AND 2" "((x AND NOT 4) OR 8) AND 0x40 = x AND 0x40"
    by (simp_all add: bit.conj_disj_distrib2 and.assoc)
  then show "((x AND NOT 4) OR 8) AND 2 = 2" "((x AND NOT 4) OR 8) AND 0x40 = 0" using assms by simp_all
qed

definition paired_ntf :: "nat \<Rightarrow> dm_ble_evt \<Rightarrow> dm_ntf" where
  "paired_ntf i evt = (\<lparr>dh_appl_id = 0, dh_connection_id = 0, dh_device_id = of_nat i, dh_service_id = DM_INVALID_ID\<rparr>,
     \<lparr>ev_id = DM_EVT_SECURITY_SETUP_COMPLETE, ev_param = P_GAP evt\<rparr>, Result NRF_SUCCESS)"

lemma auth_status_success:
  assumes "dm_quiet env fl nt" "dm_running env sw s t" "dm_tables t" "m_connection_table t = [c]"
    and "c_state c AND STATE_CONNECTED = STATE_CONNECTED" "c_conn_handle c = conn" "c_bonded_dev_id c = of_nat i" "i < 7"
    and "evt = GAP_AUTH_STATUS conn BLE_GAP_SEC_STATUS_SUCCESS True k"
    and "h = \<lparr>dh_appl_id = 0, dh_connection_id = 0, dh_device_id = of_nat i, dh_service_id = DM_INVALID_ID\<rparr>"
    and "device_context_store env h FIRST_BOND_STORE (s, paired_record env i k c m, paired_state c t, e) = (s1, m1, t1, e1)"
  shows "\<exists>e2. dm_ble_evt_handler env evt (s, m, t, e) = (s1, m1, t1, e2) \<and> fl e2 = fl e1 \<and> nt e2 = nt e1 @ [paired_ntf i evt]"
proof -
  note d = dm_runningD [OF assms(2)]
  from dm_quietD(3) [OF assms(1), of "ap_ntf_cb (m_application_table t1 ! 0)" h "\<lparr>ev_id = DM_EVT_SECURITY_SETUP_COMPLETE, ev_param = P_GAP evt\<rparr>"
      "Result NRF_SUCCESS" s1 m1 t1 e1] obtain e2 where
    e2: "dm_app_cb env (ap_ntf_cb (m_application_table t1 ! 0)) h \<lparr>ev_id = DM_EVT_SECURITY_SETUP_COMPLETE, ev_param = P_GAP evt\<rparr> (Result NRF_SUCCESS)
      (s1, m1, t1, e1) = (s1, m1, t1, e2)" "fl e2 = fl e1"
    "nt e2 = nt e1 @ [(h, \<lparr>ev_id = DM_EVT_SECURITY_SETUP_COMPLETE, ev_param = P_GAP evt\<rparr>, Result NRF_SUCCESS)]" by blast
  have i: "(of_nat i :: u8) \<noteq> 0xFF" "unat (of_nat i :: u8) = i" using assms(8) by (auto simp: word_unat_eq_iff unat_of_nat)
  let ?l = "\<lparr>lo_handle = h, lo_event = 0, lo_notify = False, lo_result = Result NRF_SUCCESS\<rparr>"
  have "on_auth_status env 0 0 True k ?l (s, m, t, e) = (?l\<lparr>lo_event := DM_EVT_SECURITY_SETUP_COMPLETE, lo_notify := True\<rparr>, s1, m1, t1, e1)"
    using assms(3,4,7,10) assms(11) i
    by (cases k; cases "addr_type (c_peer_addr c) = 2") (simp_all add: on_auth_status_def Let_def state_and_def state_or_def conn_update_def paired_state_def paired_record_def dm_tables_def)
  moreover have "connection_instance_find conn STATE_CONNECTED t = (NRF_SUCCESS, Some 0)"
    using assms(4-6) by (simp add: connection_instance_find_def and.commute [of 2])
  ultimately have "dm_ble_evt_handler env evt (s, m, t, e) = (s1, m1, t1, e2)"
    using d(3,4) e2(1) assms(4,7,10) by (simp add: dm_ble_evt_handler_def assms(9) dm_evt_dispatch_def app_evt_notify_def dm_handle_initialize_def)
  then show ?thesis using e2(2,3) by (simp add: paired_ntf_def assms(10))
qed

text \<open>
  Pairing stores the bond. After a successful pairing with bonding over the connection \<open>c\<close>, to which no bond was known and the device \<open>i\<close> was allocated,
  with an idle pstorage and an erased block, two successful flash operations later the block holds the
  device's record and then the bond data that the SoftDevice had written; the record has the address of the device, or for a private
  resolvable address its diversifier, and is marked so; nothing else of the flash has changed,
  and the application was told that the pairing is complete and then that the bond is stored.
\<close>

lemma dm_bond_stored:
  assumes "dm_quiet env fl nt" "dm_running env sw s t" "dm_tables t" "ps_ready s" "m_connection_table t = [c]"
    and "c_state c AND STATE_CONNECTED = STATE_CONNECTED" "c_state c AND STATE_BOND_INFO_UPDATE = 0" "c_conn_handle c = conn"
    and "c_bonded_dev_id c = of_nat i" "i < 7" "\<not> update_status_bit_is_set i t" "length (addr (c_peer_addr c)) = 6"
    and "\<And>k. k < 56 \<Longrightarrow> m (dm_block t i + k) = 0xFF"
    and "evt = GAP_AUTH_STATUS conn BLE_GAP_SEC_STATUS_SUCCESS True kd"
    and "(dm_success env fl ^^ 2) (dm_ble_evt_handler env evt (s, m, t, e)) = (s', m', t', e')"
  shows "mem_read (dm_block t i) 28 m' = mem_read (peer_at env i) 28 m' \<and>
    mem_read (dm_block t i + 28) 28 m' = mem_read (bond_at env 0) 28 m \<and>
    (if addr_type (c_peer_addr c) \<noteq> BLE_GAP_ADDR_TYPE_RANDOM_PRIVATE_RESOLVABLE
     then id_addr_info env i m' = c_peer_addr c \<and> id_bitmap env i m' AND ADDR_ENTRY = 0
     else mem_read (peer_at env i + 24) 2 m' = mem_read (bond_at env 0 + 18) 2 m \<and> id_bitmap env i m' AND IRK_ENTRY = 0) \<and>
    (\<forall>a < (sw + 1) * 4096. \<not> (dm_block t i \<le> a \<and> a < dm_block t i + 56) \<longrightarrow> m' a = m a) \<and>
    nt e' = nt e @ [paired_ntf i evt, bond_ntf env i PSTORAGE_STORE_OP_CODE] \<and>
    m_connection_table t' = [c\<lparr>c_state := (c_state c AND NOT STATE_PAIRING) OR STATE_BONDED\<rparr>]"
proof -
  let ?F = "(sw + 1) * 4096" and ?b = "dm_block t i" and ?t = "paired_state c t" and ?m = "paired_record env i kd c m"
  define h where "h = \<lparr>dh_appl_id = 0, dh_connection_id = 0, dh_device_id = (of_nat i :: u8), dh_service_id = (DM_INVALID_ID :: u8)\<rparr>"
  note d = dm_runningD [OF assms(2)] and mm = dm_memoryD [OF dm_runningD(2) [OF assms(2)]]
  note p = paired_state_running [OF assms(2,3)] and st = state_bits [OF assms(6,7)]
  have c: "m_connection_table ?t = [c\<lparr>c_state := (c_state c AND NOT 4) OR 8\<rparr>]" by (simp add: paired_state_def)
  obtain s1 m1 e1 ds where 1: "device_context_store env h FIRST_BOND_STORE (s, ?m, ?t, e) = (s1, m1, ?t, e1)" "ps_storing s1"
    "ps_queue s1 = store_cmd (dm_handle_of t i) (peer_at env i) 28 0 # store_cmd (dm_handle_of t i) (bond_at env 0) 28 28 # ds"
    "ps_modules s1 = ps_modules s" "fl e1 = fl e @ [Write (block_id (dm_handle_of t i)) (of_nat (peer_at env i)) 7]" "nt e1 = nt e"
    "\<forall>a. \<not> (gatts_at env 0 \<le> a \<and> a < gatts_at env 0 + 36) \<longrightarrow> m1 a = ?m a"
    using first_bond_queued [OF assms(1) p(1) assms(4,10) c, of h ?m e] st p(3) by (auto simp: h_def)
  from auth_status_success [OF assms(1-3,5,6,8,9,10,14) h_def 1(1)] obtain e2 where
    2: "dm_ble_evt_handler env evt (s, m, t, e) = (s1, m1, ?t, e2)" "fl e2 = fl e1" "nt e2 = nt e @ [paired_ntf i evt]" using 1(6) by auto
  have r1: "dm_running env sw s1 ?t" using p(1) by (simp add: dm_running_cong [OF 1(4)])
  have n: "\<not> update_status_bit_is_set i ?t" using assms(11) p(2) by simp
  from bond_committed [OF assms(1) r1 assms(10) n 1(2), of ds e2 _ m1, OF _ _ refl] have
    3: "m' = flash_exec (Write (block_id (dm_handle_of t i) + 28) (of_nat (bond_at env 0)) 7)
      (flash_exec (Write (block_id (dm_handle_of t i)) (of_nat (peer_at env i)) 7) m1)" "t' = ?t"
    "nt e' = nt e @ [paired_ntf i evt, bond_ntf env i 1]"
    using 1(3,5) 2 assms(15) p(3) by auto
  have B: "?b + 116 \<le> sw * 4096" using dm_storage_area [OF d(1)] assms(10) by (simp add: dm_block_def)
  have low: "m1 a = m a" if "a < ?F" for a
    using that 1(7) paired_record_facts(1) [OF assms(12) d(2) assms(10), of a kd m] mm(2,4) by (simp add: gatts_at_def peer_at_def)
  have er: "m1 (dm_block t i + k) = 0xFF" if "k < 56" for k using low [of "?b + k"] assms(13) [OF that] B that by simp
  note w = block_written [OF d(1,2) assms(10) er 3(1)]
  have peer: "mem_read q n m' = mem_read q n ?m" if "peer_at env i \<le> q" "q + n \<le> peer_at env i + 28" for q n
    by (rule mem_read_eqI) (use that w(3) 1(7) mm(2,12) B assms(10) in \<open>auto simp: peer_at_def gatts_at_def\<close>)
  have pr: "m1 a = ?m a" if "peer_at env i \<le> a" "a < peer_at env i + 28" for a
    using that 1(7) mm(12) assms(10) by (auto simp: peer_at_def gatts_at_def)
  have "mem_read (peer_at env i) 28 m1 = mem_read (peer_at env i) 28 m'"
    unfolding peer [OF order_refl order_refl] by (rule mem_read_eqI) (use pr in auto)
  moreover have "mem_read (bond_at env 0) 28 m1 = mem_read (bond_at env 0) 28 m"
    by (rule mem_read_eqI) (use 1(7) paired_record_facts(1) [OF assms(12) d(2) assms(10)] mm(11,13) assms(10) in
      \<open>auto simp: bond_at_def gatts_at_def peer_at_def\<close>)
  moreover have id: "id_addr_info env i m' = id_addr_info env i ?m" "id_bitmap env i m' = id_bitmap env i ?m"
    using peer [of "peer_at env i + 16" 1] peer [of "peer_at env i + 17" 6] peer [of "peer_at env i + 26" 1]
    by (simp_all add: id_addr_info_def id_bitmap_def mem_read_Suc)
  moreover have "mem_read (peer_at env i + 24) 2 m' = mem_read (peer_at env i + 24) 2 ?m" by (rule peer) simp_all
  moreover have "m' a = m a" if "a < ?F" "\<not> (?b \<le> a \<and> a < ?b + 56)" for a using w(3) low that by simp
  ultimately show ?thesis
    using w(1,2) 3(2,3) c paired_record_facts(2,3) [OF assms(12) d(2) assms(10), of kd m] by simp
qed

end
