(* ===== verification/DmReset.thy ===== *)
theory DmReset
  imports DmPairing
begin

text \<open>
  A bond survives a reset: pairing, the stores, the initialisation after a reset and a new connection, put together; and a
  concrete device.
\<close>

unbundle bit_operations_syntax

lemma dm_register_success:
  assumes "dm_register inst (Some a) t = (NRF_SUCCESS, r, t')" "dm_fresh t"
  shows "m_connection_table t' = [idle_connection]" "m_storage_handle t' = m_storage_handle t" "m_module_initialized t'"
    "ap_ntf_cb (m_application_table t' ! 0) \<noteq> NULL" "ap_service (m_application_table t' ! 0) = dp_service_type a"
    "dm_tables t'" "i < 7 \<Longrightarrow> \<not> update_status_bit_is_set i t'"
  using assms by (auto simp: dm_register_def dm_fresh_def dm_tables_def update_status_bit_is_set_def Let_def split: if_splits)

text \<open>
  C7. A bond survives a reset. Two flash operations after a successful pairing with bonding the device is reset: only the flash keeps its
  content. It initialises the module again, which gets the same blocks, and registers an application; then the device that was
  paired, and whose address no device before it in flash has, connects again. The connection is then marked as bonded with
  that device, and the table of bonds holds the bond data of the pairing.
\<close>

theorem dm_bond_survives_reset:
  assumes "dm_quiet env fl nt" "dm_running env sw s t" "dm_tables t" "ps_ready s" "m_connection_table t = [c]"
    and "c_state c AND STATE_CONNECTED = STATE_CONNECTED" "c_state c AND STATE_BOND_INFO_UPDATE = 0" "c_conn_handle c = conn"
    and "c_bonded_dev_id c = of_nat i" "i < 7" "\<not> update_status_bit_is_set i t" "length (addr (c_peer_addr c)) = 6"
    and "addr_type (c_peer_addr c) \<noteq> BLE_GAP_ADDR_TYPE_RANDOM_PRIVATE_RESOLVABLE"
    and "\<And>k. k < 56 \<Longrightarrow> m (dm_block t i + k) = 0xFF"
    and "(dm_success env fl ^^ 2) (dm_ble_evt_handler env (GAP_AUTH_STATUS conn BLE_GAP_SEC_STATUS_SUCCESS True kd) (s, m, t, e)) = (s', m', t', e')"
    and "\<And>j. j < i \<Longrightarrow> \<lparr>addr_type = m' (dm_block t j + 16), addr = mem_read (dm_block t j + 17) 6 m'\<rparr> \<noteq> c_peer_addr c"
    and "\<And>a. a < (sw + 1) * 4096 \<Longrightarrow> m2 a = m' a" "ps_layout (dm_ps_env env) sw s2" "dm_tables t2"
    and "dm_init env (Some False) (s2, m2, t2, e2) = (NRF_SUCCESS, s3, m3, t3, e3)" "m_storage_handle t3 = m_storage_handle t"
    and "dm_register inst (Some appl) t3 = (NRF_SUCCESS, r, t4)" "dp_service_type appl < 4" "im \<noteq> 1"
    and "dm_ble_evt_handler env (GAP_CONNECTED conn2 (c_peer_addr c) im ix) (s3, m3, t4, e3) = (s5, m5, t5, e5)"
  shows "mem_read (bond_at env 0) 28 m5 = mem_read (bond_at env 0) 28 m \<and>
    m_connection_table t5 = [\<lparr>c_peer_addr = c_peer_addr c, c_conn_handle = conn2, c_state = STATE_CONNECTED OR STATE_BONDED, c_bonded_dev_id = of_nat i\<rparr>]"
proof -
  let ?F = "(sw + 1) * 4096" and ?a = "c_peer_addr c"
  note d = dm_runningD [OF assms(2)]
  from dm_bond_stored [OF assms(1-12,14) refl assms(15)] assms(13) have p: "mem_read (dm_block t i) 28 m' = mem_read (peer_at env i) 28 m'"
    "mem_read (dm_block t i + 28) 28 m' = mem_read (bond_at env 0) 28 m" "id_addr_info env i m' = ?a" by simp_all
  from dm_init_restores [OF assms(18) d(2) assms(19,20)] have r: "dm_storage env sw s3 t3" "m_module_initialized t3" "dm_fresh t3"
    "\<forall>a < ?F. m3 a = m2 a" "\<And>j. j < 7 \<Longrightarrow> mem_read (peer_at env j) 28 m3 = mem_read (dm_block t3 j) 28 m2" by simp_all
  note g = dm_register_success [OF assms(22) r(3)]
  have b: "dm_block t3 = dm_block t" "dm_block t4 = dm_block t" using g(2) assms(21) by (simp_all add: dm_block_def fun_eq_iff)
  have run: "dm_running env sw s3 t4" using r(1) g d(2) assms(23) by (simp add: dm_running_def dm_storage_def)
  have low: "mem_read (dm_block t j + o') n m2 = mem_read (dm_block t j + o') n m'" if "j < 7" "o' + n \<le> 116" for j o' n
    by (rule mem_read_eqI) (use assms(17) dm_storage_area(1) [OF d(1)] that in \<open>simp add: dm_block_def\<close>)
  have rec: "id_addr_info env j m3 = \<lparr>addr_type = m' (dm_block t j + 16), addr = mem_read (dm_block t j + 17) 6 m'\<rparr>" if "j < 7" for j
  proof -
    have eq: "m3 (peer_at env j + k) = m' (dm_block t j + k)" if "k < 28" for k
      using arg_cong [OF r(5) [OF \<open>j < 7\<close>], of "\<lambda>xs. xs ! k"] low [OF \<open>j < 7\<close>, of k 1] that by (simp add: b mem_read_Suc)
    have "mem_read (peer_at env j + 17) 6 m3 = mem_read (dm_block t j + 17) 6 m'"
      by (rule nth_equalityI) (use eq [of "17 + k" for k] in \<open>simp_all add: add.assoc\<close>)
    then show ?thesis using eq [of 16] by (simp add: id_addr_info_def)
  qed
  have same: "id_addr_info env i m3 = ?a"
  proof -
    have eq: "m' (dm_block t i + k) = m' (peer_at env i + k)" if "k < 28" for k
      using arg_cong [OF p(1), of "\<lambda>xs. xs ! k"] that by simp
    have "mem_read (dm_block t i + 17) 6 m' = mem_read (peer_at env i + 17) 6 m'"
      by (rule nth_equalityI) (use eq [of "17 + k" for k] in \<open>simp_all add: add.assoc\<close>)
    then show ?thesis using rec [OF assms(10)] eq [of 16] p(3) by (simp add: id_addr_info_def)
  qed
  have other: "id_addr_info env j m3 \<noteq> ?a" if "j < i" for j using rec [of j] assms(16) [OF that] that assms(10) by simp
  have idle: "m_connection_table t4 = [idle_connection]" "c_state idle_connection = DM_STATE_IDLE" using g(1) by (simp_all add: idle_connection_def)
  from dm_reconnect_spec [OF assms(1) run idle assms(10) same other assms(24) refl assms(25)]
  have "mem_read (bond_at env 0) 28 m5 = mem_read (dm_block t i + 28) 28 m3" "m_connection_table t5 =
    [\<lparr>c_peer_addr = ?a, c_conn_handle = conn2, c_state = STATE_CONNECTED OR STATE_BONDED, c_bonded_dev_id = of_nat i\<rparr>]" by (simp_all add: b)
  moreover have "mem_read (dm_block t i + 28) 28 m3 = mem_read (dm_block t i + 28) 28 m2"
    by (rule mem_read_eqI) (use r(4) dm_storage_area(1) [OF d(1)] assms(10) in \<open>simp add: dm_block_def\<close>)
  ultimately show ?thesis using low [OF assms(10), of 28 28] p(2) by simp
qed

subsection \<open>A device\<close>

definition dm_env_example :: "(flash_op list \<times> dm_ntf list) dm_env" where
  "dm_env_example = \<lparr>a_peer_table = 0x20000100, a_bond_table = 0x20000200, a_gatts_table = 0x20000300, a_local_id_info = 0x20000400,
     a_context_init_len = 0x20000500, a_stack = 0x20001000, a_pstorage_cb = 0x1001, dm_uicr_nrffw0 = 0x78000, dm_ficr_codesize = 0x80,
     dm_flash_write = \<lambda>d p k e. (NRF_SUCCESS, fst e @ [Write d p k], snd e), dm_flash_page_erase = \<lambda>p e. (NRF_SUCCESS, fst e @ [Erase p], snd e),
     other_ntf_cb = \<lambda>f h op r p n w. w, dm_app_cb = \<lambda>f h ev r (s, m, t, e). (s, m, t, fst e, snd e @ [(h, ev, r)]),
     sd_ble_gap_authenticate = \<lambda>c p e. (NRF_SUCCESS, e), sd_ble_gap_sec_info_reply = \<lambda>c p q m e. (NRF_SUCCESS, e),
     sd_ble_gap_sec_params_reply = \<lambda>c x p k e. (NRF_SUCCESS, e), sd_ble_gatts_sys_attr_get = \<lambda>c f e. (NRF_SUCCESS, [1, 2, 3, 4], e),
     sd_ble_gatts_sys_attr_set = \<lambda>c p n f m e. (NRF_SUCCESS, e), sd_ble_gatts_service_changed = \<lambda>c a b e. (NRF_SUCCESS, e),
     gpio_connected = \<lambda>e. e, forwardEvent = \<lambda>a b e. e\<rparr>"

abbreviation (input) "dm_sec_example \<equiv> \<lparr>sp_bond = True, sp_mitm = False, sp_lesc = False, sp_keypress = False, sp_io_caps = 3, sp_oob = False,
  sp_min_key_size = 7, sp_max_key_size = 16, sp_kdist_own = \<lparr>kd_enc = False, kd_id = False, kd_sign = False, kd_link = False\<rparr>,
  sp_kdist_peer = \<lparr>kd_enc = False, kd_id = False, kd_sign = False, kd_link = False\<rparr>\<rparr>"

definition dm_state_example :: dm_state where
  "dm_state_example = \<lparr>m_app_context_table = replicate 7 NULL, m_connection_table = [idle_connection],
     m_application_table = [\<lparr>ap_ntf_cb = NULL, ap_sec_param = dm_sec_example, ap_state = 0, ap_service = 0\<rparr>],
     m_storage_handle = \<lparr>module_id = 0, block_id = 0\<rparr>, m_peer_addr_update = 0, m_module_initialized = False, m_irk_index_table = replicate 7 0\<rparr>"

abbreviation (input) "dm_appl_example \<equiv> \<lparr>dp_evt_handler = 0x2001, dp_service_type = 1, dp_sec_param = dm_sec_example\<rparr>"

text \<open>Initialisation and registration, with memory \<open>m\<close>.\<close>

definition dm_boot :: "mem \<Rightarrow> ret_code \<times> (flash_op list \<times> dm_ntf list) dm_world" where
  "dm_boot m = dm_init dm_env_example (Some False) (snd (pstorage_init (dm_ps_env dm_env_example) ps_state_example), m, dm_state_example, [], [])"

definition dm_booted :: "mem \<Rightarrow> (flash_op list \<times> dm_ntf list) dm_world" where
  "dm_booted m = (case dm_boot m of (r, s, m, t, e) \<Rightarrow> (s, m, snd (snd (dm_register 1 (Some dm_appl_example) t)), e))"

lemma dm_example: "dm_quiet dm_env_example fst snd" "dm_memory dm_env_example (120 * 4096)"
  by (auto simp: dm_quiet_def dm_env_example_def dm_memory_def)

lemma dm_boots:
  "\<exists>s m1 t. dm_boot m = (NRF_SUCCESS, s, m1, t, [], []) \<and> dm_storage dm_env_example 119 s t \<and> ps_ready s \<and> m_module_initialized t \<and> dm_fresh t \<and>
    (\<forall>a < 120 * 4096. m1 a = m a) \<and> m_storage_handle t = \<lparr>module_id = 0, block_id = 0x75000\<rparr> \<and>
    ps_layout (dm_ps_env dm_env_example) 119 (snd (pstorage_init (dm_ps_env dm_env_example) ps_state_example)) \<and> dm_tables dm_state_example"
proof -
  let ?env = "dm_ps_env dm_env_example"
  let ?s0 = "snd (pstorage_init ?env ps_state_example)"
  obtain x y where "m_app_table ps_state_example = [x, y]" by (simp add: ps_state_example_def)
  note i = pstorage_init_facts [OF this, of ?env]
  have e: "pstorage_flash_page_end ?env = of_nat 120" by (simp add: pstorage_flash_page_end_def dm_ps_env_def dm_env_example_def)
  have a: "PSTORAGE_SWAP_ADDR ?env = 0x77000" "PSTORAGE_DATA_START_ADDR ?env = 0x75000"
    by (simp_all add: PSTORAGE_SWAP_ADDR_def PSTORAGE_DATA_START_ADDR_def e)
  have cb: "a_pstorage_cb dm_env_example = 0x1001" by (simp add: dm_env_example_def)
  have l: "ps_layout ?env 119 ?s0" "ps_ready ?s0" using layout_init(2,3) [OF _ _ e, of ps_state_example] by (simp_all add: ps_state_example_def)
  obtain s1 where s1: "pstorage_register ?env (Some (dm_storage_param dm_env_example)) ?s0 = (NRF_SUCCESS, Some \<lparr>module_id = 0, block_id = 0x75000\<rparr>, s1)"
    using i by (simp add: pstorage_register_def Let_def BLOCK_COUNT_CHECK_def a dm_storage_param_def cb)
  have t: "dm_tables dm_state_example" by (simp add: dm_tables_def dm_state_example_def)
  have m: "dm_memory dm_env_example ((119 + 1) * 4096)" using dm_example(2) by simp
  from dm_init_loads [OF l(1) m t s1, of m "([], [])"] obtain m1 t1 where
    b: "dm_boot m = (NRF_SUCCESS, s1, peers_loaded dm_env_example t1 [0..<7] m1, t1, [], [])" "dm_storage dm_env_example 119 s1 t1" "ps_ready s1"
    "m_module_initialized t1" "dm_fresh t1" "m_storage_handle t1 = \<lparr>module_id = 0, block_id = 0x75000\<rparr>"
    using l(2) unfolding dm_boot_def by auto
  from dm_init_restores [OF l(1) m t b(1) [unfolded dm_boot_def]] have "\<forall>a < 120 * 4096. peers_loaded dm_env_example t1 [0..<7] m1 a = m a" by simp
  then show ?thesis using b l(1) t
    by (intro exI [of _ s1] exI [of _ "peers_loaded dm_env_example t1 [0..<7] m1"] exI [of _ t1]) simp
qed

definition connection_example :: connection_instance where
  "connection_example = \<lparr>c_peer_addr = \<lparr>addr_type = 1, addr = [1, 2, 3, 4, 5, 0xC6]\<rparr>, c_conn_handle = 5, c_state = STATE_CONNECTED OR STATE_PAIRING,
     c_bonded_dev_id = 0\<rparr>"

text \<open>The SoftDevice writes the keys and reports that the pairing succeeded; then the flash operations do.\<close>

definition dm_paired :: "mem \<Rightarrow> (flash_op list \<times> dm_ntf list) dm_world" where
  "dm_paired m = (case dm_booted m of (s, m, t, e) \<Rightarrow> (dm_success dm_env_example fst ^^ 2)
     (dm_ble_evt_handler dm_env_example (GAP_AUTH_STATUS 5 BLE_GAP_SEC_STATUS_SUCCESS True True)
        (s, mem_write (bond_at dm_env_example 0) (replicate 28 0x42) m, t\<lparr>m_connection_table := [connection_example]\<rparr>, e)))"

theorem dm_bond_survives_reset_witness:
  "case dm_paired (\<lambda>a. 0xFF) of (s', m', t', e') \<Rightarrow> case dm_boot m' of (r, s3, m3, t3, e3) \<Rightarrow>
     case dm_ble_evt_handler dm_env_example (GAP_CONNECTED 6 \<lparr>addr_type = 1, addr = [1, 2, 3, 4, 5, 0xC6]\<rparr> 0 0)
         (s3, m3, snd (snd (dm_register 1 (Some dm_appl_example) t3)), e3) of (s5, m5, t5, e5) \<Rightarrow>
       mem_read (bond_at dm_env_example 0) 28 m5 = replicate 28 0x42 \<and> map c_bonded_dev_id (m_connection_table t5) = [0]"
proof -
  let ?env = dm_env_example and ?reg = "\<lambda>t. snd (snd (dm_register 1 (Some dm_appl_example) t))"
  have q: "dm_memory ?env ((119 + 1) * 4096)" using dm_example(2) by simp
  obtain s m t where b: "dm_boot (\<lambda>a. 0xFF) = (NRF_SUCCESS, s, m, t, [], [])" "dm_storage ?env 119 s t" "ps_ready s" "m_module_initialized t"
    "dm_fresh t" "\<forall>a < 120 * 4096. m a = 0xFF" "m_storage_handle t = \<lparr>module_id = 0, block_id = 0x75000\<rparr>" using dm_boots [of "\<lambda>a. 0xFF"] by blast
  have r: "dm_register 1 (Some dm_appl_example) x = (NRF_SUCCESS, Some 0, ?reg x)" if "dm_fresh x" "m_module_initialized x" for x
    using that by (simp add: dm_register_def dm_fresh_def)
  note g = dm_register_success [OF r [OF b(5,4)] b(5)]
  let ?t = "(?reg t)\<lparr>m_connection_table := [connection_example]\<rparr>" and ?m = "mem_write (bond_at ?env 0) (replicate 28 0x42) m"
  have run: "dm_running ?env 119 s ?t" using b(2) g q by (simp add: dm_running_def dm_storage_def)
  have t: "dm_tables ?t" "\<not> update_status_bit_is_set 0 ?t" using g(6) g(7) [of 0] by (simp_all add: dm_tables_def update_status_bit_is_set_def)
  have B: "dm_block ?t = dm_block t" "dm_block t 0 = 0x75000" using g(2) b(7) by (simp_all add: dm_block_def fun_eq_iff)
  have er: "?m (dm_block ?t 0 + k) = 0xFF" if "k < 56" for k
    unfolding B using that b(6) by (simp add: mem_write_out bond_at_def dm_env_example_def)
  obtain s' m' t' e' where p: "dm_paired (\<lambda>a. 0xFF) = (s', m', t', e')" by (cases "dm_paired (\<lambda>a. 0xFF)")
  then have p2: "(dm_success ?env fst ^^ 2) (dm_ble_evt_handler ?env (GAP_AUTH_STATUS 5 0 True True) (s, ?m, ?t, [], [])) = (s', m', t', e')"
    by (simp add: dm_paired_def dm_booted_def b(1))
  obtain s3 m3 t3 where b3: "dm_boot m' = (NRF_SUCCESS, s3, m3, t3, [], [])" "m_module_initialized t3" "dm_fresh t3"
    "m_storage_handle t3 = \<lparr>module_id = 0, block_id = 0x75000\<rparr>"
    "ps_layout (dm_ps_env ?env) 119 (snd (pstorage_init (dm_ps_env ?env) ps_state_example))" "dm_tables dm_state_example" using dm_boots [of m'] by blast
  obtain s5 m5 t5 e5 where c: "dm_ble_evt_handler ?env (GAP_CONNECTED 6 (c_peer_addr connection_example) 0 0) (s3, m3, ?reg t3, [], []) = (s5, m5, t5, e5)"
    by (cases "dm_ble_evt_handler ?env (GAP_CONNECTED 6 (c_peer_addr connection_example) 0 0) (s3, m3, ?reg t3, [], [])")
  have h: "m_storage_handle t3 = m_storage_handle ?t" using b3(4) b(7) g(2) by simp
  have "mem_read (bond_at ?env 0) 28 m5 = mem_read (bond_at ?env 0) 28 ?m \<and> m_connection_table t5 =
      [\<lparr>c_peer_addr = c_peer_addr connection_example, c_conn_handle = 6, c_state = STATE_CONNECTED OR STATE_BONDED, c_bonded_dev_id = of_nat 0\<rparr>]"
    by (rule dm_bond_survives_reset [OF dm_example(1) run t(1) b(3) _ _ _ _ _ _ t(2) _ _ er p2 _ refl b3(5,6) b3(1) [unfolded dm_boot_def] h
          r [OF b3(3,2)] _ _ c]) (simp_all add: connection_example_def)
  then show ?thesis using p b3(1) c by (simp add: connection_example_def mem_read_write_same)
qed

end
