(* ===== verification/DmWhitelist.thy ===== *)
theory DmWhitelist
  imports DmReset
begin

text \<open>
  The whitelist that the device manager makes for advertising.
\<close>

unbundle bit_operations_syntax

text \<open>The first elements of an array are replaced.\<close>

definition overwrite :: "'a list \<Rightarrow> 'a list \<Rightarrow> 'a list" where
  "overwrite ys xs = ys @ drop (length ys) xs"

lemma overwrite_Nil [simp]: "overwrite [] xs = xs"
  by (simp add: overwrite_def)

lemma overwrite_next: "length ys < length xs \<Longrightarrow> (overwrite ys xs)[length ys := y] = overwrite (ys @ [y]) xs"
  by (simp add: overwrite_def list_update_append Cons_nth_drop_Suc [symmetric])

lemma take_snoc: "take k (xs @ [x]) = (if length xs < k then take k xs @ [x] else take k xs)"
  by simp

definition whitelisted :: "'e dm_env \<Rightarrow> u8 \<Rightarrow> mem \<Rightarrow> dm_state \<Rightarrow> nat \<Rightarrow> nat list" where
  "whitelisted env entry m t n = filter (\<lambda>i. \<not> peer_connected i t \<and> id_bitmap env i m AND entry = 0) [0..<n]"

lemma whitelisted_Suc: "whitelisted env entry m t (Suc n) =
    (if \<not> peer_connected n t \<and> id_bitmap env n m AND entry = 0 then whitelisted env entry m t n @ [n] else whitelisted env entry m t n)"
  by (simp add: whitelisted_def)

lemma whitelisted_length: "length (whitelisted env entry m t n) \<le> n"
  using length_filter_le [of _ "[0..<n]"] by (simp add: whitelisted_def)

lemma peer_connected_irk [simp]: "peer_connected i (t\<lparr>m_irk_index_table := x\<rparr>) = peer_connected i t"
  by (simp add: peer_connected_def)

definition whitelist_with :: "'e dm_env \<Rightarrow> ble_gap_whitelist \<Rightarrow> dm_state \<Rightarrow> nat list \<Rightarrow> nat list \<Rightarrow>
    ble_gap_whitelist \<times> nat \<times> nat \<times> dm_state" where
  "whitelist_with env wl t irks addrs =
    (wl\<lparr>pp_irks := overwrite (map (peer_at env) irks) (pp_irks wl), pp_addrs := overwrite (map (\<lambda>i. peer_at env i + 16) addrs) (pp_addrs wl)\<rparr>,
     length addrs, length irks, t\<lparr>m_irk_index_table := overwrite (map of_nat irks) (m_irk_index_table t)\<rparr>)"

lemma whitelist_add_with:
  assumes "unat (irk_count wl) \<le> length (pp_irks wl)" "unat (addr_count wl) \<le> length (pp_addrs wl)" "length irks < length (m_irk_index_table t)"
  shows "whitelist_add env m n (whitelist_with env wl t irks addrs) = whitelist_with env wl t
    (if \<not> peer_connected n t \<and> id_bitmap env n m AND 1 = 0 \<and> length irks < unat (irk_count wl) then irks @ [n] else irks)
    (if \<not> peer_connected n t \<and> id_bitmap env n m AND 2 = 0 \<and> length addrs < unat (addr_count wl) then addrs @ [n] else addrs)"
proof -
  have o: "length irks < unat (irk_count wl) \<Longrightarrow>
      (overwrite (map (peer_at env) irks) (pp_irks wl))[length irks := peer_at env n] = overwrite (map (peer_at env) (irks @ [n])) (pp_irks wl)"
    "length addrs < unat (addr_count wl) \<Longrightarrow> (overwrite (map (\<lambda>i. peer_at env i + 16) addrs) (pp_addrs wl))[length addrs := peer_at env n + 16] =
      overwrite (map (\<lambda>i. peer_at env i + 16) (addrs @ [n])) (pp_addrs wl)"
    "(overwrite (map of_nat irks) (m_irk_index_table t))[length irks := of_nat n] = overwrite (map of_nat (irks @ [n])) (m_irk_index_table t)"
    using assms overwrite_next [of "map (peer_at env) irks"] overwrite_next [of "map (\<lambda>i. peer_at env i + 16) addrs"]
      overwrite_next [of "map of_nat irks" "m_irk_index_table t"] by simp_all
  show ?thesis by (simp add: whitelist_with_def whitelist_add_def Let_def o)
qed

lemma whitelist_fold:
  assumes "unat (irk_count wl) \<le> length (pp_irks wl)" "unat (addr_count wl) \<le> length (pp_addrs wl)" "n \<le> length (m_irk_index_table t)"
  shows "fold (whitelist_add env m) [0..<n] (wl, 0, 0, t) = whitelist_with env wl t
    (take (unat (irk_count wl)) (whitelisted env 1 m t n)) (take (unat (addr_count wl)) (whitelisted env 2 m t n))"
  using assms(3)
proof (induction n)
  case 0
  then show ?case by (simp add: whitelisted_def whitelist_with_def)
next
  case (Suc n)
  have "length (take (unat (irk_count wl)) (whitelisted env 1 m t n)) < length (m_irk_index_table t)"
    using whitelisted_length [of env 1 m t n] Suc.prems by simp
  note step = whitelist_add_with [OF assms(1,2) this, of env m n]
  have s: "min (length (whitelisted env b m t n)) k < k \<longleftrightarrow> length (whitelisted env b m t n) < k" for b k by auto
  have "fold (whitelist_add env m) [0..<Suc n] (wl, 0, 0, t) = whitelist_add env m n (whitelist_with env wl t
    (take (unat (irk_count wl)) (whitelisted env 1 m t n)) (take (unat (addr_count wl)) (whitelisted env 2 m t n)))"
    using Suc by simp
  then show ?case unfolding step by (simp add: s whitelisted_Suc)
qed



end
