(* ===== verification/DmFaults.thy ===== *)
theory DmFaults
  imports DmPairing
begin

text \<open>
  What the device manager gets wrong: a failed pairing that cannot be repeated on its link, a bonded connection without a device, an
  identity key of another device, and a pointer beyond the table of peers.
\<close>

unbundle bit_operations_syntax

text \<open>Freeing a device does not touch the connections.\<close>

lemma free_keeps_connections:
  assumes "dm_quiet env fl nt" "device_instance_free env i (s, m, t, e) = (r, s', m', t', e')"
  shows "m_connection_table t' = m_connection_table t"
proof -
  have "silent nt (s, m, t, e) (snd (cmd_queue_enqueue (dm_ps_env env) op h p sz off (s, m, t, e)))" for op h p sz off
    unfolding cmd_queue_enqueue_def Let_def using silent_process [OF assms(1), of s "(m, t, e)"] by (simp add: silent_def)
  then have c: "silent nt (s, m, t, e) (snd (pstorage_clear (dm_ps_env env) oh sz (s, m, t, e)))" for oh sz
    by (simp add: pstorage_clear_def Let_def silent_def split: option.split)
  obtain err oh where b: "storage_block s t i = (err, oh)" by (cases "storage_block s t i")
  obtain r1 s1 m1 t1 e1 where p: "pstorage_clear (dm_ps_env env) oh ALL_CONTEXT_SIZE (s, m, t, e) = (r1, s1, m1, t1, e1)"
    by (cases "pstorage_clear (dm_ps_env env) oh ALL_CONTEXT_SIZE (s, m, t, e)")
  have "t1 = t" using c [of oh ALL_CONTEXT_SIZE] by (simp add: p silent_def)
  then show ?thesis using assms(2) p
    by (auto simp: device_instance_free_def b peer_instance_init_def Let_def update_status_bit_reset_def split: if_splits)
qed

text \<open>
  After a pairing that failed the connection keeps the number of the device that was freed, so the next request for
  pairing parameters over it is answered that pairing is not supported.
\<close>

lemma failed_pairing_keeps_device:
  assumes "dm_quiet env fl nt" "st \<noteq> BLE_GAP_SEC_STATUS_SUCCESS" "m_connection_table t = [c]" "on_auth_status env 0 st b k l (s, m, t, e) = (l', s', m', t', e')"
  shows "map c_bonded_dev_id (m_connection_table t') = [c_bonded_dev_id c]"
proof -
  let ?t = "state_and 0 (NOT STATE_PAIRING) (t\<lparr>m_application_table := (m_application_table t)[0 := (m_application_table t ! 0)
    \<lparr>ap_state := ap_state (m_application_table t ! 0) AND NOT STATE_CONTROL_PROCEDURE_IN_PROGRESS\<rparr>]\<rparr>)"
  obtain r s1 m1 t1 e1 where f: "device_instance_free env (unat (c_bonded_dev_id (m_connection_table ?t ! 0))) (s, m, ?t, e) = (r, s1, m1, t1, e1)"
    by (cases "device_instance_free env (unat (c_bonded_dev_id (m_connection_table ?t ! 0))) (s, m, ?t, e)")
  have "map c_bonded_dev_id (m_connection_table ?t) = [c_bonded_dev_id c]" using assms(3) by (simp add: state_and_def conn_update_def)
  moreover have "t' = ?t \<or> t' = t1" using assms(2,4) f by (auto simp: on_auth_status_def Let_def split: if_splits)
  ultimately show ?thesis using free_keeps_connections [OF assms(1) f] by auto
qed

lemma sec_params_refused:
  assumes "c_bonded_dev_id (m_connection_table t ! index) \<noteq> DM_INVALID_ID" "index < length (m_connection_table t)"
  shows "snd (snd (snd (snd (on_sec_params_request env index conn l (s, m, t, e))))) =
    snd (sd_ble_gap_sec_params_reply env conn BLE_GAP_SEC_STATUS_PAIRING_NOT_SUPP None None e)"
  using assms by (simp add: on_sec_params_request_def Let_def state_or_def conn_update_def split_beta)

text \<open>A connection whose identity key matched, at an index that the table of indices does not have, is bonded with no device.\<close>

lemma unknown_irk_bonded:
  assumes "dm_storage env sw s t" "m_connection_table t = [c]" "c_state c = DM_STATE_IDLE" "m_irk_index_table t ! unat ix = DM_INVALID_ID"
    and "on_gap_connected env conn a 1 ix l (s, m, t, e) = (j, l', s', m', t', e')"
  shows "map (\<lambda>c. (c_state c, c_bonded_dev_id c)) (m_connection_table t') = [(STATE_CONNECTED OR STATE_BONDED, DM_INVALID_ID)]"
proof -
  have al: "connection_instance_allocate t = (NRF_SUCCESS, Some 0, conn_update 0 (\<lambda>c. c\<lparr>c_state := STATE_CONNECTED\<rparr>) t)"
    using assms(2,3) by (simp add: connection_instance_allocate_def connection_instance_find_def)
  let ?h = "(lo_handle l)\<lparr>dh_connection_id := 0, dh_device_id := DM_INVALID_ID\<rparr>"
  have far: "fst (storage_block s t' 255) \<noteq> NRF_SUCCESS" if "m_storage_handle t' = m_storage_handle t" for t'
  proof -
    have d: "module_of s (m_storage_handle t) = \<lparr>cb = a_pstorage_cb env, base_id = block_id (m_storage_handle t), block_size = ALL_CONTEXT_SIZE, block_count = 7\<rparr>"
      using assms(1) by (simp add: dm_storage_def)
    have B: "dm_block t 0 + 29580 < 2 ^ 32" "dm_block t 0 + 812 < 2 ^ 32" using dm_storage_area [OF assms(1)] by (simp_all add: dm_block_def)
    then have "unat (block_id (m_storage_handle t) + 29580) = dm_block t 0 + 29580" "unat (block_id (m_storage_handle t) + 812) = dm_block t 0 + 812"
      by (simp_all add: dm_block_def unat_sum)
    then have "\<not> block_id (m_storage_handle t) + 29580 < block_id (m_storage_handle t) + 812" by (simp add: word_less_nat_alt)
    moreover have "module_of s (m_storage_handle t\<lparr>block_id := x\<rparr>) = module_of s (m_storage_handle t)" for x by (simp add: module_of_def)
    ultimately show ?thesis using that by (simp add: storage_block_def pstorage_block_identifier_get_def BLOCK_ID_RANGE_CHECK_def d not_less)
  qed
  have "bond_data_load env ?h (s, m, t', e) = (s, m, t', e)" if "m_storage_handle t' = m_storage_handle t" for t' e
    using far [OF that] by (simp add: bond_data_load_def split_beta)
  then show ?thesis using assms(2,4,5) al
    by (cases c) (auto simp: on_gap_connected_def Let_def conn_update_def dm_bonded_set_def)
qed

text \<open>
  The keys of a bonded connection are given to the SoftDevice with the identity key of the peer that has the number of the connection, not that
  of the device.
\<close>

lemma sec_info_identity:
  assumes "c_bonded_dev_id (m_connection_table t ! index) \<noteq> DM_INVALID_ID"
  shows "on_sec_info_request env index conn ediv l (s, m, t, e) =
    (l, s, m, t, snd (sd_ble_gap_sec_info_reply env conn (bond_at env index) (peer_at env index) m e))"
  using assms by (simp add: on_sec_info_request_def)

text \<open>Where all devices are taken, pairing goes on, with keys that the SoftDevice is to write beyond the table of peers.\<close>

lemma full_table_overruns:
  assumes "\<forall>i < 7. id_bitmap env i m \<noteq> UNASSIGNED" "m_connection_table t = [c]" "c_bonded_dev_id c = DM_INVALID_ID"
  shows "snd (snd (snd (snd (on_sec_params_request env 0 conn l (s, m, t, e))))) =
    snd (sd_ble_gap_sec_params_reply env conn BLE_GAP_SEC_STATUS_SUCCESS (Some (ap_sec_param (m_application_table t ! 0)))
      (Some \<lparr>keys_peer_enc = NULL, keys_peer_id = peer_at env 255, keys_own_enc = bond_at env 0, keys_own_id = NULL\<rparr>) e)"
    "a_peer_table env + 28 * 7 \<le> peer_at env 255"
proof -
  have "List.find (\<lambda>index. id_bitmap env index m = UNASSIGNED) [0..<7] = None" using assms(1) by (auto simp: find_None_iff)
  then have a: "device_instance_allocate env x m = (DM_DEVICE_CONTEXT_FULL, None, m)" for x
    by (simp add: device_instance_allocate_def del: upt_rec_numeral)
  show "snd (snd (snd (snd (on_sec_params_request env 0 conn l (s, m, t, e))))) =
    snd (sd_ble_gap_sec_params_reply env conn BLE_GAP_SEC_STATUS_SUCCESS (Some (ap_sec_param (m_application_table t ! 0)))
      (Some \<lparr>keys_peer_enc = NULL, keys_peer_id = peer_at env 255, keys_own_enc = bond_at env 0, keys_own_id = NULL\<rparr>) e)"
    using assms(2,3) by (simp add: on_sec_params_request_def Let_def state_or_def conn_update_def a split_beta)
qed (simp add: peer_at_def)

end
