(* ===== verification/NrfHal.thy ===== *)
theory NrfHal
  imports Prelude
begin

text \<open>
  The registers of the peripherals, and the access functions of \<^verbatim>\<open>drivers_nrf/hal/nrf_uart.h\<close>,
  \<^verbatim>\<open>nrf_uarte.h\<close> and \<^verbatim>\<open>nrf_gpio.h\<close> and of the interrupt controller
  (\<^verbatim>\<open>drivers_nrf/common/nrf_drv_common.c\<close>, \<^verbatim>\<open>CMSIS/Include/core_cm4.h\<close>).

  What the program did to the hardware is the list of its register accesses, the last one at the end. The hardware
  is a parameter: a \<open>device\<close> gives the value that a read of an address returns after those accesses, so it may change
  whenever it is looked at. The constants are the offsets of the register structures of \<^verbatim>\<open>device/nrf52.h\<close>.
\<close>

unbundle bit_operations_syntax

datatype access = Rd u32 u32 | Wr u32 u32

type_synonym device = "access list \<Rightarrow> u32 \<Rightarrow> u32"

definition reg_get :: "device \<Rightarrow> u32 \<Rightarrow> access list \<Rightarrow> u32 \<times> access list" where
  "reg_get d a t = (d t a, t @ [Rd a (d t a)])"

definition reg_set :: "u32 \<Rightarrow> u32 \<Rightarrow> access list \<Rightarrow> access list" where
  "reg_set a v t = t @ [Wr a v]"

subsection \<open>UART\<close>

definition NRF_UART0 :: u32 where "NRF_UART0 = 0x40002000"

definition NRF_UART_PSEL_DISCONNECTED :: u32 where "NRF_UART_PSEL_DISCONNECTED = 0xFFFFFFFF"

datatype nrf_uart_task = NRF_UART_TASK_STARTRX | NRF_UART_TASK_STOPRX | NRF_UART_TASK_STARTTX
  | NRF_UART_TASK_STOPTX | NRF_UART_TASK_SUSPEND

fun uart_task_offset :: "nrf_uart_task \<Rightarrow> u32" where
  "uart_task_offset NRF_UART_TASK_STARTRX = 0x000"
| "uart_task_offset NRF_UART_TASK_STOPRX = 0x004"
| "uart_task_offset NRF_UART_TASK_STARTTX = 0x008"
| "uart_task_offset NRF_UART_TASK_STOPTX = 0x00C"
| "uart_task_offset NRF_UART_TASK_SUSPEND = 0x01C"

datatype nrf_uart_event = NRF_UART_EVENT_CTS | NRF_UART_EVENT_NCTS | NRF_UART_EVENT_RXDRDY
  | NRF_UART_EVENT_TXDRDY | NRF_UART_EVENT_ERROR | NRF_UART_EVENT_RXTO

fun uart_event_offset :: "nrf_uart_event \<Rightarrow> u32" where
  "uart_event_offset NRF_UART_EVENT_CTS = 0x100"
| "uart_event_offset NRF_UART_EVENT_NCTS = 0x104"
| "uart_event_offset NRF_UART_EVENT_RXDRDY = 0x108"
| "uart_event_offset NRF_UART_EVENT_TXDRDY = 0x11C"
| "uart_event_offset NRF_UART_EVENT_ERROR = 0x124"
| "uart_event_offset NRF_UART_EVENT_RXTO = 0x144"

definition UART_INTENSET :: u32 where "UART_INTENSET = 0x304"
definition UART_INTENCLR :: u32 where "UART_INTENCLR = 0x308"
definition UART_ERRORSRC :: u32 where "UART_ERRORSRC = 0x480"
definition UART_ENABLE :: u32 where "UART_ENABLE = 0x500"
definition UART_PSELRTS :: u32 where "UART_PSELRTS = 0x508"
definition UART_PSELTXD :: u32 where "UART_PSELTXD = 0x50C"
definition UART_PSELCTS :: u32 where "UART_PSELCTS = 0x510"
definition UART_PSELRXD :: u32 where "UART_PSELRXD = 0x514"
definition UART_RXD :: u32 where "UART_RXD = 0x518"
definition UART_TXD :: u32 where "UART_TXD = 0x51C"
definition UART_BAUDRATE :: u32 where "UART_BAUDRATE = 0x524"
definition UART_CONFIG :: u32 where "UART_CONFIG = 0x56C"

definition NRF_UART_INT_MASK_RXDRDY :: u32 where "NRF_UART_INT_MASK_RXDRDY = push_bit 2 1"
definition NRF_UART_INT_MASK_TXDRDY :: u32 where "NRF_UART_INT_MASK_TXDRDY = push_bit 7 1"
definition NRF_UART_INT_MASK_ERROR :: u32 where "NRF_UART_INT_MASK_ERROR = push_bit 9 1"
definition NRF_UART_INT_MASK_RXTO :: u32 where "NRF_UART_INT_MASK_RXTO = push_bit 17 1"

definition NRF_UART_HWFC_DISABLED :: u32 where "NRF_UART_HWFC_DISABLED = 0"
definition NRF_UART_HWFC_ENABLED :: u32 where "NRF_UART_HWFC_ENABLED = 1"
definition NRF_UART_PARITY_EXCLUDED :: u32 where "NRF_UART_PARITY_EXCLUDED = 0"
definition NRF_UART_PARITY_INCLUDED :: u32 where "NRF_UART_PARITY_INCLUDED = push_bit 1 7"

definition nrf_uart_event_clear :: "u32 \<Rightarrow> nrf_uart_event \<Rightarrow> access list \<Rightarrow> access list" where
  "nrf_uart_event_clear p_reg event = reg_set (p_reg + uart_event_offset event) 0"

definition nrf_uart_event_check :: "device \<Rightarrow> u32 \<Rightarrow> nrf_uart_event \<Rightarrow> access list \<Rightarrow> bool \<times> access list" where
  "nrf_uart_event_check d p_reg event t =
     (case reg_get d (p_reg + uart_event_offset event) t of (v, t) \<Rightarrow> (v \<noteq> 0, t))"

definition nrf_uart_event_address_get :: "u32 \<Rightarrow> nrf_uart_event \<Rightarrow> u32" where
  "nrf_uart_event_address_get p_reg event = p_reg + uart_event_offset event"

definition nrf_uart_int_enable :: "u32 \<Rightarrow> u32 \<Rightarrow> access list \<Rightarrow> access list" where
  "nrf_uart_int_enable p_reg int_mask = reg_set (p_reg + UART_INTENSET) int_mask"

definition nrf_uart_int_enable_check :: "device \<Rightarrow> u32 \<Rightarrow> u32 \<Rightarrow> access list \<Rightarrow> bool \<times> access list" where
  "nrf_uart_int_enable_check d p_reg int_mask t =
     (case reg_get d (p_reg + UART_INTENSET) t of (v, t) \<Rightarrow> (v AND int_mask \<noteq> 0, t))"

definition nrf_uart_int_disable :: "u32 \<Rightarrow> u32 \<Rightarrow> access list \<Rightarrow> access list" where
  "nrf_uart_int_disable p_reg int_mask = reg_set (p_reg + UART_INTENCLR) int_mask"

definition nrf_uart_errorsrc_get_and_clear :: "device \<Rightarrow> u32 \<Rightarrow> access list \<Rightarrow> u32 \<times> access list" where
  "nrf_uart_errorsrc_get_and_clear d p_reg t =
     (case reg_get d (p_reg + UART_ERRORSRC) t of (errsrc_mask, t) \<Rightarrow>
       (errsrc_mask, reg_set (p_reg + UART_ERRORSRC) errsrc_mask t))"

definition nrf_uart_enable :: "u32 \<Rightarrow> access list \<Rightarrow> access list" where
  "nrf_uart_enable p_reg = reg_set (p_reg + UART_ENABLE) 4"

definition nrf_uart_disable :: "u32 \<Rightarrow> access list \<Rightarrow> access list" where
  "nrf_uart_disable p_reg = reg_set (p_reg + UART_ENABLE) 0"

definition nrf_uart_txrx_pins_set :: "u32 \<Rightarrow> u32 \<Rightarrow> u32 \<Rightarrow> access list \<Rightarrow> access list" where
  "nrf_uart_txrx_pins_set p_reg pseltxd pselrxd t =
     reg_set (p_reg + UART_PSELRXD) pselrxd (reg_set (p_reg + UART_PSELTXD) pseltxd t)"

definition nrf_uart_txrx_pins_disconnect :: "u32 \<Rightarrow> access list \<Rightarrow> access list" where
  "nrf_uart_txrx_pins_disconnect p_reg =
     nrf_uart_txrx_pins_set p_reg NRF_UART_PSEL_DISCONNECTED NRF_UART_PSEL_DISCONNECTED"

definition nrf_uart_tx_pin_get :: "device \<Rightarrow> u32 \<Rightarrow> access list \<Rightarrow> u32 \<times> access list" where
  "nrf_uart_tx_pin_get d p_reg = reg_get d (p_reg + UART_PSELTXD)"

definition nrf_uart_rx_pin_get :: "device \<Rightarrow> u32 \<Rightarrow> access list \<Rightarrow> u32 \<times> access list" where
  "nrf_uart_rx_pin_get d p_reg = reg_get d (p_reg + UART_PSELRXD)"

definition nrf_uart_rts_pin_get :: "device \<Rightarrow> u32 \<Rightarrow> access list \<Rightarrow> u32 \<times> access list" where
  "nrf_uart_rts_pin_get d p_reg = reg_get d (p_reg + UART_PSELRTS)"

definition nrf_uart_cts_pin_get :: "device \<Rightarrow> u32 \<Rightarrow> access list \<Rightarrow> u32 \<times> access list" where
  "nrf_uart_cts_pin_get d p_reg = reg_get d (p_reg + UART_PSELCTS)"

definition nrf_uart_hwfc_pins_set :: "u32 \<Rightarrow> u32 \<Rightarrow> u32 \<Rightarrow> access list \<Rightarrow> access list" where
  "nrf_uart_hwfc_pins_set p_reg pselrts pselcts t =
     reg_set (p_reg + UART_PSELCTS) pselcts (reg_set (p_reg + UART_PSELRTS) pselrts t)"

definition nrf_uart_hwfc_pins_disconnect :: "u32 \<Rightarrow> access list \<Rightarrow> access list" where
  "nrf_uart_hwfc_pins_disconnect p_reg =
     nrf_uart_hwfc_pins_set p_reg NRF_UART_PSEL_DISCONNECTED NRF_UART_PSEL_DISCONNECTED"

definition nrf_uart_rxd_get :: "device \<Rightarrow> u32 \<Rightarrow> access list \<Rightarrow> u8 \<times> access list" where
  "nrf_uart_rxd_get d p_reg t = (case reg_get d (p_reg + UART_RXD) t of (v, t) \<Rightarrow> (ucast v, t))"

definition nrf_uart_txd_set :: "u32 \<Rightarrow> u8 \<Rightarrow> access list \<Rightarrow> access list" where
  "nrf_uart_txd_set p_reg txd = reg_set (p_reg + UART_TXD) (ucast txd)"

definition nrf_uart_task_trigger :: "u32 \<Rightarrow> nrf_uart_task \<Rightarrow> access list \<Rightarrow> access list" where
  "nrf_uart_task_trigger p_reg task = reg_set (p_reg + uart_task_offset task) 1"

definition nrf_uart_task_address_get :: "u32 \<Rightarrow> nrf_uart_task \<Rightarrow> u32" where
  "nrf_uart_task_address_get p_reg task = p_reg + uart_task_offset task"

definition nrf_uart_configure :: "u32 \<Rightarrow> u32 \<Rightarrow> u32 \<Rightarrow> access list \<Rightarrow> access list" where
  "nrf_uart_configure p_reg parity hwfc = reg_set (p_reg + UART_CONFIG) (parity OR hwfc)"

definition nrf_uart_baudrate_set :: "u32 \<Rightarrow> u32 \<Rightarrow> access list \<Rightarrow> access list" where
  "nrf_uart_baudrate_set p_reg baudrate = reg_set (p_reg + UART_BAUDRATE) baudrate"

subsection \<open>UART with EasyDMA\<close>

definition NRF_UARTE0 :: u32 where "NRF_UARTE0 = 0x40002000"

definition NRF_UARTE_PSEL_DISCONNECTED :: u32 where "NRF_UARTE_PSEL_DISCONNECTED = 0xFFFFFFFF"

datatype nrf_uarte_task = NRF_UARTE_TASK_STARTRX | NRF_UARTE_TASK_STOPRX | NRF_UARTE_TASK_STARTTX
  | NRF_UARTE_TASK_STOPTX | NRF_UARTE_TASK_FLUSHRX

fun uarte_task_offset :: "nrf_uarte_task \<Rightarrow> u32" where
  "uarte_task_offset NRF_UARTE_TASK_STARTRX = 0x000"
| "uarte_task_offset NRF_UARTE_TASK_STOPRX = 0x004"
| "uarte_task_offset NRF_UARTE_TASK_STARTTX = 0x008"
| "uarte_task_offset NRF_UARTE_TASK_STOPTX = 0x00C"
| "uarte_task_offset NRF_UARTE_TASK_FLUSHRX = 0x02C"

datatype nrf_uarte_event = NRF_UARTE_EVENT_CTS | NRF_UARTE_EVENT_NCTS | NRF_UARTE_EVENT_ENDRX
  | NRF_UARTE_EVENT_ENDTX | NRF_UARTE_EVENT_ERROR | NRF_UARTE_EVENT_RXTO | NRF_UARTE_EVENT_RXSTARTED
  | NRF_UARTE_EVENT_TXSTARTED | NRF_UARTE_EVENT_TXSTOPPED

fun uarte_event_offset :: "nrf_uarte_event \<Rightarrow> u32" where
  "uarte_event_offset NRF_UARTE_EVENT_CTS = 0x100"
| "uarte_event_offset NRF_UARTE_EVENT_NCTS = 0x104"
| "uarte_event_offset NRF_UARTE_EVENT_ENDRX = 0x110"
| "uarte_event_offset NRF_UARTE_EVENT_ENDTX = 0x120"
| "uarte_event_offset NRF_UARTE_EVENT_ERROR = 0x124"
| "uarte_event_offset NRF_UARTE_EVENT_RXTO = 0x144"
| "uarte_event_offset NRF_UARTE_EVENT_RXSTARTED = 0x14C"
| "uarte_event_offset NRF_UARTE_EVENT_TXSTARTED = 0x150"
| "uarte_event_offset NRF_UARTE_EVENT_TXSTOPPED = 0x158"

definition UARTE_SHORTS :: u32 where "UARTE_SHORTS = 0x200"
definition UARTE_INTENSET :: u32 where "UARTE_INTENSET = 0x304"
definition UARTE_INTENCLR :: u32 where "UARTE_INTENCLR = 0x308"
definition UARTE_ERRORSRC :: u32 where "UARTE_ERRORSRC = 0x480"
definition UARTE_ENABLE :: u32 where "UARTE_ENABLE = 0x500"
definition UARTE_PSEL_RTS :: u32 where "UARTE_PSEL_RTS = 0x508"
definition UARTE_PSEL_TXD :: u32 where "UARTE_PSEL_TXD = 0x50C"
definition UARTE_PSEL_CTS :: u32 where "UARTE_PSEL_CTS = 0x510"
definition UARTE_PSEL_RXD :: u32 where "UARTE_PSEL_RXD = 0x514"
definition UARTE_BAUDRATE :: u32 where "UARTE_BAUDRATE = 0x524"
definition UARTE_RXD_PTR :: u32 where "UARTE_RXD_PTR = 0x534"
definition UARTE_RXD_MAXCNT :: u32 where "UARTE_RXD_MAXCNT = 0x538"
definition UARTE_RXD_AMOUNT :: u32 where "UARTE_RXD_AMOUNT = 0x53C"
definition UARTE_TXD_PTR :: u32 where "UARTE_TXD_PTR = 0x544"
definition UARTE_TXD_MAXCNT :: u32 where "UARTE_TXD_MAXCNT = 0x548"
definition UARTE_TXD_AMOUNT :: u32 where "UARTE_TXD_AMOUNT = 0x54C"
definition UARTE_CONFIG :: u32 where "UARTE_CONFIG = 0x56C"

definition NRF_UARTE_SHORT_ENDRX_STARTRX :: u32 where "NRF_UARTE_SHORT_ENDRX_STARTRX = push_bit 5 1"

definition NRF_UARTE_INT_ENDRX_MASK :: u32 where "NRF_UARTE_INT_ENDRX_MASK = push_bit 4 1"
definition NRF_UARTE_INT_ENDTX_MASK :: u32 where "NRF_UARTE_INT_ENDTX_MASK = push_bit 8 1"
definition NRF_UARTE_INT_ERROR_MASK :: u32 where "NRF_UARTE_INT_ERROR_MASK = push_bit 9 1"
definition NRF_UARTE_INT_RXTO_MASK :: u32 where "NRF_UARTE_INT_RXTO_MASK = push_bit 17 1"

definition nrf_uarte_event_clear :: "u32 \<Rightarrow> nrf_uarte_event \<Rightarrow> access list \<Rightarrow> access list" where
  "nrf_uarte_event_clear p_reg event = reg_set (p_reg + uarte_event_offset event) 0"

definition nrf_uarte_event_check :: "device \<Rightarrow> u32 \<Rightarrow> nrf_uarte_event \<Rightarrow> access list \<Rightarrow> bool \<times> access list" where
  "nrf_uarte_event_check d p_reg event t =
     (case reg_get d (p_reg + uarte_event_offset event) t of (v, t) \<Rightarrow> (v \<noteq> 0, t))"

definition nrf_uarte_event_address_get :: "u32 \<Rightarrow> nrf_uarte_event \<Rightarrow> u32" where
  "nrf_uarte_event_address_get p_reg event = p_reg + uarte_event_offset event"

definition nrf_uarte_shorts_enable :: "device \<Rightarrow> u32 \<Rightarrow> u32 \<Rightarrow> access list \<Rightarrow> access list" where
  "nrf_uarte_shorts_enable d p_reg shorts_mask t =
     (case reg_get d (p_reg + UARTE_SHORTS) t of (v, t) \<Rightarrow> reg_set (p_reg + UARTE_SHORTS) (v OR shorts_mask) t)"

definition nrf_uarte_shorts_disable :: "device \<Rightarrow> u32 \<Rightarrow> u32 \<Rightarrow> access list \<Rightarrow> access list" where
  "nrf_uarte_shorts_disable d p_reg shorts_mask t =
     (case reg_get d (p_reg + UARTE_SHORTS) t of (v, t) \<Rightarrow> reg_set (p_reg + UARTE_SHORTS) (v AND NOT shorts_mask) t)"

definition nrf_uarte_int_enable :: "u32 \<Rightarrow> u32 \<Rightarrow> access list \<Rightarrow> access list" where
  "nrf_uarte_int_enable p_reg int_mask = reg_set (p_reg + UARTE_INTENSET) int_mask"

definition nrf_uarte_int_enable_check :: "device \<Rightarrow> u32 \<Rightarrow> u32 \<Rightarrow> access list \<Rightarrow> bool \<times> access list" where
  "nrf_uarte_int_enable_check d p_reg int_mask t =
     (case reg_get d (p_reg + UARTE_INTENSET) t of (v, t) \<Rightarrow> (v AND int_mask \<noteq> 0, t))"

definition nrf_uarte_int_disable :: "u32 \<Rightarrow> u32 \<Rightarrow> access list \<Rightarrow> access list" where
  "nrf_uarte_int_disable p_reg int_mask = reg_set (p_reg + UARTE_INTENCLR) int_mask"

definition nrf_uarte_errorsrc_get_and_clear :: "device \<Rightarrow> u32 \<Rightarrow> access list \<Rightarrow> u32 \<times> access list" where
  "nrf_uarte_errorsrc_get_and_clear d p_reg t =
     (case reg_get d (p_reg + UARTE_ERRORSRC) t of (errsrc_mask, t) \<Rightarrow>
       (errsrc_mask, reg_set (p_reg + UARTE_ERRORSRC) errsrc_mask t))"

definition nrf_uarte_enable :: "u32 \<Rightarrow> access list \<Rightarrow> access list" where
  "nrf_uarte_enable p_reg = reg_set (p_reg + UARTE_ENABLE) 8"

definition nrf_uarte_disable :: "u32 \<Rightarrow> access list \<Rightarrow> access list" where
  "nrf_uarte_disable p_reg = reg_set (p_reg + UARTE_ENABLE) 0"

definition nrf_uarte_txrx_pins_set :: "u32 \<Rightarrow> u32 \<Rightarrow> u32 \<Rightarrow> access list \<Rightarrow> access list" where
  "nrf_uarte_txrx_pins_set p_reg pseltxd pselrxd t =
     reg_set (p_reg + UARTE_PSEL_RXD) pselrxd (reg_set (p_reg + UARTE_PSEL_TXD) pseltxd t)"

definition nrf_uarte_txrx_pins_disconnect :: "u32 \<Rightarrow> access list \<Rightarrow> access list" where
  "nrf_uarte_txrx_pins_disconnect p_reg =
     nrf_uarte_txrx_pins_set p_reg NRF_UARTE_PSEL_DISCONNECTED NRF_UARTE_PSEL_DISCONNECTED"

definition nrf_uarte_tx_pin_get :: "device \<Rightarrow> u32 \<Rightarrow> access list \<Rightarrow> u32 \<times> access list" where
  "nrf_uarte_tx_pin_get d p_reg = reg_get d (p_reg + UARTE_PSEL_TXD)"

definition nrf_uarte_rx_pin_get :: "device \<Rightarrow> u32 \<Rightarrow> access list \<Rightarrow> u32 \<times> access list" where
  "nrf_uarte_rx_pin_get d p_reg = reg_get d (p_reg + UARTE_PSEL_RXD)"

definition nrf_uarte_rts_pin_get :: "device \<Rightarrow> u32 \<Rightarrow> access list \<Rightarrow> u32 \<times> access list" where
  "nrf_uarte_rts_pin_get d p_reg = reg_get d (p_reg + UARTE_PSEL_RTS)"

definition nrf_uarte_cts_pin_get :: "device \<Rightarrow> u32 \<Rightarrow> access list \<Rightarrow> u32 \<times> access list" where
  "nrf_uarte_cts_pin_get d p_reg = reg_get d (p_reg + UARTE_PSEL_CTS)"

definition nrf_uarte_hwfc_pins_set :: "u32 \<Rightarrow> u32 \<Rightarrow> u32 \<Rightarrow> access list \<Rightarrow> access list" where
  "nrf_uarte_hwfc_pins_set p_reg pselrts pselcts t =
     reg_set (p_reg + UARTE_PSEL_CTS) pselcts (reg_set (p_reg + UARTE_PSEL_RTS) pselrts t)"

definition nrf_uarte_hwfc_pins_disconnect :: "u32 \<Rightarrow> access list \<Rightarrow> access list" where
  "nrf_uarte_hwfc_pins_disconnect p_reg =
     nrf_uarte_hwfc_pins_set p_reg NRF_UARTE_PSEL_DISCONNECTED NRF_UARTE_PSEL_DISCONNECTED"

definition nrf_uarte_task_trigger :: "u32 \<Rightarrow> nrf_uarte_task \<Rightarrow> access list \<Rightarrow> access list" where
  "nrf_uarte_task_trigger p_reg task = reg_set (p_reg + uarte_task_offset task) 1"

definition nrf_uarte_task_address_get :: "u32 \<Rightarrow> nrf_uarte_task \<Rightarrow> u32" where
  "nrf_uarte_task_address_get p_reg task = p_reg + uarte_task_offset task"

definition nrf_uarte_configure :: "u32 \<Rightarrow> u32 \<Rightarrow> u32 \<Rightarrow> access list \<Rightarrow> access list" where
  "nrf_uarte_configure p_reg parity hwfc = reg_set (p_reg + UARTE_CONFIG) (parity OR hwfc)"

definition nrf_uarte_baudrate_set :: "u32 \<Rightarrow> u32 \<Rightarrow> access list \<Rightarrow> access list" where
  "nrf_uarte_baudrate_set p_reg baudrate = reg_set (p_reg + UARTE_BAUDRATE) baudrate"

definition nrf_uarte_tx_buffer_set :: "u32 \<Rightarrow> ptr \<Rightarrow> u8 \<Rightarrow> access list \<Rightarrow> access list" where
  "nrf_uarte_tx_buffer_set p_reg p_buffer len t =
     reg_set (p_reg + UARTE_TXD_MAXCNT) (ucast len) (reg_set (p_reg + UARTE_TXD_PTR) (of_nat p_buffer) t)"

definition nrf_uarte_tx_amount_get :: "device \<Rightarrow> u32 \<Rightarrow> access list \<Rightarrow> u32 \<times> access list" where
  "nrf_uarte_tx_amount_get d p_reg = reg_get d (p_reg + UARTE_TXD_AMOUNT)"

definition nrf_uarte_rx_buffer_set :: "u32 \<Rightarrow> ptr \<Rightarrow> u8 \<Rightarrow> access list \<Rightarrow> access list" where
  "nrf_uarte_rx_buffer_set p_reg p_buffer len t =
     reg_set (p_reg + UARTE_RXD_MAXCNT) (ucast len) (reg_set (p_reg + UARTE_RXD_PTR) (of_nat p_buffer) t)"

definition nrf_uarte_rx_amount_get :: "device \<Rightarrow> u32 \<Rightarrow> access list \<Rightarrow> u32 \<times> access list" where
  "nrf_uarte_rx_amount_get d p_reg = reg_get d (p_reg + UARTE_RXD_AMOUNT)"

subsection \<open>Pins\<close>

definition NRF_GPIO :: u32 where "NRF_GPIO = 0x50000000"
definition GPIO_OUTSET :: u32 where "GPIO_OUTSET = 0x508"
definition GPIO_PIN_CNF :: u32 where "GPIO_PIN_CNF = 0x700"

definition NRF_GPIO_PIN_DIR_INPUT :: u32 where "NRF_GPIO_PIN_DIR_INPUT = 0"
definition NRF_GPIO_PIN_DIR_OUTPUT :: u32 where "NRF_GPIO_PIN_DIR_OUTPUT = 1"
definition NRF_GPIO_PIN_INPUT_CONNECT :: u32 where "NRF_GPIO_PIN_INPUT_CONNECT = 0"
definition NRF_GPIO_PIN_INPUT_DISCONNECT :: u32 where "NRF_GPIO_PIN_INPUT_DISCONNECT = 1"
definition NRF_GPIO_PIN_NOPULL :: u32 where "NRF_GPIO_PIN_NOPULL = 0"
definition NRF_GPIO_PIN_S0S1 :: u32 where "NRF_GPIO_PIN_S0S1 = 0"
definition NRF_GPIO_PIN_NOSENSE :: u32 where "NRF_GPIO_PIN_NOSENSE = 0"

definition nrf_gpio_cfg :: "u32 \<Rightarrow> u32 \<Rightarrow> u32 \<Rightarrow> u32 \<Rightarrow> u32 \<Rightarrow> u32 \<Rightarrow> access list \<Rightarrow> access list" where
  "nrf_gpio_cfg pin_number dir input pull drive sense =
     reg_set (NRF_GPIO + GPIO_PIN_CNF + 4 * pin_number)
       (push_bit 0 dir OR push_bit 1 input OR push_bit 2 pull OR push_bit 8 drive OR push_bit 16 sense)"

definition nrf_gpio_cfg_output :: "u32 \<Rightarrow> access list \<Rightarrow> access list" where
  "nrf_gpio_cfg_output pin_number =
     nrf_gpio_cfg pin_number NRF_GPIO_PIN_DIR_OUTPUT NRF_GPIO_PIN_INPUT_DISCONNECT NRF_GPIO_PIN_NOPULL
       NRF_GPIO_PIN_S0S1 NRF_GPIO_PIN_NOSENSE"

definition nrf_gpio_cfg_input :: "u32 \<Rightarrow> u32 \<Rightarrow> access list \<Rightarrow> access list" where
  "nrf_gpio_cfg_input pin_number pull_config =
     nrf_gpio_cfg pin_number NRF_GPIO_PIN_DIR_INPUT NRF_GPIO_PIN_INPUT_CONNECT pull_config
       NRF_GPIO_PIN_S0S1 NRF_GPIO_PIN_NOSENSE"

definition nrf_gpio_cfg_default :: "u32 \<Rightarrow> access list \<Rightarrow> access list" where
  "nrf_gpio_cfg_default pin_number =
     nrf_gpio_cfg pin_number NRF_GPIO_PIN_DIR_INPUT NRF_GPIO_PIN_INPUT_DISCONNECT NRF_GPIO_PIN_NOPULL
       NRF_GPIO_PIN_S0S1 NRF_GPIO_PIN_NOSENSE"

definition nrf_gpio_pin_set :: "u32 \<Rightarrow> access list \<Rightarrow> access list" where
  "nrf_gpio_pin_set pin_number = reg_set (NRF_GPIO + GPIO_OUTSET) (push_bit (unat pin_number) 1)"

subsection \<open>Interrupt controller\<close>

text \<open>
  The interrupts of the peripherals, whose numbers are not negative. The priority registers are bytes: the write
  recorded there is a write of one byte.
\<close>

definition UART0_IRQn :: u32 where "UART0_IRQn = 2"
definition NVIC_PRIO_BITS :: nat where "NVIC_PRIO_BITS = 3"
definition NVIC_ISER :: u32 where "NVIC_ISER = 0xE000E100"
definition NVIC_ICER :: u32 where "NVIC_ICER = 0xE000E180"
definition NVIC_ICPR :: u32 where "NVIC_ICPR = 0xE000E280"
definition NVIC_IP :: u32 where "NVIC_IP = 0xE000E400"

definition NVIC_EnableIRQ :: "u32 \<Rightarrow> access list \<Rightarrow> access list" where
  "NVIC_EnableIRQ n = reg_set (NVIC_ISER + 4 * drop_bit 5 n) (push_bit (unat (n AND 0x1F)) 1)"

definition NVIC_DisableIRQ :: "u32 \<Rightarrow> access list \<Rightarrow> access list" where
  "NVIC_DisableIRQ n = reg_set (NVIC_ICER + 4 * drop_bit 5 n) (push_bit (unat (n AND 0x1F)) 1)"

definition NVIC_ClearPendingIRQ :: "u32 \<Rightarrow> access list \<Rightarrow> access list" where
  "NVIC_ClearPendingIRQ n = reg_set (NVIC_ICPR + 4 * drop_bit 5 n) (push_bit (unat (n AND 0x1F)) 1)"

definition NVIC_SetPriority :: "u32 \<Rightarrow> u32 \<Rightarrow> access list \<Rightarrow> access list" where
  "NVIC_SetPriority n priority = reg_set (NVIC_IP + n) (push_bit (8 - NVIC_PRIO_BITS) priority AND 0xFF)"

definition nrf_drv_common_irq_enable :: "u32 \<Rightarrow> u8 \<Rightarrow> access list \<Rightarrow> access list" where
  "nrf_drv_common_irq_enable n priority t =
     NVIC_EnableIRQ n (NVIC_ClearPendingIRQ n (NVIC_SetPriority n (ucast priority) t))"

definition nrf_drv_common_irq_disable :: "u32 \<Rightarrow> access list \<Rightarrow> access list" where
  "nrf_drv_common_irq_disable = NVIC_DisableIRQ"

end
