(* ===== verification/Uart.thy ===== *)
theory Uart
  imports NrfHal "HOL-Library.Monad_Syntax"
begin

text \<open>
  The UART driver, \<^verbatim>\<open>drivers_nrf/uart/nrf_drv_uart.c\<close>, in the configuration of
  \<^verbatim>\<open>nrf_drv_config.h\<close>: both peripherals are supported, and \<open>use_easy_dma\<close> of the
  configuration tells which of them is used.

  The state is the control block \<^verbatim>\<open>m_cb\<close>, the memory, the accesses to the registers, and the
  state of the module above the driver, \<open>client\<close>. The handler of the events is a pointer; what it does is the
  parameter \<open>call\<close> of the operations that report an event. Without a handler the driver waits in loops, which are
  partial functions; between two looks at the peripheral another context may run (\<open>other\<close>), which is how an abort
  gets there. \<^verbatim>\<open>ASSERT\<close> is empty in the builds of the repository.
\<close>

unbundle bit_operations_syntax

subsection \<open>State\<close>

datatype nrf_drv_state =
  NRF_DRV_STATE_UNINITIALIZED | NRF_DRV_STATE_INITIALIZED | NRF_DRV_STATE_POWERED_ON

record nrf_drv_uart_config =
  cfg_pseltxd :: u32
  cfg_pselrxd :: u32
  cfg_pselcts :: u32
  cfg_pselrts :: u32
  cfg_p_context :: ptr
  cfg_hwfc :: u32
  cfg_parity :: u32
  cfg_baudrate :: u32
  cfg_interrupt_priority :: u8
  cfg_use_easy_dma :: bool

text \<open>The events: the memory of the transfer, the number of bytes and, for an error, its mask.\<close>

datatype nrf_drv_uart_event =
    NRF_DRV_UART_EVT_TX_DONE ptr u8
  | NRF_DRV_UART_EVT_RX_DONE ptr u8
  | NRF_DRV_UART_EVT_ERROR ptr u8 u32

record 'a uart =
  p_context :: ptr
  cb_handler :: ptr
  p_tx_buffer :: ptr
  p_rx_buffer :: ptr
  p_rx_secondary_buffer :: ptr
  tx_counter :: u16
  tx_buffer_length :: u8
  rx_buffer_length :: u8
  rx_secondary_buffer_length :: u8
  rx_counter :: u8
  rx_enabled :: bool
  drv_state :: nrf_drv_state
  use_easy_dma :: bool
  memory :: mem
  regs :: "access list"
  client :: 'a

record 'a uart_hw =
  dev :: device
  other :: "'a uart \<Rightarrow> 'a uart"

type_synonym 'a uart_call = "ptr \<Rightarrow> nrf_drv_uart_event \<Rightarrow> ptr \<Rightarrow> 'a uart \<Rightarrow> 'a uart option"

definition wr :: "(access list \<Rightarrow> access list) \<Rightarrow> 'a uart \<Rightarrow> 'a uart" where
  "wr f s = s\<lparr>regs := f (regs s)\<rparr>"

definition rd :: "(access list \<Rightarrow> 'v \<times> access list) \<Rightarrow> 'a uart \<Rightarrow> 'v \<times> 'a uart" where
  "rd f s = (case f (regs s) of (v, t) \<Rightarrow> (v, s\<lparr>regs := t\<rparr>))"

definition IS_EASY_DMA_RAM_ADDRESS :: "ptr \<Rightarrow> bool" where
  "IS_EASY_DMA_RAM_ADDRESS a \<longleftrightarrow> (of_nat a :: u32) AND 0xFFFF0000 = 0x20000000"

definition TX_COUNTER_ABORT_REQ_VALUE :: u16 where "TX_COUNTER_ABORT_REQ_VALUE = 256"

text \<open>\<^verbatim>\<open>NRF_DRV_UART_DEFAULT_CONFIG\<close>, with the values of \<^verbatim>\<open>nrf_drv_config.h\<close>.\<close>

definition m_default_config :: nrf_drv_uart_config where
  "m_default_config = \<lparr>cfg_pseltxd = 0, cfg_pselrxd = 0, cfg_pselcts = 0, cfg_pselrts = 0, cfg_p_context = NULL,
     cfg_hwfc = NRF_UART_HWFC_DISABLED, cfg_parity = NRF_UART_PARITY_EXCLUDED, cfg_baudrate = 0x01D60000,
     cfg_interrupt_priority = 6, cfg_use_easy_dma = False\<rparr>"

subsection \<open>Configuration\<close>

definition apply_config :: "nrf_drv_uart_config \<Rightarrow> 'a uart \<Rightarrow> 'a uart" where
  "apply_config c s =
     (let s = wr (nrf_gpio_pin_set (cfg_pseltxd c)) s;
          s = wr (nrf_gpio_cfg_output (cfg_pseltxd c)) s;
          s = wr (nrf_gpio_cfg_input (cfg_pselrxd c) NRF_GPIO_PIN_NOPULL) s
      in if use_easy_dma s then
           let s = wr (nrf_uarte_baudrate_set NRF_UARTE0 (cfg_baudrate c)) s;
               s = wr (nrf_uarte_configure NRF_UARTE0 (cfg_parity c) (cfg_hwfc c)) s;
               s = wr (nrf_uarte_txrx_pins_set NRF_UARTE0 (cfg_pseltxd c) (cfg_pselrxd c)) s
           in if cfg_hwfc c = NRF_UART_HWFC_ENABLED then
                let s = wr (nrf_gpio_cfg_input (cfg_pselcts c) NRF_GPIO_PIN_NOPULL) s;
                    s = wr (nrf_gpio_pin_set (cfg_pselrts c)) s;
                    s = wr (nrf_gpio_cfg_output (cfg_pselrts c)) s
                in wr (nrf_uarte_hwfc_pins_set NRF_UARTE0 (cfg_pselrts c) (cfg_pselcts c)) s
              else s
         else
           let s = wr (nrf_uart_baudrate_set NRF_UART0 (cfg_baudrate c)) s;
               s = wr (nrf_uart_configure NRF_UART0 (cfg_parity c) (cfg_hwfc c)) s;
               s = wr (nrf_uart_txrx_pins_set NRF_UART0 (cfg_pseltxd c) (cfg_pselrxd c)) s
           in if cfg_hwfc c = NRF_UART_HWFC_ENABLED then
                let s = wr (nrf_gpio_cfg_input (cfg_pselcts c) NRF_GPIO_PIN_NOPULL) s;
                    s = wr (nrf_gpio_pin_set (cfg_pselrts c)) s;
                    s = wr (nrf_gpio_cfg_output (cfg_pselrts c)) s
                in wr (nrf_uart_hwfc_pins_set NRF_UART0 (cfg_pselrts c) (cfg_pselcts c)) s
              else s)"

definition interrupts_enable :: "u8 \<Rightarrow> 'a uart \<Rightarrow> 'a uart" where
  "interrupts_enable interrupt_priority s =
     (let s =
        (if use_easy_dma s then
           let s = wr (nrf_uarte_event_clear NRF_UARTE0 NRF_UARTE_EVENT_ENDRX) s;
               s = wr (nrf_uarte_event_clear NRF_UARTE0 NRF_UARTE_EVENT_ENDTX) s;
               s = wr (nrf_uarte_event_clear NRF_UARTE0 NRF_UARTE_EVENT_ERROR) s;
               s = wr (nrf_uarte_event_clear NRF_UARTE0 NRF_UARTE_EVENT_RXTO) s
           in wr (nrf_uarte_int_enable NRF_UARTE0 (NRF_UARTE_INT_ENDRX_MASK OR NRF_UARTE_INT_ENDTX_MASK OR
                NRF_UARTE_INT_ERROR_MASK OR NRF_UARTE_INT_RXTO_MASK)) s
         else
           let s = wr (nrf_uart_event_clear NRF_UART0 NRF_UART_EVENT_TXDRDY) s;
               s = wr (nrf_uart_event_clear NRF_UART0 NRF_UART_EVENT_RXTO) s
           in wr (nrf_uart_int_enable NRF_UART0 (NRF_UART_INT_MASK_TXDRDY OR NRF_UART_INT_MASK_RXTO)) s)
      in wr (nrf_drv_common_irq_enable UART0_IRQn interrupt_priority) s)"

definition interrupts_disable :: "'a uart \<Rightarrow> 'a uart" where
  "interrupts_disable s =
     (let s =
        (if use_easy_dma s then
           wr (nrf_uarte_int_disable NRF_UARTE0 (NRF_UARTE_INT_ENDRX_MASK OR NRF_UARTE_INT_ENDTX_MASK OR
             NRF_UARTE_INT_ERROR_MASK OR NRF_UARTE_INT_RXTO_MASK)) s
         else
           wr (nrf_uart_int_disable NRF_UART0 (NRF_UART_INT_MASK_RXDRDY OR NRF_UART_INT_MASK_TXDRDY OR
             NRF_UART_INT_MASK_ERROR OR NRF_UART_INT_MASK_RXTO)) s)
      in wr (nrf_drv_common_irq_disable UART0_IRQn) s)"

definition pins_to_default :: "device \<Rightarrow> 'a uart \<Rightarrow> 'a uart" where
  "pins_to_default d s =
     (let (txd, rxd, rts, cts, s) =
        (if use_easy_dma s then
           let (txd, s) = rd (nrf_uarte_tx_pin_get d NRF_UARTE0) s;
               (rxd, s) = rd (nrf_uarte_rx_pin_get d NRF_UARTE0) s;
               (rts, s) = rd (nrf_uarte_rts_pin_get d NRF_UARTE0) s;
               (cts, s) = rd (nrf_uarte_cts_pin_get d NRF_UARTE0) s;
               s = wr (nrf_uarte_txrx_pins_disconnect NRF_UARTE0) s
           in (txd, rxd, rts, cts, wr (nrf_uarte_hwfc_pins_disconnect NRF_UARTE0) s)
         else
           let (txd, s) = rd (nrf_uart_tx_pin_get d NRF_UART0) s;
               (rxd, s) = rd (nrf_uart_rx_pin_get d NRF_UART0) s;
               (rts, s) = rd (nrf_uart_rts_pin_get d NRF_UART0) s;
               (cts, s) = rd (nrf_uart_cts_pin_get d NRF_UART0) s;
               s = wr (nrf_uart_txrx_pins_disconnect NRF_UART0) s
           in (txd, rxd, rts, cts, wr (nrf_uart_hwfc_pins_disconnect NRF_UART0) s));
          s = wr (nrf_gpio_cfg_default txd) s;
          s = wr (nrf_gpio_cfg_default rxd) s;
          s = (if cts \<noteq> NRF_UART_PSEL_DISCONNECTED then wr (nrf_gpio_cfg_default cts) s else s)
      in if rts \<noteq> NRF_UART_PSEL_DISCONNECTED then wr (nrf_gpio_cfg_default rts) s else s)"

definition uart_enable :: "'a uart \<Rightarrow> 'a uart" where
  "uart_enable s =
     (if use_easy_dma s then wr (nrf_uarte_enable NRF_UARTE0) s else wr (nrf_uart_enable NRF_UART0) s)"

definition uart_disable :: "'a uart \<Rightarrow> 'a uart" where
  "uart_disable s =
     (if use_easy_dma s then wr (nrf_uarte_disable NRF_UARTE0) s else wr (nrf_uart_disable NRF_UART0) s)"

text \<open>\<open>None\<close> is the null pointer, for which the default configuration is used.\<close>

definition nrf_drv_uart_init :: "nrf_drv_uart_config option \<Rightarrow> ptr \<Rightarrow> 'a uart \<Rightarrow> ret_code \<times> 'a uart" where
  "nrf_drv_uart_init p_config event_handler s =
     (if drv_state s \<noteq> NRF_DRV_STATE_UNINITIALIZED then (NRF_ERROR_INVALID_STATE, s)
      else
        let c = (case p_config of None \<Rightarrow> m_default_config | Some c \<Rightarrow> c);
            s = s\<lparr>use_easy_dma := cfg_use_easy_dma c\<rparr>;
            s = apply_config c s;
            s = s\<lparr>cb_handler := event_handler, p_context := cfg_p_context c\<rparr>;
            s = (if cb_handler s \<noteq> NULL then interrupts_enable (cfg_interrupt_priority c) s else s);
            s = uart_enable s
        in (NRF_SUCCESS, s\<lparr>rx_buffer_length := 0, rx_secondary_buffer_length := 0, tx_buffer_length := 0,
              drv_state := NRF_DRV_STATE_INITIALIZED, rx_enabled := False\<rparr>))"

definition nrf_drv_uart_uninit :: "device \<Rightarrow> 'a uart \<Rightarrow> 'a uart" where
  "nrf_drv_uart_uninit d s =
     (let s = uart_disable s;
          s = (if cb_handler s \<noteq> NULL then interrupts_disable s else s);
          s = pins_to_default d s
      in s\<lparr>drv_state := NRF_DRV_STATE_UNINITIALIZED, cb_handler := NULL\<rparr>)"

subsection \<open>Transmission\<close>

definition tx_byte :: "'a uart \<Rightarrow> 'a uart" where
  "tx_byte s =
     (let s = wr (nrf_uart_event_clear NRF_UART0 NRF_UART_EVENT_TXDRDY) s;
          txd = memory s (p_tx_buffer s + unat (tx_counter s));
          s = s\<lparr>tx_counter := tx_counter s + 1\<rparr>
      in wr (nrf_uart_txd_set NRF_UART0 txd) s)"

partial_function (option) wait_txdrdy_or_abort :: "'a uart_hw \<Rightarrow> 'a uart \<Rightarrow> 'a uart option" where
  "wait_txdrdy_or_abort hw s =
     (case rd (nrf_uart_event_check (dev hw) NRF_UART0 NRF_UART_EVENT_TXDRDY) (other hw s) of (ready, s) \<Rightarrow>
       if \<not> ready \<and> tx_counter s \<noteq> TX_COUNTER_ABORT_REQ_VALUE then wait_txdrdy_or_abort hw s else Some s)"

partial_function (option) wait_txdrdy :: "'a uart_hw \<Rightarrow> 'a uart \<Rightarrow> 'a uart option" where
  "wait_txdrdy hw s =
     (case rd (nrf_uart_event_check (dev hw) NRF_UART0 NRF_UART_EVENT_TXDRDY) (other hw s) of (ready, s) \<Rightarrow>
       if \<not> ready then wait_txdrdy hw s else Some s)"

partial_function (option) tx_bytes_loop :: "'a uart_hw \<Rightarrow> 'a uart \<Rightarrow> 'a uart option" where
  "tx_bytes_loop hw s =
     (if tx_counter s < ucast (tx_buffer_length s) then do {
        s \<leftarrow> wait_txdrdy_or_abort hw s;
        tx_bytes_loop hw (if tx_counter s \<noteq> TX_COUNTER_ABORT_REQ_VALUE then tx_byte s else s)
      }
      else Some s)"

definition nrf_drv_uart_tx_for_uart :: "'a uart_hw \<Rightarrow> 'a uart \<Rightarrow> (ret_code \<times> 'a uart) option" where
  "nrf_drv_uart_tx_for_uart hw s =
     (let s = wr (nrf_uart_event_clear NRF_UART0 NRF_UART_EVENT_TXDRDY) s;
          s = wr (nrf_uart_task_trigger NRF_UART0 NRF_UART_TASK_STARTTX) s;
          s = tx_byte s
      in if cb_handler s = NULL then do {
           s \<leftarrow> tx_bytes_loop hw s;
           if tx_counter s = TX_COUNTER_ABORT_REQ_VALUE then Some (NRF_ERROR_FORBIDDEN, s\<lparr>tx_buffer_length := 0\<rparr>)
           else do {
             s \<leftarrow> wait_txdrdy hw s;
             let s = wr (nrf_uart_task_trigger NRF_UART0 NRF_UART_TASK_STOPTX) s;
             Some (NRF_SUCCESS, s\<lparr>tx_buffer_length := 0\<rparr>)
           }
         }
         else Some (NRF_SUCCESS, s))"

partial_function (option) wait_endtx :: "'a uart_hw \<Rightarrow> 'a uart \<Rightarrow> (bool \<times> 'a uart) option" where
  "wait_endtx hw s =
     (case rd (nrf_uarte_event_check (dev hw) NRF_UARTE0 NRF_UARTE_EVENT_ENDTX) (other hw s) of (endtx, s) \<Rightarrow>
      case rd (nrf_uarte_event_check (dev hw) NRF_UARTE0 NRF_UARTE_EVENT_TXSTOPPED) s of (txstopped, s) \<Rightarrow>
        if \<not> endtx \<and> \<not> txstopped then wait_endtx hw s else Some (txstopped, s))"

definition nrf_drv_uart_tx_for_uarte :: "'a uart_hw \<Rightarrow> 'a uart \<Rightarrow> (ret_code \<times> 'a uart) option" where
  "nrf_drv_uart_tx_for_uarte hw s =
     (let s = wr (nrf_uarte_event_clear NRF_UARTE0 NRF_UARTE_EVENT_ENDTX) s;
          s = wr (nrf_uarte_event_clear NRF_UARTE0 NRF_UARTE_EVENT_TXSTOPPED) s;
          s = wr (nrf_uarte_tx_buffer_set NRF_UARTE0 (p_tx_buffer s) (tx_buffer_length s)) s;
          s = wr (nrf_uarte_task_trigger NRF_UARTE0 NRF_UARTE_TASK_STARTTX) s
      in if cb_handler s = NULL then do {
           (txstopped, s) \<leftarrow> wait_endtx hw s;
           Some (if txstopped then NRF_ERROR_FORBIDDEN else NRF_SUCCESS, s\<lparr>tx_buffer_length := 0\<rparr>)
         }
         else Some (NRF_SUCCESS, s))"

definition nrf_drv_uart_tx_in_progress :: "'a uart \<Rightarrow> bool" where
  "nrf_drv_uart_tx_in_progress s \<longleftrightarrow> tx_buffer_length s \<noteq> 0"

definition nrf_drv_uart_tx :: "'a uart_hw \<Rightarrow> ptr \<Rightarrow> u8 \<Rightarrow> 'a uart \<Rightarrow> (ret_code \<times> 'a uart) option" where
  "nrf_drv_uart_tx hw p_data len s =
     (if use_easy_dma s \<and> \<not> IS_EASY_DMA_RAM_ADDRESS p_data then Some (NRF_ERROR_INVALID_ADDR, s)
      else if nrf_drv_uart_tx_in_progress s then Some (NRF_ERROR_BUSY, s)
      else
        let s = s\<lparr>tx_buffer_length := len, p_tx_buffer := p_data, tx_counter := 0\<rparr>
        in if use_easy_dma s then nrf_drv_uart_tx_for_uarte hw s else nrf_drv_uart_tx_for_uart hw s)"

subsection \<open>Reception\<close>

definition rx_enable :: "'a uart \<Rightarrow> 'a uart" where
  "rx_enable s =
     (let s = wr (nrf_uart_event_clear NRF_UART0 NRF_UART_EVENT_ERROR) s;
          s = wr (nrf_uart_event_clear NRF_UART0 NRF_UART_EVENT_RXDRDY) s
      in wr (nrf_uart_task_trigger NRF_UART0 NRF_UART_TASK_STARTRX) s)"

definition rx_byte :: "device \<Rightarrow> 'a uart \<Rightarrow> 'a uart" where
  "rx_byte d s =
     (if rx_buffer_length s = 0 then
        let s = wr (nrf_uart_event_clear NRF_UART0 NRF_UART_EVENT_RXDRDY) s
        in snd (rd (nrf_uart_rxd_get d NRF_UART0) s)
      else
        let s = wr (nrf_uart_event_clear NRF_UART0 NRF_UART_EVENT_RXDRDY) s;
            (rxd, s) = rd (nrf_uart_rxd_get d NRF_UART0) s
        in s\<lparr>memory := (memory s)(p_rx_buffer s + unat (rx_counter s) := rxd), rx_counter := rx_counter s + 1\<rparr>)"

partial_function (option) rx_wait :: "'a uart_hw \<Rightarrow> 'a uart \<Rightarrow> (bool \<times> bool \<times> 'a uart) option" where
  "rx_wait hw s =
     (case rd (nrf_uart_event_check (dev hw) NRF_UART0 NRF_UART_EVENT_ERROR) (other hw s) of (error, s) \<Rightarrow>
      case rd (nrf_uart_event_check (dev hw) NRF_UART0 NRF_UART_EVENT_RXDRDY) s of (rxrdy, s) \<Rightarrow>
      case rd (nrf_uart_event_check (dev hw) NRF_UART0 NRF_UART_EVENT_RXTO) s of (rxto, s) \<Rightarrow>
        if \<not> rxrdy \<and> \<not> rxto \<and> \<not> error then rx_wait hw s else Some (error, rxto, s))"

partial_function (option) rx_bytes_loop :: "'a uart_hw \<Rightarrow> 'a uart \<Rightarrow> (bool \<times> bool \<times> 'a uart) option" where
  "rx_bytes_loop hw s = do {
     (error, rxto, s) \<leftarrow> rx_wait hw s;
     if error \<or> rxto then Some (error, rxto, s)
     else if rx_buffer_length (rx_byte (dev hw) s) > rx_counter (rx_byte (dev hw) s)
     then rx_bytes_loop hw (rx_byte (dev hw) s)
     else Some (error, rxto, rx_byte (dev hw) s)
   }"

definition nrf_drv_uart_rx_for_uart :: "'a uart_hw \<Rightarrow> bool \<Rightarrow> 'a uart \<Rightarrow> (ret_code \<times> 'a uart) option" where
  "nrf_drv_uart_rx_for_uart hw second_buffer s =
     (let s = (if \<not> rx_enabled s \<and> \<not> second_buffer then rx_enable s else s)
      in if cb_handler s = NULL then do {
           (error, rxto, s) \<leftarrow> rx_bytes_loop hw (wr (nrf_uart_event_clear NRF_UART0 NRF_UART_EVENT_RXTO) s);
           let s = s\<lparr>rx_buffer_length := 0\<rparr>;
           if error then Some (NRF_ERROR_INTERNAL, s)
           else if rxto then Some (NRF_ERROR_FORBIDDEN, s)
           else if rx_enabled s then
             Some (NRF_SUCCESS, wr (nrf_uart_task_trigger NRF_UART0 NRF_UART_TASK_STARTRX) s)
           else Some (NRF_SUCCESS, wr (nrf_uart_task_trigger NRF_UART0 NRF_UART_TASK_STOPRX) s)
         }
         else Some (NRF_SUCCESS,
           wr (nrf_uart_int_enable NRF_UART0 (NRF_UART_INT_MASK_RXDRDY OR NRF_UART_INT_MASK_ERROR)) s))"

partial_function (option) wait_endrx :: "'a uart_hw \<Rightarrow> 'a uart \<Rightarrow> (bool \<times> bool \<times> 'a uart) option" where
  "wait_endrx hw s =
     (case rd (nrf_uarte_event_check (dev hw) NRF_UARTE0 NRF_UARTE_EVENT_ENDRX) (other hw s) of (endrx, s) \<Rightarrow>
      case rd (nrf_uarte_event_check (dev hw) NRF_UARTE0 NRF_UARTE_EVENT_RXTO) s of (rxto, s) \<Rightarrow>
      case rd (nrf_uarte_event_check (dev hw) NRF_UARTE0 NRF_UARTE_EVENT_ERROR) s of (error, s) \<Rightarrow>
        if \<not> endrx \<and> \<not> rxto \<and> \<not> error then wait_endrx hw s else Some (error, rxto, s))"

definition nrf_drv_uart_rx_for_uarte ::
    "'a uart_hw \<Rightarrow> ptr \<Rightarrow> u8 \<Rightarrow> bool \<Rightarrow> 'a uart \<Rightarrow> (ret_code \<times> 'a uart) option" where
  "nrf_drv_uart_rx_for_uarte hw p_data len second_buffer s =
     (let s = wr (nrf_uarte_event_clear NRF_UARTE0 NRF_UARTE_EVENT_ENDRX) s;
          s = wr (nrf_uarte_event_clear NRF_UARTE0 NRF_UARTE_EVENT_RXTO) s;
          s = wr (nrf_uarte_rx_buffer_set NRF_UARTE0 p_data len) s;
          s = (if \<not> second_buffer then wr (nrf_uarte_task_trigger NRF_UARTE0 NRF_UARTE_TASK_STARTRX) s
               else wr (nrf_uarte_shorts_enable (dev hw) NRF_UARTE0 NRF_UARTE_SHORT_ENDRX_STARTRX) s)
      in if cb_handler s = NULL then do {
           (error, rxto, s) \<leftarrow> wait_endrx hw s;
           let s = s\<lparr>rx_buffer_length := 0\<rparr>;
           Some (if error then NRF_ERROR_INTERNAL else if rxto then NRF_ERROR_FORBIDDEN else NRF_SUCCESS, s)
         }
         else Some (NRF_SUCCESS,
           wr (nrf_uarte_int_enable NRF_UARTE0 (NRF_UARTE_INT_ERROR_MASK OR NRF_UARTE_INT_ENDRX_MASK)) s))"

text \<open>The interrupts of the reception, enabled and disabled while the buffers are set.\<close>

definition rx_ints_disable :: "'a uart \<Rightarrow> 'a uart" where
  "rx_ints_disable s =
     (if use_easy_dma s
      then wr (nrf_uarte_int_disable NRF_UARTE0 (NRF_UARTE_INT_ERROR_MASK OR NRF_UARTE_INT_ENDRX_MASK)) s
      else wr (nrf_uart_int_disable NRF_UART0 (NRF_UART_INT_MASK_RXDRDY OR NRF_UART_INT_MASK_ERROR)) s)"

definition rx_ints_enable :: "'a uart \<Rightarrow> 'a uart" where
  "rx_ints_enable s =
     (if use_easy_dma s
      then wr (nrf_uarte_int_enable NRF_UARTE0 (NRF_UARTE_INT_ERROR_MASK OR NRF_UARTE_INT_ENDRX_MASK)) s
      else wr (nrf_uart_int_enable NRF_UART0 (NRF_UART_INT_MASK_RXDRDY OR NRF_UART_INT_MASK_ERROR)) s)"

definition nrf_drv_uart_rx :: "'a uart_hw \<Rightarrow> ptr \<Rightarrow> u8 \<Rightarrow> 'a uart \<Rightarrow> (ret_code \<times> 'a uart) option" where
  "nrf_drv_uart_rx hw p_data len s =
     (if use_easy_dma s \<and> \<not> IS_EASY_DMA_RAM_ADDRESS p_data then Some (NRF_ERROR_INVALID_ADDR, s)
      else
        let s = (if cb_handler s \<noteq> NULL then rx_ints_disable s else s)
        in if rx_buffer_length s \<noteq> 0 \<and> rx_secondary_buffer_length s \<noteq> 0 then
             Some (NRF_ERROR_BUSY, if cb_handler s \<noteq> NULL then rx_ints_enable s else s)
           else
             let second_buffer = (rx_buffer_length s \<noteq> 0);
                 s = (if \<not> second_buffer
                      then s\<lparr>rx_buffer_length := len, p_rx_buffer := p_data, rx_counter := 0,
                             rx_secondary_buffer_length := 0\<rparr>
                      else s\<lparr>p_rx_secondary_buffer := p_data, rx_secondary_buffer_length := len\<rparr>)
             in if use_easy_dma s then nrf_drv_uart_rx_for_uarte hw p_data len second_buffer s
                else nrf_drv_uart_rx_for_uart hw second_buffer s)"

definition nrf_drv_uart_rx_enable :: "'a uart \<Rightarrow> 'a uart" where
  "nrf_drv_uart_rx_enable s =
     (if use_easy_dma s then s
      else if \<not> rx_enabled s then (rx_enable s)\<lparr>rx_enabled := True\<rparr> else s)"

definition nrf_drv_uart_rx_disable :: "'a uart \<Rightarrow> 'a uart" where
  "nrf_drv_uart_rx_disable s =
     (if use_easy_dma s then s
      else (wr (nrf_uart_task_trigger NRF_UART0 NRF_UART_TASK_STOPRX) s)\<lparr>rx_enabled := False\<rparr>)"

definition nrf_drv_uart_errorsrc_get :: "device \<Rightarrow> 'a uart \<Rightarrow> u32 \<times> 'a uart" where
  "nrf_drv_uart_errorsrc_get d s =
     (if use_easy_dma s
      then rd (nrf_uarte_errorsrc_get_and_clear d NRF_UARTE0) (wr (nrf_uarte_event_clear NRF_UARTE0 NRF_UARTE_EVENT_ERROR) s)
      else rd (nrf_uart_errorsrc_get_and_clear d NRF_UART0) (wr (nrf_uart_event_clear NRF_UART0 NRF_UART_EVENT_ERROR) s))"

subsection \<open>Events and interrupts\<close>

definition rx_done_event :: "'a uart_call \<Rightarrow> u8 \<Rightarrow> ptr \<Rightarrow> 'a uart \<Rightarrow> 'a uart option" where
  "rx_done_event call bytes p_data s =
     call (cb_handler s) (NRF_DRV_UART_EVT_RX_DONE p_data bytes) (p_context s) s"

definition tx_done_event :: "'a uart_call \<Rightarrow> u8 \<Rightarrow> 'a uart \<Rightarrow> 'a uart option" where
  "tx_done_event call bytes s =
     (let event = NRF_DRV_UART_EVT_TX_DONE (p_tx_buffer s) bytes;
          s = s\<lparr>tx_buffer_length := 0\<rparr>
      in call (cb_handler s) event (p_context s) s)"

partial_function (option) wait_txstopped :: "'a uart_hw \<Rightarrow> 'a uart \<Rightarrow> 'a uart option" where
  "wait_txstopped hw s =
     (case rd (nrf_uarte_event_check (dev hw) NRF_UARTE0 NRF_UARTE_EVENT_TXSTOPPED) (other hw s) of (stopped, s) \<Rightarrow>
       if \<not> stopped then wait_txstopped hw s else Some s)"

definition nrf_drv_uart_tx_abort :: "'a uart_hw \<Rightarrow> 'a uart_call \<Rightarrow> 'a uart \<Rightarrow> 'a uart option" where
  "nrf_drv_uart_tx_abort hw call s =
     (if use_easy_dma s then
        let s = wr (nrf_uarte_event_clear NRF_UARTE0 NRF_UARTE_EVENT_TXSTOPPED) s;
            s = wr (nrf_uarte_task_trigger NRF_UARTE0 NRF_UARTE_TASK_STOPTX) s
        in if cb_handler s = NULL then wait_txstopped hw s else Some s
      else
        let s = wr (nrf_uart_task_trigger NRF_UART0 NRF_UART_TASK_STOPTX) s
        in if cb_handler s \<noteq> NULL then tx_done_event call (ucast (tx_counter s)) s
           else Some (s\<lparr>tx_counter := TX_COUNTER_ABORT_REQ_VALUE\<rparr>))"

definition nrf_drv_uart_rx_abort :: "'a uart \<Rightarrow> 'a uart" where
  "nrf_drv_uart_rx_abort s =
     (if use_easy_dma s then wr (nrf_uarte_task_trigger NRF_UARTE0 NRF_UARTE_TASK_STOPRX) s
      else
        let s = wr (nrf_uart_int_disable NRF_UART0 (NRF_UART_INT_MASK_RXDRDY OR NRF_UART_INT_MASK_ERROR)) s
        in wr (nrf_uart_task_trigger NRF_UART0 NRF_UART_TASK_STOPRX) s)"

text \<open>An interrupt that is enabled and whose event is there; the event is looked at only when it is enabled.\<close>

definition int_event :: "device \<Rightarrow> u32 \<Rightarrow> nrf_uart_event \<Rightarrow> 'a uart \<Rightarrow> bool \<times> 'a uart" where
  "int_event d int_mask event s =
     (case rd (nrf_uart_int_enable_check d NRF_UART0 int_mask) s of (enabled, s) \<Rightarrow>
       if enabled then rd (nrf_uart_event_check d NRF_UART0 event) s else (False, s))"

definition uart_irq_error :: "device \<Rightarrow> 'a uart_call \<Rightarrow> 'a uart \<Rightarrow> 'a uart option" where
  "uart_irq_error d call s =
     (let s = wr (nrf_uart_event_clear NRF_UART0 NRF_UART_EVENT_ERROR) s;
          s = wr (nrf_uart_int_disable NRF_UART0 (NRF_UART_INT_MASK_RXDRDY OR NRF_UART_INT_MASK_ERROR)) s;
          s = (if \<not> rx_enabled s then wr (nrf_uart_task_trigger NRF_UART0 NRF_UART_TASK_STOPRX) s else s);
          (error_mask, s) = rd (nrf_uart_errorsrc_get_and_clear d NRF_UART0) s;
          event = NRF_DRV_UART_EVT_ERROR (p_rx_buffer s) (rx_buffer_length s) error_mask;
          s = s\<lparr>rx_buffer_length := 0, rx_secondary_buffer_length := 0\<rparr>
      in call (cb_handler s) event (p_context s) s)"

definition uart_irq_rxdrdy :: "device \<Rightarrow> 'a uart_call \<Rightarrow> 'a uart \<Rightarrow> 'a uart option" where
  "uart_irq_rxdrdy d call s =
     (let s = rx_byte d s
      in if rx_buffer_length s = rx_counter s then
           if rx_secondary_buffer_length s \<noteq> 0 then
             let p_data = p_rx_buffer s;
                 counter = rx_counter s;
                 s = s\<lparr>rx_buffer_length := rx_secondary_buffer_length s, p_rx_buffer := p_rx_secondary_buffer s,
                        rx_secondary_buffer_length := 0, rx_counter := 0\<rparr>
             in rx_done_event call counter p_data s
           else
             let s = (if \<not> rx_enabled s then wr (nrf_uart_task_trigger NRF_UART0 NRF_UART_TASK_STOPRX) s else s);
                 s = wr (nrf_uart_int_disable NRF_UART0 (NRF_UART_INT_MASK_RXDRDY OR NRF_UART_INT_MASK_ERROR)) s;
                 s = s\<lparr>rx_buffer_length := 0\<rparr>
             in rx_done_event call (rx_counter s) (p_rx_buffer s) s
         else Some s)"

definition uart_irq_rx :: "device \<Rightarrow> 'a uart_call \<Rightarrow> 'a uart \<Rightarrow> 'a uart option" where
  "uart_irq_rx d call s =
     (case int_event d NRF_UART_INT_MASK_ERROR NRF_UART_EVENT_ERROR s of (error, s) \<Rightarrow>
       if error then uart_irq_error d call s
       else case int_event d NRF_UART_INT_MASK_RXDRDY NRF_UART_EVENT_RXDRDY s of (rxdrdy, s) \<Rightarrow>
         if rxdrdy then uart_irq_rxdrdy d call s else Some s)"

definition uart_irq_tx :: "device \<Rightarrow> 'a uart_call \<Rightarrow> 'a uart \<Rightarrow> 'a uart option" where
  "uart_irq_tx d call s =
     (case rd (nrf_uart_event_check d NRF_UART0 NRF_UART_EVENT_TXDRDY) s of (txdrdy, s) \<Rightarrow>
       if txdrdy then
         if tx_counter s < ucast (tx_buffer_length s) then Some (tx_byte s)
         else
           let s = wr (nrf_uart_event_clear NRF_UART0 NRF_UART_EVENT_TXDRDY) s
           in if tx_buffer_length s \<noteq> 0 then tx_done_event call (tx_buffer_length s) s else Some s
       else Some s)"

definition uart_irq_rxto :: "device \<Rightarrow> 'a uart_call \<Rightarrow> 'a uart \<Rightarrow> 'a uart option" where
  "uart_irq_rxto d call s =
     (case rd (nrf_uart_event_check d NRF_UART0 NRF_UART_EVENT_RXTO) s of (rxto, s) \<Rightarrow>
       if rxto then
         let s = wr (nrf_uart_event_clear NRF_UART0 NRF_UART_EVENT_RXTO) s;
             s = (if rx_enabled s then wr (nrf_uart_task_trigger NRF_UART0 NRF_UART_TASK_STARTRX) s else s)
         in if rx_buffer_length s \<noteq> 0 then
              let s = s\<lparr>rx_buffer_length := 0\<rparr>
              in rx_done_event call (rx_counter s) (p_rx_buffer s) s
            else Some s
       else Some s)"

definition uart_irq_handler :: "device \<Rightarrow> 'a uart_call \<Rightarrow> 'a uart \<Rightarrow> 'a uart option" where
  "uart_irq_handler d call s = do {
     s \<leftarrow> uart_irq_rx d call s;
     s \<leftarrow> uart_irq_tx d call s;
     uart_irq_rxto d call s
   }"

definition uarte_irq_error :: "device \<Rightarrow> 'a uart_call \<Rightarrow> 'a uart \<Rightarrow> 'a uart option" where
  "uarte_irq_error d call s =
     (let s = wr (nrf_uarte_event_clear NRF_UARTE0 NRF_UARTE_EVENT_ERROR) s;
          (error_mask, s) = rd (nrf_uarte_errorsrc_get_and_clear d NRF_UARTE0) s;
          (amount, s) = rd (nrf_uarte_rx_amount_get d NRF_UARTE0) s;
          event = NRF_DRV_UART_EVT_ERROR (p_rx_buffer s) (ucast amount) error_mask;
          s = s\<lparr>rx_buffer_length := 0, rx_secondary_buffer_length := 0\<rparr>
      in call (cb_handler s) event (p_context s) s)"

definition uarte_irq_endrx :: "device \<Rightarrow> 'a uart_call \<Rightarrow> 'a uart \<Rightarrow> 'a uart option" where
  "uarte_irq_endrx d call s =
     (let s = wr (nrf_uarte_event_clear NRF_UARTE0 NRF_UARTE_EVENT_ENDRX) s;
          (amount, s) = rd (nrf_uarte_rx_amount_get d NRF_UARTE0) s
      in if ucast amount = rx_buffer_length s then
           if rx_secondary_buffer_length s \<noteq> 0 then
             let p_data = p_rx_buffer s;
                 s = wr (nrf_uarte_shorts_disable d NRF_UARTE0 NRF_UARTE_SHORT_ENDRX_STARTRX) s;
                 s = s\<lparr>rx_buffer_length := rx_secondary_buffer_length s, p_rx_buffer := p_rx_secondary_buffer s,
                        rx_secondary_buffer_length := 0\<rparr>
             in rx_done_event call (ucast amount) p_data s
           else
             let s = s\<lparr>rx_buffer_length := 0\<rparr>
             in rx_done_event call (ucast amount) (p_rx_buffer s) s
         else Some s)"

definition uarte_irq_rxto :: "device \<Rightarrow> 'a uart_call \<Rightarrow> 'a uart \<Rightarrow> 'a uart option" where
  "uarte_irq_rxto d call s =
     (let s = wr (nrf_uarte_event_clear NRF_UARTE0 NRF_UARTE_EVENT_RXTO) s
      in if rx_buffer_length s \<noteq> 0 then
           let s = s\<lparr>rx_buffer_length := 0\<rparr>;
               (amount, s) = rd (nrf_uarte_rx_amount_get d NRF_UARTE0) s
           in rx_done_event call (ucast amount) (p_rx_buffer s) s
         else Some s)"

definition uarte_irq_endtx :: "device \<Rightarrow> 'a uart_call \<Rightarrow> 'a uart \<Rightarrow> 'a uart option" where
  "uarte_irq_endtx d call s =
     (let s = wr (nrf_uarte_event_clear NRF_UARTE0 NRF_UARTE_EVENT_ENDTX) s
      in if tx_buffer_length s \<noteq> 0 then
           let (amount, s) = rd (nrf_uarte_tx_amount_get d NRF_UARTE0) s
           in tx_done_event call (ucast amount) s
         else Some s)"

definition uarte_irq_handler :: "device \<Rightarrow> 'a uart_call \<Rightarrow> 'a uart \<Rightarrow> 'a uart option" where
  "uarte_irq_handler d call s = do {
     s \<leftarrow> (case rd (nrf_uarte_event_check d NRF_UARTE0 NRF_UARTE_EVENT_ERROR) s of (error, s) \<Rightarrow>
            if error then uarte_irq_error d call s
            else case rd (nrf_uarte_event_check d NRF_UARTE0 NRF_UARTE_EVENT_ENDRX) s of (endrx, s) \<Rightarrow>
              if endrx then uarte_irq_endrx d call s else Some s);
     s \<leftarrow> (case rd (nrf_uarte_event_check d NRF_UARTE0 NRF_UARTE_EVENT_RXTO) s of (rxto, s) \<Rightarrow>
            if rxto then uarte_irq_rxto d call s else Some s);
     (case rd (nrf_uarte_event_check d NRF_UARTE0 NRF_UARTE_EVENT_ENDTX) s of (endtx, s) \<Rightarrow>
        if endtx then uarte_irq_endtx d call s else Some s)
   }"

definition UART0_IRQHandler :: "device \<Rightarrow> 'a uart_call \<Rightarrow> 'a uart \<Rightarrow> 'a uart option" where
  "UART0_IRQHandler d call s =
     (if use_easy_dma s then uarte_irq_handler d call s else uart_irq_handler d call s)"

definition nrf_drv_uart_task_address_get :: "nrf_uart_task \<Rightarrow> u32" where
  "nrf_drv_uart_task_address_get task = nrf_uart_task_address_get NRF_UART0 task"

definition nrf_drv_uart_event_address_get :: "nrf_uart_event \<Rightarrow> u32" where
  "nrf_drv_uart_event_address_get event = nrf_uart_event_address_get NRF_UART0 event"

end
