(* ===== verification/UartSeen.thy ===== *)
theory UartSeen
  imports Uart
begin

text \<open>
  What the registers have seen of the driver: the bytes written for transmission, the bytes read from the receiver,
  whether the interrupt of the receiver is enabled and whether the receiver was ever stopped. And the operations of
  the driver in the mode of the application UART, with a handler and without EasyDMA: what they do to the state.
\<close>

unbundle bit_operations_syntax

subsection \<open>Observations\<close>

fun sent_by :: "access \<Rightarrow> u8 list" where
  "sent_by (Wr a v) = (if a = NRF_UART0 + UART_TXD then [ucast v] else [])"
| "sent_by (Rd a v) = []"

fun received_by :: "access \<Rightarrow> u8 list" where
  "received_by (Wr a v) = []"
| "received_by (Rd a v) = (if a = NRF_UART0 + UART_RXD then [ucast v] else [])"

fun stops_rx :: "access \<Rightarrow> bool" where
  "stops_rx (Wr a v) = (a = NRF_UART0 + uart_task_offset NRF_UART_TASK_STOPRX)"
| "stops_rx (Rd a v) = False"

fun rx_int_by :: "access \<Rightarrow> bool \<Rightarrow> bool" where
  "rx_int_by (Wr a v) on =
     (if a = NRF_UART0 + UART_INTENSET then on \<or> v AND NRF_UART_INT_MASK_RXDRDY \<noteq> 0
      else if a = NRF_UART0 + UART_INTENCLR then on \<and> v AND NRF_UART_INT_MASK_RXDRDY = 0
      else on)"
| "rx_int_by (Rd a v) on = on"

definition uart_sent :: "access list \<Rightarrow> u8 list" where
  "uart_sent t = concat (map sent_by t)"

definition uart_received :: "access list \<Rightarrow> u8 list" where
  "uart_received t = concat (map received_by t)"

definition rx_stopped :: "access list \<Rightarrow> bool" where
  "rx_stopped t \<longleftrightarrow> list_ex stops_rx t"

definition rx_int_on :: "access list \<Rightarrow> bool" where
  "rx_int_on t = fold rx_int_by t False"

text \<open>
  What the product specification says of the peripheral and the module relies on: \<^verbatim>\<open>INTENSET\<close> reads
  as the interrupts that are enabled, and the receiver reports its timeout only after it was stopped.
\<close>

definition uart_device :: "device \<Rightarrow> bool" where
  "uart_device d \<longleftrightarrow>
     (\<forall>t. d t (NRF_UART0 + UART_INTENSET) AND NRF_UART_INT_MASK_RXDRDY \<noteq> 0 \<longrightarrow> rx_int_on t) \<and>
     (\<forall>t. d t (NRF_UART0 + uart_event_offset NRF_UART_EVENT_RXTO) \<noteq> 0 \<longrightarrow> rx_stopped t)"

definition same_seen :: "access list \<Rightarrow> access list \<Rightarrow> bool" where
  "same_seen t t' \<longleftrightarrow> uart_sent t' = uart_sent t \<and> uart_received t' = uart_received t \<and>
     rx_stopped t' = rx_stopped t \<and> rx_int_on t' = rx_int_on t"

lemma same_seen_refl [simp]: "same_seen t t"
  by (simp add: same_seen_def)

lemma same_seen_trans: "same_seen t t' \<Longrightarrow> same_seen t' t'' \<Longrightarrow> same_seen t t''"
  by (simp add: same_seen_def)

lemma seen_Nil [simp]:
  "uart_sent [] = []" "uart_received [] = []" "\<not> rx_stopped []" "\<not> rx_int_on []"
  by (simp_all add: uart_sent_def uart_received_def rx_stopped_def rx_int_on_def)

lemma seen_snoc:
  "uart_sent (t @ [a]) = uart_sent t @ sent_by a"
  "uart_received (t @ [a]) = uart_received t @ received_by a"
  "rx_stopped (t @ [a]) = (rx_stopped t \<or> stops_rx a)"
  "rx_int_on (t @ [a]) = rx_int_by a (rx_int_on t)"
  by (simp_all add: uart_sent_def uart_received_def rx_stopped_def rx_int_on_def)

lemmas reg_defs = NRF_UART0_def UART_INTENSET_def UART_INTENCLR_def UART_ERRORSRC_def UART_ENABLE_def
  UART_PSELRTS_def UART_PSELTXD_def UART_PSELCTS_def UART_PSELRXD_def UART_RXD_def UART_TXD_def
  UART_BAUDRATE_def UART_CONFIG_def

lemma seen_read:
  assumes "a \<noteq> NRF_UART0 + UART_RXD"
  shows "same_seen t (t @ [Rd a v])"
  using assms by (simp add: same_seen_def seen_snoc)

lemma seen_write:
  assumes "a \<notin> {NRF_UART0 + UART_TXD, NRF_UART0 + uart_task_offset NRF_UART_TASK_STOPRX,
    NRF_UART0 + UART_INTENSET, NRF_UART0 + UART_INTENCLR}"
  shows "same_seen t (reg_set a v t)"
  using assms by (simp add: same_seen_def seen_snoc reg_set_def)

lemma seen_event_clear [simp]: "same_seen t (nrf_uart_event_clear NRF_UART0 e t)"
  unfolding nrf_uart_event_clear_def by (rule seen_write) (cases e; simp add: reg_defs)

lemma seen_task_trigger [simp]:
  "task \<noteq> NRF_UART_TASK_STOPRX \<Longrightarrow> same_seen t (nrf_uart_task_trigger NRF_UART0 task t)"
  unfolding nrf_uart_task_trigger_def by (rule seen_write) (cases task; simp add: reg_defs)

lemma event_check_seen:
  assumes "nrf_uart_event_check d NRF_UART0 e t = (b, t')"
  shows "same_seen t t'" "b = (d t (NRF_UART0 + uart_event_offset e) \<noteq> 0)"
proof -
  have "NRF_UART0 + uart_event_offset e \<noteq> NRF_UART0 + UART_RXD" by (cases e) (simp_all add: reg_defs)
  with assms show "same_seen t t'" "b = (d t (NRF_UART0 + uart_event_offset e) \<noteq> 0)"
    by (auto simp: nrf_uart_event_check_def reg_get_def seen_read)
qed

lemma int_enable_check_seen:
  assumes "nrf_uart_int_enable_check d NRF_UART0 m t = (b, t')"
  shows "same_seen t t'" "b = (d t (NRF_UART0 + UART_INTENSET) AND m \<noteq> 0)"
proof -
  have "NRF_UART0 + UART_INTENSET \<noteq> NRF_UART0 + UART_RXD" by (simp add: reg_defs)
  with assms show "same_seen t t'" "b = (d t (NRF_UART0 + UART_INTENSET) AND m \<noteq> 0)"
    by (auto simp: nrf_uart_int_enable_check_def reg_get_def seen_read)
qed

lemma errorsrc_seen:
  assumes "nrf_uart_errorsrc_get_and_clear d NRF_UART0 t = (v, t')"
  shows "same_seen t t'"
proof -
  have "NRF_UART0 + UART_ERRORSRC \<noteq> NRF_UART0 + UART_RXD" by (simp add: reg_defs)
  then have "same_seen t (snd (reg_get d (NRF_UART0 + UART_ERRORSRC) t))"
    by (simp add: reg_get_def seen_read)
  moreover have "t' = reg_set (NRF_UART0 + UART_ERRORSRC) v (snd (reg_get d (NRF_UART0 + UART_ERRORSRC) t))"
    using assms by (auto simp: nrf_uart_errorsrc_get_and_clear_def reg_get_def)
  moreover have "same_seen t0 (reg_set (NRF_UART0 + UART_ERRORSRC) v t0)" for t0
    by (rule seen_write) (simp add: reg_defs)
  ultimately show ?thesis by (metis same_seen_trans)
qed

lemma ucast_u8_u32: "ucast (ucast (b :: u8) :: u32) = b"
  by (rule bit_word_eqI) (simp add: bit_simps)

lemma txd_set_seen:
  "uart_sent (nrf_uart_txd_set NRF_UART0 b t) = uart_sent t @ [b]"
  "uart_received (nrf_uart_txd_set NRF_UART0 b t) = uart_received t"
  "rx_stopped (nrf_uart_txd_set NRF_UART0 b t) = rx_stopped t"
  "rx_int_on (nrf_uart_txd_set NRF_UART0 b t) = rx_int_on t"
  by (simp_all add: nrf_uart_txd_set_def reg_set_def seen_snoc reg_defs ucast_u8_u32)

lemma rxd_get_seen:
  assumes "nrf_uart_rxd_get d NRF_UART0 t = (b, t')"
  shows "uart_sent t' = uart_sent t" "uart_received t' = uart_received t @ [b]"
    "rx_stopped t' = rx_stopped t" "rx_int_on t' = rx_int_on t"
  using assms by (auto simp: nrf_uart_rxd_get_def reg_get_def seen_snoc)

definition rx_ints :: u32 where "rx_ints = NRF_UART_INT_MASK_RXDRDY OR NRF_UART_INT_MASK_ERROR"

lemma rx_ints_seen:
  "uart_sent (nrf_uart_int_enable NRF_UART0 m t) = uart_sent t"
  "uart_sent (nrf_uart_int_disable NRF_UART0 m t) = uart_sent t"
  "uart_received (nrf_uart_int_enable NRF_UART0 m t) = uart_received t"
  "uart_received (nrf_uart_int_disable NRF_UART0 m t) = uart_received t"
  "rx_stopped (nrf_uart_int_enable NRF_UART0 m t) = rx_stopped t"
  "rx_stopped (nrf_uart_int_disable NRF_UART0 m t) = rx_stopped t"
  "rx_int_on (nrf_uart_int_enable NRF_UART0 m t) = (rx_int_on t \<or> m AND NRF_UART_INT_MASK_RXDRDY \<noteq> 0)"
  "rx_int_on (nrf_uart_int_disable NRF_UART0 m t) = (rx_int_on t \<and> m AND NRF_UART_INT_MASK_RXDRDY = 0)"
  by (simp_all add: nrf_uart_int_enable_def nrf_uart_int_disable_def reg_set_def seen_snoc reg_defs)

lemma rx_ints_rxdrdy: "rx_ints AND NRF_UART_INT_MASK_RXDRDY \<noteq> 0"
  by (simp add: rx_ints_def NRF_UART_INT_MASK_RXDRDY_def NRF_UART_INT_MASK_ERROR_def)

subsection \<open>The driver with a handler\<close>

definition tx_started :: "u8 \<Rightarrow> access list \<Rightarrow> access list" where
  "tx_started b t = nrf_uart_txd_set NRF_UART0 b (nrf_uart_event_clear NRF_UART0 NRF_UART_EVENT_TXDRDY
     (nrf_uart_task_trigger NRF_UART0 NRF_UART_TASK_STARTTX (nrf_uart_event_clear NRF_UART0 NRF_UART_EVENT_TXDRDY t)))"

lemma tx_started_seen:
  "uart_sent (tx_started b t) = uart_sent t @ [b]" "uart_received (tx_started b t) = uart_received t"
  "rx_stopped (tx_started b t) = rx_stopped t" "rx_int_on (tx_started b t) = rx_int_on t"
  using seen_event_clear [of t NRF_UART_EVENT_TXDRDY] seen_task_trigger [of NRF_UART_TASK_STARTTX]
    seen_event_clear [of _ NRF_UART_EVENT_TXDRDY]
  by (simp_all add: tx_started_def txd_set_seen same_seen_def)

lemma uart_tx_one:
  assumes "cb_handler s \<noteq> NULL" "\<not> use_easy_dma s" "tx_buffer_length s = 0"
  shows "nrf_drv_uart_tx h p 1 s = Some (NRF_SUCCESS,
    s\<lparr>tx_buffer_length := 1, p_tx_buffer := p, tx_counter := 1, regs := tx_started (memory s p) (regs s)\<rparr>)"
  using assms
  by (simp add: nrf_drv_uart_tx_def nrf_drv_uart_tx_in_progress_def nrf_drv_uart_tx_for_uart_def tx_byte_def
      wr_def Let_def tx_started_def)

definition rx_asked :: "access list \<Rightarrow> access list" where
  "rx_asked t = nrf_uart_int_enable NRF_UART0 rx_ints (nrf_uart_int_disable NRF_UART0 rx_ints t)"

lemma rx_asked_seen:
  "uart_sent (rx_asked t) = uart_sent t" "uart_received (rx_asked t) = uart_received t"
  "rx_stopped (rx_asked t) = rx_stopped t" "rx_int_on (rx_asked t)"
  by (simp_all add: rx_asked_def rx_ints_seen rx_ints_rxdrdy)

definition rx_set :: "ptr \<Rightarrow> 'a uart \<Rightarrow> 'a uart" where
  "rx_set p s =
     (if rx_buffer_length s = 0
      then s\<lparr>rx_buffer_length := 1, p_rx_buffer := p, rx_counter := 0, rx_secondary_buffer_length := 0\<rparr>
      else if rx_secondary_buffer_length s = 0 then s\<lparr>p_rx_secondary_buffer := p, rx_secondary_buffer_length := 1\<rparr>
      else s)"

lemma uart_rx_one:
  assumes "cb_handler s \<noteq> NULL" "\<not> use_easy_dma s" "rx_enabled s"
  shows "nrf_drv_uart_rx h p 1 s =
    Some (if rx_buffer_length s \<noteq> 0 \<and> rx_secondary_buffer_length s \<noteq> 0 then NRF_ERROR_BUSY else NRF_SUCCESS,
      (rx_set p s)\<lparr>regs := rx_asked (regs s)\<rparr>)"
  using assms
  by (simp add: nrf_drv_uart_rx_def rx_ints_disable_def rx_ints_enable_def nrf_drv_uart_rx_for_uart_def
      wr_def Let_def rx_asked_def rx_ints_def rx_set_def)

lemma int_event_seen:
  assumes "int_event d m e s = (b, s')"
  obtains t where "s' = s\<lparr>regs := t\<rparr>" "same_seen (regs s) t"
    "b \<Longrightarrow> d (regs s) (NRF_UART0 + UART_INTENSET) AND m \<noteq> 0"
proof -
  obtain en t where en: "nrf_uart_int_enable_check d NRF_UART0 m (regs s) = (en, t)" by fastforce
  note en' = int_enable_check_seen [OF en]
  show thesis
  proof (cases en)
    case False
    with assms en en'(1) show thesis by (intro that [of t]) (auto simp: int_event_def rd_def)
  next
    case True
    obtain ev t' where ev: "nrf_uart_event_check d NRF_UART0 e t = (ev, t')" by fastforce
    with True assms en en' event_check_seen(1) [OF ev] show thesis
      by (intro that [of t']) (auto simp: int_event_def rd_def dest: same_seen_trans)
  qed
qed

end
