(* ===== verification/UartBlocking.thy ===== *)
theory UartBlocking
  imports UartSeen
begin

text \<open>
  The driver without a handler: a transmission returns when the peripheral has said often enough that it is ready,
  and it has written exactly the bytes of the buffer to the transmitter.
\<close>

subsection \<open>Waiting\<close>

fun txdrdy_polls :: "device \<Rightarrow> nat \<Rightarrow> access list \<Rightarrow> access list" where
  "txdrdy_polls d 0 t = t"
| "txdrdy_polls d (Suc n) t = txdrdy_polls d n (snd (nrf_uart_event_check d NRF_UART0 NRF_UART_EVENT_TXDRDY t))"

text \<open>However often the driver has looked at the peripheral, it is ready after some more looks.\<close>

definition txdrdy_comes :: "device \<Rightarrow> bool" where
  "txdrdy_comes d \<longleftrightarrow>
     (\<forall>t. \<exists>n. d (txdrdy_polls d n t) (NRF_UART0 + uart_event_offset NRF_UART_EVENT_TXDRDY) \<noteq> 0)"

lemma polling_step:
  assumes "other h = id"
  obtains t where "rd (nrf_uart_event_check (dev h) NRF_UART0 NRF_UART_EVENT_TXDRDY) (other h s) =
      (dev h (regs s) (NRF_UART0 + uart_event_offset NRF_UART_EVENT_TXDRDY) \<noteq> 0, s\<lparr>regs := t\<rparr>)"
    "t = snd (nrf_uart_event_check (dev h) NRF_UART0 NRF_UART_EVENT_TXDRDY (regs s))" "same_seen (regs s) t"
proof -
  obtain b t where c: "nrf_uart_event_check (dev h) NRF_UART0 NRF_UART_EVENT_TXDRDY (regs s) = (b, t)" by fastforce
  with event_check_seen [OF c] assms show thesis by (intro that [of t]) (simp_all add: rd_def)
qed

lemma wait_txdrdy_returns:
  assumes "other h = id" "dev h (txdrdy_polls (dev h) n (regs s)) (NRF_UART0 + uart_event_offset NRF_UART_EVENT_TXDRDY) \<noteq> 0"
  shows "\<exists>t. wait_txdrdy h s = Some (s\<lparr>regs := t\<rparr>) \<and> same_seen (regs s) t"
  using assms(2)
proof (induction n arbitrary: s)
  case 0
  obtain t where "rd (nrf_uart_event_check (dev h) NRF_UART0 NRF_UART_EVENT_TXDRDY) (other h s) =
      (dev h (regs s) (NRF_UART0 + uart_event_offset NRF_UART_EVENT_TXDRDY) \<noteq> 0, s\<lparr>regs := t\<rparr>)" "same_seen (regs s) t"
    using assms(1) by (rule polling_step)
  with 0 show ?case by (subst wait_txdrdy.simps) auto
next
  case (Suc n)
  obtain t where t: "rd (nrf_uart_event_check (dev h) NRF_UART0 NRF_UART_EVENT_TXDRDY) (other h s) =
      (dev h (regs s) (NRF_UART0 + uart_event_offset NRF_UART_EVENT_TXDRDY) \<noteq> 0, s\<lparr>regs := t\<rparr>)"
    "t = snd (nrf_uart_event_check (dev h) NRF_UART0 NRF_UART_EVENT_TXDRDY (regs s))" "same_seen (regs s) t"
    using assms(1) by (rule polling_step)
  with Suc.prems Suc.IH [of "s\<lparr>regs := t\<rparr>"] show ?case
    by (subst wait_txdrdy.simps) (auto intro: same_seen_trans)
qed

lemma wait_without_abort:
  assumes "other h = id" "tx_counter s \<noteq> TX_COUNTER_ABORT_REQ_VALUE"
    "dev h (txdrdy_polls (dev h) n (regs s)) (NRF_UART0 + uart_event_offset NRF_UART_EVENT_TXDRDY) \<noteq> 0"
  shows "\<exists>t. wait_txdrdy_or_abort h s = Some (s\<lparr>regs := t\<rparr>) \<and> same_seen (regs s) t"
  using assms(2,3)
proof (induction n arbitrary: s)
  case 0
  obtain t where "rd (nrf_uart_event_check (dev h) NRF_UART0 NRF_UART_EVENT_TXDRDY) (other h s) =
      (dev h (regs s) (NRF_UART0 + uart_event_offset NRF_UART_EVENT_TXDRDY) \<noteq> 0, s\<lparr>regs := t\<rparr>)" "same_seen (regs s) t"
    using assms(1) by (rule polling_step)
  with 0 show ?case by (subst wait_txdrdy_or_abort.simps) auto
next
  case (Suc n)
  obtain t where t: "rd (nrf_uart_event_check (dev h) NRF_UART0 NRF_UART_EVENT_TXDRDY) (other h s) =
      (dev h (regs s) (NRF_UART0 + uart_event_offset NRF_UART_EVENT_TXDRDY) \<noteq> 0, s\<lparr>regs := t\<rparr>)"
    "t = snd (nrf_uart_event_check (dev h) NRF_UART0 NRF_UART_EVENT_TXDRDY (regs s))" "same_seen (regs s) t"
    using assms(1) by (rule polling_step)
  with Suc.prems Suc.IH [of "s\<lparr>regs := t\<rparr>"] show ?case
    by (subst wait_txdrdy_or_abort.simps) (auto intro: same_seen_trans)
qed

subsection \<open>Transmission\<close>

lemma tx_byte_sends:
  obtains t where "tx_byte s = s\<lparr>tx_counter := tx_counter s + 1, regs := t\<rparr>"
    "uart_sent t = uart_sent (regs s) @ [memory s (p_tx_buffer s + unat (tx_counter s))]"
  using seen_event_clear [of "regs s" NRF_UART_EVENT_TXDRDY]
  by (intro that [of "regs (tx_byte s)"]) (simp_all add: tx_byte_def wr_def Let_def txd_set_seen same_seen_def)

lemma tx_bytes_loop_sends:
  assumes dev: "other h = id" "txdrdy_comes (dev h)"
    and n: "unat (tx_counter s) + n = unat (tx_buffer_length s)"
  shows "\<exists>t. tx_bytes_loop h s = Some (s\<lparr>tx_counter := ucast (tx_buffer_length s), regs := t\<rparr>) \<and>
    uart_sent t = uart_sent (regs s) @ mem_read (p_tx_buffer s + unat (tx_counter s)) n (memory s)"
  using n
proof (induction n arbitrary: s)
  case 0
  then have "tx_counter s = ucast (tx_buffer_length s)"
    by (simp add: word_unat_eq_iff unat_ucast_u8_u16)
  then have "\<not> tx_counter s < ucast (tx_buffer_length s)"
    "s\<lparr>tx_counter := ucast (tx_buffer_length s), regs := regs s\<rparr> = s" by simp_all
  then show ?case by (subst tx_bytes_loop.simps) (auto intro: exI [of _ "regs s"])
next
  case (Suc n)
  have small: "unat (tx_counter s) < 255" using Suc.prems u8_less_256 [of "tx_buffer_length s"] by simp
  then have no_abort: "tx_counter s \<noteq> TX_COUNTER_ABORT_REQ_VALUE" by (auto simp: TX_COUNTER_ABORT_REQ_VALUE_def)
  have less: "tx_counter s < ucast (tx_buffer_length s)"
    using Suc.prems by (simp add: word_less_nat_alt unat_ucast_u8_u16)
  obtain k where "dev h (txdrdy_polls (dev h) k (regs s)) (NRF_UART0 + uart_event_offset NRF_UART_EVENT_TXDRDY) \<noteq> 0"
    using dev(2) by (auto simp: txdrdy_comes_def)
  from wait_without_abort [OF dev(1) no_abort this] obtain t where
    w: "wait_txdrdy_or_abort h s = Some (s\<lparr>regs := t\<rparr>)" "same_seen (regs s) t" by blast
  obtain t' where b: "tx_byte (s\<lparr>regs := t\<rparr>) = s\<lparr>tx_counter := tx_counter s + 1, regs := t'\<rparr>"
    "uart_sent t' = uart_sent t @ [memory s (p_tx_buffer s + unat (tx_counter s))]"
    using tx_byte_sends [of "s\<lparr>regs := t\<rparr>"] by auto
  have cnt: "unat (tx_counter s + 1) = Suc (unat (tx_counter s))"
    using small by (subst unat_plus_small) auto
  let ?s = "s\<lparr>tx_counter := tx_counter s + 1, regs := t'\<rparr>"
  from Suc.prems cnt have "unat (tx_counter ?s) + n = unat (tx_buffer_length ?s)" by simp
  from Suc.IH [OF this] obtain u where u: "tx_bytes_loop h ?s = Some (?s\<lparr>tx_counter := ucast (tx_buffer_length s), regs := u\<rparr>)"
    "uart_sent u = uart_sent t' @ mem_read (p_tx_buffer s + Suc (unat (tx_counter s))) n (memory s)"
    by (auto simp: cnt)
  have "tx_bytes_loop h s = tx_bytes_loop h ?s"
    by (subst tx_bytes_loop.simps) (simp add: less w no_abort b)
  with u b w(2) show ?case by (intro exI [of _ u]) (simp add: mem_read_Suc same_seen_def)
qed

definition uart_blocking_example :: "unit uart" where
  "uart_blocking_example = \<lparr>p_context = 0, cb_handler = 0, p_tx_buffer = 0, p_rx_buffer = 0, p_rx_secondary_buffer = 0,
     tx_counter = 0, tx_buffer_length = 0, rx_buffer_length = 0, rx_secondary_buffer_length = 0, rx_counter = 0,
     rx_enabled = False, drv_state = NRF_DRV_STATE_INITIALIZED, use_easy_dma = False,
     memory = (\<lambda>a. of_nat (a - 0x20000000)), regs = [], client = ()\<rparr>"

text \<open>
  C19. A transmission without a handler, of any length but 0, from an idle driver that nobody aborts: when the peripheral gets ready
  again and again, the call returns with success, it has written the bytes of the buffer to the transmitter, in
  their order and nothing else, and the driver is idle again.
\<close>

theorem uart_tx_blocking:
  assumes dev: "other h = id" "txdrdy_comes (dev h)" and mode: "cb_handler s = NULL" "\<not> use_easy_dma s"
    and idle: "\<not> nrf_drv_uart_tx_in_progress s" and len: "0 < len"
  shows "\<exists>s'. nrf_drv_uart_tx h p len s = Some (NRF_SUCCESS, s') \<and>
    uart_sent (regs s') = uart_sent (regs s) @ mem_read p (unat len) (memory s) \<and>
    memory s' = memory s \<and> \<not> nrf_drv_uart_tx_in_progress s'"
proof -
  let ?s = "s\<lparr>tx_buffer_length := len, p_tx_buffer := p, tx_counter := 0,
    regs := nrf_uart_task_trigger NRF_UART0 NRF_UART_TASK_STARTTX (nrf_uart_event_clear NRF_UART0 NRF_UART_EVENT_TXDRDY (regs s))\<rparr>"
  have seen: "same_seen (regs s) (regs ?s)"
    by (simp add: same_seen_trans [OF seen_event_clear seen_task_trigger])
  obtain t where t: "tx_byte ?s = ?s\<lparr>tx_counter := 1, regs := t\<rparr>" "uart_sent t = uart_sent (regs ?s) @ [memory s p]"
    using tx_byte_sends [of ?s] by auto
  obtain n where n: "unat len = Suc n" using len by (metis gr0_implies_Suc unat_gt_0 word_gt_0 word_less_nat_alt unat_0)
  let ?s1 = "?s\<lparr>tx_counter := 1, regs := t\<rparr>"
  have "unat (tx_counter ?s1) + n = unat (tx_buffer_length ?s1)" using n by simp
  from tx_bytes_loop_sends [OF dev this] obtain u where
    u: "tx_bytes_loop h ?s1 = Some (?s1\<lparr>tx_counter := ucast len, regs := u\<rparr>)"
      "uart_sent u = uart_sent t @ mem_read (Suc p) n (memory s)" by auto
  let ?s2 = "?s1\<lparr>tx_counter := ucast len, regs := u\<rparr>"
  have no_abort: "(ucast len :: u16) \<noteq> TX_COUNTER_ABORT_REQ_VALUE"
  proof
    assume "(ucast len :: u16) = TX_COUNTER_ABORT_REQ_VALUE"
    then have "unat (ucast len :: u16) = 256" by (simp add: TX_COUNTER_ABORT_REQ_VALUE_def)
    then show False using u8_less_256 [of len] by (simp only: unat_ucast_u8_u16)
  qed
  obtain k where "dev h (txdrdy_polls (dev h) k (regs ?s2)) (NRF_UART0 + uart_event_offset NRF_UART_EVENT_TXDRDY) \<noteq> 0"
    using dev(2) by (auto simp: txdrdy_comes_def)
  from wait_txdrdy_returns [OF dev(1) this] obtain v where
    v: "wait_txdrdy h ?s2 = Some (?s2\<lparr>regs := v\<rparr>)" "same_seen u v" by auto
  have stop: "uart_sent (nrf_uart_task_trigger NRF_UART0 NRF_UART_TASK_STOPTX v) = uart_sent v"
    using seen_task_trigger [of NRF_UART_TASK_STOPTX v] by (simp add: same_seen_def)
  have "nrf_drv_uart_tx h p len s = Some (NRF_SUCCESS,
      (?s2\<lparr>regs := nrf_uart_task_trigger NRF_UART0 NRF_UART_TASK_STOPTX v\<rparr>)\<lparr>tx_buffer_length := 0\<rparr>)"
    using mode idle t(1) u(1) v(1) no_abort
    by (simp add: nrf_drv_uart_tx_def nrf_drv_uart_tx_for_uart_def wr_def Let_def)
  with seen t(2) u(2) v(2) stop n show ?thesis
    by (simp add: same_seen_def nrf_drv_uart_tx_in_progress_def mem_read_Suc)
qed

theorem uart_tx_blocking_witness:
  "\<exists>s'. nrf_drv_uart_tx \<lparr>dev = (\<lambda>_ _. 1), other = id\<rparr> 0x20000001 3 uart_blocking_example = Some (NRF_SUCCESS, s') \<and>
    uart_sent (regs s') = [1, 2, 3]"
proof -
  let ?h = "\<lparr>dev = (\<lambda>_ _. 1), other = id\<rparr> :: unit uart_hw"
  have "other ?h = id" "txdrdy_comes (dev ?h)" "cb_handler uart_blocking_example = NULL"
    "\<not> use_easy_dma uart_blocking_example" "\<not> nrf_drv_uart_tx_in_progress uart_blocking_example" "0 < (3 :: u8)"
    by (simp_all add: txdrdy_comes_def uart_blocking_example_def nrf_drv_uart_tx_in_progress_def)
  from uart_tx_blocking [OF this, of "0x20000001"] show ?thesis
    by (auto simp: uart_blocking_example_def mem_read_def upt_conv_Cons)
qed

end
