(* ===== verification/AppUart.thy ===== *)
theory AppUart
  imports AppFifo Uart
begin

text \<open>
  The UART modules of the application over the driver: \<^verbatim>\<open>libraries/uart/app_uart_fifo.c\<close>, which keeps
  the bytes to send and the received ones in two FIFOs, and \<^verbatim>\<open>libraries/uart/app_uart.c\<close>, which keeps
  none (\<open>byte_uart\<close>).

  The state of the module is the \<open>client\<close> of the driver's state, and holds the state of the application in turn
  (\<open>user\<close>). \<open>app_uart_env\<close> has the hardware, the addresses of the two one-byte buffers and of the event handler,
  and \<open>call_event_handler\<close>, what the event handler of the application does.
\<close>

unbundle bit_operations_syntax

subsection \<open>State\<close>

datatype app_uart_flow_control =
  APP_UART_FLOW_CONTROL_DISABLED | APP_UART_FLOW_CONTROL_ENABLED | APP_UART_FLOW_CONTROL_LOW_POWER

record app_uart_comm_params =
  rx_pin_no :: u8
  tx_pin_no :: u8
  rts_pin_no :: u8
  cts_pin_no :: u8
  flow_control :: app_uart_flow_control
  use_parity :: bool
  baud_rate :: u32

record app_uart_buffers =
  rx_buf :: ptr
  rx_buf_size :: u32
  tx_buf :: ptr
  tx_buf_size :: u32

datatype app_uart_evt =
    APP_UART_DATA_READY
  | APP_UART_FIFO_ERROR ret_code
  | APP_UART_COMMUNICATION_ERROR u32
  | APP_UART_TX_EMPTY
  | APP_UART_DATA u8

record 'b app_uart =
  m_event_handler :: ptr
  m_rx_fifo :: app_fifo
  m_tx_fifo :: app_fifo
  user :: 'b

type_synonym 'b app_uart_state = "'b app_uart uart"

record 'b app_uart_env =
  hw :: "'b app_uart uart_hw"
  tx_buffer :: ptr
  rx_buffer :: ptr
  uart_event_handler_addr :: ptr
  call_event_handler :: "ptr \<Rightarrow> app_uart_evt \<Rightarrow> 'b app_uart_state \<Rightarrow> 'b app_uart_state option"

definition set_rx_fifo :: "app_fifo \<Rightarrow> 'b app_uart_state \<Rightarrow> 'b app_uart_state" where
  "set_rx_fifo f s = s\<lparr>client := (client s)\<lparr>m_rx_fifo := f\<rparr>\<rparr>"

definition set_tx_fifo :: "app_fifo \<Rightarrow> 'b app_uart_state \<Rightarrow> 'b app_uart_state" where
  "set_tx_fifo f s = s\<lparr>client := (client s)\<lparr>m_tx_fifo := f\<rparr>\<rparr>"

text \<open>The operations of the FIFO on the two FIFOs of the module.\<close>

definition rx_fifo_put :: "u8 \<Rightarrow> 'b app_uart_state \<Rightarrow> ret_code \<times> 'b app_uart_state" where
  "rx_fifo_put b s = (case app_fifo_put (m_rx_fifo (client s)) b (memory s) of (code, f, m) \<Rightarrow>
     (code, (set_rx_fifo f s)\<lparr>memory := m\<rparr>))"

definition rx_fifo_get :: "ptr \<Rightarrow> 'b app_uart_state \<Rightarrow> ret_code \<times> 'b app_uart_state" where
  "rx_fifo_get p s = (case app_fifo_get (m_rx_fifo (client s)) p (memory s) of (code, f, m) \<Rightarrow>
     (code, (set_rx_fifo f s)\<lparr>memory := m\<rparr>))"

definition tx_fifo_put :: "u8 \<Rightarrow> 'b app_uart_state \<Rightarrow> ret_code \<times> 'b app_uart_state" where
  "tx_fifo_put b s = (case app_fifo_put (m_tx_fifo (client s)) b (memory s) of (code, f, m) \<Rightarrow>
     (code, (set_tx_fifo f s)\<lparr>memory := m\<rparr>))"

definition tx_fifo_get :: "ptr \<Rightarrow> 'b app_uart_state \<Rightarrow> ret_code \<times> 'b app_uart_state" where
  "tx_fifo_get p s = (case app_fifo_get (m_tx_fifo (client s)) p (memory s) of (code, f, m) \<Rightarrow>
     (code, (set_tx_fifo f s)\<lparr>memory := m\<rparr>))"

definition app_event :: "'b app_uart_env \<Rightarrow> app_uart_evt \<Rightarrow> 'b app_uart_state \<Rightarrow> 'b app_uart_state option" where
  "app_event env e s = call_event_handler env (m_event_handler (client s)) e s"

subsection \<open>Operations\<close>

fun uart_event_handler ::
    "'b app_uart_env \<Rightarrow> nrf_drv_uart_event \<Rightarrow> ptr \<Rightarrow> 'b app_uart_state \<Rightarrow> 'b app_uart_state option" where
  "uart_event_handler env (NRF_DRV_UART_EVT_RX_DONE p_data bytes) ctx s =
     (case rx_fifo_put (memory s p_data) s of (err_code, s) \<Rightarrow> do {
        s \<leftarrow> (if err_code \<noteq> NRF_SUCCESS then app_event env (APP_UART_FIFO_ERROR err_code) s
              else if fifo_length (m_rx_fifo (client s)) = 1 then app_event env APP_UART_DATA_READY s
              else Some s);
        if fifo_length (m_rx_fifo (client s)) \<le> ucast (buf_size_mask (m_rx_fifo (client s))) then
          map_option snd (nrf_drv_uart_rx (hw env) (rx_buffer env) 1 s)
        else Some s
      })"
| "uart_event_handler env (NRF_DRV_UART_EVT_ERROR p_data bytes error_mask) ctx s = do {
     (_, s) \<leftarrow> nrf_drv_uart_rx (hw env) (rx_buffer env) 1 s;
     app_event env (APP_UART_COMMUNICATION_ERROR error_mask) s
   }"
| "uart_event_handler env (NRF_DRV_UART_EVT_TX_DONE p_data bytes) ctx s =
     (case tx_fifo_get (tx_buffer env) s of (err_code, s) \<Rightarrow> do {
        s \<leftarrow> (if err_code = NRF_SUCCESS then map_option snd (nrf_drv_uart_tx (hw env) (tx_buffer env) 1 s)
              else Some s);
        if fifo_length (m_tx_fifo (client s)) = 0 then app_event env APP_UART_TX_EMPTY s
        else Some s
      })"

text \<open>The driver has one client: the handler that it calls is the one above.\<close>

definition call_uart_event_handler :: "'b app_uart_env \<Rightarrow> 'b app_uart uart_call" where
  "call_uart_event_handler env handler event ctx s = uart_event_handler env event ctx s"

text \<open>
  The configuration that the two modules build from the default one. The size of a buffer has 32 bits and
  \<^verbatim>\<open>app_fifo_init\<close> takes 16.
\<close>

definition app_uart_config :: "app_uart_comm_params \<Rightarrow> u8 \<Rightarrow> nrf_drv_uart_config" where
  "app_uart_config p irq_priority = m_default_config
     \<lparr>cfg_baudrate := baud_rate p,
      cfg_hwfc := (if flow_control p = APP_UART_FLOW_CONTROL_DISABLED then NRF_UART_HWFC_DISABLED
                   else NRF_UART_HWFC_ENABLED),
      cfg_interrupt_priority := irq_priority,
      cfg_parity := (if use_parity p then NRF_UART_PARITY_INCLUDED else NRF_UART_PARITY_EXCLUDED),
      cfg_pselcts := ucast (cts_pin_no p), cfg_pselrts := ucast (rts_pin_no p),
      cfg_pselrxd := ucast (rx_pin_no p), cfg_pseltxd := ucast (tx_pin_no p)\<rparr>"

definition app_uart_init ::
    "'b app_uart_env \<Rightarrow> app_uart_comm_params \<Rightarrow> app_uart_buffers option \<Rightarrow> ptr \<Rightarrow> u8 \<Rightarrow> 'b app_uart_state \<Rightarrow>
      (ret_code \<times> 'b app_uart_state) option" where
  "app_uart_init env p_comm_params p_buffers event_handler irq_priority s =
     (let s = s\<lparr>client := (client s)\<lparr>m_event_handler := event_handler\<rparr>\<rparr>
      in case p_buffers of None \<Rightarrow> Some (NRF_ERROR_INVALID_PARAM, s)
         | Some b \<Rightarrow>
           (case app_fifo_init (m_rx_fifo (client s)) (rx_buf b) (ucast (rx_buf_size b)) of (err_code, f) \<Rightarrow>
            let s = set_rx_fifo f s in
            if err_code \<noteq> NRF_SUCCESS then Some (err_code, s)
            else case app_fifo_init (m_tx_fifo (client s)) (tx_buf b) (ucast (tx_buf_size b)) of (err_code, f) \<Rightarrow>
            let s = set_tx_fifo f s in
            if err_code \<noteq> NRF_SUCCESS then Some (err_code, s)
            else
              let config = app_uart_config p_comm_params irq_priority
              in case nrf_drv_uart_init (Some config) (uart_event_handler_addr env) s of (err_code, s) \<Rightarrow>
                 if err_code \<noteq> NRF_SUCCESS then Some (err_code, s)
                 else
                   let s = (if \<not> cfg_use_easy_dma config then nrf_drv_uart_rx_enable s else s)
                   in nrf_drv_uart_rx (hw env) (rx_buffer env) 1 s))"

definition app_uart_flush :: "'b app_uart_state \<Rightarrow> ret_code \<times> 'b app_uart_state" where
  "app_uart_flush s =
     (case app_fifo_flush (m_rx_fifo (client s)) of (err_code, f) \<Rightarrow>
      let s = set_rx_fifo f s in
      if err_code \<noteq> NRF_SUCCESS then (err_code, s)
      else case app_fifo_flush (m_tx_fifo (client s)) of (err_code, f) \<Rightarrow>
      let s = set_tx_fifo f s in
      if err_code \<noteq> NRF_SUCCESS then (err_code, s) else (NRF_SUCCESS, s))"

definition app_uart_get :: "'b app_uart_env \<Rightarrow> ptr \<Rightarrow> 'b app_uart_state \<Rightarrow> (ret_code \<times> 'b app_uart_state) option" where
  "app_uart_get env p_byte s =
     (if fifo_length (m_rx_fifo (client s)) = ucast (buf_size_mask (m_rx_fifo (client s))) then do {
        (err_code, s) \<leftarrow> nrf_drv_uart_rx (hw env) (rx_buffer env) 1 s;
        if err_code \<noteq> NRF_SUCCESS then Some (NRF_ERROR_NOT_FOUND, s)
        else Some (rx_fifo_get p_byte s)
      }
      else Some (rx_fifo_get p_byte s))"

text \<open>\<open>app_uart_put_start\<close> is \<open>app_uart_put\<close> from the point where the byte is in the FIFO.\<close>

definition app_uart_put_start :: "'b app_uart_env \<Rightarrow> 'b app_uart_state \<Rightarrow> (ret_code \<times> 'b app_uart_state) option" where
  "app_uart_put_start env s =
     (if \<not> nrf_drv_uart_tx_in_progress s then
        case tx_fifo_get (tx_buffer env) s of (err_code, s) \<Rightarrow>
          if err_code = NRF_SUCCESS then nrf_drv_uart_tx (hw env) (tx_buffer env) 1 s
          else Some (NRF_SUCCESS, s)
      else Some (NRF_SUCCESS, s))"

definition app_uart_put :: "'b app_uart_env \<Rightarrow> u8 \<Rightarrow> 'b app_uart_state \<Rightarrow> (ret_code \<times> 'b app_uart_state) option" where
  "app_uart_put env byte s =
     (case tx_fifo_put byte s of (err_code, s) \<Rightarrow>
       if err_code = NRF_SUCCESS then app_uart_put_start env s else Some (err_code, s))"

definition app_uart_close :: "'b app_uart_env \<Rightarrow> 'b app_uart_state \<Rightarrow> ret_code \<times> 'b app_uart_state" where
  "app_uart_close env s = (NRF_SUCCESS, nrf_drv_uart_uninit (dev (hw env)) s)"

end
