(* ===== verification/AppUartThms.thy ===== *)
theory AppUartThms
  imports AppUart UartSeen "HOL-Library.Sublist"
begin

text \<open>
  The application UART at work: any interleaving of its calls, of calls that an interrupt comes in between, and of
  interrupts, with an application that answers the events with calls of its own. Every byte that was accepted has been
  written to the transmitter or is in the FIFO, in the order it was accepted; the bytes the application gets are
  bytes that were received, in their order, and a byte that is lost was reported.
\<close>

unbundle bit_operations_syntax

subsection \<open>Runs\<close>

datatype uart_user_op = UPut u8 | UGet ptr

text \<open>What the application keeps: the bytes accepted from it, those it got, and the errors reported to it.\<close>

record uart_log =
  put_bytes :: "u8 list"
  got_bytes :: "u8 list"
  fifo_errors :: nat

type_synonym uart_env = "uart_log app_uart_env"
type_synonym uart_state = "uart_log app_uart_state"

definition logged :: "(uart_log \<Rightarrow> uart_log) \<Rightarrow> uart_state \<Rightarrow> uart_state" where
  "logged f s = s\<lparr>client := (client s)\<lparr>user := f (user (client s))\<rparr>\<rparr>"

definition log_put :: "u8 \<Rightarrow> uart_log \<Rightarrow> uart_log" where
  "log_put b l = l\<lparr>put_bytes := put_bytes l @ [b]\<rparr>"

definition log_got :: "u8 \<Rightarrow> uart_log \<Rightarrow> uart_log" where
  "log_got b l = l\<lparr>got_bytes := got_bytes l @ [b]\<rparr>"

fun log_event :: "app_uart_evt \<Rightarrow> uart_log \<Rightarrow> uart_log" where
  "log_event (APP_UART_FIFO_ERROR code) l = l\<lparr>fifo_errors := Suc (fifo_errors l)\<rparr>"
| "log_event e l = l"

fun user_op :: "uart_env \<Rightarrow> uart_user_op \<Rightarrow> uart_state \<Rightarrow> uart_state option" where
  "user_op env (UPut b) s = do {
     (code, s) \<leftarrow> app_uart_put env b s;
     Some (if code = NRF_SUCCESS then logged (log_put b) s else s)
   }"
| "user_op env (UGet p) s = do {
     (code, s) \<leftarrow> app_uart_get env p s;
     Some (if code = NRF_SUCCESS then logged (log_got (memory s p)) s else s)
   }"

fun user_ops :: "uart_env \<Rightarrow> uart_user_op list \<Rightarrow> uart_state \<Rightarrow> uart_state option" where
  "user_ops env [] s = Some s"
| "user_ops env (op # ops) s = do { s \<leftarrow> user_op env op s; user_ops env ops s }"

text \<open>An application that answers an event with the calls \<open>ans\<close> chooses.\<close>

type_synonym uart_answer = "app_uart_evt \<Rightarrow> uart_state \<Rightarrow> uart_user_op list"

definition answering :: "uart_answer \<Rightarrow> uart_env \<Rightarrow> uart_env" where
  "answering ans env = env\<lparr>call_event_handler := \<lambda>h e s. user_ops env (ans e s) (logged (log_event e) s)\<rparr>"

datatype uart_step = Call uart_user_op | PutInterrupted u8 nat | Interrupt

fun interrupts :: "uart_env \<Rightarrow> nat \<Rightarrow> uart_state \<Rightarrow> uart_state option" where
  "interrupts env 0 s = Some s"
| "interrupts env (Suc n) s = do {
     s \<leftarrow> UART0_IRQHandler (dev (hw env)) (call_uart_event_handler env) s;
     interrupts env n s
   }"

fun do_step :: "uart_env \<Rightarrow> uart_step \<Rightarrow> uart_state \<Rightarrow> uart_state option" where
  "do_step env (Call op) s = user_op env op s"
| "do_step env (PutInterrupted b n) s =
     (case tx_fifo_put b s of (code, s) \<Rightarrow>
       if code = NRF_SUCCESS then do {
         s \<leftarrow> interrupts env n (logged (log_put b) s);
         (_, s) \<leftarrow> app_uart_put_start env s;
         Some s
       }
       else Some s)"
| "do_step env Interrupt s = interrupts env 1 s"

fun uart_run :: "uart_env \<Rightarrow> uart_step list \<Rightarrow> uart_state \<Rightarrow> uart_state option" where
  "uart_run env [] s = Some s"
| "uart_run env (x # xs) s = do { s \<leftarrow> do_step env x s; uart_run env xs s }"

subsection \<open>Invariant\<close>

definition fifo_bytes :: "u32 \<Rightarrow> nat" where
  "fifo_bytes n = unat (ucast n :: u16)"

text \<open>The two FIFO buffers and the two one-byte buffers are apart, and the application gets its bytes elsewhere.\<close>

definition uart_memory :: "'b app_uart_env \<Rightarrow> app_uart_buffers \<Rightarrow> bool" where
  "uart_memory env b \<longleftrightarrow>
     disjoint_regions (rx_buf b) (fifo_bytes (rx_buf_size b)) (tx_buf b) (fifo_bytes (tx_buf_size b)) \<and>
     disjoint_regions (tx_buffer env) 1 (tx_buf b) (fifo_bytes (tx_buf_size b)) \<and>
     disjoint_regions (tx_buffer env) 1 (rx_buf b) (fifo_bytes (rx_buf_size b)) \<and>
     disjoint_regions (rx_buffer env) 1 (tx_buf b) (fifo_bytes (tx_buf_size b)) \<and>
     disjoint_regions (rx_buffer env) 1 (rx_buf b) (fifo_bytes (rx_buf_size b))"

definition dest_ok :: "app_uart_buffers \<Rightarrow> uart_user_op \<Rightarrow> bool" where
  "dest_ok b op \<longleftrightarrow> (\<forall>p. op = UGet p \<longrightarrow>
     disjoint_regions p 1 (tx_buf b) (fifo_bytes (tx_buf_size b)) \<and>
     disjoint_regions p 1 (rx_buf b) (fifo_bytes (rx_buf_size b)))"

definition step_ok :: "app_uart_buffers \<Rightarrow> uart_step \<Rightarrow> bool" where
  "step_ok b x \<longleftrightarrow> (\<forall>op. x = Call op \<longrightarrow> dest_ok b op)"

definition answer_ok :: "app_uart_buffers \<Rightarrow> uart_answer \<Rightarrow> bool" where
  "answer_ok b ans \<longleftrightarrow> (\<forall>e s. list_all (dest_ok b) (ans e s))"

abbreviation rxf :: "'b app_uart_state \<Rightarrow> app_fifo" where "rxf s \<equiv> m_rx_fifo (client s)"
abbreviation txf :: "'b app_uart_state \<Rightarrow> app_fifo" where "txf s \<equiv> m_tx_fifo (client s)"

definition uart_base :: "app_uart_buffers \<Rightarrow> 'b app_uart_state \<Rightarrow> bool" where
  "uart_base b s \<longleftrightarrow> cb_handler s \<noteq> NULL \<and> \<not> use_easy_dma s \<and> rx_enabled s \<and>
     fifo_inv (rxf s) \<and> p_buf (rxf s) = rx_buf b \<and> fifo_size (rxf s) = fifo_bytes (rx_buf_size b) \<and>
     fifo_inv (txf s) \<and> p_buf (txf s) = tx_buf b \<and> fifo_size (txf s) = fifo_bytes (tx_buf_size b)"

definition tx_ok :: "uart_log \<Rightarrow> 'b app_uart_state \<Rightarrow> bool" where
  "tx_ok l s \<longleftrightarrow> (tx_buffer_length s = 0 \<or> tx_buffer_length s = 1 \<and> tx_counter s = 1) \<and>
     uart_sent (regs s) @ fifo_contents (txf s) (memory s) = put_bytes l"

definition tx_live :: "'b app_uart_state \<Rightarrow> bool" where
  "tx_live s \<longleftrightarrow> fifo_length (txf s) = 0 \<or> tx_buffer_length s \<noteq> 0"

definition rx_weak :: "ptr \<Rightarrow> 'b app_uart_state \<Rightarrow> bool" where
  "rx_weak p s \<longleftrightarrow>
     (rx_buffer_length s \<noteq> 0 \<longrightarrow> rx_buffer_length s = 1 \<and> p_rx_buffer s = p \<and> rx_counter s = 0) \<and>
     (rx_secondary_buffer_length s \<noteq> 0 \<longrightarrow> rx_secondary_buffer_length s = 1 \<and> p_rx_secondary_buffer s = p)"

definition rx_got :: "uart_log \<Rightarrow> 'b app_uart_state \<Rightarrow> bool" where
  "rx_got l s \<longleftrightarrow> subseq (got_bytes l @ fifo_contents (rxf s) (memory s)) (uart_received (regs s)) \<and>
     length (uart_received (regs s)) = length (got_bytes l) + unat (fifo_length (rxf s)) + fifo_errors l"

definition rx_flags :: "'b app_uart_state \<Rightarrow> bool" where
  "rx_flags s \<longleftrightarrow> (rx_buffer_length s = 0 \<longrightarrow> rx_secondary_buffer_length s = 0 \<and> rx_counter s \<noteq> 0) \<and>
     (rx_int_on (regs s) \<longrightarrow> rx_buffer_length s \<noteq> 0) \<and> \<not> rx_stopped (regs s)"

definition rx_ok :: "uart_log \<Rightarrow> 'b app_uart_state \<Rightarrow> bool" where
  "rx_ok l s \<longleftrightarrow> rx_flags s \<and> rx_got l s"

text \<open>A byte was read and is not in the FIFO yet.\<close>

definition rx_pending :: "u8 \<Rightarrow> uart_log \<Rightarrow> 'b app_uart_state \<Rightarrow> bool" where
  "rx_pending x l s \<longleftrightarrow>
     subseq (got_bytes l @ fifo_contents (rxf s) (memory s) @ [x]) (uart_received (regs s)) \<and>
     length (uart_received (regs s)) = Suc (length (got_bytes l) + unat (fifo_length (rxf s)) + fifo_errors l)"

definition uart_ok :: "uart_env \<Rightarrow> app_uart_buffers \<Rightarrow> uart_log \<Rightarrow> 'b app_uart_state \<Rightarrow> bool" where
  "uart_ok env b l s \<longleftrightarrow> uart_base b s \<and> tx_ok l s \<and> rx_weak (rx_buffer env) s \<and>
     (uart_device (dev (hw env)) \<longrightarrow> rx_ok l s)"

lemmas uart_parts = uart_base_def tx_ok_def rx_weak_def rx_ok_def rx_flags_def rx_got_def

lemma uart_ok_answering [simp]: "uart_ok (answering ans env) b l s = uart_ok env b l s"
  by (simp add: uart_ok_def answering_def)

lemma uart_ok_seen: "same_seen (regs s) t \<Longrightarrow> uart_ok env b l (s\<lparr>regs := t\<rparr>) = uart_ok env b l s"
  by (simp add: uart_ok_def uart_parts same_seen_def)

lemma fifo_contents_outside:
  assumes "fifo_inv f" "same_outside p n m m'" "disjoint_regions p n (p_buf f) (fifo_size f)"
  shows "fifo_contents f m' = fifo_contents f m"
proof -
  have "m' (fifo_slot f q) = m (fifo_slot f q)" for q
    using fifo_slot_range [OF assms(1), of q] assms(2,3)
    by (auto simp: same_outside_def disjoint_regions_def fifo_size_def)
  then show ?thesis by (simp add: fifo_contents_def)
qed

lemma disjoint_regions_sym: "disjoint_regions p n q k = disjoint_regions q k p n"
  by (auto simp: disjoint_regions_def)

subsection \<open>The FIFOs and the driver\<close>

lemma tx_fifo_put_ok:
  assumes "uart_ok env b l s" "uart_memory env b"
  shows "case tx_fifo_put x s of (code, s') \<Rightarrow> user (client s') = user (client s) \<and>
    tx_buffer_length s' = tx_buffer_length s \<and>
    (if code = NRF_SUCCESS then uart_ok env b (log_put x l) s' else s' = s)"
proof -
  let ?f = "txf s"
  have inv: "fifo_inv ?f" "p_buf ?f = tx_buf b" "fifo_size ?f = fifo_bytes (tx_buf_size b)"
    "fifo_inv (rxf s)" "p_buf (rxf s) = rx_buf b" "fifo_size (rxf s) = fifo_bytes (rx_buf_size b)"
    using assms(1) by (simp_all add: uart_ok_def uart_base_def)
  show ?thesis
  proof (cases "unat (fifo_length ?f) < fifo_size ?f")
    case True
    obtain f m where put: "fifo_put ?f x (memory s) = (f, m)" by fastforce
    note P = fifo_contents_put [OF inv(1) True put]
    have rx: "fifo_contents (rxf s) m = fifo_contents (rxf s) (memory s)"
      using P(6) assms(2) by (rule_tac fifo_contents_outside [OF inv(4)])
        (auto simp: inv uart_memory_def disjoint_regions_sym)
    from assms(1) P rx show ?thesis
      by (simp add: tx_fifo_put_def app_fifo_put_room [OF inv(1) True] put set_tx_fifo_def uart_ok_def uart_parts
          log_put_def)
  next
    case False
    with fifo_length_le [OF inv(1)] have "unat (fifo_length ?f) = fifo_size ?f" by simp
    then show ?thesis
      by (simp add: tx_fifo_put_def app_fifo_put_full [OF inv(1)] set_tx_fifo_def)
  qed
qed

lemma tx_fifo_get_empty:
  "fifo_length (txf s) = 0 \<Longrightarrow> tx_fifo_get p s = (NRF_ERROR_NOT_FOUND, s)"
  by (simp add: tx_fifo_get_def app_fifo_get_def set_tx_fifo_def)

text \<open>With a byte in the FIFO and no transmission in progress, the next one is started.\<close>

lemma tx_next:
  assumes ok: "uart_base b s" "uart_memory env b" and some: "fifo_length (txf s) \<noteq> 0"
    and idle: "tx_buffer_length s = 0"
  obtains s1 s2 where "tx_fifo_get (tx_buffer env) s = (NRF_SUCCESS, s1)"
    "nrf_drv_uart_tx (hw env) (tx_buffer env) 1 s1 = Some (NRF_SUCCESS, s2)"
    "tx_live s2" "user (client s2) = user (client s)" "\<And>l. uart_ok env b l s \<Longrightarrow> uart_ok env b l s2"
proof -
  let ?f = "txf s" and ?p = "tx_buffer env"
  have inv: "fifo_inv ?f" "p_buf ?f = tx_buf b" "fifo_size ?f = fifo_bytes (tx_buf_size b)"
    "fifo_inv (rxf s)" "p_buf (rxf s) = rx_buf b" "fifo_size (rxf s) = fifo_bytes (rx_buf_size b)"
    "cb_handler s \<noteq> NULL" "\<not> use_easy_dma s"
    using ok(1) by (simp_all add: uart_base_def)
  have pos: "0 < unat (fifo_length ?f)" using some by (simp add: word_neq_0_conv unat_gt_0)
  have out: "fifo_outside ?f ?p" using ok(2) by (simp add: fifo_outside_def uart_memory_def inv)
  obtain f m where get: "fifo_get ?f ?p (memory s) = (f, m)" by fastforce
  note G = fifo_contents_get [OF inv(1) pos out get]
  have rx: "fifo_contents (rxf s) m = fifo_contents (rxf s) (memory s)"
    using ok(2) by (intro fifo_contents_outside [OF inv(4) G(5)]) (simp add: inv uart_memory_def)
  let ?s1 = "(set_tx_fifo f s)\<lparr>memory := m\<rparr>"
  let ?s2 = "?s1\<lparr>tx_buffer_length := 1, p_tx_buffer := ?p, tx_counter := 1, regs := tx_started (m ?p) (regs s)\<rparr>"
  show thesis
  proof (rule that [of ?s1 ?s2])
    show "tx_fifo_get ?p s = (NRF_SUCCESS, ?s1)"
      by (simp add: tx_fifo_get_def app_fifo_get_some [OF pos] get)
    show "nrf_drv_uart_tx (hw env) ?p 1 ?s1 = Some (NRF_SUCCESS, ?s2)"
      using uart_tx_one [of ?s1 "hw env" ?p] inv idle by (simp add: set_tx_fifo_def)
    show "tx_live ?s2" by (simp add: tx_live_def)
    show "user (client ?s2) = user (client s)" by (simp add: set_tx_fifo_def)
    show "uart_ok env b l ?s2" if "uart_ok env b l s" for l
      using that G rx by (simp add: uart_ok_def uart_parts set_tx_fifo_def tx_started_seen)
  qed
qed

lemma put_start_ok:
  assumes "uart_ok env b l s" "uart_memory env b"
  obtains s' where "app_uart_put_start env s = Some (NRF_SUCCESS, s')" "uart_ok env b l s'" "tx_live s'"
    "user (client s') = user (client s)"
proof (cases "tx_buffer_length s \<noteq> 0")
  case True
  with assms(1) show thesis
    by (intro that [of s]) (simp_all add: app_uart_put_start_def nrf_drv_uart_tx_in_progress_def tx_live_def)
next
  case idle: False
  have base: "uart_base b s" using assms(1) by (simp add: uart_ok_def)
  show thesis
  proof (cases "fifo_length (txf s) = 0")
    case True
    with assms(1) idle show thesis
      by (intro that [of s]) (simp_all add: app_uart_put_start_def nrf_drv_uart_tx_in_progress_def tx_live_def
        tx_fifo_get_empty)
  next
    case False
    from tx_next [OF base assms(2) False] idle obtain s1 s2 where
      "tx_fifo_get (tx_buffer env) s = (NRF_SUCCESS, s1)"
      "nrf_drv_uart_tx (hw env) (tx_buffer env) 1 s1 = Some (NRF_SUCCESS, s2)"
      "tx_live s2" "user (client s2) = user (client s)" "uart_ok env b l s \<Longrightarrow> uart_ok env b l s2" by blast
    with assms(1) idle show thesis
      by (intro that [of s2]) (simp_all add: app_uart_put_start_def nrf_drv_uart_tx_in_progress_def)
  qed
qed

lemma app_uart_put_ok:
  assumes "uart_ok env b l s" "uart_memory env b"
  obtains code s' where "app_uart_put env x s = Some (code, s')" "user (client s') = user (client s)"
    "uart_ok env b (if code = NRF_SUCCESS then log_put x l else l) s'" "tx_live s \<longrightarrow> tx_live s'"
proof -
  obtain c s1 where put: "tx_fifo_put x s = (c, s1)" by fastforce
  note P = tx_fifo_put_ok [OF assms, of x, unfolded put]
  show thesis
  proof (cases "c = NRF_SUCCESS")
    case True
    with P have "uart_ok env b (log_put x l) s1" by simp
    then obtain s' where "app_uart_put_start env s1 = Some (NRF_SUCCESS, s')" "uart_ok env b (log_put x l) s'"
      "tx_live s'" "user (client s') = user (client s1)" using assms(2) by (rule put_start_ok)
    with True P show thesis
      by (intro that [of NRF_SUCCESS s']) (simp_all add: app_uart_put_def put)
  next
    case False
    with P assms(1) show thesis by (intro that [of c s]) (simp_all add: app_uart_put_def put)
  qed
qed

text \<open>A request to receive a byte; it is refused when both buffers are set.\<close>

lemma rx_request_ok:
  assumes "uart_base b s" "rx_weak (rx_buffer env) s"
  obtains code s' where "nrf_drv_uart_rx (hw env) (rx_buffer env) 1 s = Some (code, s')" "client s' = client s"
    "memory s' = memory s" "tx_live s \<longrightarrow> tx_live s'" "\<And>l. uart_ok env b l s \<Longrightarrow> uart_ok env b l s'"
    "\<And>l. rx_buffer_length s = 0 \<Longrightarrow> tx_ok l s \<Longrightarrow>
      (uart_device (dev (hw env)) \<Longrightarrow> rx_got l s \<and> \<not> rx_stopped (regs s)) \<Longrightarrow> uart_ok env b l s'"
    "rx_buffer_length s = 0 \<longrightarrow> code = NRF_SUCCESS"
proof -
  let ?s = "(rx_set (rx_buffer env) s)\<lparr>regs := rx_asked (regs s)\<rparr>"
  show thesis
  proof (rule that [OF uart_rx_one])
    show "cb_handler s \<noteq> NULL" "\<not> use_easy_dma s" "rx_enabled s" using assms by (simp_all add: uart_base_def)
    show "client ?s = client s" "memory ?s = memory s" by (simp_all add: rx_set_def)
    show "tx_live s \<longrightarrow> tx_live ?s" by (simp add: rx_set_def tx_live_def)
    show "uart_ok env b l ?s" if "uart_ok env b l s" for l
      using that by (auto simp: uart_ok_def uart_parts rx_set_def rx_asked_seen)
    show "uart_ok env b l ?s" if "rx_buffer_length s = 0" "tx_ok l s"
      "uart_device (dev (hw env)) \<Longrightarrow> rx_got l s \<and> \<not> rx_stopped (regs s)" for l
      using that assms by (auto simp: uart_ok_def uart_parts rx_set_def rx_asked_seen)
  qed simp
qed

lemma rx_fifo_get_ok:
  assumes "uart_ok env b l s" "dest_ok b (UGet p)"
  obtains code s' where "rx_fifo_get p s = (code, s')" "user (client s') = user (client s)"
    "uart_ok env b (if code = NRF_SUCCESS then log_got (memory s' p) l else l) s'" "tx_live s \<longrightarrow> tx_live s'"
proof (cases "fifo_length (rxf s) = 0")
  case True
  with assms(1) show thesis
    by (intro that [of NRF_ERROR_NOT_FOUND s]) (simp_all add: rx_fifo_get_def app_fifo_get_def set_rx_fifo_def)
next
  case False
  let ?f = "rxf s"
  have inv: "fifo_inv ?f" "p_buf ?f = rx_buf b" "fifo_size ?f = fifo_bytes (rx_buf_size b)"
    "fifo_inv (txf s)" "p_buf (txf s) = tx_buf b" "fifo_size (txf s) = fifo_bytes (tx_buf_size b)"
    using assms(1) by (simp_all add: uart_ok_def uart_base_def)
  have pos: "0 < unat (fifo_length ?f)" using False by (simp add: word_neq_0_conv unat_gt_0)
  have out: "fifo_outside ?f p" using assms(2) by (simp add: fifo_outside_def dest_ok_def inv)
  obtain f m where get: "fifo_get ?f p (memory s) = (f, m)" by fastforce
  note G = fifo_contents_get [OF inv(1) pos out get]
  have tx: "fifo_contents (txf s) m = fifo_contents (txf s) (memory s)"
    using assms(2) by (intro fifo_contents_outside [OF inv(4) G(5)]) (simp add: inv dest_ok_def)
  show thesis
  proof (rule that [of NRF_SUCCESS "(set_rx_fifo f s)\<lparr>memory := m\<rparr>"])
    show "rx_fifo_get p s = (NRF_SUCCESS, (set_rx_fifo f s)\<lparr>memory := m\<rparr>)"
      by (simp add: rx_fifo_get_def app_fifo_get_some [OF pos] get)
  qed (use assms(1) G tx pos in \<open>auto simp: uart_ok_def uart_parts set_rx_fifo_def log_got_def tx_live_def\<close>)
qed

lemma app_uart_get_ok:
  assumes "uart_ok env b l s" "dest_ok b (UGet p)"
  obtains code s' where "app_uart_get env p s = Some (code, s')" "user (client s') = user (client s)"
    "uart_ok env b (if code = NRF_SUCCESS then log_got (memory s' p) l else l) s'" "tx_live s \<longrightarrow> tx_live s'"
proof (cases "fifo_length (rxf s) = ucast (buf_size_mask (rxf s))")
  case False
  obtain code s' where "rx_fifo_get p s = (code, s')" "user (client s') = user (client s)"
    "uart_ok env b (if code = NRF_SUCCESS then log_got (memory s' p) l else l) s'" "tx_live s \<longrightarrow> tx_live s'"
    using assms by (rule rx_fifo_get_ok)
  with False show thesis by (intro that [of code s']) (simp_all add: app_uart_get_def)
next
  case True
  have "uart_base b s" "rx_weak (rx_buffer env) s" using assms(1) by (simp_all add: uart_ok_def)
  then obtain c s1 where rx: "nrf_drv_uart_rx (hw env) (rx_buffer env) 1 s = Some (c, s1)" "client s1 = client s"
    "tx_live s \<longrightarrow> tx_live s1" and "uart_ok env b l s \<Longrightarrow> uart_ok env b l s1" by (rule rx_request_ok) blast
  with assms(1) have ok: "uart_ok env b l s1" by simp
  show thesis
  proof (cases "c = NRF_SUCCESS")
    case False
    with True rx ok show thesis
      by (intro that [of NRF_ERROR_NOT_FOUND s1]) (simp_all add: app_uart_get_def)
  next
    case success: True
    obtain code s' where "rx_fifo_get p s1 = (code, s')" "user (client s') = user (client s1)"
      "uart_ok env b (if code = NRF_SUCCESS then log_got (memory s' p) l else l) s'" "tx_live s1 \<longrightarrow> tx_live s'"
      using ok assms(2) by (rule rx_fifo_get_ok)
    with True success rx show thesis by (intro that [of code s']) (simp_all add: app_uart_get_def)
  qed
qed

subsection \<open>The application\<close>

definition uart_good :: "uart_env \<Rightarrow> app_uart_buffers \<Rightarrow> uart_state \<Rightarrow> bool" where
  "uart_good env b s \<longleftrightarrow> uart_ok env b (user (client s)) s"

lemma uart_ok_logged [simp]: "uart_ok env b l (logged f s) = uart_ok env b l s"
  by (simp add: uart_ok_def uart_parts logged_def)

lemma logged_simps [simp]: "user (client (logged f s)) = f (user (client s))" "tx_live (logged f s) = tx_live s"
  "memory (logged f s) = memory s"
  by (simp_all add: logged_def tx_live_def)

lemma uart_good_answering [simp]: "uart_good (answering ans env) b s = uart_good env b s"
  by (simp add: uart_good_def)

lemma user_op_ok:
  assumes "uart_good env b s" "uart_memory env b" "dest_ok b op"
  obtains s' where "user_op env op s = Some s'" "uart_good env b s'" "tx_live s \<longrightarrow> tx_live s'"
proof (cases op)
  case (UPut x)
  from assms(1) have "uart_ok env b (user (client s)) s" by (simp add: uart_good_def)
  then obtain code s' where "app_uart_put env x s = Some (code, s')" "user (client s') = user (client s)"
    "uart_ok env b (if code = NRF_SUCCESS then log_put x (user (client s)) else user (client s)) s'"
    "tx_live s \<longrightarrow> tx_live s'" using assms(2) by (rule app_uart_put_ok)
  then show thesis
    by (intro that [of "if code = NRF_SUCCESS then logged (log_put x) s' else s'"])
      (simp_all add: UPut uart_good_def split: if_splits)
next
  case (UGet p)
  from assms(1) have "uart_ok env b (user (client s)) s" by (simp add: uart_good_def)
  then obtain code s' where "app_uart_get env p s = Some (code, s')" "user (client s') = user (client s)"
    "uart_ok env b (if code = NRF_SUCCESS then log_got (memory s' p) (user (client s)) else user (client s)) s'"
    "tx_live s \<longrightarrow> tx_live s'" using assms(3) unfolding UGet by (rule app_uart_get_ok)
  then show thesis
    by (intro that [of "if code = NRF_SUCCESS then logged (log_got (memory s' p)) s' else s'"])
      (simp_all add: UGet uart_good_def split: if_splits)
qed

lemma user_ops_ok:
  assumes "uart_good env b s" "uart_memory env b" "list_all (dest_ok b) ops"
  shows "\<exists>s'. user_ops env ops s = Some s' \<and> uart_good env b s' \<and> (tx_live s \<longrightarrow> tx_live s')"
  using assms
proof (induction ops arbitrary: s)
  case (Cons op ops)
  from Cons.prems obtain s1 where "user_op env op s = Some s1" "uart_good env b s1" "tx_live s \<longrightarrow> tx_live s1"
    by (auto elim: user_op_ok)
  with Cons.IH [of s1] Cons.prems show ?case by auto
qed simp

lemma app_event_ok:
  assumes "uart_ok env b (log_event e (user (client s))) s" "uart_memory env b" "answer_ok b ans"
  obtains s' where "app_event (answering ans env) e s = Some s'" "uart_good env b s'" "tx_live s \<longrightarrow> tx_live s'"
proof -
  have "\<exists>s'. user_ops env (ans e s) (logged (log_event e) s) = Some s' \<and> uart_good env b s' \<and>
      (tx_live (logged (log_event e) s) \<longrightarrow> tx_live s')"
    using assms by (intro user_ops_ok) (simp_all add: uart_good_def answer_ok_def)
  then show thesis by (auto simp: app_event_def answering_def intro: that)
qed

subsection \<open>The events of the driver\<close>

lemma subseq_butlast: "subseq (xs @ ys @ [x]) zs \<Longrightarrow> subseq (xs @ ys) zs"
  by (metis append_assoc prefixI prefix_imp_subseq subseq_order.order_trans)

lemma subseq_snoc: "subseq (xs @ ys) zs \<Longrightarrow> subseq (xs @ ys @ [x]) (zs @ [x])"
  by (metis append_assoc list_emb_append_mono subseq_order.order_refl)

lemma rx_got_pending:
  assumes "rx_got l s" "rxf s' = rxf s" "fifo_contents (rxf s) (memory s') = fifo_contents (rxf s) (memory s)"
    "uart_received (regs s') = uart_received (regs s) @ [x]"
  shows "rx_pending x l s'"
  using assms by (simp add: rx_got_def rx_pending_def subseq_snoc)

lemma rx_fifo_put_pending:
  assumes base: "uart_base b s" and mem: "uart_memory env b" and tx: "tx_ok l s" and weak: "rx_weak (rx_buffer env) s"
    and rx: "uart_device (dev (hw env)) \<Longrightarrow> rx_flags s \<and> rx_pending x l s"
  obtains code s' where "rx_fifo_put x s = (code, s')" "user (client s') = user (client s)"
    "uart_ok env b (if code = NRF_SUCCESS then l else log_event (APP_UART_FIFO_ERROR code) l) s'"
    "tx_live s \<longrightarrow> tx_live s'"
proof -
  let ?f = "rxf s"
  have inv: "fifo_inv ?f" "p_buf ?f = rx_buf b" "fifo_size ?f = fifo_bytes (rx_buf_size b)"
    "fifo_inv (txf s)" "p_buf (txf s) = tx_buf b" "fifo_size (txf s) = fifo_bytes (tx_buf_size b)"
    using base by (simp_all add: uart_base_def)
  show thesis
  proof (cases "unat (fifo_length ?f) < fifo_size ?f")
    case True
    obtain f m where put: "fifo_put ?f x (memory s) = (f, m)" by fastforce
    note P = fifo_contents_put [OF inv(1) True put]
    have out: "fifo_contents (txf s) m = fifo_contents (txf s) (memory s)"
      using P(6) mem by (rule_tac fifo_contents_outside [OF inv(4)]) (auto simp: inv uart_memory_def)
    have ok: "uart_ok env b l ((set_rx_fifo f s)\<lparr>memory := m\<rparr>)"
      using base tx weak rx P out
      by (simp add: uart_ok_def uart_parts set_rx_fifo_def rx_pending_def)
    show thesis
      by (rule that [of NRF_SUCCESS "(set_rx_fifo f s)\<lparr>memory := m\<rparr>"])
        (simp_all add: rx_fifo_put_def app_fifo_put_room [OF inv(1) True] put ok, simp_all add: set_rx_fifo_def tx_live_def)
  next
    case False
    with fifo_length_le [OF inv(1)] have full: "unat (fifo_length ?f) = fifo_size ?f" by simp
    have "uart_ok env b (log_event (APP_UART_FIFO_ERROR NRF_ERROR_NO_MEM) l) s"
      using base tx weak rx by (auto simp: uart_ok_def uart_parts rx_pending_def dest: subseq_butlast)
    then show thesis
      by (intro that [of NRF_ERROR_NO_MEM s])
        (simp_all add: rx_fifo_put_def app_fifo_put_full [OF inv(1) full] set_rx_fifo_def)
  qed
qed

lemma answering_simps [simp]:
  "hw (answering ans env) = hw env" "tx_buffer (answering ans env) = tx_buffer env"
  "rx_buffer (answering ans env) = rx_buffer env"
  by (simp_all add: answering_def)

lemma rx_request_good:
  assumes "uart_good env b s"
  obtains code s' where "nrf_drv_uart_rx (hw env) (rx_buffer env) 1 s = Some (code, s')" "uart_good env b s'"
    "tx_live s \<longrightarrow> tx_live s'"
proof -
  have "uart_base b s" "rx_weak (rx_buffer env) s" using assms by (simp_all add: uart_good_def uart_ok_def)
  then obtain code s' where "nrf_drv_uart_rx (hw env) (rx_buffer env) 1 s = Some (code, s')" "client s' = client s"
    "tx_live s \<longrightarrow> tx_live s'" "\<And>l. uart_ok env b l s \<Longrightarrow> uart_ok env b l s'" by (rule rx_request_ok) blast
  with assms show thesis by (intro that [of code s']) (simp_all add: uart_good_def)
qed

lemma rx_done_ok:
  assumes base: "uart_base b s" "uart_memory env b" "tx_ok (user (client s)) s" "rx_weak (rx_buffer env) s"
    and rx: "uart_device (dev (hw env)) \<Longrightarrow> rx_flags s \<and> rx_pending (memory s p) (user (client s)) s"
    and ans: "answer_ok b ans"
  obtains s' where "uart_event_handler (answering ans env) (NRF_DRV_UART_EVT_RX_DONE p n) ctx s = Some s'"
    "uart_good env b s'" "tx_live s \<longrightarrow> tx_live s'"
proof -
  let ?env = "answering ans env"
  obtain code s1 where put: "rx_fifo_put (memory s p) s = (code, s1)" and user: "user (client s1) = user (client s)"
    and ok1: "uart_ok env b (if code = NRF_SUCCESS then user (client s)
      else log_event (APP_UART_FIFO_ERROR code) (user (client s))) s1" and live1: "tx_live s \<longrightarrow> tx_live s1"
    using base rx by (rule rx_fifo_put_pending)
  have "\<exists>s2. (if code \<noteq> NRF_SUCCESS then app_event ?env (APP_UART_FIFO_ERROR code) s1
      else if fifo_length (rxf s1) = 1 then app_event ?env APP_UART_DATA_READY s1 else Some s1) = Some s2 \<and>
    uart_good env b s2 \<and> (tx_live s1 \<longrightarrow> tx_live s2)"
  proof (cases "code = NRF_SUCCESS \<and> fifo_length (rxf s1) \<noteq> 1")
    case True
    with ok1 user show ?thesis by (simp add: uart_good_def)
  next
    case False
    define e where "e = (if code \<noteq> NRF_SUCCESS then APP_UART_FIFO_ERROR code else APP_UART_DATA_READY)"
    have "uart_ok env b (log_event e (user (client s1))) s1" using ok1 user by (cases "code = NRF_SUCCESS") (simp_all add: e_def)
    then obtain s2 where "app_event ?env e s1 = Some s2" "uart_good env b s2" "tx_live s1 \<longrightarrow> tx_live s2"
      using base(2) ans by (rule app_event_ok)
    with False show ?thesis by (auto simp: e_def)
  qed
  then obtain s2 where s2: "(if code \<noteq> NRF_SUCCESS then app_event ?env (APP_UART_FIFO_ERROR code) s1
      else if fifo_length (rxf s1) = 1 then app_event ?env APP_UART_DATA_READY s1 else Some s1) = Some s2"
    and good: "uart_good env b s2" and live2: "tx_live s1 \<longrightarrow> tx_live s2" by blast
  obtain c s3 where "nrf_drv_uart_rx (hw env) (rx_buffer env) 1 s2 = Some (c, s3)" "uart_good env b s3"
    "tx_live s2 \<longrightarrow> tx_live s3" using good by (rule rx_request_good)
  with s2 good live1 live2 show thesis
    by (intro that [of "if fifo_length (rxf s2) \<le> ucast (buf_size_mask (rxf s2)) then s3 else s2"])
      (simp_all add: put)
qed

lemma tx_done_ok:
  assumes good: "uart_good env b s" and mem: "uart_memory env b" and idle: "tx_buffer_length s = 0"
    and ans: "answer_ok b ans"
  obtains s' where "uart_event_handler (answering ans env) (NRF_DRV_UART_EVT_TX_DONE p n) ctx s = Some s'"
    "uart_good env b s'" "tx_live s'"
proof -
  let ?env = "answering ans env"
  note finish = that
  have notify: thesis if "(case tx_fifo_get (tx_buffer env) s of (err_code, s) \<Rightarrow>
      if err_code = NRF_SUCCESS then map_option snd (nrf_drv_uart_tx (hw env) (tx_buffer env) 1 s) else Some s) = Some s2"
    "uart_good env b s2" "tx_live s2" for s2
  proof (cases "fifo_length (txf s2) = 0")
    case False
    with that show thesis by (intro finish [of s2]) (auto split: prod.splits)
  next
    case True
    from that(2) have "uart_ok env b (log_event APP_UART_TX_EMPTY (user (client s2))) s2" by (simp add: uart_good_def)
    then obtain s3 where "app_event ?env APP_UART_TX_EMPTY s2 = Some s3" "uart_good env b s3" "tx_live s2 \<longrightarrow> tx_live s3"
      using mem ans by (rule app_event_ok)
    with True that show thesis by (intro finish [of s3]) (auto split: prod.splits)
  qed
  show thesis
  proof (cases "fifo_length (txf s) = 0")
    case True
    then show thesis
      by (intro notify [of s]) (simp_all add: tx_fifo_get_empty good tx_live_def)
  next
    case False
    have base: "uart_base b s" using good by (simp add: uart_good_def uart_ok_def)
    from tx_next [OF base mem False idle] obtain s1 s2 where "tx_fifo_get (tx_buffer env) s = (NRF_SUCCESS, s1)"
      "nrf_drv_uart_tx (hw env) (tx_buffer env) 1 s1 = Some (NRF_SUCCESS, s2)"
      "tx_live s2" "user (client s2) = user (client s)"
      "uart_ok env b (user (client s)) s \<Longrightarrow> uart_ok env b (user (client s)) s2" by blast
    with good show thesis by (intro notify [of s2]) (simp_all add: uart_good_def)
  qed
qed

lemma error_ok:
  assumes base: "uart_base b s" "uart_memory env b" "tx_ok (user (client s)) s"
    and idle: "rx_buffer_length s = 0" "rx_secondary_buffer_length s = 0"
    and rx: "uart_device (dev (hw env)) \<Longrightarrow> rx_got (user (client s)) s \<and> \<not> rx_stopped (regs s)"
    and ans: "answer_ok b ans"
  obtains s' where "uart_event_handler (answering ans env) (NRF_DRV_UART_EVT_ERROR p n em) ctx s = Some s'"
    "uart_good env b s'" "tx_live s \<longrightarrow> tx_live s'"
proof -
  have "rx_weak (rx_buffer env) s" using idle by (simp add: rx_weak_def)
  with base(1) obtain code s1 where s1: "nrf_drv_uart_rx (hw env) (rx_buffer env) 1 s = Some (code, s1)"
    "client s1 = client s" "tx_live s \<longrightarrow> tx_live s1" "\<And>l. rx_buffer_length s = 0 \<Longrightarrow> tx_ok l s \<Longrightarrow>
      (uart_device (dev (hw env)) \<Longrightarrow> rx_got l s \<and> \<not> rx_stopped (regs s)) \<Longrightarrow> uart_ok env b l s1"
    by (rule rx_request_ok) blast
  have "uart_ok env b (log_event (APP_UART_COMMUNICATION_ERROR em) (user (client s1))) s1"
    using s1(2) by (simp add: s1(4) [OF idle(1) base(3) rx])
  then obtain s2 where "app_event (answering ans env) (APP_UART_COMMUNICATION_ERROR em) s1 = Some s2"
    "uart_good env b s2" "tx_live s1 \<longrightarrow> tx_live s2" using base(2) ans by (rule app_event_ok)
  with s1 show thesis by (intro that [of s2]) simp_all
qed

subsection \<open>Interrupts\<close>

lemma uart_good_parts:
  assumes "uart_good env b s"
  shows "uart_base b s" "tx_ok (user (client s)) s" "rx_weak (rx_buffer env) s"
    "uart_device (dev (hw env)) \<Longrightarrow> rx_flags s \<and> rx_got (user (client s)) s"
  using assms by (simp_all add: uart_good_def uart_ok_def rx_ok_def)

lemma uart_good_seen: "same_seen (regs s) t \<Longrightarrow> uart_good env b (s\<lparr>regs := t\<rparr>) = uart_good env b s"
  by (simp add: uart_good_def uart_ok_seen)

lemma tx_live_regs [simp]: "tx_live (s\<lparr>regs := t\<rparr>) = tx_live s"
  by (simp add: tx_live_def)

lemma irq_error_ok:
  assumes good: "uart_good env b s" and mem: "uart_memory env b" and ans: "answer_ok b ans"
  obtains s' where "uart_irq_error (dev (hw env)) (call_uart_event_handler (answering ans env)) s = Some s'"
    "uart_good env b s'" "tx_live s \<longrightarrow> tx_live s'"
proof -
  note P = uart_good_parts [OF good]
  have en: "rx_enabled s" using P(1) by (simp add: uart_base_def)
  define t where "t = nrf_uart_int_disable NRF_UART0 rx_ints (nrf_uart_event_clear NRF_UART0 NRF_UART_EVENT_ERROR (regs s))"
  have t: "uart_sent t = uart_sent (regs s)" "uart_received t = uart_received (regs s)" "rx_stopped t = rx_stopped (regs s)"
    using seen_event_clear [of "regs s" NRF_UART_EVENT_ERROR] by (simp_all add: t_def rx_ints_seen same_seen_def)
  obtain v t' where v: "nrf_uart_errorsrc_get_and_clear (dev (hw env)) NRF_UART0 t = (v, t')" by fastforce
  note t' = errorsrc_seen [OF v]
  let ?s = "s\<lparr>regs := t', rx_buffer_length := 0, rx_secondary_buffer_length := 0\<rparr>"
  have "uart_base b ?s" "tx_ok (user (client ?s)) ?s" "rx_buffer_length ?s = 0" "rx_secondary_buffer_length ?s = 0"
    "uart_device (dev (hw env)) \<Longrightarrow> rx_got (user (client ?s)) ?s \<and> \<not> rx_stopped (regs ?s)"
    using P t t' by (simp_all add: uart_parts same_seen_def)
  then obtain s' where "uart_event_handler (answering ans env)
      (NRF_DRV_UART_EVT_ERROR (p_rx_buffer s) (rx_buffer_length s) v) (p_context s) ?s = Some s'"
    "uart_good env b s'" "tx_live ?s \<longrightarrow> tx_live s'"
    using mem ans by (rule_tac error_ok) auto
  then show thesis
    by (intro that [of s']) (simp_all add: uart_irq_error_def Let_def wr_def rd_def en t_def [symmetric]
      rx_ints_def [symmetric] v call_uart_event_handler_def tx_live_def)
qed

lemma irq_rxdrdy_set:
  assumes good: "uart_good env b s" and mem: "uart_memory env b" and ans: "answer_ok b ans"
    and set: "rx_buffer_length s \<noteq> 0"
  obtains s' where "uart_irq_rxdrdy (dev (hw env)) (call_uart_event_handler (answering ans env)) s = Some s'"
    "uart_good env b s'" "tx_live s \<longrightarrow> tx_live s'"
proof -
  note P = uart_good_parts [OF good]
  let ?p = "rx_buffer env"
  have w: "rx_buffer_length s = 1" "p_rx_buffer s = ?p" "rx_counter s = 0" "rx_enabled s"
    using P(1,3) set by (simp_all add: rx_weak_def uart_base_def)
  have inv: "fifo_inv (rxf s)" "p_buf (rxf s) = rx_buf b" "fifo_size (rxf s) = fifo_bytes (rx_buf_size b)"
    "fifo_inv (txf s)" "p_buf (txf s) = tx_buf b" "fifo_size (txf s) = fifo_bytes (tx_buf_size b)"
    using P(1) by (simp_all add: uart_base_def)
  define t where "t = nrf_uart_event_clear NRF_UART0 NRF_UART_EVENT_RXDRDY (regs s)"
  have t: "same_seen (regs s) t" by (simp add: t_def)
  obtain v t' where v: "nrf_uart_rxd_get (dev (hw env)) NRF_UART0 t = (v, t')" by fastforce
  note t' = rxd_get_seen [OF v]
  let ?m = "(memory s)(?p := v)"
  have out: "fifo_contents (rxf s) ?m = fifo_contents (rxf s) (memory s)"
    "fifo_contents (txf s) ?m = fifo_contents (txf s) (memory s)"
    using mem by (auto intro!: fifo_contents_outside [where p = ?p and n = 1] inv
      simp: inv uart_memory_def same_outside_def)
  let ?s = "s\<lparr>regs := t', memory := ?m, rx_counter := 1\<rparr>"
  have rx: "rx_byte (dev (hw env)) s = ?s"
    by (simp add: rx_byte_def w wr_def rd_def Let_def t_def [symmetric] v)
  show thesis
  proof (cases "rx_secondary_buffer_length s = 0")
    case False
    let ?s2 = "?s\<lparr>rx_buffer_length := 1, p_rx_buffer := ?p, rx_secondary_buffer_length := 0, rx_counter := 0\<rparr>"
    have sec: "rx_secondary_buffer_length s = 1" "p_rx_secondary_buffer s = ?p"
      using P(3) False by (simp_all add: rx_weak_def)
    have s2: "uart_base b ?s2" "tx_ok (user (client ?s2)) ?s2" "rx_weak ?p ?s2"
      using P(1-3) t t' by (simp_all add: uart_base_def tx_ok_def rx_weak_def same_seen_def out)
    have dv: "rx_flags ?s2 \<and> rx_pending (memory ?s2 ?p) (user (client ?s2)) ?s2" if "uart_device (dev (hw env))"
      using P(4) [OF that] t t' by (auto simp: rx_flags_def same_seen_def out intro!: rx_got_pending [of _ s])
    obtain s' where "uart_event_handler (answering ans env)
        (NRF_DRV_UART_EVT_RX_DONE ?p 1) (p_context s) ?s2 = Some s'" "uart_good env b s'" "tx_live ?s2 \<longrightarrow> tx_live s'"
      using s2(1) mem s2(2,3) dv ans by (rule rx_done_ok)
    then show thesis
      by (intro that [of s']) (simp_all add: uart_irq_rxdrdy_def rx Let_def w sec rx_done_event_def
        call_uart_event_handler_def tx_live_def)
  next
    case True
    define t2 where "t2 = nrf_uart_int_disable NRF_UART0 rx_ints t'"
    let ?s2 = "?s\<lparr>regs := t2, rx_buffer_length := 0\<rparr>"
    have t2: "uart_sent t2 = uart_sent t'" "uart_received t2 = uart_received t'" "rx_stopped t2 = rx_stopped t'"
      "\<not> rx_int_on t2" by (simp_all add: t2_def rx_ints_seen rx_ints_rxdrdy)
    have s2: "uart_base b ?s2" "tx_ok (user (client ?s2)) ?s2" "rx_weak ?p ?s2"
      using P(1-3) t t' t2 True by (simp_all add: uart_base_def tx_ok_def rx_weak_def same_seen_def out)
    have dv: "rx_flags ?s2 \<and> rx_pending (memory ?s2 ?p) (user (client ?s2)) ?s2" if "uart_device (dev (hw env))"
      using P(4) [OF that] t t' t2 True
      by (auto simp: rx_flags_def same_seen_def out intro!: rx_got_pending [of _ s])
    obtain s' where "uart_event_handler (answering ans env)
        (NRF_DRV_UART_EVT_RX_DONE ?p 1) (p_context s) ?s2 = Some s'" "uart_good env b s'" "tx_live ?s2 \<longrightarrow> tx_live s'"
      using s2(1) mem s2(2,3) dv ans by (rule rx_done_ok)
    then show thesis
      by (intro that [of s']) (simp_all add: uart_irq_rxdrdy_def rx Let_def w True rx_done_event_def wr_def
        rx_ints_def [symmetric] t2_def [symmetric] call_uart_event_handler_def tx_live_def)
  qed
qed

text \<open>A byte that nobody asked for: only a device that breaks its specification gives one.\<close>

lemma irq_rxdrdy_unset:
  assumes good: "uart_good env b s" and mem: "uart_memory env b" and ans: "answer_ok b ans"
    and unset: "rx_buffer_length s = 0" and odd: "\<not> uart_device (dev (hw env))"
  obtains s' where "uart_irq_rxdrdy (dev (hw env)) (call_uart_event_handler (answering ans env)) s = Some s'"
    "uart_good env b s'" "tx_live s \<longrightarrow> tx_live s'"
proof -
  note P = uart_good_parts [OF good]
  have en: "rx_enabled s" using P(1) by (simp add: uart_base_def)
  define t where "t = nrf_uart_event_clear NRF_UART0 NRF_UART_EVENT_RXDRDY (regs s)"
  have t: "same_seen (regs s) t" by (simp add: t_def)
  obtain v t' where v: "nrf_uart_rxd_get (dev (hw env)) NRF_UART0 t = (v, t')" by fastforce
  note t' = rxd_get_seen [OF v]
  let ?s = "s\<lparr>regs := t'\<rparr>"
  have rx: "rx_byte (dev (hw env)) s = ?s"
    by (simp add: rx_byte_def unset wr_def rd_def Let_def t_def [symmetric] v)
  have dv: "rx_flags s2 \<and> rx_pending x l s2" if "uart_device (dev (hw env))" for s2 x l
    using that odd by simp
  show thesis
  proof (cases "rx_counter s = 0")
    case False
    have "uart_good env b ?s"
      using P(1-3) t t' odd by (simp add: uart_good_def uart_ok_def uart_base_def tx_ok_def rx_weak_def same_seen_def)
    with False show thesis by (intro that [of ?s]) (simp_all add: uart_irq_rxdrdy_def rx Let_def unset)
  next
    case zero: True
    show thesis
    proof (cases "rx_secondary_buffer_length s = 0")
      case False
      let ?s2 = "?s\<lparr>rx_buffer_length := 1, p_rx_buffer := rx_buffer env, rx_secondary_buffer_length := 0,
        rx_counter := 0\<rparr>"
      have sec: "rx_secondary_buffer_length s = 1" "p_rx_secondary_buffer s = rx_buffer env"
        using P(3) False by (simp_all add: rx_weak_def)
      have s2: "uart_base b ?s2" "tx_ok (user (client ?s2)) ?s2" "rx_weak (rx_buffer env) ?s2"
        using P(1-3) t t' by (simp_all add: uart_base_def tx_ok_def rx_weak_def same_seen_def)
      obtain s' where "uart_event_handler (answering ans env)
          (NRF_DRV_UART_EVT_RX_DONE (p_rx_buffer s) 0) (p_context s) ?s2 = Some s'" "uart_good env b s'"
        "tx_live ?s2 \<longrightarrow> tx_live s'"
        using s2(1) mem s2(2,3) dv ans by (rule rx_done_ok)
      then show thesis
        by (intro that [of s']) (simp_all add: uart_irq_rxdrdy_def rx Let_def unset zero sec rx_done_event_def
          call_uart_event_handler_def tx_live_def)
    next
      case True
      define t2 where "t2 = nrf_uart_int_disable NRF_UART0 rx_ints t'"
      let ?s2 = "?s\<lparr>regs := t2, rx_buffer_length := 0\<rparr>"
      have s2: "uart_base b ?s2" "tx_ok (user (client ?s2)) ?s2" "rx_weak (rx_buffer env) ?s2"
        using P(1-3) t t' True by (simp_all add: uart_base_def tx_ok_def rx_weak_def same_seen_def t2_def rx_ints_seen)
      obtain s' where "uart_event_handler (answering ans env)
          (NRF_DRV_UART_EVT_RX_DONE (p_rx_buffer s) 0) (p_context s) ?s2 = Some s'" "uart_good env b s'"
        "tx_live ?s2 \<longrightarrow> tx_live s'"
        using s2(1) mem s2(2,3) dv ans by (rule rx_done_ok)
      then show thesis
        by (intro that [of s']) (simp_all add: uart_irq_rxdrdy_def rx Let_def unset zero True en rx_done_event_def
          wr_def rx_ints_def [symmetric] t2_def [symmetric] call_uart_event_handler_def tx_live_def)
    qed
  qed
qed

lemma irq_rx_ok:
  assumes good: "uart_good env b s" and mem: "uart_memory env b" and ans: "answer_ok b ans"
  obtains s' where "uart_irq_rx (dev (hw env)) (call_uart_event_handler (answering ans env)) s = Some s'"
    "uart_good env b s'" "tx_live s \<longrightarrow> tx_live s'"
proof -
  let ?d = "dev (hw env)" and ?c = "call_uart_event_handler (answering ans env)"
  obtain er s1 where i1: "int_event ?d NRF_UART_INT_MASK_ERROR NRF_UART_EVENT_ERROR s = (er, s1)" by fastforce
  obtain t1 where t1: "s1 = s\<lparr>regs := t1\<rparr>" "same_seen (regs s) t1"
    using i1 by (rule int_event_seen)
  have g1: "uart_good env b s1" using good t1 by (simp add: uart_good_seen)
  have l1: "tx_live s1 = tx_live s" by (simp add: t1)
  show thesis
  proof (cases er)
    case True
    from g1 mem ans obtain s' where "uart_irq_error ?d ?c s1 = Some s'" "uart_good env b s'" "tx_live s1 \<longrightarrow> tx_live s'"
      by (rule irq_error_ok)
    with True i1 l1 show thesis by (intro that [of s']) (simp_all add: uart_irq_rx_def)
  next
    case no_error: False
    obtain rr s2 where i2: "int_event ?d NRF_UART_INT_MASK_RXDRDY NRF_UART_EVENT_RXDRDY s1 = (rr, s2)" by fastforce
    obtain t2 where t2: "s2 = s1\<lparr>regs := t2\<rparr>" "same_seen (regs s1) t2"
      "rr \<Longrightarrow> ?d (regs s1) (NRF_UART0 + UART_INTENSET) AND NRF_UART_INT_MASK_RXDRDY \<noteq> 0"
      using i2 by (rule int_event_seen) blast
    have g2: "uart_good env b s2" using g1 t2 by (simp add: uart_good_seen)
    have l2: "tx_live s2 = tx_live s" by (simp add: t2 l1)
    show thesis
    proof (cases rr)
      case False
      with no_error i1 i2 g2 l2 show thesis by (intro that [of s2]) (simp_all add: uart_irq_rx_def)
    next
      case True
      have set: "rx_buffer_length s2 \<noteq> 0" if "uart_device ?d"
      proof -
        have "rx_int_on (regs s1)" using that t2(3) [OF True] by (simp add: uart_device_def)
        then have "rx_int_on (regs s2)" using t2 by (simp add: same_seen_def)
        with uart_good_parts(4) [OF g2 that] show ?thesis by (simp add: rx_flags_def)
      qed
      obtain s' where "uart_irq_rxdrdy ?d ?c s2 = Some s'" "uart_good env b s'" "tx_live s2 \<longrightarrow> tx_live s'"
      proof (cases "rx_buffer_length s2 = 0")
        case False
        from g2 mem ans False show thesis by (rule irq_rxdrdy_set) (rule that)
      next
        case True
        with set have "\<not> uart_device ?d" by blast
        with g2 mem ans True show thesis by (rule irq_rxdrdy_unset) (rule that)
      qed
      with True no_error i1 i2 l2 show thesis by (intro that [of s']) (simp_all add: uart_irq_rx_def)
    qed
  qed
qed

lemma event_rd_seen:
  assumes "rd (nrf_uart_event_check d NRF_UART0 e) s = (r, s1)"
  obtains t where "s1 = s\<lparr>regs := t\<rparr>" "same_seen (regs s) t"
    "r = (d (regs s) (NRF_UART0 + uart_event_offset e) \<noteq> 0)"
proof -
  obtain r' t where "nrf_uart_event_check d NRF_UART0 e (regs s) = (r', t)" by fastforce
  with assms event_check_seen [OF this] show thesis by (intro that [of t]) (simp_all add: rd_def)
qed

lemma irq_tx_ok:
  assumes good: "uart_good env b s" and mem: "uart_memory env b" and ans: "answer_ok b ans"
  obtains s' where "uart_irq_tx (dev (hw env)) (call_uart_event_handler (answering ans env)) s = Some s'"
    "uart_good env b s'" "tx_live s \<longrightarrow> tx_live s'"
proof -
  let ?d = "dev (hw env)" and ?c = "call_uart_event_handler (answering ans env)"
  obtain r s1 where i: "rd (nrf_uart_event_check ?d NRF_UART0 NRF_UART_EVENT_TXDRDY) s = (r, s1)" by fastforce
  obtain t where t: "s1 = s\<lparr>regs := t\<rparr>" "same_seen (regs s) t" using i by (rule event_rd_seen)
  have g1: "uart_good env b s1" and l1: "tx_live s1 = tx_live s" using good t by (simp_all add: uart_good_seen)
  show thesis
  proof (cases r)
    case False
    with i g1 l1 show thesis by (intro that [of s1]) (simp_all add: uart_irq_tx_def)
  next
    case True
    define s2 where "s2 = wr (nrf_uart_event_clear NRF_UART0 NRF_UART_EVENT_TXDRDY) s1"
    have g2: "uart_good env b s2" and l2: "tx_live s2 = tx_live s"
      using g1 l1 by (simp_all add: s2_def wr_def uart_good_seen)
    have idle: "\<not> tx_counter s1 < ucast (tx_buffer_length s1)"
      using uart_good_parts(2) [OF g1] by (auto simp: tx_ok_def)
    have same: "tx_buffer_length s1 = tx_buffer_length s2" by (simp add: s2_def wr_def)
    show thesis
    proof (cases "tx_buffer_length s2 = 0")
      case zero: True
      with i True g2 l2 idle same show thesis
        by (intro that [of s2]) (simp_all add: uart_irq_tx_def s2_def)
    next
      case some: False
      let ?s3 = "s2\<lparr>tx_buffer_length := 0\<rparr>"
      have "uart_good env b ?s3"
        using g2 by (simp add: uart_good_def uart_ok_def uart_parts)
      then obtain s' where "uart_event_handler (answering ans env)
          (NRF_DRV_UART_EVT_TX_DONE (p_tx_buffer s2) (tx_buffer_length s2)) (p_context s2) ?s3 = Some s'"
        "uart_good env b s'" "tx_live s'"
        using mem ans by (rule_tac tx_done_ok) auto
      with i True some idle same show thesis
        by (intro that [of s']) (simp_all add: uart_irq_tx_def tx_done_event_def Let_def s2_def [symmetric]
          call_uart_event_handler_def)
    qed
  qed
qed

lemma irq_rxto_ok:
  assumes good: "uart_good env b s" and mem: "uart_memory env b" and ans: "answer_ok b ans"
  obtains s' where "uart_irq_rxto (dev (hw env)) (call_uart_event_handler (answering ans env)) s = Some s'"
    "uart_good env b s'" "tx_live s \<longrightarrow> tx_live s'"
proof -
  let ?d = "dev (hw env)"
  have en: "rx_enabled s" using uart_good_parts(1) [OF good] by (simp add: uart_base_def)
  obtain r s1 where i: "rd (nrf_uart_event_check ?d NRF_UART0 NRF_UART_EVENT_RXTO) s = (r, s1)" by fastforce
  obtain t where t: "s1 = s\<lparr>regs := t\<rparr>" "same_seen (regs s) t"
    "r = (?d (regs s) (NRF_UART0 + uart_event_offset NRF_UART_EVENT_RXTO) \<noteq> 0)" using i by (rule event_rd_seen)
  have g1: "uart_good env b s1" and l1: "tx_live s1 = tx_live s" using good t by (simp_all add: uart_good_seen)
  show thesis
  proof (cases r)
    case False
    with i g1 l1 show thesis by (intro that [of s1]) (simp_all add: uart_irq_rxto_def)
  next
    case True
    have odd: "\<not> uart_device ?d"
      using True t(3) uart_good_parts(4) [OF good] by (auto simp: uart_device_def rx_flags_def)
    define s2 where "s2 = wr (nrf_uart_task_trigger NRF_UART0 NRF_UART_TASK_STARTRX)
      (wr (nrf_uart_event_clear NRF_UART0 NRF_UART_EVENT_RXTO) s1)"
    have g2: "uart_good env b s2" and l2: "tx_live s2 = tx_live s"
      using g1 l1 same_seen_trans [OF seen_event_clear seen_task_trigger [of NRF_UART_TASK_STARTRX]]
      by (simp_all add: s2_def wr_def uart_good_seen)
    have step: "uart_irq_rxto ?d c s =
        (if rx_buffer_length s2 \<noteq> 0
         then rx_done_event c (rx_counter s2) (p_rx_buffer s2) (s2\<lparr>rx_buffer_length := 0\<rparr>) else Some s2)" for c
      using i True en by (simp add: uart_irq_rxto_def Let_def s2_def wr_def t(1))
    show thesis
    proof (cases "rx_buffer_length s2 = 0")
      case True
      with step g2 l2 show thesis by (intro that [of s2]) simp_all
    next
      case False
      let ?s3 = "s2\<lparr>rx_buffer_length := 0\<rparr>"
      note P = uart_good_parts [OF g2]
      have s3: "uart_base b ?s3" "tx_ok (user (client ?s3)) ?s3" "rx_weak (rx_buffer env) ?s3"
        using P(1-3) by (simp_all add: uart_base_def tx_ok_def rx_weak_def)
      have dv: "rx_flags ?s3 \<and> rx_pending x l ?s3" if "uart_device ?d" for x l using that odd by simp
      obtain s' where "uart_event_handler (answering ans env)
          (NRF_DRV_UART_EVT_RX_DONE (p_rx_buffer s2) (rx_counter s2)) (p_context s2) ?s3 = Some s'" "uart_good env b s'"
        "tx_live ?s3 \<longrightarrow> tx_live s'"
        using s3(1) mem s3(2,3) dv ans by (rule rx_done_ok)
      with step False l2 show thesis
        by (intro that [of s']) (simp_all add: rx_done_event_def call_uart_event_handler_def tx_live_def)
    qed
  qed
qed

lemma uart_irq_ok:
  assumes good: "uart_good env b s" and mem: "uart_memory env b" and ans: "answer_ok b ans"
  obtains s' where "UART0_IRQHandler (dev (hw env)) (call_uart_event_handler (answering ans env)) s = Some s'"
    "uart_good env b s'" "tx_live s \<longrightarrow> tx_live s'"
proof -
  have dma: "\<not> use_easy_dma s" using uart_good_parts(1) [OF good] by (simp add: uart_base_def)
  obtain s1 where s1: "uart_irq_rx (dev (hw env)) (call_uart_event_handler (answering ans env)) s = Some s1"
    "uart_good env b s1" "tx_live s \<longrightarrow> tx_live s1" using good mem ans by (rule irq_rx_ok)
  obtain s2 where s2: "uart_irq_tx (dev (hw env)) (call_uart_event_handler (answering ans env)) s1 = Some s2"
    "uart_good env b s2" "tx_live s1 \<longrightarrow> tx_live s2" using s1(2) mem ans by (rule irq_tx_ok)
  obtain s3 where "uart_irq_rxto (dev (hw env)) (call_uart_event_handler (answering ans env)) s2 = Some s3"
    "uart_good env b s3" "tx_live s2 \<longrightarrow> tx_live s3" using s2(2) mem ans by (rule irq_rxto_ok)
  with s1 s2 dma show thesis
    by (intro that [of s3]) (simp_all add: UART0_IRQHandler_def uart_irq_handler_def)
qed

lemma interrupts_ok:
  assumes "uart_good env b s" "uart_memory env b" "answer_ok b ans"
  shows "\<exists>s'. interrupts (answering ans env) n s = Some s' \<and> uart_good env b s' \<and> (tx_live s \<longrightarrow> tx_live s')"
  using assms(1)
proof (induction n arbitrary: s)
  case (Suc n)
  obtain s1 where "UART0_IRQHandler (dev (hw env)) (call_uart_event_handler (answering ans env)) s = Some s1"
    "uart_good env b s1" "tx_live s \<longrightarrow> tx_live s1" using Suc.prems assms(2,3) by (rule uart_irq_ok)
  with Suc.IH [of s1] show ?case by auto
qed simp

subsection \<open>Runs of the module\<close>

lemma uart_memory_answering [simp]: "uart_memory (answering ans env) b = uart_memory env b"
  by (simp add: uart_memory_def)

lemma do_step_ok:
  assumes good: "uart_good env b s" and mem: "uart_memory env b" and ans: "answer_ok b ans" and ok: "step_ok b x"
  shows "\<exists>s'. do_step (answering ans env) x s = Some s' \<and> uart_good env b s' \<and> (tx_live s \<longrightarrow> tx_live s')"
proof (cases x)
  case (Call op)
  with ok have "dest_ok b op" by (simp add: step_ok_def)
  moreover have "uart_good (answering ans env) b s" "uart_memory (answering ans env) b"
    using good mem by simp_all
  ultimately obtain s' where "user_op (answering ans env) op s = Some s'" "uart_good (answering ans env) b s'"
    "tx_live s \<longrightarrow> tx_live s'" by (rule_tac user_op_ok)
  with Call show ?thesis by simp
next
  case (PutInterrupted y n)
  obtain c s1 where put: "tx_fifo_put y s = (c, s1)" by fastforce
  have "uart_ok env b (user (client s)) s" using good by (simp add: uart_good_def)
  note P = tx_fifo_put_ok [OF this mem, of y, unfolded put]
  show ?thesis
  proof (cases "c = NRF_SUCCESS")
    case False
    with P PutInterrupted put good show ?thesis by simp
  next
    case True
    with P have "uart_good env b (logged (log_put y) s1)" by (simp add: uart_good_def)
    from interrupts_ok [OF this mem ans, of n] obtain s2 where
      s2: "interrupts (answering ans env) n (logged (log_put y) s1) = Some s2" "uart_good env b s2" by blast
    then have "uart_ok (answering ans env) b (user (client s2)) s2" by (simp add: uart_good_def)
    moreover have "uart_memory (answering ans env) b" using mem by simp
    ultimately obtain s3 where "app_uart_put_start (answering ans env) s2 = Some (NRF_SUCCESS, s3)"
      "uart_ok (answering ans env) b (user (client s2)) s3" "tx_live s3" "user (client s3) = user (client s2)"
      by (rule put_start_ok)
    with True PutInterrupted put s2 show ?thesis by (simp add: uart_good_def)
  qed
next
  case Interrupt
  with interrupts_ok [OF good mem ans, of 1] show ?thesis by simp
qed

lemma uart_run_ok:
  assumes "uart_good env b s" "uart_memory env b" "answer_ok b ans" "list_all (step_ok b) xs"
  shows "\<exists>s'. uart_run (answering ans env) xs s = Some s' \<and> uart_good env b s' \<and> (tx_live s \<longrightarrow> tx_live s')"
  using assms(1,4)
proof (induction xs arbitrary: s)
  case (Cons x xs)
  from Cons.prems have "step_ok b x" by simp
  from do_step_ok [OF Cons.prems(1) assms(2,3) this] obtain s1 where
    "do_step (answering ans env) x s = Some s1" "uart_good env b s1" "tx_live s \<longrightarrow> tx_live s1" by blast
  with Cons.IH [of s1] Cons.prems show ?case by auto
qed simp

end
