(* ===== verification/AppUartSpec.thy ===== *)
theory AppUartSpec
  imports AppUartThms
begin

text \<open>
  The initialisation of the application UART establishes the invariant of its runs.
\<close>

unbundle bit_operations_syntax

lemma seen_reg_set:
  assumes "same_seen t u" "a \<notin> {NRF_UART0 + UART_TXD, NRF_UART0 + uart_task_offset NRF_UART_TASK_STOPRX,
    NRF_UART0 + UART_INTENSET, NRF_UART0 + UART_INTENCLR}"
  shows "same_seen t (reg_set a v u)"
  using assms seen_write same_seen_trans by blast

lemma pin_address: "unat (NRF_GPIO + GPIO_PIN_CNF + 4 * (ucast (p :: u8) :: u32)) = 0x50000700 + 4 * unat p"
proof -
  have "unat p < 256" by (rule u8_less_256)
  then show ?thesis
    by (simp add: NRF_GPIO_def GPIO_PIN_CNF_def unat_word_ariths unat_ucast_u8_u32)
qed

lemma pin_apart: "unat a < 0x50000000 \<Longrightarrow> NRF_GPIO + GPIO_PIN_CNF + 4 * (ucast (p :: u8) :: u32) \<noteq> a"
  using pin_address [of p] by auto

lemma seen_gpio_cfg: "same_seen t u \<Longrightarrow> same_seen t (nrf_gpio_cfg (ucast (p :: u8)) d i l r z u)"
  unfolding nrf_gpio_cfg_def by (rule seen_reg_set) (simp_all add: pin_apart reg_defs)

lemma seen_gpio:
  "same_seen t u \<Longrightarrow> same_seen t (nrf_gpio_cfg_output (ucast (p :: u8)) u)"
  "same_seen t u \<Longrightarrow> same_seen t (nrf_gpio_cfg_input (ucast (p :: u8)) l u)"
  "same_seen t u \<Longrightarrow> same_seen t (nrf_gpio_pin_set q u)"
  unfolding nrf_gpio_cfg_output_def nrf_gpio_cfg_input_def nrf_gpio_pin_set_def
  by (simp_all add: seen_gpio_cfg, rule seen_reg_set) (simp_all add: NRF_GPIO_def GPIO_OUTSET_def reg_defs)

lemma seen_uart_setup:
  "same_seen t u \<Longrightarrow> same_seen t (nrf_uart_baudrate_set NRF_UART0 v u)"
  "same_seen t u \<Longrightarrow> same_seen t (nrf_uart_configure NRF_UART0 v w u)"
  "same_seen t u \<Longrightarrow> same_seen t (nrf_uart_txrx_pins_set NRF_UART0 v w u)"
  "same_seen t u \<Longrightarrow> same_seen t (nrf_uart_hwfc_pins_set NRF_UART0 v w u)"
  "same_seen t u \<Longrightarrow> same_seen t (nrf_uart_enable NRF_UART0 u)"
  unfolding nrf_uart_baudrate_set_def nrf_uart_configure_def nrf_uart_txrx_pins_set_def nrf_uart_hwfc_pins_set_def
    nrf_uart_enable_def
  by (auto intro!: seen_reg_set simp: reg_defs)

lemma seen_clear_start:
  "same_seen t u \<Longrightarrow> same_seen t (nrf_uart_event_clear NRF_UART0 e u)"
  "same_seen t u \<Longrightarrow> same_seen t (nrf_uart_task_trigger NRF_UART0 NRF_UART_TASK_STARTRX u)"
  by (auto elim: same_seen_trans)

lemma seen_irq_enable: "same_seen t u \<Longrightarrow> same_seen t (nrf_drv_common_irq_enable UART0_IRQn n u)"
  unfolding nrf_drv_common_irq_enable_def NVIC_EnableIRQ_def NVIC_ClearPendingIRQ_def NVIC_SetPriority_def
  by (auto intro!: seen_reg_set simp: reg_defs UART0_IRQn_def NVIC_ISER_def NVIC_ICPR_def NVIC_IP_def)

lemma seen_tx_ints:
  "same_seen t u \<Longrightarrow>
    same_seen t (nrf_uart_int_enable NRF_UART0 (NRF_UART_INT_MASK_TXDRDY OR NRF_UART_INT_MASK_RXTO) u)"
  by (simp add: same_seen_def rx_ints_seen NRF_UART_INT_MASK_TXDRDY_def NRF_UART_INT_MASK_RXTO_def
    NRF_UART_INT_MASK_RXDRDY_def)

lemmas seen_simps = seen_gpio seen_uart_setup seen_clear_start seen_irq_enable seen_tx_ints

lemma uart_init_seen:
  assumes "drv_state s = NRF_DRV_STATE_UNINITIALIZED" "h \<noteq> NULL"
  obtains t where "same_seen (regs s) t" "nrf_drv_uart_init (Some (app_uart_config p n)) h s =
    (NRF_SUCCESS, s\<lparr>use_easy_dma := False, cb_handler := h, p_context := NULL, rx_buffer_length := 0,
      rx_secondary_buffer_length := 0, tx_buffer_length := 0, drv_state := NRF_DRV_STATE_INITIALIZED,
      rx_enabled := False, regs := t\<rparr>)"
proof (rule that)
  let ?c = "app_uart_config p n"
  define u where "u = regs (apply_config ?c (s\<lparr>use_easy_dma := False\<rparr>))"
  have a: "apply_config ?c (s\<lparr>use_easy_dma := False\<rparr>) = s\<lparr>use_easy_dma := False, regs := u\<rparr>"
    by (simp add: u_def apply_config_def wr_def Let_def)
  have u: "same_seen (regs s) u"
    unfolding u_def apply_config_def app_uart_config_def m_default_config_def
    by (simp add: wr_def Let_def seen_simps)
  have dma: "cfg_use_easy_dma ?c = False" and ctx: "cfg_p_context ?c = NULL"
    and prio: "cfg_interrupt_priority ?c = n"
    by (simp_all add: app_uart_config_def m_default_config_def)
  let ?t = "nrf_uart_enable NRF_UART0 (nrf_drv_common_irq_enable UART0_IRQn n (nrf_uart_int_enable NRF_UART0
    (NRF_UART_INT_MASK_TXDRDY OR NRF_UART_INT_MASK_RXTO) (nrf_uart_event_clear NRF_UART0 NRF_UART_EVENT_RXTO
    (nrf_uart_event_clear NRF_UART0 NRF_UART_EVENT_TXDRDY u))))"
  show "same_seen (regs s) ?t" using u by (simp add: seen_simps)
  show "nrf_drv_uart_init (Some ?c) h s =
    (NRF_SUCCESS, s\<lparr>use_easy_dma := False, cb_handler := h, p_context := NULL, rx_buffer_length := 0,
      rx_secondary_buffer_length := 0, tx_buffer_length := 0, drv_state := NRF_DRV_STATE_INITIALIZED,
      rx_enabled := False, regs := ?t\<rparr>)"
    using assms by (simp add: nrf_drv_uart_init_def Let_def dma ctx prio a interrupts_enable_def uart_enable_def wr_def)
qed

definition log_empty :: uart_log where
  "log_empty = \<lparr>put_bytes = [], got_bytes = [], fifo_errors = 0\<rparr>"

definition uart_buffers_ok :: "app_uart_buffers \<Rightarrow> bool" where
  "uart_buffers_ok b \<longleftrightarrow> rx_buf b \<noteq> NULL \<and> IS_POWER_OF_TWO (ucast (rx_buf_size b) :: u16) \<and>
     tx_buf b \<noteq> NULL \<and> IS_POWER_OF_TWO (ucast (tx_buf_size b) :: u16)"

text \<open>The module after a reset: the driver was never used.\<close>

definition uart_reset :: "uart_state \<Rightarrow> bool" where
  "uart_reset s \<longleftrightarrow> drv_state s = NRF_DRV_STATE_UNINITIALIZED \<and> regs s = [] \<and> user (client s) = log_empty"

lemma app_uart_init_ok:
  assumes fresh: "uart_reset s" and bufs: "uart_buffers_ok b" and addr: "uart_event_handler_addr env \<noteq> NULL"
  shows "\<exists>s'. app_uart_init env p (Some b) h n s = Some (NRF_SUCCESS, s') \<and> uart_good env b s' \<and> tx_live s'"
proof -
  let ?s = "s\<lparr>client := (client s)\<lparr>m_event_handler := h\<rparr>\<rparr>"
  obtain c f where rx: "app_fifo_init (rxf s) (rx_buf b) (ucast (rx_buf_size b)) = (c, f)" by fastforce
  obtain c' f' where tx: "app_fifo_init (txf s) (tx_buf b) (ucast (tx_buf_size b)) = (c', f')" by fastforce
  have ok: "c = NRF_SUCCESS" "c' = NRF_SUCCESS"
    using bufs rx tx by (auto simp: app_fifo_init_def uart_buffers_ok_def split: if_splits)
  note F = app_fifo_init_success [OF rx [unfolded ok]] app_fifo_init_success [OF tx [unfolded ok]]
  let ?s1 = "set_tx_fifo f' (set_rx_fifo f ?s)"
  have s1: "drv_state ?s1 = NRF_DRV_STATE_UNINITIALIZED" "regs ?s1 = []" "user (client ?s1) = log_empty"
    "rxf ?s1 = f" "txf ?s1 = f'"
    using fresh by (simp_all add: uart_reset_def set_tx_fifo_def set_rx_fifo_def)
  obtain t where t: "same_seen (regs ?s1) t"
    and drv: "nrf_drv_uart_init (Some (app_uart_config p n)) (uart_event_handler_addr env) ?s1 =
      (NRF_SUCCESS, ?s1\<lparr>use_easy_dma := False, cb_handler := uart_event_handler_addr env, p_context := NULL,
        rx_buffer_length := 0, rx_secondary_buffer_length := 0, tx_buffer_length := 0,
        drv_state := NRF_DRV_STATE_INITIALIZED, rx_enabled := False, regs := t\<rparr>)"
    using s1(1) addr by (rule uart_init_seen)
  let ?s2 = "?s1\<lparr>use_easy_dma := False, cb_handler := uart_event_handler_addr env, p_context := NULL,
        rx_buffer_length := 0, rx_secondary_buffer_length := 0, tx_buffer_length := 0,
        drv_state := NRF_DRV_STATE_INITIALIZED, rx_enabled := False, regs := t\<rparr>"
  define t3 where "t3 = nrf_uart_task_trigger NRF_UART0 NRF_UART_TASK_STARTRX (nrf_uart_event_clear NRF_UART0
    NRF_UART_EVENT_RXDRDY (nrf_uart_event_clear NRF_UART0 NRF_UART_EVENT_ERROR t))"
  let ?s3 = "?s2\<lparr>rx_enabled := True, regs := t3\<rparr>"
  have en: "nrf_drv_uart_rx_enable ?s2 = ?s3"
    by (simp add: nrf_drv_uart_rx_enable_def rx_enable_def wr_def t3_def Let_def)
  have "same_seen [] t3" using t s1(2) by (simp add: t3_def seen_simps)
  then have t3: "uart_sent t3 = []" "uart_received t3 = []" "\<not> rx_stopped t3" by (simp_all add: same_seen_def)
  have len: "fifo_length f = 0" "fifo_length f' = 0" using F(4,8) by (simp_all add: unat_eq_0)
  have cont: "fifo_contents f' m = []" "fifo_contents f m = []" for m
    using F(4,8) by (simp_all add: fifo_contents_def)
  have base: "uart_base b ?s3" "rx_weak (rx_buffer env) ?s3" "tx_ok log_empty ?s3" "tx_live ?s3"
    "rx_got log_empty ?s3 \<and> \<not> rx_stopped (regs ?s3)" "user (client ?s3) = log_empty" "rx_buffer_length ?s3 = 0"
    using F s1 addr t3 len cont
    by (simp_all add: uart_base_def rx_weak_def tx_ok_def tx_live_def rx_got_def log_empty_def fifo_bytes_def)
  from base(1,2) obtain code s4 where rx4: "nrf_drv_uart_rx (hw env) (rx_buffer env) 1 ?s3 = Some (code, s4)"
    "client s4 = client ?s3" "tx_live ?s3 \<longrightarrow> tx_live s4" "\<And>l. rx_buffer_length ?s3 = 0 \<Longrightarrow> tx_ok l ?s3 \<Longrightarrow>
      (uart_device (dev (hw env)) \<Longrightarrow> rx_got l ?s3 \<and> \<not> rx_stopped (regs ?s3)) \<Longrightarrow> uart_ok env b l s4"
    "rx_buffer_length ?s3 = 0 \<longrightarrow> code = NRF_SUCCESS"
    by (rule rx_request_ok) blast
  have "app_uart_init env p (Some b) h n s = Some (code, s4)"
    using rx tx ok drv rx4(1) en
    by (simp add: app_uart_init_def Let_def set_rx_fifo_def set_tx_fifo_def app_uart_config_def m_default_config_def)
  moreover have "code = NRF_SUCCESS" using rx4(5) base(7) by blast
  moreover have "uart_ok env b log_empty s4" using base by (intro rx4(4)) simp_all
  moreover have "tx_live s4" using rx4(3) base(4) by blast
  moreover have "user (client s4) = log_empty" using rx4(2) base(6) by simp
  ultimately show ?thesis by (simp add: uart_good_def)
qed

lemma app_uart_put_code:
  assumes "uart_good env b s" "uart_memory env b"
  shows "\<exists>s'. app_uart_put env x s = Some (if length (fifo_contents (m_tx_fifo (client s)) (memory s)) <
      fifo_bytes (tx_buf_size b) then NRF_SUCCESS else NRF_ERROR_NO_MEM, s')"
proof -
  let ?f = "txf s"
  have inv: "fifo_inv ?f" "fifo_size ?f = fifo_bytes (tx_buf_size b)"
    using uart_good_parts(1) [OF assms(1)] by (simp_all add: uart_base_def)
  have "uart_ok env b (user (client s)) s" using assms(1) by (simp add: uart_good_def)
  note P = tx_fifo_put_ok [OF this assms(2), of x]
  show ?thesis
  proof (cases "unat (fifo_length ?f) < fifo_size ?f")
    case True
    from app_fifo_put_room [OF inv(1) True, of x "memory s"] have "fst (tx_fifo_put x s) = NRF_SUCCESS"
      by (simp add: tx_fifo_put_def split: prod.splits)
    then obtain s1 where put: "tx_fifo_put x s = (NRF_SUCCESS, s1)" by (cases "tx_fifo_put x s") auto
    with P have "uart_ok env b (log_put x (user (client s))) s1" by simp
    then obtain s2 where "app_uart_put_start env s1 = Some (NRF_SUCCESS, s2)" using assms(2) by (rule put_start_ok)
    with put True inv(2) show ?thesis by (simp add: app_uart_put_def)
  next
    case False
    with fifo_length_le [OF inv(1)] have full: "unat (fifo_length ?f) = fifo_size ?f" by simp
    with inv(2) app_fifo_put_full [OF inv(1) full, of x "memory s"] show ?thesis
      by (simp add: app_uart_put_def tx_fifo_put_def)
  qed
qed

lemma uart_runs:
  assumes "uart_reset s" "uart_buffers_ok b" "uart_event_handler_addr env \<noteq> NULL" "uart_memory env b"
    "answer_ok b ans" "list_all (step_ok b) xs"
  obtains s0 s' where "app_uart_init (answering ans env) p (Some b) h n s = Some (NRF_SUCCESS, s0)"
    "uart_run (answering ans env) xs s0 = Some s'" "uart_good env b s'" "tx_live s'"
proof -
  have "uart_event_handler_addr (answering ans env) \<noteq> NULL" using assms(3) by (simp add: answering_def)
  from app_uart_init_ok [OF assms(1,2) this, of p h n] obtain s0 where
    init: "app_uart_init (answering ans env) p (Some b) h n s = Some (NRF_SUCCESS, s0)" "uart_good env b s0" "tx_live s0"
    by auto
  from uart_run_ok [OF init(2) assms(4-6)] init(3) obtain s' where
    "uart_run (answering ans env) xs s0 = Some s'" "uart_good env b s'" "tx_live s'" by blast
  with init(1) show thesis by (rule that)
qed

subsection \<open>An example\<close>

text \<open>A peripheral that always has a byte and is always ready to send, and an application that never answers.\<close>

definition uart_dev_example :: device where
  "uart_dev_example t a =
     (if a = NRF_UART0 + UART_INTENSET then (if rx_int_on t then NRF_UART_INT_MASK_RXDRDY else 0)
      else if a = NRF_UART0 + uart_event_offset NRF_UART_EVENT_RXDRDY then 1
      else if a = NRF_UART0 + uart_event_offset NRF_UART_EVENT_TXDRDY then 1
      else if a = NRF_UART0 + UART_RXD then of_nat (64 + length (uart_received t))
      else 0)"

definition uart_env_example :: uart_env where
  "uart_env_example = \<lparr>hw = \<lparr>dev = uart_dev_example, other = id\<rparr>, tx_buffer = 0x20000000, rx_buffer = 0x20000001,
     uart_event_handler_addr = 0x1001, call_event_handler = (\<lambda>h e s. Some s)\<rparr>"

definition uart_bufs_example :: app_uart_buffers where
  "uart_bufs_example = \<lparr>rx_buf = 0x20000010, rx_buf_size = 2, tx_buf = 0x20000020, tx_buf_size = 4\<rparr>"

definition uart_params_example :: app_uart_comm_params where
  "uart_params_example = \<lparr>rx_pin_no = 8, tx_pin_no = 6, rts_pin_no = 5, cts_pin_no = 7,
     flow_control = APP_UART_FLOW_CONTROL_DISABLED, use_parity = False, baud_rate = 0x01D60000\<rparr>"

definition fifo_zero :: app_fifo where
  "fifo_zero = \<lparr>p_buf = 0, buf_size_mask = 0, read_pos = 0, write_pos = 0\<rparr>"

definition uart_zero :: uart_state where
  "uart_zero = \<lparr>p_context = 0, cb_handler = 0, p_tx_buffer = 0, p_rx_buffer = 0, p_rx_secondary_buffer = 0,
     tx_counter = 0, tx_buffer_length = 0, rx_buffer_length = 0, rx_secondary_buffer_length = 0, rx_counter = 0,
     rx_enabled = False, drv_state = NRF_DRV_STATE_UNINITIALIZED, use_easy_dma = False, memory = (\<lambda>_. 0), regs = [],
     client = \<lparr>m_event_handler = 0, m_rx_fifo = fifo_zero, m_tx_fifo = fifo_zero, user = log_empty\<rparr>\<rparr>"

lemma uart_example:
  "uart_reset uart_zero" "uart_buffers_ok uart_bufs_example" "uart_event_handler_addr uart_env_example \<noteq> NULL"
  "uart_memory uart_env_example uart_bufs_example" "uart_device (dev (hw uart_env_example))"
proof -
  show "uart_reset uart_zero" by (simp add: uart_reset_def uart_zero_def)
  show "uart_buffers_ok uart_bufs_example" by (simp add: uart_buffers_ok_def uart_bufs_example_def IS_POWER_OF_TWO_def)
  show "uart_event_handler_addr uart_env_example \<noteq> NULL" by (simp add: uart_env_example_def)
  show "uart_memory uart_env_example uart_bufs_example"
    by (simp add: uart_memory_def uart_env_example_def uart_bufs_example_def disjoint_regions_def fifo_bytes_def)
  show "uart_device (dev (hw uart_env_example))"
    by (simp add: uart_device_def uart_env_example_def uart_dev_example_def reg_defs)
qed

subsection \<open>Properties\<close>



text \<open>
  C10. With a peripheral that keeps to its specification: what the application got, followed by what is in the FIFO, are
  bytes that were received, in the order they were received, none of them twice; and each byte that was read
  from the receiver is among them unless an error of the FIFO was reported for it.
\<close>

theorem app_uart_receives:
  assumes "uart_reset s" "uart_buffers_ok b" "uart_event_handler_addr env \<noteq> NULL" "uart_memory env b"
    "answer_ok b ans" "list_all (step_ok b) xs" "uart_device (dev (hw env))"
  shows "\<exists>s0 s'. app_uart_init (answering ans env) p (Some b) h n s = Some (NRF_SUCCESS, s0) \<and>
    uart_run (answering ans env) xs s0 = Some s' \<and>
    subseq (got_bytes (user (client s')) @ fifo_contents (m_rx_fifo (client s')) (memory s')) (uart_received (regs s')) \<and>
    length (uart_received (regs s')) =
      length (got_bytes (user (client s')) @ fifo_contents (m_rx_fifo (client s')) (memory s')) +
      fifo_errors (user (client s'))"
proof -
  from assms(1-6) obtain s0 s' where init: "app_uart_init (answering ans env) p (Some b) h n s = Some (NRF_SUCCESS, s0)"
    and run: "uart_run (answering ans env) xs s0 = Some s'" and good: "uart_good env b s'"
    by (rule uart_runs)
  have "rx_got (user (client s')) s'" using uart_good_parts(4) [OF good assms(7)] by simp
  with init run show ?thesis by (auto simp: rx_got_def)
qed

theorem app_uart_receives_witness:
  "\<exists>s0 s'. app_uart_init (answering (\<lambda>_ _. [UGet 0x20000100]) uart_env_example) uart_params_example
      (Some uart_bufs_example) 0x2001 6 uart_zero = Some (NRF_SUCCESS, s0) \<and>
    uart_run (answering (\<lambda>_ _. [UGet 0x20000100]) uart_env_example) [Interrupt, Interrupt] s0 = Some s' \<and>
    subseq (got_bytes (user (client s')) @ fifo_contents (m_rx_fifo (client s')) (memory s')) (uart_received (regs s'))"
proof -
  have "answer_ok uart_bufs_example (\<lambda>_ _. [UGet 0x20000100])"
    "list_all (step_ok uart_bufs_example) [Interrupt, Interrupt]"
    by (simp_all add: answer_ok_def dest_ok_def step_ok_def uart_bufs_example_def disjoint_regions_def fifo_bytes_def)
  from app_uart_receives [OF uart_example(1-4) this uart_example(5), where p = uart_params_example and h = "0x2001" and n = 6] show ?thesis
    by blast
qed

end
