(* ===== verification/UartFaults.thy ===== *)
theory UartFaults
  imports AppUartThms
begin

text \<open>
  What the model shows of the application UART that its comments do not say.
\<close>

unbundle bit_operations_syntax

text \<open>
  \<^verbatim>\<open>app_uart_get\<close> asks for a byte when one place of the FIFO is free, not when the FIFO is full. With both
  buffers of the driver set the request is refused, and the call says that there is no byte although the FIFO
  has some.
\<close>

lemma get_refused_with_bytes:
  assumes "uart_base b s" "rx_buffer_length s \<noteq> 0" "rx_secondary_buffer_length s \<noteq> 0"
    "fifo_length (m_rx_fifo (client s)) = ucast (buf_size_mask (m_rx_fifo (client s)))"
  shows "\<exists>s'. app_uart_get env p s = Some (NRF_ERROR_NOT_FOUND, s') \<and> client s' = client s \<and> memory s' = memory s"
proof -
  have "cb_handler s \<noteq> NULL" "\<not> use_easy_dma s" "rx_enabled s" using assms(1) by (simp_all add: uart_base_def)
  from uart_rx_one [OF this, of "hw env" "rx_buffer env"] assms(2-4) show ?thesis
    by (simp add: app_uart_get_def rx_set_def)
qed

text \<open>
  The driver gets into that state: a byte that arrives with both buffers set leaves both set again while the FIFO
  has room.
\<close>

lemma rx_switch_keeps_both:
  assumes "uart_base b s" "rx_weak (rx_buffer env) s" "rx_buffer_length s \<noteq> 0" "rx_secondary_buffer_length s \<noteq> 0"
    and room: "Suc (unat (fifo_length (m_rx_fifo (client s)))) < fifo_size (m_rx_fifo (client s))"
    and quiet: "\<And>h e s. call_event_handler env h e s = Some s"
  shows "\<exists>s'. uart_irq_rxdrdy d (call_uart_event_handler env) s = Some s' \<and> rx_buffer_length s' \<noteq> 0 \<and>
    rx_secondary_buffer_length s' \<noteq> 0 \<and>
    unat (fifo_length (m_rx_fifo (client s'))) = Suc (unat (fifo_length (m_rx_fifo (client s))))"
proof -
  let ?p = "rx_buffer env" and ?f = "m_rx_fifo (client s)"
  have w: "rx_buffer_length s = 1" "p_rx_buffer s = ?p" "rx_counter s = 0"
    "rx_secondary_buffer_length s = 1" "p_rx_secondary_buffer s = ?p"
    using assms(2-4) by (simp_all add: rx_weak_def)
  have base: "cb_handler s \<noteq> NULL" "\<not> use_easy_dma s" "rx_enabled s" "fifo_inv ?f"
    using assms(1) by (simp_all add: uart_base_def)
  obtain v t where v: "nrf_uart_rxd_get d NRF_UART0 (nrf_uart_event_clear NRF_UART0 NRF_UART_EVENT_RXDRDY (regs s)) = (v, t)"
    by fastforce
  let ?m = "(memory s)(?p := v)"
  have rx: "rx_byte d s = s\<lparr>regs := t, memory := ?m, rx_counter := 1\<rparr>"
    by (simp add: rx_byte_def w wr_def rd_def Let_def v)
  have less: "unat (fifo_length ?f) < fifo_size ?f" using room by simp
  obtain f m where put: "fifo_put ?f v ?m = (f, m)" by fastforce
  note P = fifo_contents_put [OF base(4) less put]
  have le: "fifo_length f \<le> ucast (buf_size_mask f)"
    using P(3,4) room by (simp add: word_le_nat_alt fifo_size_def)
  let ?s = "s\<lparr>regs := t, rx_buffer_length := 1, p_rx_buffer := ?p, rx_secondary_buffer_length := 0,
    rx_counter := 0, client := (client s)\<lparr>m_rx_fifo := f\<rparr>, memory := m\<rparr>"
  have "uart_irq_rxdrdy d (call_uart_event_handler env) s = map_option snd (nrf_drv_uart_rx (hw env) ?p 1 ?s)"
    using le by (cases "fifo_length f = 1") (simp_all add: uart_irq_rxdrdy_def rx Let_def w rx_done_event_def
      call_uart_event_handler_def rx_fifo_put_def app_fifo_put_room [OF base(4) less] put set_rx_fifo_def
      app_event_def quiet)
  with uart_rx_one [of ?s "hw env" ?p] base P(3) show ?thesis by (simp add: rx_set_def)
qed

text \<open>After the FIFO was full, the first call that takes a byte out does not ask for the next one: reception goes on only after a second call.\<close>

lemma get_full_asks_nothing:
  assumes "fifo_length (m_rx_fifo (client s)) = ucast (buf_size_mask (m_rx_fifo (client s))) + 1"
  shows "app_uart_get env p s = Some (rx_fifo_get p s) \<and> regs (snd (rx_fifo_get p s)) = regs s"
  using assms by (auto simp: app_uart_get_def rx_fifo_get_def set_rx_fifo_def split: prod.splits)

text \<open>The event for the end of the transmission comes while the last byte is still being sent, and comes again after it.\<close>

lemma tx_empty_early:
  assumes "uart_base b s" "uart_memory env b" "tx_buffer_length s = 0" "fifo_length (m_tx_fifo (client s)) = 1"
  shows "\<exists>s2. uart_event_handler env (NRF_DRV_UART_EVT_TX_DONE q n) ctx s = app_event env APP_UART_TX_EMPTY s2 \<and>
    nrf_drv_uart_tx_in_progress s2"
proof -
  have inv: "fifo_inv (txf s)" "p_buf (txf s) = tx_buf b" "fifo_size (txf s) = fifo_bytes (tx_buf_size b)"
    "cb_handler s \<noteq> NULL" "\<not> use_easy_dma s"
    using assms(1) by (simp_all add: uart_base_def)
  have pos: "0 < unat (fifo_length (txf s))" using assms(4) by simp
  have out: "fifo_outside (txf s) (tx_buffer env)" using assms(2) by (simp add: fifo_outside_def uart_memory_def inv)
  obtain f m where get: "fifo_get (txf s) (tx_buffer env) (memory s) = (f, m)" by fastforce
  have "unat (fifo_length f) = 0"
    using fifo_contents_get(6) [OF inv(1) pos out get] assms(4) by simp
  then have "fifo_length f = 0" by (simp add: unat_eq_0)
  with uart_tx_one [of "(set_tx_fifo f s)\<lparr>memory := m\<rparr>" "hw env" "tx_buffer env"] inv assms(3) show ?thesis
    by (simp add: tx_fifo_get_def app_fifo_get_some [OF pos] get set_tx_fifo_def nrf_drv_uart_tx_in_progress_def)
      (rule exI, rule conjI, rule refl, simp)
qed

text \<open>
  A timeout of the receiver before any byte of a request reports a reception of no bytes, and the module takes the
  byte that was left in its buffer for a new one.
\<close>

lemma rxto_repeats_byte:
  assumes "d (regs s) (NRF_UART0 + uart_event_offset NRF_UART_EVENT_RXTO) \<noteq> 0" "uart_base b s"
    "rx_weak (rx_buffer env) s" "rx_buffer_length s \<noteq> 0"
  shows "\<exists>s'. uart_irq_rxto d (call_uart_event_handler env) s =
      uart_event_handler env (NRF_DRV_UART_EVT_RX_DONE (rx_buffer env) 0) (p_context s) s' \<and>
    memory s' = memory s \<and> client s' = client s \<and> uart_received (regs s') = uart_received (regs s)"
proof -
  obtain r s1 where i: "rd (nrf_uart_event_check d NRF_UART0 NRF_UART_EVENT_RXTO) s = (r, s1)" by fastforce
  obtain t where t: "s1 = s\<lparr>regs := t\<rparr>" "same_seen (regs s) t"
    "r = (d (regs s) (NRF_UART0 + uart_event_offset NRF_UART_EVENT_RXTO) \<noteq> 0)" using i by (rule event_rd_seen)
  have r: "r" using assms(1) t(3) by simp
  let ?t = "nrf_uart_task_trigger NRF_UART0 NRF_UART_TASK_STARTRX (nrf_uart_event_clear NRF_UART0 NRF_UART_EVENT_RXTO t)"
  let ?s = "s\<lparr>regs := ?t, rx_buffer_length := 0\<rparr>"
  have "uart_received ?t = uart_received (regs s)"
    using t(2) same_seen_trans [OF seen_event_clear [of t NRF_UART_EVENT_RXTO] seen_task_trigger [of NRF_UART_TASK_STARTRX]]
    by (simp add: same_seen_def)
  moreover have "uart_irq_rxto d (call_uart_event_handler env) s =
      uart_event_handler env (NRF_DRV_UART_EVT_RX_DONE (rx_buffer env) 0) (p_context s) ?s"
    using i t(1) r assms(2-4)
    by (simp add: uart_irq_rxto_def wr_def Let_def uart_base_def rx_weak_def rx_done_event_def call_uart_event_handler_def)
  ultimately show ?thesis by (intro exI [of _ ?s]) simp
qed

text \<open>An abort of a reception reports no event by itself, and leaves the buffers of the driver set.\<close>

lemma rx_abort_keeps_buffers:
  "rx_buffer_length (nrf_drv_uart_rx_abort s) = rx_buffer_length s \<and>
   rx_secondary_buffer_length (nrf_drv_uart_rx_abort s) = rx_secondary_buffer_length s"
  by (simp add: nrf_drv_uart_rx_abort_def wr_def Let_def)

end
