(* ===== verification/ByteUart.thy ===== *)
theory ByteUart
  imports AppUart
begin

text \<open>
  The UART module without FIFOs, \<^verbatim>\<open>libraries/uart/app_uart.c\<close>: one byte to send and one received
  byte. Its functions have the names of those of \<^verbatim>\<open>app_uart_fifo.c\<close>; here they are called
  \<open>byte_uart\<close>.
\<close>

record 'b byte_uart =
  b_rx_done :: bool
  b_event_handler :: ptr
  b_user :: 'b

type_synonym 'b byte_uart_state = "'b byte_uart uart"

record 'b byte_uart_env =
  b_hw :: "'b byte_uart uart_hw"
  b_tx_buffer :: ptr
  b_rx_buffer :: ptr
  b_uart_event_handler_addr :: ptr
  call_byte_handler :: "ptr \<Rightarrow> app_uart_evt \<Rightarrow> 'b byte_uart_state \<Rightarrow> 'b byte_uart_state option"

definition byte_event :: "'b byte_uart_env \<Rightarrow> app_uart_evt \<Rightarrow> 'b byte_uart_state \<Rightarrow> 'b byte_uart_state option" where
  "byte_event env e s = call_byte_handler env (b_event_handler (client s)) e s"

fun byte_uart_event_handler ::
    "'b byte_uart_env \<Rightarrow> nrf_drv_uart_event \<Rightarrow> ptr \<Rightarrow> 'b byte_uart_state \<Rightarrow> 'b byte_uart_state option" where
  "byte_uart_event_handler env (NRF_DRV_UART_EVT_RX_DONE p_data bytes) ctx s =
     (let app_uart_event = APP_UART_DATA (memory s p_data) in do {
        (_, s) \<leftarrow> nrf_drv_uart_rx (b_hw env) (b_rx_buffer env) 1 s;
        let s = s\<lparr>client := (client s)\<lparr>b_rx_done := True\<rparr>\<rparr>;
        byte_event env app_uart_event s
      })"
| "byte_uart_event_handler env (NRF_DRV_UART_EVT_ERROR p_data bytes error_mask) ctx s = do {
     (_, s) \<leftarrow> nrf_drv_uart_rx (b_hw env) (b_rx_buffer env) 1 s;
     byte_event env (APP_UART_COMMUNICATION_ERROR error_mask) s
   }"
| "byte_uart_event_handler env (NRF_DRV_UART_EVT_TX_DONE p_data bytes) ctx s = byte_event env APP_UART_TX_EMPTY s"

definition byte_uart_init ::
    "'b byte_uart_env \<Rightarrow> app_uart_comm_params \<Rightarrow> ptr \<Rightarrow> u8 \<Rightarrow> 'b byte_uart_state \<Rightarrow>
      (ret_code \<times> 'b byte_uart_state) option" where
  "byte_uart_init env p_comm_params event_handler irq_priority s =
     (let config = app_uart_config p_comm_params irq_priority;
          s = s\<lparr>client := (client s)\<lparr>b_event_handler := event_handler, b_rx_done := False\<rparr>\<rparr>
      in if flow_control p_comm_params = APP_UART_FLOW_CONTROL_LOW_POWER then Some (NRF_ERROR_NOT_SUPPORTED, s)
         else case nrf_drv_uart_init (Some config) (b_uart_event_handler_addr env) s of (err_code, s) \<Rightarrow>
           if err_code \<noteq> NRF_SUCCESS then Some (err_code, s)
           else
             let s = (if \<not> cfg_use_easy_dma config then nrf_drv_uart_rx_enable s else s)
             in nrf_drv_uart_rx (b_hw env) (b_rx_buffer env) 1 s)"

definition byte_uart_get :: "'b byte_uart_env \<Rightarrow> ptr \<Rightarrow> 'b byte_uart_state \<Rightarrow> ret_code \<times> 'b byte_uart_state" where
  "byte_uart_get env p_byte s =
     (if b_rx_done (client s) then (NRF_SUCCESS, s\<lparr>memory := (memory s)(p_byte := memory s (b_rx_buffer env))\<rparr>)
      else (NRF_ERROR_NOT_FOUND, s))"

definition byte_uart_put :: "'b byte_uart_env \<Rightarrow> u8 \<Rightarrow> 'b byte_uart_state \<Rightarrow> (ret_code \<times> 'b byte_uart_state) option" where
  "byte_uart_put env byte s = do {
     (ret, s) \<leftarrow> nrf_drv_uart_tx (b_hw env) (b_tx_buffer env) 1 (s\<lparr>memory := (memory s)(b_tx_buffer env := byte)\<rparr>);
     Some (if ret = NRF_ERROR_BUSY then NRF_ERROR_NO_MEM
           else if ret \<noteq> NRF_SUCCESS then NRF_ERROR_INTERNAL
           else NRF_SUCCESS, s)
   }"

definition byte_uart_flush :: "'b byte_uart_state \<Rightarrow> ret_code \<times> 'b byte_uart_state" where
  "byte_uart_flush s = (NRF_SUCCESS, s)"

definition byte_uart_close :: "'b byte_uart_env \<Rightarrow> 'b byte_uart_state \<Rightarrow> ret_code \<times> 'b byte_uart_state" where
  "byte_uart_close env s = (NRF_SUCCESS, nrf_drv_uart_uninit (dev (b_hw env)) s)"

text \<open>Once a byte was received, the module never says again that there is none: it gives the last byte again and again.\<close>

lemma byte_get_repeats:
  assumes "byte_uart_get env p s = (NRF_SUCCESS, s1)" "p \<noteq> b_rx_buffer env" "q \<noteq> b_rx_buffer env"
  shows "\<exists>s2. byte_uart_get env q s1 = (NRF_SUCCESS, s2) \<and> memory s2 q = memory s1 p"
  using assms by (auto simp: byte_uart_get_def split: if_splits)

text \<open>A byte that is refused because a transmission is in progress has replaced the byte in the buffer of that transmission.\<close>

lemma byte_put_refused_overwrites:
  assumes "nrf_drv_uart_tx_in_progress s" "use_easy_dma s \<longrightarrow> IS_EASY_DMA_RAM_ADDRESS (b_tx_buffer env)"
  shows "\<exists>s'. byte_uart_put env x s = Some (NRF_ERROR_NO_MEM, s') \<and> memory s' (b_tx_buffer env) = x"
  using assms by (simp add: byte_uart_put_def nrf_drv_uart_tx_def nrf_drv_uart_tx_in_progress_def)

end
