(* ===== verification/SensorBus.thy ===== *)
theory SensorBus
  imports Prelude
begin

text \<open>
  What the drivers of the motion, magnetic and humidity sensors (\<^verbatim>\<open>libraries/CoreSensors\<close>) share: access
  to the registers of a device on a bus, and fields of bits in a register.

  The functions that move bytes (\<^verbatim>\<open>LSM6DS3_IO_Read\<close> and the like, which end in the I2C driver of the C++
  core) are a parameter, \<open>sensor_io\<close>: a status (0 is success), the bytes that the buffer holds
  afterwards, and the new state \<open>'e\<close> of bus and device. The enumerations of fields are lists of
  their constants, and a value of such a type is a byte, as \<^verbatim>\<open>arm-none-eabi\<close> compilers lay them out.
\<close>

unbundle bit_operations_syntax

subsection \<open>Registers and fields\<close>

datatype status_t = MEMS_SUCCESS | MEMS_ERROR

record 'e sensor_io =
  IO_Read :: "u8 \<Rightarrow> u16 \<Rightarrow> 'e \<Rightarrow> u8 \<times> u8 list \<times> 'e"
  IO_Write :: "u8 \<Rightarrow> u8 list \<Rightarrow> 'e \<Rightarrow> u8 \<times> 'e"

definition mems_WriteReg :: "'e sensor_io \<Rightarrow> u8 \<Rightarrow> u8 list \<Rightarrow> 'e \<Rightarrow> status_t \<times> 'e" where
  "mems_WriteReg io r bytes e =
     (case IO_Write io r bytes e of (st, e) \<Rightarrow> (if st \<noteq> 0 then MEMS_ERROR else MEMS_SUCCESS, e))"

definition mems_ReadReg :: "'e sensor_io \<Rightarrow> u8 \<Rightarrow> u16 \<Rightarrow> 'e \<Rightarrow> status_t \<times> u8 list \<times> 'e" where
  "mems_ReadReg io r len e =
     (case IO_Read io r len e of (st, bytes, e) \<Rightarrow> (if st \<noteq> 0 then MEMS_ERROR else MEMS_SUCCESS, bytes, e))"

definition write_field :: "'e sensor_io \<Rightarrow> u8 \<Rightarrow> u8 \<Rightarrow> u8 \<Rightarrow> 'e \<Rightarrow> status_t \<times> 'e" where
  "write_field io r m newValue e =
     (case mems_ReadReg io r 1 e of (st, bytes, e) \<Rightarrow>
        if st = MEMS_ERROR then (MEMS_ERROR, e)
        else mems_WriteReg io r [(bytes ! 0 AND NOT m) OR newValue] e)"

definition read_field :: "'e sensor_io \<Rightarrow> u8 \<Rightarrow> u8 \<Rightarrow> 'e \<Rightarrow> status_t \<times> u8 \<times> 'e" where
  "read_field io r m e =
     (case mems_ReadReg io r 1 e of (st, bytes, e) \<Rightarrow>
        if st = MEMS_ERROR then (MEMS_ERROR, bytes ! 0, e) else (MEMS_SUCCESS, bytes ! 0 AND m, e))"

text \<open>Fields whose value is shifted to its place.\<close>

definition write_pos_field :: "'e sensor_io \<Rightarrow> u8 \<Rightarrow> u8 \<Rightarrow> nat \<Rightarrow> u8 \<Rightarrow> 'e \<Rightarrow> status_t \<times> 'e" where
  "write_pos_field io r m pos newValue = write_field io r m (push_bit pos newValue AND m)"

definition read_pos_field :: "'e sensor_io \<Rightarrow> u8 \<Rightarrow> u8 \<Rightarrow> nat \<Rightarrow> 'e \<Rightarrow> status_t \<times> u8 \<times> 'e" where
  "read_pos_field io r m pos e =
     (case mems_ReadReg io r 1 e of (st, bytes, e) \<Rightarrow>
        if st = MEMS_ERROR then (MEMS_ERROR, bytes ! 0, e)
        else (MEMS_SUCCESS, drop_bit pos (bytes ! 0 AND m), e))"

text \<open>The output registers are read one by one into a buffer, up to the first error.\<close>

fun read_regs :: "'e sensor_io \<Rightarrow> u8 \<Rightarrow> nat \<Rightarrow> nat \<Rightarrow> u8 list \<Rightarrow> 'e \<Rightarrow> status_t \<times> u8 list \<times> 'e" where
  "read_regs io base k 0 buff e = (MEMS_SUCCESS, buff, e)"
| "read_regs io base k (Suc n) buff e =
     (case mems_ReadReg io (base + of_nat k) 1 e of (st, bytes, e) \<Rightarrow>
        if st = MEMS_ERROR then (MEMS_ERROR, buff[k := bytes ! 0], e)
        else read_regs io base (Suc k) n (buff[k := bytes ! 0]) e)"

fun write_regs :: "'e sensor_io \<Rightarrow> u8 \<Rightarrow> u8 list \<Rightarrow> 'e \<Rightarrow> status_t \<times> 'e" where
  "write_regs io base [] e = (MEMS_SUCCESS, e)"
| "write_regs io base (b # bs) e =
     (case mems_WriteReg io base [b] e of (st, e) \<Rightarrow>
        if st = MEMS_ERROR then (MEMS_ERROR, e) else write_regs io (base + 1) bs e)"

subsection \<open>Devices\<close>

text \<open>
  A device whose registers at the addresses \<open>A\<close> hold what is written to them: \<open>regs\<close> are their
  contents. A transfer that fails may have changed the register it was meant for, or not.
\<close>

definition register_bus :: "'e sensor_io \<Rightarrow> ('e \<Rightarrow> u8 \<Rightarrow> u8) \<Rightarrow> u8 set \<Rightarrow> bool" where
  "register_bus io regs A \<longleftrightarrow>
     (\<forall>a e st bytes e'. a \<in> A \<longrightarrow> IO_Read io a 1 e = (st, bytes, e') \<longrightarrow>
        (\<forall>x \<in> A. regs e' x = regs e x) \<and> (st = 0 \<longrightarrow> bytes = [regs e a])) \<and>
     (\<forall>a b e st e'. a \<in> A \<longrightarrow> IO_Write io a [b] e = (st, e') \<longrightarrow>
        (\<forall>x \<in> A. x \<noteq> a \<longrightarrow> regs e' x = regs e x) \<and>
        (st = 0 \<longrightarrow> regs e' a = b) \<and> (regs e' a = regs e a \<or> regs e' a = b))"

lemma register_bus_read:
  assumes "register_bus io regs A" "a \<in> A" "mems_ReadReg io a 1 e = (st, bytes, e')"
  shows "x \<in> A \<Longrightarrow> regs e' x = regs e x" "st = MEMS_SUCCESS \<Longrightarrow> bytes ! 0 = regs e a"
proof -
  obtain s where r: "IO_Read io a 1 e = (s, bytes, e')" "st = (if s \<noteq> 0 then MEMS_ERROR else MEMS_SUCCESS)"
    using assms(3) by (cases "IO_Read io a 1 e") (simp add: mems_ReadReg_def)
  have "(\<forall>x \<in> A. regs e' x = regs e x) \<and> (s = 0 \<longrightarrow> bytes = [regs e a])"
    using assms(1,2) r(1) unfolding register_bus_def by blast
  then show "x \<in> A \<Longrightarrow> regs e' x = regs e x" "st = MEMS_SUCCESS \<Longrightarrow> bytes ! 0 = regs e a"
    using r(2) by (simp_all split: if_splits)
qed

lemma register_bus_write:
  assumes "register_bus io regs A" "a \<in> A" "mems_WriteReg io a [b] e = (st, e')"
  shows "x \<in> A \<Longrightarrow> x \<noteq> a \<Longrightarrow> regs e' x = regs e x" "st = MEMS_SUCCESS \<Longrightarrow> regs e' a = b"
    "regs e' a = regs e a \<or> regs e' a = b"
proof -
  obtain s where w: "IO_Write io a [b] e = (s, e')" "st = (if s \<noteq> 0 then MEMS_ERROR else MEMS_SUCCESS)"
    using assms(3) by (cases "IO_Write io a [b] e") (simp add: mems_WriteReg_def)
  have l: "(\<forall>x \<in> A. x \<noteq> a \<longrightarrow> regs e' x = regs e x) \<and> (s = 0 \<longrightarrow> regs e' a = b) \<and>
      (regs e' a = regs e a \<or> regs e' a = b)"
    using assms(1,2) w(1) unfolding register_bus_def by blast
  show "regs e' a = regs e a \<or> regs e' a = b" using l by blast
  show "x \<in> A \<Longrightarrow> x \<noteq> a \<Longrightarrow> regs e' x = regs e x" using l by blast
  show "regs e' a = b" if "st = MEMS_SUCCESS"
    using l w(2) that by (simp split: if_splits)
qed

lemma write_field_regs:
  assumes "register_bus io regs A" "r \<in> A" "write_field io r m v e = (st, e')"
  shows "x \<in> A \<Longrightarrow> x \<noteq> r \<Longrightarrow> regs e' x = regs e x"
    and "st = MEMS_SUCCESS \<Longrightarrow> regs e' r = (regs e r AND NOT m) OR v"
    and "regs e' r = regs e r \<or> regs e' r = (regs e r AND NOT m) OR v"
proof -
  obtain s1 bytes e1 where rd: "mems_ReadReg io r 1 e = (s1, bytes, e1)" using prod_cases3 by blast
  note bus = register_bus_read [OF assms(1,2) rd]
  have 1: "(x \<in> A \<longrightarrow> x \<noteq> r \<longrightarrow> regs e' x = regs e x) \<and>
      (st = MEMS_SUCCESS \<longrightarrow> regs e' r = (regs e r AND NOT m) OR v) \<and>
      (regs e' r = regs e r \<or> regs e' r = (regs e r AND NOT m) OR v)" for x
  proof (cases s1)
    case MEMS_SUCCESS
    then have "mems_WriteReg io r [(regs e r AND NOT m) OR v] e1 = (st, e')"
      using assms(3) bus(2) by (simp add: write_field_def rd)
    from register_bus_write [OF assms(1,2) this] bus(1) assms(2) show ?thesis by metis
  next
    case MEMS_ERROR
    then have "st = MEMS_ERROR" "e' = e1" using assms(3) by (simp_all add: write_field_def rd)
    then show ?thesis using bus(1) assms(2) by simp
  qed
  from 1 [of x] show "x \<in> A \<Longrightarrow> x \<noteq> r \<Longrightarrow> regs e' x = regs e x" by blast
  from 1 [of r] show "st = MEMS_SUCCESS \<Longrightarrow> regs e' r = (regs e r AND NOT m) OR v"
    and "regs e' r = regs e r \<or> regs e' r = (regs e r AND NOT m) OR v" by blast+
qed

lemma read_pos_field_regs:
  assumes "register_bus io regs A" "r \<in> A" "read_pos_field io r m pos e = (st, v, e')"
  shows "x \<in> A \<Longrightarrow> regs e' x = regs e x" "st = MEMS_SUCCESS \<Longrightarrow> v = drop_bit pos (regs e r AND m)"
proof -
  obtain s1 bytes e1 where rd: "mems_ReadReg io r 1 e = (s1, bytes, e1)" using prod_cases3 by blast
  note bus = register_bus_read [OF assms(1,2) rd]
  have "(st, v, e') = (if s1 = MEMS_ERROR then (MEMS_ERROR, bytes ! 0, e1)
      else (MEMS_SUCCESS, drop_bit pos (bytes ! 0 AND m), e1))"
    using assms(3) unfolding read_pos_field_def rd by simp
  then show "x \<in> A \<Longrightarrow> regs e' x = regs e x" "st = MEMS_SUCCESS \<Longrightarrow> v = drop_bit pos (regs e r AND m)"
    using bus by (cases s1, simp_all)+
qed

lemma read_field_pos: "read_field io r m = read_pos_field io r m 0"
  by (rule ext) (simp add: read_field_def read_pos_field_def split: prod.splits)

subsection \<open>Accessors of fields\<close>

text \<open>
  A field of a driver: its accessors, its place in the registers and the values that its type
  has, or that fit it. \<open>field_ok\<close> ties the accessors to the place.
\<close>

record 'e sensor_field =
  f_write :: "u8 \<Rightarrow> 'e \<Rightarrow> status_t \<times> 'e"
  f_read :: "'e \<Rightarrow> status_t \<times> u8 \<times> 'e"
  f_reg :: u8
  f_mask :: u8
  f_shift :: nat
  f_values :: "u8 \<Rightarrow> bool"

definition enum_field ::
  "(u8 \<Rightarrow> 'e \<Rightarrow> status_t \<times> 'e) \<Rightarrow> ('e \<Rightarrow> status_t \<times> u8 \<times> 'e) \<Rightarrow> u8 \<Rightarrow> u8 \<Rightarrow> u8 list \<Rightarrow> 'e sensor_field" where
  "enum_field w r reg m vs =
     \<lparr>f_write = w, f_read = r, f_reg = reg, f_mask = m, f_shift = 0, f_values = (\<lambda>v. v \<in> set vs)\<rparr>"

definition pos_field ::
  "(u8 \<Rightarrow> 'e \<Rightarrow> status_t \<times> 'e) \<Rightarrow> ('e \<Rightarrow> status_t \<times> u8 \<times> 'e) \<Rightarrow> u8 \<Rightarrow> u8 \<Rightarrow> nat \<Rightarrow> 'e sensor_field" where
  "pos_field w r reg m pos =
     \<lparr>f_write = w, f_read = r, f_reg = reg, f_mask = m, f_shift = pos,
      f_values = (\<lambda>v. drop_bit pos (push_bit pos v AND m) = v)\<rparr>"

definition field_ok :: "'e sensor_io \<Rightarrow> 'e sensor_field \<Rightarrow> bool" where
  "field_ok io f \<longleftrightarrow>
     (\<forall>v. f_values f v \<longrightarrow>
        f_write f v = write_field io (f_reg f) (f_mask f) (push_bit (f_shift f) v AND f_mask f) \<and>
        drop_bit (f_shift f) (push_bit (f_shift f) v AND f_mask f) = v) \<and>
     (\<forall>e w e'. f_read f e = (MEMS_SUCCESS, w, e') \<longrightarrow>
        read_pos_field io (f_reg f) (f_mask f) (f_shift f) e = (MEMS_SUCCESS, w, e'))"

lemma field_okD:
  assumes "field_ok io f"
  shows "f_values f v \<Longrightarrow> f_write f v = write_field io (f_reg f) (f_mask f) (push_bit (f_shift f) v AND f_mask f)"
    "f_values f v \<Longrightarrow> drop_bit (f_shift f) (push_bit (f_shift f) v AND f_mask f) = v"
    "f_read f e = (MEMS_SUCCESS, w, e') \<Longrightarrow>
      read_pos_field io (f_reg f) (f_mask f) (f_shift f) e = (MEMS_SUCCESS, w, e')"
  using assms unfolding field_ok_def by blast+

lemma enum_field_ok:
  assumes "list_all (\<lambda>v. v AND m = v) vs"
  shows "field_ok io (enum_field (write_field io r m) (read_field io r m) r m vs)"
proof -
  have "v AND m = v" if "v \<in> set vs" for v using assms that by (simp add: list_all_iff)
  then show ?thesis by (simp add: field_ok_def enum_field_def read_field_pos)
qed

lemma pos_field_ok: "field_ok io (pos_field (write_pos_field io r m pos) (read_pos_field io r m pos) r m pos)"
  by (simp add: field_ok_def pos_field_def write_pos_field_def)

text \<open>The bits of a field after a write, whatever comes of it.\<close>

lemma field_bits: "((x AND NOT m) OR (y AND m)) AND m = y AND m" for x m y :: u8
  by (rule bit_word_eqI) (auto simp: bit_simps)

lemma other_bits: "m AND n = 0 \<Longrightarrow> ((x AND NOT m) OR (y AND m)) AND n = x AND n" for x m n y :: u8
proof -
  assume "m AND n = 0"
  then have "bit m i \<Longrightarrow> bit n i \<Longrightarrow> i < 8 \<Longrightarrow> False" for i by (metis bit_and_iff bit_0_eq bot_apply bot_bool_def)
  then show ?thesis by (intro bit_word_eqI) (auto simp: bit_simps)
qed

lemma field_spec:
  assumes "register_bus io regs A" "field_ok io f" "f_reg f \<in> A" "f_values f v" "f_write f v e = (st, e')"
  shows "(\<forall>x \<in> A. x \<noteq> f_reg f \<longrightarrow> regs e' x = regs e x) \<and>
    regs e' (f_reg f) AND NOT (f_mask f) = regs e (f_reg f) AND NOT (f_mask f) \<and>
    (st = MEMS_SUCCESS \<longrightarrow> (\<forall>w e''. f_read f e' = (MEMS_SUCCESS, w, e'') \<longrightarrow> w = v))"
proof -
  let ?y = "push_bit (f_shift f) v"
  note ok = field_okD [OF assms(2)]
  have wr: "write_field io (f_reg f) (f_mask f) (?y AND f_mask f) e = (st, e')"
    using assms(5) by (simp add: ok(1) [OF assms(4)])
  note bus = write_field_regs [OF assms(1,3) wr]
  have rest: "((x AND NOT m) OR (y AND m)) AND NOT m = x AND NOT m" for x y m :: u8
    by (rule bit_word_eqI) (auto simp: bit_simps)
  have "w = v" if "st = MEMS_SUCCESS" "f_read f e' = (MEMS_SUCCESS, w, e'')" for w e''
  proof -
    have "read_pos_field io (f_reg f) (f_mask f) (f_shift f) e' = (MEMS_SUCCESS, w, e'')"
      by (rule ok(3) [OF that(2)])
    then have "w = drop_bit (f_shift f) (regs e' (f_reg f) AND f_mask f)"
      by (rule read_pos_field_regs(2) [OF assms(1,3)]) simp
    then show ?thesis by (simp only: bus(2) [OF that(1)] field_bits ok(2) [OF assms(4)])
  qed
  then show ?thesis using bus(1) bus(3) rest by metis
qed

lemma field_independent:
  assumes "register_bus io regs A" "field_ok io f" "field_ok io g" "f_reg f \<in> A" "f_reg g \<in> A"
    and "f_reg f \<noteq> f_reg g \<or> f_mask f AND f_mask g = 0" "f_values f v" "f_write f v e = (st, e')"
    and "f_read g e = (MEMS_SUCCESS, w, e1)" "f_read g e' = (MEMS_SUCCESS, w', e2)"
  shows "w' = w"
proof -
  let ?y = "push_bit (f_shift f) v"
  have wr: "write_field io (f_reg f) (f_mask f) (?y AND f_mask f) e = (st, e')"
    using assms(8) by (simp add: field_okD(1) [OF assms(2,7)])
  note bus = write_field_regs [OF assms(1,4) wr]
  have "regs e' (f_reg g) AND f_mask g = regs e (f_reg g) AND f_mask g"
  proof (cases "f_reg f = f_reg g")
    case True
    then show ?thesis using bus(3) assms(6) other_bits by metis
  next
    case False
    then show ?thesis using bus(1) [OF assms(5)] by simp
  qed
  moreover have "w = drop_bit (f_shift g) (regs e (f_reg g) AND f_mask g)"
    "w' = drop_bit (f_shift g) (regs e' (f_reg g) AND f_mask g)"
    using read_pos_field_regs(2) [OF assms(1,5) field_okD(3) [OF assms(3,9)]]
      read_pos_field_regs(2) [OF assms(1,5) field_okD(3) [OF assms(3,10)]] by simp_all
  ultimately show ?thesis by simp
qed

definition disjoint_fields :: "(u8 \<times> u8) list \<Rightarrow> bool" where
  "disjoint_fields = sorted_wrt (\<lambda>x y. fst x \<noteq> fst y \<or> snd x AND snd y = 0)"

lemma disjoint_fieldsD:
  assumes "disjoint_fields (map (\<lambda>f. (f_reg f, f_mask f)) fs)" "i < length fs" "j < length fs" "i \<noteq> j"
  shows "f_reg (fs ! i) \<noteq> f_reg (fs ! j) \<or> f_mask (fs ! i) AND f_mask (fs ! j) = 0"
proof -
  let ?P = "\<lambda>i j. f_reg (fs ! i) \<noteq> f_reg (fs ! j) \<or> f_mask (fs ! i) AND f_mask (fs ! j) = 0"
  have *: "?P i j" if "i < j" "j < length fs" for i j
    using assms(1) that by (simp add: disjoint_fields_def sorted_wrt_map sorted_wrt_iff_nth_less)
  show ?thesis
  proof (cases "i < j")
    case True
    then show ?thesis using * assms(3) by blast
  next
    case False
    then have "?P j i" using * assms(2,4) by simp
    then show ?thesis by (auto simp: and.commute)
  qed
qed

text \<open>It is enough to look at the pairs of a group if the groups have registers of their own.\<close>

lemma disjoint_fields_groups:
  assumes "list_all (\<lambda>(rs, fs). disjoint_fields (map (\<lambda>f. (f_reg f, f_mask f)) fs) \<and>
      list_all (\<lambda>f. f_reg f \<in> set rs) fs) gs" "distinct (concat (map fst gs))"
  shows "disjoint_fields (map (\<lambda>f. (f_reg f, f_mask f)) (concat (map snd gs)))"
  using assms
proof (induction gs)
  case Nil
  then show ?case by (simp add: disjoint_fields_def)
next
  case (Cons g gs)
  obtain rs fs where g: "g = (rs, fs)" by (cases g)
  have "f_reg f \<noteq> f_reg h" if "f \<in> set fs" "g' \<in> set gs" "h \<in> set (snd g')" for f g' h
  proof -
    have "f_reg f \<in> set rs" using Cons.prems(1) that(1) by (simp add: g list_all_iff)
    moreover have "f_reg h \<in> set (fst g')" using Cons.prems(1) that(2,3) by (auto simp: list_all_iff)
    moreover have "set rs \<inter> set (fst g') = {}" using Cons.prems(2) that(2) by (auto simp: g)
    ultimately show ?thesis by auto
  qed
  moreover have "disjoint_fields (map (\<lambda>f. (f_reg f, f_mask f)) (concat (map snd gs)))"
    using Cons by simp
  ultimately show ?case
    using Cons.prems(1) by (auto simp: g disjoint_fields_def sorted_wrt_append)
qed

subsection \<open>Tables of fields\<close>

text \<open>
  What a driver promises of the table of its fields, and what its clients may conclude for a device
  whose registers hold what is written to them.
\<close>

locale field_table =
  fixes fields :: "'e sensor_io \<Rightarrow> 'e sensor_field list"
  assumes ok: "list_all (field_ok io) (fields io)"
    and disjoint: "disjoint_fields (map (\<lambda>f. (f_reg f, f_mask f)) (fields io))"
begin

lemma field_ok_nth: "i < length (fields io) \<Longrightarrow> field_ok io (fields io ! i)"
  using ok [of io] by (simp add: list_all_length)

lemma field_ok_in: "f \<in> set (fields io) \<Longrightarrow> field_ok io f"
  using ok [of io] by (simp add: list_all_iff)

lemma spec:
  assumes "register_bus io regs A" "f \<in> set (fields io)" "f_reg f \<in> A" "f_values f v" "f_write f v e = (st, e')"
  shows "(\<forall>x \<in> A. x \<noteq> f_reg f \<longrightarrow> regs e' x = regs e x) \<and>
    regs e' (f_reg f) AND NOT (f_mask f) = regs e (f_reg f) AND NOT (f_mask f) \<and>
    (st = MEMS_SUCCESS \<longrightarrow> (\<forall>w e''. f_read f e' = (MEMS_SUCCESS, w, e'') \<longrightarrow> w = v))"
  by (rule field_spec [OF assms(1) field_ok_in [OF assms(2)] assms(3-5)])

lemma independent:
  assumes "register_bus io regs A" "i < length (fields io)" "j < length (fields io)" "i \<noteq> j"
    and "f = fields io ! i" "g = fields io ! j" "f_reg f \<in> A" "f_reg g \<in> A" "f_values f v" "f_write f v e = (st, e')"
    and "f_read g e = (MEMS_SUCCESS, w, e1)" "f_read g e' = (MEMS_SUCCESS, w', e2)"
  shows "w' = w"
proof -
  have "f_reg f \<noteq> f_reg g \<or> f_mask f AND f_mask g = 0"
    using disjoint_fieldsD [OF disjoint assms(2-4)] assms(5,6) by simp
  moreover have "field_ok io f" "field_ok io g" using field_ok_nth assms(2,3,5,6) by simp_all
  ultimately show ?thesis by (intro field_independent [OF assms(1) _ _ assms(7,8) _ assms(9-12)])
qed

lemma spec_independent:
  assumes "register_bus io regs A" "i < length (fields io)" "f = fields io ! i" "f_reg f \<in> A"
    and "f_values f v" "f_write f v e = (st, e')"
  shows "(\<forall>x \<in> A. x \<noteq> f_reg f \<longrightarrow> regs e' x = regs e x) \<and>
    regs e' (f_reg f) AND NOT (f_mask f) = regs e (f_reg f) AND NOT (f_mask f) \<and>
    (st = MEMS_SUCCESS \<longrightarrow> (\<forall>w e''. f_read f e' = (MEMS_SUCCESS, w, e'') \<longrightarrow> w = v)) \<and>
    (\<forall>j < length (fields io). \<forall>g w w' e1 e2. j \<noteq> i \<longrightarrow> g = fields io ! j \<longrightarrow> f_reg g \<in> A \<longrightarrow>
       f_read g e = (MEMS_SUCCESS, w, e1) \<longrightarrow> f_read g e' = (MEMS_SUCCESS, w', e2) \<longrightarrow> w' = w)"
proof -
  have f: "f \<in> set (fields io)" using assms(2,3) by simp
  show ?thesis
    using spec [OF assms(1) f assms(4-6)] independent [OF assms(1,2) _ _ assms(3) _ assms(4) _ assms(5,6)]
    by blast
qed

end

subsection \<open>A bus whose transfers succeed\<close>

definition reads_succeed :: "'e sensor_io \<Rightarrow> u8 set \<Rightarrow> bool" where
  "reads_succeed io A \<longleftrightarrow> (\<forall>a \<in> A. \<forall>e. fst (IO_Read io a 1 e) = 0)"

lemma reads_succeedE:
  assumes "register_bus io regs A" "reads_succeed io A" "a \<in> A"
  obtains e' where "mems_ReadReg io a 1 e = (MEMS_SUCCESS, [regs e a], e')" "\<And>x. x \<in> A \<Longrightarrow> regs e' x = regs e x"
proof -
  obtain st bytes e' where r: "IO_Read io a 1 e = (st, bytes, e')" using prod_cases3 by blast
  have "fst (IO_Read io a 1 e) = 0" using assms(2,3) unfolding reads_succeed_def by blast
  then have "st = 0" by (simp add: r)
  moreover have "(\<forall>x \<in> A. regs e' x = regs e x) \<and> (st = 0 \<longrightarrow> bytes = [regs e a])"
    using assms(1,3) r unfolding register_bus_def by blast
  ultimately show thesis using r by (intro that [of e']) (simp_all add: mems_ReadReg_def)
qed

lemma reads_succeed_pos:
  assumes "register_bus io regs A" "reads_succeed io A" "a \<in> A"
  obtains e' where "read_pos_field io a m p e = (MEMS_SUCCESS, drop_bit p (regs e a AND m), e')"
    "\<And>x. x \<in> A \<Longrightarrow> regs e' x = regs e x"
proof -
  obtain e' where "mems_ReadReg io a 1 e = (MEMS_SUCCESS, [regs e a], e')" "\<And>x. x \<in> A \<Longrightarrow> regs e' x = regs e x"
    using reads_succeedE [OF assms, where e = e] by blast
  then show thesis by (intro that [of e']) (simp_all add: read_pos_field_def)
qed

lemma read_regs_succeed:
  assumes "register_bus io regs A" "reads_succeed io A"
  shows "(\<forall>j < n. base + of_nat (k + j) \<in> A) \<Longrightarrow> k + n \<le> length buff \<Longrightarrow>
    \<exists>e'. read_regs io base k n buff e =
        (MEMS_SUCCESS, take k buff @ map (\<lambda>j. regs e (base + of_nat j)) [k..<k + n] @ drop (k + n) buff, e') \<and>
      (\<forall>x \<in> A. regs e' x = regs e x)"
proof (induction n arbitrary: k buff e)
  case 0
  then show ?case by simp
next
  case (Suc n)
  let ?b = "regs e (base + of_nat k)"
  have "base + of_nat k \<in> A" using Suc.prems(1) by (metis add_0_right zero_less_Suc)
  from reads_succeedE [OF assms this, where e = e]
  obtain e1 where e1: "mems_ReadReg io (base + of_nat k) 1 e = (MEMS_SUCCESS, [?b], e1)"
    "\<And>x. x \<in> A \<Longrightarrow> regs e1 x = regs e x" by blast
  have A: "\<forall>j < n. base + of_nat (Suc k + j) \<in> A"
  proof (intro allI impI)
    fix j
    assume "j < n"
    then have "base + of_nat (k + Suc j) \<in> A" using Suc.prems(1) by (meson Suc_less_eq)
    then show "base + of_nat (Suc k + j) \<in> A" by simp
  qed
  obtain e' where e': "read_regs io base (Suc k) n (buff[k := ?b]) e1 =
      (MEMS_SUCCESS, take (Suc k) (buff[k := ?b]) @
        map (\<lambda>j. regs e1 (base + of_nat j)) [Suc k..<Suc k + n] @ drop (Suc k + n) (buff[k := ?b]), e')"
    "\<forall>x \<in> A. regs e' x = regs e1 x"
    using Suc.IH [of "Suc k" "buff[k := ?b]" e1, OF A] Suc.prems(2) by auto
  have "regs e1 (base + of_nat j) = regs e (base + of_nat j)" if "j \<in> set [Suc k..<Suc k + n]" for j
  proof -
    from that have "j = Suc k + (j - Suc k)" "j - Suc k < n" by auto
    then show ?thesis using A e1(2) by metis
  qed
  then have m: "map (\<lambda>j. regs e1 (base + of_nat j)) [Suc k..<Suc k + n] =
      map (\<lambda>j. regs e (base + of_nat j)) [Suc k..<Suc k + n]" by (intro map_cong refl)
  have k: "k < length buff" using Suc.prems(2) by simp
  have "take (Suc k) (buff[k := ?b]) = take k buff @ [?b]"
    using k by (simp add: take_Suc_conv_app_nth)
  moreover have "[k..<k + Suc n] = k # [Suc k..<Suc k + n]" by (simp add: upt_conv_Cons)
  moreover have "drop (Suc k + n) (buff[k := ?b]) = drop (k + Suc n) buff" by simp
  ultimately show ?case using e' e1 m by simp
qed

subsection \<open>A register file\<close>

text \<open>The plainest device: every address holds a byte, and no transfer fails.\<close>

definition register_file :: "(u8 \<Rightarrow> u8) sensor_io" where
  "register_file =
     \<lparr>IO_Read = (\<lambda>a n e. (0, map (\<lambda>k. e (a + of_nat k)) [0..<unat n], e)),
      IO_Write = (\<lambda>a bs e. (0, fold (\<lambda>k e. e(a + of_nat k := bs ! k)) [0..<length bs] e))\<rparr>"

lemma register_file_bus: "register_bus register_file (\<lambda>e. e) A"
  by (auto simp: register_bus_def register_file_def)

lemma register_file_reads: "reads_succeed register_file A"
  by (simp add: reads_succeed_def register_file_def)

lemma register_file_write [simp]: "write_field register_file r m v e = (MEMS_SUCCESS, e(r := (e r AND NOT m) OR v))"
  by (simp add: write_field_def mems_ReadReg_def mems_WriteReg_def register_file_def)

lemma register_file_read [simp]: "read_pos_field register_file r m p e = (MEMS_SUCCESS, drop_bit p (e r AND m), e)"
  by (simp add: read_pos_field_def mems_ReadReg_def register_file_def)

end
