(* ===== verification/Lsm6ds3.thy ===== *)
theory Lsm6ds3
  imports SensorBus
begin

text \<open>
  The driver of the LSM6DS3 accelerometer and gyroscope,
  \<^verbatim>\<open>CoreSensors/src/LSM6DS3Sensor/LSM6DS3_ACC_GYRO_driver.c\<close>: one definition for each of its functions,
  in the order of the registers, with the constants and enumerations of its header. A function whose
  result argument is not written on some path returns \<open>None\<close> for it there.
\<close>

unbundle bit_operations_syntax

subsection \<open>Registers, masks and positions\<close>

abbreviation (input) "LSM6DS3_ACC_GYRO_WHO_AM_I_REG \<equiv> 0x0F :: u8"
abbreviation (input) "LSM6DS3_ACC_GYRO_WHO_AM_I_BIT_MASK \<equiv> 0xFF :: u8"
abbreviation (input) "LSM6DS3_ACC_GYRO_CTRL3_C \<equiv> 0x12 :: u8"
abbreviation (input) "LSM6DS3_ACC_GYRO_BDU_MASK \<equiv> 0x40 :: u8"
abbreviation (input) "LSM6DS3_ACC_GYRO_CTRL1_XL \<equiv> 0x10 :: u8"
abbreviation (input) "LSM6DS3_ACC_GYRO_FS_XL_MASK \<equiv> 0x0C :: u8"
abbreviation (input) "LSM6DS3_ACC_GYRO_ODR_XL_MASK \<equiv> 0xF0 :: u8"
abbreviation (input) "LSM6DS3_ACC_GYRO_CTRL2_G \<equiv> 0x11 :: u8"
abbreviation (input) "LSM6DS3_ACC_GYRO_FS_G_MASK \<equiv> 0x0C :: u8"
abbreviation (input) "LSM6DS3_ACC_GYRO_ODR_G_MASK \<equiv> 0xF0 :: u8"
abbreviation (input) "LSM6DS3_ACC_GYRO_BW_XL_MASK \<equiv> 0x03 :: u8"
abbreviation (input) "LSM6DS3_ACC_GYRO_FS_125_MASK \<equiv> 0x02 :: u8"
abbreviation (input) "LSM6DS3_ACC_GYRO_FUNC_CFG_ACCESS \<equiv> 0x01 :: u8"
abbreviation (input) "LSM6DSM_ACC_GYRO_EMB_ACC_MASK \<equiv> 0x80 :: u8"
abbreviation (input) "LSM6DS3_ACC_GYRO_SENSOR_SYNC_TIME \<equiv> 0x04 :: u8"
abbreviation (input) "LSM6DS3_ACC_GYRO_TPH_MASK \<equiv> 0xFF :: u8"
abbreviation (input) "LSM6DS3_ACC_GYRO_FIFO_CTRL2 \<equiv> 0x07 :: u8"
abbreviation (input) "LSM6DS3_ACC_GYRO_TIM_PEDO_FIFO_DRDY_MASK \<equiv> 0x40 :: u8"
abbreviation (input) "LSM6DS3_ACC_GYRO_TIM_PEDO_FIFO_EN_MASK \<equiv> 0x80 :: u8"
abbreviation (input) "LSM6DS3_ACC_GYRO_FIFO_CTRL3 \<equiv> 0x08 :: u8"
abbreviation (input) "LSM6DS3_ACC_GYRO_DEC_FIFO_XL_MASK \<equiv> 0x07 :: u8"
abbreviation (input) "LSM6DS3_ACC_GYRO_DEC_FIFO_G_MASK \<equiv> 0x38 :: u8"
abbreviation (input) "LSM6DS3_ACC_GYRO_FIFO_CTRL4 \<equiv> 0x09 :: u8"
abbreviation (input) "LSM6DS3_ACC_GYRO_DEC_FIFO_SLV0_MASK \<equiv> 0x07 :: u8"
abbreviation (input) "LSM6DS3_ACC_GYRO_DEC_FIFO_SLV1_MASK \<equiv> 0x38 :: u8"
abbreviation (input) "LSM6DS3_ACC_GYRO_HI_DATA_ONLY_MASK \<equiv> 0x40 :: u8"
abbreviation (input) "LSM6DS3_ACC_GYRO_FIFO_CTRL5 \<equiv> 0x0A :: u8"
abbreviation (input) "LSM6DS3_ACC_GYRO_FIFO_MODE_MASK \<equiv> 0x07 :: u8"
abbreviation (input) "LSM6DS3_ACC_GYRO_ODR_FIFO_MASK \<equiv> 0x78 :: u8"
abbreviation (input) "LSM6DS3_ACC_GYRO_ORIENT_CFG_G \<equiv> 0x0B :: u8"
abbreviation (input) "LSM6DS3_ACC_GYRO_ORIENT_MASK \<equiv> 0x07 :: u8"
abbreviation (input) "LSM6DS3_ACC_GYRO_SIGN_Z_G_MASK \<equiv> 0x08 :: u8"
abbreviation (input) "LSM6DS3_ACC_GYRO_SIGN_Y_G_MASK \<equiv> 0x10 :: u8"
abbreviation (input) "LSM6DS3_ACC_GYRO_SIGN_X_G_MASK \<equiv> 0x20 :: u8"
abbreviation (input) "LSM6DS3_ACC_GYRO_INT1_CTRL \<equiv> 0x0D :: u8"
abbreviation (input) "LSM6DS3_ACC_GYRO_INT1_DRDY_XL_MASK \<equiv> 0x01 :: u8"
abbreviation (input) "LSM6DS3_ACC_GYRO_INT1_DRDY_G_MASK \<equiv> 0x02 :: u8"
abbreviation (input) "LSM6DS3_ACC_GYRO_INT1_BOOT_MASK \<equiv> 0x04 :: u8"
abbreviation (input) "LSM6DS3_ACC_GYRO_INT1_FTH_MASK \<equiv> 0x08 :: u8"
abbreviation (input) "LSM6DS3_ACC_GYRO_INT1_OVR_MASK \<equiv> 0x10 :: u8"
abbreviation (input) "LSM6DS3_ACC_GYRO_INT1_FSS5_MASK \<equiv> 0x20 :: u8"
abbreviation (input) "LSM6DS3_ACC_GYRO_INT1_SIGN_MOT_MASK \<equiv> 0x40 :: u8"
abbreviation (input) "LSM6DS3_ACC_GYRO_INT1_PEDO_MASK \<equiv> 0x80 :: u8"
abbreviation (input) "LSM6DS3_ACC_GYRO_INT2_CTRL \<equiv> 0x0E :: u8"
abbreviation (input) "LSM6DS3_ACC_GYRO_INT2_DRDY_XL_MASK \<equiv> 0x01 :: u8"
abbreviation (input) "LSM6DS3_ACC_GYRO_INT2_DRDY_G_MASK \<equiv> 0x02 :: u8"
abbreviation (input) "LSM6DS3_ACC_GYRO_INT2_DRDY_TEMP_MASK \<equiv> 0x04 :: u8"
abbreviation (input) "LSM6DS3_ACC_GYRO_INT2_FTH_MASK \<equiv> 0x08 :: u8"
abbreviation (input) "LSM6DS3_ACC_GYRO_INT2_OVR_MASK \<equiv> 0x10 :: u8"
abbreviation (input) "LSM6DS3_ACC_GYRO_INT2_FSS5_MASK \<equiv> 0x20 :: u8"
abbreviation (input) "LSM6DS3_ACC_GYRO_INT2_SIGN_MOT_MASK \<equiv> 0x40 :: u8"
abbreviation (input) "LSM6DS3_ACC_GYRO_INT2_PEDO_MASK \<equiv> 0x80 :: u8"
abbreviation (input) "LSM6DS3_ACC_GYRO_SW_RESET_MASK \<equiv> 0x01 :: u8"
abbreviation (input) "LSM6DS3_ACC_GYRO_BLE_MASK \<equiv> 0x02 :: u8"
abbreviation (input) "LSM6DS3_ACC_GYRO_IF_INC_MASK \<equiv> 0x04 :: u8"
abbreviation (input) "LSM6DS3_ACC_GYRO_SIM_MASK \<equiv> 0x08 :: u8"
abbreviation (input) "LSM6DS3_ACC_GYRO_PP_OD_MASK \<equiv> 0x10 :: u8"
abbreviation (input) "LSM6DS3_ACC_GYRO_INT_ACT_LEVEL_MASK \<equiv> 0x20 :: u8"
abbreviation (input) "LSM6DS3_ACC_GYRO_BOOT_MASK \<equiv> 0x80 :: u8"
abbreviation (input) "LSM6DS3_ACC_GYRO_CTRL4_C \<equiv> 0x13 :: u8"
abbreviation (input) "LSM6DS3_ACC_GYRO_STOP_ON_FTH_MASK \<equiv> 0x01 :: u8"
abbreviation (input) "LSM6DS3_ACC_GYRO_MODE3_EN_MASK \<equiv> 0x02 :: u8"
abbreviation (input) "LSM6DS3_ACC_GYRO_I2C_DISABLE_MASK \<equiv> 0x04 :: u8"
abbreviation (input) "LSM6DS3_ACC_GYRO_DRDY_MSK_MASK \<equiv> 0x08 :: u8"
abbreviation (input) "LSM6DS3_ACC_GYRO_FIFO_TEMP_EN_MASK \<equiv> 0x10 :: u8"
abbreviation (input) "LSM6DS3_ACC_GYRO_INT2_ON_INT1_MASK \<equiv> 0x20 :: u8"
abbreviation (input) "LSM6DS3_ACC_GYRO_SLEEP_G_MASK \<equiv> 0x40 :: u8"
abbreviation (input) "LSM6DS3_ACC_GYRO_BW_SCAL_ODR_MASK \<equiv> 0x80 :: u8"
abbreviation (input) "LSM6DS3_ACC_GYRO_CTRL5_C \<equiv> 0x14 :: u8"
abbreviation (input) "LSM6DS3_ACC_GYRO_ST_XL_MASK \<equiv> 0x03 :: u8"
abbreviation (input) "LSM6DS3_ACC_GYRO_ST_G_MASK \<equiv> 0x0C :: u8"
abbreviation (input) "LSM6DS3_ACC_GYRO_LSM6DS3_ACC_GYRO_ROUNDING_t_MASK \<equiv> 0xE0 :: u8"
abbreviation (input) "LSM6DS3_ACC_GYRO_CTRL6_G \<equiv> 0x15 :: u8"
abbreviation (input) "LSM6DS3_ACC_GYRO_LP_XL_MASK \<equiv> 0x10 :: u8"
abbreviation (input) "LSM6DS3_ACC_GYRO_DEN_LVL2_EN_MASK \<equiv> 0x20 :: u8"
abbreviation (input) "LSM6DS3_ACC_GYRO_DEN_LVL_EN_MASK \<equiv> 0x40 :: u8"
abbreviation (input) "LSM6DS3_ACC_GYRO_DEN_EDGE_EN_MASK \<equiv> 0x80 :: u8"
abbreviation (input) "LSM6DS3_ACC_GYRO_CTRL7_G \<equiv> 0x16 :: u8"
abbreviation (input) "LSM6DS3_ACC_GYRO_HPCF_G_MASK \<equiv> 0x30 :: u8"
abbreviation (input) "LSM6DS3_ACC_GYRO_HP_EN_MASK \<equiv> 0x40 :: u8"
abbreviation (input) "LSM6DS3_ACC_GYRO_LP_EN_MASK \<equiv> 0x80 :: u8"
abbreviation (input) "LSM6DS3_ACC_GYRO_ROUNDING_STATUS_MASK \<equiv> 0x04 :: u8"
abbreviation (input) "LSM6DS3_ACC_GYRO_HP_G_RST_MASK \<equiv> 0x08 :: u8"
abbreviation (input) "LSM6DS3_ACC_GYRO_CTRL8_XL \<equiv> 0x17 :: u8"
abbreviation (input) "LSM6DS3_ACC_GYRO_LPF2_XL_MASK \<equiv> 0x80 :: u8"
abbreviation (input) "LSM6DS3_ACC_GYRO_HPCF_XL_MASK \<equiv> 0x60 :: u8"
abbreviation (input) "LSM6DS3_ACC_GYRO_LOW_PASS_ON_6D_MASK \<equiv> 0x01 :: u8"
abbreviation (input) "LSM6DS3_ACC_GYRO_HP_SLOPE_XL_MASK \<equiv> 0x04 :: u8"
abbreviation (input) "LSM6DS3_ACC_GYRO_CTRL9_XL \<equiv> 0x18 :: u8"
abbreviation (input) "LSM6DS3_ACC_GYRO_XEN_XL_MASK \<equiv> 0x08 :: u8"
abbreviation (input) "LSM6DS3_ACC_GYRO_YEN_XL_MASK \<equiv> 0x10 :: u8"
abbreviation (input) "LSM6DS3_ACC_GYRO_ZEN_XL_MASK \<equiv> 0x20 :: u8"
abbreviation (input) "LSM6DS3_ACC_GYRO_SOFT_MASK \<equiv> 0x04 :: u8"
abbreviation (input) "LSM6DS3_ACC_GYRO_CTRL10_C \<equiv> 0x19 :: u8"
abbreviation (input) "LSM6DS3_ACC_GYRO_SIGN_MOTION_EN_MASK \<equiv> 0x01 :: u8"
abbreviation (input) "LSM6DS3_ACC_GYRO_PEDO_RST_STEP_MASK \<equiv> 0x02 :: u8"
abbreviation (input) "LSM6DS3_ACC_GYRO_XEN_G_MASK \<equiv> 0x08 :: u8"
abbreviation (input) "LSM6DS3_ACC_GYRO_YEN_G_MASK \<equiv> 0x10 :: u8"
abbreviation (input) "LSM6DS3_ACC_GYRO_ZEN_G_MASK \<equiv> 0x20 :: u8"
abbreviation (input) "LSM6DS3_ACC_GYRO_FUNC_EN_MASK \<equiv> 0x04 :: u8"
abbreviation (input) "LSM6DS3_ACC_GYRO_MASTER_CONFIG \<equiv> 0x1A :: u8"
abbreviation (input) "LSM6DS3_ACC_GYRO_MASTER_ON_MASK \<equiv> 0x01 :: u8"
abbreviation (input) "LSM6DS3_ACC_GYRO_IRON_EN_MASK \<equiv> 0x02 :: u8"
abbreviation (input) "LSM6DS3_ACC_GYRO_PASS_THRU_MODE_MASK \<equiv> 0x04 :: u8"
abbreviation (input) "LSM6DS3_ACC_GYRO_PULL_UP_EN_MASK \<equiv> 0x08 :: u8"
abbreviation (input) "LSM6DS3_ACC_GYRO_START_CONFIG_MASK \<equiv> 0x10 :: u8"
abbreviation (input) "LSM6DS3_ACC_GYRO_DATA_VAL_SEL_FIFO_MASK \<equiv> 0x40 :: u8"
abbreviation (input) "LSM6DS3_ACC_GYRO_DRDY_ON_INT1_MASK \<equiv> 0x80 :: u8"
abbreviation (input) "LSM6DS3_ACC_GYRO_WAKE_UP_SRC \<equiv> 0x1B :: u8"
abbreviation (input) "LSM6DS3_ACC_GYRO_Z_WU_MASK \<equiv> 0x01 :: u8"
abbreviation (input) "LSM6DS3_ACC_GYRO_Y_WU_MASK \<equiv> 0x02 :: u8"
abbreviation (input) "LSM6DS3_ACC_GYRO_X_WU_MASK \<equiv> 0x04 :: u8"
abbreviation (input) "LSM6DS3_ACC_GYRO_WU_EV_STATUS_MASK \<equiv> 0x08 :: u8"
abbreviation (input) "LSM6DS3_ACC_GYRO_SLEEP_EV_STATUS_MASK \<equiv> 0x10 :: u8"
abbreviation (input) "LSM6DS3_ACC_GYRO_FF_EV_STATUS_MASK \<equiv> 0x20 :: u8"
abbreviation (input) "LSM6DS3_ACC_GYRO_TAP_SRC \<equiv> 0x1C :: u8"
abbreviation (input) "LSM6DS3_ACC_GYRO_Z_TAP_MASK \<equiv> 0x01 :: u8"
abbreviation (input) "LSM6DS3_ACC_GYRO_Y_TAP_MASK \<equiv> 0x02 :: u8"
abbreviation (input) "LSM6DS3_ACC_GYRO_X_TAP_MASK \<equiv> 0x04 :: u8"
abbreviation (input) "LSM6DS3_ACC_GYRO_TAP_SIGN_MASK \<equiv> 0x08 :: u8"
abbreviation (input) "LSM6DS3_ACC_GYRO_DOUBLE_TAP_EV_STATUS_MASK \<equiv> 0x10 :: u8"
abbreviation (input) "LSM6DS3_ACC_GYRO_SINGLE_TAP_EV_STATUS_MASK \<equiv> 0x20 :: u8"
abbreviation (input) "LSM6DS3_ACC_GYRO_TAP_EV_STATUS_MASK \<equiv> 0x40 :: u8"
abbreviation (input) "LSM6DS3_ACC_GYRO_D6D_SRC \<equiv> 0x1D :: u8"
abbreviation (input) "LSM6DS3_ACC_GYRO_DSD_XL_MASK \<equiv> 0x01 :: u8"
abbreviation (input) "LSM6DS3_ACC_GYRO_DSD_XH_MASK \<equiv> 0x02 :: u8"
abbreviation (input) "LSM6DS3_ACC_GYRO_DSD_YL_MASK \<equiv> 0x04 :: u8"
abbreviation (input) "LSM6DS3_ACC_GYRO_DSD_YH_MASK \<equiv> 0x08 :: u8"
abbreviation (input) "LSM6DS3_ACC_GYRO_DSD_ZL_MASK \<equiv> 0x10 :: u8"
abbreviation (input) "LSM6DS3_ACC_GYRO_DSD_ZH_MASK \<equiv> 0x20 :: u8"
abbreviation (input) "LSM6DS3_ACC_GYRO_D6D_EV_STATUS_MASK \<equiv> 0x40 :: u8"
abbreviation (input) "LSM6DS3_ACC_GYRO_STATUS_REG \<equiv> 0x1E :: u8"
abbreviation (input) "LSM6DS3_ACC_GYRO_XLDA_MASK \<equiv> 0x01 :: u8"
abbreviation (input) "LSM6DS3_ACC_GYRO_GDA_MASK \<equiv> 0x02 :: u8"
abbreviation (input) "LSM6DS3_ACC_GYRO_TDA_MASK \<equiv> 0x04 :: u8"
abbreviation (input) "LSM6DS3_ACC_GYRO_EV_BOOT_MASK \<equiv> 0x08 :: u8"
abbreviation (input) "LSM6DS3_ACC_GYRO_FIFO_STATUS2 \<equiv> 0x3B :: u8"
abbreviation (input) "LSM6DS3_ACC_GYRO_FIFO_EMPTY_MASK \<equiv> 0x10 :: u8"
abbreviation (input) "LSM6DS3_ACC_GYRO_FIFO_FULL_MASK \<equiv> 0x20 :: u8"
abbreviation (input) "LSM6DS3_ACC_GYRO_OVERRUN_MASK \<equiv> 0x40 :: u8"
abbreviation (input) "LSM6DS3_ACC_GYRO_WTM_MASK \<equiv> 0x80 :: u8"
abbreviation (input) "LSM6DS3_ACC_GYRO_FUNC_SRC \<equiv> 0x53 :: u8"
abbreviation (input) "LSM6DS3_ACC_GYRO_SENS_HUB_END_MASK \<equiv> 0x01 :: u8"
abbreviation (input) "LSM6DS3_ACC_GYRO_SOFT_IRON_END_MASK \<equiv> 0x02 :: u8"
abbreviation (input) "LSM6DS3_ACC_GYRO_STEP_OVERFLOW_MASK \<equiv> 0x08 :: u8"
abbreviation (input) "LSM6DS3_ACC_GYRO_STEP_COUNT_DELTA_MASK \<equiv> 0x08 :: u8"
abbreviation (input) "LSM6DS3_ACC_GYRO_PEDO_EV_STATUS_MASK \<equiv> 0x10 :: u8"
abbreviation (input) "LSM6DS3_ACC_GYRO_TILT_EV_STATUS_MASK \<equiv> 0x20 :: u8"
abbreviation (input) "LSM6DS3_ACC_GYRO_SIGN_MOT_EV_STATUS_MASK \<equiv> 0x40 :: u8"
abbreviation (input) "LSM6DS3_ACC_GYRO_TAP_CFG1 \<equiv> 0x58 :: u8"
abbreviation (input) "LSM6DS3_ACC_GYRO_LIR_MASK \<equiv> 0x01 :: u8"
abbreviation (input) "LSM6DS3_ACC_GYRO_TAP_Z_EN_MASK \<equiv> 0x02 :: u8"
abbreviation (input) "LSM6DS3_ACC_GYRO_TAP_Y_EN_MASK \<equiv> 0x04 :: u8"
abbreviation (input) "LSM6DS3_ACC_GYRO_TAP_X_EN_MASK \<equiv> 0x08 :: u8"
abbreviation (input) "LSM6DS3_ACC_GYRO_TILT_EN_MASK \<equiv> 0x20 :: u8"
abbreviation (input) "LSM6DS3_ACC_GYRO_SLOPE_FDS_MASK \<equiv> 0x10 :: u8"
abbreviation (input) "LSM6DS3_ACC_GYRO_PEDO_EN_MASK \<equiv> 0x40 :: u8"
abbreviation (input) "LSM6DS3_ACC_GYRO_TIMER_EN_MASK \<equiv> 0x80 :: u8"
abbreviation (input) "LSM6DS3_ACC_GYRO_TAP_THS_6D \<equiv> 0x59 :: u8"
abbreviation (input) "LSM6DS3_ACC_GYRO_TAP_THS_MASK \<equiv> 0x1F :: u8"
abbreviation (input) "LSM6DS3_ACC_GYRO_SIXD_THS_MASK \<equiv> 0x60 :: u8"
abbreviation (input) "LSM6DS3_ACC_GYRO_D4D_MASK \<equiv> 0x80 :: u8"
abbreviation (input) "LSM6DS3_ACC_GYRO_INT_DUR2 \<equiv> 0x5A :: u8"
abbreviation (input) "LSM6DS3_ACC_GYRO_SHOCK_MASK \<equiv> 0x03 :: u8"
abbreviation (input) "LSM6DS3_ACC_GYRO_QUIET_MASK \<equiv> 0x0C :: u8"
abbreviation (input) "LSM6DS3_ACC_GYRO_DUR_MASK \<equiv> 0xF0 :: u8"
abbreviation (input) "LSM6DS3_ACC_GYRO_WAKE_UP_THS \<equiv> 0x5B :: u8"
abbreviation (input) "LSM6DS3_ACC_GYRO_WK_THS_MASK \<equiv> 0x3F :: u8"
abbreviation (input) "LSM6DS3_ACC_GYRO_INACTIVITY_ON_MASK \<equiv> 0x40 :: u8"
abbreviation (input) "LSM6DS3_ACC_GYRO_SINGLE_DOUBLE_TAP_MASK \<equiv> 0x80 :: u8"
abbreviation (input) "LSM6DS3_ACC_GYRO_WAKE_UP_DUR \<equiv> 0x5C :: u8"
abbreviation (input) "LSM6DS3_ACC_GYRO_SLEEP_DUR_MASK \<equiv> 0x0F :: u8"
abbreviation (input) "LSM6DS3_ACC_GYRO_TIMER_HR_MASK \<equiv> 0x10 :: u8"
abbreviation (input) "LSM6DS3_ACC_GYRO_WAKE_DUR_MASK \<equiv> 0x60 :: u8"
abbreviation (input) "LSM6DS3_ACC_GYRO_FREE_FALL \<equiv> 0x5D :: u8"
abbreviation (input) "LSM6DS3_ACC_GYRO_FF_THS_MASK \<equiv> 0x07 :: u8"
abbreviation (input) "LSM6DS3_ACC_GYRO_MD1_CFG \<equiv> 0x5E :: u8"
abbreviation (input) "LSM6DS3_ACC_GYRO_INT1_TIMER_MASK \<equiv> 0x01 :: u8"
abbreviation (input) "LSM6DS3_ACC_GYRO_INT1_TILT_MASK \<equiv> 0x02 :: u8"
abbreviation (input) "LSM6DS3_ACC_GYRO_INT1_6D_MASK \<equiv> 0x04 :: u8"
abbreviation (input) "LSM6DS3_ACC_GYRO_INT1_TAP_MASK \<equiv> 0x08 :: u8"
abbreviation (input) "LSM6DS3_ACC_GYRO_INT1_FF_MASK \<equiv> 0x10 :: u8"
abbreviation (input) "LSM6DS3_ACC_GYRO_INT1_WU_MASK \<equiv> 0x20 :: u8"
abbreviation (input) "LSM6DS3_ACC_GYRO_INT1_SINGLE_TAP_MASK \<equiv> 0x40 :: u8"
abbreviation (input) "LSM6DS3_ACC_GYRO_INT1_SLEEP_MASK \<equiv> 0x80 :: u8"
abbreviation (input) "LSM6DS3_ACC_GYRO_MD2_CFG \<equiv> 0x5F :: u8"
abbreviation (input) "LSM6DS3_ACC_GYRO_INT2_TIMER_MASK \<equiv> 0x01 :: u8"
abbreviation (input) "LSM6DS3_ACC_GYRO_INT2_TILT_MASK \<equiv> 0x02 :: u8"
abbreviation (input) "LSM6DS3_ACC_GYRO_INT2_6D_MASK \<equiv> 0x04 :: u8"
abbreviation (input) "LSM6DS3_ACC_GYRO_INT2_TAP_MASK \<equiv> 0x08 :: u8"
abbreviation (input) "LSM6DS3_ACC_GYRO_INT2_FF_MASK \<equiv> 0x10 :: u8"
abbreviation (input) "LSM6DS3_ACC_GYRO_INT2_WU_MASK \<equiv> 0x20 :: u8"
abbreviation (input) "LSM6DS3_ACC_GYRO_INT2_SINGLE_TAP_MASK \<equiv> 0x40 :: u8"
abbreviation (input) "LSM6DS3_ACC_GYRO_INT2_SLEEP_MASK \<equiv> 0x80 :: u8"
abbreviation (input) "LSM6DS3_ACC_GYRO_OUTX_L_XL \<equiv> 0x28 :: u8"
abbreviation (input) "LSM6DS3_ACC_GYRO_OUTX_L_G \<equiv> 0x22 :: u8"
abbreviation (input) "LSM6DS3_ACC_GYRO_FIFO_DATA_OUT_L \<equiv> 0x3E :: u8"
abbreviation (input) "LSM6DS3_ACC_GYRO_TIMESTAMP0_REG \<equiv> 0x40 :: u8"
abbreviation (input) "LSM6DS3_ACC_GYRO_STEP_COUNTER_L \<equiv> 0x4B :: u8"
abbreviation (input) "LSM6DS3_ACC_GYRO_CONFIG_PEDO_THS_MIN \<equiv> 0x0F :: u8"
abbreviation (input) "LSM6DS3_ACC_GYRO_MAG_SI_XX \<equiv> 0x24 :: u8"
abbreviation (input) "LSM6DS3_ACC_GYRO_SLV0_ADD \<equiv> 0x02 :: u8"
abbreviation (input) "LSM6DS3_ACC_GYRO_SLV0_SUBADD \<equiv> 0x03 :: u8"
abbreviation (input) "LSM6DS3_ACC_GYRO_SLAVE0_CONFIG \<equiv> 0x04 :: u8"
abbreviation (input) "LSM6DS3_ACC_GYRO_DATAWRITE_SRC_MODE_SUB_SLV0 \<equiv> 0x0E :: u8"
abbreviation (input) "LSM6DS3_ACC_GYRO_SENSORHUB1_REG \<equiv> 0x2E :: u8"
abbreviation (input) "LSM6DS3_ACC_GYRO_FIFO_CTRL1 \<equiv> 0x06 :: u8"
abbreviation (input) "LSM6DS3_ACC_GYRO_WTM_FIFO_CTRL1_MASK \<equiv> 0xFF :: u8"
abbreviation (input) "LSM6DS3_ACC_GYRO_WTM_FIFO_CTRL2_MASK \<equiv> 0x0F :: u8"
abbreviation (input) "LSM6DS3_ACC_GYRO_FIFO_STATUS1 \<equiv> 0x3A :: u8"
abbreviation (input) "LSM6DS3_ACC_GYRO_FIFO_STATUS3 \<equiv> 0x3C :: u8"
abbreviation (input) "LSM6DS3_ACC_GYRO_FIFO_STATUS4 \<equiv> 0x3D :: u8"
abbreviation (input) "LSM6DS3_ACC_GYRO_DIFF_FIFO_STATUS1_MASK \<equiv> 0xFF :: u8"
abbreviation (input) "LSM6DS3_ACC_GYRO_DIFF_FIFO_STATUS2_MASK \<equiv> 0x0F :: u8"
abbreviation (input) "LSM6DS3_ACC_GYRO_FIFO_STATUS3_PATTERN_MASK \<equiv> 0xFF :: u8"
abbreviation (input) "LSM6DS3_ACC_GYRO_FIFO_STATUS4_PATTERN_MASK \<equiv> 0x03 :: u8"
abbreviation (input) "LSM6DS3_ACC_GYRO_FF_FREE_FALL_DUR_MASK \<equiv> 0xF8 :: u8"
abbreviation (input) "LSM6DS3_ACC_GYRO_FF_WAKE_UP_DUR_MASK \<equiv> 0x80 :: u8"
abbreviation (input) "LSM6DS3_ACC_GYRO_FS_XL_2g \<equiv> 0x00 :: u8"
abbreviation (input) "LSM6DS3_ACC_GYRO_FS_XL_4g \<equiv> 0x08 :: u8"
abbreviation (input) "LSM6DS3_ACC_GYRO_FS_XL_8g \<equiv> 0x0C :: u8"
abbreviation (input) "LSM6DS3_ACC_GYRO_FS_XL_16g \<equiv> 0x04 :: u8"
abbreviation (input) "LSM6DS3_ACC_GYRO_FS_125_ENABLED \<equiv> 0x02 :: u8"
abbreviation (input) "LSM6DS3_ACC_GYRO_FS_G_245dps \<equiv> 0x00 :: u8"
abbreviation (input) "LSM6DS3_ACC_GYRO_FS_G_500dps \<equiv> 0x04 :: u8"
abbreviation (input) "LSM6DS3_ACC_GYRO_FS_G_1000dps \<equiv> 0x08 :: u8"
abbreviation (input) "LSM6DS3_ACC_GYRO_FS_G_2000dps \<equiv> 0x0C :: u8"
abbreviation (input) "LSM6DS3_ACC_GYRO_ODR_XL_POWER_DOWN \<equiv> 0x00 :: u8"
abbreviation (input) "LSM6DS3_ACC_GYRO_ODR_XL_13Hz \<equiv> 0x10 :: u8"
abbreviation (input) "LSM6DS3_ACC_GYRO_ODR_XL_26Hz \<equiv> 0x20 :: u8"
abbreviation (input) "LSM6DS3_ACC_GYRO_ODR_XL_52Hz \<equiv> 0x30 :: u8"
abbreviation (input) "LSM6DS3_ACC_GYRO_ODR_XL_104Hz \<equiv> 0x40 :: u8"
abbreviation (input) "LSM6DS3_ACC_GYRO_ODR_XL_208Hz \<equiv> 0x50 :: u8"
abbreviation (input) "LSM6DS3_ACC_GYRO_ODR_XL_416Hz \<equiv> 0x60 :: u8"
abbreviation (input) "LSM6DS3_ACC_GYRO_ODR_XL_833Hz \<equiv> 0x70 :: u8"
abbreviation (input) "LSM6DS3_ACC_GYRO_ODR_XL_1660Hz \<equiv> 0x80 :: u8"
abbreviation (input) "LSM6DS3_ACC_GYRO_ODR_G_POWER_DOWN \<equiv> 0x00 :: u8"
abbreviation (input) "LSM6DS3_ACC_GYRO_ODR_G_13Hz \<equiv> 0x10 :: u8"
abbreviation (input) "LSM6DS3_ACC_GYRO_ODR_G_26Hz \<equiv> 0x20 :: u8"
abbreviation (input) "LSM6DS3_ACC_GYRO_ODR_G_52Hz \<equiv> 0x30 :: u8"
abbreviation (input) "LSM6DS3_ACC_GYRO_ODR_G_104Hz \<equiv> 0x40 :: u8"
abbreviation (input) "LSM6DS3_ACC_GYRO_ODR_G_208Hz \<equiv> 0x50 :: u8"
abbreviation (input) "LSM6DS3_ACC_GYRO_ODR_G_416Hz \<equiv> 0x60 :: u8"
abbreviation (input) "LSM6DS3_ACC_GYRO_ODR_G_833Hz \<equiv> 0x70 :: u8"
abbreviation (input) "LSM6DS3_ACC_GYRO_ODR_G_1660Hz \<equiv> 0x80 :: u8"
abbreviation (input) "LSM6DS3_ACC_GYRO_FUNC_EN_ENABLED \<equiv> 0x04 :: u8"
abbreviation (input) "LSM6DS3_ACC_GYRO_FUNC_EN_DISABLED \<equiv> 0x00 :: u8"
abbreviation (input) "LSM6DS3_ACC_GYRO_PULL_UP_EN_ENABLED \<equiv> 0x08 :: u8"
abbreviation (input) "LSM6DS3_ACC_GYRO_MASTER_ON_ENABLED \<equiv> 0x01 :: u8"
abbreviation (input) "LSM6DS3_ACC_GYRO_MASTER_ON_DISABLED \<equiv> 0x00 :: u8"
abbreviation (input) "LSM6DS3_ACC_GYRO_SENS_HUB_END_STILL_ONGOING \<equiv> 0x00 :: u8"
abbreviation (input) "LSM6DS3_ACC_GYRO_SENS_HUB_END_OP_COMPLETED \<equiv> 0x01 :: u8"
abbreviation (input) "LSM6DS3_ACC_GYRO_DEC_FIFO_XL_DATA_NOT_IN_FIFO \<equiv> 0x00 :: u8"
abbreviation (input) "LSM6DS3_ACC_GYRO_DEC_FIFO_XL_NO_DECIMATION \<equiv> 0x01 :: u8"
abbreviation (input) "LSM6DS3_ACC_GYRO_DEC_FIFO_XL_DECIMATION_BY_2 \<equiv> 0x02 :: u8"
abbreviation (input) "LSM6DS3_ACC_GYRO_DEC_FIFO_XL_DECIMATION_BY_3 \<equiv> 0x03 :: u8"
abbreviation (input) "LSM6DS3_ACC_GYRO_DEC_FIFO_XL_DECIMATION_BY_4 \<equiv> 0x04 :: u8"
abbreviation (input) "LSM6DS3_ACC_GYRO_DEC_FIFO_XL_DECIMATION_BY_8 \<equiv> 0x05 :: u8"
abbreviation (input) "LSM6DS3_ACC_GYRO_DEC_FIFO_XL_DECIMATION_BY_16 \<equiv> 0x06 :: u8"
abbreviation (input) "LSM6DS3_ACC_GYRO_DEC_FIFO_XL_DECIMATION_BY_32 \<equiv> 0x07 :: u8"
abbreviation (input) "LSM6DS3_ACC_GYRO_DEC_FIFO_G_DATA_NOT_IN_FIFO \<equiv> 0x00 :: u8"
abbreviation (input) "LSM6DS3_ACC_GYRO_DEC_FIFO_G_NO_DECIMATION \<equiv> 0x08 :: u8"
abbreviation (input) "LSM6DS3_ACC_GYRO_DEC_FIFO_G_DECIMATION_BY_2 \<equiv> 0x10 :: u8"
abbreviation (input) "LSM6DS3_ACC_GYRO_DEC_FIFO_G_DECIMATION_BY_3 \<equiv> 0x18 :: u8"
abbreviation (input) "LSM6DS3_ACC_GYRO_DEC_FIFO_G_DECIMATION_BY_4 \<equiv> 0x20 :: u8"
abbreviation (input) "LSM6DS3_ACC_GYRO_DEC_FIFO_G_DECIMATION_BY_8 \<equiv> 0x28 :: u8"
abbreviation (input) "LSM6DS3_ACC_GYRO_DEC_FIFO_G_DECIMATION_BY_16 \<equiv> 0x30 :: u8"
abbreviation (input) "LSM6DS3_ACC_GYRO_DEC_FIFO_G_DECIMATION_BY_32 \<equiv> 0x38 :: u8"
abbreviation (input) "LSM6DS3H_ACC_GYRO_FUNC_CFG_ENABLED \<equiv> 0x80 :: u8"
abbreviation (input) "LSM6DS3H_ACC_GYRO_FUNC_CFG_DISABLED \<equiv> 0x00 :: u8"
abbreviation (input) "LSM6DS3_ACC_GYRO_DUR_POSITION \<equiv> 4 :: nat"
abbreviation (input) "LSM6DS3_ACC_GYRO_QUIET_POSITION \<equiv> 2 :: nat"
abbreviation (input) "LSM6DS3_ACC_GYRO_SHOCK_POSITION \<equiv> 0 :: nat"
abbreviation (input) "LSM6DS3_ACC_GYRO_SLEEP_DUR_POSITION \<equiv> 0 :: nat"
abbreviation (input) "LSM6DS3_ACC_GYRO_TAP_THS_POSITION \<equiv> 0 :: nat"
abbreviation (input) "LSM6DS3_ACC_GYRO_TPH_POSITION \<equiv> 0 :: nat"
abbreviation (input) "LSM6DS3_ACC_GYRO_WAKE_DUR_POSITION \<equiv> 5 :: nat"
abbreviation (input) "LSM6DS3_ACC_GYRO_WHO_AM_I_BIT_POSITION \<equiv> 0 :: nat"
abbreviation (input) "LSM6DS3_ACC_GYRO_WK_THS_POSITION \<equiv> 0 :: nat"
abbreviation (input) "LSM6DS3_ACC_GYRO_WTM_FIFO_CTRL1_POSITION \<equiv> 0 :: nat"
abbreviation (input) "LSM6DS3_ACC_GYRO_WTM_FIFO_CTRL2_POSITION \<equiv> 0 :: nat"
abbreviation (input) "LSM6DS3_ACC_GYRO_DIFF_FIFO_STATUS1_POSITION \<equiv> 0 :: nat"
abbreviation (input) "LSM6DS3_ACC_GYRO_DIFF_FIFO_STATUS2_POSITION \<equiv> 0 :: nat"
abbreviation (input) "LSM6DS3_ACC_GYRO_FIFO_STATUS3_PATTERN_POSITION \<equiv> 0 :: nat"
abbreviation (input) "LSM6DS3_ACC_GYRO_FIFO_STATUS4_PATTERN_POSITION \<equiv> 0 :: nat"
abbreviation (input) "LSM6DS3_ACC_GYRO_FF_FREE_FALL_DUR_POSITION \<equiv> 3 :: nat"
abbreviation (input) "LSM6DS3_ACC_GYRO_FF_WAKE_UP_DUR_POSITION \<equiv> 7 :: nat"

subsection \<open>Values of the fields\<close>

definition LSM6DS3_ACC_GYRO_BDU_t :: "u8 list" where
  "LSM6DS3_ACC_GYRO_BDU_t = [0x00, 0x40]"

definition LSM6DS3_ACC_GYRO_FS_XL_t :: "u8 list" where
  "LSM6DS3_ACC_GYRO_FS_XL_t = [0x00, 0x04, 0x08, 0x0C]"

definition LSM6DS3_ACC_GYRO_ODR_XL_t :: "u8 list" where
  "LSM6DS3_ACC_GYRO_ODR_XL_t = [0x00, 0x10, 0x20, 0x30, 0x40, 0x50, 0x60, 0x70, 0x80, 0x90, 0xA0]"

definition LSM6DS3_ACC_GYRO_FS_G_t :: "u8 list" where
  "LSM6DS3_ACC_GYRO_FS_G_t = [0x00, 0x04, 0x08, 0x0C]"

definition LSM6DS3_ACC_GYRO_ODR_G_t :: "u8 list" where
  "LSM6DS3_ACC_GYRO_ODR_G_t = [0x00, 0x10, 0x20, 0x30, 0x40, 0x50, 0x60, 0x70, 0x80]"

definition LSM6DS3_ACC_GYRO_BW_XL_t :: "u8 list" where
  "LSM6DS3_ACC_GYRO_BW_XL_t = [0x00, 0x01, 0x02, 0x03]"

definition LSM6DS3_ACC_GYRO_FS_125_t :: "u8 list" where
  "LSM6DS3_ACC_GYRO_FS_125_t = [0x00, 0x02]"

definition LSM6DS3_ACC_GYRO_EMB_ACC_t :: "u8 list" where
  "LSM6DS3_ACC_GYRO_EMB_ACC_t = [0x00, 0x80]"

definition LSM6DS3_ACC_GYRO_TIM_PEDO_FIFO_DRDY_t :: "u8 list" where
  "LSM6DS3_ACC_GYRO_TIM_PEDO_FIFO_DRDY_t = [0x00, 0x40]"

definition LSM6DS3_ACC_GYRO_TIM_PEDO_FIFO_EN_t :: "u8 list" where
  "LSM6DS3_ACC_GYRO_TIM_PEDO_FIFO_EN_t = [0x00, 0x80]"

definition LSM6DS3_ACC_GYRO_DEC_FIFO_XL_t :: "u8 list" where
  "LSM6DS3_ACC_GYRO_DEC_FIFO_XL_t = [0x00, 0x01, 0x02, 0x03, 0x04, 0x05, 0x06, 0x07]"

definition LSM6DS3_ACC_GYRO_DEC_FIFO_G_t :: "u8 list" where
  "LSM6DS3_ACC_GYRO_DEC_FIFO_G_t = [0x00, 0x08, 0x10, 0x18, 0x20, 0x28, 0x30, 0x38]"

definition LSM6DS3_ACC_GYRO_DEC_FIFO_SLV0_t :: "u8 list" where
  "LSM6DS3_ACC_GYRO_DEC_FIFO_SLV0_t = [0x00, 0x01, 0x02, 0x03, 0x04, 0x05, 0x06, 0x07]"

definition LSM6DS3_ACC_GYRO_DEC_FIFO_SLV1_t :: "u8 list" where
  "LSM6DS3_ACC_GYRO_DEC_FIFO_SLV1_t = [0x00, 0x08, 0x10, 0x18, 0x20, 0x28, 0x30, 0x38]"

definition LSM6DS3_ACC_GYRO_HI_DATA_ONLY_t :: "u8 list" where
  "LSM6DS3_ACC_GYRO_HI_DATA_ONLY_t = [0x00, 0x40]"

definition LSM6DS3_ACC_GYRO_FIFO_MODE_t :: "u8 list" where
  "LSM6DS3_ACC_GYRO_FIFO_MODE_t = [0x00, 0x01, 0x02, 0x03, 0x04, 0x05, 0x06, 0x07]"

definition LSM6DS3_ACC_GYRO_ODR_FIFO_t :: "u8 list" where
  "LSM6DS3_ACC_GYRO_ODR_FIFO_t = [0x08, 0x10, 0x18, 0x20, 0x28, 0x30, 0x38, 0x40, 0x48, 0x50]"

definition LSM6DS3_ACC_GYRO_ORIENT_t :: "u8 list" where
  "LSM6DS3_ACC_GYRO_ORIENT_t = [0x00, 0x01, 0x02, 0x03, 0x04, 0x05]"

definition LSM6DS3_ACC_GYRO_SIGN_Z_G_t :: "u8 list" where
  "LSM6DS3_ACC_GYRO_SIGN_Z_G_t = [0x00, 0x08]"

definition LSM6DS3_ACC_GYRO_SIGN_Y_G_t :: "u8 list" where
  "LSM6DS3_ACC_GYRO_SIGN_Y_G_t = [0x00, 0x10]"

definition LSM6DS3_ACC_GYRO_SIGN_X_G_t :: "u8 list" where
  "LSM6DS3_ACC_GYRO_SIGN_X_G_t = [0x00, 0x20]"

definition LSM6DS3_ACC_GYRO_INT1_DRDY_XL_t :: "u8 list" where
  "LSM6DS3_ACC_GYRO_INT1_DRDY_XL_t = [0x00, 0x01]"

definition LSM6DS3_ACC_GYRO_INT1_DRDY_G_t :: "u8 list" where
  "LSM6DS3_ACC_GYRO_INT1_DRDY_G_t = [0x00, 0x02]"

definition LSM6DS3_ACC_GYRO_INT1_BOOT_t :: "u8 list" where
  "LSM6DS3_ACC_GYRO_INT1_BOOT_t = [0x00, 0x04]"

definition LSM6DS3_ACC_GYRO_INT1_FTH_t :: "u8 list" where
  "LSM6DS3_ACC_GYRO_INT1_FTH_t = [0x00, 0x08]"

definition LSM6DS3_ACC_GYRO_INT1_OVR_t :: "u8 list" where
  "LSM6DS3_ACC_GYRO_INT1_OVR_t = [0x00, 0x10]"

definition LSM6DS3_ACC_GYRO_INT1_FSS5_t :: "u8 list" where
  "LSM6DS3_ACC_GYRO_INT1_FSS5_t = [0x00, 0x20]"

definition LSM6DS3_ACC_GYRO_INT1_SIGN_MOT_t :: "u8 list" where
  "LSM6DS3_ACC_GYRO_INT1_SIGN_MOT_t = [0x00, 0x40]"

definition LSM6DS3_ACC_GYRO_INT1_PEDO_t :: "u8 list" where
  "LSM6DS3_ACC_GYRO_INT1_PEDO_t = [0x00, 0x80]"

definition LSM6DS3_ACC_GYRO_INT2_DRDY_XL_t :: "u8 list" where
  "LSM6DS3_ACC_GYRO_INT2_DRDY_XL_t = [0x00, 0x01]"

definition LSM6DS3_ACC_GYRO_INT2_DRDY_G_t :: "u8 list" where
  "LSM6DS3_ACC_GYRO_INT2_DRDY_G_t = [0x00, 0x02]"

definition LSM6DS3_ACC_GYRO_INT2_DRDY_TEMP_t :: "u8 list" where
  "LSM6DS3_ACC_GYRO_INT2_DRDY_TEMP_t = [0x00, 0x04]"

definition LSM6DS3_ACC_GYRO_INT2_FTH_t :: "u8 list" where
  "LSM6DS3_ACC_GYRO_INT2_FTH_t = [0x00, 0x08]"

definition LSM6DS3_ACC_GYRO_INT2_OVR_t :: "u8 list" where
  "LSM6DS3_ACC_GYRO_INT2_OVR_t = [0x00, 0x10]"

definition LSM6DS3_ACC_GYRO_INT2_FSS5_t :: "u8 list" where
  "LSM6DS3_ACC_GYRO_INT2_FSS5_t = [0x00, 0x20]"

definition LSM6DS3_ACC_GYRO_INT2_SIGN_MOT_t :: "u8 list" where
  "LSM6DS3_ACC_GYRO_INT2_SIGN_MOT_t = [0x00, 0x40]"

definition LSM6DS3_ACC_GYRO_INT2_PEDO_t :: "u8 list" where
  "LSM6DS3_ACC_GYRO_INT2_PEDO_t = [0x00, 0x80]"

definition LSM6DS3_ACC_GYRO_SW_RESET_t :: "u8 list" where
  "LSM6DS3_ACC_GYRO_SW_RESET_t = [0x00, 0x01]"

definition LSM6DS3_ACC_GYRO_BLE_t :: "u8 list" where
  "LSM6DS3_ACC_GYRO_BLE_t = [0x00, 0x02]"

definition LSM6DS3_ACC_GYRO_IF_INC_t :: "u8 list" where
  "LSM6DS3_ACC_GYRO_IF_INC_t = [0x00, 0x04]"

definition LSM6DS3_ACC_GYRO_SIM_t :: "u8 list" where
  "LSM6DS3_ACC_GYRO_SIM_t = [0x00, 0x08]"

definition LSM6DS3_ACC_GYRO_PP_OD_t :: "u8 list" where
  "LSM6DS3_ACC_GYRO_PP_OD_t = [0x00, 0x10]"

definition LSM6DS3_ACC_GYRO_INT_ACT_LEVEL_t :: "u8 list" where
  "LSM6DS3_ACC_GYRO_INT_ACT_LEVEL_t = [0x00, 0x20]"

definition LSM6DS3_ACC_GYRO_BOOT_t :: "u8 list" where
  "LSM6DS3_ACC_GYRO_BOOT_t = [0x00, 0x80]"

definition LSM6DS3_ACC_GYRO_STOP_ON_FTH_t :: "u8 list" where
  "LSM6DS3_ACC_GYRO_STOP_ON_FTH_t = [0x00, 0x01]"

definition LSM6DS3_ACC_GYRO_MODE3_EN_t :: "u8 list" where
  "LSM6DS3_ACC_GYRO_MODE3_EN_t = [0x00, 0x02]"

definition LSM6DS3_ACC_GYRO_I2C_DISABLE_t :: "u8 list" where
  "LSM6DS3_ACC_GYRO_I2C_DISABLE_t = [0x00, 0x04]"

definition LSM6DS3_ACC_GYRO_DRDY_MSK_t :: "u8 list" where
  "LSM6DS3_ACC_GYRO_DRDY_MSK_t = [0x00, 0x08]"

definition LSM6DS3_ACC_GYRO_FIFO_TEMP_EN_t :: "u8 list" where
  "LSM6DS3_ACC_GYRO_FIFO_TEMP_EN_t = [0x00, 0x10]"

definition LSM6DS3_ACC_GYRO_INT2_ON_INT1_t :: "u8 list" where
  "LSM6DS3_ACC_GYRO_INT2_ON_INT1_t = [0x00, 0x20]"

definition LSM6DS3_ACC_GYRO_SLEEP_G_t :: "u8 list" where
  "LSM6DS3_ACC_GYRO_SLEEP_G_t = [0x00, 0x40]"

definition LSM6DS3_ACC_GYRO_BW_SCAL_ODR_t :: "u8 list" where
  "LSM6DS3_ACC_GYRO_BW_SCAL_ODR_t = [0x00, 0x80]"

definition LSM6DS3_ACC_GYRO_ST_XL_t :: "u8 list" where
  "LSM6DS3_ACC_GYRO_ST_XL_t = [0x00, 0x01, 0x02, 0x03]"

definition LSM6DS3_ACC_GYRO_ST_G_t :: "u8 list" where
  "LSM6DS3_ACC_GYRO_ST_G_t = [0x00, 0x04, 0x08, 0x0C]"

definition LSM6DS3_ACC_GYRO_ROUNDING_t :: "u8 list" where
  "LSM6DS3_ACC_GYRO_ROUNDING_t = [0x00, 0x20, 0x40, 0x60, 0x80, 0xA0, 0xC0, 0xE0]"

definition LSM6DS3_ACC_GYRO_LP_XL_t :: "u8 list" where
  "LSM6DS3_ACC_GYRO_LP_XL_t = [0x00, 0x10]"

definition LSM6DS3_ACC_GYRO_DEN_LVL2_EN_t :: "u8 list" where
  "LSM6DS3_ACC_GYRO_DEN_LVL2_EN_t = [0x00, 0x20]"

definition LSM6DS3_ACC_GYRO_DEN_LVL_EN_t :: "u8 list" where
  "LSM6DS3_ACC_GYRO_DEN_LVL_EN_t = [0x00, 0x40]"

definition LSM6DS3_ACC_GYRO_DEN_EDGE_EN_t :: "u8 list" where
  "LSM6DS3_ACC_GYRO_DEN_EDGE_EN_t = [0x00, 0x80]"

definition LSM6DS3_ACC_GYRO_HPCF_G_t :: "u8 list" where
  "LSM6DS3_ACC_GYRO_HPCF_G_t = [0x00, 0x10, 0x20, 0x30]"

definition LSM6DS3_ACC_GYRO_HP_EN_t :: "u8 list" where
  "LSM6DS3_ACC_GYRO_HP_EN_t = [0x00, 0x40]"

definition LSM6DS3_ACC_GYRO_LP_EN_t :: "u8 list" where
  "LSM6DS3_ACC_GYRO_LP_EN_t = [0x00, 0x80]"

definition LSM6DS3_ACC_GYRO_ROUNDING_STATUS_t :: "u8 list" where
  "LSM6DS3_ACC_GYRO_ROUNDING_STATUS_t = [0x00, 0x04]"

definition LSM6DS3_ACC_GYRO_HP_G_RST_t :: "u8 list" where
  "LSM6DS3_ACC_GYRO_HP_G_RST_t = [0x00, 0x08]"

definition LSM6DS3_ACC_GYRO_LPF2_XL_t :: "u8 list" where
  "LSM6DS3_ACC_GYRO_LPF2_XL_t = [0x00, 0x80]"

definition LSM6DS3_ACC_GYRO_HPCF_XL_t :: "u8 list" where
  "LSM6DS3_ACC_GYRO_HPCF_XL_t = [0x00, 0x20, 0x40, 0x60]"

definition LSM6DS3_ACC_GYRO_LOW_PASS_ON_6D_t :: "u8 list" where
  "LSM6DS3_ACC_GYRO_LOW_PASS_ON_6D_t = [0x00, 0x01]"

definition LSM6DS3_ACC_GYRO_HP_SLOPE_XL_t :: "u8 list" where
  "LSM6DS3_ACC_GYRO_HP_SLOPE_XL_t = [0x00, 0x04]"

definition LSM6DS3_ACC_GYRO_XEN_XL_t :: "u8 list" where
  "LSM6DS3_ACC_GYRO_XEN_XL_t = [0x00, 0x08]"

definition LSM6DS3_ACC_GYRO_YEN_XL_t :: "u8 list" where
  "LSM6DS3_ACC_GYRO_YEN_XL_t = [0x00, 0x10]"

definition LSM6DS3_ACC_GYRO_ZEN_XL_t :: "u8 list" where
  "LSM6DS3_ACC_GYRO_ZEN_XL_t = [0x00, 0x20]"

definition LSM6DS3_ACC_GYRO_SOFT_t :: "u8 list" where
  "LSM6DS3_ACC_GYRO_SOFT_t = [0x00, 0x04]"

definition LSM6DS3_ACC_GYRO_SIGN_MOTION_EN_t :: "u8 list" where
  "LSM6DS3_ACC_GYRO_SIGN_MOTION_EN_t = [0x00, 0x01]"

definition LSM6DS3_ACC_GYRO_PEDO_RST_STEP_t :: "u8 list" where
  "LSM6DS3_ACC_GYRO_PEDO_RST_STEP_t = [0x00, 0x02]"

definition LSM6DS3_ACC_GYRO_XEN_G_t :: "u8 list" where
  "LSM6DS3_ACC_GYRO_XEN_G_t = [0x00, 0x08]"

definition LSM6DS3_ACC_GYRO_YEN_G_t :: "u8 list" where
  "LSM6DS3_ACC_GYRO_YEN_G_t = [0x00, 0x10]"

definition LSM6DS3_ACC_GYRO_ZEN_G_t :: "u8 list" where
  "LSM6DS3_ACC_GYRO_ZEN_G_t = [0x00, 0x20]"

definition LSM6DS3_ACC_GYRO_FUNC_EN_t :: "u8 list" where
  "LSM6DS3_ACC_GYRO_FUNC_EN_t = [0x00, 0x04]"

definition LSM6DS3_ACC_GYRO_MASTER_ON_t :: "u8 list" where
  "LSM6DS3_ACC_GYRO_MASTER_ON_t = [0x00, 0x01]"

definition LSM6DS3_ACC_GYRO_IRON_EN_t :: "u8 list" where
  "LSM6DS3_ACC_GYRO_IRON_EN_t = [0x00, 0x02]"

definition LSM6DS3_ACC_GYRO_PASS_THRU_MODE_t :: "u8 list" where
  "LSM6DS3_ACC_GYRO_PASS_THRU_MODE_t = [0x00, 0x04]"

definition LSM6DS3_ACC_GYRO_PULL_UP_EN_t :: "u8 list" where
  "LSM6DS3_ACC_GYRO_PULL_UP_EN_t = [0x00, 0x08]"

definition LSM6DS3_ACC_GYRO_START_CONFIG_t :: "u8 list" where
  "LSM6DS3_ACC_GYRO_START_CONFIG_t = [0x00, 0x10]"

definition LSM6DS3_ACC_GYRO_DATA_VAL_SEL_FIFO_t :: "u8 list" where
  "LSM6DS3_ACC_GYRO_DATA_VAL_SEL_FIFO_t = [0x00, 0x40]"

definition LSM6DS3_ACC_GYRO_DRDY_ON_INT1_t :: "u8 list" where
  "LSM6DS3_ACC_GYRO_DRDY_ON_INT1_t = [0x00, 0x80]"

definition LSM6DS3_ACC_GYRO_LIR_t :: "u8 list" where
  "LSM6DS3_ACC_GYRO_LIR_t = [0x00, 0x01]"

definition LSM6DS3_ACC_GYRO_TAP_Z_EN_t :: "u8 list" where
  "LSM6DS3_ACC_GYRO_TAP_Z_EN_t = [0x00, 0x02]"

definition LSM6DS3_ACC_GYRO_TAP_Y_EN_t :: "u8 list" where
  "LSM6DS3_ACC_GYRO_TAP_Y_EN_t = [0x00, 0x04]"

definition LSM6DS3_ACC_GYRO_TAP_X_EN_t :: "u8 list" where
  "LSM6DS3_ACC_GYRO_TAP_X_EN_t = [0x00, 0x08]"

definition LSM6DS3_ACC_GYRO_TILT_EN_t :: "u8 list" where
  "LSM6DS3_ACC_GYRO_TILT_EN_t = [0x00, 0x20]"

definition LSM6DS3_ACC_GYRO_SLOPE_FDS_t :: "u8 list" where
  "LSM6DS3_ACC_GYRO_SLOPE_FDS_t = [0x00, 0x10]"

definition LSM6DS3_ACC_GYRO_PEDO_EN_t :: "u8 list" where
  "LSM6DS3_ACC_GYRO_PEDO_EN_t = [0x00, 0x40]"

definition LSM6DS3_ACC_GYRO_TIMER_EN_t :: "u8 list" where
  "LSM6DS3_ACC_GYRO_TIMER_EN_t = [0x00, 0x80]"

definition LSM6DS3_ACC_GYRO_SIXD_THS_t :: "u8 list" where
  "LSM6DS3_ACC_GYRO_SIXD_THS_t = [0x00, 0x20, 0x40, 0x60]"

definition LSM6DS3_ACC_GYRO_D4D_t :: "u8 list" where
  "LSM6DS3_ACC_GYRO_D4D_t = [0x00, 0x80]"

definition LSM6DS3_ACC_GYRO_INACTIVITY_ON_t :: "u8 list" where
  "LSM6DS3_ACC_GYRO_INACTIVITY_ON_t = [0x00, 0x40]"

definition LSM6DS3_ACC_GYRO_SINGLE_DOUBLE_TAP_t :: "u8 list" where
  "LSM6DS3_ACC_GYRO_SINGLE_DOUBLE_TAP_t = [0x00, 0x80]"

definition LSM6DS3_ACC_GYRO_TIMER_HR_t :: "u8 list" where
  "LSM6DS3_ACC_GYRO_TIMER_HR_t = [0x00, 0x10]"

definition LSM6DS3_ACC_GYRO_FF_THS_t :: "u8 list" where
  "LSM6DS3_ACC_GYRO_FF_THS_t = [0x00, 0x01, 0x02, 0x03, 0x04, 0x05, 0x06, 0x07]"

definition LSM6DS3_ACC_GYRO_INT1_TIMER_t :: "u8 list" where
  "LSM6DS3_ACC_GYRO_INT1_TIMER_t = [0x00, 0x01]"

definition LSM6DS3_ACC_GYRO_INT1_TILT_t :: "u8 list" where
  "LSM6DS3_ACC_GYRO_INT1_TILT_t = [0x00, 0x02]"

definition LSM6DS3_ACC_GYRO_INT1_6D_t :: "u8 list" where
  "LSM6DS3_ACC_GYRO_INT1_6D_t = [0x00, 0x04]"

definition LSM6DS3_ACC_GYRO_INT1_TAP_t :: "u8 list" where
  "LSM6DS3_ACC_GYRO_INT1_TAP_t = [0x00, 0x08]"

definition LSM6DS3_ACC_GYRO_INT1_FF_t :: "u8 list" where
  "LSM6DS3_ACC_GYRO_INT1_FF_t = [0x00, 0x10]"

definition LSM6DS3_ACC_GYRO_INT1_WU_t :: "u8 list" where
  "LSM6DS3_ACC_GYRO_INT1_WU_t = [0x00, 0x20]"

definition LSM6DS3_ACC_GYRO_INT1_SINGLE_TAP_t :: "u8 list" where
  "LSM6DS3_ACC_GYRO_INT1_SINGLE_TAP_t = [0x00, 0x40]"

definition LSM6DS3_ACC_GYRO_INT1_SLEEP_t :: "u8 list" where
  "LSM6DS3_ACC_GYRO_INT1_SLEEP_t = [0x00, 0x80]"

definition LSM6DS3_ACC_GYRO_INT2_TIMER_t :: "u8 list" where
  "LSM6DS3_ACC_GYRO_INT2_TIMER_t = [0x00, 0x01]"

definition LSM6DS3_ACC_GYRO_INT2_TILT_t :: "u8 list" where
  "LSM6DS3_ACC_GYRO_INT2_TILT_t = [0x00, 0x02]"

definition LSM6DS3_ACC_GYRO_INT2_6D_t :: "u8 list" where
  "LSM6DS3_ACC_GYRO_INT2_6D_t = [0x00, 0x04]"

definition LSM6DS3_ACC_GYRO_INT2_TAP_t :: "u8 list" where
  "LSM6DS3_ACC_GYRO_INT2_TAP_t = [0x00, 0x08]"

definition LSM6DS3_ACC_GYRO_INT2_FF_t :: "u8 list" where
  "LSM6DS3_ACC_GYRO_INT2_FF_t = [0x00, 0x10]"

definition LSM6DS3_ACC_GYRO_INT2_WU_t :: "u8 list" where
  "LSM6DS3_ACC_GYRO_INT2_WU_t = [0x00, 0x20]"

definition LSM6DS3_ACC_GYRO_INT2_SINGLE_TAP_t :: "u8 list" where
  "LSM6DS3_ACC_GYRO_INT2_SINGLE_TAP_t = [0x00, 0x40]"

definition LSM6DS3_ACC_GYRO_INT2_SLEEP_t :: "u8 list" where
  "LSM6DS3_ACC_GYRO_INT2_SLEEP_t = [0x00, 0x80]"

subsection \<open>Accessors of the fields\<close>

definition LSM6DS3_ACC_GYRO_R_WHO_AM_I :: "'e sensor_io \<Rightarrow> 'e \<Rightarrow> status_t \<times> u8 \<times> 'e" where
  "LSM6DS3_ACC_GYRO_R_WHO_AM_I io = read_pos_field io LSM6DS3_ACC_GYRO_WHO_AM_I_REG LSM6DS3_ACC_GYRO_WHO_AM_I_BIT_MASK LSM6DS3_ACC_GYRO_WHO_AM_I_BIT_POSITION"

definition LSM6DS3_ACC_GYRO_W_BDU :: "'e sensor_io \<Rightarrow> u8 \<Rightarrow> 'e \<Rightarrow> status_t \<times> 'e" where
  "LSM6DS3_ACC_GYRO_W_BDU io = write_field io LSM6DS3_ACC_GYRO_CTRL3_C LSM6DS3_ACC_GYRO_BDU_MASK"

definition LSM6DS3_ACC_GYRO_R_BDU :: "'e sensor_io \<Rightarrow> 'e \<Rightarrow> status_t \<times> u8 \<times> 'e" where
  "LSM6DS3_ACC_GYRO_R_BDU io = read_field io LSM6DS3_ACC_GYRO_CTRL3_C LSM6DS3_ACC_GYRO_BDU_MASK"

definition LSM6DS3_ACC_GYRO_W_FS_XL :: "'e sensor_io \<Rightarrow> u8 \<Rightarrow> 'e \<Rightarrow> status_t \<times> 'e" where
  "LSM6DS3_ACC_GYRO_W_FS_XL io = write_field io LSM6DS3_ACC_GYRO_CTRL1_XL LSM6DS3_ACC_GYRO_FS_XL_MASK"

definition LSM6DS3_ACC_GYRO_R_FS_XL :: "'e sensor_io \<Rightarrow> 'e \<Rightarrow> status_t \<times> u8 \<times> 'e" where
  "LSM6DS3_ACC_GYRO_R_FS_XL io = read_field io LSM6DS3_ACC_GYRO_CTRL1_XL LSM6DS3_ACC_GYRO_FS_XL_MASK"

definition LSM6DS3_ACC_GYRO_W_ODR_XL :: "'e sensor_io \<Rightarrow> u8 \<Rightarrow> 'e \<Rightarrow> status_t \<times> 'e" where
  "LSM6DS3_ACC_GYRO_W_ODR_XL io = write_field io LSM6DS3_ACC_GYRO_CTRL1_XL LSM6DS3_ACC_GYRO_ODR_XL_MASK"

definition LSM6DS3_ACC_GYRO_R_ODR_XL :: "'e sensor_io \<Rightarrow> 'e \<Rightarrow> status_t \<times> u8 \<times> 'e" where
  "LSM6DS3_ACC_GYRO_R_ODR_XL io = read_field io LSM6DS3_ACC_GYRO_CTRL1_XL LSM6DS3_ACC_GYRO_ODR_XL_MASK"

definition LSM6DS3_ACC_GYRO_W_FS_G :: "'e sensor_io \<Rightarrow> u8 \<Rightarrow> 'e \<Rightarrow> status_t \<times> 'e" where
  "LSM6DS3_ACC_GYRO_W_FS_G io = write_field io LSM6DS3_ACC_GYRO_CTRL2_G LSM6DS3_ACC_GYRO_FS_G_MASK"

definition LSM6DS3_ACC_GYRO_R_FS_G :: "'e sensor_io \<Rightarrow> 'e \<Rightarrow> status_t \<times> u8 \<times> 'e" where
  "LSM6DS3_ACC_GYRO_R_FS_G io = read_field io LSM6DS3_ACC_GYRO_CTRL2_G LSM6DS3_ACC_GYRO_FS_G_MASK"

definition LSM6DS3_ACC_GYRO_W_ODR_G :: "'e sensor_io \<Rightarrow> u8 \<Rightarrow> 'e \<Rightarrow> status_t \<times> 'e" where
  "LSM6DS3_ACC_GYRO_W_ODR_G io = write_field io LSM6DS3_ACC_GYRO_CTRL2_G LSM6DS3_ACC_GYRO_ODR_G_MASK"

definition LSM6DS3_ACC_GYRO_R_ODR_G :: "'e sensor_io \<Rightarrow> 'e \<Rightarrow> status_t \<times> u8 \<times> 'e" where
  "LSM6DS3_ACC_GYRO_R_ODR_G io = read_field io LSM6DS3_ACC_GYRO_CTRL2_G LSM6DS3_ACC_GYRO_ODR_G_MASK"

definition LSM6DS3_ACC_GYRO_W_BW_XL :: "'e sensor_io \<Rightarrow> u8 \<Rightarrow> 'e \<Rightarrow> status_t \<times> 'e" where
  "LSM6DS3_ACC_GYRO_W_BW_XL io = write_field io LSM6DS3_ACC_GYRO_CTRL1_XL LSM6DS3_ACC_GYRO_BW_XL_MASK"

definition LSM6DS3_ACC_GYRO_R_BW_XL :: "'e sensor_io \<Rightarrow> 'e \<Rightarrow> status_t \<times> u8 \<times> 'e" where
  "LSM6DS3_ACC_GYRO_R_BW_XL io = read_field io LSM6DS3_ACC_GYRO_CTRL1_XL LSM6DS3_ACC_GYRO_BW_XL_MASK"

definition LSM6DS3_ACC_GYRO_W_FS_125 :: "'e sensor_io \<Rightarrow> u8 \<Rightarrow> 'e \<Rightarrow> status_t \<times> 'e" where
  "LSM6DS3_ACC_GYRO_W_FS_125 io = write_field io LSM6DS3_ACC_GYRO_CTRL2_G LSM6DS3_ACC_GYRO_FS_125_MASK"

definition LSM6DS3_ACC_GYRO_R_FS_125 :: "'e sensor_io \<Rightarrow> 'e \<Rightarrow> status_t \<times> u8 \<times> 'e" where
  "LSM6DS3_ACC_GYRO_R_FS_125 io = read_field io LSM6DS3_ACC_GYRO_CTRL2_G LSM6DS3_ACC_GYRO_FS_125_MASK"

definition LSM6DS3_ACC_GYRO_W_EmbeddedAccess :: "'e sensor_io \<Rightarrow> u8 \<Rightarrow> 'e \<Rightarrow> status_t \<times> 'e" where
  "LSM6DS3_ACC_GYRO_W_EmbeddedAccess io = write_field io LSM6DS3_ACC_GYRO_FUNC_CFG_ACCESS LSM6DSM_ACC_GYRO_EMB_ACC_MASK"

definition LSM6DS3_ACC_GYRO_R_EmbeddedAccess :: "'e sensor_io \<Rightarrow> 'e \<Rightarrow> status_t \<times> u8 \<times> 'e" where
  "LSM6DS3_ACC_GYRO_R_EmbeddedAccess io = read_field io LSM6DS3_ACC_GYRO_FUNC_CFG_ACCESS LSM6DSM_ACC_GYRO_EMB_ACC_MASK"

definition LSM6DS3_ACC_GYRO_W_Stamping_Time_Frame :: "'e sensor_io \<Rightarrow> u8 \<Rightarrow> 'e \<Rightarrow> status_t \<times> 'e" where
  "LSM6DS3_ACC_GYRO_W_Stamping_Time_Frame io = write_pos_field io LSM6DS3_ACC_GYRO_SENSOR_SYNC_TIME LSM6DS3_ACC_GYRO_TPH_MASK LSM6DS3_ACC_GYRO_TPH_POSITION"

definition LSM6DS3_ACC_GYRO_R_Stamping_Time_Frame :: "'e sensor_io \<Rightarrow> 'e \<Rightarrow> status_t \<times> u8 \<times> 'e" where
  "LSM6DS3_ACC_GYRO_R_Stamping_Time_Frame io = read_pos_field io LSM6DS3_ACC_GYRO_SENSOR_SYNC_TIME LSM6DS3_ACC_GYRO_TPH_MASK LSM6DS3_ACC_GYRO_TPH_POSITION"

definition LSM6DS3_ACC_GYRO_W_TIM_PEDO_FIFO_Write_En :: "'e sensor_io \<Rightarrow> u8 \<Rightarrow> 'e \<Rightarrow> status_t \<times> 'e" where
  "LSM6DS3_ACC_GYRO_W_TIM_PEDO_FIFO_Write_En io = write_field io LSM6DS3_ACC_GYRO_FIFO_CTRL2 LSM6DS3_ACC_GYRO_TIM_PEDO_FIFO_DRDY_MASK"

definition LSM6DS3_ACC_GYRO_R_TIM_PEDO_FIFO_Write_En :: "'e sensor_io \<Rightarrow> 'e \<Rightarrow> status_t \<times> u8 \<times> 'e" where
  "LSM6DS3_ACC_GYRO_R_TIM_PEDO_FIFO_Write_En io = read_field io LSM6DS3_ACC_GYRO_FIFO_CTRL2 LSM6DS3_ACC_GYRO_TIM_PEDO_FIFO_DRDY_MASK"

definition LSM6DS3_ACC_GYRO_W_TIM_PEDO_FIFO_En :: "'e sensor_io \<Rightarrow> u8 \<Rightarrow> 'e \<Rightarrow> status_t \<times> 'e" where
  "LSM6DS3_ACC_GYRO_W_TIM_PEDO_FIFO_En io = write_field io LSM6DS3_ACC_GYRO_FIFO_CTRL2 LSM6DS3_ACC_GYRO_TIM_PEDO_FIFO_EN_MASK"

definition LSM6DS3_ACC_GYRO_R_TIM_PEDO_FIFO_En :: "'e sensor_io \<Rightarrow> 'e \<Rightarrow> status_t \<times> u8 \<times> 'e" where
  "LSM6DS3_ACC_GYRO_R_TIM_PEDO_FIFO_En io = read_field io LSM6DS3_ACC_GYRO_FIFO_CTRL2 LSM6DS3_ACC_GYRO_TIM_PEDO_FIFO_EN_MASK"

definition LSM6DS3_ACC_GYRO_W_DEC_FIFO_XL :: "'e sensor_io \<Rightarrow> u8 \<Rightarrow> 'e \<Rightarrow> status_t \<times> 'e" where
  "LSM6DS3_ACC_GYRO_W_DEC_FIFO_XL io = write_field io LSM6DS3_ACC_GYRO_FIFO_CTRL3 LSM6DS3_ACC_GYRO_DEC_FIFO_XL_MASK"

definition LSM6DS3_ACC_GYRO_R_DEC_FIFO_XL :: "'e sensor_io \<Rightarrow> 'e \<Rightarrow> status_t \<times> u8 \<times> 'e" where
  "LSM6DS3_ACC_GYRO_R_DEC_FIFO_XL io = read_field io LSM6DS3_ACC_GYRO_FIFO_CTRL3 LSM6DS3_ACC_GYRO_DEC_FIFO_XL_MASK"

definition LSM6DS3_ACC_GYRO_W_DEC_FIFO_G :: "'e sensor_io \<Rightarrow> u8 \<Rightarrow> 'e \<Rightarrow> status_t \<times> 'e" where
  "LSM6DS3_ACC_GYRO_W_DEC_FIFO_G io = write_field io LSM6DS3_ACC_GYRO_FIFO_CTRL3 LSM6DS3_ACC_GYRO_DEC_FIFO_G_MASK"

definition LSM6DS3_ACC_GYRO_R_DEC_FIFO_G :: "'e sensor_io \<Rightarrow> 'e \<Rightarrow> status_t \<times> u8 \<times> 'e" where
  "LSM6DS3_ACC_GYRO_R_DEC_FIFO_G io = read_field io LSM6DS3_ACC_GYRO_FIFO_CTRL3 LSM6DS3_ACC_GYRO_DEC_FIFO_G_MASK"

definition LSM6DS3_ACC_GYRO_W_DEC_FIFO_SLV0 :: "'e sensor_io \<Rightarrow> u8 \<Rightarrow> 'e \<Rightarrow> status_t \<times> 'e" where
  "LSM6DS3_ACC_GYRO_W_DEC_FIFO_SLV0 io = write_field io LSM6DS3_ACC_GYRO_FIFO_CTRL4 LSM6DS3_ACC_GYRO_DEC_FIFO_SLV0_MASK"

definition LSM6DS3_ACC_GYRO_R_DEC_FIFO_SLV0 :: "'e sensor_io \<Rightarrow> 'e \<Rightarrow> status_t \<times> u8 \<times> 'e" where
  "LSM6DS3_ACC_GYRO_R_DEC_FIFO_SLV0 io = read_field io LSM6DS3_ACC_GYRO_FIFO_CTRL4 LSM6DS3_ACC_GYRO_DEC_FIFO_SLV0_MASK"

definition LSM6DS3_ACC_GYRO_W_DEC_FIFO_SLV1 :: "'e sensor_io \<Rightarrow> u8 \<Rightarrow> 'e \<Rightarrow> status_t \<times> 'e" where
  "LSM6DS3_ACC_GYRO_W_DEC_FIFO_SLV1 io = write_field io LSM6DS3_ACC_GYRO_FIFO_CTRL4 LSM6DS3_ACC_GYRO_DEC_FIFO_SLV1_MASK"

definition LSM6DS3_ACC_GYRO_R_DEC_FIFO_SLV1 :: "'e sensor_io \<Rightarrow> 'e \<Rightarrow> status_t \<times> u8 \<times> 'e" where
  "LSM6DS3_ACC_GYRO_R_DEC_FIFO_SLV1 io = read_field io LSM6DS3_ACC_GYRO_FIFO_CTRL4 LSM6DS3_ACC_GYRO_DEC_FIFO_SLV1_MASK"

definition LSM6DS3_ACC_GYRO_W_HI_DATA_ONLY :: "'e sensor_io \<Rightarrow> u8 \<Rightarrow> 'e \<Rightarrow> status_t \<times> 'e" where
  "LSM6DS3_ACC_GYRO_W_HI_DATA_ONLY io = write_field io LSM6DS3_ACC_GYRO_FIFO_CTRL4 LSM6DS3_ACC_GYRO_HI_DATA_ONLY_MASK"

definition LSM6DS3_ACC_GYRO_R_HI_DATA_ONLY :: "'e sensor_io \<Rightarrow> 'e \<Rightarrow> status_t \<times> u8 \<times> 'e" where
  "LSM6DS3_ACC_GYRO_R_HI_DATA_ONLY io = read_field io LSM6DS3_ACC_GYRO_FIFO_CTRL4 LSM6DS3_ACC_GYRO_HI_DATA_ONLY_MASK"

definition LSM6DS3_ACC_GYRO_W_FIFO_MODE :: "'e sensor_io \<Rightarrow> u8 \<Rightarrow> 'e \<Rightarrow> status_t \<times> 'e" where
  "LSM6DS3_ACC_GYRO_W_FIFO_MODE io = write_field io LSM6DS3_ACC_GYRO_FIFO_CTRL5 LSM6DS3_ACC_GYRO_FIFO_MODE_MASK"

definition LSM6DS3_ACC_GYRO_R_FIFO_MODE :: "'e sensor_io \<Rightarrow> 'e \<Rightarrow> status_t \<times> u8 \<times> 'e" where
  "LSM6DS3_ACC_GYRO_R_FIFO_MODE io = read_field io LSM6DS3_ACC_GYRO_FIFO_CTRL5 LSM6DS3_ACC_GYRO_FIFO_MODE_MASK"

definition LSM6DS3_ACC_GYRO_W_ODR_FIFO :: "'e sensor_io \<Rightarrow> u8 \<Rightarrow> 'e \<Rightarrow> status_t \<times> 'e" where
  "LSM6DS3_ACC_GYRO_W_ODR_FIFO io = write_field io LSM6DS3_ACC_GYRO_FIFO_CTRL5 LSM6DS3_ACC_GYRO_ODR_FIFO_MASK"

definition LSM6DS3_ACC_GYRO_R_ODR_FIFO :: "'e sensor_io \<Rightarrow> 'e \<Rightarrow> status_t \<times> u8 \<times> 'e" where
  "LSM6DS3_ACC_GYRO_R_ODR_FIFO io = read_field io LSM6DS3_ACC_GYRO_FIFO_CTRL5 LSM6DS3_ACC_GYRO_ODR_FIFO_MASK"

definition LSM6DS3_ACC_GYRO_W_Orientation :: "'e sensor_io \<Rightarrow> u8 \<Rightarrow> 'e \<Rightarrow> status_t \<times> 'e" where
  "LSM6DS3_ACC_GYRO_W_Orientation io = write_field io LSM6DS3_ACC_GYRO_ORIENT_CFG_G LSM6DS3_ACC_GYRO_ORIENT_MASK"

definition LSM6DS3_ACC_GYRO_R_Orientation :: "'e sensor_io \<Rightarrow> 'e \<Rightarrow> status_t \<times> u8 \<times> 'e" where
  "LSM6DS3_ACC_GYRO_R_Orientation io = read_field io LSM6DS3_ACC_GYRO_ORIENT_CFG_G LSM6DS3_ACC_GYRO_ORIENT_MASK"

definition LSM6DS3_ACC_GYRO_W_SignZ_G :: "'e sensor_io \<Rightarrow> u8 \<Rightarrow> 'e \<Rightarrow> status_t \<times> 'e" where
  "LSM6DS3_ACC_GYRO_W_SignZ_G io = write_field io LSM6DS3_ACC_GYRO_ORIENT_CFG_G LSM6DS3_ACC_GYRO_SIGN_Z_G_MASK"

definition LSM6DS3_ACC_GYRO_R_SignZ_G :: "'e sensor_io \<Rightarrow> 'e \<Rightarrow> status_t \<times> u8 \<times> 'e" where
  "LSM6DS3_ACC_GYRO_R_SignZ_G io = read_field io LSM6DS3_ACC_GYRO_ORIENT_CFG_G LSM6DS3_ACC_GYRO_SIGN_Z_G_MASK"

definition LSM6DS3_ACC_GYRO_W_SignY_G :: "'e sensor_io \<Rightarrow> u8 \<Rightarrow> 'e \<Rightarrow> status_t \<times> 'e" where
  "LSM6DS3_ACC_GYRO_W_SignY_G io = write_field io LSM6DS3_ACC_GYRO_ORIENT_CFG_G LSM6DS3_ACC_GYRO_SIGN_Y_G_MASK"

definition LSM6DS3_ACC_GYRO_R_SignY_G :: "'e sensor_io \<Rightarrow> 'e \<Rightarrow> status_t \<times> u8 \<times> 'e" where
  "LSM6DS3_ACC_GYRO_R_SignY_G io = read_field io LSM6DS3_ACC_GYRO_ORIENT_CFG_G LSM6DS3_ACC_GYRO_SIGN_Y_G_MASK"

definition LSM6DS3_ACC_GYRO_W_SignX_G :: "'e sensor_io \<Rightarrow> u8 \<Rightarrow> 'e \<Rightarrow> status_t \<times> 'e" where
  "LSM6DS3_ACC_GYRO_W_SignX_G io = write_field io LSM6DS3_ACC_GYRO_ORIENT_CFG_G LSM6DS3_ACC_GYRO_SIGN_X_G_MASK"

definition LSM6DS3_ACC_GYRO_R_SignX_G :: "'e sensor_io \<Rightarrow> 'e \<Rightarrow> status_t \<times> u8 \<times> 'e" where
  "LSM6DS3_ACC_GYRO_R_SignX_G io = read_field io LSM6DS3_ACC_GYRO_ORIENT_CFG_G LSM6DS3_ACC_GYRO_SIGN_X_G_MASK"

definition LSM6DS3_ACC_GYRO_W_DRDY_XL_on_INT1 :: "'e sensor_io \<Rightarrow> u8 \<Rightarrow> 'e \<Rightarrow> status_t \<times> 'e" where
  "LSM6DS3_ACC_GYRO_W_DRDY_XL_on_INT1 io = write_field io LSM6DS3_ACC_GYRO_INT1_CTRL LSM6DS3_ACC_GYRO_INT1_DRDY_XL_MASK"

definition LSM6DS3_ACC_GYRO_R_DRDY_XL_on_INT1 :: "'e sensor_io \<Rightarrow> 'e \<Rightarrow> status_t \<times> u8 \<times> 'e" where
  "LSM6DS3_ACC_GYRO_R_DRDY_XL_on_INT1 io = read_field io LSM6DS3_ACC_GYRO_INT1_CTRL LSM6DS3_ACC_GYRO_INT1_DRDY_XL_MASK"

definition LSM6DS3_ACC_GYRO_W_DRDY_G_on_INT1 :: "'e sensor_io \<Rightarrow> u8 \<Rightarrow> 'e \<Rightarrow> status_t \<times> 'e" where
  "LSM6DS3_ACC_GYRO_W_DRDY_G_on_INT1 io = write_field io LSM6DS3_ACC_GYRO_INT1_CTRL LSM6DS3_ACC_GYRO_INT1_DRDY_G_MASK"

definition LSM6DS3_ACC_GYRO_R_DRDY_G_on_INT1 :: "'e sensor_io \<Rightarrow> 'e \<Rightarrow> status_t \<times> u8 \<times> 'e" where
  "LSM6DS3_ACC_GYRO_R_DRDY_G_on_INT1 io = read_field io LSM6DS3_ACC_GYRO_INT1_CTRL LSM6DS3_ACC_GYRO_INT1_DRDY_G_MASK"

definition LSM6DS3_ACC_GYRO_W_BOOT_on_INT1 :: "'e sensor_io \<Rightarrow> u8 \<Rightarrow> 'e \<Rightarrow> status_t \<times> 'e" where
  "LSM6DS3_ACC_GYRO_W_BOOT_on_INT1 io = write_field io LSM6DS3_ACC_GYRO_INT1_CTRL LSM6DS3_ACC_GYRO_INT1_BOOT_MASK"

definition LSM6DS3_ACC_GYRO_R_BOOT_on_INT1 :: "'e sensor_io \<Rightarrow> 'e \<Rightarrow> status_t \<times> u8 \<times> 'e" where
  "LSM6DS3_ACC_GYRO_R_BOOT_on_INT1 io = read_field io LSM6DS3_ACC_GYRO_INT1_CTRL LSM6DS3_ACC_GYRO_INT1_BOOT_MASK"

definition LSM6DS3_ACC_GYRO_W_FIFO_TSHLD_on_INT1 :: "'e sensor_io \<Rightarrow> u8 \<Rightarrow> 'e \<Rightarrow> status_t \<times> 'e" where
  "LSM6DS3_ACC_GYRO_W_FIFO_TSHLD_on_INT1 io = write_field io LSM6DS3_ACC_GYRO_INT1_CTRL LSM6DS3_ACC_GYRO_INT1_FTH_MASK"

definition LSM6DS3_ACC_GYRO_R_FIFO_TSHLD_on_INT1 :: "'e sensor_io \<Rightarrow> 'e \<Rightarrow> status_t \<times> u8 \<times> 'e" where
  "LSM6DS3_ACC_GYRO_R_FIFO_TSHLD_on_INT1 io = read_field io LSM6DS3_ACC_GYRO_INT1_CTRL LSM6DS3_ACC_GYRO_INT1_FTH_MASK"

definition LSM6DS3_ACC_GYRO_W_OVERRUN_on_INT1 :: "'e sensor_io \<Rightarrow> u8 \<Rightarrow> 'e \<Rightarrow> status_t \<times> 'e" where
  "LSM6DS3_ACC_GYRO_W_OVERRUN_on_INT1 io = write_field io LSM6DS3_ACC_GYRO_INT1_CTRL LSM6DS3_ACC_GYRO_INT1_OVR_MASK"

definition LSM6DS3_ACC_GYRO_R_OVERRUN_on_INT1 :: "'e sensor_io \<Rightarrow> 'e \<Rightarrow> status_t \<times> u8 \<times> 'e" where
  "LSM6DS3_ACC_GYRO_R_OVERRUN_on_INT1 io = read_field io LSM6DS3_ACC_GYRO_INT1_CTRL LSM6DS3_ACC_GYRO_INT1_OVR_MASK"

definition LSM6DS3_ACC_GYRO_W_FSS5_on_INT1 :: "'e sensor_io \<Rightarrow> u8 \<Rightarrow> 'e \<Rightarrow> status_t \<times> 'e" where
  "LSM6DS3_ACC_GYRO_W_FSS5_on_INT1 io = write_field io LSM6DS3_ACC_GYRO_INT1_CTRL LSM6DS3_ACC_GYRO_INT1_FSS5_MASK"

definition LSM6DS3_ACC_GYRO_R_FSS5_on_INT1 :: "'e sensor_io \<Rightarrow> 'e \<Rightarrow> status_t \<times> u8 \<times> 'e" where
  "LSM6DS3_ACC_GYRO_R_FSS5_on_INT1 io = read_field io LSM6DS3_ACC_GYRO_INT1_CTRL LSM6DS3_ACC_GYRO_INT1_FSS5_MASK"

definition LSM6DS3_ACC_GYRO_W_SIGN_MOT_on_INT1 :: "'e sensor_io \<Rightarrow> u8 \<Rightarrow> 'e \<Rightarrow> status_t \<times> 'e" where
  "LSM6DS3_ACC_GYRO_W_SIGN_MOT_on_INT1 io = write_field io LSM6DS3_ACC_GYRO_INT1_CTRL LSM6DS3_ACC_GYRO_INT1_SIGN_MOT_MASK"

definition LSM6DS3_ACC_GYRO_R_SIGN_MOT_on_INT1 :: "'e sensor_io \<Rightarrow> 'e \<Rightarrow> status_t \<times> u8 \<times> 'e" where
  "LSM6DS3_ACC_GYRO_R_SIGN_MOT_on_INT1 io = read_field io LSM6DS3_ACC_GYRO_INT1_CTRL LSM6DS3_ACC_GYRO_INT1_SIGN_MOT_MASK"

definition LSM6DS3_ACC_GYRO_W_PEDO_STEP_on_INT1 :: "'e sensor_io \<Rightarrow> u8 \<Rightarrow> 'e \<Rightarrow> status_t \<times> 'e" where
  "LSM6DS3_ACC_GYRO_W_PEDO_STEP_on_INT1 io = write_field io LSM6DS3_ACC_GYRO_INT1_CTRL LSM6DS3_ACC_GYRO_INT1_PEDO_MASK"

definition LSM6DS3_ACC_GYRO_R_PEDO_STEP_on_INT1 :: "'e sensor_io \<Rightarrow> 'e \<Rightarrow> status_t \<times> u8 \<times> 'e" where
  "LSM6DS3_ACC_GYRO_R_PEDO_STEP_on_INT1 io = read_field io LSM6DS3_ACC_GYRO_INT1_CTRL LSM6DS3_ACC_GYRO_INT1_PEDO_MASK"

definition LSM6DS3_ACC_GYRO_W_DRDY_XL_on_INT2 :: "'e sensor_io \<Rightarrow> u8 \<Rightarrow> 'e \<Rightarrow> status_t \<times> 'e" where
  "LSM6DS3_ACC_GYRO_W_DRDY_XL_on_INT2 io = write_field io LSM6DS3_ACC_GYRO_INT2_CTRL LSM6DS3_ACC_GYRO_INT2_DRDY_XL_MASK"

definition LSM6DS3_ACC_GYRO_R_DRDY_XL_on_INT2 :: "'e sensor_io \<Rightarrow> 'e \<Rightarrow> status_t \<times> u8 \<times> 'e" where
  "LSM6DS3_ACC_GYRO_R_DRDY_XL_on_INT2 io = read_field io LSM6DS3_ACC_GYRO_INT2_CTRL LSM6DS3_ACC_GYRO_INT2_DRDY_XL_MASK"

definition LSM6DS3_ACC_GYRO_W_DRDY_G_on_INT2 :: "'e sensor_io \<Rightarrow> u8 \<Rightarrow> 'e \<Rightarrow> status_t \<times> 'e" where
  "LSM6DS3_ACC_GYRO_W_DRDY_G_on_INT2 io = write_field io LSM6DS3_ACC_GYRO_INT2_CTRL LSM6DS3_ACC_GYRO_INT2_DRDY_G_MASK"

definition LSM6DS3_ACC_GYRO_R_DRDY_G_on_INT2 :: "'e sensor_io \<Rightarrow> 'e \<Rightarrow> status_t \<times> u8 \<times> 'e" where
  "LSM6DS3_ACC_GYRO_R_DRDY_G_on_INT2 io = read_field io LSM6DS3_ACC_GYRO_INT2_CTRL LSM6DS3_ACC_GYRO_INT2_DRDY_G_MASK"

definition LSM6DS3_ACC_GYRO_W_DRDY_TEMP_on_INT2 :: "'e sensor_io \<Rightarrow> u8 \<Rightarrow> 'e \<Rightarrow> status_t \<times> 'e" where
  "LSM6DS3_ACC_GYRO_W_DRDY_TEMP_on_INT2 io = write_field io LSM6DS3_ACC_GYRO_INT2_CTRL LSM6DS3_ACC_GYRO_INT2_DRDY_TEMP_MASK"

definition LSM6DS3_ACC_GYRO_R_DRDY_TEMP_on_INT2 :: "'e sensor_io \<Rightarrow> 'e \<Rightarrow> status_t \<times> u8 \<times> 'e" where
  "LSM6DS3_ACC_GYRO_R_DRDY_TEMP_on_INT2 io = read_field io LSM6DS3_ACC_GYRO_INT2_CTRL LSM6DS3_ACC_GYRO_INT2_DRDY_TEMP_MASK"

definition LSM6DS3_ACC_GYRO_W_FIFO_TSHLD_on_INT2 :: "'e sensor_io \<Rightarrow> u8 \<Rightarrow> 'e \<Rightarrow> status_t \<times> 'e" where
  "LSM6DS3_ACC_GYRO_W_FIFO_TSHLD_on_INT2 io = write_field io LSM6DS3_ACC_GYRO_INT2_CTRL LSM6DS3_ACC_GYRO_INT2_FTH_MASK"

definition LSM6DS3_ACC_GYRO_R_FIFO_TSHLD_on_INT2 :: "'e sensor_io \<Rightarrow> 'e \<Rightarrow> status_t \<times> u8 \<times> 'e" where
  "LSM6DS3_ACC_GYRO_R_FIFO_TSHLD_on_INT2 io = read_field io LSM6DS3_ACC_GYRO_INT2_CTRL LSM6DS3_ACC_GYRO_INT2_FTH_MASK"

definition LSM6DS3_ACC_GYRO_W_OVERRUN_on_INT2 :: "'e sensor_io \<Rightarrow> u8 \<Rightarrow> 'e \<Rightarrow> status_t \<times> 'e" where
  "LSM6DS3_ACC_GYRO_W_OVERRUN_on_INT2 io = write_field io LSM6DS3_ACC_GYRO_INT2_CTRL LSM6DS3_ACC_GYRO_INT2_OVR_MASK"

definition LSM6DS3_ACC_GYRO_R_OVERRUN_on_INT2 :: "'e sensor_io \<Rightarrow> 'e \<Rightarrow> status_t \<times> u8 \<times> 'e" where
  "LSM6DS3_ACC_GYRO_R_OVERRUN_on_INT2 io = read_field io LSM6DS3_ACC_GYRO_INT2_CTRL LSM6DS3_ACC_GYRO_INT2_OVR_MASK"

definition LSM6DS3_ACC_GYRO_W_FSS5_on_INT2 :: "'e sensor_io \<Rightarrow> u8 \<Rightarrow> 'e \<Rightarrow> status_t \<times> 'e" where
  "LSM6DS3_ACC_GYRO_W_FSS5_on_INT2 io = write_field io LSM6DS3_ACC_GYRO_INT2_CTRL LSM6DS3_ACC_GYRO_INT2_FSS5_MASK"

definition LSM6DS3_ACC_GYRO_R_FSS5_on_INT2 :: "'e sensor_io \<Rightarrow> 'e \<Rightarrow> status_t \<times> u8 \<times> 'e" where
  "LSM6DS3_ACC_GYRO_R_FSS5_on_INT2 io = read_field io LSM6DS3_ACC_GYRO_INT2_CTRL LSM6DS3_ACC_GYRO_INT2_FSS5_MASK"

definition LSM6DS3_ACC_GYRO_W_SIGN_MOT_on_INT2 :: "'e sensor_io \<Rightarrow> u8 \<Rightarrow> 'e \<Rightarrow> status_t \<times> 'e" where
  "LSM6DS3_ACC_GYRO_W_SIGN_MOT_on_INT2 io = write_field io LSM6DS3_ACC_GYRO_INT2_CTRL LSM6DS3_ACC_GYRO_INT2_SIGN_MOT_MASK"

definition LSM6DS3_ACC_GYRO_R_SIGN_MOT_on_INT2 :: "'e sensor_io \<Rightarrow> 'e \<Rightarrow> status_t \<times> u8 \<times> 'e" where
  "LSM6DS3_ACC_GYRO_R_SIGN_MOT_on_INT2 io = read_field io LSM6DS3_ACC_GYRO_INT2_CTRL LSM6DS3_ACC_GYRO_INT2_SIGN_MOT_MASK"

definition LSM6DS3_ACC_GYRO_W_PEDO_STEP_on_INT2 :: "'e sensor_io \<Rightarrow> u8 \<Rightarrow> 'e \<Rightarrow> status_t \<times> 'e" where
  "LSM6DS3_ACC_GYRO_W_PEDO_STEP_on_INT2 io = write_field io LSM6DS3_ACC_GYRO_INT2_CTRL LSM6DS3_ACC_GYRO_INT2_PEDO_MASK"

definition LSM6DS3_ACC_GYRO_R_PEDO_STEP_on_INT2 :: "'e sensor_io \<Rightarrow> 'e \<Rightarrow> status_t \<times> u8 \<times> 'e" where
  "LSM6DS3_ACC_GYRO_R_PEDO_STEP_on_INT2 io = read_field io LSM6DS3_ACC_GYRO_INT2_CTRL LSM6DS3_ACC_GYRO_INT2_PEDO_MASK"

definition LSM6DS3_ACC_GYRO_W_SW_RESET :: "'e sensor_io \<Rightarrow> u8 \<Rightarrow> 'e \<Rightarrow> status_t \<times> 'e" where
  "LSM6DS3_ACC_GYRO_W_SW_RESET io = write_field io LSM6DS3_ACC_GYRO_CTRL3_C LSM6DS3_ACC_GYRO_SW_RESET_MASK"

definition LSM6DS3_ACC_GYRO_R_SW_RESET :: "'e sensor_io \<Rightarrow> 'e \<Rightarrow> status_t \<times> u8 \<times> 'e" where
  "LSM6DS3_ACC_GYRO_R_SW_RESET io = read_field io LSM6DS3_ACC_GYRO_CTRL3_C LSM6DS3_ACC_GYRO_SW_RESET_MASK"

definition LSM6DS3_ACC_GYRO_W_BLE :: "'e sensor_io \<Rightarrow> u8 \<Rightarrow> 'e \<Rightarrow> status_t \<times> 'e" where
  "LSM6DS3_ACC_GYRO_W_BLE io = write_field io LSM6DS3_ACC_GYRO_CTRL3_C LSM6DS3_ACC_GYRO_BLE_MASK"

definition LSM6DS3_ACC_GYRO_R_BLE :: "'e sensor_io \<Rightarrow> 'e \<Rightarrow> status_t \<times> u8 \<times> 'e" where
  "LSM6DS3_ACC_GYRO_R_BLE io = read_field io LSM6DS3_ACC_GYRO_CTRL3_C LSM6DS3_ACC_GYRO_BLE_MASK"

definition LSM6DS3_ACC_GYRO_W_IF_Addr_Incr :: "'e sensor_io \<Rightarrow> u8 \<Rightarrow> 'e \<Rightarrow> status_t \<times> 'e" where
  "LSM6DS3_ACC_GYRO_W_IF_Addr_Incr io = write_field io LSM6DS3_ACC_GYRO_CTRL3_C LSM6DS3_ACC_GYRO_IF_INC_MASK"

definition LSM6DS3_ACC_GYRO_R_IF_Addr_Incr :: "'e sensor_io \<Rightarrow> 'e \<Rightarrow> status_t \<times> u8 \<times> 'e" where
  "LSM6DS3_ACC_GYRO_R_IF_Addr_Incr io = read_field io LSM6DS3_ACC_GYRO_CTRL3_C LSM6DS3_ACC_GYRO_IF_INC_MASK"

definition LSM6DS3_ACC_GYRO_W_SPI_Mode :: "'e sensor_io \<Rightarrow> u8 \<Rightarrow> 'e \<Rightarrow> status_t \<times> 'e" where
  "LSM6DS3_ACC_GYRO_W_SPI_Mode io = write_field io LSM6DS3_ACC_GYRO_CTRL3_C LSM6DS3_ACC_GYRO_SIM_MASK"

definition LSM6DS3_ACC_GYRO_R_SPI_Mode :: "'e sensor_io \<Rightarrow> 'e \<Rightarrow> status_t \<times> u8 \<times> 'e" where
  "LSM6DS3_ACC_GYRO_R_SPI_Mode io = read_field io LSM6DS3_ACC_GYRO_CTRL3_C LSM6DS3_ACC_GYRO_SIM_MASK"

definition LSM6DS3_ACC_GYRO_W_PadSel :: "'e sensor_io \<Rightarrow> u8 \<Rightarrow> 'e \<Rightarrow> status_t \<times> 'e" where
  "LSM6DS3_ACC_GYRO_W_PadSel io = write_field io LSM6DS3_ACC_GYRO_CTRL3_C LSM6DS3_ACC_GYRO_PP_OD_MASK"

definition LSM6DS3_ACC_GYRO_R_PadSel :: "'e sensor_io \<Rightarrow> 'e \<Rightarrow> status_t \<times> u8 \<times> 'e" where
  "LSM6DS3_ACC_GYRO_R_PadSel io = read_field io LSM6DS3_ACC_GYRO_CTRL3_C LSM6DS3_ACC_GYRO_PP_OD_MASK"

definition LSM6DS3_ACC_GYRO_W_INT_ACT_LEVEL :: "'e sensor_io \<Rightarrow> u8 \<Rightarrow> 'e \<Rightarrow> status_t \<times> 'e" where
  "LSM6DS3_ACC_GYRO_W_INT_ACT_LEVEL io = write_field io LSM6DS3_ACC_GYRO_CTRL3_C LSM6DS3_ACC_GYRO_INT_ACT_LEVEL_MASK"

definition LSM6DS3_ACC_GYRO_R_INT_ACT_LEVEL :: "'e sensor_io \<Rightarrow> 'e \<Rightarrow> status_t \<times> u8 \<times> 'e" where
  "LSM6DS3_ACC_GYRO_R_INT_ACT_LEVEL io = read_field io LSM6DS3_ACC_GYRO_CTRL3_C LSM6DS3_ACC_GYRO_INT_ACT_LEVEL_MASK"

definition LSM6DS3_ACC_GYRO_W_BOOT :: "'e sensor_io \<Rightarrow> u8 \<Rightarrow> 'e \<Rightarrow> status_t \<times> 'e" where
  "LSM6DS3_ACC_GYRO_W_BOOT io = write_field io LSM6DS3_ACC_GYRO_CTRL3_C LSM6DS3_ACC_GYRO_BOOT_MASK"

definition LSM6DS3_ACC_GYRO_R_BOOT :: "'e sensor_io \<Rightarrow> 'e \<Rightarrow> status_t \<times> u8 \<times> 'e" where
  "LSM6DS3_ACC_GYRO_R_BOOT io = read_field io LSM6DS3_ACC_GYRO_CTRL3_C LSM6DS3_ACC_GYRO_BOOT_MASK"

definition LSM6DS3_ACC_GYRO_W_STOP_ON_FTH :: "'e sensor_io \<Rightarrow> u8 \<Rightarrow> 'e \<Rightarrow> status_t \<times> 'e" where
  "LSM6DS3_ACC_GYRO_W_STOP_ON_FTH io = write_field io LSM6DS3_ACC_GYRO_CTRL4_C LSM6DS3_ACC_GYRO_STOP_ON_FTH_MASK"

definition LSM6DS3_ACC_GYRO_R_STOP_ON_FTH :: "'e sensor_io \<Rightarrow> 'e \<Rightarrow> status_t \<times> u8 \<times> 'e" where
  "LSM6DS3_ACC_GYRO_R_STOP_ON_FTH io = read_field io LSM6DS3_ACC_GYRO_CTRL4_C LSM6DS3_ACC_GYRO_STOP_ON_FTH_MASK"

definition LSM6DS3_ACC_GYRO_W_MODE3_Enable :: "'e sensor_io \<Rightarrow> u8 \<Rightarrow> 'e \<Rightarrow> status_t \<times> 'e" where
  "LSM6DS3_ACC_GYRO_W_MODE3_Enable io = write_field io LSM6DS3_ACC_GYRO_CTRL4_C LSM6DS3_ACC_GYRO_MODE3_EN_MASK"

definition LSM6DS3_ACC_GYRO_R_MODE3_Enable :: "'e sensor_io \<Rightarrow> 'e \<Rightarrow> status_t \<times> u8 \<times> 'e" where
  "LSM6DS3_ACC_GYRO_R_MODE3_Enable io = read_field io LSM6DS3_ACC_GYRO_CTRL4_C LSM6DS3_ACC_GYRO_MODE3_EN_MASK"

definition LSM6DS3_ACC_GYRO_W_I2C_DISABLE :: "'e sensor_io \<Rightarrow> u8 \<Rightarrow> 'e \<Rightarrow> status_t \<times> 'e" where
  "LSM6DS3_ACC_GYRO_W_I2C_DISABLE io = write_field io LSM6DS3_ACC_GYRO_CTRL4_C LSM6DS3_ACC_GYRO_I2C_DISABLE_MASK"

definition LSM6DS3_ACC_GYRO_R_I2C_DISABLE :: "'e sensor_io \<Rightarrow> 'e \<Rightarrow> status_t \<times> u8 \<times> 'e" where
  "LSM6DS3_ACC_GYRO_R_I2C_DISABLE io = read_field io LSM6DS3_ACC_GYRO_CTRL4_C LSM6DS3_ACC_GYRO_I2C_DISABLE_MASK"

definition LSM6DS3_ACC_GYRO_W_DRDY_MSK :: "'e sensor_io \<Rightarrow> u8 \<Rightarrow> 'e \<Rightarrow> status_t \<times> 'e" where
  "LSM6DS3_ACC_GYRO_W_DRDY_MSK io = write_field io LSM6DS3_ACC_GYRO_CTRL4_C LSM6DS3_ACC_GYRO_DRDY_MSK_MASK"

definition LSM6DS3_ACC_GYRO_R_DRDY_MSK :: "'e sensor_io \<Rightarrow> 'e \<Rightarrow> status_t \<times> u8 \<times> 'e" where
  "LSM6DS3_ACC_GYRO_R_DRDY_MSK io = read_field io LSM6DS3_ACC_GYRO_CTRL4_C LSM6DS3_ACC_GYRO_DRDY_MSK_MASK"

definition LSM6DS3_ACC_GYRO_W_FIFO_TEMP_EN :: "'e sensor_io \<Rightarrow> u8 \<Rightarrow> 'e \<Rightarrow> status_t \<times> 'e" where
  "LSM6DS3_ACC_GYRO_W_FIFO_TEMP_EN io = write_field io LSM6DS3_ACC_GYRO_CTRL4_C LSM6DS3_ACC_GYRO_FIFO_TEMP_EN_MASK"

definition LSM6DS3_ACC_GYRO_R_FIFO_TEMP_EN :: "'e sensor_io \<Rightarrow> 'e \<Rightarrow> status_t \<times> u8 \<times> 'e" where
  "LSM6DS3_ACC_GYRO_R_FIFO_TEMP_EN io = read_field io LSM6DS3_ACC_GYRO_CTRL4_C LSM6DS3_ACC_GYRO_FIFO_TEMP_EN_MASK"

definition LSM6DS3_ACC_GYRO_W_INT2_ON_INT1 :: "'e sensor_io \<Rightarrow> u8 \<Rightarrow> 'e \<Rightarrow> status_t \<times> 'e" where
  "LSM6DS3_ACC_GYRO_W_INT2_ON_INT1 io = write_field io LSM6DS3_ACC_GYRO_CTRL4_C LSM6DS3_ACC_GYRO_INT2_ON_INT1_MASK"

definition LSM6DS3_ACC_GYRO_R_INT2_ON_INT1 :: "'e sensor_io \<Rightarrow> 'e \<Rightarrow> status_t \<times> u8 \<times> 'e" where
  "LSM6DS3_ACC_GYRO_R_INT2_ON_INT1 io = read_field io LSM6DS3_ACC_GYRO_CTRL4_C LSM6DS3_ACC_GYRO_INT2_ON_INT1_MASK"

definition LSM6DS3_ACC_GYRO_W_SleepMode_G :: "'e sensor_io \<Rightarrow> u8 \<Rightarrow> 'e \<Rightarrow> status_t \<times> 'e" where
  "LSM6DS3_ACC_GYRO_W_SleepMode_G io = write_field io LSM6DS3_ACC_GYRO_CTRL4_C LSM6DS3_ACC_GYRO_SLEEP_G_MASK"

definition LSM6DS3_ACC_GYRO_R_SleepMode_G :: "'e sensor_io \<Rightarrow> 'e \<Rightarrow> status_t \<times> u8 \<times> 'e" where
  "LSM6DS3_ACC_GYRO_R_SleepMode_G io = read_field io LSM6DS3_ACC_GYRO_CTRL4_C LSM6DS3_ACC_GYRO_SLEEP_G_MASK"

definition LSM6DS3_ACC_GYRO_W_BW_Fixed_By_ODR :: "'e sensor_io \<Rightarrow> u8 \<Rightarrow> 'e \<Rightarrow> status_t \<times> 'e" where
  "LSM6DS3_ACC_GYRO_W_BW_Fixed_By_ODR io = write_field io LSM6DS3_ACC_GYRO_CTRL4_C LSM6DS3_ACC_GYRO_BW_SCAL_ODR_MASK"

definition LSM6DS3_ACC_GYRO_R_BW_Fixed_By_ODR :: "'e sensor_io \<Rightarrow> 'e \<Rightarrow> status_t \<times> u8 \<times> 'e" where
  "LSM6DS3_ACC_GYRO_R_BW_Fixed_By_ODR io = read_field io LSM6DS3_ACC_GYRO_CTRL4_C LSM6DS3_ACC_GYRO_BW_SCAL_ODR_MASK"

definition LSM6DS3_ACC_GYRO_W_SelfTest_XL :: "'e sensor_io \<Rightarrow> u8 \<Rightarrow> 'e \<Rightarrow> status_t \<times> 'e" where
  "LSM6DS3_ACC_GYRO_W_SelfTest_XL io = write_field io LSM6DS3_ACC_GYRO_CTRL5_C LSM6DS3_ACC_GYRO_ST_XL_MASK"

definition LSM6DS3_ACC_GYRO_R_SelfTest_XL :: "'e sensor_io \<Rightarrow> 'e \<Rightarrow> status_t \<times> u8 \<times> 'e" where
  "LSM6DS3_ACC_GYRO_R_SelfTest_XL io = read_field io LSM6DS3_ACC_GYRO_CTRL5_C LSM6DS3_ACC_GYRO_ST_XL_MASK"

definition LSM6DS3_ACC_GYRO_W_SelfTest_G :: "'e sensor_io \<Rightarrow> u8 \<Rightarrow> 'e \<Rightarrow> status_t \<times> 'e" where
  "LSM6DS3_ACC_GYRO_W_SelfTest_G io = write_field io LSM6DS3_ACC_GYRO_CTRL5_C LSM6DS3_ACC_GYRO_ST_G_MASK"

definition LSM6DS3_ACC_GYRO_R_SelfTest_G :: "'e sensor_io \<Rightarrow> 'e \<Rightarrow> status_t \<times> u8 \<times> 'e" where
  "LSM6DS3_ACC_GYRO_R_SelfTest_G io = read_field io LSM6DS3_ACC_GYRO_CTRL5_C LSM6DS3_ACC_GYRO_ST_G_MASK"

definition LSM6DS3_ACC_GYRO_W_CircularBurstMode :: "'e sensor_io \<Rightarrow> u8 \<Rightarrow> 'e \<Rightarrow> status_t \<times> 'e" where
  "LSM6DS3_ACC_GYRO_W_CircularBurstMode io = write_field io LSM6DS3_ACC_GYRO_CTRL5_C LSM6DS3_ACC_GYRO_LSM6DS3_ACC_GYRO_ROUNDING_t_MASK"

definition LSM6DS3_ACC_GYRO_R_CircularBurstMode :: "'e sensor_io \<Rightarrow> 'e \<Rightarrow> status_t \<times> u8 \<times> 'e" where
  "LSM6DS3_ACC_GYRO_R_CircularBurstMode io = read_field io LSM6DS3_ACC_GYRO_CTRL5_C LSM6DS3_ACC_GYRO_LSM6DS3_ACC_GYRO_ROUNDING_t_MASK"

definition LSM6DS3_ACC_GYRO_W_LowPower_XL :: "'e sensor_io \<Rightarrow> u8 \<Rightarrow> 'e \<Rightarrow> status_t \<times> 'e" where
  "LSM6DS3_ACC_GYRO_W_LowPower_XL io = write_field io LSM6DS3_ACC_GYRO_CTRL6_G LSM6DS3_ACC_GYRO_LP_XL_MASK"

definition LSM6DS3_ACC_GYRO_R_LowPower_XL :: "'e sensor_io \<Rightarrow> 'e \<Rightarrow> status_t \<times> u8 \<times> 'e" where
  "LSM6DS3_ACC_GYRO_R_LowPower_XL io = read_field io LSM6DS3_ACC_GYRO_CTRL6_G LSM6DS3_ACC_GYRO_LP_XL_MASK"

definition LSM6DS3_ACC_GYRO_W_DEN_LVL2_EN :: "'e sensor_io \<Rightarrow> u8 \<Rightarrow> 'e \<Rightarrow> status_t \<times> 'e" where
  "LSM6DS3_ACC_GYRO_W_DEN_LVL2_EN io = write_field io LSM6DS3_ACC_GYRO_CTRL6_G LSM6DS3_ACC_GYRO_DEN_LVL2_EN_MASK"

definition LSM6DS3_ACC_GYRO_R_DEN_LVL2_EN :: "'e sensor_io \<Rightarrow> 'e \<Rightarrow> status_t \<times> u8 \<times> 'e" where
  "LSM6DS3_ACC_GYRO_R_DEN_LVL2_EN io = read_field io LSM6DS3_ACC_GYRO_CTRL6_G LSM6DS3_ACC_GYRO_DEN_LVL2_EN_MASK"

definition LSM6DS3_ACC_GYRO_W_DEN_LVL_EN :: "'e sensor_io \<Rightarrow> u8 \<Rightarrow> 'e \<Rightarrow> status_t \<times> 'e" where
  "LSM6DS3_ACC_GYRO_W_DEN_LVL_EN io = write_field io LSM6DS3_ACC_GYRO_CTRL6_G LSM6DS3_ACC_GYRO_DEN_LVL_EN_MASK"

definition LSM6DS3_ACC_GYRO_R_DEN_LVL_EN :: "'e sensor_io \<Rightarrow> 'e \<Rightarrow> status_t \<times> u8 \<times> 'e" where
  "LSM6DS3_ACC_GYRO_R_DEN_LVL_EN io = read_field io LSM6DS3_ACC_GYRO_CTRL6_G LSM6DS3_ACC_GYRO_DEN_LVL_EN_MASK"

definition LSM6DS3_ACC_GYRO_W_DEN_EDGE_EN :: "'e sensor_io \<Rightarrow> u8 \<Rightarrow> 'e \<Rightarrow> status_t \<times> 'e" where
  "LSM6DS3_ACC_GYRO_W_DEN_EDGE_EN io = write_field io LSM6DS3_ACC_GYRO_CTRL6_G LSM6DS3_ACC_GYRO_DEN_EDGE_EN_MASK"

definition LSM6DS3_ACC_GYRO_R_DEN_EDGE_EN :: "'e sensor_io \<Rightarrow> 'e \<Rightarrow> status_t \<times> u8 \<times> 'e" where
  "LSM6DS3_ACC_GYRO_R_DEN_EDGE_EN io = read_field io LSM6DS3_ACC_GYRO_CTRL6_G LSM6DS3_ACC_GYRO_DEN_EDGE_EN_MASK"

definition LSM6DS3_ACC_GYRO_W_HPCF_G :: "'e sensor_io \<Rightarrow> u8 \<Rightarrow> 'e \<Rightarrow> status_t \<times> 'e" where
  "LSM6DS3_ACC_GYRO_W_HPCF_G io = write_field io LSM6DS3_ACC_GYRO_CTRL7_G LSM6DS3_ACC_GYRO_HPCF_G_MASK"

definition LSM6DS3_ACC_GYRO_R_HPCF_G :: "'e sensor_io \<Rightarrow> 'e \<Rightarrow> status_t \<times> u8 \<times> 'e" where
  "LSM6DS3_ACC_GYRO_R_HPCF_G io = read_field io LSM6DS3_ACC_GYRO_CTRL7_G LSM6DS3_ACC_GYRO_HPCF_G_MASK"

definition LSM6DS3_ACC_GYRO_W_HPFilter_En :: "'e sensor_io \<Rightarrow> u8 \<Rightarrow> 'e \<Rightarrow> status_t \<times> 'e" where
  "LSM6DS3_ACC_GYRO_W_HPFilter_En io = write_field io LSM6DS3_ACC_GYRO_CTRL7_G LSM6DS3_ACC_GYRO_HP_EN_MASK"

definition LSM6DS3_ACC_GYRO_R_HPFilter_En :: "'e sensor_io \<Rightarrow> 'e \<Rightarrow> status_t \<times> u8 \<times> 'e" where
  "LSM6DS3_ACC_GYRO_R_HPFilter_En io = read_field io LSM6DS3_ACC_GYRO_CTRL7_G LSM6DS3_ACC_GYRO_HP_EN_MASK"

definition LSM6DS3_ACC_GYRO_W_LP_Mode :: "'e sensor_io \<Rightarrow> u8 \<Rightarrow> 'e \<Rightarrow> status_t \<times> 'e" where
  "LSM6DS3_ACC_GYRO_W_LP_Mode io = write_field io LSM6DS3_ACC_GYRO_CTRL7_G LSM6DS3_ACC_GYRO_LP_EN_MASK"

definition LSM6DS3_ACC_GYRO_R_LP_Mode :: "'e sensor_io \<Rightarrow> 'e \<Rightarrow> status_t \<times> u8 \<times> 'e" where
  "LSM6DS3_ACC_GYRO_R_LP_Mode io = read_field io LSM6DS3_ACC_GYRO_CTRL7_G LSM6DS3_ACC_GYRO_LP_EN_MASK"

definition LSM6DS3_ACC_GYRO_W_ROUNDING_STATUS :: "'e sensor_io \<Rightarrow> u8 \<Rightarrow> 'e \<Rightarrow> status_t \<times> 'e" where
  "LSM6DS3_ACC_GYRO_W_ROUNDING_STATUS io = write_field io LSM6DS3_ACC_GYRO_CTRL7_G LSM6DS3_ACC_GYRO_ROUNDING_STATUS_MASK"

definition LSM6DS3_ACC_GYRO_R_ROUNDING_STATUS :: "'e sensor_io \<Rightarrow> 'e \<Rightarrow> status_t \<times> u8 \<times> 'e" where
  "LSM6DS3_ACC_GYRO_R_ROUNDING_STATUS io = read_field io LSM6DS3_ACC_GYRO_CTRL7_G LSM6DS3_ACC_GYRO_ROUNDING_STATUS_MASK"

definition LSM6DS3_ACC_GYRO_W_HP_G_RST :: "'e sensor_io \<Rightarrow> u8 \<Rightarrow> 'e \<Rightarrow> status_t \<times> 'e" where
  "LSM6DS3_ACC_GYRO_W_HP_G_RST io = write_field io LSM6DS3_ACC_GYRO_CTRL7_G LSM6DS3_ACC_GYRO_HP_G_RST_MASK"

definition LSM6DS3_ACC_GYRO_R_HP_G_RST :: "'e sensor_io \<Rightarrow> 'e \<Rightarrow> status_t \<times> u8 \<times> 'e" where
  "LSM6DS3_ACC_GYRO_R_HP_G_RST io = read_field io LSM6DS3_ACC_GYRO_CTRL7_G LSM6DS3_ACC_GYRO_HP_G_RST_MASK"

definition LSM6DS3_ACC_GYRO_W_LPF2_XL :: "'e sensor_io \<Rightarrow> u8 \<Rightarrow> 'e \<Rightarrow> status_t \<times> 'e" where
  "LSM6DS3_ACC_GYRO_W_LPF2_XL io = write_field io LSM6DS3_ACC_GYRO_CTRL8_XL LSM6DS3_ACC_GYRO_LPF2_XL_MASK"

definition LSM6DS3_ACC_GYRO_R_LPF2_XL :: "'e sensor_io \<Rightarrow> 'e \<Rightarrow> status_t \<times> u8 \<times> 'e" where
  "LSM6DS3_ACC_GYRO_R_LPF2_XL io = read_field io LSM6DS3_ACC_GYRO_CTRL8_XL LSM6DS3_ACC_GYRO_LPF2_XL_MASK"

definition LSM6DS3_ACC_GYRO_W_HPCF_XL :: "'e sensor_io \<Rightarrow> u8 \<Rightarrow> 'e \<Rightarrow> status_t \<times> 'e" where
  "LSM6DS3_ACC_GYRO_W_HPCF_XL io = write_field io LSM6DS3_ACC_GYRO_CTRL8_XL LSM6DS3_ACC_GYRO_HPCF_XL_MASK"

definition LSM6DS3_ACC_GYRO_R_HPCF_XL :: "'e sensor_io \<Rightarrow> 'e \<Rightarrow> status_t \<times> u8 \<times> 'e" where
  "LSM6DS3_ACC_GYRO_R_HPCF_XL io = read_field io LSM6DS3_ACC_GYRO_CTRL8_XL LSM6DS3_ACC_GYRO_HPCF_XL_MASK"

definition LSM6DS3_ACC_GYRO_W_LOW_PASS_ON_6D :: "'e sensor_io \<Rightarrow> u8 \<Rightarrow> 'e \<Rightarrow> status_t \<times> 'e" where
  "LSM6DS3_ACC_GYRO_W_LOW_PASS_ON_6D io = write_field io LSM6DS3_ACC_GYRO_CTRL8_XL LSM6DS3_ACC_GYRO_LOW_PASS_ON_6D_MASK"

definition LSM6DS3_ACC_GYRO_R_LOW_PASS_ON_6D :: "'e sensor_io \<Rightarrow> 'e \<Rightarrow> status_t \<times> u8 \<times> 'e" where
  "LSM6DS3_ACC_GYRO_R_LOW_PASS_ON_6D io = read_field io LSM6DS3_ACC_GYRO_CTRL8_XL LSM6DS3_ACC_GYRO_LOW_PASS_ON_6D_MASK"

definition LSM6DS3_ACC_GYRO_W_HP_SLOPE_XL :: "'e sensor_io \<Rightarrow> u8 \<Rightarrow> 'e \<Rightarrow> status_t \<times> 'e" where
  "LSM6DS3_ACC_GYRO_W_HP_SLOPE_XL io = write_field io LSM6DS3_ACC_GYRO_CTRL8_XL LSM6DS3_ACC_GYRO_HP_SLOPE_XL_MASK"

definition LSM6DS3_ACC_GYRO_R_HP_SLOPE_XL :: "'e sensor_io \<Rightarrow> 'e \<Rightarrow> status_t \<times> u8 \<times> 'e" where
  "LSM6DS3_ACC_GYRO_R_HP_SLOPE_XL io = read_field io LSM6DS3_ACC_GYRO_CTRL8_XL LSM6DS3_ACC_GYRO_HP_SLOPE_XL_MASK"

definition LSM6DS3_ACC_GYRO_W_XEN_XL :: "'e sensor_io \<Rightarrow> u8 \<Rightarrow> 'e \<Rightarrow> status_t \<times> 'e" where
  "LSM6DS3_ACC_GYRO_W_XEN_XL io = write_field io LSM6DS3_ACC_GYRO_CTRL9_XL LSM6DS3_ACC_GYRO_XEN_XL_MASK"

definition LSM6DS3_ACC_GYRO_R_XEN_XL :: "'e sensor_io \<Rightarrow> 'e \<Rightarrow> status_t \<times> u8 \<times> 'e" where
  "LSM6DS3_ACC_GYRO_R_XEN_XL io = read_field io LSM6DS3_ACC_GYRO_CTRL9_XL LSM6DS3_ACC_GYRO_XEN_XL_MASK"

definition LSM6DS3_ACC_GYRO_W_YEN_XL :: "'e sensor_io \<Rightarrow> u8 \<Rightarrow> 'e \<Rightarrow> status_t \<times> 'e" where
  "LSM6DS3_ACC_GYRO_W_YEN_XL io = write_field io LSM6DS3_ACC_GYRO_CTRL9_XL LSM6DS3_ACC_GYRO_YEN_XL_MASK"

definition LSM6DS3_ACC_GYRO_R_YEN_XL :: "'e sensor_io \<Rightarrow> 'e \<Rightarrow> status_t \<times> u8 \<times> 'e" where
  "LSM6DS3_ACC_GYRO_R_YEN_XL io = read_field io LSM6DS3_ACC_GYRO_CTRL9_XL LSM6DS3_ACC_GYRO_YEN_XL_MASK"

definition LSM6DS3_ACC_GYRO_W_ZEN_XL :: "'e sensor_io \<Rightarrow> u8 \<Rightarrow> 'e \<Rightarrow> status_t \<times> 'e" where
  "LSM6DS3_ACC_GYRO_W_ZEN_XL io = write_field io LSM6DS3_ACC_GYRO_CTRL9_XL LSM6DS3_ACC_GYRO_ZEN_XL_MASK"

definition LSM6DS3_ACC_GYRO_R_ZEN_XL :: "'e sensor_io \<Rightarrow> 'e \<Rightarrow> status_t \<times> u8 \<times> 'e" where
  "LSM6DS3_ACC_GYRO_R_ZEN_XL io = read_field io LSM6DS3_ACC_GYRO_CTRL9_XL LSM6DS3_ACC_GYRO_ZEN_XL_MASK"

definition LSM6DS3_ACC_GYRO_W_SOFT :: "'e sensor_io \<Rightarrow> u8 \<Rightarrow> 'e \<Rightarrow> status_t \<times> 'e" where
  "LSM6DS3_ACC_GYRO_W_SOFT io = write_field io LSM6DS3_ACC_GYRO_CTRL9_XL LSM6DS3_ACC_GYRO_SOFT_MASK"

definition LSM6DS3_ACC_GYRO_R_SOFT :: "'e sensor_io \<Rightarrow> 'e \<Rightarrow> status_t \<times> u8 \<times> 'e" where
  "LSM6DS3_ACC_GYRO_R_SOFT io = read_field io LSM6DS3_ACC_GYRO_CTRL9_XL LSM6DS3_ACC_GYRO_SOFT_MASK"

definition LSM6DS3_ACC_GYRO_W_SignifcantMotion :: "'e sensor_io \<Rightarrow> u8 \<Rightarrow> 'e \<Rightarrow> status_t \<times> 'e" where
  "LSM6DS3_ACC_GYRO_W_SignifcantMotion io = write_field io LSM6DS3_ACC_GYRO_CTRL10_C LSM6DS3_ACC_GYRO_SIGN_MOTION_EN_MASK"

definition LSM6DS3_ACC_GYRO_R_SignifcantMotion :: "'e sensor_io \<Rightarrow> 'e \<Rightarrow> status_t \<times> u8 \<times> 'e" where
  "LSM6DS3_ACC_GYRO_R_SignifcantMotion io = read_field io LSM6DS3_ACC_GYRO_CTRL10_C LSM6DS3_ACC_GYRO_SIGN_MOTION_EN_MASK"

definition LSM6DS3_ACC_GYRO_W_PedoStepReset :: "'e sensor_io \<Rightarrow> u8 \<Rightarrow> 'e \<Rightarrow> status_t \<times> 'e" where
  "LSM6DS3_ACC_GYRO_W_PedoStepReset io = write_field io LSM6DS3_ACC_GYRO_CTRL10_C LSM6DS3_ACC_GYRO_PEDO_RST_STEP_MASK"

definition LSM6DS3_ACC_GYRO_R_PedoStepReset :: "'e sensor_io \<Rightarrow> 'e \<Rightarrow> status_t \<times> u8 \<times> 'e" where
  "LSM6DS3_ACC_GYRO_R_PedoStepReset io = read_field io LSM6DS3_ACC_GYRO_CTRL10_C LSM6DS3_ACC_GYRO_PEDO_RST_STEP_MASK"

definition LSM6DS3_ACC_GYRO_W_XEN_G :: "'e sensor_io \<Rightarrow> u8 \<Rightarrow> 'e \<Rightarrow> status_t \<times> 'e" where
  "LSM6DS3_ACC_GYRO_W_XEN_G io = write_field io LSM6DS3_ACC_GYRO_CTRL10_C LSM6DS3_ACC_GYRO_XEN_G_MASK"

definition LSM6DS3_ACC_GYRO_R_XEN_G :: "'e sensor_io \<Rightarrow> 'e \<Rightarrow> status_t \<times> u8 \<times> 'e" where
  "LSM6DS3_ACC_GYRO_R_XEN_G io = read_field io LSM6DS3_ACC_GYRO_CTRL10_C LSM6DS3_ACC_GYRO_XEN_G_MASK"

definition LSM6DS3_ACC_GYRO_W_YEN_G :: "'e sensor_io \<Rightarrow> u8 \<Rightarrow> 'e \<Rightarrow> status_t \<times> 'e" where
  "LSM6DS3_ACC_GYRO_W_YEN_G io = write_field io LSM6DS3_ACC_GYRO_CTRL10_C LSM6DS3_ACC_GYRO_YEN_G_MASK"

definition LSM6DS3_ACC_GYRO_R_YEN_G :: "'e sensor_io \<Rightarrow> 'e \<Rightarrow> status_t \<times> u8 \<times> 'e" where
  "LSM6DS3_ACC_GYRO_R_YEN_G io = read_field io LSM6DS3_ACC_GYRO_CTRL10_C LSM6DS3_ACC_GYRO_YEN_G_MASK"

definition LSM6DS3_ACC_GYRO_W_ZEN_G :: "'e sensor_io \<Rightarrow> u8 \<Rightarrow> 'e \<Rightarrow> status_t \<times> 'e" where
  "LSM6DS3_ACC_GYRO_W_ZEN_G io = write_field io LSM6DS3_ACC_GYRO_CTRL10_C LSM6DS3_ACC_GYRO_ZEN_G_MASK"

definition LSM6DS3_ACC_GYRO_R_ZEN_G :: "'e sensor_io \<Rightarrow> 'e \<Rightarrow> status_t \<times> u8 \<times> 'e" where
  "LSM6DS3_ACC_GYRO_R_ZEN_G io = read_field io LSM6DS3_ACC_GYRO_CTRL10_C LSM6DS3_ACC_GYRO_ZEN_G_MASK"

definition LSM6DS3_ACC_GYRO_W_FUNC_EN :: "'e sensor_io \<Rightarrow> u8 \<Rightarrow> 'e \<Rightarrow> status_t \<times> 'e" where
  "LSM6DS3_ACC_GYRO_W_FUNC_EN io = write_field io LSM6DS3_ACC_GYRO_CTRL10_C LSM6DS3_ACC_GYRO_FUNC_EN_MASK"

definition LSM6DS3_ACC_GYRO_R_FUNC_EN :: "'e sensor_io \<Rightarrow> 'e \<Rightarrow> status_t \<times> u8 \<times> 'e" where
  "LSM6DS3_ACC_GYRO_R_FUNC_EN io = read_field io LSM6DS3_ACC_GYRO_CTRL10_C LSM6DS3_ACC_GYRO_FUNC_EN_MASK"

definition LSM6DS3_ACC_GYRO_W_I2C_MASTER_Enable :: "'e sensor_io \<Rightarrow> u8 \<Rightarrow> 'e \<Rightarrow> status_t \<times> 'e" where
  "LSM6DS3_ACC_GYRO_W_I2C_MASTER_Enable io = write_field io LSM6DS3_ACC_GYRO_MASTER_CONFIG LSM6DS3_ACC_GYRO_MASTER_ON_MASK"

definition LSM6DS3_ACC_GYRO_R_I2C_MASTER_Enable :: "'e sensor_io \<Rightarrow> 'e \<Rightarrow> status_t \<times> u8 \<times> 'e" where
  "LSM6DS3_ACC_GYRO_R_I2C_MASTER_Enable io = read_field io LSM6DS3_ACC_GYRO_MASTER_CONFIG LSM6DS3_ACC_GYRO_MASTER_ON_MASK"

definition LSM6DS3_ACC_GYRO_W_IronCorrection_EN :: "'e sensor_io \<Rightarrow> u8 \<Rightarrow> 'e \<Rightarrow> status_t \<times> 'e" where
  "LSM6DS3_ACC_GYRO_W_IronCorrection_EN io = write_field io LSM6DS3_ACC_GYRO_MASTER_CONFIG LSM6DS3_ACC_GYRO_IRON_EN_MASK"

definition LSM6DS3_ACC_GYRO_R_IronCorrection_EN :: "'e sensor_io \<Rightarrow> 'e \<Rightarrow> status_t \<times> u8 \<times> 'e" where
  "LSM6DS3_ACC_GYRO_R_IronCorrection_EN io = read_field io LSM6DS3_ACC_GYRO_MASTER_CONFIG LSM6DS3_ACC_GYRO_IRON_EN_MASK"

definition LSM6DS3_ACC_GYRO_W_PASS_THRU_MODE :: "'e sensor_io \<Rightarrow> u8 \<Rightarrow> 'e \<Rightarrow> status_t \<times> 'e" where
  "LSM6DS3_ACC_GYRO_W_PASS_THRU_MODE io = write_field io LSM6DS3_ACC_GYRO_MASTER_CONFIG LSM6DS3_ACC_GYRO_PASS_THRU_MODE_MASK"

definition LSM6DS3_ACC_GYRO_R_PASS_THRU_MODE :: "'e sensor_io \<Rightarrow> 'e \<Rightarrow> status_t \<times> u8 \<times> 'e" where
  "LSM6DS3_ACC_GYRO_R_PASS_THRU_MODE io = read_field io LSM6DS3_ACC_GYRO_MASTER_CONFIG LSM6DS3_ACC_GYRO_PASS_THRU_MODE_MASK"

definition LSM6DS3_ACC_GYRO_W_PULL_UP_EN :: "'e sensor_io \<Rightarrow> u8 \<Rightarrow> 'e \<Rightarrow> status_t \<times> 'e" where
  "LSM6DS3_ACC_GYRO_W_PULL_UP_EN io = write_field io LSM6DS3_ACC_GYRO_MASTER_CONFIG LSM6DS3_ACC_GYRO_PULL_UP_EN_MASK"

definition LSM6DS3_ACC_GYRO_R_PULL_UP_EN :: "'e sensor_io \<Rightarrow> 'e \<Rightarrow> status_t \<times> u8 \<times> 'e" where
  "LSM6DS3_ACC_GYRO_R_PULL_UP_EN io = read_field io LSM6DS3_ACC_GYRO_MASTER_CONFIG LSM6DS3_ACC_GYRO_PULL_UP_EN_MASK"

definition LSM6DS3_ACC_GYRO_W_SensorHUB_Trigger_Sel :: "'e sensor_io \<Rightarrow> u8 \<Rightarrow> 'e \<Rightarrow> status_t \<times> 'e" where
  "LSM6DS3_ACC_GYRO_W_SensorHUB_Trigger_Sel io = write_field io LSM6DS3_ACC_GYRO_MASTER_CONFIG LSM6DS3_ACC_GYRO_START_CONFIG_MASK"

definition LSM6DS3_ACC_GYRO_R_SensorHUB_Trigger_Sel :: "'e sensor_io \<Rightarrow> 'e \<Rightarrow> status_t \<times> u8 \<times> 'e" where
  "LSM6DS3_ACC_GYRO_R_SensorHUB_Trigger_Sel io = read_field io LSM6DS3_ACC_GYRO_MASTER_CONFIG LSM6DS3_ACC_GYRO_START_CONFIG_MASK"

definition LSM6DS3_ACC_GYRO_W_DATA_VAL_SEL_FIFO :: "'e sensor_io \<Rightarrow> u8 \<Rightarrow> 'e \<Rightarrow> status_t \<times> 'e" where
  "LSM6DS3_ACC_GYRO_W_DATA_VAL_SEL_FIFO io = write_field io LSM6DS3_ACC_GYRO_MASTER_CONFIG LSM6DS3_ACC_GYRO_DATA_VAL_SEL_FIFO_MASK"

definition LSM6DS3_ACC_GYRO_R_DATA_VAL_SEL_FIFO :: "'e sensor_io \<Rightarrow> 'e \<Rightarrow> status_t \<times> u8 \<times> 'e" where
  "LSM6DS3_ACC_GYRO_R_DATA_VAL_SEL_FIFO io = read_field io LSM6DS3_ACC_GYRO_MASTER_CONFIG LSM6DS3_ACC_GYRO_DATA_VAL_SEL_FIFO_MASK"

definition LSM6DS3_ACC_GYRO_W_DRDY_ON_INT1 :: "'e sensor_io \<Rightarrow> u8 \<Rightarrow> 'e \<Rightarrow> status_t \<times> 'e" where
  "LSM6DS3_ACC_GYRO_W_DRDY_ON_INT1 io = write_field io LSM6DS3_ACC_GYRO_MASTER_CONFIG LSM6DS3_ACC_GYRO_DRDY_ON_INT1_MASK"

definition LSM6DS3_ACC_GYRO_R_DRDY_ON_INT1 :: "'e sensor_io \<Rightarrow> 'e \<Rightarrow> status_t \<times> u8 \<times> 'e" where
  "LSM6DS3_ACC_GYRO_R_DRDY_ON_INT1 io = read_field io LSM6DS3_ACC_GYRO_MASTER_CONFIG LSM6DS3_ACC_GYRO_DRDY_ON_INT1_MASK"

definition LSM6DS3_ACC_GYRO_R_Z_WU :: "'e sensor_io \<Rightarrow> 'e \<Rightarrow> status_t \<times> u8 \<times> 'e" where
  "LSM6DS3_ACC_GYRO_R_Z_WU io = read_field io LSM6DS3_ACC_GYRO_WAKE_UP_SRC LSM6DS3_ACC_GYRO_Z_WU_MASK"

definition LSM6DS3_ACC_GYRO_R_Y_WU :: "'e sensor_io \<Rightarrow> 'e \<Rightarrow> status_t \<times> u8 \<times> 'e" where
  "LSM6DS3_ACC_GYRO_R_Y_WU io = read_field io LSM6DS3_ACC_GYRO_WAKE_UP_SRC LSM6DS3_ACC_GYRO_Y_WU_MASK"

definition LSM6DS3_ACC_GYRO_R_X_WU :: "'e sensor_io \<Rightarrow> 'e \<Rightarrow> status_t \<times> u8 \<times> 'e" where
  "LSM6DS3_ACC_GYRO_R_X_WU io = read_field io LSM6DS3_ACC_GYRO_WAKE_UP_SRC LSM6DS3_ACC_GYRO_X_WU_MASK"

definition LSM6DS3_ACC_GYRO_R_WU_EV_STATUS :: "'e sensor_io \<Rightarrow> 'e \<Rightarrow> status_t \<times> u8 \<times> 'e" where
  "LSM6DS3_ACC_GYRO_R_WU_EV_STATUS io = read_field io LSM6DS3_ACC_GYRO_WAKE_UP_SRC LSM6DS3_ACC_GYRO_WU_EV_STATUS_MASK"

definition LSM6DS3_ACC_GYRO_R_SLEEP_EV_STATUS :: "'e sensor_io \<Rightarrow> 'e \<Rightarrow> status_t \<times> u8 \<times> 'e" where
  "LSM6DS3_ACC_GYRO_R_SLEEP_EV_STATUS io = read_field io LSM6DS3_ACC_GYRO_WAKE_UP_SRC LSM6DS3_ACC_GYRO_SLEEP_EV_STATUS_MASK"

definition LSM6DS3_ACC_GYRO_R_FF_EV_STATUS :: "'e sensor_io \<Rightarrow> 'e \<Rightarrow> status_t \<times> u8 \<times> 'e" where
  "LSM6DS3_ACC_GYRO_R_FF_EV_STATUS io = read_field io LSM6DS3_ACC_GYRO_WAKE_UP_SRC LSM6DS3_ACC_GYRO_FF_EV_STATUS_MASK"

definition LSM6DS3_ACC_GYRO_R_Z_TAP :: "'e sensor_io \<Rightarrow> 'e \<Rightarrow> status_t \<times> u8 \<times> 'e" where
  "LSM6DS3_ACC_GYRO_R_Z_TAP io = read_field io LSM6DS3_ACC_GYRO_TAP_SRC LSM6DS3_ACC_GYRO_Z_TAP_MASK"

definition LSM6DS3_ACC_GYRO_R_Y_TAP :: "'e sensor_io \<Rightarrow> 'e \<Rightarrow> status_t \<times> u8 \<times> 'e" where
  "LSM6DS3_ACC_GYRO_R_Y_TAP io = read_field io LSM6DS3_ACC_GYRO_TAP_SRC LSM6DS3_ACC_GYRO_Y_TAP_MASK"

definition LSM6DS3_ACC_GYRO_R_X_TAP :: "'e sensor_io \<Rightarrow> 'e \<Rightarrow> status_t \<times> u8 \<times> 'e" where
  "LSM6DS3_ACC_GYRO_R_X_TAP io = read_field io LSM6DS3_ACC_GYRO_TAP_SRC LSM6DS3_ACC_GYRO_X_TAP_MASK"

definition LSM6DS3_ACC_GYRO_R_TAP_SIGN :: "'e sensor_io \<Rightarrow> 'e \<Rightarrow> status_t \<times> u8 \<times> 'e" where
  "LSM6DS3_ACC_GYRO_R_TAP_SIGN io = read_field io LSM6DS3_ACC_GYRO_TAP_SRC LSM6DS3_ACC_GYRO_TAP_SIGN_MASK"

definition LSM6DS3_ACC_GYRO_R_DOUBLE_TAP_EV_STATUS :: "'e sensor_io \<Rightarrow> 'e \<Rightarrow> status_t \<times> u8 \<times> 'e" where
  "LSM6DS3_ACC_GYRO_R_DOUBLE_TAP_EV_STATUS io = read_field io LSM6DS3_ACC_GYRO_TAP_SRC LSM6DS3_ACC_GYRO_DOUBLE_TAP_EV_STATUS_MASK"

definition LSM6DS3_ACC_GYRO_R_SINGLE_TAP_EV_STATUS :: "'e sensor_io \<Rightarrow> 'e \<Rightarrow> status_t \<times> u8 \<times> 'e" where
  "LSM6DS3_ACC_GYRO_R_SINGLE_TAP_EV_STATUS io = read_field io LSM6DS3_ACC_GYRO_TAP_SRC LSM6DS3_ACC_GYRO_SINGLE_TAP_EV_STATUS_MASK"

definition LSM6DS3_ACC_GYRO_R_TAP_EV_STATUS :: "'e sensor_io \<Rightarrow> 'e \<Rightarrow> status_t \<times> u8 \<times> 'e" where
  "LSM6DS3_ACC_GYRO_R_TAP_EV_STATUS io = read_field io LSM6DS3_ACC_GYRO_TAP_SRC LSM6DS3_ACC_GYRO_TAP_EV_STATUS_MASK"

definition LSM6DS3_ACC_GYRO_R_DSD_XL :: "'e sensor_io \<Rightarrow> 'e \<Rightarrow> status_t \<times> u8 \<times> 'e" where
  "LSM6DS3_ACC_GYRO_R_DSD_XL io = read_field io LSM6DS3_ACC_GYRO_D6D_SRC LSM6DS3_ACC_GYRO_DSD_XL_MASK"

definition LSM6DS3_ACC_GYRO_R_DSD_XH :: "'e sensor_io \<Rightarrow> 'e \<Rightarrow> status_t \<times> u8 \<times> 'e" where
  "LSM6DS3_ACC_GYRO_R_DSD_XH io = read_field io LSM6DS3_ACC_GYRO_D6D_SRC LSM6DS3_ACC_GYRO_DSD_XH_MASK"

definition LSM6DS3_ACC_GYRO_R_DSD_YL :: "'e sensor_io \<Rightarrow> 'e \<Rightarrow> status_t \<times> u8 \<times> 'e" where
  "LSM6DS3_ACC_GYRO_R_DSD_YL io = read_field io LSM6DS3_ACC_GYRO_D6D_SRC LSM6DS3_ACC_GYRO_DSD_YL_MASK"

definition LSM6DS3_ACC_GYRO_R_DSD_YH :: "'e sensor_io \<Rightarrow> 'e \<Rightarrow> status_t \<times> u8 \<times> 'e" where
  "LSM6DS3_ACC_GYRO_R_DSD_YH io = read_field io LSM6DS3_ACC_GYRO_D6D_SRC LSM6DS3_ACC_GYRO_DSD_YH_MASK"

definition LSM6DS3_ACC_GYRO_R_DSD_ZL :: "'e sensor_io \<Rightarrow> 'e \<Rightarrow> status_t \<times> u8 \<times> 'e" where
  "LSM6DS3_ACC_GYRO_R_DSD_ZL io = read_field io LSM6DS3_ACC_GYRO_D6D_SRC LSM6DS3_ACC_GYRO_DSD_ZL_MASK"

definition LSM6DS3_ACC_GYRO_R_DSD_ZH :: "'e sensor_io \<Rightarrow> 'e \<Rightarrow> status_t \<times> u8 \<times> 'e" where
  "LSM6DS3_ACC_GYRO_R_DSD_ZH io = read_field io LSM6DS3_ACC_GYRO_D6D_SRC LSM6DS3_ACC_GYRO_DSD_ZH_MASK"

definition LSM6DS3_ACC_GYRO_R_D6D_EV_STATUS :: "'e sensor_io \<Rightarrow> 'e \<Rightarrow> status_t \<times> u8 \<times> 'e" where
  "LSM6DS3_ACC_GYRO_R_D6D_EV_STATUS io = read_field io LSM6DS3_ACC_GYRO_D6D_SRC LSM6DS3_ACC_GYRO_D6D_EV_STATUS_MASK"

definition LSM6DS3_ACC_GYRO_R_XLDA :: "'e sensor_io \<Rightarrow> 'e \<Rightarrow> status_t \<times> u8 \<times> 'e" where
  "LSM6DS3_ACC_GYRO_R_XLDA io = read_field io LSM6DS3_ACC_GYRO_STATUS_REG LSM6DS3_ACC_GYRO_XLDA_MASK"

definition LSM6DS3_ACC_GYRO_R_GDA :: "'e sensor_io \<Rightarrow> 'e \<Rightarrow> status_t \<times> u8 \<times> 'e" where
  "LSM6DS3_ACC_GYRO_R_GDA io = read_field io LSM6DS3_ACC_GYRO_STATUS_REG LSM6DS3_ACC_GYRO_GDA_MASK"

definition LSM6DS3_ACC_GYRO_R_TDA :: "'e sensor_io \<Rightarrow> 'e \<Rightarrow> status_t \<times> u8 \<times> 'e" where
  "LSM6DS3_ACC_GYRO_R_TDA io = read_field io LSM6DS3_ACC_GYRO_STATUS_REG LSM6DS3_ACC_GYRO_TDA_MASK"

definition LSM6DS3_ACC_GYRO_R_EV_BOOT :: "'e sensor_io \<Rightarrow> 'e \<Rightarrow> status_t \<times> u8 \<times> 'e" where
  "LSM6DS3_ACC_GYRO_R_EV_BOOT io = read_field io LSM6DS3_ACC_GYRO_STATUS_REG LSM6DS3_ACC_GYRO_EV_BOOT_MASK"

definition LSM6DS3_ACC_GYRO_R_FIFOEmpty :: "'e sensor_io \<Rightarrow> 'e \<Rightarrow> status_t \<times> u8 \<times> 'e" where
  "LSM6DS3_ACC_GYRO_R_FIFOEmpty io = read_field io LSM6DS3_ACC_GYRO_FIFO_STATUS2 LSM6DS3_ACC_GYRO_FIFO_EMPTY_MASK"

definition LSM6DS3_ACC_GYRO_R_FIFOFull :: "'e sensor_io \<Rightarrow> 'e \<Rightarrow> status_t \<times> u8 \<times> 'e" where
  "LSM6DS3_ACC_GYRO_R_FIFOFull io = read_field io LSM6DS3_ACC_GYRO_FIFO_STATUS2 LSM6DS3_ACC_GYRO_FIFO_FULL_MASK"

definition LSM6DS3_ACC_GYRO_R_OVERRUN :: "'e sensor_io \<Rightarrow> 'e \<Rightarrow> status_t \<times> u8 \<times> 'e" where
  "LSM6DS3_ACC_GYRO_R_OVERRUN io = read_field io LSM6DS3_ACC_GYRO_FIFO_STATUS2 LSM6DS3_ACC_GYRO_OVERRUN_MASK"

definition LSM6DS3_ACC_GYRO_R_WaterMark :: "'e sensor_io \<Rightarrow> 'e \<Rightarrow> status_t \<times> u8 \<times> 'e" where
  "LSM6DS3_ACC_GYRO_R_WaterMark io = read_field io LSM6DS3_ACC_GYRO_FIFO_STATUS2 LSM6DS3_ACC_GYRO_WTM_MASK"

definition LSM6DS3_ACC_GYRO_R_SENS_HUB_END :: "'e sensor_io \<Rightarrow> 'e \<Rightarrow> status_t \<times> u8 \<times> 'e" where
  "LSM6DS3_ACC_GYRO_R_SENS_HUB_END io = read_field io LSM6DS3_ACC_GYRO_FUNC_SRC LSM6DS3_ACC_GYRO_SENS_HUB_END_MASK"

definition LSM6DS3_ACC_GYRO_R_SOFT_IRON_END :: "'e sensor_io \<Rightarrow> 'e \<Rightarrow> status_t \<times> u8 \<times> 'e" where
  "LSM6DS3_ACC_GYRO_R_SOFT_IRON_END io = read_field io LSM6DS3_ACC_GYRO_FUNC_SRC LSM6DS3_ACC_GYRO_SOFT_IRON_END_MASK"

definition LSM6DS3_ACC_GYRO_R_STEP_OVERFLOW :: "'e sensor_io \<Rightarrow> 'e \<Rightarrow> status_t \<times> u8 \<times> 'e" where
  "LSM6DS3_ACC_GYRO_R_STEP_OVERFLOW io = read_field io LSM6DS3_ACC_GYRO_FUNC_SRC LSM6DS3_ACC_GYRO_STEP_OVERFLOW_MASK"

definition LSM6DS3_ACC_GYRO_R_STEP_COUNT_DELTA :: "'e sensor_io \<Rightarrow> 'e \<Rightarrow> status_t \<times> u8 \<times> 'e" where
  "LSM6DS3_ACC_GYRO_R_STEP_COUNT_DELTA io = read_field io LSM6DS3_ACC_GYRO_FUNC_SRC LSM6DS3_ACC_GYRO_STEP_COUNT_DELTA_MASK"

definition LSM6DS3_ACC_GYRO_R_PEDO_EV_STATUS :: "'e sensor_io \<Rightarrow> 'e \<Rightarrow> status_t \<times> u8 \<times> 'e" where
  "LSM6DS3_ACC_GYRO_R_PEDO_EV_STATUS io = read_field io LSM6DS3_ACC_GYRO_FUNC_SRC LSM6DS3_ACC_GYRO_PEDO_EV_STATUS_MASK"

definition LSM6DS3_ACC_GYRO_R_TILT_EV_STATUS :: "'e sensor_io \<Rightarrow> 'e \<Rightarrow> status_t \<times> u8 \<times> 'e" where
  "LSM6DS3_ACC_GYRO_R_TILT_EV_STATUS io = read_field io LSM6DS3_ACC_GYRO_FUNC_SRC LSM6DS3_ACC_GYRO_TILT_EV_STATUS_MASK"

definition LSM6DS3_ACC_GYRO_R_SIGN_MOT_EV_STATUS :: "'e sensor_io \<Rightarrow> 'e \<Rightarrow> status_t \<times> u8 \<times> 'e" where
  "LSM6DS3_ACC_GYRO_R_SIGN_MOT_EV_STATUS io = read_field io LSM6DS3_ACC_GYRO_FUNC_SRC LSM6DS3_ACC_GYRO_SIGN_MOT_EV_STATUS_MASK"

definition LSM6DS3_ACC_GYRO_W_LIR :: "'e sensor_io \<Rightarrow> u8 \<Rightarrow> 'e \<Rightarrow> status_t \<times> 'e" where
  "LSM6DS3_ACC_GYRO_W_LIR io = write_field io LSM6DS3_ACC_GYRO_TAP_CFG1 LSM6DS3_ACC_GYRO_LIR_MASK"

definition LSM6DS3_ACC_GYRO_R_LIR :: "'e sensor_io \<Rightarrow> 'e \<Rightarrow> status_t \<times> u8 \<times> 'e" where
  "LSM6DS3_ACC_GYRO_R_LIR io = read_field io LSM6DS3_ACC_GYRO_TAP_CFG1 LSM6DS3_ACC_GYRO_LIR_MASK"

definition LSM6DS3_ACC_GYRO_W_TAP_Z_EN :: "'e sensor_io \<Rightarrow> u8 \<Rightarrow> 'e \<Rightarrow> status_t \<times> 'e" where
  "LSM6DS3_ACC_GYRO_W_TAP_Z_EN io = write_field io LSM6DS3_ACC_GYRO_TAP_CFG1 LSM6DS3_ACC_GYRO_TAP_Z_EN_MASK"

definition LSM6DS3_ACC_GYRO_R_TAP_Z_EN :: "'e sensor_io \<Rightarrow> 'e \<Rightarrow> status_t \<times> u8 \<times> 'e" where
  "LSM6DS3_ACC_GYRO_R_TAP_Z_EN io = read_field io LSM6DS3_ACC_GYRO_TAP_CFG1 LSM6DS3_ACC_GYRO_TAP_Z_EN_MASK"

definition LSM6DS3_ACC_GYRO_W_TAP_Y_EN :: "'e sensor_io \<Rightarrow> u8 \<Rightarrow> 'e \<Rightarrow> status_t \<times> 'e" where
  "LSM6DS3_ACC_GYRO_W_TAP_Y_EN io = write_field io LSM6DS3_ACC_GYRO_TAP_CFG1 LSM6DS3_ACC_GYRO_TAP_Y_EN_MASK"

definition LSM6DS3_ACC_GYRO_R_TAP_Y_EN :: "'e sensor_io \<Rightarrow> 'e \<Rightarrow> status_t \<times> u8 \<times> 'e" where
  "LSM6DS3_ACC_GYRO_R_TAP_Y_EN io = read_field io LSM6DS3_ACC_GYRO_TAP_CFG1 LSM6DS3_ACC_GYRO_TAP_Y_EN_MASK"

definition LSM6DS3_ACC_GYRO_W_TAP_X_EN :: "'e sensor_io \<Rightarrow> u8 \<Rightarrow> 'e \<Rightarrow> status_t \<times> 'e" where
  "LSM6DS3_ACC_GYRO_W_TAP_X_EN io = write_field io LSM6DS3_ACC_GYRO_TAP_CFG1 LSM6DS3_ACC_GYRO_TAP_X_EN_MASK"

definition LSM6DS3_ACC_GYRO_R_TAP_X_EN :: "'e sensor_io \<Rightarrow> 'e \<Rightarrow> status_t \<times> u8 \<times> 'e" where
  "LSM6DS3_ACC_GYRO_R_TAP_X_EN io = read_field io LSM6DS3_ACC_GYRO_TAP_CFG1 LSM6DS3_ACC_GYRO_TAP_X_EN_MASK"

definition LSM6DS3_ACC_GYRO_W_TILT_EN :: "'e sensor_io \<Rightarrow> u8 \<Rightarrow> 'e \<Rightarrow> status_t \<times> 'e" where
  "LSM6DS3_ACC_GYRO_W_TILT_EN io = write_field io LSM6DS3_ACC_GYRO_TAP_CFG1 LSM6DS3_ACC_GYRO_TILT_EN_MASK"

definition LSM6DS3_ACC_GYRO_R_TILT_EN :: "'e sensor_io \<Rightarrow> 'e \<Rightarrow> status_t \<times> u8 \<times> 'e" where
  "LSM6DS3_ACC_GYRO_R_TILT_EN io = read_field io LSM6DS3_ACC_GYRO_TAP_CFG1 LSM6DS3_ACC_GYRO_TILT_EN_MASK"

definition LSM6DS3_ACC_GYRO_W_SLOPE_FDS :: "'e sensor_io \<Rightarrow> u8 \<Rightarrow> 'e \<Rightarrow> status_t \<times> 'e" where
  "LSM6DS3_ACC_GYRO_W_SLOPE_FDS io = write_field io LSM6DS3_ACC_GYRO_TAP_CFG1 LSM6DS3_ACC_GYRO_SLOPE_FDS_MASK"

definition LSM6DS3_ACC_GYRO_R_SLOPE_FDS :: "'e sensor_io \<Rightarrow> 'e \<Rightarrow> status_t \<times> u8 \<times> 'e" where
  "LSM6DS3_ACC_GYRO_R_SLOPE_FDS io = read_field io LSM6DS3_ACC_GYRO_TAP_CFG1 LSM6DS3_ACC_GYRO_SLOPE_FDS_MASK"

definition LSM6DS3_ACC_GYRO_W_PEDO_EN :: "'e sensor_io \<Rightarrow> u8 \<Rightarrow> 'e \<Rightarrow> status_t \<times> 'e" where
  "LSM6DS3_ACC_GYRO_W_PEDO_EN io = write_field io LSM6DS3_ACC_GYRO_TAP_CFG1 LSM6DS3_ACC_GYRO_PEDO_EN_MASK"

definition LSM6DS3_ACC_GYRO_R_PEDO_EN :: "'e sensor_io \<Rightarrow> 'e \<Rightarrow> status_t \<times> u8 \<times> 'e" where
  "LSM6DS3_ACC_GYRO_R_PEDO_EN io = read_field io LSM6DS3_ACC_GYRO_TAP_CFG1 LSM6DS3_ACC_GYRO_PEDO_EN_MASK"

definition LSM6DS3_ACC_GYRO_W_TIMER_EN :: "'e sensor_io \<Rightarrow> u8 \<Rightarrow> 'e \<Rightarrow> status_t \<times> 'e" where
  "LSM6DS3_ACC_GYRO_W_TIMER_EN io = write_field io LSM6DS3_ACC_GYRO_TAP_CFG1 LSM6DS3_ACC_GYRO_TIMER_EN_MASK"

definition LSM6DS3_ACC_GYRO_R_TIMER_EN :: "'e sensor_io \<Rightarrow> 'e \<Rightarrow> status_t \<times> u8 \<times> 'e" where
  "LSM6DS3_ACC_GYRO_R_TIMER_EN io = read_field io LSM6DS3_ACC_GYRO_TAP_CFG1 LSM6DS3_ACC_GYRO_TIMER_EN_MASK"

definition LSM6DS3_ACC_GYRO_W_TAP_THS :: "'e sensor_io \<Rightarrow> u8 \<Rightarrow> 'e \<Rightarrow> status_t \<times> 'e" where
  "LSM6DS3_ACC_GYRO_W_TAP_THS io = write_pos_field io LSM6DS3_ACC_GYRO_TAP_THS_6D LSM6DS3_ACC_GYRO_TAP_THS_MASK LSM6DS3_ACC_GYRO_TAP_THS_POSITION"

definition LSM6DS3_ACC_GYRO_R_TAP_THS :: "'e sensor_io \<Rightarrow> 'e \<Rightarrow> status_t \<times> u8 \<times> 'e" where
  "LSM6DS3_ACC_GYRO_R_TAP_THS io = read_pos_field io LSM6DS3_ACC_GYRO_TAP_THS_6D LSM6DS3_ACC_GYRO_TAP_THS_MASK LSM6DS3_ACC_GYRO_TAP_THS_POSITION"

definition LSM6DS3_ACC_GYRO_W_SIXD_THS :: "'e sensor_io \<Rightarrow> u8 \<Rightarrow> 'e \<Rightarrow> status_t \<times> 'e" where
  "LSM6DS3_ACC_GYRO_W_SIXD_THS io = write_field io LSM6DS3_ACC_GYRO_TAP_THS_6D LSM6DS3_ACC_GYRO_SIXD_THS_MASK"

definition LSM6DS3_ACC_GYRO_R_SIXD_THS :: "'e sensor_io \<Rightarrow> 'e \<Rightarrow> status_t \<times> u8 \<times> 'e" where
  "LSM6DS3_ACC_GYRO_R_SIXD_THS io = read_field io LSM6DS3_ACC_GYRO_TAP_THS_6D LSM6DS3_ACC_GYRO_SIXD_THS_MASK"

definition LSM6DS3_ACC_GYRO_W_D4D :: "'e sensor_io \<Rightarrow> u8 \<Rightarrow> 'e \<Rightarrow> status_t \<times> 'e" where
  "LSM6DS3_ACC_GYRO_W_D4D io = write_field io LSM6DS3_ACC_GYRO_TAP_THS_6D LSM6DS3_ACC_GYRO_D4D_MASK"

definition LSM6DS3_ACC_GYRO_R_D4D :: "'e sensor_io \<Rightarrow> 'e \<Rightarrow> status_t \<times> u8 \<times> 'e" where
  "LSM6DS3_ACC_GYRO_R_D4D io = read_field io LSM6DS3_ACC_GYRO_TAP_THS_6D LSM6DS3_ACC_GYRO_D4D_MASK"

definition LSM6DS3_ACC_GYRO_W_SHOCK_Duration :: "'e sensor_io \<Rightarrow> u8 \<Rightarrow> 'e \<Rightarrow> status_t \<times> 'e" where
  "LSM6DS3_ACC_GYRO_W_SHOCK_Duration io = write_pos_field io LSM6DS3_ACC_GYRO_INT_DUR2 LSM6DS3_ACC_GYRO_SHOCK_MASK LSM6DS3_ACC_GYRO_SHOCK_POSITION"

definition LSM6DS3_ACC_GYRO_R_SHOCK_Duration :: "'e sensor_io \<Rightarrow> 'e \<Rightarrow> status_t \<times> u8 \<times> 'e" where
  "LSM6DS3_ACC_GYRO_R_SHOCK_Duration io = read_pos_field io LSM6DS3_ACC_GYRO_INT_DUR2 LSM6DS3_ACC_GYRO_SHOCK_MASK LSM6DS3_ACC_GYRO_SHOCK_POSITION"

definition LSM6DS3_ACC_GYRO_W_QUIET_Duration :: "'e sensor_io \<Rightarrow> u8 \<Rightarrow> 'e \<Rightarrow> status_t \<times> 'e" where
  "LSM6DS3_ACC_GYRO_W_QUIET_Duration io = write_pos_field io LSM6DS3_ACC_GYRO_INT_DUR2 LSM6DS3_ACC_GYRO_QUIET_MASK LSM6DS3_ACC_GYRO_QUIET_POSITION"

definition LSM6DS3_ACC_GYRO_R_QUIET_Duration :: "'e sensor_io \<Rightarrow> 'e \<Rightarrow> status_t \<times> u8 \<times> 'e" where
  "LSM6DS3_ACC_GYRO_R_QUIET_Duration io = read_pos_field io LSM6DS3_ACC_GYRO_INT_DUR2 LSM6DS3_ACC_GYRO_QUIET_MASK LSM6DS3_ACC_GYRO_QUIET_POSITION"

definition LSM6DS3_ACC_GYRO_W_DUR :: "'e sensor_io \<Rightarrow> u8 \<Rightarrow> 'e \<Rightarrow> status_t \<times> 'e" where
  "LSM6DS3_ACC_GYRO_W_DUR io = write_pos_field io LSM6DS3_ACC_GYRO_INT_DUR2 LSM6DS3_ACC_GYRO_DUR_MASK LSM6DS3_ACC_GYRO_DUR_POSITION"

definition LSM6DS3_ACC_GYRO_R_DUR :: "'e sensor_io \<Rightarrow> 'e \<Rightarrow> status_t \<times> u8 \<times> 'e" where
  "LSM6DS3_ACC_GYRO_R_DUR io = read_pos_field io LSM6DS3_ACC_GYRO_INT_DUR2 LSM6DS3_ACC_GYRO_DUR_MASK LSM6DS3_ACC_GYRO_DUR_POSITION"

definition LSM6DS3_ACC_GYRO_W_WK_THS :: "'e sensor_io \<Rightarrow> u8 \<Rightarrow> 'e \<Rightarrow> status_t \<times> 'e" where
  "LSM6DS3_ACC_GYRO_W_WK_THS io = write_pos_field io LSM6DS3_ACC_GYRO_WAKE_UP_THS LSM6DS3_ACC_GYRO_WK_THS_MASK LSM6DS3_ACC_GYRO_WK_THS_POSITION"

definition LSM6DS3_ACC_GYRO_R_WK_THS :: "'e sensor_io \<Rightarrow> 'e \<Rightarrow> status_t \<times> u8 \<times> 'e" where
  "LSM6DS3_ACC_GYRO_R_WK_THS io = read_pos_field io LSM6DS3_ACC_GYRO_WAKE_UP_THS LSM6DS3_ACC_GYRO_WK_THS_MASK LSM6DS3_ACC_GYRO_WK_THS_POSITION"

definition LSM6DS3_ACC_GYRO_W_INACTIVITY_ON :: "'e sensor_io \<Rightarrow> u8 \<Rightarrow> 'e \<Rightarrow> status_t \<times> 'e" where
  "LSM6DS3_ACC_GYRO_W_INACTIVITY_ON io = write_field io LSM6DS3_ACC_GYRO_WAKE_UP_THS LSM6DS3_ACC_GYRO_INACTIVITY_ON_MASK"

definition LSM6DS3_ACC_GYRO_R_INACTIVITY_ON :: "'e sensor_io \<Rightarrow> 'e \<Rightarrow> status_t \<times> u8 \<times> 'e" where
  "LSM6DS3_ACC_GYRO_R_INACTIVITY_ON io = read_field io LSM6DS3_ACC_GYRO_WAKE_UP_THS LSM6DS3_ACC_GYRO_INACTIVITY_ON_MASK"

definition LSM6DS3_ACC_GYRO_W_SINGLE_DOUBLE_TAP_EV :: "'e sensor_io \<Rightarrow> u8 \<Rightarrow> 'e \<Rightarrow> status_t \<times> 'e" where
  "LSM6DS3_ACC_GYRO_W_SINGLE_DOUBLE_TAP_EV io = write_field io LSM6DS3_ACC_GYRO_WAKE_UP_THS LSM6DS3_ACC_GYRO_SINGLE_DOUBLE_TAP_MASK"

definition LSM6DS3_ACC_GYRO_R_SINGLE_DOUBLE_TAP_EV :: "'e sensor_io \<Rightarrow> 'e \<Rightarrow> status_t \<times> u8 \<times> 'e" where
  "LSM6DS3_ACC_GYRO_R_SINGLE_DOUBLE_TAP_EV io = read_field io LSM6DS3_ACC_GYRO_WAKE_UP_THS LSM6DS3_ACC_GYRO_SINGLE_DOUBLE_TAP_MASK"

definition LSM6DS3_ACC_GYRO_W_SLEEP_DUR :: "'e sensor_io \<Rightarrow> u8 \<Rightarrow> 'e \<Rightarrow> status_t \<times> 'e" where
  "LSM6DS3_ACC_GYRO_W_SLEEP_DUR io = write_pos_field io LSM6DS3_ACC_GYRO_WAKE_UP_DUR LSM6DS3_ACC_GYRO_SLEEP_DUR_MASK LSM6DS3_ACC_GYRO_SLEEP_DUR_POSITION"

definition LSM6DS3_ACC_GYRO_R_SLEEP_DUR :: "'e sensor_io \<Rightarrow> 'e \<Rightarrow> status_t \<times> u8 \<times> 'e" where
  "LSM6DS3_ACC_GYRO_R_SLEEP_DUR io = read_pos_field io LSM6DS3_ACC_GYRO_WAKE_UP_DUR LSM6DS3_ACC_GYRO_SLEEP_DUR_MASK LSM6DS3_ACC_GYRO_SLEEP_DUR_POSITION"

definition LSM6DS3_ACC_GYRO_W_TIMER_HR :: "'e sensor_io \<Rightarrow> u8 \<Rightarrow> 'e \<Rightarrow> status_t \<times> 'e" where
  "LSM6DS3_ACC_GYRO_W_TIMER_HR io = write_field io LSM6DS3_ACC_GYRO_WAKE_UP_DUR LSM6DS3_ACC_GYRO_TIMER_HR_MASK"

definition LSM6DS3_ACC_GYRO_R_TIMER_HR :: "'e sensor_io \<Rightarrow> 'e \<Rightarrow> status_t \<times> u8 \<times> 'e" where
  "LSM6DS3_ACC_GYRO_R_TIMER_HR io = read_field io LSM6DS3_ACC_GYRO_WAKE_UP_DUR LSM6DS3_ACC_GYRO_TIMER_HR_MASK"

definition LSM6DS3_ACC_GYRO_W_WAKE_DUR :: "'e sensor_io \<Rightarrow> u8 \<Rightarrow> 'e \<Rightarrow> status_t \<times> 'e" where
  "LSM6DS3_ACC_GYRO_W_WAKE_DUR io = write_pos_field io LSM6DS3_ACC_GYRO_WAKE_UP_DUR LSM6DS3_ACC_GYRO_WAKE_DUR_MASK LSM6DS3_ACC_GYRO_WAKE_DUR_POSITION"

definition LSM6DS3_ACC_GYRO_R_WAKE_DUR :: "'e sensor_io \<Rightarrow> 'e \<Rightarrow> status_t \<times> u8 \<times> 'e" where
  "LSM6DS3_ACC_GYRO_R_WAKE_DUR io = read_pos_field io LSM6DS3_ACC_GYRO_WAKE_UP_DUR LSM6DS3_ACC_GYRO_WAKE_DUR_MASK LSM6DS3_ACC_GYRO_WAKE_DUR_POSITION"

definition LSM6DS3_ACC_GYRO_W_FF_THS :: "'e sensor_io \<Rightarrow> u8 \<Rightarrow> 'e \<Rightarrow> status_t \<times> 'e" where
  "LSM6DS3_ACC_GYRO_W_FF_THS io = write_field io LSM6DS3_ACC_GYRO_FREE_FALL LSM6DS3_ACC_GYRO_FF_THS_MASK"

definition LSM6DS3_ACC_GYRO_R_FF_THS :: "'e sensor_io \<Rightarrow> 'e \<Rightarrow> status_t \<times> u8 \<times> 'e" where
  "LSM6DS3_ACC_GYRO_R_FF_THS io = read_field io LSM6DS3_ACC_GYRO_FREE_FALL LSM6DS3_ACC_GYRO_FF_THS_MASK"

definition LSM6DS3_ACC_GYRO_W_TimerEvRouteInt1 :: "'e sensor_io \<Rightarrow> u8 \<Rightarrow> 'e \<Rightarrow> status_t \<times> 'e" where
  "LSM6DS3_ACC_GYRO_W_TimerEvRouteInt1 io = write_field io LSM6DS3_ACC_GYRO_MD1_CFG LSM6DS3_ACC_GYRO_INT1_TIMER_MASK"

definition LSM6DS3_ACC_GYRO_R_TimerEvRouteInt1 :: "'e sensor_io \<Rightarrow> 'e \<Rightarrow> status_t \<times> u8 \<times> 'e" where
  "LSM6DS3_ACC_GYRO_R_TimerEvRouteInt1 io = read_field io LSM6DS3_ACC_GYRO_MD1_CFG LSM6DS3_ACC_GYRO_INT1_TIMER_MASK"

definition LSM6DS3_ACC_GYRO_W_TiltEvOnInt1 :: "'e sensor_io \<Rightarrow> u8 \<Rightarrow> 'e \<Rightarrow> status_t \<times> 'e" where
  "LSM6DS3_ACC_GYRO_W_TiltEvOnInt1 io = write_field io LSM6DS3_ACC_GYRO_MD1_CFG LSM6DS3_ACC_GYRO_INT1_TILT_MASK"

definition LSM6DS3_ACC_GYRO_R_TiltEvOnInt1 :: "'e sensor_io \<Rightarrow> 'e \<Rightarrow> status_t \<times> u8 \<times> 'e" where
  "LSM6DS3_ACC_GYRO_R_TiltEvOnInt1 io = read_field io LSM6DS3_ACC_GYRO_MD1_CFG LSM6DS3_ACC_GYRO_INT1_TILT_MASK"

definition LSM6DS3_ACC_GYRO_W_6DEvOnInt1 :: "'e sensor_io \<Rightarrow> u8 \<Rightarrow> 'e \<Rightarrow> status_t \<times> 'e" where
  "LSM6DS3_ACC_GYRO_W_6DEvOnInt1 io = write_field io LSM6DS3_ACC_GYRO_MD1_CFG LSM6DS3_ACC_GYRO_INT1_6D_MASK"

definition LSM6DS3_ACC_GYRO_R_6DEvOnInt1 :: "'e sensor_io \<Rightarrow> 'e \<Rightarrow> status_t \<times> u8 \<times> 'e" where
  "LSM6DS3_ACC_GYRO_R_6DEvOnInt1 io = read_field io LSM6DS3_ACC_GYRO_MD1_CFG LSM6DS3_ACC_GYRO_INT1_6D_MASK"

definition LSM6DS3_ACC_GYRO_W_TapEvOnInt1 :: "'e sensor_io \<Rightarrow> u8 \<Rightarrow> 'e \<Rightarrow> status_t \<times> 'e" where
  "LSM6DS3_ACC_GYRO_W_TapEvOnInt1 io = write_field io LSM6DS3_ACC_GYRO_MD1_CFG LSM6DS3_ACC_GYRO_INT1_TAP_MASK"

definition LSM6DS3_ACC_GYRO_R_TapEvOnInt1 :: "'e sensor_io \<Rightarrow> 'e \<Rightarrow> status_t \<times> u8 \<times> 'e" where
  "LSM6DS3_ACC_GYRO_R_TapEvOnInt1 io = read_field io LSM6DS3_ACC_GYRO_MD1_CFG LSM6DS3_ACC_GYRO_INT1_TAP_MASK"

definition LSM6DS3_ACC_GYRO_W_FFEvOnInt1 :: "'e sensor_io \<Rightarrow> u8 \<Rightarrow> 'e \<Rightarrow> status_t \<times> 'e" where
  "LSM6DS3_ACC_GYRO_W_FFEvOnInt1 io = write_field io LSM6DS3_ACC_GYRO_MD1_CFG LSM6DS3_ACC_GYRO_INT1_FF_MASK"

definition LSM6DS3_ACC_GYRO_R_FFEvOnInt1 :: "'e sensor_io \<Rightarrow> 'e \<Rightarrow> status_t \<times> u8 \<times> 'e" where
  "LSM6DS3_ACC_GYRO_R_FFEvOnInt1 io = read_field io LSM6DS3_ACC_GYRO_MD1_CFG LSM6DS3_ACC_GYRO_INT1_FF_MASK"

definition LSM6DS3_ACC_GYRO_W_WUEvOnInt1 :: "'e sensor_io \<Rightarrow> u8 \<Rightarrow> 'e \<Rightarrow> status_t \<times> 'e" where
  "LSM6DS3_ACC_GYRO_W_WUEvOnInt1 io = write_field io LSM6DS3_ACC_GYRO_MD1_CFG LSM6DS3_ACC_GYRO_INT1_WU_MASK"

definition LSM6DS3_ACC_GYRO_R_WUEvOnInt1 :: "'e sensor_io \<Rightarrow> 'e \<Rightarrow> status_t \<times> u8 \<times> 'e" where
  "LSM6DS3_ACC_GYRO_R_WUEvOnInt1 io = read_field io LSM6DS3_ACC_GYRO_MD1_CFG LSM6DS3_ACC_GYRO_INT1_WU_MASK"

definition LSM6DS3_ACC_GYRO_W_SingleTapOnInt1 :: "'e sensor_io \<Rightarrow> u8 \<Rightarrow> 'e \<Rightarrow> status_t \<times> 'e" where
  "LSM6DS3_ACC_GYRO_W_SingleTapOnInt1 io = write_field io LSM6DS3_ACC_GYRO_MD1_CFG LSM6DS3_ACC_GYRO_INT1_SINGLE_TAP_MASK"

definition LSM6DS3_ACC_GYRO_R_SingleTapOnInt1 :: "'e sensor_io \<Rightarrow> 'e \<Rightarrow> status_t \<times> u8 \<times> 'e" where
  "LSM6DS3_ACC_GYRO_R_SingleTapOnInt1 io = read_field io LSM6DS3_ACC_GYRO_MD1_CFG LSM6DS3_ACC_GYRO_INT1_SINGLE_TAP_MASK"

definition LSM6DS3_ACC_GYRO_W_SleepEvOnInt1 :: "'e sensor_io \<Rightarrow> u8 \<Rightarrow> 'e \<Rightarrow> status_t \<times> 'e" where
  "LSM6DS3_ACC_GYRO_W_SleepEvOnInt1 io = write_field io LSM6DS3_ACC_GYRO_MD1_CFG LSM6DS3_ACC_GYRO_INT1_SLEEP_MASK"

definition LSM6DS3_ACC_GYRO_R_SleepEvOnInt1 :: "'e sensor_io \<Rightarrow> 'e \<Rightarrow> status_t \<times> u8 \<times> 'e" where
  "LSM6DS3_ACC_GYRO_R_SleepEvOnInt1 io = read_field io LSM6DS3_ACC_GYRO_MD1_CFG LSM6DS3_ACC_GYRO_INT1_SLEEP_MASK"

definition LSM6DS3_ACC_GYRO_W_TimerEvRouteInt2 :: "'e sensor_io \<Rightarrow> u8 \<Rightarrow> 'e \<Rightarrow> status_t \<times> 'e" where
  "LSM6DS3_ACC_GYRO_W_TimerEvRouteInt2 io = write_field io LSM6DS3_ACC_GYRO_MD2_CFG LSM6DS3_ACC_GYRO_INT2_TIMER_MASK"

definition LSM6DS3_ACC_GYRO_R_TimerEvRouteInt2 :: "'e sensor_io \<Rightarrow> 'e \<Rightarrow> status_t \<times> u8 \<times> 'e" where
  "LSM6DS3_ACC_GYRO_R_TimerEvRouteInt2 io = read_field io LSM6DS3_ACC_GYRO_MD2_CFG LSM6DS3_ACC_GYRO_INT2_TIMER_MASK"

definition LSM6DS3_ACC_GYRO_W_TiltEvOnInt2 :: "'e sensor_io \<Rightarrow> u8 \<Rightarrow> 'e \<Rightarrow> status_t \<times> 'e" where
  "LSM6DS3_ACC_GYRO_W_TiltEvOnInt2 io = write_field io LSM6DS3_ACC_GYRO_MD2_CFG LSM6DS3_ACC_GYRO_INT2_TILT_MASK"

definition LSM6DS3_ACC_GYRO_R_TiltEvOnInt2 :: "'e sensor_io \<Rightarrow> 'e \<Rightarrow> status_t \<times> u8 \<times> 'e" where
  "LSM6DS3_ACC_GYRO_R_TiltEvOnInt2 io = read_field io LSM6DS3_ACC_GYRO_MD2_CFG LSM6DS3_ACC_GYRO_INT2_TILT_MASK"

definition LSM6DS3_ACC_GYRO_W_6DEvOnInt2 :: "'e sensor_io \<Rightarrow> u8 \<Rightarrow> 'e \<Rightarrow> status_t \<times> 'e" where
  "LSM6DS3_ACC_GYRO_W_6DEvOnInt2 io = write_field io LSM6DS3_ACC_GYRO_MD2_CFG LSM6DS3_ACC_GYRO_INT2_6D_MASK"

definition LSM6DS3_ACC_GYRO_R_6DEvOnInt2 :: "'e sensor_io \<Rightarrow> 'e \<Rightarrow> status_t \<times> u8 \<times> 'e" where
  "LSM6DS3_ACC_GYRO_R_6DEvOnInt2 io = read_field io LSM6DS3_ACC_GYRO_MD2_CFG LSM6DS3_ACC_GYRO_INT2_6D_MASK"

definition LSM6DS3_ACC_GYRO_W_TapEvOnInt2 :: "'e sensor_io \<Rightarrow> u8 \<Rightarrow> 'e \<Rightarrow> status_t \<times> 'e" where
  "LSM6DS3_ACC_GYRO_W_TapEvOnInt2 io = write_field io LSM6DS3_ACC_GYRO_MD2_CFG LSM6DS3_ACC_GYRO_INT2_TAP_MASK"

definition LSM6DS3_ACC_GYRO_R_TapEvOnInt2 :: "'e sensor_io \<Rightarrow> 'e \<Rightarrow> status_t \<times> u8 \<times> 'e" where
  "LSM6DS3_ACC_GYRO_R_TapEvOnInt2 io = read_field io LSM6DS3_ACC_GYRO_MD2_CFG LSM6DS3_ACC_GYRO_INT2_TAP_MASK"

definition LSM6DS3_ACC_GYRO_W_FFEvOnInt2 :: "'e sensor_io \<Rightarrow> u8 \<Rightarrow> 'e \<Rightarrow> status_t \<times> 'e" where
  "LSM6DS3_ACC_GYRO_W_FFEvOnInt2 io = write_field io LSM6DS3_ACC_GYRO_MD2_CFG LSM6DS3_ACC_GYRO_INT2_FF_MASK"

definition LSM6DS3_ACC_GYRO_R_FFEvOnInt2 :: "'e sensor_io \<Rightarrow> 'e \<Rightarrow> status_t \<times> u8 \<times> 'e" where
  "LSM6DS3_ACC_GYRO_R_FFEvOnInt2 io = read_field io LSM6DS3_ACC_GYRO_MD2_CFG LSM6DS3_ACC_GYRO_INT2_FF_MASK"

definition LSM6DS3_ACC_GYRO_W_WUEvOnInt2 :: "'e sensor_io \<Rightarrow> u8 \<Rightarrow> 'e \<Rightarrow> status_t \<times> 'e" where
  "LSM6DS3_ACC_GYRO_W_WUEvOnInt2 io = write_field io LSM6DS3_ACC_GYRO_MD2_CFG LSM6DS3_ACC_GYRO_INT2_WU_MASK"

definition LSM6DS3_ACC_GYRO_R_WUEvOnInt2 :: "'e sensor_io \<Rightarrow> 'e \<Rightarrow> status_t \<times> u8 \<times> 'e" where
  "LSM6DS3_ACC_GYRO_R_WUEvOnInt2 io = read_field io LSM6DS3_ACC_GYRO_MD2_CFG LSM6DS3_ACC_GYRO_INT2_WU_MASK"

definition LSM6DS3_ACC_GYRO_W_SingleTapOnInt2 :: "'e sensor_io \<Rightarrow> u8 \<Rightarrow> 'e \<Rightarrow> status_t \<times> 'e" where
  "LSM6DS3_ACC_GYRO_W_SingleTapOnInt2 io = write_field io LSM6DS3_ACC_GYRO_MD2_CFG LSM6DS3_ACC_GYRO_INT2_SINGLE_TAP_MASK"

definition LSM6DS3_ACC_GYRO_R_SingleTapOnInt2 :: "'e sensor_io \<Rightarrow> 'e \<Rightarrow> status_t \<times> u8 \<times> 'e" where
  "LSM6DS3_ACC_GYRO_R_SingleTapOnInt2 io = read_field io LSM6DS3_ACC_GYRO_MD2_CFG LSM6DS3_ACC_GYRO_INT2_SINGLE_TAP_MASK"

definition LSM6DS3_ACC_GYRO_W_SleepEvOnInt2 :: "'e sensor_io \<Rightarrow> u8 \<Rightarrow> 'e \<Rightarrow> status_t \<times> 'e" where
  "LSM6DS3_ACC_GYRO_W_SleepEvOnInt2 io = write_field io LSM6DS3_ACC_GYRO_MD2_CFG LSM6DS3_ACC_GYRO_INT2_SLEEP_MASK"

definition LSM6DS3_ACC_GYRO_R_SleepEvOnInt2 :: "'e sensor_io \<Rightarrow> 'e \<Rightarrow> status_t \<times> u8 \<times> 'e" where
  "LSM6DS3_ACC_GYRO_R_SleepEvOnInt2 io = read_field io LSM6DS3_ACC_GYRO_MD2_CFG LSM6DS3_ACC_GYRO_INT2_SLEEP_MASK"

subsection \<open>Functions over several registers\<close>

definition LSM6DS3_ACC_GYRO_WriteReg :: "'e sensor_io \<Rightarrow> u8 \<Rightarrow> u8 list \<Rightarrow> 'e \<Rightarrow> status_t \<times> 'e" where
  "LSM6DS3_ACC_GYRO_WriteReg io Reg bytes e = mems_WriteReg io Reg bytes e"

definition LSM6DS3_ACC_GYRO_ReadReg :: "'e sensor_io \<Rightarrow> u8 \<Rightarrow> u16 \<Rightarrow> 'e \<Rightarrow> status_t \<times> u8 list \<times> 'e" where
  "LSM6DS3_ACC_GYRO_ReadReg io Reg len e = mems_ReadReg io Reg len e"

text \<open>A value in two registers: the low part first, the high part only if that has succeeded.\<close>

definition write_split ::
  "'e sensor_io \<Rightarrow> u8 \<times> u8 \<times> nat \<Rightarrow> u8 \<times> u8 \<times> nat \<Rightarrow> u8 \<Rightarrow> u8 \<Rightarrow> 'e \<Rightarrow> status_t \<times> 'e" where
  "write_split io low high valueL valueH e =
     (case (low, high) of ((rl, ml, pl), (rh, mh, ph)) \<Rightarrow>
      case write_pos_field io rl ml pl valueL e of (st, e) \<Rightarrow>
        if st = MEMS_ERROR then (MEMS_ERROR, e) else write_pos_field io rh mh ph valueH e)"

definition read_split ::
  "'e sensor_io \<Rightarrow> u8 \<times> u8 \<times> nat \<Rightarrow> u8 \<times> u8 \<times> nat \<Rightarrow> 'e \<Rightarrow> (u8 \<times> u8) option \<times> 'e" where
  "read_split io low high e =
     (case (low, high) of ((rl, ml, pl), (rh, mh, ph)) \<Rightarrow>
      case read_pos_field io rl ml pl e of (st, valueL, e) \<Rightarrow>
        if st = MEMS_ERROR then (None, e)
        else case read_pos_field io rh mh ph e of (st, valueH, e) \<Rightarrow>
          if st = MEMS_ERROR then (None, e) else (Some (valueL, valueH), e))"

definition value16 :: "u8 \<times> u8 \<Rightarrow> u16" where
  "value16 v = (case v of (valueL, valueH) \<Rightarrow> (push_bit 8 (ucast valueH) AND 0xFF00) OR ucast valueL)"

definition read_value16 ::
  "'e sensor_io \<Rightarrow> u8 \<times> u8 \<times> nat \<Rightarrow> u8 \<times> u8 \<times> nat \<Rightarrow> 'e \<Rightarrow> status_t \<times> u16 option \<times> 'e" where
  "read_value16 io low high e =
     (case read_split io low high e of
        (None, e) \<Rightarrow> (MEMS_ERROR, None, e) | (Some v, e) \<Rightarrow> (MEMS_SUCCESS, Some (value16 v), e))"

definition LSM6DS3_ACC_GYRO_W_FIFO_Watermark :: "'e sensor_io \<Rightarrow> u16 \<Rightarrow> 'e \<Rightarrow> status_t \<times> 'e" where
  "LSM6DS3_ACC_GYRO_W_FIFO_Watermark io newValue =
     write_split io
       (LSM6DS3_ACC_GYRO_FIFO_CTRL1, LSM6DS3_ACC_GYRO_WTM_FIFO_CTRL1_MASK, LSM6DS3_ACC_GYRO_WTM_FIFO_CTRL1_POSITION)
       (LSM6DS3_ACC_GYRO_FIFO_CTRL2, LSM6DS3_ACC_GYRO_WTM_FIFO_CTRL2_MASK, LSM6DS3_ACC_GYRO_WTM_FIFO_CTRL2_POSITION)
       (ucast (newValue AND 0xFF)) (ucast (drop_bit 8 newValue AND 0xFF))"

definition LSM6DS3_ACC_GYRO_R_FIFO_Watermark :: "'e sensor_io \<Rightarrow> 'e \<Rightarrow> status_t \<times> u16 option \<times> 'e" where
  "LSM6DS3_ACC_GYRO_R_FIFO_Watermark io =
     read_value16 io
       (LSM6DS3_ACC_GYRO_FIFO_CTRL1, LSM6DS3_ACC_GYRO_WTM_FIFO_CTRL1_MASK, LSM6DS3_ACC_GYRO_WTM_FIFO_CTRL1_POSITION)
       (LSM6DS3_ACC_GYRO_FIFO_CTRL2, LSM6DS3_ACC_GYRO_WTM_FIFO_CTRL2_MASK, LSM6DS3_ACC_GYRO_WTM_FIFO_CTRL2_POSITION)"

definition LSM6DS3_ACC_GYRO_R_FIFONumOfEntries :: "'e sensor_io \<Rightarrow> 'e \<Rightarrow> status_t \<times> u16 option \<times> 'e" where
  "LSM6DS3_ACC_GYRO_R_FIFONumOfEntries io =
     read_value16 io
       (LSM6DS3_ACC_GYRO_FIFO_STATUS1, LSM6DS3_ACC_GYRO_DIFF_FIFO_STATUS1_MASK, LSM6DS3_ACC_GYRO_DIFF_FIFO_STATUS1_POSITION)
       (LSM6DS3_ACC_GYRO_FIFO_STATUS2, LSM6DS3_ACC_GYRO_DIFF_FIFO_STATUS2_MASK, LSM6DS3_ACC_GYRO_DIFF_FIFO_STATUS2_POSITION)"

definition LSM6DS3_ACC_GYRO_R_FIFOPattern :: "'e sensor_io \<Rightarrow> 'e \<Rightarrow> status_t \<times> u16 option \<times> 'e" where
  "LSM6DS3_ACC_GYRO_R_FIFOPattern io =
     read_value16 io
       (LSM6DS3_ACC_GYRO_FIFO_STATUS3, LSM6DS3_ACC_GYRO_FIFO_STATUS3_PATTERN_MASK, LSM6DS3_ACC_GYRO_FIFO_STATUS3_PATTERN_POSITION)
       (LSM6DS3_ACC_GYRO_FIFO_STATUS4, LSM6DS3_ACC_GYRO_FIFO_STATUS4_PATTERN_MASK, LSM6DS3_ACC_GYRO_FIFO_STATUS4_PATTERN_POSITION)"

definition LSM6DS3_ACC_GYRO_W_FF_Duration :: "'e sensor_io \<Rightarrow> u8 \<Rightarrow> 'e \<Rightarrow> status_t \<times> 'e" where
  "LSM6DS3_ACC_GYRO_W_FF_Duration io newValue =
     write_split io
       (LSM6DS3_ACC_GYRO_FREE_FALL, LSM6DS3_ACC_GYRO_FF_FREE_FALL_DUR_MASK, LSM6DS3_ACC_GYRO_FF_FREE_FALL_DUR_POSITION)
       (LSM6DS3_ACC_GYRO_WAKE_UP_DUR, LSM6DS3_ACC_GYRO_FF_WAKE_UP_DUR_MASK, LSM6DS3_ACC_GYRO_FF_WAKE_UP_DUR_POSITION)
       (newValue AND 0x1F) (drop_bit 5 newValue AND 0x1)"

definition LSM6DS3_ACC_GYRO_R_FF_Duration :: "'e sensor_io \<Rightarrow> 'e \<Rightarrow> status_t \<times> u8 option \<times> 'e" where
  "LSM6DS3_ACC_GYRO_R_FF_Duration io e =
     (case read_split io
       (LSM6DS3_ACC_GYRO_FREE_FALL, LSM6DS3_ACC_GYRO_FF_FREE_FALL_DUR_MASK, LSM6DS3_ACC_GYRO_FF_FREE_FALL_DUR_POSITION)
       (LSM6DS3_ACC_GYRO_WAKE_UP_DUR, LSM6DS3_ACC_GYRO_FF_WAKE_UP_DUR_MASK, LSM6DS3_ACC_GYRO_FF_WAKE_UP_DUR_POSITION) e of
        (None, e) \<Rightarrow> (MEMS_ERROR, None, e)
      | (Some (valueL, valueH), e) \<Rightarrow> (MEMS_SUCCESS, Some ((push_bit 5 valueH AND 0x20) OR valueL), e))"

text \<open>The status of the nested write is dropped, as in the code.\<close>

definition LSM6DS3_ACC_GYRO_W_DEC_FIFO_XL_val :: "'e sensor_io \<Rightarrow> u16 \<Rightarrow> 'e \<Rightarrow> status_t \<times> 'e" where
  "LSM6DS3_ACC_GYRO_W_DEC_FIFO_XL_val io newValue e =
     (let w = (\<lambda>v. (MEMS_SUCCESS, snd (LSM6DS3_ACC_GYRO_W_DEC_FIFO_XL io v e)))
      in if newValue = 0 then w LSM6DS3_ACC_GYRO_DEC_FIFO_XL_DATA_NOT_IN_FIFO
         else if newValue = 1 then w LSM6DS3_ACC_GYRO_DEC_FIFO_XL_NO_DECIMATION
         else if newValue = 2 then w LSM6DS3_ACC_GYRO_DEC_FIFO_XL_DECIMATION_BY_2
         else if newValue = 3 then w LSM6DS3_ACC_GYRO_DEC_FIFO_XL_DECIMATION_BY_3
         else if newValue = 4 then w LSM6DS3_ACC_GYRO_DEC_FIFO_XL_DECIMATION_BY_4
         else if newValue = 8 then w LSM6DS3_ACC_GYRO_DEC_FIFO_XL_DECIMATION_BY_8
         else if newValue = 16 then w LSM6DS3_ACC_GYRO_DEC_FIFO_XL_DECIMATION_BY_16
         else if newValue = 32 then w LSM6DS3_ACC_GYRO_DEC_FIFO_XL_DECIMATION_BY_32
         else (MEMS_ERROR, e))"

definition LSM6DS3_ACC_GYRO_W_DEC_FIFO_G_val :: "'e sensor_io \<Rightarrow> u16 \<Rightarrow> 'e \<Rightarrow> status_t \<times> 'e" where
  "LSM6DS3_ACC_GYRO_W_DEC_FIFO_G_val io newValue e =
     (let w = (\<lambda>v. (MEMS_SUCCESS, snd (LSM6DS3_ACC_GYRO_W_DEC_FIFO_G io v e)))
      in if newValue = 0 then w LSM6DS3_ACC_GYRO_DEC_FIFO_G_DATA_NOT_IN_FIFO
         else if newValue = 1 then w LSM6DS3_ACC_GYRO_DEC_FIFO_G_NO_DECIMATION
         else if newValue = 2 then w LSM6DS3_ACC_GYRO_DEC_FIFO_G_DECIMATION_BY_2
         else if newValue = 3 then w LSM6DS3_ACC_GYRO_DEC_FIFO_G_DECIMATION_BY_3
         else if newValue = 4 then w LSM6DS3_ACC_GYRO_DEC_FIFO_G_DECIMATION_BY_4
         else if newValue = 8 then w LSM6DS3_ACC_GYRO_DEC_FIFO_G_DECIMATION_BY_8
         else if newValue = 16 then w LSM6DS3_ACC_GYRO_DEC_FIFO_G_DECIMATION_BY_16
         else if newValue = 32 then w LSM6DS3_ACC_GYRO_DEC_FIFO_G_DECIMATION_BY_32
         else (MEMS_ERROR, e))"

definition LSM6DS3_ACC_GYRO_translate_ODR_XL :: "u8 \<Rightarrow> u16 \<Rightarrow> status_t \<times> u16" where
  "LSM6DS3_ACC_GYRO_translate_ODR_XL v odr_hz_val =
     (if v = LSM6DS3_ACC_GYRO_ODR_XL_POWER_DOWN then (MEMS_SUCCESS, 0)
      else if v = LSM6DS3_ACC_GYRO_ODR_XL_13Hz then (MEMS_SUCCESS, 13)
      else if v = LSM6DS3_ACC_GYRO_ODR_XL_26Hz then (MEMS_SUCCESS, 26)
      else if v = LSM6DS3_ACC_GYRO_ODR_XL_52Hz then (MEMS_SUCCESS, 52)
      else if v = LSM6DS3_ACC_GYRO_ODR_XL_104Hz then (MEMS_SUCCESS, 104)
      else if v = LSM6DS3_ACC_GYRO_ODR_XL_208Hz then (MEMS_SUCCESS, 208)
      else if v = LSM6DS3_ACC_GYRO_ODR_XL_416Hz then (MEMS_SUCCESS, 416)
      else if v = LSM6DS3_ACC_GYRO_ODR_XL_833Hz then (MEMS_SUCCESS, 833)
      else if v = LSM6DS3_ACC_GYRO_ODR_XL_1660Hz then (MEMS_SUCCESS, 1660)
      else (MEMS_ERROR, odr_hz_val))"

definition LSM6DS3_ACC_GYRO_translate_ODR_G :: "u8 \<Rightarrow> u16 \<Rightarrow> status_t \<times> u16" where
  "LSM6DS3_ACC_GYRO_translate_ODR_G v odr_hz_val =
     (if v = LSM6DS3_ACC_GYRO_ODR_G_POWER_DOWN then (MEMS_SUCCESS, 0)
      else if v = LSM6DS3_ACC_GYRO_ODR_G_13Hz then (MEMS_SUCCESS, 13)
      else if v = LSM6DS3_ACC_GYRO_ODR_G_26Hz then (MEMS_SUCCESS, 26)
      else if v = LSM6DS3_ACC_GYRO_ODR_G_52Hz then (MEMS_SUCCESS, 52)
      else if v = LSM6DS3_ACC_GYRO_ODR_G_104Hz then (MEMS_SUCCESS, 104)
      else if v = LSM6DS3_ACC_GYRO_ODR_G_208Hz then (MEMS_SUCCESS, 208)
      else if v = LSM6DS3_ACC_GYRO_ODR_G_416Hz then (MEMS_SUCCESS, 416)
      else if v = LSM6DS3_ACC_GYRO_ODR_G_833Hz then (MEMS_SUCCESS, 833)
      else if v = LSM6DS3_ACC_GYRO_ODR_G_1660Hz then (MEMS_SUCCESS, 1660)
      else (MEMS_ERROR, odr_hz_val))"

subsection \<open>Measurements\<close>

definition LSM6DS3_ACC_GYRO_GetRawAccData :: "'e sensor_io \<Rightarrow> u8 list \<Rightarrow> 'e \<Rightarrow> status_t \<times> u8 list \<times> 'e" where
  "LSM6DS3_ACC_GYRO_GetRawAccData io buff e = read_regs io LSM6DS3_ACC_GYRO_OUTX_L_XL 0 6 buff e"

definition LSM6DS3_ACC_GYRO_GetRawGyroData :: "'e sensor_io \<Rightarrow> u8 list \<Rightarrow> 'e \<Rightarrow> status_t \<times> u8 list \<times> 'e" where
  "LSM6DS3_ACC_GYRO_GetRawGyroData io buff e = read_regs io LSM6DS3_ACC_GYRO_OUTX_L_G 0 6 buff e"

definition LSM6DS3_ACC_GYRO_Get_GetFIFOData :: "'e sensor_io \<Rightarrow> u8 list \<Rightarrow> 'e \<Rightarrow> status_t \<times> u8 list \<times> 'e" where
  "LSM6DS3_ACC_GYRO_Get_GetFIFOData io buff e = read_regs io LSM6DS3_ACC_GYRO_FIFO_DATA_OUT_L 0 2 buff e"

definition LSM6DS3_ACC_GYRO_Get_GetTimestamp :: "'e sensor_io \<Rightarrow> u8 list \<Rightarrow> 'e \<Rightarrow> status_t \<times> u8 list \<times> 'e" where
  "LSM6DS3_ACC_GYRO_Get_GetTimestamp io buff e = read_regs io LSM6DS3_ACC_GYRO_TIMESTAMP0_REG 0 3 buff e"

definition LSM6DS3_ACC_GYRO_Get_GetStepCounter :: "'e sensor_io \<Rightarrow> u8 list \<Rightarrow> 'e \<Rightarrow> status_t \<times> u8 list \<times> 'e" where
  "LSM6DS3_ACC_GYRO_Get_GetStepCounter io buff e = read_regs io LSM6DS3_ACC_GYRO_STEP_COUNTER_L 0 2 buff e"

text \<open>
  \<open>raw\<close> is the uninitialised union on the stack, as bytes; the status of the reads is dropped.
  Integer division truncates towards zero.
\<close>

definition i16bit :: "u8 list \<Rightarrow> nat \<Rightarrow> int" where
  "i16bit raw i = sint (ucast (raw ! (2 * i)) OR push_bit 8 (ucast (raw ! (2 * i + 1))) :: u16)"

definition trunc_div :: "int \<Rightarrow> int \<Rightarrow> int" where
  "trunc_div a b = (if a < 0 then - ((- a) div b) else a div b)"

definition scaled :: "int \<Rightarrow> int \<Rightarrow> int" where
  "scaled raw sensitivity = trunc_div (raw * sensitivity + 500) 1000"

definition raw_axes :: "u8 list \<Rightarrow> int \<Rightarrow> int list" where
  "raw_axes raw sensitivity =
     [scaled (i16bit raw 0) sensitivity, scaled (i16bit raw 1) sensitivity, scaled (i16bit raw 2) sensitivity]"

fun fifo_axes :: "'e sensor_io \<Rightarrow> nat \<Rightarrow> nat \<Rightarrow> u8 list \<Rightarrow> 'e \<Rightarrow> u8 list \<times> 'e" where
  "fifo_axes io i 0 raw e = (raw, e)"
| "fifo_axes io i (Suc n) raw e =
     (case LSM6DS3_ACC_GYRO_Get_GetFIFOData io (drop (2 * i) raw) e of (st, part, e) \<Rightarrow>
        fifo_axes io (Suc i) n (take (2 * i) raw @ part) e)"

definition LSM6DS3_ACC_Sensitivity_List :: "int list" where
  "LSM6DS3_ACC_Sensitivity_List = [61, 122, 244, 488]"

definition LSM6DS3_GYRO_Sensitivity_List :: "int list" where
  "LSM6DS3_GYRO_Sensitivity_List = [4375, 8750, 17500, 35000, 70000]"

definition LSM6DS3_ACC_Get_Acceleration ::
  "'e sensor_io \<Rightarrow> u8 list \<Rightarrow> bool \<Rightarrow> 'e \<Rightarrow> status_t \<times> int list \<times> 'e" where
  "LSM6DS3_ACC_Get_Acceleration io raw from_fifo e =
     (case LSM6DS3_ACC_GYRO_R_FS_XL io e of (st, fs, e) \<Rightarrow>
      let sensitivity =
        (if fs = LSM6DS3_ACC_GYRO_FS_XL_2g then LSM6DS3_ACC_Sensitivity_List ! 0
         else if fs = LSM6DS3_ACC_GYRO_FS_XL_4g then LSM6DS3_ACC_Sensitivity_List ! 1
         else if fs = LSM6DS3_ACC_GYRO_FS_XL_8g then LSM6DS3_ACC_Sensitivity_List ! 2
         else if fs = LSM6DS3_ACC_GYRO_FS_XL_16g then LSM6DS3_ACC_Sensitivity_List ! 3
         else 0);
        (raw, e) = (if from_fifo then fifo_axes io 0 3 raw e else snd (LSM6DS3_ACC_GYRO_GetRawAccData io raw e))
      in (MEMS_SUCCESS, raw_axes raw sensitivity, e))"

definition LSM6DS3_ACC_Get_AngularRate ::
  "'e sensor_io \<Rightarrow> u8 list \<Rightarrow> bool \<Rightarrow> 'e \<Rightarrow> status_t \<times> int list \<times> 'e" where
  "LSM6DS3_ACC_Get_AngularRate io raw from_fifo e =
     (case LSM6DS3_ACC_GYRO_R_FS_125 io e of (st, fs_125, e) \<Rightarrow>
      let (sensitivity, e) =
        (if fs_125 = LSM6DS3_ACC_GYRO_FS_125_ENABLED then (LSM6DS3_GYRO_Sensitivity_List ! 0, e)
         else case LSM6DS3_ACC_GYRO_R_FS_G io e of (st, fs, e) \<Rightarrow>
           (if fs = LSM6DS3_ACC_GYRO_FS_G_245dps then LSM6DS3_GYRO_Sensitivity_List ! 1
            else if fs = LSM6DS3_ACC_GYRO_FS_G_500dps then LSM6DS3_GYRO_Sensitivity_List ! 2
            else if fs = LSM6DS3_ACC_GYRO_FS_G_1000dps then LSM6DS3_GYRO_Sensitivity_List ! 3
            else if fs = LSM6DS3_ACC_GYRO_FS_G_2000dps then LSM6DS3_GYRO_Sensitivity_List ! 4
            else 0, e));
        (raw, e) = (if from_fifo then fifo_axes io 0 3 raw e else snd (LSM6DS3_ACC_GYRO_GetRawGyroData io raw e))
      in (MEMS_SUCCESS, raw_axes raw sensitivity, e))"

subsection \<open>Embedded functions and the sensor hub\<close>

definition LSM6DS3_ACC_GYRO_W_PedoThreshold :: "'e sensor_io \<Rightarrow> u8 \<Rightarrow> 'e \<Rightarrow> status_t \<times> 'e" where
  "LSM6DS3_ACC_GYRO_W_PedoThreshold io newValue e =
     (let e = snd (LSM6DS3_ACC_GYRO_W_EmbeddedAccess io LSM6DS3H_ACC_GYRO_FUNC_CFG_ENABLED e);
          (st, bytes, e) = LSM6DS3_ACC_GYRO_ReadReg io LSM6DS3_ACC_GYRO_CONFIG_PEDO_THS_MIN 1 e;
          value = (bytes ! 0 AND NOT 0x1F) OR (newValue AND 0x1F);
          e = snd (LSM6DS3_ACC_GYRO_WriteReg io LSM6DS3_ACC_GYRO_CONFIG_PEDO_THS_MIN [value] e);
          e = snd (LSM6DS3_ACC_GYRO_W_EmbeddedAccess io LSM6DS3H_ACC_GYRO_FUNC_CFG_DISABLED e)
      in (MEMS_SUCCESS, e))"

definition LSM6DS3_ACC_GYRO_SH_init_SI_Matrix :: "'e sensor_io \<Rightarrow> u8 list \<Rightarrow> 'e \<Rightarrow> status_t \<times> 'e" where
  "LSM6DS3_ACC_GYRO_SH_init_SI_Matrix io SI_matrix e =
     (let e = snd (LSM6DS3_ACC_GYRO_W_EmbeddedAccess io LSM6DS3H_ACC_GYRO_FUNC_CFG_ENABLED e);
          e = snd (LSM6DS3_ACC_GYRO_WriteReg io LSM6DS3_ACC_GYRO_MAG_SI_XX (take 9 SI_matrix) e);
          e = snd (LSM6DS3_ACC_GYRO_W_EmbeddedAccess io LSM6DS3H_ACC_GYRO_FUNC_CFG_DISABLED e)
      in (MEMS_SUCCESS, e))"

definition LSM6DS3_ACC_GYRO_SH0_Program :: "'e sensor_io \<Rightarrow> u8 \<Rightarrow> u8 \<Rightarrow> u8 \<Rightarrow> 'e \<Rightarrow> status_t \<times> 'e" where
  "LSM6DS3_ACC_GYRO_SH0_Program io SlvAddr Reg len e =
     (let e = snd (LSM6DS3_ACC_GYRO_W_EmbeddedAccess io LSM6DS3H_ACC_GYRO_FUNC_CFG_ENABLED e);
          e = snd (LSM6DS3_ACC_GYRO_WriteReg io LSM6DS3_ACC_GYRO_SLV0_ADD [SlvAddr OR 0x1] e);
          e = snd (LSM6DS3_ACC_GYRO_WriteReg io LSM6DS3_ACC_GYRO_SLV0_SUBADD [Reg] e);
          e = snd (LSM6DS3_ACC_GYRO_WriteReg io LSM6DS3_ACC_GYRO_SLAVE0_CONFIG [len] e);
          e = snd (LSM6DS3_ACC_GYRO_W_EmbeddedAccess io LSM6DS3H_ACC_GYRO_FUNC_CFG_DISABLED e);
          e = snd (LSM6DS3_ACC_GYRO_W_FUNC_EN io LSM6DS3_ACC_GYRO_FUNC_EN_ENABLED e);
          e = snd (LSM6DS3_ACC_GYRO_W_PULL_UP_EN io LSM6DS3_ACC_GYRO_PULL_UP_EN_ENABLED e);
          e = snd (LSM6DS3_ACC_GYRO_W_I2C_MASTER_Enable io LSM6DS3_ACC_GYRO_MASTER_ON_ENABLED e)
      in (MEMS_SUCCESS, e))"

partial_function (option) sens_hub_wait :: "'e sensor_io \<Rightarrow> 'e \<Rightarrow> 'e option" where
  "sens_hub_wait io e =
     (case LSM6DS3_ACC_GYRO_R_SENS_HUB_END io e of (st, op_cmpl, e) \<Rightarrow>
        if op_cmpl \<noteq> LSM6DS3_ACC_GYRO_SENS_HUB_END_OP_COMPLETED then sens_hub_wait io e else Some e)"

definition LSM6DS3_ACC_GYRO_SH0_ReadMem ::
  "'e sensor_io \<Rightarrow> u8 \<Rightarrow> u8 \<Rightarrow> u8 \<Rightarrow> bool \<Rightarrow> 'e \<Rightarrow> (status_t \<times> u8 list \<times> 'e) option" where
  "LSM6DS3_ACC_GYRO_SH0_ReadMem io SlvAddr Reg len stop e =
     (case sens_hub_wait io (snd (LSM6DS3_ACC_GYRO_SH0_Program io SlvAddr Reg len e)) of
        None \<Rightarrow> None
      | Some e \<Rightarrow>
          let (st, Bufp, e) = LSM6DS3_ACC_GYRO_ReadReg io LSM6DS3_ACC_GYRO_SENSORHUB1_REG (ucast len) e;
              e = (if stop
                   then snd (LSM6DS3_ACC_GYRO_W_I2C_MASTER_Enable io LSM6DS3_ACC_GYRO_MASTER_ON_DISABLED
                     (snd (LSM6DS3_ACC_GYRO_W_FUNC_EN io LSM6DS3_ACC_GYRO_FUNC_EN_DISABLED e)))
                   else e)
          in Some (MEMS_SUCCESS, Bufp, e))"

definition LSM6DS3_ACC_GYRO_SH0_WriteByte :: "'e sensor_io \<Rightarrow> u8 \<Rightarrow> u8 \<Rightarrow> u8 \<Rightarrow> 'e \<Rightarrow> status_t \<times> 'e" where
  "LSM6DS3_ACC_GYRO_SH0_WriteByte io SlvAddr Reg byte e =
     (let e = snd (LSM6DS3_ACC_GYRO_W_EmbeddedAccess io LSM6DS3H_ACC_GYRO_FUNC_CFG_ENABLED e);
          e = snd (LSM6DS3_ACC_GYRO_WriteReg io LSM6DS3_ACC_GYRO_SLV0_ADD [SlvAddr] e);
          e = snd (LSM6DS3_ACC_GYRO_WriteReg io LSM6DS3_ACC_GYRO_SLV0_SUBADD [Reg] e);
          e = snd (LSM6DS3_ACC_GYRO_WriteReg io LSM6DS3_ACC_GYRO_DATAWRITE_SRC_MODE_SUB_SLV0 [byte] e);
          e = snd (LSM6DS3_ACC_GYRO_W_EmbeddedAccess io LSM6DS3H_ACC_GYRO_FUNC_CFG_DISABLED e);
          e = snd (LSM6DS3_ACC_GYRO_W_FUNC_EN io LSM6DS3_ACC_GYRO_FUNC_EN_ENABLED e);
          e = snd (LSM6DS3_ACC_GYRO_W_PULL_UP_EN io LSM6DS3_ACC_GYRO_PULL_UP_EN_ENABLED e);
          e = snd (LSM6DS3_ACC_GYRO_W_I2C_MASTER_Enable io LSM6DS3_ACC_GYRO_MASTER_ON_ENABLED e);
          e = snd (LSM6DS3_ACC_GYRO_W_FUNC_EN io LSM6DS3_ACC_GYRO_FUNC_EN_DISABLED e);
          e = snd (LSM6DS3_ACC_GYRO_W_I2C_MASTER_Enable io LSM6DS3_ACC_GYRO_MASTER_ON_DISABLED e)
      in (MEMS_SUCCESS, e))"

end
