(* ===== verification/Lsm6ds3Thms.thy ===== *)
theory Lsm6ds3Thms
  imports Lsm6ds3
begin

text \<open>
  Correctness of the LSM6DS3 driver: the table of its fields that can be written, that the accessors
  of each agree on its place, and that no two fields share a bit.
\<close>

unbundle bit_operations_syntax

subsection \<open>The fields\<close>

definition ctrl_fields :: "'e sensor_io \<Rightarrow> 'e sensor_field list" where
  "ctrl_fields io =
     [enum_field (LSM6DS3_ACC_GYRO_W_BDU io) (LSM6DS3_ACC_GYRO_R_BDU io)
        LSM6DS3_ACC_GYRO_CTRL3_C LSM6DS3_ACC_GYRO_BDU_MASK LSM6DS3_ACC_GYRO_BDU_t,
      enum_field (LSM6DS3_ACC_GYRO_W_SW_RESET io) (LSM6DS3_ACC_GYRO_R_SW_RESET io)
        LSM6DS3_ACC_GYRO_CTRL3_C LSM6DS3_ACC_GYRO_SW_RESET_MASK LSM6DS3_ACC_GYRO_SW_RESET_t,
      enum_field (LSM6DS3_ACC_GYRO_W_BLE io) (LSM6DS3_ACC_GYRO_R_BLE io)
        LSM6DS3_ACC_GYRO_CTRL3_C LSM6DS3_ACC_GYRO_BLE_MASK LSM6DS3_ACC_GYRO_BLE_t,
      enum_field (LSM6DS3_ACC_GYRO_W_IF_Addr_Incr io) (LSM6DS3_ACC_GYRO_R_IF_Addr_Incr io)
        LSM6DS3_ACC_GYRO_CTRL3_C LSM6DS3_ACC_GYRO_IF_INC_MASK LSM6DS3_ACC_GYRO_IF_INC_t,
      enum_field (LSM6DS3_ACC_GYRO_W_SPI_Mode io) (LSM6DS3_ACC_GYRO_R_SPI_Mode io)
        LSM6DS3_ACC_GYRO_CTRL3_C LSM6DS3_ACC_GYRO_SIM_MASK LSM6DS3_ACC_GYRO_SIM_t,
      enum_field (LSM6DS3_ACC_GYRO_W_PadSel io) (LSM6DS3_ACC_GYRO_R_PadSel io)
        LSM6DS3_ACC_GYRO_CTRL3_C LSM6DS3_ACC_GYRO_PP_OD_MASK LSM6DS3_ACC_GYRO_PP_OD_t,
      enum_field (LSM6DS3_ACC_GYRO_W_INT_ACT_LEVEL io) (LSM6DS3_ACC_GYRO_R_INT_ACT_LEVEL io)
        LSM6DS3_ACC_GYRO_CTRL3_C LSM6DS3_ACC_GYRO_INT_ACT_LEVEL_MASK LSM6DS3_ACC_GYRO_INT_ACT_LEVEL_t,
      enum_field (LSM6DS3_ACC_GYRO_W_BOOT io) (LSM6DS3_ACC_GYRO_R_BOOT io)
        LSM6DS3_ACC_GYRO_CTRL3_C LSM6DS3_ACC_GYRO_BOOT_MASK LSM6DS3_ACC_GYRO_BOOT_t,
      enum_field (LSM6DS3_ACC_GYRO_W_FS_XL io) (LSM6DS3_ACC_GYRO_R_FS_XL io)
        LSM6DS3_ACC_GYRO_CTRL1_XL LSM6DS3_ACC_GYRO_FS_XL_MASK LSM6DS3_ACC_GYRO_FS_XL_t,
      enum_field (LSM6DS3_ACC_GYRO_W_ODR_XL io) (LSM6DS3_ACC_GYRO_R_ODR_XL io)
        LSM6DS3_ACC_GYRO_CTRL1_XL LSM6DS3_ACC_GYRO_ODR_XL_MASK LSM6DS3_ACC_GYRO_ODR_XL_t,
      enum_field (LSM6DS3_ACC_GYRO_W_BW_XL io) (LSM6DS3_ACC_GYRO_R_BW_XL io)
        LSM6DS3_ACC_GYRO_CTRL1_XL LSM6DS3_ACC_GYRO_BW_XL_MASK LSM6DS3_ACC_GYRO_BW_XL_t,
      enum_field (LSM6DS3_ACC_GYRO_W_FS_G io) (LSM6DS3_ACC_GYRO_R_FS_G io)
        LSM6DS3_ACC_GYRO_CTRL2_G LSM6DS3_ACC_GYRO_FS_G_MASK LSM6DS3_ACC_GYRO_FS_G_t,
      enum_field (LSM6DS3_ACC_GYRO_W_ODR_G io) (LSM6DS3_ACC_GYRO_R_ODR_G io)
        LSM6DS3_ACC_GYRO_CTRL2_G LSM6DS3_ACC_GYRO_ODR_G_MASK LSM6DS3_ACC_GYRO_ODR_G_t,
      enum_field (LSM6DS3_ACC_GYRO_W_FS_125 io) (LSM6DS3_ACC_GYRO_R_FS_125 io)
        LSM6DS3_ACC_GYRO_CTRL2_G LSM6DS3_ACC_GYRO_FS_125_MASK LSM6DS3_ACC_GYRO_FS_125_t,
      enum_field (LSM6DS3_ACC_GYRO_W_EmbeddedAccess io) (LSM6DS3_ACC_GYRO_R_EmbeddedAccess io)
        LSM6DS3_ACC_GYRO_FUNC_CFG_ACCESS LSM6DSM_ACC_GYRO_EMB_ACC_MASK LSM6DS3_ACC_GYRO_EMB_ACC_t,
      pos_field (LSM6DS3_ACC_GYRO_W_Stamping_Time_Frame io) (LSM6DS3_ACC_GYRO_R_Stamping_Time_Frame io)
        LSM6DS3_ACC_GYRO_SENSOR_SYNC_TIME LSM6DS3_ACC_GYRO_TPH_MASK LSM6DS3_ACC_GYRO_TPH_POSITION]"

definition fifo_fields :: "'e sensor_io \<Rightarrow> 'e sensor_field list" where
  "fifo_fields io =
     [enum_field (LSM6DS3_ACC_GYRO_W_TIM_PEDO_FIFO_Write_En io) (LSM6DS3_ACC_GYRO_R_TIM_PEDO_FIFO_Write_En io)
        LSM6DS3_ACC_GYRO_FIFO_CTRL2 LSM6DS3_ACC_GYRO_TIM_PEDO_FIFO_DRDY_MASK LSM6DS3_ACC_GYRO_TIM_PEDO_FIFO_DRDY_t,
      enum_field (LSM6DS3_ACC_GYRO_W_TIM_PEDO_FIFO_En io) (LSM6DS3_ACC_GYRO_R_TIM_PEDO_FIFO_En io)
        LSM6DS3_ACC_GYRO_FIFO_CTRL2 LSM6DS3_ACC_GYRO_TIM_PEDO_FIFO_EN_MASK LSM6DS3_ACC_GYRO_TIM_PEDO_FIFO_EN_t,
      enum_field (LSM6DS3_ACC_GYRO_W_DEC_FIFO_XL io) (LSM6DS3_ACC_GYRO_R_DEC_FIFO_XL io)
        LSM6DS3_ACC_GYRO_FIFO_CTRL3 LSM6DS3_ACC_GYRO_DEC_FIFO_XL_MASK LSM6DS3_ACC_GYRO_DEC_FIFO_XL_t,
      enum_field (LSM6DS3_ACC_GYRO_W_DEC_FIFO_G io) (LSM6DS3_ACC_GYRO_R_DEC_FIFO_G io)
        LSM6DS3_ACC_GYRO_FIFO_CTRL3 LSM6DS3_ACC_GYRO_DEC_FIFO_G_MASK LSM6DS3_ACC_GYRO_DEC_FIFO_G_t,
      enum_field (LSM6DS3_ACC_GYRO_W_DEC_FIFO_SLV0 io) (LSM6DS3_ACC_GYRO_R_DEC_FIFO_SLV0 io)
        LSM6DS3_ACC_GYRO_FIFO_CTRL4 LSM6DS3_ACC_GYRO_DEC_FIFO_SLV0_MASK LSM6DS3_ACC_GYRO_DEC_FIFO_SLV0_t,
      enum_field (LSM6DS3_ACC_GYRO_W_DEC_FIFO_SLV1 io) (LSM6DS3_ACC_GYRO_R_DEC_FIFO_SLV1 io)
        LSM6DS3_ACC_GYRO_FIFO_CTRL4 LSM6DS3_ACC_GYRO_DEC_FIFO_SLV1_MASK LSM6DS3_ACC_GYRO_DEC_FIFO_SLV1_t,
      enum_field (LSM6DS3_ACC_GYRO_W_HI_DATA_ONLY io) (LSM6DS3_ACC_GYRO_R_HI_DATA_ONLY io)
        LSM6DS3_ACC_GYRO_FIFO_CTRL4 LSM6DS3_ACC_GYRO_HI_DATA_ONLY_MASK LSM6DS3_ACC_GYRO_HI_DATA_ONLY_t,
      enum_field (LSM6DS3_ACC_GYRO_W_FIFO_MODE io) (LSM6DS3_ACC_GYRO_R_FIFO_MODE io)
        LSM6DS3_ACC_GYRO_FIFO_CTRL5 LSM6DS3_ACC_GYRO_FIFO_MODE_MASK LSM6DS3_ACC_GYRO_FIFO_MODE_t,
      enum_field (LSM6DS3_ACC_GYRO_W_ODR_FIFO io) (LSM6DS3_ACC_GYRO_R_ODR_FIFO io)
        LSM6DS3_ACC_GYRO_FIFO_CTRL5 LSM6DS3_ACC_GYRO_ODR_FIFO_MASK LSM6DS3_ACC_GYRO_ODR_FIFO_t,
      enum_field (LSM6DS3_ACC_GYRO_W_Orientation io) (LSM6DS3_ACC_GYRO_R_Orientation io)
        LSM6DS3_ACC_GYRO_ORIENT_CFG_G LSM6DS3_ACC_GYRO_ORIENT_MASK LSM6DS3_ACC_GYRO_ORIENT_t,
      enum_field (LSM6DS3_ACC_GYRO_W_SignZ_G io) (LSM6DS3_ACC_GYRO_R_SignZ_G io)
        LSM6DS3_ACC_GYRO_ORIENT_CFG_G LSM6DS3_ACC_GYRO_SIGN_Z_G_MASK LSM6DS3_ACC_GYRO_SIGN_Z_G_t,
      enum_field (LSM6DS3_ACC_GYRO_W_SignY_G io) (LSM6DS3_ACC_GYRO_R_SignY_G io)
        LSM6DS3_ACC_GYRO_ORIENT_CFG_G LSM6DS3_ACC_GYRO_SIGN_Y_G_MASK LSM6DS3_ACC_GYRO_SIGN_Y_G_t,
      enum_field (LSM6DS3_ACC_GYRO_W_SignX_G io) (LSM6DS3_ACC_GYRO_R_SignX_G io)
        LSM6DS3_ACC_GYRO_ORIENT_CFG_G LSM6DS3_ACC_GYRO_SIGN_X_G_MASK LSM6DS3_ACC_GYRO_SIGN_X_G_t]"

definition int_fields :: "'e sensor_io \<Rightarrow> 'e sensor_field list" where
  "int_fields io =
     [enum_field (LSM6DS3_ACC_GYRO_W_DRDY_XL_on_INT1 io) (LSM6DS3_ACC_GYRO_R_DRDY_XL_on_INT1 io)
        LSM6DS3_ACC_GYRO_INT1_CTRL LSM6DS3_ACC_GYRO_INT1_DRDY_XL_MASK LSM6DS3_ACC_GYRO_INT1_DRDY_XL_t,
      enum_field (LSM6DS3_ACC_GYRO_W_DRDY_G_on_INT1 io) (LSM6DS3_ACC_GYRO_R_DRDY_G_on_INT1 io)
        LSM6DS3_ACC_GYRO_INT1_CTRL LSM6DS3_ACC_GYRO_INT1_DRDY_G_MASK LSM6DS3_ACC_GYRO_INT1_DRDY_G_t,
      enum_field (LSM6DS3_ACC_GYRO_W_BOOT_on_INT1 io) (LSM6DS3_ACC_GYRO_R_BOOT_on_INT1 io)
        LSM6DS3_ACC_GYRO_INT1_CTRL LSM6DS3_ACC_GYRO_INT1_BOOT_MASK LSM6DS3_ACC_GYRO_INT1_BOOT_t,
      enum_field (LSM6DS3_ACC_GYRO_W_FIFO_TSHLD_on_INT1 io) (LSM6DS3_ACC_GYRO_R_FIFO_TSHLD_on_INT1 io)
        LSM6DS3_ACC_GYRO_INT1_CTRL LSM6DS3_ACC_GYRO_INT1_FTH_MASK LSM6DS3_ACC_GYRO_INT1_FTH_t,
      enum_field (LSM6DS3_ACC_GYRO_W_OVERRUN_on_INT1 io) (LSM6DS3_ACC_GYRO_R_OVERRUN_on_INT1 io)
        LSM6DS3_ACC_GYRO_INT1_CTRL LSM6DS3_ACC_GYRO_INT1_OVR_MASK LSM6DS3_ACC_GYRO_INT1_OVR_t,
      enum_field (LSM6DS3_ACC_GYRO_W_FSS5_on_INT1 io) (LSM6DS3_ACC_GYRO_R_FSS5_on_INT1 io)
        LSM6DS3_ACC_GYRO_INT1_CTRL LSM6DS3_ACC_GYRO_INT1_FSS5_MASK LSM6DS3_ACC_GYRO_INT1_FSS5_t,
      enum_field (LSM6DS3_ACC_GYRO_W_SIGN_MOT_on_INT1 io) (LSM6DS3_ACC_GYRO_R_SIGN_MOT_on_INT1 io)
        LSM6DS3_ACC_GYRO_INT1_CTRL LSM6DS3_ACC_GYRO_INT1_SIGN_MOT_MASK LSM6DS3_ACC_GYRO_INT1_SIGN_MOT_t,
      enum_field (LSM6DS3_ACC_GYRO_W_PEDO_STEP_on_INT1 io) (LSM6DS3_ACC_GYRO_R_PEDO_STEP_on_INT1 io)
        LSM6DS3_ACC_GYRO_INT1_CTRL LSM6DS3_ACC_GYRO_INT1_PEDO_MASK LSM6DS3_ACC_GYRO_INT1_PEDO_t,
      enum_field (LSM6DS3_ACC_GYRO_W_DRDY_XL_on_INT2 io) (LSM6DS3_ACC_GYRO_R_DRDY_XL_on_INT2 io)
        LSM6DS3_ACC_GYRO_INT2_CTRL LSM6DS3_ACC_GYRO_INT2_DRDY_XL_MASK LSM6DS3_ACC_GYRO_INT2_DRDY_XL_t,
      enum_field (LSM6DS3_ACC_GYRO_W_DRDY_G_on_INT2 io) (LSM6DS3_ACC_GYRO_R_DRDY_G_on_INT2 io)
        LSM6DS3_ACC_GYRO_INT2_CTRL LSM6DS3_ACC_GYRO_INT2_DRDY_G_MASK LSM6DS3_ACC_GYRO_INT2_DRDY_G_t,
      enum_field (LSM6DS3_ACC_GYRO_W_DRDY_TEMP_on_INT2 io) (LSM6DS3_ACC_GYRO_R_DRDY_TEMP_on_INT2 io)
        LSM6DS3_ACC_GYRO_INT2_CTRL LSM6DS3_ACC_GYRO_INT2_DRDY_TEMP_MASK LSM6DS3_ACC_GYRO_INT2_DRDY_TEMP_t,
      enum_field (LSM6DS3_ACC_GYRO_W_FIFO_TSHLD_on_INT2 io) (LSM6DS3_ACC_GYRO_R_FIFO_TSHLD_on_INT2 io)
        LSM6DS3_ACC_GYRO_INT2_CTRL LSM6DS3_ACC_GYRO_INT2_FTH_MASK LSM6DS3_ACC_GYRO_INT2_FTH_t,
      enum_field (LSM6DS3_ACC_GYRO_W_OVERRUN_on_INT2 io) (LSM6DS3_ACC_GYRO_R_OVERRUN_on_INT2 io)
        LSM6DS3_ACC_GYRO_INT2_CTRL LSM6DS3_ACC_GYRO_INT2_OVR_MASK LSM6DS3_ACC_GYRO_INT2_OVR_t,
      enum_field (LSM6DS3_ACC_GYRO_W_FSS5_on_INT2 io) (LSM6DS3_ACC_GYRO_R_FSS5_on_INT2 io)
        LSM6DS3_ACC_GYRO_INT2_CTRL LSM6DS3_ACC_GYRO_INT2_FSS5_MASK LSM6DS3_ACC_GYRO_INT2_FSS5_t,
      enum_field (LSM6DS3_ACC_GYRO_W_SIGN_MOT_on_INT2 io) (LSM6DS3_ACC_GYRO_R_SIGN_MOT_on_INT2 io)
        LSM6DS3_ACC_GYRO_INT2_CTRL LSM6DS3_ACC_GYRO_INT2_SIGN_MOT_MASK LSM6DS3_ACC_GYRO_INT2_SIGN_MOT_t,
      enum_field (LSM6DS3_ACC_GYRO_W_PEDO_STEP_on_INT2 io) (LSM6DS3_ACC_GYRO_R_PEDO_STEP_on_INT2 io)
        LSM6DS3_ACC_GYRO_INT2_CTRL LSM6DS3_ACC_GYRO_INT2_PEDO_MASK LSM6DS3_ACC_GYRO_INT2_PEDO_t]"

definition ctrl_more_fields :: "'e sensor_io \<Rightarrow> 'e sensor_field list" where
  "ctrl_more_fields io =
     [enum_field (LSM6DS3_ACC_GYRO_W_STOP_ON_FTH io) (LSM6DS3_ACC_GYRO_R_STOP_ON_FTH io)
        LSM6DS3_ACC_GYRO_CTRL4_C LSM6DS3_ACC_GYRO_STOP_ON_FTH_MASK LSM6DS3_ACC_GYRO_STOP_ON_FTH_t,
      enum_field (LSM6DS3_ACC_GYRO_W_MODE3_Enable io) (LSM6DS3_ACC_GYRO_R_MODE3_Enable io)
        LSM6DS3_ACC_GYRO_CTRL4_C LSM6DS3_ACC_GYRO_MODE3_EN_MASK LSM6DS3_ACC_GYRO_MODE3_EN_t,
      enum_field (LSM6DS3_ACC_GYRO_W_I2C_DISABLE io) (LSM6DS3_ACC_GYRO_R_I2C_DISABLE io)
        LSM6DS3_ACC_GYRO_CTRL4_C LSM6DS3_ACC_GYRO_I2C_DISABLE_MASK LSM6DS3_ACC_GYRO_I2C_DISABLE_t,
      enum_field (LSM6DS3_ACC_GYRO_W_DRDY_MSK io) (LSM6DS3_ACC_GYRO_R_DRDY_MSK io)
        LSM6DS3_ACC_GYRO_CTRL4_C LSM6DS3_ACC_GYRO_DRDY_MSK_MASK LSM6DS3_ACC_GYRO_DRDY_MSK_t,
      enum_field (LSM6DS3_ACC_GYRO_W_FIFO_TEMP_EN io) (LSM6DS3_ACC_GYRO_R_FIFO_TEMP_EN io)
        LSM6DS3_ACC_GYRO_CTRL4_C LSM6DS3_ACC_GYRO_FIFO_TEMP_EN_MASK LSM6DS3_ACC_GYRO_FIFO_TEMP_EN_t,
      enum_field (LSM6DS3_ACC_GYRO_W_INT2_ON_INT1 io) (LSM6DS3_ACC_GYRO_R_INT2_ON_INT1 io)
        LSM6DS3_ACC_GYRO_CTRL4_C LSM6DS3_ACC_GYRO_INT2_ON_INT1_MASK LSM6DS3_ACC_GYRO_INT2_ON_INT1_t,
      enum_field (LSM6DS3_ACC_GYRO_W_SleepMode_G io) (LSM6DS3_ACC_GYRO_R_SleepMode_G io)
        LSM6DS3_ACC_GYRO_CTRL4_C LSM6DS3_ACC_GYRO_SLEEP_G_MASK LSM6DS3_ACC_GYRO_SLEEP_G_t,
      enum_field (LSM6DS3_ACC_GYRO_W_BW_Fixed_By_ODR io) (LSM6DS3_ACC_GYRO_R_BW_Fixed_By_ODR io)
        LSM6DS3_ACC_GYRO_CTRL4_C LSM6DS3_ACC_GYRO_BW_SCAL_ODR_MASK LSM6DS3_ACC_GYRO_BW_SCAL_ODR_t,
      enum_field (LSM6DS3_ACC_GYRO_W_SelfTest_XL io) (LSM6DS3_ACC_GYRO_R_SelfTest_XL io)
        LSM6DS3_ACC_GYRO_CTRL5_C LSM6DS3_ACC_GYRO_ST_XL_MASK LSM6DS3_ACC_GYRO_ST_XL_t,
      enum_field (LSM6DS3_ACC_GYRO_W_SelfTest_G io) (LSM6DS3_ACC_GYRO_R_SelfTest_G io)
        LSM6DS3_ACC_GYRO_CTRL5_C LSM6DS3_ACC_GYRO_ST_G_MASK LSM6DS3_ACC_GYRO_ST_G_t,
      enum_field (LSM6DS3_ACC_GYRO_W_CircularBurstMode io) (LSM6DS3_ACC_GYRO_R_CircularBurstMode io)
        LSM6DS3_ACC_GYRO_CTRL5_C LSM6DS3_ACC_GYRO_LSM6DS3_ACC_GYRO_ROUNDING_t_MASK LSM6DS3_ACC_GYRO_ROUNDING_t,
      enum_field (LSM6DS3_ACC_GYRO_W_LowPower_XL io) (LSM6DS3_ACC_GYRO_R_LowPower_XL io)
        LSM6DS3_ACC_GYRO_CTRL6_G LSM6DS3_ACC_GYRO_LP_XL_MASK LSM6DS3_ACC_GYRO_LP_XL_t,
      enum_field (LSM6DS3_ACC_GYRO_W_DEN_LVL2_EN io) (LSM6DS3_ACC_GYRO_R_DEN_LVL2_EN io)
        LSM6DS3_ACC_GYRO_CTRL6_G LSM6DS3_ACC_GYRO_DEN_LVL2_EN_MASK LSM6DS3_ACC_GYRO_DEN_LVL2_EN_t,
      enum_field (LSM6DS3_ACC_GYRO_W_DEN_LVL_EN io) (LSM6DS3_ACC_GYRO_R_DEN_LVL_EN io)
        LSM6DS3_ACC_GYRO_CTRL6_G LSM6DS3_ACC_GYRO_DEN_LVL_EN_MASK LSM6DS3_ACC_GYRO_DEN_LVL_EN_t,
      enum_field (LSM6DS3_ACC_GYRO_W_DEN_EDGE_EN io) (LSM6DS3_ACC_GYRO_R_DEN_EDGE_EN io)
        LSM6DS3_ACC_GYRO_CTRL6_G LSM6DS3_ACC_GYRO_DEN_EDGE_EN_MASK LSM6DS3_ACC_GYRO_DEN_EDGE_EN_t,
      enum_field (LSM6DS3_ACC_GYRO_W_HPCF_G io) (LSM6DS3_ACC_GYRO_R_HPCF_G io)
        LSM6DS3_ACC_GYRO_CTRL7_G LSM6DS3_ACC_GYRO_HPCF_G_MASK LSM6DS3_ACC_GYRO_HPCF_G_t,
      enum_field (LSM6DS3_ACC_GYRO_W_HPFilter_En io) (LSM6DS3_ACC_GYRO_R_HPFilter_En io)
        LSM6DS3_ACC_GYRO_CTRL7_G LSM6DS3_ACC_GYRO_HP_EN_MASK LSM6DS3_ACC_GYRO_HP_EN_t,
      enum_field (LSM6DS3_ACC_GYRO_W_LP_Mode io) (LSM6DS3_ACC_GYRO_R_LP_Mode io)
        LSM6DS3_ACC_GYRO_CTRL7_G LSM6DS3_ACC_GYRO_LP_EN_MASK LSM6DS3_ACC_GYRO_LP_EN_t,
      enum_field (LSM6DS3_ACC_GYRO_W_ROUNDING_STATUS io) (LSM6DS3_ACC_GYRO_R_ROUNDING_STATUS io)
        LSM6DS3_ACC_GYRO_CTRL7_G LSM6DS3_ACC_GYRO_ROUNDING_STATUS_MASK LSM6DS3_ACC_GYRO_ROUNDING_STATUS_t,
      enum_field (LSM6DS3_ACC_GYRO_W_HP_G_RST io) (LSM6DS3_ACC_GYRO_R_HP_G_RST io)
        LSM6DS3_ACC_GYRO_CTRL7_G LSM6DS3_ACC_GYRO_HP_G_RST_MASK LSM6DS3_ACC_GYRO_HP_G_RST_t]"

definition axis_fields :: "'e sensor_io \<Rightarrow> 'e sensor_field list" where
  "axis_fields io =
     [enum_field (LSM6DS3_ACC_GYRO_W_LPF2_XL io) (LSM6DS3_ACC_GYRO_R_LPF2_XL io)
        LSM6DS3_ACC_GYRO_CTRL8_XL LSM6DS3_ACC_GYRO_LPF2_XL_MASK LSM6DS3_ACC_GYRO_LPF2_XL_t,
      enum_field (LSM6DS3_ACC_GYRO_W_HPCF_XL io) (LSM6DS3_ACC_GYRO_R_HPCF_XL io)
        LSM6DS3_ACC_GYRO_CTRL8_XL LSM6DS3_ACC_GYRO_HPCF_XL_MASK LSM6DS3_ACC_GYRO_HPCF_XL_t,
      enum_field (LSM6DS3_ACC_GYRO_W_LOW_PASS_ON_6D io) (LSM6DS3_ACC_GYRO_R_LOW_PASS_ON_6D io)
        LSM6DS3_ACC_GYRO_CTRL8_XL LSM6DS3_ACC_GYRO_LOW_PASS_ON_6D_MASK LSM6DS3_ACC_GYRO_LOW_PASS_ON_6D_t,
      enum_field (LSM6DS3_ACC_GYRO_W_HP_SLOPE_XL io) (LSM6DS3_ACC_GYRO_R_HP_SLOPE_XL io)
        LSM6DS3_ACC_GYRO_CTRL8_XL LSM6DS3_ACC_GYRO_HP_SLOPE_XL_MASK LSM6DS3_ACC_GYRO_HP_SLOPE_XL_t,
      enum_field (LSM6DS3_ACC_GYRO_W_XEN_XL io) (LSM6DS3_ACC_GYRO_R_XEN_XL io)
        LSM6DS3_ACC_GYRO_CTRL9_XL LSM6DS3_ACC_GYRO_XEN_XL_MASK LSM6DS3_ACC_GYRO_XEN_XL_t,
      enum_field (LSM6DS3_ACC_GYRO_W_YEN_XL io) (LSM6DS3_ACC_GYRO_R_YEN_XL io)
        LSM6DS3_ACC_GYRO_CTRL9_XL LSM6DS3_ACC_GYRO_YEN_XL_MASK LSM6DS3_ACC_GYRO_YEN_XL_t,
      enum_field (LSM6DS3_ACC_GYRO_W_ZEN_XL io) (LSM6DS3_ACC_GYRO_R_ZEN_XL io)
        LSM6DS3_ACC_GYRO_CTRL9_XL LSM6DS3_ACC_GYRO_ZEN_XL_MASK LSM6DS3_ACC_GYRO_ZEN_XL_t,
      enum_field (LSM6DS3_ACC_GYRO_W_SOFT io) (LSM6DS3_ACC_GYRO_R_SOFT io)
        LSM6DS3_ACC_GYRO_CTRL9_XL LSM6DS3_ACC_GYRO_SOFT_MASK LSM6DS3_ACC_GYRO_SOFT_t,
      enum_field (LSM6DS3_ACC_GYRO_W_SignifcantMotion io) (LSM6DS3_ACC_GYRO_R_SignifcantMotion io)
        LSM6DS3_ACC_GYRO_CTRL10_C LSM6DS3_ACC_GYRO_SIGN_MOTION_EN_MASK LSM6DS3_ACC_GYRO_SIGN_MOTION_EN_t,
      enum_field (LSM6DS3_ACC_GYRO_W_PedoStepReset io) (LSM6DS3_ACC_GYRO_R_PedoStepReset io)
        LSM6DS3_ACC_GYRO_CTRL10_C LSM6DS3_ACC_GYRO_PEDO_RST_STEP_MASK LSM6DS3_ACC_GYRO_PEDO_RST_STEP_t,
      enum_field (LSM6DS3_ACC_GYRO_W_XEN_G io) (LSM6DS3_ACC_GYRO_R_XEN_G io)
        LSM6DS3_ACC_GYRO_CTRL10_C LSM6DS3_ACC_GYRO_XEN_G_MASK LSM6DS3_ACC_GYRO_XEN_G_t,
      enum_field (LSM6DS3_ACC_GYRO_W_YEN_G io) (LSM6DS3_ACC_GYRO_R_YEN_G io)
        LSM6DS3_ACC_GYRO_CTRL10_C LSM6DS3_ACC_GYRO_YEN_G_MASK LSM6DS3_ACC_GYRO_YEN_G_t,
      enum_field (LSM6DS3_ACC_GYRO_W_ZEN_G io) (LSM6DS3_ACC_GYRO_R_ZEN_G io)
        LSM6DS3_ACC_GYRO_CTRL10_C LSM6DS3_ACC_GYRO_ZEN_G_MASK LSM6DS3_ACC_GYRO_ZEN_G_t,
      enum_field (LSM6DS3_ACC_GYRO_W_FUNC_EN io) (LSM6DS3_ACC_GYRO_R_FUNC_EN io)
        LSM6DS3_ACC_GYRO_CTRL10_C LSM6DS3_ACC_GYRO_FUNC_EN_MASK LSM6DS3_ACC_GYRO_FUNC_EN_t,
      enum_field (LSM6DS3_ACC_GYRO_W_I2C_MASTER_Enable io) (LSM6DS3_ACC_GYRO_R_I2C_MASTER_Enable io)
        LSM6DS3_ACC_GYRO_MASTER_CONFIG LSM6DS3_ACC_GYRO_MASTER_ON_MASK LSM6DS3_ACC_GYRO_MASTER_ON_t,
      enum_field (LSM6DS3_ACC_GYRO_W_IronCorrection_EN io) (LSM6DS3_ACC_GYRO_R_IronCorrection_EN io)
        LSM6DS3_ACC_GYRO_MASTER_CONFIG LSM6DS3_ACC_GYRO_IRON_EN_MASK LSM6DS3_ACC_GYRO_IRON_EN_t,
      enum_field (LSM6DS3_ACC_GYRO_W_PASS_THRU_MODE io) (LSM6DS3_ACC_GYRO_R_PASS_THRU_MODE io)
        LSM6DS3_ACC_GYRO_MASTER_CONFIG LSM6DS3_ACC_GYRO_PASS_THRU_MODE_MASK LSM6DS3_ACC_GYRO_PASS_THRU_MODE_t,
      enum_field (LSM6DS3_ACC_GYRO_W_PULL_UP_EN io) (LSM6DS3_ACC_GYRO_R_PULL_UP_EN io)
        LSM6DS3_ACC_GYRO_MASTER_CONFIG LSM6DS3_ACC_GYRO_PULL_UP_EN_MASK LSM6DS3_ACC_GYRO_PULL_UP_EN_t,
      enum_field (LSM6DS3_ACC_GYRO_W_SensorHUB_Trigger_Sel io) (LSM6DS3_ACC_GYRO_R_SensorHUB_Trigger_Sel io)
        LSM6DS3_ACC_GYRO_MASTER_CONFIG LSM6DS3_ACC_GYRO_START_CONFIG_MASK LSM6DS3_ACC_GYRO_START_CONFIG_t,
      enum_field (LSM6DS3_ACC_GYRO_W_DATA_VAL_SEL_FIFO io) (LSM6DS3_ACC_GYRO_R_DATA_VAL_SEL_FIFO io)
        LSM6DS3_ACC_GYRO_MASTER_CONFIG LSM6DS3_ACC_GYRO_DATA_VAL_SEL_FIFO_MASK LSM6DS3_ACC_GYRO_DATA_VAL_SEL_FIFO_t,
      enum_field (LSM6DS3_ACC_GYRO_W_DRDY_ON_INT1 io) (LSM6DS3_ACC_GYRO_R_DRDY_ON_INT1 io)
        LSM6DS3_ACC_GYRO_MASTER_CONFIG LSM6DS3_ACC_GYRO_DRDY_ON_INT1_MASK LSM6DS3_ACC_GYRO_DRDY_ON_INT1_t]"

definition tap_fields :: "'e sensor_io \<Rightarrow> 'e sensor_field list" where
  "tap_fields io =
     [enum_field (LSM6DS3_ACC_GYRO_W_LIR io) (LSM6DS3_ACC_GYRO_R_LIR io)
        LSM6DS3_ACC_GYRO_TAP_CFG1 LSM6DS3_ACC_GYRO_LIR_MASK LSM6DS3_ACC_GYRO_LIR_t,
      enum_field (LSM6DS3_ACC_GYRO_W_TAP_Z_EN io) (LSM6DS3_ACC_GYRO_R_TAP_Z_EN io)
        LSM6DS3_ACC_GYRO_TAP_CFG1 LSM6DS3_ACC_GYRO_TAP_Z_EN_MASK LSM6DS3_ACC_GYRO_TAP_Z_EN_t,
      enum_field (LSM6DS3_ACC_GYRO_W_TAP_Y_EN io) (LSM6DS3_ACC_GYRO_R_TAP_Y_EN io)
        LSM6DS3_ACC_GYRO_TAP_CFG1 LSM6DS3_ACC_GYRO_TAP_Y_EN_MASK LSM6DS3_ACC_GYRO_TAP_Y_EN_t,
      enum_field (LSM6DS3_ACC_GYRO_W_TAP_X_EN io) (LSM6DS3_ACC_GYRO_R_TAP_X_EN io)
        LSM6DS3_ACC_GYRO_TAP_CFG1 LSM6DS3_ACC_GYRO_TAP_X_EN_MASK LSM6DS3_ACC_GYRO_TAP_X_EN_t,
      enum_field (LSM6DS3_ACC_GYRO_W_TILT_EN io) (LSM6DS3_ACC_GYRO_R_TILT_EN io)
        LSM6DS3_ACC_GYRO_TAP_CFG1 LSM6DS3_ACC_GYRO_TILT_EN_MASK LSM6DS3_ACC_GYRO_TILT_EN_t,
      enum_field (LSM6DS3_ACC_GYRO_W_SLOPE_FDS io) (LSM6DS3_ACC_GYRO_R_SLOPE_FDS io)
        LSM6DS3_ACC_GYRO_TAP_CFG1 LSM6DS3_ACC_GYRO_SLOPE_FDS_MASK LSM6DS3_ACC_GYRO_SLOPE_FDS_t,
      enum_field (LSM6DS3_ACC_GYRO_W_PEDO_EN io) (LSM6DS3_ACC_GYRO_R_PEDO_EN io)
        LSM6DS3_ACC_GYRO_TAP_CFG1 LSM6DS3_ACC_GYRO_PEDO_EN_MASK LSM6DS3_ACC_GYRO_PEDO_EN_t,
      enum_field (LSM6DS3_ACC_GYRO_W_TIMER_EN io) (LSM6DS3_ACC_GYRO_R_TIMER_EN io)
        LSM6DS3_ACC_GYRO_TAP_CFG1 LSM6DS3_ACC_GYRO_TIMER_EN_MASK LSM6DS3_ACC_GYRO_TIMER_EN_t,
      pos_field (LSM6DS3_ACC_GYRO_W_TAP_THS io) (LSM6DS3_ACC_GYRO_R_TAP_THS io)
        LSM6DS3_ACC_GYRO_TAP_THS_6D LSM6DS3_ACC_GYRO_TAP_THS_MASK LSM6DS3_ACC_GYRO_TAP_THS_POSITION,
      enum_field (LSM6DS3_ACC_GYRO_W_SIXD_THS io) (LSM6DS3_ACC_GYRO_R_SIXD_THS io)
        LSM6DS3_ACC_GYRO_TAP_THS_6D LSM6DS3_ACC_GYRO_SIXD_THS_MASK LSM6DS3_ACC_GYRO_SIXD_THS_t,
      enum_field (LSM6DS3_ACC_GYRO_W_D4D io) (LSM6DS3_ACC_GYRO_R_D4D io)
        LSM6DS3_ACC_GYRO_TAP_THS_6D LSM6DS3_ACC_GYRO_D4D_MASK LSM6DS3_ACC_GYRO_D4D_t,
      pos_field (LSM6DS3_ACC_GYRO_W_SHOCK_Duration io) (LSM6DS3_ACC_GYRO_R_SHOCK_Duration io)
        LSM6DS3_ACC_GYRO_INT_DUR2 LSM6DS3_ACC_GYRO_SHOCK_MASK LSM6DS3_ACC_GYRO_SHOCK_POSITION,
      pos_field (LSM6DS3_ACC_GYRO_W_QUIET_Duration io) (LSM6DS3_ACC_GYRO_R_QUIET_Duration io)
        LSM6DS3_ACC_GYRO_INT_DUR2 LSM6DS3_ACC_GYRO_QUIET_MASK LSM6DS3_ACC_GYRO_QUIET_POSITION,
      pos_field (LSM6DS3_ACC_GYRO_W_DUR io) (LSM6DS3_ACC_GYRO_R_DUR io)
        LSM6DS3_ACC_GYRO_INT_DUR2 LSM6DS3_ACC_GYRO_DUR_MASK LSM6DS3_ACC_GYRO_DUR_POSITION,
      pos_field (LSM6DS3_ACC_GYRO_W_WK_THS io) (LSM6DS3_ACC_GYRO_R_WK_THS io)
        LSM6DS3_ACC_GYRO_WAKE_UP_THS LSM6DS3_ACC_GYRO_WK_THS_MASK LSM6DS3_ACC_GYRO_WK_THS_POSITION,
      enum_field (LSM6DS3_ACC_GYRO_W_INACTIVITY_ON io) (LSM6DS3_ACC_GYRO_R_INACTIVITY_ON io)
        LSM6DS3_ACC_GYRO_WAKE_UP_THS LSM6DS3_ACC_GYRO_INACTIVITY_ON_MASK LSM6DS3_ACC_GYRO_INACTIVITY_ON_t,
      enum_field (LSM6DS3_ACC_GYRO_W_SINGLE_DOUBLE_TAP_EV io) (LSM6DS3_ACC_GYRO_R_SINGLE_DOUBLE_TAP_EV io)
        LSM6DS3_ACC_GYRO_WAKE_UP_THS LSM6DS3_ACC_GYRO_SINGLE_DOUBLE_TAP_MASK LSM6DS3_ACC_GYRO_SINGLE_DOUBLE_TAP_t,
      pos_field (LSM6DS3_ACC_GYRO_W_SLEEP_DUR io) (LSM6DS3_ACC_GYRO_R_SLEEP_DUR io)
        LSM6DS3_ACC_GYRO_WAKE_UP_DUR LSM6DS3_ACC_GYRO_SLEEP_DUR_MASK LSM6DS3_ACC_GYRO_SLEEP_DUR_POSITION,
      enum_field (LSM6DS3_ACC_GYRO_W_TIMER_HR io) (LSM6DS3_ACC_GYRO_R_TIMER_HR io)
        LSM6DS3_ACC_GYRO_WAKE_UP_DUR LSM6DS3_ACC_GYRO_TIMER_HR_MASK LSM6DS3_ACC_GYRO_TIMER_HR_t,
      pos_field (LSM6DS3_ACC_GYRO_W_WAKE_DUR io) (LSM6DS3_ACC_GYRO_R_WAKE_DUR io)
        LSM6DS3_ACC_GYRO_WAKE_UP_DUR LSM6DS3_ACC_GYRO_WAKE_DUR_MASK LSM6DS3_ACC_GYRO_WAKE_DUR_POSITION,
      enum_field (LSM6DS3_ACC_GYRO_W_FF_THS io) (LSM6DS3_ACC_GYRO_R_FF_THS io)
        LSM6DS3_ACC_GYRO_FREE_FALL LSM6DS3_ACC_GYRO_FF_THS_MASK LSM6DS3_ACC_GYRO_FF_THS_t]"

definition route_fields :: "'e sensor_io \<Rightarrow> 'e sensor_field list" where
  "route_fields io =
     [enum_field (LSM6DS3_ACC_GYRO_W_TimerEvRouteInt1 io) (LSM6DS3_ACC_GYRO_R_TimerEvRouteInt1 io)
        LSM6DS3_ACC_GYRO_MD1_CFG LSM6DS3_ACC_GYRO_INT1_TIMER_MASK LSM6DS3_ACC_GYRO_INT1_TIMER_t,
      enum_field (LSM6DS3_ACC_GYRO_W_TiltEvOnInt1 io) (LSM6DS3_ACC_GYRO_R_TiltEvOnInt1 io)
        LSM6DS3_ACC_GYRO_MD1_CFG LSM6DS3_ACC_GYRO_INT1_TILT_MASK LSM6DS3_ACC_GYRO_INT1_TILT_t,
      enum_field (LSM6DS3_ACC_GYRO_W_6DEvOnInt1 io) (LSM6DS3_ACC_GYRO_R_6DEvOnInt1 io)
        LSM6DS3_ACC_GYRO_MD1_CFG LSM6DS3_ACC_GYRO_INT1_6D_MASK LSM6DS3_ACC_GYRO_INT1_6D_t,
      enum_field (LSM6DS3_ACC_GYRO_W_TapEvOnInt1 io) (LSM6DS3_ACC_GYRO_R_TapEvOnInt1 io)
        LSM6DS3_ACC_GYRO_MD1_CFG LSM6DS3_ACC_GYRO_INT1_TAP_MASK LSM6DS3_ACC_GYRO_INT1_TAP_t,
      enum_field (LSM6DS3_ACC_GYRO_W_FFEvOnInt1 io) (LSM6DS3_ACC_GYRO_R_FFEvOnInt1 io)
        LSM6DS3_ACC_GYRO_MD1_CFG LSM6DS3_ACC_GYRO_INT1_FF_MASK LSM6DS3_ACC_GYRO_INT1_FF_t,
      enum_field (LSM6DS3_ACC_GYRO_W_WUEvOnInt1 io) (LSM6DS3_ACC_GYRO_R_WUEvOnInt1 io)
        LSM6DS3_ACC_GYRO_MD1_CFG LSM6DS3_ACC_GYRO_INT1_WU_MASK LSM6DS3_ACC_GYRO_INT1_WU_t,
      enum_field (LSM6DS3_ACC_GYRO_W_SingleTapOnInt1 io) (LSM6DS3_ACC_GYRO_R_SingleTapOnInt1 io)
        LSM6DS3_ACC_GYRO_MD1_CFG LSM6DS3_ACC_GYRO_INT1_SINGLE_TAP_MASK LSM6DS3_ACC_GYRO_INT1_SINGLE_TAP_t,
      enum_field (LSM6DS3_ACC_GYRO_W_SleepEvOnInt1 io) (LSM6DS3_ACC_GYRO_R_SleepEvOnInt1 io)
        LSM6DS3_ACC_GYRO_MD1_CFG LSM6DS3_ACC_GYRO_INT1_SLEEP_MASK LSM6DS3_ACC_GYRO_INT1_SLEEP_t,
      enum_field (LSM6DS3_ACC_GYRO_W_TimerEvRouteInt2 io) (LSM6DS3_ACC_GYRO_R_TimerEvRouteInt2 io)
        LSM6DS3_ACC_GYRO_MD2_CFG LSM6DS3_ACC_GYRO_INT2_TIMER_MASK LSM6DS3_ACC_GYRO_INT2_TIMER_t,
      enum_field (LSM6DS3_ACC_GYRO_W_TiltEvOnInt2 io) (LSM6DS3_ACC_GYRO_R_TiltEvOnInt2 io)
        LSM6DS3_ACC_GYRO_MD2_CFG LSM6DS3_ACC_GYRO_INT2_TILT_MASK LSM6DS3_ACC_GYRO_INT2_TILT_t,
      enum_field (LSM6DS3_ACC_GYRO_W_6DEvOnInt2 io) (LSM6DS3_ACC_GYRO_R_6DEvOnInt2 io)
        LSM6DS3_ACC_GYRO_MD2_CFG LSM6DS3_ACC_GYRO_INT2_6D_MASK LSM6DS3_ACC_GYRO_INT2_6D_t,
      enum_field (LSM6DS3_ACC_GYRO_W_TapEvOnInt2 io) (LSM6DS3_ACC_GYRO_R_TapEvOnInt2 io)
        LSM6DS3_ACC_GYRO_MD2_CFG LSM6DS3_ACC_GYRO_INT2_TAP_MASK LSM6DS3_ACC_GYRO_INT2_TAP_t,
      enum_field (LSM6DS3_ACC_GYRO_W_FFEvOnInt2 io) (LSM6DS3_ACC_GYRO_R_FFEvOnInt2 io)
        LSM6DS3_ACC_GYRO_MD2_CFG LSM6DS3_ACC_GYRO_INT2_FF_MASK LSM6DS3_ACC_GYRO_INT2_FF_t,
      enum_field (LSM6DS3_ACC_GYRO_W_WUEvOnInt2 io) (LSM6DS3_ACC_GYRO_R_WUEvOnInt2 io)
        LSM6DS3_ACC_GYRO_MD2_CFG LSM6DS3_ACC_GYRO_INT2_WU_MASK LSM6DS3_ACC_GYRO_INT2_WU_t,
      enum_field (LSM6DS3_ACC_GYRO_W_SingleTapOnInt2 io) (LSM6DS3_ACC_GYRO_R_SingleTapOnInt2 io)
        LSM6DS3_ACC_GYRO_MD2_CFG LSM6DS3_ACC_GYRO_INT2_SINGLE_TAP_MASK LSM6DS3_ACC_GYRO_INT2_SINGLE_TAP_t,
      enum_field (LSM6DS3_ACC_GYRO_W_SleepEvOnInt2 io) (LSM6DS3_ACC_GYRO_R_SleepEvOnInt2 io)
        LSM6DS3_ACC_GYRO_MD2_CFG LSM6DS3_ACC_GYRO_INT2_SLEEP_MASK LSM6DS3_ACC_GYRO_INT2_SLEEP_t]"

definition lsm6ds3_fields :: "'e sensor_io \<Rightarrow> 'e sensor_field list" where
  "lsm6ds3_fields io =
     ctrl_fields io @ fifo_fields io @ int_fields io @ ctrl_more_fields io @
     axis_fields io @ tap_fields io @ route_fields io"

lemma ctrl_fields_ok: "list_all (field_ok io) (ctrl_fields io)"
  by (simp add: ctrl_fields_def enum_field_ok pos_field_ok
    LSM6DS3_ACC_GYRO_W_BDU_def LSM6DS3_ACC_GYRO_R_BDU_def LSM6DS3_ACC_GYRO_W_SW_RESET_def
    LSM6DS3_ACC_GYRO_R_SW_RESET_def LSM6DS3_ACC_GYRO_W_BLE_def LSM6DS3_ACC_GYRO_R_BLE_def
    LSM6DS3_ACC_GYRO_W_IF_Addr_Incr_def LSM6DS3_ACC_GYRO_R_IF_Addr_Incr_def LSM6DS3_ACC_GYRO_W_SPI_Mode_def
    LSM6DS3_ACC_GYRO_R_SPI_Mode_def LSM6DS3_ACC_GYRO_W_PadSel_def LSM6DS3_ACC_GYRO_R_PadSel_def
    LSM6DS3_ACC_GYRO_W_INT_ACT_LEVEL_def LSM6DS3_ACC_GYRO_R_INT_ACT_LEVEL_def LSM6DS3_ACC_GYRO_W_BOOT_def
    LSM6DS3_ACC_GYRO_R_BOOT_def LSM6DS3_ACC_GYRO_W_FS_XL_def LSM6DS3_ACC_GYRO_R_FS_XL_def
    LSM6DS3_ACC_GYRO_W_ODR_XL_def LSM6DS3_ACC_GYRO_R_ODR_XL_def LSM6DS3_ACC_GYRO_W_BW_XL_def
    LSM6DS3_ACC_GYRO_R_BW_XL_def LSM6DS3_ACC_GYRO_W_FS_G_def LSM6DS3_ACC_GYRO_R_FS_G_def
    LSM6DS3_ACC_GYRO_W_ODR_G_def LSM6DS3_ACC_GYRO_R_ODR_G_def LSM6DS3_ACC_GYRO_W_FS_125_def
    LSM6DS3_ACC_GYRO_R_FS_125_def LSM6DS3_ACC_GYRO_W_EmbeddedAccess_def LSM6DS3_ACC_GYRO_R_EmbeddedAccess_def
    LSM6DS3_ACC_GYRO_W_Stamping_Time_Frame_def LSM6DS3_ACC_GYRO_R_Stamping_Time_Frame_def LSM6DS3_ACC_GYRO_BDU_t_def
    LSM6DS3_ACC_GYRO_SW_RESET_t_def LSM6DS3_ACC_GYRO_BLE_t_def LSM6DS3_ACC_GYRO_IF_INC_t_def
    LSM6DS3_ACC_GYRO_SIM_t_def LSM6DS3_ACC_GYRO_PP_OD_t_def LSM6DS3_ACC_GYRO_INT_ACT_LEVEL_t_def
    LSM6DS3_ACC_GYRO_BOOT_t_def LSM6DS3_ACC_GYRO_FS_XL_t_def LSM6DS3_ACC_GYRO_ODR_XL_t_def
    LSM6DS3_ACC_GYRO_BW_XL_t_def LSM6DS3_ACC_GYRO_FS_G_t_def LSM6DS3_ACC_GYRO_ODR_G_t_def
    LSM6DS3_ACC_GYRO_FS_125_t_def LSM6DS3_ACC_GYRO_EMB_ACC_t_def)

lemma fifo_fields_ok: "list_all (field_ok io) (fifo_fields io)"
  by (simp add: fifo_fields_def enum_field_ok pos_field_ok
    LSM6DS3_ACC_GYRO_W_TIM_PEDO_FIFO_Write_En_def LSM6DS3_ACC_GYRO_R_TIM_PEDO_FIFO_Write_En_def LSM6DS3_ACC_GYRO_W_TIM_PEDO_FIFO_En_def
    LSM6DS3_ACC_GYRO_R_TIM_PEDO_FIFO_En_def LSM6DS3_ACC_GYRO_W_DEC_FIFO_XL_def LSM6DS3_ACC_GYRO_R_DEC_FIFO_XL_def
    LSM6DS3_ACC_GYRO_W_DEC_FIFO_G_def LSM6DS3_ACC_GYRO_R_DEC_FIFO_G_def LSM6DS3_ACC_GYRO_W_DEC_FIFO_SLV0_def
    LSM6DS3_ACC_GYRO_R_DEC_FIFO_SLV0_def LSM6DS3_ACC_GYRO_W_DEC_FIFO_SLV1_def LSM6DS3_ACC_GYRO_R_DEC_FIFO_SLV1_def
    LSM6DS3_ACC_GYRO_W_HI_DATA_ONLY_def LSM6DS3_ACC_GYRO_R_HI_DATA_ONLY_def LSM6DS3_ACC_GYRO_W_FIFO_MODE_def
    LSM6DS3_ACC_GYRO_R_FIFO_MODE_def LSM6DS3_ACC_GYRO_W_ODR_FIFO_def LSM6DS3_ACC_GYRO_R_ODR_FIFO_def
    LSM6DS3_ACC_GYRO_W_Orientation_def LSM6DS3_ACC_GYRO_R_Orientation_def LSM6DS3_ACC_GYRO_W_SignZ_G_def
    LSM6DS3_ACC_GYRO_R_SignZ_G_def LSM6DS3_ACC_GYRO_W_SignY_G_def LSM6DS3_ACC_GYRO_R_SignY_G_def
    LSM6DS3_ACC_GYRO_W_SignX_G_def LSM6DS3_ACC_GYRO_R_SignX_G_def LSM6DS3_ACC_GYRO_TIM_PEDO_FIFO_DRDY_t_def
    LSM6DS3_ACC_GYRO_TIM_PEDO_FIFO_EN_t_def LSM6DS3_ACC_GYRO_DEC_FIFO_XL_t_def LSM6DS3_ACC_GYRO_DEC_FIFO_G_t_def
    LSM6DS3_ACC_GYRO_DEC_FIFO_SLV0_t_def LSM6DS3_ACC_GYRO_DEC_FIFO_SLV1_t_def LSM6DS3_ACC_GYRO_HI_DATA_ONLY_t_def
    LSM6DS3_ACC_GYRO_FIFO_MODE_t_def LSM6DS3_ACC_GYRO_ODR_FIFO_t_def LSM6DS3_ACC_GYRO_ORIENT_t_def
    LSM6DS3_ACC_GYRO_SIGN_Z_G_t_def LSM6DS3_ACC_GYRO_SIGN_Y_G_t_def LSM6DS3_ACC_GYRO_SIGN_X_G_t_def)

lemma int_fields_ok: "list_all (field_ok io) (int_fields io)"
  by (simp add: int_fields_def enum_field_ok pos_field_ok
    LSM6DS3_ACC_GYRO_W_DRDY_XL_on_INT1_def LSM6DS3_ACC_GYRO_R_DRDY_XL_on_INT1_def LSM6DS3_ACC_GYRO_W_DRDY_G_on_INT1_def
    LSM6DS3_ACC_GYRO_R_DRDY_G_on_INT1_def LSM6DS3_ACC_GYRO_W_BOOT_on_INT1_def LSM6DS3_ACC_GYRO_R_BOOT_on_INT1_def
    LSM6DS3_ACC_GYRO_W_FIFO_TSHLD_on_INT1_def LSM6DS3_ACC_GYRO_R_FIFO_TSHLD_on_INT1_def LSM6DS3_ACC_GYRO_W_OVERRUN_on_INT1_def
    LSM6DS3_ACC_GYRO_R_OVERRUN_on_INT1_def LSM6DS3_ACC_GYRO_W_FSS5_on_INT1_def LSM6DS3_ACC_GYRO_R_FSS5_on_INT1_def
    LSM6DS3_ACC_GYRO_W_SIGN_MOT_on_INT1_def LSM6DS3_ACC_GYRO_R_SIGN_MOT_on_INT1_def LSM6DS3_ACC_GYRO_W_PEDO_STEP_on_INT1_def
    LSM6DS3_ACC_GYRO_R_PEDO_STEP_on_INT1_def LSM6DS3_ACC_GYRO_W_DRDY_XL_on_INT2_def LSM6DS3_ACC_GYRO_R_DRDY_XL_on_INT2_def
    LSM6DS3_ACC_GYRO_W_DRDY_G_on_INT2_def LSM6DS3_ACC_GYRO_R_DRDY_G_on_INT2_def LSM6DS3_ACC_GYRO_W_DRDY_TEMP_on_INT2_def
    LSM6DS3_ACC_GYRO_R_DRDY_TEMP_on_INT2_def LSM6DS3_ACC_GYRO_W_FIFO_TSHLD_on_INT2_def LSM6DS3_ACC_GYRO_R_FIFO_TSHLD_on_INT2_def
    LSM6DS3_ACC_GYRO_W_OVERRUN_on_INT2_def LSM6DS3_ACC_GYRO_R_OVERRUN_on_INT2_def LSM6DS3_ACC_GYRO_W_FSS5_on_INT2_def
    LSM6DS3_ACC_GYRO_R_FSS5_on_INT2_def LSM6DS3_ACC_GYRO_W_SIGN_MOT_on_INT2_def LSM6DS3_ACC_GYRO_R_SIGN_MOT_on_INT2_def
    LSM6DS3_ACC_GYRO_W_PEDO_STEP_on_INT2_def LSM6DS3_ACC_GYRO_R_PEDO_STEP_on_INT2_def LSM6DS3_ACC_GYRO_INT1_DRDY_XL_t_def
    LSM6DS3_ACC_GYRO_INT1_DRDY_G_t_def LSM6DS3_ACC_GYRO_INT1_BOOT_t_def LSM6DS3_ACC_GYRO_INT1_FTH_t_def
    LSM6DS3_ACC_GYRO_INT1_OVR_t_def LSM6DS3_ACC_GYRO_INT1_FSS5_t_def LSM6DS3_ACC_GYRO_INT1_SIGN_MOT_t_def
    LSM6DS3_ACC_GYRO_INT1_PEDO_t_def LSM6DS3_ACC_GYRO_INT2_DRDY_XL_t_def LSM6DS3_ACC_GYRO_INT2_DRDY_G_t_def
    LSM6DS3_ACC_GYRO_INT2_DRDY_TEMP_t_def LSM6DS3_ACC_GYRO_INT2_FTH_t_def LSM6DS3_ACC_GYRO_INT2_OVR_t_def
    LSM6DS3_ACC_GYRO_INT2_FSS5_t_def LSM6DS3_ACC_GYRO_INT2_SIGN_MOT_t_def LSM6DS3_ACC_GYRO_INT2_PEDO_t_def)

lemma ctrl_more_fields_ok: "list_all (field_ok io) (ctrl_more_fields io)"
  by (simp add: ctrl_more_fields_def enum_field_ok pos_field_ok
    LSM6DS3_ACC_GYRO_W_STOP_ON_FTH_def LSM6DS3_ACC_GYRO_R_STOP_ON_FTH_def LSM6DS3_ACC_GYRO_W_MODE3_Enable_def
    LSM6DS3_ACC_GYRO_R_MODE3_Enable_def LSM6DS3_ACC_GYRO_W_I2C_DISABLE_def LSM6DS3_ACC_GYRO_R_I2C_DISABLE_def
    LSM6DS3_ACC_GYRO_W_DRDY_MSK_def LSM6DS3_ACC_GYRO_R_DRDY_MSK_def LSM6DS3_ACC_GYRO_W_FIFO_TEMP_EN_def
    LSM6DS3_ACC_GYRO_R_FIFO_TEMP_EN_def LSM6DS3_ACC_GYRO_W_INT2_ON_INT1_def LSM6DS3_ACC_GYRO_R_INT2_ON_INT1_def
    LSM6DS3_ACC_GYRO_W_SleepMode_G_def LSM6DS3_ACC_GYRO_R_SleepMode_G_def LSM6DS3_ACC_GYRO_W_BW_Fixed_By_ODR_def
    LSM6DS3_ACC_GYRO_R_BW_Fixed_By_ODR_def LSM6DS3_ACC_GYRO_W_SelfTest_XL_def LSM6DS3_ACC_GYRO_R_SelfTest_XL_def
    LSM6DS3_ACC_GYRO_W_SelfTest_G_def LSM6DS3_ACC_GYRO_R_SelfTest_G_def LSM6DS3_ACC_GYRO_W_CircularBurstMode_def
    LSM6DS3_ACC_GYRO_R_CircularBurstMode_def LSM6DS3_ACC_GYRO_W_LowPower_XL_def LSM6DS3_ACC_GYRO_R_LowPower_XL_def
    LSM6DS3_ACC_GYRO_W_DEN_LVL2_EN_def LSM6DS3_ACC_GYRO_R_DEN_LVL2_EN_def LSM6DS3_ACC_GYRO_W_DEN_LVL_EN_def
    LSM6DS3_ACC_GYRO_R_DEN_LVL_EN_def LSM6DS3_ACC_GYRO_W_DEN_EDGE_EN_def LSM6DS3_ACC_GYRO_R_DEN_EDGE_EN_def
    LSM6DS3_ACC_GYRO_W_HPCF_G_def LSM6DS3_ACC_GYRO_R_HPCF_G_def LSM6DS3_ACC_GYRO_W_HPFilter_En_def
    LSM6DS3_ACC_GYRO_R_HPFilter_En_def LSM6DS3_ACC_GYRO_W_LP_Mode_def LSM6DS3_ACC_GYRO_R_LP_Mode_def
    LSM6DS3_ACC_GYRO_W_ROUNDING_STATUS_def LSM6DS3_ACC_GYRO_R_ROUNDING_STATUS_def LSM6DS3_ACC_GYRO_W_HP_G_RST_def
    LSM6DS3_ACC_GYRO_R_HP_G_RST_def LSM6DS3_ACC_GYRO_STOP_ON_FTH_t_def LSM6DS3_ACC_GYRO_MODE3_EN_t_def
    LSM6DS3_ACC_GYRO_I2C_DISABLE_t_def LSM6DS3_ACC_GYRO_DRDY_MSK_t_def LSM6DS3_ACC_GYRO_FIFO_TEMP_EN_t_def
    LSM6DS3_ACC_GYRO_INT2_ON_INT1_t_def LSM6DS3_ACC_GYRO_SLEEP_G_t_def LSM6DS3_ACC_GYRO_BW_SCAL_ODR_t_def
    LSM6DS3_ACC_GYRO_ST_XL_t_def LSM6DS3_ACC_GYRO_ST_G_t_def LSM6DS3_ACC_GYRO_ROUNDING_t_def
    LSM6DS3_ACC_GYRO_LP_XL_t_def LSM6DS3_ACC_GYRO_DEN_LVL2_EN_t_def LSM6DS3_ACC_GYRO_DEN_LVL_EN_t_def
    LSM6DS3_ACC_GYRO_DEN_EDGE_EN_t_def LSM6DS3_ACC_GYRO_HPCF_G_t_def LSM6DS3_ACC_GYRO_HP_EN_t_def
    LSM6DS3_ACC_GYRO_LP_EN_t_def LSM6DS3_ACC_GYRO_ROUNDING_STATUS_t_def LSM6DS3_ACC_GYRO_HP_G_RST_t_def)

lemma axis_fields_ok: "list_all (field_ok io) (axis_fields io)"
  by (simp add: axis_fields_def enum_field_ok pos_field_ok
    LSM6DS3_ACC_GYRO_W_LPF2_XL_def LSM6DS3_ACC_GYRO_R_LPF2_XL_def LSM6DS3_ACC_GYRO_W_HPCF_XL_def
    LSM6DS3_ACC_GYRO_R_HPCF_XL_def LSM6DS3_ACC_GYRO_W_LOW_PASS_ON_6D_def LSM6DS3_ACC_GYRO_R_LOW_PASS_ON_6D_def
    LSM6DS3_ACC_GYRO_W_HP_SLOPE_XL_def LSM6DS3_ACC_GYRO_R_HP_SLOPE_XL_def LSM6DS3_ACC_GYRO_W_XEN_XL_def
    LSM6DS3_ACC_GYRO_R_XEN_XL_def LSM6DS3_ACC_GYRO_W_YEN_XL_def LSM6DS3_ACC_GYRO_R_YEN_XL_def
    LSM6DS3_ACC_GYRO_W_ZEN_XL_def LSM6DS3_ACC_GYRO_R_ZEN_XL_def LSM6DS3_ACC_GYRO_W_SOFT_def
    LSM6DS3_ACC_GYRO_R_SOFT_def LSM6DS3_ACC_GYRO_W_SignifcantMotion_def LSM6DS3_ACC_GYRO_R_SignifcantMotion_def
    LSM6DS3_ACC_GYRO_W_PedoStepReset_def LSM6DS3_ACC_GYRO_R_PedoStepReset_def LSM6DS3_ACC_GYRO_W_XEN_G_def
    LSM6DS3_ACC_GYRO_R_XEN_G_def LSM6DS3_ACC_GYRO_W_YEN_G_def LSM6DS3_ACC_GYRO_R_YEN_G_def
    LSM6DS3_ACC_GYRO_W_ZEN_G_def LSM6DS3_ACC_GYRO_R_ZEN_G_def LSM6DS3_ACC_GYRO_W_FUNC_EN_def
    LSM6DS3_ACC_GYRO_R_FUNC_EN_def LSM6DS3_ACC_GYRO_W_I2C_MASTER_Enable_def LSM6DS3_ACC_GYRO_R_I2C_MASTER_Enable_def
    LSM6DS3_ACC_GYRO_W_IronCorrection_EN_def LSM6DS3_ACC_GYRO_R_IronCorrection_EN_def LSM6DS3_ACC_GYRO_W_PASS_THRU_MODE_def
    LSM6DS3_ACC_GYRO_R_PASS_THRU_MODE_def LSM6DS3_ACC_GYRO_W_PULL_UP_EN_def LSM6DS3_ACC_GYRO_R_PULL_UP_EN_def
    LSM6DS3_ACC_GYRO_W_SensorHUB_Trigger_Sel_def LSM6DS3_ACC_GYRO_R_SensorHUB_Trigger_Sel_def LSM6DS3_ACC_GYRO_W_DATA_VAL_SEL_FIFO_def
    LSM6DS3_ACC_GYRO_R_DATA_VAL_SEL_FIFO_def LSM6DS3_ACC_GYRO_W_DRDY_ON_INT1_def LSM6DS3_ACC_GYRO_R_DRDY_ON_INT1_def
    LSM6DS3_ACC_GYRO_LPF2_XL_t_def LSM6DS3_ACC_GYRO_HPCF_XL_t_def LSM6DS3_ACC_GYRO_LOW_PASS_ON_6D_t_def
    LSM6DS3_ACC_GYRO_HP_SLOPE_XL_t_def LSM6DS3_ACC_GYRO_XEN_XL_t_def LSM6DS3_ACC_GYRO_YEN_XL_t_def
    LSM6DS3_ACC_GYRO_ZEN_XL_t_def LSM6DS3_ACC_GYRO_SOFT_t_def LSM6DS3_ACC_GYRO_SIGN_MOTION_EN_t_def
    LSM6DS3_ACC_GYRO_PEDO_RST_STEP_t_def LSM6DS3_ACC_GYRO_XEN_G_t_def LSM6DS3_ACC_GYRO_YEN_G_t_def
    LSM6DS3_ACC_GYRO_ZEN_G_t_def LSM6DS3_ACC_GYRO_FUNC_EN_t_def LSM6DS3_ACC_GYRO_MASTER_ON_t_def
    LSM6DS3_ACC_GYRO_IRON_EN_t_def LSM6DS3_ACC_GYRO_PASS_THRU_MODE_t_def LSM6DS3_ACC_GYRO_PULL_UP_EN_t_def
    LSM6DS3_ACC_GYRO_START_CONFIG_t_def LSM6DS3_ACC_GYRO_DATA_VAL_SEL_FIFO_t_def LSM6DS3_ACC_GYRO_DRDY_ON_INT1_t_def)

lemma tap_fields_ok: "list_all (field_ok io) (tap_fields io)"
  by (simp add: tap_fields_def enum_field_ok pos_field_ok
    LSM6DS3_ACC_GYRO_W_LIR_def LSM6DS3_ACC_GYRO_R_LIR_def LSM6DS3_ACC_GYRO_W_TAP_Z_EN_def
    LSM6DS3_ACC_GYRO_R_TAP_Z_EN_def LSM6DS3_ACC_GYRO_W_TAP_Y_EN_def LSM6DS3_ACC_GYRO_R_TAP_Y_EN_def
    LSM6DS3_ACC_GYRO_W_TAP_X_EN_def LSM6DS3_ACC_GYRO_R_TAP_X_EN_def LSM6DS3_ACC_GYRO_W_TILT_EN_def
    LSM6DS3_ACC_GYRO_R_TILT_EN_def LSM6DS3_ACC_GYRO_W_SLOPE_FDS_def LSM6DS3_ACC_GYRO_R_SLOPE_FDS_def
    LSM6DS3_ACC_GYRO_W_PEDO_EN_def LSM6DS3_ACC_GYRO_R_PEDO_EN_def LSM6DS3_ACC_GYRO_W_TIMER_EN_def
    LSM6DS3_ACC_GYRO_R_TIMER_EN_def LSM6DS3_ACC_GYRO_W_TAP_THS_def LSM6DS3_ACC_GYRO_R_TAP_THS_def
    LSM6DS3_ACC_GYRO_W_SIXD_THS_def LSM6DS3_ACC_GYRO_R_SIXD_THS_def LSM6DS3_ACC_GYRO_W_D4D_def
    LSM6DS3_ACC_GYRO_R_D4D_def LSM6DS3_ACC_GYRO_W_SHOCK_Duration_def LSM6DS3_ACC_GYRO_R_SHOCK_Duration_def
    LSM6DS3_ACC_GYRO_W_QUIET_Duration_def LSM6DS3_ACC_GYRO_R_QUIET_Duration_def LSM6DS3_ACC_GYRO_W_DUR_def
    LSM6DS3_ACC_GYRO_R_DUR_def LSM6DS3_ACC_GYRO_W_WK_THS_def LSM6DS3_ACC_GYRO_R_WK_THS_def
    LSM6DS3_ACC_GYRO_W_INACTIVITY_ON_def LSM6DS3_ACC_GYRO_R_INACTIVITY_ON_def LSM6DS3_ACC_GYRO_W_SINGLE_DOUBLE_TAP_EV_def
    LSM6DS3_ACC_GYRO_R_SINGLE_DOUBLE_TAP_EV_def LSM6DS3_ACC_GYRO_W_SLEEP_DUR_def LSM6DS3_ACC_GYRO_R_SLEEP_DUR_def
    LSM6DS3_ACC_GYRO_W_TIMER_HR_def LSM6DS3_ACC_GYRO_R_TIMER_HR_def LSM6DS3_ACC_GYRO_W_WAKE_DUR_def
    LSM6DS3_ACC_GYRO_R_WAKE_DUR_def LSM6DS3_ACC_GYRO_W_FF_THS_def LSM6DS3_ACC_GYRO_R_FF_THS_def
    LSM6DS3_ACC_GYRO_LIR_t_def LSM6DS3_ACC_GYRO_TAP_Z_EN_t_def LSM6DS3_ACC_GYRO_TAP_Y_EN_t_def
    LSM6DS3_ACC_GYRO_TAP_X_EN_t_def LSM6DS3_ACC_GYRO_TILT_EN_t_def LSM6DS3_ACC_GYRO_SLOPE_FDS_t_def
    LSM6DS3_ACC_GYRO_PEDO_EN_t_def LSM6DS3_ACC_GYRO_TIMER_EN_t_def LSM6DS3_ACC_GYRO_SIXD_THS_t_def
    LSM6DS3_ACC_GYRO_D4D_t_def LSM6DS3_ACC_GYRO_INACTIVITY_ON_t_def LSM6DS3_ACC_GYRO_SINGLE_DOUBLE_TAP_t_def
    LSM6DS3_ACC_GYRO_TIMER_HR_t_def LSM6DS3_ACC_GYRO_FF_THS_t_def)

lemma route_fields_ok: "list_all (field_ok io) (route_fields io)"
  by (simp add: route_fields_def enum_field_ok pos_field_ok
    LSM6DS3_ACC_GYRO_W_TimerEvRouteInt1_def LSM6DS3_ACC_GYRO_R_TimerEvRouteInt1_def LSM6DS3_ACC_GYRO_W_TiltEvOnInt1_def
    LSM6DS3_ACC_GYRO_R_TiltEvOnInt1_def LSM6DS3_ACC_GYRO_W_6DEvOnInt1_def LSM6DS3_ACC_GYRO_R_6DEvOnInt1_def
    LSM6DS3_ACC_GYRO_W_TapEvOnInt1_def LSM6DS3_ACC_GYRO_R_TapEvOnInt1_def LSM6DS3_ACC_GYRO_W_FFEvOnInt1_def
    LSM6DS3_ACC_GYRO_R_FFEvOnInt1_def LSM6DS3_ACC_GYRO_W_WUEvOnInt1_def LSM6DS3_ACC_GYRO_R_WUEvOnInt1_def
    LSM6DS3_ACC_GYRO_W_SingleTapOnInt1_def LSM6DS3_ACC_GYRO_R_SingleTapOnInt1_def LSM6DS3_ACC_GYRO_W_SleepEvOnInt1_def
    LSM6DS3_ACC_GYRO_R_SleepEvOnInt1_def LSM6DS3_ACC_GYRO_W_TimerEvRouteInt2_def LSM6DS3_ACC_GYRO_R_TimerEvRouteInt2_def
    LSM6DS3_ACC_GYRO_W_TiltEvOnInt2_def LSM6DS3_ACC_GYRO_R_TiltEvOnInt2_def LSM6DS3_ACC_GYRO_W_6DEvOnInt2_def
    LSM6DS3_ACC_GYRO_R_6DEvOnInt2_def LSM6DS3_ACC_GYRO_W_TapEvOnInt2_def LSM6DS3_ACC_GYRO_R_TapEvOnInt2_def
    LSM6DS3_ACC_GYRO_W_FFEvOnInt2_def LSM6DS3_ACC_GYRO_R_FFEvOnInt2_def LSM6DS3_ACC_GYRO_W_WUEvOnInt2_def
    LSM6DS3_ACC_GYRO_R_WUEvOnInt2_def LSM6DS3_ACC_GYRO_W_SingleTapOnInt2_def LSM6DS3_ACC_GYRO_R_SingleTapOnInt2_def
    LSM6DS3_ACC_GYRO_W_SleepEvOnInt2_def LSM6DS3_ACC_GYRO_R_SleepEvOnInt2_def LSM6DS3_ACC_GYRO_INT1_TIMER_t_def
    LSM6DS3_ACC_GYRO_INT1_TILT_t_def LSM6DS3_ACC_GYRO_INT1_6D_t_def LSM6DS3_ACC_GYRO_INT1_TAP_t_def
    LSM6DS3_ACC_GYRO_INT1_FF_t_def LSM6DS3_ACC_GYRO_INT1_WU_t_def LSM6DS3_ACC_GYRO_INT1_SINGLE_TAP_t_def
    LSM6DS3_ACC_GYRO_INT1_SLEEP_t_def LSM6DS3_ACC_GYRO_INT2_TIMER_t_def LSM6DS3_ACC_GYRO_INT2_TILT_t_def
    LSM6DS3_ACC_GYRO_INT2_6D_t_def LSM6DS3_ACC_GYRO_INT2_TAP_t_def LSM6DS3_ACC_GYRO_INT2_FF_t_def
    LSM6DS3_ACC_GYRO_INT2_WU_t_def LSM6DS3_ACC_GYRO_INT2_SINGLE_TAP_t_def LSM6DS3_ACC_GYRO_INT2_SLEEP_t_def)

lemma lsm6ds3_fields_ok: "list_all (field_ok io) (lsm6ds3_fields io)"
  by (simp add: lsm6ds3_fields_def ctrl_fields_ok fifo_fields_ok int_fields_ok ctrl_more_fields_ok
      axis_fields_ok tap_fields_ok route_fields_ok)

lemma ctrl_fields_places:
  "disjoint_fields (map (\<lambda>f. (f_reg f, f_mask f)) (ctrl_fields io))"
  "list_all (\<lambda>f. f_reg f \<in> set [LSM6DS3_ACC_GYRO_CTRL3_C, LSM6DS3_ACC_GYRO_CTRL1_XL, LSM6DS3_ACC_GYRO_CTRL2_G, LSM6DS3_ACC_GYRO_FUNC_CFG_ACCESS, LSM6DS3_ACC_GYRO_SENSOR_SYNC_TIME]) (ctrl_fields io)"
  by (simp_all add: ctrl_fields_def disjoint_fields_def enum_field_def pos_field_def)

lemma fifo_fields_places:
  "disjoint_fields (map (\<lambda>f. (f_reg f, f_mask f)) (fifo_fields io))"
  "list_all (\<lambda>f. f_reg f \<in> set [LSM6DS3_ACC_GYRO_FIFO_CTRL2, LSM6DS3_ACC_GYRO_FIFO_CTRL3, LSM6DS3_ACC_GYRO_FIFO_CTRL4, LSM6DS3_ACC_GYRO_FIFO_CTRL5, LSM6DS3_ACC_GYRO_ORIENT_CFG_G]) (fifo_fields io)"
  by (simp_all add: fifo_fields_def disjoint_fields_def enum_field_def pos_field_def)

lemma int_fields_places:
  "disjoint_fields (map (\<lambda>f. (f_reg f, f_mask f)) (int_fields io))"
  "list_all (\<lambda>f. f_reg f \<in> set [LSM6DS3_ACC_GYRO_INT1_CTRL, LSM6DS3_ACC_GYRO_INT2_CTRL]) (int_fields io)"
  by (simp_all add: int_fields_def disjoint_fields_def enum_field_def pos_field_def)

lemma ctrl_more_fields_places:
  "disjoint_fields (map (\<lambda>f. (f_reg f, f_mask f)) (ctrl_more_fields io))"
  "list_all (\<lambda>f. f_reg f \<in> set [LSM6DS3_ACC_GYRO_CTRL4_C, LSM6DS3_ACC_GYRO_CTRL5_C, LSM6DS3_ACC_GYRO_CTRL6_G, LSM6DS3_ACC_GYRO_CTRL7_G]) (ctrl_more_fields io)"
  by (simp_all add: ctrl_more_fields_def disjoint_fields_def enum_field_def pos_field_def)

lemma axis_fields_places:
  "disjoint_fields (map (\<lambda>f. (f_reg f, f_mask f)) (axis_fields io))"
  "list_all (\<lambda>f. f_reg f \<in> set [LSM6DS3_ACC_GYRO_CTRL8_XL, LSM6DS3_ACC_GYRO_CTRL9_XL, LSM6DS3_ACC_GYRO_CTRL10_C, LSM6DS3_ACC_GYRO_MASTER_CONFIG]) (axis_fields io)"
  by (simp_all add: axis_fields_def disjoint_fields_def enum_field_def pos_field_def)

lemma tap_fields_places:
  "disjoint_fields (map (\<lambda>f. (f_reg f, f_mask f)) (tap_fields io))"
  "list_all (\<lambda>f. f_reg f \<in> set [LSM6DS3_ACC_GYRO_TAP_CFG1, LSM6DS3_ACC_GYRO_TAP_THS_6D, LSM6DS3_ACC_GYRO_INT_DUR2, LSM6DS3_ACC_GYRO_WAKE_UP_THS, LSM6DS3_ACC_GYRO_WAKE_UP_DUR, LSM6DS3_ACC_GYRO_FREE_FALL]) (tap_fields io)"
  by (simp_all add: tap_fields_def disjoint_fields_def enum_field_def pos_field_def)

lemma route_fields_places:
  "disjoint_fields (map (\<lambda>f. (f_reg f, f_mask f)) (route_fields io))"
  "list_all (\<lambda>f. f_reg f \<in> set [LSM6DS3_ACC_GYRO_MD1_CFG, LSM6DS3_ACC_GYRO_MD2_CFG]) (route_fields io)"
  by (simp_all add: route_fields_def disjoint_fields_def enum_field_def pos_field_def)

lemma lsm6ds3_fields_disjoint: "disjoint_fields (map (\<lambda>f. (f_reg f, f_mask f)) (lsm6ds3_fields io))"
proof -
  let ?gs = "[([LSM6DS3_ACC_GYRO_CTRL3_C, LSM6DS3_ACC_GYRO_CTRL1_XL, LSM6DS3_ACC_GYRO_CTRL2_G, LSM6DS3_ACC_GYRO_FUNC_CFG_ACCESS, LSM6DS3_ACC_GYRO_SENSOR_SYNC_TIME], ctrl_fields io),
      ([LSM6DS3_ACC_GYRO_FIFO_CTRL2, LSM6DS3_ACC_GYRO_FIFO_CTRL3, LSM6DS3_ACC_GYRO_FIFO_CTRL4, LSM6DS3_ACC_GYRO_FIFO_CTRL5, LSM6DS3_ACC_GYRO_ORIENT_CFG_G], fifo_fields io),
      ([LSM6DS3_ACC_GYRO_INT1_CTRL, LSM6DS3_ACC_GYRO_INT2_CTRL], int_fields io),
      ([LSM6DS3_ACC_GYRO_CTRL4_C, LSM6DS3_ACC_GYRO_CTRL5_C, LSM6DS3_ACC_GYRO_CTRL6_G, LSM6DS3_ACC_GYRO_CTRL7_G], ctrl_more_fields io),
      ([LSM6DS3_ACC_GYRO_CTRL8_XL, LSM6DS3_ACC_GYRO_CTRL9_XL, LSM6DS3_ACC_GYRO_CTRL10_C, LSM6DS3_ACC_GYRO_MASTER_CONFIG], axis_fields io),
      ([LSM6DS3_ACC_GYRO_TAP_CFG1, LSM6DS3_ACC_GYRO_TAP_THS_6D, LSM6DS3_ACC_GYRO_INT_DUR2, LSM6DS3_ACC_GYRO_WAKE_UP_THS, LSM6DS3_ACC_GYRO_WAKE_UP_DUR, LSM6DS3_ACC_GYRO_FREE_FALL], tap_fields io),
      ([LSM6DS3_ACC_GYRO_MD1_CFG, LSM6DS3_ACC_GYRO_MD2_CFG], route_fields io)]"
  have "disjoint_fields (map (\<lambda>f. (f_reg f, f_mask f)) (concat (map snd ?gs)))"
    using ctrl_fields_places [of io] fifo_fields_places [of io] int_fields_places [of io] ctrl_more_fields_places [of io] axis_fields_places [of io] tap_fields_places [of io] route_fields_places [of io]
    by (intro disjoint_fields_groups) simp_all
  then show ?thesis by (simp add: lsm6ds3_fields_def)
qed

interpretation lsm_table: field_table lsm6ds3_fields
  by unfold_locales (rule lsm6ds3_fields_ok, rule lsm6ds3_fields_disjoint)

text \<open>The step counter's two status bits are read through the same mask.\<close>

lemma step_count_delta_reads_overflow:
  "LSM6DS3_ACC_GYRO_R_STEP_COUNT_DELTA io e = LSM6DS3_ACC_GYRO_R_STEP_OVERFLOW io e"
  by (simp add: LSM6DS3_ACC_GYRO_R_STEP_COUNT_DELTA_def LSM6DS3_ACC_GYRO_R_STEP_OVERFLOW_def)

subsection \<open>Measurements\<close>

text \<open>
  The scaling adds half the divisor before a division that truncates towards zero, so that values from
  \<open>-500\<close> on are rounded to the nearest and the others are between half a unit and one and a half too high.
\<close>

lemma trunc_div_1000:
  "0 \<le> y \<Longrightarrow> 1000 * trunc_div y 1000 \<le> y \<and> y < 1000 * trunc_div y 1000 + 1000"
  "y < 0 \<Longrightarrow> y \<le> 1000 * trunc_div y 1000 \<and> 1000 * trunc_div y 1000 < y + 1000"
proof -
  have "x = 1000 * (x div 1000) + x mod 1000" "0 \<le> x mod 1000" "x mod 1000 < 1000" for x :: int by simp_all
  note this [of y] this [of "- y"]
  then show "0 \<le> y \<Longrightarrow> 1000 * trunc_div y 1000 \<le> y \<and> y < 1000 * trunc_div y 1000 + 1000"
    "y < 0 \<Longrightarrow> y \<le> 1000 * trunc_div y 1000 \<and> 1000 * trunc_div y 1000 < y + 1000"
    unfolding trunc_div_def by (split if_split, linarith)+
qed

lemma scaled_nearest: "- 500 \<le> x * s \<Longrightarrow> - 500 \<le> x * s - 1000 * scaled x s \<and> x * s - 1000 * scaled x s < 500"
  using trunc_div_1000(1) [of "x * s + 500"] by (simp add: scaled_def)

lemma scaled_negative: "x * s < - 500 \<Longrightarrow> - 1500 < x * s - 1000 * scaled x s \<and> x * s - 1000 * scaled x s \<le> - 500"
  using trunc_div_1000(2) [of "x * s + 500"] by (simp add: scaled_def)

lemma i16bit_range: "- 32768 \<le> i16bit raw i" "i16bit raw i \<le> 32767"
proof -
  have "- (2 ^ (LENGTH(16) - 1)) \<le> sint (w :: u16)" "sint w < 2 ^ (LENGTH(16) - 1)" for w
    by (rule sint_ge, rule sint_lt)
  note r = this [of "ucast (raw ! (2 * i)) OR push_bit 8 (ucast (raw ! (2 * i + 1)))"]
  show "- 32768 \<le> i16bit raw i" using r(1) by (simp add: i16bit_def)
  show "i16bit raw i \<le> 32767" using r(2) by (simp add: i16bit_def)
qed

text \<open>The 16-bit value in the registers \<open>a\<close> and \<open>a + 1\<close>, the low byte first.\<close>

definition axis_value :: "(u8 \<Rightarrow> u8) \<Rightarrow> u8 \<Rightarrow> nat \<Rightarrow> int" where
  "axis_value r a i = sint (ucast (r (a + of_nat (2 * i))) OR push_bit 8 (ucast (r (a + of_nat (2 * i + 1)))) :: u16)"

text \<open>The full scale that a value of CTRL1_XL selects, in g, and that of CTRL2_G, in multiples of 125 dps.\<close>

definition full_scale_g :: "u8 \<Rightarrow> int" where
  "full_scale_g ctrl = [2, 16, 4, 8] ! unat (drop_bit 2 (ctrl AND 0x0C))"

definition full_scale_125dps :: "u8 \<Rightarrow> int" where
  "full_scale_125dps ctrl = (if ctrl AND 0x02 = 0x02 then 1 else [2, 4, 8, 16] ! unat (drop_bit 2 (ctrl AND 0x0C)))"

lemma two_bits: "v AND 0x0C = (if bit v 2 then 4 else 0) OR (if bit v 3 then 8 else 0)" for v :: u8
proof (rule bit_word_eqI)
  fix n
  assume "n < LENGTH(8)"
  then have "n = 0 \<or> n = 1 \<or> n = 2 \<or> n = 3 \<or> n = 4 \<or> n = 5 \<or> n = 6 \<or> n = 7" by auto
  then show "bit (v AND 0x0C) n \<longleftrightarrow> bit ((if bit v 2 then 4 else 0) OR (if bit v 3 then 8 else 0 :: u8)) n"
    by (auto simp: bit_and_iff bit_or_iff)
qed

lemma two_bits_cases:
  fixes v :: u8
  obtains "v AND 0x0C = 0" | "v AND 0x0C = 4" | "v AND 0x0C = 8" | "v AND 0x0C = 0xC"
  using that by (cases "bit v 2"; cases "bit v 3"; simp add: two_bits)

lemma raw_axes_regs:
  "raw_axes (map (\<lambda>j. r (a + of_nat j)) [0..<6]) s = map (\<lambda>i. scaled (axis_value r a i) s) [0..<3]"
  by (simp add: raw_axes_def i16bit_def axis_value_def upt_rec numeral_eq_Suc)

text \<open>What a measurement is worth: the value of the axis times the sensitivity, within the error of the rounding.\<close>

definition measured :: "int \<Rightarrow> int \<Rightarrow> int \<Rightarrow> bool" where
  "measured x s v \<longleftrightarrow> \<bar>v\<bar> < 2 ^ 31 \<and>
     (if - 500 \<le> x * s then - 500 \<le> x * s - 1000 * v \<and> x * s - 1000 * v < 500
      else - 1500 < x * s - 1000 * v \<and> x * s - 1000 * v \<le> - 500)"

lemma axis_value_range: "- 32768 \<le> axis_value r a i" "axis_value r a i \<le> 32767"
proof -
  have "- (2 ^ (LENGTH(16) - 1)) \<le> sint (w :: u16)" "sint w < 2 ^ (LENGTH(16) - 1)" for w
    by (rule sint_ge, rule sint_lt)
  note r = this [of "ucast (r (a + of_nat (2 * i))) OR push_bit 8 (ucast (r (a + of_nat (2 * i + 1))))"]
  show "- 32768 \<le> axis_value r a i" using r(1) by (simp add: axis_value_def)
  show "axis_value r a i \<le> 32767" using r(2) by (simp add: axis_value_def)
qed

lemma measured_axis:
  assumes "0 \<le> s" "s \<le> 70000"
  shows "measured (axis_value r a i) s (scaled (axis_value r a i) s)"
proof -
  let ?x = "axis_value r a i"
  have "?x * s \<le> 32767 * 70000" by (rule mult_mono) (use axis_value_range assms in auto)
  moreover have "(- ?x) * s \<le> 32768 * 70000"
    by (rule mult_mono) (use axis_value_range [of r a i] assms in auto)
  ultimately have x: "- (32768 * 70000) \<le> ?x * s" "?x * s \<le> 32767 * 70000" by simp_all
  show ?thesis
  proof (cases "- 500 \<le> ?x * s")
    case True
    then show ?thesis using scaled_nearest [OF True] x unfolding measured_def by simp
  next
    case False
    then show ?thesis using scaled_negative [of ?x s] x unfolding measured_def by simp
  qed
qed

lemma get_acceleration_regs:
  assumes "register_bus io regs A" "reads_succeed io A" "LSM6DS3_ACC_GYRO_CTRL1_XL \<in> A"
    "\<forall>k < 6. LSM6DS3_ACC_GYRO_OUTX_L_XL + of_nat k \<in> A" "length raw = 6"
  shows "\<exists>e'. LSM6DS3_ACC_Get_Acceleration io raw False e =
    (MEMS_SUCCESS, map (\<lambda>i. scaled (axis_value (regs e) LSM6DS3_ACC_GYRO_OUTX_L_XL i)
       (61 * full_scale_g (regs e LSM6DS3_ACC_GYRO_CTRL1_XL) div 2)) [0..<3], e')"
proof -
  let ?c = "regs e LSM6DS3_ACC_GYRO_CTRL1_XL"
  obtain e1 where e1: "read_pos_field io LSM6DS3_ACC_GYRO_CTRL1_XL LSM6DS3_ACC_GYRO_FS_XL_MASK 0 e =
      (MEMS_SUCCESS, ?c AND LSM6DS3_ACC_GYRO_FS_XL_MASK, e1)" "\<And>x. x \<in> A \<Longrightarrow> regs e1 x = regs e x"
    using reads_succeed_pos [OF assms(1-3), where e = e and p = 0] by auto
  obtain e2 where e2: "read_regs io LSM6DS3_ACC_GYRO_OUTX_L_XL 0 6 raw e1 =
      (MEMS_SUCCESS, map (\<lambda>j. regs e1 (LSM6DS3_ACC_GYRO_OUTX_L_XL + of_nat j)) [0..<6], e2)"
    using read_regs_succeed [OF assms(1,2), where n = 6 and k = 0 and buff = raw and e = e1
        and base = LSM6DS3_ACC_GYRO_OUTX_L_XL] assms(4,5) by auto
  have "map (\<lambda>j. regs e1 (LSM6DS3_ACC_GYRO_OUTX_L_XL + of_nat j)) [0..<6] =
      map (\<lambda>j. regs e (LSM6DS3_ACC_GYRO_OUTX_L_XL + of_nat j)) [0..<6]"
    using e1(2) assms(4) by (intro map_cong) auto
  with e2 have raw: "LSM6DS3_ACC_GYRO_GetRawAccData io raw e1 =
      (MEMS_SUCCESS, map (\<lambda>j. regs e (LSM6DS3_ACC_GYRO_OUTX_L_XL + of_nat j)) [0..<6], e2)"
    by (simp add: LSM6DS3_ACC_GYRO_GetRawAccData_def)
  have fs: "LSM6DS3_ACC_GYRO_R_FS_XL io e = (MEMS_SUCCESS, ?c AND 0x0C, e1)"
    using e1(1) by (simp add: LSM6DS3_ACC_GYRO_R_FS_XL_def read_field_pos)
  show ?thesis
    by (rule two_bits_cases [of ?c])
      (simp_all add: LSM6DS3_ACC_Get_Acceleration_def fs raw raw_axes_regs full_scale_g_def
        LSM6DS3_ACC_Sensitivity_List_def del: upt_rec_numeral)
qed

lemma get_angular_rate_regs:
  assumes "register_bus io regs A" "reads_succeed io A" "LSM6DS3_ACC_GYRO_CTRL2_G \<in> A"
    "\<forall>k < 6. LSM6DS3_ACC_GYRO_OUTX_L_G + of_nat k \<in> A" "length raw = 6"
  shows "\<exists>e'. LSM6DS3_ACC_Get_AngularRate io raw False e =
    (MEMS_SUCCESS, map (\<lambda>i. scaled (axis_value (regs e) LSM6DS3_ACC_GYRO_OUTX_L_G i)
       (4375 * full_scale_125dps (regs e LSM6DS3_ACC_GYRO_CTRL2_G))) [0..<3], e')"
proof -
  let ?c = "regs e LSM6DS3_ACC_GYRO_CTRL2_G"
  obtain e0 where e0: "read_pos_field io LSM6DS3_ACC_GYRO_CTRL2_G LSM6DS3_ACC_GYRO_FS_125_MASK 0 e =
      (MEMS_SUCCESS, ?c AND LSM6DS3_ACC_GYRO_FS_125_MASK, e0)" "\<And>x. x \<in> A \<Longrightarrow> regs e0 x = regs e x"
    using reads_succeed_pos [OF assms(1-3), where e = e and p = 0] by auto
  obtain e1 where e1: "read_pos_field io LSM6DS3_ACC_GYRO_CTRL2_G LSM6DS3_ACC_GYRO_FS_G_MASK 0 e0 =
      (MEMS_SUCCESS, ?c AND LSM6DS3_ACC_GYRO_FS_G_MASK, e1)" "\<And>x. x \<in> A \<Longrightarrow> regs e1 x = regs e x"
    using reads_succeed_pos [OF assms(1-3), where e = e0 and p = 0] e0(2) assms(3) by auto
  have raw: "\<exists>e2. LSM6DS3_ACC_GYRO_GetRawGyroData io raw s =
      (MEMS_SUCCESS, map (\<lambda>j. regs e (LSM6DS3_ACC_GYRO_OUTX_L_G + of_nat j)) [0..<6], e2)"
    if "\<And>x. x \<in> A \<Longrightarrow> regs s x = regs e x" for s
    using read_regs_succeed [OF assms(1,2), where n = 6 and k = 0 and buff = raw and e = s
        and base = LSM6DS3_ACC_GYRO_OUTX_L_G] assms(4,5) that
    by (auto simp: LSM6DS3_ACC_GYRO_GetRawGyroData_def del: upt_rec_numeral)
  have fs_125: "LSM6DS3_ACC_GYRO_R_FS_125 io e = (MEMS_SUCCESS, ?c AND 0x02, e0)"
    using e0(1) by (simp add: LSM6DS3_ACC_GYRO_R_FS_125_def read_field_pos)
  have fs: "LSM6DS3_ACC_GYRO_R_FS_G io e0 = (MEMS_SUCCESS, ?c AND 0x0C, e1)"
    using e1(1) by (simp add: LSM6DS3_ACC_GYRO_R_FS_G_def read_field_pos)
  note defs = LSM6DS3_ACC_Get_AngularRate_def fs_125 raw_axes_regs full_scale_125dps_def LSM6DS3_GYRO_Sensitivity_List_def
  show ?thesis
  proof (cases "?c AND 0x02 = 0x02")
    case True
    obtain e2 where "LSM6DS3_ACC_GYRO_GetRawGyroData io raw e0 =
        (MEMS_SUCCESS, map (\<lambda>j. regs e (LSM6DS3_ACC_GYRO_OUTX_L_G + of_nat j)) [0..<6], e2)"
      using raw [OF e0(2)] by blast
    then show ?thesis using True by (simp add: defs del: upt_rec_numeral)
  next
    case False
    obtain e2 where r: "LSM6DS3_ACC_GYRO_GetRawGyroData io raw e1 =
        (MEMS_SUCCESS, map (\<lambda>j. regs e (LSM6DS3_ACC_GYRO_OUTX_L_G + of_nat j)) [0..<6], e2)"
      using raw [of e1] e0(2) e1(2) by auto
    show ?thesis
      by (rule two_bits_cases [of ?c]) (simp_all add: defs fs r False del: upt_rec_numeral)
  qed
qed

subsection \<open>Values in two registers\<close>

lemma write_split_regs:
  assumes "register_bus io regs A" "rl \<in> A" "rh \<in> A" "rl \<noteq> rh"
    and "write_split io (rl, ml, pl) (rh, mh, ph) vl vh e = (MEMS_SUCCESS, e')"
  shows "regs e' rl = (regs e rl AND NOT ml) OR (push_bit pl vl AND ml)"
    "regs e' rh = (regs e rh AND NOT mh) OR (push_bit ph vh AND mh)"
    "x \<in> A \<Longrightarrow> x \<noteq> rl \<Longrightarrow> x \<noteq> rh \<Longrightarrow> regs e' x = regs e x"
proof -
  obtain st e1 where w: "write_field io rl ml (push_bit pl vl AND ml) e = (st, e1)" by fastforce
  with assms(5) have st: "st = MEMS_SUCCESS" and w': "write_field io rh mh (push_bit ph vh AND mh) e1 = (MEMS_SUCCESS, e')"
    by (cases st; simp add: write_split_def write_pos_field_def)+
  note 1 = write_field_regs [OF assms(1,2) w]
  note 2 = write_field_regs [OF assms(1,3) w']
  show "regs e' rl = (regs e rl AND NOT ml) OR (push_bit pl vl AND ml)"
    using 1(2) [OF st] 2(1) [OF assms(2,4)] by simp
  show "regs e' rh = (regs e rh AND NOT mh) OR (push_bit ph vh AND mh)"
    using 1(1) [OF assms(3)] assms(4) 2(2) by simp
  show "x \<in> A \<Longrightarrow> x \<noteq> rl \<Longrightarrow> x \<noteq> rh \<Longrightarrow> regs e' x = regs e x" using 1(1) 2(1) by simp
qed

lemma read_split_regs:
  assumes "register_bus io regs A" "rl \<in> A" "rh \<in> A"
    and "read_split io (rl, ml, pl) (rh, mh, ph) e = (Some (vl, vh), e')"
  shows "vl = drop_bit pl (regs e rl AND ml)" "vh = drop_bit ph (regs e rh AND mh)"
proof -
  obtain st v e1 where r: "read_pos_field io rl ml pl e = (st, v, e1)" using prod_cases3 by blast
  obtain st2 v2 e2 where r2: "read_pos_field io rh mh ph e1 = (st2, v2, e2)" using prod_cases3 by blast
  have s: "st = MEMS_SUCCESS" "st2 = MEMS_SUCCESS" "v = vl" "v2 = vh"
    using assms(4) by (cases st; cases st2; simp add: read_split_def r r2)+
  show "vl = drop_bit pl (regs e rl AND ml)" using read_pos_field_regs(2) [OF assms(1,2) r] s by simp
  show "vh = drop_bit ph (regs e rh AND mh)"
    using read_pos_field_regs(1) [OF assms(1,2) r assms(3)] read_pos_field_regs(2) [OF assms(1,3) r2] s by simp
qed

lemma watermark_value:
  "value16 (ucast (v AND 0xFF) AND 0xFF, ucast (drop_bit 8 v AND 0xFF) AND 0x0F) = v AND 0x0FFF" for v :: u16
proof -
  have m: "(0xFF :: u8) = mask 8" "(0x0F :: u8) = mask 4" "(0xFF :: u16) = mask 8"
    "(0xFF00 :: u16) = push_bit 8 (mask 8)" "(0x0FFF :: u16) = mask 12"
    by (simp_all add: mask_eq_exp_minus_1 push_bit_eq_mult)
  show ?thesis
    unfolding value16_def prod.case m
    by (rule bit_word_eqI) (auto simp: bit_simps)
qed

subsection \<open>Waiting for the sensor hub\<close>

fun polled :: "'e sensor_io \<Rightarrow> nat \<Rightarrow> 'e \<Rightarrow> 'e" where
  "polled io 0 e = e"
| "polled io (Suc n) e = polled io n (snd (snd (LSM6DS3_ACC_GYRO_R_SENS_HUB_END io e)))"

definition hub_completed :: "'e sensor_io \<Rightarrow> 'e \<Rightarrow> bool" where
  "hub_completed io e \<longleftrightarrow> fst (snd (LSM6DS3_ACC_GYRO_R_SENS_HUB_END io e)) = LSM6DS3_ACC_GYRO_SENS_HUB_END_OP_COMPLETED"

lemma sens_hub_wait_Suc:
  "sens_hub_wait io e = (let s = snd (snd (LSM6DS3_ACC_GYRO_R_SENS_HUB_END io e)) in
     if hub_completed io e then Some s else sens_hub_wait io s)"
  by (subst sens_hub_wait.simps) (simp add: hub_completed_def Let_def split: prod.splits)

lemma sens_hub_wait_returns: "hub_completed io (polled io n e) \<Longrightarrow> \<exists>s. sens_hub_wait io e = Some s"
proof (induction n arbitrary: e)
  case 0
  then show ?case by (subst sens_hub_wait_Suc) (simp add: Let_def)
next
  case (Suc n)
  then obtain s where "sens_hub_wait io (snd (snd (LSM6DS3_ACC_GYRO_R_SENS_HUB_END io e))) = Some s" by auto
  then show ?case by (subst sens_hub_wait_Suc) (simp add: Let_def)
qed

lemma sens_hub_wait_completed: "sens_hub_wait io e = Some s \<Longrightarrow> \<exists>n. hub_completed io (polled io n e)"
proof (induction rule: sens_hub_wait.raw_induct [rotated 1, consumes 1])
  case (1 wait io e s)
  show ?case
  proof (cases "hub_completed io e")
    case True
    then have "hub_completed io (polled io 0 e)" by simp
    then show ?thesis ..
  next
    case False
    then have "wait io (snd (snd (LSM6DS3_ACC_GYRO_R_SENS_HUB_END io e))) = Some s"
      using 1(2) by (simp add: hub_completed_def split: prod.splits)
    from 1(1) [OF this] obtain n where "hub_completed io (polled io (Suc n) e)" by auto
    then show ?thesis ..
  qed
qed

subsection \<open>Properties\<close>

text \<open>
  C32. Every accessor that writes a field, given a value of the field's type (or one that fits its
  bits), changes no other register and no other bit of its register, whether or not the transfers
  succeed; if the write has succeeded, the accessor that reads the field returns the value
  written, and those that read other fields return what they would have returned before.
  This holds for all 123 fields of the driver that can be written, on any device whose
  registers hold what is written to them.
\<close>

theorem lsm6ds3_fields_spec:
  assumes "register_bus io regs A" "i < length (lsm6ds3_fields io)" "f = lsm6ds3_fields io ! i" "f_reg f \<in> A"
    and "f_values f v" "f_write f v e = (st, e')"
  shows "(\<forall>x \<in> A. x \<noteq> f_reg f \<longrightarrow> regs e' x = regs e x) \<and>
    regs e' (f_reg f) AND NOT (f_mask f) = regs e (f_reg f) AND NOT (f_mask f) \<and>
    (st = MEMS_SUCCESS \<longrightarrow> (\<forall>w e''. f_read f e' = (MEMS_SUCCESS, w, e'') \<longrightarrow> w = v)) \<and>
    (\<forall>j < length (lsm6ds3_fields io). \<forall>g w w' e1 e2. j \<noteq> i \<longrightarrow> g = lsm6ds3_fields io ! j \<longrightarrow> f_reg g \<in> A \<longrightarrow>
       f_read g e = (MEMS_SUCCESS, w, e1) \<longrightarrow> f_read g e' = (MEMS_SUCCESS, w', e2) \<longrightarrow> w' = w)"
  by (rule lsm_table.spec_independent [OF assms])

theorem lsm6ds3_fields_spec_witness:
  "\<exists>e'. LSM6DS3_ACC_GYRO_W_BDU register_file 0x40 (\<lambda>a. 0x05) = (MEMS_SUCCESS, e') \<and>
     e' LSM6DS3_ACC_GYRO_CTRL1_XL = 0x05 \<and> fst (snd (LSM6DS3_ACC_GYRO_R_BDU register_file e')) = 0x40 \<and>
     fst (snd (LSM6DS3_ACC_GYRO_R_SW_RESET register_file e')) = 0x01"
proof -
  let ?io = register_file
  let ?fs = "lsm6ds3_fields ?io"
  have nth: "?fs ! 0 = enum_field (LSM6DS3_ACC_GYRO_W_BDU ?io) (LSM6DS3_ACC_GYRO_R_BDU ?io)
      LSM6DS3_ACC_GYRO_CTRL3_C LSM6DS3_ACC_GYRO_BDU_MASK LSM6DS3_ACC_GYRO_BDU_t"
    "?fs ! 1 = enum_field (LSM6DS3_ACC_GYRO_W_SW_RESET ?io) (LSM6DS3_ACC_GYRO_R_SW_RESET ?io)
      LSM6DS3_ACC_GYRO_CTRL3_C LSM6DS3_ACC_GYRO_SW_RESET_MASK LSM6DS3_ACC_GYRO_SW_RESET_t"
    and l: "1 < length ?fs" "0 < length ?fs"
    by (simp_all add: lsm6ds3_fields_def ctrl_fields_def)
  let ?e' = "(\<lambda>a. 0x05)(LSM6DS3_ACC_GYRO_CTRL3_C := 0x45 :: u8)"
  have w: "f_write (?fs ! 0) 0x40 (\<lambda>a. 0x05) = (MEMS_SUCCESS, ?e')"
    unfolding nth by (simp add: enum_field_def LSM6DS3_ACC_GYRO_W_BDU_def)
  have r: "f_read (?fs ! 1) (\<lambda>a. 0x05) = (MEMS_SUCCESS, 0x01, \<lambda>a. 0x05)"
    unfolding nth by (simp add: enum_field_def LSM6DS3_ACC_GYRO_R_SW_RESET_def read_field_pos)
  obtain u where r0: "f_read (?fs ! 0) ?e' = (MEMS_SUCCESS, u, ?e')"
    unfolding nth by (simp add: enum_field_def LSM6DS3_ACC_GYRO_R_BDU_def read_field_pos)
  obtain v where r1: "f_read (?fs ! 1) ?e' = (MEMS_SUCCESS, v, ?e')"
    unfolding nth by (simp add: enum_field_def LSM6DS3_ACC_GYRO_R_SW_RESET_def read_field_pos)
  have "f_values (?fs ! 0) 0x40" unfolding nth by (simp add: enum_field_def LSM6DS3_ACC_GYRO_BDU_t_def)
  from lsm6ds3_fields_spec [OF register_file_bus l(2) refl _ this w, of UNIV]
  have "u = 0x40" "v = 0x01" using r0 r r1 l(1) by (blast, metis UNIV_I zero_neq_one)
  then show ?thesis
    using w r0 r1 unfolding nth by (intro exI [of _ ?e']) (simp add: enum_field_def)
qed

text \<open>
  If setting the FIFO watermark has succeeded, then reading it back gives the low 12 bits of the
  value, although it is spread over two registers; the other bits of the second register, which
  hold the settings of the pedometer and the timer, are as before.
\<close>

lemma lsm6ds3_watermark_roundtrip:
  assumes "register_bus io regs A" "{LSM6DS3_ACC_GYRO_FIFO_CTRL1, LSM6DS3_ACC_GYRO_FIFO_CTRL2} \<subseteq> A"
    and "LSM6DS3_ACC_GYRO_W_FIFO_Watermark io v e = (MEMS_SUCCESS, e')"
    and "LSM6DS3_ACC_GYRO_R_FIFO_Watermark io e' = (MEMS_SUCCESS, w, e'')"
  shows "w = Some (v AND 0x0FFF) \<and>
    regs e' LSM6DS3_ACC_GYRO_FIFO_CTRL2 AND 0xF0 = regs e LSM6DS3_ACC_GYRO_FIFO_CTRL2 AND 0xF0"
proof -
  have A: "LSM6DS3_ACC_GYRO_FIFO_CTRL1 \<in> A" "LSM6DS3_ACC_GYRO_FIFO_CTRL2 \<in> A" using assms(2) by auto
  have ne: "LSM6DS3_ACC_GYRO_FIFO_CTRL1 \<noteq> LSM6DS3_ACC_GYRO_FIFO_CTRL2" by simp
  note wr = write_split_regs [OF assms(1) A ne assms(3) [unfolded LSM6DS3_ACC_GYRO_W_FIFO_Watermark_def]]
  from assms(4) obtain vl vh where w: "w = Some (value16 (vl, vh))" and
    rd: "read_split io
      (LSM6DS3_ACC_GYRO_FIFO_CTRL1, LSM6DS3_ACC_GYRO_WTM_FIFO_CTRL1_MASK, LSM6DS3_ACC_GYRO_WTM_FIFO_CTRL1_POSITION)
      (LSM6DS3_ACC_GYRO_FIFO_CTRL2, LSM6DS3_ACC_GYRO_WTM_FIFO_CTRL2_MASK, LSM6DS3_ACC_GYRO_WTM_FIFO_CTRL2_POSITION)
      e' = (Some (vl, vh), e'')"
    by (auto simp: LSM6DS3_ACC_GYRO_R_FIFO_Watermark_def read_value16_def split: prod.splits option.splits)
  note v = read_split_regs [OF assms(1) A rd]
  have "vl = ucast (v AND 0xFF) AND 0xFF" by (simp only: v(1) wr(1) field_bits drop_bit_0 push_bit_of_0 id_apply push_bit_0_id)
  moreover have "vh = ucast (drop_bit 8 v AND 0xFF) AND 0x0F" by (simp only: v(2) wr(2) field_bits drop_bit_0 push_bit_of_0 id_apply push_bit_0_id)
  moreover have "regs e' LSM6DS3_ACC_GYRO_FIFO_CTRL2 AND 0xF0 = regs e LSM6DS3_ACC_GYRO_FIFO_CTRL2 AND 0xF0"
    by (simp only: wr(2)) (rule other_bits, simp)
  ultimately show ?thesis using w watermark_value by simp
qed

lemma lsm6ds3_watermark_roundtrip_witness:
  "\<exists>e' e''. LSM6DS3_ACC_GYRO_W_FIFO_Watermark register_file 0x1234 (\<lambda>a. 0xC7) = (MEMS_SUCCESS, e') \<and>
     LSM6DS3_ACC_GYRO_R_FIFO_Watermark register_file e' = (MEMS_SUCCESS, Some 0x234, e'') \<and>
     e' LSM6DS3_ACC_GYRO_FIFO_CTRL2 AND 0xF0 = 0xC0"
proof -
  obtain e' where w: "LSM6DS3_ACC_GYRO_W_FIFO_Watermark register_file 0x1234 (\<lambda>a. 0xC7) = (MEMS_SUCCESS, e')"
    by (simp add: LSM6DS3_ACC_GYRO_W_FIFO_Watermark_def write_split_def write_pos_field_def)
  obtain v e'' where r: "LSM6DS3_ACC_GYRO_R_FIFO_Watermark register_file e' = (MEMS_SUCCESS, v, e'')"
    by (simp add: LSM6DS3_ACC_GYRO_R_FIFO_Watermark_def read_value16_def read_split_def)
  show ?thesis
    using lsm6ds3_watermark_roundtrip [OF register_file_bus _ w r, of UNIV] w r by simp
qed


text \<open>
  C33. On a device whose registers can be read, the acceleration is returned for every setting of the
  full scale as the 16-bit two's complement values of the six output registers, low byte first,
  times the sensitivity, divided by 1000: no 64-bit product overflows, each result fits an \<^verbatim>\<open>int\<close>, results
  are nearest to the exact quotient if that is at least -0.5, and else between 0.5 and 1.5 too high.
\<close>

theorem lsm6ds3_acceleration_spec:
  assumes "register_bus io regs A" "reads_succeed io A" "LSM6DS3_ACC_GYRO_CTRL1_XL \<in> A"
    "\<forall>k < 6. LSM6DS3_ACC_GYRO_OUTX_L_XL + of_nat k \<in> A" "length raw = 6"
    and "s = 61 * full_scale_g (regs e LSM6DS3_ACC_GYRO_CTRL1_XL) div 2"
  shows "\<exists>v e'. LSM6DS3_ACC_Get_Acceleration io raw False e = (MEMS_SUCCESS, v, e') \<and> length v = 3 \<and>
    (\<forall>i < 3. measured (axis_value (regs e) LSM6DS3_ACC_GYRO_OUTX_L_XL i) s (v ! i))"
proof -
  have "0 \<le> s \<and> s \<le> 70000"
    by (rule two_bits_cases [of "regs e LSM6DS3_ACC_GYRO_CTRL1_XL"]) (simp_all add: assms(6) full_scale_g_def)
  then show ?thesis
    using get_acceleration_regs [OF assms(1-5), of e] assms(6) by (auto simp: measured_axis)
qed

theorem lsm6ds3_acceleration_spec_witness:
  "\<exists>v e'. LSM6DS3_ACC_Get_Acceleration register_file (replicate 6 0) False (\<lambda>a. if a = 0x29 then 0xC0 else 0x04) =
     (MEMS_SUCCESS, v, e') \<and> measured (- 16380) 488 (v ! 0)"
proof -
  let ?e = "(\<lambda>a. if a = 0x29 then 0xC0 else 0x04) :: u8 \<Rightarrow> u8"
  have "axis_value ?e LSM6DS3_ACC_GYRO_OUTX_L_XL 0 = - 16380" by (simp add: axis_value_def)
  then show ?thesis
    using lsm6ds3_acceleration_spec [where io = register_file and regs = "\<lambda>e. e" and A = UNIV and e = ?e and s = 488
        and raw = "replicate 6 0"]
    by (fastforce simp: register_file_bus register_file_reads full_scale_g_def)
qed


text \<open>The same of the angular rate, for the four full scales and the one of 125 dps.\<close>

theorem lsm6ds3_angular_rate_spec:
  assumes "register_bus io regs A" "reads_succeed io A" "LSM6DS3_ACC_GYRO_CTRL2_G \<in> A"
    "\<forall>k < 6. LSM6DS3_ACC_GYRO_OUTX_L_G + of_nat k \<in> A" "length raw = 6"
    and "s = 4375 * full_scale_125dps (regs e LSM6DS3_ACC_GYRO_CTRL2_G)"
  shows "\<exists>v e'. LSM6DS3_ACC_Get_AngularRate io raw False e = (MEMS_SUCCESS, v, e') \<and> length v = 3 \<and>
    (\<forall>i < 3. measured (axis_value (regs e) LSM6DS3_ACC_GYRO_OUTX_L_G i) s (v ! i))"
proof -
  have "0 \<le> s \<and> s \<le> 70000"
    by (rule two_bits_cases [of "regs e LSM6DS3_ACC_GYRO_CTRL2_G"]) (simp_all add: assms(6) full_scale_125dps_def)
  then show ?thesis
    using get_angular_rate_regs [OF assms(1-5), of e] assms(6) by (auto simp: measured_axis)
qed

theorem lsm6ds3_angular_rate_spec_witness:
  "\<exists>v e'. LSM6DS3_ACC_Get_AngularRate register_file (replicate 6 0) False (\<lambda>a. if a = 0x11 then 0x0C else 0x01) =
     (MEMS_SUCCESS, v, e') \<and> measured 257 70000 (v ! 0)"
proof -
  let ?e = "(\<lambda>a. if a = 0x11 then 0x0C else 0x01) :: u8 \<Rightarrow> u8"
  have "axis_value ?e LSM6DS3_ACC_GYRO_OUTX_L_G 0 = 257" by (simp add: axis_value_def)
  then show ?thesis
    using lsm6ds3_angular_rate_spec [where io = register_file and regs = "\<lambda>e. e" and A = UNIV and e = ?e and s = 70000
        and raw = "replicate 6 0"]
    by (fastforce simp: register_file_bus register_file_reads full_scale_125dps_def)
qed


text \<open>
  Reading a slave of the sensor hub returns if and only if one of the status reads that follow its
  programming gives the bit of a completed operation. There is no bound on them and their status is not
  looked at, so that a bus on which they all fail, or a slave that does not answer, blocks the caller.
\<close>

lemma lsm6ds3_hub_read_returns:
  "LSM6DS3_ACC_GYRO_SH0_ReadMem io SlvAddr Reg len stop e \<noteq> None \<longleftrightarrow>
     (\<exists>n. hub_completed io (polled io n (snd (LSM6DS3_ACC_GYRO_SH0_Program io SlvAddr Reg len e))))"
proof -
  have "LSM6DS3_ACC_GYRO_SH0_ReadMem io SlvAddr Reg len stop e \<noteq> None \<longleftrightarrow>
      (\<exists>s. sens_hub_wait io (snd (LSM6DS3_ACC_GYRO_SH0_Program io SlvAddr Reg len e)) = Some s)"
    by (simp add: LSM6DS3_ACC_GYRO_SH0_ReadMem_def Let_def split: option.splits prod.splits)
  then show ?thesis using sens_hub_wait_returns sens_hub_wait_completed by metis
qed

end
