(* ===== verification/Lis3mdl.thy ===== *)
theory Lis3mdl
  imports SensorBus
begin

text \<open>
  The driver of the LIS3MDL magnetometer, \<^verbatim>\<open>CoreSensors/src/LIS3MDLSensor/LIS3MDL_MAG_driver.c\<close>: its
  accessors in the order of the code, with the constants and enumerations of its header, the
  functions over several registers, and the theorems on its fields.
\<close>

unbundle bit_operations_syntax

subsection \<open>Registers and masks\<close>

abbreviation (input) "LIS3MDL_MAG_WHO_AM_I_REG \<equiv> 0x0F :: u8"
abbreviation (input) "LIS3MDL_MAG_WHO_AM_I_BIT_MASK \<equiv> 0xFF :: u8"
abbreviation (input) "LIS3MDL_MAG_CTRL_REG3 \<equiv> 0x22 :: u8"
abbreviation (input) "LIS3MDL_MAG_MD_MASK \<equiv> 0x03 :: u8"
abbreviation (input) "LIS3MDL_MAG_CTRL_REG5 \<equiv> 0x24 :: u8"
abbreviation (input) "LIS3MDL_MAG_BDU_MASK \<equiv> 0x40 :: u8"
abbreviation (input) "LIS3MDL_MAG_CTRL_REG2 \<equiv> 0x21 :: u8"
abbreviation (input) "LIS3MDL_MAG_FS_MASK \<equiv> 0x60 :: u8"
abbreviation (input) "LIS3MDL_MAG_CTRL_REG1 \<equiv> 0x20 :: u8"
abbreviation (input) "LIS3MDL_MAG_DO_MASK \<equiv> 0x1C :: u8"
abbreviation (input) "LIS3MDL_MAG_ST_MASK \<equiv> 0x01 :: u8"
abbreviation (input) "LIS3MDL_MAG_OM_MASK \<equiv> 0x60 :: u8"
abbreviation (input) "LIS3MDL_MAG_TEMP_EN_MASK \<equiv> 0x80 :: u8"
abbreviation (input) "LIS3MDL_MAG_SOFT_RST_MASK \<equiv> 0x04 :: u8"
abbreviation (input) "LIS3MDL_MAG_REBOOT_MASK \<equiv> 0x08 :: u8"
abbreviation (input) "LIS3MDL_MAG_SIM_MASK \<equiv> 0x04 :: u8"
abbreviation (input) "LIS3MDL_MAG_LP_MASK \<equiv> 0x20 :: u8"
abbreviation (input) "LIS3MDL_MAG_CTRL_REG4 \<equiv> 0x23 :: u8"
abbreviation (input) "LIS3MDL_MAG_BLE_MASK \<equiv> 0x02 :: u8"
abbreviation (input) "LIS3MDL_MAG_OMZ_MASK \<equiv> 0x0C :: u8"
abbreviation (input) "LIS3MDL_MAG_STATUS_REG \<equiv> 0x27 :: u8"
abbreviation (input) "LIS3MDL_MAG_XDA_MASK \<equiv> 0x01 :: u8"
abbreviation (input) "LIS3MDL_MAG_YDA_MASK \<equiv> 0x02 :: u8"
abbreviation (input) "LIS3MDL_MAG_ZDA_MASK \<equiv> 0x04 :: u8"
abbreviation (input) "LIS3MDL_MAG_ZYXDA_MASK \<equiv> 0x08 :: u8"
abbreviation (input) "LIS3MDL_MAG_XOR_MASK \<equiv> 0x10 :: u8"
abbreviation (input) "LIS3MDL_MAG_YOR_MASK \<equiv> 0x20 :: u8"
abbreviation (input) "LIS3MDL_MAG_ZOR_MASK \<equiv> 0x40 :: u8"
abbreviation (input) "LIS3MDL_MAG_ZYXOR_MASK \<equiv> 0x80 :: u8"
abbreviation (input) "LIS3MDL_MAG_INT_CFG \<equiv> 0x30 :: u8"
abbreviation (input) "LIS3MDL_MAG_IEN_MASK \<equiv> 0x01 :: u8"
abbreviation (input) "LIS3MDL_MAG_LIR_MASK \<equiv> 0x02 :: u8"
abbreviation (input) "LIS3MDL_MAG_IEA_MASK \<equiv> 0x04 :: u8"
abbreviation (input) "LIS3MDL_MAG_ZIEN_MASK \<equiv> 0x20 :: u8"
abbreviation (input) "LIS3MDL_MAG_YIEN_MASK \<equiv> 0x40 :: u8"
abbreviation (input) "LIS3MDL_MAG_XIEN_MASK \<equiv> 0x80 :: u8"
abbreviation (input) "LIS3MDL_MAG_INT_SRC \<equiv> 0x31 :: u8"
abbreviation (input) "LIS3MDL_MAG_INT_MASK \<equiv> 0x01 :: u8"
abbreviation (input) "LIS3MDL_MAG_MROI_MASK \<equiv> 0x02 :: u8"
abbreviation (input) "LIS3MDL_MAG_NTH_Z_MASK \<equiv> 0x04 :: u8"
abbreviation (input) "LIS3MDL_MAG_NTH_Y_MASK \<equiv> 0x08 :: u8"
abbreviation (input) "LIS3MDL_MAG_NTH_X_MASK \<equiv> 0x10 :: u8"
abbreviation (input) "LIS3MDL_MAG_PTH_Z_MASK \<equiv> 0x20 :: u8"
abbreviation (input) "LIS3MDL_MAG_PTH_Y_MASK \<equiv> 0x40 :: u8"
abbreviation (input) "LIS3MDL_MAG_PTH_X_MASK \<equiv> 0x80 :: u8"
abbreviation (input) "LIS3MDL_MAG_OUTX_L \<equiv> 0x28 :: u8"
abbreviation (input) "LIS3MDL_MAG_TEMP_OUT_L \<equiv> 0x2E :: u8"
abbreviation (input) "LIS3MDL_MAG_INT_THS_L \<equiv> 0x32 :: u8"
abbreviation (input) "LIS3MDL_MAG_WHO_AM_I_BIT_POSITION \<equiv> 0 :: nat"

subsection \<open>Values of the fields\<close>

definition LIS3MDL_MAG_MD_t :: "u8 list" where
  "LIS3MDL_MAG_MD_t = [0x00, 0x01, 0x02, 0x03]"

definition LIS3MDL_MAG_BDU_t :: "u8 list" where
  "LIS3MDL_MAG_BDU_t = [0x00, 0x40]"

definition LIS3MDL_MAG_FS_t :: "u8 list" where
  "LIS3MDL_MAG_FS_t = [0x00, 0x20, 0x40, 0x60]"

definition LIS3MDL_MAG_DO_t :: "u8 list" where
  "LIS3MDL_MAG_DO_t = [0x00, 0x04, 0x08, 0x0C, 0x10, 0x14, 0x18, 0x1C]"

definition LIS3MDL_MAG_ST_t :: "u8 list" where
  "LIS3MDL_MAG_ST_t = [0x00, 0x01]"

definition LIS3MDL_MAG_OM_t :: "u8 list" where
  "LIS3MDL_MAG_OM_t = [0x00, 0x20, 0x40, 0x60]"

definition LIS3MDL_MAG_TEMP_EN_t :: "u8 list" where
  "LIS3MDL_MAG_TEMP_EN_t = [0x00, 0x80]"

definition LIS3MDL_MAG_SOFT_RST_t :: "u8 list" where
  "LIS3MDL_MAG_SOFT_RST_t = [0x00, 0x04]"

definition LIS3MDL_MAG_REBOOT_t :: "u8 list" where
  "LIS3MDL_MAG_REBOOT_t = [0x00, 0x08]"

definition LIS3MDL_MAG_SIM_t :: "u8 list" where
  "LIS3MDL_MAG_SIM_t = [0x00, 0x04]"

definition LIS3MDL_MAG_LP_t :: "u8 list" where
  "LIS3MDL_MAG_LP_t = [0x00, 0x20]"

definition LIS3MDL_MAG_BLE_t :: "u8 list" where
  "LIS3MDL_MAG_BLE_t = [0x00, 0x02]"

definition LIS3MDL_MAG_OMZ_t :: "u8 list" where
  "LIS3MDL_MAG_OMZ_t = [0x00, 0x04, 0x08, 0x0C]"

definition LIS3MDL_MAG_IEN_t :: "u8 list" where
  "LIS3MDL_MAG_IEN_t = [0x00, 0x01]"

definition LIS3MDL_MAG_LIR_t :: "u8 list" where
  "LIS3MDL_MAG_LIR_t = [0x00, 0x02]"

definition LIS3MDL_MAG_IEA_t :: "u8 list" where
  "LIS3MDL_MAG_IEA_t = [0x00, 0x04]"

definition LIS3MDL_MAG_ZIEN_t :: "u8 list" where
  "LIS3MDL_MAG_ZIEN_t = [0x00, 0x20]"

definition LIS3MDL_MAG_YIEN_t :: "u8 list" where
  "LIS3MDL_MAG_YIEN_t = [0x00, 0x40]"

definition LIS3MDL_MAG_XIEN_t :: "u8 list" where
  "LIS3MDL_MAG_XIEN_t = [0x00, 0x80]"

definition LIS3MDL_MAG_INT_t :: "u8 list" where
  "LIS3MDL_MAG_INT_t = [0x00, 0x01]"

definition LIS3MDL_MAG_MROI_t :: "u8 list" where
  "LIS3MDL_MAG_MROI_t = [0x00, 0x02]"

definition LIS3MDL_MAG_NTH_Z_t :: "u8 list" where
  "LIS3MDL_MAG_NTH_Z_t = [0x00, 0x04]"

definition LIS3MDL_MAG_NTH_Y_t :: "u8 list" where
  "LIS3MDL_MAG_NTH_Y_t = [0x00, 0x08]"

definition LIS3MDL_MAG_NTH_X_t :: "u8 list" where
  "LIS3MDL_MAG_NTH_X_t = [0x00, 0x10]"

definition LIS3MDL_MAG_PTH_Z_t :: "u8 list" where
  "LIS3MDL_MAG_PTH_Z_t = [0x00, 0x20]"

definition LIS3MDL_MAG_PTH_Y_t :: "u8 list" where
  "LIS3MDL_MAG_PTH_Y_t = [0x00, 0x40]"

definition LIS3MDL_MAG_PTH_X_t :: "u8 list" where
  "LIS3MDL_MAG_PTH_X_t = [0x00, 0x80]"

subsection \<open>Accessors of the fields\<close>

definition LIS3MDL_MAG_R_WHO_AM_I :: "'e sensor_io \<Rightarrow> 'e \<Rightarrow> status_t \<times> u8 \<times> 'e" where
  "LIS3MDL_MAG_R_WHO_AM_I io = read_pos_field io LIS3MDL_MAG_WHO_AM_I_REG LIS3MDL_MAG_WHO_AM_I_BIT_MASK LIS3MDL_MAG_WHO_AM_I_BIT_POSITION"

definition LIS3MDL_MAG_W_SystemOperatingMode :: "'e sensor_io \<Rightarrow> u8 \<Rightarrow> 'e \<Rightarrow> status_t \<times> 'e" where
  "LIS3MDL_MAG_W_SystemOperatingMode io = write_field io LIS3MDL_MAG_CTRL_REG3 LIS3MDL_MAG_MD_MASK"

definition LIS3MDL_MAG_R_SystemOperatingMode :: "'e sensor_io \<Rightarrow> 'e \<Rightarrow> status_t \<times> u8 \<times> 'e" where
  "LIS3MDL_MAG_R_SystemOperatingMode io = read_field io LIS3MDL_MAG_CTRL_REG3 LIS3MDL_MAG_MD_MASK"

definition LIS3MDL_MAG_W_BlockDataUpdate :: "'e sensor_io \<Rightarrow> u8 \<Rightarrow> 'e \<Rightarrow> status_t \<times> 'e" where
  "LIS3MDL_MAG_W_BlockDataUpdate io = write_field io LIS3MDL_MAG_CTRL_REG5 LIS3MDL_MAG_BDU_MASK"

definition LIS3MDL_MAG_R_BlockDataUpdate :: "'e sensor_io \<Rightarrow> 'e \<Rightarrow> status_t \<times> u8 \<times> 'e" where
  "LIS3MDL_MAG_R_BlockDataUpdate io = read_field io LIS3MDL_MAG_CTRL_REG5 LIS3MDL_MAG_BDU_MASK"

definition LIS3MDL_MAG_W_FullScale :: "'e sensor_io \<Rightarrow> u8 \<Rightarrow> 'e \<Rightarrow> status_t \<times> 'e" where
  "LIS3MDL_MAG_W_FullScale io = write_field io LIS3MDL_MAG_CTRL_REG2 LIS3MDL_MAG_FS_MASK"

definition LIS3MDL_MAG_R_FullScale :: "'e sensor_io \<Rightarrow> 'e \<Rightarrow> status_t \<times> u8 \<times> 'e" where
  "LIS3MDL_MAG_R_FullScale io = read_field io LIS3MDL_MAG_CTRL_REG2 LIS3MDL_MAG_FS_MASK"

definition LIS3MDL_MAG_W_OutputDataRate :: "'e sensor_io \<Rightarrow> u8 \<Rightarrow> 'e \<Rightarrow> status_t \<times> 'e" where
  "LIS3MDL_MAG_W_OutputDataRate io = write_field io LIS3MDL_MAG_CTRL_REG1 LIS3MDL_MAG_DO_MASK"

definition LIS3MDL_MAG_R_OutputDataRate :: "'e sensor_io \<Rightarrow> 'e \<Rightarrow> status_t \<times> u8 \<times> 'e" where
  "LIS3MDL_MAG_R_OutputDataRate io = read_field io LIS3MDL_MAG_CTRL_REG1 LIS3MDL_MAG_DO_MASK"

definition LIS3MDL_MAG_W_SelfTest :: "'e sensor_io \<Rightarrow> u8 \<Rightarrow> 'e \<Rightarrow> status_t \<times> 'e" where
  "LIS3MDL_MAG_W_SelfTest io = write_field io LIS3MDL_MAG_CTRL_REG1 LIS3MDL_MAG_ST_MASK"

definition LIS3MDL_MAG_R_SelfTest :: "'e sensor_io \<Rightarrow> 'e \<Rightarrow> status_t \<times> u8 \<times> 'e" where
  "LIS3MDL_MAG_R_SelfTest io = read_field io LIS3MDL_MAG_CTRL_REG1 LIS3MDL_MAG_ST_MASK"

definition LIS3MDL_MAG_W_OperatingModeXY :: "'e sensor_io \<Rightarrow> u8 \<Rightarrow> 'e \<Rightarrow> status_t \<times> 'e" where
  "LIS3MDL_MAG_W_OperatingModeXY io = write_field io LIS3MDL_MAG_CTRL_REG1 LIS3MDL_MAG_OM_MASK"

definition LIS3MDL_MAG_R_OperatingModeXY :: "'e sensor_io \<Rightarrow> 'e \<Rightarrow> status_t \<times> u8 \<times> 'e" where
  "LIS3MDL_MAG_R_OperatingModeXY io = read_field io LIS3MDL_MAG_CTRL_REG1 LIS3MDL_MAG_OM_MASK"

definition LIS3MDL_MAG_W_TemperatureSensor :: "'e sensor_io \<Rightarrow> u8 \<Rightarrow> 'e \<Rightarrow> status_t \<times> 'e" where
  "LIS3MDL_MAG_W_TemperatureSensor io = write_field io LIS3MDL_MAG_CTRL_REG1 LIS3MDL_MAG_TEMP_EN_MASK"

definition LIS3MDL_MAG_R_TemperatureSensor :: "'e sensor_io \<Rightarrow> 'e \<Rightarrow> status_t \<times> u8 \<times> 'e" where
  "LIS3MDL_MAG_R_TemperatureSensor io = read_field io LIS3MDL_MAG_CTRL_REG1 LIS3MDL_MAG_TEMP_EN_MASK"

definition LIS3MDL_MAG_W_SoftRST :: "'e sensor_io \<Rightarrow> u8 \<Rightarrow> 'e \<Rightarrow> status_t \<times> 'e" where
  "LIS3MDL_MAG_W_SoftRST io = write_field io LIS3MDL_MAG_CTRL_REG2 LIS3MDL_MAG_SOFT_RST_MASK"

definition LIS3MDL_MAG_R_SoftRST :: "'e sensor_io \<Rightarrow> 'e \<Rightarrow> status_t \<times> u8 \<times> 'e" where
  "LIS3MDL_MAG_R_SoftRST io = read_field io LIS3MDL_MAG_CTRL_REG2 LIS3MDL_MAG_SOFT_RST_MASK"

definition LIS3MDL_MAG_W_Reboot :: "'e sensor_io \<Rightarrow> u8 \<Rightarrow> 'e \<Rightarrow> status_t \<times> 'e" where
  "LIS3MDL_MAG_W_Reboot io = write_field io LIS3MDL_MAG_CTRL_REG2 LIS3MDL_MAG_REBOOT_MASK"

definition LIS3MDL_MAG_R_Reboot :: "'e sensor_io \<Rightarrow> 'e \<Rightarrow> status_t \<times> u8 \<times> 'e" where
  "LIS3MDL_MAG_R_Reboot io = read_field io LIS3MDL_MAG_CTRL_REG2 LIS3MDL_MAG_REBOOT_MASK"

definition LIS3MDL_MAG_W_SerialInterfaceMode :: "'e sensor_io \<Rightarrow> u8 \<Rightarrow> 'e \<Rightarrow> status_t \<times> 'e" where
  "LIS3MDL_MAG_W_SerialInterfaceMode io = write_field io LIS3MDL_MAG_CTRL_REG3 LIS3MDL_MAG_SIM_MASK"

definition LIS3MDL_MAG_R_SerialInterfaceMode :: "'e sensor_io \<Rightarrow> 'e \<Rightarrow> status_t \<times> u8 \<times> 'e" where
  "LIS3MDL_MAG_R_SerialInterfaceMode io = read_field io LIS3MDL_MAG_CTRL_REG3 LIS3MDL_MAG_SIM_MASK"

definition LIS3MDL_MAG_W_FastLowPowerXYZ :: "'e sensor_io \<Rightarrow> u8 \<Rightarrow> 'e \<Rightarrow> status_t \<times> 'e" where
  "LIS3MDL_MAG_W_FastLowPowerXYZ io = write_field io LIS3MDL_MAG_CTRL_REG3 LIS3MDL_MAG_LP_MASK"

definition LIS3MDL_MAG_R_FastLowPowerXYZ :: "'e sensor_io \<Rightarrow> 'e \<Rightarrow> status_t \<times> u8 \<times> 'e" where
  "LIS3MDL_MAG_R_FastLowPowerXYZ io = read_field io LIS3MDL_MAG_CTRL_REG3 LIS3MDL_MAG_LP_MASK"

definition LIS3MDL_MAG_W_LittleBigEndianInversion :: "'e sensor_io \<Rightarrow> u8 \<Rightarrow> 'e \<Rightarrow> status_t \<times> 'e" where
  "LIS3MDL_MAG_W_LittleBigEndianInversion io = write_field io LIS3MDL_MAG_CTRL_REG4 LIS3MDL_MAG_BLE_MASK"

definition LIS3MDL_MAG_R_LittleBigEndianInversion :: "'e sensor_io \<Rightarrow> 'e \<Rightarrow> status_t \<times> u8 \<times> 'e" where
  "LIS3MDL_MAG_R_LittleBigEndianInversion io = read_field io LIS3MDL_MAG_CTRL_REG4 LIS3MDL_MAG_BLE_MASK"

definition LIS3MDL_MAG_W_OperatingModeZ :: "'e sensor_io \<Rightarrow> u8 \<Rightarrow> 'e \<Rightarrow> status_t \<times> 'e" where
  "LIS3MDL_MAG_W_OperatingModeZ io = write_field io LIS3MDL_MAG_CTRL_REG4 LIS3MDL_MAG_OMZ_MASK"

definition LIS3MDL_MAG_R_OperatingModeZ :: "'e sensor_io \<Rightarrow> 'e \<Rightarrow> status_t \<times> u8 \<times> 'e" where
  "LIS3MDL_MAG_R_OperatingModeZ io = read_field io LIS3MDL_MAG_CTRL_REG4 LIS3MDL_MAG_OMZ_MASK"

definition LIS3MDL_MAG_R_NewXData :: "'e sensor_io \<Rightarrow> 'e \<Rightarrow> status_t \<times> u8 \<times> 'e" where
  "LIS3MDL_MAG_R_NewXData io = read_field io LIS3MDL_MAG_STATUS_REG LIS3MDL_MAG_XDA_MASK"

definition LIS3MDL_MAG_R_NewYData :: "'e sensor_io \<Rightarrow> 'e \<Rightarrow> status_t \<times> u8 \<times> 'e" where
  "LIS3MDL_MAG_R_NewYData io = read_field io LIS3MDL_MAG_STATUS_REG LIS3MDL_MAG_YDA_MASK"

definition LIS3MDL_MAG_R_NewZData :: "'e sensor_io \<Rightarrow> 'e \<Rightarrow> status_t \<times> u8 \<times> 'e" where
  "LIS3MDL_MAG_R_NewZData io = read_field io LIS3MDL_MAG_STATUS_REG LIS3MDL_MAG_ZDA_MASK"

definition LIS3MDL_MAG_R_NewXYZData :: "'e sensor_io \<Rightarrow> 'e \<Rightarrow> status_t \<times> u8 \<times> 'e" where
  "LIS3MDL_MAG_R_NewXYZData io = read_field io LIS3MDL_MAG_STATUS_REG LIS3MDL_MAG_ZYXDA_MASK"

definition LIS3MDL_MAG_R_DataXOverrun :: "'e sensor_io \<Rightarrow> 'e \<Rightarrow> status_t \<times> u8 \<times> 'e" where
  "LIS3MDL_MAG_R_DataXOverrun io = read_field io LIS3MDL_MAG_STATUS_REG LIS3MDL_MAG_XOR_MASK"

definition LIS3MDL_MAG_R_DataYOverrun :: "'e sensor_io \<Rightarrow> 'e \<Rightarrow> status_t \<times> u8 \<times> 'e" where
  "LIS3MDL_MAG_R_DataYOverrun io = read_field io LIS3MDL_MAG_STATUS_REG LIS3MDL_MAG_YOR_MASK"

definition LIS3MDL_MAG_R_DataZOverrun :: "'e sensor_io \<Rightarrow> 'e \<Rightarrow> status_t \<times> u8 \<times> 'e" where
  "LIS3MDL_MAG_R_DataZOverrun io = read_field io LIS3MDL_MAG_STATUS_REG LIS3MDL_MAG_ZOR_MASK"

definition LIS3MDL_MAG_R_DataXYZOverrun :: "'e sensor_io \<Rightarrow> 'e \<Rightarrow> status_t \<times> u8 \<times> 'e" where
  "LIS3MDL_MAG_R_DataXYZOverrun io = read_field io LIS3MDL_MAG_STATUS_REG LIS3MDL_MAG_ZYXOR_MASK"

definition LIS3MDL_MAG_W_InterruptEnable :: "'e sensor_io \<Rightarrow> u8 \<Rightarrow> 'e \<Rightarrow> status_t \<times> 'e" where
  "LIS3MDL_MAG_W_InterruptEnable io = write_field io LIS3MDL_MAG_INT_CFG LIS3MDL_MAG_IEN_MASK"

definition LIS3MDL_MAG_R_InterruptEnable :: "'e sensor_io \<Rightarrow> 'e \<Rightarrow> status_t \<times> u8 \<times> 'e" where
  "LIS3MDL_MAG_R_InterruptEnable io = read_field io LIS3MDL_MAG_INT_CFG LIS3MDL_MAG_IEN_MASK"

definition LIS3MDL_MAG_W_LatchInterruptRq :: "'e sensor_io \<Rightarrow> u8 \<Rightarrow> 'e \<Rightarrow> status_t \<times> 'e" where
  "LIS3MDL_MAG_W_LatchInterruptRq io = write_field io LIS3MDL_MAG_INT_CFG LIS3MDL_MAG_LIR_MASK"

definition LIS3MDL_MAG_R_LatchInterruptRq :: "'e sensor_io \<Rightarrow> 'e \<Rightarrow> status_t \<times> u8 \<times> 'e" where
  "LIS3MDL_MAG_R_LatchInterruptRq io = read_field io LIS3MDL_MAG_INT_CFG LIS3MDL_MAG_LIR_MASK"

definition LIS3MDL_MAG_W_InterruptActive :: "'e sensor_io \<Rightarrow> u8 \<Rightarrow> 'e \<Rightarrow> status_t \<times> 'e" where
  "LIS3MDL_MAG_W_InterruptActive io = write_field io LIS3MDL_MAG_INT_CFG LIS3MDL_MAG_IEA_MASK"

definition LIS3MDL_MAG_R_InterruptActive :: "'e sensor_io \<Rightarrow> 'e \<Rightarrow> status_t \<times> u8 \<times> 'e" where
  "LIS3MDL_MAG_R_InterruptActive io = read_field io LIS3MDL_MAG_INT_CFG LIS3MDL_MAG_IEA_MASK"

definition LIS3MDL_MAG_W_InterruptOnZ :: "'e sensor_io \<Rightarrow> u8 \<Rightarrow> 'e \<Rightarrow> status_t \<times> 'e" where
  "LIS3MDL_MAG_W_InterruptOnZ io = write_field io LIS3MDL_MAG_INT_CFG LIS3MDL_MAG_ZIEN_MASK"

definition LIS3MDL_MAG_R_InterruptOnZ :: "'e sensor_io \<Rightarrow> 'e \<Rightarrow> status_t \<times> u8 \<times> 'e" where
  "LIS3MDL_MAG_R_InterruptOnZ io = read_field io LIS3MDL_MAG_INT_CFG LIS3MDL_MAG_ZIEN_MASK"

definition LIS3MDL_MAG_W_InterruptOnY :: "'e sensor_io \<Rightarrow> u8 \<Rightarrow> 'e \<Rightarrow> status_t \<times> 'e" where
  "LIS3MDL_MAG_W_InterruptOnY io = write_field io LIS3MDL_MAG_INT_CFG LIS3MDL_MAG_YIEN_MASK"

definition LIS3MDL_MAG_R_InterruptOnY :: "'e sensor_io \<Rightarrow> 'e \<Rightarrow> status_t \<times> u8 \<times> 'e" where
  "LIS3MDL_MAG_R_InterruptOnY io = read_field io LIS3MDL_MAG_INT_CFG LIS3MDL_MAG_YIEN_MASK"

definition LIS3MDL_MAG_W_InterruptOnX :: "'e sensor_io \<Rightarrow> u8 \<Rightarrow> 'e \<Rightarrow> status_t \<times> 'e" where
  "LIS3MDL_MAG_W_InterruptOnX io = write_field io LIS3MDL_MAG_INT_CFG LIS3MDL_MAG_XIEN_MASK"

definition LIS3MDL_MAG_R_InterruptOnX :: "'e sensor_io \<Rightarrow> 'e \<Rightarrow> status_t \<times> u8 \<times> 'e" where
  "LIS3MDL_MAG_R_InterruptOnX io = read_field io LIS3MDL_MAG_INT_CFG LIS3MDL_MAG_XIEN_MASK"

definition LIS3MDL_MAG_W_InterruptFlag :: "'e sensor_io \<Rightarrow> u8 \<Rightarrow> 'e \<Rightarrow> status_t \<times> 'e" where
  "LIS3MDL_MAG_W_InterruptFlag io = write_field io LIS3MDL_MAG_INT_SRC LIS3MDL_MAG_INT_MASK"

definition LIS3MDL_MAG_R_InterruptFlag :: "'e sensor_io \<Rightarrow> 'e \<Rightarrow> status_t \<times> u8 \<times> 'e" where
  "LIS3MDL_MAG_R_InterruptFlag io = read_field io LIS3MDL_MAG_INT_SRC LIS3MDL_MAG_INT_MASK"

definition LIS3MDL_MAG_W_MagneticFieldOverflow :: "'e sensor_io \<Rightarrow> u8 \<Rightarrow> 'e \<Rightarrow> status_t \<times> 'e" where
  "LIS3MDL_MAG_W_MagneticFieldOverflow io = write_field io LIS3MDL_MAG_INT_SRC LIS3MDL_MAG_MROI_MASK"

definition LIS3MDL_MAG_R_MagneticFieldOverflow :: "'e sensor_io \<Rightarrow> 'e \<Rightarrow> status_t \<times> u8 \<times> 'e" where
  "LIS3MDL_MAG_R_MagneticFieldOverflow io = read_field io LIS3MDL_MAG_INT_SRC LIS3MDL_MAG_MROI_MASK"

definition LIS3MDL_MAG_W_NegativeThresholdFlagZ :: "'e sensor_io \<Rightarrow> u8 \<Rightarrow> 'e \<Rightarrow> status_t \<times> 'e" where
  "LIS3MDL_MAG_W_NegativeThresholdFlagZ io = write_field io LIS3MDL_MAG_INT_SRC LIS3MDL_MAG_NTH_Z_MASK"

definition LIS3MDL_MAG_R_NegativeThresholdFlagZ :: "'e sensor_io \<Rightarrow> 'e \<Rightarrow> status_t \<times> u8 \<times> 'e" where
  "LIS3MDL_MAG_R_NegativeThresholdFlagZ io = read_field io LIS3MDL_MAG_INT_SRC LIS3MDL_MAG_NTH_Z_MASK"

definition LIS3MDL_MAG_W_NegativeThresholdFlagY :: "'e sensor_io \<Rightarrow> u8 \<Rightarrow> 'e \<Rightarrow> status_t \<times> 'e" where
  "LIS3MDL_MAG_W_NegativeThresholdFlagY io = write_field io LIS3MDL_MAG_INT_SRC LIS3MDL_MAG_NTH_Y_MASK"

definition LIS3MDL_MAG_R_NegativeThresholdFlagY :: "'e sensor_io \<Rightarrow> 'e \<Rightarrow> status_t \<times> u8 \<times> 'e" where
  "LIS3MDL_MAG_R_NegativeThresholdFlagY io = read_field io LIS3MDL_MAG_INT_SRC LIS3MDL_MAG_NTH_Y_MASK"

definition LIS3MDL_MAG_W_NegativeThresholdFlagX :: "'e sensor_io \<Rightarrow> u8 \<Rightarrow> 'e \<Rightarrow> status_t \<times> 'e" where
  "LIS3MDL_MAG_W_NegativeThresholdFlagX io = write_field io LIS3MDL_MAG_INT_SRC LIS3MDL_MAG_NTH_X_MASK"

definition LIS3MDL_MAG_R_NegativeThresholdFlagX :: "'e sensor_io \<Rightarrow> 'e \<Rightarrow> status_t \<times> u8 \<times> 'e" where
  "LIS3MDL_MAG_R_NegativeThresholdFlagX io = read_field io LIS3MDL_MAG_INT_SRC LIS3MDL_MAG_NTH_X_MASK"

definition LIS3MDL_MAG_W_PositiveThresholdFlagZ :: "'e sensor_io \<Rightarrow> u8 \<Rightarrow> 'e \<Rightarrow> status_t \<times> 'e" where
  "LIS3MDL_MAG_W_PositiveThresholdFlagZ io = write_field io LIS3MDL_MAG_INT_SRC LIS3MDL_MAG_PTH_Z_MASK"

definition LIS3MDL_MAG_R_PositiveThresholdFlagZ :: "'e sensor_io \<Rightarrow> 'e \<Rightarrow> status_t \<times> u8 \<times> 'e" where
  "LIS3MDL_MAG_R_PositiveThresholdFlagZ io = read_field io LIS3MDL_MAG_INT_SRC LIS3MDL_MAG_PTH_Z_MASK"

definition LIS3MDL_MAG_W_PositiveThresholdFlagY :: "'e sensor_io \<Rightarrow> u8 \<Rightarrow> 'e \<Rightarrow> status_t \<times> 'e" where
  "LIS3MDL_MAG_W_PositiveThresholdFlagY io = write_field io LIS3MDL_MAG_INT_SRC LIS3MDL_MAG_PTH_Y_MASK"

definition LIS3MDL_MAG_R_PositiveThresholdFlagY :: "'e sensor_io \<Rightarrow> 'e \<Rightarrow> status_t \<times> u8 \<times> 'e" where
  "LIS3MDL_MAG_R_PositiveThresholdFlagY io = read_field io LIS3MDL_MAG_INT_SRC LIS3MDL_MAG_PTH_Y_MASK"

definition LIS3MDL_MAG_W_PositiveThresholdFlagX :: "'e sensor_io \<Rightarrow> u8 \<Rightarrow> 'e \<Rightarrow> status_t \<times> 'e" where
  "LIS3MDL_MAG_W_PositiveThresholdFlagX io = write_field io LIS3MDL_MAG_INT_SRC LIS3MDL_MAG_PTH_X_MASK"

definition LIS3MDL_MAG_R_PositiveThresholdFlagX :: "'e sensor_io \<Rightarrow> 'e \<Rightarrow> status_t \<times> u8 \<times> 'e" where
  "LIS3MDL_MAG_R_PositiveThresholdFlagX io = read_field io LIS3MDL_MAG_INT_SRC LIS3MDL_MAG_PTH_X_MASK"

subsection \<open>Functions over several registers\<close>

definition LIS3MDL_MAG_WriteReg :: "'e sensor_io \<Rightarrow> u8 \<Rightarrow> u8 list \<Rightarrow> 'e \<Rightarrow> status_t \<times> 'e" where
  "LIS3MDL_MAG_WriteReg io Reg bytes e = mems_WriteReg io Reg bytes e"

definition LIS3MDL_MAG_ReadReg :: "'e sensor_io \<Rightarrow> u8 \<Rightarrow> u16 \<Rightarrow> 'e \<Rightarrow> status_t \<times> u8 list \<times> 'e" where
  "LIS3MDL_MAG_ReadReg io Reg len e = mems_ReadReg io Reg len e"

definition LIS3MDL_MAG_Get_Magnetic :: "'e sensor_io \<Rightarrow> u8 list \<Rightarrow> 'e \<Rightarrow> status_t \<times> u8 list \<times> 'e" where
  "LIS3MDL_MAG_Get_Magnetic io buff e = read_regs io LIS3MDL_MAG_OUTX_L 0 6 buff e"

definition LIS3MDL_MAG_Get_Temperature :: "'e sensor_io \<Rightarrow> u8 list \<Rightarrow> 'e \<Rightarrow> status_t \<times> u8 list \<times> 'e" where
  "LIS3MDL_MAG_Get_Temperature io buff e = read_regs io LIS3MDL_MAG_TEMP_OUT_L 0 2 buff e"

definition LIS3MDL_MAG_Set_MagneticThreshold :: "'e sensor_io \<Rightarrow> u8 list \<Rightarrow> 'e \<Rightarrow> status_t \<times> 'e" where
  "LIS3MDL_MAG_Set_MagneticThreshold io buff e = write_regs io LIS3MDL_MAG_INT_THS_L (take 2 buff) e"

definition LIS3MDL_MAG_Get_MagneticThreshold :: "'e sensor_io \<Rightarrow> u8 list \<Rightarrow> 'e \<Rightarrow> status_t \<times> u8 list \<times> 'e" where
  "LIS3MDL_MAG_Get_MagneticThreshold io buff e = read_regs io LIS3MDL_MAG_INT_THS_L 0 2 buff e"

text \<open>
  The bytes of each dimension are copied to a buffer of ten bytes and back in reverse. \<open>None\<close> is a
  division by zero, an access outside the caller's buffer, or outside the ten bytes.
\<close>

definition swap_dimension :: "nat \<Rightarrow> nat \<Rightarrow> u8 list \<Rightarrow> u8 list" where
  "swap_dimension n i buf =
     (let tempValue = map (\<lambda>j. buf ! (j + i * n)) [0..<n]
      in fold (\<lambda>j buf. buf[i * n + j := tempValue ! (n - 1 - j)]) [0..<n] buf)"

definition LIS3MDL_MAG_SwapHighLowByte :: "u8 list \<Rightarrow> u8 \<Rightarrow> u8 \<Rightarrow> u8 list option" where
  "LIS3MDL_MAG_SwapHighLowByte buf numberOfByte dimension =
     (if dimension = 0 then None
      else let n = unat numberOfByte div unat dimension
        in if 10 < n \<or> length buf < n * unat dimension then None
           else Some (fold (swap_dimension n) [0..<unat dimension] buf))"

subsection \<open>The fields\<close>

definition lis_ctrl_fields :: "'e sensor_io \<Rightarrow> 'e sensor_field list" where
  "lis_ctrl_fields io =
     [enum_field (LIS3MDL_MAG_W_SystemOperatingMode io) (LIS3MDL_MAG_R_SystemOperatingMode io)
        LIS3MDL_MAG_CTRL_REG3 LIS3MDL_MAG_MD_MASK LIS3MDL_MAG_MD_t,
      enum_field (LIS3MDL_MAG_W_SerialInterfaceMode io) (LIS3MDL_MAG_R_SerialInterfaceMode io)
        LIS3MDL_MAG_CTRL_REG3 LIS3MDL_MAG_SIM_MASK LIS3MDL_MAG_SIM_t,
      enum_field (LIS3MDL_MAG_W_FastLowPowerXYZ io) (LIS3MDL_MAG_R_FastLowPowerXYZ io)
        LIS3MDL_MAG_CTRL_REG3 LIS3MDL_MAG_LP_MASK LIS3MDL_MAG_LP_t,
      enum_field (LIS3MDL_MAG_W_BlockDataUpdate io) (LIS3MDL_MAG_R_BlockDataUpdate io)
        LIS3MDL_MAG_CTRL_REG5 LIS3MDL_MAG_BDU_MASK LIS3MDL_MAG_BDU_t,
      enum_field (LIS3MDL_MAG_W_FullScale io) (LIS3MDL_MAG_R_FullScale io)
        LIS3MDL_MAG_CTRL_REG2 LIS3MDL_MAG_FS_MASK LIS3MDL_MAG_FS_t,
      enum_field (LIS3MDL_MAG_W_SoftRST io) (LIS3MDL_MAG_R_SoftRST io)
        LIS3MDL_MAG_CTRL_REG2 LIS3MDL_MAG_SOFT_RST_MASK LIS3MDL_MAG_SOFT_RST_t,
      enum_field (LIS3MDL_MAG_W_Reboot io) (LIS3MDL_MAG_R_Reboot io)
        LIS3MDL_MAG_CTRL_REG2 LIS3MDL_MAG_REBOOT_MASK LIS3MDL_MAG_REBOOT_t,
      enum_field (LIS3MDL_MAG_W_OutputDataRate io) (LIS3MDL_MAG_R_OutputDataRate io)
        LIS3MDL_MAG_CTRL_REG1 LIS3MDL_MAG_DO_MASK LIS3MDL_MAG_DO_t,
      enum_field (LIS3MDL_MAG_W_SelfTest io) (LIS3MDL_MAG_R_SelfTest io)
        LIS3MDL_MAG_CTRL_REG1 LIS3MDL_MAG_ST_MASK LIS3MDL_MAG_ST_t,
      enum_field (LIS3MDL_MAG_W_OperatingModeXY io) (LIS3MDL_MAG_R_OperatingModeXY io)
        LIS3MDL_MAG_CTRL_REG1 LIS3MDL_MAG_OM_MASK LIS3MDL_MAG_OM_t,
      enum_field (LIS3MDL_MAG_W_TemperatureSensor io) (LIS3MDL_MAG_R_TemperatureSensor io)
        LIS3MDL_MAG_CTRL_REG1 LIS3MDL_MAG_TEMP_EN_MASK LIS3MDL_MAG_TEMP_EN_t,
      enum_field (LIS3MDL_MAG_W_LittleBigEndianInversion io) (LIS3MDL_MAG_R_LittleBigEndianInversion io)
        LIS3MDL_MAG_CTRL_REG4 LIS3MDL_MAG_BLE_MASK LIS3MDL_MAG_BLE_t,
      enum_field (LIS3MDL_MAG_W_OperatingModeZ io) (LIS3MDL_MAG_R_OperatingModeZ io)
        LIS3MDL_MAG_CTRL_REG4 LIS3MDL_MAG_OMZ_MASK LIS3MDL_MAG_OMZ_t]"

definition lis_int_fields :: "'e sensor_io \<Rightarrow> 'e sensor_field list" where
  "lis_int_fields io =
     [enum_field (LIS3MDL_MAG_W_InterruptEnable io) (LIS3MDL_MAG_R_InterruptEnable io)
        LIS3MDL_MAG_INT_CFG LIS3MDL_MAG_IEN_MASK LIS3MDL_MAG_IEN_t,
      enum_field (LIS3MDL_MAG_W_LatchInterruptRq io) (LIS3MDL_MAG_R_LatchInterruptRq io)
        LIS3MDL_MAG_INT_CFG LIS3MDL_MAG_LIR_MASK LIS3MDL_MAG_LIR_t,
      enum_field (LIS3MDL_MAG_W_InterruptActive io) (LIS3MDL_MAG_R_InterruptActive io)
        LIS3MDL_MAG_INT_CFG LIS3MDL_MAG_IEA_MASK LIS3MDL_MAG_IEA_t,
      enum_field (LIS3MDL_MAG_W_InterruptOnZ io) (LIS3MDL_MAG_R_InterruptOnZ io)
        LIS3MDL_MAG_INT_CFG LIS3MDL_MAG_ZIEN_MASK LIS3MDL_MAG_ZIEN_t,
      enum_field (LIS3MDL_MAG_W_InterruptOnY io) (LIS3MDL_MAG_R_InterruptOnY io)
        LIS3MDL_MAG_INT_CFG LIS3MDL_MAG_YIEN_MASK LIS3MDL_MAG_YIEN_t,
      enum_field (LIS3MDL_MAG_W_InterruptOnX io) (LIS3MDL_MAG_R_InterruptOnX io)
        LIS3MDL_MAG_INT_CFG LIS3MDL_MAG_XIEN_MASK LIS3MDL_MAG_XIEN_t,
      enum_field (LIS3MDL_MAG_W_InterruptFlag io) (LIS3MDL_MAG_R_InterruptFlag io)
        LIS3MDL_MAG_INT_SRC LIS3MDL_MAG_INT_MASK LIS3MDL_MAG_INT_t,
      enum_field (LIS3MDL_MAG_W_MagneticFieldOverflow io) (LIS3MDL_MAG_R_MagneticFieldOverflow io)
        LIS3MDL_MAG_INT_SRC LIS3MDL_MAG_MROI_MASK LIS3MDL_MAG_MROI_t,
      enum_field (LIS3MDL_MAG_W_NegativeThresholdFlagZ io) (LIS3MDL_MAG_R_NegativeThresholdFlagZ io)
        LIS3MDL_MAG_INT_SRC LIS3MDL_MAG_NTH_Z_MASK LIS3MDL_MAG_NTH_Z_t,
      enum_field (LIS3MDL_MAG_W_NegativeThresholdFlagY io) (LIS3MDL_MAG_R_NegativeThresholdFlagY io)
        LIS3MDL_MAG_INT_SRC LIS3MDL_MAG_NTH_Y_MASK LIS3MDL_MAG_NTH_Y_t,
      enum_field (LIS3MDL_MAG_W_NegativeThresholdFlagX io) (LIS3MDL_MAG_R_NegativeThresholdFlagX io)
        LIS3MDL_MAG_INT_SRC LIS3MDL_MAG_NTH_X_MASK LIS3MDL_MAG_NTH_X_t,
      enum_field (LIS3MDL_MAG_W_PositiveThresholdFlagZ io) (LIS3MDL_MAG_R_PositiveThresholdFlagZ io)
        LIS3MDL_MAG_INT_SRC LIS3MDL_MAG_PTH_Z_MASK LIS3MDL_MAG_PTH_Z_t,
      enum_field (LIS3MDL_MAG_W_PositiveThresholdFlagY io) (LIS3MDL_MAG_R_PositiveThresholdFlagY io)
        LIS3MDL_MAG_INT_SRC LIS3MDL_MAG_PTH_Y_MASK LIS3MDL_MAG_PTH_Y_t,
      enum_field (LIS3MDL_MAG_W_PositiveThresholdFlagX io) (LIS3MDL_MAG_R_PositiveThresholdFlagX io)
        LIS3MDL_MAG_INT_SRC LIS3MDL_MAG_PTH_X_MASK LIS3MDL_MAG_PTH_X_t]"

definition lis3mdl_fields :: "'e sensor_io \<Rightarrow> 'e sensor_field list" where
  "lis3mdl_fields io = lis_ctrl_fields io @ lis_int_fields io"

lemma lis_ctrl_fields_ok: "list_all (field_ok io) (lis_ctrl_fields io)"
  by (simp add: lis_ctrl_fields_def enum_field_ok pos_field_ok
    LIS3MDL_MAG_W_SystemOperatingMode_def LIS3MDL_MAG_R_SystemOperatingMode_def LIS3MDL_MAG_W_SerialInterfaceMode_def
    LIS3MDL_MAG_R_SerialInterfaceMode_def LIS3MDL_MAG_W_FastLowPowerXYZ_def LIS3MDL_MAG_R_FastLowPowerXYZ_def
    LIS3MDL_MAG_W_BlockDataUpdate_def LIS3MDL_MAG_R_BlockDataUpdate_def LIS3MDL_MAG_W_FullScale_def
    LIS3MDL_MAG_R_FullScale_def LIS3MDL_MAG_W_SoftRST_def LIS3MDL_MAG_R_SoftRST_def
    LIS3MDL_MAG_W_Reboot_def LIS3MDL_MAG_R_Reboot_def LIS3MDL_MAG_W_OutputDataRate_def
    LIS3MDL_MAG_R_OutputDataRate_def LIS3MDL_MAG_W_SelfTest_def LIS3MDL_MAG_R_SelfTest_def
    LIS3MDL_MAG_W_OperatingModeXY_def LIS3MDL_MAG_R_OperatingModeXY_def LIS3MDL_MAG_W_TemperatureSensor_def
    LIS3MDL_MAG_R_TemperatureSensor_def LIS3MDL_MAG_W_LittleBigEndianInversion_def LIS3MDL_MAG_R_LittleBigEndianInversion_def
    LIS3MDL_MAG_W_OperatingModeZ_def LIS3MDL_MAG_R_OperatingModeZ_def LIS3MDL_MAG_MD_t_def
    LIS3MDL_MAG_SIM_t_def LIS3MDL_MAG_LP_t_def LIS3MDL_MAG_BDU_t_def
    LIS3MDL_MAG_FS_t_def LIS3MDL_MAG_SOFT_RST_t_def LIS3MDL_MAG_REBOOT_t_def
    LIS3MDL_MAG_DO_t_def LIS3MDL_MAG_ST_t_def LIS3MDL_MAG_OM_t_def
    LIS3MDL_MAG_TEMP_EN_t_def LIS3MDL_MAG_BLE_t_def LIS3MDL_MAG_OMZ_t_def)

lemma lis_int_fields_ok: "list_all (field_ok io) (lis_int_fields io)"
  by (simp add: lis_int_fields_def enum_field_ok pos_field_ok
    LIS3MDL_MAG_W_InterruptEnable_def LIS3MDL_MAG_R_InterruptEnable_def LIS3MDL_MAG_W_LatchInterruptRq_def
    LIS3MDL_MAG_R_LatchInterruptRq_def LIS3MDL_MAG_W_InterruptActive_def LIS3MDL_MAG_R_InterruptActive_def
    LIS3MDL_MAG_W_InterruptOnZ_def LIS3MDL_MAG_R_InterruptOnZ_def LIS3MDL_MAG_W_InterruptOnY_def
    LIS3MDL_MAG_R_InterruptOnY_def LIS3MDL_MAG_W_InterruptOnX_def LIS3MDL_MAG_R_InterruptOnX_def
    LIS3MDL_MAG_W_InterruptFlag_def LIS3MDL_MAG_R_InterruptFlag_def LIS3MDL_MAG_W_MagneticFieldOverflow_def
    LIS3MDL_MAG_R_MagneticFieldOverflow_def LIS3MDL_MAG_W_NegativeThresholdFlagZ_def LIS3MDL_MAG_R_NegativeThresholdFlagZ_def
    LIS3MDL_MAG_W_NegativeThresholdFlagY_def LIS3MDL_MAG_R_NegativeThresholdFlagY_def LIS3MDL_MAG_W_NegativeThresholdFlagX_def
    LIS3MDL_MAG_R_NegativeThresholdFlagX_def LIS3MDL_MAG_W_PositiveThresholdFlagZ_def LIS3MDL_MAG_R_PositiveThresholdFlagZ_def
    LIS3MDL_MAG_W_PositiveThresholdFlagY_def LIS3MDL_MAG_R_PositiveThresholdFlagY_def LIS3MDL_MAG_W_PositiveThresholdFlagX_def
    LIS3MDL_MAG_R_PositiveThresholdFlagX_def LIS3MDL_MAG_IEN_t_def LIS3MDL_MAG_LIR_t_def
    LIS3MDL_MAG_IEA_t_def LIS3MDL_MAG_ZIEN_t_def LIS3MDL_MAG_YIEN_t_def
    LIS3MDL_MAG_XIEN_t_def LIS3MDL_MAG_INT_t_def LIS3MDL_MAG_MROI_t_def
    LIS3MDL_MAG_NTH_Z_t_def LIS3MDL_MAG_NTH_Y_t_def LIS3MDL_MAG_NTH_X_t_def
    LIS3MDL_MAG_PTH_Z_t_def LIS3MDL_MAG_PTH_Y_t_def LIS3MDL_MAG_PTH_X_t_def)

lemma lis3mdl_fields_ok: "list_all (field_ok io) (lis3mdl_fields io)"
  by (simp add: lis3mdl_fields_def lis_ctrl_fields_ok lis_int_fields_ok)

lemma lis_ctrl_fields_places:
  "disjoint_fields (map (\<lambda>f. (f_reg f, f_mask f)) (lis_ctrl_fields io))"
  "list_all (\<lambda>f. f_reg f \<in> set [LIS3MDL_MAG_CTRL_REG3, LIS3MDL_MAG_CTRL_REG5, LIS3MDL_MAG_CTRL_REG2, LIS3MDL_MAG_CTRL_REG1, LIS3MDL_MAG_CTRL_REG4]) (lis_ctrl_fields io)"
  by (simp_all add: lis_ctrl_fields_def disjoint_fields_def enum_field_def pos_field_def)

lemma lis_int_fields_places:
  "disjoint_fields (map (\<lambda>f. (f_reg f, f_mask f)) (lis_int_fields io))"
  "list_all (\<lambda>f. f_reg f \<in> set [LIS3MDL_MAG_INT_CFG, LIS3MDL_MAG_INT_SRC]) (lis_int_fields io)"
  by (simp_all add: lis_int_fields_def disjoint_fields_def enum_field_def pos_field_def)

lemma lis3mdl_fields_disjoint: "disjoint_fields (map (\<lambda>f. (f_reg f, f_mask f)) (lis3mdl_fields io))"
proof -
  let ?gs = "[([LIS3MDL_MAG_CTRL_REG3, LIS3MDL_MAG_CTRL_REG5, LIS3MDL_MAG_CTRL_REG2, LIS3MDL_MAG_CTRL_REG1, LIS3MDL_MAG_CTRL_REG4], lis_ctrl_fields io),
      ([LIS3MDL_MAG_INT_CFG, LIS3MDL_MAG_INT_SRC], lis_int_fields io)]"
  have "disjoint_fields (map (\<lambda>f. (f_reg f, f_mask f)) (concat (map snd ?gs)))"
    using lis_ctrl_fields_places [of io] lis_int_fields_places [of io]
    by (intro disjoint_fields_groups) simp_all
  then show ?thesis by (simp add: lis3mdl_fields_def)
qed

interpretation lis_table: field_table lis3mdl_fields
  by unfold_locales (rule lis3mdl_fields_ok, rule lis3mdl_fields_disjoint)

subsection \<open>Swapping bytes\<close>

lemma fold_list_update:
  assumes "b + n \<le> length xs"
  shows "fold (\<lambda>j xs. xs[b + j := f j]) [0..<n] xs = take b xs @ map f [0..<n] @ drop (b + n) xs"
  using assms
proof (induction n)
  case 0
  then show ?case by simp
next
  case (Suc n)
  then have "drop (b + n) xs = xs ! (b + n) # drop (b + Suc n) xs" by (simp add: Cons_nth_drop_Suc)
  then show ?case using Suc by (simp add: list_update_append)
qed

lemma swap_dimension_eq:
  assumes "(i + 1) * n \<le> length buf"
  shows "swap_dimension n i buf = take (i * n) buf @ rev (take n (drop (i * n) buf)) @ drop ((i + 1) * n) buf"
proof -
  have l: "i * n + n \<le> length buf" using assms by simp
  have "map (\<lambda>j. map (\<lambda>j. buf ! (j + i * n)) [0..<n] ! (n - 1 - j)) [0..<n] = rev (take n (drop (i * n) buf))"
    by (rule nth_equalityI) (use l in \<open>auto simp: rev_nth add.commute\<close>)
  then show ?thesis
    unfolding swap_dimension_def Let_def fold_list_update [OF l] by (simp add: add.commute)
qed

lemma length_swap_dimension [simp]: "(i + 1) * n \<le> length buf \<Longrightarrow> length (swap_dimension n i buf) = length buf"
  by (simp add: swap_dimension_eq)

lemma nth_swap_dimension:
  assumes "(i + 1) * n \<le> length buf" "p < length buf"
  shows "swap_dimension n i buf ! p =
    (if i * n \<le> p \<and> p < (i + 1) * n then buf ! (i * n + (n - 1 - (p - i * n))) else buf ! p)"
  using assms by (auto simp: swap_dimension_eq nth_append rev_nth)

text \<open>Byte \<open>p\<close> of the result: its mirror image in its dimension.\<close>

definition mirror :: "nat \<Rightarrow> nat \<Rightarrow> nat" where
  "mirror n p = (p div n) * n + (n - 1 - p mod n)"

lemma mirror_lt: "p < d * n \<Longrightarrow> mirror n p < d * n"
proof -
  assume p: "p < d * n"
  then have n: "0 < n" by (cases n) simp_all
  from p n have "p div n < d" by (simp add: less_mult_imp_div_less)
  then have "(p div n + 1) * n \<le> d * n" by (intro mult_le_mono1) simp
  moreover have "mirror n p < (p div n + 1) * n" using n by (simp add: mirror_def)
  ultimately show ?thesis by linarith
qed

lemma mirror_mirror: "0 < n \<Longrightarrow> mirror n (mirror n p) = p"
proof -
  assume n: "0 < n"
  then have m: "p mod n < n" by simp
  have "mirror n p div n = p div n" using n by (simp add: mirror_def div_add_self2)
  moreover have "mirror n p mod n = n - 1 - p mod n" using n by (simp add: mirror_def)
  ultimately have "mirror n (mirror n p) = p div n * n + (n - 1 - (n - 1 - p mod n))" by (simp add: mirror_def)
  also have "n - 1 - (n - 1 - p mod n) = p mod n" using m by simp
  finally show ?thesis by simp
qed

lemma fold_swap_dimension:
  assumes "d * n \<le> length buf"
  shows "length (fold (swap_dimension n) [0..<d] buf) = length buf \<and>
    (\<forall>p < length buf. fold (swap_dimension n) [0..<d] buf ! p = (if p < d * n then buf ! mirror n p else buf ! p))"
  using assms
proof (induction d)
  case 0
  then show ?case by simp
next
  case (Suc d)
  let ?b = "fold (swap_dimension n) [0..<d] buf"
  have b: "length ?b = length buf" "\<And>p. p < length buf \<Longrightarrow> ?b ! p = (if p < d * n then buf ! mirror n p else buf ! p)"
    using Suc by simp_all
  have d: "(d + 1) * n \<le> length ?b" using Suc.prems b(1) by simp
  have "swap_dimension n d ?b ! p = (if p < Suc d * n then buf ! mirror n p else buf ! p)" if p: "p < length buf" for p
  proof (cases "d * n \<le> p \<and> p < (d + 1) * n")
    case True
    then have q1: "p div n = d" by (auto simp: div_nat_eqI algebra_simps)
    then have q: "p mod n = p - d * n" using minus_div_mult_eq_mod [of p n] by simp
    have "d * n + n \<le> length buf" "p < d * n + n" using True d b(1) by simp_all
    then have "mirror n p < length buf" "\<not> mirror n p < d * n" "p < Suc d * n"
      using True by (simp_all add: mirror_def q q1)
    moreover have "swap_dimension n d ?b ! p = ?b ! mirror n p"
      using nth_swap_dimension [OF d, of p] True p b(1) by (simp add: mirror_def q q1)
    ultimately show ?thesis using b(2) [of "mirror n p"] by simp
  next
    case False
    then show ?thesis using p b nth_swap_dimension [OF d] by auto
  qed
  then show ?case using b(1) d by simp
qed

subsection \<open>Properties\<close>

text \<open>
  Every accessor that writes a field of the magnetometer, given a value of the field's type, changes
  no other register and no other bit, whether or not the transfers succeed; after a successful
  write, the accessor that reads the field returns the value, and one that reads another field
  returns what it would have returned before.
\<close>

lemma lis3mdl_fields_spec:
  assumes "register_bus io regs A" "i < length (lis3mdl_fields io)" "f = lis3mdl_fields io ! i" "f_reg f \<in> A"
    and "f_values f v" "f_write f v e = (st, e')"
  shows "(\<forall>x \<in> A. x \<noteq> f_reg f \<longrightarrow> regs e' x = regs e x) \<and>
    regs e' (f_reg f) AND NOT (f_mask f) = regs e (f_reg f) AND NOT (f_mask f) \<and>
    (st = MEMS_SUCCESS \<longrightarrow> (\<forall>w e''. f_read f e' = (MEMS_SUCCESS, w, e'') \<longrightarrow> w = v)) \<and>
    (\<forall>j < length (lis3mdl_fields io). \<forall>g w w' e1 e2. j \<noteq> i \<longrightarrow> g = lis3mdl_fields io ! j \<longrightarrow> f_reg g \<in> A \<longrightarrow>
       f_read g e = (MEMS_SUCCESS, w, e1) \<longrightarrow> f_read g e' = (MEMS_SUCCESS, w', e2) \<longrightarrow> w' = w)"
  by (rule lis_table.spec_independent [OF assms])

lemma lis3mdl_fields_spec_witness:
  "\<exists>e'. LIS3MDL_MAG_W_OutputDataRate register_file 0x18 (\<lambda>a. 0x05) = (MEMS_SUCCESS, e') \<and>
     e' LIS3MDL_MAG_CTRL_REG2 = 0x05 \<and> fst (snd (LIS3MDL_MAG_R_OutputDataRate register_file e')) = 0x18"
proof -
  let ?io = register_file
  let ?f = "enum_field (LIS3MDL_MAG_W_OutputDataRate ?io) (LIS3MDL_MAG_R_OutputDataRate ?io)
    LIS3MDL_MAG_CTRL_REG1 LIS3MDL_MAG_DO_MASK LIS3MDL_MAG_DO_t"
  obtain st e' where w: "f_write ?f 0x18 (\<lambda>a. 0x05) = (st, e')" by fastforce
  then have st: "st = MEMS_SUCCESS" by (simp add: enum_field_def LIS3MDL_MAG_W_OutputDataRate_def)
  have "?f \<in> set (lis3mdl_fields ?io)" by (simp add: lis3mdl_fields_def lis_ctrl_fields_def)
  then obtain i where i: "i < length (lis3mdl_fields ?io)" "?f = lis3mdl_fields ?io ! i"
    by (auto simp: in_set_conv_nth)
  have "f_values ?f 0x18" by (simp add: enum_field_def LIS3MDL_MAG_DO_t_def)
  then have "(\<forall>x \<in> UNIV. x \<noteq> LIS3MDL_MAG_CTRL_REG1 \<longrightarrow> e' x = 0x05) \<and>
      (\<forall>w e''. f_read ?f e' = (MEMS_SUCCESS, w, e'') \<longrightarrow> w = 0x18)"
    using lis3mdl_fields_spec [OF register_file_bus i, where A = UNIV and v = "0x18", OF _ _ w] st
    by (simp add: enum_field_def)
  then show ?thesis
    using w st by (simp add: enum_field_def LIS3MDL_MAG_R_OutputDataRate_def read_field_pos)
qed

text \<open>
  Swapping the bytes of the dimensions does not touch memory outside the buffers if the bytes of one
  dimension fit the ten bytes of scratch space and all of them the caller's buffer. It puts each byte in
  the mirrored place of its dimension, leaves the bytes after the last dimension alone, and
  is undone by doing it again.
\<close>

theorem lis3mdl_swap_spec:
  assumes "dimension \<noteq> 0" "n = unat numberOfByte div unat dimension" "n \<le> 10" "n * unat dimension \<le> length buf"
  shows "\<exists>out. LIS3MDL_MAG_SwapHighLowByte buf numberOfByte dimension = Some out \<and> length out = length buf \<and>
    (\<forall>p < length buf. out ! p = (if p < unat dimension * n then buf ! mirror n p else buf ! p)) \<and>
    LIS3MDL_MAG_SwapHighLowByte out numberOfByte dimension = Some buf"
proof -
  let ?sw = "fold (swap_dimension n) [0..<unat dimension]"
  have l: "unat dimension * n \<le> length buf" using assms(4) by (simp add: mult.commute)
  note s = fold_swap_dimension [OF l]
  have l': "unat dimension * n \<le> length (?sw buf)" using s l by simp
  note s' = fold_swap_dimension [OF l']
  have "?sw (?sw buf) = buf"
  proof (rule nth_equalityI)
    show "length (?sw (?sw buf)) = length buf" using s s' by simp
    fix p
    assume "p < length (?sw (?sw buf))"
    then have p: "p < length buf" using s s' by simp
    show "?sw (?sw buf) ! p = buf ! p"
    proof (cases "p < unat dimension * n")
      case True
      then have "0 < n" by (cases n) simp_all
      then show ?thesis using s s' p True mirror_lt [OF True] l by (simp add: mirror_mirror)
    next
      case False
      then show ?thesis using s s' p by simp
    qed
  qed
  then show ?thesis
    using s assms by (auto simp: LIS3MDL_MAG_SwapHighLowByte_def Let_def)
qed

theorem lis3mdl_swap_spec_witness:
  "\<exists>out. LIS3MDL_MAG_SwapHighLowByte [1, 2, 3, 4, 5, 6, 7] 6 3 = Some out \<and> out ! 2 = 4 \<and> out ! 6 = 7"
proof -
  let ?buf = "[1, 2, 3, 4, 5, 6, 7] :: u8 list"
  obtain out where out: "LIS3MDL_MAG_SwapHighLowByte ?buf 6 3 = Some out"
      "\<forall>p < length ?buf. out ! p = (if p < unat (3 :: u8) * 2 then ?buf ! mirror 2 p else ?buf ! p)"
  proof -
    have "(3 :: u8) \<noteq> 0" "2 = unat (6 :: u8) div unat (3 :: u8)" "(2 :: nat) \<le> 10" "2 * unat (3 :: u8) \<le> length ?buf"
      by simp_all
    from lis3mdl_swap_spec [OF this] that show thesis by blast
  qed
  have "out ! 2 = 4" using out(2) [rule_format, of 2] by (simp add: mirror_def)
  moreover have "out ! 6 = 7" using out(2) [rule_format, of 6] by simp
  ultimately show ?thesis using out(1) by blast
qed

end
