(* ===== verification/Hts221.thy ===== *)
theory Hts221
  imports SensorBus
begin

text \<open>
  The driver of the HTS221 humidity and temperature sensor,
  \<^verbatim>\<open>CoreSensors/src/HTS221Sensor/HTS221_Driver.c\<close>. Its checks of parameters are compiled in
  (\<^verbatim>\<open>USE_FULL_ASSERT_HTS221\<close>) and end in an endless loop: a function whose parameters are refused has the
  value \<open>None\<close>. Results that are not written on an error path are \<open>None\<close> too. The device
  advances the register address within a transfer when bit 7 of the address is set.
\<close>

unbundle bit_operations_syntax

subsection \<open>Registers, masks and values\<close>

datatype HTS221_Error_et = HTS221_OK | HTS221_ERROR

abbreviation (input) "HTS221_WHO_AM_I_REG \<equiv> 0x0F :: u8"
abbreviation (input) "HTS221_AV_CONF_REG \<equiv> 0x10 :: u8"
abbreviation (input) "HTS221_AVGH_MASK \<equiv> 0x07 :: u8"
abbreviation (input) "HTS221_AVGT_MASK \<equiv> 0x38 :: u8"
abbreviation (input) "HTS221_CTRL_REG1 \<equiv> 0x20 :: u8"
abbreviation (input) "HTS221_PD_BIT \<equiv> 7 :: nat"
abbreviation (input) "HTS221_BDU_BIT \<equiv> 2 :: nat"
abbreviation (input) "HTS221_PD_MASK \<equiv> 0x80 :: u8"
abbreviation (input) "HTS221_BDU_MASK \<equiv> 0x04 :: u8"
abbreviation (input) "HTS221_ODR_MASK \<equiv> 0x03 :: u8"
abbreviation (input) "HTS221_CTRL_REG2 \<equiv> 0x21 :: u8"
abbreviation (input) "HTS221_BOOT_BIT \<equiv> 7 :: nat"
abbreviation (input) "HTS221_HEATHER_BIT \<equiv> 1 :: nat"
abbreviation (input) "HTS221_BOOT_MASK \<equiv> 0x80 :: u8"
abbreviation (input) "HTS221_HEATHER_MASK \<equiv> 0x02 :: u8"
abbreviation (input) "HTS221_ONE_SHOT_MASK \<equiv> 0x01 :: u8"
abbreviation (input) "HTS221_CTRL_REG3 \<equiv> 0x22 :: u8"
abbreviation (input) "HTS221_DRDY_H_L_BIT \<equiv> 7 :: nat"
abbreviation (input) "HTS221_DRDY_BIT \<equiv> 2 :: nat"
abbreviation (input) "HTS221_DRDY_H_L_MASK \<equiv> 0x80 :: u8"
abbreviation (input) "HTS221_PP_OD_MASK \<equiv> 0x40 :: u8"
abbreviation (input) "HTS221_DRDY_MASK \<equiv> 0x04 :: u8"
abbreviation (input) "HTS221_STATUS_REG \<equiv> 0x27 :: u8"
abbreviation (input) "HTS221_H_DA_BIT \<equiv> 1 :: nat"
abbreviation (input) "HTS221_HDA_MASK \<equiv> 0x02 :: u8"
abbreviation (input) "HTS221_TDA_MASK \<equiv> 0x01 :: u8"
abbreviation (input) "HTS221_HR_OUT_L_REG \<equiv> 0x28 :: u8"
abbreviation (input) "HTS221_TEMP_OUT_L_REG \<equiv> 0x2A :: u8"
abbreviation (input) "HTS221_DISABLE \<equiv> 0 :: u8"
abbreviation (input) "HTS221_ENABLE \<equiv> 1 :: u8"
abbreviation (input) "HTS221_RESET \<equiv> 0 :: u8"
abbreviation (input) "HTS221_SET \<equiv> 1 :: u8"
abbreviation (input) "HTS221_HIGH_LVL \<equiv> 0x00 :: u8"
abbreviation (input) "HTS221_LOW_LVL \<equiv> 0x80 :: u8"

definition HTS221_State_et :: "u8 list" where
  "HTS221_State_et = [HTS221_DISABLE, HTS221_ENABLE]"

definition HTS221_BitStatus_et :: "u8 list" where
  "HTS221_BitStatus_et = [HTS221_RESET, HTS221_SET]"

definition HTS221_Avgh_et :: "u8 list" where
  "HTS221_Avgh_et = [0x00, 0x01, 0x02, 0x03, 0x04, 0x05, 0x06, 0x07]"

definition HTS221_Avgt_et :: "u8 list" where
  "HTS221_Avgt_et = [0x00, 0x08, 0x10, 0x18, 0x20, 0x28, 0x30, 0x38]"

definition HTS221_Odr_et :: "u8 list" where
  "HTS221_Odr_et = [0x00, 0x01, 0x02, 0x03]"

definition HTS221_OutputType_et :: "u8 list" where
  "HTS221_OutputType_et = [0x00, 0x40]"

definition HTS221_DrdyLevel_et :: "u8 list" where
  "HTS221_DrdyLevel_et = [HTS221_HIGH_LVL, HTS221_LOW_LVL]"

record HTS221_Init_st =
  avg_h :: u8
  avg_t :: u8
  odr :: u8
  bdu_status :: u8
  heater_status :: u8
  irq_level :: u8
  irq_output_type :: u8
  irq_enable :: u8

subsection \<open>Access to registers\<close>

definition HTS221_ReadReg :: "'e sensor_io \<Rightarrow> u8 \<Rightarrow> u16 \<Rightarrow> 'e \<Rightarrow> HTS221_Error_et \<times> u8 list \<times> 'e" where
  "HTS221_ReadReg io RegAddr NumByteToRead e =
     (let r = if 1 < NumByteToRead then RegAddr OR 0x80 else RegAddr
      in case IO_Read io r NumByteToRead e of (st, Data, e) \<Rightarrow> (if st \<noteq> 0 then HTS221_ERROR else HTS221_OK, Data, e))"

definition HTS221_WriteReg :: "'e sensor_io \<Rightarrow> u8 \<Rightarrow> u16 \<Rightarrow> u8 list \<Rightarrow> 'e \<Rightarrow> HTS221_Error_et \<times> 'e" where
  "HTS221_WriteReg io RegAddr NumByteToWrite Data e =
     (let r = if 1 < NumByteToWrite then RegAddr OR 0x80 else RegAddr
      in case IO_Write io r (take (unat NumByteToWrite) Data) e of (st, e) \<Rightarrow>
           (if st \<noteq> 0 then HTS221_ERROR else HTS221_OK, e))"

text \<open>What the functions below do: update one register, or read some.\<close>

definition hts_update :: "'e sensor_io \<Rightarrow> u8 \<Rightarrow> (u8 \<Rightarrow> u8) \<Rightarrow> 'e \<Rightarrow> HTS221_Error_et \<times> 'e" where
  "hts_update io r f e =
     (case HTS221_ReadReg io r 1 e of (st, bytes, e) \<Rightarrow>
        if st = HTS221_ERROR then (HTS221_ERROR, e) else HTS221_WriteReg io r 1 [f (bytes ! 0)] e)"

definition hts_fetch :: "'e sensor_io \<Rightarrow> u8 \<Rightarrow> u16 \<Rightarrow> (u8 list \<Rightarrow> 'a) \<Rightarrow> 'e \<Rightarrow> HTS221_Error_et \<times> 'a option \<times> 'e" where
  "hts_fetch io r n f e =
     (case HTS221_ReadReg io r n e of (st, bytes, e) \<Rightarrow>
        if st = HTS221_ERROR then (HTS221_ERROR, None, e) else (HTS221_OK, Some (f bytes), e))"

definition HTS221_Get_DriverVersion :: "HTS221_Error_et \<times> u8 \<times> u8 \<times> u8" where
  "HTS221_Get_DriverVersion = (HTS221_OK, 1, 1, 0)"

definition HTS221_Get_DeviceID :: "'e sensor_io \<Rightarrow> 'e \<Rightarrow> HTS221_Error_et \<times> u8 option \<times> 'e" where
  "HTS221_Get_DeviceID io = hts_fetch io HTS221_WHO_AM_I_REG 1 (\<lambda>b. b ! 0)"

subsection \<open>Configuration\<close>

text \<open>
  As in the code, the heater is cleared with the number of its bit where its mask is meant, and the level
  of the interrupt, which is a mask already, is shifted once more.
\<close>

definition HTS221_Set_InitConfig :: "'e sensor_io \<Rightarrow> HTS221_Init_st \<Rightarrow> 'e \<Rightarrow> (HTS221_Error_et \<times> 'e) option" where
  "HTS221_Set_InitConfig io pxInit e =
     (if \<not> (avg_h pxInit \<in> set HTS221_Avgh_et \<and> avg_t pxInit \<in> set HTS221_Avgt_et \<and> odr pxInit \<in> set HTS221_Odr_et \<and>
         bdu_status pxInit \<in> set HTS221_State_et \<and> heater_status pxInit \<in> set HTS221_State_et \<and>
         irq_level pxInit \<in> set HTS221_DrdyLevel_et \<and> irq_output_type pxInit \<in> set HTS221_OutputType_et \<and>
         irq_enable pxInit \<in> set HTS221_State_et) then None
      else Some
       (case hts_update io HTS221_AV_CONF_REG
           (\<lambda>b. b AND NOT (HTS221_AVGH_MASK OR HTS221_AVGT_MASK) OR avg_h pxInit OR avg_t pxInit) e of (st, e) \<Rightarrow>
        if st = HTS221_ERROR then (HTS221_ERROR, e)
        else case HTS221_ReadReg io HTS221_CTRL_REG1 3 e of (st, buffer, e) \<Rightarrow>
        if st = HTS221_ERROR then (HTS221_ERROR, e)
        else let b0 = buffer ! 0 AND NOT (HTS221_BDU_MASK OR HTS221_ODR_MASK) OR odr pxInit
                 OR push_bit HTS221_BDU_BIT (bdu_status pxInit);
               b1 = buffer ! 1 AND NOT (of_nat HTS221_HEATHER_BIT) OR push_bit HTS221_HEATHER_BIT (heater_status pxInit);
               b2 = buffer ! 2 AND NOT (HTS221_DRDY_H_L_MASK OR HTS221_PP_OD_MASK OR HTS221_DRDY_MASK)
                 OR push_bit HTS221_DRDY_H_L_BIT (irq_level pxInit) OR irq_output_type pxInit
                 OR push_bit HTS221_DRDY_BIT (irq_enable pxInit)
             in HTS221_WriteReg io HTS221_CTRL_REG1 3 [b0, b1, b2] e))"

definition HTS221_Get_InitConfig :: "'e sensor_io \<Rightarrow> HTS221_Init_st \<Rightarrow> 'e \<Rightarrow> HTS221_Error_et \<times> HTS221_Init_st \<times> 'e" where
  "HTS221_Get_InitConfig io pxInit e =
     (case HTS221_ReadReg io HTS221_AV_CONF_REG 1 e of (st, buffer, e) \<Rightarrow>
        if st = HTS221_ERROR then (HTS221_ERROR, pxInit, e)
        else let pxInit = pxInit\<lparr>avg_h := buffer ! 0 AND HTS221_AVGH_MASK, avg_t := buffer ! 0 AND HTS221_AVGT_MASK\<rparr>
        in case HTS221_ReadReg io HTS221_CTRL_REG1 3 e of (st, buffer, e) \<Rightarrow>
        if st = HTS221_ERROR then (HTS221_ERROR, pxInit, e)
        else (HTS221_OK, pxInit\<lparr>odr := buffer ! 0 AND HTS221_ODR_MASK,
          bdu_status := drop_bit HTS221_BDU_BIT (buffer ! 0 AND HTS221_BDU_MASK),
          heater_status := drop_bit HTS221_HEATHER_BIT (buffer ! 1 AND HTS221_HEATHER_MASK),
          irq_level := buffer ! 2 AND HTS221_DRDY_H_L_MASK,
          irq_output_type := buffer ! 2 AND HTS221_PP_OD_MASK,
          irq_enable := drop_bit HTS221_DRDY_BIT (buffer ! 2 AND HTS221_DRDY_MASK)\<rparr>, e))"

definition HTS221_DeInit :: "'e sensor_io \<Rightarrow> 'e \<Rightarrow> HTS221_Error_et \<times> 'e" where
  "HTS221_DeInit io e =
     (case HTS221_ReadReg io HTS221_CTRL_REG1 2 e of (st, buffer, e) \<Rightarrow>
        if st = HTS221_ERROR then (HTS221_ERROR, e)
        else case HTS221_WriteReg io HTS221_CTRL_REG1 2
            [buffer ! 0 OR push_bit HTS221_PD_BIT 0x01, buffer ! 1 OR push_bit HTS221_BOOT_BIT 0x01] e of (st, e) \<Rightarrow>
        if st = HTS221_ERROR then (HTS221_ERROR, e)
        else case HTS221_ReadReg io HTS221_HR_OUT_L_REG 4 e of (st, buffer, e) \<Rightarrow> (st, e))"

subsection \<open>Measurements\<close>

definition hts_i16 :: "u8 list \<Rightarrow> nat \<Rightarrow> int" where
  "hts_i16 b i = sint (push_bit 8 (ucast (b ! (2 * i + 1))) OR ucast (b ! (2 * i)) :: u16)"

definition HTS221_Get_RawMeasurement :: "'e sensor_io \<Rightarrow> 'e \<Rightarrow> HTS221_Error_et \<times> (int \<times> int) option \<times> 'e" where
  "HTS221_Get_RawMeasurement io = hts_fetch io HTS221_HR_OUT_L_REG 4 (\<lambda>b. (hts_i16 b 0, hts_i16 b 1))"

definition HTS221_Get_HumidityRaw :: "'e sensor_io \<Rightarrow> 'e \<Rightarrow> HTS221_Error_et \<times> int option \<times> 'e" where
  "HTS221_Get_HumidityRaw io = hts_fetch io HTS221_HR_OUT_L_REG 2 (\<lambda>b. hts_i16 b 0)"

definition HTS221_Get_TemperatureRaw :: "'e sensor_io \<Rightarrow> 'e \<Rightarrow> HTS221_Error_et \<times> int option \<times> 'e" where
  "HTS221_Get_TemperatureRaw io = hts_fetch io HTS221_TEMP_OUT_L_REG 2 (\<lambda>b. hts_i16 b 0)"

definition HTS221_Get_DataStatus :: "'e sensor_io \<Rightarrow> 'e \<Rightarrow> HTS221_Error_et \<times> (u8 \<times> u8) option \<times> 'e" where
  "HTS221_Get_DataStatus io = hts_fetch io HTS221_STATUS_REG 1
     (\<lambda>b. (drop_bit HTS221_H_DA_BIT (b ! 0 AND HTS221_HDA_MASK), b ! 0 AND HTS221_TDA_MASK))"

definition HTS221_IsMeasurementCompleted :: "'e sensor_io \<Rightarrow> 'e \<Rightarrow> HTS221_Error_et \<times> u8 option \<times> 'e" where
  "HTS221_IsMeasurementCompleted io = hts_fetch io HTS221_STATUS_REG 1
     (\<lambda>b. if b ! 0 AND (HTS221_HDA_MASK OR HTS221_TDA_MASK) = HTS221_HDA_MASK OR HTS221_TDA_MASK
          then HTS221_SET else HTS221_RESET)"

subsection \<open>Commands\<close>

definition HTS221_Activate :: "'e sensor_io \<Rightarrow> 'e \<Rightarrow> HTS221_Error_et \<times> 'e" where
  "HTS221_Activate io = hts_update io HTS221_CTRL_REG1 (\<lambda>tmp. tmp OR HTS221_PD_MASK)"

definition HTS221_DeActivate :: "'e sensor_io \<Rightarrow> 'e \<Rightarrow> HTS221_Error_et \<times> 'e" where
  "HTS221_DeActivate io = hts_update io HTS221_CTRL_REG1 (\<lambda>tmp. tmp AND NOT HTS221_PD_MASK)"

definition HTS221_MemoryBoot :: "'e sensor_io \<Rightarrow> 'e \<Rightarrow> HTS221_Error_et \<times> 'e" where
  "HTS221_MemoryBoot io = hts_update io HTS221_CTRL_REG2 (\<lambda>tmp. tmp OR HTS221_BOOT_MASK)"

definition HTS221_StartOneShotMeasurement :: "'e sensor_io \<Rightarrow> 'e \<Rightarrow> HTS221_Error_et \<times> 'e" where
  "HTS221_StartOneShotMeasurement io = hts_update io HTS221_CTRL_REG2 (\<lambda>tmp. tmp OR HTS221_ONE_SHOT_MASK)"

subsection \<open>Fields\<close>

definition HTS221_Set_AvgHT :: "'e sensor_io \<Rightarrow> u8 \<Rightarrow> u8 \<Rightarrow> 'e \<Rightarrow> (HTS221_Error_et \<times> 'e) option" where
  "HTS221_Set_AvgHT io avgh avgt e =
     (if avgh \<notin> set HTS221_Avgh_et \<or> avgt \<notin> set HTS221_Avgt_et then None
      else Some (hts_update io HTS221_AV_CONF_REG
        (\<lambda>tmp. tmp AND NOT (HTS221_AVGH_MASK OR HTS221_AVGT_MASK) OR avgh OR avgt) e))"

definition HTS221_Set_AvgH :: "'e sensor_io \<Rightarrow> u8 \<Rightarrow> 'e \<Rightarrow> (HTS221_Error_et \<times> 'e) option" where
  "HTS221_Set_AvgH io avgh e =
     (if avgh \<notin> set HTS221_Avgh_et then None
      else Some (hts_update io HTS221_AV_CONF_REG (\<lambda>tmp. tmp AND NOT HTS221_AVGH_MASK OR avgh) e))"

definition HTS221_Set_AvgT :: "'e sensor_io \<Rightarrow> u8 \<Rightarrow> 'e \<Rightarrow> (HTS221_Error_et \<times> 'e) option" where
  "HTS221_Set_AvgT io avgt e =
     (if avgt \<notin> set HTS221_Avgt_et then None
      else Some (hts_update io HTS221_AV_CONF_REG (\<lambda>tmp. tmp AND NOT HTS221_AVGT_MASK OR avgt) e))"

definition HTS221_Get_AvgHT :: "'e sensor_io \<Rightarrow> 'e \<Rightarrow> HTS221_Error_et \<times> (u8 \<times> u8) option \<times> 'e" where
  "HTS221_Get_AvgHT io = hts_fetch io HTS221_AV_CONF_REG 1 (\<lambda>b. (b ! 0 AND HTS221_AVGH_MASK, b ! 0 AND HTS221_AVGT_MASK))"

definition HTS221_Set_BduMode :: "'e sensor_io \<Rightarrow> u8 \<Rightarrow> 'e \<Rightarrow> (HTS221_Error_et \<times> 'e) option" where
  "HTS221_Set_BduMode io status e =
     (if status \<notin> set HTS221_State_et then None
      else Some (hts_update io HTS221_CTRL_REG1 (\<lambda>tmp. tmp AND NOT HTS221_BDU_MASK OR push_bit HTS221_BDU_BIT status) e))"

definition HTS221_Get_BduMode :: "'e sensor_io \<Rightarrow> 'e \<Rightarrow> HTS221_Error_et \<times> u8 option \<times> 'e" where
  "HTS221_Get_BduMode io = hts_fetch io HTS221_CTRL_REG1 1 (\<lambda>b. drop_bit HTS221_BDU_BIT (b ! 0 AND HTS221_BDU_MASK))"

definition HTS221_Set_PowerDownMode :: "'e sensor_io \<Rightarrow> u8 \<Rightarrow> 'e \<Rightarrow> (HTS221_Error_et \<times> 'e) option" where
  "HTS221_Set_PowerDownMode io status e =
     (if status \<notin> set HTS221_BitStatus_et then None
      else Some (hts_update io HTS221_CTRL_REG1 (\<lambda>tmp. tmp AND NOT HTS221_PD_MASK OR push_bit HTS221_PD_BIT status) e))"

definition HTS221_Get_PowerDownMode :: "'e sensor_io \<Rightarrow> 'e \<Rightarrow> HTS221_Error_et \<times> u8 option \<times> 'e" where
  "HTS221_Get_PowerDownMode io = hts_fetch io HTS221_CTRL_REG1 1 (\<lambda>b. drop_bit HTS221_PD_BIT (b ! 0 AND HTS221_PD_MASK))"

definition HTS221_Set_Odr :: "'e sensor_io \<Rightarrow> u8 \<Rightarrow> 'e \<Rightarrow> (HTS221_Error_et \<times> 'e) option" where
  "HTS221_Set_Odr io rate e =
     (if rate \<notin> set HTS221_Odr_et then None
      else Some (hts_update io HTS221_CTRL_REG1 (\<lambda>tmp. tmp AND NOT HTS221_ODR_MASK OR rate) e))"

definition HTS221_Get_Odr :: "'e sensor_io \<Rightarrow> 'e \<Rightarrow> HTS221_Error_et \<times> u8 option \<times> 'e" where
  "HTS221_Get_Odr io = hts_fetch io HTS221_CTRL_REG1 1 (\<lambda>b. b ! 0 AND HTS221_ODR_MASK)"

definition HTS221_Set_HeaterState :: "'e sensor_io \<Rightarrow> u8 \<Rightarrow> 'e \<Rightarrow> (HTS221_Error_et \<times> 'e) option" where
  "HTS221_Set_HeaterState io status e =
     (if status \<notin> set HTS221_State_et then None
      else Some (hts_update io HTS221_CTRL_REG2 (\<lambda>tmp. tmp AND NOT HTS221_HEATHER_MASK OR push_bit HTS221_HEATHER_BIT status) e))"

definition HTS221_Get_HeaterState :: "'e sensor_io \<Rightarrow> 'e \<Rightarrow> HTS221_Error_et \<times> u8 option \<times> 'e" where
  "HTS221_Get_HeaterState io = hts_fetch io HTS221_CTRL_REG2 1 (\<lambda>b. drop_bit HTS221_HEATHER_BIT (b ! 0 AND HTS221_HEATHER_MASK))"

definition HTS221_Set_IrqActiveLevel :: "'e sensor_io \<Rightarrow> u8 \<Rightarrow> 'e \<Rightarrow> (HTS221_Error_et \<times> 'e) option" where
  "HTS221_Set_IrqActiveLevel io level e =
     (if level \<notin> set HTS221_DrdyLevel_et then None
      else Some (hts_update io HTS221_CTRL_REG3 (\<lambda>tmp. tmp AND NOT HTS221_DRDY_H_L_MASK OR level) e))"

definition HTS221_Get_IrqActiveLevel :: "'e sensor_io \<Rightarrow> 'e \<Rightarrow> HTS221_Error_et \<times> u8 option \<times> 'e" where
  "HTS221_Get_IrqActiveLevel io = hts_fetch io HTS221_CTRL_REG3 1 (\<lambda>b. b ! 0 AND HTS221_DRDY_H_L_MASK)"

definition HTS221_Set_IrqOutputType :: "'e sensor_io \<Rightarrow> u8 \<Rightarrow> 'e \<Rightarrow> (HTS221_Error_et \<times> 'e) option" where
  "HTS221_Set_IrqOutputType io kind e =
     (if kind \<notin> set HTS221_OutputType_et then None
      else Some (hts_update io HTS221_CTRL_REG3 (\<lambda>tmp. tmp AND NOT HTS221_PP_OD_MASK OR kind) e))"

definition HTS221_Get_IrqOutputType :: "'e sensor_io \<Rightarrow> 'e \<Rightarrow> HTS221_Error_et \<times> u8 option \<times> 'e" where
  "HTS221_Get_IrqOutputType io = hts_fetch io HTS221_CTRL_REG3 1 (\<lambda>b. b ! 0 AND HTS221_PP_OD_MASK)"

definition HTS221_Set_IrqEnable :: "'e sensor_io \<Rightarrow> u8 \<Rightarrow> 'e \<Rightarrow> (HTS221_Error_et \<times> 'e) option" where
  "HTS221_Set_IrqEnable io status e =
     (if status \<notin> set HTS221_State_et then None
      else Some (hts_update io HTS221_CTRL_REG3 (\<lambda>tmp. tmp AND NOT HTS221_DRDY_MASK OR push_bit HTS221_DRDY_BIT status) e))"

definition HTS221_Get_IrqEnable :: "'e sensor_io \<Rightarrow> 'e \<Rightarrow> HTS221_Error_et \<times> u8 option \<times> 'e" where
  "HTS221_Get_IrqEnable io = hts_fetch io HTS221_CTRL_REG3 1 (\<lambda>b. drop_bit HTS221_DRDY_BIT (b ! 0 AND HTS221_DRDY_MASK))"

end
