(* ===== verification/Hts221Thms.thy ===== *)
theory Hts221Thms
  imports Hts221
begin

text \<open>
  Correctness of the HTS221 driver: its fields, and what a configuration that is written gives when
  it is read back.
\<close>

unbundle bit_operations_syntax

subsection \<open>The fields\<close>

text \<open>The accessors as those of the other drivers; a refused parameter never gets there.\<close>

fun hts_status :: "HTS221_Error_et \<Rightarrow> status_t" where
  "hts_status HTS221_OK = MEMS_SUCCESS"
| "hts_status HTS221_ERROR = MEMS_ERROR"

lemma hts_status_iff [simp]: "hts_status s = MEMS_SUCCESS \<longleftrightarrow> s = HTS221_OK" "hts_status s = MEMS_ERROR \<longleftrightarrow> s = HTS221_ERROR"
  by (cases s; simp)+

definition hts_setter :: "(u8 \<Rightarrow> 'e \<Rightarrow> (HTS221_Error_et \<times> 'e) option) \<Rightarrow> u8 \<Rightarrow> 'e \<Rightarrow> status_t \<times> 'e" where
  "hts_setter s v e = (case s v e of Some (st, e') \<Rightarrow> (hts_status st, e') | None \<Rightarrow> (MEMS_ERROR, e))"

definition hts_getter :: "('e \<Rightarrow> HTS221_Error_et \<times> u8 option \<times> 'e) \<Rightarrow> 'e \<Rightarrow> status_t \<times> u8 \<times> 'e" where
  "hts_getter g e = (case g e of (st, v, e') \<Rightarrow> (case v of Some w \<Rightarrow> (hts_status st, w, e') | None \<Rightarrow> (MEMS_ERROR, 0, e')))"

definition hts_field ::
  "(u8 \<Rightarrow> 'e \<Rightarrow> (HTS221_Error_et \<times> 'e) option) \<Rightarrow> ('e \<Rightarrow> HTS221_Error_et \<times> u8 option \<times> 'e) \<Rightarrow>
   u8 \<Rightarrow> u8 \<Rightarrow> nat \<Rightarrow> u8 list \<Rightarrow> 'e sensor_field" where
  "hts_field s g reg m p vs =
     \<lparr>f_write = hts_setter s, f_read = hts_getter g, f_reg = reg, f_mask = m, f_shift = p, f_values = (\<lambda>v. v \<in> set vs)\<rparr>"

definition hts221_fields :: "'e sensor_io \<Rightarrow> 'e sensor_field list" where
  "hts221_fields io =
     [hts_field (HTS221_Set_AvgH io) (\<lambda>e. case HTS221_Get_AvgHT io e of (st, v, e) \<Rightarrow> (st, map_option fst v, e))
        HTS221_AV_CONF_REG HTS221_AVGH_MASK 0 HTS221_Avgh_et,
      hts_field (HTS221_Set_AvgT io) (\<lambda>e. case HTS221_Get_AvgHT io e of (st, v, e) \<Rightarrow> (st, map_option snd v, e))
        HTS221_AV_CONF_REG HTS221_AVGT_MASK 0 HTS221_Avgt_et,
      hts_field (HTS221_Set_BduMode io) (HTS221_Get_BduMode io)
        HTS221_CTRL_REG1 HTS221_BDU_MASK HTS221_BDU_BIT HTS221_State_et,
      hts_field (HTS221_Set_PowerDownMode io) (HTS221_Get_PowerDownMode io)
        HTS221_CTRL_REG1 HTS221_PD_MASK HTS221_PD_BIT HTS221_BitStatus_et,
      hts_field (HTS221_Set_Odr io) (HTS221_Get_Odr io)
        HTS221_CTRL_REG1 HTS221_ODR_MASK 0 HTS221_Odr_et,
      hts_field (HTS221_Set_HeaterState io) (HTS221_Get_HeaterState io)
        HTS221_CTRL_REG2 HTS221_HEATHER_MASK HTS221_HEATHER_BIT HTS221_State_et,
      hts_field (HTS221_Set_IrqActiveLevel io) (HTS221_Get_IrqActiveLevel io)
        HTS221_CTRL_REG3 HTS221_DRDY_H_L_MASK 0 HTS221_DrdyLevel_et,
      hts_field (HTS221_Set_IrqOutputType io) (HTS221_Get_IrqOutputType io)
        HTS221_CTRL_REG3 HTS221_PP_OD_MASK 0 HTS221_OutputType_et,
      hts_field (HTS221_Set_IrqEnable io) (HTS221_Get_IrqEnable io)
        HTS221_CTRL_REG3 HTS221_DRDY_MASK HTS221_DRDY_BIT HTS221_State_et]"

lemma hts_ReadReg_1: "HTS221_ReadReg io r 1 e =
    (case mems_ReadReg io r 1 e of (st, b, e) \<Rightarrow> (if st = MEMS_ERROR then HTS221_ERROR else HTS221_OK, b, e))"
  by (simp add: HTS221_ReadReg_def mems_ReadReg_def split: prod.splits)

lemma hts_WriteReg_1: "HTS221_WriteReg io r 1 [b] e =
    (case mems_WriteReg io r [b] e of (st, e) \<Rightarrow> (if st = MEMS_ERROR then HTS221_ERROR else HTS221_OK, e))"
  by (simp add: HTS221_WriteReg_def mems_WriteReg_def split: prod.splits)

lemma hts_update_field:
  "(case hts_update io r (\<lambda>tmp. tmp AND NOT m OR x) e of (st, e') \<Rightarrow> (hts_status st, e')) = write_field io r m x e"
  by (auto simp: hts_update_def write_field_def hts_ReadReg_1 hts_WriteReg_1 split: prod.splits)
    (metis status_t.exhaust)

lemma hts_fetch_field:
  "hts_fetch io r 1 f e = (HTS221_OK, v, e') \<Longrightarrow>
   \<exists>b. v = Some (f b) \<and> read_pos_field io r m p e = (MEMS_SUCCESS, drop_bit p (b ! 0 AND m), e')"
  by (auto simp: hts_fetch_def read_pos_field_def hts_ReadReg_1 split: prod.splits if_splits)

lemma hts_field_ok:
  assumes s: "\<And>v e. v \<in> set vs \<Longrightarrow> s v e = Some (hts_update io r (\<lambda>tmp. tmp AND NOT m OR push_bit p v) e)"
    and g: "g = hts_fetch io r 1 (\<lambda>b. drop_bit p (b ! 0 AND m))"
    and vs: "list_all (\<lambda>v. push_bit p v AND m = push_bit p v \<and> drop_bit p (push_bit p v) = v) vs"
  shows "field_ok io (hts_field s g r m p vs)"
proof -
  have w: "hts_setter s v = write_field io r m (push_bit p v AND m)" "drop_bit p (push_bit p v AND m) = v"
    if "v \<in> set vs" for v
  proof -
    have "push_bit p v AND m = push_bit p v" "drop_bit p (push_bit p v) = v" using vs that by (simp_all add: list_all_iff)
    then show "hts_setter s v = write_field io r m (push_bit p v AND m)" "drop_bit p (push_bit p v AND m) = v"
      using s [OF that] hts_update_field [of io r m "push_bit p v"] by (auto simp: hts_setter_def)
  qed
  have r: "read_pos_field io r m p e = (MEMS_SUCCESS, w, e')" if "hts_getter g e = (MEMS_SUCCESS, w, e')" for e w e'
  proof -
    obtain st v e1 where ge: "g e = (st, v, e1)" using prod_cases3 by blast
    then have "st = HTS221_OK" "v = Some w" "e1 = e'"
      using that by (auto simp: hts_getter_def split: option.splits)
    then show ?thesis using hts_fetch_field [of io r "\<lambda>b. drop_bit p (b ! 0 AND m)" e v e1 m p] ge g by auto
  qed
  show ?thesis using w r unfolding field_ok_def hts_field_def by simp
qed

text \<open>Each field: its setter accepts the values of its type, and its getter reads its place.\<close>

lemmas hts_types = HTS221_Avgh_et_def HTS221_Avgt_et_def HTS221_State_et_def HTS221_BitStatus_et_def
  HTS221_Odr_et_def HTS221_DrdyLevel_et_def HTS221_OutputType_et_def

lemmas hts_setters = HTS221_Set_AvgH_def HTS221_Set_AvgT_def HTS221_Set_BduMode_def HTS221_Set_PowerDownMode_def
  HTS221_Set_Odr_def HTS221_Set_HeaterState_def HTS221_Set_IrqActiveLevel_def HTS221_Set_IrqOutputType_def
  HTS221_Set_IrqEnable_def

lemmas hts_getters = HTS221_Get_AvgHT_def HTS221_Get_BduMode_def HTS221_Get_PowerDownMode_def HTS221_Get_Odr_def
  HTS221_Get_HeaterState_def HTS221_Get_IrqActiveLevel_def HTS221_Get_IrqOutputType_def HTS221_Get_IrqEnable_def

lemma hts_fetch_map: "(case hts_fetch io r n f e of (st, v, e) \<Rightarrow> (st, map_option h v, e)) = hts_fetch io r n (\<lambda>b. h (f b)) e"
  by (simp add: hts_fetch_def split: prod.splits)

lemma hts221_fields_ok: "list_all (field_ok io) (hts221_fields io)"
  unfolding hts221_fields_def list.pred_inject
  by (intro conjI list.pred_inject(1); rule hts_field_ok)
    (simp_all add: hts_setters hts_getters hts_fetch_map hts_types fun_eq_iff)

lemma hts221_fields_disjoint: "disjoint_fields (map (\<lambda>f. (f_reg f, f_mask f)) (hts221_fields io))"
  by (simp add: hts221_fields_def hts_field_def disjoint_fields_def)

interpretation hts_table: field_table hts221_fields
  by unfold_locales (rule hts221_fields_ok, rule hts221_fields_disjoint)

subsection \<open>Transfers of several registers\<close>

text \<open>What the device does with bit 7 of the address: the registers from the address on are transferred.\<close>

definition burst_bus :: "'e sensor_io \<Rightarrow> ('e \<Rightarrow> u8 \<Rightarrow> u8) \<Rightarrow> u8 set \<Rightarrow> bool" where
  "burst_bus io regs A \<longleftrightarrow> register_bus io regs A \<and>
     (\<forall>a n e st bytes e'. 1 < n \<longrightarrow> (\<forall>k < unat n. a + of_nat k \<in> A) \<longrightarrow> IO_Read io (a OR 0x80) n e = (st, bytes, e') \<longrightarrow>
        (\<forall>x \<in> A. regs e' x = regs e x) \<and> (st = 0 \<longrightarrow> bytes = map (\<lambda>k. regs e (a + of_nat k)) [0..<unat n])) \<and>
     (\<forall>a bs e st e'. 1 < length bs \<longrightarrow> length bs < 256 \<longrightarrow> (\<forall>k < length bs. a + of_nat k \<in> A) \<longrightarrow> IO_Write io (a OR 0x80) bs e = (st, e') \<longrightarrow>
        (\<forall>x \<in> A. (\<forall>k < length bs. x \<noteq> a + of_nat k) \<longrightarrow> regs e' x = regs e x) \<and>
        (st = 0 \<longrightarrow> (\<forall>k < length bs. regs e' (a + of_nat k) = bs ! k)))"

lemma burst_bus_register_bus: "burst_bus io regs A \<Longrightarrow> register_bus io regs A"
  by (simp add: burst_bus_def)

lemma burst_read:
  assumes "burst_bus io regs A" "1 < n" "\<forall>k < unat n. a + of_nat k \<in> A" "HTS221_ReadReg io a n e = (HTS221_OK, bytes, e')"
  shows "bytes = map (\<lambda>k. regs e (a + of_nat k)) [0..<unat n]" "x \<in> A \<Longrightarrow> regs e' x = regs e x"
proof -
  obtain st where r: "IO_Read io (a OR 0x80) n e = (st, bytes, e')" "st = 0"
    using assms(2,4) by (auto simp: HTS221_ReadReg_def split: prod.splits if_splits)
  have "(\<forall>x \<in> A. regs e' x = regs e x) \<and> (st = 0 \<longrightarrow> bytes = map (\<lambda>k. regs e (a + of_nat k)) [0..<unat n])"
    using assms(1-3) r(1) unfolding burst_bus_def by blast
  then show "bytes = map (\<lambda>k. regs e (a + of_nat k)) [0..<unat n]" "x \<in> A \<Longrightarrow> regs e' x = regs e x"
    using r(2) by simp_all
qed

lemma burst_write:
  assumes "burst_bus io regs A" "1 < length bs" "length bs \<le> 3" "\<forall>k < length bs. a + of_nat k \<in> A"
    "HTS221_WriteReg io a (of_nat (length bs)) bs e = (HTS221_OK, e')"
  shows "k < length bs \<Longrightarrow> regs e' (a + of_nat k) = bs ! k"
    "x \<in> A \<Longrightarrow> \<forall>k < length bs. x \<noteq> a + of_nat k \<Longrightarrow> regs e' x = regs e x"
proof -
  have l: "unat (of_nat (length bs) :: u16) = length bs" "(1 :: u16) < of_nat (length bs)"
    "length bs < 256"
    using assms(2,3) by (auto simp: unat_of_nat word_less_nat_alt)
  obtain st where r: "IO_Write io (a OR 0x80) bs e = (st, e')" "st = 0"
    using assms(5) l by (auto simp: HTS221_WriteReg_def split: prod.splits if_splits)
  have "(\<forall>x \<in> A. (\<forall>k < length bs. x \<noteq> a + of_nat k) \<longrightarrow> regs e' x = regs e x) \<and>
      (st = 0 \<longrightarrow> (\<forall>k < length bs. regs e' (a + of_nat k) = bs ! k))"
    using assms(1,2,4) l(3) r(1) unfolding burst_bus_def by blast
  then show "k < length bs \<Longrightarrow> regs e' (a + of_nat k) = bs ! k"
    "x \<in> A \<Longrightarrow> \<forall>k < length bs. x \<noteq> a + of_nat k \<Longrightarrow> regs e' x = regs e x"
    using r(2) by simp_all
qed

lemma hts_update_regs:
  assumes "register_bus io regs A" "r \<in> A" "hts_update io r f e = (HTS221_OK, e')"
  shows "regs e' r = f (regs e r)" "x \<in> A \<Longrightarrow> x \<noteq> r \<Longrightarrow> regs e' x = regs e x"
proof -
  obtain s1 b e1 where r: "mems_ReadReg io r 1 e = (s1, b, e1)" using prod_cases3 by blast
  obtain s2 e2 where w: "mems_WriteReg io r [f (b ! 0)] e1 = (s2, e2)" by fastforce
  have s: "s1 = MEMS_SUCCESS" "s2 = MEMS_SUCCESS" "e2 = e'"
    using assms(3) by (cases s1; cases s2; simp add: hts_update_def hts_ReadReg_1 hts_WriteReg_1 r w)+
  note bus = register_bus_read [OF assms(1,2) r] register_bus_write [OF assms(1,2) w]
  show "regs e' r = f (regs e r)" using bus s by simp
  show "x \<in> A \<Longrightarrow> x \<noteq> r \<Longrightarrow> regs e' x = regs e x" using bus s by simp
qed

lemma hts_read_1:
  assumes "register_bus io regs A" "a \<in> A" "HTS221_ReadReg io a 1 e = (HTS221_OK, b, e')"
  shows "b ! 0 = regs e a" "x \<in> A \<Longrightarrow> regs e' x = regs e x"
proof -
  obtain s where r: "mems_ReadReg io a 1 e = (s, b, e')" "s = MEMS_SUCCESS"
    using assms(3) status_t.exhaust by (auto simp: hts_ReadReg_1 split: prod.splits if_splits)
  show "b ! 0 = regs e a" "x \<in> A \<Longrightarrow> regs e' x = regs e x"
    using register_bus_read [OF assms(1,2) r(1)] r(2) by simp_all
qed

subsection \<open>The configuration\<close>

text \<open>The bits of the values of each type.\<close>

lemma hts_bits:
  "v \<in> set HTS221_Avgh_et \<Longrightarrow> v AND 0x07 = v \<and> v AND 0x38 = 0"
  "v \<in> set HTS221_Avgt_et \<Longrightarrow> v AND 0x38 = v \<and> v AND 0x07 = 0"
  "v \<in> set HTS221_Odr_et \<Longrightarrow> v AND 0x03 = v \<and> v AND 0x04 = 0"
  "v \<in> set HTS221_OutputType_et \<Longrightarrow> v AND 0x40 = v \<and> v AND 0x04 = 0 \<and> v AND 0x80 = 0"
  by (auto simp: hts_types)

abbreviation hts_config_regs :: "u8 set" where
  "hts_config_regs \<equiv> {HTS221_AV_CONF_REG, HTS221_CTRL_REG1, HTS221_CTRL_REG2, HTS221_CTRL_REG3}"

lemma hts_config_regs_in:
  assumes "hts_config_regs \<subseteq> A"
  shows "HTS221_AV_CONF_REG \<in> A" "\<forall>k < 3. HTS221_CTRL_REG1 + of_nat k \<in> A"
  using assms by (simp_all add: numeral_3_eq_3 All_less_Suc)

lemma set_init_config_valid:
  assumes "HTS221_Set_InitConfig io cfg e = Some r"
  shows "avg_h cfg \<in> set HTS221_Avgh_et" "avg_t cfg \<in> set HTS221_Avgt_et" "odr cfg \<in> set HTS221_Odr_et"
    "bdu_status cfg \<in> {0, 1}" "heater_status cfg \<in> {0, 1}" "irq_level cfg \<in> {0, 0x80}"
    "irq_output_type cfg \<in> set HTS221_OutputType_et" "irq_enable cfg \<in> {0, 1}"
  using assms by (simp_all add: HTS221_Set_InitConfig_def HTS221_State_et_def HTS221_DrdyLevel_et_def split: if_splits)

lemma set_init_config:
  assumes "burst_bus io regs A" "hts_config_regs \<subseteq> A" "HTS221_Set_InitConfig io cfg e = Some (HTS221_OK, e')"
  shows "regs e' HTS221_AV_CONF_REG = regs e HTS221_AV_CONF_REG AND NOT (HTS221_AVGH_MASK OR HTS221_AVGT_MASK)
      OR avg_h cfg OR avg_t cfg"
    "regs e' HTS221_CTRL_REG1 = regs e HTS221_CTRL_REG1 AND NOT (HTS221_BDU_MASK OR HTS221_ODR_MASK) OR odr cfg
      OR push_bit HTS221_BDU_BIT (bdu_status cfg)"
    "regs e' HTS221_CTRL_REG2 = regs e HTS221_CTRL_REG2 AND NOT (of_nat HTS221_HEATHER_BIT)
      OR push_bit HTS221_HEATHER_BIT (heater_status cfg)"
    "regs e' HTS221_CTRL_REG3 = regs e HTS221_CTRL_REG3 AND NOT (HTS221_DRDY_H_L_MASK OR HTS221_PP_OD_MASK OR HTS221_DRDY_MASK)
      OR push_bit HTS221_DRDY_H_L_BIT (irq_level cfg) OR irq_output_type cfg OR push_bit HTS221_DRDY_BIT (irq_enable cfg)"
proof -
  note bus = burst_bus_register_bus [OF assms(1)] and A = hts_config_regs_in [OF assms(2)]
  define av where "av = (\<lambda>b. b AND NOT (HTS221_AVGH_MASK OR HTS221_AVGT_MASK) OR avg_h cfg OR avg_t cfg)"
  obtain s1 e1 where 1: "hts_update io HTS221_AV_CONF_REG av e = (s1, e1)" by fastforce
  obtain s2 buf e2 where 2: "HTS221_ReadReg io HTS221_CTRL_REG1 3 e1 = (s2, buf, e2)" using prod_cases3 by blast
  define bs where "bs = [buf ! 0 AND NOT (HTS221_BDU_MASK OR HTS221_ODR_MASK) OR odr cfg
       OR push_bit HTS221_BDU_BIT (bdu_status cfg),
     buf ! 1 AND NOT (of_nat HTS221_HEATHER_BIT) OR push_bit HTS221_HEATHER_BIT (heater_status cfg),
     buf ! 2 AND NOT (HTS221_DRDY_H_L_MASK OR HTS221_PP_OD_MASK OR HTS221_DRDY_MASK)
       OR push_bit HTS221_DRDY_H_L_BIT (irq_level cfg) OR irq_output_type cfg
       OR push_bit HTS221_DRDY_BIT (irq_enable cfg)]"
  have ok: "s1 = HTS221_OK" "s2 = HTS221_OK" and 3: "HTS221_WriteReg io HTS221_CTRL_REG1 (of_nat (length bs)) bs e2 = (HTS221_OK, e')"
    using assms(3) 1 2 unfolding av_def bs_def
    by (cases s1; cases s2; simp add: HTS221_Set_InitConfig_def Let_def split: if_splits)+
  note u = hts_update_regs [OF bus A(1) 1 [unfolded ok]]
  have n: "unat (3 :: u16) = 3" "length bs = 3" by (simp_all add: bs_def)
  have A3: "\<forall>k < unat (3 :: u16). HTS221_CTRL_REG1 + of_nat k \<in> A" "\<forall>k < length bs. HTS221_CTRL_REG1 + of_nat k \<in> A"
    using A(2) unfolding n by blast+
  note r = burst_read [OF assms(1) _ A3(1) 2 [unfolded ok]]
  note w = burst_write [OF assms(1) _ _ A3(2) 3]
  have in_A: "HTS221_CTRL_REG1 \<in> A" "HTS221_CTRL_REG2 \<in> A" "HTS221_CTRL_REG3 \<in> A" using assms(2) by simp_all
  have buf: "buf = [regs e HTS221_CTRL_REG1, regs e HTS221_CTRL_REG2, regs e HTS221_CTRL_REG3]"
    using r(1) u(2) in_A unfolding n by (simp add: upt_rec numeral_3_eq_3)
  have "regs e' HTS221_AV_CONF_REG = regs e2 HTS221_AV_CONF_REG"
    using w(2) [OF _ _ A(1)] n by (simp add: numeral_3_eq_3 All_less_Suc)
  then show "regs e' HTS221_AV_CONF_REG = regs e HTS221_AV_CONF_REG AND NOT (HTS221_AVGH_MASK OR HTS221_AVGT_MASK)
      OR avg_h cfg OR avg_t cfg" using r(2) [OF _ A(1)] u(1) by (simp add: av_def)
  show "regs e' HTS221_CTRL_REG1 = regs e HTS221_CTRL_REG1 AND NOT (HTS221_BDU_MASK OR HTS221_ODR_MASK) OR odr cfg
      OR push_bit HTS221_BDU_BIT (bdu_status cfg)" using w(1) [of 0] n by (simp add: bs_def buf)
  show "regs e' HTS221_CTRL_REG2 = regs e HTS221_CTRL_REG2 AND NOT (of_nat HTS221_HEATHER_BIT)
      OR push_bit HTS221_HEATHER_BIT (heater_status cfg)" using w(1) [of 1] n by (simp add: bs_def buf)
  show "regs e' HTS221_CTRL_REG3 = regs e HTS221_CTRL_REG3 AND NOT (HTS221_DRDY_H_L_MASK OR HTS221_PP_OD_MASK OR HTS221_DRDY_MASK)
      OR push_bit HTS221_DRDY_H_L_BIT (irq_level cfg) OR irq_output_type cfg OR push_bit HTS221_DRDY_BIT (irq_enable cfg)"
    using w(1) [of 2] n by (simp add: bs_def buf)
qed

lemma get_init_config:
  assumes "burst_bus io regs A" "hts_config_regs \<subseteq> A" "HTS221_Get_InitConfig io cfg0 e = (HTS221_OK, cfg, e')"
  shows "cfg = \<lparr>avg_h = regs e HTS221_AV_CONF_REG AND HTS221_AVGH_MASK, avg_t = regs e HTS221_AV_CONF_REG AND HTS221_AVGT_MASK,
    odr = regs e HTS221_CTRL_REG1 AND HTS221_ODR_MASK,
    bdu_status = drop_bit HTS221_BDU_BIT (regs e HTS221_CTRL_REG1 AND HTS221_BDU_MASK),
    heater_status = drop_bit HTS221_HEATHER_BIT (regs e HTS221_CTRL_REG2 AND HTS221_HEATHER_MASK),
    irq_level = regs e HTS221_CTRL_REG3 AND HTS221_DRDY_H_L_MASK,
    irq_output_type = regs e HTS221_CTRL_REG3 AND HTS221_PP_OD_MASK,
    irq_enable = drop_bit HTS221_DRDY_BIT (regs e HTS221_CTRL_REG3 AND HTS221_DRDY_MASK)\<rparr>"
proof -
  note bus = burst_bus_register_bus [OF assms(1)] and A = hts_config_regs_in [OF assms(2)]
  have n: "unat (3 :: u16) = 3" by simp
  have A3: "\<forall>k < unat (3 :: u16). HTS221_CTRL_REG1 + of_nat k \<in> A" using A(2) unfolding n by blast
  obtain s1 av e1 where 1: "HTS221_ReadReg io HTS221_AV_CONF_REG 1 e = (s1, av, e1)" using prod_cases3 by blast
  obtain s2 buf e2 where 2: "HTS221_ReadReg io HTS221_CTRL_REG1 3 e1 = (s2, buf, e2)" using prod_cases3 by blast
  have ok: "s1 = HTS221_OK" "s2 = HTS221_OK"
    using assms(3) by (cases s1; cases s2; simp add: HTS221_Get_InitConfig_def 1 2)+
  note r1 = hts_read_1 [OF bus A(1) 1 [unfolded ok]] and r2 = burst_read [OF assms(1) _ A3 2 [unfolded ok]]
  have in_A: "HTS221_CTRL_REG1 \<in> A" "HTS221_CTRL_REG2 \<in> A" "HTS221_CTRL_REG3 \<in> A" using assms(2) by simp_all
  have buf: "buf = [regs e HTS221_CTRL_REG1, regs e HTS221_CTRL_REG2, regs e HTS221_CTRL_REG3]"
    using r2(1) r1(2) in_A unfolding n by (simp add: upt_rec numeral_3_eq_3)
  show ?thesis
    using assms(3) by (cases cfg0) (simp add: HTS221_Get_InitConfig_def 1 2 ok buf r1(1))
qed

lemma two_mask: "b AND 0x02 = 0 \<or> b AND 0x02 = 0x02" for b :: u8
proof -
  have "b AND push_bit 1 1 = (if bit b 1 then push_bit 1 1 else 0)"
    by (rule bit_word_eqI) (auto simp: bit_simps)
  then show ?thesis by auto
qed

text \<open>A device that transfers several registers: a register file that leaves bit 7 of the address out.\<close>

definition burst_file :: "(u8 \<Rightarrow> u8) sensor_io" where
  "burst_file =
     \<lparr>IO_Read = (\<lambda>a n e. (0, map (\<lambda>k. e ((a AND 0x7F) + of_nat k)) [0..<unat n], e)),
      IO_Write = (\<lambda>a bs e. (0, fold (\<lambda>k e. e((a AND 0x7F) + of_nat k := bs ! k)) [0..<length bs] e))\<rparr>"

lemma fold_writes:
  "n \<le> 256 \<Longrightarrow> fold (\<lambda>k e. e(b + of_nat k := bs ! k)) [0..<n] e = (\<lambda>x :: u8. if unat (x - b) < n then bs ! unat (x - b) else e x)"
proof (induction n)
  case 0
  then show ?case by simp
next
  case (Suc n)
  have n: "unat (of_nat n :: u8) = n" using Suc.prems by (simp add: unat_of_nat)
  have "x = b + of_nat n \<longleftrightarrow> unat (x - b) = n" for x :: u8
  proof
    assume "unat (x - b) = n"
    then have "x - b = of_nat n" by (metis of_nat_unat ucast_id)
    then show "x = b + of_nat n" by (metis add.commute diff_add_cancel)
  qed (use n in simp)
  then show ?case using Suc by (auto simp: fun_eq_iff less_Suc_eq)
qed

lemma burst_file_bus:
  assumes "\<forall>a \<in> A. a AND 0x7F = a"
  shows "burst_bus burst_file (\<lambda>e. e) A"
proof -
  have low: "(a OR 0x80) AND 0x7F = a AND 0x7F" for a :: u8 by (simp add: word_ao_dist)
  have a: "(a OR 0x80) AND 0x7F = a" if "\<forall>k < n. a + of_nat k \<in> A" "1 < n" for a n
  proof -
    have "0 < n" using that(2) by simp
    then have "a + of_nat 0 \<in> A" using that(1) by blast
    then show ?thesis using assms low by simp
  qed
  have "register_bus burst_file (\<lambda>e. e) A"
    using assms by (auto simp: register_bus_def burst_file_def)
  moreover have "(\<forall>x \<in> A. e' x = e x) \<and> (st = 0 \<longrightarrow> bytes = map (\<lambda>k. e (a + of_nat k)) [0..<unat n])"
    if "1 < n" "\<forall>k < unat n. a + of_nat k \<in> A" "IO_Read burst_file (a OR 0x80) n e = (st, bytes, e')"
    for a n e st bytes e'
    using that a [of "unat n" a] by (auto simp: burst_file_def word_less_nat_alt)
  moreover have "(\<forall>x \<in> A. (\<forall>k < length bs. x \<noteq> a + of_nat k) \<longrightarrow> e' x = e x) \<and>
      (st = 0 \<longrightarrow> (\<forall>k < length bs. e' (a + of_nat k) = bs ! k))"
    if "1 < length bs" "length bs < 256" "\<forall>k < length bs. a + of_nat k \<in> A" "IO_Write burst_file (a OR 0x80) bs e = (st, e')"
    for a bs e st e'
  proof -
    have "e' = (\<lambda>x. if unat (x - a) < length bs then bs ! unat (x - a) else e x)"
      using that a [of "length bs" a] fold_writes [of "length bs" a bs e] by (simp add: burst_file_def)
    moreover have "x = a + of_nat (unat (x - a))" for x by simp
    moreover have "unat (a + of_nat k - a) = k" if "k < length bs" for k
      using that \<open>length bs < 256\<close> by (simp add: unat_of_nat)
    ultimately show ?thesis by auto
  qed
  ultimately show ?thesis unfolding burst_bus_def by blast
qed

subsection \<open>Properties\<close>

text \<open>
  If the driver has written a configuration and reads it back, then the averages, the data rate, the block
  data update, the kind of output and the enabling of the interrupt are those written. The heater
  is on also if it was on before, whatever the configuration says, and the level of the interrupt is
  always high: the code clears the wrong bit of one, and shifts the other out of the byte.
\<close>

lemma hts221_init_config_roundtrip:
  assumes "burst_bus io regs A" "{HTS221_AV_CONF_REG, HTS221_CTRL_REG1, HTS221_CTRL_REG2, HTS221_CTRL_REG3} \<subseteq> A"
    and "HTS221_Set_InitConfig io cfg e = Some (HTS221_OK, e')"
    and "HTS221_Get_InitConfig io cfg0 e' = (HTS221_OK, cfg', e'')"
  shows "cfg' = cfg\<lparr>heater_status := (if regs e HTS221_CTRL_REG2 AND HTS221_HEATHER_MASK = 0 then heater_status cfg
      else HTS221_ENABLE), irq_level := HTS221_HIGH_LVL\<rparr>"
proof -
  note set = set_init_config [OF assms(1-3)] and "get" = get_init_config [OF assms(1,2,4)]
  note valid = set_init_config_valid [OF assms(3)]
  have bits: "(b AND NOT (HTS221_AVGH_MASK OR HTS221_AVGT_MASK) OR avg_h cfg OR avg_t cfg) AND HTS221_AVGH_MASK = avg_h cfg"
    "(b AND NOT (HTS221_AVGH_MASK OR HTS221_AVGT_MASK) OR avg_h cfg OR avg_t cfg) AND HTS221_AVGT_MASK = avg_t cfg"
    "(b AND NOT (HTS221_BDU_MASK OR HTS221_ODR_MASK) OR odr cfg OR push_bit 2 (bdu_status cfg)) AND HTS221_ODR_MASK = odr cfg"
    "drop_bit 2 ((b AND NOT (HTS221_BDU_MASK OR HTS221_ODR_MASK) OR odr cfg OR push_bit 2 (bdu_status cfg)) AND HTS221_BDU_MASK) =
     bdu_status cfg" for b
    using hts_bits valid by (auto simp: word_ao_dist and.assoc)
  have bits2: "drop_bit 1 ((b AND NOT (of_nat 1) OR push_bit 1 (heater_status cfg)) AND HTS221_HEATHER_MASK) =
      (if b AND HTS221_HEATHER_MASK = 0 then heater_status cfg else HTS221_ENABLE)" for b
    using valid(5) two_mask [of b] by (auto simp: word_ao_dist and.assoc simp del: drop_bit_and)
  have bits3: "(b AND NOT (HTS221_DRDY_H_L_MASK OR HTS221_PP_OD_MASK OR HTS221_DRDY_MASK)
      OR push_bit 7 (irq_level cfg) OR irq_output_type cfg OR push_bit 2 (irq_enable cfg)) AND HTS221_DRDY_H_L_MASK = 0"
    "(b AND NOT (HTS221_DRDY_H_L_MASK OR HTS221_PP_OD_MASK OR HTS221_DRDY_MASK)
      OR push_bit 7 (irq_level cfg) OR irq_output_type cfg OR push_bit 2 (irq_enable cfg)) AND HTS221_PP_OD_MASK = irq_output_type cfg"
    "drop_bit 2 ((b AND NOT (HTS221_DRDY_H_L_MASK OR HTS221_PP_OD_MASK OR HTS221_DRDY_MASK)
      OR push_bit 7 (irq_level cfg) OR irq_output_type cfg OR push_bit 2 (irq_enable cfg)) AND HTS221_DRDY_MASK) = irq_enable cfg" for b
    using hts_bits(4) valid(6-8) by (auto simp: word_ao_dist and.assoc)
  show ?thesis
    unfolding "get" set bits bits2 bits3 by (cases cfg) simp
qed

lemma hts221_init_config_roundtrip_witness:
  "let cfg = \<lparr>avg_h = 0x03, avg_t = 0x18, odr = 0x01, bdu_status = 1, heater_status = 0,
       irq_level = HTS221_LOW_LVL, irq_output_type = 0x40, irq_enable = 1\<rparr>
   in \<exists>e' e''. HTS221_Set_InitConfig burst_file cfg (\<lambda>a. 0x82) = Some (HTS221_OK, e') \<and>
     HTS221_Get_InitConfig burst_file cfg e' =
       (HTS221_OK, cfg\<lparr>heater_status := HTS221_ENABLE, irq_level := HTS221_HIGH_LVL\<rparr>, e'')"
proof -
  let ?cfg = "\<lparr>avg_h = 0x03, avg_t = 0x18, odr = 0x01, bdu_status = 1, heater_status = 0,
       irq_level = HTS221_LOW_LVL, irq_output_type = 0x40, irq_enable = 1\<rparr>"
  let ?io = burst_file
  obtain e' where s: "HTS221_Set_InitConfig ?io ?cfg (\<lambda>a. 0x82) = Some (HTS221_OK, e')"
    by (simp add: HTS221_Set_InitConfig_def hts_types hts_update_def HTS221_ReadReg_def HTS221_WriteReg_def burst_file_def)
  obtain c e'' where g: "HTS221_Get_InitConfig ?io ?cfg e' = (HTS221_OK, c, e'')"
    by (simp add: HTS221_Get_InitConfig_def HTS221_ReadReg_def burst_file_def)
  have b: "burst_bus ?io (\<lambda>e. e) hts_config_regs" by (rule burst_file_bus) simp
  show ?thesis
    using s g hts221_init_config_roundtrip [OF b subset_refl s g] by (simp add: Let_def)
qed

text \<open>
  A setter of the HTS221 that accepts its parameter changes no other register and no other bit,
  whether or not the transfers succeed; after one that has succeeded the getter returns the value, and
  the getters of the other settings return what they would have returned before.
\<close>

theorem hts221_fields_spec:
  assumes "register_bus io regs A" "i < length (hts221_fields io)" "f = hts221_fields io ! i" "f_reg f \<in> A"
    and "f_values f v" "f_write f v e = (st, e')"
  shows "(\<forall>x \<in> A. x \<noteq> f_reg f \<longrightarrow> regs e' x = regs e x) \<and>
    regs e' (f_reg f) AND NOT (f_mask f) = regs e (f_reg f) AND NOT (f_mask f) \<and>
    (st = MEMS_SUCCESS \<longrightarrow> (\<forall>w e''. f_read f e' = (MEMS_SUCCESS, w, e'') \<longrightarrow> w = v)) \<and>
    (\<forall>j < length (hts221_fields io). \<forall>g w w' e1 e2. j \<noteq> i \<longrightarrow> g = hts221_fields io ! j \<longrightarrow> f_reg g \<in> A \<longrightarrow>
       f_read g e = (MEMS_SUCCESS, w, e1) \<longrightarrow> f_read g e' = (MEMS_SUCCESS, w', e2) \<longrightarrow> w' = w)"
  by (rule hts_table.spec_independent [OF assms])

theorem hts221_fields_spec_witness:
  "\<exists>e'. HTS221_Set_Odr register_file 0x02 (\<lambda>a. 0x85) = Some (HTS221_OK, e') \<and>
     e' HTS221_CTRL_REG2 = 0x85 \<and> fst (snd (HTS221_Get_Odr register_file e')) = Some 0x02"
proof -
  let ?io = register_file
  let ?f = "hts221_fields ?io ! 4"
  have f: "?f = hts_field (HTS221_Set_Odr ?io) (HTS221_Get_Odr ?io) HTS221_CTRL_REG1 HTS221_ODR_MASK 0 HTS221_Odr_et"
    and l: "4 < length (hts221_fields ?io)"
    by (simp_all add: hts221_fields_def)
  have w: "f_write ?f 0x02 (\<lambda>a. 0x85) = (MEMS_SUCCESS, (\<lambda>a. 0x85)(HTS221_CTRL_REG1 := 0x86))" (is "_ = (_, ?e)")
    unfolding f by (simp add: hts_field_def hts_setter_def HTS221_Set_Odr_def HTS221_Odr_et_def hts_update_def
        HTS221_ReadReg_def HTS221_WriteReg_def register_file_def)
  obtain v where r: "HTS221_Get_Odr ?io ?e = (HTS221_OK, Some v, ?e)"
    by (simp add: HTS221_Get_Odr_def hts_fetch_def HTS221_ReadReg_def register_file_def)
  have "v = 0x02"
    using hts221_fields_spec [OF register_file_bus l refl _ _ w, of UNIV] r
    unfolding f by (simp add: hts_field_def hts_getter_def HTS221_Odr_et_def)
  then show ?thesis
    using r by (intro exI [of _ ?e]) (simp add: HTS221_Set_Odr_def HTS221_Odr_et_def hts_update_def
        HTS221_ReadReg_def HTS221_WriteReg_def register_file_def)
qed

lemma mask_bits: "b AND push_bit k 1 = 0 \<or> b AND push_bit k 1 = push_bit k 1" for b :: u8
proof -
  have "b AND push_bit k 1 = (if bit b k then push_bit k 1 else 0)"
    by (rule bit_word_eqI) (auto simp: bit_simps)
  then show ?thesis by auto
qed

lemma mask_3bits: "b AND (push_bit i 1 OR push_bit j 1 OR push_bit k 1) \<in>
    {0, push_bit i 1, push_bit j 1, push_bit k 1, push_bit i 1 OR push_bit j 1, push_bit i 1 OR push_bit k 1,
     push_bit j 1 OR push_bit k 1, push_bit i 1 OR push_bit j 1 OR push_bit k 1}" for b :: u8
proof -
  have "b AND (x OR y OR z) = (b AND x) OR (b AND y) OR (b AND z)" for x y z
    by (rule bit_word_eqI) (auto simp: bit_simps)
  note this [of "push_bit i 1" "push_bit j 1" "push_bit k 1"]
  moreover note mask_bits [of b i] mask_bits [of b j] mask_bits [of b k]
  ultimately show ?thesis by (elim disjE) (simp_all only: or.left_neutral or.right_neutral insert_iff simp_thms)
qed

text \<open>
  C34. Whatever the registers hold, a configuration that the driver reads consists of values of the
  enumeration types of its fields, so that it can be handed to the function that writes it, whose
  checks of parameters would block the caller otherwise.
\<close>

theorem hts221_config_typed:
  assumes "HTS221_Get_InitConfig io cfg0 e = (HTS221_OK, cfg, e')"
  shows "avg_h cfg \<in> set HTS221_Avgh_et \<and> avg_t cfg \<in> set HTS221_Avgt_et \<and> odr cfg \<in> set HTS221_Odr_et \<and>
    bdu_status cfg \<in> set HTS221_State_et \<and> heater_status cfg \<in> set HTS221_State_et \<and>
    irq_level cfg \<in> set HTS221_DrdyLevel_et \<and> irq_output_type cfg \<in> set HTS221_OutputType_et \<and>
    irq_enable cfg \<in> set HTS221_State_et \<and> HTS221_Set_InitConfig io cfg e' \<noteq> None"
proof -
  obtain s1 av e1 where 1: "HTS221_ReadReg io HTS221_AV_CONF_REG 1 e = (s1, av, e1)" using prod_cases3 by blast
  obtain s2 b e2 where 2: "HTS221_ReadReg io HTS221_CTRL_REG1 3 e1 = (s2, b, e2)" using prod_cases3 by blast
  have ok: "s1 = HTS221_OK" "s2 = HTS221_OK"
    using assms by (cases s1; cases s2; simp add: HTS221_Get_InitConfig_def 1 2)+
  have c: "cfg = \<lparr>avg_h = av ! 0 AND HTS221_AVGH_MASK, avg_t = av ! 0 AND HTS221_AVGT_MASK,
      odr = b ! 0 AND HTS221_ODR_MASK, bdu_status = drop_bit HTS221_BDU_BIT (b ! 0 AND HTS221_BDU_MASK),
      heater_status = drop_bit HTS221_HEATHER_BIT (b ! 1 AND HTS221_HEATHER_MASK),
      irq_level = b ! 2 AND HTS221_DRDY_H_L_MASK, irq_output_type = b ! 2 AND HTS221_PP_OD_MASK,
      irq_enable = drop_bit HTS221_DRDY_BIT (b ! 2 AND HTS221_DRDY_MASK)\<rparr>"
    using assms by (cases cfg0) (auto simp: HTS221_Get_InitConfig_def 1 2 ok simp del: drop_bit_and)
  have "x AND 0x07 \<in> set HTS221_Avgh_et" "x AND 0x38 \<in> set HTS221_Avgt_et" "x AND 0x03 \<in> set HTS221_Odr_et" for x
    using mask_3bits [of x 0 1 2] mask_3bits [of x 3 4 5] mask_3bits [of x 0 0 1] by (auto simp: hts_types)
  moreover have "drop_bit 2 (x AND 0x04) \<in> set HTS221_State_et" "drop_bit 1 (x AND 0x02) \<in> set HTS221_State_et"
    "x AND 0x80 \<in> set HTS221_DrdyLevel_et" "x AND 0x40 \<in> set HTS221_OutputType_et" for x
    using mask_bits [of x 2] mask_bits [of x 1] mask_bits [of x 7] mask_bits [of x 6]
    by (auto simp: hts_types simp del: drop_bit_and)
  ultimately show ?thesis
    unfolding c by (simp add: HTS221_Set_InitConfig_def del: drop_bit_and)
qed

theorem hts221_config_typed_witness:
  "let c0 = \<lparr>avg_h = 0, avg_t = 0, odr = 0, bdu_status = 0, heater_status = 0, irq_level = 0, irq_output_type = 0, irq_enable = 0\<rparr>
   in \<exists>c e'. HTS221_Get_InitConfig burst_file c0 (\<lambda>a. 0xFF) = (HTS221_OK, c, e') \<and>
     avg_t c \<in> set HTS221_Avgt_et \<and> HTS221_Set_InitConfig burst_file c e' \<noteq> None"
proof -
  let ?c0 = "\<lparr>avg_h = 0, avg_t = 0, odr = 0, bdu_status = 0, heater_status = 0, irq_level = 0, irq_output_type = 0, irq_enable = 0\<rparr>"
  obtain c e' where g: "HTS221_Get_InitConfig burst_file ?c0 (\<lambda>a. 0xFF) = (HTS221_OK, c, e')"
    by (simp add: HTS221_Get_InitConfig_def HTS221_ReadReg_def burst_file_def)
  from g hts221_config_typed [OF g] show ?thesis by (simp add: Let_def)
qed

end
