(* ===== verification/Spec2Isabelle.thy ===== *)
theory Spec2Isabelle
  imports AppFifo AppScheduler NdefRecord NdefMsg NdefParser NdefPayloads AdvData NfcPair T2tParser
    MappedFlags ConnState TimerThms FstorageThms PstorageSpec ConnParamsThms AdvertisingThms
    DmWhitelist DmFaults UartBlocking AppUartSpec UartFaults ByteUart Lsm6ds3Thms Lis3mdl Hts221Thms
begin

text \<open>
  A verification development for the C components of the Arduino Primo core
  (\<^verbatim>\<open>cores/arduino/components\<close>): the parts of the Nordic SDK that build and parse NFC messages, encode
  advertising data, track connections and move events and bytes between interrupts and the main loop; and
  for the C drivers of the board's sensors (\<^verbatim>\<open>libraries/CoreSensors\<close>).

  \<^bold>\<open>Parts and theories.\<close>

  \<^item> \<open>Prelude\<close>: word types, return codes (\<^verbatim>\<open>nrf_error.h\<close>), one flat byte memory with pointers as
    addresses, \<^verbatim>\<open>memcpy\<close>, the frame predicate \<open>same_outside\<close> and lemmas on words.
  \<^item> \<open>AppUtil\<close>: the byte-order codecs of \<^verbatim>\<open>libraries/util/app_util.h\<close>.
  \<^item> \<open>QueueSpec\<close>: the locale \<open>bounded_queue\<close>, interpreted by the byte FIFO (\<open>AppFifo\<close>,
    \<^verbatim>\<open>libraries/fifo/app_fifo.c\<close>) and by the event queue (\<open>AppScheduler\<close>,
    \<^verbatim>\<open>libraries/scheduler/app_scheduler.c\<close>); \<open>AppScheduler\<close> also has the main loop over event handlers
    of the application.
  \<^item> \<open>NdefRecord\<close>, \<open>NdefMsg\<close> (\<^verbatim>\<open>nfc/ndef/generic\<close>): the encoders. A record descriptor holds a payload
    constructor, a C function pointer, here a function; the locale \<open>payload_contract\<close> says what the
    record encoder relies on (it writes inside its buffer only and reports no more than its size), and
    the constructors of the code are interpretations of it. The predicate \<open>emits\<close> adds which bytes a
    constructor produces, \<open>record_denotes\<close> which value a record stands for.
  \<^item> \<open>NdefParser\<close> (\<^verbatim>\<open>nfc/ndef/parser\<close>): record and message parsers and the layout of the result buffer.
  \<^item> \<open>NdefPayloads\<close> (\<^verbatim>\<open>nfc/ndef/uri\<close>, \<^verbatim>\<open>text\<close>, \<^verbatim>\<open>launchapp\<close>, \<^verbatim>\<open>connection_handover/ac_rec\<close>,
    \<^verbatim>\<open>hs_rec\<close>): the payload constructors and the URI and launch-application messages.
  \<^item> \<open>AdvData\<close> (\<^verbatim>\<open>ble/common/ble_advdata.c\<close>): the advertising data encoder. The SoftDevice functions
    it calls are closed-source code in a binary: the record \<open>softdevice\<close> is a parameter, \<open>sd_laws\<close> its
    documented behaviour, \<open>sd_example\<close> an instance of it. The locale \<open>ad_field\<close> is the contract of one
    field encoder.
  \<^item> \<open>NfcPair\<close> (\<^verbatim>\<open>connection_handover/le_oob_rec\<close>, \<^verbatim>\<open>ep_oob_rec\<close>, \<^verbatim>\<open>nfc_ble_pair_msg.c\<close>): Bluetooth
    pairing messages, which put advertising data into records and records into records.
  \<^item> \<open>T2tParser\<close> (\<^verbatim>\<open>nfc/t2t_parser\<close>): the Type 2 Tag parser.
  \<^item> \<open>MappedFlags\<close> (\<^verbatim>\<open>libraries/util/sdk_mapped_flags.c\<close>) with the locale \<open>keyed_flags\<close>, and its client
    \<open>ConnState\<close> (\<^verbatim>\<open>ble/common/ble_conn_state.c\<close>).
  \<^item> \<open>TimerList\<close>, \<open>AppTimer\<close>: the application timer \<^verbatim>\<open>libraries/timer/app_timer.c\<close>. \<open>TimerList\<close> has its
    data and the linked list of timers, each node with the ticks since the one before it; \<open>AppTimer\<close> the
    counter, the operation queues, both interrupt handlers and the interface. \<open>TimerRefine\<close> relates the
    linked list to a list of timers with their expiry times (\<open>timers_rep\<close>), states the invariant
    (\<open>timer_inv\<close>) and takes each part of the list handler to its specification; \<open>TimerProps\<close> composes
    them (\<open>handler_abs\<close>), with timeouts and runs; \<open>TimerThms\<close> has the properties.
  \<^item> \<open>Fstorage\<close> (\<^verbatim>\<open>libraries/fstorage\<close>): the flash storage module, with the SoftDevice's commands and the
    clients' callbacks as the parameter \<open>fs_env\<close>. \<open>FstorageInv\<close> reads its ring of requests as a list and
    takes an invariant through the calls, the system events and calls from callbacks
    (\<open>fs_step\<close>); \<open>FstorageThms\<close> has the properties.
  \<^item> \<open>Pstorage\<close> (\<^verbatim>\<open>drivers_nrf/pstorage\<close>): the older flash storage, with the SoftDevice's commands and the modules'
    callbacks as the parameter \<open>ps_env\<close>. \<open>PstorageExec\<close> adds a flash that executes the commands and takes the swap
    sub state machine from one success event to the next (\<open>in_swap\<close>), \<open>PstorageThms\<close> composes the steps of a command
    (\<open>command_erases\<close>, \<open>command_ends\<close>), \<open>PstorageLayout\<close> has the registration, \<open>PstorageSpec\<close> the properties.
    \<open>PstorageQueue\<close> reads its ring as a list (\<open>ps_queue\<close>), for clients that queue several commands.
  \<^item> \<open>DeviceManager\<close> (\<^verbatim>\<open>ble/device_manager/device_manager_peripheral.c\<close>): bonds and security, a client of \<open>Pstorage\<close>, which
    reads and writes its tables in memory and calls its callback (\<open>dm_ps_env\<close>); SoftDevice, application and addresses are
    the parameter \<open>dm_env\<close>. \<open>DmStorage\<close> has its blocks and the initialisation, \<open>DmBond\<close> the callback and the connection of a
    known device, \<open>DmPairing\<close> what a pairing stores, \<open>DmReset\<close> puts them together across a reset, \<open>DmWhitelist\<close> has
    the whitelist, \<open>DmFaults\<close> the situations it handles wrongly.
  \<^item> \<open>ConnParams\<close>, \<open>ConnParamsThms\<close> (\<^verbatim>\<open>ble/common/ble_conn_params.c\<close>): the negotiation of connection parameters
    on the application timer; \<open>cp_spec\<close> says which outputs an event or an expiry of the timer makes.
  \<^item> \<open>Advertising\<close>, \<open>AdvertisingThms\<close> (\<^verbatim>\<open>ble/ble_advertising/ble_advertising.c\<close>): the advertising modes, on the
    advertising data encoder and both flash storages. Event handlers of the application may call back
    (\<open>replied\<close>); \<open>adv_outcome\<close> is the outcome of a start.
  \<^item> \<open>NrfHal\<close> (\<^verbatim>\<open>drivers_nrf/hal\<close>): the registers of UART, UARTE, pins and interrupt controller; the accesses so far
    are a list, and what a read returns is a parameter that depends on it (\<open>device\<close>). \<open>Uart\<close>
    (\<^verbatim>\<open>drivers_nrf/uart/nrf_drv_uart.c\<close>) is the driver, \<open>UartSeen\<close> says what the registers have seen of it, \<open>UartBlocking\<close>
    has its waiting mode. \<open>AppUart\<close> (\<^verbatim>\<open>libraries/uart/app_uart_fifo.c\<close>) is its client with the FIFOs of \<open>AppFifo\<close>,
    \<open>AppUartThms\<close> the invariant of its runs, \<open>AppUartSpec\<close> the properties, \<open>UartFaults\<close> what it does wrongly;
    \<open>ByteUart\<close> (\<^verbatim>\<open>app_uart.c\<close>) is the client without FIFOs.
  \<^item> \<open>SensorBus\<close>: registers of a device on a bus, whose transfers are the parameter \<open>sensor_io\<close>, and fields
    of bits in them; the locale \<open>field_table\<close> says what a driver promises of the table of its fields.
    \<open>Lsm6ds3\<close>, \<open>Lsm6ds3Thms\<close> (\<^verbatim>\<open>LSM6DS3_ACC_GYRO_driver.c\<close>), \<open>Lis3mdl\<close> (\<^verbatim>\<open>LIS3MDL_MAG_driver.c\<close>) and
    \<open>Hts221\<close>, \<open>Hts221Thms\<close> (\<^verbatim>\<open>HTS221_Driver.c\<close>) are the drivers, each an interpretation of it.

  \<^bold>\<open>State and operations.\<close> A C structure is a record with the structure's fields, a static variable
  a field of the component's record, an out parameter a component of the result; a function that
  changes memory takes and returns it. Integers keep their width (\<open>u8\<close>, \<open>u16\<close>, \<open>u32\<close>); where C
  promotes to \<^verbatim>\<open>int\<close> and no overflow is possible the sums are naturals. Failures are the return codes
  of the code. Copy loops are recursive on the number of iterations that are left; the loop of
  \<open>T2tParser\<close>, the main loop of \<open>AppScheduler\<close> and the walks along the links of the application timer
  may in principle run forever and are partial functions into \<open>option\<close>, of which the first is shown to
  return for every input, the second under a condition on the handlers, and the last in every state of
  the timer's invariant. The waiting loops of the UART driver return when the peripheral gets ready.

  \<^bold>\<open>What is shown.\<close>

  \<^item> Queues: nothing is lost, duplicated or reordered, with wrap-around of the
    positions; bulk reads and writes; the main loop handles every event once, in order, and returns
    if the handlers post less than they consume; a handler that posts itself again makes it run
    forever.
  \<^item> Encoders: for every outcome nothing is written outside the
    buffer, and success means that the buffer holds exactly the byte format of the described record,
    message or advertising data, whose length is reported; \<open>service_data_overflow\<close> and \<open>short_name_stale_bytes\<close> are inputs for which the
    advertising data encoder breaks this.
  \<^item> Parsers: round trips with the encoders' byte formats, results that depend on
    the input buffer only, bounds of what is returned, and the input that defeats the size check of
    the record parser.
  \<^item> Connection state: refinement of a finite map from handles to connections, for every
    run; the queries; and the user flag that survives into the next connection.
  \<^item> Application timer: the list handler refines its specification on lists of timers with expiry times;
    timeout handlers run once, in order; every run keeps the invariant; periodic timers do not drift;
    the compare event is not missed; and three situations in which timers run on, hang or never expire.
  \<^item> Flash storage: a request executes exactly its commands and ends with one event; commands stay in
    the areas of the clients in every run that keeps the ring from wrapping; a wrapped ring loses a
    request and erases pages of others; pages are assigned to two clients only.
  \<^item> Older flash storage: a store, clear or update ends after finitely many flash operations with one callback; the
    area holds what it should, and what shares pages with it survives the erasures by way of the swap page;
    registered modules do not overlap; the update of a block over two pages that erases the wrong page.
  \<^item> Device manager: the bond of a successful pairing is in flash after two flash operations, and after a reset the connection
    of that device finds it; the whitelist lists the bonded devices that are not connected; a failed pairing that
    cannot be repeated, and connections that are bonded with no device.
  \<^item> Connection parameters: one request per expiry of the timer, up to the configured number, then the failure;
    in every run requests go to the link that is up.
  \<^item> Advertising: which mode a start chooses, what it asks the application and hands to the SoftDevice; starts
    wait for the flash and are made once; timeouts lead to the idle event.
  \<^item> UART: no byte is lost, repeated or reordered between the application and the transmit register, for any interleaving
    with interrupts and any peripheral; received bytes come in order, and a loss is reported; the call without a
    handler returns and sends its buffer; a byte that is there and refused, and events that come too early.
  \<^item> Sensors: on a device whose registers hold what is written to them (\<open>register_bus\<close>) every write accessor of
    the three drivers changes its field only, is read back, and leaves the other fields; the
    measurements of the LSM6DS3 with their rounding; values in two registers; when the wait for the sensor
    hub returns; configurations of the HTS221, written and read.
  \<^item> \<open>app_sched_init_wraps\<close>: initialisations of the scheduler whose sizes do not fit its integer types.

  \<^bold>\<open>Not modelled.\<close> The other register-level drivers and the SoftDevice (closed source, a
  parameter where it is called); trace output; the raw mode of \<^verbatim>\<open>pstorage\<close>, which no build enables; the
  DFU state machines; the two functions of \<^verbatim>\<open>HTS221_Driver.c\<close>
  that compute in floating point; the generated device headers, CMSIS, and the C++ Arduino API on top of these components. Concurrency: the operations are
  atomic steps, as the critical regions of the code make them; the interleavings considered are
  those of whole operations, and for the UART also interrupts between the two halves of \<^verbatim>\<open>app_uart_put\<close>.
\<close>

end
